(* ===== verification/Prelude.thy ===== *)
theory Prelude
  imports Main "HOL-Library.AList" "HOL-Library.Char_ord" "HOL-Library.List_Lexorder"
    "HOL-Library.Multiset" "HOL-Library.Sublist" "HOL-Library.Word"
begin

text \<open>
  What every theory of the development shares: the representation of Go errors, Go maps and
  Go integers, and the lemmas about them.

  \<^item> A Go function that returns \<open>(T, error)\<close> returns \<open>'e + 'a\<close>: \<open>Inl\<close> the error,
    \<open>Inr\<close> the value. One that returns only an \<open>error\<close> returns \<open>'e option\<close>; \<open>None\<close>
    is \<open>nil\<close>. A chain of guarded early returns is \<open>first_error\<close> of the guards in the order
    of the code.
  \<^item> A Go map is an association list: the position of an entry stands for the place at which
    a \<open>range\<close> over the map visits it, which Go leaves open. \<open>AList.update\<close> and
    \<open>AList.delete\<close> are assignment and \<open>delete\<close>; \<open>map_of\<close> is the lookup.
  \<^item> A Go \<open>int64\<close>, \<open>int\<close> (64 bit) or \<open>time.Duration\<close> is an \<open>int\<close>; every
    arithmetic operation of the code that can leave the range is wrapped by \<open>wrap64\<close>.
\<close>

named_theorems record_simps \<open>frame facts: fields an operation leaves alone\<close>
named_theorems invariant_intros \<open>preservation of the components' invariants\<close>

section \<open>Errors\<close>

definition check :: "bool \<Rightarrow> 'e \<Rightarrow> 'e option" where
  "check bad e = (if bad then Some e else None)"

fun first_error :: "'e option list \<Rightarrow> 'e option" where
  "first_error [] = None"
| "first_error (Some e # _) = Some e"
| "first_error (None # es) = first_error es"

lemma check_eq_None [simp]: "check bad e = None \<longleftrightarrow> \<not> bad"
  by (simp add: check_def)

lemma check_eq_Some [simp]: "check bad e = Some e' \<longleftrightarrow> bad \<and> e' = e"
  by (auto simp: check_def)

lemma first_error_None: "first_error es = None \<longleftrightarrow> (\<forall>e \<in> set es. e = None)"
  by (induction es rule: first_error.induct) auto

lemma first_error_Cons [simp]:
  "first_error (e # es) = None \<longleftrightarrow> e = None \<and> first_error es = None"
  by (cases e) auto

lemma first_error_append:
  "first_error (xs @ ys) = (case first_error xs of Some e \<Rightarrow> Some e | None \<Rightarrow> first_error ys)"
  by (induction xs rule: first_error.induct) auto

lemma first_error_Some_mem: "first_error es = Some e \<Longrightarrow> Some e \<in> set es"
  by (induction es rule: first_error.induct) auto

lemma ex_le_Suc_iff: "(\<exists>k \<le> Suc n. P k) \<longleftrightarrow> P 0 \<or> (\<exists>k \<le> n. P (Suc k))"
  by (simp add: Ex_less_Suc2 flip: less_Suc_eq_le)

section \<open>Maps as association lists\<close>

abbreviation distinct_keys :: "('k \<times> 'v) list \<Rightarrow> bool" where
  "distinct_keys m \<equiv> distinct (map fst m)"

declare map_of_eq_Some_iff [simp del] Some_eq_map_of_iff [simp del]

lemma map_of_update [simp]: "map_of (AList.update k v m) = (map_of m)(k \<mapsto> v)"
  by (simp add: update_conv')

lemma map_of_delete [simp]: "map_of (AList.delete k m) = (map_of m)(k := None)"
  by (simp add: delete_conv')

lemma distinct_keys_update [simp, intro]:
  "distinct_keys m \<Longrightarrow> distinct_keys (AList.update k v m)"
  by (rule distinct_update)

lemma distinct_keys_delete [simp, intro]:
  "distinct_keys m \<Longrightarrow> distinct_keys (AList.delete k m)"
  by (rule distinct_delete)

lemma distinct_keys_mem_iff:
  "distinct_keys m \<Longrightarrow> (k, v) \<in> set m \<longleftrightarrow> map_of m k = Some v"
  by (simp add: map_of_eq_Some_iff)

lemma map_of_eq_imp_set_eq:
  assumes "distinct_keys m" "distinct_keys m'" "map_of m = map_of m'"
  shows "set m = set m'"
proof (rule set_eqI)
  fix x :: "'a \<times> 'b"
  show "x \<in> set m \<longleftrightarrow> x \<in> set m'"
    using assms by (cases x) (simp only: distinct_keys_mem_iff)
qed

lemma distinct_of_distinct_keys: "distinct_keys m \<Longrightarrow> distinct m"
  by (simp add: distinct_map)

text \<open>
  Sorting by a key that is injective on the elements gives one result whatever order the
  elements come in: what makes a \<open>range\<close> over a Go map followed by a sort deterministic.
\<close>

lemma sort_key_set_cong:
  assumes "distinct xs" "distinct ys" "set xs = set ys" "inj_on f (set xs)"
  shows "sort_key f xs = sort_key f ys"
proof -
  have "mset xs = mset ys"
    using assms(1-3) by (simp add: set_eq_iff_mset_eq_distinct [symmetric])
  then show ?thesis
    by (intro sort_key_inj_key_eq) (simp_all add: assms(4))
qed

section \<open>64 bit and 32 bit signed integers\<close>

definition wrap64 :: "int \<Rightarrow> int" where
  "wrap64 x = sint (word_of_int x :: 64 word)"

definition wrap32 :: "int \<Rightarrow> int" where
  "wrap32 x = sint (word_of_int x :: 32 word)"

abbreviation max_int64 :: int where "max_int64 \<equiv> 9223372036854775807"
abbreviation min_int64 :: int where "min_int64 \<equiv> - 9223372036854775808"

definition is_int64 :: "int \<Rightarrow> bool" where
  "is_int64 x \<longleftrightarrow> min_int64 \<le> x \<and> x \<le> max_int64"

lemma wrap64_signed: "wrap64 x = signed_take_bit 63 x"
  by (simp add: wrap64_def signed_of_int)

lemma wrap32_signed: "wrap32 x = signed_take_bit 31 x"
  by (simp add: wrap32_def signed_of_int)

lemma wrap64_mod: "wrap64 x = (x + 9223372036854775808) mod 18446744073709551616 - 9223372036854775808"
  by (simp add: wrap64_signed signed_take_bit_eq_take_bit_shift take_bit_eq_mod)

lemma wrap32_mod: "wrap32 x = (x + 2147483648) mod 4294967296 - 2147483648"
  by (simp add: wrap32_signed signed_take_bit_eq_take_bit_shift take_bit_eq_mod)

lemma wrap64_id: "min_int64 \<le> x \<Longrightarrow> x \<le> max_int64 \<Longrightarrow> wrap64 x = x"
  by (simp add: wrap64_mod)

lemma is_int64_wrap64 [simp]: "is_int64 (wrap64 x)"
proof -
  have "0 \<le> (x + 9223372036854775808) mod 18446744073709551616"
    and "(x + 9223372036854775808) mod 18446744073709551616 < 18446744073709551616"
    by simp_all
  then show ?thesis unfolding is_int64_def wrap64_mod by linarith
qed

lemma wrap64_bounds: "min_int64 \<le> wrap64 x" "wrap64 x \<le> max_int64"
  using is_int64_wrap64 [of x] by (simp_all add: is_int64_def)

lemma wrap32_id: "-2147483648 \<le> x \<Longrightarrow> x \<le> 2147483647 \<Longrightarrow> wrap32 x = x"
  by (simp add: wrap32_mod)

lemma wrap32_bounds: "-2147483648 \<le> wrap32 x" "wrap32 x \<le> 2147483647"
proof -
  have "0 \<le> (x + 2147483648) mod 4294967296" "(x + 2147483648) mod 4294967296 < 4294967296"
    by simp_all
  then show "-2147483648 \<le> wrap32 x" "wrap32 x \<le> 2147483647"
    unfolding wrap32_mod by linarith+
qed

text \<open>Integer division of Go truncates towards zero.\<close>

definition quot :: "int \<Rightarrow> int \<Rightarrow> int" where
  "quot a b = sgn a * sgn b * (\<bar>a\<bar> div \<bar>b\<bar>)"

definition rem :: "int \<Rightarrow> int \<Rightarrow> int" where
  "rem a b = a - b * quot a b"

lemma quot_nonneg: "0 \<le> a \<Longrightarrow> 0 < b \<Longrightarrow> quot a b = a div b"
  by (cases "a = 0") (auto simp: quot_def)

lemma rem_nonneg: "0 \<le> a \<Longrightarrow> 0 < b \<Longrightarrow> rem a b = a mod b"
  by (simp add: rem_def quot_nonneg minus_mult_div_eq_mod)

text \<open>Durations, in nanoseconds.\<close>

abbreviation Second :: int where "Second \<equiv> 1000000000"
abbreviation Millisecond :: int where "Millisecond \<equiv> 1000000"
abbreviation Minute :: int where "Minute \<equiv> 60000000000"
abbreviation Hour :: int where "Hour \<equiv> 3600000000000"

end
