(* ===== verification/Path_Match.thy ===== *)
theory Path_Match
  imports Go_Strings
begin

text \<open>
  \<open>path.Match\<close> of Go's standard library, which \<open>capability.Match\<close> calls: the
  chunk-by-chunk matcher with its character classes, escapes and its ErrBadPattern result. The
  second half relates it to the plain globbing relation: for the patterns a capability filter
  may hold (no class, no question mark, no escape) and a name without slash, the
  leftmost-chunk search decides exactly the relation \<open>glob\<close>.
\<close>

section \<open>The algorithm\<close>

datatype match_error = ErrBadPattern

abbreviation byte :: "char \<Rightarrow> int" where "byte c \<equiv> of_char c"

definition is_cont :: "int \<Rightarrow> bool" where
  "is_cont b \<longleftrightarrow> 128 \<le> b \<and> b \<le> 191"

text \<open>\<open>utf8.DecodeRuneInString\<close>: the rune and its width; U+FFFD and 1 for a bad byte.\<close>

definition decode_rune :: "gostring \<Rightarrow> int \<times> nat" where
  "decode_rune s =
     (case s of
        [] \<Rightarrow> (65533, 0)
      | c0 # s1 \<Rightarrow>
          (let b0 = byte c0 in
           if b0 < 128 then (b0, 1)
           else (case s1 of
              [] \<Rightarrow> (65533, 1)
            | c1 # s2 \<Rightarrow>
                (let b1 = byte c1 in
                 if 194 \<le> b0 \<and> b0 \<le> 223 then
                   (if is_cont b1 then ((b0 - 192) * 64 + (b1 - 128), 2) else (65533, 1))
                 else (case s2 of
                    [] \<Rightarrow> (65533, 1)
                  | c2 # s3 \<Rightarrow>
                      (let b2 = byte c2 in
                       if 224 \<le> b0 \<and> b0 \<le> 239 then
                         (if is_cont b1 \<and> (b0 = 224 \<longrightarrow> 160 \<le> b1) \<and> (b0 = 237 \<longrightarrow> b1 \<le> 159) \<and> is_cont b2
                          then ((b0 - 224) * 4096 + (b1 - 128) * 64 + (b2 - 128), 3) else (65533, 1))
                       else if 240 \<le> b0 \<and> b0 \<le> 244 then
                         (case s3 of
                            [] \<Rightarrow> (65533, 1)
                          | c3 # _ \<Rightarrow>
                              (let b3 = byte c3 in
                               if is_cont b1 \<and> (b0 = 240 \<longrightarrow> 144 \<le> b1) \<and> (b0 = 244 \<longrightarrow> b1 \<le> 143)
                                  \<and> is_cont b2 \<and> is_cont b3
                               then ((b0 - 240) * 262144 + (b1 - 128) * 4096 + (b2 - 128) * 64 + (b3 - 128), 4)
                               else (65533, 1)))
                       else (65533, 1)))))))"

definition rune_width :: "gostring \<Rightarrow> nat" where
  "rune_width s = snd (decode_rune s)"

lemma rune_width_pos: "s \<noteq> [] \<Longrightarrow> 0 < rune_width s"
  by (cases s) (auto simp: rune_width_def decode_rune_def Let_def split: list.splits if_splits)

text \<open>\<open>scanChunk\<close>: leading stars, then everything up to the next star outside a class.\<close>

fun scan_body :: "bool \<Rightarrow> gostring \<Rightarrow> gostring \<times> gostring" where
  "scan_body inrange [] = ([], [])"
| "scan_body inrange (c # cs) =
     (if c = CHR 0x5C then
        (case cs of
           [] \<Rightarrow> ([c], [])
         | d # ds \<Rightarrow> (let (a, b) = scan_body inrange ds in (c # d # a, b)))
      else if c = CHR ''*'' \<and> \<not> inrange then ([], c # cs)
      else (let (a, b) = scan_body (if c = CHR ''['' then True else if c = CHR '']'' then False else inrange) cs
            in (c # a, b)))"

definition scanChunk :: "gostring \<Rightarrow> bool \<times> gostring \<times> gostring" where
  "scanChunk pattern =
     (let p = dropWhile (\<lambda>c. c = CHR ''*'') pattern
      in (pattern \<noteq> [] \<and> hd pattern = CHR ''*'', scan_body False p))"

text \<open>\<open>getEsc\<close>: one possibly escaped character of a class; what follows it is never empty.\<close>

definition getEsc :: "gostring \<Rightarrow> match_error + (int \<times> gostring)" where
  "getEsc chunk =
     (if chunk = [] \<or> hd chunk = CHR ''-'' \<or> hd chunk = CHR '']'' then Inl ErrBadPattern
      else (let chunk' = (if hd chunk = CHR 0x5C then tl chunk else chunk) in
        if chunk' = [] then Inl ErrBadPattern
        else (let (r, n) = decode_rune chunk'; nchunk = drop n chunk' in
          if r = 65533 \<and> n = 1 then Inl ErrBadPattern
          else if nchunk = [] then Inl ErrBadPattern
          else Inr (r, nchunk))))"

lemma getEsc_shrinks:
  assumes "getEsc chunk = Inr (r, nchunk)"
  shows "length nchunk < length chunk"
proof -
  have drop_less: "length (drop (rune_width t) t) < length t" if "t \<noteq> []" for t
    using rune_width_pos [OF that] that by simp
  from assms have "chunk \<noteq> []" by (auto simp: getEsc_def)
  with assms drop_less [of chunk] drop_less [of "tl chunk"] show ?thesis
    by (cases chunk)
      (auto simp: getEsc_def Let_def rune_width_def split: if_splits prod.splits)
qed

text \<open>The class loop of \<open>matchChunk\<close>: the ranges up to the closing bracket.\<close>

function class_loop :: "int \<Rightarrow> gostring \<Rightarrow> bool \<Rightarrow> nat \<Rightarrow> match_error + (bool \<times> gostring)" where
  "class_loop r chunk matched nrange =
     (if chunk \<noteq> [] \<and> hd chunk = CHR '']'' \<and> 0 < nrange then Inr (matched, tl chunk)
      else (case getEsc chunk of
         Inl e \<Rightarrow> Inl e
       | Inr (lo, chunk1) \<Rightarrow>
           (if hd chunk1 = CHR ''-'' then
              (case getEsc (tl chunk1) of
                 Inl e \<Rightarrow> Inl e
               | Inr (hi, chunk2) \<Rightarrow>
                   class_loop r chunk2 (matched \<or> (lo \<le> r \<and> r \<le> hi)) (Suc nrange))
            else class_loop r chunk1 (matched \<or> (lo \<le> r \<and> r \<le> lo)) (Suc nrange))))"
  by pat_completeness auto
termination
proof (relation "measure (\<lambda>(r, chunk, m, n). length chunk)", goal_cases)
  case 1
  then show ?case by simp
next
  case (2 r chunk m n x lo chunk1 y hi chunk2)
  then have "length chunk2 < length (tl chunk1)" "length chunk1 < length chunk"
    by (auto dest: getEsc_shrinks)
  then show ?case by simp
next
  case 3
  then show ?case by (auto dest: getEsc_shrinks)
qed

declare class_loop.simps [simp del]

lemma class_loop_shrinks:
  "class_loop r chunk m n = Inr (b, rest) \<Longrightarrow> length rest < length chunk"
proof (induction r chunk m n rule: class_loop.induct)
  case (1 r chunk m n)
  show ?case
  proof (cases "chunk \<noteq> [] \<and> hd chunk = CHR '']'' \<and> 0 < n")
    case True
    with "1.prems" have "rest = tl chunk" by (simp add: class_loop.simps [of r chunk m n])
    with True show ?thesis by (cases chunk) auto
  next
    case False
    with "1.prems" obtain lo chunk1 where e: "getEsc chunk = Inr (lo, chunk1)"
      by (auto simp: class_loop.simps [of r chunk m n] split: sum.splits if_splits)
    then have l1: "length chunk1 < length chunk" by (rule getEsc_shrinks)
    show ?thesis
    proof (cases "hd chunk1 = CHR ''-''")
      case True
      with "1.prems" e \<open>\<not> (chunk \<noteq> [] \<and> hd chunk = CHR '']'' \<and> 0 < n)\<close>
      obtain hi chunk2 where e2: "getEsc (tl chunk1) = Inr (hi, chunk2)"
        and rec: "class_loop r chunk2 (m \<or> (lo \<le> r \<and> r \<le> hi)) (Suc n) = Inr (b, rest)"
        by (auto simp: class_loop.simps [of r chunk m n] split: sum.splits if_splits)
      from "1.IH"(1) [OF False e refl True e2 refl rec] getEsc_shrinks [OF e2] l1
      show ?thesis by simp
    next
      case neq: False
      with "1.prems" e False
      have rec: "class_loop r chunk1 (m \<or> (lo \<le> r \<and> r \<le> lo)) (Suc n) = Inr (b, rest)"
        by (auto simp: class_loop.simps [of r chunk m n] split: sum.splits if_splits)
      from "1.IH"(2) [OF False e refl neq rec] l1 show ?thesis by simp
    qed
  qed
qed

text \<open>
  \<open>matchChunk\<close>: \<open>failed\<close> records that the match has failed; the rest of the chunk is then
  only checked for being well formed. \<open>Inr None\<close> is "no match".
\<close>

function matchChunk :: "bool \<Rightarrow> gostring \<Rightarrow> gostring \<Rightarrow> match_error + gostring option" where
  "matchChunk failed0 chunk s =
     (if chunk = [] then Inr (if failed0 then None else Some s)
      else (let failed = (failed0 \<or> s = []) in
        if hd chunk = CHR ''['' then
          (let r = (if failed then 0 else fst (decode_rune s));
               s' = (if failed then s else drop (rune_width s) s);
               negated = (tl chunk \<noteq> [] \<and> hd (tl chunk) = CHR ''^'')
           in case class_loop r (if negated then tl (tl chunk) else tl chunk) False 0 of
                Inl e \<Rightarrow> Inl e
              | Inr (matched, chunk') \<Rightarrow> matchChunk (failed \<or> matched = negated) chunk' s')
        else if hd chunk = CHR ''?'' then
          matchChunk (failed \<or> hd s = CHR ''/'') (tl chunk)
            (if failed then s else drop (rune_width s) s)
        else if hd chunk = CHR 0x5C \<and> tl chunk = [] then Inl ErrBadPattern
        else
          (let chunk1 = (if hd chunk = CHR 0x5C then tl chunk else chunk)
           in matchChunk (failed \<or> hd chunk1 \<noteq> hd s) (tl chunk1) (if failed then s else tl s))))"
  by pat_completeness auto
termination
proof (relation "measure (\<lambda>(f, chunk, s). length chunk)", goal_cases)
  case (2 f chunk s failed r s' negated x matched chunk')
  then have "length chunk' < length (if negated then tl (tl chunk) else tl chunk)"
    by (auto dest: class_loop_shrinks)
  with 2 show ?case by (cases chunk) (auto split: if_splits)
next
  case (3 f chunk s failed)
  then show ?case by (cases chunk) auto
next
  case (4 f chunk s failed chunk1)
  then show ?case by (cases chunk; cases "tl chunk") (auto split: if_splits)
qed simp

declare matchChunk.simps [simp del]

text \<open>The search after a star: skip bytes that are not a slash, try the chunk after each.\<close>

fun star_skip :: "bool \<Rightarrow> gostring \<Rightarrow> gostring \<Rightarrow> match_error + gostring option" where
  "star_skip last_chunk chunk [] = Inr None"
| "star_skip last_chunk chunk (c # cs) =
     (if c = CHR ''/'' then Inr None
      else (case matchChunk False chunk cs of
         Inl e \<Rightarrow> Inl e
       | Inr None \<Rightarrow> star_skip last_chunk chunk cs
       | Inr (Some t) \<Rightarrow>
           (if last_chunk \<and> t \<noteq> [] then star_skip last_chunk chunk cs else Inr (Some t))))"

lemma scan_body_append: "scan_body r p = (a, b) \<Longrightarrow> p = a @ b"
  by (induction r p arbitrary: a b rule: scan_body.induct)
    (auto simp: Let_def split: if_splits list.splits prod.splits)

lemma scanChunk_shrinks:
  assumes "pattern \<noteq> []" and "scanChunk pattern = (star, chunk, rest)"
  shows "length rest < length pattern"
proof -
  let ?p = "dropWhile (\<lambda>c. c = CHR ''*'') pattern"
  from assms(2) have sb: "scan_body False ?p = (chunk, rest)"
    by (auto simp: scanChunk_def Let_def)
  then have p: "?p = chunk @ rest" by (rule scan_body_append)
  have le: "length ?p \<le> length pattern" by (simp add: length_dropWhile_le)
  show ?thesis
  proof (cases "hd pattern = CHR ''*''")
    case True
    with assms(1) have "length ?p < length pattern"
      by (cases pattern) (auto simp: le_imp_less_Suc length_dropWhile_le)
    with p show ?thesis by (metis length_append le_add2 order_le_less_trans)
  next
    case False
    with assms(1) obtain c cs where "?p = c # cs" "c \<noteq> CHR ''*''" by (cases pattern) auto
    with sb have "chunk \<noteq> []" by (auto simp: Let_def split: if_splits list.splits prod.splits)
    with p le show ?thesis by (metis length_append length_greater_0_conv less_add_same_cancel2 order_less_le_trans)
  qed
qed

lemma scanChunk_shrinks_sym:
  "pattern \<noteq> [] \<Longrightarrow> (star, chunk, rest) = scanChunk pattern \<Longrightarrow> length rest < length pattern"
  by (metis scanChunk_shrinks)

text \<open>What is left of the pattern is checked before a mismatch is reported.\<close>

function check_rest :: "gostring \<Rightarrow> match_error + bool" where
  "check_rest pattern =
     (if pattern = [] then Inr False
      else (case scanChunk pattern of (star, chunk, rest) \<Rightarrow>
        (case matchChunk False chunk [] of Inl e \<Rightarrow> Inl e | Inr _ \<Rightarrow> check_rest rest)))"
  by pat_completeness auto
termination
  by (relation "measure length") (auto dest: scanChunk_shrinks_sym)

declare check_rest.simps [simp del]

function path_Match :: "gostring \<Rightarrow> gostring \<Rightarrow> match_error + bool" where
  "path_Match pattern name =
     (if pattern = [] then Inr (name = [])
      else (case scanChunk pattern of (star, chunk, rest) \<Rightarrow>
        if star \<and> chunk = [] then Inr (CHR ''/'' \<notin> set name)
        else (case matchChunk False chunk name of
           Inl e \<Rightarrow> Inl e
         | Inr m \<Rightarrow>
             (case m of
                Some t \<Rightarrow>
                  (if t = [] \<or> rest \<noteq> [] then path_Match rest t
                   else if star then
                     (case star_skip (rest = []) chunk name of
                        Inl e \<Rightarrow> Inl e
                      | Inr (Some t') \<Rightarrow> path_Match rest t'
                      | Inr None \<Rightarrow> check_rest rest)
                   else check_rest rest)
              | None \<Rightarrow>
                  (if star then
                     (case star_skip (rest = []) chunk name of
                        Inl e \<Rightarrow> Inl e
                      | Inr (Some t') \<Rightarrow> path_Match rest t'
                      | Inr None \<Rightarrow> check_rest rest)
                   else check_rest rest)))))"
  by pat_completeness auto
termination
  by (relation "measure (\<lambda>(pattern, name). length pattern)") (auto dest: scanChunk_shrinks_sym)

declare path_Match.simps [simp del]

section \<open>Equivalence with globbing\<close>

text \<open>
  The relation the doc comment of \<open>capability.Match\<close> has in mind: a star stands for any
  sequence of characters, everything else for itself.
\<close>

fun glob :: "gostring \<Rightarrow> gostring \<Rightarrow> bool" where
  "glob [] s = (s = [])"
| "glob (c # p) [] = (c = CHR ''*'' \<and> glob p [])"
| "glob (c # p) (d # s) =
     (if c = CHR ''*'' then glob p (d # s) \<or> glob (c # p) s else c = d \<and> glob p s)"

definition plain_pattern :: "gostring \<Rightarrow> bool" where
  "plain_pattern p \<longleftrightarrow> set p \<inter> {CHR ''['', CHR ''?'', CHR 0x5C} = {}"

definition star_free :: "gostring \<Rightarrow> bool" where
  "star_free p \<longleftrightarrow> CHR ''*'' \<notin> set p"

lemma glob_star: "glob (CHR ''*'' # p) s \<longleftrightarrow> (\<exists>k \<le> length s. glob p (drop k s))"
proof (induction s)
  case Nil
  then show ?case by simp
next
  case (Cons d s)
  have "(\<exists>k \<le> length (d # s). glob p (drop k (d # s)))
      \<longleftrightarrow> glob p (d # s) \<or> (\<exists>k \<le> length s. glob p (drop k s))"
    by (metis Suc_le_mono drop0 drop_Suc_Cons le0 length_Cons not0_implies_Suc)
  with Cons show ?case by simp
qed

lemma glob_literal:
  "star_free c \<Longrightarrow> glob (c @ p) s \<longleftrightarrow> prefix c s \<and> glob p (drop (length c) s)"
proof (induction c arbitrary: s)
  case Nil
  then show ?case by simp
next
  case (Cons x c)
  then show ?case by (cases s) (auto simp: star_free_def)
qed

lemma glob_star_drop:
  assumes "glob (CHR ''*'' # p) (drop j s)" and "i \<le> j"
  shows "glob (CHR ''*'' # p) (drop i s)"
proof -
  from assms(1) obtain k where k: "k \<le> length (drop j s)" "glob p (drop k (drop j s))"
    by (auto simp: glob_star)
  show ?thesis
  proof (cases "j \<le> length s")
    case True
    with k assms(2) have "k + (j - i) \<le> length (drop i s)"
      and "drop (k + (j - i)) (drop i s) = drop k (drop j s)" by auto
    with k(2) show ?thesis by (metis glob_star)
  next
    case False
    with k have "glob p []" by simp
    then have "glob p (drop (length (drop i s)) (drop i s))" by simp
    then show ?thesis by (auto simp: glob_star simp del: drop_drop)
  qed
qed

subsection \<open>The pieces of the algorithm on plain patterns\<close>

lemma matchChunk_failed_plain:
  "plain_pattern c \<Longrightarrow> matchChunk True c s = Inr None"
proof (induction c arbitrary: s)
  case Nil
  then show ?case by (simp add: matchChunk.simps)
next
  case (Cons x c)
  then have "plain_pattern c" "x \<noteq> CHR ''[''" "x \<noteq> CHR ''?''" "x \<noteq> CHR 0x5C"
    by (auto simp: plain_pattern_def)
  with Cons.IH show ?case by (subst matchChunk.simps) simp
qed

lemma matchChunk_plain:
  "plain_pattern c \<Longrightarrow>
     matchChunk False c s = Inr (if prefix c s then Some (drop (length c) s) else None)"
proof (induction c arbitrary: s)
  case Nil
  then show ?case by (simp add: matchChunk.simps)
next
  case (Cons x c)
  then have p: "plain_pattern c" and x: "x \<noteq> CHR ''[''" "x \<noteq> CHR ''?''" "x \<noteq> CHR 0x5C"
    by (auto simp: plain_pattern_def)
  show ?case
  proof (cases s)
    case Nil
    with x matchChunk_failed_plain [OF p] show ?thesis by (subst matchChunk.simps) simp
  next
    case (Cons y s')
    with x matchChunk_failed_plain [OF p] Cons.IH [OF p] show ?thesis
      by (cases "x = y"; subst matchChunk.simps) auto
  qed
qed

lemma scan_body_plain:
  "plain_pattern p \<Longrightarrow>
     scan_body False p = (takeWhile (\<lambda>c. c \<noteq> CHR ''*'') p, dropWhile (\<lambda>c. c \<noteq> CHR ''*'') p)"
  by (induction p) (auto simp: plain_pattern_def)

lemma plain_pattern_append [simp]: "plain_pattern (a @ b) \<longleftrightarrow> plain_pattern a \<and> plain_pattern b"
  by (auto simp: plain_pattern_def)

text \<open>
  A plain pattern is some stars, a literal chunk, and a rest that is empty or starts with a
  star; it reads as \<open>*\<close> or nothing, the chunk, the rest.
\<close>

lemma scanChunk_plain:
  assumes "plain_pattern p" and "scanChunk p = (star, chunk, rest)"
  shows "plain_pattern chunk" "plain_pattern rest" "star_free chunk"
    "rest = [] \<or> hd rest = CHR ''*''" "chunk = [] \<Longrightarrow> rest = []"
    "glob p s = glob ((if star then [CHR ''*''] else []) @ chunk @ rest) s"
proof -
  let ?q = "dropWhile (\<lambda>c. c = CHR ''*'') p"
  have plain_q: "plain_pattern ?q"
    using assms(1) by (auto simp: plain_pattern_def dest: set_dropWhileD)
  with assms(2) have chunk: "chunk = takeWhile (\<lambda>c. c \<noteq> CHR ''*'') ?q"
    and rest: "rest = dropWhile (\<lambda>c. c \<noteq> CHR ''*'') ?q"
    and star: "star \<longleftrightarrow> p \<noteq> [] \<and> hd p = CHR ''*''"
    by (auto simp: scanChunk_def scan_body_plain Let_def)
  have q: "?q = chunk @ rest" by (simp add: chunk rest)
  with plain_q show "plain_pattern chunk" "plain_pattern rest" by (metis plain_pattern_append)+
  show "star_free chunk" by (auto simp: star_free_def chunk dest: set_takeWhileD)
  show hd_rest: "rest = [] \<or> hd rest = CHR ''*''"
    using hd_dropWhile [of "\<lambda>c. c \<noteq> CHR ''*''" ?q] by (auto simp: rest)
  show "rest = []" if "chunk = []"
  proof (rule ccontr)
    assume "rest \<noteq> []"
    with that q hd_rest have "?q \<noteq> []" "hd ?q = CHR ''*''" by auto
    with hd_dropWhile [of "\<lambda>c. c = CHR ''*''" p] show False by simp
  qed
  have stars: "glob (CHR ''*'' # p') t = glob (CHR ''*'' # dropWhile (\<lambda>c. c = CHR ''*'') p') t" for p' t
  proof (induction p' arbitrary: t)
    case (Cons x p')
    show ?case
    proof (cases "x = CHR ''*''")
      case True
      have "glob (CHR ''*'' # CHR ''*'' # p') t = glob (CHR ''*'' # p') t"
      proof -
        have "glob (CHR ''*'' # p') (drop k t) \<Longrightarrow> glob (CHR ''*'' # p') t" for k
          using glob_star_drop [of p' k t 0] by simp
        then show ?thesis
          by (subst glob_star) (metis drop0 le0)
      qed
      with True Cons.IH show ?thesis by simp
    qed simp
  qed simp
  show "glob p s = glob ((if star then [CHR ''*''] else []) @ chunk @ rest) s"
  proof (cases star)
    case True
    with star have p: "p = CHR ''*'' # tl p" by (cases p) auto
    then have "?q = dropWhile (\<lambda>c. c = CHR ''*'') (tl p)" by (metis (full_types) dropWhile.simps(2))
    with stars [of "tl p" s] p q True show ?thesis by simp
  next
    case False
    with star have "?q = p" by (cases p) auto
    with q False show ?thesis by simp
  qed
qed

subsection \<open>The leftmost chunk is always a right choice\<close>

definition chunk_fits :: "bool \<Rightarrow> gostring \<Rightarrow> gostring \<Rightarrow> bool" where
  "chunk_fits last_chunk chunk s \<longleftrightarrow>
     prefix chunk s \<and> (last_chunk \<longrightarrow> drop (length chunk) s = [])"

fun search :: "bool \<Rightarrow> gostring \<Rightarrow> gostring \<Rightarrow> gostring option" where
  "search l chunk [] = (if chunk_fits l chunk [] then Some [] else None)"
| "search l chunk (c # cs) =
     (if chunk_fits l chunk (c # cs) then Some (drop (length chunk) (c # cs)) else search l chunk cs)"

lemma search_unfold:
  "search l chunk s =
     (if chunk_fits l chunk s then Some (drop (length chunk) s)
      else case s of [] \<Rightarrow> None | _ # cs \<Rightarrow> search l chunk cs)"
  by (cases s) (auto simp: chunk_fits_def)

lemma search_subset: "search l chunk s = Some t \<Longrightarrow> set t \<subseteq> set s"
proof (induction s)
  case (Cons c cs)
  show ?case
  proof (cases "chunk_fits l chunk (c # cs)")
    case True
    with Cons.prems have "t = drop (length chunk) (c # cs)" by simp
    then show ?thesis using set_drop_subset by fast
  next
    case False
    with Cons show ?thesis by auto
  qed
qed (auto split: if_splits)

lemma star_skip_plain:
  "plain_pattern chunk \<Longrightarrow> CHR ''/'' \<notin> set s \<Longrightarrow>
     star_skip l chunk s = Inr (case s of [] \<Rightarrow> None | _ # cs \<Rightarrow> search l chunk cs)"
proof (induction s)
  case (Cons c cs)
  then have "star_skip l chunk (c # cs) =
      (if chunk_fits l chunk cs then Inr (Some (drop (length chunk) cs)) else star_skip l chunk cs)"
    by (auto simp: matchChunk_plain chunk_fits_def)
  with Cons show ?case by (simp add: search_unfold [of l chunk cs] del: star_skip.simps)
qed simp

lemma search_glob:
  assumes "rest = [] \<or> hd rest = CHR ''*''"
  shows "(\<exists>k \<le> length s. prefix chunk (drop k s) \<and> glob rest (drop (k + length chunk) s))
     \<longleftrightarrow> (case search (rest = []) chunk s of None \<Rightarrow> False | Some t \<Rightarrow> glob rest t)"
    (is "?ex s \<longleftrightarrow> ?found s")
proof (induction s)
  case Nil
  then show ?case by (auto simp: chunk_fits_def)
next
  case (Cons c cs)
  have shift: "?ex (c # cs) \<longleftrightarrow>
      prefix chunk (c # cs) \<and> glob rest (drop (length chunk) (c # cs)) \<or> ?ex cs"
    by (simp add: ex_le_Suc_iff)
  show ?case
  proof (cases "chunk_fits (rest = []) chunk (c # cs)")
    case False
    then have "\<not> (prefix chunk (c # cs) \<and> glob rest (drop (length chunk) (c # cs)))"
      by (auto simp: chunk_fits_def)
    with False shift Cons.IH show ?thesis by simp
  next
    case True
    have "glob rest (drop (length chunk) (c # cs))" if "?ex cs"
    proof (cases "rest = []")
      case True
      with \<open>chunk_fits _ _ _\<close> show ?thesis by (simp add: chunk_fits_def)
    next
      case False
      with assms obtain r where r: "rest = CHR ''*'' # r" by (cases rest) auto
      from that obtain k where "glob rest (drop (Suc k + length chunk) (c # cs))" by auto
      then show ?thesis unfolding r by (rule glob_star_drop) simp
    qed
    with True shift show ?thesis by (auto simp: chunk_fits_def)
  qed
qed

lemma check_rest_plain: "plain_pattern p \<Longrightarrow> check_rest p = Inr False"
proof (induction p rule: check_rest.induct)
  case (1 p)
  obtain star chunk rest where sc: "scanChunk p = (star, chunk, rest)" by (cases "scanChunk p")
  note plain = scanChunk_plain [OF "1.prems" sc]
  show ?case
  proof (cases "p = []")
    case True
    then show ?thesis by (simp add: check_rest.simps)
  next
    case False
    from "1.IH" [OF False sc [symmetric] refl] plain(1,2) have "check_rest rest = Inr False"
      by (simp add: matchChunk_plain)
    with False sc plain(1) show ?thesis
      by (subst check_rest.simps) (simp add: matchChunk_plain)
  qed
qed

lemma path_Match_star_plain:
  assumes "plain_pattern p" "p \<noteq> []" "CHR ''/'' \<notin> set s" "scanChunk p = (True, chunk, rest)"
    and "chunk \<noteq> []"
  shows "path_Match p s =
     (case search (rest = []) chunk s of Some t \<Rightarrow> path_Match rest t | None \<Rightarrow> Inr False)"
proof -
  note plain = scanChunk_plain [OF assms(1,4)]
  have "path_Match p s =
     (if chunk_fits (rest = []) chunk s then path_Match rest (drop (length chunk) s)
      else case star_skip (rest = []) chunk s of
             Inl e \<Rightarrow> Inl e | Inr (Some t) \<Rightarrow> path_Match rest t | Inr None \<Rightarrow> check_rest rest)"
    using assms plain(1)
    by (subst path_Match.simps) (simp add: matchChunk_plain chunk_fits_def)
  then show ?thesis
    using assms(3) plain(1,2)
    by (simp add: star_skip_plain check_rest_plain search_unfold [of "rest = []" chunk s]
          split: list.split option.split)
qed

lemma path_Match_literal_plain:
  assumes "plain_pattern p" "p \<noteq> []" "scanChunk p = (False, chunk, rest)"
  shows "path_Match p s =
     (if chunk_fits (rest = []) chunk s then path_Match rest (drop (length chunk) s) else Inr False)"
  using assms scanChunk_plain [OF assms(1,3)]
  by (subst path_Match.simps)
    (simp add: matchChunk_plain chunk_fits_def check_rest_plain check_rest.simps [of "[]"])

theorem path_Match_glob:
  assumes "plain_pattern p" and "CHR ''/'' \<notin> set s"
  shows "path_Match p s = Inr (glob p s)"
  using assms
proof (induction p arbitrary: s rule: length_induct)
  case (1 p)
  obtain star chunk rest where sc: "scanChunk p = (star, chunk, rest)" by (cases "scanChunk p")
  note plain = scanChunk_plain [OF "1.prems"(1) sc]
  show ?case
  proof (cases "p = []")
    case True
    then show ?thesis by (simp add: path_Match.simps)
  next
    case False
    have IH: "path_Match rest t = Inr (glob rest t)" if "CHR ''/'' \<notin> set t" for t
      using "1.IH" scanChunk_shrinks [OF False sc] plain(2) that by blast
    show ?thesis
    proof (cases star)
      case star: True
      show ?thesis
      proof (cases "chunk = []")
        case True
        with star plain(5) plain(6) [of s] have "glob p s" by (auto simp: glob_star)
        with True star False sc "1.prems"(2) show ?thesis by (simp add: path_Match.simps [of p s])
      next
        case nonempty: False
        have "glob p s \<longleftrightarrow> (case search (rest = []) chunk s of None \<Rightarrow> False | Some t \<Rightarrow> glob rest t)"
          using plain(6) [of s] star search_glob [OF plain(4)] glob_literal [OF plain(3)]
          by (simp add: glob_star add.commute)
        moreover have "path_Match rest t = Inr (glob rest t)" if "search (rest = []) chunk s = Some t" for t
          using IH search_subset [OF that] "1.prems"(2) by blast
        ultimately show ?thesis
          using path_Match_star_plain [OF "1.prems"(1) False "1.prems"(2) _ nonempty] sc star
          by (simp split: option.splits)
      qed
    next
      case nostar: False
      have "glob p s \<longleftrightarrow> chunk_fits (rest = []) chunk s \<and> glob rest (drop (length chunk) s)"
        using plain(6) [of s] nostar glob_literal [OF plain(3)] by (auto simp: chunk_fits_def)
      moreover have "path_Match rest (drop (length chunk) s) = Inr (glob rest (drop (length chunk) s))"
        using IH "1.prems"(2) by (meson in_set_dropD)
      ultimately show ?thesis
        using path_Match_literal_plain [OF "1.prems"(1) False] sc nostar by simp
    qed
  qed
qed

end
