(* ===== verification/Go_Values.thy ===== *)
theory Go_Values
  imports Go_Strings
begin

text \<open>
  The values that cross the agent's dynamic boundaries: Go's \<open>any\<close> as a datatype with one
  constructor per dynamic type the code switches on, float64 numbers with their rounding and
  their conversions, and \<open>time.ParseDuration\<close>.

  A finite float \<open>FFin m e\<close> is \<open>m * 2 ^ e\<close>. Operations round to 53 significant bits, ties
  to even; the exponent is not bounded, which the callers cannot observe (they reject anything
  of magnitude \<open>2 ^ 63\<close> and more, and never multiply by less than one). Converting a float
  to an integer type that cannot hold it gives an implementation-defined result in Go: it is the
  argument \<open>oor\<close> of every function that converts.
\<close>

section \<open>Floating point\<close>

datatype gofloat = FNaN | FInf bool | FFin int int

function bitlen :: "int \<Rightarrow> nat" where
  "bitlen n = (if n \<le> 0 then 0 else Suc (bitlen (n div 2)))"
  by pat_completeness auto
termination by (relation "measure nat") auto

declare bitlen.simps [simp del]

definition round_even :: "int \<Rightarrow> nat \<Rightarrow> int" where
  "round_even m s =
     (if s = 0 then m
      else (let q = m div 2 ^ s; r = m mod 2 ^ s; half = 2 ^ (s - 1)
            in if r < half \<or> (r = half \<and> even q) then q else q + 1))"

definition round53 :: "int \<Rightarrow> int \<Rightarrow> gofloat" where
  "round53 m e =
     (let s = bitlen \<bar>m\<bar> - 53 in FFin (sgn m * round_even \<bar>m\<bar> s) (e + int s))"

text \<open>\<open>float64(n)\<close> of an integer.\<close>

definition float64_of_int :: "int \<Rightarrow> gofloat" where
  "float64_of_int n = round53 n 0"

fun float_mul :: "gofloat \<Rightarrow> gofloat \<Rightarrow> gofloat" where
  "float_mul (FFin m1 e1) (FFin m2 e2) = round53 (m1 * m2) (e1 + e2)"
| "float_mul FNaN _ = FNaN"
| "float_mul _ FNaN = FNaN"
| "float_mul (FInf n) (FInf n') = FInf (n \<noteq> n')"
| "float_mul (FInf n) (FFin m e) = (if m = 0 then FNaN else FInf (n \<noteq> (m < 0)))"
| "float_mul (FFin m e) (FInf n) = (if m = 0 then FNaN else FInf (n \<noteq> (m < 0)))"

text \<open>
  The quotient of two positive integers that are floats: enough bits of it and a sticky bit, so
  that the one rounding is the correct one.
\<close>

definition float_quot :: "int \<Rightarrow> int \<Rightarrow> gofloat" where
  "float_quot num den =
     (let k = 60 + bitlen den; q = (num * 2 ^ k) div den; r = (num * 2 ^ k) mod den
      in round53 (2 * q + (if r = 0 then 0 else 1)) (- int k - 1))"

text \<open>Sums, and quotients by a positive integer that is a float.\<close>

fun float_add :: "gofloat \<Rightarrow> gofloat \<Rightarrow> gofloat" where
  "float_add (FFin m1 e1) (FFin m2 e2) =
     (let e = min e1 e2 in round53 (m1 * 2 ^ nat (e1 - e) + m2 * 2 ^ nat (e2 - e)) e)"
| "float_add FNaN _ = FNaN"
| "float_add _ FNaN = FNaN"
| "float_add (FInf n) (FInf n') = (if n = n' then FInf n else FNaN)"
| "float_add (FInf n) (FFin _ _) = FInf n"
| "float_add (FFin _ _) (FInf n) = FInf n"

fun float_div_int :: "gofloat \<Rightarrow> int \<Rightarrow> gofloat" where
  "float_div_int (FFin m e) den =
     (case float_quot \<bar>m\<bar> den of FFin q k \<Rightarrow> FFin (sgn m * q) (k + e) | f \<Rightarrow> f)"
| "float_div_int f den = f"

text \<open>\<open>math.Trunc(f) == f\<close>, the truncation itself, and comparison with an integer.\<close>

fun float_integral :: "gofloat \<Rightarrow> bool" where
  "float_integral (FFin m e) = (0 \<le> e \<or> (2 ^ nat (- e)) dvd m)"
| "float_integral _ = False"

definition dyadic_trunc :: "int \<Rightarrow> int \<Rightarrow> int" where
  "dyadic_trunc m e = (if 0 \<le> e then m * 2 ^ nat e else quot m (2 ^ nat (- e)))"

definition dyadic_less :: "int \<Rightarrow> int \<Rightarrow> int \<Rightarrow> int \<Rightarrow> bool" where
  "dyadic_less m1 e1 m2 e2 \<longleftrightarrow> m1 * 2 ^ nat (e1 - min e1 e2) < m2 * 2 ^ nat (e2 - min e1 e2)"

fun float_less :: "gofloat \<Rightarrow> gofloat \<Rightarrow> bool" where
  "float_less (FFin m1 e1) (FFin m2 e2) = dyadic_less m1 e1 m2 e2"
| "float_less FNaN _ = False"
| "float_less _ FNaN = False"
| "float_less (FInf n) (FInf n') = (n \<and> \<not> n')"
| "float_less (FInf n) (FFin _ _) = n"
| "float_less (FFin _ _) (FInf n) = (\<not> n)"

text \<open>IEEE equality: NaN differs from itself.\<close>

fun float_eq :: "gofloat \<Rightarrow> gofloat \<Rightarrow> bool" where
  "float_eq (FFin m1 e1) (FFin m2 e2) =
     (\<not> dyadic_less m1 e1 m2 e2 \<and> \<not> dyadic_less m2 e2 m1 e1)"
| "float_eq (FInf n) (FInf n') = (n = n')"
| "float_eq _ _ = False"

text \<open>\<open>int64(f)\<close>: truncation where the result fits, else whatever the implementation gives.\<close>

fun int64_of_float :: "(gofloat \<Rightarrow> int) \<Rightarrow> gofloat \<Rightarrow> int" where
  "int64_of_float oor (FFin m e) =
     (let t = dyadic_trunc m e in if is_int64 t then t else oor (FFin m e))"
| "int64_of_float oor f = oor f"

text \<open>What amd64 gives for every value out of range: the integer indefinite value.\<close>

definition amd64_oor :: "gofloat \<Rightarrow> int" where
  "amd64_oor f = min_int64"

section \<open>The dynamic type any\<close>

datatype gvalue =
    VNil
  | VBool bool
  | VString gostring
  | VInt int
  | VInt8 int
  | VInt16 int
  | VInt32 int
  | VInt64 int
  | VUint int
  | VUint8 int
  | VUint16 int
  | VUint32 int
  | VUint64 int
  | VFloat32 gofloat
  | VFloat64 gofloat
  | VDuration int
  | VStrings "gostring list"
  | VInts "int list"
  | VInt32s "int list"
  | VList "gvalue list"
  | VMap "(gostring \<times> gvalue) list"
  | VStrMap "(gostring \<times> gostring) list"
  | VOther

text \<open>A \<open>map[string]any\<close>; the nil map reads as the empty one.\<close>

type_synonym gmap = "(gostring \<times> gvalue) list"

text \<open>The integers a value carries are in the range of their type.\<close>

fun wf_value :: "gvalue \<Rightarrow> bool" where
  "wf_value (VInt n) = is_int64 n"
| "wf_value (VInt8 n) = (-128 \<le> n \<and> n \<le> 127)"
| "wf_value (VInt16 n) = (-32768 \<le> n \<and> n \<le> 32767)"
| "wf_value (VInt32 n) = (-2147483648 \<le> n \<and> n \<le> 2147483647)"
| "wf_value (VInt64 n) = is_int64 n"
| "wf_value (VUint n) = (0 \<le> n \<and> n \<le> 18446744073709551615)"
| "wf_value (VUint8 n) = (0 \<le> n \<and> n \<le> 255)"
| "wf_value (VUint16 n) = (0 \<le> n \<and> n \<le> 65535)"
| "wf_value (VUint32 n) = (0 \<le> n \<and> n \<le> 4294967295)"
| "wf_value (VUint64 n) = (0 \<le> n \<and> n \<le> 18446744073709551615)"
| "wf_value (VDuration n) = is_int64 n"
| "wf_value (VList vs) = (\<forall>v \<in> set vs. wf_value v)"
| "wf_value (VMap m) = (\<forall>kv \<in> set m. wf_value (snd kv))"
| "wf_value _ = True"

section \<open>time.ParseDuration\<close>

definition is_digit :: "char \<Rightarrow> bool" where
  "is_digit c \<longleftrightarrow> CHR ''0'' \<le> c \<and> c \<le> CHR ''9''"

definition digit_value :: "char \<Rightarrow> int" where
  "digit_value c = of_char c - 48"

text \<open>\<open>leadingInt\<close> on the digits: \<open>None\<close> when the number exceeds \<open>2 ^ 63\<close>.\<close>

fun leadingInt :: "int \<Rightarrow> gostring \<Rightarrow> int option" where
  "leadingInt x [] = Some x"
| "leadingInt x (c # cs) =
     (if x > 922337203685477580 then None
      else (let y = x * 10 + digit_value c in
        if y > 9223372036854775808 then None else leadingInt y cs))"

text \<open>\<open>leadingFraction\<close>: digits beyond the range are skipped; value and power of ten.\<close>

fun leadingFraction :: "int \<Rightarrow> int \<Rightarrow> gostring \<Rightarrow> int \<times> int" where
  "leadingFraction x scale [] = (x, scale)"
| "leadingFraction x scale (c # cs) =
     (if x > 922337203685477580 then (x, scale)
      else (let y = x * 10 + digit_value c in
        if y > 9223372036854775808 then (x, scale) else leadingFraction y (scale * 10) cs))"

definition unitMap :: "(gostring \<times> int) list" where
  "unitMap =
     [(''ns'', 1), (''us'', 1000), ([CHR 0xC2, CHR 0xB5, CHR ''s''], 1000),
      ([CHR 0xCE, CHR 0xBC, CHR ''s''], 1000), (''ms'', 1000000), (''s'', 1000000000),
      (''m'', 60000000000), (''h'', 3600000000000)]"

text \<open>The nanoseconds that the fraction of a term adds.\<close>

definition fraction_nanos :: "int \<Rightarrow> int \<Rightarrow> int \<Rightarrow> int" where
  "fraction_nanos f scale unit =
     int64_of_float (\<lambda>_. 0) (float_mul (float64_of_int f) (float_quot unit scale))"

definition is_unit_char :: "char \<Rightarrow> bool" where
  "is_unit_char c \<longleftrightarrow> \<not> (c = CHR ''.'' \<or> is_digit c)"

text \<open>The digits of a term, its fraction and what follows them.\<close>

definition scan_number :: "gostring \<Rightarrow> gostring \<times> gostring \<times> gostring" where
  "scan_number s =
     (let s1 = dropWhile is_digit s in
      case s1 of
        [] \<Rightarrow> (takeWhile is_digit s, [], [])
      | c # cs \<Rightarrow>
          (if c = CHR ''.'' then (takeWhile is_digit s, takeWhile is_digit cs, dropWhile is_digit cs)
           else (takeWhile is_digit s, [], c # cs)))"

text \<open>
  One term of a duration: its nanoseconds and the rest of the string. At least one digit, and a
  known unit.
\<close>

definition parse_term :: "gostring \<Rightarrow> (int \<times> gostring) option" where
  "parse_term s =
     (case scan_number s of (whole, frac, s2) \<Rightarrow>
        (case leadingInt 0 whole of
           None \<Rightarrow> None
         | Some v \<Rightarrow>
             (let (f, scale) = leadingFraction 0 1 frac; u = takeWhile is_unit_char s2
              in if whole = [] \<and> frac = [] then None
                 else if u = [] then None
                 else (case map_of unitMap u of
                    None \<Rightarrow> None
                  | Some unit \<Rightarrow>
                      (if v > 9223372036854775808 div unit then None
                       else (let v' = v * unit + (if f > 0 then fraction_nanos f scale unit else 0)
                             in if f > 0 \<and> v' > 9223372036854775808 then None
                                else Some (v', dropWhile is_unit_char s2)))))))"

lemma scan_number_shrinks: "scan_number s = (whole, frac, s2) \<Longrightarrow> length s2 \<le> length s"
proof -
  assume a: "scan_number s = (whole, frac, s2)"
  have l1: "length (dropWhile is_digit s) \<le> length s" by (rule length_dropWhile_le)
  show ?thesis
  proof (cases "dropWhile is_digit s")
    case Nil
    with a show ?thesis by (simp add: scan_number_def)
  next
    case (Cons c cs)
    with l1 have l2: "length cs < length s" by simp
    have "length (dropWhile is_digit cs) \<le> length cs" by (rule length_dropWhile_le)
    then have "length (if c = CHR ''.'' then dropWhile is_digit cs else c # cs) \<le> length s"
      using l2 by auto
    moreover have "s2 = (if c = CHR ''.'' then dropWhile is_digit cs else c # cs)"
      using a Cons by (auto simp: scan_number_def split: if_splits)
    ultimately show ?thesis by (simp only:)
  qed
qed

lemma parse_term_shrinks:
  assumes "parse_term s = Some (v, rest)"
  shows "length rest < length s"
proof -
  obtain whole frac s2 where sn: "scan_number s = (whole, frac, s2)" by (metis prod_cases3)
  obtain f scale where lf: "leadingFraction 0 1 frac = (f, scale)" by (metis surj_pair)
  from assms obtain n where v: "leadingInt 0 whole = Some n"
    by (auto simp: parse_term_def sn split: option.splits)
  from assms have u: "takeWhile is_unit_char s2 \<noteq> []"
    by (auto simp: parse_term_def sn lf v Let_def split: if_split_asm)
  from assms obtain unit where unit: "map_of unitMap (takeWhile is_unit_char s2) = Some unit"
    by (cases "map_of unitMap (takeWhile is_unit_char s2)")
      (simp_all add: parse_term_def sn lf v Let_def split: if_split_asm)
  from assms have rest: "rest = dropWhile is_unit_char s2"
    by (auto simp: parse_term_def sn lf v unit Let_def split: if_split_asm)
  from u rest have "length rest < length s2"
    by (metis length_append length_greater_0_conv less_add_same_cancel2 takeWhile_dropWhile_id)
  with scan_number_shrinks [OF sn] show ?thesis by simp
qed

function parse_terms :: "int \<Rightarrow> gostring \<Rightarrow> int option" where
  "parse_terms d s =
     (if s = [] then Some d
      else if is_unit_char (hd s) then None
      else (case parse_term s of
         None \<Rightarrow> None
       | Some (v, rest) \<Rightarrow>
           (let d' = (d + v) mod 18446744073709551616
            in if d' > 9223372036854775808 then None else parse_terms d' rest)))"
  by pat_completeness auto
termination
  by (relation "measure (\<lambda>(d, s). length s)") (auto dest: parse_term_shrinks)

declare parse_terms.simps [simp del]

definition ParseDuration :: "gostring \<Rightarrow> int option" where
  "ParseDuration s0 =
     (let neg = (s0 \<noteq> [] \<and> hd s0 = CHR ''-'');
          s = (if s0 \<noteq> [] \<and> (hd s0 = CHR ''-'' \<or> hd s0 = CHR ''+'') then tl s0 else s0)
      in if s = ''0'' then Some 0
         else if s = [] then None
         else (case parse_terms 0 s of
            None \<Rightarrow> None
          | Some d \<Rightarrow>
              (if neg then Some (wrap64 (- wrap64 d))
               else if d > max_int64 then None else Some d)))"

end
