(* ===== verification/Capability.thy ===== *)
theory Capability
  imports Path_Match Go_Values
begin

text \<open>
  \<open>pkg/capability/capability.go\<close>: the capability record, the validation of capability names
  and of the patterns of the enabled list, pattern matching and the conversion to the manifest
  that is sent to the control plane.
\<close>

section \<open>The capability\<close>

record Capability =
  cap_Name :: gostring
  cap_Version :: gostring
  cap_Description :: gostring
  cap_Provider :: gostring
  cap_ParametersJSONSchema :: gostring
  cap_Config :: gmap
  cap_ConfigSummary :: gostring
  cap_Enabled :: bool
  cap_UseCases :: "gostring list"
  cap_Aliases :: "gostring list"
  cap_Tags :: "gostring list"

datatype capability_error =
    InvalidCapabilityName gostring
  | PatternEmpty
  | PatternOnlyWildcards
  | PatternInvalidCharacters gostring

section \<open>Names\<close>

definition is_lower :: "char \<Rightarrow> bool" where
  "is_lower c \<longleftrightarrow> CHR ''a'' \<le> c \<and> c \<le> CHR ''z''"

text \<open>
  The regular expression of \<open>namePattern\<close>: a word of lower case letters, then one or more
  words of lower case letters and underscores, each after a dot. The dot is in neither class, so
  the words are the fields between the dots.
\<close>

definition namePattern :: "gostring \<Rightarrow> bool" where
  "namePattern s =
     (case Split (CHR ''.'') s of
        [] \<Rightarrow> False
      | h # t \<Rightarrow> h \<noteq> [] \<and> list_all is_lower h \<and> t \<noteq> [] \<and>
          list_all (\<lambda>w. w \<noteq> [] \<and> list_all (\<lambda>c. is_lower c \<or> c = CHR ''_'') w) t)"

definition ValidateName :: "gostring \<Rightarrow> capability_error option" where
  "ValidateName name = (if \<not> namePattern name then Some (InvalidCapabilityName name) else None)"

definition Capability_Validate :: "Capability \<Rightarrow> capability_error option" where
  "Capability_Validate c =
     (case ValidateName (cap_Name c) of Some e \<Rightarrow> Some e | None \<Rightarrow> None)"

definition Capability_String :: "Capability \<Rightarrow> gostring" where
  "Capability_String c = cap_Name c"

section \<open>Patterns\<close>

definition IsPattern :: "gostring \<Rightarrow> bool" where
  "IsPattern s \<longleftrightarrow> CHR ''*'' \<in> set s"

definition Match :: "gostring \<Rightarrow> gostring \<Rightarrow> match_error + bool" where
  "Match name pattern = path_Match pattern name"

definition is_pattern_char :: "char \<Rightarrow> bool" where
  "is_pattern_char c \<longleftrightarrow> is_lower c \<or> is_digit c \<or> c = CHR ''_'' \<or> c = CHR ''*'' \<or> c = CHR ''.''"

definition ValidatePattern :: "gostring \<Rightarrow> capability_error option" where
  "ValidatePattern pattern =
     (if pattern = [] then Some PatternEmpty
      else if pattern \<noteq> ''*'' \<and> list_all (\<lambda>c. c = CHR ''*'') pattern then Some PatternOnlyWildcards
      else if \<not> list_all is_pattern_char pattern then Some (PatternInvalidCharacters pattern)
      else None)"

section \<open>The manifest\<close>

text \<open>
  The message of the wire protocol. Its \<open>Config\<close> is a protobuf \<open>Struct\<close>, read through
  \<open>AsMap\<close>; \<open>None\<close> is an absent one. \<open>structpb.NewStruct\<close>, which fails on a map it cannot
  represent, is the argument \<open>newStruct\<close>.
\<close>

record CapabilityManifest =
  cm_Name :: gostring
  cm_Description :: gostring
  cm_Enabled :: bool
  cm_ParametersJsonSchema :: gostring
  cm_Config :: "gmap option"
  cm_ConfigSummary :: gostring
  cm_UseCases :: "gostring list"
  cm_Aliases :: "gostring list"
  cm_Tags :: "gostring list"

definition Capability_ToProto :: "(gmap \<Rightarrow> gmap option) \<Rightarrow> Capability \<Rightarrow> CapabilityManifest" where
  "Capability_ToProto newStruct c =
     (let manifest = \<lparr>cm_Name = cap_Name c, cm_Description = cap_Description c,
            cm_Enabled = cap_Enabled c, cm_ParametersJsonSchema = cap_ParametersJSONSchema c,
            cm_Config = None, cm_ConfigSummary = cap_ConfigSummary c,
            cm_UseCases = cap_UseCases c, cm_Aliases = cap_Aliases c, cm_Tags = cap_Tags c\<rparr>
      in if 0 < length (cap_Config c)
         then (case newStruct (cap_Config c) of
                 Some structValue \<Rightarrow> manifest\<lparr>cm_Config := Some structValue\<rparr>
               | None \<Rightarrow> manifest)
         else manifest)"

section \<open>Facts\<close>

lemma Capability_Validate_None [simp]:
  "Capability_Validate c = None \<longleftrightarrow> namePattern (cap_Name c)"
  by (simp add: Capability_Validate_def ValidateName_def)

lemma ToProto_name [simp]: "cm_Name (Capability_ToProto ns c) = cap_Name c"
  by (simp add: Capability_ToProto_def Let_def split: option.splits)

lemma Split_covers: "set s \<subseteq> insert sep (\<Union> (set ` set (Split sep s)))"
proof (induction s)
  case (Cons c cs)
  then show ?case by (cases "Split sep cs") auto
qed simp

lemma namePattern_chars:
  "namePattern s \<Longrightarrow> c \<in> set s \<Longrightarrow> is_lower c \<or> c = CHR ''_'' \<or> c = CHR ''.''"
  using Split_covers [of s "CHR ''.''"]
  by (auto simp: namePattern_def list_all_iff split: list.splits)

text \<open>A valid name holds no star: it is never taken for a pattern. It holds no slash either.\<close>

lemma namePattern_not_pattern: "namePattern s \<Longrightarrow> \<not> IsPattern s"
  using namePattern_chars [of s "CHR ''*''"] by (auto simp: IsPattern_def is_lower_def less_eq_char_def)

lemma namePattern_no_slash: "namePattern s \<Longrightarrow> CHR ''/'' \<notin> set s"
  using namePattern_chars [of s "CHR ''/''"] by (auto simp: is_lower_def less_eq_char_def)

lemma ValidatePattern_plain: "ValidatePattern p = None \<Longrightarrow> plain_pattern p"
  by (auto simp: ValidatePattern_def plain_pattern_def list_all_iff is_pattern_char_def
      is_lower_def is_digit_def less_eq_char_def split: if_splits)

text \<open>
  Claim C35. Matching on what validation lets through is globbing: for a pattern that
  \<open>ValidatePattern\<close> accepts and a name that \<open>ValidateName\<close> accepts, \<open>Match\<close> returns no
  error, and it returns true exactly when the name is the pattern with every star replaced by
  some sequence of characters.
\<close>

theorem Match_is_glob:
  assumes "ValidatePattern pattern = None" and "ValidateName name = None"
  shows "Match name pattern = Inr (glob pattern name)"
  using assms path_Match_glob [OF ValidatePattern_plain [OF assms(1)], of name] namePattern_no_slash [of name]
  by (simp add: Match_def ValidateName_def split: if_splits)

theorem Match_is_glob_witness:
  "Match ''linux.file.read'' ''linux.*d'' = Inr (glob ''linux.*d'' ''linux.file.read'')
     \<and> glob ''linux.*d'' ''linux.file.read''"
proof
  have p: "ValidatePattern ''linux.*d'' = None" and n: "ValidateName ''linux.file.read'' = None"
    by code_simp+
  show "Match ''linux.file.read'' ''linux.*d'' = Inr (glob ''linux.*d'' ''linux.file.read'')"
    by (rule Match_is_glob [OF p n])
  show "glob ''linux.*d'' ''linux.file.read''" by simp
qed

end
