(* ===== verification/Provider.thy ===== *)
theory Provider
  imports Capability
begin

text \<open>
  \<open>internal/provider/provider.go\<close> and \<open>internal/task/task.go\<close>: the Go interface
  \<open>Provider\<close> as a record of its methods over the provider's state, the \<open>BaseProvider\<close> that
  every provider embeds, and the laws the registry relies on as the locale
  \<open>provider_interface\<close>.
\<close>

section \<open>Tasks\<close>

record task_Result =
  res_Success :: bool
  res_Error :: gostring
  res_Data :: gvalue
  res_Timestamp :: int

section \<open>The interface\<close>

text \<open>
  A value of the interface is a state \<open>'p\<close> with the method table; \<open>UpdateConfig\<close> is the only
  method that changes the state. \<open>'t\<close> is the type of tasks.
\<close>

record ('p, 't) provider_ops =
  op_Name :: "'p \<Rightarrow> gostring"
  op_Capabilities :: "'p \<Rightarrow> Capability list"
  op_IsEnabled :: "'p \<Rightarrow> gmap \<Rightarrow> bool"
  op_GetTask :: "'p \<Rightarrow> gostring \<Rightarrow> 't option"
  op_UpdateConfig :: "'p \<Rightarrow> gostring \<Rightarrow> gmap \<Rightarrow> 'p"
  op_IsConfigured :: "'p \<Rightarrow> bool"

text \<open>The capability as the registry stores it: the provider's name fills an empty field.\<close>

definition stamp :: "gostring \<Rightarrow> Capability \<Rightarrow> Capability" where
  "stamp pname c = (if cap_Provider c = [] then c\<lparr>cap_Provider := pname\<rparr> else c)"

lemma stamp_name [simp]: "cap_Name (stamp p c) = cap_Name c"
  by (simp add: stamp_def)

text \<open>
  What the registry relies on: a configuration update changes neither the name nor the
  capabilities nor the tasks of a provider; a provider lists each capability once, and as its own.
\<close>

locale provider_interface =
  fixes ops :: "('p, 't) provider_ops"
    and okp :: "'p \<Rightarrow> bool"
  assumes wf_update: "okp p \<Longrightarrow> okp (op_UpdateConfig ops p n cfg)"
    and name_update: "okp p \<Longrightarrow> op_Name ops (op_UpdateConfig ops p n cfg) = op_Name ops p"
    and caps_update: "okp p \<Longrightarrow> op_Capabilities ops (op_UpdateConfig ops p n cfg) = op_Capabilities ops p"
    and task_update: "okp p \<Longrightarrow> op_GetTask ops (op_UpdateConfig ops p n cfg) = op_GetTask ops p"
    and name_nonempty: "okp p \<Longrightarrow> op_Name ops p \<noteq> []"
    and caps_distinct: "okp p \<Longrightarrow> distinct (map cap_Name (op_Capabilities ops p))"
    and caps_owned: "okp p \<Longrightarrow> c \<in> set (op_Capabilities ops p) \<Longrightarrow>
          cap_Provider c = [] \<or> cap_Provider c = op_Name ops p"
begin

lemma stamp_provider: "okp p \<Longrightarrow> c \<in> set (op_Capabilities ops p) \<Longrightarrow>
    cap_Provider (stamp (op_Name ops p) c) = op_Name ops p"
  using caps_owned by (auto simp: stamp_def)

end

section \<open>BaseProvider\<close>

record 't BaseProvider =
  ProviderName :: gostring
  ProviderCapabilities :: "Capability list"
  EnabledFunc :: "(gmap \<Rightarrow> bool) option"
  Tasks :: "(gostring \<times> 't) list"

definition BaseProvider_Name :: "'t BaseProvider \<Rightarrow> gostring" where
  "BaseProvider_Name p = ProviderName p"

text \<open>\<open>make\<close> and \<open>copy\<close>: the caller's list is not the provider's; as a value it is the same.\<close>

definition BaseProvider_Capabilities :: "'t BaseProvider \<Rightarrow> Capability list" where
  "BaseProvider_Capabilities p = ProviderCapabilities p"

definition BaseProvider_IsEnabled :: "'t BaseProvider \<Rightarrow> gmap \<Rightarrow> bool" where
  "BaseProvider_IsEnabled p config =
     (case EnabledFunc p of Some f \<Rightarrow> f config | None \<Rightarrow> True)"

definition BaseProvider_GetTask :: "'t BaseProvider \<Rightarrow> gostring \<Rightarrow> 't option" where
  "BaseProvider_GetTask p name = map_of (Tasks p) name"

definition BaseProvider_UpdateConfig :: "'t BaseProvider \<Rightarrow> gostring \<Rightarrow> gmap \<Rightarrow> 't BaseProvider" where
  "BaseProvider_UpdateConfig p capabilityName cfg = p"

definition BaseProvider_IsConfigured :: "'t BaseProvider \<Rightarrow> bool" where
  "BaseProvider_IsConfigured p = True"

definition base_ops :: "('t BaseProvider, 't) provider_ops" where
  "base_ops =
     \<lparr>op_Name = BaseProvider_Name, op_Capabilities = BaseProvider_Capabilities,
      op_IsEnabled = BaseProvider_IsEnabled, op_GetTask = BaseProvider_GetTask,
      op_UpdateConfig = BaseProvider_UpdateConfig, op_IsConfigured = BaseProvider_IsConfigured\<rparr>"

definition base_wf :: "'t BaseProvider \<Rightarrow> bool" where
  "base_wf p \<longleftrightarrow> ProviderName p \<noteq> [] \<and> distinct (map cap_Name (ProviderCapabilities p)) \<and>
     list_all (\<lambda>c. cap_Provider c = [] \<or> cap_Provider c = ProviderName p) (ProviderCapabilities p)"

lemmas base_ops_simps = base_ops_def BaseProvider_Name_def BaseProvider_Capabilities_def
  BaseProvider_IsEnabled_def BaseProvider_GetTask_def BaseProvider_UpdateConfig_def
  BaseProvider_IsConfigured_def

interpretation base: provider_interface base_ops base_wf
  by unfold_locales (auto simp: base_ops_simps base_wf_def list_all_iff)

end
