(* ===== verification/Registry.thy ===== *)
theory Registry
  imports Provider
begin

text \<open>
  \<open>internal/registry/registry.go\<close>: the capability registry. Its state is the three maps, the
  enabled patterns and whether a change callback is installed; a call of the callback is a value
  an operation returns (the list of capabilities it is given), and the lock is not modelled: each
  operation is one atomic step, which the write lock makes it (the callback runs after the last
  change of the operation).

  Go visits the entries of a map in any order. Operations that only build a list and sort it use
  the order of the association list; the two loops whose effect could depend on the order take
  it as the argument \<open>visit\<close>, and the theorems hold for every \<open>visit\<close> that permutes.
\<close>

section \<open>State\<close>

record ('p, 't) Registry =
  r_providers :: "(gostring \<times> 'p) list"
  r_capabilities :: "(gostring \<times> Capability) list"
  r_tasks :: "(gostring \<times> 't) list"
  r_enabledPatterns :: "gostring list"
  r_onChanged :: bool

datatype registry_error =
    ProviderIsNil
  | EnabledEntryNotString
  | EnabledNotStringList
  | ProviderCapability gostring gostring capability_error
  | DuplicateCapability gostring

definition Registry_New :: "('p, 't) Registry" where
  "Registry_New =
     \<lparr>r_providers = [], r_capabilities = [], r_tasks = [], r_enabledPatterns = [], r_onChanged = False\<rparr>"

definition SetOnCapabilitiesChanged :: "bool \<Rightarrow> ('p, 't) Registry \<Rightarrow> ('p, 't) Registry" where
  "SetOnCapabilitiesChanged fn r = r\<lparr>r_onChanged := fn\<rparr>"

section \<open>The enabled filter\<close>

definition pattern_enables :: "gostring \<Rightarrow> gostring \<Rightarrow> bool" where
  "pattern_enables name pattern =
     (if IsPattern pattern then Match name pattern = Inr True else pattern = name)"

definition isEnabledLocked :: "('p, 't) Registry \<Rightarrow> gostring \<Rightarrow> bool" where
  "isEnabledLocked r name =
     (if length (r_enabledPatterns r) = 0 then True
      else list_ex (pattern_enables name) (r_enabledPatterns r))"

text \<open>The entries of a list of \<open>any\<close>, all strings; \<open>None\<close> at the first that is not.\<close>

fun strings_of :: "gvalue list \<Rightarrow> gostring list option" where
  "strings_of [] = Some []"
| "strings_of (VString s # vs) = map_option (Cons s) (strings_of vs)"
| "strings_of (_ # vs) = None"

text \<open>The filter; \<open>Inr None\<close> is the nil slice, which leaves the registry's patterns alone.\<close>

definition slice_of :: "gostring list \<Rightarrow> gostring list option" where
  "slice_of vs = (if vs = [] then None else Some vs)"

definition parseEnabledFilter :: "gmap \<Rightarrow> registry_error + gostring list option" where
  "parseEnabledFilter cfg =
     (if length cfg = 0 then Inr None
      else (case map_of cfg ''enabled'' of
         None \<Rightarrow> Inr None
       | Some VNil \<Rightarrow> Inr None
       | Some (VStrings values) \<Rightarrow> Inr (slice_of values)
       | Some (VList values) \<Rightarrow>
           (case strings_of values of
              None \<Rightarrow> Inl EnabledEntryNotString | Some names \<Rightarrow> Inr (slice_of names))
       | Some _ \<Rightarrow> Inl EnabledNotStringList))"

section \<open>Queries\<close>

definition sortCapabilities :: "Capability list \<Rightarrow> Capability list" where
  "sortCapabilities caps = sort_key cap_Name caps"

definition IsEnabled :: "('p, 't) Registry \<Rightarrow> gostring \<Rightarrow> bool" where
  "IsEnabled r name \<longleftrightarrow> map_of (r_capabilities r) name \<noteq> None \<and> isEnabledLocked r name"

text \<open>The loop of \<open>ListEnabled\<close> and \<open>emitChangedLocked\<close>: the enabled entries, flag set.\<close>

definition enabled_caps :: "('p, 't) Registry \<Rightarrow> Capability list" where
  "enabled_caps r =
     map (\<lambda>e. (snd e)\<lparr>cap_Enabled := True\<rparr>)
       (filter (\<lambda>e. isEnabledLocked r (fst e)) (r_capabilities r))"

definition ListEnabled :: "('p, 't) Registry \<Rightarrow> Capability list" where
  "ListEnabled r = sortCapabilities (enabled_caps r)"

definition ListAll :: "('p, 't) Registry \<Rightarrow> Capability list" where
  "ListAll r =
     sortCapabilities (map (\<lambda>e. (snd e)\<lparr>cap_Enabled := isEnabledLocked r (fst e)\<rparr>) (r_capabilities r))"

definition Registry_Get :: "('p, 't) Registry \<Rightarrow> gostring \<Rightarrow> Capability option" where
  "Registry_Get r name =
     (case map_of (r_capabilities r) name of
        Some cap \<Rightarrow> Some (cap\<lparr>cap_Enabled := isEnabledLocked r name\<rparr>) | None \<Rightarrow> None)"

definition Registry_GetTask :: "('p, 't) Registry \<Rightarrow> gostring \<Rightarrow> 't option" where
  "Registry_GetTask r name = map_of (r_tasks r) name"

definition hasAnyCapabilityLocked :: "('p, 't) Registry \<Rightarrow> gostring \<Rightarrow> bool" where
  "hasAnyCapabilityLocked r providerName =
     list_ex (\<lambda>e. cap_Provider (snd e) = providerName) (r_capabilities r)"

text \<open>What \<open>emitChangedLocked\<close> gives the callback; \<open>None\<close> when there is none.\<close>

definition emitChangedLocked :: "('p, 't) Registry \<Rightarrow> Capability list option" where
  "emitChangedLocked r =
     (if \<not> r_onChanged r then None else Some (sortCapabilities (enabled_caps r)))"

section \<open>Registering a provider\<close>

definition put_task :: "gostring \<Rightarrow> 't option \<Rightarrow> ('p, 't) Registry \<Rightarrow> ('p, 't) Registry" where
  "put_task name t r = (case t of Some t' \<Rightarrow> r\<lparr>r_tasks := AList.update name t' (r_tasks r)\<rparr> | None \<Rightarrow> r)"

definition put_capability :: "Capability \<Rightarrow> ('p, 't) Registry \<Rightarrow> ('p, 't) Registry" where
  "put_capability cap r = r\<lparr>r_capabilities := AList.update (cap_Name cap) cap (r_capabilities r)\<rparr>"

definition add_capability ::
  "('p, 't) provider_ops \<Rightarrow> 'p \<Rightarrow> Capability \<Rightarrow> ('p, 't) Registry \<Rightarrow> ('p, 't) Registry" where
  "add_capability ops p cap r =
     put_task (cap_Name cap) (op_GetTask ops p (cap_Name cap))
       (put_capability (stamp (op_Name ops p) cap) r)"

text \<open>
  The loop over the provider's capabilities; it stops at the first error and keeps what it has
  registered up to there.
\<close>

fun register_capabilities ::
  "('p, 't) provider_ops \<Rightarrow> 'p \<Rightarrow> Capability list \<Rightarrow> ('p, 't) Registry \<Rightarrow>
     registry_error option \<times> ('p, 't) Registry" where
  "register_capabilities ops p [] r = (None, r)"
| "register_capabilities ops p (cap # caps) r =
     (case Capability_Validate cap of
        Some err \<Rightarrow> (Some (ProviderCapability (op_Name ops p) (cap_Name cap) err), r)
      | None \<Rightarrow>
          (if map_of (r_capabilities r) (cap_Name cap) \<noteq> None
           then (Some (DuplicateCapability (cap_Name cap)), r)
           else register_capabilities ops p caps (add_capability ops p cap r)))"

definition RegisterProvider ::
  "('p, 't) provider_ops \<Rightarrow> 'p option \<Rightarrow> gmap \<Rightarrow> ('p, 't) Registry \<Rightarrow>
     registry_error option \<times> ('p, 't) Registry \<times> Capability list option" where
  "RegisterProvider ops provider cfg r =
     (case provider of
        None \<Rightarrow> (Some ProviderIsNil, r, None)
      | Some p \<Rightarrow>
          (if \<not> op_IsEnabled ops p cfg then (None, r, None)
           else (case parseEnabledFilter cfg of
              Inl err \<Rightarrow> (Some err, r, None)
            | Inr enabledPatterns \<Rightarrow>
                (let r1 = (case enabledPatterns of Some ps \<Rightarrow> r\<lparr>r_enabledPatterns := ps\<rparr> | None \<Rightarrow> r);
                     r2 = (if map_of (r_providers r1) (op_Name ops p) \<noteq> None then r1
                           else r1\<lparr>r_providers := AList.update (op_Name ops p) p (r_providers r1)\<rparr>)
                 in case register_capabilities ops p (op_Capabilities ops p) r2 of
                      (Some err, r3) \<Rightarrow> (Some err, r3, None)
                    | (None, r3) \<Rightarrow> (None, r3, emitChangedLocked r3)))))"

section \<open>Online configuration\<close>

text \<open>The provider a capability name belongs to; \<open>keys\<close> is the order of the visit.\<close>

definition findProviderByCapability :: "gostring list \<Rightarrow> gostring \<Rightarrow> gostring" where
  "findProviderByCapability keys capabilityName =
     (if capabilityName \<in> set keys then capabilityName
      else (case find (\<lambda>pn. pn \<noteq> [] \<and> HasPrefix capabilityName (pn @ ''.'')) keys of
         Some pn \<Rightarrow> pn | None \<Rightarrow> []))"

definition update_provider ::
  "('p, 't) provider_ops \<Rightarrow> gostring \<Rightarrow> gostring \<Rightarrow> gmap option \<Rightarrow> ('p, 't) Registry \<Rightarrow> ('p, 't) Registry" where
  "update_provider ops providerName name cfg r =
     (case map_of (r_providers r) providerName of
        None \<Rightarrow> r
      | Some p \<Rightarrow>
          (case cfg of
             None \<Rightarrow> r
           | Some c \<Rightarrow> r\<lparr>r_providers := AList.update providerName (op_UpdateConfig ops p name c) (r_providers r)\<rparr>))"

definition apply_manifest ::
  "('p, 't) provider_ops \<Rightarrow> gostring list \<Rightarrow> CapabilityManifest \<Rightarrow> ('p, 't) Registry \<Rightarrow> ('p, 't) Registry" where
  "apply_manifest ops keys manifest r =
     (let name = cm_Name manifest in
      case map_of (r_capabilities r) name of
        None \<Rightarrow>
          (let providerName = findProviderByCapability keys name
           in if providerName \<noteq> [] then update_provider ops providerName name (cm_Config manifest) r else r)
      | Some cap \<Rightarrow>
          (if cap_Provider cap = [] then r
           else update_provider ops (cap_Provider cap) name (cm_Config manifest) r))"

text \<open>The i-th manifest sees the providers in the order \<open>visit i\<close> gives.\<close>

fun apply_manifests ::
  "('p, 't) provider_ops \<Rightarrow> (nat \<Rightarrow> gostring list \<Rightarrow> gostring list) \<Rightarrow> nat \<Rightarrow> CapabilityManifest list \<Rightarrow>
     ('p, 't) Registry \<Rightarrow> ('p, 't) Registry" where
  "apply_manifests ops visit i [] r = r"
| "apply_manifests ops visit i (m # ms) r =
     apply_manifests ops visit (Suc i) ms
       (apply_manifest ops (visit i (map fst (r_providers r))) m r)"

definition add_capabilities ::
  "('p, 't) provider_ops \<Rightarrow> 'p \<Rightarrow> ('p, 't) Registry \<Rightarrow> ('p, 't) Registry" where
  "add_capabilities ops p r = fold (add_capability ops p) (op_Capabilities ops p) r"

definition remove_capability :: "Capability \<Rightarrow> ('p, 't) Registry \<Rightarrow> ('p, 't) Registry" where
  "remove_capability cap r =
     r\<lparr>r_capabilities := AList.delete (cap_Name cap) (r_capabilities r),
       r_tasks := AList.delete (cap_Name cap) (r_tasks r)\<rparr>"

definition remove_capabilities ::
  "('p, 't) provider_ops \<Rightarrow> 'p \<Rightarrow> ('p, 't) Registry \<Rightarrow> ('p, 't) Registry" where
  "remove_capabilities ops p r = fold remove_capability (op_Capabilities ops p) r"

text \<open>One turn of the second loop: the registry and whether anything changed.\<close>

definition reevaluate ::
  "('p, 't) provider_ops \<Rightarrow> 'p \<Rightarrow> ('p, 't) Registry \<times> bool \<Rightarrow> ('p, 't) Registry \<times> bool" where
  "reevaluate ops p = (\<lambda>(r, changed).
     (let wasConfigured = hasAnyCapabilityLocked r (op_Name ops p); isConfigured = op_IsConfigured ops p
      in if wasConfigured = isConfigured then (r, changed)
         else if isConfigured then (add_capabilities ops p r, True)
         else (remove_capabilities ops p r, True)))"

definition reevaluate_key ::
  "('p, 't) provider_ops \<Rightarrow> gostring \<Rightarrow> ('p, 't) Registry \<times> bool \<Rightarrow> ('p, 't) Registry \<times> bool" where
  "reevaluate_key ops k s =
     (case map_of (r_providers (fst s)) k of None \<Rightarrow> s | Some p \<Rightarrow> reevaluate ops p s)"

definition ApplyOnlineConfig ::
  "('p, 't) provider_ops \<Rightarrow> (nat \<Rightarrow> gostring list \<Rightarrow> gostring list) \<Rightarrow> CapabilityManifest list \<Rightarrow>
     ('p, 't) Registry \<Rightarrow> ('p, 't) Registry \<times> Capability list option" where
  "ApplyOnlineConfig ops visit manifests r =
     (let r1 = apply_manifests ops visit 0 manifests r;
          (r2, changed) =
            fold (reevaluate_key ops) (visit (length manifests) (map fst (r_providers r1))) (r1, False)
      in (r2, if changed then emitChangedLocked r2 else None))"

section \<open>The listing\<close>

text \<open>
  The structural invariant: each map has its keys once, a capability is stored under its name,
  a task only under the name of a stored capability.
\<close>

definition reg_shape :: "('p, 't) Registry \<Rightarrow> bool" where
  "reg_shape r \<longleftrightarrow> distinct_keys (r_providers r) \<and> distinct_keys (r_capabilities r) \<and>
     distinct_keys (r_tasks r) \<and> (\<forall>(n, c) \<in> set (r_capabilities r). cap_Name c = n) \<and>
     fst ` set (r_tasks r) \<subseteq> fst ` set (r_capabilities r)"

lemma isEnabledLocked_cong:
  "r_enabledPatterns r = r_enabledPatterns r' \<Longrightarrow> isEnabledLocked r = isEnabledLocked r'"
  by (simp add: isEnabledLocked_def fun_eq_iff)

lemma emitChangedLocked_ListEnabled:
  "emitChangedLocked r = (if r_onChanged r then Some (ListEnabled r) else None)"
  by (simp add: emitChangedLocked_def ListEnabled_def)

lemma reg_shape_name: "reg_shape r \<Longrightarrow> map_of (r_capabilities r) n = Some c \<Longrightarrow> cap_Name c = n"
  by (auto simp: reg_shape_def dest: map_of_SomeD)

lemma mem_ListEnabled:
  "c \<in> set (ListEnabled r) \<longleftrightarrow>
     (\<exists>n c0. (n, c0) \<in> set (r_capabilities r) \<and> isEnabledLocked r n \<and> c = c0\<lparr>cap_Enabled := True\<rparr>)"
  by (force simp: ListEnabled_def sortCapabilities_def enabled_caps_def image_iff)

lemma names_enabled_caps:
  assumes "reg_shape r"
  shows "map cap_Name (enabled_caps r) = filter (isEnabledLocked r) (map fst (r_capabilities r))"
proof -
  have "map cap_Name (enabled_caps r) =
      map (\<lambda>e. cap_Name (snd e)) (filter (\<lambda>e. isEnabledLocked r (fst e)) (r_capabilities r))"
    by (simp add: enabled_caps_def comp_def)
  also have "\<dots> = map fst (filter (\<lambda>e. isEnabledLocked r (fst e)) (r_capabilities r))"
    using assms by (auto simp: reg_shape_def)
  finally show ?thesis by (simp add: filter_map comp_def)
qed

lemma distinct_enabled_caps: "reg_shape r \<Longrightarrow> distinct (map cap_Name (enabled_caps r))"
  by (simp add: names_enabled_caps reg_shape_def)

text \<open>
  \<open>ListEnabled\<close> is the sorted, duplicate-free list of exactly the capabilities that
  \<open>Get\<close> returns as enabled, each with the flag set.
\<close>

theorem ListEnabled_spec:
  assumes "reg_shape r"
  shows "sorted (map cap_Name (ListEnabled r)) \<and> distinct (map cap_Name (ListEnabled r)) \<and>
    (\<forall>c. c \<in> set (ListEnabled r) \<longleftrightarrow> Registry_Get r (cap_Name c) = Some c \<and> cap_Enabled c)"
proof (intro conjI allI)
  show "sorted (map cap_Name (ListEnabled r))"
    by (simp add: ListEnabled_def sortCapabilities_def)
  show "distinct (map cap_Name (ListEnabled r))"
    using distinct_enabled_caps [OF assms]
    by (simp add: ListEnabled_def sortCapabilities_def distinct_map)
  fix c
  have keys: "distinct_keys (r_capabilities r)" using assms by (simp add: reg_shape_def)
  show "c \<in> set (ListEnabled r) \<longleftrightarrow> Registry_Get r (cap_Name c) = Some c \<and> cap_Enabled c"
  proof
    assume "c \<in> set (ListEnabled r)"
    then obtain n c0 where c0: "(n, c0) \<in> set (r_capabilities r)" "isEnabledLocked r n"
      and c: "c = c0\<lparr>cap_Enabled := True\<rparr>"
      by (auto simp: mem_ListEnabled)
    have m: "map_of (r_capabilities r) n = Some c0"
      using distinct_keys_mem_iff [OF keys] c0(1) by blast
    then have "cap_Name c0 = n" by (rule reg_shape_name [OF assms])
    with m show "Registry_Get r (cap_Name c) = Some c \<and> cap_Enabled c"
      using c0(2) c by (simp add: Registry_Get_def)
  next
    assume get: "Registry_Get r (cap_Name c) = Some c \<and> cap_Enabled c"
    then obtain c0 where m: "map_of (r_capabilities r) (cap_Name c) = Some c0"
      and c: "c0\<lparr>cap_Enabled := isEnabledLocked r (cap_Name c)\<rparr> = c"
      by (auto simp: Registry_Get_def split: option.splits)
    from arg_cong [OF c, of cap_Enabled] get have en: "isEnabledLocked r (cap_Name c)" by simp
    with m c show "c \<in> set (ListEnabled r)"
      unfolding mem_ListEnabled by (metis map_of_SomeD)
  qed
qed

text \<open>A registry of two capabilities, one of them enabled.\<close>

definition sample_cap :: "gostring \<Rightarrow> Capability" where
  "sample_cap name =
     \<lparr>cap_Name = name, cap_Version = ''v1'', cap_Description = [], cap_Provider = ''linux'',
      cap_ParametersJSONSchema = [], cap_Config = [], cap_ConfigSummary = [], cap_Enabled = False,
      cap_UseCases = [], cap_Aliases = [], cap_Tags = []\<rparr>"

definition sample_Registry :: "(unit, unit) Registry" where
  "sample_Registry =
     (put_capability (sample_cap ''linux.a'') (put_capability (sample_cap ''linux.b'') Registry_New))
       \<lparr>r_enabledPatterns := [''linux.b'']\<rparr>"

theorem ListEnabled_spec_witness:
  "Registry_Get sample_Registry ''linux.b'' = Some ((sample_cap ''linux.b'')\<lparr>cap_Enabled := True\<rparr>) \<and>
   sorted (map cap_Name (ListEnabled sample_Registry)) \<and> distinct (map cap_Name (ListEnabled sample_Registry)) \<and>
    (\<forall>c. c \<in> set (ListEnabled sample_Registry) \<longleftrightarrow>
       Registry_Get sample_Registry (cap_Name c) = Some c \<and> cap_Enabled c)"
proof (intro conjI)
  show "Registry_Get sample_Registry ''linux.b'' = Some ((sample_cap ''linux.b'')\<lparr>cap_Enabled := True\<rparr>)"
    by code_simp
  have "reg_shape sample_Registry"
    by (simp add: reg_shape_def sample_Registry_def put_capability_def sample_cap_def Registry_New_def)
  from ListEnabled_spec [OF this] show "sorted (map cap_Name (ListEnabled sample_Registry))"
    "distinct (map cap_Name (ListEnabled sample_Registry))"
    "\<forall>c. c \<in> set (ListEnabled sample_Registry) \<longleftrightarrow>
       Registry_Get sample_Registry (cap_Name c) = Some c \<and> cap_Enabled c"
    by blast+
qed
text \<open>The listing does not depend on the order in which the map is visited.\<close>

lemma ListEnabled_map_cong:
  fixes r r' :: "('p, 't) Registry"
  assumes "reg_shape r" "reg_shape r'" "map_of (r_capabilities r) = map_of (r_capabilities r')"
    and "r_enabledPatterns r = r_enabledPatterns r'"
  shows "ListEnabled r = ListEnabled r'"
proof -
  have en: "isEnabledLocked r = isEnabledLocked r'" by (rule isEnabledLocked_cong) fact
  have eq: "set (r_capabilities r) = set (r_capabilities r')"
    using assms by (intro map_of_eq_imp_set_eq) (simp_all add: reg_shape_def)
  show ?thesis
    unfolding ListEnabled_def sortCapabilities_def
  proof (rule sort_key_set_cong)
    show "distinct (enabled_caps r)" "inj_on cap_Name (set (enabled_caps r))"
      using distinct_enabled_caps [OF assms(1)] unfolding distinct_map by blast+
    show "distinct (enabled_caps r')"
      using distinct_enabled_caps [OF assms(2)] unfolding distinct_map by blast
    show "set (enabled_caps r) = set (enabled_caps r')" by (simp add: enabled_caps_def en eq)
  qed
qed

end
