(* ===== verification/Registry_Online.thy ===== *)
theory Registry_Online
  imports Registry
begin

text \<open>
  The registry's invariant and the two operations that change it. The lemmas are proved once
  inside the locale \<open>provider_interface\<close>, from the laws of a provider alone; the theories of
  the providers interpret it.

  \<^item> \<open>reg_inv\<close>: the shape of the maps, and the ownership of capabilities: a stored
    capability names a stored provider that lists it, and no two stored providers list the same
    name.
  \<^item> \<open>ApplyOnlineConfig\<close> in closed form: which entries the re-evaluation loop leaves, adds
    and removes, whatever the order of its visit.
\<close>

section \<open>Ownership\<close>

definition names_of :: "('p, 't) provider_ops \<Rightarrow> 'p \<Rightarrow> gostring set" where
  "names_of ops p = cap_Name ` set (op_Capabilities ops p)"

definition own_entries :: "('p, 't) provider_ops \<Rightarrow> 'p \<Rightarrow> (gostring \<times> Capability) list" where
  "own_entries ops p = map (\<lambda>c. (cap_Name c, stamp (op_Name ops p) c)) (op_Capabilities ops p)"

definition reg_inv :: "('p, 't) provider_ops \<Rightarrow> ('p \<Rightarrow> bool) \<Rightarrow> ('p, 't) Registry \<Rightarrow> bool" where
  "reg_inv ops okp r \<longleftrightarrow> reg_shape r \<and>
     (\<forall>k p. map_of (r_providers r) k = Some p \<longrightarrow> okp p \<and> op_Name ops p = k) \<and>
     (\<forall>n c. map_of (r_capabilities r) n = Some c \<longrightarrow>
        (\<exists>p. map_of (r_providers r) (cap_Provider c) = Some p \<and> n \<in> names_of ops p \<and>
           map_of (r_tasks r) n = op_GetTask ops p n)) \<and>
     (\<forall>k p l q. map_of (r_providers r) k = Some p \<longrightarrow> map_of (r_providers r) l = Some q \<longrightarrow> k \<noteq> l \<longrightarrow>
        names_of ops p \<inter> names_of ops q = {})"

lemma reg_inv_shape: "reg_inv ops okp r \<Longrightarrow> reg_shape r"
  by (simp add: reg_inv_def)

lemma reg_inv_wf: "reg_inv ops okp r \<Longrightarrow> map_of (r_providers r) k = Some p \<Longrightarrow> okp p"
  by (simp add: reg_inv_def)

lemma reg_inv_key: "reg_inv ops okp r \<Longrightarrow> map_of (r_providers r) k = Some p \<Longrightarrow> op_Name ops p = k"
  by (simp add: reg_inv_def)

lemma reg_inv_owner:
  "reg_inv ops okp r \<Longrightarrow> map_of (r_capabilities r) n = Some c \<Longrightarrow>
     \<exists>p. map_of (r_providers r) (cap_Provider c) = Some p \<and> n \<in> names_of ops p"
  by (fastforce simp: reg_inv_def)

lemma reg_inv_task:
  "reg_inv ops okp r \<Longrightarrow> map_of (r_capabilities r) n = Some c \<Longrightarrow>
     map_of (r_providers r) (cap_Provider c) = Some p \<Longrightarrow> map_of (r_tasks r) n = op_GetTask ops p n"
  by (fastforce simp: reg_inv_def)

lemma reg_inv_disjoint:
  "reg_inv ops okp r \<Longrightarrow> map_of (r_providers r) k = Some p \<Longrightarrow> map_of (r_providers r) l = Some q \<Longrightarrow>
     n \<in> names_of ops p \<Longrightarrow> n \<in> names_of ops q \<Longrightarrow> k = l"
  by (fastforce simp: reg_inv_def)

lemma reg_inv_New: "reg_inv ops okp Registry_New"
  by (simp add: reg_inv_def reg_shape_def Registry_New_def)

text \<open>Each stored provider has all of its capabilities stored or none.\<close>

definition all_or_none :: "('p, 't) provider_ops \<Rightarrow> ('p, 't) Registry \<Rightarrow> bool" where
  "all_or_none ops r \<longleftrightarrow> (\<forall>k p. map_of (r_providers r) k = Some p \<longrightarrow>
     names_of ops p \<subseteq> dom (map_of (r_capabilities r)) \<or> names_of ops p \<inter> dom (map_of (r_capabilities r)) = {})"

text \<open>An order of visit: any permutation of the keys, a new one for each loop.\<close>

definition permuting :: "(nat \<Rightarrow> 'a list \<Rightarrow> 'a list) \<Rightarrow> bool" where
  "permuting visit \<longleftrightarrow> (\<forall>i ks. mset (visit i ks) = mset ks)"

lemma hasAny_iff:
  assumes "reg_shape r"
  shows "hasAnyCapabilityLocked r pn \<longleftrightarrow>
     (\<exists>n c. map_of (r_capabilities r) n = Some c \<and> cap_Provider c = pn)"
proof -
  have keys: "distinct_keys (r_capabilities r)" using assms by (simp add: reg_shape_def)
  have "hasAnyCapabilityLocked r pn \<longleftrightarrow> (\<exists>n c. (n, c) \<in> set (r_capabilities r) \<and> cap_Provider c = pn)"
    unfolding hasAnyCapabilityLocked_def list_ex_iff by force
  then show ?thesis by (simp only: distinct_keys_mem_iff [OF keys])
qed

section \<open>Adding and removing the capabilities of a provider\<close>

lemma map_of_own_entries:
  "map_of (own_entries ops p) n = Some c \<Longrightarrow>
     n \<in> names_of ops p \<and> cap_Name c = n \<and> (\<exists>c0 \<in> set (op_Capabilities ops p). c = stamp (op_Name ops p) c0)"
  by (auto simp: own_entries_def names_of_def dest!: map_of_SomeD)

lemma map_of_own_entries_None: "map_of (own_entries ops p) n = None \<longleftrightarrow> n \<notin> names_of ops p"
  by (auto simp: own_entries_def names_of_def map_of_eq_None_iff image_image)

lemma add_capability_fields [record_simps]:
  "r_providers (add_capability ops p c r) = r_providers r"
  "r_enabledPatterns (add_capability ops p c r) = r_enabledPatterns r"
  "r_onChanged (add_capability ops p c r) = r_onChanged r"
  by (simp_all add: add_capability_def put_task_def put_capability_def split: option.splits)

lemma map_of_add_capability:
  "map_of (r_capabilities (add_capability ops p c r)) =
     (map_of (r_capabilities r))(cap_Name c \<mapsto> stamp (op_Name ops p) c)"
  by (simp add: add_capability_def put_task_def put_capability_def split: option.splits)

lemma remove_capability_fields [record_simps]:
  "r_providers (remove_capability c r) = r_providers r"
  "r_enabledPatterns (remove_capability c r) = r_enabledPatterns r"
  "r_onChanged (remove_capability c r) = r_onChanged r"
  by (simp_all add: remove_capability_def)

lemma reg_shape_iff:
  "reg_shape r \<longleftrightarrow> distinct_keys (r_providers r) \<and> distinct_keys (r_capabilities r) \<and>
     distinct_keys (r_tasks r) \<and> (\<forall>n c. map_of (r_capabilities r) n = Some c \<longrightarrow> cap_Name c = n) \<and>
     dom (map_of (r_tasks r)) \<subseteq> dom (map_of (r_capabilities r))"
proof (cases "distinct_keys (r_capabilities r)")
  case True
  have "(\<forall>(n, c) \<in> set (r_capabilities r). cap_Name c = n) \<longleftrightarrow>
      (\<forall>n c. (n, c) \<in> set (r_capabilities r) \<longrightarrow> cap_Name c = n)" by auto
  then show ?thesis
    unfolding distinct_keys_mem_iff [OF True] by (simp add: reg_shape_def dom_map_of_conv_image_fst)
qed (simp add: reg_shape_def)

lemma reg_shape_add_capability:
  "reg_shape r \<Longrightarrow> reg_shape (add_capability ops p c r)"
  by (auto simp: reg_shape_iff add_capability_def put_task_def put_capability_def split: option.splits)

lemma reg_shape_remove_capability: "reg_shape r \<Longrightarrow> reg_shape (remove_capability c r)"
  by (auto simp: reg_shape_iff remove_capability_def)

lemma fold_add_capability_fields [record_simps]:
  "r_providers (fold (add_capability ops p) cs r) = r_providers r"
  "r_enabledPatterns (fold (add_capability ops p) cs r) = r_enabledPatterns r"
  "r_onChanged (fold (add_capability ops p) cs r) = r_onChanged r"
  by (induction cs arbitrary: r) (simp_all add: record_simps)

lemma fold_remove_capability_fields [record_simps]:
  "r_providers (fold remove_capability cs r) = r_providers r"
  "r_enabledPatterns (fold remove_capability cs r) = r_enabledPatterns r"
  "r_onChanged (fold remove_capability cs r) = r_onChanged r"
  by (induction cs arbitrary: r) (simp_all add: record_simps)

lemma reg_shape_fold_add: "reg_shape r \<Longrightarrow> reg_shape (fold (add_capability ops p) cs r)"
  by (induction cs arbitrary: r) (simp_all add: reg_shape_add_capability)

lemma reg_shape_fold_remove: "reg_shape r \<Longrightarrow> reg_shape (fold remove_capability cs r)"
  by (induction cs arbitrary: r) (simp_all add: reg_shape_remove_capability)

lemma map_of_fold_add:
  "distinct (map cap_Name cs) \<Longrightarrow>
     map_of (r_capabilities (fold (add_capability ops p) cs r)) =
     map_of (r_capabilities r) ++ map_of (map (\<lambda>c. (cap_Name c, stamp (op_Name ops p) c)) cs)"
proof (induction cs arbitrary: r)
  case (Cons c cs)
  have fresh: "map_of (map (\<lambda>c. (cap_Name c, stamp (op_Name ops p) c)) cs) (cap_Name c) = None"
    using Cons.prems by (auto simp: map_of_eq_None_iff)
  from Cons have "map_of (r_capabilities (fold (add_capability ops p) (c # cs) r)) =
      (map_of (r_capabilities r))(cap_Name c \<mapsto> stamp (op_Name ops p) c) ++
        map_of (map (\<lambda>c. (cap_Name c, stamp (op_Name ops p) c)) cs)"
    by (simp add: map_of_add_capability)
  with fresh show ?case by (auto simp: fun_eq_iff map_add_def split: option.splits)
qed simp

lemma map_of_fold_remove:
  "map_of (r_capabilities (fold remove_capability cs r)) n =
    (if n \<in> cap_Name ` set cs then None else map_of (r_capabilities r) n)"
  by (induction cs arbitrary: r) (auto simp: remove_capability_def)

lemma map_of_fold_remove_tasks:
  "map_of (r_tasks (fold remove_capability cs r)) n =
    (if n \<in> cap_Name ` set cs then None else map_of (r_tasks r) n)"
  by (induction cs arbitrary: r) (auto simp: remove_capability_def)

lemma map_of_add_capability_tasks:
  "map_of (r_tasks (add_capability ops p c r)) n =
     (if n = cap_Name c \<and> op_GetTask ops p n \<noteq> None then op_GetTask ops p n else map_of (r_tasks r) n)"
  by (auto simp: add_capability_def put_task_def put_capability_def split: option.splits)

lemma map_of_fold_add_tasks:
  "map_of (r_tasks (fold (add_capability ops p) cs r)) n =
     (if n \<in> cap_Name ` set cs \<and> op_GetTask ops p n \<noteq> None then op_GetTask ops p n
      else map_of (r_tasks r) n)"
  by (induction cs arbitrary: r) (auto simp: map_of_add_capability_tasks)

lemma reg_shape_no_task:
  "reg_shape r \<Longrightarrow> map_of (r_capabilities r) n = None \<Longrightarrow> map_of (r_tasks r) n = None"
  by (auto simp: reg_shape_iff dom_def)

section \<open>The re-evaluation loop\<close>

definition toggled :: "('p, 't) provider_ops \<Rightarrow> ('p, 't) Registry \<Rightarrow> 'p \<Rightarrow> bool" where
  "toggled ops r p \<longleftrightarrow> hasAnyCapabilityLocked r (op_Name ops p) \<noteq> op_IsConfigured ops p"

definition settled_entry :: "('p, 't) provider_ops \<Rightarrow> 'p \<Rightarrow> gostring \<Rightarrow> Capability option" where
  "settled_entry ops p n = (if op_IsConfigured ops p then map_of (own_entries ops p) n else None)"

definition settled_task :: "('p, 't) provider_ops \<Rightarrow> 'p \<Rightarrow> gostring \<Rightarrow> 't option" where
  "settled_task ops p n = (if op_IsConfigured ops p then op_GetTask ops p n else None)"

lemma hasAny_frame:
  assumes "reg_inv ops okp r" "reg_inv ops okp r'" "r_providers r' = r_providers r"
    and "map_of (r_providers r) k = Some p" "map_of (r_providers r) l = Some q" "k \<noteq> l"
    and "\<And>n. n \<notin> names_of ops q \<Longrightarrow> map_of (r_capabilities r') n = map_of (r_capabilities r) n"
  shows "hasAnyCapabilityLocked r' k = hasAnyCapabilityLocked r k"
proof -
  have outside: "n \<notin> names_of ops q"
    if "reg_inv ops okp x" "r_providers x = r_providers r"
      "map_of (r_capabilities x) n = Some c" "cap_Provider c = k" for x n c
    using reg_inv_owner [OF that(1,3)] that(2,4) assms(4,5,6) reg_inv_disjoint [OF assms(1)] by metis
  show ?thesis
    unfolding hasAny_iff [OF reg_inv_shape [OF assms(1)]] hasAny_iff [OF reg_inv_shape [OF assms(2)]]
    using outside [OF assms(1)] outside [OF assms(2)] assms(3,7) by metis
qed

context provider_interface
begin

lemma own_entry_provider:
  "okp p \<Longrightarrow> map_of (own_entries ops p) n = Some c \<Longrightarrow> cap_Provider c = op_Name ops p"
  by (auto dest!: map_of_own_entries simp: stamp_provider)

lemma reevaluate_toggled:
  assumes inv: "reg_inv ops okp r" and p: "map_of (r_providers r) k = Some p" and t: "toggled ops r p"
  obtains r' where "reevaluate ops p (r, ch) = (r', True)" "reg_inv ops okp r'"
    "r_providers r' = r_providers r" "r_enabledPatterns r' = r_enabledPatterns r"
    "r_onChanged r' = r_onChanged r"
    "\<And>n. map_of (r_capabilities r') n =
       (if n \<in> names_of ops p then settled_entry ops p n else map_of (r_capabilities r) n)"
    "\<And>n. map_of (r_tasks r') n =
       (if n \<in> names_of ops p then settled_task ops p n else map_of (r_tasks r) n)"
proof -
  let ?r = "if op_IsConfigured ops p then add_capabilities ops p r else remove_capabilities ops p r"
  have ok: "okp p" and key: "op_Name ops p = k" using inv p by (auto dest: reg_inv_wf reg_inv_key)
  have step: "reevaluate ops p (r, ch) = (?r, True)"
    using t by (auto simp: reevaluate_def toggled_def Let_def)
  have fields: "r_providers ?r = r_providers r" "r_enabledPatterns ?r = r_enabledPatterns r"
    "r_onChanged ?r = r_onChanged r"
    by (simp_all add: add_capabilities_def remove_capabilities_def record_simps)
  have caps: "map_of (r_capabilities ?r) n =
       (if n \<in> names_of ops p then settled_entry ops p n else map_of (r_capabilities r) n)" for n
    using map_of_fold_add [OF caps_distinct [OF ok], of ops p r] map_of_own_entries_None [of ops p n]
    by (auto simp: add_capabilities_def remove_capabilities_def map_of_fold_remove settled_entry_def
        names_of_def own_entries_def map_add_def split: option.splits)
  have none: "map_of (r_tasks r) n = None" if "op_IsConfigured ops p" "n \<in> names_of ops p" for n
  proof (rule reg_shape_no_task [OF reg_inv_shape [OF inv]], rule ccontr)
    assume "map_of (r_capabilities r) n \<noteq> None"
    then obtain c where c: "map_of (r_capabilities r) n = Some c" by blast
    from reg_inv_owner [OF inv c] p that(2) have "cap_Provider c = k"
      using reg_inv_disjoint [OF inv] by blast
    with c t that(1) key show False
      by (auto simp: toggled_def hasAny_iff [OF reg_inv_shape [OF inv]])
  qed
  have tasks: "map_of (r_tasks ?r) n =
       (if n \<in> names_of ops p then settled_task ops p n else map_of (r_tasks r) n)" for n
    using none [of n]
    by (auto simp: add_capabilities_def remove_capabilities_def map_of_fold_remove_tasks
        map_of_fold_add_tasks settled_task_def names_of_def)
  have shape: "reg_shape ?r"
    using reg_inv_shape [OF inv]
    by (simp add: add_capabilities_def remove_capabilities_def reg_shape_fold_add reg_shape_fold_remove)
  have "reg_inv ops okp ?r"
    unfolding reg_inv_def
  proof (intro conjI)
    show "\<forall>n c. map_of (r_capabilities ?r) n = Some c \<longrightarrow>
        (\<exists>q. map_of (r_providers ?r) (cap_Provider c) = Some q \<and> n \<in> names_of ops q \<and>
           map_of (r_tasks ?r) n = op_GetTask ops q n)"
    proof (intro allI impI)
      fix n c
      assume c: "map_of (r_capabilities ?r) n = Some c"
      show "\<exists>q. map_of (r_providers ?r) (cap_Provider c) = Some q \<and> n \<in> names_of ops q \<and>
          map_of (r_tasks ?r) n = op_GetTask ops q n"
      proof (cases "n \<in> names_of ops p")
        case True
        with c have "op_IsConfigured ops p" "cap_Provider c = k"
          using own_entry_provider [OF ok] key by (auto simp: caps settled_entry_def split: if_splits)
        with True p show ?thesis unfolding tasks fields by (auto simp: settled_task_def)
      next
        case False
        with c have c': "map_of (r_capabilities r) n = Some c" by (simp add: caps)
        from reg_inv_owner [OF inv c'] reg_inv_task [OF inv c'] False show ?thesis
          unfolding tasks fields by auto
      qed
    qed
  qed (use shape inv in \<open>auto simp: fields reg_inv_def\<close>)
  from that [OF step this fields caps tasks] show ?thesis .
qed

lemma reevaluate_untoggled:
  "\<not> toggled ops r p \<Longrightarrow> reevaluate ops p (r, ch) = (r, ch)"
  by (simp add: reevaluate_def toggled_def Let_def)

text \<open>After its turn a provider that lists a capability has one stored exactly if it is configured.\<close>

lemma reevaluate_settles:
  assumes "reg_inv ops okp r" "map_of (r_providers r) k = Some p" "op_Capabilities ops p \<noteq> []"
  shows "hasAnyCapabilityLocked (fst (reevaluate ops p (r, ch))) k = op_IsConfigured ops p"
proof (cases "toggled ops r p")
  case False
  then show ?thesis
    using reg_inv_key [OF assms(1,2)] by (auto simp: reevaluate_untoggled toggled_def)
next
  case True
  from reevaluate_toggled [OF assms(1,2) True] obtain r' where r': "reevaluate ops p (r, ch) = (r', True)"
    and inv': "reg_inv ops okp r'" and provs: "r_providers r' = r_providers r"
    and caps: "\<And>n. map_of (r_capabilities r') n =
       (if n \<in> names_of ops p then settled_entry ops p n else map_of (r_capabilities r) n)" by metis
  have ok: "okp p" and key: "op_Name ops p = k" using assms by (auto dest: reg_inv_wf reg_inv_key)
  have "hasAnyCapabilityLocked r' k \<longleftrightarrow> op_IsConfigured ops p"
  proof (cases "op_IsConfigured ops p")
    case conf: True
    from assms(3) obtain c cs where "op_Capabilities ops p = c # cs" by (cases "op_Capabilities ops p") auto
    then have "cap_Name c \<in> names_of ops p" by (simp add: names_of_def)
    moreover from this obtain c' where "map_of (own_entries ops p) (cap_Name c) = Some c'"
      using map_of_own_entries_None [of ops p "cap_Name c"] by auto
    ultimately have "map_of (r_capabilities r') (cap_Name c) = Some c'" "cap_Provider c' = k"
      using conf caps own_entry_provider [OF ok] key by (auto simp: settled_entry_def)
    with conf show ?thesis using hasAny_iff [OF reg_inv_shape [OF inv']] by blast
  next
    case False
    have "\<not> hasAnyCapabilityLocked r' k"
    proof
      assume "hasAnyCapabilityLocked r' k"
      then obtain n c where n: "map_of (r_capabilities r') n = Some c" "cap_Provider c = k"
        by (auto simp: hasAny_iff [OF reg_inv_shape [OF inv']])
      with reg_inv_owner [OF inv' n(1)] assms(2) provs have "n \<in> names_of ops p" by auto
      with n(1) caps False show False by (simp add: settled_entry_def)
    qed
    with False show ?thesis by simp
  qed
  with r' show ?thesis by simp
qed

text \<open>The whole loop, over any list of distinct keys.\<close>

lemma reevaluate_key_None: "map_of (r_providers r) k = None \<Longrightarrow> reevaluate_key ops k (r, ch) = (r, ch)"
  by (simp add: reevaluate_key_def)

lemma reevaluate_key_Some:
  "map_of (r_providers r) k = Some p \<Longrightarrow> reevaluate_key ops k (r, ch) = reevaluate ops p (r, ch)"
  by (simp add: reevaluate_key_def)

definition settles :: "gostring list \<Rightarrow> ('p, 't) Registry \<Rightarrow> bool \<Rightarrow> ('p, 't) Registry \<Rightarrow> bool \<Rightarrow> bool" where
  "settles ks r ch r' ch' \<longleftrightarrow> reg_inv ops okp r' \<and>
     r_providers r' = r_providers r \<and> r_enabledPatterns r' = r_enabledPatterns r \<and> r_onChanged r' = r_onChanged r \<and>
     (ch' \<longleftrightarrow> ch \<or> (\<exists>k \<in> set ks. \<exists>p. map_of (r_providers r) k = Some p \<and> toggled ops r p)) \<and>
     (\<forall>k \<in> set ks. \<forall>p. map_of (r_providers r) k = Some p \<longrightarrow> toggled ops r p \<longrightarrow>
        (\<forall>n \<in> names_of ops p. map_of (r_capabilities r') n = settled_entry ops p n)) \<and>
     (\<forall>n. (\<forall>k \<in> set ks. \<forall>p. map_of (r_providers r) k = Some p \<longrightarrow> toggled ops r p \<longrightarrow> n \<notin> names_of ops p) \<longrightarrow>
        map_of (r_capabilities r') n = map_of (r_capabilities r) n \<and>
        map_of (r_tasks r') n = map_of (r_tasks r) n)"

lemma toggled_frame:
  assumes "reg_inv ops okp r" "reg_inv ops okp r'" "r_providers r' = r_providers r"
    and "map_of (r_providers r) k = Some p" "map_of (r_providers r) l = Some q" "k \<noteq> l"
    and "\<And>n. n \<notin> names_of ops q \<Longrightarrow> map_of (r_capabilities r') n = map_of (r_capabilities r) n"
  shows "toggled ops r' p = toggled ops r p"
  using hasAny_frame [OF assms] reg_inv_key [OF assms(1,4)] by (simp add: toggled_def)

lemma loop_settles:
  assumes "reg_inv ops okp r" "distinct ks" "fold (reevaluate_key ops) ks (r, ch) = (r', ch')"
  shows "settles ks r ch r' ch'"
  using assms
proof (induction ks arbitrary: r ch)
  case Nil
  then show ?case by (simp add: settles_def)
next
  case (Cons k ks)
  show ?case
  proof (cases "\<exists>p. map_of (r_providers r) k = Some p \<and> toggled ops r p")
    case False
    then have "reevaluate_key ops k (r, ch) = (r, ch)"
      using reevaluate_key_None [of r k ch] reevaluate_key_Some [of r k _ ch] reevaluate_untoggled
      by (cases "map_of (r_providers r) k") (simp, metis)
    then have "settles ks r ch r' ch'" using Cons by simp
    with False show ?thesis unfolding settles_def by (simp, blast)
  next
    case True
    then obtain p where p: "map_of (r_providers r) k = Some p" "toggled ops r p" by blast
    from reevaluate_toggled [OF Cons.prems(1) p] obtain s where
      s: "reevaluate ops p (r, ch) = (s, True)" and inv: "reg_inv ops okp s" and
      fields: "r_providers s = r_providers r" "r_enabledPatterns s = r_enabledPatterns r"
        "r_onChanged s = r_onChanged r" and
      caps: "\<And>n. map_of (r_capabilities s) n =
         (if n \<in> names_of ops p then settled_entry ops p n else map_of (r_capabilities r) n)" and
      tasks: "\<And>n. map_of (r_tasks s) n =
         (if n \<in> names_of ops p then settled_task ops p n else map_of (r_tasks r) n)" by metis
    have IH: "settles ks s True r' ch'"
      using Cons.IH [OF inv] Cons.prems s reevaluate_key_Some [OF p(1), of ch] by simp
    have frame: "toggled ops s q = toggled ops r q"
      if "map_of (r_providers r) l = Some q" "l \<in> set ks" for l q
      using that(2) Cons.prems(2) caps by (intro toggled_frame [OF Cons.prems(1) inv fields(1) that(1) p(1)]) auto
    have disj: "n \<notin> names_of ops q"
      if "map_of (r_providers r) l = Some q" "l \<in> set ks" "n \<in> names_of ops p" for l q n
      using that Cons.prems(2) reg_inv_disjoint [OF Cons.prems(1) p(1) that(1)] by auto
    have rest: "map_of (r_capabilities r') n = map_of (r_capabilities s) n \<and>
        map_of (r_tasks r') n = map_of (r_tasks s) n"
      if "\<And>l q. l \<in> set ks \<Longrightarrow> map_of (r_providers r) l = Some q \<Longrightarrow> toggled ops r q \<Longrightarrow> n \<notin> names_of ops q" for n
      using IH that frame unfolding settles_def fields by metis
    have inside: "map_of (r_capabilities r') n = settled_entry ops q n"
      if l: "l \<in> set (k # ks)" and q: "map_of (r_providers r) l = Some q" "toggled ops r q"
        and n: "n \<in> names_of ops q" for l q n
    proof (cases "l = k")
      case True
      with q p have "q = p" by simp
      with n rest [of n] disj [of _ _ n] caps show ?thesis by simp
    next
      case False
      with l q n IH frame show ?thesis unfolding settles_def fields by auto
    qed
    have outside: "map_of (r_capabilities r') n = map_of (r_capabilities r) n \<and>
        map_of (r_tasks r') n = map_of (r_tasks r) n"
      if n: "\<And>l q. l \<in> set (k # ks) \<Longrightarrow> map_of (r_providers r) l = Some q \<Longrightarrow> toggled ops r q \<Longrightarrow> n \<notin> names_of ops q" for n
    proof -
      have "n \<notin> names_of ops p" using n [of k p] p by simp
      moreover have "map_of (r_capabilities r') n = map_of (r_capabilities s) n \<and>
          map_of (r_tasks r') n = map_of (r_tasks s) n" by (rule rest, rule n) auto
      ultimately show ?thesis by (simp add: caps tasks)
    qed
    have ch': "ch'" using IH by (simp add: settles_def)
    have flds: "reg_inv ops okp r'" "r_providers r' = r_providers r"
      "r_enabledPatterns r' = r_enabledPatterns r" "r_onChanged r' = r_onChanged r"
      using IH by (simp_all add: settles_def fields)
    have tog: "\<exists>l \<in> set (k # ks). \<exists>q. map_of (r_providers r) l = Some q \<and> toggled ops r q" using p by auto
    show ?thesis
      unfolding settles_def
    proof (intro conjI ballI allI impI)
      show "ch' = (ch \<or> (\<exists>l \<in> set (k # ks). \<exists>q. map_of (r_providers r) l = Some q \<and> toggled ops r q))"
        using ch' tog by blast
    qed (use inside outside flds in blast)+
  qed
qed

section \<open>Applying the manifests\<close>

definition same_but_providers :: "('p, 't) Registry \<Rightarrow> ('p, 't) Registry \<Rightarrow> bool" where
  "same_but_providers r r' \<longleftrightarrow> r_capabilities r' = r_capabilities r \<and> r_tasks r' = r_tasks r \<and>
     r_enabledPatterns r' = r_enabledPatterns r \<and> r_onChanged r' = r_onChanged r \<and>
     map fst (r_providers r') = map fst (r_providers r)"

lemma same_but_providers_refl [simp]: "same_but_providers r r"
  by (simp add: same_but_providers_def)

lemma same_but_providers_trans:
  "same_but_providers r s \<Longrightarrow> same_but_providers s t \<Longrightarrow> same_but_providers r t"
  by (simp add: same_but_providers_def)

lemma update_provider_inv:
  assumes inv: "reg_inv ops okp r"
  shows "reg_inv ops okp (update_provider ops k n cfg r) \<and> same_but_providers r (update_provider ops k n cfg r)"
proof (cases "map_of (r_providers r) k = None \<or> cfg = None")
  case True
  then show ?thesis using inv by (auto simp: update_provider_def split: option.splits)
next
  case False
  then obtain p c where p: "map_of (r_providers r) k = Some p" and cfg: "cfg = Some c" by auto
  have ok: "okp p" and key: "op_Name ops p = k" using inv p by (auto dest: reg_inv_wf reg_inv_key)
  let ?q = "op_UpdateConfig ops p n c"
  let ?r = "r\<lparr>r_providers := AList.update k ?q (r_providers r)\<rparr>"
  have q: "okp ?q" "op_Name ops ?q = k" "names_of ops ?q = names_of ops p" "op_GetTask ops ?q = op_GetTask ops p"
    using ok key by (simp_all add: wf_update name_update caps_update task_update names_of_def)
  have m: "map_of (r_providers ?r) = (map_of (r_providers r))(k \<mapsto> ?q)" by simp
  have "reg_inv ops okp ?r"
    unfolding reg_inv_def
  proof (intro conjI)
    show "reg_shape ?r" using reg_inv_shape [OF inv] by (simp add: reg_shape_def)
    show "\<forall>l p. map_of (r_providers ?r) l = Some p \<longrightarrow> okp p \<and> op_Name ops p = l"
      using inv q unfolding m by (auto simp: reg_inv_def)
    show "\<forall>x d. map_of (r_capabilities ?r) x = Some d \<longrightarrow>
        (\<exists>p. map_of (r_providers ?r) (cap_Provider d) = Some p \<and> x \<in> names_of ops p \<and>
           map_of (r_tasks ?r) x = op_GetTask ops p x)"
      using reg_inv_owner [OF inv] reg_inv_task [OF inv] q p unfolding m by fastforce
    show "\<forall>k' p' l q'. map_of (r_providers ?r) k' = Some p' \<longrightarrow> map_of (r_providers ?r) l = Some q' \<longrightarrow>
        k' \<noteq> l \<longrightarrow> names_of ops p' \<inter> names_of ops q' = {}"
      using reg_inv_disjoint [OF inv] q p unfolding m by (auto split: if_splits)
  qed
  moreover have "map fst (r_providers ?r) = map fst (r_providers r)"
    using p by (simp add: update_keys) (metis domI dom_map_of_conv_image_fst)
  ultimately show ?thesis using p cfg by (simp add: update_provider_def same_but_providers_def)
qed

lemma apply_manifest_inv:
  "reg_inv ops okp r \<Longrightarrow>
     reg_inv ops okp (apply_manifest ops ks m r) \<and> same_but_providers r (apply_manifest ops ks m r)"
  using update_provider_inv by (auto simp: apply_manifest_def Let_def split: option.splits)

lemma apply_manifests_inv:
  "reg_inv ops okp r \<Longrightarrow>
     reg_inv ops okp (apply_manifests ops visit i ms r) \<and> same_but_providers r (apply_manifests ops visit i ms r)"
proof (induction ms arbitrary: i r)
  case (Cons m ms)
  show ?case
    using Cons.IH apply_manifest_inv [OF Cons.prems] same_but_providers_trans by (metis apply_manifests.simps(2))
qed simp

lemma update_provider_names:
  assumes "reg_inv ops okp r" "map_of (r_providers (update_provider ops k n cfg r)) l = Some q"
  shows "\<exists>p. map_of (r_providers r) l = Some p \<and> names_of ops q = names_of ops p"
proof (cases "\<exists>p c. map_of (r_providers r) k = Some p \<and> cfg = Some c \<and> l = k")
  case True
  then obtain p c where p: "map_of (r_providers r) k = Some p" "cfg = Some c" "l = k" by blast
  with assms(2) have "q = op_UpdateConfig ops p n c" by (simp add: update_provider_def)
  with p caps_update [OF reg_inv_wf [OF assms(1) p(1)]] show ?thesis by (simp add: names_of_def)
next
  case False
  with assms(2) show ?thesis by (auto simp: update_provider_def split: option.splits if_splits)
qed

lemma update_provider_complete:
  assumes "reg_inv ops okp r" "all_or_none ops r"
  shows "all_or_none ops (update_provider ops k n cfg r)"
proof -
  have "r_capabilities (update_provider ops k n cfg r) = r_capabilities r"
    using update_provider_inv [OF assms(1)] by (simp add: same_but_providers_def)
  then show ?thesis
    using update_provider_names [OF assms(1)] assms(2) unfolding all_or_none_def by metis
qed

lemma apply_manifest_complete:
  "reg_inv ops okp r \<Longrightarrow> all_or_none ops r \<Longrightarrow> all_or_none ops (apply_manifest ops ks m r)"
  using update_provider_complete by (auto simp: apply_manifest_def Let_def split: option.splits)

lemma apply_manifests_complete:
  "reg_inv ops okp r \<Longrightarrow> all_or_none ops r \<Longrightarrow> all_or_none ops (apply_manifests ops visit i ms r)"
  by (induction ms arbitrary: i r) (simp_all add: apply_manifest_complete apply_manifest_inv)

lemma all_or_none_has:
  assumes inv: "reg_inv ops okp r" and comp: "all_or_none ops r" and p: "map_of (r_providers r) k = Some p"
    and has: "hasAnyCapabilityLocked r k"
  shows "names_of ops p \<subseteq> dom (map_of (r_capabilities r))"
proof -
  from has obtain n c where "map_of (r_capabilities r) n = Some c" "cap_Provider c = k"
    using hasAny_iff [OF reg_inv_shape [OF inv]] by blast
  with reg_inv_owner [OF inv] p have "n \<in> names_of ops p \<inter> dom (map_of (r_capabilities r))" by fastforce
  with comp p show ?thesis unfolding all_or_none_def by blast
qed

section \<open>ApplyOnlineConfig\<close>

lemma ApplyOnlineConfig_settles:
  assumes inv: "reg_inv ops okp r" and visit: "permuting visit"
    and app: "ApplyOnlineConfig ops visit ms r = (r', out)"
  obtains r1 ks ch where "apply_manifests ops visit 0 ms r = r1" "reg_inv ops okp r1" "same_but_providers r r1"
    "set ks = fst ` set (r_providers r1)" "settles ks r1 False r' ch"
    "out = (if ch then emitChangedLocked r' else None)"
proof -
  define r1 where "r1 = apply_manifests ops visit 0 ms r"
  define ks where "ks = visit (length ms) (map fst (r_providers r1))"
  obtain ch where loop: "fold (reevaluate_key ops) ks (r1, False) = (r', ch)"
    and out: "out = (if ch then emitChangedLocked r' else None)"
    using app by (auto simp: ApplyOnlineConfig_def Let_def r1_def ks_def split: prod.splits)
  have r1: "reg_inv ops okp r1" "same_but_providers r r1"
    using apply_manifests_inv [OF inv] by (simp_all add: r1_def)
  have m: "mset ks = mset (map fst (r_providers r1))" using visit by (simp add: permuting_def ks_def)
  have "distinct (map fst (r_providers r1))"
    using reg_inv_shape [OF r1(1)] by (simp add: reg_shape_def)
  with m have "distinct ks" by (metis mset_eq_imp_distinct_iff)
  then have "settles ks r1 False r' ch" by (rule loop_settles [OF r1(1) _ loop])
  moreover have "set ks = fst ` set (r_providers r1)" using mset_eq_setD [OF m] by simp
  ultimately show ?thesis using that r1 out by (simp add: r1_def)
qed

lemma ApplyOnlineConfig_inv:
  assumes "reg_inv ops okp r" "permuting visit"
  shows "reg_inv ops okp (fst (ApplyOnlineConfig ops visit ms r))"
  using ApplyOnlineConfig_settles [OF assms, of ms "fst (ApplyOnlineConfig ops visit ms r)"]
  by (metis prod.collapse settles_def)

text \<open>
  Once a registry holds each provider's capabilities completely or not at all, it does so for
  ever, and an update leaves it with exactly the capabilities of the configured providers.
\<close>

lemma ApplyOnlineConfig_exact:
  assumes inv: "reg_inv ops okp r" and visit: "permuting visit" and comp: "all_or_none ops r"
    and app: "ApplyOnlineConfig ops visit ms r = (r', out)"
  shows "map_of (r_capabilities r') n \<noteq> None \<longleftrightarrow>
     (\<exists>k p. map_of (r_providers r') k = Some p \<and> op_IsConfigured ops p \<and> n \<in> names_of ops p)"
proof -
  from ApplyOnlineConfig_settles [OF inv visit app] obtain r1 ks ch where
    inv1: "reg_inv ops okp r1" and same: "same_but_providers r r1" and
    ks: "set ks = fst ` set (r_providers r1)" and st: "settles ks r1 False r' ch" and
    r1: "apply_manifests ops visit 0 ms r = r1" by metis
  have inv': "reg_inv ops okp r'" and provs: "r_providers r' = r_providers r1"
    using st by (simp_all add: settles_def)
  have comp1: "all_or_none ops r1" using apply_manifests_complete [OF inv comp, of visit 0 ms] r1 by simp
  have inks: "k \<in> set ks" if "map_of (r_providers r1) k = Some p" for k p
    using that ks by (metis domI dom_map_of_conv_image_fst)
  show ?thesis
  proof
    assume "map_of (r_capabilities r') n \<noteq> None"
    then obtain c where c: "map_of (r_capabilities r') n = Some c" by blast
    from reg_inv_owner [OF inv' c] obtain p where
      p: "map_of (r_providers r') (cap_Provider c) = Some p" "n \<in> names_of ops p" by blast
    have "op_IsConfigured ops p"
    proof (cases "toggled ops r1 p")
      case True
      with st p c inks provs have "settled_entry ops p n = Some c" unfolding settles_def by metis
      then show ?thesis by (auto simp: settled_entry_def split: if_splits)
    next
      case False
      have "map_of (r_capabilities r1) n = Some c"
        using st c p provs False reg_inv_disjoint [OF inv'] unfolding settles_def by (metis option.inject)
      then have "hasAnyCapabilityLocked r1 (cap_Provider c)"
        using hasAny_iff [OF reg_inv_shape [OF inv1]] by blast
      with False reg_inv_key [OF inv' p(1)] show ?thesis by (simp add: toggled_def)
    qed
    with p show "\<exists>k p. map_of (r_providers r') k = Some p \<and> op_IsConfigured ops p \<and> n \<in> names_of ops p"
      by blast
  next
    assume "\<exists>k p. map_of (r_providers r') k = Some p \<and> op_IsConfigured ops p \<and> n \<in> names_of ops p"
    then obtain k p where p: "map_of (r_providers r1) k = Some p" "op_IsConfigured ops p" "n \<in> names_of ops p"
      using provs by auto
    show "map_of (r_capabilities r') n \<noteq> None"
    proof (cases "toggled ops r1 p")
      case True
      with st p inks have "map_of (r_capabilities r') n = settled_entry ops p n"
        unfolding settles_def by blast
      then show ?thesis using p by (simp add: settled_entry_def map_of_own_entries_None)
    next
      case False
      then have "hasAnyCapabilityLocked r1 k" using reg_inv_key [OF inv1 p(1)] p(2) by (simp add: toggled_def)
      with all_or_none_has [OF inv1 comp1 p(1)] p(3) have "map_of (r_capabilities r1) n \<noteq> None" by blast
      moreover have "map_of (r_capabilities r') n = map_of (r_capabilities r1) n"
        using st p False reg_inv_disjoint [OF inv1] unfolding settles_def by (metis option.inject)
      ultimately show ?thesis by simp
    qed
  qed
qed

lemma ApplyOnlineConfig_complete:
  assumes inv: "reg_inv ops okp r" and visit: "permuting visit" and comp: "all_or_none ops r"
  shows "all_or_none ops (fst (ApplyOnlineConfig ops visit ms r))"
proof -
  obtain r' out where app: "ApplyOnlineConfig ops visit ms r = (r', out)" by fastforce
  have inv': "reg_inv ops okp r'" using ApplyOnlineConfig_inv [OF inv visit, of ms] app by simp
  have "names_of ops p \<subseteq> dom (map_of (r_capabilities r')) \<or> names_of ops p \<inter> dom (map_of (r_capabilities r')) = {}"
    if p: "map_of (r_providers r') k = Some p" for k p
  proof (cases "op_IsConfigured ops p")
    case True
    then show ?thesis using ApplyOnlineConfig_exact [OF assms app] p by blast
  next
    case False
    have "map_of (r_capabilities r') n = None" if n: "n \<in> names_of ops p" for n
    proof (rule ccontr)
      assume "map_of (r_capabilities r') n \<noteq> None"
      then obtain l q where q: "map_of (r_providers r') l = Some q" "op_IsConfigured ops q" "n \<in> names_of ops q"
        using ApplyOnlineConfig_exact [OF assms app] by blast
      from reg_inv_disjoint [OF inv' p q(1) n q(3)] p q False show False by simp
    qed
    then show ?thesis by auto
  qed
  then show ?thesis by (simp add: all_or_none_def app)
qed

section \<open>The order of the visits\<close>

lemma find_dot_free:
  assumes "\<forall>k \<in> set ks. CHR ''.'' \<notin> set k"
  shows "find (\<lambda>pn. pn \<noteq> [] \<and> HasPrefix name (pn @ ''.'')) ks =
    (if CHR ''.'' \<in> set name \<and> takeWhile (\<lambda>c. c \<noteq> CHR ''.'') name \<in> set ks \<and> hd name \<noteq> CHR ''.''
     then Some (takeWhile (\<lambda>c. c \<noteq> CHR ''.'') name) else None)"
proof -
  have pre: "HasPrefix name (pn @ ''.'') \<longleftrightarrow> CHR ''.'' \<in> set name \<and> pn = takeWhile (\<lambda>c. c \<noteq> CHR ''.'') name"
    if "CHR ''.'' \<notin> set pn" for pn
  proof -
    have "HasPrefix name (pn @ ''.'') \<longleftrightarrow> (\<exists>zs. name = pn @ CHR ''.'' # zs)"
      by (auto simp: HasPrefix_def prefix_def)
    also have "\<dots> \<longleftrightarrow> CHR ''.'' \<in> set name \<and> pn = takeWhile (\<lambda>c. c \<noteq> CHR ''.'') name"
    proof
      assume "\<exists>zs. name = pn @ CHR ''.'' # zs"
      then obtain zs where n: "name = pn @ CHR ''.'' # zs" by blast
      have "takeWhile (\<lambda>c. c \<noteq> CHR ''.'') name = pn"
        using that unfolding n by (subst takeWhile_append2) auto
      then show "CHR ''.'' \<in> set name \<and> pn = takeWhile (\<lambda>c. c \<noteq> CHR ''.'') name" using n by simp
    next
      assume a: "CHR ''.'' \<in> set name \<and> pn = takeWhile (\<lambda>c. c \<noteq> CHR ''.'') name"
      then obtain ys zs where n: "name = ys @ CHR ''.'' # zs" "CHR ''.'' \<notin> set ys"
        using split_list_first [of "CHR ''.''" name] by blast
      then have "takeWhile (\<lambda>c. c \<noteq> CHR ''.'') name = ys" by (subst n(1), subst takeWhile_append2) auto
      with a have "pn = ys" by simp
      with n(1) show "\<exists>zs. name = pn @ CHR ''.'' # zs" by blast
    qed
    finally show ?thesis .
  qed
  have ne: "takeWhile (\<lambda>c. c \<noteq> CHR ''.'') name \<noteq> [] \<longleftrightarrow> hd name \<noteq> CHR ''.''"
    if "CHR ''.'' \<in> set name"
    using that by (cases name) auto
  have nil: "CHR ''.'' \<in> set name \<Longrightarrow> takeWhile (\<lambda>c. c \<noteq> CHR ''.'') name = [] \<Longrightarrow> hd name = CHR ''.''"
    using ne by blast
  show ?thesis
    using assms by (induction ks) (auto simp: pre ne dest: nil)
qed

definition dot_free :: "('p, 't) Registry \<Rightarrow> bool" where
  "dot_free r \<longleftrightarrow> (\<forall>k \<in> set (map fst (r_providers r)). CHR ''.'' \<notin> set k)"

lemma findProvider_order:
  assumes "\<forall>k \<in> set ks. CHR ''.'' \<notin> set k" "set ks = set ks'"
  shows "findProviderByCapability ks n = findProviderByCapability ks' n"
  using assms by (simp add: findProviderByCapability_def find_dot_free)

lemma apply_manifest_order:
  assumes "dot_free r" "set ks = set (map fst (r_providers r))" "set ks' = set ks"
  shows "apply_manifest ops ks m r = apply_manifest ops ks' m r"
  using assms findProvider_order [of ks ks']
  by (auto simp: apply_manifest_def dot_free_def Let_def split: option.splits)

lemma permuting_set: "permuting visit \<Longrightarrow> set (visit i ks) = set ks"
  unfolding permuting_def by (metis set_mset_mset)

lemma apply_manifests_order:
  assumes "permuting visit" "permuting visit'" "reg_inv ops okp r" "dot_free r"
  shows "apply_manifests ops visit i ms r = apply_manifests ops visit' i ms r"
  using assms(3,4)
proof (induction ms arbitrary: i r)
  case (Cons m ms)
  have step: "apply_manifest ops (visit i (map fst (r_providers r))) m r =
      apply_manifest ops (visit' i (map fst (r_providers r))) m r"
    using Cons.prems(2) by (intro apply_manifest_order) (simp_all only: permuting_set [OF assms(1)] permuting_set [OF assms(2)])
  let ?r = "apply_manifest ops (visit' i (map fst (r_providers r))) m r"
  have "reg_inv ops okp ?r" "dot_free ?r"
    using apply_manifest_inv [OF Cons.prems(1)] Cons.prems(2)
    by (simp_all add: dot_free_def same_but_providers_def)
  then show ?case using Cons.IH step by simp
qed simp

lemma settles_det:
  assumes "settles ks r ch a ca" "settles ks' r ch b cb" "set ks = set ks'"
  shows "ca = cb" "map_of (r_capabilities a) = map_of (r_capabilities b)"
proof -
  show "ca = cb" using assms by (simp add: settles_def)
  show "map_of (r_capabilities a) = map_of (r_capabilities b)"
  proof
    fix n
    show "map_of (r_capabilities a) n = map_of (r_capabilities b) n"
    proof (cases "\<exists>k \<in> set ks. \<exists>p. map_of (r_providers r) k = Some p \<and> toggled ops r p \<and> n \<in> names_of ops p")
      case True
      then obtain k p where p: "k \<in> set ks" "map_of (r_providers r) k = Some p" "toggled ops r p" "n \<in> names_of ops p"
        by blast
      have "map_of (r_capabilities a) n = settled_entry ops p n"
        using assms(1) p unfolding settles_def by blast
      moreover have "map_of (r_capabilities b) n = settled_entry ops p n"
        using assms(2) p unfolding assms(3) settles_def by blast
      ultimately show ?thesis by simp
    next
      case False
      have "map_of (r_capabilities a) n = map_of (r_capabilities r) n"
        using assms(1) False unfolding settles_def by blast
      moreover have "map_of (r_capabilities b) n = map_of (r_capabilities r) n"
        using assms(2) False unfolding assms(3) settles_def by blast
      ultimately show ?thesis by simp
    qed
  qed
qed

text \<open>The tasks are determined by the capabilities and the providers.\<close>

lemma reg_inv_tasks_det:
  assumes "reg_inv ops okp a" "reg_inv ops okp b" "r_providers a = r_providers b"
    "map_of (r_capabilities a) = map_of (r_capabilities b)"
  shows "map_of (r_tasks a) = map_of (r_tasks b)"
proof
  fix n
  show "map_of (r_tasks a) n = map_of (r_tasks b) n"
  proof (cases "map_of (r_capabilities a) n")
    case None
    then show ?thesis using assms reg_shape_no_task reg_inv_shape by metis
  next
    case (Some c)
    then show ?thesis using assms reg_inv_task reg_inv_owner by metis
  qed
qed

lemma ApplyOnlineConfig_order:
  assumes inv: "reg_inv ops okp r" and dots: "dot_free r" and v: "permuting visit" and v': "permuting visit'"
    and a: "ApplyOnlineConfig ops visit ms r = (a, oa)" and b: "ApplyOnlineConfig ops visit' ms r = (b, ob)"
  shows "oa = ob \<and> r_providers a = r_providers b \<and> map_of (r_capabilities a) = map_of (r_capabilities b) \<and>
    map_of (r_tasks a) = map_of (r_tasks b) \<and> ListEnabled a = ListEnabled b"
proof -
  from ApplyOnlineConfig_settles [OF inv v a] obtain r1 ks ca where
    r1: "apply_manifests ops visit 0 ms r = r1" and ks: "set ks = fst ` set (r_providers r1)"
    and sa: "settles ks r1 False a ca" and oa: "oa = (if ca then emitChangedLocked a else None)" by metis
  from ApplyOnlineConfig_settles [OF inv v' b] obtain r2 ks' cb where
    r2: "apply_manifests ops visit' 0 ms r = r2" and ks': "set ks' = fst ` set (r_providers r2)"
    and sb: "settles ks' r2 False b cb" and ob: "ob = (if cb then emitChangedLocked b else None)" by metis
  have "r2 = r1" using apply_manifests_order [OF v v' inv dots] r1 r2 by simp
  note sb = sb [unfolded this] and ks' = ks' [unfolded this]
  have caps: "map_of (r_capabilities a) = map_of (r_capabilities b)" and ch: "ca = cb"
    using settles_det [OF sa sb] ks ks' by simp_all
  have fields: "r_providers a = r_providers b" "r_enabledPatterns a = r_enabledPatterns b"
    "r_onChanged a = r_onChanged b" "reg_inv ops okp a" "reg_inv ops okp b"
    using sa sb by (simp_all add: settles_def)
  have list: "ListEnabled a = ListEnabled b"
    using fields caps by (intro ListEnabled_map_cong) (simp_all add: reg_inv_shape)
  have tasks: "map_of (r_tasks a) = map_of (r_tasks b)"
    using reg_inv_tasks_det [OF fields(4,5,1) caps] .
  from list caps tasks fields ch oa ob show ?thesis by (simp add: emitChangedLocked_ListEnabled)
qed

text \<open>A change is reported exactly when some provider's capabilities appeared or disappeared.\<close>

lemma ApplyOnlineConfig_quiet:
  assumes inv: "reg_inv ops okp r" and visit: "permuting visit"
    and app: "ApplyOnlineConfig ops visit ms r = (r', out)" and cb: "r_onChanged r"
  shows "(case out of Some caps \<Rightarrow> caps = ListEnabled r'
          | None \<Rightarrow> map_of (r_capabilities r') = map_of (r_capabilities r) \<and>
              map_of (r_tasks r') = map_of (r_tasks r) \<and> ListEnabled r' = ListEnabled r)"
proof -
  from ApplyOnlineConfig_settles [OF inv visit app] obtain r1 ks ch where
    inv1: "reg_inv ops okp r1" and same: "same_but_providers r r1" and st: "settles ks r1 False r' ch" and
    out: "out = (if ch then emitChangedLocked r' else None)" by metis
  have inv': "reg_inv ops okp r'" and fl: "r_onChanged r'" "r_enabledPatterns r' = r_enabledPatterns r"
    using st same cb by (simp_all add: settles_def same_but_providers_def)
  show ?thesis
  proof (cases ch)
    case True
    with out fl show ?thesis by (simp add: emitChangedLocked_ListEnabled)
  next
    case False
    with st have "map_of (r_capabilities r') n = map_of (r_capabilities r1) n \<and>
        map_of (r_tasks r') n = map_of (r_tasks r1) n" for n
      unfolding settles_def by blast
    then have eq: "map_of (r_capabilities r') = map_of (r_capabilities r)" "map_of (r_tasks r') = map_of (r_tasks r)"
      using same by (simp_all add: fun_eq_iff same_but_providers_def)
    then have "ListEnabled r' = ListEnabled r"
      using fl inv inv' by (intro ListEnabled_map_cong) (simp_all add: reg_inv_shape)
    with eq out False show ?thesis by simp
  qed
qed

end

end
