(* ===== verification/Registry_Register.thy ===== *)
theory Registry_Register
  imports Registry_Online
begin

text \<open>
  \<open>RegisterProvider\<close>: what a successful registration adds, and what a failed one leaves
  behind. The loop over the provider's capabilities has no undo: the provider, the enabled
  patterns and the capabilities before the offending one stay.
\<close>

section \<open>The loop\<close>

declare Capability_Validate_None [simp del]

lemma register_capabilities_split:
  assumes "register_capabilities ops p caps r = (Some e, r')"
  shows "\<exists>pre c post. caps = pre @ c # post \<and> r' = fold (add_capability ops p) pre r \<and>
    (\<forall>d \<in> set pre. Capability_Validate d = None) \<and>
    ((\<exists>err. Capability_Validate c = Some err \<and> e = ProviderCapability (op_Name ops p) (cap_Name c) err) \<or>
     Capability_Validate c = None \<and> map_of (r_capabilities r') (cap_Name c) \<noteq> None \<and>
       e = DuplicateCapability (cap_Name c))"
  using assms
proof (induction caps arbitrary: r)
  case (Cons c cs)
  show ?case
  proof (cases "Capability_Validate c")
    case (Some err)
    then show ?thesis using Cons.prems by (intro exI [of _ "[]"] exI [of _ c] exI [of _ cs]) auto
  next
    case None
    note valid = this
    show ?thesis
    proof (cases "map_of (r_capabilities r) (cap_Name c)")
      case None
      with valid Cons.prems have "register_capabilities ops p cs (add_capability ops p c r) = (Some e, r')"
        by simp
      from Cons.IH [OF this] obtain pre d post where
        "cs = pre @ d # post \<and> r' = fold (add_capability ops p) pre (add_capability ops p c r) \<and>
          (\<forall>d \<in> set pre. Capability_Validate d = None) \<and>
          ((\<exists>err. Capability_Validate d = Some err \<and> e = ProviderCapability (op_Name ops p) (cap_Name d) err) \<or>
           Capability_Validate d = None \<and> map_of (r_capabilities r') (cap_Name d) \<noteq> None \<and>
             e = DuplicateCapability (cap_Name d))" by blast
      then show ?thesis using valid by (intro exI [of _ "c # pre"] exI [of _ d] exI [of _ post]) auto
    next
      case (Some x)
      then show ?thesis using valid Cons.prems
        by (intro exI [of _ "[]"] exI [of _ c] exI [of _ cs]) auto
    qed
  qed
qed simp

lemma register_capabilities_None:
  "register_capabilities ops p caps r = (None, r') \<longleftrightarrow>
     r' = fold (add_capability ops p) caps r \<and> (\<forall>c \<in> set caps. Capability_Validate c = None) \<and>
     distinct (map cap_Name caps) \<and> (\<forall>c \<in> set caps. map_of (r_capabilities r) (cap_Name c) = None)"
  by (induction caps arbitrary: r)
    (auto simp: map_of_add_capability image_iff split: option.splits if_splits)

section \<open>RegisterProvider\<close>

text \<open>The registry the loop starts from.\<close>

definition enter :: "('p, 't) provider_ops \<Rightarrow> 'p \<Rightarrow> gostring list option \<Rightarrow> ('p, 't) Registry \<Rightarrow> ('p, 't) Registry" where
  "enter ops p f r =
     (let r1 = (case f of Some ps \<Rightarrow> r\<lparr>r_enabledPatterns := ps\<rparr> | None \<Rightarrow> r)
      in if map_of (r_providers r1) (op_Name ops p) \<noteq> None then r1
         else r1\<lparr>r_providers := AList.update (op_Name ops p) p (r_providers r1)\<rparr>)"

lemma RegisterProvider_enter:
  assumes "op_IsEnabled ops p cfg" "parseEnabledFilter cfg = Inr f"
  shows "RegisterProvider ops (Some p) cfg r =
    (case register_capabilities ops p (op_Capabilities ops p) (enter ops p f r) of
       (Some err, r3) \<Rightarrow> (Some err, r3, None) | (None, r3) \<Rightarrow> (None, r3, emitChangedLocked r3))"
  using assms by (simp add: RegisterProvider_def enter_def Let_def)

lemma enter_fields [record_simps]:
  "r_capabilities (enter ops p f r) = r_capabilities r" "r_tasks (enter ops p f r) = r_tasks r"
  "r_onChanged (enter ops p f r) = r_onChanged r"
  "r_enabledPatterns (enter ops p f r) = (case f of Some ps \<Rightarrow> ps | None \<Rightarrow> r_enabledPatterns r)"
  by (simp_all add: enter_def Let_def split: option.splits)

lemma enter_providers:
  "map_of (r_providers r) (op_Name ops p) = None \<Longrightarrow>
     map_of (r_providers (enter ops p f r)) = (map_of (r_providers r))(op_Name ops p \<mapsto> p)"
  by (simp add: enter_def Let_def split: option.splits)

lemma reg_shape_enter: "reg_shape r \<Longrightarrow> reg_shape (enter ops p f r)"
  by (auto simp: reg_shape_def enter_def Let_def split: option.splits)

context provider_interface
begin

text \<open>
  A provider that no stored one clashes with: its own name and its capabilities' names are new.
\<close>

definition newcomer :: "('p, 't) Registry \<Rightarrow> 'p \<Rightarrow> bool" where
  "newcomer r p \<longleftrightarrow> okp p \<and> map_of (r_providers r) (op_Name ops p) = None \<and>
     (\<forall>k q. map_of (r_providers r) k = Some q \<longrightarrow> names_of ops p \<inter> names_of ops q = {})"

lemma newcomer_fresh:
  assumes "reg_inv ops okp r" "newcomer r p" "c \<in> set (op_Capabilities ops p)"
  shows "map_of (r_capabilities r) (cap_Name c) = None"
proof (rule ccontr)
  assume "map_of (r_capabilities r) (cap_Name c) \<noteq> None"
  then obtain d where d: "map_of (r_capabilities r) (cap_Name c) = Some d" by blast
  from reg_inv_owner [OF assms(1) d] assms(2,3) show False
    by (fastforce simp: newcomer_def names_of_def)
qed

lemma map_of_capabilities_fold_own:
  assumes "okp p"
  shows "map_of (r_capabilities (fold (add_capability ops p) (op_Capabilities ops p) r)) n =
     (if n \<in> names_of ops p then map_of (own_entries ops p) n else map_of (r_capabilities r) n)"
  using map_of_fold_add [OF caps_distinct [OF assms], of ops p r] map_of_own_entries_None [of ops p n]
  by (auto simp: own_entries_def map_add_def split: option.splits)

lemma register_inv:
  assumes inv: "reg_inv ops okp r" and new: "newcomer r p"
  shows "reg_inv ops okp (fold (add_capability ops p) (op_Capabilities ops p) (enter ops p f r))"
proof -
  let ?r = "fold (add_capability ops p) (op_Capabilities ops p) (enter ops p f r)"
  have ok: "okp p" and fresh: "map_of (r_providers r) (op_Name ops p) = None" using new by (simp_all add: newcomer_def)
  have provs: "map_of (r_providers ?r) = (map_of (r_providers r))(op_Name ops p \<mapsto> p)"
    by (simp add: record_simps enter_providers [OF fresh])
  have caps: "map_of (r_capabilities ?r) n =
     (if n \<in> names_of ops p then map_of (own_entries ops p) n else map_of (r_capabilities r) n)" for n
    by (simp add: map_of_capabilities_fold_own [OF ok] record_simps)
  have old: "map_of (r_tasks r) n = None" if "n \<in> names_of ops p" for n
    using newcomer_fresh [OF inv new] that reg_shape_no_task [OF reg_inv_shape [OF inv]]
    by (auto simp: names_of_def)
  have tasks: "map_of (r_tasks ?r) n = (if n \<in> names_of ops p then op_GetTask ops p n else map_of (r_tasks r) n)" for n
    using old [of n] by (auto simp: map_of_fold_add_tasks record_simps names_of_def)
  show ?thesis
    unfolding reg_inv_def
  proof (intro conjI)
    show "reg_shape ?r"
      using reg_inv_shape [OF inv] by (simp add: reg_shape_fold_add reg_shape_enter)
    show "\<forall>k q. map_of (r_providers ?r) k = Some q \<longrightarrow> okp q \<and> op_Name ops q = k"
      using inv ok unfolding provs by (auto simp: reg_inv_def)
    show "\<forall>n c. map_of (r_capabilities ?r) n = Some c \<longrightarrow>
        (\<exists>q. map_of (r_providers ?r) (cap_Provider c) = Some q \<and> n \<in> names_of ops q \<and>
           map_of (r_tasks ?r) n = op_GetTask ops q n)"
    proof (intro allI impI)
      fix n c
      assume c: "map_of (r_capabilities ?r) n = Some c"
      show "\<exists>q. map_of (r_providers ?r) (cap_Provider c) = Some q \<and> n \<in> names_of ops q \<and>
           map_of (r_tasks ?r) n = op_GetTask ops q n"
      proof (cases "n \<in> names_of ops p")
        case True
        with c have "cap_Provider c = op_Name ops p" using own_entry_provider [OF ok] by (simp add: caps)
        with True show ?thesis unfolding provs tasks by simp
      next
        case False
        with c have c': "map_of (r_capabilities r) n = Some c" by (simp add: caps)
        from reg_inv_owner [OF inv c'] reg_inv_task [OF inv c'] False fresh show ?thesis
          unfolding provs tasks by auto
      qed
    qed
    show "\<forall>k q l q'. map_of (r_providers ?r) k = Some q \<longrightarrow> map_of (r_providers ?r) l = Some q' \<longrightarrow>
        k \<noteq> l \<longrightarrow> names_of ops q \<inter> names_of ops q' = {}"
      using reg_inv_disjoint [OF inv] new unfolding provs newcomer_def
      by (auto split: if_splits) blast+
  qed
qed

text \<open>A successful registration.\<close>

lemma RegisterProvider_ok:
  assumes inv: "reg_inv ops okp r" and comp: "all_or_none ops r" and new: "newcomer r p"
    and en: "op_IsEnabled ops p cfg" and f: "parseEnabledFilter cfg = Inr f"
    and valid: "\<forall>c \<in> set (op_Capabilities ops p). Capability_Validate c = None"
  obtains r' where "RegisterProvider ops (Some p) cfg r = (None, r', emitChangedLocked r')"
    "reg_inv ops okp r'" "all_or_none ops r'"
    "map_of (r_providers r') = (map_of (r_providers r))(op_Name ops p \<mapsto> p)"
    "\<And>n. map_of (r_capabilities r') n =
       (if n \<in> names_of ops p then map_of (own_entries ops p) n else map_of (r_capabilities r) n)"
proof -
  let ?r = "fold (add_capability ops p) (op_Capabilities ops p) (enter ops p f r)"
  have ok: "okp p" and fresh: "map_of (r_providers r) (op_Name ops p) = None" using new by (simp_all add: newcomer_def)
  have "register_capabilities ops p (op_Capabilities ops p) (enter ops p f r) = (None, ?r)"
    using newcomer_fresh [OF inv new] valid caps_distinct [OF ok]
    by (simp add: register_capabilities_None record_simps)
  then have res: "RegisterProvider ops (Some p) cfg r = (None, ?r, emitChangedLocked ?r)"
    by (simp add: RegisterProvider_enter [OF en f])
  have provs: "map_of (r_providers ?r) = (map_of (r_providers r))(op_Name ops p \<mapsto> p)"
    by (simp add: record_simps enter_providers [OF fresh])
  have caps: "map_of (r_capabilities ?r) n =
     (if n \<in> names_of ops p then map_of (own_entries ops p) n else map_of (r_capabilities r) n)" for n
    by (simp add: map_of_capabilities_fold_own [OF ok] record_simps)
  have dom: "dom (map_of (r_capabilities ?r)) = dom (map_of (r_capabilities r)) \<union> names_of ops p"
    using newcomer_fresh [OF inv new] map_of_own_entries_None [of ops p]
    by (auto simp: caps dom_def names_of_def split: if_splits)
  have "all_or_none ops ?r"
    unfolding all_or_none_def dom provs using comp new
    by (auto simp: all_or_none_def newcomer_def split: if_splits) blast+
  then show ?thesis using that [OF res register_inv [OF inv new] _ provs caps] by blast
qed

end

end
