(* ===== verification/Metadata.thy ===== *)
theory Metadata
  imports Go_Strings
begin

text \<open>
  \<open>internal/metadata/metadata.go\<close>: what the agent tells about its host. What the operating
  system answers (host name, outgoing address, platform) is the record \<open>host_facts\<close>; \<open>None\<close> is
  a failed system call.
\<close>

record Metadata =
  md_Name :: gostring
  md_Cluster :: gostring
  md_Region :: gostring
  md_Environment :: gostring
  md_Hostname :: gostring
  md_LocalIP :: gostring
  md_Provider :: gostring
  md_AvailabilityZone :: gostring
  md_VMID :: gostring
  md_OS :: gostring
  md_OSVersion :: gostring
  md_Arch :: gostring
  md_Labels :: "(gostring \<times> gostring) list"

record HostMetadata =
  hm_Hostname :: gostring
  hm_LocalIp :: gostring
  hm_Provider :: gostring
  hm_Region :: gostring
  hm_AvailabilityZone :: gostring
  hm_VmId :: gostring
  hm_Os :: gostring
  hm_OsVersion :: gostring
  hm_Arch :: gostring

record host_facts =
  hf_hostname :: "gostring option"
  hf_udp_address :: "gostring option"
  hf_GOOS :: gostring
  hf_GOARCH :: gostring

text \<open>\<open>maps.Copy\<close>: the entries of the second map over those of the first.\<close>

definition maps_Copy :: "(gostring \<times> 'v) list \<Rightarrow> (gostring \<times> 'v) list \<Rightarrow> (gostring \<times> 'v) list" where
  "maps_Copy dst src = fold (\<lambda>(k, v) m. AList.update k v m) src dst"

definition ToProtoMap :: "Metadata \<Rightarrow> (gostring \<times> gostring) list" where
  "ToProtoMap m =
     maps_Copy [(''name'', md_Name m), (''cluster'', md_Cluster m), (''region'', md_Region m),
        (''environment'', md_Environment m)] (md_Labels m)"

definition detectHostname :: "host_facts \<Rightarrow> gostring" where
  "detectHostname h = (case hf_hostname h of None \<Rightarrow> ''unknown'' | Some n \<Rightarrow> n)"

definition detectLocalIP :: "host_facts \<Rightarrow> gostring" where
  "detectLocalIP h = (case hf_udp_address h of None \<Rightarrow> ''127.0.0.1'' | Some ip \<Rightarrow> ip)"

definition detectOS :: "host_facts \<Rightarrow> gostring" where
  "detectOS h = hf_GOOS h"

definition detectOSVersion :: "host_facts \<Rightarrow> gostring" where
  "detectOSVersion h = hf_GOOS h"

definition detectArch :: "host_facts \<Rightarrow> gostring" where
  "detectArch h =
     (if hf_GOARCH h = ''amd64'' then ''x86_64''
      else if hf_GOARCH h = ''arm64'' then ''aarch64''
      else hf_GOARCH h)"

text \<open>The five steps of \<open>AutodetectDefaults\<close>, one per field.\<close>

definition default_Hostname :: "host_facts \<Rightarrow> Metadata \<Rightarrow> Metadata" where
  "default_Hostname h m = (if md_Hostname m = [] then m\<lparr>md_Hostname := detectHostname h\<rparr> else m)"

definition default_LocalIP :: "host_facts \<Rightarrow> Metadata \<Rightarrow> Metadata" where
  "default_LocalIP h m = (if md_LocalIP m = [] then m\<lparr>md_LocalIP := detectLocalIP h\<rparr> else m)"

definition default_OS :: "host_facts \<Rightarrow> Metadata \<Rightarrow> Metadata" where
  "default_OS h m = (if md_OS m = [] then m\<lparr>md_OS := detectOS h\<rparr> else m)"

definition default_OSVersion :: "host_facts \<Rightarrow> Metadata \<Rightarrow> Metadata" where
  "default_OSVersion h m = (if md_OSVersion m = [] then m\<lparr>md_OSVersion := detectOSVersion h\<rparr> else m)"

definition default_Arch :: "host_facts \<Rightarrow> Metadata \<Rightarrow> Metadata" where
  "default_Arch h m = (if md_Arch m = [] then m\<lparr>md_Arch := detectArch h\<rparr> else m)"

definition AutodetectDefaults :: "host_facts \<Rightarrow> Metadata \<Rightarrow> Metadata" where
  "AutodetectDefaults h m =
     default_Arch h (default_OSVersion h (default_OS h (default_LocalIP h (default_Hostname h m))))"

definition Metadata_ToProto :: "Metadata \<Rightarrow> HostMetadata" where
  "Metadata_ToProto m =
     \<lparr>hm_Hostname = md_Hostname m, hm_LocalIp = md_LocalIP m, hm_Provider = md_Provider m,
      hm_Region = md_Region m, hm_AvailabilityZone = md_AvailabilityZone m, hm_VmId = md_VMID m,
      hm_Os = md_OS m, hm_OsVersion = md_OSVersion m, hm_Arch = md_Arch m\<rparr>"

text \<open>The labels in the order \<open>visit\<close> in which the map is read.\<close>

definition ToLabels :: "((gostring \<times> gostring) list \<Rightarrow> (gostring \<times> gostring) list) \<Rightarrow> Metadata \<Rightarrow> gostring list" where
  "ToLabels visit m = map (\<lambda>(key, value). key @ ''='' @ value) (visit (maps_Copy [] (md_Labels m)))"

section \<open>Facts\<close>

lemma map_of_fold_update:
  "distinct_keys src \<Longrightarrow> map_of (fold (\<lambda>(k, v) m. AList.update k v m) src dst) = map_of dst ++ map_of src"
proof (induction src arbitrary: dst)
  case (Cons kv src)
  obtain k v where kv: "kv = (k, v)" by fastforce
  with Cons.prems have "map_of src k = None" by (auto simp: map_of_eq_None_iff)
  with Cons kv show ?case by (auto simp: fun_eq_iff map_add_def split: option.splits)
qed simp

lemma map_of_maps_Copy: "distinct_keys src \<Longrightarrow> map_of (maps_Copy dst src) = map_of dst ++ map_of src"
  by (simp add: maps_Copy_def map_of_fold_update)

text \<open>
  What the user set is never overwritten, what is empty is filled, and a second detection changes
  nothing, whatever the system answers then, once every answer of the first is non-empty.
\<close>

lemma default_fields:
  "md_Hostname (default_Hostname h m) = (if md_Hostname m = [] then detectHostname h else md_Hostname m)"
  "md_LocalIP (default_Hostname h m) = md_LocalIP m"
  "md_OS (default_Hostname h m) = md_OS m"
  "md_OSVersion (default_Hostname h m) = md_OSVersion m"
  "md_Arch (default_Hostname h m) = md_Arch m"
  "md_Hostname (default_LocalIP h m) = md_Hostname m"
  "md_LocalIP (default_LocalIP h m) = (if md_LocalIP m = [] then detectLocalIP h else md_LocalIP m)"
  "md_OS (default_LocalIP h m) = md_OS m"
  "md_OSVersion (default_LocalIP h m) = md_OSVersion m"
  "md_Arch (default_LocalIP h m) = md_Arch m"
  "md_Hostname (default_OS h m) = md_Hostname m"
  "md_LocalIP (default_OS h m) = md_LocalIP m"
  "md_OS (default_OS h m) = (if md_OS m = [] then detectOS h else md_OS m)"
  "md_OSVersion (default_OS h m) = md_OSVersion m"
  "md_Arch (default_OS h m) = md_Arch m"
  "md_Hostname (default_OSVersion h m) = md_Hostname m"
  "md_LocalIP (default_OSVersion h m) = md_LocalIP m"
  "md_OS (default_OSVersion h m) = md_OS m"
  "md_OSVersion (default_OSVersion h m) = (if md_OSVersion m = [] then detectOSVersion h else md_OSVersion m)"
  "md_Arch (default_OSVersion h m) = md_Arch m"
  "md_Hostname (default_Arch h m) = md_Hostname m"
  "md_LocalIP (default_Arch h m) = md_LocalIP m"
  "md_OS (default_Arch h m) = md_OS m"
  "md_OSVersion (default_Arch h m) = md_OSVersion m"
  "md_Arch (default_Arch h m) = (if md_Arch m = [] then detectArch h else md_Arch m)"
  by (simp_all add: default_Hostname_def default_LocalIP_def default_OS_def default_OSVersion_def default_Arch_def)

lemma AutodetectDefaults_fields:
  "md_Hostname (AutodetectDefaults h m) = (if md_Hostname m = [] then detectHostname h else md_Hostname m)"
  "md_LocalIP (AutodetectDefaults h m) = (if md_LocalIP m = [] then detectLocalIP h else md_LocalIP m)"
  "md_OS (AutodetectDefaults h m) = (if md_OS m = [] then detectOS h else md_OS m)"
  "md_OSVersion (AutodetectDefaults h m) = (if md_OSVersion m = [] then detectOSVersion h else md_OSVersion m)"
  "md_Arch (AutodetectDefaults h m) = (if md_Arch m = [] then detectArch h else md_Arch m)"
  by (simp_all add: AutodetectDefaults_def default_fields)

lemma AutodetectDefaults_fixed:
  "md_Hostname m \<noteq> [] \<Longrightarrow> md_LocalIP m \<noteq> [] \<Longrightarrow> md_OS m \<noteq> [] \<Longrightarrow> md_OSVersion m \<noteq> [] \<Longrightarrow> md_Arch m \<noteq> [] \<Longrightarrow>
     AutodetectDefaults h m = m"
  by (simp add: AutodetectDefaults_def default_Hostname_def default_LocalIP_def default_OS_def
      default_OSVersion_def default_Arch_def)

lemma AutodetectDefaults_idem:
  assumes "hf_hostname h \<noteq> Some []" "hf_udp_address h \<noteq> Some []" "hf_GOOS h \<noteq> []" "hf_GOARCH h \<noteq> []"
  shows "AutodetectDefaults h' (AutodetectDefaults h m) = AutodetectDefaults h m"
  using assms
  by (intro AutodetectDefaults_fixed)
    (auto simp: AutodetectDefaults_fields detectHostname_def detectLocalIP_def detectOS_def detectOSVersion_def
        detectArch_def split: option.splits)

end
