(* ===== verification/Config_Types.thy ===== *)
theory Config_Types
  imports Metadata
begin

text \<open>
  The structures of \<open>internal/config/config.go\<close>, field by field: a pointer is an option, a
  duration its nanoseconds. Each record's fields carry the record's prefix.
\<close>

record TLSConfig =
  tls_Enabled :: "bool option"
  tls_InsecureSkipVerify :: bool
  tls_CACertFile :: gostring

record ControlPlane =
  cp_Address :: gostring
  cp_TLS :: TLSConfig
  cp_MaxConcurrentExecutions :: int

record SecretKeyAuth =
  sk_Key :: gostring

record MTLSAuth =
  mtls_CertFile :: gostring
  mtls_KeyFile :: gostring

record Authentication =
  auth_SecretKey :: "SecretKeyAuth option"
  auth_MTLS :: "MTLSAuth option"

record CapabilitiesConfig =
  capcfg_Enabled :: "gostring list"

record Logging =
  lg_Level :: gostring

record AzureConfig =
  az_TenantID :: gostring
  az_ClientID :: gostring
  az_ClientSecret :: gostring
  az_SubscriptionID :: gostring
  az_ResourceGroup :: gostring
  az_WorkspaceID :: gostring

record KubernetesConfig =
  kube_KubeconfigPath :: gostring
  kube_Context :: gostring
  kube_Namespace :: gostring
  kube_MaxPodLogLines :: int

record PrometheusAuthConfig =
  promauth_Type :: gostring
  promauth_Username :: gostring
  promauth_Password :: gostring
  promauth_Token :: gostring
  promauth_HeaderName :: gostring
  promauth_HeaderValue :: gostring

record PrometheusGuardrails =
  promg_MaxQueryRange :: int
  promg_MinStep :: int
  promg_QueryTimeout :: int
  promg_MaxReturnedSeries :: int
  promg_MaxReturnedSamples :: int
  promg_MaxMetadataResults :: int
  promg_MaxResponseBytes :: int

record PrometheusConfig =
  prom_URL :: gostring
  prom_Timeout :: int
  prom_Auth :: PrometheusAuthConfig
  prom_Guardrails :: PrometheusGuardrails

record KafkaTLSConfig =
  ktls_Enabled :: bool
  ktls_CAFile :: gostring
  ktls_CAData :: gostring
  ktls_CertFile :: gostring
  ktls_CertData :: gostring
  ktls_KeyFile :: gostring
  ktls_KeyData :: gostring
  ktls_Insecure :: bool

record KafkaSASLConfig =
  ksasl_Mechanism :: gostring
  ksasl_Username :: gostring
  ksasl_Password :: gostring
  ksasl_KerberosServiceName :: gostring
  ksasl_KerberosRealm :: gostring
  ksasl_KeytabPath :: gostring
  ksasl_KeytabData :: gostring
  ksasl_Krb5ConfData :: gostring
  ksasl_Krb5ConfPath :: gostring

record KafkaGuardrails =
  kg_MaxTopicsPerRequest :: int
  kg_MaxPartitionsPerRequest :: int
  kg_MaxConsumerGroups :: int
  kg_MaxRecordsPerSample :: int
  kg_MaxResponseBytes :: int
  kg_MaxQueryDuration :: int

record KafkaSchemaRegistryConfig =
  ksr_URL :: gostring
  ksr_TLS :: "KafkaTLSConfig option"
  ksr_Auth :: "KafkaSASLConfig option"

record KafkaMDSConfig =
  kmds_URL :: gostring
  kmds_TLS :: "KafkaTLSConfig option"
  kmds_Auth :: "KafkaSASLConfig option"

record KafkaConnectClusterConfig =
  kcc_Name :: gostring
  kcc_URL :: gostring
  kcc_TLS :: "KafkaTLSConfig option"
  kcc_Auth :: "KafkaSASLConfig option"

record KafkaConnectConfig =
  kconn_Clusters :: "KafkaConnectClusterConfig list"

record KafkaConfig =
  kafka_BootstrapServers :: "gostring list"
  kafka_TLS :: "KafkaTLSConfig option"
  kafka_SASL :: "KafkaSASLConfig option"
  kafka_DialTimeout :: int
  kafka_RequestTimeout :: int
  kafka_MetadataMaxAge :: int
  kafka_Guardrails :: "KafkaGuardrails option"
  kafka_SchemaRegistry :: "KafkaSchemaRegistryConfig option"
  kafka_MDS :: "KafkaMDSConfig option"
  kafka_Connect :: "KafkaConnectConfig option"

record LinuxConfig =
  lin_AllowedReadPaths :: "gostring list option"
  lin_MaxReadBytes :: int
  lin_MaxReadOffset :: int
  lin_MaxDirectoryDepth :: int
  lin_MaxDirectoryEntries :: int
  lin_RedactSecrets :: "bool option"
  lin_SecretPatterns :: "gostring list option"
  lin_JournalDirectory :: gostring
  lin_SystemdBusAddress :: gostring

record GraylogAuthConfig =
  grayauth_Type :: gostring
  grayauth_Token :: gostring
  grayauth_Username :: gostring
  grayauth_Password :: gostring

record GraylogGuardrails =
  grayg_MaxQueryRange :: int
  grayg_MaxResults :: int
  grayg_MaxHistogramBuckets :: int
  grayg_QueryTimeout :: int

record GraylogConfig =
  gray_URL :: gostring
  gray_Timeout :: int
  gray_Auth :: GraylogAuthConfig
  gray_Guardrails :: GraylogGuardrails

record PostgresTLSConfig =
  pgtls_Enabled :: bool
  pgtls_CAFile :: gostring
  pgtls_CAData :: gostring
  pgtls_CertFile :: gostring
  pgtls_CertData :: gostring
  pgtls_KeyFile :: gostring
  pgtls_KeyData :: gostring
  pgtls_InsecureSkipVerify :: bool

record PostgresGuardrails =
  pgg_MaxRows :: int
  pgg_StatementTimeout :: int
  pgg_MaxResultSizeBytes :: int

record PostgresConfig =
  pg_Host :: gostring
  pg_Port :: int
  pg_Database :: gostring
  pg_User :: gostring
  pg_Password :: gostring
  pg_DSN :: gostring
  pg_ConnectTimeout :: int
  pg_MaxConns :: int
  pg_MinConns :: int
  pg_ConnMaxLifetime :: int
  pg_TLS :: PostgresTLSConfig
  pg_Guardrails :: PostgresGuardrails

record Config =
  cfg_AgentID :: gostring
  cfg_RegistrationKey :: gostring
  cfg_Labels :: "gostring list"
  cfg_ControlPlane :: ControlPlane
  cfg_Authentication :: Authentication
  cfg_Metadata :: Metadata
  cfg_Capabilities :: CapabilitiesConfig
  cfg_Logging :: Logging
  cfg_Azure :: AzureConfig
  cfg_Kubernetes :: KubernetesConfig
  cfg_Prometheus :: PrometheusConfig
  cfg_Kafka :: KafkaConfig
  cfg_Linux :: LinuxConfig
  cfg_Graylog :: GraylogConfig
  cfg_Postgres :: PostgresConfig

section \<open>The zero values\<close>

definition zero_Metadata :: Metadata where
  "zero_Metadata =
     \<lparr>md_Name = [], md_Cluster = [], md_Region = [], md_Environment = [], md_Hostname = [], md_LocalIP = [],
      md_Provider = [], md_AvailabilityZone = [], md_VMID = [], md_OS = [], md_OSVersion = [], md_Arch = [],
      md_Labels = []\<rparr>"

definition zero_TLSConfig :: TLSConfig where
  "zero_TLSConfig =
     \<lparr>tls_Enabled = None, tls_InsecureSkipVerify = False, tls_CACertFile = []\<rparr>"

definition zero_ControlPlane :: ControlPlane where
  "zero_ControlPlane =
     \<lparr>cp_Address = [], cp_TLS = zero_TLSConfig, cp_MaxConcurrentExecutions = 0\<rparr>"

definition zero_SecretKeyAuth :: SecretKeyAuth where
  "zero_SecretKeyAuth =
     \<lparr>sk_Key = []\<rparr>"

definition zero_MTLSAuth :: MTLSAuth where
  "zero_MTLSAuth =
     \<lparr>mtls_CertFile = [], mtls_KeyFile = []\<rparr>"

definition zero_Authentication :: Authentication where
  "zero_Authentication =
     \<lparr>auth_SecretKey = None, auth_MTLS = None\<rparr>"

definition zero_CapabilitiesConfig :: CapabilitiesConfig where
  "zero_CapabilitiesConfig =
     \<lparr>capcfg_Enabled = []\<rparr>"

definition zero_Logging :: Logging where
  "zero_Logging =
     \<lparr>lg_Level = []\<rparr>"

definition zero_AzureConfig :: AzureConfig where
  "zero_AzureConfig =
     \<lparr>az_TenantID = [], az_ClientID = [], az_ClientSecret = [], az_SubscriptionID = [],
      az_ResourceGroup = [], az_WorkspaceID = []\<rparr>"

definition zero_KubernetesConfig :: KubernetesConfig where
  "zero_KubernetesConfig =
     \<lparr>kube_KubeconfigPath = [], kube_Context = [], kube_Namespace = [], kube_MaxPodLogLines = 0\<rparr>"

definition zero_PrometheusAuthConfig :: PrometheusAuthConfig where
  "zero_PrometheusAuthConfig =
     \<lparr>promauth_Type = [], promauth_Username = [], promauth_Password = [], promauth_Token = [],
      promauth_HeaderName = [], promauth_HeaderValue = []\<rparr>"

definition zero_PrometheusGuardrails :: PrometheusGuardrails where
  "zero_PrometheusGuardrails =
     \<lparr>promg_MaxQueryRange = 0, promg_MinStep = 0, promg_QueryTimeout = 0, promg_MaxReturnedSeries =
      0, promg_MaxReturnedSamples = 0, promg_MaxMetadataResults = 0, promg_MaxResponseBytes = 0\<rparr>"

definition zero_PrometheusConfig :: PrometheusConfig where
  "zero_PrometheusConfig =
     \<lparr>prom_URL = [], prom_Timeout = 0, prom_Auth = zero_PrometheusAuthConfig, prom_Guardrails =
      zero_PrometheusGuardrails\<rparr>"

definition zero_KafkaTLSConfig :: KafkaTLSConfig where
  "zero_KafkaTLSConfig =
     \<lparr>ktls_Enabled = False, ktls_CAFile = [], ktls_CAData = [], ktls_CertFile = [], ktls_CertData =
      [], ktls_KeyFile = [], ktls_KeyData = [], ktls_Insecure = False\<rparr>"

definition zero_KafkaSASLConfig :: KafkaSASLConfig where
  "zero_KafkaSASLConfig =
     \<lparr>ksasl_Mechanism = [], ksasl_Username = [], ksasl_Password = [], ksasl_KerberosServiceName = [],
      ksasl_KerberosRealm = [], ksasl_KeytabPath = [], ksasl_KeytabData = [], ksasl_Krb5ConfData =
      [], ksasl_Krb5ConfPath = []\<rparr>"

definition zero_KafkaGuardrails :: KafkaGuardrails where
  "zero_KafkaGuardrails =
     \<lparr>kg_MaxTopicsPerRequest = 0, kg_MaxPartitionsPerRequest = 0, kg_MaxConsumerGroups = 0,
      kg_MaxRecordsPerSample = 0, kg_MaxResponseBytes = 0, kg_MaxQueryDuration = 0\<rparr>"

definition zero_KafkaSchemaRegistryConfig :: KafkaSchemaRegistryConfig where
  "zero_KafkaSchemaRegistryConfig =
     \<lparr>ksr_URL = [], ksr_TLS = None, ksr_Auth = None\<rparr>"

definition zero_KafkaMDSConfig :: KafkaMDSConfig where
  "zero_KafkaMDSConfig =
     \<lparr>kmds_URL = [], kmds_TLS = None, kmds_Auth = None\<rparr>"

definition zero_KafkaConnectClusterConfig :: KafkaConnectClusterConfig where
  "zero_KafkaConnectClusterConfig =
     \<lparr>kcc_Name = [], kcc_URL = [], kcc_TLS = None, kcc_Auth = None\<rparr>"

definition zero_KafkaConnectConfig :: KafkaConnectConfig where
  "zero_KafkaConnectConfig =
     \<lparr>kconn_Clusters = []\<rparr>"

definition zero_KafkaConfig :: KafkaConfig where
  "zero_KafkaConfig =
     \<lparr>kafka_BootstrapServers = [], kafka_TLS = None, kafka_SASL = None, kafka_DialTimeout = 0,
      kafka_RequestTimeout = 0, kafka_MetadataMaxAge = 0, kafka_Guardrails = None,
      kafka_SchemaRegistry = None, kafka_MDS = None, kafka_Connect = None\<rparr>"

definition zero_LinuxConfig :: LinuxConfig where
  "zero_LinuxConfig =
     \<lparr>lin_AllowedReadPaths = None, lin_MaxReadBytes = 0, lin_MaxReadOffset = 0, lin_MaxDirectoryDepth =
      0, lin_MaxDirectoryEntries = 0, lin_RedactSecrets = None, lin_SecretPatterns = None,
      lin_JournalDirectory = [], lin_SystemdBusAddress = []\<rparr>"

definition zero_GraylogAuthConfig :: GraylogAuthConfig where
  "zero_GraylogAuthConfig =
     \<lparr>grayauth_Type = [], grayauth_Token = [], grayauth_Username = [], grayauth_Password = []\<rparr>"

definition zero_GraylogGuardrails :: GraylogGuardrails where
  "zero_GraylogGuardrails =
     \<lparr>grayg_MaxQueryRange = 0, grayg_MaxResults = 0, grayg_MaxHistogramBuckets = 0,
      grayg_QueryTimeout = 0\<rparr>"

definition zero_GraylogConfig :: GraylogConfig where
  "zero_GraylogConfig =
     \<lparr>gray_URL = [], gray_Timeout = 0, gray_Auth = zero_GraylogAuthConfig, gray_Guardrails =
      zero_GraylogGuardrails\<rparr>"

definition zero_PostgresTLSConfig :: PostgresTLSConfig where
  "zero_PostgresTLSConfig =
     \<lparr>pgtls_Enabled = False, pgtls_CAFile = [], pgtls_CAData = [], pgtls_CertFile = [],
      pgtls_CertData = [], pgtls_KeyFile = [], pgtls_KeyData = [], pgtls_InsecureSkipVerify = False\<rparr>"

definition zero_PostgresGuardrails :: PostgresGuardrails where
  "zero_PostgresGuardrails =
     \<lparr>pgg_MaxRows = 0, pgg_StatementTimeout = 0, pgg_MaxResultSizeBytes = 0\<rparr>"

definition zero_PostgresConfig :: PostgresConfig where
  "zero_PostgresConfig =
     \<lparr>pg_Host = [], pg_Port = 0, pg_Database = [], pg_User = [], pg_Password = [], pg_DSN = [],
      pg_ConnectTimeout = 0, pg_MaxConns = 0, pg_MinConns = 0, pg_ConnMaxLifetime = 0, pg_TLS =
      zero_PostgresTLSConfig, pg_Guardrails = zero_PostgresGuardrails\<rparr>"

definition zero_Config :: Config where
  "zero_Config =
     \<lparr>cfg_AgentID = [], cfg_RegistrationKey = [], cfg_Labels = [], cfg_ControlPlane =
      zero_ControlPlane, cfg_Authentication = zero_Authentication, cfg_Metadata = zero_Metadata,
      cfg_Capabilities = zero_CapabilitiesConfig, cfg_Logging = zero_Logging, cfg_Azure =
      zero_AzureConfig, cfg_Kubernetes = zero_KubernetesConfig, cfg_Prometheus =
      zero_PrometheusConfig, cfg_Kafka = zero_KafkaConfig, cfg_Linux = zero_LinuxConfig, cfg_Graylog
      = zero_GraylogConfig, cfg_Postgres = zero_PostgresConfig\<rparr>"

lemmas zero_defs = zero_Metadata_def
  zero_TLSConfig_def zero_ControlPlane_def zero_SecretKeyAuth_def zero_MTLSAuth_def
  zero_Authentication_def zero_CapabilitiesConfig_def zero_Logging_def zero_AzureConfig_def
  zero_KubernetesConfig_def zero_PrometheusAuthConfig_def zero_PrometheusGuardrails_def
  zero_PrometheusConfig_def zero_KafkaTLSConfig_def zero_KafkaSASLConfig_def
  zero_KafkaGuardrails_def zero_KafkaSchemaRegistryConfig_def zero_KafkaMDSConfig_def
  zero_KafkaConnectClusterConfig_def zero_KafkaConnectConfig_def zero_KafkaConfig_def
  zero_LinuxConfig_def zero_GraylogAuthConfig_def zero_GraylogGuardrails_def
  zero_GraylogConfig_def zero_PostgresTLSConfig_def zero_PostgresGuardrails_def
  zero_PostgresConfig_def zero_Config_def

end
