(* ===== verification/Log_Level.thy ===== *)
theory Log_Level
  imports Go_Strings
begin

text \<open>
  \<open>pkg/log/log.go\<close>: the logging level. The global logger is the one piece of state; as a value
  it is the level it was configured with, and \<open>setupOnce\<close> has run exactly if it is there.
\<close>

datatype slog_Level = LevelDebug | LevelInfo | LevelWarn | LevelError

definition ParseLevel :: "gostring \<Rightarrow> slog_Level" where
  "ParseLevel s =
     (let l = ToLower (TrimSpace s) in
      if l = ''debug'' then LevelDebug
      else if l = ''info'' then LevelInfo
      else if l = ''warn'' \<or> l = ''warning'' then LevelWarn
      else if l = ''error'' then LevelError
      else LevelInfo)"

definition ValidateLevel :: "gostring \<Rightarrow> gostring option" where
  "ValidateLevel s =
     (if TrimSpace s = [] then None
      else if ToLower (TrimSpace s) \<in> {''debug'', ''info'', ''warn'', ''warning'', ''error''} then None
      else Some s)"

type_synonym logger_state = "slog_Level option"

definition log_Configure :: "gostring \<Rightarrow> logger_state \<Rightarrow> logger_state" where
  "log_Configure level g = (case g of Some l \<Rightarrow> Some l | None \<Rightarrow> Some (ParseLevel level))"

definition Logger :: "logger_state \<Rightarrow> logger_state \<times> slog_Level" where
  "Logger g =
     (let g' = (if g = None then log_Configure ''info'' g else g)
      in (g', case g' of Some l \<Rightarrow> l | None \<Rightarrow> LevelInfo))"

text \<open>The level the first call asked for stays, and a logger is there from the first use on.\<close>

lemma Configure_first_wins:
  "log_Configure b (log_Configure a None) = Some (ParseLevel a)"
  "Logger (log_Configure a None) = (Some (ParseLevel a), ParseLevel a)"
  by (simp_all add: log_Configure_def Logger_def)

lemma Logger_configures:
  "snd (Logger None) = LevelInfo \<and> log_Configure a (fst (Logger None)) = Some LevelInfo"
  by (simp add: Logger_def log_Configure_def ParseLevel_def) code_simp

end
