(* ===== verification/Config.thy ===== *)
theory Config
  imports Config_Types Registry Log_Level
begin

text \<open>
  The validation of \<open>internal/config/config.go\<close>. \<open>os.Stat\<close> and \<open>url.Parse\<close> are the fields of
  \<open>config_env\<close>: whether a path can be examined, and the scheme of a URL that parses.
  \<open>net.SplitHostPort\<close> is modelled.
\<close>

record config_env =
  env_Stat :: "gostring \<Rightarrow> bool"
  env_url_Parse :: "gostring \<Rightarrow> gostring option"

datatype config_error =
    ConfigIsNil
  | Required gostring
  | StatFailed gostring
  | InvalidURL gostring
  | InvalidPattern gostring capability_error
  | InvalidEntry gostring capability_error
  | InvalidLevel gostring
  | Unsupported gostring gostring
  | OutOfRange gostring
  | InvalidAddress gostring
  | ClientCertificateIncomplete
  | SchemeNotHttps gostring
  | NotOneAuthenticationMethod

section \<open>Addresses\<close>

text \<open>\<open>net.SplitHostPort\<close>; all its errors are \<open>None\<close>.\<close>

definition SplitHostPort :: "gostring \<Rightarrow> (gostring \<times> gostring) option" where
  "SplitHostPort hostport =
     (if CHR '':'' \<notin> set hostport then None
      else
        (let port = rev (takeWhile (\<lambda>c. c \<noteq> CHR '':'') (rev hostport));
             i = length hostport - length port - 1
         in if hd hostport = CHR ''['' then
              (if CHR '']'' \<notin> set hostport then None
               else (let end1 = length (takeWhile (\<lambda>c. c \<noteq> CHR '']'') hostport)
                 in if end1 + 1 \<noteq> i then None
                    else if CHR ''['' \<in> set (drop 1 hostport) then None
                    else if CHR '']'' \<in> set (drop (end1 + 1) hostport) then None
                    else Some (drop 1 (take end1 hostport), port)))
            else
              (let host = take i hostport
               in if CHR '':'' \<in> set host then None
                  else if CHR ''['' \<in> set hostport then None
                  else if CHR '']'' \<in> set hostport then None
                  else Some (host, port))))"

section \<open>Parts\<close>

definition Authentication_Validate :: "Authentication \<Rightarrow> config_error option" where
  "Authentication_Validate a =
     first_error
       [(case auth_SecretKey a of Some s \<Rightarrow> check (sk_Key s = []) (Required ''authentication.secret_key.key'') | None \<Rightarrow> None),
        (case auth_MTLS a of
           Some m \<Rightarrow> first_error
             [check (mtls_CertFile m = []) (Required ''authentication.mtls.cert_file''),
              check (mtls_KeyFile m = []) (Required ''authentication.mtls.key_file'')]
         | None \<Rightarrow> None),
        check ((if auth_SecretKey a \<noteq> None then 1 else 0) + (if auth_MTLS a \<noteq> None then 1 else (0::nat)) \<noteq> 1)
          NotOneAuthenticationMethod]"

datatype auth_method = SecretKeyMethod SecretKeyAuth | MTLSMethod MTLSAuth

definition AuthMethod :: "Authentication \<Rightarrow> config_error + auth_method" where
  "AuthMethod a =
     (case Authentication_Validate a of
        Some err \<Rightarrow> Inl err
      | None \<Rightarrow>
          (case auth_SecretKey a of
             Some s \<Rightarrow> Inr (SecretKeyMethod s)
           | None \<Rightarrow>
               (case auth_MTLS a of
                  Some m \<Rightarrow> Inr (MTLSMethod m) | None \<Rightarrow> Inl NotOneAuthenticationMethod)))"

definition TLSConfig_IsEnabled :: "TLSConfig \<Rightarrow> bool" where
  "TLSConfig_IsEnabled c = (case tls_Enabled c of None \<Rightarrow> True | Some b \<Rightarrow> b)"

definition TLSConfig_Validate :: "config_env \<Rightarrow> TLSConfig \<Rightarrow> config_error option" where
  "TLSConfig_Validate env c =
     (if tls_CACertFile c = [] then None
      else if \<not> env_Stat env (tls_CACertFile c) then Some (StatFailed (tls_CACertFile c))
      else None)"

text \<open>
  \<open>BuildTLSConfig\<close>: the system pool (\<open>None\<close> an error, \<open>Some None\<close> a nil pool), reading the CA
  file and adding its certificates to a pool are arguments; the result is the two settings that
  vary and the pool.
\<close>

datatype tls_build_error =
    TLSInvalid config_error | NoSystemPool | CAUnreadable gostring | CAInvalidPEM gostring

definition BuildTLSConfig ::
  "config_env \<Rightarrow> 'pool option option \<Rightarrow> 'pool \<Rightarrow> (gostring \<Rightarrow> 'pem option) \<Rightarrow> ('pem \<Rightarrow> 'pool \<Rightarrow> 'pool option) \<Rightarrow>
     TLSConfig \<Rightarrow> tls_build_error + (bool \<times> 'pool)" where
  "BuildTLSConfig env systemPool newPool readFile appendPEM c =
     (case TLSConfig_Validate env c of
        Some err \<Rightarrow> Inl (TLSInvalid err)
      | None \<Rightarrow>
          (case systemPool of
             None \<Rightarrow> Inl NoSystemPool
           | Some p \<Rightarrow>
               (let pool = (case p of Some q \<Rightarrow> q | None \<Rightarrow> newPool) in
                if tls_CACertFile c \<noteq> [] then
                  (case readFile (tls_CACertFile c) of
                     None \<Rightarrow> Inl (CAUnreadable (tls_CACertFile c))
                   | Some pem \<Rightarrow>
                       (case appendPEM pem pool of
                          None \<Rightarrow> Inl (CAInvalidPEM (tls_CACertFile c))
                        | Some pool' \<Rightarrow> Inr (tls_InsecureSkipVerify c, pool')))
                else Inr (tls_InsecureSkipVerify c, pool))))"

definition enabled_entry_error :: "gostring \<Rightarrow> config_error option" where
  "enabled_entry_error enabled =
     (if IsPattern enabled
      then (case ValidatePattern enabled of Some e \<Rightarrow> Some (InvalidPattern enabled e) | None \<Rightarrow> None)
      else (case ValidateName enabled of Some e \<Rightarrow> Some (InvalidEntry enabled e) | None \<Rightarrow> None))"

definition Config_Validate :: "config_env \<Rightarrow> Config option \<Rightarrow> config_error option" where
  "Config_Validate env cfg =
     (case cfg of
        None \<Rightarrow> Some ConfigIsNil
      | Some c \<Rightarrow> first_error
          ([check (cfg_AgentID c = []) (Required ''agent_id''),
            check (cp_Address (cfg_ControlPlane c) = []) (Required ''control_plane.address''),
            TLSConfig_Validate env (cp_TLS (cfg_ControlPlane c)),
            Authentication_Validate (cfg_Authentication c),
            check (md_Name (cfg_Metadata c) = []) (Required ''metadata.name'')] @
           map enabled_entry_error (capcfg_Enabled (cfg_Capabilities c)) @
           [map_option InvalidLevel (ValidateLevel (lg_Level (cfg_Logging c)))]))"

section \<open>The providers' parts\<close>

definition KubernetesConfig_Validate :: "config_env \<Rightarrow> KubernetesConfig \<Rightarrow> config_error option" where
  "KubernetesConfig_Validate env k =
     check (kube_KubeconfigPath k \<noteq> [] \<and> \<not> env_Stat env (kube_KubeconfigPath k))
       (StatFailed (kube_KubeconfigPath k))"

definition AzureConfig_Validate :: "AzureConfig \<Rightarrow> config_error option" where
  "AzureConfig_Validate a =
     first_error
       [check (az_TenantID a = []) (Required ''azure.tenant_id''),
        check (az_ClientID a = []) (Required ''azure.client_id''),
        check (az_ClientSecret a = []) (Required ''azure.client_secret''),
        check (az_SubscriptionID a = []) (Required ''azure.subscription_id'')]"

definition PrometheusConfig_Validate :: "config_env \<Rightarrow> PrometheusConfig \<Rightarrow> config_error option" where
  "PrometheusConfig_Validate env p =
     first_error
       [check (prom_URL p = []) (Required ''prometheus.url''),
        check (env_url_Parse env (prom_URL p) = None) (InvalidURL ''prometheus.url''),
        (let a = prom_Auth p; t = promauth_Type a in
         if t = [] \<or> t = ''none'' then None
         else if t = ''basic'' then check (promauth_Username a = []) (Required ''prometheus.auth.username'')
         else if t = ''bearer'' then check (promauth_Token a = []) (Required ''prometheus.auth.token'')
         else if t = ''header'' then check (promauth_HeaderName a = []) (Required ''prometheus.auth.header_name'')
         else Some (Unsupported ''prometheus.auth.type'' t))]"

definition LinuxConfig_Validate :: "LinuxConfig \<Rightarrow> config_error option" where
  "LinuxConfig_Validate l =
     first_error
       [check (lin_MaxReadBytes l < 0) (OutOfRange ''linux.max_read_bytes''),
        check (lin_MaxDirectoryDepth l < 0) (OutOfRange ''linux.max_directory_depth''),
        check (lin_MaxDirectoryEntries l < 0) (OutOfRange ''linux.max_directory_entries'')]"

definition bootstrap_error :: "gostring \<Rightarrow> config_error option" where
  "bootstrap_error s =
     (case SplitHostPort s of
        None \<Rightarrow> Some (InvalidAddress s)
      | Some (host, port) \<Rightarrow> check (host = []) (InvalidAddress s))"

definition sasl_error :: "KafkaSASLConfig \<Rightarrow> config_error option" where
  "sasl_error s =
     (let m = ksasl_Mechanism s in
      if m = [] then None
      else first_error
        ([check (m \<notin> {''PLAIN'', ''SCRAM-SHA-256'', ''SCRAM-SHA-512'', ''GSSAPI''}) (Unsupported ''kafka.sasl.mechanism'' m)] @
         (if m = ''GSSAPI'' then
            [check (ksasl_KeytabPath s = [] \<and> ksasl_KeytabData s = []) (Required ''kafka.sasl.keytab_path''),
             check (ksasl_KerberosServiceName s = []) (Required ''kafka.sasl.kerberos_service_name''),
             check (ksasl_KerberosRealm s = []) (Required ''kafka.sasl.kerberos_realm'')]
          else [])))"

definition kafka_tls_error :: "KafkaTLSConfig \<Rightarrow> config_error option" where
  "kafka_tls_error t =
     (if \<not> ktls_Enabled t then None
      else first_error
        [check (ktls_CAFile t = [] \<and> ktls_CAData t = [] \<and> \<not> ktls_Insecure t) (Required ''kafka.tls.ca_file''),
         check ((ktls_CertFile t \<noteq> [] \<or> ktls_CertData t \<noteq> [] \<or> ktls_KeyFile t \<noteq> [] \<or> ktls_KeyData t \<noteq> []) \<and>
             ((ktls_CertFile t = [] \<and> ktls_CertData t = []) \<or> (ktls_KeyFile t = [] \<and> ktls_KeyData t = [])))
           ClientCertificateIncomplete])"

definition KafkaConfig_Validate :: "config_env \<Rightarrow> KafkaConfig \<Rightarrow> config_error option" where
  "KafkaConfig_Validate env k =
     first_error
       ([check (kafka_BootstrapServers k = []) (Required ''kafka.bootstrap_servers'')] @
        map bootstrap_error (kafka_BootstrapServers k) @
        [(case kafka_SASL k of Some s \<Rightarrow> sasl_error s | None \<Rightarrow> None),
         (case kafka_TLS k of Some t \<Rightarrow> kafka_tls_error t | None \<Rightarrow> None),
         (case kafka_SchemaRegistry k of
            Some r \<Rightarrow> check (ksr_URL r \<noteq> [] \<and> env_url_Parse env (ksr_URL r) = None) (InvalidURL ''kafka.schema_registry.url'')
          | None \<Rightarrow> None),
         (case kafka_MDS k of
            Some m \<Rightarrow> check (kmds_URL m \<noteq> [] \<and> env_url_Parse env (kmds_URL m) = None) (InvalidURL ''kafka.mds.url'')
          | None \<Rightarrow> None)])"

definition GraylogConfig_Validate :: "config_env \<Rightarrow> GraylogConfig \<Rightarrow> config_error option" where
  "GraylogConfig_Validate env g =
     (if gray_URL g = [] then Some (Required ''graylog.url'')
      else (case env_url_Parse env (gray_URL g) of
        None \<Rightarrow> Some (InvalidURL ''graylog.url'')
      | Some scheme \<Rightarrow>
          (if scheme \<noteq> ''https'' then Some (SchemeNotHttps scheme)
           else (let a = gray_Auth g; t = grayauth_Type a in
             if t = [] \<or> t = ''none'' then None
             else if t = ''token'' then check (grayauth_Token a = []) (Required ''graylog.auth.token'')
             else if t = ''basic'' then
               first_error [check (grayauth_Username a = []) (Required ''graylog.auth.username''),
                 check (grayauth_Password a = []) (Required ''graylog.auth.password'')]
             else Some (Unsupported ''graylog.auth.type'' t)))))"

definition PostgresConfig_Validate :: "PostgresConfig \<Rightarrow> config_error option" where
  "PostgresConfig_Validate p =
     first_error
       ((if pg_DSN p = [] then
           [check (pg_Host p = []) (Required ''postgres.host or postgres.dsn''),
            check (pg_Port p \<noteq> 0 \<and> (pg_Port p < 1 \<or> pg_Port p > 65535)) (OutOfRange ''postgres.port''),
            check (pg_Database p = []) (Required ''postgres.database'')]
         else []) @
        [check (pgg_MaxRows (pg_Guardrails p) < 0) (OutOfRange ''postgres.guardrails.max_rows''),
         check (pgg_StatementTimeout (pg_Guardrails p) < 0) (OutOfRange ''postgres.guardrails.statement_timeout''),
         check (pgg_MaxResultSizeBytes (pg_Guardrails p) < 0) (OutOfRange ''postgres.guardrails.max_result_size_bytes'')])"

section \<open>Which providers the enabled list is about\<close>

text \<open>The loop the seven functions share: the sample capability and the prefix vary.\<close>

definition mentions :: "gostring \<Rightarrow> gostring \<Rightarrow> gostring \<Rightarrow> bool" where
  "mentions sample pre name \<longleftrightarrow>
     (IsPattern name \<and> Match sample name = Inr True) \<or> HasPrefix name pre"

definition hasKubernetesCapabilityEnabled :: "Config \<Rightarrow> bool" where
  "hasKubernetesCapabilityEnabled c =
     list_ex (mentions ''kubernetes.pod.list'' ''kubernetes.'') (capcfg_Enabled (cfg_Capabilities c))"

definition hasAzureCapabilityEnabled :: "Config \<Rightarrow> bool" where
  "hasAzureCapabilityEnabled c =
     list_ex (mentions ''azure.network.nsg.list'' ''azure.'') (capcfg_Enabled (cfg_Capabilities c))"

definition hasPrometheusCapabilityEnabled :: "Config \<Rightarrow> bool" where
  "hasPrometheusCapabilityEnabled c =
     list_ex (mentions ''prometheus.query.instant'' ''prometheus.'') (capcfg_Enabled (cfg_Capabilities c))"

definition hasLinuxCapabilityEnabled :: "Config \<Rightarrow> bool" where
  "hasLinuxCapabilityEnabled c =
     list_ex (mentions ''linux.system.info'' ''linux.'') (capcfg_Enabled (cfg_Capabilities c))"

definition hasKafkaCapabilityEnabled :: "Config \<Rightarrow> bool" where
  "hasKafkaCapabilityEnabled c =
     list_ex (mentions ''kafka.cluster.describe'' ''kafka.'') (capcfg_Enabled (cfg_Capabilities c))"

definition hasGraylogCapabilityEnabled :: "Config \<Rightarrow> bool" where
  "hasGraylogCapabilityEnabled c =
     list_ex (mentions ''log.graylog.search'' ''log.'') (capcfg_Enabled (cfg_Capabilities c))"

definition hasPostgresCapabilityEnabled :: "Config \<Rightarrow> bool" where
  "hasPostgresCapabilityEnabled c =
     list_ex (mentions ''postgres.query.execute'' ''postgres.'') (capcfg_Enabled (cfg_Capabilities c))"

text \<open>The warnings, each with the name of its provider.\<close>

definition ValidateProviderConfigs :: "config_env \<Rightarrow> Config \<Rightarrow> (gostring \<times> config_error) list" where
  "ValidateProviderConfigs env c =
     concat (map (\<lambda>(relevant, name, err).
         case err of Some e \<Rightarrow> if relevant then [(name, e)] else [] | None \<Rightarrow> [])
       [(hasAzureCapabilityEnabled c, ''azure'', AzureConfig_Validate (cfg_Azure c)),
        (hasKubernetesCapabilityEnabled c, ''kubernetes'', KubernetesConfig_Validate env (cfg_Kubernetes c)),
        (hasPrometheusCapabilityEnabled c, ''prometheus'', PrometheusConfig_Validate env (cfg_Prometheus c)),
        (hasLinuxCapabilityEnabled c, ''linux'', LinuxConfig_Validate (cfg_Linux c)),
        (hasKafkaCapabilityEnabled c, ''kafka'', KafkaConfig_Validate env (cfg_Kafka c)),
        (hasGraylogCapabilityEnabled c, ''graylog'', GraylogConfig_Validate env (cfg_Graylog c)),
        (hasPostgresCapabilityEnabled c, ''postgres'', PostgresConfig_Validate (cfg_Postgres c))])"

section \<open>Loading\<close>

datatype load_error = ReadConfig gostring | UnmarshalConfig gostring

definition Load :: "(gostring \<Rightarrow> 'bytes option) \<Rightarrow> ('bytes \<Rightarrow> Config option) \<Rightarrow> host_facts \<Rightarrow> gostring \<Rightarrow> load_error + Config" where
  "Load readFile unmarshal h path =
     (case readFile path of
        None \<Rightarrow> Inl (ReadConfig path)
      | Some data \<Rightarrow>
          (case unmarshal data of
             None \<Rightarrow> Inl (UnmarshalConfig path)
           | Some cfg \<Rightarrow> Inr (cfg\<lparr>cfg_Metadata := AutodetectDefaults h (cfg_Metadata cfg)\<rparr>)))"

section \<open>Facts\<close>

lemma SplitHostPort_plain:
  assumes "set h \<inter> set '':[]'' = {}" "set p \<inter> set '':[]'' = {}"
  shows "SplitHostPort (h @ '':'' @ p) = Some (h, p)"
proof -
  have "takeWhile (\<lambda>c. c \<noteq> CHR '':'') (rev (h @ '':'' @ p)) = rev p"
    using assms by (simp add: takeWhile_append)
  moreover have "hd (h @ '':'' @ p) \<noteq> CHR ''[''" using assms by (cases h) auto
  ultimately show ?thesis using assms by (simp add: SplitHostPort_def Let_def)
qed

lemma SplitHostPort_bracketed:
  assumes "set h \<inter> set ''[]'' = {}" "set p \<inter> set '':[]'' = {}"
  shows "SplitHostPort (''['' @ h @ '']:'' @ p) = Some (h, p)"
proof -
  have port: "takeWhile (\<lambda>c. c \<noteq> CHR '':'') (rev (''['' @ h @ '']:'' @ p)) = rev p"
    using assms by (simp add: takeWhile_append)
  have end1: "takeWhile (\<lambda>c. c \<noteq> CHR '']'') (''['' @ h @ '']:'' @ p) = ''['' @ h"
    using assms by (simp add: takeWhile_append)
  show ?thesis using assms unfolding SplitHostPort_def port end1 by (simp add: Let_def)
qed

lemma last_colon:
  assumes "CHR '':'' \<in> set s"
  shows "s = take (length s - length (takeWhile (\<lambda>c. c \<noteq> CHR '':'') (rev s)) - 1) s @ '':'' @
    rev (takeWhile (\<lambda>c. c \<noteq> CHR '':'') (rev s))"
proof -
  from split_list_last [OF assms] obtain a b where ab: "s = a @ CHR '':'' # b" "CHR '':'' \<notin> set b" by blast
  then have "takeWhile (\<lambda>c. c \<noteq> CHR '':'') (rev s) = rev b" by (simp add: takeWhile_append)
  then show ?thesis by (simp add: ab(1))
qed

lemma SplitHostPort_inverse:
  assumes "SplitHostPort s = Some (h, p)"
  shows "s = h @ '':'' @ p \<or> s = ''['' @ h @ '']:'' @ p"
proof -
  let ?port = "rev (takeWhile (\<lambda>c. c \<noteq> CHR '':'') (rev s))"
  let ?i = "length s - length ?port - 1"
  have colon: "CHR '':'' \<in> set s" using assms by (auto simp: SplitHostPort_def split: if_splits)
  have s: "s = take ?i s @ '':'' @ ?port" using last_colon [OF colon] by simp
  have p: "p = ?port" using assms colon by (auto simp: SplitHostPort_def Let_def split: if_splits)
  show ?thesis
  proof (cases "hd s = CHR ''[''")
    case False
    with assms colon have "h = take ?i s" by (auto simp: SplitHostPort_def Let_def split: if_splits)
    with s p show ?thesis by metis
  next
    case True
    let ?e = "length (takeWhile (\<lambda>c. c \<noteq> CHR '']'') s)"
    from assms colon True have e: "?e + 1 = ?i" "h = drop 1 (take ?e s)" "CHR '']'' \<in> set s"
      by (auto simp: SplitHostPort_def Let_def split: if_splits)
    from split_list_first [OF e(3)] obtain a b where ab: "s = a @ CHR '']'' # b" "CHR '']'' \<notin> set a" by blast
    then have tw: "takeWhile (\<lambda>c. c \<noteq> CHR '']'') s = a" by (simp add: takeWhile_append)
    have "take ?i s = a @ '']''" using e(1) tw ab(1) by (metis take_Suc_conv_app_nth Suc_eq_plus1 append_Cons append_Nil append_eq_conv_conj length_append_singleton append.assoc)
    moreover have "a = ''['' @ h"
      using e(2) tw ab True by (cases a) auto
    ultimately show ?thesis using s p by (metis append.assoc append_Cons append_Nil)
  qed
qed

section \<open>Properties\<close>

text \<open>
  \<open>SplitHostPort\<close>, which decides whether a bootstrap server is accepted, is the inverse of
  joining: a host and a port without colons and brackets come back from \<open>host:port\<close>, a host with
  colons from the bracketed form, and an accepted address is always one of the two joins of its parts.
\<close>

theorem SplitHostPort_roundtrip:
  assumes "set h \<inter> set ''[]'' = {}" "set p \<inter> set '':[]'' = {}"
  shows "SplitHostPort (''['' @ h @ '']:'' @ p) = Some (h, p) \<and>
    (CHR '':'' \<notin> set h \<longrightarrow> SplitHostPort (h @ '':'' @ p) = Some (h, p)) \<and>
    (\<forall>s h' p'. SplitHostPort s = Some (h', p') \<longrightarrow> s = h' @ '':'' @ p' \<or> s = ''['' @ h' @ '']:'' @ p')"
  using SplitHostPort_bracketed [OF assms] SplitHostPort_plain [of h p] assms SplitHostPort_inverse by auto

theorem SplitHostPort_roundtrip_witness:
  "SplitHostPort ''[::1]:9092'' = Some (''::1'', ''9092'') \<and> SplitHostPort ''k1:9092'' = Some (''k1'', ''9092'') \<and>
   bootstrap_error ''k1'' = Some (InvalidAddress ''k1'')"
proof -
  have "SplitHostPort ''k1'' = None" by (simp add: SplitHostPort_def)
  then show ?thesis
    using SplitHostPort_roundtrip [of "''::1''" "''9092''"] SplitHostPort_roundtrip [of "''k1''" "''9092''"]
    by (simp add: bootstrap_error_def)
qed

lemma glob_no_star: "\<not> IsPattern e \<Longrightarrow> glob e s \<longleftrightarrow> e = s"
  using glob_literal [of e "[]" s]
  by (auto simp: IsPattern_def star_free_def prefix_def)

lemma enabled_entry_glob:
  assumes "enabled_entry_error e = None" "ValidateName name = None"
  shows "pattern_enables name e \<longleftrightarrow> glob e name"
proof (cases "IsPattern e")
  case True
  with assms(1) have "ValidatePattern e = None" by (simp add: enabled_entry_error_def split: option.splits)
  moreover from assms(2) have "CHR ''/'' \<notin> set name"
    using namePattern_no_slash by (auto simp: ValidateName_def split: if_splits)
  ultimately show ?thesis
    using path_Match_glob [OF ValidatePattern_plain] True by (simp add: pattern_enables_def Match_def)
next
  case False
  then show ?thesis by (simp add: pattern_enables_def glob_no_star)
qed

lemma AuthMethod_total:
  "Authentication_Validate a = None \<Longrightarrow>
     (\<exists>m. AuthMethod a = Inr m) \<and> (auth_SecretKey a = None \<longleftrightarrow> auth_MTLS a \<noteq> None)"
proof -
  assume h: "Authentication_Validate a = None"
  then have "auth_SecretKey a = None \<longleftrightarrow> auth_MTLS a \<noteq> None"
    by (auto simp: Authentication_Validate_def split: if_splits option.splits)
  moreover from this have "\<exists>m. AuthMethod a = Inr m"
    by (cases "auth_SecretKey a"; cases "auth_MTLS a") (auto simp: AuthMethod_def h)
  ultimately show ?thesis by blast
qed


text \<open>A small valid configuration.\<close>

definition sample_Config :: Config where
  "sample_Config = zero_Config\<lparr>cfg_AgentID := ''a1'',
     cfg_ControlPlane := zero_ControlPlane\<lparr>cp_Address := ''cp:443''\<rparr>,
     cfg_Authentication := zero_Authentication\<lparr>auth_SecretKey := Some \<lparr>sk_Key = ''k''\<rparr>\<rparr>,
     cfg_Metadata := zero_Metadata\<lparr>md_Name := ''n''\<rparr>,
     cfg_Capabilities := \<lparr>capcfg_Enabled = [''*.list'']\<rparr>\<rparr>"

definition sample_env :: config_env where
  "sample_env = \<lparr>env_Stat = (\<lambda>_. False), env_url_Parse = (\<lambda>_. None)\<rparr>"

lemma sample_Config_valid: "Config_Validate sample_env (Some sample_Config) = None"
  by code_simp


text \<open>
  The warnings look at one sample capability per provider: a list that enables other capabilities of
  it, or the empty list, which enables everything, does not have the provider checked.
\<close>

lemma enabled_but_not_checked:
  "isEnabledLocked ((Registry_New :: (unit, unit) Registry)\<lparr>r_enabledPatterns := [''*.list'']\<rparr>) ''prometheus.rules.list'' \<and>
   PrometheusConfig_Validate sample_env (cfg_Prometheus sample_Config) \<noteq> None \<and>
   map fst (ValidateProviderConfigs sample_env sample_Config) = [''azure'']"
  by code_simp

lemma everything_enabled_nothing_checked:
  "capcfg_Enabled (cfg_Capabilities c) = [] \<Longrightarrow>
     ValidateProviderConfigs env c = [] \<and> isEnabledLocked (Registry_New\<lparr>r_enabledPatterns := []\<rparr>) name"
  by (simp add: ValidateProviderConfigs_def isEnabledLocked_def hasAzureCapabilityEnabled_def
      hasKubernetesCapabilityEnabled_def hasPrometheusCapabilityEnabled_def hasLinuxCapabilityEnabled_def
      hasKafkaCapabilityEnabled_def hasGraylogCapabilityEnabled_def hasPostgresCapabilityEnabled_def
      split: option.splits)

end
