(* ===== verification/Client.thy ===== *)
theory Client
  imports Config Provider
begin

text \<open>
  The sequential part of \<open>internal/controlplane/client.go\<close> and \<open>auth.go\<close>: the client's state, its
  construction, the messages it sends, the back-off, the version check of configuration updates and
  the execution of one capability. What runs concurrently is in \<open>Controlplane_Session\<close>.

  The clock, the random source, JSON, the transport credentials and the dial are arguments.
\<close>

section \<open>Authentication\<close>

datatype Authenticator = SecretKeyAuthenticator gostring

datatype client_error =
    AddressRequired
  | TransportCredentials tls_build_error
  | SecretKeyEmpty
  | DialFailed gostring
  | AgentIDRequired
  | RegistrationKeyRequired
  | ClientIsNil
  | ClientIsClosed
  | AlreadyRegistered
  | StreamNotEstablished

fun Authenticator_Method :: "Authenticator \<Rightarrow> gostring" where
  "Authenticator_Method (SecretKeyAuthenticator key) = ''secret_key''"

fun Authenticator_RegistrationKey :: "Authenticator \<Rightarrow> client_error + gostring" where
  "Authenticator_RegistrationKey (SecretKeyAuthenticator key) =
     (if key = [] then Inl SecretKeyEmpty else Inr key)"

section \<open>State\<close>

record registrationState =
  rs_agentID :: gostring
  rs_metadata :: Metadata
  rs_capabilities :: "CapabilityManifest list"
  rs_labels :: "gostring list"
  rs_registrationKey :: gostring
  rs_nonce :: gostring

definition zero_registrationState :: registrationState where
  "zero_registrationState =
     \<lparr>rs_agentID = [], rs_metadata = zero_Metadata, rs_capabilities = [], rs_labels = [],
      rs_registrationKey = [], rs_nonce = []\<rparr>"

text \<open>
  The handlers are represented by their presence; a stream by its number. The semaphore is its
  capacity here, its permits are the executions of the session.
\<close>

record 'x Client =
  cl_executor :: "'x option"
  cl_updateConfigHandler :: bool
  cl_disconnectHandler :: bool
  cl_configuredAgentID :: gostring
  cl_configuredLabels :: "gostring list"
  cl_configuredRegisterKey :: gostring
  cl_configuredNonce :: gostring
  cl_backoffBase :: int
  cl_backoffMax :: int
  cl_stream :: "nat option"
  cl_conn :: bool
  cl_started :: bool
  cl_closed :: bool
  cl_regState :: registrationState
  cl_lastAppliedVersion :: int
  cl_semCapacity :: nat
  cl_lastHeartbeatAck :: "int option"

datatype 'x ClientOption =
    WithTaskExecutor "'x option"
  | WithAgentID gostring
  | WithLabels "gostring list"
  | WithRegistrationKey gostring
  | WithRegistrationNonce gostring
  | WithUpdateConfigHandler bool
  | WithDisconnectHandler bool
  | WithReconnectBackoff int int

fun apply_option :: "'x ClientOption \<Rightarrow> 'x Client \<Rightarrow> 'x Client" where
  "apply_option (WithTaskExecutor executor) c = c\<lparr>cl_executor := executor\<rparr>"
| "apply_option (WithAgentID agentID) c = c\<lparr>cl_configuredAgentID := agentID\<rparr>"
| "apply_option (WithLabels labels) c = c\<lparr>cl_configuredLabels := labels\<rparr>"
| "apply_option (WithRegistrationKey key) c = c\<lparr>cl_configuredRegisterKey := key\<rparr>"
| "apply_option (WithRegistrationNonce nonce) c = c\<lparr>cl_configuredNonce := nonce\<rparr>"
| "apply_option (WithUpdateConfigHandler handler) c = c\<lparr>cl_updateConfigHandler := handler\<rparr>"
| "apply_option (WithDisconnectHandler handler) c = c\<lparr>cl_disconnectHandler := handler\<rparr>"
| "apply_option (WithReconnectBackoff base mx) c =
     (let c1 = (if base > 0 then c\<lparr>cl_backoffBase := base\<rparr> else c)
      in if mx > 0 then c1\<lparr>cl_backoffMax := mx\<rparr> else c1)"

abbreviation defaultBackoffBase :: int where "defaultBackoffBase \<equiv> Second"
abbreviation defaultBackoffMax :: int where "defaultBackoffMax \<equiv> 30 * Second"
abbreviation defaultHeartbeatPeriod :: int where "defaultHeartbeatPeriod \<equiv> 30 * Second"

definition defaultAgentVersion :: gostring where "defaultAgentVersion = ''marvin-agent/v1.0.0''"

text \<open>\<open>build\<close> is \<open>BuildTLSConfig\<close> applied to the TLS settings; \<open>None\<close> means insecure credentials.\<close>

definition transportCredentials ::
  "(TLSConfig \<Rightarrow> tls_build_error + 'creds) \<Rightarrow> ControlPlane \<Rightarrow> client_error + 'creds option" where
  "transportCredentials build cfg =
     (if \<not> TLSConfig_IsEnabled (cp_TLS cfg) then Inr None
      else (case build (cp_TLS cfg) of
              Inl err \<Rightarrow> Inl (TransportCredentials err) | Inr creds \<Rightarrow> Inr (Some creds)))"

definition new_Client :: "int \<Rightarrow> 'x Client" where
  "new_Client maxConcurrentExecutions =
     \<lparr>cl_executor = None, cl_updateConfigHandler = False, cl_disconnectHandler = False,
      cl_configuredAgentID = [], cl_configuredLabels = [], cl_configuredRegisterKey = [],
      cl_configuredNonce = [], cl_backoffBase = defaultBackoffBase, cl_backoffMax = defaultBackoffMax,
      cl_stream = None, cl_conn = False, cl_started = False, cl_closed = False,
      cl_regState = zero_registrationState, cl_lastAppliedVersion = 0,
      cl_semCapacity = nat (if maxConcurrentExecutions \<le> 0 then 10 else maxConcurrentExecutions),
      cl_lastHeartbeatAck = None\<rparr>"

definition clamp_backoff :: "'x Client \<Rightarrow> 'x Client" where
  "clamp_backoff c =
     (if cl_backoffMax c < cl_backoffBase c then c\<lparr>cl_backoffMax := cl_backoffBase c\<rparr> else c)"

definition NewClient ::
  "(TLSConfig \<Rightarrow> tls_build_error + 'creds) \<Rightarrow> (gostring \<Rightarrow> 'creds option \<Rightarrow> bool) \<Rightarrow> ControlPlane \<Rightarrow>
     Authenticator option \<Rightarrow> 'x ClientOption list \<Rightarrow> client_error + 'x Client" where
  "NewClient build dial cfg auth opts =
     (if cp_Address cfg = [] then Inl AddressRequired
      else (case transportCredentials build cfg of
        Inl err \<Rightarrow> Inl err
      | Inr creds \<Rightarrow>
          (let client = clamp_backoff (fold apply_option opts (new_Client (cp_MaxConcurrentExecutions cfg)));
               keyed =
                 (case auth of
                    None \<Rightarrow> Inr client
                  | Some a \<Rightarrow>
                      (if cl_configuredRegisterKey client \<noteq> [] then Inr client
                       else (case Authenticator_RegistrationKey a of
                          Inl err \<Rightarrow> Inl err
                        | Inr key \<Rightarrow> Inr (client\<lparr>cl_configuredRegisterKey := key\<rparr>))))
           in case keyed of
                Inl err \<Rightarrow> Inl err
              | Inr c \<Rightarrow>
                  (if dial (cp_Address cfg) creds then Inr (c\<lparr>cl_conn := True\<rparr>)
                   else Inl (DialFailed (cp_Address cfg))))))"

section \<open>Registration\<close>

definition buildRegistrationState ::
  "(gmap \<Rightarrow> gmap option) \<Rightarrow> ((gostring \<times> gostring) list \<Rightarrow> (gostring \<times> gostring) list) \<Rightarrow>
     'x Client \<Rightarrow> Metadata \<Rightarrow> Capability list \<Rightarrow> client_error + registrationState" where
  "buildRegistrationState newStruct visit c metadata capabilities =
     (let manifests = map (Capability_ToProto newStruct) capabilities;
          agentID = (if cl_configuredAgentID c = [] then md_Name metadata else cl_configuredAgentID c);
          labels = (if length (cl_configuredLabels c) = 0 then ToLabels visit metadata else cl_configuredLabels c)
      in if agentID = [] then Inl AgentIDRequired
         else if cl_configuredRegisterKey c = [] then Inl RegistrationKeyRequired
         else Inr \<lparr>rs_agentID = agentID, rs_metadata = metadata, rs_capabilities = manifests,
                   rs_labels = labels, rs_registrationKey = cl_configuredRegisterKey c,
                   rs_nonce = cl_configuredNonce c\<rparr>)"

text \<open>The guarded part of \<open>Register\<close>, up to the start of the background goroutine.\<close>

definition Register_start :: "registrationState \<Rightarrow> 'x Client \<Rightarrow> client_error + 'x Client" where
  "Register_start regState c =
     (if cl_closed c then Inl ClientIsClosed
      else if cl_started c then Inl AlreadyRegistered
      else Inr (c\<lparr>cl_regState := regState, cl_started := True\<rparr>))"

text \<open>The new manifests, and the stream that is half-closed to force a new registration.\<close>

definition UpdateCapabilities ::
  "(gmap \<Rightarrow> gmap option) \<Rightarrow> Capability list \<Rightarrow> 'x Client \<Rightarrow> 'x Client \<times> nat option" where
  "UpdateCapabilities newStruct capabilities c =
     (c\<lparr>cl_regState := (cl_regState c)\<lparr>rs_capabilities := map (Capability_ToProto newStruct) capabilities\<rparr>\<rparr>,
      cl_stream c)"

section \<open>Messages\<close>

record RegisterMsg =
  rm_AgentVersion :: gostring
  rm_Host :: HostMetadata
  rm_Capabilities :: "CapabilityManifest list"
  rm_Labels :: "gostring list"
  rm_RegistrationNonce :: gostring
  rm_RegistrationKey :: gostring

record CapabilityResult =
  cr_CommandId :: gostring
  cr_SessionId :: gostring
  cr_ThreadId :: gostring
  cr_CapabilityName :: gostring
  cr_ResultIndex :: int
  cr_TargetSetId :: gostring
  cr_ExecutionMode :: int
  cr_Success :: bool
  cr_ErrorMessage :: gostring
  cr_ResultJson :: gostring
  cr_ExecutionDuration :: int

datatype agent_payload =
    Register RegisterMsg | Heartbeat int | ResultMsg CapabilityResult

type_synonym AgentMessage = "gostring \<times> agent_payload"

definition newRegisterMessage :: "'x Client \<Rightarrow> AgentMessage" where
  "newRegisterMessage c =
     (let regState = cl_regState c
      in (rs_agentID regState,
          Register \<lparr>rm_AgentVersion = defaultAgentVersion, rm_Host = Metadata_ToProto (rs_metadata regState),
            rm_Capabilities = rs_capabilities regState, rm_Labels = rs_labels regState,
            rm_RegistrationNonce = rs_nonce regState, rm_RegistrationKey = rs_registrationKey regState\<rparr>))"

definition newHeartbeatMessage :: "int \<Rightarrow> 'x Client \<Rightarrow> AgentMessage" where
  "newHeartbeatMessage now c = (rs_agentID (cl_regState c), Heartbeat now)"

section \<open>Back-off\<close>

text \<open>The doubling loop, with the number of rounds left.\<close>

fun backoff_loop :: "int \<Rightarrow> nat \<Rightarrow> int \<Rightarrow> int" where
  "backoff_loop mx 0 delay = delay"
| "backoff_loop mx (Suc n) delay =
     (if delay \<ge> quot mx 2 then mx else backoff_loop mx n (wrap64 (delay * 2)))"

definition backoff_delay :: "'x Client \<Rightarrow> int \<Rightarrow> int" where
  "backoff_delay c attempt0 =
     (let attempt = (if attempt0 < 0 then 0 else attempt0);
          d0 = backoff_loop (cl_backoffMax c) (nat attempt) (cl_backoffBase c);
          d1 = (if d0 \<le> 0 then cl_backoffBase c else d0)
      in if d1 > cl_backoffMax c then cl_backoffMax c else d1)"

text \<open>\<open>Int63n\<close> is \<open>rand.Int63n\<close>: for a positive \<open>n\<close> some number from 0 to \<open>n - 1\<close>.\<close>

definition nextBackoff :: "(int \<Rightarrow> int) \<Rightarrow> 'x Client \<Rightarrow> int \<Rightarrow> int" where
  "nextBackoff Int63n c attempt =
     (let delay = backoff_delay c attempt;
          maxJitter = quot delay 2
      in if maxJitter \<le> 0 then delay
         else wrap64 (delay + Int63n (int64_of_float amd64_oor (float64_of_int maxJitter))))"

section \<open>Configuration updates\<close>

record UpdateConfig =
  uc_ConfigVersion :: int
  uc_Capabilities :: "CapabilityManifest list"

text \<open>The client and whether the update is to be handed to the handler.\<close>

definition applyUpdateConfig :: "UpdateConfig option \<Rightarrow> 'x Client \<Rightarrow> 'x Client \<times> bool" where
  "applyUpdateConfig upd c =
     (case upd of
        None \<Rightarrow> (c, False)
      | Some u \<Rightarrow>
          (let version = uc_ConfigVersion u
           in if version > 0 \<and> version \<le> cl_lastAppliedVersion c then (c, False)
              else ((if version > 0 then c\<lparr>cl_lastAppliedVersion := version\<rparr> else c),
                    cl_updateConfigHandler c)))"

section \<open>Executing a capability\<close>

record ExecuteCapability =
  ec_CapabilityName :: gostring
  ec_SessionId :: gostring
  ec_ThreadId :: gostring
  ec_ResultIndex :: int
  ec_TargetSetId :: gostring
  ec_ExecutionMode :: int
  ec_ParametersJson :: gostring
  ec_DeadlineUnixMs :: int

text \<open>
  An executor gets the name, the parameters and the deadline and gives a result and perhaps an
  error. \<open>unmarshal\<close> and \<open>marshal\<close> are \<open>encoding/json\<close>'s; an error is its message.
\<close>

type_synonym executor = "gostring \<Rightarrow> gmap \<Rightarrow> int option \<Rightarrow> task_Result \<times> gostring option"

definition result_frame :: "gostring \<Rightarrow> ExecuteCapability \<Rightarrow> int \<Rightarrow> CapabilityResult" where
  "result_frame commandID req duration =
     \<lparr>cr_CommandId = commandID, cr_SessionId = ec_SessionId req, cr_ThreadId = ec_ThreadId req,
      cr_CapabilityName = ec_CapabilityName req, cr_ResultIndex = ec_ResultIndex req,
      cr_TargetSetId = ec_TargetSetId req, cr_ExecutionMode = ec_ExecutionMode req,
      cr_Success = False, cr_ErrorMessage = [], cr_ResultJson = [], cr_ExecutionDuration = duration\<rparr>"

definition decode_params :: "(gostring \<Rightarrow> gostring + gmap) \<Rightarrow> ExecuteCapability \<Rightarrow> gostring + gmap" where
  "decode_params unmarshal req =
     (if ec_ParametersJson req \<noteq> [] then unmarshal (ec_ParametersJson req) else Inr [])"

definition deadline_of :: "ExecuteCapability \<Rightarrow> int option" where
  "deadline_of req = (if ec_DeadlineUnixMs req > 0 then Some (ec_DeadlineUnixMs req) else None)"

definition executeCapability ::
  "(gostring \<Rightarrow> gostring + gmap) \<Rightarrow> (gvalue \<Rightarrow> gostring + gostring) \<Rightarrow> int \<Rightarrow> executor Client \<Rightarrow>
     gostring \<Rightarrow> ExecuteCapability \<Rightarrow> CapabilityResult" where
  "executeCapability unmarshal marshal duration c commandID req =
     (let result = result_frame commandID req duration
      in case decode_params unmarshal req of
           Inl err \<Rightarrow> result\<lparr>cr_ErrorMessage := ''decode parameters_json: '' @ err\<rparr>
         | Inr ps \<Rightarrow>
             (case cl_executor c of
                None \<Rightarrow> result\<lparr>cr_ErrorMessage := ''capability '' @ quoted (ec_CapabilityName req) @
                          '' is not executable: no task executor configured''\<rparr>
              | Some execute \<Rightarrow>
                  (let (execResult, err) = execute (ec_CapabilityName req) ps (deadline_of req);
                       r1 = result\<lparr>cr_Success := (err = None \<and> res_Success execResult),
                                   cr_ErrorMessage := (case err of None \<Rightarrow> res_Error execResult | Some e \<Rightarrow> e)\<rparr>
                   in if res_Data execResult = VNil then r1
                      else (case marshal (res_Data execResult) of
                              Inl e \<Rightarrow> r1\<lparr>cr_Success := False, cr_ErrorMessage := ''marshal task result: '' @ e\<rparr>
                            | Inr encoded \<Rightarrow> r1\<lparr>cr_ResultJson := encoded\<rparr>))))"

section \<open>Facts\<close>

lemma backoff_loop_bounds:
  assumes "0 < delay" "delay \<le> mx" "mx \<le> max_int64"
  shows "delay \<le> backoff_loop mx n delay \<and> backoff_loop mx n delay \<le> mx"
  using assms
proof (induction n arbitrary: delay)
  case (Suc n)
  have q: "quot mx 2 = mx div 2" using Suc.prems by (intro quot_nonneg) auto
  show ?case
  proof (cases "delay \<ge> mx div 2")
    case False
    then have le: "delay * 2 \<le> mx" by linarith
    then have "wrap64 (delay * 2) = delay * 2" using Suc.prems by (intro wrap64_id) auto
    then show ?thesis using Suc.IH [of "delay * 2"] Suc.prems le False q by simp
  qed (use Suc.prems q in simp)
qed simp

text \<open>The delay without jitter doubles until it reaches the maximum.\<close>

lemma backoff_loop_min:
  assumes "0 < delay" "delay \<le> mx" "mx \<le> max_int64"
  shows "min mx (delay * 2 ^ n) \<le> backoff_loop mx n delay"
  using assms
proof (induction n arbitrary: delay)
  case (Suc n)
  have q: "quot mx 2 = mx div 2" using Suc.prems by (intro quot_nonneg) auto
  show ?case
  proof (cases "delay \<ge> mx div 2")
    case False
    then have le: "delay * 2 \<le> mx" by linarith
    then have "wrap64 (delay * 2) = delay * 2" using Suc.prems by (intro wrap64_id) auto
    then show ?thesis using Suc.IH [of "delay * 2"] Suc.prems le False q by (simp add: mult.assoc)
  qed (use Suc.prems q in simp)
qed simp

lemma bitlen_pos: "0 < n \<Longrightarrow> bitlen n = Suc (bitlen (n div 2))"
  by (subst bitlen.simps) simp

lemma bitlen_le: "n < 2 ^ k \<Longrightarrow> bitlen n \<le> k"
proof (induction k arbitrary: n)
  case 0
  then show ?case by (simp add: bitlen.simps)
next
  case (Suc k)
  show ?case
  proof (cases "0 < n")
    case True
    have "n div 2 < 2 ^ k" using Suc.prems by auto
    with Suc.IH True show ?thesis by (simp add: bitlen_pos)
  qed (simp add: bitlen.simps)
qed

lemma float64_of_small:
  assumes "0 \<le> n" "n < 9007199254740992"
  shows "int64_of_float oor (float64_of_int n) = n"
proof -
  have "bitlen \<bar>n\<bar> \<le> 53" using assms by (intro bitlen_le) simp
  then have "float64_of_int n = FFin n 0"
    using assms by (simp add: float64_of_int_def round53_def round_even_def) (cases "n = 0"; simp)
  then show ?thesis using assms by (simp add: dyadic_trunc_def is_int64_def)
qed

lemma backoff_options:
  "0 < cl_backoffBase c \<Longrightarrow> 0 < cl_backoffBase (fold apply_option opts c)"
proof (induction opts arbitrary: c)
  case (Cons opt opts)
  then have "0 < cl_backoffBase (apply_option opt c)" by (cases opt) (auto simp: Let_def)
  with Cons.IH show ?case by simp
qed simp

lemma clamp_backoff_ok:
  "0 < cl_backoffBase c \<Longrightarrow>
     0 < cl_backoffBase (clamp_backoff c) \<and> cl_backoffBase (clamp_backoff c) \<le> cl_backoffMax (clamp_backoff c)"
  by (simp add: clamp_backoff_def)

lemma NewClient_backoff:
  assumes "NewClient build dial cfg auth opts = Inr c"
  shows "0 < cl_backoffBase c \<and> cl_backoffBase c \<le> cl_backoffMax c"
proof -
  let ?c = "clamp_backoff (fold apply_option opts (new_Client (cp_MaxConcurrentExecutions cfg)))"
  have "0 < cl_backoffBase ?c \<and> cl_backoffBase ?c \<le> cl_backoffMax ?c"
    by (intro clamp_backoff_ok backoff_options) (simp add: new_Client_def)
  moreover have "cl_backoffBase c = cl_backoffBase ?c \<and> cl_backoffMax c = cl_backoffMax ?c"
    using assms by (auto simp: NewClient_def Let_def split: if_splits sum.splits option.splits)
  ultimately show ?thesis by simp
qed

lemma backoff_delay_bounds:
  assumes "0 < cl_backoffBase c" "cl_backoffBase c \<le> cl_backoffMax c" "cl_backoffMax c \<le> max_int64"
  shows "min (cl_backoffMax c) (cl_backoffBase c * 2 ^ nat attempt) \<le> backoff_delay c attempt \<and>
    cl_backoffBase c \<le> backoff_delay c attempt \<and> backoff_delay c attempt \<le> cl_backoffMax c"
proof -
  have n: "nat (if attempt < 0 then 0 else attempt) = nat attempt" by simp
  have "backoff_delay c attempt = backoff_loop (cl_backoffMax c) (nat attempt) (cl_backoffBase c)"
    using backoff_loop_bounds [OF assms, of "nat attempt"] assms
    unfolding backoff_delay_def Let_def n by auto
  then show ?thesis
    using backoff_loop_bounds [OF assms, of "nat attempt"] backoff_loop_min [OF assms, of "nat attempt"] by simp
qed

lemma wrap_add_small: "0 \<le> a \<Longrightarrow> 0 \<le> b \<Longrightarrow> a \<le> 9007199254740991 \<Longrightarrow> b \<le> 9007199254740991 \<Longrightarrow> wrap64 (a + b) = a + b"
  by (intro wrap64_id) auto

section \<open>Properties\<close>

text \<open>
  Claim C32. The reconnect delay of a client made by \<open>NewClient\<close>, whatever the options: with a
  maximum below \<open>2 ^ 53\<close> nanoseconds (104 days) it is at least the base doubled per attempt or the
  maximum, and less than one and a half times the maximum, for every answer of the random source. No
  attempt number overflows it.
\<close>

theorem NewClient_nextBackoff:
  assumes "NewClient build dial cfg auth opts = Inr c" "cl_backoffMax c < 9007199254740992"
    "\<And>n. 0 < n \<Longrightarrow> 0 \<le> Int63n n \<and> Int63n n < n"
  shows "min (cl_backoffMax c) (cl_backoffBase c * 2 ^ nat attempt) \<le> nextBackoff Int63n c attempt \<and>
    0 < nextBackoff Int63n c attempt \<and> 2 * nextBackoff Int63n c attempt \<le> 3 * cl_backoffMax c"
proof -
  have base: "0 < cl_backoffBase c" "cl_backoffBase c \<le> cl_backoffMax c" using NewClient_backoff [OF assms(1)] by auto
  let ?d = "backoff_delay c attempt" and ?j = "quot (backoff_delay c attempt) 2"
  have d: "min (cl_backoffMax c) (cl_backoffBase c * 2 ^ nat attempt) \<le> ?d" "0 < ?d" "?d \<le> cl_backoffMax c"
    using backoff_delay_bounds [OF base, of attempt] assms(2) base by auto
  have j: "?j = ?d div 2" using d by (intro quot_nonneg) auto
  show ?thesis
  proof (cases "?j \<le> 0")
    case True
    then show ?thesis using d by (simp add: nextBackoff_def Let_def)
  next
    case False
    have "int64_of_float amd64_oor (float64_of_int ?j) = ?j"
      using False d assms(2) j by (intro float64_of_small) auto
    moreover have r: "0 \<le> Int63n ?j" "Int63n ?j < ?j" using assms(3) [of ?j] False by auto
    moreover have "wrap64 (?d + Int63n ?j) = ?d + Int63n ?j"
      using d r j assms(2) by (intro wrap_add_small) auto
    ultimately have "nextBackoff Int63n c attempt = ?d + Int63n ?j"
      using False by (simp add: nextBackoff_def Let_def)
    then show ?thesis using d r j by auto
  qed
qed

definition sample_cp :: ControlPlane where
  "sample_cp = \<lparr>cp_Address = ''cp:443'', cp_TLS = \<lparr>tls_Enabled = Some False, tls_InsecureSkipVerify = False,
     tls_CACertFile = []\<rparr>, cp_MaxConcurrentExecutions = 2\<rparr>"

definition sample_client :: "unit Client" where
  "sample_client =
     (new_Client 2)\<lparr>cl_backoffBase := 5 * Second, cl_configuredRegisterKey := ''k'', cl_conn := True\<rparr>"

theorem NewClient_nextBackoff_witness:
  "30 * Second \<le> nextBackoff (\<lambda>n. n - 1) sample_client 100 \<and> nextBackoff (\<lambda>n. n - 1) sample_client 100 \<le> 45 * Second"
proof -
  have new: "NewClient (\<lambda>_. Inr ()) (\<lambda>_ _. True) sample_cp (Some (SecretKeyAuthenticator ''k''))
      [WithReconnectBackoff (5 * Second) 0] = Inr sample_client"
    by (simp add: NewClient_def transportCredentials_def sample_cp_def TLSConfig_IsEnabled_def clamp_backoff_def
        new_Client_def sample_client_def)
  have mx: "cl_backoffMax sample_client = 30 * Second" "cl_backoffBase sample_client = 5 * Second"
    by (simp_all add: sample_client_def new_Client_def)
  have "(5 * Second) * 2 ^ nat 3 \<le> (5 * Second) * 2 ^ nat 100" by (intro mult_left_mono power_increasing) auto
  with NewClient_nextBackoff [OF new, of "\<lambda>n. n - 1" 100] mx show ?thesis by simp
qed

definition encodes :: "(gvalue \<Rightarrow> gostring + gostring) \<Rightarrow> gvalue \<Rightarrow> bool" where
  "encodes marshal v \<longleftrightarrow> v = VNil \<or> (case marshal v of Inr _ \<Rightarrow> True | Inl _ \<Rightarrow> False)"

text \<open>
  Claim C31. The answer to an execution request carries the request's identifiers, and it reports
  success exactly when the parameters were decoded, an executor is configured, it returned a
  successful result without an error, and the data, if there is any, could be encoded.
\<close>

theorem executeCapability_spec:
  "(let r = executeCapability unmarshal marshal d c cid req in
    (cr_CommandId r, cr_SessionId r, cr_ThreadId r, cr_CapabilityName r, cr_ResultIndex r, cr_TargetSetId r) =
      (cid, ec_SessionId req, ec_ThreadId req, ec_CapabilityName req, ec_ResultIndex req, ec_TargetSetId req) \<and>
    (cr_Success r \<longleftrightarrow>
      (\<exists>ps execute res. decode_params unmarshal req = Inr ps \<and> cl_executor c = Some execute \<and>
         execute (ec_CapabilityName req) ps (deadline_of req) = (res, None) \<and> res_Success res \<and>
         encodes marshal (res_Data res))))"
proof (cases "decode_params unmarshal req")
  case (Inr ps)
  show ?thesis
  proof (cases "cl_executor c")
    case (Some execute)
    obtain res err where run: "execute (ec_CapabilityName req) ps (deadline_of req) = (res, err)" by fastforce
    show ?thesis
      by (cases "marshal (res_Data res)"; cases err)
        (simp_all add: executeCapability_def encodes_def result_frame_def Let_def Inr Some run)
  qed (simp add: executeCapability_def result_frame_def Inr)
qed (simp add: executeCapability_def result_frame_def)

fun apply_updates :: "UpdateConfig option list \<Rightarrow> 'x Client \<Rightarrow> UpdateConfig list \<times> 'x Client" where
  "apply_updates [] c = ([], c)"
| "apply_updates (u # us) c =
     (let (c1, handed) = applyUpdateConfig u c; (rest, c2) = apply_updates us c1
      in ((case u of Some x \<Rightarrow> if handed then [x] else [] | None \<Rightarrow> []) @ rest, c2))"

lemma apply_updates_above:
  "list_all (\<lambda>v. cl_lastAppliedVersion c < v)
     (filter (\<lambda>v. 0 < v) (map uc_ConfigVersion (fst (apply_updates us c))))"
proof (induction us arbitrary: c)
  case (Cons u us)
  have mono: "cl_lastAppliedVersion c \<le> cl_lastAppliedVersion (fst (applyUpdateConfig u c))"
    by (auto simp: applyUpdateConfig_def Let_def split: option.splits)
  have "list_all (\<lambda>v. cl_lastAppliedVersion c < v)
      (filter (\<lambda>v. 0 < v) (map uc_ConfigVersion (fst (apply_updates us (fst (applyUpdateConfig u c))))))"
    using Cons.IH [of "fst (applyUpdateConfig u c)"] mono by (auto simp: list_all_iff)
  then show ?case
    by (auto simp: applyUpdateConfig_def Let_def list_all_iff split: option.splits prod.splits if_splits)
qed simp

text \<open>
  Claim C30. However updates arrive, in stream messages or with registrations and out of order, the
  versions handed to the handler, unversioned ones aside, strictly increase: a stale update is
  never applied over a newer one.
\<close>

theorem applied_versions_increase:
  "sorted_wrt (<) (filter (\<lambda>v. 0 < v) (map uc_ConfigVersion (fst (apply_updates us c))))"
proof (induction us arbitrary: c)
  case (Cons u us)
  obtain c1 h where c1: "applyUpdateConfig u c = (c1, h)" by fastforce
  have above: "cl_lastAppliedVersion c1 = uc_ConfigVersion x" if "u = Some x" "h" "0 < uc_ConfigVersion x" for x
    using that c1 by (auto simp: applyUpdateConfig_def Let_def split: if_splits)
  from Cons.IH [of c1] apply_updates_above [of c1 us] c1 above show ?case
    by (auto simp: Let_def list_all_iff split: option.splits prod.splits)
qed simp

end
