(* ===== verification/Controlplane_Session.thy ===== *)
theory Controlplane_Session
  imports Client
begin

text \<open>
  The concurrent part of \<open>internal/controlplane/client.go\<close>: the background goroutine (\<open>run\<close>,
  \<open>connectOnce\<close>, \<open>recvLoop\<close>), the heartbeat goroutine of the current stream and the goroutines of
  the executions, as a labelled step relation. A label tells who causes a step: the server or the
  transport (what \<open>Recv\<close> returns), the caller who cancels, or the agent itself.

  \<^item> A phase is a place where the background goroutine may be waiting; what it does between two
    of them is one step.
  \<^item> Streams are numbered in the order they are opened; \<open>ss_sent\<close> is the log of the messages sent,
    with their stream. A message can only be sent on the newest stream, while its context lives and it
    is not half-closed.
  \<^item> The semaphore's permits are the entries of \<open>ss_inflight\<close>, and so is the wait group's count:
    both go up before the execution's goroutine starts and down when it ends.
  \<^item> \<open>firstRegistration\<close> is the list of values sent on the channel (whose capacity is one).
  \<^item> The handler of configuration updates acts on a state \<open>'w\<close>; the list it may return is
    what it calls \<open>UpdateCapabilities\<close> with before it returns.
\<close>

section \<open>State\<close>

datatype ControlMessage =
    CM_Registered int "UpdateConfig option"
  | CM_RegistrationRejected bool gostring
  | CM_ExecuteCapability gostring "ExecuteCapability option"
  | CM_UpdateConfig "UpdateConfig option"
  | CM_Disconnect bool
  | CM_HeartbeatAck
  | CM_Other

datatype session_error =
    OpenStream
  | SendRegister
  | WaitResponse
  | PermanentRegistrationError gostring
  | TemporaryRegistrationError gostring
  | NotAcknowledged
  | ReceiveFailed
  | UnsupportedPayload
  | HeartbeatSendFailed
  | AckMissing
  | ContextCanceled

datatype phase =
    PTop
  | PConnect
  | PReply nat
  | PReceiving nat
  | PDispatch nat gostring ExecuteCapability
  | PDraining nat
  | PJoin nat "session_error option"
  | PBackoff int
  | PDone

datatype heartbeat =
    HBNone | HBStart nat int | HBLoop nat int | HBEnded session_error

datatype label = LServer | LCaller | LAgent

record 'w session =
  ss_client :: "executor Client"
  ss_world :: 'w
  ss_phase :: phase
  ss_attempt :: int
  ss_first :: "session_error option list"
  ss_cancelled :: bool
  ss_streamCancelled :: bool
  ss_heartbeat :: heartbeat
  ss_inflight :: "(nat \<times> gostring \<times> ExecuteCapability) list"
  ss_sent :: "(nat \<times> AgentMessage) list"
  ss_halfClosed :: "nat set"
  ss_opened :: nat

record 'w session_env =
  se_newStruct :: "gmap \<Rightarrow> gmap option"
  se_unmarshal :: "gostring \<Rightarrow> gostring + gmap"
  se_marshal :: "gvalue \<Rightarrow> gostring + gostring"
  se_update :: "UpdateConfig \<Rightarrow> 'w \<Rightarrow> 'w \<times> Capability list option"
  se_execute :: "'w \<Rightarrow> executor"

section \<open>Operations\<close>

definition reportFirst :: "session_error option \<Rightarrow> 'w session \<Rightarrow> 'w session" where
  "reportFirst err s = (if ss_first s \<noteq> [] then s else s\<lparr>ss_first := [err]\<rparr>)"

definition half_close :: "nat \<Rightarrow> 'w session \<Rightarrow> 'w session" where
  "half_close sid s = s\<lparr>ss_halfClosed := insert sid (ss_halfClosed s)\<rparr>"

text \<open>
  \<open>Close\<close>, once: it marks the client as closed, cancels the context of the goroutine and half-closes the stream of
  the time. It then waits for the goroutine and closes the connection.
\<close>

definition Client_Close :: "'w session \<Rightarrow> 'w session" where
  "Client_Close s =
     (if cl_closed (ss_client s) then s
      else (let s1 = s\<lparr>ss_client := (ss_client s)\<lparr>cl_closed := True, cl_conn := False\<rparr>, ss_cancelled := True\<rparr> in
            case cl_stream (ss_client s) of None \<Rightarrow> s1 | Some sid \<Rightarrow> half_close sid s1))"

definition setStream :: "nat \<Rightarrow> 'w session \<Rightarrow> 'w session" where
  "setStream sid s = s\<lparr>ss_client := (ss_client s)\<lparr>cl_stream := Some sid\<rparr>\<rparr>"

definition clearStream :: "nat \<Rightarrow> 'w session \<Rightarrow> 'w session" where
  "clearStream sid s =
     (if cl_stream (ss_client s) = Some sid then s\<lparr>ss_client := (ss_client s)\<lparr>cl_stream := None\<rparr>\<rparr> else s)"

definition ack_now :: "int \<Rightarrow> 'w session \<Rightarrow> 'w session" where
  "ack_now now s = s\<lparr>ss_client := (ss_client s)\<lparr>cl_lastHeartbeatAck := Some now\<rparr>\<rparr>"

text \<open>\<open>applyUpdateConfig\<close> with the handler, and the handler with the callback of the registry.\<close>

definition capabilities_changed :: "'w session_env \<Rightarrow> Capability list \<Rightarrow> 'w session \<Rightarrow> 'w session" where
  "capabilities_changed env caps s =
     (let (c, stream) = UpdateCapabilities (se_newStruct env) caps (ss_client s); s1 = s\<lparr>ss_client := c\<rparr>
      in case stream of None \<Rightarrow> s1 | Some sid \<Rightarrow> half_close sid s1)"

definition handle_update :: "'w session_env \<Rightarrow> UpdateConfig option \<Rightarrow> 'w session \<Rightarrow> 'w session" where
  "handle_update env upd s =
     (let (c, handed) = applyUpdateConfig upd (ss_client s); s1 = s\<lparr>ss_client := c\<rparr>
      in case upd of
           None \<Rightarrow> s1
         | Some u \<Rightarrow>
             (if \<not> handed then s1
              else (let (w, changed) = se_update env u (ss_world s1); s2 = s1\<lparr>ss_world := w\<rparr>
                in case changed of None \<Rightarrow> s2 | Some caps \<Rightarrow> capabilities_changed env caps s2)))"

text \<open>Whether \<open>safeSend\<close> can succeed on a stream; its context is the newest stream's.\<close>

definition can_send :: "nat \<Rightarrow> 'w session \<Rightarrow> bool" where
  "can_send sid s \<longleftrightarrow> Suc sid = ss_opened s \<and> \<not> ss_streamCancelled s \<and> \<not> ss_cancelled s \<and> sid \<notin> ss_halfClosed s"

definition send :: "nat \<Rightarrow> AgentMessage \<Rightarrow> 'w session \<Rightarrow> 'w session" where
  "send sid msg s = s\<lparr>ss_sent := ss_sent s @ [(sid, msg)]\<rparr>"

text \<open>The rest of an iteration of \<open>run\<close>, after \<open>connectOnce\<close> has returned.\<close>

definition connect_done :: "(int \<Rightarrow> int) \<Rightarrow> bool \<Rightarrow> session_error option \<Rightarrow> 'w session \<Rightarrow> 'w session" where
  "connect_done Int63n registered err s0 =
     (let s = s0\<lparr>ss_streamCancelled := True, ss_attempt := (if registered then 0 else ss_attempt s0)\<rparr>
      in case err of
           Some (PermanentRegistrationError reason) \<Rightarrow>
             (reportFirst err s)\<lparr>ss_phase := PDone\<rparr>
         | _ \<Rightarrow>
             (if ss_cancelled s then s\<lparr>ss_phase := PDone\<rparr>
              else s\<lparr>ss_phase := PBackoff (nextBackoff Int63n (ss_client s) (ss_attempt s)),
                     ss_attempt := ss_attempt s + 1\<rparr>))"

definition rejection :: "bool \<Rightarrow> gostring \<Rightarrow> session_error" where
  "rejection permanent reason =
     (if permanent then PermanentRegistrationError reason else TemporaryRegistrationError reason)"

text \<open>The reaction to the first message of a stream.\<close>

definition on_reply :: "'w session_env \<Rightarrow> (int \<Rightarrow> int) \<Rightarrow> int \<Rightarrow> nat \<Rightarrow> ControlMessage option \<Rightarrow> 'w session \<Rightarrow> 'w session" where
  "on_reply env Int63n now sid msg s =
     (case msg of
        None \<Rightarrow> connect_done Int63n False (Some WaitResponse) (half_close sid s)
      | Some (CM_RegistrationRejected permanent reason) \<Rightarrow>
          connect_done Int63n False (Some (rejection permanent reason)) (half_close sid s)
      | Some (CM_Registered interval eff) \<Rightarrow>
          (setStream sid (ack_now now (handle_update env eff (reportFirst None s))))
            \<lparr>ss_heartbeat := HBStart sid interval, ss_phase := PReceiving sid\<rparr>
      | Some _ \<Rightarrow> connect_done Int63n False (Some NotAcknowledged) (half_close sid s))"

text \<open>\<open>recvLoop\<close> has returned and \<open>connectOnce\<close> cancels the stream.\<close>

definition recv_done :: "nat \<Rightarrow> session_error option \<Rightarrow> 'w session \<Rightarrow> 'w session" where
  "recv_done sid err s = s\<lparr>ss_streamCancelled := True, ss_phase := PJoin sid err\<rparr>"

text \<open>
  What \<open>recvLoop\<close> does with a message, with the end of the stream (\<open>Inl None\<close>) and with another
  error, which may or may not be the context's (\<open>Inl (Some True)\<close>, \<open>Inl (Some False)\<close>).
\<close>

definition on_receive :: "'w session_env \<Rightarrow> int \<Rightarrow> nat \<Rightarrow> bool option + ControlMessage \<Rightarrow> 'w session \<Rightarrow> 'w session" where
  "on_receive env now sid msg s =
     (case msg of
        Inl None \<Rightarrow> recv_done sid None s
      | Inl (Some canceled) \<Rightarrow> recv_done sid (Some (if canceled then ContextCanceled else ReceiveFailed)) s
      | Inr (CM_ExecuteCapability cmd (Some req)) \<Rightarrow> s\<lparr>ss_phase := PDispatch sid cmd req\<rparr>
      | Inr (CM_ExecuteCapability cmd None) \<Rightarrow> s
      | Inr (CM_UpdateConfig upd) \<Rightarrow> handle_update env upd s
      | Inr (CM_Disconnect graceful) \<Rightarrow>
          (if graceful then s\<lparr>ss_phase := PDraining sid\<rparr> else recv_done sid None s)
      | Inr (CM_Registered _ _) \<Rightarrow> s
      | Inr (CM_RegistrationRejected permanent reason) \<Rightarrow> recv_done sid (Some (rejection permanent reason)) s
      | Inr CM_HeartbeatAck \<Rightarrow> ack_now now s
      | Inr CM_Other \<Rightarrow> recv_done sid (Some UnsupportedPayload) s)"

definition connect_result :: "session_error option \<Rightarrow> session_error \<Rightarrow> session_error option" where
  "connect_result recvErr hbErr =
     (if recvErr \<noteq> None \<and> recvErr \<noteq> Some ContextCanceled then recvErr
      else if hbErr \<noteq> ContextCanceled then Some hbErr
      else None)"

definition heartbeat_interval :: "int \<Rightarrow> int" where
  "heartbeat_interval seconds = (if seconds > 0 then wrap64 (seconds * Second) else defaultHeartbeatPeriod)"

definition ack_missing :: "int \<Rightarrow> int \<Rightarrow> 'w session \<Rightarrow> bool" where
  "ack_missing now interval s =
     (case cl_lastHeartbeatAck (ss_client s) of
        None \<Rightarrow> False | Some lastAck \<Rightarrow> now - lastAck > interval * 2 + 5 * Second)"

definition result_message :: "'w session_env \<Rightarrow> int \<Rightarrow> gostring \<Rightarrow> ExecuteCapability \<Rightarrow> 'w session \<Rightarrow> AgentMessage" where
  "result_message env duration cmd req s =
     (let c = ss_client s;
          c' = c\<lparr>cl_executor := map_option (\<lambda>_. se_execute env (ss_world s)) (cl_executor c)\<rparr>
      in (rs_agentID (cl_regState c),
          ResultMsg (executeCapability (se_unmarshal env) (se_marshal env) duration c' cmd req)))"

section \<open>Steps\<close>

inductive session_step :: "'w session_env \<Rightarrow> label \<Rightarrow> 'w session \<Rightarrow> 'w session \<Rightarrow> bool" for env where
  Cancel: "session_step env LCaller s (s\<lparr>ss_cancelled := True\<rparr>)"
| TopCancelled: "ss_phase s = PTop \<Longrightarrow> ss_cancelled s \<Longrightarrow>
    session_step env LAgent s ((reportFirst (Some ContextCanceled) s)\<lparr>ss_phase := PDone\<rparr>)"
| TopConnect: "ss_phase s = PTop \<Longrightarrow> \<not> ss_cancelled s \<Longrightarrow>
    session_step env LAgent s (s\<lparr>ss_phase := PConnect\<rparr>)"
| ConnectFails: "ss_phase s = PConnect \<Longrightarrow> err \<in> {OpenStream, SendRegister} \<Longrightarrow>
    session_step env LServer s (connect_done Int63n False (Some err) s)"
| ConnectSends: "ss_phase s = PConnect \<Longrightarrow> \<not> ss_cancelled s \<Longrightarrow> sid = ss_opened s \<Longrightarrow>
    session_step env LAgent s
      ((send sid (newRegisterMessage (ss_client s)) s)
         \<lparr>ss_phase := PReply sid, ss_opened := Suc sid, ss_streamCancelled := False\<rparr>)"
| Reply: "ss_phase s = PReply sid \<Longrightarrow> session_step env LServer s (on_reply env Int63n now sid msg s)"
| Receive: "ss_phase s = PReceiving sid \<Longrightarrow> session_step env LServer s (on_receive env now sid msg s)"
| Dispatch: "ss_phase s = PDispatch sid cmd req \<Longrightarrow> length (ss_inflight s) < cl_semCapacity (ss_client s) \<Longrightarrow>
    session_step env LAgent s (s\<lparr>ss_inflight := (sid, cmd, req) # ss_inflight s, ss_phase := PReceiving sid\<rparr>)"
| DispatchDropped: "ss_phase s = PDispatch sid cmd req \<Longrightarrow> ss_cancelled s \<or> ss_streamCancelled s \<Longrightarrow>
    session_step env LAgent s (s\<lparr>ss_phase := PReceiving sid\<rparr>)"
| Drained: "ss_phase s = PDraining sid \<Longrightarrow> ss_inflight s = [] \<Longrightarrow>
    session_step env LAgent s (recv_done sid None s)"
| Join: "ss_phase s = PJoin sid recvErr \<Longrightarrow> ss_heartbeat s = HBEnded hbErr \<Longrightarrow>
    session_step env LAgent s
      (connect_done Int63n True (connect_result recvErr hbErr) ((clearStream sid s)\<lparr>ss_heartbeat := HBNone\<rparr>))"
| BackoffOver: "ss_phase s = PBackoff d \<Longrightarrow> session_step env LAgent s (s\<lparr>ss_phase := PTop\<rparr>)"
| BackoffCancelled: "ss_phase s = PBackoff d \<Longrightarrow> ss_cancelled s \<Longrightarrow>
    session_step env LAgent s (s\<lparr>ss_phase := PDone\<rparr>)"
| FirstHeartbeat: "ss_heartbeat s = HBStart sid seconds \<Longrightarrow> can_send sid s \<Longrightarrow>
    session_step env LAgent s
      ((send sid (newHeartbeatMessage now (ss_client s)) s)\<lparr>ss_heartbeat := HBLoop sid (heartbeat_interval seconds)\<rparr>)"
| FirstHeartbeatFails: "ss_heartbeat s = HBStart sid seconds \<Longrightarrow>
    session_step env LAgent s (s\<lparr>ss_heartbeat := HBEnded (if ss_cancelled s \<or> ss_streamCancelled s then ContextCanceled else HeartbeatSendFailed)\<rparr>)"
| HeartbeatCancelled: "ss_heartbeat s = HBLoop sid interval \<Longrightarrow> ss_cancelled s \<or> ss_streamCancelled s \<Longrightarrow>
    session_step env LAgent s (s\<lparr>ss_heartbeat := HBEnded ContextCanceled\<rparr>)"
| HeartbeatStreamOver: "ss_heartbeat s = HBLoop sid interval \<Longrightarrow>
    session_step env LServer s (s\<lparr>ss_heartbeat := HBEnded ContextCanceled\<rparr>)"
| HeartbeatAckMissing: "ss_heartbeat s = HBLoop sid interval \<Longrightarrow> ack_missing now interval s \<Longrightarrow>
    session_step env LAgent s (s\<lparr>ss_heartbeat := HBEnded AckMissing\<rparr>)"
| HeartbeatTick: "ss_heartbeat s = HBLoop sid interval \<Longrightarrow> \<not> ack_missing now interval s \<Longrightarrow> can_send sid s \<Longrightarrow>
    session_step env LAgent s (send sid (newHeartbeatMessage now (ss_client s)) s)"
| HeartbeatFails: "ss_heartbeat s = HBLoop sid interval \<Longrightarrow> \<not> ack_missing now interval s \<Longrightarrow>
    session_step env LAgent s (s\<lparr>ss_heartbeat := HBEnded (if ss_cancelled s \<or> ss_streamCancelled s then ContextCanceled else HeartbeatSendFailed)\<rparr>)"
| ExecutionSends: "ss_inflight s = before @ (sid, cmd, req) # after \<Longrightarrow> can_send sid s \<Longrightarrow>
    session_step env LAgent s
      ((send sid (result_message env duration cmd req s) s)\<lparr>ss_inflight := before @ after\<rparr>)"
| ExecutionDropped: "ss_inflight s = before @ (sid, cmd, req) # after \<Longrightarrow>
    session_step env LAgent s (s\<lparr>ss_inflight := before @ after\<rparr>)"
| HealthPing: "cl_stream (ss_client s) = Some sid \<Longrightarrow> can_send sid s \<Longrightarrow>
    session_step env LCaller s (send sid (newHeartbeatMessage now (ss_client s)) s)"
| Close: "session_step env LCaller s (Client_Close s)"

inductive session_reach :: "'w session_env \<Rightarrow> 'w session \<Rightarrow> 'w session \<Rightarrow> bool" for env where
  refl: "session_reach env s s"
| step: "session_reach env s s' \<Longrightarrow> session_step env l s' s'' \<Longrightarrow> session_reach env s s''"

text \<open>The state in which \<open>Register\<close> starts the goroutine.\<close>

definition session_start :: "executor Client \<Rightarrow> 'w \<Rightarrow> 'w session" where
  "session_start c w =
     \<lparr>ss_client = c, ss_world = w, ss_phase = PTop, ss_attempt = 0, ss_first = [], ss_cancelled = False,
      ss_streamCancelled = False, ss_heartbeat = HBNone, ss_inflight = [], ss_sent = [], ss_halfClosed = {},
      ss_opened = 0\<rparr>"

section \<open>What the operations leave alone\<close>

lemma handle_update_fields [record_simps]:
  "ss_phase (handle_update env u s) = ss_phase s" "ss_attempt (handle_update env u s) = ss_attempt s"
  "ss_first (handle_update env u s) = ss_first s" "ss_cancelled (handle_update env u s) = ss_cancelled s"
  "ss_streamCancelled (handle_update env u s) = ss_streamCancelled s"
  "ss_heartbeat (handle_update env u s) = ss_heartbeat s" "ss_inflight (handle_update env u s) = ss_inflight s"
  "ss_sent (handle_update env u s) = ss_sent s" "ss_opened (handle_update env u s) = ss_opened s"
  "cl_stream (ss_client (handle_update env u s)) = cl_stream (ss_client s)"
  "cl_semCapacity (ss_client (handle_update env u s)) = cl_semCapacity (ss_client s)"
  by (simp_all add: handle_update_def applyUpdateConfig_def capabilities_changed_def UpdateCapabilities_def
      half_close_def Let_def split: option.splits prod.splits)

lemma reportFirst_fields [record_simps]:
  "ss_phase (reportFirst e s) = ss_phase s" "ss_attempt (reportFirst e s) = ss_attempt s"
  "ss_cancelled (reportFirst e s) = ss_cancelled s" "ss_streamCancelled (reportFirst e s) = ss_streamCancelled s"
  "ss_heartbeat (reportFirst e s) = ss_heartbeat s" "ss_inflight (reportFirst e s) = ss_inflight s"
  "ss_sent (reportFirst e s) = ss_sent s" "ss_opened (reportFirst e s) = ss_opened s"
  "ss_client (reportFirst e s) = ss_client s" "ss_world (reportFirst e s) = ss_world s"
  "ss_first (reportFirst e s) = (if ss_first s = [] then [e] else ss_first s)"
  by (simp_all add: reportFirst_def)

lemma Client_Close_fields [record_simps]:
  "ss_phase (Client_Close s) = ss_phase s" "ss_attempt (Client_Close s) = ss_attempt s"
  "ss_first (Client_Close s) = ss_first s" "ss_streamCancelled (Client_Close s) = ss_streamCancelled s"
  "ss_heartbeat (Client_Close s) = ss_heartbeat s" "ss_inflight (Client_Close s) = ss_inflight s"
  "ss_sent (Client_Close s) = ss_sent s" "ss_opened (Client_Close s) = ss_opened s"
  "cl_stream (ss_client (Client_Close s)) = cl_stream (ss_client s)"
  "cl_semCapacity (ss_client (Client_Close s)) = cl_semCapacity (ss_client s)"
  by (simp_all add: Client_Close_def half_close_def Let_def split: option.splits)

lemma Client_Close_cannot_send: "\<not> can_send sid s \<Longrightarrow> \<not> can_send sid (Client_Close s)"
  by (auto simp: Client_Close_def can_send_def half_close_def Let_def split: option.splits)

lemma connect_done_fields [record_simps]:
  "ss_streamCancelled (connect_done R b e s)" "ss_cancelled (connect_done R b e s) = ss_cancelled s"
  "ss_heartbeat (connect_done R b e s) = ss_heartbeat s" "ss_inflight (connect_done R b e s) = ss_inflight s"
  "ss_sent (connect_done R b e s) = ss_sent s" "ss_opened (connect_done R b e s) = ss_opened s"
  "ss_client (connect_done R b e s) = ss_client s" "ss_world (connect_done R b e s) = ss_world s"
  by (simp_all add: connect_done_def Let_def record_simps split: option.splits session_error.splits)

lemma connect_done_phase:
  "ss_phase (connect_done R b e s) = PDone \<or> (\<exists>d. ss_phase (connect_done R b e s) = PBackoff d)"
  by (simp add: connect_done_def Let_def split: option.splits session_error.splits)

lemma connect_done_first:
  "ss_first (connect_done R b e s) = ss_first s \<or>
   ss_first s = [] \<and> ss_phase (connect_done R b e s) = PDone \<and> ss_first (connect_done R b e s) = [e]"
  by (simp add: connect_done_def Let_def record_simps split: option.splits session_error.splits)

lemma small_fields [record_simps]:
  "ss_phase (half_close sid s) = ss_phase s" "ss_first (half_close sid s) = ss_first s"
  "ss_cancelled (half_close sid s) = ss_cancelled s" "ss_heartbeat (half_close sid s) = ss_heartbeat s"
  "ss_streamCancelled (half_close sid s) = ss_streamCancelled s"
  "ss_inflight (half_close sid s) = ss_inflight s" "ss_sent (half_close sid s) = ss_sent s"
  "ss_opened (half_close sid s) = ss_opened s" "ss_client (half_close sid s) = ss_client s"
  "ss_phase (ack_now n s) = ss_phase s" "ss_first (ack_now n s) = ss_first s"
  "ss_cancelled (ack_now n s) = ss_cancelled s" "ss_heartbeat (ack_now n s) = ss_heartbeat s"
  "ss_streamCancelled (ack_now n s) = ss_streamCancelled s"
  "ss_inflight (ack_now n s) = ss_inflight s" "ss_sent (ack_now n s) = ss_sent s"
  "ss_opened (ack_now n s) = ss_opened s" "cl_stream (ss_client (ack_now n s)) = cl_stream (ss_client s)"
  "cl_semCapacity (ss_client (ack_now n s)) = cl_semCapacity (ss_client s)"
  by (simp_all add: half_close_def ack_now_def)

lemma stream_fields [record_simps]:
  "ss_phase (setStream sid s) = ss_phase s" "ss_first (setStream sid s) = ss_first s"
  "ss_cancelled (setStream sid s) = ss_cancelled s" "ss_heartbeat (setStream sid s) = ss_heartbeat s"
  "ss_streamCancelled (setStream sid s) = ss_streamCancelled s"
  "ss_inflight (setStream sid s) = ss_inflight s" "ss_sent (setStream sid s) = ss_sent s"
  "ss_opened (setStream sid s) = ss_opened s" "cl_stream (ss_client (setStream sid s)) = Some sid"
  "cl_semCapacity (ss_client (setStream sid s)) = cl_semCapacity (ss_client s)"
  "ss_first (clearStream sid s) = ss_first s"
  "ss_cancelled (clearStream sid s) = ss_cancelled s" "ss_inflight (clearStream sid s) = ss_inflight s"
  "ss_sent (clearStream sid s) = ss_sent s" "ss_opened (clearStream sid s) = ss_opened s"
  "cl_stream (ss_client (clearStream sid s)) = (if cl_stream (ss_client s) = Some sid then None else cl_stream (ss_client s))"
  "cl_semCapacity (ss_client (clearStream sid s)) = cl_semCapacity (ss_client s)"
  by (simp_all add: setStream_def clearStream_def)

section \<open>The invariant\<close>

fun is_register :: "AgentMessage \<Rightarrow> bool" where
  "is_register (a, Register m) = True"
| "is_register (a, _) = False"

definition msgs :: "nat \<Rightarrow> (nat \<times> AgentMessage) list \<Rightarrow> AgentMessage list" where
  "msgs sid sent = map snd (filter (\<lambda>m. fst m = sid) sent)"

text \<open>The messages of a stream: one registration, and it comes first.\<close>

fun well_formed :: "AgentMessage list \<Rightarrow> bool" where
  "well_formed [] = False"
| "well_formed (m # ms) \<longleftrightarrow> is_register m \<and> list_all (\<lambda>x. \<not> is_register x) ms"

text \<open>The stream of a phase after the registration was acknowledged.\<close>

fun connected :: "phase \<Rightarrow> nat option" where
  "connected (PReceiving sid) = Some sid"
| "connected (PDispatch sid _ _) = Some sid"
| "connected (PDraining sid) = Some sid"
| "connected (PJoin sid _) = Some sid"
| "connected _ = None"

fun replying :: "phase \<Rightarrow> nat option" where
  "replying (PReply sid) = Some sid"
| "replying _ = None"

fun hb_stream :: "heartbeat \<Rightarrow> nat option" where
  "hb_stream (HBStart sid _) = Some sid"
| "hb_stream (HBLoop sid _) = Some sid"
| "hb_stream _ = None"

definition inv_flight :: "'w session \<Rightarrow> bool" where
  "inv_flight s \<longleftrightarrow> length (ss_inflight s) \<le> cl_semCapacity (ss_client s) \<and>
     list_all (\<lambda>e. fst e < ss_opened s) (ss_inflight s)"

definition inv_msgs :: "nat \<Rightarrow> (nat \<times> AgentMessage) list \<Rightarrow> bool" where
  "inv_msgs opened sent \<longleftrightarrow>
     (\<forall>sid. if sid < opened then well_formed (msgs sid sent) else msgs sid sent = [])"

definition inv_control :: "'w session \<Rightarrow> bool" where
  "inv_control s \<longleftrightarrow>
     cl_stream (ss_client s) = connected (ss_phase s) \<and>
     (case connected (ss_phase s) of
        Some sid \<Rightarrow> Suc sid = ss_opened s \<and> ss_heartbeat s \<noteq> HBNone \<and>
          (hb_stream (ss_heartbeat s) = None \<or> hb_stream (ss_heartbeat s) = Some sid)
      | None \<Rightarrow> ss_heartbeat s = HBNone \<and>
          (case replying (ss_phase s) of
             Some sid \<Rightarrow> Suc sid = ss_opened s
           | None \<Rightarrow> ss_streamCancelled s \<or> ss_opened s = 0))"

definition inv_first :: "'w session \<Rightarrow> bool" where
  "inv_first s \<longleftrightarrow> length (ss_first s) \<le> 1 \<and>
     (ss_phase s \<noteq> PDone \<longrightarrow> ss_first s = [] \<or> ss_first s = [None]) \<and>
     (connected (ss_phase s) \<noteq> None \<longrightarrow> ss_first s = [None])"

definition session_inv :: "'w session \<Rightarrow> bool" where
  "session_inv s \<longleftrightarrow> inv_flight s \<and> inv_msgs (ss_opened s) (ss_sent s) \<and> inv_control s \<and> inv_first s"

lemma session_start_inv: "cl_stream c = None \<Longrightarrow> session_inv (session_start c w)"
  by (simp add: session_inv_def inv_flight_def inv_msgs_def inv_control_def inv_first_def session_start_def msgs_def)

text \<open>Sending something that is not a registration on a stream that is open keeps it.\<close>

lemma msgs_snoc: "msgs k (sent @ [(sid, m)]) = (if k = sid then msgs k sent @ [m] else msgs k sent)"
  by (simp add: msgs_def)

lemma well_formed_snoc: "well_formed ms \<Longrightarrow> \<not> is_register m \<Longrightarrow> well_formed (ms @ [m])"
  by (cases ms) auto

lemma inv_msgs_snoc:
  "inv_msgs n sent \<Longrightarrow> sid < n \<Longrightarrow> \<not> is_register m \<Longrightarrow> inv_msgs n (sent @ [(sid, m)])"
  by (auto simp: inv_msgs_def msgs_snoc well_formed_snoc)

lemma inv_msgs_open: "inv_msgs n sent \<Longrightarrow> is_register m \<Longrightarrow> inv_msgs (Suc n) (sent @ [(n, m)])"
  unfolding inv_msgs_def
proof
  fix sid
  assume a: "\<forall>sid. if sid < n then well_formed (msgs sid sent) else msgs sid sent = []" "is_register m"
  show "if sid < Suc n then well_formed (msgs sid (sent @ [(n, m)])) else msgs sid (sent @ [(n, m)]) = []"
    using a(2) a(1) [rule_format, of sid] by (cases "sid = n") (auto simp: msgs_snoc split: if_splits)
qed

lemma send_fields [record_simps]:
  "ss_phase (send sid m s) = ss_phase s" "ss_first (send sid m s) = ss_first s"
  "ss_cancelled (send sid m s) = ss_cancelled s" "ss_heartbeat (send sid m s) = ss_heartbeat s"
  "ss_streamCancelled (send sid m s) = ss_streamCancelled s"
  "ss_inflight (send sid m s) = ss_inflight s" "ss_opened (send sid m s) = ss_opened s"
  "ss_client (send sid m s) = ss_client s" "ss_sent (send sid m s) = ss_sent s @ [(sid, m)]"
  by (simp_all add: send_def)

lemma not_register [simp]:
  "\<not> is_register (newHeartbeatMessage n c)" "\<not> is_register (result_message env d cmd req s)"
  "is_register (newRegisterMessage c)"
  by (simp_all add: newHeartbeatMessage_def result_message_def newRegisterMessage_def Let_def)

lemma can_send_opened: "can_send sid s \<Longrightarrow> sid < ss_opened s"
  by (simp add: can_send_def)

lemmas inv_parts = inv_flight_def inv_control_def inv_first_def

lemma connect_done_parts:
  assumes "inv_first s" "ss_phase s \<noteq> PDone"
  shows "inv_first (connect_done R b e s)"
    and "connected (ss_phase (connect_done R b e s)) = None" "replying (ss_phase (connect_done R b e s)) = None"
proof -
  show 1: "connected (ss_phase (connect_done R b e s)) = None" "replying (ss_phase (connect_done R b e s)) = None"
    using connect_done_phase [of R b e s] by auto
  show "inv_first (connect_done R b e s)"
    using assms connect_done_first [of R b e s] connect_done_phase [of R b e s] 1
    by (auto simp: inv_first_def)
qed

lemma connect_done_inv:
  assumes "inv_flight s" "inv_msgs (ss_opened s) (ss_sent s)" "inv_first s" "ss_phase s \<noteq> PDone"
    "cl_stream (ss_client s) = None" "ss_heartbeat s = HBNone"
  shows "session_inv (connect_done R b e s)"
  using assms connect_done_parts [OF assms(3,4), of R b e]
  by (simp add: session_inv_def inv_flight_def inv_control_def record_simps)

lemma on_reply_inv:
  assumes "session_inv s" "ss_phase s = PReply sid"
  shows "session_inv (on_reply env R now sid msg s)"
proof -
  have fin: "session_inv (connect_done R False e (half_close sid s))" for e
    using assms by (intro connect_done_inv) (simp_all add: session_inv_def inv_parts record_simps)
  show ?thesis
  proof (cases "\<exists>iv eff. msg = Some (CM_Registered iv eff)")
    case True
    then show ?thesis using assms
      by (auto simp: on_reply_def session_inv_def inv_parts record_simps)
  next
    case False
    then show ?thesis using fin
      by (cases msg) (auto simp: on_reply_def split: ControlMessage.splits)
  qed
qed

lemma recv_done_inv:
  "session_inv s \<Longrightarrow> connected (ss_phase s) = Some sid \<Longrightarrow> session_inv (recv_done sid e s)"
  by (auto simp: recv_done_def session_inv_def inv_parts)

lemma on_receive_inv:
  assumes "session_inv s" "ss_phase s = PReceiving sid"
  shows "session_inv (on_receive env now sid msg s)"
proof -
  have fin: "session_inv (recv_done sid e s)" for e
    using assms by (intro recv_done_inv) simp_all
  have upd: "session_inv (handle_update env u s)" "session_inv (ack_now now s)" for u
    using assms(1) by (simp_all add: session_inv_def inv_parts record_simps cong: option.case_cong)
  have ph: "session_inv (s\<lparr>ss_phase := PDispatch sid c r\<rparr>)" "session_inv (s\<lparr>ss_phase := PDraining sid\<rparr>)" for c r
    using assms by (simp_all add: session_inv_def inv_parts)
  from fin upd ph assms(1) show ?thesis
    by (auto simp: on_receive_def split: sum.splits option.splits ControlMessage.splits)
qed

lemma send_inv:
  "session_inv s \<Longrightarrow> can_send sid s \<Longrightarrow> \<not> is_register m \<Longrightarrow> session_inv (send sid m s)"
  by (simp add: session_inv_def inv_parts inv_msgs_snoc can_send_opened record_simps cong: option.case_cong)

lemma heartbeat_ends_inv:
  assumes "session_inv s" "hb_stream (ss_heartbeat s) = Some sid"
  shows "session_inv (s\<lparr>ss_heartbeat := HBEnded e\<rparr>)"
  using assms by (auto simp: session_inv_def inv_parts split: option.splits)

lemma session_step_inv:
  assumes "session_step env l s s'" "session_inv s"
  shows "session_inv s'"
  using assms
proof (induction rule: session_step.induct)
  case (ConnectFails s err R)
  then show ?case by (intro connect_done_inv) (simp_all add: session_inv_def inv_parts)
next
  case (ConnectSends s sid)
  then show ?case by (simp add: session_inv_def inv_parts record_simps inv_msgs_open list_all_iff less_Suc_eq)
next
  case (Reply s sid R now msg)
  then show ?case by (simp add: on_reply_inv)
next
  case (Receive s sid now msg)
  then show ?case by (simp add: on_receive_inv)
next
  case (Dispatch s sid cmd req)
  then show ?case by (simp add: session_inv_def inv_parts)
next
  case (Drained s sid)
  then show ?case by (simp add: recv_done_inv)
next
  case (Join s sid recvErr hbErr R)
  have "session_inv s" "ss_phase s = PJoin sid recvErr" using Join by simp_all
  then show ?case
    by (intro connect_done_inv) (simp_all add: session_inv_def inv_parts record_simps clearStream_def)
next
  case (FirstHeartbeat s sid seconds now)
  then have "session_inv (send sid (newHeartbeatMessage now (ss_client s)) s)" by (simp add: send_inv)
  with FirstHeartbeat.hyps(1) show ?case
    by (auto simp: session_inv_def inv_parts record_simps split: option.splits)
next
  case (FirstHeartbeatFails s sid seconds)
  then show ?case by (intro heartbeat_ends_inv) simp_all
next
  case (HeartbeatCancelled s sid interval)
  then show ?case by (intro heartbeat_ends_inv) simp_all
next
  case (HeartbeatStreamOver s sid interval)
  then show ?case by (intro heartbeat_ends_inv) simp_all
next
  case (HeartbeatAckMissing s sid interval now)
  then show ?case by (intro heartbeat_ends_inv) simp_all
next
  case (HeartbeatFails s sid interval now)
  then show ?case by (intro heartbeat_ends_inv) simp_all
next
  case (ExecutionSends s before sid cmd req after duration)
  then have "session_inv (send sid (result_message env duration cmd req s) s)" by (simp add: send_inv)
  with ExecutionSends.hyps(1) show ?case
    by (auto simp add: session_inv_def inv_parts record_simps cong: option.case_cong)
next
  case (HeartbeatTick s sid interval now)
  then show ?case by (simp add: send_inv)
next
  case (HealthPing s sid now)
  then show ?case by (simp add: send_inv)
qed (auto simp: session_inv_def inv_parts record_simps cong: option.case_cong)

lemma session_reach_inv:
  "session_reach env s s' \<Longrightarrow> session_inv s \<Longrightarrow> session_inv s'"
  by (induction rule: session_reach.induct) (auto intro: session_step_inv)

section \<open>Consequences\<close>

lemma done_step:
  assumes "session_step env l s s'" "session_inv s" "ss_phase s = PDone"
  shows "ss_phase s' = PDone \<and> ss_sent s' = ss_sent s \<and> ss_first s' = ss_first s"
proof -
  have dead: "\<not> can_send sid s" for sid
    using assms(2,3) by (auto simp: session_inv_def inv_parts can_send_def)
  have "ss_heartbeat s = HBNone" using assms(2,3) by (simp add: session_inv_def inv_parts)
  with assms(1,3) dead show ?thesis by (cases rule: session_step.cases) (auto simp: record_simps)
qed

text \<open>After \<open>Close\<close>, or once its context is cancelled, the client sends nothing, whatever else still happens.\<close>

lemma cancelled_step:
  "session_step env l s s' \<Longrightarrow> ss_cancelled s \<Longrightarrow> ss_cancelled s' \<and> ss_sent s' = ss_sent s"
  by (cases rule: session_step.cases)
    (auto simp: record_simps can_send_def Client_Close_def on_reply_def on_receive_def recv_done_def Let_def
      split: sum.splits option.splits ControlMessage.splits)

lemma cancelled_reach:
  "session_reach env s s' \<Longrightarrow> ss_cancelled s \<Longrightarrow> ss_cancelled s' \<and> ss_sent s' = ss_sent s"
  by (induction rule: session_reach.induct) (auto dest: cancelled_step)

lemma closed_sends_nothing:
  "session_reach env (Client_Close s) s' \<Longrightarrow> \<not> cl_closed (ss_client s) \<Longrightarrow> ss_sent s' = ss_sent s"
  using cancelled_reach [of env "Client_Close s" s']
  by (simp add: Client_Close_def half_close_def Let_def split: option.splits)

lemma done_reach:
  assumes "session_reach env s s'" "session_inv s" "ss_phase s = PDone"
  shows "ss_phase s' = PDone \<and> ss_sent s' = ss_sent s \<and> ss_first s' = ss_first s"
  using assms
proof (induction rule: session_reach.induct)
  case (step s s' l s'')
  have "session_inv s'" using session_reach_inv [OF step.hyps(1)] step.prems by blast
  with step done_step [OF step.hyps(2)] show ?case by simp
qed simp

text \<open>
  A heartbeat that has ended, because the server stopped acknowledging for example, is noticed only
  when \<open>Recv\<close> returns: no step of the agent itself leaves the receiving loop or ends the stream.
\<close>

inductive agent_reach :: "'w session_env \<Rightarrow> 'w session \<Rightarrow> 'w session \<Rightarrow> bool" for env where
  refl: "agent_reach env s s"
| step: "agent_reach env s s' \<Longrightarrow> session_step env LAgent s' s'' \<Longrightarrow> agent_reach env s s''"

lemma agent_step_stuck:
  assumes "session_step env LAgent s s'" "ss_phase s = PReceiving sid" "ss_heartbeat s = HBEnded e"
  shows "ss_phase s' = PReceiving sid \<and> ss_heartbeat s' = HBEnded e \<and> ss_opened s' = ss_opened s \<and>
    ss_streamCancelled s' = ss_streamCancelled s"
  using assms by (cases rule: session_step.cases) (auto simp: record_simps)

lemma agent_stuck:
  assumes "agent_reach env s s'" "ss_phase s = PReceiving sid" "ss_heartbeat s = HBEnded e"
  shows "ss_phase s' = PReceiving sid \<and> ss_heartbeat s' = HBEnded e \<and> ss_opened s' = ss_opened s \<and>
    ss_streamCancelled s' = ss_streamCancelled s"
  using assms
proof (induction rule: agent_reach.induct)
  case (step s s' s'')
  with agent_step_stuck [OF step.hyps(2)] show ?case by simp
qed simp

section \<open>Properties\<close>

text \<open>
  Claim C1. In every reachable state of the session, under any interleaving of the server, the
  executions, the heartbeat, health pings and a cancellation: at most as many executions are in flight
  as the semaphore allows; on every stream that was opened exactly one registration was sent, and
  before anything else; nothing was sent on any other; the caller of \<open>Register\<close> was sent at most one
  result, so that the channel's buffer of one never blocks; and a stream is current exactly while it
  is being served.
\<close>

theorem session_safety:
  assumes "session_reach env (session_start c w) s" "cl_stream c = None"
  shows "length (ss_inflight s) \<le> cl_semCapacity (ss_client s) \<and>
    (\<forall>sid. if sid < ss_opened s
       then (\<exists>m ms. msgs sid (ss_sent s) = m # ms \<and> is_register m \<and> list_all (\<lambda>x. \<not> is_register x) ms)
       else msgs sid (ss_sent s) = []) \<and>
    length (ss_first s) \<le> 1 \<and>
    cl_stream (ss_client s) = connected (ss_phase s)"
proof -
  have inv: "session_inv s" using session_reach_inv [OF assms(1) session_start_inv] assms(2) by blast
  have wf: "well_formed ms \<Longrightarrow> \<exists>m l. ms = m # l \<and> is_register m \<and> list_all (\<lambda>x. \<not> is_register x) l" for ms
    by (cases ms) auto
  from inv wf show ?thesis
    by (auto simp: session_inv_def inv_flight_def inv_msgs_def inv_control_def inv_first_def)
qed


section \<open>Runs\<close>

definition sample_request :: ExecuteCapability where
  "sample_request =
     \<lparr>ec_CapabilityName = ''os.file.read'', ec_SessionId = [], ec_ThreadId = [], ec_ResultIndex = 0,
      ec_TargetSetId = [], ec_ExecutionMode = 0, ec_ParametersJson = [], ec_DeadlineUnixMs = 0\<rparr>"

definition sample_session_env :: "unit session_env" where
  "sample_session_env =
     \<lparr>se_newStruct = Some, se_unmarshal = (\<lambda>_. Inr []), se_marshal = (\<lambda>_. Inr []),
      se_update = (\<lambda>u w. (w, Some [])), se_execute = (\<lambda>w n p d. (\<lparr>res_Success = True, res_Error = [], res_Data = VNil, res_Timestamp = 0\<rparr>, None))\<rparr>"

definition sess0 :: "unit session" where
  "sess0 = session_start ((new_Client 1)\<lparr>cl_updateConfigHandler := True\<rparr>) ()"

definition sess1 :: "unit session" where
  "sess1 = (send 0 (newRegisterMessage (ss_client sess0)) sess0)\<lparr>ss_phase := PReply 0, ss_opened := 1\<rparr>"

lemma run_sess1: "session_reach sample_session_env sess0 sess1"
proof -
  have 1: "session_step sample_session_env LAgent sess0 (sess0\<lparr>ss_phase := PConnect\<rparr>)"
    by (rule session_step.TopConnect) (simp_all add: sess0_def session_start_def)
  have "session_step sample_session_env LAgent (sess0\<lparr>ss_phase := PConnect\<rparr>)
      ((send 0 (newRegisterMessage (ss_client (sess0\<lparr>ss_phase := PConnect\<rparr>))) (sess0\<lparr>ss_phase := PConnect\<rparr>))
         \<lparr>ss_phase := PReply 0, ss_opened := Suc 0, ss_streamCancelled := False\<rparr>)"
    by (rule session_step.ConnectSends) (simp_all add: sess0_def session_start_def)
  then have 2: "session_step sample_session_env LAgent (sess0\<lparr>ss_phase := PConnect\<rparr>) sess1"
    by (simp add: sess1_def sess0_def session_start_def send_def)
  from session_reach.step [OF session_reach.step [OF session_reach.refl 1] 2] show ?thesis .
qed

lemma sess0_stream: "cl_stream ((new_Client 1 :: executor Client)\<lparr>cl_updateConfigHandler := True\<rparr>) = None"
  by (simp add: new_Client_def)

theorem session_safety_witness:
  "msgs 0 (ss_sent sess1) = [newRegisterMessage (ss_client sess0)] \<and> length (ss_inflight sess1) \<le> 1"
  using session_safety [OF run_sess1 [unfolded sess0_def] sess0_stream]
  by (simp add: sess1_def sess0_def session_start_def send_def msgs_def new_Client_def)


text \<open>
  Claim C3. When the handler of an update reports changed capabilities, the manifests of the next
  registration are the new ones. If the update came on the stream, the stream is half-closed, which
  makes the server end it and the agent register again. If it came with the registration itself, the
  new stream is not set yet: nothing is half-closed and the agent goes on under the manifests it sent
  before.
\<close>

theorem capability_change_announced:
  assumes "session_inv s" "uc_ConfigVersion u > cl_lastAppliedVersion (ss_client s)" "cl_updateConfigHandler (ss_client s)"
    "se_update env u (ss_world s) = (w, Some caps)"
  shows "(ss_phase s = PReceiving sid \<longrightarrow>
      (let r = on_receive env now sid (Inr (CM_UpdateConfig (Some u))) s in
        rs_capabilities (cl_regState (ss_client r)) = map (Capability_ToProto (se_newStruct env)) caps \<and>
        sid \<in> ss_halfClosed r)) \<and>
    (ss_phase s = PReply sid \<longrightarrow>
      (let r = on_reply env R now sid (Some (CM_Registered interval (Some u))) s in
        rs_capabilities (cl_regState (ss_client r)) = map (Capability_ToProto (se_newStruct env)) caps \<and>
        ss_phase r = PReceiving sid \<and> ss_halfClosed r = ss_halfClosed s \<and> ss_sent r = ss_sent s))"
proof -
  have up: "applyUpdateConfig (Some u) (ss_client s) =
      ((if uc_ConfigVersion u > 0 then (ss_client s)\<lparr>cl_lastAppliedVersion := uc_ConfigVersion u\<rparr> else ss_client s), True)"
    using assms(2,3) by (simp add: applyUpdateConfig_def Let_def)
  have st: "ss_phase s = PReceiving sid \<Longrightarrow> cl_stream (ss_client s) = Some sid"
    "ss_phase s = PReply sid \<Longrightarrow> cl_stream (ss_client s) = None"
    using assms(1) by (simp_all add: session_inv_def inv_control_def)
  have world: "ss_world (reportFirst None s) = ss_world s" "ss_client (reportFirst None s) = ss_client s"
    "ss_halfClosed (reportFirst None s) = ss_halfClosed s"
    by (simp_all add: reportFirst_def)
  show ?thesis
  proof (intro conjI impI)
    assume "ss_phase s = PReceiving sid"
    from st(1) [OF this] show "let r = on_receive env now sid (Inr (CM_UpdateConfig (Some u))) s in
        rs_capabilities (cl_regState (ss_client r)) = map (Capability_ToProto (se_newStruct env)) caps \<and>
        sid \<in> ss_halfClosed r"
      by (simp add: on_receive_def handle_update_def up assms(4) capabilities_changed_def UpdateCapabilities_def
          half_close_def Let_def)
  next
    assume "ss_phase s = PReply sid"
    from st(2) [OF this] show "let r = on_reply env R now sid (Some (CM_Registered interval (Some u))) s in
        rs_capabilities (cl_regState (ss_client r)) = map (Capability_ToProto (se_newStruct env)) caps \<and>
        ss_phase r = PReceiving sid \<and> ss_halfClosed r = ss_halfClosed s \<and> ss_sent r = ss_sent s"
      by (simp add: on_reply_def handle_update_def world up assms(4) capabilities_changed_def
          UpdateCapabilities_def ack_now_def setStream_def Let_def) (simp add: reportFirst_def)
  qed
qed

theorem capability_change_announced_witness:
  "ss_halfClosed (on_reply sample_session_env (\<lambda>n. 0) 5 0
     (Some (CM_Registered 10 (Some \<lparr>uc_ConfigVersion = 3, uc_Capabilities = []\<rparr>))) sess1) = {}"
proof -
  have inv: "session_inv sess1"
    using session_reach_inv [OF run_sess1 [unfolded sess0_def] session_start_inv [OF sess0_stream]] .
  have "cl_lastAppliedVersion (ss_client sess1) < uc_ConfigVersion \<lparr>uc_ConfigVersion = 3, uc_Capabilities = []\<rparr>"
    "cl_updateConfigHandler (ss_client sess1)"
    by (simp_all add: sess1_def sess0_def session_start_def send_def new_Client_def)
  note cond = this
  have upd: "se_update sample_session_env \<lparr>uc_ConfigVersion = 3, uc_Capabilities = []\<rparr> (ss_world sess1) = ((), Some [])"
    by (simp add: sample_session_env_def)
  have ph: "ss_phase sess1 = PReply 0" and hc: "ss_halfClosed sess1 = {}"
    by (simp_all add: sess1_def sess0_def session_start_def send_def)
  from capability_change_announced [OF inv cond upd, where sid = 0 and now = 5 and R = "\<lambda>n. 0" and interval = 10] ph hc
  show ?thesis by (simp add: Let_def)
qed

text \<open>
  A failed heartbeat does not end the connection: once the heartbeat goroutine has stopped
  while the receiving loop waits, no sequence of steps of the agent leaves the loop, cancels
  the stream or opens another. Only what the server or the transport does next can.
\<close>

theorem heartbeat_failure_unnoticed:
  assumes "agent_reach env s s'" "ss_phase s = PReceiving sid" "ss_heartbeat s = HBEnded e"
  shows "ss_phase s' = PReceiving sid \<and> ss_opened s' = ss_opened s \<and> ss_streamCancelled s' = ss_streamCancelled s"
  using agent_stuck [OF assms] by simp

definition sess2 :: "unit session" where
  "sess2 = sess1\<lparr>ss_phase := PReceiving 0, ss_heartbeat := HBEnded AckMissing,
     ss_inflight := [(0, ''c'', sample_request)]\<rparr>"

theorem heartbeat_failure_unnoticed_witness:
  "ss_phase (sess2\<lparr>ss_inflight := []\<rparr>) = PReceiving 0"
proof -
  have "session_step sample_session_env LAgent sess2 (sess2\<lparr>ss_inflight := [] @ []\<rparr>)"
    by (rule session_step.ExecutionDropped [of _ "[]" 0 "''c''" sample_request]) (simp add: sess2_def)
  from agent_reach.step [OF agent_reach.refl this] have run: "agent_reach sample_session_env sess2 (sess2\<lparr>ss_inflight := []\<rparr>)"
    by simp
  have "ss_phase sess2 = PReceiving 0" "ss_heartbeat sess2 = HBEnded AckMissing" by (simp_all add: sess2_def)
  from heartbeat_failure_unnoticed [OF run this] show ?thesis by simp
qed

text \<open>
  Closing the client before the first registration was answered stops the goroutine without a word
  to the caller of \<open>Register\<close>, who then waits for its own context.
\<close>

lemma cancelled_before_registration:
  "\<exists>s. session_reach sample_session_env sess0 s \<and> ss_phase s = PDone \<and> ss_first s = []"
proof -
  have 1: "session_step sample_session_env LAgent sess0 (sess0\<lparr>ss_phase := PConnect\<rparr>)" (is "session_step _ _ _ ?a")
    by (rule session_step.TopConnect) (simp_all add: sess0_def session_start_def)
  have 2: "session_step sample_session_env LCaller ?a (?a\<lparr>ss_cancelled := True\<rparr>)" (is "session_step _ _ _ ?b")
    by (rule session_step.Cancel)
  have 3: "session_step sample_session_env LServer ?b (connect_done (\<lambda>n. 0) False (Some OpenStream) ?b)"
    (is "session_step _ _ _ ?c")
    by (rule session_step.ConnectFails) simp_all
  have "session_reach sample_session_env sess0 ?c"
    by (rule session_reach.step [OF session_reach.step [OF session_reach.step [OF session_reach.refl 1] 2] 3])
  moreover have "ss_phase ?c = PDone" "ss_first ?c = []"
    by (simp_all add: connect_done_def sess0_def session_start_def Let_def)
  ultimately show ?thesis by blast
qed

end
