(* ===== verification/Autoconf_Updater.thy ===== *)
theory Autoconf_Updater
  imports Prelude
begin

text \<open>
  \<open>internal/provider/autoconfig/updater.go\<close>: the running configuration of a provider, the
  client built from it, and the clients that are replaced but may still be in use.

  \<open>Apply\<close> works in two parts. The first reads the configuration, parses, compares and builds
  outside the lock; the second commits under the lock. They are two definitions here, and \<open>Apply\<close>
  is their composition; concurrent calls are interleavings of the parts. The callbacks of
  \<open>Options\<close> are the fields of a record; calls of \<open>Close\<close>, \<open>OnChanged\<close> and \<open>OnError\<close> and the
  start of the draining goroutine are values in the result. \<open>reflect.DeepEqual\<close>, the default of
  \<open>Equal\<close>, is equality.
\<close>

section \<open>State\<close>

record ('t, 'c) State =
  st_config :: 't
  st_client :: 'c
  st_pendingClose :: "'c list"
  st_closeFn :: bool
  st_draining :: bool

record ('t, 'c, 'r, 'e) Options =
  opt_Parse :: "'t \<Rightarrow> 'r \<Rightarrow> 'e + 't"
  opt_Equal :: "('t \<Rightarrow> 't \<Rightarrow> bool) option"
  opt_Recreate :: "('t \<Rightarrow> 't \<Rightarrow> bool) option"
  opt_Build :: "('t \<Rightarrow> 'e + 'c) option"
  opt_Close :: bool

definition NewState :: "'t \<Rightarrow> 'c \<Rightarrow> ('t, 'c) State" where
  "NewState cfg client =
     \<lparr>st_config = cfg, st_client = client, st_pendingClose = [], st_closeFn = False, st_draining = False\<rparr>"

definition State_Config :: "('t, 'c) State \<Rightarrow> 't" where
  "State_Config s = st_config s"

definition State_Client :: "('t, 'c) State \<Rightarrow> 'c" where
  "State_Client s = st_client s"

section \<open>Apply\<close>

definition equal_fn :: "('t, 'c, 'r, 'e) Options \<Rightarrow> 't \<Rightarrow> 't \<Rightarrow> bool" where
  "equal_fn opts = (case opt_Equal opts of Some f \<Rightarrow> f | None \<Rightarrow> (=))"

definition recreate_fn :: "('t, 'c, 'r, 'e) Options \<Rightarrow> 't \<Rightarrow> 't \<Rightarrow> bool" where
  "recreate_fn opts = (case opt_Recreate opts of Some f \<Rightarrow> f | None \<Rightarrow> (\<lambda>_ _. True))"

definition register_close :: "('t, 'c, 'r, 'e) Options \<Rightarrow> ('t, 'c) State \<Rightarrow> ('t, 'c) State" where
  "register_close opts s =
     (if \<not> st_closeFn s \<and> opt_Close opts then s\<lparr>st_closeFn := True\<rparr> else s)"

text \<open>
  What the first part ends with: an error, nothing to do, or the new configuration, whether
  a client is to be replaced, and the client built for it (\<open>None\<close> is the zero value).
\<close>

datatype ('t, 'c, 'e) prepared =
    Failed 'e
  | Unchanged
  | Ready 't bool "'c option"

definition prepare :: "('t, 'c, 'r, 'e) Options \<Rightarrow> 't \<Rightarrow> 'r \<Rightarrow> ('t, 'c, 'e) prepared" where
  "prepare opts base raw =
     (case opt_Parse opts base raw of
        Inl err \<Rightarrow> Failed err
      | Inr newCfg \<Rightarrow>
          (if equal_fn opts base newCfg then Unchanged
           else (let shouldRecreate = recreate_fn opts base newCfg
                 in case opt_Build opts of
                      None \<Rightarrow> Ready newCfg shouldRecreate None
                    | Some build \<Rightarrow>
                        (if \<not> shouldRecreate then Ready newCfg shouldRecreate None
                         else (case build newCfg of
                            Inl err \<Rightarrow> Failed err
                          | Inr c \<Rightarrow> Ready newCfg shouldRecreate (Some c))))))"

text \<open>The result \<open>(changed, recreated, err)\<close> with the effects of the call.\<close>

record ('t, 'c, 'e) applied =
  ap_changed :: bool
  ap_recreated :: bool
  ap_err :: "'e option"
  ap_closed :: "'c list"
  ap_OnChanged :: "('t \<times> 't \<times> bool) option"
  ap_drain :: bool

definition not_applied :: "'e option \<Rightarrow> 'c list \<Rightarrow> ('t, 'c, 'e) applied" where
  "not_applied err closed =
     \<lparr>ap_changed = False, ap_recreated = False, ap_err = err, ap_closed = closed,
      ap_OnChanged = None, ap_drain = False\<rparr>"

definition the_client :: "'c \<Rightarrow> 'c option \<Rightarrow> 'c" where
  "the_client zero c = (case c of Some x \<Rightarrow> x | None \<Rightarrow> zero)"

definition commit :: "'c \<Rightarrow> ('t, 'c, 'r, 'e) Options \<Rightarrow> ('t, 'c, 'e) prepared \<Rightarrow> ('t, 'c) State \<Rightarrow>
    ('t, 'c) State \<times> ('t, 'c, 'e) applied" where
  "commit zero opts prep s =
     (case prep of
        Failed err \<Rightarrow> (s, not_applied (Some err) [])
      | Unchanged \<Rightarrow> (s, not_applied None [])
      | Ready newCfg shouldRecreate newClient \<Rightarrow>
          (let currentCfg = st_config s
           in if equal_fn opts currentCfg newCfg
              then (s, not_applied None (if shouldRecreate \<and> opt_Close opts then [the_client zero newClient] else []))
              else
                (let again = recreate_fn opts currentCfg newCfg;
                     built = (again \<and> opt_Build opts \<noteq> None);
                     closing = (again \<and> opt_Close opts);
                     s1 = s\<lparr>st_config := newCfg\<rparr>;
                     s2 = (if built then s1\<lparr>st_client := the_client zero newClient\<rparr> else s1);
                     s3 = (if closing then s2\<lparr>st_pendingClose := st_pendingClose s @ [st_client s], st_draining := True\<rparr>
                           else s2)
                 in (s3, \<lparr>ap_changed = True, ap_recreated = built, ap_err = None, ap_closed = [],
                          ap_OnChanged = Some (currentCfg, newCfg, built),
                          ap_drain = (closing \<and> \<not> st_draining s)\<rparr>))))"

definition Apply :: "'c \<Rightarrow> ('t, 'c, 'r, 'e) Options \<Rightarrow> 'r \<Rightarrow> ('t, 'c) State \<Rightarrow>
    ('t, 'c) State \<times> ('t, 'c, 'e) applied" where
  "Apply zero opts raw s =
     (let s1 = register_close opts s in commit zero opts (prepare opts (State_Config s1) raw) s1)"

text \<open>The draining goroutine, after its sleep: the clients it closes.\<close>

definition drainPendingClose :: "('t, 'c) State \<Rightarrow> ('t, 'c) State \<times> 'c list" where
  "drainPendingClose s =
     (s\<lparr>st_pendingClose := [], st_draining := False\<rparr>,
      (if st_closeFn s then st_pendingClose s else []))"

section \<open>One call at a time\<close>

lemma Apply_unfold:
  "Apply zero opts raw s =
    (case opt_Parse opts (st_config s) raw of
       Inl err \<Rightarrow> (register_close opts s, not_applied (Some err) [])
     | Inr newCfg \<Rightarrow>
         (if equal_fn opts (st_config s) newCfg then (register_close opts s, not_applied None [])
          else commit zero opts (prepare opts (st_config s) raw) (register_close opts s)))"
proof -
  have cfg: "st_config (register_close opts s) = st_config s" by (simp add: register_close_def)
  show ?thesis
    by (simp add: Apply_def State_Config_def cfg prepare_def commit_def Let_def split: sum.splits)
qed

text \<open>The clients a state is responsible for: the live one and those still to close.\<close>

definition owned :: "('t, 'c) State \<Rightarrow> 'c multiset" where
  "owned s = add_mset (st_client s) (mset (st_pendingClose s))"

text \<open>A drain is on its way exactly while something waits for it.\<close>

definition drain_inv :: "('t, 'c) State \<Rightarrow> bool" where
  "drain_inv s \<longleftrightarrow> (st_draining s \<longleftrightarrow> st_pendingClose s \<noteq> []) \<and> (st_pendingClose s \<noteq> [] \<longrightarrow> st_closeFn s)"

lemma commit_drain_inv:
  "drain_inv s \<Longrightarrow> (opt_Close opts \<longrightarrow> st_closeFn s) \<Longrightarrow> drain_inv (fst (commit zero opts prep s))"
  by (auto simp: commit_def drain_inv_def Let_def split: prepared.splits)

section \<open>Any interleaving\<close>

text \<open>
  The machine of any number of concurrent \<open>Apply\<close> calls on one state: a call that has prepared
  waits in \<open>m_inflight\<close> until it commits. \<open>m_built\<close> and \<open>m_closed\<close> record every client that was
  ever made (the first one included) and every call of \<open>Close\<close>.
\<close>

record ('t, 'c, 'e) machine =
  m_state :: "('t, 'c) State"
  m_inflight :: "('t, 'c, 'e) prepared list"
  m_built :: "'c multiset"
  m_closed :: "'c multiset"
  m_drains :: nat

fun prepared_client :: "('t, 'c, 'e) prepared \<Rightarrow> 'c multiset" where
  "prepared_client (Ready _ _ (Some c)) = {#c#}"
| "prepared_client _ = {#}"

inductive apply_step :: "'c \<Rightarrow> ('t, 'c, 'r, 'e) Options \<Rightarrow> ('t, 'c, 'e) machine \<Rightarrow> ('t, 'c, 'e) machine \<Rightarrow> bool"
  for zero :: 'c and opts :: "('t, 'c, 'r, 'e) Options" where
  Prepare: "prep = prepare opts (st_config s) raw \<Longrightarrow> s = register_close opts (m_state m) \<Longrightarrow>
    apply_step zero opts m (m\<lparr>m_state := s, m_inflight := prep # m_inflight m,
      m_built := m_built m + prepared_client prep\<rparr>)"
| Commit: "m_inflight m = before @ prep # after \<Longrightarrow> commit zero opts prep (m_state m) = (s', out) \<Longrightarrow>
    apply_step zero opts m (m\<lparr>m_state := s', m_inflight := before @ after,
      m_closed := m_closed m + mset (ap_closed out), m_drains := m_drains m + (if ap_drain out then 1 else 0)\<rparr>)"
| Drain: "0 < m_drains m \<Longrightarrow> drainPendingClose (m_state m) = (s', closed) \<Longrightarrow>
    apply_step zero opts m (m\<lparr>m_state := s', m_closed := m_closed m + mset closed, m_drains := m_drains m - 1\<rparr>)"

inductive apply_reach :: "'c \<Rightarrow> ('t, 'c, 'r, 'e) Options \<Rightarrow> ('t, 'c, 'e) machine \<Rightarrow> ('t, 'c, 'e) machine \<Rightarrow> bool"
  for zero :: 'c and opts :: "('t, 'c, 'r, 'e) Options" where
  refl: "apply_reach zero opts m m"
| step: "apply_reach zero opts m m' \<Longrightarrow> apply_step zero opts m' m'' \<Longrightarrow> apply_reach zero opts m m''"

definition machine_start :: "'t \<Rightarrow> 'c \<Rightarrow> ('t, 'c, 'e) machine" where
  "machine_start cfg c =
     \<lparr>m_state = NewState cfg c, m_inflight = [], m_built = {#c#}, m_closed = {#}, m_drains = 0\<rparr>"

text \<open>
  Every client ever made is exactly one of: live, waiting to be closed, closed, or in the hands
  of a call that has not committed. It needs both clients' functions, and that the two calls
  of \<open>Recreate\<close> agree, which they do when replacing is unconditional.
\<close>

definition managed :: "('t, 'c, 'r, 'e) Options \<Rightarrow> bool" where
  "managed opts \<longleftrightarrow> opt_Close opts \<and> opt_Build opts \<noteq> None \<and> recreate_fn opts = (\<lambda>_ _. True)"

fun prepared_ok :: "('t, 'c, 'e) prepared \<Rightarrow> bool" where
  "prepared_ok (Ready _ r c) = (r \<and> c \<noteq> None)"
| "prepared_ok _ = True"

definition machine_inv :: "('t, 'c, 'e) machine \<Rightarrow> bool" where
  "machine_inv m \<longleftrightarrow>
     m_built m = owned (m_state m) + m_closed m + (\<Sum>p \<in># mset (m_inflight m). prepared_client p) \<and>
     (\<forall>p \<in> set (m_inflight m). prepared_ok p) \<and>
     drain_inv (m_state m) \<and> m_drains m = (if st_draining (m_state m) then 1 else 0) \<and>
     (m_inflight m \<noteq> [] \<longrightarrow> st_closeFn (m_state m))"

lemma prepare_ok: "managed opts \<Longrightarrow> prepared_ok (prepare opts base raw)"
  by (auto simp: prepare_def managed_def Let_def split: sum.splits option.splits)

lemma owned_register_close [simp]: "owned (register_close opts s) = owned s"
  by (simp add: owned_def register_close_def)

lemma commit_accounts:
  assumes "managed opts" "prepared_ok prep" "commit zero opts prep s = (s', out)"
  shows "owned s + prepared_client prep = owned s' + mset (ap_closed out)"
  using assms
  by (cases prep)
    (auto simp: commit_def managed_def not_applied_def owned_def the_client_def Let_def split: if_splits)

lemma apply_step_inv:
  assumes "apply_step zero opts m m'" "managed opts" "machine_inv m"
  shows "machine_inv m'"
  using assms
proof (induction rule: apply_step.induct)
  case (Prepare prep s raw m)
  have "st_closeFn s" "drain_inv s" "st_draining s = st_draining (m_state m)"
    using Prepare by (auto simp: register_close_def managed_def machine_inv_def drain_inv_def)
  then show ?case
    using Prepare prepare_ok [OF Prepare.prems(1)] by (simp add: machine_inv_def ac_simps)
next
  case (Commit m before prep after s' out)
  have ok: "prepared_ok prep" "st_closeFn (m_state m)" "drain_inv (m_state m)"
    using Commit by (simp_all add: machine_inv_def)
  have acc: "owned (m_state m) + prepared_client prep = owned s' + mset (ap_closed out)"
    using commit_accounts [OF Commit.prems(1) ok(1) Commit.hyps(2)] .
  have drain: "drain_inv s'"
    using commit_drain_inv [OF ok(3), of opts zero prep] ok(2) Commit.hyps(2) by simp
  have fields: "st_closeFn s'" "ap_drain out \<longleftrightarrow> st_draining s' \<and> \<not> st_draining (m_state m)"
    "st_draining (m_state m) \<longrightarrow> st_draining s'"
    using Commit.hyps(2) ok(2)
    by (auto simp: commit_def not_applied_def Let_def split: prepared.splits if_splits)
  have "m_built m = owned s' + (m_closed m + mset (ap_closed out)) +
      (\<Sum>p \<in># mset (before @ after). prepared_client p)"
  proof -
    have "m_built m = (owned (m_state m) + prepared_client prep) + m_closed m +
        (\<Sum>p \<in># mset (before @ after). prepared_client p)"
      using Commit by (simp add: machine_inv_def ac_simps)
    then show ?thesis unfolding acc by (simp add: ac_simps)
  qed
  then show ?case
    using Commit drain fields by (auto simp: machine_inv_def)
next
  case (Drain m s' closed)
  then show ?case
    by (auto simp: machine_inv_def drainPendingClose_def drain_inv_def owned_def split: if_splits)
qed

lemma apply_reach_inv:
  "apply_reach zero opts m m' \<Longrightarrow> managed opts \<Longrightarrow> machine_inv m \<Longrightarrow> machine_inv m'"
  by (induction rule: apply_reach.induct) (auto intro: apply_step_inv)

lemma machine_start_inv: "machine_inv (machine_start cfg c)"
  by (simp add: machine_inv_def machine_start_def NewState_def drain_inv_def owned_def)

section \<open>Properties\<close>


definition sample_opts :: "(int, int, int, unit) Options" where
  "sample_opts =
     \<lparr>opt_Parse = (\<lambda>base raw. if raw < 0 then Inl () else Inr raw), opt_Equal = None, opt_Recreate = None,
      opt_Build = Some (\<lambda>cfg. Inr (100 + cfg)), opt_Close = True\<rparr>"



definition race_m1 :: "(int, int, unit) machine" where
  "race_m1 = (machine_start 1 101)\<lparr>m_state := (NewState 1 101)\<lparr>st_closeFn := True\<rparr>,
     m_inflight := [Ready 7 True (Some 107)], m_built := {#101, 107#}\<rparr>"

definition race_m2 :: "(int, int, unit) machine" where
  "race_m2 = race_m1\<lparr>m_state := \<lparr>st_config = 7, st_client = 107, st_pendingClose = [101], st_closeFn = True,
     st_draining = True\<rparr>, m_inflight := [], m_drains := 1\<rparr>"

lemma race_run: "apply_reach 0 sample_opts (machine_start 1 101) race_m2"
proof -
  have 1: "apply_step 0 sample_opts (machine_start 1 101) race_m1"
    using apply_step.Prepare [of "Ready 7 True (Some 107)" sample_opts "register_close sample_opts (NewState 1 101)"
        7 "machine_start 1 101" 0]
    by (simp add: race_m1_def machine_start_def NewState_def register_close_def sample_opts_def
        prepare_def equal_fn_def recreate_fn_def add_mset_commute)
  have 2: "apply_step 0 sample_opts race_m1 race_m2"
    using apply_step.Commit [of race_m1 "[]" "Ready 7 True (Some 107)" "[]" 0 sample_opts
        "m_state race_m2" "snd (commit 0 sample_opts (Ready 7 True (Some 107)) (m_state race_m1))"]
    by (simp add: race_m1_def race_m2_def machine_start_def NewState_def sample_opts_def commit_def
        equal_fn_def recreate_fn_def the_client_def)
  from apply_reach.step [OF apply_reach.step [OF apply_reach.refl 1] 2] show ?thesis .
qed


text \<open>
  When \<open>Recreate\<close> looks at the old configuration, the two calls of it may disagree: a client that
  was built is then neither stored nor closed.
\<close>

definition picky_opts :: "(int, int, int, unit) Options" where
  "picky_opts = sample_opts\<lparr>opt_Recreate := Some (\<lambda>old new. old div 10 \<noteq> new div 10)\<rparr>"

lemma Apply_race_leaks_client:
  "let s0 = register_close picky_opts (NewState 10 110);
       prep = prepare picky_opts (st_config s0) 25;
       (s1, out1) = Apply 0 picky_opts 21 s0;
       (s2, out2) = commit 0 picky_opts prep s1
   in prep = Ready 25 True (Some 125) \<and> st_config s2 = 25 \<and> st_client s2 = 121 \<and>
      125 \<notin># owned s2 \<and> ap_closed out1 = [] \<and> ap_closed out2 = []"
  by (simp add: Apply_unfold register_close_def picky_opts_def sample_opts_def NewState_def prepare_def commit_def
      equal_fn_def recreate_fn_def owned_def the_client_def State_Config_def)

section \<open>How it comes to an end\<close>

text \<open>
  Once no further \<open>Apply\<close> is called, the calls under way and the draining goroutine come to an end, and then
  all clients but the live one are closed.
\<close>

text \<open>A step that brings something under way to its end: a call commits, or a scheduled drain runs.\<close>

definition settle_step :: "'c \<Rightarrow> ('t, 'c, 'r, 'e) Options \<Rightarrow> ('t, 'c, 'e) machine \<Rightarrow> ('t, 'c, 'e) machine \<Rightarrow> bool" where
  "settle_step zero opts m m' \<longleftrightarrow>
     apply_step zero opts m m' \<and>
     (length (m_inflight m') < length (m_inflight m) \<or> m_drains m' < m_drains m)"

definition under_way :: "('t, 'c, 'e) machine \<Rightarrow> nat" where
  "under_way m = 2 * length (m_inflight m) + m_drains m"

lemma settle_step_less: "settle_step zero opts m m' \<Longrightarrow> under_way m' < under_way m"
  by (auto simp: settle_step_def under_way_def elim!: apply_step.cases split: if_splits)

lemma settle_step_reach: "(settle_step zero opts ^^ k) m m' \<Longrightarrow> apply_reach zero opts m0 m \<Longrightarrow> apply_reach zero opts m0 m'"
proof (induction k arbitrary: m')
  case (Suc k)
  then obtain n where "(settle_step zero opts ^^ k) m n" "settle_step zero opts n m'" by auto
  with Suc show ?case unfolding settle_step_def by (blast intro: apply_reach.step)
qed simp

lemma settle_step_bounded: "(settle_step zero opts ^^ k) m m' \<Longrightarrow> k + under_way m' \<le> under_way m"
proof (induction k arbitrary: m')
  case (Suc k)
  then obtain n where "(settle_step zero opts ^^ k) m n" "settle_step zero opts n m'" by auto
  with Suc.IH [of n] settle_step_less [of zero opts n m'] show ?case by simp
qed simp

text \<open>As long as something is under way there is such a step.\<close>

lemma settle_step_progress:
  assumes "0 < under_way m"
  shows "\<exists>m'. settle_step zero opts m m'"
proof (cases "m_inflight m")
  case (Cons prep after)
  obtain s' out where "commit zero opts prep (m_state m) = (s', out)" by (cases "commit zero opts prep (m_state m)")
  from apply_step.Commit [of m "[]" prep "after" zero opts, OF _ this] Cons
  show ?thesis by (auto simp: settle_step_def intro!: exI)
next
  case Nil
  with assms have d: "0 < m_drains m" by (simp add: under_way_def)
  obtain s' closed where "drainPendingClose (m_state m) = (s', closed)" by (cases "drainPendingClose (m_state m)")
  from apply_step.Drain [OF d this, of zero opts] d show ?thesis by (auto simp: settle_step_def intro!: exI)
qed


definition race_m3 :: "(int, int, unit) machine" where
  "race_m3 = race_m2\<lparr>m_state := (m_state race_m2)\<lparr>st_pendingClose := [], st_draining := False\<rparr>, m_closed := {#101#},
     m_drains := 0\<rparr>"

lemma race_settles: "(settle_step 0 sample_opts ^^ 1) race_m2 race_m3"
proof -
  have "settle_step 0 sample_opts race_m2 race_m3"
    using apply_step.Drain [of race_m2 "m_state race_m3" "[101]" 0 sample_opts]
    by (simp add: settle_step_def race_m3_def race_m2_def race_m1_def machine_start_def NewState_def drainPendingClose_def)
  then show ?thesis by (simp only: relpowp_1)
qed

lemma race_settled: "\<nexists>m''. settle_step 0 sample_opts race_m3 m''"
proof
  assume "\<exists>m''. settle_step 0 sample_opts race_m3 m''"
  then obtain m'' where "settle_step 0 sample_opts race_m3 m''" by blast
  then have "under_way m'' < under_way race_m3" by (rule settle_step_less)
  then show False by (simp add: under_way_def race_m3_def race_m2_def)
qed


end
