(* ===== verification/Managed_Provider.thy ===== *)
theory Managed_Provider
  imports Provider Autoconf_Updater
begin

text \<open>
  What the six configurable providers (\<open>azure\<close>, \<open>kafka\<close>, \<open>kubernetes\<close>, \<open>log\<close>, \<open>postgres\<close>,
  \<open>prometheus\<close>) have in common: a \<open>State\<close> of \<open>autoconfig\<close> and a \<open>BaseProvider\<close> built from a list
  of tasks. The four methods that read the base are the same text in every \<open>provider.go\<close>; a
  provider is given by its \<open>UpdateConfig\<close> and its \<open>IsConfigured\<close>.

  The locale \<open>managed_provider\<close> asks only that an update leaves the base alone; it is an instance of
  \<open>provider_interface\<close>.
\<close>

record ('cfg, 'cl, 't) Provider =
  pv_state :: "('cfg, 'cl) State"
  pv_base :: "'t BaseProvider"

definition Provider_Name :: "('cfg, 'cl, 't) Provider \<Rightarrow> gostring" where
  "Provider_Name p = ProviderName (pv_base p)"

definition Provider_Capabilities :: "('cfg, 'cl, 't) Provider \<Rightarrow> Capability list" where
  "Provider_Capabilities p = ProviderCapabilities (pv_base p)"

definition Provider_IsEnabled :: "('cfg, 'cl, 't) Provider \<Rightarrow> gmap \<Rightarrow> bool" where
  "Provider_IsEnabled p config = (case EnabledFunc (pv_base p) of Some f \<Rightarrow> f config | None \<Rightarrow> True)"

definition Provider_GetTask :: "('cfg, 'cl, 't) Provider \<Rightarrow> gostring \<Rightarrow> 't option" where
  "Provider_GetTask p name = map_of (Tasks (pv_base p)) name"

definition CurrentClient :: "('cfg, 'cl, 't) Provider \<Rightarrow> 'cl" where
  "CurrentClient p = State_Client (pv_state p)"

definition managed_ops ::
  "(('cfg, 'cl, 't) Provider \<Rightarrow> gostring \<Rightarrow> gmap \<Rightarrow> ('cfg, 'cl, 't) Provider) \<Rightarrow>
     (('cfg, 'cl, 't) Provider \<Rightarrow> bool) \<Rightarrow> (('cfg, 'cl, 't) Provider, 't) provider_ops" where
  "managed_ops update configured =
     \<lparr>op_Name = Provider_Name, op_Capabilities = Provider_Capabilities,
      op_IsEnabled = Provider_IsEnabled, op_GetTask = Provider_GetTask,
      op_UpdateConfig = update, op_IsConfigured = configured\<rparr>"

definition managed_wf :: "('cfg, 'cl, 't) Provider \<Rightarrow> bool" where
  "managed_wf p = base_wf (pv_base p)"

lemmas managed_simps = managed_ops_def Provider_Name_def Provider_Capabilities_def
  Provider_IsEnabled_def Provider_GetTask_def

locale managed_provider =
  fixes update :: "('cfg, 'cl, 't) Provider \<Rightarrow> gostring \<Rightarrow> gmap \<Rightarrow> ('cfg, 'cl, 't) Provider"
    and configured :: "('cfg, 'cl, 't) Provider \<Rightarrow> bool"
  assumes base_update: "pv_base (update p n cfg) = pv_base p"
begin

lemma interface: "provider_interface (managed_ops update configured) managed_wf"
  by unfold_locales (auto simp: managed_simps managed_wf_def base_update base_wf_def list_all_iff)

end

sublocale managed_provider \<subseteq> prov: provider_interface "managed_ops update configured" managed_wf
  by (rule interface)

section \<open>A base built from tasks\<close>

text \<open>
  The loop of every \<open>NewProvider\<close>: one capability per task, with what the provider says of it, and
  the map from names to tasks. \<open>mk\<close> gives the task of a name, \<open>schema\<close> its JSON schema.
\<close>

definition task_capability ::
  "gostring \<Rightarrow> (gostring \<Rightarrow> gostring) \<Rightarrow> (gostring \<Rightarrow> gostring) \<Rightarrow> (gostring \<Rightarrow> gostring list) \<Rightarrow>
     (gostring \<Rightarrow> gostring list) \<Rightarrow> gostring \<Rightarrow> Capability" where
  "task_capability pname schema description useCases tags name =
     \<lparr>cap_Name = name, cap_Version = ''v1'', cap_Description = description name, cap_Provider = pname,
      cap_ParametersJSONSchema = schema name, cap_Config = [], cap_ConfigSummary = [], cap_Enabled = False,
      cap_UseCases = useCases name, cap_Aliases = [], cap_Tags = tags name\<rparr>"

definition task_map :: "(gostring \<Rightarrow> 't) \<Rightarrow> gostring list \<Rightarrow> (gostring \<times> 't) list" where
  "task_map mk names = fold (\<lambda>n m. AList.update n (mk n) m) names []"

definition task_base ::
  "gostring \<Rightarrow> (gostring \<Rightarrow> gostring) \<Rightarrow> (gostring \<Rightarrow> gostring) \<Rightarrow> (gostring \<Rightarrow> gostring list) \<Rightarrow>
     (gostring \<Rightarrow> gostring list) \<Rightarrow> (gostring \<Rightarrow> 't) \<Rightarrow> gostring list \<Rightarrow> 't BaseProvider" where
  "task_base pname schema description useCases tags mk names =
     \<lparr>ProviderName = pname,
      ProviderCapabilities = map (task_capability pname schema description useCases tags) names,
      EnabledFunc = None, Tasks = task_map mk names\<rparr>"

lemma map_of_fold_task:
  "map_of (fold (\<lambda>n m. AList.update n (mk n) m) names m) n = (if n \<in> set names then Some (mk n) else map_of m n)"
  by (induction names arbitrary: m) auto

lemma map_of_task_map: "map_of (task_map mk names) n = (if n \<in> set names then Some (mk n) else None)"
  by (simp add: task_map_def map_of_fold_task)

lemma names_task_base:
  "map cap_Name (ProviderCapabilities (task_base pname schema d u t mk names)) = names"
  by (simp add: task_base_def task_capability_def comp_def)

lemma base_wf_task_base:
  "pname \<noteq> [] \<Longrightarrow> distinct names \<Longrightarrow> base_wf (task_base pname schema d u t mk names)"
  using names_task_base [of pname schema d u t mk names]
  by (simp add: base_wf_def task_base_def list_all_iff task_capability_def)

section \<open>The simplest use of Apply\<close>

text \<open>A value read from the update, or the one before.\<close>

definition ok_or :: "'v option \<Rightarrow> 'v \<Rightarrow> 'v" where
  "ok_or v d = (case v of Some x \<Rightarrow> x | None \<Rightarrow> d)"

lemma ok_or_idem [simp]: "ok_or v (ok_or v d) = ok_or v d"
  by (simp add: ok_or_def split: option.split)

text \<open>
  Parsing that cannot fail, the default \<open>Equal\<close> and \<open>Recreate\<close>, and a constructor that cannot
  fail: the configuration is the parsed one, and the client is rebuilt exactly when it differs.
\<close>

lemma Apply_simple_config:
  "st_config (fst (Apply zero \<lparr>opt_Parse = (\<lambda>b r. Inr (parse b r)), opt_Equal = None, opt_Recreate = None,
      opt_Build = Some (\<lambda>c. Inr (mk c)), opt_Close = cl\<rparr> raw s)) = parse (st_config s) raw"
  by (simp add: Apply_def commit_def prepare_def equal_fn_def recreate_fn_def register_close_def State_Config_def
      Let_def)

lemma Apply_simple_client:
  "st_client (fst (Apply zero \<lparr>opt_Parse = (\<lambda>b r. Inr (parse b r)), opt_Equal = None, opt_Recreate = None,
      opt_Build = Some (\<lambda>c. Inr (mk c)), opt_Close = cl\<rparr> raw s)) =
    (if st_config s = parse (st_config s) raw then st_client s else mk (parse (st_config s) raw))"
  by (simp add: Apply_def commit_def prepare_def equal_fn_def recreate_fn_def register_close_def State_Config_def
      the_client_def Let_def)

text \<open>
  Applying the same update twice is applying it once, whatever the other options: the second call
  finds the configuration unchanged, or fails to build again.
\<close>

lemma Apply_idem:
  assumes "\<And>b. opt_Parse opts b raw = Inr (parse b)" "\<And>b. parse (parse b) = parse b"
    and "\<And>b. equal_fn opts b b"
  shows "fst (Apply zero opts raw (fst (Apply zero opts raw s))) = fst (Apply zero opts raw s)"
proof -
  have eq: "fst (Apply zero opts raw u) = u"
    if "st_config u = parse b" "register_close opts u = u" for u b
    using that by (simp add: Apply_def prepare_def commit_def assms State_Config_def)
  have rc: "register_close opts (register_close opts s) = register_close opts s"
    by (simp add: register_close_def)
  have again: "register_close opts u = u" if "st_closeFn u = st_closeFn (register_close opts s)" for u
    using that by (auto simp: register_close_def split: if_splits)
  show ?thesis
  proof (cases "fst (Apply zero opts raw s) = register_close opts s")
    case True
    then have "fst (Apply zero opts raw (register_close opts s)) = fst (Apply zero opts raw s)"
      by (simp add: Apply_def rc)
    with True show ?thesis by simp
  next
    case False
    then have "st_config (fst (Apply zero opts raw s)) = parse (st_config (register_close opts s)) \<and>
        st_closeFn (fst (Apply zero opts raw s)) = st_closeFn (register_close opts s)"
      by (auto simp: Apply_def prepare_def commit_def assms State_Config_def Let_def
          split: if_splits option.splits sum.splits)
    then show ?thesis by (intro eq again) auto
  qed
qed

section \<open>Sequences of updates\<close>

definition run_updates ::
  "('p \<Rightarrow> gostring \<Rightarrow> gmap \<Rightarrow> 'p) \<Rightarrow> (gostring \<times> gmap) list \<Rightarrow> 'p \<Rightarrow> 'p" where
  "run_updates update us p = fold (\<lambda>(n, cfg) q. update q n cfg) us p"

lemma run_updates_simps [simp]:
  "run_updates update [] p = p"
  "run_updates update (u # us) p = run_updates update us (update p (fst u) (snd u))"
  by (simp_all add: run_updates_def case_prod_beta)

lemma run_updates_invariant:
  "(\<And>q n cfg. I q \<Longrightarrow> I (update q n cfg)) \<Longrightarrow> I p \<Longrightarrow> I (run_updates update us p)"
  by (induction us arbitrary: p) simp_all

context managed_provider begin

lemma base_run_updates: "pv_base (run_updates update us p) = pv_base p"
  by (rule run_updates_invariant [where I = "\<lambda>q. pv_base q = pv_base p"]) (simp_all add: base_update)

end

text \<open>
  The client is the one of the current configuration: an invariant of \<open>Apply\<close> whenever what is built
  depends on the configuration only, and an update that does not rebuild would build the same.
\<close>

definition follows :: "('cfg \<Rightarrow> 'c) \<Rightarrow> ('cfg, 'c option) State \<Rightarrow> bool" where
  "follows mk s \<longleftrightarrow> State_Client s = Some (mk (State_Config s))"

lemma follows_NewState: "follows mk (NewState cfg (Some (mk cfg)))"
  by (simp add: follows_def NewState_def State_Client_def State_Config_def)

lemma follows_Apply:
  assumes "follows mk s"
    and "opt_Build opts = Some build" "\<And>c cl. build c = Inr cl \<Longrightarrow> cl = Some (mk c)"
    and "\<And>a b. \<not> recreate_fn opts a b \<Longrightarrow> mk a = mk b"
  shows "follows mk (fst (Apply zero opts raw s))"
proof -
  have "follows mk (register_close opts s)" "st_config (register_close opts s) = st_config s"
    using assms(1) by (simp_all add: register_close_def follows_def State_Client_def State_Config_def)
  then show ?thesis
    using assms(2-4)
    by (auto simp: Apply_unfold commit_def prepare_def follows_def State_Client_def State_Config_def Let_def
        the_client_def split: sum.splits prepared.splits if_splits)
qed

section \<open>Names with a common prefix\<close>

text \<open>
  Distinctness and validity of a provider's capability names reduce to what follows the common
  prefix.
\<close>

definition valid_rest :: "gostring \<Rightarrow> bool" where
  "valid_rest s \<longleftrightarrow> list_all (\<lambda>w. w \<noteq> [] \<and> list_all (\<lambda>c. is_lower c \<or> c = CHR ''_'') w) (Split (CHR ''.'') s)"

lemma is_lower_not_dot: "list_all is_lower pre \<Longrightarrow> CHR ''.'' \<notin> set pre"
  by (auto simp: list_all_iff is_lower_def less_eq_char_def)

lemma namePattern_prefixed:
  assumes "pre \<noteq> []" "list_all is_lower pre"
  shows "namePattern (pre @ ''.'' @ s) \<longleftrightarrow> valid_rest s"
proof -
  have "Split (CHR ''.'') (pre @ ''.'' @ s) = pre # Split (CHR ''.'') s"
    using Split_append [OF is_lower_not_dot [OF assms(2)]] by simp
  then show ?thesis using assms by (simp add: namePattern_def valid_rest_def)
qed

definition prefixed :: "gostring \<Rightarrow> gostring list \<Rightarrow> gostring list" where
  "prefixed pre rests = map (\<lambda>s. pre @ ''.'' @ s) rests"

lemma distinct_prefixed: "distinct rests \<Longrightarrow> distinct (prefixed pre rests)"
  by (simp add: prefixed_def distinct_map inj_on_def)

lemma prefixed_valid:
  "pre \<noteq> [] \<Longrightarrow> list_all is_lower pre \<Longrightarrow> list_all valid_rest rests \<Longrightarrow> list_all namePattern (prefixed pre rests)"
  by (auto simp: prefixed_def list_all_iff simp flip: namePattern_prefixed)

text \<open>Providers with different, dot-free prefixes have no capability in common.\<close>

lemma prefixed_disjoint:
  assumes "CHR ''.'' \<notin> set p" "CHR ''.'' \<notin> set q" "p \<noteq> q"
  shows "set (prefixed p as) \<inter> set (prefixed q bs) = {}"
proof -
  have "p @ ''.'' @ s \<noteq> q @ ''.'' @ t" for s t
  proof
    assume "p @ ''.'' @ s = q @ ''.'' @ t"
    then have "hd (Split (CHR ''.'') (p @ ''.'' @ s)) = hd (Split (CHR ''.'') (q @ ''.'' @ t))" by simp
    with Split_append [OF assms(1)] Split_append [OF assms(2)] assms(3) show False by simp
  qed
  then show ?thesis by (auto simp: prefixed_def)
qed

end
