(* ===== verification/Autoconf_Extract.thy ===== *)
theory Autoconf_Extract
  imports Go_Values
begin

text \<open>
  \<open>internal/provider/autoconfig/extract.go\<close>: typed reads from a dynamic configuration map. A
  result \<open>(v, ok)\<close> is \<open>Some v\<close> or \<open>None\<close>; the functions give the zero value with \<open>ok\<close> false,
  which is what the short forms without \<open>OK\<close> return.
\<close>

section \<open>Finding a value\<close>

text \<open>The loop over the parts of a dotted key.\<close>

fun walk :: "gvalue \<Rightarrow> gostring list \<Rightarrow> gvalue option" where
  "walk cur [] = Some cur"
| "walk (VMap m) (part # parts) =
     (case map_of m part of None \<Rightarrow> None | Some v \<Rightarrow> walk v parts)"
| "walk _ (part # parts) = None"

definition Lookup :: "gmap \<Rightarrow> gostring \<Rightarrow> gvalue option" where
  "Lookup raw key =
     (case map_of raw key of
        Some v \<Rightarrow> Some v
      | None \<Rightarrow> (let parts = Split CHR ''.'' key
                 in if length parts = 1 then None else walk (VMap raw) parts))"

definition HasPrefix_key :: "gmap \<Rightarrow> gostring \<Rightarrow> bool" where
  "HasPrefix_key raw pre =
     list_ex (\<lambda>k. k = pre \<or> HasPrefix k (pre @ ''.'')) (map fst raw)"

section \<open>Typed values\<close>

fun AsStringOK :: "gvalue \<Rightarrow> gostring option" where
  "AsStringOK (VString s) = Some s"
| "AsStringOK _ = None"

definition AsString :: "gvalue \<Rightarrow> gostring" where
  "AsString v = (case AsStringOK v of Some s \<Rightarrow> s | None \<Rightarrow> [])"

fun AsBoolOK :: "gvalue \<Rightarrow> bool option" where
  "AsBoolOK (VBool b) = Some b"
| "AsBoolOK _ = None"

text \<open>\<open>float64(math.MinInt64)\<close> and \<open>float64(math.MaxInt64)\<close>; the latter rounds up to \<open>2 ^ 63\<close>.\<close>

definition int64FromFloat :: "(gofloat \<Rightarrow> int) \<Rightarrow> gofloat \<Rightarrow> int option" where
  "int64FromFloat oor f =
     (if f = FNaN \<or> f = FInf False \<or> f = FInf True \<or> \<not> float_integral f then None
      else if float_less f (float64_of_int min_int64) \<or> float_less (float64_of_int max_int64) f then None
      else Some (int64_of_float oor f))"

definition durationFromFloatSeconds :: "(gofloat \<Rightarrow> int) \<Rightarrow> gofloat \<Rightarrow> int option" where
  "durationFromFloatSeconds oor seconds =
     (if seconds = FNaN \<or> seconds = FInf False \<or> seconds = FInf True \<or>
         float_less seconds (float64_of_int 0) then None
      else (let nanos = float_mul seconds (float64_of_int Second)
            in if float_less (float64_of_int max_int64) nanos then None
               else Some (int64_of_float oor nanos)))"

fun asInt64OK :: "(gofloat \<Rightarrow> int) \<Rightarrow> gvalue \<Rightarrow> int option" where
  "asInt64OK oor (VInt n) = Some n"
| "asInt64OK oor (VInt8 n) = Some n"
| "asInt64OK oor (VInt16 n) = Some n"
| "asInt64OK oor (VInt32 n) = Some n"
| "asInt64OK oor (VInt64 n) = Some n"
| "asInt64OK oor (VUint n) = (if n > max_int64 then None else Some n)"
| "asInt64OK oor (VUint8 n) = Some n"
| "asInt64OK oor (VUint16 n) = Some n"
| "asInt64OK oor (VUint32 n) = Some n"
| "asInt64OK oor (VUint64 n) = (if n > max_int64 then None else Some n)"
| "asInt64OK oor (VFloat32 f) = int64FromFloat oor f"
| "asInt64OK oor (VFloat64 f) = int64FromFloat oor f"
| "asInt64OK oor _ = None"

text \<open>\<open>maxInt\<close> and \<open>minInt\<close> of a platform whose \<open>int\<close> has 64 bits.\<close>

definition maxInt :: int where "maxInt = max_int64"
definition minInt :: int where "minInt = - maxInt - 1"

definition AsIntOK :: "(gofloat \<Rightarrow> int) \<Rightarrow> gvalue \<Rightarrow> int option" where
  "AsIntOK oor v =
     (case asInt64OK oor v of
        None \<Rightarrow> None | Some i \<Rightarrow> (if i < minInt \<or> i > maxInt then None else Some i))"

definition AsInt :: "(gofloat \<Rightarrow> int) \<Rightarrow> gvalue \<Rightarrow> int" where
  "AsInt oor v = (case AsIntOK oor v of Some i \<Rightarrow> i | None \<Rightarrow> 0)"

text \<open>Whole seconds as a duration, or nothing when the product does not fit.\<close>

definition seconds_duration :: "int option \<Rightarrow> int option" where
  "seconds_duration r =
     (case r of None \<Rightarrow> None
      | Some seconds \<Rightarrow>
          (if seconds < 0 \<or> seconds > quot max_int64 Second then None
           else Some (wrap64 (seconds * Second))))"

fun AsDurationOK :: "(gofloat \<Rightarrow> int) \<Rightarrow> gvalue \<Rightarrow> int option" where
  "AsDurationOK oor (VDuration n) = Some n"
| "AsDurationOK oor (VString n) = ParseDuration n"
| "AsDurationOK oor (VFloat32 n) = durationFromFloatSeconds oor n"
| "AsDurationOK oor (VFloat64 n) = durationFromFloatSeconds oor n"
| "AsDurationOK oor v = seconds_duration (asInt64OK oor v)"

fun strings_only :: "gvalue list \<Rightarrow> gostring list \<Rightarrow> gostring list option" where
  "strings_only [] out = Some out"
| "strings_only (value # values) out =
     (case AsStringOK value of None \<Rightarrow> None | Some s \<Rightarrow> strings_only values (out @ [s]))"

fun AsStringSliceOK :: "gvalue \<Rightarrow> gostring list option" where
  "AsStringSliceOK (VStrings values) = Some values"
| "AsStringSliceOK (VList values) = strings_only values []"
| "AsStringSliceOK _ = None"

fun AsMapOK :: "gvalue \<Rightarrow> gmap option" where
  "AsMapOK (VMap m) = Some m"
| "AsMapOK _ = None"

section \<open>Typed reads\<close>

definition StringOK :: "gmap \<Rightarrow> gostring \<Rightarrow> gostring option" where
  "StringOK raw key = (case Lookup raw key of None \<Rightarrow> None | Some v \<Rightarrow> AsStringOK v)"

definition String_key :: "gmap \<Rightarrow> gostring \<Rightarrow> gostring" where
  "String_key raw key = (case StringOK raw key of Some v \<Rightarrow> v | None \<Rightarrow> [])"

definition BoolOK :: "gmap \<Rightarrow> gostring \<Rightarrow> bool option" where
  "BoolOK raw key = (case Lookup raw key of None \<Rightarrow> None | Some v \<Rightarrow> AsBoolOK v)"

definition Bool_key :: "gmap \<Rightarrow> gostring \<Rightarrow> bool" where
  "Bool_key raw key = (case BoolOK raw key of Some v \<Rightarrow> v | None \<Rightarrow> False)"

definition IntOK :: "(gofloat \<Rightarrow> int) \<Rightarrow> gmap \<Rightarrow> gostring \<Rightarrow> int option" where
  "IntOK oor raw key = (case Lookup raw key of None \<Rightarrow> None | Some v \<Rightarrow> AsIntOK oor v)"

definition Int_key :: "(gofloat \<Rightarrow> int) \<Rightarrow> gmap \<Rightarrow> gostring \<Rightarrow> int" where
  "Int_key oor raw key = (case IntOK oor raw key of Some v \<Rightarrow> v | None \<Rightarrow> 0)"

definition Int64OK :: "(gofloat \<Rightarrow> int) \<Rightarrow> gmap \<Rightarrow> gostring \<Rightarrow> int option" where
  "Int64OK oor raw key = (case Lookup raw key of None \<Rightarrow> None | Some v \<Rightarrow> asInt64OK oor v)"

definition DurationOK :: "(gofloat \<Rightarrow> int) \<Rightarrow> gmap \<Rightarrow> gostring \<Rightarrow> int option" where
  "DurationOK oor raw key = (case Lookup raw key of None \<Rightarrow> None | Some v \<Rightarrow> AsDurationOK oor v)"

definition Duration_key :: "(gofloat \<Rightarrow> int) \<Rightarrow> gmap \<Rightarrow> gostring \<Rightarrow> int" where
  "Duration_key oor raw key = (case DurationOK oor raw key of Some v \<Rightarrow> v | None \<Rightarrow> 0)"

definition StringSliceOK :: "gmap \<Rightarrow> gostring \<Rightarrow> gostring list option" where
  "StringSliceOK raw key = (case Lookup raw key of None \<Rightarrow> None | Some v \<Rightarrow> AsStringSliceOK v)"

definition StringSlice_key :: "gmap \<Rightarrow> gostring \<Rightarrow> gostring list" where
  "StringSlice_key raw key = (case StringSliceOK raw key of Some v \<Rightarrow> v | None \<Rightarrow> [])"

definition MapOK :: "gmap \<Rightarrow> gostring \<Rightarrow> gmap option" where
  "MapOK raw key = (case Lookup raw key of None \<Rightarrow> None | Some v \<Rightarrow> AsMapOK v)"

definition Map_key :: "gmap \<Rightarrow> gostring \<Rightarrow> gmap" where
  "Map_key raw key = (case MapOK raw key of Some v \<Rightarrow> v | None \<Rightarrow> [])"

section \<open>Finding: what was put under a path is found under the dotted key\<close>

text \<open>The nested maps a path describes.\<close>

fun nest :: "gostring list \<Rightarrow> gvalue \<Rightarrow> gvalue" where
  "nest [] v = v"
| "nest (p # ps) v = VMap [(p, nest ps v)]"

lemma walk_nest: "walk (nest ps v) ps = Some v"
  by (induction ps) simp_all

lemma walk_Some_snoc:
  "walk v (ps @ qs) = (case walk v ps of None \<Rightarrow> None | Some w \<Rightarrow> walk w qs)"
  by (induction v ps rule: walk.induct) (auto split: option.splits)

lemma Lookup_exact: "map_of raw key = Some v \<Longrightarrow> Lookup raw key = Some v"
  by (simp add: Lookup_def)

lemma Lookup_dotted:
  assumes "map_of raw (Join ps ''.'') = None" "2 \<le> length ps" "\<forall>p \<in> set ps. CHR ''.'' \<notin> set p"
  shows "Lookup raw (Join ps ''.'') = walk (VMap raw) ps"
  using assms Split_Join [of ps "CHR ''.''"] by (cases ps) (auto simp: Lookup_def Let_def)

section \<open>Numbers\<close>

text \<open>The integer a value carries, whatever its width.\<close>

fun int_payload :: "gvalue \<Rightarrow> int option" where
  "int_payload (VInt n) = Some n"
| "int_payload (VInt8 n) = Some n"
| "int_payload (VInt16 n) = Some n"
| "int_payload (VInt32 n) = Some n"
| "int_payload (VInt64 n) = Some n"
| "int_payload (VUint n) = Some n"
| "int_payload (VUint8 n) = Some n"
| "int_payload (VUint16 n) = Some n"
| "int_payload (VUint32 n) = Some n"
| "int_payload (VUint64 n) = Some n"
| "int_payload _ = None"

lemma asInt64OK_payload:
  "wf_value v \<Longrightarrow> int_payload v = Some n \<Longrightarrow> asInt64OK oor v = (if is_int64 n then Some n else None)"
  by (cases v) (auto simp: is_int64_def)

lemma float64_of_min: "float64_of_int min_int64 = FFin (-4503599627370496) 11"
  by code_simp

lemma float64_of_max: "float64_of_int max_int64 = FFin 9007199254740992 10"
  by code_simp

lemma dyadic_less_shift:
  assumes "k \<le> e1" "k \<le> e2"
  shows "dyadic_less m1 e1 m2 e2 \<longleftrightarrow> m1 * 2 ^ nat (e1 - k) < m2 * 2 ^ nat (e2 - k)"
proof -
  let ?d = "nat (min e1 e2 - k)"
  have split: "2 ^ nat (x - k) = (2 ^ nat (x - min e1 e2) * 2 ^ ?d :: int)" if "min e1 e2 \<le> x" for x
  proof -
    have "nat (x - k) = nat (x - min e1 e2) + ?d" using that assms by linarith
    then show ?thesis by (simp add: power_add)
  qed
  have "m1 * 2 ^ nat (e1 - k) < m2 * 2 ^ nat (e2 - k) \<longleftrightarrow>
      (m1 * 2 ^ nat (e1 - min e1 e2)) * 2 ^ ?d < (m2 * 2 ^ nat (e2 - min e1 e2)) * 2 ^ ?d"
    by (simp only: split [of e1] split [of e2] min.cobounded1 min.cobounded2 mult.assoc)
  also have "\<dots> \<longleftrightarrow> dyadic_less m1 e1 m2 e2"
    by (simp only: mult_less_cancel_right dyadic_less_def) simp
  finally show ?thesis by simp
qed

lemma dyadic_trunc_exact:
  assumes "e < 0" "(2 ^ nat (- e)) dvd m"
  shows "m = dyadic_trunc m e * 2 ^ nat (- e)"
proof -
  from assms(2) obtain k where k: "m = 2 ^ nat (- e) * k" by (auto simp: dvd_def)
  have "sgn m * (\<bar>m\<bar> div 2 ^ nat (- e)) = k"
    by (simp add: k abs_mult sgn_mult) (metis abs_mult_sgn mult.commute)
  with assms(1) show ?thesis by (simp add: dyadic_trunc_def quot_def k mult.commute)
qed

text \<open>For an integral float, comparison with an integral dyadic number is the integers'.\<close>

lemma dyadic_less_integral:
  assumes int: "0 \<le> e \<or> (2 ^ nat (- e)) dvd m" and j: "0 \<le> j"
  shows "dyadic_less m e a j \<longleftrightarrow> dyadic_trunc m e < a * 2 ^ nat j"
    and "dyadic_less a j m e \<longleftrightarrow> a * 2 ^ nat j < dyadic_trunc m e"
proof -
  let ?k = "min e 0"
  have m: "m * 2 ^ nat (e - ?k) = dyadic_trunc m e * 2 ^ nat (- ?k)"
  proof (cases "0 \<le> e")
    case True
    then show ?thesis by (simp add: dyadic_trunc_def)
  next
    case False
    with int dyadic_trunc_exact [of e m] show ?thesis by (simp add: min_def)
  qed
  have "nat (j - ?k) = nat j + nat (- ?k)" using j by linarith
  then have a: "a * 2 ^ nat (j - ?k) = (a * 2 ^ nat j) * 2 ^ nat (- ?k)" by (simp add: power_add)
  have le: "?k \<le> e" "?k \<le> j" using j by auto
  show "dyadic_less m e a j \<longleftrightarrow> dyadic_trunc m e < a * 2 ^ nat j"
    unfolding dyadic_less_shift [OF le] m a mult_less_cancel_right by simp
  show "dyadic_less a j m e \<longleftrightarrow> a * 2 ^ nat j < dyadic_trunc m e"
    unfolding dyadic_less_shift [OF le(2,1)] m a mult_less_cancel_right by simp
qed

text \<open>
  The float is accepted when it is integral and lies in the closed interval from \<open>-2 ^ 63\<close> to
  \<open>2 ^ 63\<close>. Its upper end is one too far: \<open>float64(math.MaxInt64)\<close> is \<open>2 ^ 63\<close>.
\<close>

lemma int64FromFloat_cases:
  "int64FromFloat oor (FFin m e) =
     (if \<not> float_integral (FFin m e) then None
      else if is_int64 (dyadic_trunc m e) then Some (dyadic_trunc m e)
      else if dyadic_trunc m e = 9223372036854775808 then Some (oor (FFin m e))
      else None)"
proof (cases "float_integral (FFin m e)")
  case True
  then have int: "0 \<le> e \<or> (2 ^ nat (- e)) dvd m" by simp
  show ?thesis
    unfolding int64FromFloat_def float64_of_min float64_of_max
    using True dyadic_less_integral [OF int]
    by (auto simp: is_int64_def Let_def)
qed (simp add: int64FromFloat_def)

lemma int64FromFloat_special: "int64FromFloat oor FNaN = None" "int64FromFloat oor (FInf b) = None"
  by (auto simp: int64FromFloat_def)

lemma quot_max_Second: "quot max_int64 Second = 9223372036"
  by (simp add: quot_def)

lemma seconds_duration_exact:
  "seconds_duration (Some n) = (if 0 \<le> n \<and> n \<le> 9223372036 then Some (n * Second) else None)"
  by (auto simp: seconds_duration_def quot_max_Second intro!: wrap64_id)

lemma AsIntOK_is_asInt64OK:
  "(\<And>f. is_int64 (oor f)) \<Longrightarrow> wf_value v \<Longrightarrow> AsIntOK oor v = asInt64OK oor v"
proof -
  assume oor: "\<And>f. is_int64 (oor f)" and wf: "wf_value v"
  have float: "is_int64 n" if "int64FromFloat oor f = Some n" for f n
    using that oor by (cases f) (auto simp: int64FromFloat_cases int64FromFloat_special split: if_splits)
  have "is_int64 n" if "asInt64OK oor v = Some n" for n
    using that wf float by (cases v) (auto simp: is_int64_def split: if_splits)
  then show ?thesis
    by (auto simp: AsIntOK_def minInt_def maxInt_def is_int64_def split: option.splits)
qed

lemma strings_only_eq:
  "strings_only vs out = (if \<forall>v \<in> set vs. \<exists>s. v = VString s then Some (out @ map AsString vs) else None)"
proof (induction vs arbitrary: out)
  case (Cons v vs)
  then show ?case by (cases v) (auto simp: AsString_def)
qed simp

section \<open>Properties\<close>

text \<open>
  A value stored under a path of nested maps is what \<open>Lookup\<close> finds under the dotted
  key of that path, whatever the values it is nested in, unless a flat entry with the whole dotted
  key shadows it; the flat entry wins then.
\<close>

theorem Lookup_path:
  assumes "2 \<le> length ps" "\<forall>p \<in> set ps. CHR ''.'' \<notin> set p"
  shows "Lookup raw (Join ps ''.'') =
      (case map_of raw (Join ps ''.'') of Some v \<Rightarrow> Some v | None \<Rightarrow> walk (VMap raw) ps) \<and>
    Lookup [(hd ps, nest (tl ps) v)] (Join ps ''.'') = Some v"
proof
  show "Lookup raw (Join ps ''.'') =
      (case map_of raw (Join ps ''.'') of Some v \<Rightarrow> Some v | None \<Rightarrow> walk (VMap raw) ps)"
    using Lookup_dotted [OF _ assms] Lookup_exact by (cases "map_of raw (Join ps ''.'')") auto
  obtain p q qs where ps: "ps = p # q # qs" using assms(1) by (cases ps rule: remdups_adj.cases) auto
  have "CHR ''.'' \<in> set (Join ps ''.'')" by (simp add: ps)
  then have "Join ps ''.'' \<noteq> p" using assms(2) ps by auto
  then have "map_of [(hd ps, nest (tl ps) v)] (Join ps ''.'') = None" by (simp add: ps)
  from Lookup_dotted [OF this assms] walk_nest [of ps v]
  show "Lookup [(hd ps, nest (tl ps) v)] (Join ps ''.'') = Some v"
    by (simp add: ps)
qed

theorem Lookup_path_witness:
  "Lookup [(''tls'', nest [''ca_file''] (VString ''x''))] ''tls.ca_file'' = Some (VString ''x'')"
  using Lookup_path [of "[''tls'', ''ca_file'']" "[]" "VString ''x''"] by simp

text \<open>
  Reading an integer: a value of any of the ten integer types is read exactly or, when it
  does not fit, refused. A float is refused unless it is integral, and read exactly inside
  the range; the one value just above it, \<open>2 ^ 63\<close>, passes the range check and is converted all
  the same, with whatever result the platform gives.
\<close>

theorem AsIntOK_exact:
  assumes "\<And>f. is_int64 (oor f)" "wf_value v"
  shows "(\<forall>n. int_payload v = Some n \<longrightarrow> AsIntOK oor v = (if is_int64 n then Some n else None)) \<and>
    (\<forall>m e. v = VFloat64 (FFin m e) \<longrightarrow> AsIntOK oor v =
       (if \<not> float_integral (FFin m e) then None
        else if is_int64 (dyadic_trunc m e) then Some (dyadic_trunc m e)
        else if dyadic_trunc m e = 9223372036854775808 then Some (oor (FFin m e)) else None)) \<and>
    (v = VFloat64 FNaN \<or> (\<exists>b. v = VFloat64 (FInf b)) \<longrightarrow> AsIntOK oor v = None)"
  unfolding AsIntOK_is_asInt64OK [OF assms]
  using asInt64OK_payload [OF assms(2)] by (auto simp: int64FromFloat_cases int64FromFloat_special)

theorem AsIntOK_exact_witness:
  "AsIntOK amd64_oor (VFloat64 (FFin 4503599627370496 11)) = Some min_int64 \<and>
   AsIntOK amd64_oor (VFloat64 (FFin 3 (-1))) = None"
proof -
  have oor: "is_int64 (amd64_oor f)" for f by (simp add: amd64_oor_def is_int64_def)
  have amd: "amd64_oor (FFin 4503599627370496 11) = min_int64" by (simp add: amd64_oor_def)
  from AsIntOK_exact [OF oor, of "VFloat64 (FFin 4503599627370496 11)"]
  have "AsIntOK amd64_oor (VFloat64 (FFin 4503599627370496 11)) = Some min_int64"
    by (simp add: dyadic_trunc_def is_int64_def amd)
  moreover from AsIntOK_exact [OF oor, of "VFloat64 (FFin 3 (-1))"]
  have "AsIntOK amd64_oor (VFloat64 (FFin 3 (-1))) = None"
    by (simp add: odd_numeral_BitM)
  ultimately show ?thesis by simp
qed

text \<open>
  Reading a duration from an integer: the whole seconds from 0 to 9223372036 give exactly
  that many nanoseconds, without wrap-around; anything else is refused. (A string may give a
  negative duration.)
\<close>

theorem AsDurationOK_seconds:
  assumes "wf_value v" "int_payload v = Some n"
  shows "AsDurationOK oor v = (if 0 \<le> n \<and> n \<le> 9223372036 then Some (n * Second) else None)"
proof -
  have "AsDurationOK oor v = seconds_duration (asInt64OK oor v)" using assms(2) by (cases v) auto
  also have "\<dots> = seconds_duration (if is_int64 n then Some n else None)"
    by (simp add: asInt64OK_payload [OF assms])
  finally show ?thesis
    by (auto simp: seconds_duration_exact is_int64_def) (auto simp: seconds_duration_def)
qed

theorem AsDurationOK_seconds_witness:
  "AsDurationOK amd64_oor (VUint64 90) = Some 90000000000 \<and> AsDurationOK amd64_oor (VInt (-1)) = None \<and>
   AsDurationOK amd64_oor (VString ''-5s'') = Some (-5000000000)"
proof -
  have "AsDurationOK amd64_oor (VString ''-5s'') = Some (-5000000000)" by code_simp
  with AsDurationOK_seconds [of "VUint64 90" 90 amd64_oor] AsDurationOK_seconds [of "VInt (-1)" "-1" amd64_oor] show ?thesis
    by (simp add: is_int64_def)
qed

end
