(* ===== verification/Prometheus_Provider.thy ===== *)
theory Prometheus_Provider
  imports Managed_Provider Config_Types Autoconf_Extract
begin

text \<open>
  \<open>internal/provider/prometheus\<close>: \<open>guardrails.go\<close>, \<open>auth.go\<close>, the construction of the client in
  \<open>client.go\<close> and \<open>provider.go\<close>. The HTTP API client of \<open>client_golang\<close> is an argument: \<open>newAPI\<close>
  is \<open>api.NewClient\<close> with \<open>v1.NewAPI\<close>. The interface \<open>prometheusClient\<close> is an option, \<open>None\<close> its
  nil.
\<close>

section \<open>Guardrails\<close>

record GuardrailPolicy =
  gp_MaxQueryRange :: int
  gp_MinStep :: int
  gp_QueryTimeout :: int
  gp_MaxReturnedSeries :: int
  gp_MaxReturnedSamples :: int
  gp_MaxMetadataResults :: int
  gp_MaxResponseBytes :: int

definition zero_GuardrailPolicy :: GuardrailPolicy where
  "zero_GuardrailPolicy =
     \<lparr>gp_MaxQueryRange = 0, gp_MinStep = 0, gp_QueryTimeout = 0, gp_MaxReturnedSeries = 0,
      gp_MaxReturnedSamples = 0, gp_MaxMetadataResults = 0, gp_MaxResponseBytes = 0\<rparr>"

definition DefaultGuardrailPolicy :: GuardrailPolicy where
  "DefaultGuardrailPolicy =
     \<lparr>gp_MaxQueryRange = 168 * Hour, gp_MinStep = 15 * Second, gp_QueryTimeout = 30 * Second,
      gp_MaxReturnedSeries = 1000, gp_MaxReturnedSamples = 5000, gp_MaxMetadataResults = 1000,
      gp_MaxResponseBytes = 10 * 1024 * 1024\<rparr>"

definition zero_or :: "int \<Rightarrow> int \<Rightarrow> int" where
  "zero_or v d = (if v = 0 then d else v)"

definition GuardrailPolicy_ApplyDefaults :: "GuardrailPolicy \<Rightarrow> GuardrailPolicy" where
  "GuardrailPolicy_ApplyDefaults g =
     (let d = DefaultGuardrailPolicy in
      \<lparr>gp_MaxQueryRange = zero_or (gp_MaxQueryRange g) (gp_MaxQueryRange d),
       gp_MinStep = zero_or (gp_MinStep g) (gp_MinStep d),
       gp_QueryTimeout = zero_or (gp_QueryTimeout g) (gp_QueryTimeout d),
       gp_MaxReturnedSeries = zero_or (gp_MaxReturnedSeries g) (gp_MaxReturnedSeries d),
       gp_MaxReturnedSamples = zero_or (gp_MaxReturnedSamples g) (gp_MaxReturnedSamples d),
       gp_MaxMetadataResults = zero_or (gp_MaxMetadataResults g) (gp_MaxMetadataResults d),
       gp_MaxResponseBytes = zero_or (gp_MaxResponseBytes g) (gp_MaxResponseBytes d)\<rparr>)"

lemma GuardrailPolicy_ApplyDefaults_idem [simp]:
  "GuardrailPolicy_ApplyDefaults (GuardrailPolicy_ApplyDefaults g) = GuardrailPolicy_ApplyDefaults g"
  by (simp add: GuardrailPolicy_ApplyDefaults_def zero_or_def DefaultGuardrailPolicy_def Let_def)

section \<open>Authentication\<close>

datatype RoundTripper =
    DefaultTransport
  | BasicAuth gostring gostring RoundTripper
  | AuthorizationCredentials gostring gostring RoundTripper
  | AddHeaders "(gostring \<times> gostring list) list" RoundTripper

definition buildAuthRoundTripper :: "PrometheusAuthConfig \<Rightarrow> RoundTripper option \<Rightarrow> gostring + RoundTripper" where
  "buildAuthRoundTripper auth base0 =
     (let base = (case base0 of None \<Rightarrow> DefaultTransport | Some rt \<Rightarrow> rt) in
      if promauth_Type auth = [] \<or> promauth_Type auth = ''none'' then Inr base
      else if promauth_Type auth = ''basic'' then Inr (BasicAuth (promauth_Username auth) (promauth_Password auth) base)
      else if promauth_Type auth = ''bearer'' then Inr (AuthorizationCredentials ''Bearer'' (promauth_Token auth) base)
      else if promauth_Type auth = ''header'' then
        Inr (AddHeaders [(promauth_HeaderName auth, [promauth_HeaderValue auth])] base)
      else Inl (''unsupported auth type: '' @ promauth_Type auth))"

section \<open>The client\<close>

record http_Client =
  hc_Timeout :: int
  hc_Transport :: "RoundTripper option"

record 'api clientImpl =
  ci_api :: "'api option"
  ci_guardrails :: GuardrailPolicy
  ci_baseURL :: gostring
  ci_httpClient :: "http_Client option"
  ci_initErr :: "gostring option"

definition zero_clientImpl :: "'api clientImpl" where
  "zero_clientImpl =
     \<lparr>ci_api = None, ci_guardrails = zero_GuardrailPolicy, ci_baseURL = [], ci_httpClient = None,
      ci_initErr = None\<rparr>"

definition policy_of :: "PrometheusGuardrails \<Rightarrow> GuardrailPolicy" where
  "policy_of g =
     \<lparr>gp_MaxQueryRange = promg_MaxQueryRange g, gp_MinStep = promg_MinStep g,
      gp_QueryTimeout = promg_QueryTimeout g, gp_MaxReturnedSeries = promg_MaxReturnedSeries g,
      gp_MaxReturnedSamples = promg_MaxReturnedSamples g, gp_MaxMetadataResults = promg_MaxMetadataResults g,
      gp_MaxResponseBytes = promg_MaxResponseBytes g\<rparr>"

definition newPrometheusClient ::
  "(gostring \<Rightarrow> http_Client \<Rightarrow> gostring + 'api) \<Rightarrow> PrometheusConfig \<Rightarrow> 'api clientImpl" where
  "newPrometheusClient newAPI cfg =
     (let timeout = zero_or (prom_Timeout cfg) (30 * Second);
          httpClient = \<lparr>hc_Timeout = timeout, hc_Transport = None\<rparr>
      in case buildAuthRoundTripper (prom_Auth cfg) (hc_Transport httpClient) of
           Inl err \<Rightarrow> zero_clientImpl\<lparr>ci_initErr := Some (''build prometheus auth transport: '' @ err)\<rparr>
         | Inr rt \<Rightarrow>
             (let httpClient1 = httpClient\<lparr>hc_Transport := Some rt\<rparr>
              in case newAPI (prom_URL cfg) httpClient1 of
                   Inl err \<Rightarrow> zero_clientImpl\<lparr>ci_initErr := Some (''create prometheus api client: '' @ err)\<rparr>
                 | Inr api \<Rightarrow>
                     \<lparr>ci_api = Some api,
                      ci_guardrails = GuardrailPolicy_ApplyDefaults (policy_of (prom_Guardrails cfg)),
                      ci_baseURL = prom_URL cfg, ci_httpClient = Some httpClient1, ci_initErr = None\<rparr>))"

definition Guardrails :: "'api clientImpl \<Rightarrow> GuardrailPolicy" where
  "Guardrails c = ci_guardrails c"

section \<open>The configuration\<close>

definition parsePrometheusAuthConfig :: "PrometheusAuthConfig \<Rightarrow> gmap \<Rightarrow> PrometheusAuthConfig" where
  "parsePrometheusAuthConfig base cfg =
     \<lparr>promauth_Type = ok_or (StringOK cfg ''auth.type'') (promauth_Type base),
      promauth_Username = ok_or (StringOK cfg ''auth.username'') (promauth_Username base),
      promauth_Password = ok_or (StringOK cfg ''auth.password'') (promauth_Password base),
      promauth_Token = ok_or (StringOK cfg ''auth.token'') (promauth_Token base),
      promauth_HeaderName = ok_or (StringOK cfg ''auth.header_name'') (promauth_HeaderName base),
      promauth_HeaderValue = ok_or (StringOK cfg ''auth.header_value'') (promauth_HeaderValue base)\<rparr>"

definition parsePrometheusGuardrails ::
  "(gofloat \<Rightarrow> int) \<Rightarrow> PrometheusGuardrails \<Rightarrow> gmap \<Rightarrow> PrometheusGuardrails" where
  "parsePrometheusGuardrails oor base cfg =
     \<lparr>promg_MaxQueryRange = ok_or (DurationOK oor cfg ''guardrails.max_query_range'') (promg_MaxQueryRange base),
      promg_MinStep = ok_or (DurationOK oor cfg ''guardrails.min_step'') (promg_MinStep base),
      promg_QueryTimeout = ok_or (DurationOK oor cfg ''guardrails.query_timeout'') (promg_QueryTimeout base),
      promg_MaxReturnedSeries = ok_or (IntOK oor cfg ''guardrails.max_returned_series'') (promg_MaxReturnedSeries base),
      promg_MaxReturnedSamples = ok_or (IntOK oor cfg ''guardrails.max_returned_samples'') (promg_MaxReturnedSamples base),
      promg_MaxMetadataResults = ok_or (IntOK oor cfg ''guardrails.max_metadata_results'') (promg_MaxMetadataResults base),
      promg_MaxResponseBytes = ok_or (IntOK oor cfg ''guardrails.max_response_bytes'') (promg_MaxResponseBytes base)\<rparr>"

definition parsePrometheusConfig :: "(gofloat \<Rightarrow> int) \<Rightarrow> PrometheusConfig \<Rightarrow> gmap \<Rightarrow> PrometheusConfig" where
  "parsePrometheusConfig oor base cfg =
     \<lparr>prom_URL = ok_or (StringOK cfg ''url'') (prom_URL base),
      prom_Timeout = ok_or (DurationOK oor cfg ''timeout'') (prom_Timeout base),
      prom_Auth = (if HasPrefix_key cfg ''auth'' then parsePrometheusAuthConfig (prom_Auth base) cfg
                   else prom_Auth base),
      prom_Guardrails = (if HasPrefix_key cfg ''guardrails'' then parsePrometheusGuardrails oor (prom_Guardrails base) cfg
                         else prom_Guardrails base)\<rparr>"

lemma parsePrometheusConfig_idem:
  "parsePrometheusConfig oor (parsePrometheusConfig oor base cfg) cfg = parsePrometheusConfig oor base cfg"
  by (simp add: parsePrometheusConfig_def parsePrometheusAuthConfig_def parsePrometheusGuardrails_def)

section \<open>The provider\<close>

type_synonym ('api, 't) PrometheusProvider = "(PrometheusConfig, 'api clientImpl option, 't) Provider"

definition prometheus_options ::
  "(gofloat \<Rightarrow> int) \<Rightarrow> (gostring \<Rightarrow> http_Client \<Rightarrow> gostring + 'api) \<Rightarrow>
     (PrometheusConfig, 'api clientImpl option, gmap, gostring) Options" where
  "prometheus_options oor newAPI =
     \<lparr>opt_Parse = (\<lambda>base cfg. Inr (parsePrometheusConfig oor base cfg)), opt_Equal = None,
      opt_Recreate = None, opt_Build = Some (\<lambda>cfg. Inr (Some (newPrometheusClient newAPI cfg))),
      opt_Close = False\<rparr>"

definition Prometheus_UpdateConfig ::
  "(gofloat \<Rightarrow> int) \<Rightarrow> (gostring \<Rightarrow> http_Client \<Rightarrow> gostring + 'api) \<Rightarrow> ('api, 't) PrometheusProvider \<Rightarrow>
     gostring \<Rightarrow> gmap \<Rightarrow> ('api, 't) PrometheusProvider" where
  "Prometheus_UpdateConfig oor newAPI p capabilityName cfg =
     p\<lparr>pv_state := fst (Apply None (prometheus_options oor newAPI) cfg (pv_state p))\<rparr>"

definition Prometheus_IsConfigured :: "('api, 't) PrometheusProvider \<Rightarrow> bool" where
  "Prometheus_IsConfigured p \<longleftrightarrow> prom_URL (State_Config (pv_state p)) \<noteq> []"

section \<open>The tasks\<close>

definition Prometheus_tasks :: "gostring list" where
  "Prometheus_tasks =
     [''prometheus.query.instant'', ''prometheus.query.range'', ''prometheus.series.list'',
      ''prometheus.labels.list'', ''prometheus.label.values'', ''prometheus.metadata.get'',
      ''prometheus.metric.names'', ''prometheus.alerts.list'', ''prometheus.rules.list'',
      ''prometheus.targets.list'', ''prometheus.target.get'', ''prometheus.target.metadata'',
      ''prometheus.scrape_pools.list'', ''prometheus.exemplars.query'',
      ''prometheus.status.runtime'', ''prometheus.status.tsdb'', ''prometheus.status.flags'',
      ''prometheus.status.config'', ''prometheus.status.ready'', ''prometheus.status.healthy'']"

definition Prometheus_descriptions :: "(gostring \<times> gostring) list" where
  "Prometheus_descriptions =
     [(''prometheus.query.instant'', ''Executes an instant PromQL query at a point in time''),
      (''prometheus.query.range'', ''Executes a PromQL range query over a time interval''),
      (''prometheus.series.list'', ''Finds time series matching label selectors''),
      (''prometheus.labels.list'', ''Lists known label names''),
      (''prometheus.label.values'', ''Lists values for a specific label name''),
      (''prometheus.metadata.get'', ''Returns metric metadata (type, help, unit)''),
      (''prometheus.metric.names'', ''Lists available metric names''),
      (''prometheus.alerts.list'', ''Lists active and pending alerts''),
      (''prometheus.rules.list'', ''Lists alerting and recording rules''),
      (''prometheus.targets.list'', ''Lists scrape targets and their health''),
      (''prometheus.target.get'', ''Returns detailed information for a single target''),
      (''prometheus.target.metadata'', ''Returns metadata about metrics scraped from targets''),
      (''prometheus.scrape_pools.list'', ''Lists scrape pools with target counts''),
      (''prometheus.exemplars.query'', ''Queries exemplars for a PromQL expression''),
      (''prometheus.status.runtime'', ''Returns Prometheus runtime and build information''),
      (''prometheus.status.tsdb'', ''Returns Prometheus TSDB statistics and cardinality''),
      (''prometheus.status.flags'', ''Returns Prometheus command-line flags''),
      (''prometheus.status.config'', ''Returns the loaded Prometheus configuration (redacted)''),
      (''prometheus.status.ready'', ''Checks whether Prometheus is ready to serve queries''),
      (''prometheus.status.healthy'', ''Checks Prometheus basic health'')]"

definition Prometheus_capabilityDescription :: "gostring \<Rightarrow> gostring" where
  "Prometheus_capabilityDescription name =
     (case map_of Prometheus_descriptions name of Some desc \<Rightarrow> desc | None \<Rightarrow> ''Prometheus capability'')"

lemma Prometheus_tasks_prefixed:
  "Prometheus_tasks = prefixed ''prometheus''
     [''query.instant'', ''query.range'', ''series.list'', ''labels.list'', ''label.values'',
      ''metadata.get'', ''metric.names'', ''alerts.list'', ''rules.list'', ''targets.list'',
      ''target.get'', ''target.metadata'', ''scrape_pools.list'', ''exemplars.query'',
      ''status.runtime'', ''status.tsdb'', ''status.flags'', ''status.config'', ''status.ready'',
      ''status.healthy'']"
  by (simp add: Prometheus_tasks_def prefixed_def)

lemma Prometheus_tasks_distinct: "distinct Prometheus_tasks"
  unfolding Prometheus_tasks_prefixed by (rule distinct_prefixed) simp

lemma Prometheus_tasks_valid: "list_all namePattern Prometheus_tasks"
  unfolding Prometheus_tasks_prefixed by (rule prefixed_valid) code_simp+

lemma Prometheus_described: "map fst Prometheus_descriptions = Prometheus_tasks"
  by (simp add: Prometheus_descriptions_def Prometheus_tasks_def)

definition Prometheus_NewProvider ::
  "(gostring \<Rightarrow> http_Client \<Rightarrow> gostring + 'api) \<Rightarrow> (gostring \<Rightarrow> gostring) \<Rightarrow> (gostring \<Rightarrow> 't) \<Rightarrow>
     PrometheusConfig \<Rightarrow> ('api, 't) PrometheusProvider" where
  "Prometheus_NewProvider newAPI schema mk cfg =
     \<lparr>pv_state = NewState cfg (Some (newPrometheusClient newAPI cfg)),
      pv_base = task_base ''prometheus'' schema Prometheus_capabilityDescription (\<lambda>_. []) (\<lambda>_. []) mk
                  Prometheus_tasks\<rparr>"

definition Prometheus_ops ::
  "(gofloat \<Rightarrow> int) \<Rightarrow> (gostring \<Rightarrow> http_Client \<Rightarrow> gostring + 'api) \<Rightarrow>
     (('api, 't) PrometheusProvider, 't) provider_ops" where
  "Prometheus_ops oor newAPI = managed_ops (Prometheus_UpdateConfig oor newAPI) Prometheus_IsConfigured"

interpretation prometheus: managed_provider "Prometheus_UpdateConfig oor newAPI" Prometheus_IsConfigured
  for oor newAPI
  by unfold_locales (simp add: Prometheus_UpdateConfig_def)

lemma Prometheus_NewProvider_wf: "managed_wf (Prometheus_NewProvider newAPI schema mk cfg)"
  by (simp add: managed_wf_def Prometheus_NewProvider_def base_wf_task_base Prometheus_tasks_distinct)

section \<open>The client follows the configuration\<close>

definition client_current ::
  "(gostring \<Rightarrow> http_Client \<Rightarrow> gostring + 'api) \<Rightarrow> ('api, 't) PrometheusProvider \<Rightarrow> bool" where
  "client_current newAPI p \<longleftrightarrow>
     CurrentClient p = Some (newPrometheusClient newAPI (State_Config (pv_state p)))"

lemma client_current_NewProvider: "client_current newAPI (Prometheus_NewProvider newAPI schema mk cfg)"
  by (simp add: client_current_def CurrentClient_def Prometheus_NewProvider_def NewState_def State_Config_def
      State_Client_def)

lemma Prometheus_UpdateConfig_state:
  "State_Config (pv_state (Prometheus_UpdateConfig oor newAPI p n cfg)) =
     parsePrometheusConfig oor (State_Config (pv_state p)) cfg"
  "client_current newAPI p \<Longrightarrow> client_current newAPI (Prometheus_UpdateConfig oor newAPI p n cfg)"
  by (simp_all add: Prometheus_UpdateConfig_def prometheus_options_def client_current_def CurrentClient_def
      Apply_simple_config Apply_simple_client State_Config_def State_Client_def)

text \<open>
  Delivering a configuration twice is delivering it once: the second update leaves the
  configuration and the client (its connections included) untouched.
\<close>

theorem Prometheus_UpdateConfig_idem:
  "Prometheus_UpdateConfig oor newAPI (Prometheus_UpdateConfig oor newAPI p n cfg) n' cfg =
     Prometheus_UpdateConfig oor newAPI p n cfg"
proof -
  have "fst (Apply None (prometheus_options oor newAPI) cfg (fst (Apply None (prometheus_options oor newAPI) cfg s))) =
      fst (Apply None (prometheus_options oor newAPI) cfg s)" for s
    by (rule Apply_idem [where parse = "\<lambda>b. parsePrometheusConfig oor b cfg"])
      (simp_all add: prometheus_options_def equal_fn_def parsePrometheusConfig_idem)
  then show ?thesis by (simp add: Prometheus_UpdateConfig_def)
qed
end
