(* ===== verification/Common_Params.thy ===== *)
theory Common_Params
  imports Provider Autoconf_Extract
begin

text \<open>
  \<open>internal/provider/common/helpers.go\<close>: reading the parameters of a task, and a small
  vocabulary for the bodies of tasks. A task stops at its first error with a \<open>TaskFailure\<close>; it can
  also panic, which \<open>Panic\<close> records.
\<close>

section \<open>Parameters\<close>

definition missing_parameter :: "gostring \<Rightarrow> gostring" where
  "missing_parameter key = ''missing required parameter: '' @ key"

definition parameter_must :: "gostring \<Rightarrow> gostring \<Rightarrow> gostring" where
  "parameter_must key what = ''parameter '' @ key @ '' must be '' @ what"

definition RequireString :: "gmap \<Rightarrow> gostring \<Rightarrow> gostring + gostring" where
  "RequireString params key =
     (case map_of params key of
        None \<Rightarrow> Inl (missing_parameter key)
      | Some (VString s) \<Rightarrow> (if TrimSpace s = [] then Inl (missing_parameter key) else Inr (TrimSpace s))
      | Some _ \<Rightarrow> Inl (missing_parameter key))"

definition OptionalString :: "gmap \<Rightarrow> gostring \<Rightarrow> gostring \<Rightarrow> gostring + gostring" where
  "OptionalString params key defaultValue =
     (case map_of params key of
        None \<Rightarrow> Inr defaultValue
      | Some VNil \<Rightarrow> Inr defaultValue
      | Some (VString s) \<Rightarrow> (if TrimSpace s = [] then Inr defaultValue else Inr (TrimSpace s))
      | Some _ \<Rightarrow> Inl (parameter_must key ''a string''))"

definition OptionalBool :: "gmap \<Rightarrow> gostring \<Rightarrow> bool \<Rightarrow> gostring + bool" where
  "OptionalBool params key defaultValue =
     (case map_of params key of
        None \<Rightarrow> Inr defaultValue
      | Some VNil \<Rightarrow> Inr defaultValue
      | Some (VBool b) \<Rightarrow> Inr b
      | Some _ \<Rightarrow> Inl (parameter_must key ''a boolean''))"

text \<open>\<open>oor\<close> is what the conversion of a float without an integer value gives.\<close>

definition OptionalInt :: "(gofloat \<Rightarrow> int) \<Rightarrow> gmap \<Rightarrow> gostring \<Rightarrow> int \<Rightarrow> gostring + int" where
  "OptionalInt oor params key defaultValue =
     (case map_of params key of
        None \<Rightarrow> Inr defaultValue
      | Some VNil \<Rightarrow> Inr defaultValue
      | Some (VInt n) \<Rightarrow> Inr n
      | Some (VInt32 n) \<Rightarrow> Inr n
      | Some (VInt64 n) \<Rightarrow> Inr n
      | Some (VFloat64 f) \<Rightarrow>
          (if \<not> float_eq f (float64_of_int (int64_of_float oor f)) then Inl (parameter_must key ''an integer'')
           else Inr (int64_of_float oor f))
      | Some _ \<Rightarrow> Inl (parameter_must key ''an integer''))"

definition NormalizeLimit :: "(gofloat \<Rightarrow> int) \<Rightarrow> gmap \<Rightarrow> gostring + int" where
  "NormalizeLimit oor params =
     (case OptionalInt oor params ''limit'' 100 of
        Inl err \<Rightarrow> Inl err
      | Inr limit \<Rightarrow>
          (if limit \<le> 0 then Inl (parameter_must ''limit'' ''greater than 0'')
           else Inr (if limit > 1000 then 1000 else limit)))"

section \<open>Results\<close>

definition TaskFailure :: "int \<Rightarrow> gostring \<Rightarrow> task_Result" where
  "TaskFailure now err =
     \<lparr>res_Success = False, res_Error = err, res_Data = VNil, res_Timestamp = now\<rparr>"

definition SuccessResult :: "int \<Rightarrow> gvalue \<Rightarrow> task_Result" where
  "SuccessResult now d = \<lparr>res_Success = True, res_Error = [], res_Data = d, res_Timestamp = now\<rparr>"

section \<open>Bodies of tasks\<close>

datatype 'a outcome = Panic | Stop gostring | Go 'a

fun and_then :: "'a outcome \<Rightarrow> ('a \<Rightarrow> 'b outcome) \<Rightarrow> 'b outcome" where
  "and_then Panic f = Panic"
| "and_then (Stop err) f = Stop err"
| "and_then (Go x) f = f x"

definition attempt :: "gostring + 'a \<Rightarrow> 'a outcome" where
  "attempt r = (case r of Inl err \<Rightarrow> Stop err | Inr x \<Rightarrow> Go x)"

definition stop_if :: "bool \<Rightarrow> gostring \<Rightarrow> unit outcome" where
  "stop_if b err = (if b then Stop err else Go ())"

text \<open>The value of a task: \<open>None\<close> when it panics.\<close>

fun run_task :: "int \<Rightarrow> gvalue outcome \<Rightarrow> task_Result option" where
  "run_task now Panic = None"
| "run_task now (Stop err) = Some (TaskFailure now err)"
| "run_task now (Go d) = Some (SuccessResult now d)"

text \<open>\<open>xs[:n]\<close>, which panics for a negative \<open>n\<close>; the callers have checked the length.\<close>

definition slice_to :: "int \<Rightarrow> 'a list \<Rightarrow> 'a list outcome" where
  "slice_to n xs = (if n < 0 then Panic else Go (take (nat n) xs))"

definition truncate_to :: "int \<Rightarrow> 'a list \<Rightarrow> ('a list \<times> bool) outcome" where
  "truncate_to limit xs =
     (if int (length xs) > limit then and_then (slice_to limit xs) (\<lambda>ys. Go (ys, True)) else Go (xs, False))"

text \<open>The block that reads \<open>limit\<close> and cuts it to a maximum.\<close>

definition bounded_limit :: "(gofloat \<Rightarrow> int) \<Rightarrow> gmap \<Rightarrow> int \<Rightarrow> int outcome" where
  "bounded_limit oor params mx =
     and_then (attempt (OptionalInt oor params ''limit'' mx)) (\<lambda>limit.
     and_then (stop_if (limit \<le> 0) (parameter_must ''limit'' ''greater than 0'')) (\<lambda>_.
     Go (if limit > mx then mx else limit)))"

section \<open>Facts\<close>

lemma and_then_assoc: "and_then (and_then m f) g = and_then m (\<lambda>x. and_then (f x) g)"
  by (cases m) simp_all

lemma and_then_Go: "and_then m f = Go y \<longleftrightarrow> (\<exists>x. m = Go x \<and> f x = Go y)"
  by (cases m) simp_all

lemma and_then_Panic: "and_then m f = Panic \<longleftrightarrow> m = Panic \<or> (\<exists>x. m = Go x \<and> f x = Panic)"
  by (cases m) simp_all

lemma attempt_simps [simp]:
  "attempt (Inl err) = Stop err" "attempt (Inr x) = Go x" "attempt r \<noteq> Panic"
  "attempt r = Go y \<longleftrightarrow> r = Inr y"
  by (auto simp: attempt_def split: sum.splits)

lemma stop_if_simps [simp]:
  "stop_if b err \<noteq> Panic" "stop_if b err = Go u \<longleftrightarrow> \<not> b"
  by (auto simp: stop_if_def)

lemma run_task_None [simp]: "run_task now m = None \<longleftrightarrow> m = Panic"
  by (cases m) simp_all

text \<open>Continuing the same way is enough where the body is reached.\<close>

lemma and_then_cong [fundef_cong]:
  "m = m' \<Longrightarrow> (\<And>x. m' = Go x \<Longrightarrow> f x = g x) \<Longrightarrow> and_then m f = and_then m' g"
  by (cases m') simp_all

lemma bounded_limit_Go:
  assumes "bounded_limit oor params mx = Go limit"
  shows "limit \<le> mx" "0 \<le> mx \<Longrightarrow> 0 \<le> limit"
  using assms by (auto simp: bounded_limit_def and_then_Go split: if_splits)

lemma bounded_limit_not_Panic [simp]: "bounded_limit oor params mx \<noteq> Panic"
  by (simp add: bounded_limit_def and_then_Panic)

lemma truncate_to_Panic [simp]: "truncate_to limit xs = Panic \<longleftrightarrow> limit < 0"
  by (auto simp: truncate_to_def slice_to_def)

lemma truncate_to_Go:
  "truncate_to limit xs = Go (ys, t) \<longleftrightarrow>
     0 \<le> limit \<and> ys = take (nat limit) xs \<and> (t \<longleftrightarrow> int (length xs) > limit)"
  by (auto simp: truncate_to_def slice_to_def split: if_splits)

text \<open>
  A limit read with \<open>NormalizeLimit\<close> is between 1 and 1000, and it is the
  requested one (100 when there is none) wherever that is in the range; the error cases are a
  value that is not an integer and a limit that is not positive.
\<close>

lemma NormalizeLimit_spec:
  "(\<exists>n. NormalizeLimit oor params = Inr n \<and> 1 \<le> n \<and> n \<le> 1000 \<and>
        (\<exists>r. OptionalInt oor params ''limit'' 100 = Inr r \<and> n = min r 1000)) \<or>
   (\<exists>err. OptionalInt oor params ''limit'' 100 = Inl err \<and> NormalizeLimit oor params = Inl err) \<or>
   (\<exists>r. OptionalInt oor params ''limit'' 100 = Inr r \<and> r \<le> 0 \<and>
        NormalizeLimit oor params = Inl ''parameter limit must be greater than 0'')"
proof (cases "OptionalInt oor params ''limit'' 100")
  case (Inr r)
  then show ?thesis by (cases "r \<le> 0") (simp_all add: NormalizeLimit_def parameter_must_def)
qed (simp add: NormalizeLimit_def)

end
