(* ===== verification/Go_Format.thy ===== *)
theory Go_Format
  imports Go_Values
begin

text \<open>
  Numbers and quoted strings as text: \<open>strconv.Itoa\<close>, \<open>strconv.Atoi\<close>, \<open>strconv.ParseUint\<close>,
  the verb \<open>%q\<close>, \<open>strings.ToUpper\<close>, \<open>strings.ReplaceAll\<close> and \<open>strings.Cut\<close> with one byte to
  look for. The lemmas say that reading inverts writing and that a quoted string ends where it
  should.
\<close>

section \<open>Decimal numbers\<close>

definition digit_char :: "nat \<Rightarrow> char" where
  "digit_char d = char_of (48 + d)"

fun Itoa_nat :: "nat \<Rightarrow> gostring" where
  "Itoa_nat n = (if n < 10 then [digit_char n] else Itoa_nat (n div 10) @ [digit_char (n mod 10)])"

declare Itoa_nat.simps [simp del]

definition Itoa :: "int \<Rightarrow> gostring" where
  "Itoa i = (if i < 0 then CHR ''-'' # Itoa_nat (nat (- i)) else Itoa_nat (nat i))"

definition digits_value :: "int \<Rightarrow> gostring \<Rightarrow> int" where
  "digits_value x s = foldl (\<lambda>y c. y * 10 + digit_value c) x s"

text \<open>\<open>strconv.ParseUint(s, 10, bits)\<close>: \<open>None\<close> is an error, of syntax or of range.\<close>

definition ParseUint :: "nat \<Rightarrow> gostring \<Rightarrow> int option" where
  "ParseUint bits s =
     (if s = [] \<or> \<not> list_all is_digit s then None
      else if digits_value 0 s \<ge> 2 ^ bits then None else Some (digits_value 0 s))"

text \<open>\<open>strconv.ParseInt(s, 10, 64)\<close> and \<open>strconv.Atoi\<close>: a sign is allowed.\<close>

definition ParseInt :: "gostring \<Rightarrow> int option" where
  "ParseInt s =
     (case s of
        [] \<Rightarrow> None
      | c # cs \<Rightarrow>
          (let ds = (if c = CHR ''+'' \<or> c = CHR ''-'' then cs else s);
               v = (if c = CHR ''-'' then - digits_value 0 ds else digits_value 0 ds)
           in if ds = [] \<or> \<not> list_all is_digit ds then None
              else if is_int64 v then Some v else None))"

definition Atoi :: "gostring \<Rightarrow> int option" where
  "Atoi s = ParseInt s"

section \<open>Strings\<close>

text \<open>
  \<open>strings.ToUpper\<close>, as far as comparing the result with ASCII text can tell: the runes outside
  ASCII whose upper case is ASCII are U+0131 (to I) and U+017F (to S).
\<close>

fun ToUpper :: "gostring \<Rightarrow> gostring" where
  "ToUpper [] = []"
| "ToUpper (c # cs) =
     (if c = CHR 0xC4 \<and> prefix [CHR 0xB1] cs then CHR ''I'' # ToUpper (drop 1 cs)
      else if c = CHR 0xC5 \<and> prefix [CHR 0xBF] cs then CHR ''S'' # ToUpper (drop 1 cs)
      else if CHR ''a'' \<le> c \<and> c \<le> CHR ''z'' then char_of (of_char c - 32 :: nat) # ToUpper cs
      else c # ToUpper cs)"

text \<open>
  \<open>strings.EqualFold(s, t)\<close> for an ASCII literal \<open>t\<close>: the foldings of an ASCII letter are its two
  cases and, for s and k, the runes U+017F and U+212A.
\<close>

fun fold_ascii :: "gostring \<Rightarrow> gostring" where
  "fold_ascii [] = []"
| "fold_ascii (c # cs) =
     (if c = CHR 0xC5 \<and> prefix [CHR 0xBF] cs then CHR ''s'' # fold_ascii (drop 1 cs)
      else if c = CHR 0xE2 \<and> prefix [CHR 0x84, CHR 0xAA] cs then CHR ''k'' # fold_ascii (drop 2 cs)
      else if CHR ''A'' \<le> c \<and> c \<le> CHR ''Z'' then char_of (of_char c + 32 :: nat) # fold_ascii cs
      else c # fold_ascii cs)"

definition EqualFold :: "gostring \<Rightarrow> gostring \<Rightarrow> bool" where
  "EqualFold s t \<longleftrightarrow> fold_ascii s = fold_ascii t"

text \<open>\<open>strings.ReplaceAll\<close> of one byte, \<open>strings.IndexByte\<close> as an option, \<open>strings.Cut\<close> at a byte.\<close>

definition ReplaceAll :: "char \<Rightarrow> gostring \<Rightarrow> gostring \<Rightarrow> gostring" where
  "ReplaceAll old new s = concat (map (\<lambda>c. if c = old then new else [c]) s)"

fun IndexByte :: "gostring \<Rightarrow> char \<Rightarrow> nat option" where
  "IndexByte [] b = None"
| "IndexByte (c # cs) b = (if c = b then Some 0 else map_option Suc (IndexByte cs b))"

definition Cut :: "gostring \<Rightarrow> char \<Rightarrow> gostring \<times> gostring \<times> bool" where
  "Cut s sep =
     (if sep \<in> set s then (takeWhile (\<lambda>c. c \<noteq> sep) s, tl (dropWhile (\<lambda>c. c \<noteq> sep) s), True)
      else (s, [], False))"

section \<open>Quoting\<close>

definition hex_digit :: "nat \<Rightarrow> char" where
  "hex_digit d = (if d < 10 then char_of (48 + d) else char_of (87 + d))"

text \<open>
  The verb \<open>%q\<close>. How runes outside ASCII are written depends on the Unicode tables: \<open>esc\<close> gives it
  for a maximal run of bytes that are not ASCII.
\<close>

definition quote_ascii :: "char \<Rightarrow> gostring" where
  "quote_ascii c =
     (if c = CHR 0x22 then [CHR 0x5C, CHR 0x22]
      else if c = CHR 0x5C then [CHR 0x5C, CHR 0x5C]
      else if c = CHR 0x07 then [CHR 0x5C, CHR ''a'']
      else if c = CHR 0x08 then [CHR 0x5C, CHR ''b'']
      else if c = CHR 0x0C then [CHR 0x5C, CHR ''f'']
      else if c = CHR 0x0A then [CHR 0x5C, CHR ''n'']
      else if c = CHR 0x0D then [CHR 0x5C, CHR ''r'']
      else if c = CHR 0x09 then [CHR 0x5C, CHR ''t'']
      else if c = CHR 0x0B then [CHR 0x5C, CHR ''v'']
      else if c < CHR 0x20 \<or> c = CHR 0x7F then
        [CHR 0x5C, CHR ''x'', hex_digit (of_char c div 16), hex_digit (of_char c mod 16)]
      else [c])"

function Quote_body :: "(gostring \<Rightarrow> gostring) \<Rightarrow> gostring \<Rightarrow> gostring" where
  "Quote_body esc s =
     (case s of
        [] \<Rightarrow> []
      | c # cs \<Rightarrow>
          (if c < CHR 0x80 then quote_ascii c @ Quote_body esc cs
           else esc (takeWhile (\<lambda>b. \<not> b < CHR 0x80) s) @ Quote_body esc (dropWhile (\<lambda>b. \<not> b < CHR 0x80) s)))"
  by pat_completeness auto
termination
  by (relation "measure (\<lambda>(esc, s). length s)") (auto simp: le_imp_less_Suc length_dropWhile_le)

declare Quote_body.simps [simp del]

definition Quote :: "(gostring \<Rightarrow> gostring) \<Rightarrow> gostring \<Rightarrow> gostring" where
  "Quote esc s = [CHR 0x22] @ Quote_body esc s @ [CHR 0x22]"

section \<open>Reading inverts writing\<close>

lemma of_char_digit_char: "d < 10 \<Longrightarrow> (of_char (digit_char d) :: nat) = 48 + d"
  by (simp add: digit_char_def)

lemma is_digit_nat: "is_digit c \<longleftrightarrow> 48 \<le> (of_char c :: nat) \<and> (of_char c :: nat) \<le> 57"
  by (simp add: is_digit_def less_eq_char_def)

lemma is_digit_digit_char: "d < 10 \<Longrightarrow> is_digit (digit_char d)"
  by (simp add: is_digit_nat of_char_digit_char)

lemma digit_value_digit_char: "d < 10 \<Longrightarrow> digit_value (digit_char d) = int d"
proof -
  assume "d < 10"
  then have "int (of_char (digit_char d)) = int (48 + d)" by (simp only: of_char_digit_char)
  then show ?thesis by (simp add: digit_value_def of_nat_of_char)
qed

lemma digit_value_nonneg: "is_digit c \<Longrightarrow> 0 \<le> digit_value c"
proof -
  assume "is_digit c"
  then have "int 48 \<le> int (of_char c)" by (simp only: is_digit_nat of_nat_le_iff)
  then show ?thesis by (simp add: digit_value_def of_nat_of_char)
qed

lemma digits_value_append: "digits_value x (s @ t) = digits_value (digits_value x s) t"
  by (simp add: digits_value_def)

lemma digits_value_simps [simp]:
  "digits_value x [] = x" "digits_value x (c # s) = digits_value (x * 10 + digit_value c) s"
  by (simp_all add: digits_value_def)

lemma digits_value_ge: "0 \<le> x \<Longrightarrow> list_all is_digit s \<Longrightarrow> x \<le> digits_value x s"
proof (induction s arbitrary: x)
  case (Cons c s)
  then have "0 \<le> digit_value c" by (simp add: digit_value_nonneg)
  with Cons.prems have "x \<le> x * 10 + digit_value c" "0 \<le> x * 10 + digit_value c" by linarith+
  with Cons.IH [of "x * 10 + digit_value c"] Cons.prems show ?case by simp
qed simp

lemma Itoa_nat_digits: "list_all is_digit (Itoa_nat n)"
  by (induction n rule: Itoa_nat.induct) (subst Itoa_nat.simps, simp add: is_digit_digit_char)

lemma Itoa_nat_nonempty [simp]: "Itoa_nat n \<noteq> []"
  by (subst Itoa_nat.simps) simp

lemma digits_value_Itoa_nat: "digits_value 0 (Itoa_nat n) = int n"
proof (induction n rule: Itoa_nat.induct)
  case (1 n)
  show ?case
  proof (cases "n < 10")
    case True
    then show ?thesis by (subst Itoa_nat.simps) (simp add: digit_value_digit_char)
  next
    case False
    then have "digits_value 0 (Itoa_nat n) = int (n div 10) * 10 + digit_value (digit_char (n mod 10))"
      by (subst Itoa_nat.simps) (simp add: digits_value_append 1 [OF False])
    also have "\<dots> = int (n div 10 * 10 + n mod 10)"
      by (simp only: digit_value_digit_char mod_less_divisor of_nat_add of_nat_mult)
    finally show ?thesis by (simp only: div_mult_mod_eq)
  qed
qed

lemma Itoa_nat_hd: "is_digit (hd (Itoa_nat n))"
  using Itoa_nat_digits [of n] by (cases "Itoa_nat n") auto

lemma Atoi_Itoa:
  assumes "is_int64 i"
  shows "Atoi (Itoa i) = Some i"
proof (cases "i < 0")
  case True
  then show ?thesis
    using assms by (simp add: Atoi_def ParseInt_def Itoa_def Itoa_nat_digits digits_value_Itoa_nat Let_def)
next
  case False
  have "hd (Itoa_nat (nat i)) \<noteq> CHR ''+''" "hd (Itoa_nat (nat i)) \<noteq> CHR ''-''"
    using Itoa_nat_hd [of "nat i"] by (auto simp: is_digit_def less_eq_char_def)
  with False assms digits_value_Itoa_nat [of "nat i"] Itoa_nat_digits [of "nat i"] show ?thesis
    by (cases "Itoa_nat (nat i)") (auto simp: Atoi_def ParseInt_def Itoa_def Let_def)
qed

lemma ParseUint_Itoa: "0 \<le> i \<Longrightarrow> i < 2 ^ bits \<Longrightarrow> ParseUint bits (Itoa i) = Some i"
  by (simp add: ParseUint_def Itoa_def Itoa_nat_digits digits_value_Itoa_nat)

text \<open>The digits at the head of a string are read to its value by \<open>time.ParseDuration\<close> too.\<close>

lemma leadingInt_digits:
  "0 \<le> x \<Longrightarrow> list_all is_digit s \<Longrightarrow> digits_value x s \<le> 9223372036854775808 \<Longrightarrow>
     leadingInt x s = Some (digits_value x s)"
proof (induction s arbitrary: x)
  case (Cons c s)
  let ?y = "x * 10 + digit_value c"
  have "0 \<le> digit_value c" using Cons.prems by (simp add: digit_value_nonneg)
  then have "0 \<le> ?y" using Cons.prems by linarith
  moreover have "?y \<le> 9223372036854775808"
    using digits_value_ge [OF \<open>0 \<le> ?y\<close>, of s] Cons.prems by simp
  moreover from this \<open>0 \<le> digit_value c\<close> have "x \<le> 922337203685477580" by linarith
  ultimately show ?case using Cons by (simp add: Let_def)
qed simp

section \<open>A quoted string ends where it should\<close>

text \<open>The reader of a string literal with backslash escapes: what is left after its closing quote.\<close>

fun skip_quoted :: "gostring \<Rightarrow> gostring option" where
  "skip_quoted [] = None"
| "skip_quoted (c # cs) =
     (if c = CHR 0x22 then Some cs
      else if c = CHR 0x5C then (case cs of [] \<Rightarrow> None | _ # ds \<Rightarrow> skip_quoted ds)
      else skip_quoted cs)"

definition plain_escapes :: "(gostring \<Rightarrow> gostring) \<Rightarrow> bool" where
  "plain_escapes esc \<longleftrightarrow>
     (\<forall>s t. skip_quoted (esc s @ t) = skip_quoted t \<and> CHR 0x0A \<notin> set (esc s))"

lemma hex_digit_plain: "d < 16 \<Longrightarrow> hex_digit d \<noteq> CHR 0x22 \<and> hex_digit d \<noteq> CHR 0x5C \<and> hex_digit d \<noteq> CHR 0x0A"
proof -
  assume "d < 16"
  then have "hex_digit d \<in> set (map hex_digit [0..<16])" by simp
  also have "map hex_digit [0..<16] = ''0123456789abcdef''" by code_simp
  finally show ?thesis by auto
qed

lemma quote_ascii_plain:
  assumes "c < CHR 0x80"
  shows "skip_quoted (quote_ascii c @ t) = skip_quoted t" "CHR 0x0A \<notin> set (quote_ascii c)"
proof -
  have "(of_char c :: nat) div 16 < 16" "(of_char c :: nat) mod 16 < 16"
    using assms by (auto simp: less_char_def)
  then show "skip_quoted (quote_ascii c @ t) = skip_quoted t" "CHR 0x0A \<notin> set (quote_ascii c)"
    using hex_digit_plain [of "of_char c div 16"] hex_digit_plain [of "of_char c mod 16"]
    by (auto simp: quote_ascii_def)
qed

lemma Quote_body_plain:
  assumes "plain_escapes esc"
  shows "skip_quoted (Quote_body esc s @ t) = skip_quoted t \<and> CHR 0x0A \<notin> set (Quote_body esc s)"
using assms
proof (induction esc s arbitrary: t rule: Quote_body.induct)
  case (1 esc s)
  have esc: "skip_quoted (esc u @ v) = skip_quoted v" "CHR 0x0A \<notin> set (esc u)" for u v
    using 1(3) by (simp_all add: plain_escapes_def)
  show ?case
  proof (cases s)
    case Nil
    then show ?thesis by (simp add: Quote_body.simps)
  next
    case (Cons c cs)
    show ?thesis
    proof (cases "c < CHR 0x80")
      case True
      then show ?thesis
        using 1(1) [OF Cons True 1(3)] quote_ascii_plain [OF True]
        by (simp add: Cons Quote_body.simps [of esc "c # cs"])
    next
      case False
      then show ?thesis
        using 1(2) [OF Cons False 1(3)] by (simp add: Cons Quote_body.simps [of esc "c # cs"] esc)
    qed
  qed
qed

lemma Quote_plain:
  assumes "plain_escapes esc"
  shows "hd (Quote esc s) = CHR 0x22" "skip_quoted (tl (Quote esc s) @ t) = Some t"
    "CHR 0x0A \<notin> set (Quote esc s)"
  using Quote_body_plain [OF assms, of s] by (simp_all add: Quote_def)

end
