(* ===== verification/Go_Time.thy ===== *)
theory Go_Time
  imports Go_Values Go_Format
begin

text \<open>
  Package \<open>time\<close>: differences of times and the units of a duration as floats; a duration as text; a time in
  UTC as text, in the layout of RFC 3339. A time is a number of nanoseconds, a duration too.
\<close>

section \<open>Differences\<close>

text \<open>\<open>end.Sub(start)\<close>, which saturates.\<close>

definition time_Sub :: "int \<Rightarrow> int \<Rightarrow> int" where
  "time_Sub t u = (if t - u > max_int64 then max_int64 else if t - u < min_int64 then min_int64 else t - u)"

definition duration_Seconds :: "int \<Rightarrow> gofloat" where
  "duration_Seconds d =
     float_add (float64_of_int (quot d Second)) (float_div_int (float64_of_int (rem d Second)) 1000000000)"

definition duration_Minutes :: "int \<Rightarrow> gofloat" where
  "duration_Minutes d =
     float_add (float64_of_int (quot d Minute)) (float_div_int (float64_of_int (rem d Minute)) 60000000000)"

definition duration_Hours :: "int \<Rightarrow> gofloat" where
  "duration_Hours d =
     float_add (float64_of_int (quot d Hour)) (float_div_int (float64_of_int (rem d Hour)) 3600000000000)"

text \<open>\<open>int(f)\<close> of such a float, which is always in range.\<close>

definition whole :: "gofloat \<Rightarrow> int" where
  "whole f = int64_of_float (\<lambda>_. 0) f"

text \<open>A context is its deadline.\<close>

type_synonym ctx = "int option"

definition context_WithTimeout :: "int \<Rightarrow> ctx \<Rightarrow> int \<Rightarrow> ctx" where
  "context_WithTimeout now ctx d = Some (case ctx of None \<Rightarrow> now + d | Some deadline \<Rightarrow> min deadline (now + d))"

section \<open>A duration as text\<close>

text \<open>
  \<open>time.Duration.String\<close>: hours, minutes and seconds with a fraction, or one smaller unit for less than
  a second.
\<close>

text \<open>
  The digits of a fraction of \<open>n\<close> places, without the zeros at the end and with the point in front.
\<close>

fun frac_digits :: "nat \<Rightarrow> int \<Rightarrow> gostring" where
  "frac_digits 0 v = []"
| "frac_digits (Suc n) v = frac_digits n (v div 10) @ [digit_char (nat (v mod 10))]"

definition fmtFrac :: "nat \<Rightarrow> int \<Rightarrow> gostring" where
  "fmtFrac n v =
     (let ds = rev (dropWhile (\<lambda>c. c = CHR ''0'') (rev (frac_digits n (v mod 10 ^ n))))
      in if ds = [] then [] else CHR ''.'' # ds)"

text \<open>The unit of microseconds starts with the sign U+00B5.\<close>

definition small_Duration :: "int \<Rightarrow> gostring" where
  "small_Duration u =
     (if u = 0 then ''0s''
      else if u < 1000 then Itoa u @ ''ns''
      else if u < 1000000 then Itoa (u div 1000) @ fmtFrac 3 u @ [CHR 0xC2, CHR 0xB5, CHR ''s'']
      else Itoa (u div 1000000) @ fmtFrac 6 u @ ''ms'')"

definition Duration_String :: "int \<Rightarrow> gostring" where
  "Duration_String d =
     (let u = \<bar>d\<bar>; secs = u div 1000000000;
          text =
            (if u < 1000000000 then small_Duration u
             else
               (if secs \<ge> 3600 then Itoa (secs div 3600) @ ''h'' else []) @
               (if secs \<ge> 60 then Itoa (secs div 60 mod 60) @ ''m'' else []) @
               Itoa (secs mod 60) @ fmtFrac 9 u @ ''s'')
      in if d < 0 then CHR ''-'' # text else text)"

text \<open>The values of the documentation and of the tests of the package.\<close>

lemma Duration_String_examples:
  "Duration_String 0 = ''0s''" "Duration_String 1100 = ''1.1'' @ [CHR 0xC2, CHR 0xB5, CHR ''s'']"
  "Duration_String 2200000 = ''2.2ms''" "Duration_String 3300000000 = ''3.3s''"
  "Duration_String 245001000000 = ''4m5.001s''" "Duration_String 18367001000000 = ''5h6m7.001s''"
  "Duration_String 480000000001 = ''8m0.000000001s''" "Duration_String (- 60000000000) = ''-1m0s''"
  by code_simp+

section \<open>A time as text\<close>

text \<open>
  A time in UTC as text, in the layout of RFC 3339 without a fraction: \<open>t.UTC().Format(time.RFC3339)\<close>. The
  calendar is the proleptic Gregorian one; the seconds count from the start of 1970.
\<close>

text \<open>The year, the month and the day of a number of days since 1970. Years are counted from March.\<close>

definition year_of_era :: "int \<Rightarrow> int" where
  "year_of_era doe = (doe - doe div 1460 + doe div 36524 - doe div 146096) div 365"

definition civil_of_days :: "int \<Rightarrow> int \<times> int \<times> int" where
  "civil_of_days days =
     (let z = days + 719468; era = z div 146097; doe = z mod 146097; yoe = year_of_era doe;
          doy = doe - (365 * yoe + yoe div 4 - yoe div 100); mp = (5 * doy + 2) div 153;
          d = doy - (153 * mp + 2) div 5 + 1; m = (if mp < 10 then mp + 3 else mp - 9);
          y = yoe + era * 400 + (if m \<le> 2 then 1 else 0)
      in (y, m, d))"

text \<open>Decimal digits with zeros in front, up to a width.\<close>

definition padded :: "nat \<Rightarrow> int \<Rightarrow> gostring" where
  "padded w n =
     (let ds = Itoa \<bar>n\<bar>; body = replicate (w - length ds) (CHR ''0'') @ ds in if n < 0 then CHR ''-'' # body else body)"

definition utc_RFC3339 :: "int \<Rightarrow> gostring" where
  "utc_RFC3339 secs =
     (let (y, m, d) = civil_of_days (secs div 86400); s = secs mod 86400 in
      padded 4 y @ ''-'' @ padded 2 m @ ''-'' @ padded 2 d @ ''T'' @ padded 2 (s div 3600) @ '':'' @
      padded 2 (s div 60 mod 60) @ '':'' @ padded 2 (s mod 60) @ ''Z'')"

lemma civil_of_days_examples:
  "civil_of_days 0 = (1970, 1, 1)" "civil_of_days (- 1) = (1969, 12, 31)" "civil_of_days 11016 = (2000, 2, 29)"
  "civil_of_days 24855 = (2038, 1, 19)" "civil_of_days 47540 = (2100, 2, 28)" "civil_of_days 47541 = (2100, 3, 1)"
  by code_simp+

lemma padded_examples:
  "padded 2 7 = ''07''" "padded 2 31 = ''31''" "padded 4 1970 = ''1970''" "padded 4 2038 = ''2038''"
  "padded 2 0 = ''00''" "padded 2 1 = ''01''" "padded 2 3 = ''03''" "padded 2 14 = ''14''" "padded 2 19 = ''19''"
  by (simp_all add: padded_def Itoa_def Itoa_nat.simps digit_char_def Let_def, code_simp+)

lemma utc_RFC3339_examples:
  "utc_RFC3339 0 = ''1970-01-01T00:00:00Z''" "utc_RFC3339 2147483647 = ''2038-01-19T03:14:07Z''"
  by (simp_all add: utc_RFC3339_def civil_of_days_examples padded_examples Let_def)

end
