(* ===== verification/Prometheus_API.thy ===== *)
theory Prometheus_API
  imports Prometheus_Provider Common_Params Go_Time
begin

text \<open>
  The boundary between the Prometheus tasks and the HTTP API: the values the API returns, the API
  as a record of functions (\<open>v1.API\<close> of \<open>client_golang\<close>), the methods of \<open>clientImpl\<close> in
  \<open>client.go\<close> that call it under a deadline, and the conversions of \<open>convert.go\<close>.

  A time is a number of nanoseconds since 1970, a context is its deadline, an error its message.
  Timestamps of samples are in milliseconds.
\<close>

section \<open>What the API returns\<close>

type_synonym LabelSet = "(gostring \<times> gostring) list"

record Sample =
  sm_Metric :: LabelSet
  sm_Value :: gofloat
  sm_Timestamp :: int

record SampleStream =
  str_Metric :: LabelSet
  str_Values :: "(int \<times> gofloat) list"

datatype Value =
    Vector "Sample list"
  | Matrix "SampleStream list"
  | Scalar int gofloat
  | ModelString int gostring

record Exemplar =
  ex_Labels :: LabelSet
  ex_Value :: gofloat
  ex_Timestamp :: int

record Alert =
  al_ActiveAt :: int
  al_Annotations :: LabelSet
  al_Labels :: LabelSet
  al_State :: gostring
  al_Value :: gostring

record RuleBody =
  ru_Name :: gostring
  ru_Query :: gostring
  ru_Duration :: gofloat
  ru_Labels :: LabelSet
  ru_Annotations :: LabelSet
  ru_Health :: gostring
  ru_LastError :: gostring
  ru_EvaluationTime :: gofloat
  ru_LastEvaluation :: int
  ru_State :: gostring

datatype Rule = AlertingRule RuleBody | RecordingRule RuleBody | OtherRule

record RuleGroup =
  rgr_Name :: gostring
  rgr_File :: gostring
  rgr_Interval :: gofloat
  rgr_Rules :: "Rule list"

record ActiveTarget =
  at_DiscoveredLabels :: LabelSet
  at_Labels :: LabelSet
  at_ScrapePool :: gostring
  at_ScrapeURL :: gostring
  at_LastError :: gostring
  at_LastScrape :: int
  at_LastScrapeDuration :: gofloat
  at_Health :: gostring

record TargetsResult =
  tr_Active :: "ActiveTarget list"
  tr_Dropped :: "LabelSet list"

record MetadataEntry =
  me_Type :: gostring
  me_Help :: gostring
  me_Unit :: gostring

record MetricMetadata =
  mm_Target :: LabelSet
  mm_Metric :: gostring
  mm_Type :: gostring
  mm_Help :: gostring
  mm_Unit :: gostring

record RuntimeinfoResult =
  ri_StartTime :: int
  ri_StorageRetention :: gostring

record BuildinfoResult =
  bi_Version :: gostring
  bi_Revision :: gostring
  bi_Branch :: gostring
  bi_BuildDate :: gostring
  bi_GoVersion :: gostring

type_synonym Stat = "gostring \<times> int"

record TSDBResult =
  tsdb_NumSeries :: int
  tsdb_NumLabelPairs :: int
  tsdb_ChunkCount :: int
  tsdb_MinTime :: int
  tsdb_MaxTime :: int
  tsdb_SeriesCountByMetricName :: "Stat list"
  tsdb_LabelValueCountByLabelName :: "Stat list"
  tsdb_MemoryInBytesByLabelName :: "Stat list"
  tsdb_SeriesCountByLabelValuePair :: "Stat list"

section \<open>The API\<close>

datatype api_Option = WithTimeout int | WithLimit int

record query_Range =
  rg_Start :: int
  rg_End :: int
  rg_Step :: int

record prom_api =
  api_Query :: "ctx \<Rightarrow> gostring \<Rightarrow> int \<Rightarrow> api_Option list \<Rightarrow> gostring + (Value \<times> gostring list)"
  api_QueryRange :: "ctx \<Rightarrow> gostring \<Rightarrow> query_Range \<Rightarrow> api_Option list \<Rightarrow> gostring + (Value \<times> gostring list)"
  api_QueryExemplars :: "ctx \<Rightarrow> gostring \<Rightarrow> int \<Rightarrow> int \<Rightarrow> gostring + (LabelSet \<times> Exemplar list) list"
  api_Series :: "ctx \<Rightarrow> gostring list \<Rightarrow> int \<Rightarrow> int \<Rightarrow> gostring + LabelSet list"
  api_LabelNames :: "ctx \<Rightarrow> gostring list \<Rightarrow> int \<Rightarrow> int \<Rightarrow> gostring + gostring list"
  api_LabelValues :: "ctx \<Rightarrow> gostring \<Rightarrow> gostring list \<Rightarrow> int \<Rightarrow> int \<Rightarrow> gostring + gostring list"
  api_Metadata :: "ctx \<Rightarrow> gostring \<Rightarrow> gostring \<Rightarrow> gostring + (gostring \<times> MetadataEntry list) list"
  api_Alerts :: "ctx \<Rightarrow> gostring + Alert list"
  api_Rules :: "ctx \<Rightarrow> gostring list \<Rightarrow> gostring + RuleGroup list"
  api_Targets :: "ctx \<Rightarrow> gostring + TargetsResult"
  api_TargetsMetadata :: "ctx \<Rightarrow> gostring \<Rightarrow> gostring \<Rightarrow> gostring \<Rightarrow> gostring + MetricMetadata list"
  api_Runtimeinfo :: "ctx \<Rightarrow> gostring + RuntimeinfoResult"
  api_Buildinfo :: "ctx \<Rightarrow> gostring + BuildinfoResult"
  api_TSDB :: "ctx \<Rightarrow> gostring + TSDBResult"
  api_Flags :: "ctx \<Rightarrow> gostring + LabelSet"
  api_Config :: "ctx \<Rightarrow> gostring + gostring"

text \<open>
  What else a task reads: the clock, RFC 3339 and durations as text, the text of a sample value, the
  order in which a map is visited, YAML, and HTTP requests (an error of the URL, then the status).
\<close>

record prom_env =
  env_now :: int
  env_oor :: "gofloat \<Rightarrow> int"
  env_parseTime :: "gostring \<Rightarrow> gostring + int"
  env_formatTime :: "int \<Rightarrow> gostring"
  env_showDuration :: "int \<Rightarrow> gostring"
  env_durationError :: "gostring \<Rightarrow> gostring"
  env_showValue :: "gofloat \<Rightarrow> gostring"
  env_visit :: "gostring list \<Rightarrow> gostring list"
  env_unmarshal :: "gostring \<Rightarrow> gostring + gmap option"
  env_newRequest :: "gostring \<Rightarrow> gostring option"
  env_Do :: "http_Client \<Rightarrow> ctx \<Rightarrow> gostring \<Rightarrow> gostring + int"

section \<open>The methods of the client\<close>

text \<open>The call of a method of \<open>c.api\<close>; the API is nil when the construction failed.\<close>

definition call_api :: "prom_env \<Rightarrow> ctx \<Rightarrow> prom_api clientImpl \<Rightarrow> (prom_api \<Rightarrow> ctx \<Rightarrow> gostring + 'r) \<Rightarrow> 'r outcome" where
  "call_api env ctx c f =
     (let ctx1 = context_WithTimeout (env_now env) ctx (gp_QueryTimeout (ci_guardrails c))
      in case ci_api c of None \<Rightarrow> Panic | Some api \<Rightarrow> attempt (f api ctx1))"

definition clientImpl_Query ::
  "prom_env \<Rightarrow> ctx \<Rightarrow> prom_api clientImpl \<Rightarrow> gostring \<Rightarrow> int \<Rightarrow> api_Option list \<Rightarrow> (Value \<times> gostring list) outcome" where
  "clientImpl_Query env ctx c query ts opts =
     call_api env ctx c (\<lambda>api ctx1.
       api_Query api ctx1 query ts (opts @ [WithTimeout (gp_QueryTimeout (ci_guardrails c))]))"

definition clientImpl_QueryRange ::
  "prom_env \<Rightarrow> ctx \<Rightarrow> prom_api clientImpl \<Rightarrow> gostring \<Rightarrow> query_Range \<Rightarrow> api_Option list \<Rightarrow>
     (Value \<times> gostring list) outcome" where
  "clientImpl_QueryRange env ctx c query r opts =
     call_api env ctx c (\<lambda>api ctx1.
       api_QueryRange api ctx1 query r (opts @ [WithTimeout (gp_QueryTimeout (ci_guardrails c))]))"

definition clientImpl_QueryExemplars ::
  "prom_env \<Rightarrow> ctx \<Rightarrow> prom_api clientImpl \<Rightarrow> gostring \<Rightarrow> int \<Rightarrow> int \<Rightarrow> (LabelSet \<times> Exemplar list) list outcome" where
  "clientImpl_QueryExemplars env ctx c query startTime endTime =
     call_api env ctx c (\<lambda>api ctx1. api_QueryExemplars api ctx1 query startTime endTime)"

definition clientImpl_Series ::
  "prom_env \<Rightarrow> ctx \<Rightarrow> prom_api clientImpl \<Rightarrow> gostring list \<Rightarrow> int \<Rightarrow> int \<Rightarrow> LabelSet list outcome" where
  "clientImpl_Series env ctx c matches startTime endTime =
     call_api env ctx c (\<lambda>api ctx1. api_Series api ctx1 matches startTime endTime)"

definition clientImpl_LabelNames ::
  "prom_env \<Rightarrow> ctx \<Rightarrow> prom_api clientImpl \<Rightarrow> gostring list \<Rightarrow> int \<Rightarrow> int \<Rightarrow> gostring list outcome" where
  "clientImpl_LabelNames env ctx c matches startTime endTime =
     call_api env ctx c (\<lambda>api ctx1. api_LabelNames api ctx1 matches startTime endTime)"

definition clientImpl_LabelValues ::
  "prom_env \<Rightarrow> ctx \<Rightarrow> prom_api clientImpl \<Rightarrow> gostring \<Rightarrow> gostring list \<Rightarrow> int \<Rightarrow> int \<Rightarrow> gostring list outcome" where
  "clientImpl_LabelValues env ctx c label matches startTime endTime =
     call_api env ctx c (\<lambda>api ctx1. api_LabelValues api ctx1 label matches startTime endTime)"

definition clientImpl_Metadata ::
  "prom_env \<Rightarrow> ctx \<Rightarrow> prom_api clientImpl \<Rightarrow> gostring \<Rightarrow> gostring \<Rightarrow> (gostring \<times> MetadataEntry list) list outcome" where
  "clientImpl_Metadata env ctx c metric limit =
     call_api env ctx c (\<lambda>api ctx1. api_Metadata api ctx1 metric limit)"

definition clientImpl_Alerts :: "prom_env \<Rightarrow> ctx \<Rightarrow> prom_api clientImpl \<Rightarrow> Alert list outcome" where
  "clientImpl_Alerts env ctx c = call_api env ctx c (\<lambda>api ctx1. api_Alerts api ctx1)"

definition clientImpl_Rules :: "prom_env \<Rightarrow> ctx \<Rightarrow> prom_api clientImpl \<Rightarrow> gostring list \<Rightarrow> RuleGroup list outcome" where
  "clientImpl_Rules env ctx c matches = call_api env ctx c (\<lambda>api ctx1. api_Rules api ctx1 matches)"

definition clientImpl_Targets :: "prom_env \<Rightarrow> ctx \<Rightarrow> prom_api clientImpl \<Rightarrow> TargetsResult outcome" where
  "clientImpl_Targets env ctx c = call_api env ctx c (\<lambda>api ctx1. api_Targets api ctx1)"

definition clientImpl_TargetsMetadata ::
  "prom_env \<Rightarrow> ctx \<Rightarrow> prom_api clientImpl \<Rightarrow> gostring \<Rightarrow> gostring \<Rightarrow> gostring \<Rightarrow> MetricMetadata list outcome" where
  "clientImpl_TargetsMetadata env ctx c matchTarget metric limit =
     call_api env ctx c (\<lambda>api ctx1. api_TargetsMetadata api ctx1 matchTarget metric limit)"

definition clientImpl_Runtimeinfo :: "prom_env \<Rightarrow> ctx \<Rightarrow> prom_api clientImpl \<Rightarrow> RuntimeinfoResult outcome" where
  "clientImpl_Runtimeinfo env ctx c = call_api env ctx c (\<lambda>api ctx1. api_Runtimeinfo api ctx1)"

definition clientImpl_Buildinfo :: "prom_env \<Rightarrow> ctx \<Rightarrow> prom_api clientImpl \<Rightarrow> BuildinfoResult outcome" where
  "clientImpl_Buildinfo env ctx c = call_api env ctx c (\<lambda>api ctx1. api_Buildinfo api ctx1)"

definition clientImpl_TSDB :: "prom_env \<Rightarrow> ctx \<Rightarrow> prom_api clientImpl \<Rightarrow> TSDBResult outcome" where
  "clientImpl_TSDB env ctx c = call_api env ctx c (\<lambda>api ctx1. api_TSDB api ctx1)"

definition clientImpl_Flags :: "prom_env \<Rightarrow> ctx \<Rightarrow> prom_api clientImpl \<Rightarrow> LabelSet outcome" where
  "clientImpl_Flags env ctx c = call_api env ctx c (\<lambda>api ctx1. api_Flags api ctx1)"

definition clientImpl_Config :: "prom_env \<Rightarrow> ctx \<Rightarrow> prom_api clientImpl \<Rightarrow> gostring outcome" where
  "clientImpl_Config env ctx c = call_api env ctx c (\<lambda>api ctx1. api_Config api ctx1)"

definition trim_slashes :: "gostring \<Rightarrow> gostring" where
  "trim_slashes s = rev (dropWhile (\<lambda>ch. ch = CHR ''/'') (rev s))"

definition probeEndpoint :: "prom_env \<Rightarrow> ctx \<Rightarrow> prom_api clientImpl \<Rightarrow> gostring \<Rightarrow> bool outcome" where
  "probeEndpoint env ctx c path =
     (let ctx1 = context_WithTimeout (env_now env) ctx (gp_QueryTimeout (ci_guardrails c));
          u = trim_slashes (ci_baseURL c) @ path
      in case env_newRequest env u of
           Some err \<Rightarrow> Stop err
         | None \<Rightarrow>
             (case ci_httpClient c of
                None \<Rightarrow> Panic
              | Some h \<Rightarrow> and_then (attempt (env_Do env h ctx1 u)) (\<lambda>status. Go (status = 200))))"

definition clientImpl_Ready :: "prom_env \<Rightarrow> ctx \<Rightarrow> prom_api clientImpl \<Rightarrow> bool outcome" where
  "clientImpl_Ready env ctx c = probeEndpoint env ctx c ''/-/ready''"

definition clientImpl_Healthy :: "prom_env \<Rightarrow> ctx \<Rightarrow> prom_api clientImpl \<Rightarrow> bool outcome" where
  "clientImpl_Healthy env ctx c = probeEndpoint env ctx c ''/-/healthy''"

section \<open>Conversions\<close>

definition label_of :: "LabelSet \<Rightarrow> gostring \<Rightarrow> gostring" where
  "label_of ls k = (case map_of ls k of Some v \<Rightarrow> v | None \<Rightarrow> [])"

definition labelSetToMap :: "LabelSet \<Rightarrow> gvalue" where
  "labelSetToMap ls = VStrMap (map (\<lambda>(k, v). (k, v)) ls)"

definition metricToMap :: "LabelSet \<Rightarrow> gvalue" where
  "metricToMap ls = VStrMap (map (\<lambda>(k, v). (k, v)) ls)"

definition millis_float :: "int \<Rightarrow> gvalue" where
  "millis_float ts = VFloat64 (float_div_int (float64_of_int ts) 1000)"

definition sampleToMap :: "prom_env \<Rightarrow> Sample \<Rightarrow> gvalue" where
  "sampleToMap env s =
     VMap [(''metric'', metricToMap (sm_Metric s)),
           (''value'', VList [millis_float (sm_Timestamp s), VString (env_showValue env (sm_Value s))])]"

definition sampleStreamToMap :: "prom_env \<Rightarrow> SampleStream \<Rightarrow> gvalue" where
  "sampleStreamToMap env ss =
     VMap [(''metric'', metricToMap (str_Metric ss)),
           (''values'', VList (map (\<lambda>p. VList [millis_float (fst p), VString (env_showValue env (snd p))]) (str_Values ss)))]"

text \<open>The loop of \<open>truncateVector\<close>; the count goes up by one for each element.\<close>

fun vector_loop :: "int \<Rightarrow> int \<Rightarrow> 'a list \<Rightarrow> 'a list \<times> bool" where
  "vector_loop maxSamples sofar [] = ([], False)"
| "vector_loop maxSamples sofar (v # vs) =
     (if sofar + 1 > maxSamples then ([], True)
      else (let (ws, t) = vector_loop maxSamples (sofar + 1) vs in (v # ws, t)))"

definition truncateVector :: "Sample list \<Rightarrow> int \<Rightarrow> int \<Rightarrow> (Sample list \<times> bool) outcome" where
  "truncateVector vec maxSeries maxSamples =
     and_then (truncate_to maxSeries vec) (\<lambda>(vec1, truncated).
       (let (vec2, t) = vector_loop maxSamples 0 vec1 in Go (vec2, truncated \<or> t)))"

text \<open>
  The loop of \<open>truncateMatrix\<close>: it stops at the first stream that goes over the budget, and
  leaves the streams behind it as they are when it has shortened that one.
\<close>

fun matrix_loop :: "int \<Rightarrow> int \<Rightarrow> SampleStream list \<Rightarrow> SampleStream list \<times> bool" where
  "matrix_loop maxSamples sofar [] = ([], False)"
| "matrix_loop maxSamples sofar (ss # rest) =
     (let sofar1 = sofar + int (length (str_Values ss)) in
      if sofar1 > maxSamples then
        (let remaining = maxSamples - (sofar1 - int (length (str_Values ss))) in
         if remaining \<le> 0 then ([], True)
         else (ss\<lparr>str_Values := take (nat remaining) (str_Values ss)\<rparr> # rest, True))
      else (let (out, t) = matrix_loop maxSamples sofar1 rest in (ss # out, t)))"

definition truncateMatrix :: "SampleStream list \<Rightarrow> int \<Rightarrow> int \<Rightarrow> (SampleStream list \<times> bool) outcome" where
  "truncateMatrix mat maxSeries maxSamples =
     and_then (truncate_to maxSeries mat) (\<lambda>(mat1, truncated).
       (let (mat2, t) = matrix_loop maxSamples 0 mat1 in Go (mat2, truncated \<or> t)))"

fun string_entries :: "gostring \<Rightarrow> gmap \<Rightarrow> gostring + LabelSet" where
  "string_entries key [] = Inr []"
| "string_entries key ((k, VString s) # m) =
     (case string_entries key m of Inl err \<Rightarrow> Inl err | Inr out \<Rightarrow> Inr ((k, s) # out))"
| "string_entries key ((k, v) # m) = Inl (parameter_must key ''a map of strings'')"

definition optionalStringMap :: "gmap \<Rightarrow> gostring \<Rightarrow> gostring + LabelSet" where
  "optionalStringMap params key =
     (case map_of params key of
        None \<Rightarrow> Inr []
      | Some VNil \<Rightarrow> Inr []
      | Some (VStrMap m) \<Rightarrow> Inr m
      | Some (VMap m) \<Rightarrow> string_entries key m
      | Some _ \<Rightarrow> Inl (parameter_must key ''a map of strings''))"

definition labelsMatch :: "LabelSet \<Rightarrow> LabelSet \<Rightarrow> bool" where
  "labelsMatch have want \<longleftrightarrow> list_all (\<lambda>(k, v). label_of have k = v) want"

text \<open>The zero \<open>time.Time\<close> is the first of January of year 1.\<close>

definition zero_Time :: int where "zero_Time = - 62135596800000000000"

definition formatTime :: "prom_env \<Rightarrow> int \<Rightarrow> gostring" where
  "formatTime env t = (if t = zero_Time then [] else env_formatTime env t)"

section \<open>String lists and time ranges\<close>

fun string_items :: "gostring \<Rightarrow> gvalue list \<Rightarrow> gostring + gostring list" where
  "string_items key [] = Inr []"
| "string_items key (VString s # vs) =
     (case string_items key vs of Inl err \<Rightarrow> Inl err | Inr out \<Rightarrow> Inr (s # out))"
| "string_items key (v # vs) = Inl (parameter_must key ''an array of strings'')"

definition nonempty_items :: "gostring \<Rightarrow> gostring list \<Rightarrow> gostring + gostring list" where
  "nonempty_items key out = (if length out = 0 then Inl (missing_parameter key) else Inr out)"

definition requireStringSlice :: "gmap \<Rightarrow> gostring \<Rightarrow> gostring + gostring list" where
  "requireStringSlice params key =
     (case map_of params key of
        None \<Rightarrow> Inl (missing_parameter key)
      | Some VNil \<Rightarrow> Inl (missing_parameter key)
      | Some (VStrings raw) \<Rightarrow> nonempty_items key raw
      | Some (VList iface) \<Rightarrow>
          (case string_items key iface of Inl err \<Rightarrow> Inl err | Inr out \<Rightarrow> nonempty_items key out)
      | Some _ \<Rightarrow> Inl (parameter_must key ''an array of strings''))"

definition optionalStringSlice :: "gmap \<Rightarrow> gostring \<Rightarrow> gostring + gostring list" where
  "optionalStringSlice params key =
     (case map_of params key of
        None \<Rightarrow> Inr []
      | Some VNil \<Rightarrow> Inr []
      | Some (VStrings raw) \<Rightarrow> Inr raw
      | Some (VList iface) \<Rightarrow> string_items key iface
      | Some _ \<Rightarrow> Inl (parameter_must key ''an array of strings''))"

definition parse_time_param :: "prom_env \<Rightarrow> gostring \<Rightarrow> gostring \<Rightarrow> int outcome" where
  "parse_time_param env key s =
     (case env_parseTime env s of Inl err \<Rightarrow> Stop (parameter_must key ''RFC3339: '' @ err) | Inr t \<Rightarrow> Go t)"

definition parseOptionalRange :: "prom_env \<Rightarrow> gmap \<Rightarrow> (int \<times> int) outcome" where
  "parseOptionalRange env params =
     and_then (attempt (OptionalString params ''start'' [])) (\<lambda>startStr.
     and_then (attempt (OptionalString params ''end'' [])) (\<lambda>endStr.
     and_then (if startStr \<noteq> [] then parse_time_param env ''start'' startStr else Go zero_Time) (\<lambda>start.
     and_then (if endStr \<noteq> [] then parse_time_param env ''end'' endStr else Go zero_Time) (\<lambda>endT.
     Go (start, endT)))))"

end
