(* ===== verification/Prometheus_Tasks.thy ===== *)
theory Prometheus_Tasks
  imports Prometheus_API
begin

text \<open>
  The twenty tasks of the Prometheus provider. Each is the body of its \<open>Execute\<close> as a sequence of
  steps that may stop with a failure; \<open>Prometheus_Execute\<close> selects the body by the name of the
  capability. A list of maps in a result is a \<open>VList\<close> of \<open>VMap\<close>, the result map a \<open>VMap\<close>.
\<close>

definition with_client ::
  "prom_api clientImpl option \<Rightarrow> (prom_api clientImpl \<Rightarrow> 'r outcome) \<Rightarrow> 'r outcome" where
  "with_client client f =
     (case client of None \<Rightarrow> Stop ''prometheus client is not configured'' | Some c \<Rightarrow> f c)"

definition policy :: "prom_api clientImpl \<Rightarrow> GuardrailPolicy" where
  "policy c = GuardrailPolicy_ApplyDefaults (Guardrails c)"

definition counted :: "gostring \<Rightarrow> gvalue \<Rightarrow> nat \<Rightarrow> bool \<Rightarrow> gvalue" where
  "counted key items n truncated =
     VMap [(key, items), (''count'', VInt (int n)), (''truncated'', VBool truncated)]"

section \<open>Queries\<close>

definition query_timeout :: "prom_env \<Rightarrow> gmap \<Rightarrow> GuardrailPolicy \<Rightarrow> int outcome" where
  "query_timeout env params g =
     and_then (attempt (OptionalInt (env_oor env) params ''timeout_seconds''
       (int64_of_float (env_oor env) (duration_Seconds (gp_QueryTimeout g))))) (\<lambda>timeoutSeconds.
     and_then (stop_if (timeoutSeconds \<le> 0) (parameter_must ''timeout_seconds'' ''greater than 0'')) (\<lambda>_.
     Go (min (wrap64 (timeoutSeconds * Second)) (gp_QueryTimeout g))))"

definition query_options :: "int \<Rightarrow> GuardrailPolicy \<Rightarrow> api_Option list" where
  "query_options timeout g = [WithTimeout timeout, WithLimit (gp_MaxReturnedSeries g mod 2 ^ 64)]"

fun value_Type :: "Value \<Rightarrow> gostring" where
  "value_Type (Vector _) = ''vector''"
| "value_Type (Matrix _) = ''matrix''"
| "value_Type (Scalar _ _) = ''scalar''"
| "value_Type (ModelString _ _) = ''string''"

fun value_GoType :: "Value \<Rightarrow> gostring" where
  "value_GoType (Vector _) = ''model.Vector''"
| "value_GoType (Matrix _) = ''model.Matrix''"
| "value_GoType (Scalar _ _) = ''*model.Scalar''"
| "value_GoType (ModelString _ _) = ''*model.String''"

definition query_result :: "Value \<Rightarrow> gostring list \<Rightarrow> gvalue \<Rightarrow> bool \<Rightarrow> gvalue" where
  "query_result v warnings result truncated =
     VMap [(''result_type'', VString (value_Type v)), (''truncated'', VBool truncated),
           (''warnings'', VStrings warnings), (''result'', result)]"

definition queryInstant_Execute :: "prom_env \<Rightarrow> ctx \<Rightarrow> prom_api clientImpl option \<Rightarrow> gmap \<Rightarrow> gvalue outcome" where
  "queryInstant_Execute env ctx client params =
     and_then (attempt (RequireString params ''query'')) (\<lambda>query.
     with_client client (\<lambda>c.
     let guardrails = policy c in
     and_then (attempt (OptionalString params ''time'' [])) (\<lambda>timeStr.
     and_then (if timeStr \<noteq> [] then parse_time_param env ''time'' timeStr else Go (env_now env)) (\<lambda>ts.
     and_then (query_timeout env params guardrails) (\<lambda>timeout.
     and_then (clientImpl_Query env ctx c query ts (query_options timeout guardrails)) (\<lambda>(v, warnings).
     (case v of
        Vector vec0 \<Rightarrow>
          and_then (truncateVector vec0 (gp_MaxReturnedSeries guardrails) (gp_MaxReturnedSamples guardrails))
            (\<lambda>(vec, truncated). Go (query_result v warnings (VList (map (sampleToMap env) vec)) truncated))
      | Scalar ts x \<Rightarrow> Go (query_result v warnings (VList [millis_float ts, VString (env_showValue env x)]) False)
      | ModelString ts x \<Rightarrow> Go (query_result v warnings (VList [millis_float ts, VString x]) False)
      | _ \<Rightarrow> Stop (''unexpected query result type '' @ value_GoType v))))))))"

text \<open>The time range of a range query, checked against the policy.\<close>

definition required_range :: "prom_env \<Rightarrow> gmap \<Rightarrow> GuardrailPolicy \<Rightarrow> (int \<times> int) outcome" where
  "required_range env params g =
     and_then (attempt (RequireString params ''start'')) (\<lambda>startStr.
     and_then (attempt (RequireString params ''end'')) (\<lambda>endStr.
     and_then (parse_time_param env ''start'' startStr) (\<lambda>start.
     and_then (parse_time_param env ''end'' endStr) (\<lambda>endT.
     and_then (stop_if (\<not> endT > start) (parameter_must ''end'' ''after start'')) (\<lambda>_.
     and_then (stop_if (time_Sub endT start > gp_MaxQueryRange g)
       (''query range exceeds maximum allowed ('' @ env_showDuration env (gp_MaxQueryRange g) @ '')'')) (\<lambda>_.
     Go (start, endT)))))))"

definition query_step :: "prom_env \<Rightarrow> gmap \<Rightarrow> GuardrailPolicy \<Rightarrow> int outcome" where
  "query_step env params g =
     and_then (attempt (OptionalString params ''step'' [])) (\<lambda>stepStr.
     if stepStr = [] then Go (gp_MinStep g)
     else (case ParseDuration stepStr of
             None \<Rightarrow> Stop (parameter_must ''step'' ''a duration: '' @ env_durationError env stepStr)
           | Some parsed \<Rightarrow>
               and_then (stop_if (parsed < gp_MinStep g)
                 (parameter_must ''step'' (''at least '' @ env_showDuration env (gp_MinStep g)))) (\<lambda>_. Go parsed)))"

definition queryRange_Execute :: "prom_env \<Rightarrow> ctx \<Rightarrow> prom_api clientImpl option \<Rightarrow> gmap \<Rightarrow> gvalue outcome" where
  "queryRange_Execute env ctx client params =
     and_then (attempt (RequireString params ''query'')) (\<lambda>query.
     with_client client (\<lambda>c.
     let guardrails = policy c in
     and_then (required_range env params guardrails) (\<lambda>(start, endT).
     and_then (query_step env params guardrails) (\<lambda>step.
     and_then (query_timeout env params guardrails) (\<lambda>timeout.
     and_then (clientImpl_QueryRange env ctx c query \<lparr>rg_Start = start, rg_End = endT, rg_Step = step\<rparr>
       (query_options timeout guardrails)) (\<lambda>(v, warnings).
     (case v of
        Matrix mat0 \<Rightarrow>
          and_then (truncateMatrix mat0 (gp_MaxReturnedSeries guardrails) (gp_MaxReturnedSamples guardrails))
            (\<lambda>(mat, truncated). Go (query_result v warnings (VList (map (sampleStreamToMap env) mat)) truncated))
      | _ \<Rightarrow> Stop (''unexpected query result type '' @ value_GoType v))))))))"

definition exemplar_value :: "prom_env \<Rightarrow> Exemplar \<Rightarrow> gvalue" where
  "exemplar_value env e =
     VMap [(''labels'', labelSetToMap (ex_Labels e)), (''value'', VString (env_showValue env (ex_Value e))),
           (''timestamp'', VString (formatTime env (ex_Timestamp e * 1000000)))]"

definition exemplarsQuery_Execute :: "prom_env \<Rightarrow> ctx \<Rightarrow> prom_api clientImpl option \<Rightarrow> gmap \<Rightarrow> gvalue outcome" where
  "exemplarsQuery_Execute env ctx client params =
     and_then (attempt (RequireString params ''query'')) (\<lambda>query.
     with_client client (\<lambda>c.
     and_then (required_range env params (policy c)) (\<lambda>(start, endT).
     and_then (clientImpl_QueryExemplars env ctx c query start endT) (\<lambda>results.
     Go (VMap
       [(''exemplars'', VList (map (\<lambda>(ls, es).
           VMap [(''series_labels'', labelSetToMap ls), (''exemplars'', VList (map (exemplar_value env) es))]) results)),
        (''count'', VInt (int (length results)))])))))"

section \<open>Series, labels and metadata\<close>

definition seriesList_Execute :: "prom_env \<Rightarrow> ctx \<Rightarrow> prom_api clientImpl option \<Rightarrow> gmap \<Rightarrow> gvalue outcome" where
  "seriesList_Execute env ctx client params =
     and_then (attempt (requireStringSlice params ''match'')) (\<lambda>matches.
     with_client client (\<lambda>c.
     and_then (parseOptionalRange env params) (\<lambda>(start, endT).
     and_then (bounded_limit (env_oor env) params (gp_MaxReturnedSeries (policy c))) (\<lambda>limit.
     and_then (clientImpl_Series env ctx c matches start endT) (\<lambda>series0.
     and_then (truncate_to limit series0) (\<lambda>(series, truncated).
     Go (counted ''series'' (VList (map labelSetToMap series)) (length series) truncated)))))))"

definition labelsList_Execute :: "prom_env \<Rightarrow> ctx \<Rightarrow> prom_api clientImpl option \<Rightarrow> gmap \<Rightarrow> gvalue outcome" where
  "labelsList_Execute env ctx client params =
     with_client client (\<lambda>c.
     and_then (attempt (optionalStringSlice params ''match'')) (\<lambda>matches.
     and_then (parseOptionalRange env params) (\<lambda>(start, endT).
     and_then (clientImpl_LabelNames env ctx c matches start endT) (\<lambda>names.
     and_then (truncate_to (gp_MaxMetadataResults (policy c)) names) (\<lambda>(labels, truncated).
     Go (counted ''labels'' (VStrings labels) (length labels) truncated))))))"

definition labelValues_Execute :: "prom_env \<Rightarrow> ctx \<Rightarrow> prom_api clientImpl option \<Rightarrow> gmap \<Rightarrow> gvalue outcome" where
  "labelValues_Execute env ctx client params =
     and_then (attempt (RequireString params ''label'')) (\<lambda>label.
     with_client client (\<lambda>c.
     and_then (attempt (optionalStringSlice params ''match'')) (\<lambda>matches.
     and_then (parseOptionalRange env params) (\<lambda>(start, endT).
     and_then (bounded_limit (env_oor env) params (gp_MaxMetadataResults (policy c))) (\<lambda>limit.
     and_then (clientImpl_LabelValues env ctx c label matches start endT) (\<lambda>vs.
     and_then (truncate_to limit vs) (\<lambda>(vals, truncated).
     Go (counted ''values'' (VStrings vals) (length vals) truncated))))))))"

definition strings_Contains :: "gostring \<Rightarrow> gostring \<Rightarrow> bool" where
  "strings_Contains s sub \<longleftrightarrow> list_ex (\<lambda>i. HasPrefix (drop i s) sub) [0..<Suc (length s)]"

definition metricNames_Execute :: "prom_env \<Rightarrow> ctx \<Rightarrow> prom_api clientImpl option \<Rightarrow> gmap \<Rightarrow> gvalue outcome" where
  "metricNames_Execute env ctx client params =
     with_client client (\<lambda>c.
     and_then (attempt (optionalStringSlice params ''match'')) (\<lambda>matches.
     and_then (parseOptionalRange env params) (\<lambda>(start, endT).
     and_then (attempt (OptionalString params ''search'' [])) (\<lambda>search.
     and_then (bounded_limit (env_oor env) params (gp_MaxMetadataResults (policy c))) (\<lambda>limit.
     and_then (clientImpl_LabelValues env ctx c ''__name__'' matches start endT) (\<lambda>vs.
     and_then (truncate_to limit (filter (\<lambda>name. \<not> (search \<noteq> [] \<and> \<not> strings_Contains name search)) vs))
       (\<lambda>(names, truncated).
     Go (counted ''names'' (VStrings names) (length names) truncated))))))))"

definition metadata_entry :: "gostring \<Rightarrow> MetadataEntry \<Rightarrow> gvalue" where
  "metadata_entry name e =
     VMap [(''metric'', VString name), (''type'', VString (me_Type e)), (''help'', VString (me_Help e)),
           (''unit'', VString (me_Unit e))]"

text \<open>The map is visited in the order \<open>env_visit\<close> gives.\<close>

definition metadata_entries :: "prom_env \<Rightarrow> (gostring \<times> MetadataEntry list) list \<Rightarrow> gvalue list" where
  "metadata_entries env md =
     concat (map (\<lambda>name. map (metadata_entry name) (case map_of md name of Some es \<Rightarrow> es | None \<Rightarrow> []))
       (env_visit env (map fst md)))"

definition metadataGet_Execute :: "prom_env \<Rightarrow> ctx \<Rightarrow> prom_api clientImpl option \<Rightarrow> gmap \<Rightarrow> gvalue outcome" where
  "metadataGet_Execute env ctx client params =
     with_client client (\<lambda>c.
     and_then (attempt (OptionalString params ''metric'' [])) (\<lambda>metric.
     and_then (bounded_limit (env_oor env) params (gp_MaxMetadataResults (policy c))) (\<lambda>limit.
     and_then (clientImpl_Metadata env ctx c metric []) (\<lambda>md.
     and_then (truncate_to limit (metadata_entries env md)) (\<lambda>(metadata, truncated).
     Go (counted ''metadata'' (VList metadata) (length metadata) truncated))))))"

fun encode_pairs :: "gostring \<Rightarrow> LabelSet \<Rightarrow> gostring" where
  "encode_pairs out [] = out"
| "encode_pairs out ((k, v) # m) =
     encode_pairs ((if out \<noteq> [] then out @ '','' else out) @ k @ ''='' @ [CHR 34] @ v @ [CHR 34]) m"

definition encodeMatchTarget :: "prom_env \<Rightarrow> LabelSet \<Rightarrow> gostring" where
  "encodeMatchTarget env matchTarget =
     [CHR 123] @ encode_pairs [] (map (\<lambda>k. (k, label_of matchTarget k)) (env_visit env (map fst matchTarget))) @ [CHR 125]"

definition metric_metadata :: "MetricMetadata \<Rightarrow> gvalue" where
  "metric_metadata m =
     VMap [(''target'', VStrMap (mm_Target m)), (''metric'', VString (mm_Metric m)), (''type'', VString (mm_Type m)),
           (''help'', VString (mm_Help m)), (''unit'', VString (mm_Unit m))]"

definition targetMetadata_Execute :: "prom_env \<Rightarrow> ctx \<Rightarrow> prom_api clientImpl option \<Rightarrow> gmap \<Rightarrow> gvalue outcome" where
  "targetMetadata_Execute env ctx client params =
     with_client client (\<lambda>c.
     and_then (attempt (optionalStringMap params ''match_target'')) (\<lambda>matchTarget.
     and_then (attempt (OptionalString params ''metric'' [])) (\<lambda>metric.
     and_then (bounded_limit (env_oor env) params (gp_MaxMetadataResults (policy c))) (\<lambda>limit.
     let matchTargetStr = (if length matchTarget > 0 then encodeMatchTarget env matchTarget else []) in
     and_then (clientImpl_TargetsMetadata env ctx c matchTargetStr metric []) (\<lambda>md.
     and_then (truncate_to limit (map metric_metadata md)) (\<lambda>(metadata, truncated).
     Go (counted ''metadata'' (VList metadata) (length metadata) truncated)))))))"

section \<open>Alerts, rules and targets\<close>

definition alert_value :: "prom_env \<Rightarrow> Alert \<Rightarrow> gvalue" where
  "alert_value env a =
     VMap [(''name'', VString (label_of (al_Labels a) ''alertname'')), (''state'', VString (al_State a)),
           (''value'', VString (al_Value a)), (''active_at'', VString (formatTime env (al_ActiveAt a))),
           (''labels'', labelSetToMap (al_Labels a)), (''annotations'', labelSetToMap (al_Annotations a))]"

definition alertsList_Execute :: "prom_env \<Rightarrow> ctx \<Rightarrow> prom_api clientImpl option \<Rightarrow> gmap \<Rightarrow> gvalue outcome" where
  "alertsList_Execute env ctx client params =
     with_client client (\<lambda>c.
     and_then (attempt (OptionalString params ''state'' ''all'')) (\<lambda>state.
     and_then (stop_if (state \<notin> set [''pending'', ''firing'', ''all''])
       (parameter_must ''state'' ''one of pending, firing, all'')) (\<lambda>_.
     and_then (attempt (optionalStringMap params ''match_labels'')) (\<lambda>matchLabels.
     and_then (bounded_limit (env_oor env) params (gp_MaxReturnedSeries (policy c))) (\<lambda>limit.
     and_then (clientImpl_Alerts env ctx c) (\<lambda>result.
     let wanted = filter (\<lambda>a. \<not> (state \<noteq> ''all'' \<and> al_State a \<noteq> state) \<and>
                             \<not> (length matchLabels > 0 \<and> \<not> labelsMatch (al_Labels a) matchLabels)) result in
     and_then (truncate_to limit (map (alert_value env) wanted)) (\<lambda>(alerts, truncated).
     Go (counted ''alerts'' (VList alerts) (length alerts) truncated))))))))"

definition alerting_rule :: "prom_env \<Rightarrow> RuleBody \<Rightarrow> gmap" where
  "alerting_rule env r =
     [(''name'', VString (ru_Name r)), (''type'', VString ''alert''), (''query'', VString (ru_Query r)),
      (''duration'', VFloat64 (ru_Duration r)), (''labels'', labelSetToMap (ru_Labels r)),
      (''annotations'', labelSetToMap (ru_Annotations r)), (''health'', VString (ru_Health r)),
      (''last_error'', VString (ru_LastError r)), (''evaluation_time'', VFloat64 (ru_EvaluationTime r)),
      (''last_evaluation'', VString (formatTime env (ru_LastEvaluation r))), (''state'', VString (ru_State r))]"

definition recording_rule :: "prom_env \<Rightarrow> RuleBody \<Rightarrow> gmap" where
  "recording_rule env r =
     [(''name'', VString (ru_Name r)), (''type'', VString ''record''), (''query'', VString (ru_Query r)),
      (''labels'', labelSetToMap (ru_Labels r)), (''health'', VString (ru_Health r)),
      (''last_error'', VString (ru_LastError r)), (''evaluation_time'', VFloat64 (ru_EvaluationTime r)),
      (''last_evaluation'', VString (formatTime env (ru_LastEvaluation r)))]"

definition flattenRule :: "prom_env \<Rightarrow> Rule \<Rightarrow> gostring \<Rightarrow> LabelSet \<Rightarrow> gmap option" where
  "flattenRule env r ruleType matchLabels =
     (case r of
        AlertingRule rule \<Rightarrow>
          (if ruleType \<noteq> ''all'' \<and> ruleType \<noteq> ''alert'' then None
           else if length matchLabels > 0 \<and> \<not> labelsMatch (ru_Labels rule) matchLabels then None
           else Some (alerting_rule env rule))
      | RecordingRule rule \<Rightarrow>
          (if ruleType \<noteq> ''all'' \<and> ruleType \<noteq> ''record'' then None
           else if length matchLabels > 0 \<and> \<not> labelsMatch (ru_Labels rule) matchLabels then None
           else Some (recording_rule env rule))
      | OtherRule \<Rightarrow> None)"

definition group_rules :: "prom_env \<Rightarrow> gostring \<Rightarrow> LabelSet \<Rightarrow> RuleGroup \<Rightarrow> gvalue list" where
  "group_rules env ruleType matchLabels grp =
     map (\<lambda>item. VMap (item @ [(''rule_group'', VString (rgr_Name grp)), (''file'', VString (rgr_File grp)),
                               (''interval'', VFloat64 (rgr_Interval grp))]))
       (List.map_filter (\<lambda>r. flattenRule env r ruleType matchLabels) (rgr_Rules grp))"

definition rulesList_Execute :: "prom_env \<Rightarrow> ctx \<Rightarrow> prom_api clientImpl option \<Rightarrow> gmap \<Rightarrow> gvalue outcome" where
  "rulesList_Execute env ctx client params =
     with_client client (\<lambda>c.
     and_then (attempt (OptionalString params ''type'' ''all'')) (\<lambda>ruleType.
     and_then (stop_if (ruleType \<notin> set [''alert'', ''record'', ''all''])
       (parameter_must ''type'' ''one of alert, record, all'')) (\<lambda>_.
     and_then (attempt (OptionalString params ''rule_group'' [])) (\<lambda>ruleGroup.
     and_then (attempt (OptionalString params ''file'' [])) (\<lambda>file.
     and_then (attempt (optionalStringMap params ''match_labels'')) (\<lambda>matchLabels.
     and_then (bounded_limit (env_oor env) params (gp_MaxReturnedSeries (policy c))) (\<lambda>limit.
     and_then (clientImpl_Rules env ctx c []) (\<lambda>groups.
     let wanted = filter (\<lambda>g. \<not> (ruleGroup \<noteq> [] \<and> rgr_Name g \<noteq> ruleGroup) \<and>
                             \<not> (file \<noteq> [] \<and> rgr_File g \<noteq> file)) groups in
     and_then (truncate_to limit (concat (map (group_rules env ruleType matchLabels) wanted))) (\<lambda>(rules, truncated).
     Go (counted ''rules'' (VList rules) (length rules) truncated))))))))))"

definition active_target :: "prom_env \<Rightarrow> ActiveTarget \<Rightarrow> gvalue" where
  "active_target env tgt =
     VMap [(''scrape_url'', VString (at_ScrapeURL tgt)), (''job'', VString (label_of (at_Labels tgt) ''job'')),
           (''instance'', VString (label_of (at_Labels tgt) ''instance'')), (''health'', VString (at_Health tgt)),
           (''last_scrape'', VString (formatTime env (at_LastScrape tgt))),
           (''scrape_duration_ms'', VFloat64 (float_mul (at_LastScrapeDuration tgt) (float64_of_int 1000))),
           (''last_error'', VString (at_LastError tgt)), (''discovered_labels'', VStrMap (at_DiscoveredLabels tgt)),
           (''labels'', labelSetToMap (at_Labels tgt)), (''scrape_pool'', VString (at_ScrapePool tgt))]"

definition dropped_target :: "LabelSet \<Rightarrow> gvalue" where
  "dropped_target discovered =
     VMap [(''scrape_url'', VString []), (''job'', VString (label_of discovered ''job'')),
           (''instance'', VString (label_of discovered ''instance'')), (''health'', VString ''dropped''),
           (''last_scrape'', VString []), (''scrape_duration_ms'', VFloat64 (float64_of_int 0)),
           (''last_error'', VString []), (''discovered_labels'', VStrMap discovered), (''labels'', VStrMap [])]"

definition job_instance :: "gostring \<Rightarrow> gostring \<Rightarrow> LabelSet \<Rightarrow> bool" where
  "job_instance job inst ls \<longleftrightarrow>
     \<not> (job \<noteq> [] \<and> label_of ls ''job'' \<noteq> job) \<and> \<not> (inst \<noteq> [] \<and> label_of ls ''instance'' \<noteq> inst)"

definition targetsList_Execute :: "prom_env \<Rightarrow> ctx \<Rightarrow> prom_api clientImpl option \<Rightarrow> gmap \<Rightarrow> gvalue outcome" where
  "targetsList_Execute env ctx client params =
     with_client client (\<lambda>c.
     and_then (attempt (OptionalString params ''state'' ''any'')) (\<lambda>state.
     and_then (stop_if (state \<notin> set [''active'', ''dropped'', ''any''])
       (parameter_must ''state'' ''one of active, dropped, any'')) (\<lambda>_.
     and_then (attempt (OptionalString params ''job'' [])) (\<lambda>job.
     and_then (attempt (OptionalString params ''instance'' [])) (\<lambda>inst.
     and_then (bounded_limit (env_oor env) params (gp_MaxReturnedSeries (policy c))) (\<lambda>limit.
     and_then (clientImpl_Targets env ctx c) (\<lambda>result.
     let active = (if state = ''active'' \<or> state = ''any''
                   then map (active_target env) (filter (\<lambda>t. job_instance job inst (at_Labels t)) (tr_Active result))
                   else []);
         dropped = (if state = ''dropped'' \<or> state = ''any''
                    then map dropped_target (filter (job_instance job inst) (tr_Dropped result)) else []) in
     and_then (truncate_to limit (active @ dropped)) (\<lambda>(targets, truncated).
     Go (counted ''targets'' (VList targets) (length targets) truncated)))))))))"

definition targetGet_Execute :: "prom_env \<Rightarrow> ctx \<Rightarrow> prom_api clientImpl option \<Rightarrow> gmap \<Rightarrow> gvalue outcome" where
  "targetGet_Execute env ctx client params =
     with_client client (\<lambda>c.
     and_then (attempt (OptionalString params ''job'' [])) (\<lambda>job.
     and_then (attempt (OptionalString params ''instance'' [])) (\<lambda>inst.
     and_then (attempt (OptionalString params ''scrape_pool'' [])) (\<lambda>scrapePool.
     and_then (stop_if (job = [] \<and> inst = [] \<and> scrapePool = [])
       ''at least one of job, instance, scrape_pool must be provided'') (\<lambda>_.
     and_then (clientImpl_Targets env ctx c) (\<lambda>result.
     (case find (\<lambda>t. job_instance job inst (at_Labels t) \<and> \<not> (scrapePool \<noteq> [] \<and> at_ScrapePool t \<noteq> scrapePool))
             (tr_Active result) of
        Some tgt \<Rightarrow> Go (active_target env tgt) | None \<Rightarrow> Stop ''target not found'')))))))"

text \<open>The counts of a pool: total, healthy, unhealthy, dropped.\<close>

type_synonym poolCounts = "int \<times> int \<times> int \<times> int"

definition bump :: "(poolCounts \<Rightarrow> poolCounts) \<Rightarrow> gostring \<Rightarrow> (gostring \<times> poolCounts) list \<Rightarrow> (gostring \<times> poolCounts) list" where
  "bump f pool pools =
     AList.update pool (f (case map_of pools pool of Some p \<Rightarrow> p | None \<Rightarrow> (0, 0, 0, 0))) pools"

definition count_active :: "ActiveTarget \<Rightarrow> (gostring \<times> poolCounts) list \<Rightarrow> (gostring \<times> poolCounts) list" where
  "count_active tgt =
     bump (\<lambda>(n, h, u, d). if at_Health tgt = ''up'' then (n + 1, h + 1, u, d) else (n + 1, h, u + 1, d)) (at_ScrapePool tgt)"

definition count_dropped :: "LabelSet \<Rightarrow> (gostring \<times> poolCounts) list \<Rightarrow> (gostring \<times> poolCounts) list" where
  "count_dropped discovered =
     (let pool = label_of discovered ''scrape_pool'';
          pool1 = (if pool = [] then label_of discovered ''job'' else pool)
      in bump (\<lambda>(n, h, u, d). (n + 1, h, u, d + 1)) pool1)"

definition pool_counts :: "TargetsResult \<Rightarrow> (gostring \<times> poolCounts) list" where
  "pool_counts result = fold count_dropped (tr_Dropped result) (fold count_active (tr_Active result) [])"

definition pool_item :: "bool \<Rightarrow> gostring \<Rightarrow> poolCounts \<Rightarrow> gvalue" where
  "pool_item includeCounts name = (\<lambda>(n, h, u, d).
     VMap ((''name'', VString name) #
       (if includeCounts
        then [(''total'', VInt n), (''healthy'', VInt h), (''unhealthy'', VInt u), (''dropped'', VInt d)] else [])))"

definition scrapePoolsList_Execute :: "prom_env \<Rightarrow> ctx \<Rightarrow> prom_api clientImpl option \<Rightarrow> gmap \<Rightarrow> gvalue outcome" where
  "scrapePoolsList_Execute env ctx client params =
     with_client client (\<lambda>c.
     and_then (attempt (OptionalBool params ''include_counts'' True)) (\<lambda>includeCounts.
     and_then (clientImpl_Targets env ctx c) (\<lambda>result.
     let pools = pool_counts result;
         items = map (\<lambda>name. pool_item includeCounts name (case map_of pools name of Some p \<Rightarrow> p | None \<Rightarrow> (0, 0, 0, 0)))
                   (env_visit env (map fst pools)) in
     Go (VMap [(''pools'', VList items), (''count'', VInt (int (length items)))]))))"

section \<open>Status\<close>

definition statusRuntime_Execute :: "prom_env \<Rightarrow> ctx \<Rightarrow> prom_api clientImpl option \<Rightarrow> gmap \<Rightarrow> gvalue outcome" where
  "statusRuntime_Execute env ctx client params =
     with_client client (\<lambda>c.
     and_then (clientImpl_Runtimeinfo env ctx c) (\<lambda>info.
     and_then (clientImpl_Buildinfo env ctx c) (\<lambda>build.
     Go (VMap [(''version'', VString (bi_Version build)), (''build_revision'', VString (bi_Revision build)),
               (''build_branch'', VString (bi_Branch build)), (''build_date'', VString (bi_BuildDate build)),
               (''go_version'', VString (bi_GoVersion build)),
               (''start_time'', VString (formatTime env (ri_StartTime info))),
               (''storage_retention'', VString (ri_StorageRetention info))]))))"

definition statsToMaps :: "Stat list \<Rightarrow> int \<Rightarrow> gvalue" where
  "statsToMaps stats0 limit =
     (let stats = (if limit > 0 \<and> int (length stats0) > limit then take (nat limit) stats0 else stats0)
      in VList (map (\<lambda>(name, v). VMap [(''name'', VString name), (''value'', VUint64 v)]) stats))"

definition statusTsdb_Execute :: "prom_env \<Rightarrow> ctx \<Rightarrow> prom_api clientImpl option \<Rightarrow> gmap \<Rightarrow> gvalue outcome" where
  "statusTsdb_Execute env ctx client params =
     with_client client (\<lambda>c.
     and_then (attempt (OptionalInt (env_oor env) params ''limit'' 0)) (\<lambda>limit0.
     and_then (stop_if (limit0 < 0) (parameter_must ''limit'' ''greater than or equal to 0'')) (\<lambda>_.
     let mx = gp_MaxMetadataResults (policy c); limit = (if limit0 > mx then mx else limit0) in
     and_then (clientImpl_TSDB env ctx c) (\<lambda>result.
     let longer = (\<lambda>stats :: Stat list. int (length stats) > limit) in
     Go (VMap
       [(''head_stats'', VMap [(''num_series'', VInt (tsdb_NumSeries result)),
           (''num_label_pairs'', VInt (tsdb_NumLabelPairs result)), (''chunk_count'', VInt (tsdb_ChunkCount result)),
           (''min_time'', VInt (tsdb_MinTime result)), (''max_time'', VInt (tsdb_MaxTime result))]),
        (''series_count_by_metric_name'', statsToMaps (tsdb_SeriesCountByMetricName result) limit),
        (''label_value_count_by_label_name'', statsToMaps (tsdb_LabelValueCountByLabelName result) limit),
        (''memory_in_bytes_by_label_name'', statsToMaps (tsdb_MemoryInBytesByLabelName result) limit),
        (''series_count_by_label_value_pair'', statsToMaps (tsdb_SeriesCountByLabelValuePair result) limit),
        (''truncated'', VBool (limit > 0 \<and>
           (longer (tsdb_SeriesCountByMetricName result) \<or> longer (tsdb_LabelValueCountByLabelName result) \<or>
            longer (tsdb_MemoryInBytesByLabelName result) \<or> longer (tsdb_SeriesCountByLabelValuePair result))))])))))"

definition statusFlags_Execute :: "prom_env \<Rightarrow> ctx \<Rightarrow> prom_api clientImpl option \<Rightarrow> gmap \<Rightarrow> gvalue outcome" where
  "statusFlags_Execute env ctx client params =
     with_client client (\<lambda>c.
     and_then (clientImpl_Flags env ctx c) (\<lambda>flags. Go (VMap [(''flags'', VStrMap flags)])))"

definition statusReady_Execute :: "prom_env \<Rightarrow> ctx \<Rightarrow> prom_api clientImpl option \<Rightarrow> gmap \<Rightarrow> gvalue outcome" where
  "statusReady_Execute env ctx client params =
     with_client client (\<lambda>c.
     and_then (clientImpl_Ready env ctx c) (\<lambda>ready. Go (VMap [(''ready'', VBool ready)])))"

definition statusHealthy_Execute :: "prom_env \<Rightarrow> ctx \<Rightarrow> prom_api clientImpl option \<Rightarrow> gmap \<Rightarrow> gvalue outcome" where
  "statusHealthy_Execute env ctx client params =
     with_client client (\<lambda>c.
     and_then (clientImpl_Healthy env ctx c) (\<lambda>healthy. Go (VMap [(''healthy'', VBool healthy)])))"

text \<open>\<open>yaml.Unmarshal\<close> into a map gives the nil map for an empty document.\<close>

definition parseConfigYAML :: "prom_env \<Rightarrow> gostring \<Rightarrow> gostring + gmap" where
  "parseConfigYAML env yamlStr =
     (case env_unmarshal env yamlStr of
        Inl err \<Rightarrow> Inl (''parse prometheus config: '' @ err)
      | Inr None \<Rightarrow> Inr []
      | Inr (Some cfg) \<Rightarrow> Inr cfg)"

definition sensitiveKeys :: "gostring list" where
  "sensitiveKeys =
     [''bearer_token'', ''bearer_token_file'', ''password'', ''password_file'', ''credentials'',
      ''credentials_file'', ''client_secret'', ''client_id'', ''token'']"

fun redactValue :: "gvalue \<Rightarrow> gostring \<Rightarrow> gvalue" where
  "redactValue (VMap m) key =
     (if key \<in> set sensitiveKeys then VString ''[REDACTED]''
      else VMap (map (\<lambda>kv. (fst kv, redactValue (snd kv) (fst kv))) m))"
| "redactValue (VList vs) key =
     (if key \<in> set sensitiveKeys then VString ''[REDACTED]'' else VList (map (\<lambda>v. redactValue v []) vs))"
| "redactValue v key = (if key \<in> set sensitiveKeys then VString ''[REDACTED]'' else v)"

definition redactConfig :: "gmap \<Rightarrow> gmap" where
  "redactConfig cfg = map (\<lambda>kv. (fst kv, redactValue (snd kv) (fst kv))) cfg"

definition statusConfig_Execute :: "prom_env \<Rightarrow> ctx \<Rightarrow> prom_api clientImpl option \<Rightarrow> gmap \<Rightarrow> gvalue outcome" where
  "statusConfig_Execute env ctx client params =
     with_client client (\<lambda>c.
     and_then (attempt (OptionalBool params ''redact_secrets'' True)) (\<lambda>redact.
     and_then (clientImpl_Config env ctx c) (\<lambda>yamlStr.
     and_then (attempt (parseConfigYAML env yamlStr)) (\<lambda>cfg.
     Go (VMap [(''config'', VMap (if redact then redactConfig cfg else cfg))])))))"

section \<open>Dispatch\<close>

type_synonym prom_task = "prom_env \<Rightarrow> ctx \<Rightarrow> prom_api clientImpl option \<Rightarrow> gmap \<Rightarrow> gvalue outcome"

definition prometheus_bodies ::
  "(gostring \<times> prom_task) list" where
  "prometheus_bodies =
     [(''prometheus.query.instant'', queryInstant_Execute),
      (''prometheus.query.range'', queryRange_Execute),
      (''prometheus.series.list'', seriesList_Execute),
      (''prometheus.labels.list'', labelsList_Execute),
      (''prometheus.label.values'', labelValues_Execute),
      (''prometheus.metadata.get'', metadataGet_Execute),
      (''prometheus.metric.names'', metricNames_Execute),
      (''prometheus.alerts.list'', alertsList_Execute),
      (''prometheus.rules.list'', rulesList_Execute),
      (''prometheus.targets.list'', targetsList_Execute),
      (''prometheus.target.get'', targetGet_Execute),
      (''prometheus.target.metadata'', targetMetadata_Execute),
      (''prometheus.scrape_pools.list'', scrapePoolsList_Execute),
      (''prometheus.exemplars.query'', exemplarsQuery_Execute),
      (''prometheus.status.runtime'', statusRuntime_Execute),
      (''prometheus.status.tsdb'', statusTsdb_Execute),
      (''prometheus.status.flags'', statusFlags_Execute),
      (''prometheus.status.config'', statusConfig_Execute),
      (''prometheus.status.ready'', statusReady_Execute),
      (''prometheus.status.healthy'', statusHealthy_Execute)]"

lemma prometheus_bodies_tasks: "map fst prometheus_bodies = Prometheus_tasks"
  by (simp add: prometheus_bodies_def Prometheus_tasks_def)

text \<open>A task of the provider is its body.\<close>

definition prometheus_task :: "gostring \<Rightarrow> prom_task" where
  "prometheus_task name = the (map_of prometheus_bodies name)"

text \<open>
  One execution: the task reads the provider's current client. \<open>None\<close> is a panic, which in the
  goroutine of an execution ends the process.
\<close>

definition Prometheus_Execute ::
  "prom_env \<Rightarrow> ctx \<Rightarrow> (prom_api, prom_task) PrometheusProvider \<Rightarrow> prom_task \<Rightarrow> gmap \<Rightarrow> task_Result option" where
  "Prometheus_Execute env ctx p body params = run_task (env_now env) (body env ctx (CurrentClient p) params)"

end
