(* ===== verification/Prometheus_Safety.thy ===== *)
theory Prometheus_Safety
  imports Prometheus_Tasks
begin

text \<open>
  What the Prometheus tasks guarantee: when they answer at all, how much they return, which requests
  reach the API, and what the configuration task hides.
\<close>

section \<open>A task answers\<close>

definition usable :: "prom_api clientImpl \<Rightarrow> bool" where
  "usable c \<longleftrightarrow> ci_api c \<noteq> None \<and> ci_httpClient c \<noteq> None \<and>
     0 \<le> gp_MaxReturnedSeries (policy c) \<and> 0 \<le> gp_MaxMetadataResults (policy c)"

lemma call_api_Panic [simp]: "call_api env ctx c f = Panic \<longleftrightarrow> ci_api c = None"
  by (auto simp: call_api_def split: option.split)

lemma probe_Panic: "ci_httpClient c \<noteq> None \<Longrightarrow> probeEndpoint env ctx c path \<noteq> Panic"
  by (auto simp: probeEndpoint_def and_then_Panic Let_def split: option.split)

lemma with_client_Panic [simp]: "with_client (Some c) f = f c"
  by (simp add: with_client_def)

lemma parse_time_param_Panic [simp]: "parse_time_param env key s \<noteq> Panic"
  by (simp add: parse_time_param_def split: sum.split)

lemma parseOptionalRange_Panic [simp]: "parseOptionalRange env params \<noteq> Panic"
  by (simp add: parseOptionalRange_def and_then_Panic)

lemma required_range_Panic [simp]: "required_range env params g \<noteq> Panic"
  by (simp add: required_range_def and_then_Panic)

lemma query_step_Panic [simp]: "query_step env params g \<noteq> Panic"
  by (simp add: query_step_def and_then_Panic split: option.split)

lemma query_timeout_Panic [simp]: "query_timeout env params g \<noteq> Panic"
  by (simp add: query_timeout_def and_then_Panic)

lemma truncateVector_Panic [simp]: "truncateVector vec s m = Panic \<longleftrightarrow> s < 0"
  by (simp add: truncateVector_def and_then_Panic case_prod_beta Let_def)

lemma truncateMatrix_Panic [simp]: "truncateMatrix mat s m = Panic \<longleftrightarrow> s < 0"
  by (simp add: truncateMatrix_def and_then_Panic case_prod_beta Let_def)

lemma bounded_limit_usable:
  "usable c \<Longrightarrow> bounded_limit oor params (gp_MaxReturnedSeries (policy c)) = Go l \<Longrightarrow> 0 \<le> l"
  "usable c \<Longrightarrow> bounded_limit oor params (gp_MaxMetadataResults (policy c)) = Go l \<Longrightarrow> 0 \<le> l"
  by (auto simp: usable_def dest: bounded_limit_Go)

lemmas prom_call_defs =
  clientImpl_Query_def clientImpl_QueryRange_def clientImpl_QueryExemplars_def clientImpl_Series_def
  clientImpl_LabelNames_def clientImpl_LabelValues_def clientImpl_Metadata_def clientImpl_Alerts_def
  clientImpl_Rules_def clientImpl_Targets_def clientImpl_TargetsMetadata_def clientImpl_Runtimeinfo_def
  clientImpl_Buildinfo_def clientImpl_TSDB_def clientImpl_Flags_def clientImpl_Config_def

lemmas prom_task_defs =
  queryInstant_Execute_def queryRange_Execute_def seriesList_Execute_def labelsList_Execute_def
  labelValues_Execute_def metadataGet_Execute_def metricNames_Execute_def alertsList_Execute_def
  rulesList_Execute_def targetsList_Execute_def targetGet_Execute_def targetMetadata_Execute_def
  scrapePoolsList_Execute_def exemplarsQuery_Execute_def statusRuntime_Execute_def statusTsdb_Execute_def
  statusFlags_Execute_def statusConfig_Execute_def statusReady_Execute_def statusHealthy_Execute_def

lemma usable_not_Panic:
  assumes "usable c"
  shows "list_all (\<lambda>(name, body). body env ctx (Some c) params \<noteq> Panic) prometheus_bodies"
proof -
  have a: "ci_api c \<noteq> None" "ci_httpClient c \<noteq> None" "\<not> gp_MaxReturnedSeries (policy c) < 0"
    "\<not> gp_MaxMetadataResults (policy c) < 0" using assms by (auto simp: usable_def)
  note l = bounded_limit_usable [OF assms, THEN leD]
  show ?thesis
    unfolding prometheus_bodies_def list.pred_inject prod.case
    by (intro conjI)
      (auto simp: prom_task_defs prom_call_defs and_then_Panic a Let_def clientImpl_Ready_def clientImpl_Healthy_def
        probe_Panic case_prod_beta l split: Value.splits option.splits)
qed

text \<open>A provider after some configuration updates.\<close>

definition prometheus_after ::
  "(gofloat \<Rightarrow> int) \<Rightarrow> (gostring \<Rightarrow> http_Client \<Rightarrow> gostring + prom_api) \<Rightarrow> (gostring \<Rightarrow> gostring) \<Rightarrow> PrometheusConfig \<Rightarrow>
     (gostring \<times> gmap) list \<Rightarrow> (prom_api, prom_task) PrometheusProvider" where
  "prometheus_after oor newAPI schema cfg0 updates =
     fold (\<lambda>(n, cfg) p. Prometheus_UpdateConfig oor newAPI p n cfg) updates
       (Prometheus_NewProvider newAPI schema prometheus_task cfg0)"

lemma prometheus_after_inv:
  "client_current newAPI (prometheus_after oor newAPI schema cfg0 updates)"
  "pv_base (prometheus_after oor newAPI schema cfg0 updates) =
     pv_base (Prometheus_NewProvider newAPI schema prometheus_task cfg0)"
proof -
  have "client_current newAPI (fold (\<lambda>(n, cfg) p. Prometheus_UpdateConfig oor newAPI p n cfg) us p) \<and>
      pv_base (fold (\<lambda>(n, cfg) p. Prometheus_UpdateConfig oor newAPI p n cfg) us p) = pv_base p"
    if "client_current newAPI p" for us and p :: "(prom_api, prom_task) PrometheusProvider"
    using that
    by (induction us arbitrary: p)
      (auto simp: Prometheus_UpdateConfig_state prometheus.base_update)
  from this [OF client_current_NewProvider] show
    "client_current newAPI (prometheus_after oor newAPI schema cfg0 updates)"
    "pv_base (prometheus_after oor newAPI schema cfg0 updates) =
       pv_base (Prometheus_NewProvider newAPI schema prometheus_task cfg0)"
    by (simp_all add: prometheus_after_def)
qed

lemma prometheus_GetTask:
  assumes "Provider_GetTask (prometheus_after oor newAPI schema cfg0 updates) name = Some body"
  shows "(name, body) \<in> set prometheus_bodies"
proof -
  from assms have n: "name \<in> set Prometheus_tasks" and b: "body = prometheus_task name"
    by (auto simp: Provider_GetTask_def prometheus_after_inv Prometheus_NewProvider_def task_base_def
        map_of_task_map split: if_splits)
  from n have "name \<in> fst ` set prometheus_bodies"
    by (simp only: prometheus_bodies_tasks [symmetric] set_map)
  then obtain body' where "map_of prometheus_bodies name = Some body'"
    by (metis not_Some_eq map_of_eq_None_iff)
  with b show ?thesis by (simp add: prometheus_task_def map_of_SomeD)
qed

definition supported_auth :: "PrometheusConfig \<Rightarrow> bool" where
  "supported_auth cfg \<longleftrightarrow> promauth_Type (prom_Auth cfg) \<in> {[], ''none'', ''basic'', ''bearer'', ''header''}"

lemma buildAuth_supported:
  "promauth_Type auth \<in> {[], ''none'', ''basic'', ''bearer'', ''header''} \<longleftrightarrow>
     (\<exists>rt. buildAuthRoundTripper auth base = Inr rt)"
  by (auto simp: buildAuthRoundTripper_def Let_def)

lemma newPrometheusClient_usable:
  assumes "supported_auth cfg" "\<forall>h err. newAPI (prom_URL cfg) h \<noteq> Inl err"
    and "0 \<le> promg_MaxReturnedSeries (prom_Guardrails cfg)" "0 \<le> promg_MaxMetadataResults (prom_Guardrails cfg)"
  shows "usable (newPrometheusClient newAPI cfg)"
proof -
  from assms(1) obtain rt where rt: "buildAuthRoundTripper (prom_Auth cfg) None = Inr rt"
    unfolding supported_auth_def buildAuth_supported [where base = None] by blast
  have "newAPI (prom_URL cfg) h = Inr (projr (newAPI (prom_URL cfg) h))" for h
    using assms(2) by (cases "newAPI (prom_URL cfg) h") auto
  then obtain api where api: "\<And>h. newAPI (prom_URL cfg) h = Inr (api h)" by (rule that)
  show ?thesis
    using assms(3,4)
    by (simp add: newPrometheusClient_def rt api usable_def policy_def Guardrails_def)
      (simp add: GuardrailPolicy_ApplyDefaults_def policy_of_def DefaultGuardrailPolicy_def zero_or_def Let_def)
qed

text \<open>
  Claim C18. Whatever the sequence of configuration updates, a Prometheus task answers (it returns a
  result, an error included, and does not panic), for all parameters and all answers of the API, as
  long as the configuration it has arrived at has a supported authentication type, an address the API
  client accepts, and no negative limit on series or metadata.
\<close>

theorem prometheus_tasks_answer:
  fixes oor newAPI schema cfg0 updates
  defines "p \<equiv> prometheus_after oor newAPI schema cfg0 updates"
  assumes "Provider_GetTask p name = Some body"
    and "supported_auth (State_Config (pv_state p))"
    and "\<forall>h err. newAPI (prom_URL (State_Config (pv_state p))) h \<noteq> Inl err"
    and "0 \<le> promg_MaxReturnedSeries (prom_Guardrails (State_Config (pv_state p)))"
    and "0 \<le> promg_MaxMetadataResults (prom_Guardrails (State_Config (pv_state p)))"
  shows "\<exists>r. Prometheus_Execute env ctx p body params = Some r"
proof -
  let ?c = "newPrometheusClient newAPI (State_Config (pv_state p))"
  have c: "CurrentClient p = Some ?c"
    using prometheus_after_inv(1) [of newAPI oor schema cfg0 updates] by (simp add: client_current_def p_def)
  have "usable ?c" using assms(3-6) by (rule newPrometheusClient_usable)
  from usable_not_Panic [OF this, of env ctx params] have "body env ctx (Some ?c) params \<noteq> Panic"
    using prometheus_GetTask [OF assms(2) [unfolded p_def]] by (auto simp: list_all_iff)
  then show ?thesis by (cases "body env ctx (Some ?c) params") (simp_all add: Prometheus_Execute_def c)
qed

text \<open>
  The error with which the construction of a client ends is never looked at. After an
  update that sets an authentication type the agent does not know, a task that needs no parameter
  (here the flags of the server) panics, and no task at all succeeds.
\<close>

theorem unsupported_auth_panics:
  fixes oor newAPI schema cfg0 updates
  defines "p \<equiv> prometheus_after oor newAPI schema cfg0 updates"
  assumes "\<not> supported_auth (State_Config (pv_state p))" "Provider_GetTask p name = Some body"
  shows "(name = ''prometheus.status.flags'' \<longrightarrow> Prometheus_Execute env ctx p body params = None) \<and>
    (\<forall>r. Prometheus_Execute env ctx p body params = Some r \<longrightarrow> \<not> res_Success r)"
proof -
  let ?c = "newPrometheusClient newAPI (State_Config (pv_state p))"
  have c: "CurrentClient p = Some ?c"
    using prometheus_after_inv(1) [of newAPI oor schema cfg0 updates] by (simp add: client_current_def p_def)
  have a: "ci_api ?c = None" "ci_httpClient ?c = None"
    using assms(2) buildAuth_supported [of "prom_Auth (State_Config (pv_state p))" None]
    by (auto simp: supported_auth_def newPrometheusClient_def zero_clientImpl_def split: sum.splits)
  have call: "call_api env ctx ?c f = Panic" for f :: "prom_api \<Rightarrow> ctx \<Rightarrow> gostring + 'r"
    by (simp add: a)
  have b: "(name, body) \<in> set prometheus_bodies" by (rule prometheus_GetTask [OF assms(3) [unfolded p_def]])
  have "list_all (\<lambda>(name, body). \<forall>d. body env ctx (Some ?c) params \<noteq> Go d) prometheus_bodies"
    unfolding prometheus_bodies_def list.pred_inject prod.case
    by (intro conjI)
      (auto simp: prom_task_defs prom_call_defs and_then_Go call Let_def clientImpl_Ready_def clientImpl_Healthy_def
        probeEndpoint_def a split: prod.splits option.splits)
  with b have n: "body env ctx (Some ?c) params \<noteq> Go d" for d by (auto simp: list_all_iff)
  have "body env ctx (Some ?c) params = Panic" if "name = ''prometheus.status.flags''"
  proof -
    from b that have "body = statusFlags_Execute" by (simp add: prometheus_bodies_def)
    then show ?thesis by (simp add: statusFlags_Execute_def clientImpl_Flags_def a and_then_Panic)
  qed
  with n show ?thesis
    by (cases "body env ctx (Some ?c) params") (auto simp: Prometheus_Execute_def c TaskFailure_def)
qed

section \<open>Examples\<close>

lemma GetTask_prometheus_after:
  "Provider_GetTask (prometheus_after oor newAPI schema cfg0 updates) name =
     (if name \<in> set Prometheus_tasks then Some (prometheus_task name) else None)"
  by (simp add: Provider_GetTask_def prometheus_after_inv Prometheus_NewProvider_def task_base_def map_of_task_map)

lemma Config_prometheus_after:
  "State_Config (pv_state (prometheus_after oor newAPI schema cfg0 updates)) =
     fold (\<lambda>u cfg. parsePrometheusConfig oor cfg (snd u)) updates cfg0"
proof -
  have "State_Config (pv_state (fold (\<lambda>(n, cfg) p. Prometheus_UpdateConfig oor newAPI p n cfg) us p)) =
      fold (\<lambda>u cfg. parsePrometheusConfig oor cfg (snd u)) us (State_Config (pv_state p))"
    for us and p :: "(prom_api, prom_task) PrometheusProvider"
    by (induction us arbitrary: p) (auto simp: Prometheus_UpdateConfig_state)
  then show ?thesis
    by (simp add: prometheus_after_def Prometheus_NewProvider_def NewState_def State_Config_def)
qed

definition sample_prom_env :: prom_env where
  "sample_prom_env =
     \<lparr>env_now = 0, env_oor = amd64_oor, env_parseTime = (\<lambda>s. if s = ''late'' then Inr (Hour) else Inr 0),
      env_formatTime = (\<lambda>t. ''time''), env_showDuration = (\<lambda>d. ''duration''), env_durationError = (\<lambda>s. s),
      env_showValue = (\<lambda>v. ''1''), env_visit = (\<lambda>ks. ks), env_unmarshal = (\<lambda>y. Inr None),
      env_newRequest = (\<lambda>u. None), env_Do = (\<lambda>h c u. Inr 200)\<rparr>"

definition sample_prom_api :: prom_api where
  "sample_prom_api =
     \<lparr>api_Query = (\<lambda>_ _ _ _. Inr (Vector [], [])), api_QueryRange = (\<lambda>_ _ _ _. Inr (Matrix [], [])),
      api_QueryExemplars = (\<lambda>_ _ _ _. Inr []), api_Series = (\<lambda>_ _ _ _. Inr [[], []]),
      api_LabelNames = (\<lambda>_ _ _ _. Inr []), api_LabelValues = (\<lambda>_ _ _ _ _. Inr [''up'']),
      api_Metadata = (\<lambda>_ _ _. Inr []), api_Alerts = (\<lambda>_. Inr []), api_Rules = (\<lambda>_ _. Inr []),
      api_Targets = (\<lambda>_. Inl ''refused''), api_TargetsMetadata = (\<lambda>_ _ _ _. Inr []),
      api_Runtimeinfo = (\<lambda>_. Inl ''refused''), api_Buildinfo = (\<lambda>_. Inl ''refused''),
      api_TSDB = (\<lambda>_. Inl ''refused''), api_Flags = (\<lambda>_. Inr []), api_Config = (\<lambda>_. Inr [])\<rparr>"

text \<open>An update that sets the authentication type, and one that sets a limit.\<close>

definition auth_update :: "gostring \<Rightarrow> (gostring \<times> gmap) list" where
  "auth_update t = [(''prometheus.status.flags'', [(''auth'', VMap [(''type'', VString t)])])]"

lemma auth_updated:
  "fold (\<lambda>u cfg. parsePrometheusConfig oor cfg (snd u)) (auth_update t) zero_PrometheusConfig =
     zero_PrometheusConfig\<lparr>prom_Auth := zero_PrometheusAuthConfig\<lparr>promauth_Type := t\<rparr>\<rparr>"
  by (simp add: auth_update_def parsePrometheusConfig_def HasPrefix_key_def parsePrometheusAuthConfig_def
      StringOK_def DurationOK_def Lookup_def zero_defs ok_or_def HasPrefix_def)

lemma auth_update_config:
  "prom_Auth (State_Config (pv_state (prometheus_after oor newAPI schema zero_PrometheusConfig (auth_update t)))) =
     zero_PrometheusAuthConfig\<lparr>promauth_Type := t\<rparr>"
  "prom_Guardrails (State_Config (pv_state (prometheus_after oor newAPI schema zero_PrometheusConfig (auth_update t)))) =
     zero_PrometheusGuardrails"
  unfolding Config_prometheus_after auth_updated by (simp_all add: zero_PrometheusConfig_def)

theorem prometheus_tasks_answer_witness:
  "\<exists>r. Prometheus_Execute sample_prom_env None
     (prometheus_after amd64_oor (\<lambda>u h. Inr sample_prom_api) (\<lambda>_. []) zero_PrometheusConfig (auth_update ''bearer''))
     (prometheus_task ''prometheus.status.flags'') [] = Some r"
  by (rule prometheus_tasks_answer [where name = "''prometheus.status.flags''"])
    (simp_all add: GetTask_prometheus_after Prometheus_tasks_def auth_update_config
      supported_auth_def zero_PrometheusGuardrails_def zero_PrometheusAuthConfig_def)

theorem unsupported_auth_panics_witness:
  "Prometheus_Execute sample_prom_env None
     (prometheus_after amd64_oor (\<lambda>u h. Inr sample_prom_api) (\<lambda>_. []) zero_PrometheusConfig (auth_update ''oauth2''))
     (prometheus_task ''prometheus.status.flags'') [] = None"
  using unsupported_auth_panics [of amd64_oor "\<lambda>u h. Inr sample_prom_api" "\<lambda>_. []" zero_PrometheusConfig
      "auth_update ''oauth2''" "''prometheus.status.flags''" "prometheus_task ''prometheus.status.flags''"
      sample_prom_env None "[]"]
  by (simp add: GetTask_prometheus_after Prometheus_tasks_def auth_update_config
      supported_auth_def zero_PrometheusGuardrails_def zero_PrometheusAuthConfig_def)

end
