(* ===== verification/Prometheus_Bounds.thy ===== *)
theory Prometheus_Bounds
  imports Prometheus_Safety
begin

text \<open>
  Bounds on what the Prometheus tasks request and return: which range queries reach the API, what the
  timeout parameter does, how results are cut, and what the configuration task hides.
\<close>

section \<open>Which requests reach the API\<close>

definition permitted :: "prom_env \<Rightarrow> prom_api clientImpl \<Rightarrow> ctx \<Rightarrow> query_Range \<Rightarrow> api_Option list \<Rightarrow> bool" where
  "permitted env c ctx r opts \<longleftrightarrow>
     rg_Start r < rg_End r \<and> time_Sub (rg_End r) (rg_Start r) \<le> gp_MaxQueryRange (policy c) \<and>
     gp_MinStep (policy c) \<le> rg_Step r \<and>
     (\<exists>deadline. ctx = Some deadline \<and> deadline \<le> env_now env + gp_QueryTimeout (ci_guardrails c)) \<and>
     last opts = WithTimeout (gp_QueryTimeout (ci_guardrails c)) \<and>
     WithLimit (gp_MaxReturnedSeries (policy c) mod 2 ^ 64) \<in> set opts"

lemma required_range_Go:
  "required_range env params g = Go (start, endT) \<Longrightarrow> start < endT \<and> time_Sub endT start \<le> gp_MaxQueryRange g"
  by (auto simp: required_range_def and_then_Go)

lemma query_step_Go: "query_step env params g = Go step \<Longrightarrow> gp_MinStep g \<le> step"
  by (auto simp: query_step_def and_then_Go split: if_splits option.splits)

text \<open>
  Claim C19. A range query goes out only under the policy: two backends that agree on the permitted
  requests (a range that is not empty and not longer than the maximum, a step of at least the minimum,
  a deadline within the query timeout, the series limit) cannot be told apart by the task, whatever
  its parameters are.
\<close>

theorem range_query_confined:
  assumes "\<forall>ctx1 q r opts. permitted env c ctx1 r opts \<longrightarrow> api_QueryRange a ctx1 q r opts = api_QueryRange b ctx1 q r opts"
  shows "queryRange_Execute env ctx (Some (c\<lparr>ci_api := Some a\<rparr>)) params =
    queryRange_Execute env ctx (Some (c\<lparr>ci_api := Some b\<rparr>)) params"
proof -
  have pol: "policy (c\<lparr>ci_api := x\<rparr>) = policy c" for x by (simp add: policy_def Guardrails_def)
  have call: "clientImpl_QueryRange env ctx (c\<lparr>ci_api := Some a\<rparr>) q
        \<lparr>rg_Start = start, rg_End = endT, rg_Step = step\<rparr> (query_options timeout (policy c)) =
      clientImpl_QueryRange env ctx (c\<lparr>ci_api := Some b\<rparr>) q
        \<lparr>rg_Start = start, rg_End = endT, rg_Step = step\<rparr> (query_options timeout (policy c))"
    if "required_range env params (policy c) = Go (start, endT)" "query_step env params (policy c) = Go step"
    for q start endT step timeout
    using assms required_range_Go [OF that(1)] query_step_Go [OF that(2)]
    by (auto simp: clientImpl_QueryRange_def call_api_def permitted_def query_options_def context_WithTimeout_def
        Let_def split: option.splits)
  show ?thesis
    unfolding queryRange_Execute_def with_client_Panic pol Let_def
    by (intro and_then_cong refl) (auto simp: call intro!: and_then_cong)
qed

definition sample_prom_client :: "prom_api clientImpl" where
  "sample_prom_client =
     \<lparr>ci_api = Some sample_prom_api, ci_guardrails = DefaultGuardrailPolicy, ci_baseURL = [],
      ci_httpClient = None, ci_initErr = None\<rparr>"

text \<open>The backend that refuses every request outside the policy.\<close>

definition strict_api :: "prom_env \<Rightarrow> prom_api clientImpl \<Rightarrow> prom_api \<Rightarrow> prom_api" where
  "strict_api env c a =
     a\<lparr>api_QueryRange := (\<lambda>ctx q r opts.
         if rg_End r - rg_Start r \<le> 7 * 24 * Hour \<and> rg_Step r \<ge> 15 * Second then api_QueryRange a ctx q r opts
         else Inl ''refused'')\<rparr>"

theorem range_query_confined_witness:
  "queryRange_Execute sample_prom_env None
     (Some (sample_prom_client\<lparr>ci_api := Some (strict_api sample_prom_env sample_prom_client sample_prom_api)\<rparr>))
     [(''query'', VString ''up''), (''start'', VString ''early''), (''end'', VString ''late'')] =
   queryRange_Execute sample_prom_env None (Some (sample_prom_client\<lparr>ci_api := Some sample_prom_api\<rparr>))
     [(''query'', VString ''up''), (''start'', VString ''early''), (''end'', VString ''late'')]"
proof (rule range_query_confined [of sample_prom_env], intro allI impI)
  fix ctx1 q r opts
  assume p: "permitted sample_prom_env sample_prom_client ctx1 r opts"
  have g: "gp_MaxQueryRange (policy sample_prom_client) = 168 * Hour"
      "gp_MinStep (policy sample_prom_client) = 15 * Second"
    by (simp_all add: policy_def Guardrails_def sample_prom_client_def GuardrailPolicy_ApplyDefaults_def
        DefaultGuardrailPolicy_def zero_or_def Let_def)
  from p g have "time_Sub (rg_End r) (rg_Start r) \<le> 168 * Hour" "15 * Second \<le> rg_Step r"
    by (simp_all add: permitted_def)
  then have "rg_End r - rg_Start r \<le> 7 * 24 * Hour \<and> 15 * Second \<le> rg_Step r"
    by (auto simp: time_Sub_def split: if_splits)
  then show "api_QueryRange (strict_api sample_prom_env sample_prom_client sample_prom_api) ctx1 q r opts =
      api_QueryRange sample_prom_api ctx1 q r opts"
    by (simp add: strict_api_def)
qed

text \<open>
  The options of a request as \<open>client_golang\<close> reads them: it applies them in order, so the last of a
  kind counts.
\<close>

definition effective :: "api_Option list \<Rightarrow> int option \<times> int option" where
  "effective opts =
     fold (\<lambda>opt (t, l). case opt of WithTimeout d \<Rightarrow> (Some d, l) | WithLimit n \<Rightarrow> (t, Some n)) opts (None, None)"

text \<open>
  The parameter \<open>timeout_seconds\<close> of an instant query has no effect beyond its own
  validation: the client appends the timeout of the policy, and the API takes the last one. Two
  parameter maps that differ only there, both accepted, give the same result.
\<close>

theorem query_timeout_ignored:
  assumes "\<forall>ctx1 q ts opts opts'. effective opts = effective opts' \<longrightarrow>
      api_Query api ctx1 q ts opts = api_Query api ctx1 q ts opts'"
    and "ci_api c = Some api"
    and "\<forall>k. k \<noteq> ''timeout_seconds'' \<longrightarrow> map_of params k = map_of params' k"
    and "query_timeout env params (policy c) = Go t" "query_timeout env params' (policy c) = Go t'"
  shows "queryInstant_Execute env ctx (Some c) params = queryInstant_Execute env ctx (Some c) params'"
proof -
  have eff: "effective (query_options u g @ [WithTimeout q]) = effective (query_options u' g @ [WithTimeout q])"
    for u u' g q by (simp add: effective_def query_options_def)
  have call: "clientImpl_Query env ctx c q ts (query_options t (policy c)) =
      clientImpl_Query env ctx c q ts (query_options t' (policy c))" for q ts
    by (simp add: clientImpl_Query_def call_api_def assms(2) assms(1) [rule_format, OF eff [of t _ _ t']])
  have reads: "RequireString params ''query'' = RequireString params' ''query''"
    "OptionalString params ''time'' [] = OptionalString params' ''time'' []"
    using assms(3) by (simp_all add: RequireString_def OptionalString_def)
  show ?thesis
    unfolding queryInstant_Execute_def with_client_Panic Let_def assms(4,5) reads and_then.simps call ..
qed

theorem query_timeout_ignored_witness:
  "queryInstant_Execute sample_prom_env None (Some sample_prom_client)
     [(''query'', VString ''up''), (''timeout_seconds'', VInt 1)] =
   queryInstant_Execute sample_prom_env None (Some sample_prom_client)
     [(''query'', VString ''up''), (''timeout_seconds'', VInt 20)]"
proof (rule query_timeout_ignored [where api = sample_prom_api and t = Second and t' = "20 * Second"])
  show "query_timeout sample_prom_env [(''query'', VString ''up''), (''timeout_seconds'', VInt 1)]
      (policy sample_prom_client) = Go Second" by code_simp
  show "query_timeout sample_prom_env [(''query'', VString ''up''), (''timeout_seconds'', VInt 20)]
      (policy sample_prom_client) = Go (20 * Second)" by code_simp
qed (simp_all add: sample_prom_client_def sample_prom_api_def)

section \<open>Cutting results\<close>

lemma vector_loop_take:
  "sofar \<le> maxSamples \<Longrightarrow> vector_loop maxSamples sofar vs =
     (take (nat (maxSamples - sofar)) vs, int (length vs) > maxSamples - sofar)"
proof (induction vs arbitrary: sofar)
  case (Cons v vs)
  show ?case
  proof (cases "sofar + 1 > maxSamples")
    case True
    with Cons.prems have "maxSamples - sofar = 0" by simp
    with True show ?thesis by simp
  next
    case False
    then have "nat (maxSamples - sofar) = Suc (nat (maxSamples - (sofar + 1)))" by simp
    with False Cons.IH [of "sofar + 1"] show ?thesis by auto
  qed
qed simp

text \<open>
  \<open>truncateVector\<close> keeps the longest prefix within both limits, and says so: with limits
  that are not negative the result is the first \<open>min maxSeries maxSamples\<close> elements, and the flag
  tells whether anything was dropped. A negative series limit panics on any vector.
\<close>

theorem truncateVector_spec:
  "truncateVector vec maxSeries maxSamples =
     (if maxSeries < 0 then Panic
      else if maxSamples < 0 then Go ([], vec \<noteq> [])
      else Go (take (nat (min maxSeries maxSamples)) vec, int (length vec) > min maxSeries maxSamples))"
proof -
  have neg: "vector_loop maxSamples 0 vs = ([], vs \<noteq> [])" if "maxSamples < 0" for vs :: "Sample list"
    using that by (cases vs) auto
  show ?thesis
    by (auto simp: truncateVector_def truncate_to_def slice_to_def vector_loop_take neg min_def nat_le_iff
        le_nat_iff split: if_splits)
qed

definition samples :: "SampleStream list \<Rightarrow> int" where
  "samples mat = (\<Sum>ss\<leftarrow>mat. int (length (str_Values ss)))"

lemma matrix_loop_facts:
  "matrix_loop mx sofar mat = (out, t) \<Longrightarrow>
     length out \<le> length mat \<and> (\<not> t \<longrightarrow> out = mat \<and> (sofar + samples mat \<le> mx \<or> mat = []))"
proof (induction mat arbitrary: sofar out t)
  case (Cons ss rest)
  obtain out' t' where r: "matrix_loop mx (sofar + int (length (str_Values ss))) rest = (out', t')"
    by (metis surj_pair)
  from Cons.IH [OF r] Cons.prems r show ?case
    by (auto simp: samples_def Let_def split: if_splits)
qed simp

text \<open>
  What \<open>truncateMatrix\<close> guarantees: at most \<open>maxSeries\<close> streams; and when it reports that
  nothing was cut, the matrix is the one given and is within both limits. (When it does cut, it may
  still return more samples than \<open>maxSamples\<close>.)
\<close>

theorem truncateMatrix_honest:
  assumes "truncateMatrix mat maxSeries maxSamples = Go (out, truncated)"
  shows "int (length out) \<le> maxSeries \<and>
    (\<not> truncated \<longrightarrow> out = mat \<and> int (length mat) \<le> maxSeries \<and> (samples mat \<le> maxSamples \<or> mat = []))"
proof -
  from assms obtain mat1 t1 where m1: "truncate_to maxSeries mat = Go (mat1, t1)"
    and r: "(let (mat2, t) = matrix_loop maxSamples 0 mat1 in Go (mat2, t1 \<or> t)) = Go (out, truncated)"
    by (auto simp: truncateMatrix_def and_then_Go)
  then obtain t2 where m2: "matrix_loop maxSamples 0 mat1 = (out, t2)" and t: "truncated = (t1 \<or> t2)"
    by (cases "matrix_loop maxSamples 0 mat1") auto
  from m1 have a: "0 \<le> maxSeries" "mat1 = take (nat maxSeries) mat" "t1 \<longleftrightarrow> maxSeries < int (length mat)"
    by (simp_all add: truncate_to_Go)
  note f = matrix_loop_facts [OF m2]
  from f a(1,2) have "int (length out) \<le> maxSeries" by (simp add: le_nat_iff)
  moreover have "out = mat \<and> int (length mat) \<le> maxSeries \<and> (samples mat \<le> maxSamples \<or> mat = [])" if "\<not> truncated"
  proof -
    from that t a(3) have n: "int (length mat) \<le> maxSeries" "\<not> t2" by simp_all
    then have "mat1 = mat" using a(2) by (simp add: le_nat_iff)
    with f n show ?thesis by simp
  qed
  ultimately show ?thesis by blast
qed

definition sample_stream :: SampleStream where
  "sample_stream = \<lparr>str_Metric = [], str_Values = [(0, FFin 1 0), (1, FFin 1 0)]\<rparr>"

theorem truncateMatrix_honest_witness: "int (length [sample_stream]) \<le> 5 \<and> samples [sample_stream] \<le> 9"
proof -
  have "truncateMatrix [sample_stream] 5 9 = Go ([sample_stream], False)" by code_simp
  from truncateMatrix_honest [OF this] show ?thesis by simp
qed

text \<open>Three streams of two samples cut to a budget of three samples keep five.\<close>

lemma truncateMatrix_over_budget:
  "\<exists>out. truncateMatrix [sample_stream, sample_stream, sample_stream] 10 3 = Go (out, True) \<and> samples out = 5"
  by (rule exI [of _ "[sample_stream, sample_stream\<lparr>str_Values := [(0, FFin 1 0)]\<rparr>, sample_stream]"]) code_simp

text \<open>The tasks that list something, and the field of the policy that bounds them.\<close>

definition listing_tasks :: "(gostring \<times> (GuardrailPolicy \<Rightarrow> int)) list" where
  "listing_tasks =
     [(''prometheus.series.list'', gp_MaxReturnedSeries), (''prometheus.alerts.list'', gp_MaxReturnedSeries),
      (''prometheus.rules.list'', gp_MaxReturnedSeries), (''prometheus.targets.list'', gp_MaxReturnedSeries),
      (''prometheus.labels.list'', gp_MaxMetadataResults), (''prometheus.label.values'', gp_MaxMetadataResults),
      (''prometheus.metadata.get'', gp_MaxMetadataResults), (''prometheus.metric.names'', gp_MaxMetadataResults),
      (''prometheus.target.metadata'', gp_MaxMetadataResults)]"

fun item_count :: "gvalue \<Rightarrow> nat" where
  "item_count (VList vs) = length vs"
| "item_count (VStrings vs) = length vs"
| "item_count _ = 0"

definition counts_within :: "int \<Rightarrow> gvalue \<Rightarrow> bool" where
  "counts_within limit d \<longleftrightarrow>
     (\<exists>key items t. d = counted key items (item_count items) t \<and> int (item_count items) \<le> limit)"

text \<open>A body that gives nothing larger, and how the steps of a body preserve that.\<close>

definition within :: "int \<Rightarrow> gvalue outcome \<Rightarrow> bool" where
  "within limit m \<longleftrightarrow> (\<forall>d. m = Go d \<longrightarrow> counts_within limit d)"

lemma within_step: "(\<And>x. m = Go x \<Longrightarrow> within limit (f x)) \<Longrightarrow> within limit (and_then m f)"
  by (auto simp: within_def and_then_Go)

lemma within_pair: "(\<And>a b. within limit (h a b)) \<Longrightarrow> within limit (case p of (a, b) \<Rightarrow> h a b)"
  by (cases p) simp

lemma within_cut:
  assumes "l \<le> limit" "\<And>ys. item_count (g ys) = length ys"
  shows "within limit (and_then (truncate_to l xs) (\<lambda>(ys, t). Go (counted key (g ys) (length ys) t)))"
  unfolding within_def
proof (intro allI impI)
  fix d
  assume "and_then (truncate_to l xs) (\<lambda>(ys, t). Go (counted key (g ys) (length ys) t)) = Go d"
  then obtain ys t where ys: "truncate_to l xs = Go (ys, t)" and d: "d = counted key (g ys) (length ys) t"
    by (auto simp: and_then_Go)
  from ys have "int (length ys) \<le> l" by (auto simp: truncate_to_Go)
  with assms d show "counts_within limit d" unfolding counts_within_def by (metis order_trans)
qed

lemmas within_limit = within_cut [OF bounded_limit_Go(1)] within_cut [OF order_refl]

lemmas listing_defs =
  seriesList_Execute_def alertsList_Execute_def rulesList_Execute_def targetsList_Execute_def
  labelsList_Execute_def labelValues_Execute_def metadataGet_Execute_def metricNames_Execute_def
  targetMetadata_Execute_def

lemma listing_within:
  "list_all (\<lambda>(name, field). within (field (policy c)) (prometheus_task name env ctx (Some c) params)) listing_tasks"
  unfolding listing_tasks_def list.pred_inject prod.case
  by (intro conjI TrueI; simp add: prometheus_task_def prometheus_bodies_def;
      unfold listing_defs with_client_Panic Let_def;
      (rule within_limit, assumption, simp | rule within_limit, simp | rule within_step | rule within_pair)+)



section \<open>Redaction\<close>

text \<open>An entry with a sensitive key whose value is not the placeholder, at any depth.\<close>

fun leaks :: "gvalue \<Rightarrow> bool" where
  "leaks (VMap m) \<longleftrightarrow>
     (\<exists>kv \<in> set m. (fst kv \<in> set sensitiveKeys \<and> snd kv \<noteq> VString ''[REDACTED]'') \<or> leaks (snd kv))"
| "leaks (VList vs) \<longleftrightarrow> (\<exists>v \<in> set vs. leaks v)"
| "leaks _ \<longleftrightarrow> False"

lemma redactValue_sensitive: "key \<in> set sensitiveKeys \<Longrightarrow> redactValue v key = VString ''[REDACTED]''"
  by (cases v) simp_all

lemma redactValue_leaks: "\<not> leaks (redactValue v key)"
proof (induction v key rule: redactValue.induct)
  case (1 m key)
  then show ?case by (auto simp: redactValue_sensitive)
qed auto

lemma redactValue_id: "\<not> leaks v \<Longrightarrow> key \<notin> set sensitiveKeys \<Longrightarrow> redactValue v key = v"
proof (induction v key rule: redactValue.induct)
  case (1 m key)
  have "redactValue (snd kv) (fst kv) = snd kv" if "kv \<in> set m" for kv
    using 1 that by (cases "fst kv \<in> set sensitiveKeys") (auto simp: redactValue_sensitive)
  then have "map (\<lambda>kv. (fst kv, redactValue (snd kv) (fst kv))) m = m" by (simp add: map_idI)
  with 1 show ?case by simp
next
  case (2 vs key)
  have "redactValue v [] = v" if "v \<in> set vs" for v
    using 2 that by (simp add: sensitiveKeys_def)
  then have "map (\<lambda>v. redactValue v []) vs = vs" by (simp add: map_idI)
  with 2 show ?case by simp
qed auto



text \<open>A label that is wanted to be empty also matches a label set without it.\<close>

lemma labelsMatch_absent: "labelsMatch [] [(''severity'', [])]"
  by code_simp

end
