(* ===== verification/Azure_API.thy ===== *)
theory Azure_API
  imports Go_Format Common_Params
begin

text \<open>
  \<open>internal/provider/azure/client.go\<close>, the data: the values the tasks return, what the code reads
  of the resources of the Azure SDK, and the \<open>flatten\<close> functions from the second to the first.

  A pointer is an option, a slice of pointers a list of options. A resource of the SDK is a record of
  the fields the code reads. Dereferencing a nil resource panics.
\<close>

section \<open>What the tasks return\<close>

record securityGroupRule =
  sgr_Name :: gostring
  sgr_Description :: gostring
  sgr_Direction :: gostring
  sgr_Access :: gostring
  sgr_Protocol :: gostring
  sgr_Priority :: int
  sgr_SourcePortRange :: gostring
  sgr_DestinationPortRange :: gostring
  sgr_SourceAddressPrefix :: gostring
  sgr_DestinationAddressPrefix :: gostring

record securityGroupInfo =
  sgi_ID :: gostring
  sgi_Name :: gostring
  sgi_Location :: gostring
  sgi_ResourceGroup :: gostring
  sgi_Rules :: "securityGroupRule list"

record routeInfo =
  rou_Name :: gostring
  rou_AddressPrefix :: gostring
  rou_NextHopType :: gostring
  rou_NextHopIP :: gostring

record routeTableInfo =
  rtb_ID :: gostring
  rtb_Name :: gostring
  rtb_Location :: gostring
  rtb_ResourceGroup :: gostring
  rtb_Routes :: "routeInfo list"

record loadBalancerRuleInfo =
  lbr_ID :: gostring
  lbr_Name :: gostring
  lbr_Protocol :: gostring
  lbr_FrontendPort :: int
  lbr_BackendPort :: int
  lbr_FrontendIPConfigID :: gostring
  lbr_BackendPoolID :: gostring
  lbr_ProbeID :: gostring
  lbr_IdleTimeoutMinutes :: int
  lbr_EnableFloatingIP :: bool
  lbr_DisableOutboundSNAT :: bool

record loadBalancerProbeInfo =
  lbp_ID :: gostring
  lbp_Name :: gostring
  lbp_Protocol :: gostring
  lbp_Port :: int
  lbp_RequestPath :: gostring
  lbp_IntervalSeconds :: int
  lbp_UnhealthyThreshold :: int

record appGatewayListenerInfo =
  agl_ID :: gostring
  agl_Name :: gostring
  agl_Protocol :: gostring
  agl_HostName :: gostring
  agl_HostNames :: "gostring list"
  agl_FrontendPortID :: gostring
  agl_FrontendIPConfigID :: gostring
  agl_RequireServerNameIndication :: bool

record appGatewayBackendServerInfo =
  abs_Address :: gostring
  abs_Health :: gostring

record appGatewayBackendHTTPSettingsInfo =
  abh_Name :: gostring
  abh_ID :: gostring
  abh_Servers :: "appGatewayBackendServerInfo list"

record appGatewayBackendPoolInfo =
  abp_Name :: gostring
  abp_ID :: gostring
  abp_HTTPSettings :: "appGatewayBackendHTTPSettingsInfo list"

record logQueryTable =
  lqt_Name :: gostring
  lqt_Columns :: "(gostring \<times> gostring) list"
  lqt_Rows :: "gmap list"

record activityEventInfo =
  aev_EventTimestamp :: gostring
  aev_OperationName :: gostring
  aev_Status :: gostring
  aev_ResourceGroup :: gostring
  aev_ResourceType :: gostring
  aev_ResourceID :: gostring
  aev_Caller :: gostring
  aev_Category :: gostring
  aev_CorrelationID :: gostring
  aev_Level :: gostring
  aev_SubStatus :: gostring
  aev_Description :: gostring

section \<open>What the code reads of the SDK\<close>

record sdk_SecurityRuleProperties =
  xsr_Description :: "gostring option"
  xsr_Direction :: "gostring option"
  xsr_Access :: "gostring option"
  xsr_Protocol :: "gostring option"
  xsr_Priority :: "int option"
  xsr_SourcePortRange :: "gostring option"
  xsr_DestinationPortRange :: "gostring option"
  xsr_SourceAddressPrefix :: "gostring option"
  xsr_DestinationAddressPrefix :: "gostring option"

text \<open>A resource with an identifier, a name, a location and its properties.\<close>

record 'p sdk_Resource =
  x_ID :: "gostring option"
  x_Name :: "gostring option"
  x_Location :: "gostring option"
  x_Properties :: "'p option"

type_synonym sdk_SecurityRule = "sdk_SecurityRuleProperties sdk_Resource"
type_synonym sdk_SecurityGroup = "sdk_SecurityRule option list sdk_Resource"

record sdk_RouteProperties =
  xro_AddressPrefix :: "gostring option"
  xro_NextHopType :: "gostring option"
  xro_NextHopIPAddress :: "gostring option"

type_synonym sdk_Route = "sdk_RouteProperties sdk_Resource"
type_synonym sdk_RouteTable = "sdk_Route option list sdk_Resource"

text \<open>A reference to another resource: its \<open>ID\<close>.\<close>

type_synonym sdk_SubResource = "gostring option"

record sdk_LoadBalancingRuleProperties =
  xlr_Protocol :: "gostring option"
  xlr_FrontendPort :: "int option"
  xlr_BackendPort :: "int option"
  xlr_FrontendIPConfiguration :: "sdk_SubResource option"
  xlr_BackendAddressPool :: "sdk_SubResource option"
  xlr_Probe :: "sdk_SubResource option"
  xlr_IdleTimeoutInMinutes :: "int option"
  xlr_EnableFloatingIP :: "bool option"
  xlr_DisableOutboundSnat :: "bool option"

type_synonym sdk_LoadBalancingRule = "sdk_LoadBalancingRuleProperties sdk_Resource"

record sdk_ProbeProperties =
  xpr_Protocol :: "gostring option"
  xpr_Port :: "int option"
  xpr_RequestPath :: "gostring option"
  xpr_IntervalInSeconds :: "int option"
  xpr_NumberOfProbes :: "int option"

type_synonym sdk_Probe = "sdk_ProbeProperties sdk_Resource"

record sdk_ListenerProperties =
  xli_Protocol :: "gostring option"
  xli_HostName :: "gostring option"
  xli_HostNames :: "gostring option list"
  xli_FrontendPort :: "sdk_SubResource option"
  xli_FrontendIPConfiguration :: "sdk_SubResource option"
  xli_RequireServerNameIndication :: "bool option"

type_synonym sdk_Listener = "sdk_ListenerProperties sdk_Resource"

record sdk_BackendServer =
  xbs_Address :: "gostring option"
  xbs_Health :: "gostring option"

record sdk_BackendHTTPSettings =
  xbh_Settings :: "(gostring option \<times> gostring option) option"
  xbh_Servers :: "sdk_BackendServer option list"

record sdk_BackendPool =
  xbp_Pool :: "(gostring option \<times> gostring option) option"
  xbp_Settings :: "sdk_BackendHTTPSettings option list"

record sdk_LocalizableString =
  xls_Value :: "gostring option"
  xls_LocalizedValue :: "gostring option"

record sdk_EventData =
  xev_Caller :: "gostring option"
  xev_CorrelationID :: "gostring option"
  xev_Level :: "gostring option"
  xev_ResourceGroupName :: "gostring option"
  xev_ResourceID :: "gostring option"
  xev_SubStatus :: "sdk_LocalizableString option"
  xev_Description :: "sdk_LocalizableString option"
  xev_EventTimestamp :: "int option"
  xev_OperationName :: "sdk_LocalizableString option"
  xev_Status :: "sdk_LocalizableString option"
  xev_Category :: "sdk_LocalizableString option"
  xev_ResourceProviderName :: "sdk_LocalizableString option"

record sdk_Table =
  xta_Name :: "gostring option"
  xta_Columns :: "(gostring option \<times> gostring option) option list"
  xta_Rows :: "gvalue list list"

text \<open>
  What else the code reads: the clock, RFC 3339, the conversion of a float that is not an integer,
  the escaping of text outside ASCII, and \<open>fmt.Sprint\<close> of a localizable string with no text.
\<close>

record azure_env =
  aze_now :: int
  aze_oor :: "gofloat \<Rightarrow> int"
  aze_formatTime :: "int \<Rightarrow> gostring"
  aze_esc :: "gostring \<Rightarrow> gostring"
  aze_emptyLocalizable :: gostring

section \<open>Reading pointers\<close>

definition stringValue :: "gostring option \<Rightarrow> gostring" where
  "stringValue v = (case v of None \<Rightarrow> [] | Some s \<Rightarrow> s)"

definition int32Value :: "int option \<Rightarrow> int" where
  "int32Value v = (case v of None \<Rightarrow> 0 | Some n \<Rightarrow> n)"

definition boolValue :: "bool option \<Rightarrow> bool" where
  "boolValue v = (case v of None \<Rightarrow> False | Some b \<Rightarrow> b)"

definition stringSlice :: "gostring option list \<Rightarrow> gostring list" where
  "stringSlice values = List.map_filter (\<lambda>v. case v of Some s \<Rightarrow> (if s \<noteq> [] then Some s else None) | None \<Rightarrow> None) values"

definition subResourceID :: "sdk_SubResource option \<Rightarrow> gostring" where
  "subResourceID v = (case v of None \<Rightarrow> [] | Some r \<Rightarrow> stringValue r)"

fun after_resourceGroups :: "gostring list \<Rightarrow> gostring" where
  "after_resourceGroups (part # next # parts) =
     (if EqualFold part ''resourceGroups'' then next else after_resourceGroups (next # parts))"
| "after_resourceGroups _ = []"

definition resourceGroupFromID :: "gostring \<Rightarrow> gostring" where
  "resourceGroupFromID i = after_resourceGroups (Split (CHR ''/'') i)"

text \<open>Every enumeration of the SDK is a string type: what is printed is the string.\<close>

definition enumString :: "gostring option \<Rightarrow> gostring" where
  "enumString v = (case v of None \<Rightarrow> [] | Some s \<Rightarrow> s)"

definition localizedValue :: "azure_env \<Rightarrow> sdk_LocalizableString option \<Rightarrow> gostring" where
  "localizedValue env v =
     (case v of
        None \<Rightarrow> []
      | Some l \<Rightarrow>
          (case xls_LocalizedValue l of
             Some s \<Rightarrow> s
           | None \<Rightarrow> (case xls_Value l of Some s \<Rightarrow> s | None \<Rightarrow> aze_emptyLocalizable env)))"

section \<open>Flattening\<close>

definition deref :: "'a option \<Rightarrow> 'a outcome" where
  "deref p = (case p of None \<Rightarrow> Panic | Some x \<Rightarrow> Go x)"

text \<open>The elements of a slice of pointers that are not nil.\<close>

definition non_nil :: "'a option list \<Rightarrow> 'a list" where
  "non_nil xs = List.map_filter (\<lambda>x. x) xs"

definition flattenSecurityRule :: "sdk_SecurityRule \<Rightarrow> securityGroupRule" where
  "flattenSecurityRule rule =
     (case x_Properties rule of
        None \<Rightarrow>
          \<lparr>sgr_Name = stringValue (x_Name rule), sgr_Description = [], sgr_Direction = [], sgr_Access = [],
           sgr_Protocol = [], sgr_Priority = 0, sgr_SourcePortRange = [], sgr_DestinationPortRange = [],
           sgr_SourceAddressPrefix = [], sgr_DestinationAddressPrefix = []\<rparr>
      | Some p \<Rightarrow>
          \<lparr>sgr_Name = stringValue (x_Name rule), sgr_Description = stringValue (xsr_Description p),
           sgr_Direction = enumString (xsr_Direction p), sgr_Access = enumString (xsr_Access p),
           sgr_Protocol = enumString (xsr_Protocol p), sgr_Priority = int32Value (xsr_Priority p),
           sgr_SourcePortRange = stringValue (xsr_SourcePortRange p),
           sgr_DestinationPortRange = stringValue (xsr_DestinationPortRange p),
           sgr_SourceAddressPrefix = stringValue (xsr_SourceAddressPrefix p),
           sgr_DestinationAddressPrefix = stringValue (xsr_DestinationAddressPrefix p)\<rparr>)"

definition flattenSecurityGroup :: "sdk_SecurityGroup option \<Rightarrow> securityGroupInfo outcome" where
  "flattenSecurityGroup item0 =
     and_then (deref item0) (\<lambda>item.
     Go \<lparr>sgi_ID = stringValue (x_ID item), sgi_Name = stringValue (x_Name item),
         sgi_Location = stringValue (x_Location item),
         sgi_ResourceGroup = resourceGroupFromID (stringValue (x_ID item)),
         sgi_Rules = (case x_Properties item of
                        None \<Rightarrow> [] | Some rules \<Rightarrow> map flattenSecurityRule (non_nil rules))\<rparr>)"

definition flattenRoute :: "sdk_Route \<Rightarrow> routeInfo" where
  "flattenRoute route =
     (case x_Properties route of
        None \<Rightarrow>
          \<lparr>rou_Name = stringValue (x_Name route), rou_AddressPrefix = [], rou_NextHopType = [], rou_NextHopIP = []\<rparr>
      | Some p \<Rightarrow>
          \<lparr>rou_Name = stringValue (x_Name route), rou_AddressPrefix = stringValue (xro_AddressPrefix p),
           rou_NextHopType = enumString (xro_NextHopType p),
           rou_NextHopIP = stringValue (xro_NextHopIPAddress p)\<rparr>)"

definition flattenRouteTable :: "sdk_RouteTable option \<Rightarrow> routeTableInfo outcome" where
  "flattenRouteTable item0 =
     and_then (deref item0) (\<lambda>item.
     Go \<lparr>rtb_ID = stringValue (x_ID item), rtb_Name = stringValue (x_Name item),
         rtb_Location = stringValue (x_Location item),
         rtb_ResourceGroup = resourceGroupFromID (stringValue (x_ID item)),
         rtb_Routes = (case x_Properties item of
                         None \<Rightarrow> [] | Some routes \<Rightarrow> map flattenRoute (non_nil routes))\<rparr>)"

definition flattenLoadBalancingRule :: "sdk_LoadBalancingRule option \<Rightarrow> loadBalancerRuleInfo outcome" where
  "flattenLoadBalancingRule rule0 =
     and_then (deref rule0) (\<lambda>rule.
     let out = \<lparr>lbr_ID = stringValue (x_ID rule), lbr_Name = stringValue (x_Name rule), lbr_Protocol = [],
                lbr_FrontendPort = 0, lbr_BackendPort = 0, lbr_FrontendIPConfigID = [], lbr_BackendPoolID = [],
                lbr_ProbeID = [], lbr_IdleTimeoutMinutes = 0, lbr_EnableFloatingIP = False,
                lbr_DisableOutboundSNAT = False\<rparr>
     in case x_Properties rule of
          None \<Rightarrow> Go out
        | Some p \<Rightarrow>
            Go (out\<lparr>lbr_Protocol := enumString (xlr_Protocol p),
                    lbr_FrontendPort := int32Value (xlr_FrontendPort p),
                    lbr_BackendPort := int32Value (xlr_BackendPort p),
                    lbr_FrontendIPConfigID := subResourceID (xlr_FrontendIPConfiguration p),
                    lbr_BackendPoolID := subResourceID (xlr_BackendAddressPool p),
                    lbr_ProbeID := subResourceID (xlr_Probe p),
                    lbr_IdleTimeoutMinutes := int32Value (xlr_IdleTimeoutInMinutes p),
                    lbr_EnableFloatingIP := boolValue (xlr_EnableFloatingIP p),
                    lbr_DisableOutboundSNAT := boolValue (xlr_DisableOutboundSnat p)\<rparr>))"

definition flattenLoadBalancerProbe :: "sdk_Probe option \<Rightarrow> loadBalancerProbeInfo outcome" where
  "flattenLoadBalancerProbe probe0 =
     and_then (deref probe0) (\<lambda>probe.
     let out = \<lparr>lbp_ID = stringValue (x_ID probe), lbp_Name = stringValue (x_Name probe), lbp_Protocol = [],
                lbp_Port = 0, lbp_RequestPath = [], lbp_IntervalSeconds = 0, lbp_UnhealthyThreshold = 0\<rparr>
     in case x_Properties probe of
          None \<Rightarrow> Go out
        | Some p \<Rightarrow>
            Go (out\<lparr>lbp_Protocol := enumString (xpr_Protocol p), lbp_Port := int32Value (xpr_Port p),
                    lbp_RequestPath := stringValue (xpr_RequestPath p),
                    lbp_IntervalSeconds := int32Value (xpr_IntervalInSeconds p),
                    lbp_UnhealthyThreshold := int32Value (xpr_NumberOfProbes p)\<rparr>))"

definition flattenAppGatewayListener :: "sdk_Listener option \<Rightarrow> appGatewayListenerInfo outcome" where
  "flattenAppGatewayListener listener0 =
     and_then (deref listener0) (\<lambda>listener.
     let out = \<lparr>agl_ID = stringValue (x_ID listener), agl_Name = stringValue (x_Name listener),
                agl_Protocol = [], agl_HostName = [], agl_HostNames = [], agl_FrontendPortID = [],
                agl_FrontendIPConfigID = [], agl_RequireServerNameIndication = False\<rparr>
     in case x_Properties listener of
          None \<Rightarrow> Go out
        | Some p \<Rightarrow>
            Go (out\<lparr>agl_Protocol := enumString (xli_Protocol p), agl_HostName := stringValue (xli_HostName p),
                    agl_HostNames := stringSlice (xli_HostNames p),
                    agl_FrontendPortID := subResourceID (xli_FrontendPort p),
                    agl_FrontendIPConfigID := subResourceID (xli_FrontendIPConfiguration p),
                    agl_RequireServerNameIndication := boolValue (xli_RequireServerNameIndication p)\<rparr>))"

definition flattenBackendSetting :: "sdk_BackendHTTPSettings \<Rightarrow> appGatewayBackendHTTPSettingsInfo" where
  "flattenBackendSetting setting =
     (let servers = map (\<lambda>s. \<lparr>abs_Address = stringValue (xbs_Address s), abs_Health = enumString (xbs_Health s)\<rparr>)
                        (non_nil (xbh_Servers setting))
      in case xbh_Settings setting of
           None \<Rightarrow> \<lparr>abh_Name = [], abh_ID = [], abh_Servers = servers\<rparr>
         | Some (i, name) \<Rightarrow>
             \<lparr>abh_Name = stringValue name, abh_ID = stringValue i, abh_Servers = servers\<rparr>)"

definition flattenAppGatewayBackendPool :: "sdk_BackendPool option \<Rightarrow> appGatewayBackendPoolInfo outcome" where
  "flattenAppGatewayBackendPool pool0 =
     (case pool0 of
        None \<Rightarrow> Go \<lparr>abp_Name = [], abp_ID = [], abp_HTTPSettings = []\<rparr>
      | Some pool \<Rightarrow>
          (let settings = map flattenBackendSetting (non_nil (xbp_Settings pool))
           in case xbp_Pool pool of
                None \<Rightarrow> Go \<lparr>abp_Name = [], abp_ID = [], abp_HTTPSettings = settings\<rparr>
              | Some (i, name) \<Rightarrow>
                  Go \<lparr>abp_Name = stringValue name, abp_ID = stringValue i, abp_HTTPSettings = settings\<rparr>))"

definition flattenActivityEvent :: "azure_env \<Rightarrow> sdk_EventData option \<Rightarrow> activityEventInfo outcome" where
  "flattenActivityEvent env event0 =
     and_then (deref event0) (\<lambda>event.
     Go \<lparr>aev_EventTimestamp = (case xev_EventTimestamp event of None \<Rightarrow> [] | Some t \<Rightarrow> aze_formatTime env t),
         aev_OperationName = localizedValue env (xev_OperationName event),
         aev_Status = localizedValue env (xev_Status event),
         aev_ResourceGroup = stringValue (xev_ResourceGroupName event),
         aev_ResourceType = localizedValue env (xev_ResourceProviderName event),
         aev_ResourceID = stringValue (xev_ResourceID event), aev_Caller = stringValue (xev_Caller event),
         aev_Category = localizedValue env (xev_Category event),
         aev_CorrelationID = stringValue (xev_CorrelationID event), aev_Level = enumString (xev_Level event),
         aev_SubStatus = localizedValue env (xev_SubStatus event),
         aev_Description = localizedValue env (xev_Description event)\<rparr>)"

end
