(* ===== verification/Azure_Client.thy ===== *)
theory Azure_Client
  imports Azure_API Config_Types
begin

text \<open>
  \<open>internal/provider/azure/client.go\<close>, the clients: the pagers of the SDK and the loops over them, the
  interfaces the tasks call with their implementations over the SDK, and the construction of all of
  them from the configuration. The Azure SDK is the argument \<open>sdk\<close>: a client of it is a record of the
  methods the code calls.

  A call of an interface is an \<open>outcome option\<close>: \<open>None\<close> when it does not return.
\<close>

section \<open>Pagers\<close>

text \<open>
  \<open>runtime.Pager\<close>: whether there is another page after \<open>k\<close> pages, and the answer of the \<open>k\<close>-th call
  of \<open>NextPage\<close>.
\<close>

type_synonym azure_ctx = "int option"

record 'a pager =
  pg_More :: "nat \<Rightarrow> bool"
  pg_NextPage :: "nat \<Rightarrow> azure_ctx \<Rightarrow> gostring + 'a list"

fun traverse :: "('a \<Rightarrow> 'b outcome) \<Rightarrow> 'a list \<Rightarrow> 'b list outcome" where
  "traverse f [] = Go []"
| "traverse f (x # xs) = and_then (f x) (\<lambda>y. and_then (traverse f xs) (\<lambda>ys. Go (y # ys)))"

text \<open>The loop of every listing: flatten the items of each page, until there is no other page.\<close>

partial_function (option) drain ::
  "'a pager \<Rightarrow> azure_ctx \<Rightarrow> ('a \<Rightarrow> 'b outcome) \<Rightarrow> nat \<Rightarrow> 'b list \<Rightarrow> 'b list outcome option" where
  "drain p ctx f k out =
     (if \<not> pg_More p k then Some (Go out)
      else (case pg_NextPage p k ctx of
              Inl err \<Rightarrow> Some (Stop err)
            | Inr page \<Rightarrow>
                (case traverse f page of
                   Panic \<Rightarrow> Some Panic
                 | Stop err \<Rightarrow> Some (Stop err)
                 | Go items \<Rightarrow> drain p ctx f (Suc k) (out @ items))))"

definition list_all_pages ::
  "'a pager \<Rightarrow> azure_ctx \<Rightarrow> ('a \<Rightarrow> 'b outcome) \<Rightarrow> 'b list outcome option" where
  "list_all_pages p ctx f = drain p ctx f 0 []"

section \<open>The SDK\<close>

record SecurityGroupsClient =
  xsg_NewListAllPager :: "sdk_SecurityGroup option pager"
  xsg_NewListPager :: "gostring \<Rightarrow> sdk_SecurityGroup option pager"

record RouteTablesClient =
  xrt_NewListAllPager :: "sdk_RouteTable option pager"
  xrt_NewListPager :: "gostring \<Rightarrow> sdk_RouteTable option pager"

text \<open>\<open>Get\<close> answers the rules of the balancer, \<open>None\<close> when it has no properties.\<close>

record LoadBalancersClient =
  xlb_Get :: "azure_ctx \<Rightarrow> gostring \<Rightarrow> gostring \<Rightarrow> gostring + sdk_LoadBalancingRule option list option"

record LoadBalancerProbesClient =
  xlp_NewListPager :: "gostring \<Rightarrow> gostring \<Rightarrow> sdk_Probe option pager"

text \<open>\<open>PollUntilDone\<close> of the poller that \<open>BeginBackendHealth\<close> gives.\<close>

record ApplicationGatewaysClient =
  xag_BeginBackendHealth ::
    "azure_ctx \<Rightarrow> gostring \<Rightarrow> gostring \<Rightarrow> gostring + (azure_ctx \<Rightarrow> gostring + sdk_BackendPool option list)"
  xag_Get :: "azure_ctx \<Rightarrow> gostring \<Rightarrow> gostring \<Rightarrow> gostring + sdk_Listener option list option"

text \<open>The answer of a query: the error in it, and the tables.\<close>

record LogsClient =
  xlo_QueryWorkspace ::
    "azure_ctx \<Rightarrow> gostring \<Rightarrow> gostring \<Rightarrow> int \<times> int \<Rightarrow> gostring + (gostring option \<times> sdk_Table option list)"

record ActivityLogsClient =
  xac_NewListPager :: "gostring \<Rightarrow> sdk_EventData option pager"

record 'cred azure_sdk =
  newClientSecretCredential :: "gostring \<Rightarrow> gostring \<Rightarrow> gostring \<Rightarrow> gostring + 'cred"
  newDefaultAzureCredential :: "gostring + 'cred"
  newSecurityGroupsClient :: "gostring \<Rightarrow> 'cred \<Rightarrow> gostring + SecurityGroupsClient"
  newRouteTablesClient :: "gostring \<Rightarrow> 'cred \<Rightarrow> gostring + RouteTablesClient"
  newLoadBalancersClient :: "gostring \<Rightarrow> 'cred \<Rightarrow> gostring + LoadBalancersClient"
  newLoadBalancerProbesClient :: "gostring \<Rightarrow> 'cred \<Rightarrow> gostring + LoadBalancerProbesClient"
  newApplicationGatewaysClient :: "gostring \<Rightarrow> 'cred \<Rightarrow> gostring + ApplicationGatewaysClient"
  newActivityLogsClient :: "gostring \<Rightarrow> 'cred \<Rightarrow> gostring + ActivityLogsClient"
  newLogsClient :: "'cred \<Rightarrow> gostring + LogsClient"

section \<open>The interfaces and their implementations\<close>

record securityGroupClient =
  nsg_ListAll :: "azure_ctx \<Rightarrow> securityGroupInfo list outcome option"
  nsg_ListByResourceGroup :: "azure_ctx \<Rightarrow> gostring \<Rightarrow> securityGroupInfo list outcome option"

record routeTableClient =
  udr_ListAll :: "azure_ctx \<Rightarrow> routeTableInfo list outcome option"
  udr_ListByResourceGroup :: "azure_ctx \<Rightarrow> gostring \<Rightarrow> routeTableInfo list outcome option"

record loadBalancerClient =
  lb_GetRules :: "azure_ctx \<Rightarrow> gostring \<Rightarrow> gostring \<Rightarrow> loadBalancerRuleInfo list outcome option"

record loadBalancerProbeClient =
  lbp_List :: "azure_ctx \<Rightarrow> gostring \<Rightarrow> gostring \<Rightarrow> loadBalancerProbeInfo list outcome option"

record applicationGatewayClient =
  agw_BackendHealth :: "azure_ctx \<Rightarrow> gostring \<Rightarrow> gostring \<Rightarrow> appGatewayBackendPoolInfo list outcome option"
  agw_GetListeners :: "azure_ctx \<Rightarrow> gostring \<Rightarrow> gostring \<Rightarrow> appGatewayListenerInfo list outcome option"

record logsClient =
  logs_QueryWorkspace :: "azure_ctx \<Rightarrow> gostring \<Rightarrow> gostring \<Rightarrow> int \<Rightarrow> int \<Rightarrow> logQueryTable list outcome option"

record activityLogsClient =
  act_List :: "azure_ctx \<Rightarrow> gostring \<Rightarrow> activityEventInfo list outcome option"

definition sdkSecurityGroupClient :: "SecurityGroupsClient \<Rightarrow> securityGroupClient" where
  "sdkSecurityGroupClient c =
     \<lparr>nsg_ListAll = (\<lambda>ctx. list_all_pages (xsg_NewListAllPager c) ctx flattenSecurityGroup),
      nsg_ListByResourceGroup =
        (\<lambda>ctx resourceGroup. list_all_pages (xsg_NewListPager c resourceGroup) ctx flattenSecurityGroup)\<rparr>"

definition sdkRouteTableClient :: "RouteTablesClient \<Rightarrow> routeTableClient" where
  "sdkRouteTableClient c =
     \<lparr>udr_ListAll = (\<lambda>ctx. list_all_pages (xrt_NewListAllPager c) ctx flattenRouteTable),
      udr_ListByResourceGroup =
        (\<lambda>ctx resourceGroup. list_all_pages (xrt_NewListPager c resourceGroup) ctx flattenRouteTable)\<rparr>"

definition sdkLoadBalancerClient :: "LoadBalancersClient \<Rightarrow> loadBalancerClient" where
  "sdkLoadBalancerClient c =
     \<lparr>lb_GetRules = (\<lambda>ctx resourceGroup name. Some (
        and_then (attempt (xlb_Get c ctx resourceGroup name)) (\<lambda>properties.
        case properties of None \<Rightarrow> Go [] | Some rules \<Rightarrow> traverse flattenLoadBalancingRule rules)))\<rparr>"

definition sdkLoadBalancerProbeClient :: "LoadBalancerProbesClient \<Rightarrow> loadBalancerProbeClient" where
  "sdkLoadBalancerProbeClient c =
     \<lparr>lbp_List = (\<lambda>ctx resourceGroup name.
        list_all_pages (xlp_NewListPager c resourceGroup name) ctx flattenLoadBalancerProbe)\<rparr>"

definition sdkApplicationGatewayClient :: "ApplicationGatewaysClient \<Rightarrow> applicationGatewayClient" where
  "sdkApplicationGatewayClient c =
     \<lparr>agw_BackendHealth = (\<lambda>ctx resourceGroup name. Some (
        and_then (attempt (xag_BeginBackendHealth c ctx resourceGroup name)) (\<lambda>poller.
        and_then (attempt (poller ctx)) (\<lambda>pools. traverse flattenAppGatewayBackendPool pools)))),
      agw_GetListeners = (\<lambda>ctx resourceGroup name. Some (
        and_then (attempt (xag_Get c ctx resourceGroup name)) (\<lambda>properties.
        case properties of None \<Rightarrow> Go [] | Some ls \<Rightarrow> traverse flattenAppGatewayListener ls)))\<rparr>"

text \<open>A row becomes a map from the names of the columns; a later column wins over one of the same name.\<close>

definition column_name :: "(gostring \<times> gostring) list \<Rightarrow> nat \<Rightarrow> gostring" where
  "column_name columns idx = (if idx < length columns then fst (columns ! idx) else Itoa (int idx))"

definition map_row :: "(gostring \<times> gostring) list \<Rightarrow> gvalue list \<Rightarrow> gmap" where
  "map_row columns row =
     fold (\<lambda>(idx, val) m. AList.update (column_name columns idx) val m) (enumerate 0 row) []"

definition flattenTable :: "sdk_Table option \<Rightarrow> logQueryTable outcome" where
  "flattenTable table0 =
     and_then (deref table0) (\<lambda>table.
     and_then (traverse (\<lambda>col0. and_then (deref col0) (\<lambda>(name, typ).
       Go (stringValue name, enumString typ))) (xta_Columns table)) (\<lambda>columns.
     Go \<lparr>lqt_Name = stringValue (xta_Name table), lqt_Columns = columns,
         lqt_Rows = map (map_row columns) (xta_Rows table)\<rparr>))"

definition sdkLogsClient :: "LogsClient \<Rightarrow> logsClient" where
  "sdkLogsClient c =
     \<lparr>logs_QueryWorkspace = (\<lambda>ctx workspaceID query start end0. Some (
        and_then (attempt (xlo_QueryWorkspace c ctx workspaceID query (start, end0))) (\<lambda>(error, tables).
        case error of Some err \<Rightarrow> Stop err | None \<Rightarrow> traverse flattenTable tables)))\<rparr>"

definition sdkActivityLogsClient :: "azure_env \<Rightarrow> ActivityLogsClient \<Rightarrow> activityLogsClient" where
  "sdkActivityLogsClient env c =
     \<lparr>act_List = (\<lambda>ctx filter. list_all_pages (xac_NewListPager c filter) ctx (flattenActivityEvent env))\<rparr>"

section \<open>The clients of a configuration\<close>

record 'cred azureClients =
  acl_cfg :: AzureConfig
  acl_cred :: "'cred option"
  acl_initErr :: "gostring option"
  acl_nsg :: "securityGroupClient option"
  acl_udr :: "routeTableClient option"
  acl_lb :: "loadBalancerClient option"
  acl_lbProbes :: "loadBalancerProbeClient option"
  acl_appGateway :: "applicationGatewayClient option"
  acl_logs :: "logsClient option"
  acl_activity :: "activityLogsClient option"

definition createAzureCredential :: "'cred azure_sdk \<Rightarrow> AzureConfig \<Rightarrow> gostring + 'cred" where
  "createAzureCredential sdk cfg =
     (if TrimSpace (az_TenantID cfg) \<noteq> [] \<and> TrimSpace (az_ClientID cfg) \<noteq> [] \<and> TrimSpace (az_ClientSecret cfg) \<noteq> []
      then (case newClientSecretCredential sdk (az_TenantID cfg) (az_ClientID cfg) (az_ClientSecret cfg) of
              Inl err \<Rightarrow> Inl (''create client secret credential: '' @ err) | Inr cred \<Rightarrow> Inr cred)
      else (case newDefaultAzureCredential sdk of
              Inl err \<Rightarrow> Inl (''create default azure credential: '' @ err) | Inr cred \<Rightarrow> Inr cred))"

text \<open>One constructor of the SDK, with the message of its failure.\<close>

definition create :: "gostring \<Rightarrow> gostring + 'c \<Rightarrow> 'c outcome" where
  "create what r = (case r of Inl err \<Rightarrow> Stop (''create azure '' @ what @ '' client: '' @ err) | Inr c \<Rightarrow> Go c)"

text \<open>An early return leaves the clients as they are, with its error; the credential may be there.\<close>

definition newAzureClients :: "azure_env \<Rightarrow> 'cred azure_sdk \<Rightarrow> AzureConfig \<Rightarrow> 'cred azureClients" where
  "newAzureClients env sdk cfg =
     (let clients = \<lparr>acl_cfg = cfg, acl_cred = None, acl_initErr = None, acl_nsg = None, acl_udr = None,
                     acl_lb = None, acl_lbProbes = None, acl_appGateway = None, acl_logs = None,
                     acl_activity = None\<rparr>;
          sub = az_SubscriptionID cfg
      in if TrimSpace sub = [] then clients\<lparr>acl_initErr := Some ''azure subscription_id is required''\<rparr>
         else (case createAzureCredential sdk cfg of
                 Inl err \<Rightarrow> clients\<lparr>acl_initErr := Some err\<rparr>
               | Inr cred \<Rightarrow>
                   (let clients1 = clients\<lparr>acl_cred := Some cred\<rparr>
                    in case
                         and_then (create ''security groups'' (newSecurityGroupsClient sdk sub cred)) (\<lambda>nsg.
                         and_then (create ''route tables'' (newRouteTablesClient sdk sub cred)) (\<lambda>udr.
                         and_then (create ''load balancers'' (newLoadBalancersClient sdk sub cred)) (\<lambda>lb.
                         and_then (create ''load balancer probes'' (newLoadBalancerProbesClient sdk sub cred)) (\<lambda>lbProbes.
                         and_then (create ''application gateways'' (newApplicationGatewaysClient sdk sub cred)) (\<lambda>appGateway.
                         and_then (create ''activity logs'' (newActivityLogsClient sdk sub cred)) (\<lambda>activity.
                         and_then (create ''logs'' (newLogsClient sdk cred)) (\<lambda>logs.
                         Go (clients1\<lparr>acl_nsg := Some (sdkSecurityGroupClient nsg),
                                      acl_udr := Some (sdkRouteTableClient udr),
                                      acl_lb := Some (sdkLoadBalancerClient lb),
                                      acl_lbProbes := Some (sdkLoadBalancerProbeClient lbProbes),
                                      acl_appGateway := Some (sdkApplicationGatewayClient appGateway),
                                      acl_logs := Some (sdkLogsClient logs),
                                      acl_activity := Some (sdkActivityLogsClient env activity)\<rparr>))))))))
                       of Panic \<Rightarrow> clients1
                        | Stop err \<Rightarrow> clients1\<lparr>acl_initErr := Some err\<rparr>
                        | Go complete \<Rightarrow> complete)))"

end
