(* ===== verification/Azure_Provider.thy ===== *)
theory Azure_Provider
  imports Azure_Client Managed_Provider
begin

text \<open>
  \<open>internal/provider/azure/provider.go\<close>: the configuration and the provider. The tasks read the
  current configuration and the current clients.
\<close>

section \<open>The configuration\<close>

definition parseAzureConfig :: "AzureConfig \<Rightarrow> gmap \<Rightarrow> AzureConfig" where
  "parseAzureConfig base cfg =
     \<lparr>az_TenantID = ok_or (StringOK cfg ''tenant_id'') (az_TenantID base),
      az_ClientID = ok_or (StringOK cfg ''client_id'') (az_ClientID base),
      az_ClientSecret = ok_or (StringOK cfg ''client_secret'') (az_ClientSecret base),
      az_SubscriptionID = ok_or (StringOK cfg ''subscription_id'') (az_SubscriptionID base),
      az_ResourceGroup = ok_or (StringOK cfg ''resource_group'') (az_ResourceGroup base),
      az_WorkspaceID = ok_or (StringOK cfg ''workspace_id'') (az_WorkspaceID base)\<rparr>"

lemma parseAzureConfig_idem: "parseAzureConfig (parseAzureConfig base cfg) cfg = parseAzureConfig base cfg"
  by (simp add: parseAzureConfig_def)

section \<open>The provider\<close>

type_synonym ('cred, 't) AzureProvider = "(AzureConfig, 'cred azureClients option, 't) Provider"

definition azure_options ::
  "azure_env \<Rightarrow> 'cred azure_sdk \<Rightarrow> (AzureConfig, 'cred azureClients option, gmap, gostring) Options" where
  "azure_options env sdk =
     \<lparr>opt_Parse = (\<lambda>base cfg. Inr (parseAzureConfig base cfg)), opt_Equal = Some (\<lambda>a b. a = b),
      opt_Recreate = None, opt_Build = Some (\<lambda>cfg. Inr (Some (newAzureClients env sdk cfg))), opt_Close = False\<rparr>"

definition Azure_UpdateConfig ::
  "azure_env \<Rightarrow> 'cred azure_sdk \<Rightarrow> ('cred, 't) AzureProvider \<Rightarrow> gostring \<Rightarrow> gmap \<Rightarrow> ('cred, 't) AzureProvider" where
  "Azure_UpdateConfig env sdk p capabilityName cfg =
     p\<lparr>pv_state := fst (Apply None (azure_options env sdk) cfg (pv_state p))\<rparr>"

definition Azure_IsConfigured :: "('cred, 't) AzureProvider \<Rightarrow> bool" where
  "Azure_IsConfigured p =
     (let cfg = State_Config (pv_state p)
      in az_TenantID cfg \<noteq> [] \<and> az_ClientID cfg \<noteq> [] \<and> az_ClientSecret cfg \<noteq> [] \<and> az_SubscriptionID cfg \<noteq> [])"

definition Azure_currentConfig :: "('cred, 't) AzureProvider \<Rightarrow> AzureConfig" where
  "Azure_currentConfig p = State_Config (pv_state p)"

text \<open>The accessors of the clients dereference the pointer.\<close>

definition CurrentNSGClient :: "('cred, 't) AzureProvider \<Rightarrow> securityGroupClient option outcome" where
  "CurrentNSGClient p = and_then (deref (State_Client (pv_state p))) (\<lambda>c. Go (acl_nsg c))"

definition CurrentUDRClient :: "('cred, 't) AzureProvider \<Rightarrow> routeTableClient option outcome" where
  "CurrentUDRClient p = and_then (deref (State_Client (pv_state p))) (\<lambda>c. Go (acl_udr c))"

definition CurrentLBClient :: "('cred, 't) AzureProvider \<Rightarrow> loadBalancerClient option outcome" where
  "CurrentLBClient p = and_then (deref (State_Client (pv_state p))) (\<lambda>c. Go (acl_lb c))"

definition CurrentLBProbeClient :: "('cred, 't) AzureProvider \<Rightarrow> loadBalancerProbeClient option outcome" where
  "CurrentLBProbeClient p = and_then (deref (State_Client (pv_state p))) (\<lambda>c. Go (acl_lbProbes c))"

definition CurrentAppGatewayClient :: "('cred, 't) AzureProvider \<Rightarrow> applicationGatewayClient option outcome" where
  "CurrentAppGatewayClient p = and_then (deref (State_Client (pv_state p))) (\<lambda>c. Go (acl_appGateway c))"

definition CurrentLogsClient :: "('cred, 't) AzureProvider \<Rightarrow> logsClient option outcome" where
  "CurrentLogsClient p = and_then (deref (State_Client (pv_state p))) (\<lambda>c. Go (acl_logs c))"

definition CurrentActivityClient :: "('cred, 't) AzureProvider \<Rightarrow> activityLogsClient option outcome" where
  "CurrentActivityClient p = and_then (deref (State_Client (pv_state p))) (\<lambda>c. Go (acl_activity c))"

section \<open>The tasks\<close>

definition Azure_tasks :: "gostring list" where
  "Azure_tasks =
     [''azure.network.nsg.list'', ''azure.network.udr.list'', ''azure.network.lb.rules.list'',
      ''azure.network.lb.rule.health'', ''azure.network.appgw.backend.health'',
      ''azure.network.appgw.listeners.list'', ''azure.logs.query_appgw'',
      ''azure.logs.query_vnet_flow'', ''azure.activity.changes'']"

definition Azure_descriptions :: "(gostring \<times> gostring) list" where
  "Azure_descriptions =
     [(''azure.network.nsg.list'', ''Lists Azure network security groups and optional rules''),
      (''azure.network.udr.list'', ''Lists Azure user-defined routes and optional route entries''),
      (''azure.network.lb.rules.list'', ''Lists Azure load balancer rules''),
      (''azure.network.lb.rule.health'', ''Lists Azure load balancer probe health configuration''),
      (''azure.network.appgw.backend.health'', ''Returns Azure application gateway backend health''),
      (''azure.network.appgw.listeners.list'', ''Lists Azure application gateway listeners''),
      (''azure.logs.query_appgw'', ''Queries Azure Application Gateway logs''),
      (''azure.logs.query_vnet_flow'', ''Queries Azure VNet flow logs''),
      (''azure.activity.changes'', ''Lists Azure activity log changes'')]"

definition Azure_capabilityDescription :: "gostring \<Rightarrow> gostring" where
  "Azure_capabilityDescription name =
     (case map_of Azure_descriptions name of Some desc \<Rightarrow> desc | None \<Rightarrow> ''Azure capability'')"

lemma Azure_tasks_prefixed:
  "Azure_tasks = prefixed ''azure''
     [''network.nsg.list'', ''network.udr.list'', ''network.lb.rules.list'',
      ''network.lb.rule.health'', ''network.appgw.backend.health'',
      ''network.appgw.listeners.list'', ''logs.query_appgw'', ''logs.query_vnet_flow'',
      ''activity.changes'']"
  by (simp add: Azure_tasks_def prefixed_def)

lemma Azure_tasks_distinct: "distinct Azure_tasks"
  unfolding Azure_tasks_prefixed by (rule distinct_prefixed) simp

lemma Azure_tasks_valid: "list_all namePattern Azure_tasks"
  unfolding Azure_tasks_prefixed by (rule prefixed_valid) code_simp+

lemma Azure_described: "map fst Azure_descriptions = Azure_tasks"
  by (simp add: Azure_descriptions_def Azure_tasks_def)

definition Azure_NewProvider ::
  "azure_env \<Rightarrow> 'cred azure_sdk \<Rightarrow> (gostring \<Rightarrow> gostring) \<Rightarrow> (gostring \<Rightarrow> 't) \<Rightarrow> AzureConfig \<Rightarrow>
     ('cred, 't) AzureProvider" where
  "Azure_NewProvider env sdk schema mk cfg =
     \<lparr>pv_state = NewState cfg (Some (newAzureClients env sdk cfg)),
      pv_base = task_base ''azure'' schema Azure_capabilityDescription (\<lambda>_. []) (\<lambda>_. []) mk Azure_tasks\<rparr>"

interpretation azure: managed_provider "Azure_UpdateConfig env sdk" Azure_IsConfigured for env sdk
  by unfold_locales (simp add: Azure_UpdateConfig_def)

lemma Azure_NewProvider_wf: "managed_wf (Azure_NewProvider env sdk schema mk cfg)"
  by (simp add: managed_wf_def Azure_NewProvider_def base_wf_task_base Azure_tasks_distinct)

section \<open>The clients follow the configuration\<close>

abbreviation azure_follows :: "azure_env \<Rightarrow> 'cred azure_sdk \<Rightarrow> ('cred, 't) AzureProvider \<Rightarrow> bool" where
  "azure_follows env sdk p \<equiv> follows (newAzureClients env sdk) (pv_state p)"

lemma azure_follows_NewProvider: "azure_follows env sdk (Azure_NewProvider env sdk schema mk cfg)"
  by (simp add: Azure_NewProvider_def follows_NewState)

lemma azure_follows_UpdateConfig:
  "azure_follows env sdk p \<Longrightarrow> azure_follows env sdk (Azure_UpdateConfig env sdk p n cfg)"
  by (auto simp: Azure_UpdateConfig_def azure_options_def recreate_fn_def intro!: follows_Apply)

lemma azure_follows_run:
  "azure_follows env sdk (run_updates (Azure_UpdateConfig env sdk) us (Azure_NewProvider env sdk schema mk cfg))"
  by (rule run_updates_invariant [where I = "azure_follows env sdk"])
    (simp_all add: azure_follows_UpdateConfig azure_follows_NewProvider)

end
