(* ===== verification/Azure_Tasks.thy ===== *)
theory Azure_Tasks
  imports Azure_Provider
begin

text \<open>
  The nine tasks of the Azure provider and the helpers of \<open>client.go\<close> that only they use: limits,
  workspaces, time spans in Go's notation or in ISO 8601, the filter of the activity log and the
  queries in KQL. The structures in a result are given as what \<open>encoding/json\<close> makes of them.
\<close>

section \<open>Parameters\<close>

definition normalizeMaxRows :: "(gofloat \<Rightarrow> int) \<Rightarrow> gmap \<Rightarrow> gostring + int" where
  "normalizeMaxRows oor params =
     (case OptionalInt oor params ''max_rows'' 100 of
        Inl err \<Rightarrow> Inl err
      | Inr maxRows \<Rightarrow>
          (if maxRows \<le> 0 then Inl (parameter_must ''max_rows'' ''greater than 0'')
           else Inr (if maxRows > 1000 then 1000 else maxRows)))"

definition resolveWorkspaceID :: "AzureConfig \<Rightarrow> gmap \<Rightarrow> gostring + gostring" where
  "resolveWorkspaceID cfg params =
     (case OptionalString params ''workspace_id'' (TrimSpace (az_WorkspaceID cfg)) of
        Inl err \<Rightarrow> Inl err
      | Inr workspaceID \<Rightarrow>
          (if workspaceID = [] then Inl (missing_parameter ''workspace_id'') else Inr workspaceID))"

section \<open>Time spans\<close>

text \<open>The number before the marker, and the input without the two; 0 when there is no marker.\<close>

definition consumeISOPart :: "gostring \<Rightarrow> char \<Rightarrow> (int \<times> gostring) option" where
  "consumeISOPart input marker =
     (case IndexByte input marker of
        None \<Rightarrow> Some (0, input)
      | Some idx \<Rightarrow>
          (let digits = rev (takeWhile is_digit (rev (take idx input))); start = idx - length digits
           in if digits = [] then None
              else (case Atoi digits of
                      None \<Rightarrow> None
                    | Some amount \<Rightarrow> Some (amount, take start input @ drop (idx + 1) input))))"

text \<open>The hours, minutes and seconds: the parts written so far, and what is left of the input.\<close>

fun iso_time_parts :: "(char \<times> gostring) list \<Rightarrow> gostring list \<Rightarrow> gostring \<Rightarrow> (gostring list \<times> gostring) option" where
  "iso_time_parts [] parts remaining = Some (parts, remaining)"
| "iso_time_parts ((marker, unit) # units) parts remaining =
     (case consumeISOPart remaining marker of
        None \<Rightarrow> None
      | Some (amount, rest) \<Rightarrow>
          iso_time_parts units (if amount > 0 then parts @ [Itoa amount @ unit] else parts) rest)"

definition iso_units :: "(char \<times> gostring) list" where
  "iso_units = [(CHR ''H'', ''h''), (CHR ''M'', ''m''), (CHR ''S'', ''s'')]"

text \<open>The days, as hours.\<close>

definition iso_day_parts :: "gostring \<Rightarrow> gostring list option" where
  "iso_day_parts dayPart =
     (if dayPart = [] then Some []
      else (case consumeISOPart dayPart (CHR ''D'') of
              None \<Rightarrow> None
            | Some (days, rest) \<Rightarrow>
                (if rest \<noteq> [] then None
                 else Some (if days > 0 then [Itoa (wrap64 (days * 24)) @ ''h''] else []))))"

definition iso8601DurationToGo :: "gostring \<Rightarrow> gostring + gostring" where
  "iso8601DurationToGo val =
     (let invalid = Inl ''invalid ISO-8601 duration''; upper0 = ToUpper (TrimSpace val) in
      if upper0 = [] \<or> \<not> HasPrefix upper0 ''P'' then invalid
      else (case Cut (TrimPrefix upper0 ''P'') (CHR ''T'') of
              (dayPart, timePart, hasTimePart) \<Rightarrow>
                (case iso_day_parts dayPart of
                   None \<Rightarrow> invalid
                 | Some parts \<Rightarrow>
                     (case iso_time_parts iso_units parts timePart of
                        None \<Rightarrow> invalid
                      | Some (parts1, remaining) \<Rightarrow>
                          (if remaining \<noteq> [] \<or> parts1 = [] then invalid else Inr (concat parts1))))))"

text \<open>The start, the end and the text of a time span that ends now.\<close>

definition parseTimespan :: "azure_env \<Rightarrow> gmap \<Rightarrow> gostring \<Rightarrow> gostring \<Rightarrow> gostring + int \<times> int \<times> gostring" where
  "parseTimespan env params key defaultValue =
     (case OptionalString params key defaultValue of
        Inl err \<Rightarrow> Inl err
      | Inr raw \<Rightarrow>
          (case (if HasPrefix (ToUpper raw) ''P'' then iso8601DurationToGo raw else Inr raw) of
             Inl err \<Rightarrow> Inl err
           | Inr goDuration \<Rightarrow>
               (case ParseDuration goDuration of
                  None \<Rightarrow> Inl (parameter_must key ''a valid duration or ISO-8601 duration'')
                | Some duration \<Rightarrow> Inr (aze_now env + wrap64 (- duration), aze_now env, raw))))"

section \<open>Queries\<close>

definition escapeSingleQuotes :: "gostring \<Rightarrow> gostring" where
  "escapeSingleQuotes val = ReplaceAll (CHR 0x27) [CHR 0x27, CHR 0x27] val"

text \<open>A comparison with a literal between single quotes.\<close>

definition compared_with :: "gostring \<Rightarrow> gostring \<Rightarrow> gostring" where
  "compared_with lhs literal = lhs @ [CHR 0x20, CHR 0x27] @ literal @ [CHR 0x27]"

definition activity_parts :: "azure_env \<Rightarrow> int \<Rightarrow> gostring \<Rightarrow> gostring \<Rightarrow> gostring \<Rightarrow> gostring list" where
  "activity_parts env start resourceGroup resourceType operationName =
     [compared_with ''eventTimestamp ge'' (aze_formatTime env start)]
     @ (if resourceGroup \<noteq> [] then [compared_with ''resourceGroupName eq'' (escapeSingleQuotes resourceGroup)] else [])
     @ (if resourceType \<noteq> [] then [compared_with ''resourceProvider eq'' (escapeSingleQuotes resourceType)] else [])
     @ (if operationName \<noteq> [] then [compared_with ''operationName/value eq'' (escapeSingleQuotes operationName)] else [])"

definition buildActivityFilter :: "azure_env \<Rightarrow> int \<Rightarrow> gostring \<Rightarrow> gostring \<Rightarrow> gostring \<Rightarrow> gostring" where
  "buildActivityFilter env start resourceGroup resourceType operationName =
     Join (activity_parts env start resourceGroup resourceType operationName) '' and ''"

definition where_equal :: "azure_env \<Rightarrow> gostring \<Rightarrow> gostring \<Rightarrow> gostring list" where
  "where_equal env column val =
     (if val \<noteq> [] then [''| where '' @ column @ '' == '' @ Quote (aze_esc env) val] else [])"

definition appGateway_lines :: "azure_env \<Rightarrow> gostring \<Rightarrow> int \<Rightarrow> gostring list" where
  "appGateway_lines env appGatewayName maxRows =
     [''AzureDiagnostics'',
      ''| where ResourceType == '' @ [CHR 0x22] @ ''APPLICATIONGATEWAYS'' @ [CHR 0x22]]
     @ where_equal env ''Resource'' appGatewayName
     @ [''| project TimeGenerated, Resource, OperationName, Category, Message, clientIP_s, httpStatus_d, requestUri_s, host_s'',
        ''| take '' @ Itoa maxRows]"

definition buildAppGatewayKQL :: "azure_env \<Rightarrow> gostring \<Rightarrow> int \<Rightarrow> gostring" where
  "buildAppGatewayKQL env appGatewayName maxRows = Join (appGateway_lines env appGatewayName maxRows) [CHR 0x0A]"

definition vnetFlow_lines :: "azure_env \<Rightarrow> gostring \<Rightarrow> gostring \<Rightarrow> gostring \<Rightarrow> int \<Rightarrow> gostring list" where
  "vnetFlow_lines env nsgName sourceIP destIP maxRows =
     [''AzureNetworkAnalytics_CL'']
     @ where_equal env ''NSG_s'' nsgName @ where_equal env ''SrcIP_s'' sourceIP @ where_equal env ''DestIP_s'' destIP
     @ [''| project TimeGenerated, NSG_s, SrcIP_s, DestIP_s, DestPort_d, Protocol_s, FlowStatus_s, Direction_s'',
        ''| take '' @ Itoa maxRows]"

definition buildVNetFlowKQL :: "azure_env \<Rightarrow> gostring \<Rightarrow> gostring \<Rightarrow> gostring \<Rightarrow> int \<Rightarrow> gostring" where
  "buildVNetFlowKQL env nsgName sourceIP destIP maxRows =
     Join (vnetFlow_lines env nsgName sourceIP destIP maxRows) [CHR 0x0A]"

section \<open>Results\<close>

text \<open>\<open>omitempty\<close>: a field with the zero value of its type is left out.\<close>

fun zero_value :: "gvalue \<Rightarrow> bool" where
  "zero_value (VString s) = (s = [])"
| "zero_value (VInt32 n) = (n = 0)"
| "zero_value (VBool b) = (\<not> b)"
| "zero_value (VStrings ss) = (ss = [])"
| "zero_value (VList vs) = (vs = [])"
| "zero_value _ = False"

definition struct_value :: "gmap \<Rightarrow> gvalue" where
  "struct_value members = VMap (filter (\<lambda>kv. \<not> zero_value (snd kv)) members)"

definition securityGroupRule_value :: "securityGroupRule \<Rightarrow> gvalue" where
  "securityGroupRule_value r = struct_value
     [(''name'', VString (sgr_Name r)), (''description'', VString (sgr_Description r)),
      (''direction'', VString (sgr_Direction r)), (''access'', VString (sgr_Access r)),
      (''protocol'', VString (sgr_Protocol r)), (''priority'', VInt32 (sgr_Priority r)),
      (''source_port_range'', VString (sgr_SourcePortRange r)),
      (''destination_port_range'', VString (sgr_DestinationPortRange r)),
      (''source_address_prefix'', VString (sgr_SourceAddressPrefix r)),
      (''destination_address_prefix'', VString (sgr_DestinationAddressPrefix r))]"

definition securityGroupInfo_value :: "securityGroupInfo \<Rightarrow> gvalue" where
  "securityGroupInfo_value i = struct_value
     [(''id'', VString (sgi_ID i)), (''name'', VString (sgi_Name i)), (''location'', VString (sgi_Location i)),
      (''resource_group'', VString (sgi_ResourceGroup i)),
      (''rules'', VList (map securityGroupRule_value (sgi_Rules i)))]"

definition routeInfo_value :: "routeInfo \<Rightarrow> gvalue" where
  "routeInfo_value r = struct_value
     [(''name'', VString (rou_Name r)), (''address_prefix'', VString (rou_AddressPrefix r)),
      (''next_hop_type'', VString (rou_NextHopType r)), (''next_hop_ip'', VString (rou_NextHopIP r))]"

definition routeTableInfo_value :: "routeTableInfo \<Rightarrow> gvalue" where
  "routeTableInfo_value i = struct_value
     [(''id'', VString (rtb_ID i)), (''name'', VString (rtb_Name i)), (''location'', VString (rtb_Location i)),
      (''resource_group'', VString (rtb_ResourceGroup i)), (''routes'', VList (map routeInfo_value (rtb_Routes i)))]"

definition loadBalancerRuleInfo_value :: "loadBalancerRuleInfo \<Rightarrow> gvalue" where
  "loadBalancerRuleInfo_value r = struct_value
     [(''id'', VString (lbr_ID r)), (''name'', VString (lbr_Name r)), (''protocol'', VString (lbr_Protocol r)),
      (''frontend_port'', VInt32 (lbr_FrontendPort r)), (''backend_port'', VInt32 (lbr_BackendPort r)),
      (''frontend_ip_configuration_id'', VString (lbr_FrontendIPConfigID r)),
      (''backend_address_pool_id'', VString (lbr_BackendPoolID r)), (''probe_id'', VString (lbr_ProbeID r)),
      (''idle_timeout_minutes'', VInt32 (lbr_IdleTimeoutMinutes r)),
      (''enable_floating_ip'', VBool (lbr_EnableFloatingIP r)),
      (''disable_outbound_snat'', VBool (lbr_DisableOutboundSNAT r))]"

definition loadBalancerProbeInfo_value :: "loadBalancerProbeInfo \<Rightarrow> gvalue" where
  "loadBalancerProbeInfo_value p = struct_value
     [(''id'', VString (lbp_ID p)), (''name'', VString (lbp_Name p)), (''protocol'', VString (lbp_Protocol p)),
      (''port'', VInt32 (lbp_Port p)), (''request_path'', VString (lbp_RequestPath p)),
      (''interval_seconds'', VInt32 (lbp_IntervalSeconds p)),
      (''unhealthy_threshold'', VInt32 (lbp_UnhealthyThreshold p))]"

definition appGatewayListenerInfo_value :: "appGatewayListenerInfo \<Rightarrow> gvalue" where
  "appGatewayListenerInfo_value l = struct_value
     [(''id'', VString (agl_ID l)), (''name'', VString (agl_Name l)), (''protocol'', VString (agl_Protocol l)),
      (''host_name'', VString (agl_HostName l)), (''host_names'', VStrings (agl_HostNames l)),
      (''frontend_port_id'', VString (agl_FrontendPortID l)),
      (''frontend_ip_configuration_id'', VString (agl_FrontendIPConfigID l)),
      (''require_server_name_indication'', VBool (agl_RequireServerNameIndication l))]"

definition appGatewayBackendHTTPSettingsInfo_value :: "appGatewayBackendHTTPSettingsInfo \<Rightarrow> gvalue" where
  "appGatewayBackendHTTPSettingsInfo_value s = struct_value
     [(''name'', VString (abh_Name s)), (''id'', VString (abh_ID s)),
      (''servers'', VList (map (\<lambda>v. struct_value [(''address'', VString (abs_Address v)), (''health'', VString (abs_Health v))])
         (abh_Servers s)))]"

definition appGatewayBackendPoolInfo_value :: "appGatewayBackendPoolInfo \<Rightarrow> gvalue" where
  "appGatewayBackendPoolInfo_value p = struct_value
     [(''name'', VString (abp_Name p)), (''id'', VString (abp_ID p)),
      (''http_settings'', VList (map appGatewayBackendHTTPSettingsInfo_value (abp_HTTPSettings p)))]"

definition logQueryTable_value :: "logQueryTable \<Rightarrow> gvalue" where
  "logQueryTable_value t = struct_value
     [(''name'', VString (lqt_Name t)),
      (''columns'', VList (map (\<lambda>(name, typ). VMap [(''name'', VString name), (''type'', VString typ)]) (lqt_Columns t))),
      (''rows'', VList (map VMap (lqt_Rows t)))]"

definition activityEventInfo_value :: "activityEventInfo \<Rightarrow> gvalue" where
  "activityEventInfo_value e = struct_value
     [(''event_timestamp'', VString (aev_EventTimestamp e)), (''operation_name'', VString (aev_OperationName e)),
      (''status'', VString (aev_Status e)), (''resource_group'', VString (aev_ResourceGroup e)),
      (''resource_type'', VString (aev_ResourceType e)), (''resource_id'', VString (aev_ResourceID e)),
      (''caller'', VString (aev_Caller e)), (''category'', VString (aev_Category e)),
      (''correlation_id'', VString (aev_CorrelationID e)), (''level'', VString (aev_Level e)),
      (''sub_status'', VString (aev_SubStatus e)), (''description'', VString (aev_Description e))]"

section \<open>The tasks\<close>

text \<open>Steps that return, calls that may not.\<close>

definition before :: "'a outcome \<Rightarrow> ('a \<Rightarrow> 'b outcome option) \<Rightarrow> 'b outcome option" where
  "before m f = (case m of Panic \<Rightarrow> Some Panic | Stop err \<Rightarrow> Some (Stop err) | Go x \<Rightarrow> f x)"

definition calling :: "'a outcome option \<Rightarrow> ('a \<Rightarrow> 'b outcome) \<Rightarrow> 'b outcome option" where
  "calling r f = map_option (\<lambda>m. and_then m f) r"

text \<open>The check of the client: nil is a failure of the task.\<close>

definition configured_client :: "gostring \<Rightarrow> 'c option outcome \<Rightarrow> 'c outcome" where
  "configured_client what current =
     and_then current (\<lambda>client.
     case client of None \<Rightarrow> Stop (''azure '' @ what @ '' client is not configured'') | Some c \<Rightarrow> Go c)"

type_synonym ('cred, 't) azure_task =
  "azure_env \<Rightarrow> azure_ctx \<Rightarrow> ('cred, 't) AzureProvider \<Rightarrow> gmap \<Rightarrow> gvalue outcome option"

definition nsg_Execute :: "('cred, 't) azure_task" where
  "nsg_Execute env ctx p params =
     before (attempt (OptionalString params ''resource_group'' [])) (\<lambda>resourceGroup.
     before (attempt (OptionalBool params ''include_rules'' True)) (\<lambda>includeRules.
     before (configured_client ''network security group'' (CurrentNSGClient p)) (\<lambda>client.
     calling (if resourceGroup = [] then nsg_ListAll client ctx else nsg_ListByResourceGroup client ctx resourceGroup)
       (\<lambda>items0.
     let items = (if \<not> includeRules then map (\<lambda>i. i\<lparr>sgi_Rules := []\<rparr>) items0 else items0) in
     Go (VMap [(''network_security_groups'', VList (map securityGroupInfo_value items)),
               (''count'', VInt (int (length items)))])))))"

definition udr_Execute :: "('cred, 't) azure_task" where
  "udr_Execute env ctx p params =
     before (attempt (OptionalString params ''resource_group'' [])) (\<lambda>resourceGroup.
     before (attempt (OptionalBool params ''include_routes'' True)) (\<lambda>includeRoutes.
     before (configured_client ''route table'' (CurrentUDRClient p)) (\<lambda>client.
     calling (if resourceGroup = [] then udr_ListAll client ctx else udr_ListByResourceGroup client ctx resourceGroup)
       (\<lambda>items0.
     let items = (if \<not> includeRoutes then map (\<lambda>i. i\<lparr>rtb_Routes := []\<rparr>) items0 else items0) in
     Go (VMap [(''route_tables'', VList (map routeTableInfo_value items)),
               (''count'', VInt (int (length items)))])))))"

text \<open>The result of a task that lists what belongs to one named resource of a group.\<close>

definition listed :: "gostring \<Rightarrow> gostring \<Rightarrow> gostring \<Rightarrow> gostring \<Rightarrow> gvalue list \<Rightarrow> gvalue outcome" where
  "listed resourceGroup nameKey name itemsKey items =
     Go (VMap [(''resource_group'', VString resourceGroup), (nameKey, VString name), (itemsKey, VList items),
               (''count'', VInt (int (length items)))])"

definition lbRules_Execute :: "('cred, 't) azure_task" where
  "lbRules_Execute env ctx p params =
     before (attempt (RequireString params ''resource_group'')) (\<lambda>resourceGroup.
     before (attempt (RequireString params ''load_balancer_name'')) (\<lambda>loadBalancerName.
     before (configured_client ''load balancer'' (CurrentLBClient p)) (\<lambda>client.
     calling (lb_GetRules client ctx resourceGroup loadBalancerName) (\<lambda>rules.
     listed resourceGroup ''load_balancer_name'' loadBalancerName ''rules'' (map loadBalancerRuleInfo_value rules)))))"

definition lbHealth_Execute :: "('cred, 't) azure_task" where
  "lbHealth_Execute env ctx p params =
     before (attempt (RequireString params ''resource_group'')) (\<lambda>resourceGroup.
     before (attempt (RequireString params ''load_balancer_name'')) (\<lambda>loadBalancerName.
     before (configured_client ''load balancer probe'' (CurrentLBProbeClient p)) (\<lambda>client.
     calling (lbp_List client ctx resourceGroup loadBalancerName) (\<lambda>probes.
     listed resourceGroup ''load_balancer_name'' loadBalancerName ''probes'' (map loadBalancerProbeInfo_value probes)))))"

definition appGatewayBackendHealth_Execute :: "('cred, 't) azure_task" where
  "appGatewayBackendHealth_Execute env ctx p params =
     before (attempt (RequireString params ''resource_group'')) (\<lambda>resourceGroup.
     before (attempt (RequireString params ''app_gateway_name'')) (\<lambda>appGatewayName.
     before (configured_client ''application gateway'' (CurrentAppGatewayClient p)) (\<lambda>client.
     calling (agw_BackendHealth client ctx resourceGroup appGatewayName) (\<lambda>pools.
     listed resourceGroup ''app_gateway_name'' appGatewayName ''backend_pools''
       (map appGatewayBackendPoolInfo_value pools)))))"

definition appGatewayListeners_Execute :: "('cred, 't) azure_task" where
  "appGatewayListeners_Execute env ctx p params =
     before (attempt (RequireString params ''resource_group'')) (\<lambda>resourceGroup.
     before (attempt (RequireString params ''app_gateway_name'')) (\<lambda>appGatewayName.
     before (configured_client ''application gateway'' (CurrentAppGatewayClient p)) (\<lambda>client.
     calling (agw_GetListeners client ctx resourceGroup appGatewayName) (\<lambda>listeners.
     listed resourceGroup ''app_gateway_name'' appGatewayName ''listeners''
       (map appGatewayListenerInfo_value listeners)))))"

definition logs_result :: "gostring \<Rightarrow> gostring \<Rightarrow> gostring \<Rightarrow> logQueryTable list \<Rightarrow> gvalue outcome" where
  "logs_result workspaceID timespan query tables =
     Go (VMap [(''workspace_id'', VString workspaceID), (''timespan'', VString timespan), (''query'', VString query),
               (''tables'', VList (map logQueryTable_value tables)),
               (''row_count'', VInt (int (sum_list (map (\<lambda>t. length (lqt_Rows t)) tables))))])"

definition appGatewayLogs_Execute :: "('cred, 't) azure_task" where
  "appGatewayLogs_Execute env ctx p params =
     before (attempt (resolveWorkspaceID (Azure_currentConfig p) params)) (\<lambda>workspaceID.
     before (attempt (parseTimespan env params ''timespan'' ''PT1H'')) (\<lambda>(start, end0, timespan).
     before (attempt (normalizeMaxRows (aze_oor env) params)) (\<lambda>maxRows.
     before (attempt (OptionalString params ''app_gateway_name'' [])) (\<lambda>appGatewayName.
     before (configured_client ''logs'' (CurrentLogsClient p)) (\<lambda>client.
     let query = buildAppGatewayKQL env appGatewayName maxRows in
     calling (logs_QueryWorkspace client ctx workspaceID query start end0) (\<lambda>tables.
     logs_result workspaceID timespan query tables))))))"

definition vnetFlowLogs_Execute :: "('cred, 't) azure_task" where
  "vnetFlowLogs_Execute env ctx p params =
     before (attempt (resolveWorkspaceID (Azure_currentConfig p) params)) (\<lambda>workspaceID.
     before (attempt (parseTimespan env params ''timespan'' ''PT1H'')) (\<lambda>(start, end0, timespan).
     before (attempt (normalizeMaxRows (aze_oor env) params)) (\<lambda>maxRows.
     before (attempt (OptionalString params ''nsg_name'' [])) (\<lambda>nsgName.
     before (attempt (OptionalString params ''source_ip'' [])) (\<lambda>sourceIP.
     before (attempt (OptionalString params ''dest_ip'' [])) (\<lambda>destIP.
     before (configured_client ''logs'' (CurrentLogsClient p)) (\<lambda>client.
     let query = buildVNetFlowKQL env nsgName sourceIP destIP maxRows in
     calling (logs_QueryWorkspace client ctx workspaceID query start end0) (\<lambda>tables.
     logs_result workspaceID timespan query tables))))))))"

definition activityChanges_Execute :: "('cred, 't) azure_task" where
  "activityChanges_Execute env ctx p params =
     before (attempt (parseTimespan env params ''timespan'' ''PT1H'')) (\<lambda>(start, end0, timespan).
     before (attempt (normalizeMaxRows (aze_oor env) params)) (\<lambda>maxRows.
     before (attempt (OptionalString params ''resource_group'' [])) (\<lambda>resourceGroup.
     before (attempt (OptionalString params ''resource_type'' [])) (\<lambda>resourceType.
     before (attempt (OptionalString params ''operation_name'' [])) (\<lambda>operationName.
     before (configured_client ''activity logs'' (CurrentActivityClient p)) (\<lambda>client.
     let query = buildActivityFilter env start resourceGroup resourceType operationName in
     calling (act_List client ctx query) (\<lambda>events0.
     and_then (truncate_to maxRows events0) (\<lambda>(events, truncated).
     Go (VMap [(''timespan'', VString timespan), (''filter'', VString query),
               (''events'', VList (map activityEventInfo_value events)),
               (''count'', VInt (int (length events)))])))))))))"

definition azure_bodies :: "(gostring \<times> ('cred, 't) azure_task) list" where
  "azure_bodies =
     [(''azure.network.nsg.list'', nsg_Execute), (''azure.network.udr.list'', udr_Execute),
      (''azure.network.lb.rules.list'', lbRules_Execute), (''azure.network.lb.rule.health'', lbHealth_Execute),
      (''azure.network.appgw.backend.health'', appGatewayBackendHealth_Execute),
      (''azure.network.appgw.listeners.list'', appGatewayListeners_Execute),
      (''azure.logs.query_appgw'', appGatewayLogs_Execute), (''azure.logs.query_vnet_flow'', vnetFlowLogs_Execute),
      (''azure.activity.changes'', activityChanges_Execute)]"

lemma azure_bodies_tasks: "map fst azure_bodies = Azure_tasks"
  by (simp add: azure_bodies_def Azure_tasks_def)

text \<open>The result of a task, whose outcome \<open>None\<close> is that it does not return.\<close>

definition Azure_Execute ::
  "('cred, 't) azure_task \<Rightarrow> azure_env \<Rightarrow> azure_ctx \<Rightarrow> ('cred, 't) AzureProvider \<Rightarrow> gmap \<Rightarrow>
     task_Result option option" where
  "Azure_Execute body env ctx p params = map_option (run_task (aze_now env)) (body env ctx p params)"

end
