(* ===== verification/Azure_Safety.thy ===== *)
theory Azure_Safety
  imports Azure_Tasks
begin

text \<open>
  What the Azure provider guarantees: the loops over pages, the containment of a failed construction,
  time spans, and the texts of queries.
\<close>

section \<open>Pages\<close>

text \<open>The call of \<open>NextPage\<close> or of \<open>More\<close> with which the loop ends, and the items of a page before it.\<close>

definition page_stops :: "'a pager \<Rightarrow> azure_ctx \<Rightarrow> ('a \<Rightarrow> 'b outcome) \<Rightarrow> nat \<Rightarrow> bool" where
  "page_stops p ctx f k \<longleftrightarrow>
     \<not> pg_More p k \<or> (\<forall>items. and_then (attempt (pg_NextPage p k ctx)) (traverse f) \<noteq> Go items)"

definition page_items :: "'a pager \<Rightarrow> azure_ctx \<Rightarrow> ('a \<Rightarrow> 'b outcome) \<Rightarrow> nat \<Rightarrow> 'b list" where
  "page_items p ctx f k =
     (case and_then (attempt (pg_NextPage p k ctx)) (traverse f) of Go items \<Rightarrow> items | _ \<Rightarrow> [])"

definition items_before :: "'a pager \<Rightarrow> azure_ctx \<Rightarrow> ('a \<Rightarrow> 'b outcome) \<Rightarrow> nat \<Rightarrow> 'b list" where
  "items_before p ctx f k = concat (map (page_items p ctx f) [0..<k])"

lemma drain_step:
  "drain p ctx f k out =
     (if \<not> pg_More p k then Some (Go out)
      else (case and_then (attempt (pg_NextPage p k ctx)) (traverse f) of
              Go items \<Rightarrow> drain p ctx f (Suc k) (out @ items) | Panic \<Rightarrow> Some Panic | Stop err \<Rightarrow> Some (Stop err)))"
  by (subst drain.simps) (auto split: sum.splits outcome.splits)

lemma drain_go_on:
  "\<not> page_stops p ctx f k \<Longrightarrow> drain p ctx f k out = drain p ctx f (Suc k) (out @ page_items p ctx f k)"
  by (subst drain_step) (auto simp: page_stops_def page_items_def)

lemma drain_from_start:
  "(\<And>j. j < k \<Longrightarrow> \<not> page_stops p ctx f j) \<Longrightarrow> drain p ctx f 0 [] = drain p ctx f k (items_before p ctx f k)"
  by (induction k) (simp_all add: drain_go_on items_before_def)

text \<open>A loop that goes on for ever gives no value.\<close>

lemma drain_None:
  assumes "\<And>k. \<not> page_stops p ctx f k"
  shows "drain p ctx f k out = None"
proof -
  have "\<exists>k. page_stops p ctx f k" if "drain p ctx f k out = Some r" for r
  proof (rule drain.raw_induct [OF _ that])
    fix drain' :: "'a pager \<Rightarrow> azure_ctx \<Rightarrow> ('a \<Rightarrow> 'b outcome) \<Rightarrow> nat \<Rightarrow> 'b list \<Rightarrow> 'b list outcome option"
      and p :: "'a pager" and ctx k out r and f :: "'a \<Rightarrow> 'b outcome"
    assume IH: "\<And>p ctx f k out r. drain' p ctx f k out = Some r \<Longrightarrow> \<exists>k. page_stops p ctx f k"
      and r: "(if \<not> pg_More p k then Some (Go out)
        else (case pg_NextPage p k ctx of
                Inl err \<Rightarrow> Some (Stop err)
              | Inr page \<Rightarrow>
                  (case traverse f page of
                     Panic \<Rightarrow> Some Panic
                   | Stop err \<Rightarrow> Some (Stop err)
                   | Go items \<Rightarrow> drain' p ctx f (Suc k) (out @ items)))) = Some r"
    show "\<exists>k. page_stops p ctx f k"
    proof (cases "page_stops p ctx f k")
      case False
      with IH r show ?thesis
        by (auto simp: page_stops_def split: if_splits sum.splits outcome.splits)
    qed blast
  qed
  with assms show ?thesis by (cases "drain p ctx f k out") auto
qed

text \<open>
  Claim C33. A listing over the pages of Azure ends exactly when the service runs out of pages or an
  answer is an error (or holds a nil item, which panics); it then holds every item of every page before, in
  order, or is that error with nothing of the pages before. It does not end if the service always
  announces another page: nothing in the agent bounds the number of pages.
\<close>

theorem list_all_pages_spec:
  "list_all_pages p ctx f =
     (if \<exists>k. page_stops p ctx f k
      then (let n = (LEAST k. page_stops p ctx f k) in
            if \<not> pg_More p n then Some (Go (items_before p ctx f n))
            else Some (and_then (attempt (pg_NextPage p n ctx)) (traverse f)))
      else None)"
proof (cases "\<exists>k. page_stops p ctx f k")
  case True
  define n where "n = (LEAST k. page_stops p ctx f k)"
  have n: "page_stops p ctx f n" unfolding n_def using True by (rule LeastI_ex)
  have "drain p ctx f 0 [] = drain p ctx f n (items_before p ctx f n)"
    by (rule drain_from_start) (auto simp: n_def dest: not_less_Least)
  then show ?thesis
    using n True unfolding n_def [symmetric] list_all_pages_def
    by (subst (asm) (2) drain_step) (auto simp: page_stops_def Let_def n_def [symmetric] split: outcome.splits)
qed (simp add: list_all_pages_def drain_None)

section \<open>A failed construction\<close>

text \<open>The clients are all there, or none is.\<close>

lemma newAzureClients_all_or_none:
  "let c = newAzureClients env sdk cfg in
     if acl_initErr c = None
     then acl_nsg c \<noteq> None \<and> acl_udr c \<noteq> None \<and> acl_lb c \<noteq> None \<and> acl_lbProbes c \<noteq> None \<and>
          acl_appGateway c \<noteq> None \<and> acl_logs c \<noteq> None \<and> acl_activity c \<noteq> None
     else acl_nsg c = None \<and> acl_udr c = None \<and> acl_lb c = None \<and> acl_lbProbes c = None \<and>
          acl_appGateway c = None \<and> acl_logs c = None \<and> acl_activity c = None"
  by (auto simp: newAzureClients_def create_def Let_def split: sum.splits outcome.splits)

lemma before_Go: "before m f = Some (Go d) \<longleftrightarrow> (\<exists>x. m = Go x \<and> f x = Some (Go d))"
  by (cases m) (simp_all add: before_def)

lemma before_stops:
  "m \<noteq> Panic \<Longrightarrow> (\<And>x. m = Go x \<Longrightarrow> \<exists>err. f x = Some (Stop err)) \<Longrightarrow> \<exists>err. before m f = Some (Stop err)"
  by (cases m) (simp_all add: before_def)

lemma no_client_stops:
  "m = Go None \<Longrightarrow> \<exists>err. before (configured_client what m) f = Some (Stop err)"
  by (simp add: configured_client_def before_def)

lemma azure_tasks_without_clients:
  assumes "State_Client (pv_state p) = Some c" "acl_nsg c = None" "acl_udr c = None" "acl_lb c = None"
    "acl_lbProbes c = None" "acl_appGateway c = None" "acl_logs c = None" "acl_activity c = None"
  shows "list_all (\<lambda>(name, body). \<exists>err. body env ctx p params = Some (Stop err)) azure_bodies"
proof -
  have current: "CurrentNSGClient p = Go None" "CurrentUDRClient p = Go None" "CurrentLBClient p = Go None"
    "CurrentLBProbeClient p = Go None" "CurrentAppGatewayClient p = Go None" "CurrentLogsClient p = Go None"
    "CurrentActivityClient p = Go None"
    using assms by (simp_all add: CurrentNSGClient_def CurrentUDRClient_def CurrentLBClient_def
        CurrentLBProbeClient_def CurrentAppGatewayClient_def CurrentLogsClient_def CurrentActivityClient_def deref_def)
  show ?thesis
    unfolding azure_bodies_def list.pred_inject prod.case
    unfolding case_prod_beta nsg_Execute_def udr_Execute_def
      lbRules_Execute_def lbHealth_Execute_def appGatewayBackendHealth_Execute_def appGatewayListeners_Execute_def
      appGatewayLogs_Execute_def vnetFlowLogs_Execute_def activityChanges_Execute_def
    by (rule TrueI conjI current [THEN no_client_stops] attempt_simps before_stops)+ simp
qed

text \<open>
  When the clients of the configuration the provider has arrived at could not be made, every
  task returns a failure: none panics, whatever the parameters and the updates.
\<close>

theorem azure_init_failure_contained:
  fixes env sdk schema mk cfg us
  defines "p \<equiv> run_updates (Azure_UpdateConfig env sdk) us (Azure_NewProvider env sdk schema mk cfg)"
  assumes "acl_initErr (newAzureClients env sdk (Azure_currentConfig p)) \<noteq> None"
    and "(name, body) \<in> set azure_bodies"
  shows "\<exists>r. Azure_Execute body env ctx p params = Some (Some r) \<and> \<not> res_Success r"
proof -
  let ?c = "newAzureClients env sdk (Azure_currentConfig p)"
  have "State_Client (pv_state p) = Some ?c"
    using azure_follows_run [of env sdk us schema mk cfg]
    by (simp add: p_def follows_def Azure_currentConfig_def)
  then have "list_all (\<lambda>(name, body). \<exists>err. body env ctx p params = Some (Stop err)) azure_bodies"
    by (rule azure_tasks_without_clients)
      (use newAzureClients_all_or_none [of env sdk "Azure_currentConfig p"] assms(2) in \<open>auto simp: Let_def\<close>)
  with assms(3) obtain err where "body env ctx p params = Some (Stop err)"
    by (auto simp: list_all_iff)
  then show ?thesis by (simp add: Azure_Execute_def TaskFailure_def)
qed

section \<open>Text\<close>

text \<open>The reader of a literal between single quotes, after the first quote: its value and the rest.\<close>

fun read_single_quoted :: "gostring \<Rightarrow> (gostring \<times> gostring) option" where
  "read_single_quoted [] = None"
| "read_single_quoted (c # cs) =
     (if c = CHR 0x27 then
        (case cs of
           [] \<Rightarrow> Some ([], [])
         | d # ds \<Rightarrow>
             (if d = CHR 0x27 then map_option (\<lambda>(v, r). (CHR 0x27 # v, r)) (read_single_quoted ds)
              else Some ([], cs)))
      else map_option (\<lambda>(v, r). (c # v, r)) (read_single_quoted cs))"

lemma read_escaped:
  "rest = [] \<or> hd rest \<noteq> CHR 0x27 \<Longrightarrow>
     read_single_quoted (escapeSingleQuotes v @ CHR 0x27 # rest) = Some (v, rest)"
proof (induction v)
  case Nil
  then show ?case by (cases rest) (simp_all add: escapeSingleQuotes_def ReplaceAll_def)
next
  case (Cons c v)
  then show ?case by (simp add: escapeSingleQuotes_def ReplaceAll_def)
qed

text \<open>The lines of a query.\<close>

lemma Join_lines:
  "xs \<noteq> [] \<Longrightarrow> list_all (\<lambda>l. CHR 0x0A \<notin> set l) xs \<Longrightarrow> Split (CHR 0x0A) (Join xs [CHR 0x0A]) = xs"
proof (induction xs rule: induct_list012)
  case (3 x y zs)
  then show ?case using Split_append [of "CHR 0x0A" x] by simp
qed (simp_all add: Split_no_sep)

lemma Itoa_no_newline: "CHR 0x0A \<notin> set (Itoa i)"
proof -
  have "CHR 0x0A \<notin> set (Itoa_nat n)" for n
    using Itoa_nat_digits [of n] by (auto simp: list_all_iff is_digit_def less_eq_char_def)
  then show ?thesis by (simp add: Itoa_def)
qed

lemma where_equal_lines:
  "plain_escapes (aze_esc env) \<Longrightarrow> CHR 0x0A \<notin> set column \<Longrightarrow>
     list_all (\<lambda>l. CHR 0x0A \<notin> set l) (where_equal env column val)"
  by (simp add: where_equal_def Quote_plain)

text \<open>A reader of filters: clauses of a left side and a quoted literal, joined by \<open>and\<close>.\<close>

lemma read_single_quoted_shrinks: "read_single_quoted s = Some (v, r) \<Longrightarrow> length r < length s"
  by (induction s arbitrary: v r rule: read_single_quoted.induct) (force split: if_splits list.splits)+

lemma clause_shrinks:
  assumes "dropWhile P s = q # t" "read_single_quoted t = Some (v, r)"
  shows "length r - 5 < length s"
  using assms length_dropWhile_le [of P s] by (auto dest!: read_single_quoted_shrinks)

function read_clauses :: "gostring \<Rightarrow> (gostring \<times> gostring) list option" where
  "read_clauses s =
     (case dropWhile (\<lambda>c. c \<noteq> CHR 0x27) s of
        [] \<Rightarrow> None
      | q # t \<Rightarrow>
          (case read_single_quoted t of
             None \<Rightarrow> None
           | Some (v, r) \<Rightarrow>
               (let clause = (takeWhile (\<lambda>c. c \<noteq> CHR 0x27) s, v)
                in if r = [] then Some [clause]
                   else if HasPrefix r '' and '' then map_option (Cons clause) (read_clauses (drop 5 r)) else None)))"
  by pat_completeness auto
termination
  by (relation "measure length") (auto simp: clause_shrinks)

declare read_clauses.simps [simp del]

lemma read_clause:
  assumes "CHR 0x27 \<notin> set lhs" "rest = [] \<or> hd rest \<noteq> CHR 0x27"
  shows "read_clauses (compared_with lhs (escapeSingleQuotes v) @ rest) =
    (if rest = [] then Some [(lhs @ '' '', v)]
     else if HasPrefix rest '' and '' then map_option (Cons (lhs @ '' '', v)) (read_clauses (drop 5 rest)) else None)"
proof -
  let ?s = "compared_with lhs (escapeSingleQuotes v) @ rest"
  have s: "?s = (lhs @ '' '') @ CHR 0x27 # escapeSingleQuotes v @ CHR 0x27 # rest" by (simp add: compared_with_def)
  have "takeWhile (\<lambda>c. c \<noteq> CHR 0x27) ?s = lhs @ '' ''"
    "dropWhile (\<lambda>c. c \<noteq> CHR 0x27) ?s = CHR 0x27 # escapeSingleQuotes v @ CHR 0x27 # rest"
    using assms(1) by (auto simp: s takeWhile_append dropWhile_append)
  then show ?thesis
    using read_escaped [OF assms(2), of v] by (subst read_clauses.simps) (simp add: Let_def)
qed

lemma read_joined:
  "cs \<noteq> [] \<Longrightarrow> list_all (\<lambda>(lhs, v). CHR 0x27 \<notin> set lhs) cs \<Longrightarrow>
     read_clauses (Join (map (\<lambda>(lhs, v). compared_with lhs (escapeSingleQuotes v)) cs) '' and '') =
       Some (map (\<lambda>(lhs, v). (lhs @ '' '', v)) cs)"
proof (induction cs rule: induct_list012)
  case (2 c)
  then show ?case using read_clause [of "fst c" "[]" "snd c"] by (simp add: case_prod_unfold)
next
  case (3 c d cs)
  then show ?case
    using read_clause [of "fst c" "'' and '' @ Join (map (\<lambda>(lhs, v). compared_with lhs (escapeSingleQuotes v)) (d # cs)) '' and ''" "snd c"]
    by (simp add: case_prod_unfold HasPrefix_def)
qed simp

lemma escape_plain: "CHR 0x27 \<notin> set s \<Longrightarrow> escapeSingleQuotes s = s"
  by (induction s) (auto simp: escapeSingleQuotes_def ReplaceAll_def)

text \<open>
  No resource group, resource type or operation name can change the filter of the activity
  log: whatever they hold, quotes included, a reader of the filter finds one clause for the start of the
  span and one for each name that is not empty, with exactly that name as its literal.
\<close>

theorem activity_filter_roundtrip:
  assumes "CHR 0x27 \<notin> set (aze_formatTime env start)"
  shows "read_clauses (buildActivityFilter env start resourceGroup resourceType operationName) =
    Some ((''eventTimestamp ge '', aze_formatTime env start) #
      filter (\<lambda>clause. snd clause \<noteq> [])
        [(''resourceGroupName eq '', resourceGroup), (''resourceProvider eq '', resourceType),
         (''operationName/value eq '', operationName)])"
proof -
  let ?cs = "(''eventTimestamp ge'', aze_formatTime env start) #
    filter (\<lambda>clause. snd clause \<noteq> [])
      [(''resourceGroupName eq'', resourceGroup), (''resourceProvider eq'', resourceType),
       (''operationName/value eq'', operationName)]"
  have "activity_parts env start resourceGroup resourceType operationName =
      map (\<lambda>(lhs, v). compared_with lhs (escapeSingleQuotes v)) ?cs"
    using escape_plain [OF assms] by (simp add: activity_parts_def)
  moreover have "list_all (\<lambda>(lhs, v). CHR 0x27 \<notin> set lhs) ?cs" by simp
  ultimately show ?thesis
    unfolding buildActivityFilter_def using read_joined [of ?cs] by simp
qed

text \<open>
  Nor can a name or an address change a query in KQL: a query has the lines it is made of and
  no other, and in a line that compares a column the string literal extends to the end of the line.
\<close>

theorem kql_lines:
  assumes "plain_escapes (aze_esc env)"
  shows "Split (CHR 0x0A) (buildAppGatewayKQL env appGatewayName maxRows) = appGateway_lines env appGatewayName maxRows \<and>
    Split (CHR 0x0A) (buildVNetFlowKQL env nsgName sourceIP destIP maxRows) =
      vnetFlow_lines env nsgName sourceIP destIP maxRows \<and>
    where_equal env column val =
      (if val = [] then [] else [''| where '' @ column @ '' == '' @ Quote (aze_esc env) val]) \<and>
    skip_quoted (tl (Quote (aze_esc env) val)) = Some []"
proof (intro conjI)
  show "Split (CHR 0x0A) (buildAppGatewayKQL env appGatewayName maxRows) = appGateway_lines env appGatewayName maxRows"
    unfolding buildAppGatewayKQL_def
    by (rule Join_lines) (simp_all add: appGateway_lines_def where_equal_lines assms Itoa_no_newline)
  show "Split (CHR 0x0A) (buildVNetFlowKQL env nsgName sourceIP destIP maxRows) =
      vnetFlow_lines env nsgName sourceIP destIP maxRows"
    unfolding buildVNetFlowKQL_def
    by (rule Join_lines) (simp_all add: vnetFlow_lines_def where_equal_lines assms Itoa_no_newline)
  show "where_equal env column val =
      (if val = [] then [] else [''| where '' @ column @ '' == '' @ Quote (aze_esc env) val])"
    by (simp add: where_equal_def)
  show "skip_quoted (tl (Quote (aze_esc env) val)) = Some []"
    using Quote_plain(2) [OF assms, of val "[]"] by simp
qed

section \<open>Examples\<close>

definition sample_azure_env :: azure_env where
  "sample_azure_env =
     \<lparr>aze_now = 100000000000000, aze_oor = amd64_oor, aze_formatTime = (\<lambda>t. ''time''), aze_esc = (\<lambda>s. []),
      aze_emptyLocalizable = ''{}''\<rparr>"

definition sample_azure_sdk :: "unit azure_sdk" where
  "sample_azure_sdk =
     \<lparr>newClientSecretCredential = (\<lambda>_ _ _. Inr ()), newDefaultAzureCredential = Inl ''no credential'',
      newSecurityGroupsClient = (\<lambda>_ _. Inl ''refused''), newRouteTablesClient = (\<lambda>_ _. Inl ''refused''),
      newLoadBalancersClient = (\<lambda>_ _. Inl ''refused''), newLoadBalancerProbesClient = (\<lambda>_ _. Inl ''refused''),
      newApplicationGatewaysClient = (\<lambda>_ _. Inl ''refused''), newActivityLogsClient = (\<lambda>_ _. Inl ''refused''),
      newLogsClient = (\<lambda>_. Inl ''refused'')\<rparr>"

lemma Config_azure_updates:
  "Azure_currentConfig (run_updates (Azure_UpdateConfig env sdk) us (Azure_NewProvider env sdk schema mk cfg)) =
     fold (\<lambda>u c. parseAzureConfig c (snd u)) us cfg"
proof -
  have "Azure_currentConfig (run_updates (Azure_UpdateConfig env sdk) us p) =
      fold (\<lambda>u c. parseAzureConfig c (snd u)) us (Azure_currentConfig p)" for p :: "('a, 'b) AzureProvider"
    by (induction us arbitrary: p)
      (auto simp: Azure_currentConfig_def Azure_UpdateConfig_def azure_options_def State_Config_def Apply_unfold
        commit_def prepare_def equal_fn_def register_close_def Let_def)
  then show ?thesis
    by (simp add: Azure_currentConfig_def Azure_NewProvider_def NewState_def State_Config_def)
qed

text \<open>A subscription without credentials: the default credential is tried, and there is none.\<close>

theorem azure_init_failure_contained_witness:
  "\<exists>r. Azure_Execute activityChanges_Execute sample_azure_env None
      (run_updates (Azure_UpdateConfig sample_azure_env sample_azure_sdk)
        [(''azure.activity.changes'', [(''subscription_id'', VString ''s'')])]
        (Azure_NewProvider sample_azure_env sample_azure_sdk (\<lambda>_. []) (\<lambda>_. ()) zero_AzureConfig)) [] = Some (Some r) \<and>
    \<not> res_Success r"
proof (rule azure_init_failure_contained [where name = "''azure.activity.changes''"])
  have "fold (\<lambda>u c. parseAzureConfig c (snd u)) [(''azure.activity.changes'', [(''subscription_id'', VString ''s'')])]
      zero_AzureConfig = zero_AzureConfig\<lparr>az_SubscriptionID := ''s''\<rparr>"
    by (simp add: parseAzureConfig_def StringOK_def Lookup_def zero_defs ok_or_def)
  moreover have "TrimSpace ''s'' = ''s''" "TrimSpace [] = []" by code_simp+
  ultimately show "acl_initErr (newAzureClients sample_azure_env sample_azure_sdk (Azure_currentConfig
      (run_updates (Azure_UpdateConfig sample_azure_env sample_azure_sdk)
        [(''azure.activity.changes'', [(''subscription_id'', VString ''s'')])]
        (Azure_NewProvider sample_azure_env sample_azure_sdk (\<lambda>_. []) (\<lambda>_. ()) zero_AzureConfig)))) \<noteq> None"
    unfolding Config_azure_updates
    by (simp add: newAzureClients_def createAzureCredential_def sample_azure_sdk_def zero_AzureConfig_def)
qed (simp add: azure_bodies_def)

theorem activity_filter_roundtrip_witness:
  "read_clauses (buildActivityFilter sample_azure_env 0 [CHR ''o'', CHR 0x27, CHR ''k''] [] ''x'') =
    Some [(''eventTimestamp ge '', ''time''), (''resourceGroupName eq '', [CHR ''o'', CHR 0x27, CHR ''k'']),
      (''operationName/value eq '', ''x'')]"
  using activity_filter_roundtrip [of sample_azure_env 0 "[CHR ''o'', CHR 0x27, CHR ''k'']" "[]" "''x''"]
  by (simp add: sample_azure_env_def)

theorem kql_lines_witness:
  "Split (CHR 0x0A) (buildVNetFlowKQL sample_azure_env [CHR 0x22, CHR 0x0A] [] [] 5) =
    vnetFlow_lines sample_azure_env [CHR 0x22, CHR 0x0A] [] [] 5"
  using kql_lines [of sample_azure_env "[]" 5 "[CHR 0x22, CHR 0x0A]" "[]" "[]"]
  by (simp add: sample_azure_env_def plain_escapes_def)

end
