(* ===== verification/Azure_Time.thy ===== *)
theory Azure_Time
  imports Azure_Tasks
begin

text \<open>
  ISO 8601 time spans: every span of days, hours, minutes and seconds, written as the standard says,
  is read as its length.
\<close>

section \<open>Strings without white space at their ends\<close>

definition visible :: "char \<Rightarrow> bool" where
  "visible c \<longleftrightarrow> CHR 0x21 \<le> c \<and> c \<le> CHR 0x7E"

lemma strip_visible:
  assumes "list_all (\<lambda>w. w \<noteq> [] \<and> \<not> visible (hd w)) ws" "s = [] \<or> visible (hd s)"
  shows "strip ws s = s"
proof -
  have "find (\<lambda>w. w \<noteq> [] \<and> prefix w s) ws = None"
    using assms by (auto simp: find_None_iff list_all_iff prefix_def)
  then show ?thesis by (subst strip.simps) simp
qed

lemma TrimSpace_visible:
  assumes "s = [] \<or> visible (hd s) \<and> visible (last s)"
  shows "TrimSpace s = s"
proof -
  have "list_all (\<lambda>w. w \<noteq> [] \<and> \<not> visible (hd w)) go_spaces"
    "list_all (\<lambda>w. w \<noteq> [] \<and> \<not> visible (hd w)) (map rev go_spaces)" by code_simp+
  note words = this
  have "strip go_spaces s = s" by (rule strip_visible [OF words(1)]) (use assms in auto)
  moreover have "strip (map rev go_spaces) (rev s) = rev s"
    by (rule strip_visible [OF words(2)]) (use assms in \<open>auto simp: hd_rev\<close>)
  ultimately show ?thesis by (simp add: TrimSpace_def)
qed

section \<open>The parts of a span\<close>

definition iso_part :: "nat \<Rightarrow> char \<Rightarrow> gostring" where
  "iso_part n marker = (if n = 0 then [] else Itoa (int n) @ [marker])"

definition iso_text :: "nat \<Rightarrow> nat \<Rightarrow> nat \<Rightarrow> nat \<Rightarrow> gostring" where
  "iso_text days hours minutes seconds =
     ''P'' @ iso_part days (CHR ''D'') @
     (if hours = 0 \<and> minutes = 0 \<and> seconds = 0 then []
      else ''T'' @ iso_part hours (CHR ''H'') @ iso_part minutes (CHR ''M'') @ iso_part seconds (CHR ''S''))"

lemma Itoa_int_digits: "list_all is_digit (Itoa (int n))" "Itoa (int n) \<noteq> []"
  by (simp_all add: Itoa_def Itoa_nat_digits)

lemma IndexByte_prefix: "b \<notin> set xs \<Longrightarrow> IndexByte (xs @ b # ys) b = Some (length xs)"
  by (induction xs) auto

lemma IndexByte_None: "IndexByte xs b = None \<longleftrightarrow> b \<notin> set xs"
  by (induction xs) auto

lemma digit_not_in: "list_all is_digit xs \<Longrightarrow> \<not> is_digit b \<Longrightarrow> b \<notin> set xs"
  by (auto simp: list_all_iff)

lemma iso_part_chars: "set (iso_part n m) \<subseteq> insert m {c. is_digit c}"
  using Itoa_int_digits [of n] by (auto simp: iso_part_def list_all_iff)

lemma consume_iso_part:
  assumes "\<not> is_digit marker" "marker \<notin> set rest" "is_int64 (int n)"
  shows "consumeISOPart (iso_part n marker @ rest) marker = Some (int n, rest)"
proof (cases "n = 0")
  case True
  with assms(2) IndexByte_None [of rest marker] show ?thesis by (simp add: consumeISOPart_def iso_part_def)
next
  case False
  have d: "list_all is_digit (Itoa (int n))" "Itoa (int n) \<noteq> []" by (fact Itoa_int_digits)+
  have "IndexByte (Itoa (int n) @ marker # rest) marker = Some (length (Itoa (int n)))"
    by (rule IndexByte_prefix) (use d(1) assms(1) in \<open>rule digit_not_in\<close>)
  moreover have tw: "takeWhile is_digit (rev (Itoa (int n))) = rev (Itoa (int n))"
    using d(1) by (auto simp: takeWhile_eq_all_conv list_all_iff)
  ultimately show ?thesis
    using False d(2) Atoi_Itoa [OF assms(3)] by (simp add: consumeISOPart_def iso_part_def tw)
qed

section \<open>What ParseDuration makes of the parts\<close>

text \<open>A text of numbers with their units, and the time it stands for.\<close>

definition go_part :: "nat \<times> gostring \<Rightarrow> gostring" where
  "go_part p = Itoa (int (fst p)) @ snd p"

definition part_nanos :: "nat \<times> gostring \<Rightarrow> int" where
  "part_nanos p = int (fst p) * (case map_of unitMap (snd p) of Some u \<Rightarrow> u | None \<Rightarrow> 0)"

definition known_unit :: "gostring \<Rightarrow> bool" where
  "known_unit u \<longleftrightarrow> u \<in> {''h'', ''m'', ''s''}"

lemma known_unit_facts:
  assumes "known_unit u"
  shows "u \<noteq> []" "list_all is_unit_char u" "\<exists>n. map_of unitMap u = Some n \<and> 0 < n"
    "hd u \<noteq> CHR ''.''" "\<not> is_digit (hd u)" "\<not> is_digit (last u)"
  using assms unfolding known_unit_def by (auto simp: unitMap_def is_unit_char_def is_digit_def)

lemma takeWhile_all_then: "list_all P xs \<Longrightarrow> ys = [] \<or> \<not> P (hd ys) \<Longrightarrow> takeWhile P (xs @ ys) = xs"
  by (cases ys) (auto simp: takeWhile_append list_all_iff takeWhile_eq_all_conv)

lemma dropWhile_all_then: "list_all P xs \<Longrightarrow> ys = [] \<or> \<not> P (hd ys) \<Longrightarrow> dropWhile P (xs @ ys) = ys"
  by (cases ys) (auto simp: dropWhile_append list_all_iff)

lemma parse_term_part:
  assumes u: "known_unit (snd p)" and rest: "rest = [] \<or> is_digit (hd rest)"
    and bound: "part_nanos p \<le> 9223372036854775808"
  shows "parse_term (go_part p @ rest) = Some (part_nanos p, rest)"
proof -
  obtain n u where p: "p = (n, u)" by (cases p)
  from known_unit_facts [of u] u obtain k where k: "map_of unitMap u = Some k" "0 < k" and un: "u \<noteq> []"
    "list_all is_unit_char u" "hd u \<noteq> CHR ''.''" "\<not> is_digit (hd u)"
    by (auto simp: p)
  have d: "list_all is_digit (Itoa (int n))" "Itoa (int n) \<noteq> []" by (fact Itoa_int_digits)+
  have sn: "scan_number (go_part p @ rest) = (Itoa (int n), [], u @ rest)"
    using takeWhile_all_then [OF d(1), of "u @ rest"] dropWhile_all_then [OF d(1), of "u @ rest"] un
    by (cases u) (simp_all add: scan_number_def go_part_def p)
  have nk: "int n * k \<le> 9223372036854775808" using bound by (simp add: p part_nanos_def k)
  moreover have "int n * 1 \<le> int n * k" by (rule mult_left_mono) (use k(2) in simp_all)
  ultimately have "int n \<le> 9223372036854775808" by linarith
  then have li: "leadingInt 0 (Itoa (int n)) = Some (int n)"
    using leadingInt_digits [of 0 "Itoa (int n)"] d(1) digits_value_Itoa_nat [of n] by (simp add: Itoa_def)
  have "int n \<le> 9223372036854775808 div k" using zdiv_mono1 [OF nk k(2)] k(2) by simp
  moreover have "takeWhile is_unit_char (u @ rest) = u" "dropWhile is_unit_char (u @ rest) = rest"
    using takeWhile_all_then [OF un(2), of rest] dropWhile_all_then [OF un(2), of rest] rest
    by (auto simp: is_unit_char_def)
  ultimately show ?thesis
    using un(1) d(2) k(1) by (simp add: parse_term_def sn [unfolded p] li p part_nanos_def Let_def del: takeWhile_eq_Nil_iff)
qed

lemma part_nanos_nonneg: "known_unit (snd p) \<Longrightarrow> 0 \<le> part_nanos p"
  using known_unit_facts(3) [of "snd p"] by (auto simp: part_nanos_def)

lemma go_part_hd: "go_part p \<noteq> []" "is_digit (hd (go_part p))"
  using Itoa_int_digits [of "fst p"] by (cases "Itoa (int (fst p))"; simp add: go_part_def)+

lemma go_parts_hd: "concat (map go_part ps) = [] \<or> is_digit (hd (concat (map go_part ps)))"
  by (cases ps) (simp_all add: go_part_hd)

lemma parse_terms_parts:
  "list_all (known_unit \<circ> snd) ps \<Longrightarrow> 0 \<le> d \<Longrightarrow> d + sum_list (map part_nanos ps) \<le> max_int64 \<Longrightarrow>
     parse_terms d (concat (map go_part ps)) = Some (d + sum_list (map part_nanos ps))"
proof (induction ps arbitrary: d)
  case Nil
  then show ?case by (simp add: parse_terms.simps)
next
  case (Cons p ps)
  let ?rest = "concat (map go_part ps)"
  have nonneg: "0 \<le> sum_list (map part_nanos ps)" "0 \<le> part_nanos p"
    using Cons.prems(1) by (auto intro!: sum_list_nonneg part_nanos_nonneg simp: list_all_iff)
  with Cons.prems have b: "part_nanos p \<le> 9223372036854775808" "0 \<le> d + part_nanos p" "d + part_nanos p \<le> max_int64"
    by simp_all
  have t: "parse_term (go_part p @ ?rest) = Some (part_nanos p, ?rest)"
    by (rule parse_term_part) (use Cons.prems b go_parts_hd [of ps] in \<open>auto simp: comp_def\<close>)
  have "parse_terms d (go_part p @ ?rest) = parse_terms (d + part_nanos p) ?rest"
    using go_part_hd [of p] b
    by (subst parse_terms.simps) (simp add: t is_unit_char_def Let_def)
  also have "\<dots> = Some (d + part_nanos p + sum_list (map part_nanos ps))"
    by (rule Cons.IH) (use Cons.prems b in simp_all)
  finally show ?case by simp
qed

lemma go_parts_last:
  "ps \<noteq> [] \<Longrightarrow> list_all (known_unit \<circ> snd) ps \<Longrightarrow> \<not> is_digit (last (concat (map go_part ps)))"
proof (induction ps)
  case (Cons p ps)
  from Cons.prems known_unit_facts [of "snd p"] have "\<not> is_digit (last (go_part p))"
    by (auto simp: go_part_def)
  with Cons show ?case by (cases "ps = []") (auto simp: go_part_hd(1) last_append)
qed simp

lemma ParseDuration_parts:
  assumes "ps \<noteq> []" "list_all (known_unit \<circ> snd) ps" "sum_list (map part_nanos ps) \<le> max_int64"
  shows "ParseDuration (concat (map go_part ps)) = Some (sum_list (map part_nanos ps))"
proof -
  let ?s = "concat (map go_part ps)"
  have ne: "?s \<noteq> []" using assms(1) go_part_hd(1) by (cases ps) auto
  then have "is_digit (hd ?s)" using go_parts_hd [of ps] by blast
  then have h: "hd ?s \<noteq> CHR ''-''" "hd ?s \<noteq> CHR ''+''" by (auto simp: is_digit_def less_eq_char_def)
  have "?s \<noteq> ''0''" using go_parts_last [OF assms(1,2)] by (auto simp: is_digit_def)
  moreover have "parse_terms 0 ?s = Some (sum_list (map part_nanos ps))"
    using parse_terms_parts [of ps 0] assms by simp
  ultimately show ?thesis
    using ne h assms(3) unfolding ParseDuration_def Let_def by simp
qed

section \<open>Reading a span\<close>

definition go_of :: "nat \<Rightarrow> gostring \<Rightarrow> (nat \<times> gostring) list" where
  "go_of n u = (if n = 0 then [] else [(n, u)])"

definition plain_upper :: "char \<Rightarrow> bool" where
  "plain_upper c \<longleftrightarrow> is_digit c \<or> (CHR ''A'' \<le> c \<and> c \<le> CHR ''Z'')"

lemma ToUpper_plain: "list_all plain_upper s \<Longrightarrow> ToUpper s = s"
  by (induction s) (auto simp: plain_upper_def is_digit_def less_eq_char_def)

lemma iso_part_plain: "plain_upper m \<Longrightarrow> list_all plain_upper (iso_part n m)"
  using iso_part_chars [of n m] by (auto simp: list_all_iff plain_upper_def)

lemma plain_letters:
  "plain_upper (CHR ''P'')" "plain_upper (CHR ''D'')" "plain_upper (CHR ''T'')" "plain_upper (CHR ''H'')"
  "plain_upper (CHR ''M'')" "plain_upper (CHR ''S'')"
  by (simp_all add: plain_upper_def less_eq_char_def)

lemma iso_text_plain: "list_all plain_upper (iso_text days hours minutes seconds)"
  by (simp add: iso_text_def iso_part_plain plain_letters)

lemma TrimSpace_iso_text: "TrimSpace (iso_text days hours minutes seconds) = iso_text days hours minutes seconds"
  (is "TrimSpace ?t = ?t")
proof (rule TrimSpace_visible)
  have "visible c" if "plain_upper c" for c
    using that by (auto simp: visible_def plain_upper_def is_digit_def less_eq_char_def)
  then show "?t = [] \<or> visible (hd ?t) \<and> visible (last ?t)"
    using iso_text_plain [of days hours minutes seconds] by (auto simp: list_all_iff)
qed

lemma iso_part_no_digit: "\<not> is_digit b \<Longrightarrow> b \<noteq> m \<Longrightarrow> b \<notin> set (iso_part n m)"
  using iso_part_chars [of n m] by auto

lemma not_digit_letters:
  "\<not> is_digit (CHR ''T'')" "\<not> is_digit (CHR ''D'')" "\<not> is_digit (CHR ''H'')" "\<not> is_digit (CHR ''M'')" "\<not> is_digit (CHR ''S'')"
  by (simp_all add: is_digit_def less_eq_char_def)

lemma iso_day_parts_iso:
  assumes "is_int64 (24 * int days)"
  shows "iso_day_parts (iso_part days (CHR ''D'')) = Some (map go_part (go_of (24 * days) ''h''))"
proof (cases "days = 0")
  case True
  then show ?thesis by (simp add: iso_day_parts_def iso_part_def go_of_def)
next
  case False
  have "is_int64 (int days)" using assms by (simp add: is_int64_def)
  then have "consumeISOPart (iso_part days (CHR ''D'')) (CHR ''D'') = Some (int days, [])"
    using consume_iso_part [of "CHR ''D''" "[]" days] by (simp add: not_digit_letters)
  moreover have "iso_part days (CHR ''D'') \<noteq> []" using False by (simp add: iso_part_def)
  ultimately show ?thesis
    using False assms by (simp add: iso_day_parts_def go_of_def go_part_def wrap64_id is_int64_def mult.commute)
qed

lemma iso_time_parts_iso:
  assumes "is_int64 (int hours)" "is_int64 (int minutes)" "is_int64 (int seconds)"
  shows "iso_time_parts iso_units parts
      (iso_part hours (CHR ''H'') @ iso_part minutes (CHR ''M'') @ iso_part seconds (CHR ''S'')) =
    Some (parts @ map go_part (go_of hours ''h'' @ go_of minutes ''m'' @ go_of seconds ''s''), [])"
  using assms
    consume_iso_part [of "CHR ''H''" "iso_part minutes (CHR ''M'') @ iso_part seconds (CHR ''S'')" hours]
    consume_iso_part [of "CHR ''M''" "iso_part seconds (CHR ''S'')" minutes]
    consume_iso_part [of "CHR ''S''" "[]" seconds]
  by (simp add: iso_units_def iso_part_no_digit not_digit_letters go_of_def go_part_def)

lemma iso8601DurationToGo_iso:
  assumes "is_int64 (24 * int days)" "is_int64 (int hours)" "is_int64 (int minutes)" "is_int64 (int seconds)"
    and "days + hours + minutes + seconds > 0"
  shows "iso8601DurationToGo (iso_text days hours minutes seconds) =
    Inr (concat (map go_part (go_of (24 * days) ''h'' @ go_of hours ''h'' @ go_of minutes ''m'' @ go_of seconds ''s'')))"
proof -
  let ?t = "iso_text days hours minutes seconds"
  have up: "ToUpper (TrimSpace ?t) = ?t" by (simp add: TrimSpace_iso_text ToUpper_plain iso_text_plain)
  have noT: "CHR ''T'' \<notin> set (iso_part days (CHR ''D''))" by (simp add: iso_part_no_digit not_digit_letters)
  let ?r = "iso_part hours (CHR ''H'') @ iso_part minutes (CHR ''M'') @ iso_part seconds (CHR ''S'')"
  have cut: "\<exists>b. Cut (TrimPrefix ?t ''P'') (CHR ''T'') = (iso_part days (CHR ''D''), ?r, b)"
  proof (cases "hours = 0 \<and> minutes = 0 \<and> seconds = 0")
    case True
    then have t: "?t = ''P'' @ iso_part days (CHR ''D'')" and "?r = []" by (simp_all add: iso_text_def iso_part_def)
    then show ?thesis using noT by (auto simp: TrimPrefix_def HasPrefix_def Cut_def)
  next
    case False
    then have t: "?t = ''P'' @ iso_part days (CHR ''D'') @ ''T'' @ ?r" by (auto simp: iso_text_def)
    have "takeWhile (\<lambda>c. c \<noteq> CHR ''T'') (iso_part days (CHR ''D'') @ ''T'' @ ?r) = iso_part days (CHR ''D'')"
      "dropWhile (\<lambda>c. c \<noteq> CHR ''T'') (iso_part days (CHR ''D'') @ ''T'' @ ?r) = ''T'' @ ?r"
      using noT by (intro takeWhile_all_then dropWhile_all_then; auto simp: list_all_iff)+
    then show ?thesis by (auto simp: t TrimPrefix_def HasPrefix_def Cut_def)
  qed
  have head: "?t \<noteq> []" "HasPrefix ?t ''P''" by (simp_all add: iso_text_def HasPrefix_def)
  have "go_of (24 * days) ''h'' @ go_of hours ''h'' @ go_of minutes ''m'' @ go_of seconds ''s'' \<noteq> []"
    using assms(5) by (auto simp: go_of_def)
  with cut show ?thesis
    by (auto simp: iso8601DurationToGo_def up head iso_day_parts_iso [OF assms(1)] iso_time_parts_iso [OF assms(2-4)])
qed

definition span_seconds :: "nat \<Rightarrow> nat \<Rightarrow> nat \<Rightarrow> nat \<Rightarrow> int" where
  "span_seconds days hours minutes seconds =
     int days * 86400 + int hours * 3600 + int minutes * 60 + int seconds"

text \<open>
  Claim C39. A time span in ISO 8601 notation reaches the service as what it says: for any days, hours,
  minutes and seconds, not all of them zero and together within the 292 years a duration can hold, the
  span ends now and starts exactly that much earlier.
\<close>

theorem parseTimespan_iso8601:
  assumes "map_of params key = Some (VString (iso_text days hours minutes seconds))"
    and "days + hours + minutes + seconds > 0"
    and "span_seconds days hours minutes seconds * Second \<le> max_int64"
  shows "parseTimespan env params key dflt =
    Inr (aze_now env - span_seconds days hours minutes seconds * Second, aze_now env,
         iso_text days hours minutes seconds)"
proof -
  let ?t = "iso_text days hours minutes seconds" and ?s = "span_seconds days hours minutes seconds"
  let ?ps = "go_of (24 * days) ''h'' @ go_of hours ''h'' @ go_of minutes ''m'' @ go_of seconds ''s''"
  have ne: "?t \<noteq> []" "HasPrefix ?t ''P''" by (simp_all add: iso_text_def HasPrefix_def)
  have raw: "OptionalString params key dflt = Inr ?t"
    using ne(1) assms(1) by (simp add: OptionalString_def TrimSpace_iso_text)
  have "is_int64 (24 * int days)" "is_int64 (int hours)" "is_int64 (int minutes)" "is_int64 (int seconds)"
    using assms(3) by (simp_all add: is_int64_def span_seconds_def)
  then have go: "iso8601DurationToGo ?t = Inr (concat (map go_part ?ps))"
    using iso8601DurationToGo_iso assms(2) by blast
  have units: "list_all (known_unit \<circ> snd) ?ps" by (simp add: go_of_def known_unit_def)
  have sum: "sum_list (map part_nanos ?ps) = ?s * Second"
    by (simp add: go_of_def part_nanos_def unitMap_def span_seconds_def)
  have nonempty: "?ps \<noteq> []" using assms(2) by (auto simp: go_of_def)
  have d: "ParseDuration (concat (map go_part ?ps)) = Some (?s * Second)"
    using ParseDuration_parts [OF nonempty units] assms(3) by (simp only: sum)
  have "0 \<le> ?s * Second" by (simp add: span_seconds_def)
  with assms(3) have "wrap64 (- (?s * Second)) = - (?s * Second)" by (intro wrap64_id) simp_all
  with d show ?thesis
    by (simp only: parseTimespan_def raw ToUpper_plain iso_text_plain ne go sum.case option.case if_True) simp
qed

theorem parseTimespan_iso8601_witness:
  "parseTimespan
     \<lparr>aze_now = 100000000000000, aze_oor = amd64_oor, aze_formatTime = (\<lambda>t. []), aze_esc = (\<lambda>s. []),
      aze_emptyLocalizable = []\<rparr>
     [(''timespan'', VString (iso_text 1 0 30 0))] ''timespan'' ''PT1H'' =
   Inr (11800000000000, 100000000000000, ''P1DT30M'')"
proof -
  have "iso_text 1 0 30 0 = ''P1DT30M''" by code_simp
  with parseTimespan_iso8601 [of "[(''timespan'', VString (iso_text 1 0 30 0))]" "''timespan''" 1 0 30 0
      "\<lparr>aze_now = 100000000000000, aze_oor = amd64_oor, aze_formatTime = (\<lambda>t. []), aze_esc = (\<lambda>s. []),
      aze_emptyLocalizable = []\<rparr>" "''PT1H''"]
  show ?thesis by (simp add: span_seconds_def)
qed

end
