(* ===== verification/Go_Path.thy ===== *)
theory Go_Path
  imports Go_Strings
begin

text \<open>
  Package \<open>path/filepath\<close> on Unix: \<open>Clean\<close>, \<open>Join\<close>, \<open>Base\<close>. A path is processed component by
  component. The lemmas say what a cleaned path looks like: no empty component, no dot, and two dots
  only at the start of a relative path.
\<close>

definition rooted :: "gostring \<Rightarrow> bool" where
  "rooted p \<longleftrightarrow> HasPrefix p ''/''"

text \<open>The components kept so far are in reverse order.\<close>

fun clean_components :: "bool \<Rightarrow> gostring list \<Rightarrow> gostring list \<Rightarrow> gostring list" where
  "clean_components root kept [] = rev kept"
| "clean_components root kept (c # cs) =
     (if c = [] \<or> c = ''.'' then clean_components root kept cs
      else if c = ''..'' then
        (case kept of
           [] \<Rightarrow> (if root then clean_components root [] cs else clean_components root [c] cs)
         | k # ks \<Rightarrow> (if k = ''..'' then clean_components root (c # kept) cs else clean_components root ks cs))
      else clean_components root (c # kept) cs)"

definition Clean :: "gostring \<Rightarrow> gostring" where
  "Clean p =
     (let cs = clean_components (rooted p) [] (Split (CHR ''/'') p) in
      if rooted p then ''/'' @ Join cs ''/''
      else if cs = [] then ''.'' else Join cs ''/'')"

definition filepath_Join :: "gostring list \<Rightarrow> gostring" where
  "filepath_Join elems =
     (let es = filter (\<lambda>e. e \<noteq> []) elems in if es = [] then [] else Clean (Join es ''/''))"

definition filepath_Base :: "gostring \<Rightarrow> gostring" where
  "filepath_Base p =
     (if p = [] then ''.''
      else (let q = rev (dropWhile (\<lambda>c. c = CHR ''/'') (rev p)); b = rev (takeWhile (\<lambda>c. c \<noteq> CHR ''/'') (rev q))
            in if b = [] then ''/'' else b))"

section \<open>Cleaned paths\<close>

text \<open>Components of a path without anything to clean: \<open>..\<close> only at the start, and only if relative.\<close>

definition clean_form :: "bool \<Rightarrow> gostring list \<Rightarrow> bool" where
  "clean_form root cs \<longleftrightarrow>
     list_all (\<lambda>c. c \<noteq> [] \<and> c \<noteq> ''.'' \<and> CHR ''/'' \<notin> set c) cs \<and>
     (if root then ''..'' \<notin> set cs else ''..'' \<notin> set (dropWhile (\<lambda>c. c = ''..'') cs))"

lemma dropWhile_dots_snoc:
  "''..'' \<notin> set (dropWhile (\<lambda>c. c = ''..'') xs) \<Longrightarrow> c \<noteq> ''..'' \<Longrightarrow>
     ''..'' \<notin> set (dropWhile (\<lambda>c. c = ''..'') (xs @ [c]))"
  by (induction xs) auto

lemma clean_form_snoc:
  "clean_form root xs \<Longrightarrow> c \<noteq> [] \<Longrightarrow> c \<noteq> ''.'' \<Longrightarrow> c \<noteq> ''..'' \<Longrightarrow> CHR ''/'' \<notin> set c \<Longrightarrow> clean_form root (xs @ [c])"
  by (auto simp: clean_form_def dropWhile_dots_snoc)

lemmas dropWhile_all = dropWhile_eq_Nil_conv [THEN iffD2]

lemma clean_form_butlast: "clean_form root (xs @ [c]) \<Longrightarrow> clean_form root xs"
  by (auto simp: clean_form_def dropWhile_append dropWhile_all split: if_splits)

lemma clean_form_dots:
  assumes "clean_form False (xs @ [''..''])"
  shows "clean_form False ((xs @ [''..'']) @ [''..''])"
proof -
  have "list_all (\<lambda>c. c = ''..'') xs"
    using assms by (auto simp: clean_form_def dropWhile_append list_all_iff split: if_splits)
  then show ?thesis using assms by (auto simp: clean_form_def dropWhile_append list_all_iff)
qed

lemma clean_components_form:
  assumes "clean_form root (rev kept)" "list_all (\<lambda>c. CHR ''/'' \<notin> set c) cs"
  shows "clean_form root (clean_components root kept cs)"
  using assms
proof (induction root kept cs rule: clean_components.induct)
  case (2 root kept c cs)
  consider (skip) "c = [] \<or> c = ''.''" | (up_root) "c = ''..''" "kept = []" root
    | (up_start) "c = ''..''" "kept = []" "\<not> root"
    | (up_more) k ks where "c = ''..''" "kept = k # ks" "k = ''..''"
    | (up) k ks where "c = ''..''" "kept = k # ks" "k \<noteq> ''..''"
    | (down) "c \<noteq> []" "c \<noteq> ''.''" "c \<noteq> ''..''"
    by (metis list.exhaust)
  then show ?case
  proof cases
    case up_more
    have "\<not> root" using 2(7) up_more by (auto simp: clean_form_def)
    with 2(7) up_more have "clean_form root (rev (c # kept))" using clean_form_dots [of "rev ks"] by simp
    with 2 up_more show ?thesis by simp
  next
    case up
    with 2(7) have "clean_form root (rev ks)" using clean_form_butlast [of root "rev ks" k] by simp
    with 2 up show ?thesis by simp
  next
    case down
    with 2(7,8) have "clean_form root (rev (c # kept))" by (simp add: clean_form_snoc)
    with 2 down show ?thesis by simp
  qed (use 2 in \<open>auto simp: clean_form_def\<close>)
qed simp

lemma clean_components_fixed:
  "clean_form root (rev kept @ cs) \<Longrightarrow> clean_components root kept cs = rev kept @ cs"
proof (induction root kept cs rule: clean_components.induct)
  case (2 root kept c cs)
  have c: "c \<noteq> []" "c \<noteq> ''.''" using 2(7) by (auto simp: clean_form_def)
  show ?case
  proof (cases "c = ''..''")
    case False
    with 2 c show ?thesis by simp
  next
    case True
    then have root: "\<not> root" using 2(7) by (auto simp: clean_form_def)
    have dots: "list_all (\<lambda>k. k = ''..'') kept"
    proof (rule ccontr)
      assume "\<not> list_all (\<lambda>k. k = ''..'') kept"
      then have "dropWhile (\<lambda>k. k = ''..'') (rev kept @ c # cs) = dropWhile (\<lambda>k. k = ''..'') (rev kept) @ c # cs"
        by (auto simp: list_all_iff dropWhile_append)
      with 2(7) True root show False by (simp add: clean_form_def)
    qed
    then show ?thesis using 2 True root by (cases kept) auto
  qed
qed simp

lemma clean_form_Clean:
  "clean_form (rooted p) (clean_components (rooted p) [] (Split (CHR ''/'') p))"
  by (rule clean_components_form) (auto simp: clean_form_def list_all_iff dest: Split_pieces_no_sep)

text \<open>Cleaning a clean path changes nothing.\<close>

lemma Clean_Clean: "Clean (Clean p) = Clean p"
proof -
  define cs where "cs = clean_components (rooted p) [] (Split (CHR ''/'') p)"
  have form: "clean_form (rooted p) cs" unfolding cs_def by (rule clean_form_Clean)
  then have nosep: "\<forall>c \<in> set cs. CHR ''/'' \<notin> set c" and ne: "[] \<notin> set cs"
    by (auto simp: clean_form_def list_all_iff)
  have fixed: "clean_components (rooted p) [] cs = cs"
    using clean_components_fixed [of "rooted p" "[]" cs] form by simp
  show ?thesis
  proof (cases "rooted p")
    case True
    then have c: "Clean p = ''/'' @ Join cs ''/''" by (simp add: Clean_def cs_def)
    moreover have "rooted (''/'' @ Join cs ''/'')" by (simp add: rooted_def HasPrefix_def)
    moreover have "clean_components True [] (Split (CHR ''/'') (''/'' @ Join cs ''/'')) = cs"
      using fixed True Split_Join [of cs] nosep by (cases "cs = []") simp_all
    ultimately show ?thesis by (simp add: Clean_def [of "''/'' @ Join cs ''/''"] del: append.simps)
  next
    case False
    show ?thesis
    proof (cases "cs = []")
      case True
      with False have "Clean p = ''.''" by (simp add: Clean_def cs_def)
      then show ?thesis by (simp add: Clean_def rooted_def HasPrefix_def)
    next
      case ncs: False
      then obtain x xs where x: "cs = x # xs" by (cases cs) auto
      then have "x \<noteq> []" "hd x \<noteq> CHR ''/''" using ne nosep by (cases x; auto)+
      then have "\<not> rooted (Join cs ''/'')"
        by (cases xs; cases x) (auto simp: x rooted_def HasPrefix_def)
      moreover have "Clean p = Join cs ''/''" using False ncs by (simp add: Clean_def cs_def)
      ultimately show ?thesis
        using fixed False ncs Split_Join [OF ncs, of "CHR ''/''"] nosep by (simp add: Clean_def [of "Join cs ''/''"])
    qed
  qed
qed

end
