(* ===== verification/Kafka_Provider.thy ===== *)
theory Kafka_Provider
  imports Go_Path Managed_Provider Config_Types Autoconf_Extract
begin

text \<open>
  \<open>internal/provider/kafka\<close>: \<open>guardrails.go\<close>, the construction of the client in \<open>client.go\<close> with its
  TLS and SASL options and its temporary files, and \<open>provider.go\<close>. franz-go, the Kerberos library,
  PEM and the files are fields of the argument \<open>env\<close>; \<open>'k\<close> is the client of franz-go, \<open>'cert\<close> a key
  pair. The temporary directories that exist on disk are a list that the functions thread.

  A nil slice of servers and an empty one are the same list here; \<open>reflect.DeepEqual\<close> tells them apart,
  so that an update to no servers can rebuild a client the model leaves alone.
\<close>

section \<open>Guardrails\<close>

record kafka_GuardrailPolicy =
  kgp_MaxTopicsPerRequest :: int
  kgp_MaxPartitionsPerRequest :: int
  kgp_MaxConsumerGroups :: int
  kgp_MaxRecordsPerSample :: int
  kgp_MaxResponseBytes :: int
  kgp_MaxQueryDuration :: int

definition kafka_DefaultGuardrailPolicy :: kafka_GuardrailPolicy where
  "kafka_DefaultGuardrailPolicy =
     \<lparr>kgp_MaxTopicsPerRequest = 100, kgp_MaxPartitionsPerRequest = 1000, kgp_MaxConsumerGroups = 1000,
      kgp_MaxRecordsPerSample = 100, kgp_MaxResponseBytes = 10 * 1024 * 1024, kgp_MaxQueryDuration = 30 * Second\<rparr>"

definition or_default :: "int \<Rightarrow> int \<Rightarrow> int" where
  "or_default v d = (if v = 0 then d else v)"

definition kafka_ApplyDefaults :: "kafka_GuardrailPolicy \<Rightarrow> kafka_GuardrailPolicy" where
  "kafka_ApplyDefaults g =
     (let d = kafka_DefaultGuardrailPolicy in
      \<lparr>kgp_MaxTopicsPerRequest = or_default (kgp_MaxTopicsPerRequest g) (kgp_MaxTopicsPerRequest d),
       kgp_MaxPartitionsPerRequest = or_default (kgp_MaxPartitionsPerRequest g) (kgp_MaxPartitionsPerRequest d),
       kgp_MaxConsumerGroups = or_default (kgp_MaxConsumerGroups g) (kgp_MaxConsumerGroups d),
       kgp_MaxRecordsPerSample = or_default (kgp_MaxRecordsPerSample g) (kgp_MaxRecordsPerSample d),
       kgp_MaxResponseBytes = or_default (kgp_MaxResponseBytes g) (kgp_MaxResponseBytes d),
       kgp_MaxQueryDuration = or_default (kgp_MaxQueryDuration g) (kgp_MaxQueryDuration d)\<rparr>)"

definition kafka_policy_of :: "KafkaGuardrails option \<Rightarrow> kafka_GuardrailPolicy" where
  "kafka_policy_of g0 =
     (case g0 of
        None \<Rightarrow>
          \<lparr>kgp_MaxTopicsPerRequest = 0, kgp_MaxPartitionsPerRequest = 0, kgp_MaxConsumerGroups = 0,
           kgp_MaxRecordsPerSample = 0, kgp_MaxResponseBytes = 0, kgp_MaxQueryDuration = 0\<rparr>
      | Some g \<Rightarrow>
          \<lparr>kgp_MaxTopicsPerRequest = kg_MaxTopicsPerRequest g,
           kgp_MaxPartitionsPerRequest = kg_MaxPartitionsPerRequest g,
           kgp_MaxConsumerGroups = kg_MaxConsumerGroups g, kgp_MaxRecordsPerSample = kg_MaxRecordsPerSample g,
           kgp_MaxResponseBytes = kg_MaxResponseBytes g, kgp_MaxQueryDuration = kg_MaxQueryDuration g\<rparr>)"

section \<open>The environment\<close>

datatype sasl_Mechanism =
    PlainAuth gostring gostring
  | ScramSha256 gostring gostring
  | ScramSha512 gostring gostring
  | KerberosAuth gostring gostring gostring gostring gostring

record 'cert tls_Config =
  tls_InsecureSkipVerify :: bool
  tls_RootCAs :: "gostring option"
  tls_Certificates :: "'cert list"

datatype 'cert kgo_Opt =
    SeedBrokers "gostring list"
  | ClientID gostring
  | MaxVersionsV2_6_0
  | DialTimeout int
  | RequestTimeoutOverhead int
  | MetadataMaxAge int
  | DialTLSConfig "'cert tls_Config"
  | SASL sasl_Mechanism

text \<open>
  Base64 and the content of files (an error or the bytes), whether a PEM text holds a certificate, key
  pairs, a new temporary directory beside those that exist, writing a file (an error or nothing), the
  loaders of the Kerberos library, and \<open>kgo.NewClient\<close>.
\<close>

record ('k, 'cert) kafka_env =
  ke_base64 :: "gostring \<Rightarrow> gostring + gostring"
  ke_readFile :: "gostring \<Rightarrow> gostring + gostring"
  ke_appendCerts :: "gostring \<Rightarrow> bool"
  ke_X509KeyPair :: "gostring \<Rightarrow> gostring \<Rightarrow> gostring + 'cert"
  ke_mkdirTemp :: "gostring list \<Rightarrow> gostring + gostring"
  ke_writeFile :: "gostring \<Rightarrow> gostring \<Rightarrow> gostring option"
  ke_loadKrb5 :: "gostring \<Rightarrow> gostring option"
  ke_loadKeytab :: "gostring \<Rightarrow> gostring option"
  ke_newClient :: "'cert kgo_Opt list \<Rightarrow> gostring + 'k"

section \<open>TLS\<close>

definition pemDataFromConfig ::
  "('k, 'cert) kafka_env \<Rightarrow> gostring \<Rightarrow> gostring \<Rightarrow> gostring \<Rightarrow> gostring + gostring" where
  "pemDataFromConfig env encodedData filePath name =
     (if encodedData \<noteq> []
      then (case ke_base64 env encodedData of
              Inl err \<Rightarrow> Inl (''decode '' @ name @ '' data: '' @ err) | Inr decoded \<Rightarrow> Inr decoded)
      else (case ke_readFile env filePath of
              Inl err \<Rightarrow> Inl (''read '' @ name @ '' file: '' @ err) | Inr pemData \<Rightarrow> Inr pemData))"

definition tls_roots :: "('k, 'cert) kafka_env \<Rightarrow> KafkaTLSConfig \<Rightarrow> gostring + gostring option" where
  "tls_roots env cfg =
     (if ktls_CAData cfg \<noteq> [] \<or> ktls_CAFile cfg \<noteq> []
      then (case pemDataFromConfig env (ktls_CAData cfg) (ktls_CAFile cfg) ''ca'' of
              Inl err \<Rightarrow> Inl err
            | Inr pemData \<Rightarrow> (if \<not> ke_appendCerts env pemData then Inl ''invalid ca pem data'' else Inr (Some pemData)))
      else Inr None)"

definition tls_certificates :: "('k, 'cert) kafka_env \<Rightarrow> KafkaTLSConfig \<Rightarrow> gostring + 'cert list" where
  "tls_certificates env cfg =
     (if (ktls_CertData cfg \<noteq> [] \<or> ktls_CertFile cfg \<noteq> []) \<and> (ktls_KeyData cfg \<noteq> [] \<or> ktls_KeyFile cfg \<noteq> [])
      then (case pemDataFromConfig env (ktls_CertData cfg) (ktls_CertFile cfg) ''client cert'' of
              Inl err \<Rightarrow> Inl err
            | Inr certPEM \<Rightarrow>
                (case pemDataFromConfig env (ktls_KeyData cfg) (ktls_KeyFile cfg) ''client key'' of
                   Inl err \<Rightarrow> Inl err
                 | Inr keyPEM \<Rightarrow>
                     (case ke_X509KeyPair env certPEM keyPEM of
                        Inl err \<Rightarrow> Inl (''load client cert: '' @ err) | Inr cert \<Rightarrow> Inr [cert])))
      else Inr [])"

definition kafka_buildTLSConfig ::
  "('k, 'cert) kafka_env \<Rightarrow> KafkaTLSConfig option \<Rightarrow> gostring + 'cert tls_Config" where
  "kafka_buildTLSConfig env cfg0 =
     (case cfg0 of
        None \<Rightarrow> Inl ''tls config is nil''
      | Some cfg \<Rightarrow>
          (case tls_roots env cfg of
             Inl err \<Rightarrow> Inl err
           | Inr roots \<Rightarrow>
               (case tls_certificates env cfg of
                  Inl err \<Rightarrow> Inl err
                | Inr certs \<Rightarrow>
                    Inr \<lparr>tls_InsecureSkipVerify = ktls_Insecure cfg, tls_RootCAs = roots, tls_Certificates = certs\<rparr>)))"

section \<open>SASL\<close>

text \<open>The paths a client remembers (\<open>None\<close> for a nil pointer) and the temporary directories on disk.\<close>

record tmp_state =
  ts_paths :: "gostring list option"
  ts_dirs :: "gostring list"

type_synonym 'a with_temp = "tmp_state \<Rightarrow> (gostring + 'a) \<times> tmp_state"

definition tmp_then :: "'a with_temp \<Rightarrow> ('a \<Rightarrow> 'b with_temp) \<Rightarrow> 'b with_temp" where
  "tmp_then m f s = (case m s of (Inl err, s1) \<Rightarrow> (Inl err, s1) | (Inr x, s1) \<Rightarrow> f x s1)"

definition tmp_lift :: "gostring + 'a \<Rightarrow> 'a with_temp" where
  "tmp_lift r s = (r, s)"

definition wrap_error :: "gostring \<Rightarrow> 'a with_temp \<Rightarrow> 'a with_temp" where
  "wrap_error msg m s = (case m s of (Inl err, s1) \<Rightarrow> (Inl (msg @ err), s1) | (Inr x, s1) \<Rightarrow> (Inr x, s1))"

definition RemoveAll :: "gostring \<Rightarrow> gostring list \<Rightarrow> gostring list" where
  "RemoveAll path dirs = filter (\<lambda>d. d \<noteq> path) dirs"

definition writeBase64TempFile :: "('k, 'cert) kafka_env \<Rightarrow> gostring \<Rightarrow> gostring \<Rightarrow> gostring with_temp" where
  "writeBase64TempFile env encodedData filename s =
     (case ke_base64 env encodedData of
        Inl err \<Rightarrow> (Inl (''decode base64: '' @ err), s)
      | Inr decoded \<Rightarrow>
          (case ke_mkdirTemp env (ts_dirs s) of
             Inl err \<Rightarrow> (Inl (''create temp dir: '' @ err), s)
           | Inr dir \<Rightarrow>
               (let s1 = s\<lparr>ts_dirs := ts_dirs s @ [dir]\<rparr>;
                    s2 = (case ts_paths s1 of None \<Rightarrow> s1 | Some ps \<Rightarrow> s1\<lparr>ts_paths := Some (ps @ [dir])\<rparr>);
                    path = filepath_Join [dir, filename]
                in case ke_writeFile env path decoded of
                     Some err \<Rightarrow> (Inl (''write temp file: '' @ err), s2\<lparr>ts_dirs := RemoveAll dir (ts_dirs s2)\<rparr>)
                   | None \<Rightarrow> (Inr path, s2))))"

text \<open>What Kerberos needs besides the two files.\<close>

definition gssapi_checks :: "KafkaSASLConfig \<Rightarrow> gostring \<Rightarrow> gostring option" where
  "gssapi_checks cfg keytabPath =
     first_error
       [check (keytabPath = []) ''keytab_path or keytab_data is required for GSSAPI'',
        check (ksasl_KerberosServiceName cfg = []) ''kerberos_service_name is required for GSSAPI'',
        check (ksasl_KerberosRealm cfg = []) ''kerberos_realm is required for GSSAPI'']"

definition gssapi_principal :: "KafkaSASLConfig \<Rightarrow> gostring" where
  "gssapi_principal cfg =
     (if ksasl_Username cfg = [] then ksasl_KerberosServiceName cfg else ksasl_Username cfg)"

definition gssapi_mechanism ::
  "('k, 'cert) kafka_env \<Rightarrow> KafkaSASLConfig \<Rightarrow> gostring \<Rightarrow> gostring \<Rightarrow> gostring + sasl_Mechanism" where
  "gssapi_mechanism env cfg krb5ConfPath keytabPath =
     (case gssapi_checks cfg keytabPath of
        Some err \<Rightarrow> Inl err
      | None \<Rightarrow>
          (if gssapi_principal cfg = [] then Inl ''username is required for GSSAPI''
           else (case ke_loadKrb5 env krb5ConfPath of
                   Some err \<Rightarrow> Inl (''load krb5 config: '' @ err)
                 | None \<Rightarrow>
                     (case ke_loadKeytab env keytabPath of
                        Some err \<Rightarrow> Inl (''load keytab: '' @ err)
                      | None \<Rightarrow>
                          Inr (KerberosAuth (TrimSuffix (gssapi_principal cfg) (''@'' @ ksasl_KerberosRealm cfg))
                                 (ksasl_KerberosRealm cfg) keytabPath krb5ConfPath
                                 (ksasl_KerberosServiceName cfg))))))"

definition buildGSSAPIMechanism :: "('k, 'cert) kafka_env \<Rightarrow> KafkaSASLConfig \<Rightarrow> sasl_Mechanism with_temp" where
  "buildGSSAPIMechanism env cfg =
     tmp_then
       (if ksasl_Krb5ConfData cfg \<noteq> []
        then wrap_error ''write krb5.conf data: '' (writeBase64TempFile env (ksasl_Krb5ConfData cfg) ''krb5.conf'')
        else tmp_lift (Inr (ksasl_Krb5ConfPath cfg))) (\<lambda>krb5ConfPath0.
     let krb5ConfPath = (if krb5ConfPath0 = [] then ''/etc/krb5.conf'' else krb5ConfPath0) in
     tmp_then
       (if ksasl_KeytabData cfg \<noteq> []
        then wrap_error ''write keytab data: '' (writeBase64TempFile env (ksasl_KeytabData cfg) ''client.keytab'')
        else tmp_lift (Inr (ksasl_KeytabPath cfg))) (\<lambda>keytabPath.
     tmp_lift (gssapi_mechanism env cfg krb5ConfPath keytabPath)))"

definition buildSASLMechanismWithTempFiles ::
  "('k, 'cert) kafka_env \<Rightarrow> KafkaSASLConfig option \<Rightarrow> sasl_Mechanism with_temp" where
  "buildSASLMechanismWithTempFiles env cfg0 =
     (case cfg0 of
        None \<Rightarrow> tmp_lift (Inl ''sasl config is nil'')
      | Some cfg \<Rightarrow>
          (let m = ksasl_Mechanism cfg in
           if m = ''PLAIN'' then tmp_lift (Inr (PlainAuth (ksasl_Username cfg) (ksasl_Password cfg)))
           else if m = ''SCRAM-SHA-256'' then tmp_lift (Inr (ScramSha256 (ksasl_Username cfg) (ksasl_Password cfg)))
           else if m = ''SCRAM-SHA-512'' then tmp_lift (Inr (ScramSha512 (ksasl_Username cfg) (ksasl_Password cfg)))
           else if m = ''GSSAPI'' then buildGSSAPIMechanism env cfg
           else tmp_lift (Inl (''unsupported sasl mechanism: '' @ m))))"

definition buildSASLMechanism ::
  "('k, 'cert) kafka_env \<Rightarrow> KafkaSASLConfig option \<Rightarrow> gostring list \<Rightarrow> (gostring + sasl_Mechanism) \<times> gostring list" where
  "buildSASLMechanism env cfg dirs =
     (case buildSASLMechanismWithTempFiles env cfg \<lparr>ts_paths = None, ts_dirs = dirs\<rparr> of
        (r, s) \<Rightarrow> (r, ts_dirs s))"

section \<open>The client\<close>

record 'k kafka_clientImpl =
  kc_kgoClient :: "'k option"
  kc_admClient :: "'k option"
  kc_guardrails :: kafka_GuardrailPolicy
  kc_initErr :: "gostring option"
  kc_config :: KafkaConfig
  kc_tempPaths :: "gostring list"

definition base_opts :: "KafkaConfig \<Rightarrow> 'cert kgo_Opt list" where
  "base_opts cfg =
     [SeedBrokers (kafka_BootstrapServers cfg), ClientID ''marvin-kafka'', MaxVersionsV2_6_0]
     @ (if kafka_DialTimeout cfg > 0 then [DialTimeout (kafka_DialTimeout cfg)] else [])
     @ (if kafka_RequestTimeout cfg > 0 then [RequestTimeoutOverhead (kafka_RequestTimeout cfg)] else [])
     @ (if kafka_MetadataMaxAge cfg > 0 then [MetadataMaxAge (kafka_MetadataMaxAge cfg)] else [])"

text \<open>The options for TLS; the options for SASL, with the paths and directories after them.\<close>

definition tls_opts :: "('k, 'cert) kafka_env \<Rightarrow> KafkaConfig \<Rightarrow> gostring + 'cert kgo_Opt list" where
  "tls_opts env cfg =
     (case kafka_TLS cfg of
        None \<Rightarrow> Inr []
      | Some t \<Rightarrow>
          (if \<not> ktls_Enabled t then Inr []
           else (case kafka_buildTLSConfig env (Some t) of
                   Inl err \<Rightarrow> Inl (''build kafka tls config: '' @ err)
                 | Inr tlsConfig \<Rightarrow> Inr [DialTLSConfig tlsConfig])))"

definition sasl_opts ::
  "('k, 'cert) kafka_env \<Rightarrow> KafkaConfig \<Rightarrow> gostring list \<Rightarrow>
     (gostring + 'cert kgo_Opt list) \<times> gostring list \<times> gostring list" where
  "sasl_opts env cfg dirs =
     (case kafka_SASL cfg of
        None \<Rightarrow> (Inr [], [], dirs)
      | Some sasl \<Rightarrow>
          (if ksasl_Mechanism sasl = [] then (Inr [], [], dirs)
           else (case (if ksasl_Mechanism sasl = ''GSSAPI''
                       then (case buildSASLMechanismWithTempFiles env (Some sasl)
                                    \<lparr>ts_paths = Some [], ts_dirs = dirs\<rparr> of
                               (r, s) \<Rightarrow> (r, ok_or (ts_paths s) [], ts_dirs s))
                       else (case buildSASLMechanism env (Some sasl) dirs of (r, ds) \<Rightarrow> (r, [], ds))) of
                   (Inl err, paths, ds) \<Rightarrow> (Inl (''build kafka sasl mechanism: '' @ err), paths, ds)
                 | (Inr mechanism, paths, ds) \<Rightarrow> (Inr [SASL mechanism], paths, ds))))"

definition newKafkaClient ::
  "('k, 'cert) kafka_env \<Rightarrow> KafkaConfig \<Rightarrow> gostring list \<Rightarrow> 'k kafka_clientImpl \<times> gostring list" where
  "newKafkaClient env cfg dirs =
     (let c = \<lparr>kc_kgoClient = None, kc_admClient = None,
               kc_guardrails = kafka_ApplyDefaults (kafka_policy_of (kafka_Guardrails cfg)), kc_initErr = None,
               kc_config = cfg, kc_tempPaths = []\<rparr>
      in case tls_opts env cfg of
           Inl err \<Rightarrow> (c\<lparr>kc_initErr := Some err\<rparr>, dirs)
         | Inr topts \<Rightarrow>
             (case sasl_opts env cfg dirs of
                (Inl err, paths, ds) \<Rightarrow> (c\<lparr>kc_tempPaths := paths, kc_initErr := Some err\<rparr>, ds)
              | (Inr sopts, paths, ds) \<Rightarrow>
                  (let c1 = c\<lparr>kc_tempPaths := paths\<rparr>
                   in case ke_newClient env (base_opts cfg @ topts @ sopts) of
                        Inl err \<Rightarrow> (c1\<lparr>kc_initErr := Some (''create kafka client: '' @ err)\<rparr>, ds)
                      | Inr cl \<Rightarrow> (c1\<lparr>kc_kgoClient := Some cl, kc_admClient := Some cl\<rparr>, ds))))"

definition kafka_Guardrails_of :: "'k kafka_clientImpl \<Rightarrow> kafka_GuardrailPolicy" where
  "kafka_Guardrails_of c = kc_guardrails c"

text \<open>The client after \<open>close\<close>, the directories left, and whether the connection was closed.\<close>

definition cleanupTempFiles ::
  "'k kafka_clientImpl option \<Rightarrow> gostring list \<Rightarrow> 'k kafka_clientImpl option \<times> gostring list" where
  "cleanupTempFiles c0 dirs =
     (case c0 of
        None \<Rightarrow> (None, dirs)
      | Some c \<Rightarrow> (Some (c\<lparr>kc_tempPaths := []\<rparr>), fold RemoveAll (kc_tempPaths c) dirs))"

definition kafka_close ::
  "'k kafka_clientImpl option \<Rightarrow> gostring list \<Rightarrow> 'k kafka_clientImpl option \<times> gostring list \<times> 'k list" where
  "kafka_close c0 dirs =
     (case c0 of
        None \<Rightarrow> (None, dirs, [])
      | Some c \<Rightarrow>
          (case cleanupTempFiles (Some c) dirs of
             (c1, ds) \<Rightarrow> (c1, ds, (case kc_kgoClient c of None \<Rightarrow> [] | Some cl \<Rightarrow> [cl]))))"

section \<open>The configuration\<close>

text \<open>A section is \<open>None\<close> when no key of it has a value of the right type; what it lacks is zero.\<close>

definition parseKafkaTLSConfig :: "gmap \<Rightarrow> KafkaTLSConfig option" where
  "parseKafkaTLSConfig cfg =
     (let enabled = BoolOK cfg ''tls.enabled''; ca_file = StringOK cfg ''tls.ca_file'';
          ca_data = StringOK cfg ''tls.ca_data''; cert_file = StringOK cfg ''tls.cert_file'';
          cert_data = StringOK cfg ''tls.cert_data''; key_file = StringOK cfg ''tls.key_file'';
          key_data = StringOK cfg ''tls.key_data''; insecure = BoolOK cfg ''tls.insecure_skip_verify''
      in if enabled = None \<and> ca_file = None \<and> ca_data = None \<and> cert_file = None \<and> cert_data = None \<and>
            key_file = None \<and> key_data = None \<and> insecure = None
         then None
         else Some \<lparr>ktls_Enabled = ok_or enabled False, ktls_CAFile = ok_or ca_file [], ktls_CAData = ok_or ca_data [],
                    ktls_CertFile = ok_or cert_file [], ktls_CertData = ok_or cert_data [],
                    ktls_KeyFile = ok_or key_file [], ktls_KeyData = ok_or key_data [],
                    ktls_Insecure = ok_or insecure False\<rparr>)"

definition parseKafkaSASLConfig :: "gmap \<Rightarrow> KafkaSASLConfig option" where
  "parseKafkaSASLConfig cfg =
     (let mechanism = StringOK cfg ''sasl.mechanism''; username = StringOK cfg ''sasl.username'';
          password = StringOK cfg ''sasl.password''; service = StringOK cfg ''sasl.kerberos_service_name'';
          realm = StringOK cfg ''sasl.kerberos_realm''; keytab_path = StringOK cfg ''sasl.keytab_path'';
          keytab_data = StringOK cfg ''sasl.keytab_data''; krb5_conf_data = StringOK cfg ''sasl.krb5_conf_data'';
          krb5_conf_path = StringOK cfg ''sasl.krb5_conf_path''
      in if mechanism = None \<and> username = None \<and> password = None \<and> service = None \<and> realm = None \<and>
            keytab_path = None \<and> keytab_data = None \<and> krb5_conf_data = None \<and> krb5_conf_path = None
         then None
         else Some \<lparr>ksasl_Mechanism = ok_or mechanism [], ksasl_Username = ok_or username [],
                    ksasl_Password = ok_or password [], ksasl_KerberosServiceName = ok_or service [],
                    ksasl_KerberosRealm = ok_or realm [], ksasl_KeytabPath = ok_or keytab_path [],
                    ksasl_KeytabData = ok_or keytab_data [], ksasl_Krb5ConfData = ok_or krb5_conf_data [],
                    ksasl_Krb5ConfPath = ok_or krb5_conf_path []\<rparr>)"

definition parseKafkaGuardrails :: "(gofloat \<Rightarrow> int) \<Rightarrow> gmap \<Rightarrow> KafkaGuardrails option" where
  "parseKafkaGuardrails oor cfg =
     (let topics = IntOK oor cfg ''guardrails.max_topics_per_request'';
          partitions = IntOK oor cfg ''guardrails.max_partitions_per_request'';
          groups = IntOK oor cfg ''guardrails.max_consumer_groups'';
          records = IntOK oor cfg ''guardrails.max_records_per_sample'';
          bytes = IntOK oor cfg ''guardrails.max_response_bytes'';
          duration = DurationOK oor cfg ''guardrails.max_query_duration''
      in if topics = None \<and> partitions = None \<and> groups = None \<and> records = None \<and> bytes = None \<and> duration = None
         then None
         else Some \<lparr>kg_MaxTopicsPerRequest = ok_or topics 0, kg_MaxPartitionsPerRequest = ok_or partitions 0,
                    kg_MaxConsumerGroups = ok_or groups 0, kg_MaxRecordsPerSample = ok_or records 0,
                    kg_MaxResponseBytes = ok_or bytes 0, kg_MaxQueryDuration = ok_or duration 0\<rparr>)"

definition parseKafkaConfig :: "(gofloat \<Rightarrow> int) \<Rightarrow> KafkaConfig \<Rightarrow> gmap \<Rightarrow> KafkaConfig" where
  "parseKafkaConfig oor base cfg =
     base\<lparr>kafka_BootstrapServers := ok_or (StringSliceOK cfg ''bootstrap_servers'') (kafka_BootstrapServers base),
          kafka_TLS := (if HasPrefix_key cfg ''tls'' then parseKafkaTLSConfig cfg else kafka_TLS base),
          kafka_SASL := (if HasPrefix_key cfg ''sasl'' then parseKafkaSASLConfig cfg else kafka_SASL base),
          kafka_DialTimeout := ok_or (DurationOK oor cfg ''dial_timeout'') (kafka_DialTimeout base),
          kafka_RequestTimeout := ok_or (DurationOK oor cfg ''request_timeout'') (kafka_RequestTimeout base),
          kafka_MetadataMaxAge := ok_or (DurationOK oor cfg ''metadata_max_age'') (kafka_MetadataMaxAge base),
          kafka_Guardrails :=
            (if HasPrefix_key cfg ''guardrails'' then parseKafkaGuardrails oor cfg else kafka_Guardrails base)\<rparr>"

lemma parseKafkaConfig_idem: "parseKafkaConfig oor (parseKafkaConfig oor base cfg) cfg = parseKafkaConfig oor base cfg"
  by (simp add: parseKafkaConfig_def)

section \<open>The provider\<close>

type_synonym ('k, 't) KafkaProvider = "(KafkaConfig, 'k kafka_clientImpl option, 't) Provider"

text \<open>\<open>dirs\<close> are the temporary directories on disk when the update arrives.\<close>

definition kafka_options ::
  "(gofloat \<Rightarrow> int) \<Rightarrow> ('k, 'cert) kafka_env \<Rightarrow> gostring list \<Rightarrow>
     (KafkaConfig, 'k kafka_clientImpl option, gmap, gostring) Options" where
  "kafka_options oor env dirs =
     \<lparr>opt_Parse = (\<lambda>base cfg. Inr (parseKafkaConfig oor base cfg)), opt_Equal = None, opt_Recreate = None,
      opt_Build = Some (\<lambda>cfg. Inr (Some (fst (newKafkaClient env cfg dirs)))), opt_Close = True\<rparr>"

definition Kafka_UpdateConfig ::
  "(gofloat \<Rightarrow> int) \<Rightarrow> ('k, 'cert) kafka_env \<Rightarrow> gostring list \<Rightarrow> ('k, 't) KafkaProvider \<Rightarrow> gostring \<Rightarrow> gmap \<Rightarrow>
     ('k, 't) KafkaProvider" where
  "Kafka_UpdateConfig oor env dirs p capabilityName cfg =
     p\<lparr>pv_state := fst (Apply None (kafka_options oor env dirs) cfg (pv_state p))\<rparr>"

definition Kafka_IsConfigured :: "('k, 't) KafkaProvider \<Rightarrow> bool" where
  "Kafka_IsConfigured p \<longleftrightarrow> length (kafka_BootstrapServers (State_Config (pv_state p))) > 0"

section \<open>The tasks\<close>

definition Kafka_tasks :: "gostring list" where
  "Kafka_tasks =
     [''kafka.cluster.describe'', ''kafka.broker.list'', ''kafka.broker.describe'',
      ''kafka.broker.config.get'', ''kafka.broker.config.diff'', ''kafka.cluster.config.get'',
      ''kafka.cluster.features.get'', ''kafka.cluster.api_versions.get'',
      ''kafka.cluster.metadata.get'', ''kafka.logdir.list'', ''kafka.logdir.describe'',
      ''kafka.logdir.replica_sizes.get'', ''kafka.logdir.errors.list'',
      ''kafka.storage.topic_sizes.get'', ''kafka.consumer_group.list'',
      ''kafka.consumer_group.describe'', ''kafka.consumer_group.members.list'',
      ''kafka.consumer_group.offsets.get'', ''kafka.consumer_group.lag.get'',
      ''kafka.consumer_group.coordinator.get'', ''kafka.consumer_group.state.get'',
      ''kafka.consumer_group.assignment.get'', ''kafka.consumer_group.offset_commit.verify'',
      ''kafka.topic.list'', ''kafka.topic.describe'', ''kafka.topic.config.get'',
      ''kafka.topic.config.diff'', ''kafka.partition.describe'', ''kafka.partition.list'',
      ''kafka.partition.offline.list'', ''kafka.partition.under_replicated.list'',
      ''kafka.partition.under_min_isr.list'', ''kafka.partition.isr.describe'',
      ''kafka.partition.leader_distribution.get'', ''kafka.partition.replica_distribution.get'',
      ''kafka.partition.logdirs.get'', ''kafka.partition.offsets.get'',
      ''kafka.partition.offsets.compare'']"

definition Kafka_descriptions :: "(gostring \<times> gostring) list" where
  "Kafka_descriptions =
     [(''kafka.cluster.describe'', ''Describes basic cluster identity and metadata''),
      (''kafka.broker.list'', ''Lists brokers currently visible in cluster metadata''),
      (''kafka.broker.describe'', ''Describes detailed metadata for one broker''),
      (''kafka.broker.config.get'', ''Reads effective broker configuration''),
      (''kafka.broker.config.diff'', ''Compares effective configuration between brokers''),
      (''kafka.cluster.config.get'', ''Retrieves cluster-wide dynamic/default broker configuration''),
      (''kafka.cluster.features.get'', ''Retrieves Kafka feature/version metadata''),
      (''kafka.cluster.api_versions.get'', ''Queries supported Kafka protocol API versions''),
      (''kafka.cluster.metadata.get'', ''Returns raw-ish cluster metadata snapshot''),
      (''kafka.logdir.list'', ''Lists Kafka log directories known for brokers''),
      (''kafka.logdir.describe'', ''Describes log directories including replica sizes and errors''),
      (''kafka.logdir.replica_sizes.get'', ''Retrieves replica sizes grouped by broker/logdir/topic''),
      (''kafka.logdir.errors.list'', ''Finds log directories reporting Kafka storage errors''),
      (''kafka.storage.topic_sizes.get'', ''Aggregates partition sizes into topic/broker totals''),
      (''kafka.consumer_group.list'', ''Lists consumer groups and their states''),
      (''kafka.consumer_group.describe'', ''Describes a consumer group's state, protocol, coordinator and members''),
      (''kafka.consumer_group.members.list'', ''Lists detailed members and assignments of a consumer group''),
      (''kafka.consumer_group.offsets.get'', ''Returns committed offsets for a consumer group''),
      (''kafka.consumer_group.lag.get'', ''Calculates consumer lag per partition with optional aggregation''),
      (''kafka.consumer_group.coordinator.get'', ''Finds the coordinator broker for a consumer group''),
      (''kafka.consumer_group.state.get'', ''Returns lightweight consumer group state''),
      (''kafka.consumer_group.assignment.get'', ''Returns assignment distribution among group members''),
      (''kafka.consumer_group.offset_commit.verify'', ''Non-mutating protocol path check for offset commits''),
      (''kafka.topic.list'', ''Lists topics, optionally filtering internal topics''),
      (''kafka.topic.describe'', ''Describes topic partitions, replicas, ISR, leaders and configuration summary''),
      (''kafka.topic.config.get'', ''Reads effective topic configuration''),
      (''kafka.topic.config.diff'', ''Compares configuration between several topics''),
      (''kafka.partition.describe'', ''Describes detailed state for one partition''),
      (''kafka.partition.list'', ''Returns partition metadata across selected/all topics with filters''),
      (''kafka.partition.offline.list'', ''Returns partitions with no active leader''),
      (''kafka.partition.under_replicated.list'', ''Returns partitions where ISR is smaller than replica set''),
      (''kafka.partition.under_min_isr.list'', ''Finds partitions below configured min.insync.replicas''),
      (''kafka.partition.isr.describe'', ''Returns detailed replica/ISR state for partitions''),
      (''kafka.partition.leader_distribution.get'', ''Gets leader distribution across brokers''),
      (''kafka.partition.replica_distribution.get'', ''Gets replica distribution across brokers/racks''),
      (''kafka.partition.logdirs.get'', ''Finds which broker/log directory hosts each replica''),
      (''kafka.partition.offsets.get'', ''Retrieves earliest/latest offsets for partitions''),
      (''kafka.partition.offsets.compare'', ''Compares high-water/end offsets across replicas'')]"

definition Kafka_capabilityDescription :: "gostring \<Rightarrow> gostring" where
  "Kafka_capabilityDescription name =
     (case map_of Kafka_descriptions name of Some desc \<Rightarrow> desc | None \<Rightarrow> ''Kafka capability'')"

lemma Kafka_tasks_prefixed:
  "Kafka_tasks = prefixed ''kafka''
     [''cluster.describe'', ''broker.list'', ''broker.describe'', ''broker.config.get'',
      ''broker.config.diff'', ''cluster.config.get'', ''cluster.features.get'',
      ''cluster.api_versions.get'', ''cluster.metadata.get'', ''logdir.list'', ''logdir.describe'',
      ''logdir.replica_sizes.get'', ''logdir.errors.list'', ''storage.topic_sizes.get'',
      ''consumer_group.list'', ''consumer_group.describe'', ''consumer_group.members.list'',
      ''consumer_group.offsets.get'', ''consumer_group.lag.get'',
      ''consumer_group.coordinator.get'', ''consumer_group.state.get'',
      ''consumer_group.assignment.get'', ''consumer_group.offset_commit.verify'', ''topic.list'',
      ''topic.describe'', ''topic.config.get'', ''topic.config.diff'', ''partition.describe'',
      ''partition.list'', ''partition.offline.list'', ''partition.under_replicated.list'',
      ''partition.under_min_isr.list'', ''partition.isr.describe'',
      ''partition.leader_distribution.get'', ''partition.replica_distribution.get'',
      ''partition.logdirs.get'', ''partition.offsets.get'', ''partition.offsets.compare'']"
  by (simp add: Kafka_tasks_def prefixed_def)

lemma Kafka_tasks_distinct: "distinct Kafka_tasks"
  unfolding Kafka_tasks_prefixed by (rule distinct_prefixed) simp

lemma Kafka_tasks_valid: "list_all namePattern Kafka_tasks"
  unfolding Kafka_tasks_prefixed by (rule prefixed_valid) code_simp+

lemma Kafka_described: "map fst Kafka_descriptions = Kafka_tasks"
  by (simp add: Kafka_descriptions_def Kafka_tasks_def)

definition Kafka_NewProvider ::
  "('k, 'cert) kafka_env \<Rightarrow> gostring list \<Rightarrow> (gostring \<Rightarrow> gostring) \<Rightarrow> (gostring \<Rightarrow> 't) \<Rightarrow> KafkaConfig \<Rightarrow>
     ('k, 't) KafkaProvider" where
  "Kafka_NewProvider env dirs schema mk cfg =
     \<lparr>pv_state = NewState cfg (Some (fst (newKafkaClient env cfg dirs))),
      pv_base = task_base ''kafka'' schema Kafka_capabilityDescription (\<lambda>_. []) (\<lambda>_. []) mk Kafka_tasks\<rparr>"

interpretation kafka: managed_provider "Kafka_UpdateConfig oor env dirs" Kafka_IsConfigured for oor env dirs
  by unfold_locales (simp add: Kafka_UpdateConfig_def)

lemma Kafka_NewProvider_wf: "managed_wf (Kafka_NewProvider env dirs schema mk cfg)"
  by (simp add: managed_wf_def Kafka_NewProvider_def base_wf_task_base Kafka_tasks_distinct)

end
