(* ===== verification/Kafka_Disk.thy ===== *)
theory Kafka_Disk
  imports Kafka_Provider
begin

text \<open>
  The Kerberos files on disk: what a client writes it remembers, closing it removes exactly that, and
  through any sequence of updates and drains no directory is left that no client remembers.
\<close>

section \<open>One client\<close>

definition fresh_mkdirTemp :: "('k, 'cert) kafka_env \<Rightarrow> bool" where
  "fresh_mkdirTemp env \<longleftrightarrow> (\<forall>dirs d. ke_mkdirTemp env dirs = Inr d \<longrightarrow> d \<notin> set dirs)"

text \<open>From \<open>s\<close> to \<open>s'\<close> only directories were made, all of them remembered, none of them there before.\<close>

definition tracked :: "tmp_state \<Rightarrow> tmp_state \<Rightarrow> bool" where
  "tracked s s' \<longleftrightarrow>
     (\<forall>ps. ts_paths s = Some ps \<longrightarrow>
        (\<exists>ns made. ts_paths s' = Some (ps @ ns) \<and> ts_dirs s' = ts_dirs s @ made \<and> set made \<subseteq> set ns \<and>
           set ns \<inter> set (ts_dirs s) = {}))"

lemma tracked_refl [simp]: "tracked s s"
  by (auto simp: tracked_def)

lemma tracked_trans: "tracked s t \<Longrightarrow> tracked t u \<Longrightarrow> tracked s u"
  unfolding tracked_def by (fastforce simp: disjoint_iff)

lemma fold_RemoveAll: "fold RemoveAll ps ds = filter (\<lambda>d. d \<notin> set ps) ds"
  by (induction ps arbitrary: ds) (auto simp: RemoveAll_def intro: filter_cong)

lemma tracked_writeBase64TempFile:
  assumes "fresh_mkdirTemp env"
  shows "tracked s (snd (writeBase64TempFile env dat filename s))"
proof (cases "ke_mkdirTemp env (ts_dirs s)")
  case (Inr dir)
  then have "dir \<notin> set (ts_dirs s)" using assms by (auto simp: fresh_mkdirTemp_def)
  then have "filter (\<lambda>d. d \<noteq> dir) (ts_dirs s) = ts_dirs s" by (auto simp: filter_id_conv)
  with Inr \<open>dir \<notin> _\<close> show ?thesis
    by (auto simp: writeBase64TempFile_def tracked_def RemoveAll_def Let_def split: sum.splits option.splits)
qed (auto simp: writeBase64TempFile_def split: sum.splits)

lemma tracked_then:
  "tracked s (snd (m s)) \<Longrightarrow> (\<And>x t. tracked t (snd (f x t))) \<Longrightarrow> tracked s (snd (tmp_then m f s))"
  by (auto simp: tmp_then_def split: sum.splits prod.splits intro: tracked_trans)

lemma tracked_wrap_error [simp]: "snd (wrap_error msg m s) = snd (m s)"
  by (auto simp: wrap_error_def split: sum.splits prod.splits)

lemma tracked_buildSASL:
  assumes "fresh_mkdirTemp env"
  shows "tracked s (snd (buildSASLMechanismWithTempFiles env cfg s))"
  by (auto simp: buildSASLMechanismWithTempFiles_def buildGSSAPIMechanism_def tmp_lift_def Let_def
      tracked_writeBase64TempFile [OF assms] intro!: tracked_then split: option.splits)

lemma sasl_opts_tracked:
  assumes "fresh_mkdirTemp env" "sasl_opts env cfg dirs = (r, paths, ds)"
  shows "\<exists>made. ds = dirs @ made \<and> set made \<subseteq> set paths \<and> set paths \<inter> set dirs = {}"
proof -
  have plain: "snd (buildSASLMechanism env (Some sasl) dirs) = dirs" if "ksasl_Mechanism sasl \<noteq> ''GSSAPI''" for sasl
    using that by (auto simp: buildSASLMechanism_def buildSASLMechanismWithTempFiles_def tmp_lift_def Let_def)
  show ?thesis
  proof (cases "kafka_SASL cfg")
    case None
    with assms(2) show ?thesis by (simp add: sasl_opts_def)
  next
    case (Some sasl)
    note t = tracked_buildSASL [OF assms(1), of "\<lparr>ts_paths = Some [], ts_dirs = dirs\<rparr>" "Some sasl"]
    obtain r0 s where b: "buildSASLMechanismWithTempFiles env (Some sasl) \<lparr>ts_paths = Some [], ts_dirs = dirs\<rparr> = (r0, s)"
      by (metis surj_pair)
    obtain q where q: "buildSASLMechanism env (Some sasl) dirs = (q, snd (buildSASLMechanism env (Some sasl) dirs))"
      by (metis surjective_pairing)
    from t b obtain ns made where "ts_paths s = Some ns" "ts_dirs s = dirs @ made" "set made \<subseteq> set ns" "set ns \<inter> set dirs = {}"
      by (auto simp: tracked_def)
    with assms(2) Some b q plain [of sasl] show ?thesis
      by (auto simp: sasl_opts_def ok_or_def split: if_splits sum.splits prod.splits)
  qed
qed

lemma newKafkaClient_tracked:
  assumes "fresh_mkdirTemp env" "newKafkaClient env cfg dirs = (c, ds)"
  shows "\<exists>made. ds = dirs @ made \<and> set made \<subseteq> set (kc_tempPaths c) \<and> set (kc_tempPaths c) \<inter> set dirs = {}"
proof (cases "tls_opts env cfg")
  case (Inl err)
  with assms(2) show ?thesis by (auto simp: newKafkaClient_def)
next
  case (Inr topts)
  obtain r paths ds1 where s: "sasl_opts env cfg dirs = (r, paths, ds1)" by (metis prod_cases3)
  from sasl_opts_tracked [OF assms(1) this] Inr s assms(2) show ?thesis
    by (auto simp: newKafkaClient_def Let_def split: sum.splits)
qed

text \<open>
  Making a Kafka client and closing it leaves the disk as it was, however far the construction
  got: the directories with the Kerberos configuration and key table are gone, and no other directory is
  touched. The connection is closed exactly when there is one.
\<close>

theorem kafka_close_restores_disk:
  assumes "fresh_mkdirTemp env" "newKafkaClient env cfg dirs = (c, ds)"
  shows "kafka_close (Some c) ds =
    (Some (c\<lparr>kc_tempPaths := []\<rparr>), dirs, (case kc_kgoClient c of None \<Rightarrow> [] | Some cl \<Rightarrow> [cl]))"
proof -
  from newKafkaClient_tracked [OF assms] obtain made where
    "ds = dirs @ made" "set made \<subseteq> set (kc_tempPaths c)" "set (kc_tempPaths c) \<inter> set dirs = {}" by blast
  moreover from this have "filter (\<lambda>d. d \<notin> set (kc_tempPaths c)) dirs = dirs"
    "filter (\<lambda>d. d \<notin> set (kc_tempPaths c)) made = []"
    by (auto simp: filter_id_conv filter_empty_conv)
  ultimately have "fold RemoveAll (kc_tempPaths c) ds = dirs" by (simp add: fold_RemoveAll)
  then show ?thesis by (simp add: kafka_close_def cleanupTempFiles_def)
qed

section \<open>The provider and the disk\<close>

text \<open>
  The provider with the directories on disk. An update builds a client when it changes the
  configuration; the drain closes what waits to be closed.
\<close>

record ('k, 't) kafka_world =
  kw_provider :: "('k, 't) KafkaProvider"
  kw_dirs :: "gostring list"

definition kafka_start ::
  "('k, 'cert) kafka_env \<Rightarrow> gostring list \<Rightarrow> (gostring \<Rightarrow> gostring) \<Rightarrow> (gostring \<Rightarrow> 't) \<Rightarrow> KafkaConfig \<Rightarrow>
     ('k, 't) kafka_world" where
  "kafka_start env dirs schema mk cfg =
     \<lparr>kw_provider = Kafka_NewProvider env dirs schema mk cfg, kw_dirs = snd (newKafkaClient env cfg dirs)\<rparr>"

definition kafka_update ::
  "(gofloat \<Rightarrow> int) \<Rightarrow> ('k, 'cert) kafka_env \<Rightarrow> gostring \<Rightarrow> gmap \<Rightarrow> ('k, 't) kafka_world \<Rightarrow> ('k, 't) kafka_world" where
  "kafka_update oor env n raw w =
     (let old = State_Config (pv_state (kw_provider w)); cfg = parseKafkaConfig oor old raw in
      \<lparr>kw_provider = Kafka_UpdateConfig oor env (kw_dirs w) (kw_provider w) n raw,
       kw_dirs = (if cfg = old then kw_dirs w else snd (newKafkaClient env cfg (kw_dirs w)))\<rparr>)"

definition kafka_drain :: "('k, 't) kafka_world \<Rightarrow> ('k, 't) kafka_world" where
  "kafka_drain w =
     (case drainPendingClose (pv_state (kw_provider w)) of
        (s, closing) \<Rightarrow>
          \<lparr>kw_provider = (kw_provider w)\<lparr>pv_state := s\<rparr>,
           kw_dirs = fold (\<lambda>c ds. fst (snd (kafka_close c ds))) closing (kw_dirs w)\<rparr>)"

inductive kafka_reachable ::
  "(gofloat \<Rightarrow> int) \<Rightarrow> ('k, 'cert) kafka_env \<Rightarrow> gostring list \<Rightarrow> (gostring \<Rightarrow> gostring) \<Rightarrow> (gostring \<Rightarrow> 't) \<Rightarrow>
     KafkaConfig \<Rightarrow> ('k, 't) kafka_world \<Rightarrow> bool"
  for oor env dirs schema mk cfg where
  start: "kafka_reachable oor env dirs schema mk cfg (kafka_start env dirs schema mk cfg)"
| update: "kafka_reachable oor env dirs schema mk cfg w \<Longrightarrow>
    kafka_reachable oor env dirs schema mk cfg (kafka_update oor env n raw w)"
| drain: "kafka_reachable oor env dirs schema mk cfg w \<Longrightarrow>
    kafka_reachable oor env dirs schema mk cfg (kafka_drain w)"

text \<open>What a client remembers, and what the clients of a state remember together.\<close>

definition paths_of :: "'k kafka_clientImpl option \<Rightarrow> gostring set" where
  "paths_of c0 = (case c0 of None \<Rightarrow> {} | Some c \<Rightarrow> set (kc_tempPaths c))"

lemma paths_of_Some: "paths_of (Some c) = set (kc_tempPaths c)"
  by (simp add: paths_of_def)

definition remembered :: "(KafkaConfig, 'k kafka_clientImpl option) State \<Rightarrow> gostring set" where
  "remembered s = paths_of (st_client s) \<union> \<Union> (paths_of ` set (st_pendingClose s))"

definition disk_inv :: "gostring list \<Rightarrow> ('k, 't) kafka_world \<Rightarrow> bool" where
  "disk_inv dirs0 w \<longleftrightarrow>
     (let s = pv_state (kw_provider w) in
      drain_inv s \<and> set (kw_dirs w) \<subseteq> set dirs0 \<union> remembered s \<and>
      set dirs0 \<subseteq> set (kw_dirs w) \<and> remembered s \<inter> set dirs0 = {})"

lemma kafka_UpdateConfig_state:
  "pv_state (Kafka_UpdateConfig oor env dirs p n raw) =
    (let s = register_close (kafka_options oor env dirs) (pv_state p); cfg = parseKafkaConfig oor (st_config s) raw in
     if cfg = st_config s then s
     else s\<lparr>st_config := cfg, st_client := Some (fst (newKafkaClient env cfg dirs)),
            st_pendingClose := st_pendingClose s @ [st_client s], st_draining := True\<rparr>)"
  by (simp add: Kafka_UpdateConfig_def Apply_def prepare_def commit_def kafka_options_def equal_fn_def recreate_fn_def
      State_Config_def the_client_def Let_def)

lemma register_close_frame [simp]:
  "st_config (register_close opts s) = st_config s" "st_client (register_close opts s) = st_client s"
  "st_pendingClose (register_close opts s) = st_pendingClose s" "st_draining (register_close opts s) = st_draining s"
  by (simp_all add: register_close_def)

lemma fold_close:
  "set (fold (\<lambda>c ds. fst (snd (kafka_close c ds))) cs ds) = set ds - \<Union> (paths_of ` set cs)"
  by (induction cs arbitrary: ds)
    (auto simp: kafka_close_def cleanupTempFiles_def paths_of_def fold_RemoveAll split: option.splits)

lemma disk_inv_update:
  assumes "fresh_mkdirTemp env" "disk_inv dirs0 w"
  shows "disk_inv dirs0 (kafka_update oor env n raw w)"
proof -
  let ?p = "kw_provider w" and ?opts = "kafka_options oor env (kw_dirs w)"
  let ?s = "register_close ?opts (pv_state ?p)"
  have closing: "st_closeFn ?s" by (simp add: register_close_def kafka_options_def)
  show ?thesis
  proof (cases "parseKafkaConfig oor (st_config (pv_state ?p)) raw = st_config (pv_state ?p)")
    case True
    with assms(2) closing show ?thesis
      by (auto simp: disk_inv_def kafka_update_def kafka_UpdateConfig_state State_Config_def drain_inv_def remembered_def Let_def)
  next
    case False
    obtain c ds where c: "newKafkaClient env (parseKafkaConfig oor (st_config (pv_state ?p)) raw) (kw_dirs w) = (c, ds)"
      by (metis surj_pair)
    from newKafkaClient_tracked [OF assms(1) this] obtain made where made: "ds = kw_dirs w @ made"
      "set made \<subseteq> set (kc_tempPaths c)" "set (kc_tempPaths c) \<inter> set (kw_dirs w) = {}" by blast
    let ?w = "kafka_update oor env n raw w"
    have w: "kw_dirs ?w = ds"
      "remembered (pv_state (kw_provider ?w)) = set (kc_tempPaths c) \<union> remembered (pv_state ?p)"
      "drain_inv (pv_state (kw_provider ?w))"
      using False c closing
      by (auto simp: kafka_update_def kafka_UpdateConfig_state State_Config_def drain_inv_def remembered_def paths_of_Some
          Let_def)
    from assms(2) have old: "set (kw_dirs w) \<subseteq> set dirs0 \<union> remembered (pv_state ?p)" "set dirs0 \<subseteq> set (kw_dirs w)"
      "remembered (pv_state ?p) \<inter> set dirs0 = {}" by (simp_all add: disk_inv_def Let_def)
    show ?thesis
      unfolding disk_inv_def Let_def w using w(3) made old by (auto simp: w)
  qed
qed

lemma disk_inv_drain: "disk_inv dirs0 w \<Longrightarrow> disk_inv dirs0 (kafka_drain w)"
  by (auto simp: disk_inv_def kafka_drain_def drainPendingClose_def drain_inv_def remembered_def fold_close Let_def)

lemma disk_inv_start:
  assumes "fresh_mkdirTemp env"
  shows "disk_inv dirs0 (kafka_start env dirs0 schema mk cfg)"
proof -
  obtain c ds where c: "newKafkaClient env cfg dirs0 = (c, ds)" by (metis surj_pair)
  from newKafkaClient_tracked [OF assms this] show ?thesis
    by (auto simp: disk_inv_def kafka_start_def Kafka_NewProvider_def NewState_def drain_inv_def remembered_def
        paths_of_def c)
qed


section \<open>Examples\<close>

definition sample_kafka_env :: "(unit, unit) kafka_env" where
  "sample_kafka_env =
     \<lparr>ke_base64 = Inr, ke_readFile = (\<lambda>f. Inl ''no file''), ke_appendCerts = (\<lambda>p. True),
      ke_X509KeyPair = (\<lambda>c k. Inr ()), ke_mkdirTemp = (\<lambda>dirs. Inr (CHR ''/'' # concat dirs)),
      ke_writeFile = (\<lambda>path content. if content = ''keys'' then Some ''disk full'' else None),
      ke_loadKrb5 = (\<lambda>p. None), ke_loadKeytab = (\<lambda>p. None), ke_newClient = (\<lambda>opts. Inr ())\<rparr>"

lemma sample_fresh: "fresh_mkdirTemp sample_kafka_env"
proof -
  have "length d \<le> length (concat dirs)" if "d \<in> set dirs" for d :: gostring and dirs
    using that by (induction dirs) auto
  then show ?thesis by (fastforce simp: fresh_mkdirTemp_def sample_kafka_env_def)
qed

definition gssapi_update :: gmap where
  "gssapi_update =
     [(''sasl'', VMap [(''mechanism'', VString ''GSSAPI''), (''krb5_conf_data'', VString ''conf''),
                       (''keytab_data'', VString ''keys'')])]"

lemma sample_new:
  "newKafkaClient sample_kafka_env (parseKafkaConfig amd64_oor zero_KafkaConfig gssapi_update) [''/tmp/x''] =
    (\<lparr>kc_kgoClient = None, kc_admClient = None, kc_guardrails = kafka_DefaultGuardrailPolicy,
      kc_initErr = Some ''build kafka sasl mechanism: write keytab data: write temp file: disk full'',
      kc_config = parseKafkaConfig amd64_oor zero_KafkaConfig gssapi_update,
      kc_tempPaths = [''//tmp/x'', ''//tmp/x//tmp/x'']\<rparr>, [''/tmp/x'', ''//tmp/x''])"
  by code_simp

theorem kafka_close_restores_disk_witness:
  "let c = fst (newKafkaClient sample_kafka_env (parseKafkaConfig amd64_oor zero_KafkaConfig gssapi_update) [''/tmp/x''])
   in kafka_close (Some c) [''/tmp/x'', ''//tmp/x''] = (Some (c\<lparr>kc_tempPaths := []\<rparr>), [''/tmp/x''], []) \<and>
      kc_tempPaths c = [''//tmp/x'', ''//tmp/x//tmp/x''] \<and> kc_initErr c \<noteq> None"
  using kafka_close_restores_disk [OF sample_fresh sample_new] by (simp add: sample_new)


end
