(* ===== verification/Kafka_Coordinators.thy ===== *)
theory Kafka_Coordinators
  imports Kafka_Provider
begin

text \<open>
  \<open>clientImpl.FindGroupCoordinators\<close>: the search for the coordinators of consumer groups with its
  retries. A call of the admin client is numbered by the calls before it: \<open>answer k\<close> is the answer of call
  \<open>k\<close>, \<open>expired k\<close> whether the context is found done in the pause before it. The loop returns with the
  answer (\<open>None\<close> is nil), the number of calls it has made and the time it has waited.
\<close>

text \<open>The error of a response: none, or a text and whether it is a retriable error of Kafka.\<close>

record coordinator_response =
  cr_Name :: gostring
  cr_NodeID :: int
  cr_Host :: gostring
  cr_Port :: int
  cr_Err :: "(gostring \<times> bool) option"

definition retriable :: "coordinator_response list \<Rightarrow> bool" where
  "retriable responses \<longleftrightarrow> list_ex (\<lambda>r. case cr_Err r of None \<Rightarrow> False | Some (_, b) \<Rightarrow> b) responses"

definition maxRetries :: nat where
  "maxRetries = 5"

record coordinator_search =
  cs_result :: "coordinator_response list option"
  cs_calls :: nat
  cs_waited :: int

function find_loop ::
  "(nat \<Rightarrow> coordinator_response list) \<Rightarrow> (nat \<Rightarrow> bool) \<Rightarrow> nat \<Rightarrow> int \<Rightarrow> int \<Rightarrow> coordinator_search" where
  "find_loop answer expired attempt baseDelay waited =
     (if attempt > maxRetries
      then \<lparr>cs_result = Some (answer attempt), cs_calls = attempt + 1, cs_waited = waited\<rparr>
      else if attempt > 0 \<and> expired attempt
      then \<lparr>cs_result = None, cs_calls = attempt, cs_waited = waited\<rparr>
      else
        (let waited1 = (if attempt > 0 then waited + baseDelay else waited);
             baseDelay1 = (if attempt > 0 then baseDelay * 2 else baseDelay);
             responses = answer attempt
         in if \<not> retriable responses
            then \<lparr>cs_result = Some responses, cs_calls = attempt + 1, cs_waited = waited1\<rparr>
            else find_loop answer expired (attempt + 1) baseDelay1 waited1))"
  by pat_completeness auto
termination
  by (relation "measure (\<lambda>(_, _, attempt, _, _). Suc maxRetries - attempt)") auto

declare find_loop.simps [simp del]

definition FindGroupCoordinators ::
  "(nat \<Rightarrow> coordinator_response list) \<Rightarrow> (nat \<Rightarrow> bool) \<Rightarrow> coordinator_search" where
  "FindGroupCoordinators answer expired = find_loop answer expired 0 (200 * Millisecond) 0"

text \<open>The call that ends the loop, and what has been waited for before a call.\<close>

definition settles :: "(nat \<Rightarrow> coordinator_response list) \<Rightarrow> (nat \<Rightarrow> bool) \<Rightarrow> nat \<Rightarrow> bool" where
  "settles answer expired k \<longleftrightarrow> k > maxRetries \<or> (k > 0 \<and> expired k) \<or> \<not> retriable (answer k)"

definition wait_before :: "nat \<Rightarrow> int" where
  "wait_before k = (2 ^ k - 1) * 200 * Millisecond"

lemma wait_before_simps [simp]:
  "wait_before 0 = 0" "wait_before (Suc k) = wait_before k + 2 ^ k * 200 * Millisecond"
  by (simp_all add: wait_before_def algebra_simps)

lemma find_loop_settles:
  assumes "\<And>j. k \<le> j \<Longrightarrow> j < n \<Longrightarrow> \<not> settles answer expired j" "settles answer expired n" "k \<le> n" "n \<le> Suc maxRetries"
  shows "find_loop answer expired k (2 ^ (k - 1) * 200 * Millisecond) (wait_before (k - 1)) =
    (if n > maxRetries then \<lparr>cs_result = Some (answer n), cs_calls = n + 1, cs_waited = wait_before (n - 1)\<rparr>
     else if n > 0 \<and> expired n then \<lparr>cs_result = None, cs_calls = n, cs_waited = wait_before (n - 1)\<rparr>
     else \<lparr>cs_result = Some (answer n), cs_calls = n + 1, cs_waited = wait_before n\<rparr>)"
  using assms
proof (induction "n - k" arbitrary: k)
  case 0
  then have "k = n" by simp
  with 0(3,5) show ?case
    by (cases k; subst find_loop.simps) (auto simp: settles_def)
next
  case (Suc d)
  then have k: "\<not> settles answer expired k" "k < n" by simp_all
  have "find_loop answer expired k (2 ^ (k - 1) * 200 * Millisecond) (wait_before (k - 1)) =
      find_loop answer expired (Suc k) (2 ^ k * 200 * Millisecond) (wait_before k)"
    using k Suc.prems(4)
    by (cases k; subst find_loop.simps) (auto simp: settles_def)
  also have "\<dots> = (if n > maxRetries then \<lparr>cs_result = Some (answer n), cs_calls = n + 1, cs_waited = wait_before (n - 1)\<rparr>
     else if n > 0 \<and> expired n then \<lparr>cs_result = None, cs_calls = n, cs_waited = wait_before (n - 1)\<rparr>
     else \<lparr>cs_result = Some (answer n), cs_calls = n + 1, cs_waited = wait_before n\<rparr>)"
    using Suc.hyps(1) [of "Suc k"] Suc.hyps(2) Suc.prems k by simp
  finally show ?case .
qed

text \<open>
  The search for coordinators ends after at most seven calls and 6.2 seconds of pauses. Its
  answer is that of its last call, which has no retriable error unless it is the seventh; it gives up
  with nil only when the context ends in a pause. Nothing retries after an answer without one.
\<close>

theorem FindGroupCoordinators_spec:
  "\<exists>n \<le> Suc maxRetries. settles answer expired n \<and> (\<forall>j < n. \<not> settles answer expired j) \<and>
     (let s = FindGroupCoordinators answer expired in
      cs_calls s \<le> 7 \<and> cs_waited s \<le> 6200 * Millisecond \<and>
      (if n > maxRetries then cs_result s = Some (answer 6) \<and> cs_calls s = 7
       else if n > 0 \<and> expired n then cs_result s = None \<and> cs_calls s = n
       else cs_result s = Some (answer n) \<and> cs_calls s = n + 1 \<and> \<not> retriable (answer n)))"
proof -
  define n where "n = (LEAST k. settles answer expired k)"
  have top: "settles answer expired (Suc maxRetries)" by (simp add: settles_def)
  have n: "settles answer expired n" unfolding n_def using top by (rule LeastI)
  have le: "n \<le> Suc maxRetries" unfolding n_def using top by (rule Least_le)
  have least: "\<And>j. j < n \<Longrightarrow> \<not> settles answer expired j" unfolding n_def by (rule not_less_Least)
  have mono: "wait_before j \<le> 6200 * Millisecond" if "j \<le> 5" for j
  proof -
    have "j \<in> {0, 1, 2, 3, 4, 5}" using that by auto
    then show ?thesis by (auto simp: wait_before_def)
  qed
  have "FindGroupCoordinators answer expired = find_loop answer expired 0 (2 ^ (0 - 1) * 200 * Millisecond) (wait_before (0 - 1))"
    by (simp add: FindGroupCoordinators_def wait_before_def)
  also note find_loop_settles [of 0 n answer expired, OF least n _ le]
  finally have run: "FindGroupCoordinators answer expired =
    (if n > maxRetries then \<lparr>cs_result = Some (answer n), cs_calls = n + 1, cs_waited = wait_before (n - 1)\<rparr>
     else if n > 0 \<and> expired n then \<lparr>cs_result = None, cs_calls = n, cs_waited = wait_before (n - 1)\<rparr>
     else \<lparr>cs_result = Some (answer n), cs_calls = n + 1, cs_waited = wait_before n\<rparr>)" by simp
  show ?thesis
  proof (cases "n = 6")
    case True
    then show ?thesis
      using n least mono [of 5] by (intro exI [of _ n]) (auto simp: run maxRetries_def)
  next
    case False
    then have "n \<le> 5" using le by (simp add: maxRetries_def)
    then show ?thesis
      using n least mono [of "n - 1"] mono [of n]
      by (intro exI [of _ n]) (auto simp: run settles_def maxRetries_def)
  qed
qed

text \<open>Two answers with a retriable error, then one without.\<close>

definition third_time_lucky :: "nat \<Rightarrow> coordinator_response list" where
  "third_time_lucky k = [\<lparr>cr_Name = ''g'', cr_NodeID = 1, cr_Host = ''kafka-1'', cr_Port = 9092,
      cr_Err = (if k < 2 then Some (''COORDINATOR_NOT_AVAILABLE'', True) else None)\<rparr>]"

theorem FindGroupCoordinators_spec_witness:
  "cs_result (FindGroupCoordinators third_time_lucky (\<lambda>_. False)) = Some (third_time_lucky 2) \<and>
   cs_calls (FindGroupCoordinators third_time_lucky (\<lambda>_. False)) = 3"
proof -
  have settled: "settles third_time_lucky (\<lambda>_. False) k \<longleftrightarrow> 2 \<le> k" for k
    by (simp add: settles_def maxRetries_def retriable_def third_time_lucky_def)
  obtain n where n: "settles third_time_lucky (\<lambda>_. False) n" "\<forall>j < n. \<not> settles third_time_lucky (\<lambda>_. False) j"
    and run: "let s = FindGroupCoordinators third_time_lucky (\<lambda>_. False) in
      cs_calls s \<le> 7 \<and> cs_waited s \<le> 6200 * Millisecond \<and>
      (if n > maxRetries then cs_result s = Some (third_time_lucky 6) \<and> cs_calls s = 7
       else if n > 0 \<and> False then cs_result s = None \<and> cs_calls s = n
       else cs_result s = Some (third_time_lucky n) \<and> cs_calls s = n + 1 \<and> \<not> retriable (third_time_lucky n))"
    using FindGroupCoordinators_spec [of third_time_lucky "\<lambda>_. False"] by blast
  have "\<not> 2 < n" using n(2) by (auto simp: settled)
  then have "n = 2" using n(1) by (simp add: settled)
  then show ?thesis using run by (simp add: Let_def maxRetries_def)
qed

end
