(* ===== verification/Kubernetes_Provider.thy ===== *)
theory Kubernetes_Provider
  imports Managed_Provider Common_Params Config_Types Go_Time Go_Format
begin

text \<open>
  \<open>internal/provider/kubernetes\<close>: the client of \<open>client.go\<close>, the helpers and \<open>provider.go\<close>. client-go is
  an argument: how a REST configuration is loaded, and the constructors of the two clients, whose types
  are \<open>'cs\<close> and \<open>'dy\<close>.
\<close>

section \<open>The client\<close>

text \<open>
  Inside the cluster; from the default rules with a context; from one file with a context. Then the
  constructors of the clients.
\<close>

record ('rest, 'cs, 'dy) client_go =
  cg_InClusterConfig :: "gostring + 'rest"
  cg_defaultRules :: "gostring \<Rightarrow> gostring + 'rest"
  cg_explicitPath :: "gostring \<Rightarrow> gostring \<Rightarrow> gostring + 'rest"
  cg_newClientset :: "'rest \<Rightarrow> gostring + 'cs"
  cg_newDynamic :: "'rest \<Rightarrow> gostring + 'dy"

record ('cs, 'dy) k8sClient =
  k8_clientset :: "'cs option"
  k8_dynamicClient :: "'dy option"
  k8_initErr :: "gostring option"

definition newRESTConfig :: "('rest, 'cs, 'dy) client_go \<Rightarrow> KubernetesConfig \<Rightarrow> gostring + 'rest" where
  "newRESTConfig cg cfg =
     (if kube_KubeconfigPath cfg = []
      then (case cg_InClusterConfig cg of
              Inr c \<Rightarrow> Inr c
            | Inl _ \<Rightarrow> cg_defaultRules cg (kube_Context cfg))
      else cg_explicitPath cg (kube_KubeconfigPath cfg) (kube_Context cfg))"

definition newK8sClient :: "('rest, 'cs, 'dy) client_go \<Rightarrow> KubernetesConfig \<Rightarrow> ('cs, 'dy) k8sClient" where
  "newK8sClient cg cfg =
     (let c = \<lparr>k8_clientset = None, k8_dynamicClient = None, k8_initErr = None\<rparr> in
      case newRESTConfig cg cfg of
        Inl err \<Rightarrow> c\<lparr>k8_initErr := Some (''create kubernetes rest config: '' @ err)\<rparr>
      | Inr restCfg \<Rightarrow>
          (case cg_newClientset cg restCfg of
             Inl err \<Rightarrow> c\<lparr>k8_initErr := Some (''create kubernetes clientset: '' @ err)\<rparr>
           | Inr clientset \<Rightarrow>
               (let c1 = c\<lparr>k8_clientset := Some clientset\<rparr> in
                case cg_newDynamic cg restCfg of
                  Inl err \<Rightarrow> c1\<lparr>k8_initErr := Some (''create kubernetes dynamic client: '' @ err)\<rparr>
                | Inr dynamicClient \<Rightarrow> c1\<lparr>k8_dynamicClient := Some dynamicClient\<rparr>)))"

section \<open>Helpers\<close>

definition errClientNotConfigured :: gostring where
  "errClientNotConfigured = ''kubernetes client is not configured''"

text \<open>The age of an object made at \<open>t\<close>; \<open>None\<close> is the zero time.\<close>

definition formatAge :: "int \<Rightarrow> int option \<Rightarrow> gostring" where
  "formatAge now t =
     (case t of
        None \<Rightarrow> []
      | Some t1 \<Rightarrow>
          (let d = time_Sub now t1 in
           if d < Minute then Itoa (whole (duration_Seconds d)) @ ''s''
           else if d < Hour then Itoa (whole (duration_Minutes d)) @ ''m''
           else if d < 24 * Hour then Itoa (whole (duration_Hours d)) @ ''h''
           else
             (let days = quot (whole (duration_Hours d)) 24; hours = rem (whole (duration_Hours d)) 24 in
              if hours > 0 then Itoa days @ ''d'' @ Itoa hours @ ''h'' else Itoa days @ ''d'')))"

text \<open>A map from resources to quantities, printed; sorting the keys of a map changes nothing.\<close>

definition flattenResourceList :: "(gostring \<times> 'q) list \<Rightarrow> ('q \<Rightarrow> gostring) \<Rightarrow> (gostring \<times> gostring) list" where
  "flattenResourceList rl show = map (\<lambda>(k, v). (k, show v)) rl"

section \<open>The provider\<close>

type_synonym ('cs, 'dy, 't) KubernetesProvider = "(KubernetesConfig, ('cs, 'dy) k8sClient option, 't) Provider"

definition parseKubernetesConfig :: "(gofloat \<Rightarrow> int) \<Rightarrow> KubernetesConfig \<Rightarrow> gmap \<Rightarrow> KubernetesConfig" where
  "parseKubernetesConfig oor base raw =
     \<lparr>kube_KubeconfigPath = ok_or (StringOK raw ''kubeconfig_path'') (kube_KubeconfigPath base),
      kube_Context = ok_or (StringOK raw ''context'') (kube_Context base),
      kube_Namespace = ok_or (StringOK raw ''namespace'') (kube_Namespace base),
      kube_MaxPodLogLines = ok_or (IntOK oor raw ''max_pod_log_lines'') (kube_MaxPodLogLines base)\<rparr>"

definition kubernetes_options ::
  "(gofloat \<Rightarrow> int) \<Rightarrow> ('rest, 'cs, 'dy) client_go \<Rightarrow>
     (KubernetesConfig, ('cs, 'dy) k8sClient option, gmap, gostring) Options" where
  "kubernetes_options oor cg =
     \<lparr>opt_Parse = (\<lambda>base raw. Inr (parseKubernetesConfig oor base raw)), opt_Equal = Some (\<lambda>a b. a = b),
      opt_Recreate = Some (\<lambda>oldCfg newCfg. kube_KubeconfigPath oldCfg \<noteq> kube_KubeconfigPath newCfg \<or>
                             kube_Context oldCfg \<noteq> kube_Context newCfg),
      opt_Build = Some (\<lambda>cfg. Inr (Some (newK8sClient cg cfg))), opt_Close = False\<rparr>"

definition Kubernetes_UpdateConfig ::
  "(gofloat \<Rightarrow> int) \<Rightarrow> ('rest, 'cs, 'dy) client_go \<Rightarrow> ('cs, 'dy, 't) KubernetesProvider \<Rightarrow> gostring \<Rightarrow> gmap \<Rightarrow>
     ('cs, 'dy, 't) KubernetesProvider" where
  "Kubernetes_UpdateConfig oor cg p capabilityName cfg =
     p\<lparr>pv_state := fst (Apply None (kubernetes_options oor cg) cfg (pv_state p))\<rparr>"

definition Kubernetes_IsConfigured :: "('cs, 'dy, 't) KubernetesProvider \<Rightarrow> bool" where
  "Kubernetes_IsConfigured p = True"

section \<open>The tasks\<close>

definition Kubernetes_tasks :: "gostring list" where
  "Kubernetes_tasks =
     [''kubernetes.pod.list'', ''kubernetes.pod.get'', ''kubernetes.pod.describe'',
      ''kubernetes.pod.get_full'', ''kubernetes.pod.logs'', ''kubernetes.deployment.list'',
      ''kubernetes.deployment.get'', ''kubernetes.replicaset.list'', ''kubernetes.replicaset.get'',
      ''kubernetes.statefulset.list'', ''kubernetes.statefulset.get'',
      ''kubernetes.daemonset.list'', ''kubernetes.daemonset.get'', ''kubernetes.job.list'',
      ''kubernetes.job.get'', ''kubernetes.cronjob.list'', ''kubernetes.cronjob.get'',
      ''kubernetes.event.list'', ''kubernetes.event.get'', ''kubernetes.service.list'',
      ''kubernetes.service.get'', ''kubernetes.endpoints.list'', ''kubernetes.endpoints.get'',
      ''kubernetes.endpointslice.list'', ''kubernetes.endpointslice.get'',
      ''kubernetes.networkpolicy.list'', ''kubernetes.networkpolicy.get'',
      ''kubernetes.ingress.list'', ''kubernetes.ingress.get'', ''kubernetes.node.list'',
      ''kubernetes.node.get'', ''kubernetes.namespace.list'', ''kubernetes.namespace.get'',
      ''kubernetes.version.get'', ''kubernetes.api_resources.list'', ''kubernetes.configmap.list'',
      ''kubernetes.configmap.get'', ''kubernetes.serviceaccount.list'',
      ''kubernetes.serviceaccount.get'', ''kubernetes.resourcequota.list'',
      ''kubernetes.resourcequota.get'', ''kubernetes.limitrange.list'',
      ''kubernetes.limitrange.get'', ''kubernetes.role.list'', ''kubernetes.role.get'',
      ''kubernetes.rolebinding.list'', ''kubernetes.rolebinding.get'',
      ''kubernetes.clusterrole.list'', ''kubernetes.clusterrole.get'',
      ''kubernetes.clusterrolebinding.list'', ''kubernetes.clusterrolebinding.get'',
      ''kubernetes.authorization.check'', ''kubernetes.custom_resource.list'',
      ''kubernetes.custom_resource.get'']"

definition Kubernetes_descriptions :: "(gostring \<times> gostring) list" where
  "Kubernetes_descriptions =
     [(''kubernetes.pod.list'', ''Lists pods and their basic status''),
      (''kubernetes.pod.get'', ''Retrieves a specific pod''),
      (''kubernetes.pod.describe'', ''Describes a pod in detail including status, conditions, container states, and recent Kubernetes events for troubleshooting''),
      (''kubernetes.pod.get_full'', ''Retrieves the complete raw pod object including all spec, status, and metadata fields as JSON for deep debugging''),
      (''kubernetes.pod.logs'', ''Retrieves container logs for a specific pod with optional keyword search''),
      (''kubernetes.deployment.list'', ''Lists Deployments''),
      (''kubernetes.deployment.get'', ''Retrieves a specific Deployment''),
      (''kubernetes.replicaset.list'', ''Lists ReplicaSets''),
      (''kubernetes.replicaset.get'', ''Retrieves a specific ReplicaSet''),
      (''kubernetes.statefulset.list'', ''Lists StatefulSets''),
      (''kubernetes.statefulset.get'', ''Retrieves a specific StatefulSet''),
      (''kubernetes.daemonset.list'', ''Lists DaemonSets''),
      (''kubernetes.daemonset.get'', ''Retrieves a specific DaemonSet''),
      (''kubernetes.job.list'', ''Lists Jobs''),
      (''kubernetes.job.get'', ''Retrieves a specific Job''),
      (''kubernetes.cronjob.list'', ''Lists CronJobs''),
      (''kubernetes.cronjob.get'', ''Retrieves a specific CronJob''),
      (''kubernetes.event.list'', ''Lists Kubernetes events''),
      (''kubernetes.event.get'', ''Retrieves a specific Kubernetes event''),
      (''kubernetes.service.list'', ''Lists Services with optional filtering by service type such as LoadBalancer, ClusterIP, NodePort, or ExternalName''),
      (''kubernetes.service.get'', ''Retrieves a specific Service''),
      (''kubernetes.endpoints.list'', ''Lists Endpoints''),
      (''kubernetes.endpoints.get'', ''Retrieves a specific Endpoints resource''),
      (''kubernetes.endpointslice.list'', ''Lists EndpointSlices''),
      (''kubernetes.endpointslice.get'', ''Retrieves a specific EndpointSlice''),
      (''kubernetes.networkpolicy.list'', ''Lists NetworkPolicies''),
      (''kubernetes.networkpolicy.get'', ''Retrieves a specific NetworkPolicy''),
      (''kubernetes.ingress.list'', ''Lists Ingresses''),
      (''kubernetes.ingress.get'', ''Retrieves a specific Ingress''),
      (''kubernetes.node.list'', ''Lists nodes including basic status, roles and versions''),
      (''kubernetes.node.get'', ''Retrieves complete Node spec/status''),
      (''kubernetes.namespace.list'', ''Lists namespaces and their status''),
      (''kubernetes.namespace.get'', ''Retrieves a specific Namespace''),
      (''kubernetes.version.get'', ''Retrieves Kubernetes server version information''),
      (''kubernetes.api_resources.list'', ''Lists resource kinds/APIs supported by the cluster''),
      (''kubernetes.configmap.list'', ''Lists ConfigMaps''),
      (''kubernetes.configmap.get'', ''Retrieves a ConfigMap including its data''),
      (''kubernetes.serviceaccount.list'', ''Lists ServiceAccounts''),
      (''kubernetes.serviceaccount.get'', ''Retrieves a specific ServiceAccount''),
      (''kubernetes.resourcequota.list'', ''Lists ResourceQuotas''),
      (''kubernetes.resourcequota.get'', ''Retrieves quota limits and current usage''),
      (''kubernetes.limitrange.list'', ''Lists LimitRanges''),
      (''kubernetes.limitrange.get'', ''Retrieves namespace resource default/min/max constraints''),
      (''kubernetes.role.list'', ''Lists namespaced Roles''),
      (''kubernetes.role.get'', ''Retrieves Role rules''),
      (''kubernetes.rolebinding.list'', ''Lists RoleBindings''),
      (''kubernetes.rolebinding.get'', ''Retrieves RoleBinding subjects and referenced role''),
      (''kubernetes.clusterrole.list'', ''Lists ClusterRoles''),
      (''kubernetes.clusterrole.get'', ''Retrieves ClusterRole rules''),
      (''kubernetes.clusterrolebinding.list'', ''Lists ClusterRoleBindings''),
      (''kubernetes.clusterrolebinding.get'', ''Retrieves ClusterRoleBinding subjects and role''),
      (''kubernetes.authorization.check'', ''Tests whether a Kubernetes identity is authorized to perform an action''),
      (''kubernetes.custom_resource.list'', ''Lists arbitrary Kubernetes Custom Resources by API group, version, and resource name for flexible cluster introspection''),
      (''kubernetes.custom_resource.get'', ''Retrieves a specific Kubernetes Custom Resource by API group, version, resource name, and object name'')]"

definition Kubernetes_capabilityDescription :: "gostring \<Rightarrow> gostring" where
  "Kubernetes_capabilityDescription name =
     (case map_of Kubernetes_descriptions name of Some desc \<Rightarrow> desc | None \<Rightarrow> ''Kubernetes capability'')"

lemma Kubernetes_tasks_prefixed:
  "Kubernetes_tasks = prefixed ''kubernetes''
     [''pod.list'', ''pod.get'', ''pod.describe'', ''pod.get_full'', ''pod.logs'',
      ''deployment.list'', ''deployment.get'', ''replicaset.list'', ''replicaset.get'',
      ''statefulset.list'', ''statefulset.get'', ''daemonset.list'', ''daemonset.get'',
      ''job.list'', ''job.get'', ''cronjob.list'', ''cronjob.get'', ''event.list'', ''event.get'',
      ''service.list'', ''service.get'', ''endpoints.list'', ''endpoints.get'',
      ''endpointslice.list'', ''endpointslice.get'', ''networkpolicy.list'', ''networkpolicy.get'',
      ''ingress.list'', ''ingress.get'', ''node.list'', ''node.get'', ''namespace.list'',
      ''namespace.get'', ''version.get'', ''api_resources.list'', ''configmap.list'',
      ''configmap.get'', ''serviceaccount.list'', ''serviceaccount.get'', ''resourcequota.list'',
      ''resourcequota.get'', ''limitrange.list'', ''limitrange.get'', ''role.list'', ''role.get'',
      ''rolebinding.list'', ''rolebinding.get'', ''clusterrole.list'', ''clusterrole.get'',
      ''clusterrolebinding.list'', ''clusterrolebinding.get'', ''authorization.check'',
      ''custom_resource.list'', ''custom_resource.get'']"
  by (simp add: Kubernetes_tasks_def prefixed_def)

lemma Kubernetes_tasks_distinct: "distinct Kubernetes_tasks"
  unfolding Kubernetes_tasks_prefixed by (rule distinct_prefixed) simp

lemma Kubernetes_tasks_valid: "list_all namePattern Kubernetes_tasks"
  unfolding Kubernetes_tasks_prefixed by (rule prefixed_valid) code_simp+

lemma Kubernetes_described: "map fst Kubernetes_descriptions = Kubernetes_tasks"
  by (simp add: Kubernetes_descriptions_def Kubernetes_tasks_def)

text \<open>\<open>mk\<close> gets the line limit of the first configuration: the task of pod logs keeps it for ever.\<close>

definition Kubernetes_NewProvider ::
  "('rest, 'cs, 'dy) client_go \<Rightarrow> (gostring \<Rightarrow> gostring) \<Rightarrow> (int \<Rightarrow> gostring \<Rightarrow> 't) \<Rightarrow> KubernetesConfig \<Rightarrow>
     ('cs, 'dy, 't) KubernetesProvider" where
  "Kubernetes_NewProvider cg schema mk cfg =
     \<lparr>pv_state = NewState cfg (Some (newK8sClient cg cfg)),
      pv_base = task_base ''kubernetes'' schema Kubernetes_capabilityDescription (\<lambda>_. []) (\<lambda>_. [])
                  (mk (kube_MaxPodLogLines cfg)) Kubernetes_tasks\<rparr>"

interpretation kubernetes: managed_provider "Kubernetes_UpdateConfig oor cg" Kubernetes_IsConfigured for oor cg
  by unfold_locales (simp add: Kubernetes_UpdateConfig_def)

lemma Kubernetes_NewProvider_wf: "managed_wf (Kubernetes_NewProvider cg schema mk cfg)"
  by (simp add: managed_wf_def Kubernetes_NewProvider_def base_wf_task_base Kubernetes_tasks_distinct)

section \<open>The client follows the configuration\<close>

text \<open>The fields that do not ask for a new client do not enter the old one.\<close>

lemma newK8sClient_cong:
  assumes "kube_KubeconfigPath a = kube_KubeconfigPath b" "kube_Context a = kube_Context b"
  shows "newK8sClient cg a = newK8sClient cg b"
proof -
  have "newRESTConfig cg a = newRESTConfig cg b" unfolding newRESTConfig_def assms ..
  then show ?thesis unfolding newK8sClient_def by simp
qed

lemma kubernetes_follows_UpdateConfig:
  "follows (newK8sClient cg) (pv_state p) \<Longrightarrow>
     follows (newK8sClient cg) (pv_state (Kubernetes_UpdateConfig oor cg p n cfg))"
  by (auto simp: Kubernetes_UpdateConfig_def kubernetes_options_def recreate_fn_def intro!: follows_Apply newK8sClient_cong)

text \<open>
  Whatever the updates, the Kubernetes client in use is the one its current configuration
  would build, although an update rebuilds it only when the path of the kubeconfig or the context
  changes.
\<close>

theorem kubernetes_client_current:
  "let p = run_updates (Kubernetes_UpdateConfig oor cg) us (Kubernetes_NewProvider cg schema mk cfg) in
   CurrentClient p = Some (newK8sClient cg (State_Config (pv_state p)))"
proof -
  have "follows (newK8sClient cg)
      (pv_state (run_updates (Kubernetes_UpdateConfig oor cg) us (Kubernetes_NewProvider cg schema mk cfg)))"
    by (rule run_updates_invariant [where I = "\<lambda>p. follows (newK8sClient cg) (pv_state p)"])
      (simp_all add: kubernetes_follows_UpdateConfig Kubernetes_NewProvider_def follows_NewState)
  then show ?thesis by (simp add: follows_def CurrentClient_def Let_def)
qed

end
