(* ===== verification/Go_Scan.thy ===== *)
theory Go_Scan
  imports Go_Strings
begin

text \<open>
  \<open>bufio.Scanner\<close> with its default split function, and \<open>strings.Contains\<close>.
\<close>

section \<open>Lines\<close>

text \<open>
  \<open>bufio.Scanner\<close> over the whole text: a line ends with a line feed, loses one carriage return before
  it, and the last one may lack the line feed if it is not empty. A line of 65536 bytes or more does not
  fit the buffer and ends the scan.
\<close>

definition drop_cr :: "gostring \<Rightarrow> gostring" where
  "drop_cr line = (if line \<noteq> [] \<and> last line = CHR 0x0D then butlast line else line)"

definition scan_lines :: "gostring \<Rightarrow> gostring list" where
  "scan_lines text =
     (let pieces = Split (CHR 0x0A) text;
          complete = (if last pieces = [] then butlast pieces else pieces)
      in map drop_cr (takeWhile (\<lambda>l. length l < 65536) complete))"

text \<open>Whether the scan ended for such a line.\<close>

definition scan_too_long :: "gostring \<Rightarrow> bool" where
  "scan_too_long text \<longleftrightarrow>
     (let pieces = Split (CHR 0x0A) text;
          complete = (if last pieces = [] then butlast pieces else pieces)
      in list_ex (\<lambda>l. \<not> length l < 65536) complete)"

definition strings_Contains :: "gostring \<Rightarrow> gostring \<Rightarrow> bool" where
  "strings_Contains s sub \<longleftrightarrow> list_ex (\<lambda>i. HasPrefix (drop i s) sub) [0..<Suc (length s)]"

end
