(* ===== verification/Kubernetes_Logs.thy ===== *)
theory Kubernetes_Logs
  imports Kubernetes_Provider Go_Scan
begin

text \<open>
  \<open>internal/provider/kubernetes/pod_logs.go\<close>: the logs of a pod, cut to the last lines or to the lines
  around those that hold a keyword. The lower case of a text is the argument \<open>lower\<close>, since it needs the
  Unicode tables.
\<close>

definition splitLines :: "gostring \<Rightarrow> gostring list" where
  "splitLines raw = scan_lines raw"

section \<open>Context of a keyword\<close>

definition matching_lines :: "(gostring \<Rightarrow> gostring) \<Rightarrow> gostring list \<Rightarrow> gostring \<Rightarrow> nat list" where
  "matching_lines lower ls keyword =
     filter (\<lambda>i. strings_Contains (lower (ls ! i)) (lower keyword)) [0..<length ls]"

text \<open>A window is the half-open interval of the lines around one match.\<close>

definition window_of :: "nat \<Rightarrow> nat \<Rightarrow> nat \<Rightarrow> nat \<times> nat" where
  "window_of len half idx = (idx - half, min (idx + half + 1) len)"

text \<open>\<open>merged\<close> with its last window first.\<close>

fun merge_windows :: "(nat \<times> nat) list \<Rightarrow> (nat \<times> nat) list \<Rightarrow> (nat \<times> nat) list" where
  "merge_windows merged [] = rev merged"
| "merge_windows [] (w # ws) = merge_windows [w] ws"
| "merge_windows ((s, e) # ms) ((start, end0) # ws) =
     (if start \<le> e then merge_windows ((s, if end0 > e then end0 else e) # ms) ws
      else merge_windows ((start, end0) # (s, e) # ms) ws)"

text \<open>The loop over the windows; the inner loop is a cut of the lines of one window.\<close>

fun collect_windows :: "gostring list \<Rightarrow> int \<Rightarrow> gostring list \<Rightarrow> (nat \<times> nat) list \<Rightarrow> gostring list" where
  "collect_windows ls mx result [] = result"
| "collect_windows ls mx result ((start, end0) # ws) =
     (let result1 = result @ take (nat (mx - int (length result))) (map (\<lambda>i. ls ! i) [start..<end0])
      in if int (length result1) \<ge> mx then result1 else collect_windows ls mx result1 ws)"

definition half_context :: "int \<Rightarrow> nat" where
  "half_context mx = nat (if quot mx 2 < 1 then 1 else quot mx 2)"

text \<open>Slicing \<open>lines[len-max:]\<close> panics for a negative maximum.\<close>

definition extractLogContext ::
  "(gostring \<Rightarrow> gostring) \<Rightarrow> gostring list \<Rightarrow> gostring \<Rightarrow> int \<Rightarrow> gostring list outcome" where
  "extractLogContext lower ls keyword maxContextLines =
     (if keyword = [] then
        (if int (length ls) \<le> maxContextLines then Go ls
         else if maxContextLines < 0 then Panic
         else Go (drop (length ls - nat maxContextLines) ls))
      else
        (let matches = matching_lines lower ls keyword in
         if matches = [] then Go []
         else
           (let windows = map (window_of (length ls) (half_context maxContextLines)) matches
            in Go (collect_windows ls maxContextLines [] (merge_windows [] windows)))))"

section \<open>The task\<close>

record PodLogOptions =
  plo_Container :: gostring
  plo_TailLines :: int
  plo_Previous :: bool

definition podLogs_Execute ::
  "(gofloat \<Rightarrow> int) \<Rightarrow> (gostring \<Rightarrow> gostring) \<Rightarrow>
     ('cs \<Rightarrow> gostring \<Rightarrow> gostring \<Rightarrow> PodLogOptions \<Rightarrow> gostring + gostring) \<Rightarrow> int \<Rightarrow>
     ('cs, 'dy) k8sClient option \<Rightarrow> gmap \<Rightarrow> gvalue outcome" where
  "podLogs_Execute oor lower getLogs maxLogLines client0 params =
     and_then (attempt (RequireString params ''namespace'')) (\<lambda>namespace.
     and_then (attempt (RequireString params ''name'')) (\<lambda>name.
     and_then (attempt (OptionalString params ''container'' [])) (\<lambda>container.
     and_then (attempt (OptionalInt oor params ''tail_lines'' 100)) (\<lambda>tailLines0.
     and_then (attempt (OptionalBool params ''previous'' False)) (\<lambda>previous.
     and_then (attempt (OptionalString params ''search'' [])) (\<lambda>search.
     (case client0 of
        None \<Rightarrow> Stop errClientNotConfigured
      | Some client \<Rightarrow>
          (case k8_clientset client of
             None \<Rightarrow> Stop errClientNotConfigured
           | Some clientset \<Rightarrow>
               (let maxLimit = (if maxLogLines \<le> 0 then 100 else maxLogLines);
                    tailLines = (if tailLines0 > maxLimit then maxLimit else tailLines0);
                    fetchLines = (if search \<noteq> [] then (if maxLimit < 2000 then maxLimit else 2000) else tailLines)
                in
                and_then (attempt (getLogs clientset namespace name
                  \<lparr>plo_Container = container, plo_TailLines = fetchLines, plo_Previous = previous\<rparr>)) (\<lambda>raw.
                and_then (extractLogContext lower (splitLines raw) search tailLines) (\<lambda>output.
                Go (VMap [(''logs'', VStrings output), (''line_count'', VInt (int (length output))),
                          (''searched'', VBool (search \<noteq> []))]))))))))))))"

section \<open>What the windows collect\<close>

text \<open>The lines near a match, in their order.\<close>

definition near :: "nat list \<Rightarrow> nat \<Rightarrow> nat \<Rightarrow> bool" where
  "near matches half i \<longleftrightarrow> list_ex (\<lambda>m. m \<le> i + half \<and> i \<le> m + half) matches"

definition covered :: "(nat \<times> nat) list \<Rightarrow> nat \<Rightarrow> bool" where
  "covered ws i \<longleftrightarrow> list_ex (\<lambda>(s, e). s \<le> i \<and> i < e) ws"

definition interval :: "nat \<times> nat \<Rightarrow> nat list" where
  "interval w = [fst w..<snd w]"

text \<open>Windows in order with a gap between any two; the accumulator of the merge is reversed.\<close>

definition ascending :: "(nat \<times> nat) list \<Rightarrow> bool" where
  "ascending ws \<longleftrightarrow> sorted_wrt (\<lambda>a b. snd a < fst b) ws \<and> list_all (\<lambda>w. fst w < snd w) ws"

lemma covered_simps [simp]:
  "covered [] i = False" "covered (w # ws) i \<longleftrightarrow> (fst w \<le> i \<and> i < snd w) \<or> covered ws i"
  "covered (xs @ ys) i \<longleftrightarrow> covered xs i \<or> covered ys i" "covered (rev xs) i \<longleftrightarrow> covered xs i"
  by (auto simp: covered_def list_ex_iff split: prod.splits)

text \<open>What the merge keeps: its windows ascend, and the next one does not start before any of them.\<close>

lemma ascending_Cons_rev:
  "ascending (rev (m # ms)) \<longleftrightarrow> ascending (rev ms) \<and> fst m < snd m \<and> (\<forall>x \<in> set ms. snd x < fst m)"
  by (auto simp: ascending_def sorted_wrt_append)

lemma merge_windows_ascending:
  assumes "ascending (rev merged)" "sorted_wrt (\<lambda>a b. fst a \<le> fst b) ws" "list_all (\<lambda>w. fst w < snd w) ws"
    and "merged \<noteq> [] \<longrightarrow> (\<forall>w \<in> set ws. fst (hd merged) \<le> fst w)"
  shows "ascending (merge_windows merged ws)"
  using assms
proof (induction merged ws rule: merge_windows.induct)
  case (3 s e ms start end0 ws)
  show ?case
  proof (cases "start \<le> e")
    case True
    have "ascending (rev ((s, if end0 > e then end0 else e) # ms))"
      using 3(3) unfolding ascending_Cons_rev by simp
    from 3(1) [OF True this] show ?thesis using 3(4-6) True by simp
  next
    case False
    have "s < e" "\<forall>x \<in> set ms. snd x < s" using 3(3) unfolding ascending_Cons_rev by simp_all
    then have "ascending (rev ((start, end0) # (s, e) # ms))"
      using 3(3,5) False unfolding ascending_Cons_rev by fastforce
    from 3(2) [OF False this] show ?thesis using 3(4,5) False by simp
  qed
qed (simp_all add: ascending_def)

lemma merge_windows_covered:
  assumes "sorted_wrt (\<lambda>a b. fst a \<le> fst b) ws" "merged \<noteq> [] \<longrightarrow> (\<forall>w \<in> set ws. fst (hd merged) \<le> fst w)"
  shows "covered (merge_windows merged ws) i \<longleftrightarrow> covered merged i \<or> covered ws i"
  using assms
proof (induction merged ws rule: merge_windows.induct)
  case (3 s e ms start end0 ws)
  then have o: "s \<le> start" "\<forall>w \<in> set ws. s \<le> fst w" "\<forall>w \<in> set ws. start \<le> fst w"
    "sorted_wrt (\<lambda>a b. fst a \<le> fst b) ws" by simp_all
  show ?case
  proof (cases "start \<le> e")
    case True
    with 3(1) [OF True o(4)] o show ?thesis by auto
  next
    case False
    with 3(2) [OF False o(4)] o show ?thesis by auto
  qed
qed simp_all

lemma ascending_intervals:
  "ascending ws \<Longrightarrow> sorted (concat (map interval ws)) \<and> distinct (concat (map interval ws))"
proof (induction ws)
  case (Cons w ws)
  then have "ascending ws" by (simp add: ascending_def)
  moreover have "\<forall>x \<in> set (interval w). \<forall>y \<in> set (concat (map interval ws)). x < y"
    using Cons.prems by (fastforce simp: ascending_def interval_def)
  ultimately show ?case
    using Cons.IH by (auto simp: sorted_append interval_def dest: less_imp_le)
qed simp

lemma intervals_filter:
  assumes "ascending ws" "\<And>i. covered ws i \<Longrightarrow> i < n"
  shows "concat (map interval ws) = filter (covered ws) [0..<n]"
proof (rule sorted_distinct_set_unique)
  show "sorted (concat (map interval ws))" "distinct (concat (map interval ws))"
    using ascending_intervals [OF assms(1)] by simp_all
  have "set (concat (map interval ws)) = {i. covered ws i}"
    by (auto simp: interval_def covered_def list_ex_iff) force+
  then show "set (concat (map interval ws)) = set (filter (covered ws) [0..<n])" using assms(2) by auto
  show "sorted (filter (covered ws) [0..<n])" by (simp add: sorted_wrt_filter)
qed simp_all

lemma collect_windows_take:
  "collect_windows ls mx result ws =
     result @ take (nat (mx - int (length result))) (map (\<lambda>i. ls ! i) (concat (map interval ws)))"
proof (induction ws arbitrary: result)
  case (Cons w ws)
  let ?n = "nat (mx - int (length result))" and ?xs = "map (\<lambda>i. ls ! i) (interval w)"
  let ?r = "result @ take ?n ?xs"
  have rest: "nat (mx - int (length ?r)) = ?n - length ?xs" by auto
  have "collect_windows ls mx result (w # ws) =
      (if int (length ?r) \<ge> mx then ?r else collect_windows ls mx ?r ws)"
    by (cases w) (simp add: interval_def Let_def)
  also have "\<dots> = ?r @ take (?n - length ?xs) (map (\<lambda>i. ls ! i) (concat (map interval ws)))"
    using Cons.IH [of ?r] rest by auto
  finally show ?case by simp
qed simp

lemma windows_near:
  "i < len \<Longrightarrow> covered (map (window_of len half) matches) i \<longleftrightarrow> near matches half i"
  by (induction matches) (auto simp: window_of_def near_def)

lemma matching_lines_sorted: "sorted_wrt (<) (matching_lines lower ls keyword)"
  by (simp add: matching_lines_def sorted_wrt_filter)

text \<open>
  Searching the logs of a pod for a keyword gives the lines within the context of some line
  that holds it, each once and in their order, as many of them as fit the limit: merging the windows
  around the matches neither repeats a line nor loses one.
\<close>

theorem extractLogContext_search:
  assumes "keyword \<noteq> []"
  shows "extractLogContext lower ls keyword mx =
    Go (take (nat mx) (map (\<lambda>i. ls ! i)
      (filter (near (matching_lines lower ls keyword) (half_context mx)) [0..<length ls])))"
proof -
  let ?m = "matching_lines lower ls keyword" and ?h = "half_context mx"
  let ?ws = "map (window_of (length ls) ?h) ?m"
  have h: "0 < ?h" by (simp add: half_context_def)
  have lt: "\<forall>i \<in> set ?m. i < length ls" by (auto simp: matching_lines_def)
  have s: "sorted_wrt (\<lambda>a b. fst a \<le> fst b) ?ws" unfolding sorted_wrt_map
    by (rule sorted_wrt_mono_rel [OF _ matching_lines_sorted]) (simp add: window_of_def)
  have l: "list_all (\<lambda>w. fst w < snd w) ?ws" using lt h by (auto simp: list_all_iff window_of_def)
  have w: "ascending (merge_windows [] ?ws)" "\<And>i. covered (merge_windows [] ?ws) i \<longleftrightarrow> covered ?ws i"
    by (rule merge_windows_ascending [OF _ s l]) (simp_all add: ascending_def merge_windows_covered [OF s])
  have "covered ?ws i \<Longrightarrow> i < length ls" for i by (auto simp: covered_def window_of_def list_ex_iff)
  with w have "concat (map interval (merge_windows [] ?ws)) = filter (covered (merge_windows [] ?ws)) [0..<length ls]"
    by (intro intervals_filter) auto
  also have "\<dots> = filter (near ?m ?h) [0..<length ls]"
    by (rule filter_cong) (auto simp: w(2) windows_near)
  finally have c: "collect_windows ls mx [] (merge_windows [] ?ws) =
      take (nat mx) (map (\<lambda>i. ls ! i) (filter (near ?m ?h) [0..<length ls]))"
    by (simp add: collect_windows_take)
  show ?thesis
    using assms c by (auto simp: extractLogContext_def near_def Let_def)
qed

theorem extractLogContext_search_witness:
  "extractLogContext (\<lambda>s. s) [''a'', ''b'', ''error'', ''c'', ''d'', ''error'', ''e'', ''f'', ''g''] ''err'' 6 =
    Go [''a'', ''b'', ''error'', ''c'', ''d'', ''error'']"
proof -
  have "filter (near (matching_lines (\<lambda>s. s) [''a'', ''b'', ''error'', ''c'', ''d'', ''error'', ''e'', ''f'', ''g''] ''err'')
      (half_context 6)) [0..<9] = [0, 1, 2, 3, 4, 5, 6, 7, 8]" by code_simp
  moreover have "length [''a'', ''b'', ''error'', ''c'', ''d'', ''error'', ''e'', ''f'', ''g''] = 9" by simp
  ultimately show ?thesis
    by (subst extractLogContext_search) (simp_all only:, simp_all)
qed

text \<open>Nothing keeps \<open>tail_lines\<close> from being negative: if the server answers, the task panics.\<close>

lemma negative_tail_panics:
  assumes "k8_clientset c = Some cs"
    and "\<And>opts. getLogs cs ''n'' ''p'' opts = Inr raw"
  shows "podLogs_Execute oor lower getLogs mx (Some c)
    [(''namespace'', VString ''n''), (''name'', VString ''p''), (''tail_lines'', VInt (- 1))] = Panic"
proof -
  have "TrimSpace ''n'' = ''n''" "TrimSpace ''p'' = ''p''" by code_simp+
  then show ?thesis
    using assms by (simp add: podLogs_Execute_def RequireString_def OptionalString_def OptionalInt_def OptionalBool_def
        extractLogContext_def Let_def)
qed

text \<open>The limit of the lines is the one of the configuration the provider was made with.\<close>

lemma log_limit_never_updated:
  "map_of (Tasks (pv_base (run_updates (Kubernetes_UpdateConfig oor cg) us (Kubernetes_NewProvider cg schema mk cfg))))
     ''kubernetes.pod.logs'' = Some (mk (kube_MaxPodLogLines cfg) ''kubernetes.pod.logs'')"
  by (simp add: kubernetes.base_run_updates Kubernetes_NewProvider_def task_base_def map_of_task_map Kubernetes_tasks_def)

end
