(* ===== verification/Graylog_Provider.thy ===== *)
theory Graylog_Provider
  imports Managed_Provider Common_Params Config_Types Go_Time Go_Format
begin

text \<open>
  \<open>internal/provider/log\<close>: \<open>guardrails.go\<close>, \<open>types.go\<close>, \<open>client.go\<close> and \<open>provider.go\<close>. URLs, HTTP,
  JSON and RFC 3339 are the argument \<open>env\<close>; \<open>'u\<close> is a parsed URL, \<open>'b\<close> the body of an answer. The
  requests are values; encoding one to JSON cannot fail, since it holds strings and integers only.
\<close>

section \<open>Guardrails\<close>

record logGuardrails =
  lg_MaxQueryRange :: int
  lg_MaxResults :: int
  lg_MaxHistogramBuckets :: int
  lg_QueryTimeout :: int

definition positive_or :: "int \<Rightarrow> int \<Rightarrow> int" where
  "positive_or v d = (if v \<le> 0 then d else v)"

definition log_ApplyDefaults :: "logGuardrails \<Rightarrow> logGuardrails" where
  "log_ApplyDefaults g =
     \<lparr>lg_MaxQueryRange = positive_or (lg_MaxQueryRange g) (24 * Hour),
      lg_MaxResults = positive_or (lg_MaxResults g) 100,
      lg_MaxHistogramBuckets = positive_or (lg_MaxHistogramBuckets g) 100,
      lg_QueryTimeout = positive_or (lg_QueryTimeout g) (30 * Second)\<rparr>"

record timerange =
  tr_Type :: gostring
  tr_Range :: int
  tr_From :: gostring
  tr_To :: gostring
  tr_Keyword :: gostring

text \<open>An error or nothing, as everywhere; a nil time range is \<open>None\<close>.\<close>

definition span_error :: "(int \<Rightarrow> gostring) \<Rightarrow> int \<Rightarrow> int \<Rightarrow> gostring option" where
  "span_error show span mx =
     check (span > mx) (''timerange span '' @ show span @ '' exceeds maximum '' @ show mx)"

definition ValidateTimerange ::
  "(gostring \<Rightarrow> gostring + int) \<Rightarrow> (int \<Rightarrow> gostring) \<Rightarrow> logGuardrails \<Rightarrow> timerange option \<Rightarrow> gostring option" where
  "ValidateTimerange parseTime show g tr0 =
     (case tr0 of
        None \<Rightarrow> None
      | Some tr \<Rightarrow>
          (if tr_Type tr = ''relative'' then span_error show (wrap64 (tr_Range tr * Second)) (lg_MaxQueryRange g)
           else if tr_Type tr = ''absolute'' then
             (if tr_From tr = [] \<or> tr_To tr = [] then Some ''absolute timerange requires both from and to''
              else
                (case parseTime (tr_From tr) of
                   Inl err \<Rightarrow> Some (''timerange.from must be RFC3339: '' @ err)
                 | Inr from \<Rightarrow>
                     (case parseTime (tr_To tr) of
                        Inl err \<Rightarrow> Some (''timerange.to must be RFC3339: '' @ err)
                      | Inr to \<Rightarrow>
                          (let span = time_Sub to from;
                               span1 = (if span < 0 then wrap64 (- span) else span)
                           in span_error show span1 (lg_MaxQueryRange g)))))
           else if tr_Type tr = ''keyword'' then None
           else Some (''unsupported timerange type '' @ quoted (tr_Type tr))))"

definition LimitResults :: "logGuardrails \<Rightarrow> int \<Rightarrow> int" where
  "LimitResults g n = (if n \<le> 0 then lg_MaxResults g else if n > lg_MaxResults g then lg_MaxResults g else n)"

definition LimitBuckets :: "logGuardrails \<Rightarrow> int \<Rightarrow> int" where
  "LimitBuckets g n =
     (if n \<le> 0 then 0 else if n > lg_MaxHistogramBuckets g then lg_MaxHistogramBuckets g else n)"

section \<open>Requests and answers\<close>

record log_interval =
  iv_Type :: gostring
  iv_Value :: int
  iv_Unit :: gostring

record groupBy =
  gb_Field :: gostring
  gb_Interval :: "log_interval option"

record metric =
  me_Function :: gostring
  me_Field :: gostring

record searchMessagesRequest =
  smr_Query :: gostring
  smr_Streams :: "gostring list"
  smr_Fields :: "gostring list"
  smr_From :: int
  smr_Size :: int
  smr_Sort :: gostring
  smr_SortOrder :: gostring
  smr_Timerange :: timerange

record searchMessagesResponse =
  smp_Messages :: "gmap list"
  smp_TotalResults :: int
  smp_TimerangeStart :: gostring
  smp_TimerangeEnd :: gostring

record searchAggregateRequest =
  sar_Query :: gostring
  sar_Streams :: "gostring list"
  sar_GroupBy :: "groupBy list"
  sar_Metrics :: "metric list"
  sar_Timerange :: timerange

record aggregateRow =
  ar_Key :: gostring
  ar_Values :: gmap

section \<open>The client\<close>

datatype log_Body = MessagesBody searchMessagesRequest | AggregateBody searchAggregateRequest

record log_http =
  lh_Timeout :: int
  lh_URL :: gostring
  lh_Header :: "(gostring \<times> gostring) list"
  lh_BasicAuth :: "(gostring \<times> gostring) option"
  lh_Body :: log_Body

record ('u, 'b) log_env =
  le_oor :: "gofloat \<Rightarrow> int"
  le_urlParse :: "gostring \<Rightarrow> gostring + 'u"
  le_urlString :: "'u \<Rightarrow> gostring"
  le_JoinPath :: "'u \<Rightarrow> gostring list \<Rightarrow> 'u"
  le_newRequest :: "gostring \<Rightarrow> gostring option"
  le_Do :: "log_http \<Rightarrow> gostring + (int \<times> 'b)"
  le_decodeMessages :: "'b \<Rightarrow> gostring + searchMessagesResponse"
  le_decodeAggregate :: "'b \<Rightarrow> gostring + aggregateRow list"
  le_parseTime :: "gostring \<Rightarrow> gostring + int"
  le_showDuration :: "int \<Rightarrow> gostring"

record 'u log_clientImpl =
  lc_baseURL :: "'u option"
  lc_httpTimeout :: "int option"
  lc_guardrails :: logGuardrails
  lc_authUser :: gostring
  lc_authPass :: gostring

definition zero_logGuardrails :: logGuardrails where
  "zero_logGuardrails =
     \<lparr>lg_MaxQueryRange = 0, lg_MaxResults = 0, lg_MaxHistogramBuckets = 0, lg_QueryTimeout = 0\<rparr>"

definition zero_log_clientImpl :: "'u log_clientImpl" where
  "zero_log_clientImpl =
     \<lparr>lc_baseURL = None, lc_httpTimeout = None, lc_guardrails = zero_logGuardrails, lc_authUser = [],
      lc_authPass = []\<rparr>"

definition log_credentials :: "GraylogAuthConfig \<Rightarrow> gostring \<times> gostring" where
  "log_credentials auth =
     (if grayauth_Type auth = ''token'' then (grayauth_Token auth, ''token'')
      else if grayauth_Type auth = ''basic'' then (grayauth_Username auth, grayauth_Password auth)
      else ([], []))"

definition newGraylogClient :: "('u, 'b) log_env \<Rightarrow> GraylogConfig \<Rightarrow> 'u log_clientImpl" where
  "newGraylogClient env cfg =
     (if gray_URL cfg = [] then zero_log_clientImpl
      else
        (case le_urlParse env (gray_URL cfg) of
           Inl err \<Rightarrow> zero_log_clientImpl
         | Inr u \<Rightarrow>
             (let g = gray_Guardrails cfg;
                  (user, pass) = log_credentials (gray_Auth cfg)
              in \<lparr>lc_baseURL = Some u, lc_httpTimeout = Some (positive_or (gray_Timeout cfg) (30 * Second)),
                  lc_guardrails =
                    log_ApplyDefaults
                      \<lparr>lg_MaxQueryRange = grayg_MaxQueryRange g, lg_MaxResults = grayg_MaxResults g,
                       lg_MaxHistogramBuckets = grayg_MaxHistogramBuckets g, lg_QueryTimeout = grayg_QueryTimeout g\<rparr>,
                  lc_authUser = user, lc_authPass = pass\<rparr>)))"

text \<open>The methods accept a nil receiver; the interface value itself is the one of the provider.\<close>

definition log_IsConfigured :: "('u, 'b) log_env \<Rightarrow> 'u log_clientImpl option \<Rightarrow> bool" where
  "log_IsConfigured env c0 \<longleftrightarrow>
     (case c0 of
        None \<Rightarrow> False
      | Some c \<Rightarrow> (case lc_baseURL c of None \<Rightarrow> False | Some u \<Rightarrow> le_urlString env u \<noteq> []))"

definition log_Guardrails :: "'u log_clientImpl option \<Rightarrow> logGuardrails" where
  "log_Guardrails c0 =
     (case c0 of None \<Rightarrow> zero_logGuardrails | Some c \<Rightarrow> log_ApplyDefaults (lc_guardrails c))"

definition doPost :: "('u, 'b) log_env \<Rightarrow> 'u log_clientImpl \<Rightarrow> gostring \<Rightarrow> log_Body \<Rightarrow> gostring + (int \<times> 'b)" where
  "doPost env c url body =
     (case le_newRequest env url of
        Some err \<Rightarrow> Inl (''create request: '' @ err)
      | None \<Rightarrow>
          (case le_Do env
              \<lparr>lh_Timeout = ok_or (lc_httpTimeout c) 0, lh_URL = url,
               lh_Header = [(''Content-Type'', ''application/json''), (''Accept'', ''application/json'')],
               lh_BasicAuth = (if lc_authUser c \<noteq> [] \<or> lc_authPass c \<noteq> [] then Some (lc_authUser c, lc_authPass c)
                               else None),
               lh_Body = body\<rparr> of
             Inl err \<Rightarrow> Inl (''do request: '' @ err)
           | Inr resp \<Rightarrow> Inr resp))"

definition graylog_call ::
  "('u, 'b) log_env \<Rightarrow> 'u log_clientImpl \<Rightarrow> gostring \<Rightarrow> log_Body \<Rightarrow> ('b \<Rightarrow> gostring + 'r) \<Rightarrow> gostring + 'r" where
  "graylog_call env c name body decode =
     (if \<not> log_IsConfigured env (Some c) then Inl ''graylog client is not configured''
      else
        (case lc_baseURL c of
           None \<Rightarrow> Inl ''graylog client is not configured''
         | Some base \<Rightarrow>
             (case doPost env c (le_urlString env (le_JoinPath env base [''search'', name])) body of
                Inl err \<Rightarrow> Inl err
              | Inr (status, answer) \<Rightarrow>
                  (if status \<noteq> 200 then Inl (''graylog search/'' @ name @ '' returned status '' @ Itoa status)
                   else (case decode answer of
                           Inl err \<Rightarrow> Inl (''decode search/'' @ name @ '' response: '' @ err)
                         | Inr result \<Rightarrow> Inr result)))))"

definition SearchMessages ::
  "('u, 'b) log_env \<Rightarrow> 'u log_clientImpl \<Rightarrow> searchMessagesRequest \<Rightarrow> gostring + searchMessagesResponse" where
  "SearchMessages env c req = graylog_call env c ''messages'' (MessagesBody req) (le_decodeMessages env)"

definition SearchAggregate ::
  "('u, 'b) log_env \<Rightarrow> 'u log_clientImpl \<Rightarrow> searchAggregateRequest \<Rightarrow> gostring + aggregateRow list" where
  "SearchAggregate env c req = graylog_call env c ''aggregate'' (AggregateBody req) (le_decodeAggregate env)"

section \<open>The provider\<close>

type_synonym ('u, 't) GraylogProvider = "(GraylogConfig, 'u log_clientImpl option, 't) Provider"

definition parseGraylogAuthConfig :: "GraylogAuthConfig \<Rightarrow> gmap \<Rightarrow> GraylogAuthConfig" where
  "parseGraylogAuthConfig base cfg =
     \<lparr>grayauth_Type = ok_or (StringOK cfg ''auth.type'') (grayauth_Type base),
      grayauth_Token = ok_or (StringOK cfg ''auth.token'') (grayauth_Token base),
      grayauth_Username = ok_or (StringOK cfg ''auth.username'') (grayauth_Username base),
      grayauth_Password = ok_or (StringOK cfg ''auth.password'') (grayauth_Password base)\<rparr>"

definition parseGraylogGuardrails :: "(gofloat \<Rightarrow> int) \<Rightarrow> GraylogGuardrails \<Rightarrow> gmap \<Rightarrow> GraylogGuardrails" where
  "parseGraylogGuardrails oor base cfg =
     \<lparr>grayg_MaxQueryRange = ok_or (DurationOK oor cfg ''guardrails.max_query_range'') (grayg_MaxQueryRange base),
      grayg_MaxResults = ok_or (IntOK oor cfg ''guardrails.max_results'') (grayg_MaxResults base),
      grayg_MaxHistogramBuckets =
        ok_or (IntOK oor cfg ''guardrails.max_histogram_buckets'') (grayg_MaxHistogramBuckets base),
      grayg_QueryTimeout = ok_or (DurationOK oor cfg ''guardrails.query_timeout'') (grayg_QueryTimeout base)\<rparr>"

definition parseGraylogConfig :: "(gofloat \<Rightarrow> int) \<Rightarrow> GraylogConfig \<Rightarrow> gmap \<Rightarrow> GraylogConfig" where
  "parseGraylogConfig oor base cfg =
     \<lparr>gray_URL = ok_or (StringOK cfg ''url'') (gray_URL base),
      gray_Timeout = ok_or (DurationOK oor cfg ''timeout'') (gray_Timeout base),
      gray_Auth = (if HasPrefix_key cfg ''auth'' then parseGraylogAuthConfig (gray_Auth base) cfg else gray_Auth base),
      gray_Guardrails =
        (if HasPrefix_key cfg ''guardrails'' then parseGraylogGuardrails oor (gray_Guardrails base) cfg
         else gray_Guardrails base)\<rparr>"

definition graylog_options ::
  "('u, 'b) log_env \<Rightarrow> (GraylogConfig, 'u log_clientImpl option, gmap, gostring) Options" where
  "graylog_options env =
     \<lparr>opt_Parse = (\<lambda>base cfg. Inr (parseGraylogConfig (le_oor env) base cfg)), opt_Equal = None, opt_Recreate = None,
      opt_Build = Some (\<lambda>cfg. Inr (Some (newGraylogClient env cfg))), opt_Close = False\<rparr>"

definition Graylog_UpdateConfig ::
  "('u, 'b) log_env \<Rightarrow> ('u, 't) GraylogProvider \<Rightarrow> gostring \<Rightarrow> gmap \<Rightarrow> ('u, 't) GraylogProvider" where
  "Graylog_UpdateConfig env p capabilityName cfg =
     p\<lparr>pv_state := fst (Apply None (graylog_options env) cfg (pv_state p))\<rparr>"

definition Graylog_IsConfigured :: "('u, 't) GraylogProvider \<Rightarrow> bool" where
  "Graylog_IsConfigured p \<longleftrightarrow> gray_URL (State_Config (pv_state p)) \<noteq> []"

section \<open>The tasks\<close>

definition Log_tasks :: "gostring list" where
  "Log_tasks =
     [''log.graylog.search'', ''log.graylog.count'', ''log.graylog.histogram'',
      ''log.graylog.fieldstats'']"

definition Log_descriptions :: "(gostring \<times> gostring) list" where
  "Log_descriptions =
     [(''log.graylog.search'', ''Search Graylog messages with filters, time range, and field selection''),
      (''log.graylog.count'', ''Return the number of matching log messages without retrieving them''),
      (''log.graylog.histogram'', ''Return time-bucketed hit counts for a query''),
      (''log.graylog.fieldstats'', ''Return descriptive statistics (min/max/avg/sum) for a numeric field'')]"

definition Log_capabilityDescription :: "gostring \<Rightarrow> gostring" where
  "Log_capabilityDescription name =
     (case map_of Log_descriptions name of Some desc \<Rightarrow> desc | None \<Rightarrow> ''Graylog capability'')"

lemma Log_tasks_prefixed:
  "Log_tasks = prefixed ''log''
     [''graylog.search'', ''graylog.count'', ''graylog.histogram'', ''graylog.fieldstats'']"
  by (simp add: Log_tasks_def prefixed_def)

lemma Log_tasks_distinct: "distinct Log_tasks"
  unfolding Log_tasks_prefixed by (rule distinct_prefixed) simp

lemma Log_tasks_valid: "list_all namePattern Log_tasks"
  unfolding Log_tasks_prefixed by (rule prefixed_valid) code_simp+

lemma Log_described: "map fst Log_descriptions = Log_tasks"
  by (simp add: Log_descriptions_def Log_tasks_def)

definition Graylog_NewProvider ::
  "('u, 'b) log_env \<Rightarrow> (gostring \<Rightarrow> gostring) \<Rightarrow> (gostring \<Rightarrow> 't) \<Rightarrow> GraylogConfig \<Rightarrow> ('u, 't) GraylogProvider" where
  "Graylog_NewProvider env schema mk cfg =
     \<lparr>pv_state = NewState cfg (Some (newGraylogClient env cfg)),
      pv_base = task_base ''log'' schema Log_capabilityDescription (\<lambda>_. []) (\<lambda>_. []) mk Log_tasks\<rparr>"

interpretation graylog: managed_provider "Graylog_UpdateConfig env" Graylog_IsConfigured for env
  by unfold_locales (simp add: Graylog_UpdateConfig_def)

lemma Graylog_NewProvider_wf: "managed_wf (Graylog_NewProvider env schema mk cfg)"
  by (simp add: managed_wf_def Graylog_NewProvider_def base_wf_task_base Log_tasks_distinct)

section \<open>Facts\<close>

lemma positive_or_pos: "0 < d \<Longrightarrow> 0 < positive_or v d"
  by (simp add: positive_or_def)

lemma log_ApplyDefaults_pos:
  "0 < lg_MaxQueryRange (log_ApplyDefaults g)" "0 < lg_MaxResults (log_ApplyDefaults g)"
  by (simp_all add: log_ApplyDefaults_def positive_or_def)

lemma log_ApplyDefaults_idem [simp]: "log_ApplyDefaults (log_ApplyDefaults g) = log_ApplyDefaults g"
  by (simp add: log_ApplyDefaults_def positive_or_def)

lemma LimitResults_bounds: "0 < lg_MaxResults g \<Longrightarrow> 0 < LimitResults g n \<and> LimitResults g n \<le> lg_MaxResults g"
  by (simp add: LimitResults_def)

lemma log_follows_UpdateConfig:
  "follows (newGraylogClient env) (pv_state p) \<Longrightarrow>
     follows (newGraylogClient env) (pv_state (Graylog_UpdateConfig env p n cfg))"
  by (auto simp: Graylog_UpdateConfig_def graylog_options_def recreate_fn_def intro!: follows_Apply)

lemma log_follows_run_updates:
  "follows (newGraylogClient env) (pv_state (run_updates (Graylog_UpdateConfig env) us
     (Graylog_NewProvider env schema mk cfg)))"
  by (rule run_updates_invariant [where I = "\<lambda>p. follows (newGraylogClient env) (pv_state p)"])
    (simp_all add: log_follows_UpdateConfig Graylog_NewProvider_def follows_NewState)

end
