(* ===== verification/Graylog_Tasks.thy ===== *)
theory Graylog_Tasks
  imports Graylog_Provider
begin

text \<open>
  The four tasks of \<open>internal/provider/log\<close> and \<open>helpers.go\<close>, and what they send. A time range and an
  interval in a result are the objects they are encoded as.
\<close>

section \<open>Parameters\<close>

definition relative_default :: timerange where
  "relative_default = \<lparr>tr_Type = ''relative'', tr_Range = 900, tr_From = [], tr_To = [], tr_Keyword = []\<rparr>"

text \<open>A field of an object that must be a string to count, and one that must be a number.\<close>

definition string_field :: "gmap \<Rightarrow> gostring \<Rightarrow> gostring" where
  "string_field m key = (case map_of m key of Some (VString s) \<Rightarrow> s | _ \<Rightarrow> [])"

definition number_field :: "(gofloat \<Rightarrow> int) \<Rightarrow> gmap \<Rightarrow> gostring \<Rightarrow> gostring \<Rightarrow> gostring + int" where
  "number_field oor m key err =
     (case map_of m key of
        None \<Rightarrow> Inr 0
      | Some (VInt n) \<Rightarrow> Inr n
      | Some (VInt64 n) \<Rightarrow> Inr n
      | Some (VFloat64 f) \<Rightarrow> Inr (int64_of_float oor f)
      | Some _ \<Rightarrow> Inl err)"

definition parseTimerange :: "(gofloat \<Rightarrow> int) \<Rightarrow> gmap \<Rightarrow> gostring + timerange" where
  "parseTimerange oor params =
     (case map_of params ''timerange'' of
        None \<Rightarrow> Inr relative_default
      | Some VNil \<Rightarrow> Inr relative_default
      | Some (VMap m) \<Rightarrow>
          (let t = string_field m ''type'';
               tr = \<lparr>tr_Type = t, tr_Range = 0, tr_From = [], tr_To = [], tr_Keyword = []\<rparr>
           in if t = [] then Inl ''timerange.type is required''
              else if t = ''relative'' then
                (case number_field oor m ''range'' ''timerange.range must be an integer (seconds)'' of
                   Inl err \<Rightarrow> Inl err
                 | Inr n \<Rightarrow> Inr (tr\<lparr>tr_Range := if n \<le> 0 then 900 else n\<rparr>))
              else if t = ''absolute'' then
                Inr (tr\<lparr>tr_From := string_field m ''from'', tr_To := string_field m ''to''\<rparr>)
              else if t = ''keyword'' then Inr (tr\<lparr>tr_Keyword := string_field m ''keyword''\<rparr>)
              else Inl (''unsupported timerange.type '' @ quoted t))
      | Some _ \<Rightarrow> Inl ''timerange must be an object'')"

definition log_string_entries :: "gvalue list \<Rightarrow> gostring \<Rightarrow> gostring + gostring list" where
  "log_string_entries vs err = (case strings_only vs [] of None \<Rightarrow> Inl err | Some ss \<Rightarrow> Inr ss)"

definition parseStreams :: "gmap \<Rightarrow> gostring + gostring list" where
  "parseStreams params =
     (case map_of params ''streams'' of
        None \<Rightarrow> Inr []
      | Some VNil \<Rightarrow> Inr []
      | Some (VStrings v) \<Rightarrow> Inr v
      | Some (VList v) \<Rightarrow> log_string_entries v ''streams entries must be strings''
      | Some _ \<Rightarrow> Inl ''streams must be an array of strings'')"

definition parseFields :: "gmap \<Rightarrow> gostring list \<Rightarrow> gostring + gostring list" where
  "parseFields params defaultFields =
     (case map_of params ''fields'' of
        None \<Rightarrow> Inr defaultFields
      | Some VNil \<Rightarrow> Inr defaultFields
      | Some (VStrings v) \<Rightarrow> Inr v
      | Some (VList v) \<Rightarrow> log_string_entries v ''fields entries must be strings''
      | Some _ \<Rightarrow> Inl ''fields must be an array of strings'')"

definition parseInterval :: "(gofloat \<Rightarrow> int) \<Rightarrow> gmap \<Rightarrow> int \<Rightarrow> gostring \<Rightarrow> gostring + log_interval" where
  "parseInterval oor params defaultValue defaultUnit =
     (let d = \<lparr>iv_Type = ''timeunit'', iv_Value = defaultValue, iv_Unit = defaultUnit\<rparr> in
      case map_of params ''interval'' of
        None \<Rightarrow> Inr d
      | Some VNil \<Rightarrow> Inr d
      | Some (VMap m) \<Rightarrow>
          (case number_field oor m ''value'' ''interval.value must be an integer'' of
             Inl err \<Rightarrow> Inl err
           | Inr n \<Rightarrow>
               Inr \<lparr>iv_Type = ''timeunit'', iv_Value = (if n \<le> 0 then defaultValue else n),
                    iv_Unit = (if string_field m ''unit'' = [] then defaultUnit else string_field m ''unit'')\<rparr>)
      | Some _ \<Rightarrow> Inl ''interval must be an object'')"

definition makeTimestamp :: "aggregateRow \<Rightarrow> gostring" where
  "makeTimestamp r = ar_Key r"

definition makeCount :: "(gofloat \<Rightarrow> int) \<Rightarrow> aggregateRow \<Rightarrow> int" where
  "makeCount oor r =
     (case map_of (ar_Values r) ''count'' of
        Some (VInt n) \<Rightarrow> n
      | Some (VInt64 n) \<Rightarrow> n
      | Some (VFloat64 f) \<Rightarrow> int64_of_float oor f
      | _ \<Rightarrow> 0)"

definition omitempty :: "gostring \<Rightarrow> gostring \<Rightarrow> gmap" where
  "omitempty key v = (if v = [] then [] else [(key, VString v)])"

definition timerange_value :: "timerange \<Rightarrow> gvalue" where
  "timerange_value tr =
     VMap ([(''type'', VString (tr_Type tr))] @ (if tr_Range tr = 0 then [] else [(''range'', VInt (tr_Range tr))])
           @ omitempty ''from'' (tr_From tr) @ omitempty ''to'' (tr_To tr) @ omitempty ''keyword'' (tr_Keyword tr))"

definition interval_value :: "log_interval \<Rightarrow> gvalue" where
  "interval_value iv =
     VMap [(''type'', VString (iv_Type iv)), (''value'', VInt (iv_Value iv)), (''unit'', VString (iv_Unit iv))]"

section \<open>The tasks\<close>

text \<open>Every task checks the time range against the guardrails of the client it has.\<close>

definition with_guardrails ::
  "('u, 'b) log_env \<Rightarrow> 'u log_clientImpl option \<Rightarrow> timerange \<Rightarrow>
     ('u log_clientImpl \<Rightarrow> logGuardrails \<Rightarrow> 'r outcome) \<Rightarrow> 'r outcome" where
  "with_guardrails env client0 tr f =
     (case client0 of
        None \<Rightarrow> Stop ''graylog client is not configured''
      | Some client \<Rightarrow>
          (let guardrails = log_ApplyDefaults (log_Guardrails (Some client)) in
           case ValidateTimerange (le_parseTime env) (le_showDuration env) guardrails (Some tr) of
             Some err \<Rightarrow> Stop err
           | None \<Rightarrow> f client guardrails))"

type_synonym ('u, 'b) log_task = "('u, 'b) log_env \<Rightarrow> 'u log_clientImpl option \<Rightarrow> gmap \<Rightarrow> gvalue outcome"

definition search_Execute :: "('u, 'b) log_task" where
  "search_Execute env client0 params =
     and_then (attempt (OptionalString params ''query'' [])) (\<lambda>query.
     and_then (attempt (parseTimerange (le_oor env) params)) (\<lambda>tr.
     and_then (attempt (parseFields params [''timestamp'', ''source'', ''level'', ''message''])) (\<lambda>fs.
     and_then (attempt (parseStreams params)) (\<lambda>streams.
     and_then (attempt (NormalizeLimit (le_oor env) params)) (\<lambda>limit0.
     and_then (attempt (OptionalBool params ''include_messages'' True)) (\<lambda>includeMessages.
     with_guardrails env client0 tr (\<lambda>client guardrails.
       (let limit = LimitResults guardrails limit0 in
        and_then (attempt (SearchMessages env client
          \<lparr>smr_Query = query, smr_Streams = streams, smr_Fields = fs, smr_From = 0, smr_Size = limit,
           smr_Sort = [], smr_SortOrder = [], smr_Timerange = tr\<rparr>)) (\<lambda>resp.
        (let returned = int (length (smp_Messages resp)) in
         Go (VMap
           ([(''total_results'', VInt (smp_TotalResults resp)), (''returned'', VInt returned),
             (''truncated'', VBool (returned \<ge> limit \<and> smp_TotalResults resp > limit)),
             (''time_range'', timerange_value tr), (''fields'', VStrings fs)]
            @ (if includeMessages then [(''messages'', VList (map VMap (smp_Messages resp)))] else [])))))))))))))"

definition count_metric :: metric where
  "count_metric = \<lparr>me_Function = ''count'', me_Field = []\<rparr>"

definition count_Execute :: "('u, 'b) log_task" where
  "count_Execute env client0 params =
     and_then (attempt (OptionalString params ''query'' [])) (\<lambda>query.
     and_then (attempt (parseTimerange (le_oor env) params)) (\<lambda>tr.
     and_then (attempt (parseStreams params)) (\<lambda>streams.
     with_guardrails env client0 tr (\<lambda>client guardrails.
       and_then (attempt (SearchAggregate env client
         \<lparr>sar_Query = query, sar_Streams = streams, sar_GroupBy = [], sar_Metrics = [count_metric],
          sar_Timerange = tr\<rparr>)) (\<lambda>rows.
       (let count = (case rows of [] \<Rightarrow> 0 | row # _ \<Rightarrow> makeCount (le_oor env) row) in
        Go (VMap [(''count'', VInt count), (''time_range'', timerange_value tr), (''query'', VString query)])))))))"

text \<open>The loop over the rows: the sum, which wraps, and the buckets.\<close>

fun collect_buckets :: "(gofloat \<Rightarrow> int) \<Rightarrow> aggregateRow list \<Rightarrow> int \<Rightarrow> gvalue list \<Rightarrow> int \<times> gvalue list" where
  "collect_buckets oor [] acc buckets = (acc, buckets)"
| "collect_buckets oor (row # rows) acc buckets =
     (let cnt = makeCount oor row in
      collect_buckets oor rows (wrap64 (acc + cnt))
        (buckets @ [VMap [(''timestamp'', VString (makeTimestamp row)), (''count'', VInt cnt)]]))"

definition histogram_Execute :: "('u, 'b) log_task" where
  "histogram_Execute env client0 params =
     and_then (attempt (OptionalString params ''query'' [])) (\<lambda>query.
     and_then (attempt (parseTimerange (le_oor env) params)) (\<lambda>tr.
     and_then (attempt (parseStreams params)) (\<lambda>streams.
     and_then (attempt (parseInterval (le_oor env) params 5 ''m'')) (\<lambda>iv.
     with_guardrails env client0 tr (\<lambda>client guardrails.
       and_then (attempt (SearchAggregate env client
         \<lparr>sar_Query = query, sar_Streams = streams,
          sar_GroupBy = [\<lparr>gb_Field = ''timestamp'', gb_Interval = Some iv\<rparr>], sar_Metrics = [count_metric],
          sar_Timerange = tr\<rparr>)) (\<lambda>rows.
       (let (totalCount, buckets) = collect_buckets (le_oor env) rows 0 [] in
        Go (VMap [(''total_count'', VInt totalCount), (''buckets'', VList buckets),
                  (''interval'', interval_value iv), (''time_range'', timerange_value tr)]))))))))"

definition fieldstats_metrics :: "gostring \<Rightarrow> metric list" where
  "fieldstats_metrics field =
     [count_metric, \<lparr>me_Function = ''min'', me_Field = field\<rparr>, \<lparr>me_Function = ''max'', me_Field = field\<rparr>,
      \<lparr>me_Function = ''avg'', me_Field = field\<rparr>, \<lparr>me_Function = ''sum'', me_Field = field\<rparr>]"

definition fieldstats_Execute :: "('u, 'b) log_task" where
  "fieldstats_Execute env client0 params =
     and_then (attempt (RequireString params ''field'')) (\<lambda>field.
     and_then (attempt (OptionalString params ''query'' [])) (\<lambda>query.
     and_then (attempt (parseTimerange (le_oor env) params)) (\<lambda>tr.
     and_then (attempt (parseStreams params)) (\<lambda>streams.
     with_guardrails env client0 tr (\<lambda>client guardrails.
       and_then (attempt (SearchAggregate env client
         \<lparr>sar_Query = query, sar_Streams = streams,
          sar_GroupBy = [\<lparr>gb_Field = field, gb_Interval = None\<rparr>], sar_Metrics = fieldstats_metrics field,
          sar_Timerange = tr\<rparr>)) (\<lambda>rows.
       (let stats0 = [(''count'', VInt 0), (''min'', VNil), (''max'', VNil), (''avg'', VNil), (''sum'', VNil)];
            stats = (case rows of [] \<Rightarrow> stats0 | row # _ \<Rightarrow> fold (\<lambda>(k, v). AList.update k v) (ar_Values row) stats0)
        in Go (VMap [(''field'', VString field), (''stats'', VMap stats),
                     (''time_range'', timerange_value tr)]))))))))"

definition log_bodies :: "(gostring \<times> ('u, 'b) log_task) list" where
  "log_bodies =
     [(''log.graylog.search'', search_Execute), (''log.graylog.count'', count_Execute),
      (''log.graylog.histogram'', histogram_Execute), (''log.graylog.fieldstats'', fieldstats_Execute)]"

lemma log_bodies_tasks: "map fst log_bodies = Log_tasks"
  by (simp add: log_bodies_def Log_tasks_def)

definition log_task_named :: "gostring \<Rightarrow> ('u, 'b) log_task" where
  "log_task_named name = the (map_of log_bodies name)"

text \<open>One execution of a task of the provider.\<close>

definition Graylog_Execute ::
  "('u, 'b) log_env \<Rightarrow> ('u, ('u, 'b) log_task) GraylogProvider \<Rightarrow> ('u, 'b) log_task \<Rightarrow> gmap \<Rightarrow> gvalue outcome" where
  "Graylog_Execute env p t params = t env (CurrentClient p) params"

section \<open>What is sent\<close>

text \<open>The request that a body holds: its time range and how many messages it asks for.\<close>

fun body_timerange :: "log_Body \<Rightarrow> timerange" where
  "body_timerange (MessagesBody r) = smr_Timerange r"
| "body_timerange (AggregateBody r) = sar_Timerange r"

fun body_size :: "log_Body \<Rightarrow> int" where
  "body_size (MessagesBody r) = smr_Size r"
| "body_size (AggregateBody r) = 1"

text \<open>
  The spans that a maximum admits. A relative range of more than 9223372036 seconds is an overflow of
  its nanoseconds, and the distance of two times that far apart is the least integer, whose opposite
  is itself.
\<close>

definition span_admitted :: "(gostring \<Rightarrow> gostring + int) \<Rightarrow> int \<Rightarrow> timerange \<Rightarrow> bool" where
  "span_admitted parseTime mx tr \<longleftrightarrow>
     (tr_Type tr = ''relative'' \<and> 0 < tr_Range tr \<and> (tr_Range tr * Second \<le> mx \<or> tr_Range tr > 9223372036)) \<or>
     (tr_Type tr = ''absolute'' \<and>
        (\<exists>from to. parseTime (tr_From tr) = Inr from \<and> parseTime (tr_To tr) = Inr to \<and>
           (\<bar>to - from\<bar> \<le> mx \<or> to - from \<le> min_int64))) \<or>
     tr_Type tr = ''keyword''"

text \<open>What a client may be asked to send.\<close>

definition log_request_admitted :: "('u, 'b) log_env \<Rightarrow> 'u log_clientImpl \<Rightarrow> log_http \<Rightarrow> bool" where
  "log_request_admitted env c r \<longleftrightarrow>
     (let g = log_Guardrails (Some c) in
      span_admitted (le_parseTime env) (lg_MaxQueryRange g) (body_timerange (lh_Body r)) \<and>
      0 < body_size (lh_Body r) \<and> body_size (lh_Body r) \<le> lg_MaxResults g \<and> body_size (lh_Body r) \<le> 1000)"

lemma parseTimerange_shape:
  "parseTimerange oor params = Inr tr \<Longrightarrow> tr_Type tr = ''relative'' \<Longrightarrow> 0 < tr_Range tr"
  by (auto simp: parseTimerange_def relative_default_def Let_def split: option.splits gvalue.splits if_splits sum.splits)

lemma relative_admitted:
  assumes "wrap64 (n * Second) \<le> mx" "0 < n" shows "n * Second \<le> mx \<or> n > 9223372036"
proof (rule disjCI)
  assume "\<not> n > 9223372036"
  then have "wrap64 (n * Second) = n * Second" using assms(2) by (intro wrap64_id) simp_all
  with assms(1) show "n * Second \<le> mx" by simp
qed

lemma absolute_admitted:
  assumes "(if time_Sub t f < 0 then wrap64 (- time_Sub t f) else time_Sub t f) \<le> mx" "mx < max_int64"
  shows "\<bar>t - f\<bar> \<le> mx \<or> t - f \<le> min_int64"
  using assms wrap64_id [of "f - t"] by (auto simp: time_Sub_def split: if_splits)

lemma ValidateTimerange_admitted:
  assumes "ValidateTimerange parseTime show g (Some tr) = None" "parseTimerange oor params = Inr tr"
    and "lg_MaxQueryRange g < max_int64"
  shows "span_admitted parseTime (lg_MaxQueryRange g) tr"
proof -
  consider "tr_Type tr = ''relative''" | "tr_Type tr = ''absolute''" | "tr_Type tr = ''keyword''"
    using assms(1) by (auto simp: ValidateTimerange_def split: if_splits)
  then show ?thesis
  proof cases
    case 1
    with assms(1) have "wrap64 (tr_Range tr * Second) \<le> lg_MaxQueryRange g"
      by (auto simp: ValidateTimerange_def span_error_def)
    from relative_admitted [OF this parseTimerange_shape [OF assms(2) 1]] 1 parseTimerange_shape [OF assms(2) 1]
    show ?thesis by (simp add: span_admitted_def)
  next
    case 2
    with assms(1) obtain a z where p: "parseTime (tr_From tr) = Inr a" "parseTime (tr_To tr) = Inr z"
      and s: "(if time_Sub z a < 0 then wrap64 (- time_Sub z a) else time_Sub z a) \<le> lg_MaxQueryRange g"
      by (auto simp: ValidateTimerange_def span_error_def Let_def simp del: if_split
          split: if_split_asm sum.split_asm)
    from absolute_admitted [OF s assms(3)] p 2 show ?thesis by (auto simp: span_admitted_def)
  next
    case 3
    then show ?thesis by (simp add: span_admitted_def)
  qed
qed

text \<open>Backends that agree on what a client may send give the same answer to a call of it.\<close>

lemma graylog_call_agree:
  assumes "\<forall>r. log_request_admitted env c r \<longrightarrow> a r = b r"
    and "span_admitted (le_parseTime env) (lg_MaxQueryRange (log_Guardrails (Some c))) (body_timerange body)"
    and "0 < body_size body" "body_size body \<le> lg_MaxResults (log_Guardrails (Some c))" "body_size body \<le> 1000"
  shows "graylog_call (env\<lparr>le_Do := a\<rparr>) c name body decode = graylog_call (env\<lparr>le_Do := b\<rparr>) c name body decode"
proof -
  have "a r = b r" if "lh_Body r = body" for r
    using assms that by (simp add: log_request_admitted_def Let_def)
  then show ?thesis
    by (simp add: graylog_call_def doPost_def log_IsConfigured_def split: option.split)
qed

lemma NormalizeLimit_range: "NormalizeLimit oor params = Inr n \<Longrightarrow> 1 \<le> n \<and> n \<le> 1000"
  using NormalizeLimit_spec [of oor params] by auto

lemma with_guardrails_agree:
  assumes "parseTimerange oor params = Inr tr" "lg_MaxQueryRange (log_Guardrails client0) < max_int64"
    and "\<And>c. client0 = Some c \<Longrightarrow>
      span_admitted (le_parseTime env) (lg_MaxQueryRange (log_Guardrails (Some c))) tr \<Longrightarrow>
      f c (log_Guardrails (Some c)) = g c (log_Guardrails (Some c))"
  shows "with_guardrails (env\<lparr>le_Do := a\<rparr>) client0 tr f = with_guardrails (env\<lparr>le_Do := b\<rparr>) client0 tr g"
proof (cases client0)
  case (Some c)
  have d: "log_ApplyDefaults (log_Guardrails (Some c)) = log_Guardrails (Some c)" by (simp add: log_Guardrails_def)
  show ?thesis
  proof (cases "ValidateTimerange (le_parseTime env) (le_showDuration env) (log_Guardrails (Some c)) (Some tr)")
    case None
    from ValidateTimerange_admitted [OF this assms(1)] assms(2,3) Some None show ?thesis
      by (simp add: with_guardrails_def d)
  qed (simp add: with_guardrails_def d Some)
qed (simp add: with_guardrails_def)

lemma log_bodies_agree:
  assumes "lg_MaxQueryRange (log_Guardrails client0) < max_int64"
    and "\<forall>c r. client0 = Some c \<longrightarrow> log_request_admitted env c r \<longrightarrow> a r = b r"
  shows "list_all (\<lambda>(name, body). body (env\<lparr>le_Do := a\<rparr>) client0 params = body (env\<lparr>le_Do := b\<rparr>) client0 params)
    log_bodies"
proof -
  have pos: "0 < lg_MaxResults (log_Guardrails (Some c))" for c :: "'a log_clientImpl"
    by (simp add: log_Guardrails_def log_ApplyDefaults_pos)
  have agg: "SearchAggregate (env\<lparr>le_Do := a\<rparr>) c r = SearchAggregate (env\<lparr>le_Do := b\<rparr>) c r"
    if "client0 = Some c" "span_admitted (le_parseTime env) (lg_MaxQueryRange (log_Guardrails (Some c))) (sar_Timerange r)"
    for c r using assms(2) that pos [of c] by (simp add: SearchAggregate_def) (rule graylog_call_agree, simp_all)
  have msg: "SearchMessages (env\<lparr>le_Do := a\<rparr>) c r = SearchMessages (env\<lparr>le_Do := b\<rparr>) c r"
    if "client0 = Some c" "span_admitted (le_parseTime env) (lg_MaxQueryRange (log_Guardrails (Some c))) (smr_Timerange r)"
      "smr_Size r = LimitResults (log_Guardrails (Some c)) n" "1 \<le> n" "n \<le> 1000"
    for c r n using assms(2) that pos [of c]
    by (simp add: SearchMessages_def) (rule graylog_call_agree, auto simp: LimitResults_def)
  have sent: "SearchMessages (env\<lparr>le_Do := a\<rparr>) c
        \<lparr>smr_Query = q, smr_Streams = ss, smr_Fields = fs, smr_From = 0,
         smr_Size = LimitResults (log_Guardrails (Some c)) n, smr_Sort = [], smr_SortOrder = [], smr_Timerange = tr\<rparr> =
      SearchMessages (env\<lparr>le_Do := b\<rparr>) c
        \<lparr>smr_Query = q, smr_Streams = ss, smr_Fields = fs, smr_From = 0,
         smr_Size = LimitResults (log_Guardrails (Some c)) n, smr_Sort = [], smr_SortOrder = [], smr_Timerange = tr\<rparr>"
    if "client0 = Some c" "span_admitted (le_parseTime env) (lg_MaxQueryRange (log_Guardrails (Some c))) tr"
      "1 \<le> n" "n \<le> 1000" for c q ss fs n tr
    using that by (intro msg [where n = n]) simp_all
  show ?thesis
    unfolding log_bodies_def list.pred_inject prod.case
    unfolding search_Execute_def count_Execute_def histogram_Execute_def fieldstats_Execute_def
    by (intro conjI TrueI and_then_cong refl)
      (auto intro!: and_then_cong with_guardrails_agree [OF _ assms(1)] simp: agg Let_def sent
        dest: NormalizeLimit_range split: list.split)
qed

definition graylog_after ::
  "('u, 'b) log_env \<Rightarrow> (gostring \<Rightarrow> gostring) \<Rightarrow> GraylogConfig \<Rightarrow> (gostring \<times> gmap) list \<Rightarrow>
     ('u, ('u, 'b) log_task) GraylogProvider" where
  "graylog_after env schema cfg us =
     run_updates (Graylog_UpdateConfig env) us (Graylog_NewProvider env schema log_task_named cfg)"

lemma graylog_after_client:
  "CurrentClient (graylog_after env schema cfg us) =
     Some (newGraylogClient env (State_Config (pv_state (graylog_after env schema cfg us))))"
  using log_follows_run_updates [of env us schema log_task_named cfg]
  by (simp add: follows_def CurrentClient_def graylog_after_def)

lemma graylog_after_task:
  assumes "Provider_GetTask (graylog_after env schema cfg us) name = Some t"
  shows "(name, t) \<in> set log_bodies"
proof -
  from assms have "name \<in> set Log_tasks" "t = log_task_named name"
    by (auto simp: graylog_after_def Provider_GetTask_def graylog.base_run_updates Graylog_NewProvider_def task_base_def
        map_of_task_map split: if_splits)
  then show ?thesis by (auto simp: Log_tasks_def log_task_named_def log_bodies_def)
qed


definition sample_log_env :: "(gostring, gostring) log_env" where
  "sample_log_env =
     \<lparr>le_oor = (\<lambda>_. 0), le_urlParse = Inr, le_urlString = (\<lambda>u. u), le_JoinPath = (\<lambda>u ps. Join (u # ps) ''/''),
      le_newRequest = (\<lambda>_. None), le_Do = (\<lambda>_. Inr (200, ''{}'')),
      le_decodeMessages =
        (\<lambda>_. Inr \<lparr>smp_Messages = [], smp_TotalResults = 0, smp_TimerangeStart = [], smp_TimerangeEnd = []\<rparr>),
      le_decodeAggregate = (\<lambda>_. Inr []), le_parseTime = (\<lambda>_. Inl ''bad time''), le_showDuration = (\<lambda>_. [])\<rparr>"

definition sample_log_config :: GraylogConfig where
  "sample_log_config = zero_GraylogConfig\<lparr>gray_URL := ''http://logs/api''\<rparr>"

text \<open>The server that refuses to search more than one day.\<close>

definition one_day_server :: "log_http \<Rightarrow> gostring + (int \<times> gostring)" where
  "one_day_server r =
     (if tr_Type (body_timerange (lh_Body r)) = ''relative'' \<and> 86400 < tr_Range (body_timerange (lh_Body r)) \<and>
         tr_Range (body_timerange (lh_Body r)) \<le> 9223372036
      then Inl ''refused'' else Inr (200, ''{}''))"


text \<open>The overflow is real: a range of 300 years and more passes the default guardrail of one day.\<close>

lemma long_range_passes:
  "ValidateTimerange parseTime show (log_ApplyDefaults zero_logGuardrails)
     (Some \<lparr>tr_Type = ''relative'', tr_Range = 9223372037, tr_From = [], tr_To = [], tr_Keyword = []\<rparr>) = None"
  by (simp add: ValidateTimerange_def span_error_def wrap64_mod log_ApplyDefaults_def positive_or_def
      zero_logGuardrails_def)

text \<open>The number of buckets is limited by no task: \<open>LimitBuckets\<close> and \<open>QueryTimeout\<close> are never used.\<close>

end
