(* ===== verification/Postgres_Provider.thy ===== *)
theory Postgres_Provider
  imports Managed_Provider Common_Params Config_Types Go_Time Go_Format
begin

text \<open>
  \<open>internal/provider/postgres\<close>: \<open>client.go\<close> and \<open>provider.go\<close>. pgx, files, PEM and base64 are arguments:
  \<open>'pc\<close> is a parsed connection string, \<open>'cert\<close> a key pair, and a pool is the record of the functions the
  client calls. What \<open>Query\<close> and \<open>QueryRow\<close> of a pool return is read after they have returned, so it is a
  function of whether the context has been cancelled by then.
\<close>

section \<open>The pool\<close>

record PoolStats =
  ps_TotalConns :: int
  ps_IdleConns :: int
  ps_AcquiredConns :: int
  ps_MaxConns :: int
  ps_EmptyAcquireCount :: int

text \<open>The rows as they are scanned, an error or the columns, and the error after the last one.\<close>

record pg_Rows =
  rows_Scans :: "(gostring + gvalue list) list"
  rows_Err :: "gostring option"

record pg_pool =
  pool_Ping :: "ctx \<Rightarrow> gostring option"
  pool_Query :: "ctx \<Rightarrow> gostring \<Rightarrow> gvalue list \<Rightarrow> gostring + (bool \<Rightarrow> pg_Rows)"
  pool_QueryRow :: "ctx \<Rightarrow> gostring \<Rightarrow> gvalue list \<Rightarrow> bool \<Rightarrow> gostring + gvalue list"
  pool_Stat :: PoolStats

record 'cert pg_tls_Config =
  ptls_MinVersion :: gostring
  ptls_InsecureSkipVerify :: bool
  ptls_RootCAs :: "gostring option"
  ptls_Certificates :: "'cert list"

text \<open>A parsed connection string with the fields the code overwrites.\<close>

record ('pc, 'cert) pool_Config =
  pc_parsed :: 'pc
  pc_ConnectTimeout :: "int option"
  pc_MaxConns :: "int option"
  pc_MinConns :: "int option"
  pc_MaxConnLifetime :: "int option"
  pc_TLSConfig :: "'cert pg_tls_Config option"
  pc_AfterConnect :: gostring

text \<open>Two readings of the clock: the time of a call, and the milliseconds it takes.\<close>

record ('pc, 'cert) pg_env =
  pe_now :: int
  pe_latency :: int
  pe_oor :: "gofloat \<Rightarrow> int"
  pe_readFile :: "gostring \<Rightarrow> gostring + gostring"
  pe_base64 :: "gostring \<Rightarrow> gostring + gostring"
  pe_appendCerts :: "gostring \<Rightarrow> bool"
  pe_X509KeyPair :: "gostring \<Rightarrow> gostring \<Rightarrow> gostring + 'cert"
  pe_ParseConfig :: "gostring \<Rightarrow> gostring + 'pc"
  pe_NewWithConfig :: "('pc, 'cert) pool_Config \<Rightarrow> gostring + pg_pool"

section \<open>The configuration of a pool\<close>

definition pg_pemDataFromConfig :: "('pc, 'cert) pg_env \<Rightarrow> gostring \<Rightarrow> gostring \<Rightarrow> gostring + gostring" where
  "pg_pemDataFromConfig env filePath base64Data =
     (if filePath \<noteq> [] then pe_readFile env filePath
      else if base64Data \<noteq> [] then pe_base64 env base64Data
      else Inl ''neither file path nor base64 data provided'')"

definition pg_roots :: "('pc, 'cert) pg_env \<Rightarrow> PostgresTLSConfig \<Rightarrow> gostring + gostring option" where
  "pg_roots env cfg =
     (if pgtls_CAFile cfg \<noteq> [] \<or> pgtls_CAData cfg \<noteq> []
      then (case pg_pemDataFromConfig env (pgtls_CAFile cfg) (pgtls_CAData cfg) of
              Inl err \<Rightarrow> Inl (''load CA: '' @ err)
            | Inr pemData \<Rightarrow>
                (if \<not> pe_appendCerts env pemData then Inl ''invalid CA PEM data'' else Inr (Some pemData)))
      else Inr None)"

definition pg_certificates :: "('pc, 'cert) pg_env \<Rightarrow> PostgresTLSConfig \<Rightarrow> gostring + 'cert list" where
  "pg_certificates env cfg =
     (if pgtls_CertFile cfg \<noteq> [] \<or> pgtls_CertData cfg \<noteq> []
      then (case pg_pemDataFromConfig env (pgtls_CertFile cfg) (pgtls_CertData cfg) of
              Inl err \<Rightarrow> Inl (''load cert: '' @ err)
            | Inr certPEM \<Rightarrow>
                (case pg_pemDataFromConfig env (pgtls_KeyFile cfg) (pgtls_KeyData cfg) of
                   Inl err \<Rightarrow> Inl (''load key: '' @ err)
                 | Inr keyPEM \<Rightarrow>
                     (case pe_X509KeyPair env certPEM keyPEM of
                        Inl err \<Rightarrow> Inl (''parse cert/key pair: '' @ err) | Inr cert \<Rightarrow> Inr [cert])))
      else Inr [])"

definition pg_buildTLSConfig :: "('pc, 'cert) pg_env \<Rightarrow> PostgresTLSConfig \<Rightarrow> gostring + 'cert pg_tls_Config" where
  "pg_buildTLSConfig env cfg =
     (case pg_roots env cfg of
        Inl err \<Rightarrow> Inl err
      | Inr roots \<Rightarrow>
          (case pg_certificates env cfg of
             Inl err \<Rightarrow> Inl err
           | Inr certs \<Rightarrow>
               Inr \<lparr>ptls_MinVersion = ''1.2'', ptls_InsecureSkipVerify = pgtls_InsecureSkipVerify cfg,
                    ptls_RootCAs = roots, ptls_Certificates = certs\<rparr>))"

definition connection_string :: "PostgresConfig \<Rightarrow> gostring" where
  "connection_string cfg =
     (if pg_DSN cfg \<noteq> [] then pg_DSN cfg
      else
        (let host = (if pg_Host cfg = [] then ''localhost'' else pg_Host cfg);
             port = (if pg_Port cfg = 0 then 5432 else pg_Port cfg);
             s = ''postgres://'' @ pg_User cfg @ '':'' @ pg_Password cfg @ ''@'' @ host @ '':'' @ Itoa port @ ''/''
                 @ pg_Database cfg
         in if \<not> pgtls_Enabled (pg_TLS cfg) then s @ ''?sslmode=disable'' else s))"

definition if_positive :: "int \<Rightarrow> int option" where
  "if_positive n = (if n > 0 then Some n else None)"

definition parsePostgresConfig :: "('pc, 'cert) pg_env \<Rightarrow> PostgresConfig \<Rightarrow> gostring + ('pc, 'cert) pool_Config" where
  "parsePostgresConfig env cfg =
     (case pe_ParseConfig env (connection_string cfg) of
        Inl err \<Rightarrow> Inl (''parse connection string: '' @ err)
      | Inr parsed \<Rightarrow>
          (let poolCfg = \<lparr>pc_parsed = parsed, pc_ConnectTimeout = if_positive (pg_ConnectTimeout cfg),
                          pc_MaxConns = if_positive (pg_MaxConns cfg), pc_MinConns = if_positive (pg_MinConns cfg),
                          pc_MaxConnLifetime = if_positive (pg_ConnMaxLifetime cfg), pc_TLSConfig = None,
                          pc_AfterConnect = ''SET default_transaction_read_only = on''\<rparr>
           in if pgtls_Enabled (pg_TLS cfg)
              then (case pg_buildTLSConfig env (pg_TLS cfg) of
                      Inl err \<Rightarrow> Inl (''build TLS config: '' @ err)
                    | Inr tlsCfg \<Rightarrow> Inr (poolCfg\<lparr>pc_TLSConfig := Some tlsCfg\<rparr>))
              else Inr poolCfg))"

section \<open>The client\<close>

record pg_clientImpl =
  pgc_pool :: "pg_pool option"
  pgc_initErr :: "gostring option"
  pgc_guardrails :: PostgresGuardrails

definition newClient :: "('pc, 'cert) pg_env \<Rightarrow> PostgresConfig \<Rightarrow> pg_clientImpl" where
  "newClient env cfg =
     (case parsePostgresConfig env cfg of
        Inl err \<Rightarrow>
          \<lparr>pgc_pool = None, pgc_initErr = Some (''parse postgres config: '' @ err),
           pgc_guardrails = zero_PostgresGuardrails\<rparr>
      | Inr poolCfg \<Rightarrow>
          (case pe_NewWithConfig env poolCfg of
             Inl err \<Rightarrow>
               \<lparr>pgc_pool = None, pgc_initErr = Some (''create pgxpool: '' @ err),
                pgc_guardrails = zero_PostgresGuardrails\<rparr>
           | Inr pool \<Rightarrow>
               \<lparr>pgc_pool = Some pool, pgc_initErr = None, pgc_guardrails = pg_Guardrails cfg\<rparr>))"

text \<open>
  The context of a call, and whether it is cancelled when the call returns: \<open>defer cancel()\<close> runs then.
\<close>

definition statement_ctx :: "('pc, 'cert) pg_env \<Rightarrow> ctx \<Rightarrow> pg_clientImpl \<Rightarrow> ctx \<times> bool" where
  "statement_ctx env ctx c =
     (let timeout = pgg_StatementTimeout (pgc_guardrails c) in
      if timeout > 0 then (context_WithTimeout (pe_now env) ctx timeout, True) else (ctx, False))"

definition pg_Ping :: "('pc, 'cert) pg_env \<Rightarrow> ctx \<Rightarrow> pg_clientImpl \<Rightarrow> unit outcome" where
  "pg_Ping env ctx c =
     (case pgc_initErr c of
        Some err \<Rightarrow> Stop err
      | None \<Rightarrow>
          (case pgc_pool c of
             None \<Rightarrow> Panic
           | Some pool \<Rightarrow>
               (case pool_Ping pool (fst (statement_ctx env ctx c)) of Some err \<Rightarrow> Stop err | None \<Rightarrow> Go ())))"

definition pg_Query ::
  "('pc, 'cert) pg_env \<Rightarrow> ctx \<Rightarrow> pg_clientImpl \<Rightarrow> gostring \<Rightarrow> gvalue list \<Rightarrow> pg_Rows outcome" where
  "pg_Query env ctx c sql args =
     (case pgc_initErr c of
        Some err \<Rightarrow> Stop err
      | None \<Rightarrow>
          (case pgc_pool c of
             None \<Rightarrow> Panic
           | Some pool \<Rightarrow>
               (let (ctx1, cancelled) = statement_ctx env ctx c
                in and_then (attempt (pool_Query pool ctx1 sql args)) (\<lambda>rows. Go (rows cancelled)))))"

text \<open>\<open>QueryRow\<close> and the \<open>Scan\<close> of its row; an \<open>errorRow\<close> scans to its error.\<close>

definition pg_QueryRow ::
  "('pc, 'cert) pg_env \<Rightarrow> ctx \<Rightarrow> pg_clientImpl \<Rightarrow> gostring \<Rightarrow> gvalue list \<Rightarrow> gvalue list outcome" where
  "pg_QueryRow env ctx c sql args =
     (case pgc_initErr c of
        Some err \<Rightarrow> Stop err
      | None \<Rightarrow>
          (case pgc_pool c of
             None \<Rightarrow> Panic
           | Some pool \<Rightarrow>
               (let (ctx1, cancelled) = statement_ctx env ctx c
                in attempt (pool_QueryRow pool ctx1 sql args cancelled))))"

definition zero_PoolStats :: PoolStats where
  "zero_PoolStats =
     \<lparr>ps_TotalConns = 0, ps_IdleConns = 0, ps_AcquiredConns = 0, ps_MaxConns = 0, ps_EmptyAcquireCount = 0\<rparr>"

definition pg_Stat :: "pg_clientImpl option \<Rightarrow> PoolStats" where
  "pg_Stat c0 =
     (case c0 of
        None \<Rightarrow> zero_PoolStats
      | Some c \<Rightarrow> (case pgc_pool c of None \<Rightarrow> zero_PoolStats | Some pool \<Rightarrow> pool_Stat pool))"

text \<open>The pools that \<open>Close\<close> closes.\<close>

definition pg_Close :: "pg_clientImpl \<Rightarrow> pg_pool list" where
  "pg_Close c = (case pgc_pool c of None \<Rightarrow> [] | Some pool \<Rightarrow> [pool])"

section \<open>The provider\<close>

type_synonym 't PostgresProvider = "(PostgresConfig, pg_clientImpl option, 't) Provider"

definition parsePostgresTLSConfig :: "PostgresTLSConfig \<Rightarrow> gmap \<Rightarrow> PostgresTLSConfig" where
  "parsePostgresTLSConfig base cfg =
     \<lparr>pgtls_Enabled = ok_or (BoolOK cfg ''tls.enabled'') (pgtls_Enabled base),
      pgtls_CAFile = ok_or (StringOK cfg ''tls.ca_file'') (pgtls_CAFile base),
      pgtls_CAData = ok_or (StringOK cfg ''tls.ca_data'') (pgtls_CAData base),
      pgtls_CertFile = ok_or (StringOK cfg ''tls.cert_file'') (pgtls_CertFile base),
      pgtls_CertData = ok_or (StringOK cfg ''tls.cert_data'') (pgtls_CertData base),
      pgtls_KeyFile = ok_or (StringOK cfg ''tls.key_file'') (pgtls_KeyFile base),
      pgtls_KeyData = ok_or (StringOK cfg ''tls.key_data'') (pgtls_KeyData base),
      pgtls_InsecureSkipVerify = ok_or (BoolOK cfg ''tls.insecure_skip_verify'') (pgtls_InsecureSkipVerify base)\<rparr>"

definition parsePostgresGuardrails :: "(gofloat \<Rightarrow> int) \<Rightarrow> PostgresGuardrails \<Rightarrow> gmap \<Rightarrow> PostgresGuardrails" where
  "parsePostgresGuardrails oor base cfg =
     \<lparr>pgg_MaxRows = ok_or (IntOK oor cfg ''guardrails.max_rows'') (pgg_MaxRows base),
      pgg_StatementTimeout = ok_or (DurationOK oor cfg ''guardrails.statement_timeout'') (pgg_StatementTimeout base),
      pgg_MaxResultSizeBytes =
        ok_or (IntOK oor cfg ''guardrails.max_result_size_bytes'') (pgg_MaxResultSizeBytes base)\<rparr>"

text \<open>The numbers of connections are converted to 32 bits.\<close>

definition parsePostgresConfigMap :: "(gofloat \<Rightarrow> int) \<Rightarrow> PostgresConfig \<Rightarrow> gmap \<Rightarrow> PostgresConfig" where
  "parsePostgresConfigMap oor base cfg =
     \<lparr>pg_Host = ok_or (StringOK cfg ''host'') (pg_Host base),
      pg_Port = ok_or (IntOK oor cfg ''port'') (pg_Port base),
      pg_Database = ok_or (StringOK cfg ''database'') (pg_Database base),
      pg_User = ok_or (StringOK cfg ''user'') (pg_User base),
      pg_Password = ok_or (StringOK cfg ''password'') (pg_Password base),
      pg_DSN = ok_or (StringOK cfg ''dsn'') (pg_DSN base),
      pg_ConnectTimeout = ok_or (DurationOK oor cfg ''connect_timeout'') (pg_ConnectTimeout base),
      pg_MaxConns = ok_or (map_option wrap32 (IntOK oor cfg ''max_conns'')) (pg_MaxConns base),
      pg_MinConns = ok_or (map_option wrap32 (IntOK oor cfg ''min_conns'')) (pg_MinConns base),
      pg_ConnMaxLifetime = ok_or (DurationOK oor cfg ''conn_max_lifetime'') (pg_ConnMaxLifetime base),
      pg_TLS = (if HasPrefix_key cfg ''tls'' then parsePostgresTLSConfig (pg_TLS base) cfg else pg_TLS base),
      pg_Guardrails =
        (if HasPrefix_key cfg ''guardrails'' then parsePostgresGuardrails oor (pg_Guardrails base) cfg
         else pg_Guardrails base)\<rparr>"

definition postgres_options ::
  "('pc, 'cert) pg_env \<Rightarrow> (PostgresConfig, pg_clientImpl option, gmap, gostring) Options" where
  "postgres_options env =
     \<lparr>opt_Parse = (\<lambda>base cfg. Inr (parsePostgresConfigMap (pe_oor env) base cfg)), opt_Equal = None,
      opt_Recreate = None, opt_Build = Some (\<lambda>cfg. Inr (Some (newClient env cfg))), opt_Close = True\<rparr>"

definition Postgres_UpdateConfig ::
  "('pc, 'cert) pg_env \<Rightarrow> 't PostgresProvider \<Rightarrow> gostring \<Rightarrow> gmap \<Rightarrow> 't PostgresProvider" where
  "Postgres_UpdateConfig env p capabilityName cfg =
     p\<lparr>pv_state := fst (Apply None (postgres_options env) cfg (pv_state p))\<rparr>"

definition Postgres_configured :: "PostgresConfig \<Rightarrow> bool" where
  "Postgres_configured cfg \<longleftrightarrow> pg_Host cfg \<noteq> [] \<or> pg_DSN cfg \<noteq> []"

definition Postgres_IsConfigured :: "'t PostgresProvider \<Rightarrow> bool" where
  "Postgres_IsConfigured p \<longleftrightarrow> Postgres_configured (State_Config (pv_state p))"

section \<open>The tasks\<close>

definition Postgres_tasks :: "gostring list" where
  "Postgres_tasks =
     [''postgres.connection.ping'', ''postgres.connection.stats'', ''postgres.instance.info'',
      ''postgres.session.list'', ''postgres.query.top'', ''postgres.table.stats'',
      ''postgres.table.vacuum_status'', ''postgres.lock.blocking'',
      ''postgres.transaction.long_running'', ''postgres.maintenance.progress'',
      ''postgres.replication.status'', ''postgres.replication.slots'', ''postgres.wal.archiver'',
      ''postgres.storage.largest_relations'']"

definition Postgres_descriptions :: "(gostring \<times> gostring) list" where
  "Postgres_descriptions =
     [(''postgres.connection.ping'', ''Test connectivity to a PostgreSQL database and return latency and version information.''),
      (''postgres.connection.stats'', ''Return connection pool statistics and active connection counts.''),
      (''postgres.instance.info'', ''Return PostgreSQL instance version, settings, and uptime.''),
      (''postgres.session.list'', ''List active sessions with query, state, and duration.''),
      (''postgres.query.top'', ''Return top queries by execution time or frequency.''),
      (''postgres.table.stats'', ''Return table row counts, sizes, and index usage.''),
      (''postgres.table.vacuum_status'', ''Return vacuum and analyze status for tables.''),
      (''postgres.lock.blocking'', ''Identify blocking and waiting lock relationships.''),
      (''postgres.transaction.long_running'', ''Find transactions that have been running longer than a threshold.''),
      (''postgres.maintenance.progress'', ''Show progress of running VACUUM, CREATE INDEX, or other maintenance operations.''),
      (''postgres.replication.status'', ''Return streaming replication lag and status.''),
      (''postgres.replication.slots'', ''List replication slots and their consumption status.''),
      (''postgres.wal.archiver'', ''Check WAL archiving status and last archived WAL.''),
      (''postgres.storage.largest_relations'', ''Find largest tables and indexes by on-disk size.'')]"

definition Postgres_capabilityDescription :: "gostring \<Rightarrow> gostring" where
  "Postgres_capabilityDescription name =
     (case map_of Postgres_descriptions name of Some desc \<Rightarrow> desc | None \<Rightarrow> ''PostgreSQL capability'')"

definition Postgres_capabilityUseCases_table :: "(gostring \<times> gostring list) list" where
  "Postgres_capabilityUseCases_table =
     [(''postgres.connection.ping'', [''health_check'', ''connectivity_test'', ''troubleshooting'']),
      (''postgres.connection.stats'', [''capacity_planning'', ''connection_saturation'', ''troubleshooting'']),
      (''postgres.instance.info'', [''inventory'', ''version_check'', ''troubleshooting'']),
      (''postgres.session.list'', [''performance_analysis'', ''blocking_query_detection'', ''troubleshooting'']),
      (''postgres.query.top'', [''performance_analysis'', ''query_optimization'', ''troubleshooting'']),
      (''postgres.table.stats'', [''capacity_planning'', ''index_optimization'', ''troubleshooting'']),
      (''postgres.table.vacuum_status'', [''maintenance_planning'', ''bloat_detection'', ''troubleshooting'']),
      (''postgres.lock.blocking'', [''deadlock_analysis'', ''query_blocking'', ''troubleshooting'']),
      (''postgres.transaction.long_running'', [''performance_analysis'', ''lock_contention'', ''troubleshooting'']),
      (''postgres.maintenance.progress'', [''maintenance_monitoring'', ''long_operation_tracking'', ''troubleshooting'']),
      (''postgres.replication.status'', [''replica_health'', ''replication_lag'', ''troubleshooting'']),
      (''postgres.replication.slots'', [''replication_monitoring'', ''slot_consumption'', ''troubleshooting'']),
      (''postgres.wal.archiver'', [''backup_health'', ''archive_monitoring'', ''troubleshooting'']),
      (''postgres.storage.largest_relations'', [''capacity_planning'', ''storage_bloat'', ''troubleshooting''])]"

definition Postgres_capabilityUseCases :: "gostring \<Rightarrow> gostring list" where
  "Postgres_capabilityUseCases name = (case map_of Postgres_capabilityUseCases_table name of Some xs \<Rightarrow> xs | None \<Rightarrow> [])"

definition Postgres_capabilityTags_table :: "(gostring \<times> gostring list) list" where
  "Postgres_capabilityTags_table =
     [(''postgres.connection.ping'', [''postgres'', ''connection'', ''health'']),
      (''postgres.connection.stats'', [''postgres'', ''connection'', ''stats'']),
      (''postgres.instance.info'', [''postgres'', ''instance'', ''metadata'']),
      (''postgres.session.list'', [''postgres'', ''session'', ''activity'']),
      (''postgres.query.top'', [''postgres'', ''query'', ''performance'']),
      (''postgres.table.stats'', [''postgres'', ''table'', ''stats'']),
      (''postgres.table.vacuum_status'', [''postgres'', ''table'', ''vacuum'']),
      (''postgres.lock.blocking'', [''postgres'', ''lock'', ''blocking'']),
      (''postgres.transaction.long_running'', [''postgres'', ''transaction'', ''performance'']),
      (''postgres.maintenance.progress'', [''postgres'', ''maintenance'', ''progress'']),
      (''postgres.replication.status'', [''postgres'', ''replication'', ''status'']),
      (''postgres.replication.slots'', [''postgres'', ''replication'', ''slots'']),
      (''postgres.wal.archiver'', [''postgres'', ''wal'', ''archiver'']),
      (''postgres.storage.largest_relations'', [''postgres'', ''storage'', ''size''])]"

definition Postgres_capabilityTags :: "gostring \<Rightarrow> gostring list" where
  "Postgres_capabilityTags name = (case map_of Postgres_capabilityTags_table name of Some xs \<Rightarrow> xs | None \<Rightarrow> [])"

lemma Postgres_tasks_prefixed:
  "Postgres_tasks = prefixed ''postgres''
     [''connection.ping'', ''connection.stats'', ''instance.info'', ''session.list'',
      ''query.top'', ''table.stats'', ''table.vacuum_status'', ''lock.blocking'',
      ''transaction.long_running'', ''maintenance.progress'', ''replication.status'',
      ''replication.slots'', ''wal.archiver'', ''storage.largest_relations'']"
  by (simp add: Postgres_tasks_def prefixed_def)

lemma Postgres_tasks_distinct: "distinct Postgres_tasks"
  unfolding Postgres_tasks_prefixed by (rule distinct_prefixed) simp

lemma Postgres_tasks_valid: "list_all namePattern Postgres_tasks"
  unfolding Postgres_tasks_prefixed by (rule prefixed_valid) code_simp+

lemma Postgres_described: "map fst Postgres_descriptions = Postgres_tasks"
  by (simp add: Postgres_descriptions_def Postgres_tasks_def)

definition Postgres_NewProvider ::
  "('pc, 'cert) pg_env \<Rightarrow> (gostring \<Rightarrow> gostring) \<Rightarrow> (gostring \<Rightarrow> 't) \<Rightarrow> PostgresConfig \<Rightarrow> 't PostgresProvider" where
  "Postgres_NewProvider env schema mk cfg =
     \<lparr>pv_state = NewState cfg (if pg_Host cfg \<noteq> [] \<or> pg_DSN cfg \<noteq> [] then Some (newClient env cfg) else None),
      pv_base = task_base ''postgres'' schema Postgres_capabilityDescription Postgres_capabilityUseCases
                  Postgres_capabilityTags mk Postgres_tasks\<rparr>"

interpretation postgres: managed_provider "Postgres_UpdateConfig env" Postgres_IsConfigured for env
  by unfold_locales (simp add: Postgres_UpdateConfig_def)

lemma Postgres_NewProvider_wf: "managed_wf (Postgres_NewProvider env schema mk cfg)"
  by (simp add: managed_wf_def Postgres_NewProvider_def base_wf_task_base Postgres_tasks_distinct)

section \<open>The client in use\<close>

text \<open>A client either carries an error or has a pool: its methods do not panic.\<close>

definition pg_client_ok :: "pg_clientImpl \<Rightarrow> bool" where
  "pg_client_ok c \<longleftrightarrow> pgc_initErr c = None \<longrightarrow> pgc_pool c \<noteq> None"

lemma newClient_ok: "pg_client_ok (newClient env cfg)"
  by (simp add: pg_client_ok_def newClient_def split: sum.split)

lemma pg_client_no_panic:
  assumes "pg_client_ok c"
  shows "pg_Ping env ctx c \<noteq> Panic" "pg_Query env ctx c sql args \<noteq> Panic" "pg_QueryRow env ctx c sql args \<noteq> Panic"
  using assms
  by (auto simp: pg_client_ok_def pg_Ping_def pg_Query_def pg_QueryRow_def and_then_Panic case_prod_beta Let_def
      split: option.splits)

text \<open>The client is nil, or the one of the current configuration.\<close>

definition pg_client_current :: "('pc, 'cert) pg_env \<Rightarrow> 't PostgresProvider \<Rightarrow> bool" where
  "pg_client_current env p \<longleftrightarrow>
     (CurrentClient p = None \<and> \<not> Postgres_IsConfigured p) \<or>
     CurrentClient p = Some (newClient env (State_Config (pv_state p)))"

lemma pg_client_current_NewProvider: "pg_client_current env (Postgres_NewProvider env schema mk cfg)"
  by (simp add: pg_client_current_def Postgres_NewProvider_def CurrentClient_def NewState_def State_Client_def
      State_Config_def Postgres_IsConfigured_def Postgres_configured_def)

lemma pg_client_current_UpdateConfig:
  assumes "pg_client_current env p" shows "pg_client_current env (Postgres_UpdateConfig env p n cfg)"
proof -
  let ?s = "pv_state (Postgres_UpdateConfig env p n cfg)" and ?c = "parsePostgresConfigMap (pe_oor env)"
  have c: "st_config ?s = ?c (st_config (pv_state p)) cfg"
    by (simp add: Postgres_UpdateConfig_def postgres_options_def Apply_simple_config)
  have l: "st_client ?s = (if st_config (pv_state p) = ?c (st_config (pv_state p)) cfg then st_client (pv_state p)
      else Some (newClient env (?c (st_config (pv_state p)) cfg)))"
    using Apply_simple_client [of None ?c "\<lambda>cfg. Some (newClient env cfg)" True cfg "pv_state p"]
    by (simp add: Postgres_UpdateConfig_def postgres_options_def)
  show ?thesis
    using assms c l
    by (auto simp: pg_client_current_def CurrentClient_def State_Client_def State_Config_def Postgres_IsConfigured_def
        split: if_splits)
qed

lemma pg_client_current_run:
  "pg_client_current env (run_updates (Postgres_UpdateConfig env) us (Postgres_NewProvider env schema mk cfg))"
  by (rule run_updates_invariant [where I = "pg_client_current env"])
    (simp_all add: pg_client_current_UpdateConfig pg_client_current_NewProvider)

section \<open>Connection strings\<close>

text \<open>Nothing is escaped in a connection string, so that two configurations can have the same one.\<close>

lemma connection_string_ambiguous:
  "connection_string (zero_PostgresConfig\<lparr>pg_User := ''u'', pg_Password := ''p@a'', pg_Host := ''b''\<rparr>) =
   connection_string (zero_PostgresConfig\<lparr>pg_User := ''u'', pg_Password := ''p'', pg_Host := ''a@b''\<rparr>)"
  by (simp add: connection_string_def zero_defs Let_def)

text \<open>A number of connections past 32 bits is truncated.\<close>

lemma max_conns_truncated:
  "pg_MaxConns (parsePostgresConfigMap oor zero_PostgresConfig [(''max_conns'', VInt 4294967297)]) = 1"
proof -
  have "IntOK oor [(''max_conns'', VInt 4294967297)] ''max_conns'' = Some 4294967297"
    by (simp add: IntOK_def Lookup_def AsIntOK_def maxInt_def minInt_def)
  then show ?thesis by (simp add: parsePostgresConfigMap_def wrap32_mod ok_or_def)
qed

end
