(* ===== verification/Postgres_Tasks.thy ===== *)
theory Postgres_Tasks
  imports Postgres_Provider
begin

text \<open>
  The fourteen tasks of \<open>internal/provider/postgres\<close>, with their statements, and what they send to the
  server. A row that is read becomes an object with the names of its struct; a field that may be left
  out is one that is null. The field \<open>client\<close> of the tasks is for tests only and always nil.
\<close>

section \<open>Statements\<close>

definition sessionListBaseQuery :: gostring where
  "sessionListBaseQuery =
     ''SELECT pid, usename, application_name, client_addr::text, state, query_start, xact_start, wait_event_type, wait_event, LEFT(query, 256) as query FROM pg_stat_activity''"

definition sessionListActiveFilter :: gostring where
  "sessionListActiveFilter =
     '' WHERE state IS NOT NULL AND state <> 'idle' ORDER BY query_start DESC LIMIT $1''"

definition sessionListStateFilter :: gostring where
  "sessionListStateFilter =
     '' WHERE state = $2 ORDER BY query_start DESC LIMIT $1''"

definition pgStatStatementsQuery :: gostring where
  "pgStatStatementsQuery =
     ''SELECT queryid, LEFT(query, 256), calls, total_exec_time, mean_exec_time, rows, shared_blks_hit, shared_blks_read FROM pg_stat_statements ORDER BY total_exec_time DESC LIMIT $1''"

definition pgStatActivityQuery :: gostring where
  "pgStatActivityQuery =
     ''SELECT pid, LEFT(query, 256), state, EXTRACT(EPOCH FROM (now() - query_start))::float8 * 1000.0 AS duration_ms, usename, datname, application_name, client_addr::text FROM pg_stat_activity WHERE query_start IS NOT NULL AND query NOT LIKE 'SELECT pid, LEFT(query, 256)%' ORDER BY duration_ms DESC LIMIT $1''"

definition tableStatsQuery :: gostring where
  "tableStatsQuery =
     ''SELECT schemaname, relname, n_live_tup, n_dead_tup, n_tup_ins, n_tup_upd, n_tup_del, seq_scan, idx_scan, last_vacuum, last_autovacuum, last_analyze, last_autoanalyze, pg_total_relation_size(relid) as total_size_bytes FROM pg_stat_user_tables WHERE schemaname = $1 ORDER BY pg_total_relation_size(relid) DESC LIMIT $2''"

definition tableVacuumStatusQuery :: gostring where
  "tableVacuumStatusQuery =
     ''SELECT schemaname, relname, n_live_tup, n_dead_tup, CASE WHEN n_live_tup > 0 THEN (n_dead_tup::float / n_live_tup * 100) ELSE 0 END as dead_tup_ratio_pct, last_vacuum, last_autovacuum, vacuum_count, autovacuum_count, analyze_count, autoanalyze_count FROM pg_stat_user_tables WHERE schemaname = $1 ORDER BY dead_tup_ratio_pct DESC LIMIT $2''"

definition lockBlockingQuery :: gostring where
  "lockBlockingQuery =
     Join
       [''SELECT'',
        [CHR 0x09] @ ''blocked_locks.pid AS blocked_pid,'',
        [CHR 0x09] @ ''blocked_activity.usename AS blocked_user,'',
        [CHR 0x09] @ ''blocked_activity.application_name AS blocked_application,'',
        [CHR 0x09] @ ''blocking_locks.pid AS blocking_pid,'',
        [CHR 0x09] @ ''blocking_activity.usename AS blocking_user,'',
        [CHR 0x09] @ ''blocking_activity.application_name AS blocking_application,'',
        [CHR 0x09] @ ''blocked_activity.query AS blocked_statement,'',
        [CHR 0x09] @ ''blocking_activity.query AS blocking_statement,'',
        [CHR 0x09] @ ''blocked_locks.mode AS lock_mode,'',
        [CHR 0x09] @ ''blocked_locks.locktype AS lock_type,'',
        [CHR 0x09] @ ''EXTRACT(EPOCH FROM (now() - blocked_activity.query_start)) * 1000 AS duration_ms'',
        ''FROM pg_catalog.pg_locks blocked_locks'',
        ''JOIN pg_catalog.pg_stat_activity blocked_activity ON blocked_activity.pid = blocked_locks.pid'',
        ''JOIN pg_catalog.pg_locks blocking_locks'',
        [CHR 0x09] @ ''ON blocking_locks.locktype = blocked_locks.locktype'',
        [CHR 0x09] @ ''AND blocking_locks.relation = blocked_locks.relation'',
        [CHR 0x09] @ ''AND blocking_locks.pid != blocked_locks.pid'',
        ''JOIN pg_catalog.pg_stat_activity blocking_activity ON blocking_activity.pid = blocking_locks.pid'',
        ''WHERE NOT blocked_locks.granted AND blocking_locks.granted'',
        ''LIMIT $1''] [CHR 0x0A]"

definition transactionLongRunningQuery :: gostring where
  "transactionLongRunningQuery =
     ''SELECT pid, usename, application_name, state, xact_start, query_start, EXTRACT(EPOCH FROM (now() - xact_start)) as duration_seconds, LEFT(query, 256) as query FROM pg_stat_activity WHERE xact_start IS NOT NULL AND state <> 'idle' AND (now() - xact_start) > $2 ORDER BY xact_start LIMIT $1''"

definition vacuumProgressQuery :: gostring where
  "vacuumProgressQuery =
     Join
       [''SELECT'',
        [CHR 0x09] @ ''pid,'',
        [CHR 0x09] @ ''COALESCE(datname, '' @ [CHR 0x27, CHR 0x27] @ '') AS datname,'',
        [CHR 0x09] @ ''relid::bigint AS relid,'',
        [CHR 0x09] @ [CHR 0x27] @ ''VACUUM' AS command,'',
        [CHR 0x09] @ ''phase,'',
        [CHR 0x09] @ ''CASE WHEN heap_blks_total > 0 THEN (heap_blks_scanned::float8 / heap_blks_total::float8) * 100.0 ELSE 0 END AS progress_pct'',
        ''FROM pg_stat_progress_vacuum'',
        ''WHERE datname IS NOT NULL''] [CHR 0x0A]"

definition analyzeProgressQuery :: gostring where
  "analyzeProgressQuery =
     Join
       [''SELECT'',
        [CHR 0x09] @ ''pid,'',
        [CHR 0x09] @ ''COALESCE(datname, '' @ [CHR 0x27, CHR 0x27] @ '') AS datname,'',
        [CHR 0x09] @ ''relid::bigint AS relid,'',
        [CHR 0x09] @ [CHR 0x27] @ ''ANALYZE' AS command,'',
        [CHR 0x09] @ ''phase,'',
        [CHR 0x09] @ ''CASE WHEN sample_blks_total > 0 THEN (sample_blks_scanned::float8 / sample_blks_total::float8) * 100.0 ELSE 0 END AS progress_pct'',
        ''FROM pg_stat_progress_analyze'',
        ''WHERE datname IS NOT NULL''] [CHR 0x0A]"

definition createIndexProgressQuery :: gostring where
  "createIndexProgressQuery =
     Join
       [''SELECT'',
        [CHR 0x09] @ ''pid,'',
        [CHR 0x09] @ ''COALESCE(datname, '' @ [CHR 0x27, CHR 0x27] @ '') AS datname,'',
        [CHR 0x09] @ ''relid::bigint AS relid,'',
        [CHR 0x09] @ ''command,'',
        [CHR 0x09] @ ''phase,'',
        [CHR 0x09] @ ''CASE WHEN blocks_total > 0 THEN (blocks_done::float8 / blocks_total::float8) * 100.0 ELSE 0 END AS progress_pct'',
        ''FROM pg_stat_progress_create_index'',
        ''WHERE datname IS NOT NULL''] [CHR 0x0A]"

definition clusterProgressQuery :: gostring where
  "clusterProgressQuery =
     Join
       [''SELECT'',
        [CHR 0x09] @ ''pid,'',
        [CHR 0x09] @ ''COALESCE(datname, '' @ [CHR 0x27, CHR 0x27] @ '') AS datname,'',
        [CHR 0x09] @ ''relid::bigint AS relid,'',
        [CHR 0x09] @ ''command,'',
        [CHR 0x09] @ ''phase,'',
        [CHR 0x09] @ ''0 AS progress_pct'',
        ''FROM pg_stat_progress_cluster'',
        ''WHERE datname IS NOT NULL''] [CHR 0x0A]"

definition basebackupProgressQuery :: gostring where
  "basebackupProgressQuery =
     Join
       [''SELECT'',
        [CHR 0x09] @ ''pid,'',
        [CHR 0x09] @ [CHR 0x27, CHR 0x27] @ ''::name AS datname,'',
        [CHR 0x09] @ ''NULL::bigint AS relid,'',
        [CHR 0x09] @ [CHR 0x27] @ ''BASEBACKUP' AS command,'',
        [CHR 0x09] @ ''phase,'',
        [CHR 0x09] @ ''CASE WHEN tablespaces_total > 0 THEN (tablespaces_streamed::float8 / tablespaces_total::float8) * 100.0 ELSE 0 END AS progress_pct'',
        ''FROM pg_stat_progress_basebackup''] [CHR 0x0A]"

definition replicationStatusIsRecoveryQuery :: gostring where
  "replicationStatusIsRecoveryQuery =
     ''SELECT pg_is_in_recovery()''"

definition replicationStatusPrimaryQuery :: gostring where
  "replicationStatusPrimaryQuery =
     Join
       [''SELECT'',
        ''    application_name,'',
        ''    COALESCE(client_addr::text, '' @ [CHR 0x27, CHR 0x27] @ ''),'',
        ''    state,'',
        ''    COALESCE(sent_lsn::text, '' @ [CHR 0x27, CHR 0x27] @ ''),'',
        ''    COALESCE(write_lsn::text, '' @ [CHR 0x27, CHR 0x27] @ ''),'',
        ''    COALESCE(flush_lsn::text, '' @ [CHR 0x27, CHR 0x27] @ ''),'',
        ''    COALESCE(replay_lsn::text, '' @ [CHR 0x27, CHR 0x27] @ ''),'',
        ''    COALESCE(write_lag::text, '' @ [CHR 0x27, CHR 0x27] @ ''),'',
        ''    COALESCE(flush_lag::text, '' @ [CHR 0x27, CHR 0x27] @ ''),'',
        ''    COALESCE(replay_lag::text, '' @ [CHR 0x27, CHR 0x27] @ '')'',
        ''FROM pg_stat_replication''] [CHR 0x0A]"

definition replicationStatusReplicaQuery :: gostring where
  "replicationStatusReplicaQuery =
     Join
       [''SELECT'',
        ''    conninfo,'',
        ''    COALESCE(received_lsn::text, '' @ [CHR 0x27, CHR 0x27] @ ''),'',
        ''    COALESCE(latest_end_lsn::text, '' @ [CHR 0x27, CHR 0x27] @ ''),'',
        ''    COALESCE(latest_end_time::text, '' @ [CHR 0x27, CHR 0x27] @ ''),'',
        ''    COALESCE(sender_host, '' @ [CHR 0x27, CHR 0x27] @ ''),'',
        ''    COALESCE(sender_port, 0)'',
        ''FROM pg_stat_wal_receiver''] [CHR 0x0A]"

definition replicationSlotsQuery :: gostring where
  "replicationSlotsQuery =
     ''SELECT slot_name, plugin, slot_type, datoid, database, active, active_pid, xmin, restart_lsn, confirmed_flush_lsn, wal_status, safe_wal_size FROM pg_replication_slots WHERE ($2 = '' @ [CHR 0x27, CHR 0x27] @ '' OR slot_type = $2) LIMIT $1''"

definition archiveModeQuery :: gostring where
  "archiveModeQuery =
     ''SELECT current_setting('archive_mode')''"

definition walArchiverQuery :: gostring where
  "walArchiverQuery =
     ''SELECT archived_count, last_archived_wal, last_archived_time, failed_count, last_failed_wal, last_failed_time, stats_reset FROM pg_stat_archiver''"

definition storageLargestRelationsBaseQuery :: gostring where
  "storageLargestRelationsBaseQuery =
     ''SELECT n.nspname as schema_name, c.relname as relation_name, c.relkind as relation_type, pg_total_relation_size(c.oid) as total_size_bytes, pg_relation_size(c.oid) as table_size_bytes, pg_indexes_size(c.oid) as index_size_bytes, pg_total_relation_size(c.reltoastrelid) as toast_size_bytes, pg_size_pretty(pg_total_relation_size(c.oid)) as size_pretty FROM pg_class c JOIN pg_namespace n ON n.oid = c.relnamespace WHERE n.nspname = $1 AND c.relkind IN ('r', 'i', 't')''"

definition storageLargestRelationsTablesOnlyFilter :: gostring where
  "storageLargestRelationsTablesOnlyFilter =
     '' AND c.relkind = 'r'' @ [CHR 0x27]"

definition storageLargestRelationsOrderLimit :: gostring where
  "storageLargestRelationsOrderLimit =
     '' ORDER BY pg_total_relation_size(c.oid) DESC LIMIT $2''"

definition connectionStatsQuery :: gostring where
  "connectionStatsQuery =
     Join
       [[],
        ''SELECT'',
        ''  count(*) FILTER (WHERE state = 'active')              AS active,'',
        ''  count(*) FILTER (WHERE state = 'idle')                AS idle,'',
        ''  count(*) FILTER (WHERE state = 'idle in transaction') AS idle_in_transaction,'',
        ''  count(*)                                              AS total'',
        ''FROM pg_stat_activity''] [CHR 0x0A]"

definition instanceInfoQuery :: gostring where
  "instanceInfoQuery =
     Join
       [''SELECT'',
        ''    version(),'',
        ''    COALESCE(inet_server_addr()::text, '' @ [CHR 0x27, CHR 0x27] @ ''),'',
        ''    COALESCE(inet_server_port(), 0),'',
        ''    current_database(),'',
        ''    current_user,'',
        ''    current_setting('TimeZone'),'',
        ''    pg_encoding_to_char(d.encoding),'',
        ''    current_setting('is_superuser')'',
        ''FROM pg_database d'',
        ''WHERE d.datname = current_database()''] [CHR 0x0A]"

definition pgStatStatementsSortColumn :: "gostring \<Rightarrow> gostring" where
  "pgStatStatementsSortColumn sortBy =
     (if sortBy = ''calls'' then ''calls''
      else if sortBy = ''mean_time'' then ''mean_exec_time''
      else if sortBy = ''rows'' then ''rows''
      else if sortBy = ''total_time'' then ''total_exec_time''
      else ''total_exec_time'')"

definition queryPgStatStatements_sql :: "gostring \<Rightarrow> gostring" where
  "queryPgStatStatements_sql sortBy =
     ''SELECT queryid, LEFT(query, 256), calls, total_exec_time, mean_exec_time, rows, shared_blks_hit, shared_blks_read FROM pg_stat_statements ORDER BY ''
     @ pgStatStatementsSortColumn sortBy @ '' DESC LIMIT $1''"

section \<open>Rows\<close>

text \<open>Field names, and whether a null is left out.\<close>

definition row_object :: "(gostring \<times> bool) list \<Rightarrow> gvalue list \<Rightarrow> gmap" where
  "row_object names row =
     concat (map (\<lambda>((k, opt), v). if opt \<and> v = VNil then [] else [(k, v)]) (zip names row))"

fun scan_rows :: "(gvalue list \<Rightarrow> gmap) \<Rightarrow> (gostring + gvalue list) list \<Rightarrow> gostring option \<Rightarrow> gmap list \<Rightarrow> gostring + gmap list" where
  "scan_rows f [] err out = (case err of Some e \<Rightarrow> Inl e | None \<Rightarrow> Inr out)"
| "scan_rows f (Inl e # rs) err out = Inl e"
| "scan_rows f (Inr row # rs) err out = scan_rows f rs err (out @ [f row])"

definition read_rows :: "(gvalue list \<Rightarrow> gmap) \<Rightarrow> pg_Rows \<Rightarrow> gostring + gmap list" where
  "read_rows f rows = scan_rows f (rows_Scans rows) (rows_Err rows) []"

text \<open>Whether the error was one of scanning: the loop stops at the first.\<close>

definition scan_failed :: "pg_Rows \<Rightarrow> bool" where
  "scan_failed rows \<longleftrightarrow> list_ex isl (rows_Scans rows)"

definition truncateQuery :: "gostring \<Rightarrow> gostring" where
  "truncateQuery q = (if length q \<le> 256 then q else take 256 q)"

fun truncate_value :: "gvalue \<Rightarrow> gvalue" where
  "truncate_value (VString q) = VString (truncateQuery q)"
| "truncate_value v = v"

definition truncate_column :: "nat \<Rightarrow> gvalue list \<Rightarrow> gvalue list" where
  "truncate_column i row = (if i < length row then row[i := truncate_value (row ! i)] else row)"

definition objects :: "gmap list \<Rightarrow> gvalue" where
  "objects ms = VList (map VMap ms)"

definition counted :: "gmap list \<Rightarrow> gvalue" where
  "counted ms = VInt (int (length ms))"

section \<open>The tasks\<close>

type_synonym ('pc, 'cert) pg_task =
  "('pc, 'cert) pg_env \<Rightarrow> ctx \<Rightarrow> pg_clientImpl option \<Rightarrow> gmap \<Rightarrow> gvalue outcome"

definition with_pg :: "pg_clientImpl option \<Rightarrow> (pg_clientImpl \<Rightarrow> 'r outcome) \<Rightarrow> 'r outcome" where
  "with_pg client0 f = (case client0 of None \<Rightarrow> Stop ''postgres client is not configured'' | Some client \<Rightarrow> f client)"

fun or_wrapped :: "gostring \<Rightarrow> 'a outcome \<Rightarrow> 'a outcome" where
  "or_wrapped msg (Stop err) = Stop (msg @ err)"
| "or_wrapped msg m = m"

text \<open>The block that reads \<open>limit\<close>, with its default and its maximum.\<close>

definition pg_limit :: "(gofloat \<Rightarrow> int) \<Rightarrow> gmap \<Rightarrow> int \<Rightarrow> int \<Rightarrow> int outcome" where
  "pg_limit oor params defaultLimit maxLimit =
     and_then (attempt (OptionalInt oor params ''limit'' defaultLimit)) (\<lambda>limit.
     and_then (stop_if (limit \<le> 0) ''parameter limit must be greater than 0'') (\<lambda>_.
     Go (if limit > maxLimit then maxLimit else limit)))"

definition connectionPing_Execute :: "('pc, 'cert) pg_task" where
  "connectionPing_Execute env ctx client0 params =
     with_pg client0 (\<lambda>client.
     and_then (or_wrapped ''ping failed: '' (pg_QueryRow env ctx client ''SELECT version()'' [])) (\<lambda>row.
     Go (VMap ([(''healthy'', VBool True), (''latency_ms'', VInt64 (pe_latency env))]
               @ row_object [(''version'', False)] row))))"

definition connectionStats_Execute :: "('pc, 'cert) pg_task" where
  "connectionStats_Execute env ctx client0 params =
     with_pg client0 (\<lambda>client.
     and_then (or_wrapped ''query pg_stat_activity: '' (pg_QueryRow env ctx client connectionStatsQuery [])) (\<lambda>row.
     (let ps = pg_Stat (Some client) in
      Go (VMap [(''total_conns'', VInt32 (ps_TotalConns ps)), (''idle_conns'', VInt32 (ps_IdleConns ps)),
                (''active_conns'', VInt32 (ps_AcquiredConns ps)), (''wait_count'', VInt64 (ps_EmptyAcquireCount ps)),
                (''sessions_by_state'',
                 VMap (row_object [(''active'', False), (''idle'', False), (''idle_in_transaction'', False),
                                   (''total'', False)] row))]))))"

definition instanceInfo_Execute :: "('pc, 'cert) pg_task" where
  "instanceInfo_Execute env ctx client0 params =
     with_pg client0 (\<lambda>client.
     and_then (or_wrapped ''query instance info: '' (pg_QueryRow env ctx client instanceInfoQuery [])) (\<lambda>row.
     Go (VMap (row_object [(''version'', False), (''server_addr'', False), (''server_port'', False),
                           (''database_name'', False), (''current_user'', False), (''timezone'', False),
                           (''server_encoding'', False)] row
               @ [(''is_superuser'', VBool (drop 7 row = [VString ''on'']))]))))"

definition session_fields :: "(gostring \<times> bool) list" where
  "session_fields =
     [(''pid'', False), (''usename'', True), (''application_name'', True), (''client_addr'', True), (''state'', True),
      (''query_start'', True), (''xact_start'', True), (''wait_event_type'', True), (''wait_event'', True),
      (''query'', False)]"

definition sessionList_Execute :: "('pc, 'cert) pg_task" where
  "sessionList_Execute env ctx client0 params =
     with_pg client0 (\<lambda>client.
     (let maxRows = pgg_MaxRows (pgc_guardrails client);
          defaultLimit = (if maxRows > 0 then maxRows else 50);
          maxLimit = (if maxRows > 0 then maxRows else 1000)
      in
      and_then (pg_limit (pe_oor env) params defaultLimit maxLimit) (\<lambda>limit.
      and_then (attempt (OptionalString params ''state'' [])) (\<lambda>state.
      and_then
        (if state \<noteq> []
         then pg_Query env ctx client (sessionListBaseQuery @ sessionListStateFilter) [VInt limit, VString state]
         else pg_Query env ctx client (sessionListBaseQuery @ sessionListActiveFilter) [VInt limit]) (\<lambda>rows.
      and_then (attempt (read_rows (\<lambda>row. row_object session_fields (truncate_column 9 row)) rows)) (\<lambda>sessions.
      Go (VMap [(''limit'', VInt limit), (''state'', VString state), (''sessions'', objects sessions),
                (''count'', counted sessions)])))))))"

definition statements_fields :: "(gostring \<times> bool) list" where
  "statements_fields =
     [(''queryid'', True), (''query'', False), (''calls'', True), (''total_exec_time_ms'', True),
      (''mean_exec_time_ms'', True), (''rows'', True), (''shared_blks_hit'', True), (''shared_blks_read'', True)]"

definition activity_fields :: "(gostring \<times> bool) list" where
  "activity_fields =
     [(''pid'', True), (''query'', False), (''state'', True), (''duration_ms'', True), (''usename'', True),
      (''datname'', True), (''application_name'', True), (''client_addr'', True)]"

definition queryPgStatStatements ::
  "('pc, 'cert) pg_env \<Rightarrow> ctx \<Rightarrow> pg_clientImpl \<Rightarrow> int \<Rightarrow> gostring \<Rightarrow> gmap list outcome" where
  "queryPgStatStatements env ctx client limit sortBy =
     and_then (or_wrapped ''pg_stat_statements query failed: ''
       (pg_Query env ctx client (queryPgStatStatements_sql sortBy) [VInt limit])) (\<lambda>rows.
     attempt (read_rows (row_object statements_fields) rows))"

definition queryPgStatActivity ::
  "('pc, 'cert) pg_env \<Rightarrow> ctx \<Rightarrow> pg_clientImpl \<Rightarrow> int \<Rightarrow> gmap list outcome" where
  "queryPgStatActivity env ctx client limit =
     and_then (or_wrapped ''pg_stat_activity query failed: ''
       (pg_Query env ctx client pgStatActivityQuery [VInt limit])) (\<lambda>rows.
     (case read_rows (row_object activity_fields) rows of
        Inl err \<Rightarrow> Stop (if scan_failed rows
                        then ''scan pg_stat_activity row: '' @ err else ''pg_stat_activity rows error: '' @ err)
      | Inr rs \<Rightarrow> Go rs))"

text \<open>The first error of the statistics is dropped: the activity is read instead.\<close>

fun on_stop :: "'a outcome \<Rightarrow> 'a outcome \<Rightarrow> 'a outcome" where
  "on_stop (Stop err) m = m"
| "on_stop x m = x"

definition queryTop_Execute :: "('pc, 'cert) pg_task" where
  "queryTop_Execute env ctx client0 params =
     and_then (pg_limit (pe_oor env) params 10 1000) (\<lambda>limit.
     and_then (attempt (OptionalString params ''sort_by'' ''total_time'')) (\<lambda>sortBy0.
     (let sortBy = ToLower (TrimSpace sortBy0);
          answer = (\<lambda>source queries.
            VMap [(''source'', VString source), (''queries'', objects queries), (''count'', counted queries)])
      in
      with_pg client0 (\<lambda>client.
      on_stop
        (and_then (queryPgStatStatements env ctx client limit sortBy) (\<lambda>queries. Go (answer ''pg_stat_statements'' queries)))
        (and_then (queryPgStatActivity env ctx client limit) (\<lambda>queries. Go (answer ''pg_stat_activity'' queries)))))))"

definition table_fields :: "(gostring \<times> bool) list" where
  "table_fields =
     [(''schema_name'', False), (''rel_name'', False), (''live_tuples'', False), (''dead_tuples'', False),
      (''inserted_tuples'', False), (''updated_tuples'', False), (''deleted_tuples'', False), (''seq_scans'', False),
      (''index_scans'', False), (''last_vacuum'', True), (''last_autovacuum'', True), (''last_analyze'', True),
      (''last_autoanalyze'', True), (''total_size_bytes'', False)]"

definition tableStats_Execute :: "('pc, 'cert) pg_task" where
  "tableStats_Execute env ctx client0 params =
     and_then (attempt (OptionalString params ''schema'' ''public'')) (\<lambda>schema.
     and_then (pg_limit (pe_oor env) params 50 1000) (\<lambda>limit.
     with_pg client0 (\<lambda>client.
     and_then (pg_Query env ctx client tableStatsQuery [VString schema, VInt limit]) (\<lambda>rows.
     and_then (attempt (read_rows (row_object table_fields) rows)) (\<lambda>stats.
     Go (VMap [(''schema'', VString schema), (''tables'', objects stats), (''count'', counted stats)]))))))"

definition optionalFloat :: "gmap \<Rightarrow> gostring \<Rightarrow> gofloat \<Rightarrow> gostring + gofloat" where
  "optionalFloat params key defaultValue =
     (case map_of params key of
        None \<Rightarrow> Inr defaultValue
      | Some VNil \<Rightarrow> Inr defaultValue
      | Some (VInt n) \<Rightarrow> Inr (float64_of_int n)
      | Some (VInt32 n) \<Rightarrow> Inr (float64_of_int n)
      | Some (VInt64 n) \<Rightarrow> Inr (float64_of_int n)
      | Some (VFloat64 f) \<Rightarrow> Inr f
      | Some _ \<Rightarrow> Inl (''parameter '' @ key @ '' must be a number''))"

definition vacuum_fields :: "(gostring \<times> bool) list" where
  "vacuum_fields =
     [(''schema_name'', False), (''rel_name'', False), (''live_tuples'', False), (''dead_tuples'', False),
      (''dead_tup_ratio_pct'', False), (''last_vacuum'', True), (''last_autovacuum'', True), (''vacuum_count'', False),
      (''autovacuum_count'', False), (''analyze_count'', False), (''autoanalyze_count'', False)]"

definition needs_vacuum :: "gofloat \<Rightarrow> gvalue list \<Rightarrow> bool" where
  "needs_vacuum threshold row =
     (case drop 4 row of VFloat64 r # _ \<Rightarrow> float_less threshold r \<or> float_eq threshold r | _ \<Rightarrow> False)"

definition tableVacuumStatus_Execute :: "('pc, 'cert) pg_task" where
  "tableVacuumStatus_Execute env ctx client0 params =
     and_then (attempt (OptionalString params ''schema'' ''public'')) (\<lambda>schema.
     and_then (pg_limit (pe_oor env) params 50 1000) (\<lambda>limit.
     and_then (attempt (optionalFloat params ''dead_tup_ratio_threshold'' (FFin 10 0))) (\<lambda>threshold.
     and_then (stop_if (float_less threshold (FFin 0 0))
       ''parameter dead_tup_ratio_threshold must not be negative'') (\<lambda>_.
     with_pg client0 (\<lambda>client.
     and_then (pg_Query env ctx client tableVacuumStatusQuery [VString schema, VInt limit]) (\<lambda>rows.
     and_then (attempt (read_rows
       (\<lambda>row. row_object vacuum_fields row @ [(''needs_vacuum'', VBool (needs_vacuum threshold row))]) rows)) (\<lambda>tables.
     Go (VMap [(''schema'', VString schema), (''tables'', objects tables), (''count'', counted tables),
               (''dead_tup_ratio_threshold'', VFloat64 threshold)]))))))))"

definition lock_fields :: "(gostring \<times> bool) list" where
  "lock_fields =
     [(''blocked_pid'', False), (''blocked_user'', False), (''blocked_application'', False), (''blocking_pid'', False),
      (''blocking_user'', False), (''blocking_application'', False), (''blocked_statement'', False),
      (''blocking_statement'', False), (''lock_mode'', False), (''lock_type'', False), (''duration_ms'', False)]"

definition lockBlocking_Execute :: "('pc, 'cert) pg_task" where
  "lockBlocking_Execute env ctx client0 params =
     and_then (pg_limit (pe_oor env) params 50 1000) (\<lambda>limit.
     with_pg client0 (\<lambda>client.
     and_then (pg_Query env ctx client lockBlockingQuery [VInt limit]) (\<lambda>rows.
     and_then (attempt (read_rows
       (\<lambda>row. row_object lock_fields (truncate_column 7 (truncate_column 6 row))) rows)) (\<lambda>locks.
     Go (VMap [(''limit'', VInt limit), (''locks'', objects locks), (''count'', counted locks)])))))"

definition transaction_fields :: "(gostring \<times> bool) list" where
  "transaction_fields =
     [(''pid'', False), (''usename'', False), (''application_name'', False), (''state'', False), (''xact_start'', True),
      (''query_start'', True), (''duration_seconds'', False), (''query'', False)]"

text \<open>The text of an error of \<open>time.ParseDuration\<close> is left out.\<close>

definition transactionLongRunning_Execute :: "('pc, 'cert) pg_task" where
  "transactionLongRunning_Execute env ctx client0 params =
     and_then (pg_limit (pe_oor env) params 50 1000) (\<lambda>limit.
     and_then (attempt (OptionalString params ''min_duration'' ''5m'')) (\<lambda>minDurationStr.
     (case ParseDuration minDurationStr of
        None \<Rightarrow> Stop ''parameter min_duration must be a valid duration: ''
      | Some minDuration \<Rightarrow>
          and_then (stop_if (minDuration \<le> 0) ''parameter min_duration must be greater than 0'') (\<lambda>_.
          with_pg client0 (\<lambda>client.
          and_then (pg_Query env ctx client transactionLongRunningQuery [VInt limit, VDuration minDuration]) (\<lambda>rows.
          and_then (attempt (read_rows (\<lambda>row. row_object transaction_fields (truncate_column 7 row)) rows))
            (\<lambda>transactions.
          Go (VMap [(''min_duration'', VString minDurationStr), (''limit'', VInt limit),
                    (''transactions'', objects transactions), (''count'', counted transactions)]))))))))"

text \<open>The views are read one after the other; one that fails contributes nothing.\<close>

definition progress_row :: "gostring \<Rightarrow> gvalue list \<Rightarrow> gmap" where
  "progress_row defaultCommand row =
     row_object [(''pid'', False), (''datname'', False), (''relid'', True), (''command'', False), (''phase'', False),
                 (''progress_pct'', False)]
       (case drop 3 row of
          VString c # _ \<Rightarrow> (if c = [] then row[3 := VString defaultCommand] else row)
        | _ \<Rightarrow> row)"

definition queryProgressView ::
  "('pc, 'cert) pg_env \<Rightarrow> ctx \<Rightarrow> pg_clientImpl \<Rightarrow> gostring \<Rightarrow> gostring \<Rightarrow> gmap list outcome" where
  "queryProgressView env ctx client sql defaultCommand =
     on_stop
       (and_then (pg_Query env ctx client sql []) (\<lambda>rows. attempt (read_rows (progress_row defaultCommand) rows)))
       (Go [])"

definition maintenanceProgress_Execute :: "('pc, 'cert) pg_task" where
  "maintenanceProgress_Execute env ctx client0 params =
     with_pg client0 (\<lambda>client.
     and_then (queryProgressView env ctx client vacuumProgressQuery ''VACUUM'') (\<lambda>a.
     and_then (queryProgressView env ctx client analyzeProgressQuery ''ANALYZE'') (\<lambda>b.
     and_then (queryProgressView env ctx client createIndexProgressQuery ''CREATE INDEX'') (\<lambda>c.
     and_then (queryProgressView env ctx client clusterProgressQuery ''CLUSTER'') (\<lambda>d.
     and_then (queryProgressView env ctx client basebackupProgressQuery ''BASEBACKUP'') (\<lambda>e.
     (let results = a @ b @ c @ d @ e in
      if results = []
      then Go (VMap [(''operations'', objects results), (''count'', VInt 0),
                     (''message'', VString ''no maintenance operations are currently running'')])
      else Go (VMap [(''operations'', objects results), (''count'', counted results)]))))))))"

definition replication_fields :: "(gostring \<times> bool) list" where
  "replication_fields =
     [(''application_name'', False), (''client_addr'', False), (''state'', False), (''sent_lsn'', False),
      (''write_lsn'', False), (''flush_lsn'', False), (''replay_lsn'', False), (''write_lag'', False),
      (''flush_lag'', False), (''replay_lag'', False)]"

definition receiver_fields :: "(gostring \<times> bool) list" where
  "receiver_fields =
     [(''conninfo'', False), (''received_lsn'', False), (''latest_end_lsn'', False), (''latest_end_time'', False),
      (''sender_host'', False), (''sender_port'', False)]"

definition not_replicated :: gvalue where
  "not_replicated =
     VMap [(''replication_enabled'', VBool False), (''message'', VString ''Replication not configured'')]"

definition replication_primary :: "('pc, 'cert) pg_env \<Rightarrow> ctx \<Rightarrow> pg_clientImpl \<Rightarrow> gvalue outcome" where
  "replication_primary env ctx client =
     and_then (or_wrapped ''query pg_stat_replication: '' (pg_Query env ctx client replicationStatusPrimaryQuery [])) (\<lambda>rows.
     (case read_rows (row_object replication_fields) rows of
        Inl err \<Rightarrow> Stop (if scan_failed rows
                        then ''scan pg_stat_replication: '' @ err else ''iterate pg_stat_replication: '' @ err)
      | Inr replicas \<Rightarrow>
          (if replicas = [] then Go not_replicated
           else Go (VMap [(''replication_enabled'', VBool True), (''role'', VString ''primary''),
                          (''replica_count'', counted replicas), (''replicas'', objects replicas)]))))"

text \<open>Only the first row of the receiver is read, and no error can have shown after it.\<close>

definition replication_replica :: "('pc, 'cert) pg_env \<Rightarrow> ctx \<Rightarrow> pg_clientImpl \<Rightarrow> gvalue outcome" where
  "replication_replica env ctx client =
     and_then (or_wrapped ''query pg_stat_wal_receiver: '' (pg_Query env ctx client replicationStatusReplicaQuery [])) (\<lambda>rows.
     (case rows_Scans rows of
        [] \<Rightarrow>
          (case rows_Err rows of
             Some err \<Rightarrow> Stop (''iterate pg_stat_wal_receiver: '' @ err)
           | None \<Rightarrow> Go not_replicated)
      | Inl err # _ \<Rightarrow> Stop (''scan pg_stat_wal_receiver: '' @ err)
      | Inr row # _ \<Rightarrow>
          Go (VMap [(''replication_enabled'', VBool True), (''role'', VString ''replica''),
                    (''wal_receiver'', VMap (row_object receiver_fields row))])))"

definition replicationStatus_Execute :: "('pc, 'cert) pg_task" where
  "replicationStatus_Execute env ctx client0 params =
     with_pg client0 (\<lambda>client.
     and_then (or_wrapped ''query pg_is_in_recovery: ''
       (pg_QueryRow env ctx client replicationStatusIsRecoveryQuery [])) (\<lambda>row.
     (if row \<noteq> [VBool True] then replication_primary env ctx client
      else replication_replica env ctx client)))"

definition slot_fields :: "(gostring \<times> bool) list" where
  "slot_fields =
     [(''slot_name'', False), (''plugin'', True), (''slot_type'', False), (''datoid'', True), (''database'', True),
      (''active'', False), (''active_pid'', True), (''xmin'', True), (''restart_lsn'', True),
      (''confirmed_flush_lsn'', True), (''wal_status'', True), (''safe_wal_size'', True)]"

definition replicationSlots_Execute :: "('pc, 'cert) pg_task" where
  "replicationSlots_Execute env ctx client0 params =
     and_then (pg_limit (pe_oor env) params 50 1000) (\<lambda>limit.
     and_then (attempt (OptionalString params ''slot_type'' [])) (\<lambda>slotType.
     and_then (stop_if (slotType \<noteq> [] \<and> slotType \<noteq> ''physical'' \<and> slotType \<noteq> ''logical'')
       ''parameter slot_type must be one of: physical, logical'') (\<lambda>_.
     with_pg client0 (\<lambda>client.
     and_then (pg_Query env ctx client replicationSlotsQuery [VInt limit, VString slotType]) (\<lambda>rows.
     and_then (attempt (read_rows (row_object slot_fields) rows)) (\<lambda>slots.
     Go (VMap [(''limit'', VInt limit), (''slot_type'', VString slotType), (''slots'', objects slots),
               (''count'', counted slots)])))))))"

definition walArchiver_Execute :: "('pc, 'cert) pg_task" where
  "walArchiver_Execute env ctx client0 params =
     with_pg client0 (\<lambda>client.
     and_then (or_wrapped ''query archive_mode: '' (pg_QueryRow env ctx client archiveModeQuery [])) (\<lambda>mode.
     (if mode = [VString ''off'']
      then Go (VMap [(''archiving_enabled'', VBool False), (''message'', VString ''WAL archiving not enabled'')])
      else
        and_then (or_wrapped ''query pg_stat_archiver: '' (pg_QueryRow env ctx client walArchiverQuery [])) (\<lambda>row.
        Go (VMap ((''archiving_enabled'', VBool True)
                  # row_object [(''archived_count'', False), (''last_archived_wal'', False),
                                (''last_archived_time'', False), (''failed_count'', False),
                                (''last_failed_wal'', False), (''last_failed_time'', False),
                                (''stats_reset'', False)] row))))))"

definition relation_fields :: "(gostring \<times> bool) list" where
  "relation_fields =
     [(''schema_name'', False), (''relation_name'', False), (''relation_type'', False), (''total_size_bytes'', False),
      (''table_size_bytes'', False), (''index_size_bytes'', False), (''toast_size_bytes'', False),
      (''size_pretty'', False)]"

definition largest_relations_sql :: "bool \<Rightarrow> gostring" where
  "largest_relations_sql includeIndexes =
     storageLargestRelationsBaseQuery @ (if \<not> includeIndexes then storageLargestRelationsTablesOnlyFilter else [])
     @ storageLargestRelationsOrderLimit"

definition storageLargestRelations_Execute :: "('pc, 'cert) pg_task" where
  "storageLargestRelations_Execute env ctx client0 params =
     and_then (attempt (OptionalString params ''schema'' ''public'')) (\<lambda>schema.
     and_then (pg_limit (pe_oor env) params 50 1000) (\<lambda>limit.
     and_then (attempt (OptionalBool params ''include_indexes'' True)) (\<lambda>includeIndexes.
     with_pg client0 (\<lambda>client.
     and_then (pg_Query env ctx client (largest_relations_sql includeIndexes) [VString schema, VInt limit]) (\<lambda>rows.
     and_then (attempt (read_rows (row_object relation_fields) rows)) (\<lambda>relations.
     Go (VMap [(''schema'', VString schema), (''include_indexes'', VBool includeIndexes),
               (''relations'', objects relations), (''count'', counted relations)])))))))"

definition postgres_bodies :: "(gostring \<times> ('pc, 'cert) pg_task) list" where
  "postgres_bodies =
     [(''postgres.connection.ping'', connectionPing_Execute),
      (''postgres.connection.stats'', connectionStats_Execute),
      (''postgres.instance.info'', instanceInfo_Execute),
      (''postgres.session.list'', sessionList_Execute),
      (''postgres.query.top'', queryTop_Execute),
      (''postgres.table.stats'', tableStats_Execute),
      (''postgres.table.vacuum_status'', tableVacuumStatus_Execute),
      (''postgres.lock.blocking'', lockBlocking_Execute),
      (''postgres.transaction.long_running'', transactionLongRunning_Execute),
      (''postgres.maintenance.progress'', maintenanceProgress_Execute),
      (''postgres.replication.status'', replicationStatus_Execute),
      (''postgres.replication.slots'', replicationSlots_Execute),
      (''postgres.wal.archiver'', walArchiver_Execute),
      (''postgres.storage.largest_relations'', storageLargestRelations_Execute)]"

lemma postgres_bodies_tasks: "map fst postgres_bodies = Postgres_tasks"
  by (simp add: postgres_bodies_def Postgres_tasks_def)

definition postgres_task :: "gostring \<Rightarrow> ('pc, 'cert) pg_task" where
  "postgres_task name = the (map_of postgres_bodies name)"

definition Postgres_Execute ::
  "('pc, 'cert) pg_env \<Rightarrow> ctx \<Rightarrow> ('pc, 'cert) pg_task PostgresProvider \<Rightarrow> ('pc, 'cert) pg_task \<Rightarrow> gmap \<Rightarrow>
     gvalue outcome" where
  "Postgres_Execute env ctx p t params = t env ctx (CurrentClient p) params"

end
