(* ===== verification/Postgres_Safety.thy ===== *)
theory Postgres_Safety
  imports Postgres_Tasks
begin

text \<open>
  What the Postgres tasks guarantee: they answer whatever the configuration, they send nothing but the
  statements of the program, and their limits are bounded. And what the statement timeout does to them.
\<close>

section \<open>Which calls reach the server\<close>

definition postgres_statements :: "gostring list" where
  "postgres_statements =
     [''SELECT version()'', connectionStatsQuery, instanceInfoQuery, sessionListBaseQuery @ sessionListStateFilter,
      sessionListBaseQuery @ sessionListActiveFilter, pgStatActivityQuery, tableStatsQuery, tableVacuumStatusQuery,
      lockBlockingQuery, transactionLongRunningQuery, vacuumProgressQuery, analyzeProgressQuery,
      createIndexProgressQuery, clusterProgressQuery, basebackupProgressQuery, replicationStatusIsRecoveryQuery,
      replicationStatusPrimaryQuery, replicationStatusReplicaQuery, replicationSlotsQuery, archiveModeQuery,
      walArchiverQuery, largest_relations_sql True, largest_relations_sql False]
     @ map queryPgStatStatements_sql [''calls'', ''mean_time'', ''rows'', ''total_time'']"

definition pg_call_admitted :: "pg_clientImpl \<Rightarrow> gostring \<Rightarrow> gvalue list \<Rightarrow> bool" where
  "pg_call_admitted c sql args \<longleftrightarrow>
     sql \<in> set postgres_statements \<and>
     list_all (\<lambda>v. case v of VInt n \<Rightarrow> 1 \<le> n \<and> n \<le> max 1000 (pgg_MaxRows (pgc_guardrails c)) | _ \<Rightarrow> True) args"

lemma in_statements [simp]:
  "''SELECT version()'' \<in> set postgres_statements" "connectionStatsQuery \<in> set postgres_statements"
  "instanceInfoQuery \<in> set postgres_statements" "pgStatActivityQuery \<in> set postgres_statements"
  "sessionListBaseQuery @ sessionListStateFilter \<in> set postgres_statements"
  "sessionListBaseQuery @ sessionListActiveFilter \<in> set postgres_statements"
  "tableStatsQuery \<in> set postgres_statements" "tableVacuumStatusQuery \<in> set postgres_statements"
  "lockBlockingQuery \<in> set postgres_statements" "transactionLongRunningQuery \<in> set postgres_statements"
  "vacuumProgressQuery \<in> set postgres_statements" "analyzeProgressQuery \<in> set postgres_statements"
  "createIndexProgressQuery \<in> set postgres_statements" "clusterProgressQuery \<in> set postgres_statements"
  "basebackupProgressQuery \<in> set postgres_statements" "replicationStatusIsRecoveryQuery \<in> set postgres_statements"
  "replicationStatusPrimaryQuery \<in> set postgres_statements"
  "replicationStatusReplicaQuery \<in> set postgres_statements" "replicationSlotsQuery \<in> set postgres_statements"
  "archiveModeQuery \<in> set postgres_statements" "walArchiverQuery \<in> set postgres_statements"
  unfolding postgres_statements_def by simp_all

lemma queryPgStatStatements_sql_cases [simp]: "queryPgStatStatements_sql s \<in> set postgres_statements"
proof -
  have "queryPgStatStatements_sql s \<in> set (map queryPgStatStatements_sql [''calls'', ''mean_time'', ''rows'', ''total_time''])"
    by (simp add: queryPgStatStatements_sql_def pgStatStatementsSortColumn_def)
  then show ?thesis unfolding postgres_statements_def by (simp del: list.map)
qed

lemma largest_relations_sql_cases [simp]: "largest_relations_sql b \<in> set postgres_statements"
  unfolding postgres_statements_def by (cases b) simp_all

lemma pg_limit_Go:
  "pg_limit oor params d mx = Go limit \<Longrightarrow> 1 \<le> mx \<Longrightarrow> 1 \<le> limit \<and> limit \<le> mx"
  by (auto simp: pg_limit_def and_then_Go split: if_splits)

lemmas pg_task_defs =
  connectionPing_Execute_def connectionStats_Execute_def instanceInfo_Execute_def sessionList_Execute_def
  queryTop_Execute_def tableStats_Execute_def tableVacuumStatus_Execute_def lockBlocking_Execute_def
  transactionLongRunning_Execute_def maintenanceProgress_Execute_def replicationStatus_Execute_def
  replicationSlots_Execute_def walArchiver_Execute_def storageLargestRelations_Execute_def

lemmas pg_query_defs =
  queryPgStatStatements_def queryPgStatActivity_def queryProgressView_def replication_primary_def
  replication_replica_def

lemma with_pg_Some [simp]: "with_pg (Some c) f = f c"
  by (simp add: with_pg_def)

definition pools_agree :: "pg_clientImpl \<Rightarrow> pg_pool \<Rightarrow> pg_pool \<Rightarrow> bool" where
  "pools_agree c a b \<longleftrightarrow> pool_Stat a = pool_Stat b \<and>
     (\<forall>ctx sql args. pg_call_admitted c sql args \<longrightarrow>
        pool_Query a ctx sql args = pool_Query b ctx sql args \<and> pool_QueryRow a ctx sql args = pool_QueryRow b ctx sql args)"

lemma pg_calls_agree:
  assumes "pools_agree c a b" "pg_call_admitted c sql args"
  shows "pg_Query env ctx (c\<lparr>pgc_pool := Some a\<rparr>) sql args = pg_Query env ctx (c\<lparr>pgc_pool := Some b\<rparr>) sql args"
    "pg_QueryRow env ctx (c\<lparr>pgc_pool := Some a\<rparr>) sql args = pg_QueryRow env ctx (c\<lparr>pgc_pool := Some b\<rparr>) sql args"
  using assms by (simp_all add: pools_agree_def pg_Query_def pg_QueryRow_def statement_ctx_def Let_def split: option.split)

lemma postgres_bodies_agree:
  assumes "pools_agree c a b"
  shows "list_all (\<lambda>(name, body). body env ctx (Some (c\<lparr>pgc_pool := Some a\<rparr>)) params =
      body env ctx (Some (c\<lparr>pgc_pool := Some b\<rparr>)) params) postgres_bodies"
proof -
  note q = pg_calls_agree [OF assms]
  have stat: "pg_Stat (Some (c\<lparr>pgc_pool := Some a\<rparr>)) = pg_Stat (Some (c\<lparr>pgc_pool := Some b\<rparr>))"
    using assms by (simp add: pools_agree_def pg_Stat_def)
  have fixed: "pg_call_admitted c sql []" if "sql \<in> set postgres_statements" for sql
    using that by (simp add: pg_call_admitted_def)
  have limited: "pg_call_admitted c sql (VInt limit # args)" "pg_call_admitted c sql [VString x, VInt limit]"
    if "sql \<in> set postgres_statements" "1 \<le> limit \<and> (limit \<le> 1000 \<or> limit \<le> pgg_MaxRows (pgc_guardrails c))"
      "args = [] \<or> args = [VString x] \<or> args = [VDuration d]"
    for sql args limit x d
    using that by (auto simp: pg_call_admitted_def)
  have plain:
    "connectionPing_Execute env ctx (Some (c\<lparr>pgc_pool := Some a\<rparr>)) params =
      connectionPing_Execute env ctx (Some (c\<lparr>pgc_pool := Some b\<rparr>)) params"
    "connectionStats_Execute env ctx (Some (c\<lparr>pgc_pool := Some a\<rparr>)) params =
      connectionStats_Execute env ctx (Some (c\<lparr>pgc_pool := Some b\<rparr>)) params"
    "instanceInfo_Execute env ctx (Some (c\<lparr>pgc_pool := Some a\<rparr>)) params =
      instanceInfo_Execute env ctx (Some (c\<lparr>pgc_pool := Some b\<rparr>)) params"
    "maintenanceProgress_Execute env ctx (Some (c\<lparr>pgc_pool := Some a\<rparr>)) params =
      maintenanceProgress_Execute env ctx (Some (c\<lparr>pgc_pool := Some b\<rparr>)) params"
    "replicationStatus_Execute env ctx (Some (c\<lparr>pgc_pool := Some a\<rparr>)) params =
      replicationStatus_Execute env ctx (Some (c\<lparr>pgc_pool := Some b\<rparr>)) params"
    "walArchiver_Execute env ctx (Some (c\<lparr>pgc_pool := Some a\<rparr>)) params =
      walArchiver_Execute env ctx (Some (c\<lparr>pgc_pool := Some b\<rparr>)) params"
    unfolding pg_task_defs pg_query_defs with_pg_Some stat by (simp_all add: q(1) [OF fixed] q(2) [OF fixed] cong: if_cong)
  show ?thesis
    unfolding postgres_bodies_def list.pred_inject prod.case plain
    unfolding pg_task_defs pg_query_defs with_pg_Some Let_def
    by (intro conjI TrueI refl)
      (auto intro!: and_then_cong arg_cong2 [of _ _ _ _ on_stop] arg_cong [of _ _ "or_wrapped _"] q(1) limited
        dest!: pg_limit_Go split: option.splits)
qed

lemma postgres_task_body: "name \<in> set Postgres_tasks \<Longrightarrow> (name, postgres_task name) \<in> set postgres_bodies"
  by (auto simp: Postgres_tasks_def postgres_task_def postgres_bodies_def)

text \<open>
  Claim C21. No parameter of a Postgres task reaches the text of a statement: a task sends only the
  statements of the program, with its parameters as arguments, and every limit among them is at least
  1 and at most 1000 (or the configured maximum of rows, if that is larger). Two pools that agree on
  these calls cannot be told apart by any task.
\<close>

theorem postgres_calls_confined:
  assumes "name \<in> set Postgres_tasks" "pool_Stat a = pool_Stat b"
    and "\<forall>ctx sql args. pg_call_admitted c sql args \<longrightarrow>
      pool_Query a ctx sql args = pool_Query b ctx sql args \<and> pool_QueryRow a ctx sql args = pool_QueryRow b ctx sql args"
  shows "postgres_task name env ctx (Some (c\<lparr>pgc_pool := Some a\<rparr>)) params =
    postgres_task name env ctx (Some (c\<lparr>pgc_pool := Some b\<rparr>)) params"
  using postgres_bodies_agree [of c a b env ctx params] assms(2,3) postgres_task_body [OF assms(1)]
  by (auto simp: pools_agree_def list_all_iff)

definition sample_pool :: pg_pool where
  "sample_pool =
     \<lparr>pool_Ping = (\<lambda>_. None),
      pool_Query = (\<lambda>_ _ _. Inr (\<lambda>cancelled. if cancelled then \<lparr>rows_Scans = [], rows_Err = Some ''context canceled''\<rparr>
        else \<lparr>rows_Scans = [Inr [VInt32 7, VString ''app'']], rows_Err = None\<rparr>)),
      pool_QueryRow = (\<lambda>_ _ _ cancelled. if cancelled then Inl ''context canceled'' else Inr [VString ''17.1'']),
      pool_Stat = zero_PoolStats\<rparr>"

text \<open>The pool that refuses what is not a \<open>SELECT\<close>, and limits of more than 1000.\<close>

definition strict_pool :: pg_pool where
  "strict_pool =
     sample_pool\<lparr>pool_Query := (\<lambda>ctx sql args.
       if list_ex (\<lambda>v. case v of VInt n \<Rightarrow> n > 1000 | _ \<Rightarrow> False) args then Inl ''refused''
       else pool_Query sample_pool ctx sql args)\<rparr>"

definition sample_pg_env :: "(gostring, unit) pg_env" where
  "sample_pg_env =
     \<lparr>pe_now = 0, pe_latency = 3, pe_oor = (\<lambda>_. 0), pe_readFile = (\<lambda>_. Inl ''none''), pe_base64 = (\<lambda>_. Inl ''none''),
      pe_appendCerts = (\<lambda>_. False), pe_X509KeyPair = (\<lambda>_ _. Inr ()), pe_ParseConfig = Inr,
      pe_NewWithConfig = (\<lambda>_. Inr sample_pool)\<rparr>"

definition sample_pg_client :: pg_clientImpl where
  "sample_pg_client = \<lparr>pgc_pool = None, pgc_initErr = None, pgc_guardrails = zero_PostgresGuardrails\<rparr>"

theorem postgres_calls_confined_witness:
  "postgres_task ''postgres.query.top'' sample_pg_env None (Some (sample_pg_client\<lparr>pgc_pool := Some strict_pool\<rparr>))
     [(''limit'', VInt 100000), (''sort_by'', VString ''1; DROP TABLE users'')] =
   postgres_task ''postgres.query.top'' sample_pg_env None (Some (sample_pg_client\<lparr>pgc_pool := Some sample_pool\<rparr>))
     [(''limit'', VInt 100000), (''sort_by'', VString ''1; DROP TABLE users'')]"
proof (rule postgres_calls_confined)
  show "''postgres.query.top'' \<in> set Postgres_tasks" by (simp add: Postgres_tasks_def)
  show "pool_Stat strict_pool = pool_Stat sample_pool" by (simp add: strict_pool_def)
  show "\<forall>ctx sql args. pg_call_admitted sample_pg_client sql args \<longrightarrow>
      pool_Query strict_pool ctx sql args = pool_Query sample_pool ctx sql args \<and>
      pool_QueryRow strict_pool ctx sql args = pool_QueryRow sample_pool ctx sql args"
    by (auto simp: strict_pool_def sample_pg_client_def pg_call_admitted_def list_all_iff list_ex_iff zero_defs
        split: gvalue.splits dest!: bspec)
qed

section \<open>The tasks answer\<close>

lemma postgres_bodies_answer:
  assumes "\<And>c. client0 = Some c \<Longrightarrow> pg_client_ok c"
  shows "list_all (\<lambda>(name, body). body env ctx client0 params \<noteq> Panic) postgres_bodies"
proof (cases client0)
  case None
  then show ?thesis
    unfolding postgres_bodies_def list.pred_inject prod.case pg_task_defs
    by (auto simp: with_pg_def and_then_Panic pg_limit_def Let_def split: option.splits)
next
  case (Some c)
  note n = pg_client_no_panic [OF assms [OF Some]]
  have w: "or_wrapped msg m = Panic \<longleftrightarrow> m = Panic" for msg and m :: "'x outcome" by (cases m) simp_all
  have o: "on_stop m k = Panic \<longleftrightarrow> m = Panic \<or> ((\<exists>err. m = Stop err) \<and> k = Panic)" for m k :: "'x outcome"
    by (cases m) simp_all
  have l: "pg_limit oor params d mx \<noteq> Panic" for oor params d mx by (simp add: pg_limit_def and_then_Panic)
  show ?thesis
    unfolding postgres_bodies_def list.pred_inject prod.case pg_task_defs pg_query_defs Some with_pg_Some
    by (intro conjI TrueI) (auto simp: and_then_Panic n w o l Let_def split: option.splits sum.splits list.splits)
qed

definition postgres_after ::
  "('pc, 'cert) pg_env \<Rightarrow> (gostring \<Rightarrow> gostring) \<Rightarrow> PostgresConfig \<Rightarrow> (gostring \<times> gmap) list \<Rightarrow>
     ('pc, 'cert) pg_task PostgresProvider" where
  "postgres_after env schema cfg us =
     run_updates (Postgres_UpdateConfig env) us (Postgres_NewProvider env schema postgres_task cfg)"

text \<open>
  Claim C27. A Postgres task always answers, with a result or an error: whatever the configuration
  updates have made of the client, whatever the parameters and the answers of the server, it does not
  panic.
\<close>

theorem postgres_tasks_answer:
  assumes "name \<in> set Postgres_tasks"
  shows "Postgres_Execute env ctx (postgres_after env schema cfg us) (postgres_task name) params \<noteq> Panic"
proof -
  have "pg_client_current env (postgres_after env schema cfg us)"
    unfolding postgres_after_def by (rule pg_client_current_run)
  then have "pg_client_ok c" if "CurrentClient (postgres_after env schema cfg us) = Some c" for c
    using that newClient_ok [of env] by (auto simp: pg_client_current_def)
  from postgres_bodies_answer [OF this, where env = env and ctx = ctx and params = params] postgres_task_body [OF assms] show ?thesis
    by (auto simp: list_all_iff Postgres_Execute_def)
qed

theorem postgres_tasks_answer_witness:
  "Postgres_Execute sample_pg_env None
     (postgres_after sample_pg_env (\<lambda>_. []) zero_PostgresConfig
        [(''postgres.query.top'', [(''tls.enabled'', VBool True), (''tls.ca_file'', VString ''missing'')])])
     (postgres_task ''postgres.query.top'') [] \<noteq> Panic"
  by (rule postgres_tasks_answer) (simp add: Postgres_tasks_def)

section \<open>The statement timeout\<close>

text \<open>
  The context of a statement is cancelled when \<open>Query\<close> returns, before a row is read. Where the driver
  fails to read under a cancelled context, a positive timeout makes a task that lists fail, and the one
  of maintenance operations report that there are none.
\<close>

definition reads_need_context :: "pg_pool \<Rightarrow> bool" where
  "reads_need_context pool \<longleftrightarrow>
     (\<forall>ctx sql args rows. pool_Query pool ctx sql args = Inr rows \<longrightarrow> rows True = \<lparr>rows_Scans = [], rows_Err = Some ''context canceled''\<rparr>)"

lemma timeout_fails_listing:
  assumes "pgc_pool c = Some pool" "pgc_initErr c = None" "0 < pgg_StatementTimeout (pgc_guardrails c)"
    and "reads_need_context pool" "pool_Query pool (fst (statement_ctx env ctx c)) lockBlockingQuery [VInt 50] = Inr rows"
  shows "lockBlocking_Execute env ctx (Some c) [] = Stop ''context canceled''"
proof -
  have "pg_Query env ctx c lockBlockingQuery [VInt 50] = Go \<lparr>rows_Scans = [], rows_Err = Some ''context canceled''\<rparr>"
    using assms by (auto simp: pg_Query_def statement_ctx_def reads_need_context_def Let_def)
  then show ?thesis
    by (simp add: lockBlocking_Execute_def pg_limit_def OptionalInt_def read_rows_def stop_if_def)
qed

lemma timeout_hides_maintenance:
  assumes "pgc_pool c = Some pool" "pgc_initErr c = None" "0 < pgg_StatementTimeout (pgc_guardrails c)"
    and "reads_need_context pool"
  shows "maintenanceProgress_Execute env ctx (Some c) [] =
    Go (VMap [(''operations'', VList []), (''count'', VInt 0),
              (''message'', VString ''no maintenance operations are currently running'')])"
proof -
  have "queryProgressView env ctx c sql d = Go []" for sql d
  proof (cases "pool_Query pool (fst (statement_ctx env ctx c)) sql []")
    case (Inr rows)
    then have "rows True = \<lparr>rows_Scans = [], rows_Err = Some ''context canceled''\<rparr>"
      using assms(4) by (auto simp: reads_need_context_def)
    with assms Inr show ?thesis
      by (simp add: queryProgressView_def pg_Query_def statement_ctx_def read_rows_def Let_def)
  qed (use assms in \<open>simp add: queryProgressView_def pg_Query_def statement_ctx_def Let_def\<close>)
  then show ?thesis by (simp add: maintenanceProgress_Execute_def objects_def)
qed

end
