(* ===== verification/Network_Provider.thy ===== *)
theory Network_Provider
  imports Managed_Provider Common_Params Go_Time Go_Format Config "HOL-Library.Word"
begin

text \<open>
  \<open>internal/provider/network\<close>: the provider and the tasks \<open>dns.go\<close>, \<open>ping.go\<close>, \<open>socket.go\<close> and \<open>tls.go\<close>. What
  the tasks reach (the resolver, dialling, pro-bing, TLS and X.509) is the argument \<open>env\<close>. A task returns
  its result, with the time it started.
\<close>

section \<open>Addresses\<close>

type_synonym byte = "8 word"

text \<open>A \<open>net.IP\<close>: 4 bytes, or 16 of which the first 12 may say that the rest is an IPv4 address.\<close>

type_synonym net_IP = "byte list"

definition v4InV6Prefix :: net_IP where
  "v4InV6Prefix = [0, 0, 0, 0, 0, 0, 0, 0, 0, 0, 0xFF, 0xFF]"

definition To4 :: "net_IP \<Rightarrow> net_IP option" where
  "To4 ip =
     (if length ip = 4 then Some ip
      else if length ip = 16 \<and> take 12 ip = v4InV6Prefix then Some (drop 12 ip)
      else None)"

definition net_IPv4 :: "byte \<Rightarrow> byte \<Rightarrow> byte \<Rightarrow> byte \<Rightarrow> net_IP" where
  "net_IPv4 a b c d = v4InV6Prefix @ [a, b, c, d]"

lemma To4_IPv4 [simp]: "To4 (net_IPv4 a b c d) = Some [a, b, c, d]"
  by (simp add: To4_def net_IPv4_def v4InV6Prefix_def)

lemma To4_length: "To4 ip = Some x \<Longrightarrow> length x = 4"
  by (auto simp: To4_def split: if_splits)

section \<open>The environment\<close>

text \<open>What a resolver with a protocol and a server of its own answers, by kind of record.\<close>

record net_resolver =
  nr_LookupIPAddr :: "gostring \<Rightarrow> gostring + net_IP list"
  nr_LookupCNAME :: "gostring \<Rightarrow> gostring + gostring"
  nr_LookupTXT :: "gostring \<Rightarrow> gostring + gostring list"
  nr_LookupSRV :: "gostring \<Rightarrow> gostring + gostring list"
  nr_LookupAddr :: "gostring \<Rightarrow> gostring + gostring list"

record ping_Stats =
  pst_PacketsSent :: int
  pst_PacketsRecv :: int
  pst_PacketLoss :: gofloat
  pst_MinRtt :: int
  pst_MaxRtt :: int
  pst_AvgRtt :: int

text \<open>A run of a pinger ends with an error, its statistics and address, or the cancellation of the context.\<close>

datatype ping_Run = PingError gostring | PingDone ping_Stats gostring | PingCancelled gostring

record tls_client_Config =
  tcc_RootCAs :: "gostring option"
  tcc_Certificates :: "(gostring \<times> gostring) list"
  tcc_ServerName :: gostring
  tcc_InsecureSkipVerify :: bool

record certInfo =
  cert_Subject :: gostring
  cert_Issuer :: gostring
  cert_NotBefore :: gostring
  cert_NotAfter :: gostring
  cert_Serial :: gostring

record tls_State =
  tls_Version :: int
  tls_CipherSuite :: gostring
  tls_PeerCertificates :: "certInfo list"

record tls_VerifyOptions =
  vo_Roots :: "gostring option"
  vo_DNSName :: gostring
  vo_Intermediates :: "certInfo list"

record net_env =
  ne_now :: int
  ne_elapsed :: int
  ne_oor :: "gofloat \<Rightarrow> int"
  ne_ipString :: "net_IP \<Rightarrow> gostring"
  ne_resolver :: "gostring \<Rightarrow> gostring \<Rightarrow> net_resolver"
  ne_NewPinger :: "gostring \<Rightarrow> gostring option"
  ne_ping :: "gostring \<Rightarrow> int \<Rightarrow> ping_Run"
  ne_dial :: "int \<Rightarrow> gostring \<Rightarrow> gostring \<Rightarrow> gostring + gostring"
  ne_typeName :: "gvalue \<Rightarrow> gostring"
  ne_appendCerts :: "gostring \<Rightarrow> bool"
  ne_X509KeyPair :: "gostring \<Rightarrow> gostring \<Rightarrow> gostring option"
  ne_isIP :: "gostring \<Rightarrow> bool"
  ne_SetDeadline :: "gostring option"
  ne_Handshake :: "tls_client_Config \<Rightarrow> gostring \<Rightarrow> gostring + tls_State"
  ne_Verify :: "certInfo \<Rightarrow> tls_VerifyOptions \<Rightarrow> gostring option"

section \<open>Parameters and results\<close>

text \<open>\<open>s, _ := params[key].(string)\<close>\<close>

definition string_or_empty :: "gmap \<Rightarrow> gostring \<Rightarrow> gostring" where
  "string_or_empty params key = (case map_of params key of Some (VString s) \<Rightarrow> s | _ \<Rightarrow> [])"

definition bool_or_false :: "gmap \<Rightarrow> gostring \<Rightarrow> bool" where
  "bool_or_false params key = (case map_of params key of Some (VBool b) \<Rightarrow> b | _ \<Rightarrow> False)"

text \<open>The result begins as a success without data at the time of the start.\<close>

definition net_fail :: "net_env \<Rightarrow> gostring \<Rightarrow> task_Result" where
  "net_fail env err = \<lparr>res_Success = False, res_Error = err, res_Data = VNil, res_Timestamp = ne_now env\<rparr>"

definition net_ok :: "net_env \<Rightarrow> gmap \<Rightarrow> task_Result" where
  "net_ok env d = \<lparr>res_Success = True, res_Error = [], res_Data = VMap d, res_Timestamp = ne_now env\<rparr>"

type_synonym net_task = "net_env \<Rightarrow> gmap \<Rightarrow> task_Result"

section \<open>network.dns.lookup\<close>

definition dnsAnswer :: "gostring \<Rightarrow> gostring \<Rightarrow> gvalue" where
  "dnsAnswer ty v = VMap [(''type'', VString ty), (''value'', VString v)]"

definition lookupA :: "net_env \<Rightarrow> net_resolver \<Rightarrow> gostring \<Rightarrow> gostring + gvalue list" where
  "lookupA env r target =
     (case nr_LookupIPAddr r target of
        Inl err \<Rightarrow> Inl err
      | Inr ips \<Rightarrow> Inr (map (\<lambda>ip. dnsAnswer ''A'' (ne_ipString env ip)) (filter (\<lambda>ip. To4 ip \<noteq> None) ips)))"

definition lookupAAAA :: "net_env \<Rightarrow> net_resolver \<Rightarrow> gostring \<Rightarrow> gostring + gvalue list" where
  "lookupAAAA env r target =
     (case nr_LookupIPAddr r target of
        Inl err \<Rightarrow> Inl err
      | Inr ips \<Rightarrow> Inr (map (\<lambda>ip. dnsAnswer ''AAAA'' (ne_ipString env ip)) (filter (\<lambda>ip. To4 ip = None) ips)))"

definition lookupCNAME :: "net_resolver \<Rightarrow> gostring \<Rightarrow> gostring + gvalue list" where
  "lookupCNAME r target =
     (case nr_LookupCNAME r target of Inl err \<Rightarrow> Inl err | Inr cname \<Rightarrow> Inr [dnsAnswer ''CNAME'' cname])"

definition lookupTXT :: "net_resolver \<Rightarrow> gostring \<Rightarrow> gostring + gvalue list" where
  "lookupTXT r target =
     (case nr_LookupTXT r target of Inl err \<Rightarrow> Inl err | Inr txts \<Rightarrow> Inr (map (dnsAnswer ''TXT'') txts))"

text \<open>The resolver gives the records as the JSON they are encoded to.\<close>

definition lookupSRV :: "net_resolver \<Rightarrow> gostring \<Rightarrow> gostring + gvalue list" where
  "lookupSRV r target =
     (case nr_LookupSRV r target of Inl err \<Rightarrow> Inl err | Inr addrs \<Rightarrow> Inr (map (dnsAnswer ''SRV'') addrs))"

definition lookupPTR :: "net_resolver \<Rightarrow> gostring \<Rightarrow> gostring + gvalue list" where
  "lookupPTR r target =
     (case nr_LookupAddr r target of Inl err \<Rightarrow> Inl err | Inr names \<Rightarrow> Inr (map (dnsAnswer ''PTR'') names))"

definition dns_Execute :: net_task where
  "dns_Execute env params =
     (let target = string_or_empty params ''target'' in
      if target = [] then net_fail env ''missing required parameter: target''
      else
        (let recordType0 = string_or_empty params ''record_type'';
             recordType = ToUpper (if recordType0 = [] then ''A'' else recordType0);
             server = string_or_empty params ''server'';
             resolver = ne_resolver env (string_or_empty params ''protocol'') server;
             finish = (\<lambda>r. case r of
                Inl err \<Rightarrow> net_fail env err
              | Inr answers \<Rightarrow>
                  net_ok env [(''answers'', VList answers), (''server_used'', VString server),
                              (''duration_ms'', VInt64 (ne_elapsed env))])
         in if recordType = ''A'' then finish (lookupA env resolver target)
            else if recordType = ''AAAA'' then finish (lookupAAAA env resolver target)
            else if recordType = ''CNAME'' then finish (lookupCNAME resolver target)
            else if recordType = ''TXT'' then finish (lookupTXT resolver target)
            else if recordType = ''SRV'' then finish (lookupSRV resolver target)
            else if recordType = ''PTR'' then finish (lookupPTR resolver target)
            else net_fail env (''unsupported record type: '' @ recordType)))"

section \<open>network.icmp.echo_request\<close>

definition maxPingCount :: int where "maxPingCount = 30"

definition durationMs :: "int \<Rightarrow> gofloat" where
  "durationMs d = float_div_int (float64_of_int d) 1000000"

definition ping_count :: "(gofloat \<Rightarrow> int) \<Rightarrow> gmap \<Rightarrow> int" where
  "ping_count oor params =
     (let count =
        (case map_of params ''count'' of
           Some (VInt v) \<Rightarrow> v
         | Some (VInt64 v) \<Rightarrow> v
         | Some (VFloat64 v) \<Rightarrow> int64_of_float oor v
         | _ \<Rightarrow> 4)
      in if count \<le> 0 then 4 else count)"

definition ping_Execute :: net_task where
  "ping_Execute env params =
     (let target = string_or_empty params ''target''; count = ping_count (ne_oor env) params in
      if target = [] then net_fail env ''missing required parameter: target''
      else if count > maxPingCount then net_fail env ''count exceeds maximum allowed (30)''
      else
        (case ne_NewPinger env target of
           Some err \<Rightarrow> net_fail env (''failed to create pinger: '' @ err)
         | None \<Rightarrow>
             (case ne_ping env target count of
                PingCancelled err \<Rightarrow> net_fail env err
              | PingError err \<Rightarrow> net_fail env (''ping failed: '' @ err)
              | PingDone stats resolved \<Rightarrow>
                  net_ok env
                    [(''packets_sent'', VInt (pst_PacketsSent stats)), (''packets_received'', VInt (pst_PacketsRecv stats)),
                     (''packet_loss_percent'', VFloat64 (pst_PacketLoss stats)),
                     (''min_rtt_ms'', VFloat64 (durationMs (pst_MinRtt stats))),
                     (''max_rtt_ms'', VFloat64 (durationMs (pst_MaxRtt stats))),
                     (''avg_rtt_ms'', VFloat64 (durationMs (pst_AvgRtt stats))),
                     (''target_resolved'', VString resolved), (''duration_ms'', VInt64 (ne_elapsed env))])))"

section \<open>network.socket.connect\<close>

definition socket_port :: "net_env \<Rightarrow> gmap \<Rightarrow> gostring + int" where
  "socket_port env params =
     (case map_of params ''port'' of
        None \<Rightarrow> Inl ''missing required parameter: port''
      | Some (VInt v) \<Rightarrow> Inr v
      | Some (VInt64 v) \<Rightarrow> Inr v
      | Some (VFloat64 v) \<Rightarrow> Inr (int64_of_float (ne_oor env) v)
      | Some v \<Rightarrow> Inl (''invalid type for parameter port: '' @ ne_typeName env v))"

text \<open>A timeout that is no duration is ignored.\<close>

definition socket_timeout :: "gmap \<Rightarrow> int" where
  "socket_timeout params =
     (let t = string_or_empty params ''timeout'' in
      if t \<noteq> [] then ok_or (ParseDuration t) (5 * Second) else 5 * Second)"

definition socket_Execute :: net_task where
  "socket_Execute env params =
     (let host = string_or_empty params ''host'' in
      if host = [] then net_fail env ''missing required parameter: host''
      else
        (case socket_port env params of
           Inl err \<Rightarrow> net_fail env err
         | Inr port \<Rightarrow>
             (if port \<le> 0 \<or> port > 65535 then net_fail env (''invalid port number: '' @ Itoa port)
              else
                (let protocol0 = string_or_empty params ''protocol'';
                     protocol = (if protocol0 = [] then ''tcp'' else protocol0) @ ''4'';
                     addr = host @ '':'' @ Itoa port
                 in case ne_dial env (socket_timeout params) protocol addr of
                      Inl err \<Rightarrow> net_fail env err
                    | Inr remote \<Rightarrow>
                        net_ok env [(''connected'', VBool True), (''remote_address'', VString remote),
                                    (''duration_ms'', VInt64 (ne_elapsed env)), (''protocol'', VString protocol)]))))"

section \<open>network.tls.handshake\<close>

definition tlsVersionName :: "int \<Rightarrow> gostring" where
  "tlsVersionName version =
     (if version = 769 then ''1.0'' else if version = 770 then ''1.1'' else if version = 771 then ''1.2''
      else if version = 772 then ''1.3'' else ''unknown('' @ Itoa version @ '')'')"

definition certInfo_value :: "certInfo \<Rightarrow> gvalue" where
  "certInfo_value c =
     VMap [(''subject'', VString (cert_Subject c)), (''issuer'', VString (cert_Issuer c)),
           (''not_before'', VString (cert_NotBefore c)), (''not_after'', VString (cert_NotAfter c)),
           (''serial'', VString (cert_Serial c))]"

text \<open>The host of a target, which may have no port; the configuration of the handshake.\<close>

definition target_host :: "gostring \<Rightarrow> gostring" where
  "target_host target = (case SplitHostPort target of Some (host, _) \<Rightarrow> host | None \<Rightarrow> target)"

definition tls_config :: "net_env \<Rightarrow> gmap \<Rightarrow> gostring \<Rightarrow> gostring + tls_client_Config" where
  "tls_config env params target =
     (let ca = string_or_empty params ''ca_cert''; cert = string_or_empty params ''client_cert'';
          key = string_or_empty params ''client_key''; serverName = string_or_empty params ''server_name'';
          host = target_host target
      in if ca \<noteq> [] \<and> \<not> ne_appendCerts env ca then Inl ''failed to parse CA certificate''
         else
           (case (if cert \<noteq> [] \<and> key \<noteq> [] then ne_X509KeyPair env cert key else None) of
              Some err \<Rightarrow> Inl (''failed to load client certificate: '' @ err)
            | None \<Rightarrow>
                Inr \<lparr>tcc_RootCAs = (if ca \<noteq> [] then Some ca else None),
                     tcc_Certificates = (if cert \<noteq> [] \<and> key \<noteq> [] then [(cert, key)] else []),
                     tcc_ServerName =
                       (if serverName \<noteq> [] then serverName else if \<not> ne_isIP env host then host else []),
                     tcc_InsecureSkipVerify =
                       ((serverName = [] \<and> ne_isIP env host) \<or> bool_or_false params ''insecure_skip_verify'')\<rparr>))"

text \<open>The check of the chain after the handshake: the error, or nothing. \<open>None\<close> stands for the system's roots.\<close>

definition tls_validation :: "net_env \<Rightarrow> gmap \<Rightarrow> tls_client_Config \<Rightarrow> tls_State \<Rightarrow> gostring option" where
  "tls_validation env params cfg state =
     (if bool_or_false params ''insecure_skip_verify'' then None
      else ne_Verify env (hd (tls_PeerCertificates state))
             \<lparr>vo_Roots = tcc_RootCAs cfg, vo_DNSName = string_or_empty params ''server_name'',
              vo_Intermediates = tl (tls_PeerCertificates state)\<rparr>)"

definition tls_Execute :: net_task where
  "tls_Execute env params =
     (let target = string_or_empty params ''target'' in
      if target = [] then net_fail env ''missing required parameter: target''
      else
        (case tls_config env params target of
           Inl err \<Rightarrow> net_fail env err
         | Inr cfg \<Rightarrow>
             (case ne_dial env (10 * Second) ''tcp'' target of
                Inl err \<Rightarrow> net_fail env (''failed to connect: '' @ err)
              | Inr _ \<Rightarrow>
                  (case ne_SetDeadline env of
                     Some err \<Rightarrow> net_fail env (''failed to set deadline: '' @ err)
                   | None \<Rightarrow>
                       (case ne_Handshake env cfg target of
                          Inl err \<Rightarrow> net_fail env (''TLS handshake failed: '' @ err)
                        | Inr state \<Rightarrow>
                            (let v = tls_validation env params cfg state in
                             net_ok env
                               [(''handshake_ok'', VBool True), (''validation_ok'', VBool (v = None)),
                                (''tls_version'', VString (tlsVersionName (tls_Version state))),
                                (''cipher_suite'', VString (tls_CipherSuite state)),
                                (''certificates'', VList (map certInfo_value (tls_PeerCertificates state))),
                                (''validation_error'', VString (ok_or v [])),
                                (''duration_ms'', VInt64 (ne_elapsed env))]))))))"

section \<open>The provider\<close>

definition Network_tasks :: "gostring list" where
  "Network_tasks =
     [''network.dns.lookup'', ''network.icmp.echo_request'', ''network.socket.connect'',
      ''network.tls.handshake'', ''network.traceroute'']"

definition network_capability ::
  "(gostring \<Rightarrow> gostring) \<Rightarrow> gostring \<Rightarrow> gostring \<Rightarrow> gostring list \<Rightarrow> gostring list \<Rightarrow> gostring list \<Rightarrow> Capability" where
  "network_capability schema name description useCases aliases tags =
     \<lparr>cap_Name = name, cap_Version = ''v1'', cap_Description = description, cap_Provider = ''network'',
      cap_ParametersJSONSchema = schema name, cap_Config = [], cap_ConfigSummary = [], cap_Enabled = False,
      cap_UseCases = useCases, cap_Aliases = aliases, cap_Tags = tags\<rparr>"

definition Network_capabilities :: "(gostring \<Rightarrow> gostring) \<Rightarrow> Capability list" where
  "Network_capabilities schema =
     [network_capability schema ''network.dns.lookup''
        ''Performs DNS lookups for various DNS record types including A, AAAA, CNAME, TXT, SRV, and PTR records.''
        [''Checking whether a host can resolve a domain name'', ''Verifying DNS resolution for service discovery'', ''Diagnosing DNS misconfigurations'', ''Testing reverse DNS lookups'']
        [''dns lookup'', ''name resolution'', ''reverse dns'']
        [''dns'', ''resolution'', ''lookup'', ''network'', ''connectivity''],
      network_capability schema ''network.icmp.echo_request''
        ''Sends ICMP echo requests to test network reachability and measure latency.''
        [''Testing network reachability between hosts'', ''Measuring network latency'', ''Checking if a host is online'']
        [''icmp'', ''reachability'', ''latency test'']
        [''ping'', ''icmp'', ''network'', ''reachability'', ''latency''],
      network_capability schema ''network.socket.connect''
        ''Tests TCP/UDP socket connectivity without sending application data.''
        [''Testing TCP/UDP port connectivity'', ''Verifying service availability on a specific port'', ''Checking firewall rules'']
        [''port check'', ''connectivity test'', ''socket test'']
        [''socket'', ''tcp'', ''udp'', ''port'', ''network'', ''connectivity''],
      network_capability schema ''network.tls.handshake''
        ''Performs TLS handshakes and returns certificate chain details.''
        [''Checking TLS certificate validity and expiry'', ''Verifying TLS handshake succeeds'', ''Inspecting certificate chain'', ''Checking supported TLS versions and ciphers'']
        [''certificate check'', ''ssl'', ''tls check'']
        [''tls'', ''ssl'', ''certificate'', ''security'', ''network''],
      network_capability schema ''network.traceroute''
        ''Traces the network route to a target host by sending probes with incrementing TTL values and reporting each intermediate router hop, latency, and path completion status for network path diagnosis''
        [''Identifying routing paths and network topology'', ''Diagnosing network latency at each hop'', ''Detecting packet loss or routing loops'', ''Verifying traffic flows through expected gateways'']
        [''trace route'', ''path trace'', ''network path'', ''hop trace'']
        [''traceroute'', ''network'', ''routing'', ''path'', ''latency'', ''icmp'', ''udp'', ''diagnostics'']]"

definition Network_NewProvider :: "(gostring \<Rightarrow> gostring) \<Rightarrow> (gostring \<Rightarrow> 't) \<Rightarrow> 't BaseProvider" where
  "Network_NewProvider schema mk =
     \<lparr>ProviderName = ''network'', ProviderCapabilities = Network_capabilities schema, EnabledFunc = None,
      Tasks = map (\<lambda>n. (n, mk n)) Network_tasks\<rparr>"

lemma Network_capabilities_names: "map cap_Name (Network_capabilities schema) = Network_tasks"
  by (simp add: Network_capabilities_def network_capability_def Network_tasks_def)

lemma Network_tasks_prefixed:
  "Network_tasks = prefixed ''network''
     [''dns.lookup'', ''icmp.echo_request'', ''socket.connect'', ''tls.handshake'', ''traceroute'']"
  by (simp add: Network_tasks_def prefixed_def)

lemma Network_tasks_distinct: "distinct Network_tasks"
  unfolding Network_tasks_prefixed by (rule distinct_prefixed) simp

lemma Network_tasks_valid: "list_all namePattern Network_tasks"
  unfolding Network_tasks_prefixed by (rule prefixed_valid) code_simp+

lemma Network_NewProvider_wf: "base_wf (Network_NewProvider schema mk)"
  by (simp add: base_wf_def Network_NewProvider_def Network_capabilities_names Network_tasks_distinct)
    (simp add: Network_capabilities_def network_capability_def)

section \<open>Facts\<close>

text \<open>No more than 30 packets are sent, whatever is asked for.\<close>

lemma ping_count_pos: "0 < ping_count oor params"
  by (simp add: ping_count_def Let_def)

lemma ping_bounded:
  assumes "\<And>target count. 1 \<le> count \<Longrightarrow> count \<le> 30 \<Longrightarrow> a target count = b target count"
  shows "ping_Execute (env\<lparr>ne_ping := a\<rparr>) params = ping_Execute (env\<lparr>ne_ping := b\<rparr>) params"
  using ping_count_pos [of "ne_oor env" params]
  by (simp add: ping_Execute_def maxPingCount_def net_fail_def net_ok_def Let_def assms split: option.split ping_Run.split)

text \<open>Answers of the kinds A and AAAA partition what the resolver gives.\<close>

lemma lookup_partition:
  assumes "lookupA env r target = Inr as" "lookupAAAA env r target = Inr bs" "nr_LookupIPAddr r target = Inr ips"
  shows "length as + length bs = length ips"
  using assms sum_length_filter_compl [of "\<lambda>ip. To4 ip \<noteq> None" ips] by (auto simp: lookupA_def lookupAAAA_def)

text \<open>
  For a target that is an address and without \<open>server_name\<close>, nothing compares the certificate with the
  target: the handshake does not verify, and the check after it has no name.
\<close>

lemma ip_target_name_unchecked:
  assumes "ne_isIP env (target_host target)" "string_or_empty params ''server_name'' = []"
    and "tls_config env params target = Inr cfg"
  shows "tcc_InsecureSkipVerify cfg" "tcc_ServerName cfg = []"
    "tls_validation env params cfg state =
       (if bool_or_false params ''insecure_skip_verify'' then None
        else ne_Verify env (hd (tls_PeerCertificates state))
               \<lparr>vo_Roots = tcc_RootCAs cfg, vo_DNSName = [], vo_Intermediates = tl (tls_PeerCertificates state)\<rparr>)"
  using assms by (auto simp: tls_config_def tls_validation_def Let_def split: if_splits option.splits)

end
