(* ===== verification/Network_Traceroute.thy ===== *)
theory Network_Traceroute
  imports Network_Provider
begin

text \<open>
  \<open>traceroute.go\<close> and \<open>traceroute_linux.go\<close>: a probe per TTL, and the error queue of a UDP socket as
  where the answers come from. What the kernel and the context do during a probe is a value of the
  record \<open>hop_io\<close>, its receptions a list; a probe that has read them all is still waiting.
\<close>

section \<open>Parameters\<close>

record tracerouteConfig =
  trc_target :: gostring
  trc_maxHops :: int
  trc_timeout :: int
  trc_protocol :: gostring

definition optionalTracerouteInt :: "(gofloat \<Rightarrow> int) \<Rightarrow> gmap \<Rightarrow> gostring \<Rightarrow> int \<Rightarrow> gostring + int" where
  "optionalTracerouteInt oor params key defaultValue =
     (case map_of params key of
        None \<Rightarrow> Inr defaultValue
      | Some VNil \<Rightarrow> Inr defaultValue
      | Some (VInt n) \<Rightarrow> Inr n
      | Some (VInt32 n) \<Rightarrow> Inr n
      | Some (VInt64 n) \<Rightarrow> Inr n
      | Some (VFloat64 f) \<Rightarrow>
          (if \<not> float_eq f (float64_of_int (int64_of_float oor f)) then Inl (parameter_must key ''an integer'')
           else Inr (int64_of_float oor f))
      | Some _ \<Rightarrow> Inl (parameter_must key ''an integer''))"

definition traceroute_timeout :: "gmap \<Rightarrow> gostring + int" where
  "traceroute_timeout params =
     (case map_of params ''timeout'' of
        None \<Rightarrow> Inr (2 * Second)
      | Some VNil \<Rightarrow> Inr (2 * Second)
      | Some (VString s) \<Rightarrow>
          (if TrimSpace s = [] then Inl ''parameter timeout must be a duration string''
           else
             (case ParseDuration s of
                None \<Rightarrow> Inl (''invalid timeout duration: '' @ s)
              | Some t \<Rightarrow> (if t \<le> 0 then Inl (''invalid timeout duration: '' @ s) else Inr t)))
      | Some _ \<Rightarrow> Inl ''parameter timeout must be a duration string'')"

definition traceroute_protocol :: "gmap \<Rightarrow> gostring + gostring" where
  "traceroute_protocol params =
     (case (case map_of params ''protocol'' of
              None \<Rightarrow> Inr ''udp''
            | Some VNil \<Rightarrow> Inr ''udp''
            | Some (VString s) \<Rightarrow> Inr (ToLower (TrimSpace s))
            | Some _ \<Rightarrow> Inl ''parameter protocol must be a string'') of
        Inl err \<Rightarrow> Inl err
      | Inr p0 \<Rightarrow>
          (let p = (if p0 = [] then ''udp'' else p0) in
           if p \<noteq> ''udp'' then Inl (''unsupported protocol: '' @ p) else Inr p))"

definition parseTracerouteParams :: "(gofloat \<Rightarrow> int) \<Rightarrow> gmap \<Rightarrow> gostring + tracerouteConfig" where
  "parseTracerouteParams oor params =
     (let target = string_or_empty params ''target'' in
      if TrimSpace target = [] then Inl ''missing required parameter: target''
      else
        (case optionalTracerouteInt oor params ''max_hops'' 30 of
           Inl err \<Rightarrow> Inl err
         | Inr maxHops \<Rightarrow>
             (if maxHops < 1 \<or> maxHops > 64 then Inl ''max_hops must be between 1 and 64''
              else
                (case traceroute_timeout params of
                   Inl err \<Rightarrow> Inl err
                 | Inr timeout \<Rightarrow>
                     (case traceroute_protocol params of
                        Inl err \<Rightarrow> Inl err
                      | Inr protocol \<Rightarrow>
                          Inr \<lparr>trc_target = TrimSpace target, trc_maxHops = maxHops, trc_timeout = timeout,
                               trc_protocol = protocol\<rparr>)))))"

definition resolveTracerouteTarget :: "net_env \<Rightarrow> gostring \<Rightarrow> gostring + net_IP" where
  "resolveTracerouteTarget env target =
     (case nr_LookupIPAddr (ne_resolver env [] []) target of
        Inl err \<Rightarrow> Inl err
      | Inr ips \<Rightarrow>
          (case find (\<lambda>ip. To4 ip \<noteq> None) ips of
             None \<Rightarrow> Inl (''no IPv4 address found for target '' @ quoted target)
           | Some ip \<Rightarrow> Inr (the (To4 ip))))"

section \<open>The error queue\<close>

text \<open>\<open>struct sock_extended_err\<close>, and the address of the offender after it.\<close>

definition isAFInet :: "byte \<Rightarrow> byte \<Rightarrow> bool" where
  "isAFInet first second \<longleftrightarrow> (first = 2 \<and> second = 0) \<or> (first = 0 \<and> second = 2)"

definition parseOffenderIPv4 :: "byte list \<Rightarrow> net_IP option" where
  "parseOffenderIPv4 d =
     (if length d < 8 \<or> \<not> isAFInet (d ! 0) (d ! 1) then None
      else Some (net_IPv4 (d ! 4) (d ! 5) (d ! 6) (d ! 7)))"

text \<open>The origin of the answer, and whether it is the target; \<open>None\<close> if the message is something else.\<close>

definition parseSockExtendedErr :: "byte list \<Rightarrow> (net_IP option \<times> bool) option" where
  "parseSockExtendedErr d =
     (if length d < 16 then None
      else if d ! 4 \<noteq> 2 then None
      else if d ! 5 = 11 then Some (parseOffenderIPv4 (drop 16 d), False)
      else if d ! 5 = 3 \<and> d ! 6 = 3 then Some (parseOffenderIPv4 (drop 16 d), True)
      else None)"

text \<open>A control message: its level, its type and its data.\<close>

type_synonym control_message = "int \<times> int \<times> byte list"

definition SOL_IP :: int where "SOL_IP = 0"
definition IP_RECVERR :: int where "IP_RECVERR = 11"

fun scan_messages :: "control_message list \<Rightarrow> (net_IP option \<times> bool) option" where
  "scan_messages [] = None"
| "scan_messages ((level, ty, d) # ms) =
     (if level \<noteq> SOL_IP \<or> ty \<noteq> IP_RECVERR then scan_messages ms
      else (case parseSockExtendedErr d of Some r \<Rightarrow> Some r | None \<Rightarrow> scan_messages ms))"

text \<open>The argument is what \<open>unix.ParseSocketControlMessage\<close> gives.\<close>

definition parseICMPErrorQueue :: "gostring + control_message list \<Rightarrow> (net_IP option \<times> bool) option" where
  "parseICMPErrorQueue control = (case control of Inl err \<Rightarrow> None | Inr messages \<Rightarrow> scan_messages messages)"

definition sockaddrIP :: "(byte \<times> byte \<times> byte \<times> byte) option \<Rightarrow> net_IP option" where
  "sockaddrIP addr = (case addr of None \<Rightarrow> None | Some (a, b, c, d) \<Rightarrow> Some (net_IPv4 a b c d))"

section \<open>One probe\<close>

record tracerouteHop =
  th_TTL :: int
  th_Address :: gostring
  th_Hostname :: gostring
  th_RTTMs :: gofloat
  th_Reached :: bool
  th_Error :: gostring

definition hop_error :: "int \<Rightarrow> gostring \<Rightarrow> tracerouteHop" where
  "hop_error ttl err =
     \<lparr>th_TTL = ttl, th_Address = [], th_Hostname = [], th_RTTMs = FFin 0 0, th_Reached = False, th_Error = err\<rparr>"

definition timeoutForContext :: "ctx \<Rightarrow> int \<Rightarrow> int \<Rightarrow> int" where
  "timeoutForContext ctx now timeout =
     (case ctx of
        None \<Rightarrow> timeout
      | Some deadline \<Rightarrow> (let remaining = time_Sub deadline now in if remaining < timeout then remaining else timeout))"

record Timeval =
  tv_Sec :: int
  tv_Usec :: int

definition durationToTimeval :: "int \<Rightarrow> Timeval" where
  "durationToTimeval duration0 =
     (let duration = (if duration0 < 1000 then 1000 else duration0) in
      \<lparr>tv_Sec = quot duration Second, tv_Usec = quot (rem duration Second) 1000\<rparr>)"

text \<open>A reception: when it ends, the error of the context then, and the error (is it \<open>EAGAIN\<close>?) or the message.\<close>

datatype recv_result =
    RecvError bool gostring
  | RecvMessage "gostring + control_message list" "(byte \<times> byte \<times> byte \<times> byte) option"

record recv_event =
  ev_time :: int
  ev_ctxErr :: "gostring option"
  ev_result :: recv_result

record hop_io =
  io_ctxErr :: "gostring option"
  io_socket :: "gostring option"
  io_now :: int
  io_ctxErrTimeout :: "gostring option"
  io_SetTimeout :: "Timeval \<Rightarrow> gostring option"
  io_SetRecvErr :: "gostring option"
  io_SetTTL :: "int \<Rightarrow> gostring option"
  io_start :: int
  io_Sendto :: "net_IP \<Rightarrow> int \<Rightarrow> gostring option"
  io_events :: "recv_event list"

fun recv_loop ::
  "(net_IP \<Rightarrow> gostring) \<Rightarrow> int \<Rightarrow> int \<Rightarrow> int \<Rightarrow> recv_event list \<Rightarrow> (tracerouteHop \<times> bool) option" where
  "recv_loop ipString ttl start deadline [] = None"
| "recv_loop ipString ttl start deadline (ev # evs) =
     (case ev_result ev of
        RecvError again err \<Rightarrow>
          Some (hop_error ttl
            (case ev_ctxErr ev of
               Some cerr \<Rightarrow> cerr
             | None \<Rightarrow> if again then ''request timed out'' else err), False)
      | RecvMessage control sender \<Rightarrow>
          (case parseICMPErrorQueue control of
             None \<Rightarrow>
               (if ev_time ev > deadline then Some (hop_error ttl ''request timed out'', False)
                else recv_loop ipString ttl start deadline evs)
           | Some (originIP0, reached) \<Rightarrow>
               (let originIP = (case originIP0 of None \<Rightarrow> sockaddrIP sender | Some ip \<Rightarrow> Some ip) in
                Some (\<lparr>th_TTL = ttl, th_Address = (case originIP of None \<Rightarrow> [] | Some ip \<Rightarrow> ipString ip),
                       th_Hostname = [], th_RTTMs = durationMs (time_Sub (ev_time ev) start), th_Reached = reached,
                       th_Error = []\<rparr>, reached))))"

text \<open>
  \<open>None\<close> is a probe still waiting. A timeout that is not positive comes from the context's deadline;
  its error is then read, and a context whose timer has not fired yet has none.
\<close>

definition probeUDPTracerouteHop ::
  "(net_IP \<Rightarrow> gostring) \<Rightarrow> ctx \<Rightarrow> net_IP \<Rightarrow> int \<Rightarrow> int \<Rightarrow> hop_io \<Rightarrow> (tracerouteHop \<times> bool) outcome option" where
  "probeUDPTracerouteHop ipString ctx targetIP ttl timeout io =
     (case io_socket io of
        Some err \<Rightarrow> Some (Go (hop_error ttl (''failed to open UDP socket: '' @ err), False))
      | None \<Rightarrow>
          (let probeTimeout = timeoutForContext ctx (io_now io) timeout in
           if probeTimeout \<le> 0 then
             (case io_ctxErrTimeout io of
                None \<Rightarrow> Some Panic
              | Some err \<Rightarrow> Some (Go (hop_error ttl err, False)))
           else
             (case first_error
                [map_option (\<lambda>e. ''failed to set receive timeout: '' @ e) (io_SetTimeout io (durationToTimeval probeTimeout)),
                 map_option (\<lambda>e. ''failed to enable IP_RECVERR: '' @ e) (io_SetRecvErr io),
                 map_option (\<lambda>e. ''failed to set TTL: '' @ e) (io_SetTTL io ttl),
                 io_Sendto io targetIP (33434 + ttl)] of
                Some err \<Rightarrow> Some (Go (hop_error ttl err, False))
              | None \<Rightarrow>
                  map_option Go (recv_loop ipString ttl (io_start io) (io_start io + probeTimeout) (io_events io)))))"

section \<open>The route\<close>

text \<open>The loop over the TTLs that are left, with the hops so far.\<close>

fun traceroute_loop ::
  "(net_IP \<Rightarrow> gostring) \<Rightarrow> ctx \<Rightarrow> net_IP \<Rightarrow> int \<Rightarrow> (int \<Rightarrow> hop_io) \<Rightarrow> int list \<Rightarrow> tracerouteHop list \<Rightarrow>
     (tracerouteHop list \<times> bool) outcome option" where
  "traceroute_loop ipString ctx targetIP timeout io [] hops = Some (Go (hops, False))"
| "traceroute_loop ipString ctx targetIP timeout io (ttl # ttls) hops =
     (case io_ctxErr (io ttl) of
        Some err \<Rightarrow> Some (Go (hops @ [hop_error ttl err], False))
      | None \<Rightarrow>
          (case probeUDPTracerouteHop ipString ctx targetIP ttl timeout (io ttl) of
             None \<Rightarrow> None
           | Some Panic \<Rightarrow> Some Panic
           | Some (Stop err) \<Rightarrow> Some (Stop err)
           | Some (Go (hop, reached)) \<Rightarrow>
               (if reached then Some (Go (hops @ [hop], True))
                else traceroute_loop ipString ctx targetIP timeout io ttls (hops @ [hop]))))"

definition runUDPTracerouteLinux ::
  "(net_IP \<Rightarrow> gostring) \<Rightarrow> ctx \<Rightarrow> net_IP \<Rightarrow> tracerouteConfig \<Rightarrow> (int \<Rightarrow> hop_io) \<Rightarrow>
     (tracerouteHop list \<times> bool) outcome option" where
  "runUDPTracerouteLinux ipString ctx targetIP config io =
     traceroute_loop ipString ctx targetIP (trc_timeout config) io [1..trc_maxHops config] []"

definition runPlatformTraceroute ::
  "(net_IP \<Rightarrow> gostring) \<Rightarrow> ctx \<Rightarrow> net_IP \<Rightarrow> tracerouteConfig \<Rightarrow> (int \<Rightarrow> hop_io) \<Rightarrow>
     (tracerouteHop list \<times> bool) outcome option" where
  "runPlatformTraceroute ipString ctx targetIP config io =
     (case To4 targetIP of
        None \<Rightarrow> Some (Stop ''UDP traceroute requires an IPv4 target'')
      | Some ip \<Rightarrow> runUDPTracerouteLinux ipString ctx ip config io)"

definition hop_value :: "tracerouteHop \<Rightarrow> gvalue" where
  "hop_value h =
     VMap ([(''ttl'', VInt (th_TTL h))]
           @ (if th_Address h = [] then [] else [(''address'', VString (th_Address h))])
           @ (if th_Hostname h = [] then [] else [(''hostname'', VString (th_Hostname h))])
           @ (if float_eq (th_RTTMs h) (FFin 0 0) then [] else [(''rtt_ms'', VFloat64 (th_RTTMs h))])
           @ (if th_Reached h then [(''reached'', VBool True)] else [])
           @ (if th_Error h = [] then [] else [(''error'', VString (th_Error h))]))"

text \<open>\<open>None\<close>: waiting; a panic is \<open>Some None\<close>.\<close>

definition traceroute_Execute :: "net_env \<Rightarrow> ctx \<Rightarrow> (int \<Rightarrow> hop_io) \<Rightarrow> gmap \<Rightarrow> task_Result option option" where
  "traceroute_Execute env ctx io params =
     (case parseTracerouteParams (ne_oor env) params of
        Inl err \<Rightarrow> Some (Some (net_fail env err))
      | Inr config \<Rightarrow>
          (case resolveTracerouteTarget env (trc_target config) of
             Inl err \<Rightarrow> Some (Some (net_fail env err))
           | Inr targetIP \<Rightarrow>
               (case runPlatformTraceroute (ne_ipString env) ctx targetIP config io of
                  None \<Rightarrow> None
                | Some Panic \<Rightarrow> Some None
                | Some (Stop err) \<Rightarrow> Some (Some (net_fail env err))
                | Some (Go (hops, reached)) \<Rightarrow>
                    Some (Some (net_ok env
                      [(''hops'', VList (map hop_value hops)), (''target'', VString (trc_target config)),
                       (''completed'', VBool reached), (''target_ip'', VString (ne_ipString env targetIP)),
                       (''protocol'', VString (trc_protocol config)), (''duration_ms'', VInt64 (ne_elapsed env))])))))"

section \<open>A probe\<close>

lemma recv_loop_hop:
  "recv_loop ipString ttl start deadline evs = Some (hop, reached) \<Longrightarrow> th_TTL hop = ttl \<and> th_Reached hop = reached"
  by (induction evs) (auto simp: hop_error_def Let_def split: recv_result.splits option.splits if_splits)

lemma probe_hop:
  "probeUDPTracerouteHop ipString ctx ip ttl timeout io = Some (Go (hop, reached)) \<Longrightarrow>
     th_TTL hop = ttl \<and> th_Reached hop = reached"
  by (auto simp: probeUDPTracerouteHop_def hop_error_def Let_def dest: recv_loop_hop split: option.splits if_splits)

lemma probe_no_stop: "probeUDPTracerouteHop ipString ctx ip ttl timeout io \<noteq> Some (Stop err)"
  by (auto simp: probeUDPTracerouteHop_def Let_def split: option.splits)

text \<open>A probe whose deadline has passed while messages that are not for it come in does end.\<close>

lemma recv_loop_ends:
  "ev \<in> set evs \<Longrightarrow> ev_time ev > deadline \<or> (\<exists>again err. ev_result ev = RecvError again err) \<Longrightarrow>
     recv_loop ipString ttl start deadline evs \<noteq> None"
  by (induction evs) (auto simp: Let_def split: recv_result.splits option.splits)

text \<open>The one panic: the deadline of the context is past, and the context does not know it yet.\<close>

lemma probe_panics:
  "probeUDPTracerouteHop ipString ctx ip ttl timeout io = Some Panic \<longleftrightarrow>
     io_socket io = None \<and> timeoutForContext ctx (io_now io) timeout \<le> 0 \<and> io_ctxErrTimeout io = None"
  by (auto simp: probeUDPTracerouteHop_def Let_def split: option.splits)

section \<open>The hops of a route\<close>

definition hops_so_far :: "int \<Rightarrow> tracerouteHop list \<Rightarrow> bool" where
  "hops_so_far n hops \<longleftrightarrow> map th_TTL hops = [1..n] \<and> list_all (\<lambda>h. \<not> th_Reached h) hops"

lemma hops_so_far_append:
  "0 \<le> n \<Longrightarrow> hops_so_far n hops \<Longrightarrow> th_TTL h = n + 1 \<Longrightarrow> \<not> th_Reached h \<Longrightarrow> hops_so_far (n + 1) (hops @ [h])"
  by (simp add: hops_so_far_def upto_rec2 [of 1 "n + 1"])

lemma hops_so_far_length: "0 \<le> n \<Longrightarrow> hops_so_far n hops \<Longrightarrow> int (length hops) = n"
  by (auto simp: hops_so_far_def dest!: arg_cong [of _ _ length])

text \<open>What a finished trace is; the last hop may carry the error of the context.\<close>

definition trace_ok :: "int \<Rightarrow> tracerouteHop list \<Rightarrow> bool \<Rightarrow> bool" where
  "trace_ok mx hops reached \<longleftrightarrow>
     map th_TTL hops = [1..int (length hops)] \<and> int (length hops) \<le> mx \<and>
     list_all (\<lambda>h. \<not> th_Reached h) (butlast hops) \<and>
     (reached \<longleftrightarrow> hops \<noteq> [] \<and> th_Reached (last hops)) \<and>
     (\<not> reached \<longrightarrow> int (length hops) < mx \<longrightarrow> hops \<noteq> [] \<and> th_Error (last hops) \<noteq> [])"

lemma traceroute_loop_ok:
  assumes "traceroute_loop ipString ctx ip timeout io [n + 1..mx] hops = Some (Go (hops', reached))"
    and "hops_so_far n hops" "0 \<le> n" "n \<le> mx" "\<And>ttl. io_ctxErr (io ttl) \<noteq> Some []"
  shows "trace_ok mx hops' reached"
  using assms(1-4)
proof (induction "nat (mx - n)" arbitrary: n hops)
  case 0
  then have "n = mx" by simp
  with 0 have "hops' = hops" "\<not> reached" by auto
  with 0 \<open>n = mx\<close> hops_so_far_length [OF 0(4,3)] show ?case
    by (auto simp: trace_ok_def hops_so_far_def list_all_iff dest: in_set_butlastD)
next
  case (Suc k)
  then have l: "[n + 1..mx] = (n + 1) # [2 + n..mx]" by (simp add: upto_rec1)
  have len: "int (length hops) = n" using Suc.prems hops_so_far_length by blast
  have snoc: "map th_TTL (hops @ [h]) = [1..1 + n]" if "th_TTL h = n + 1" for h
    using Suc.prems that by (simp add: hops_so_far_def upto_rec2 [of 1 "1 + n"] add.commute)
  show ?case
  proof (cases "io_ctxErr (io (n + 1))")
    case (Some err)
    with Suc.prems(1) l have "hops' = hops @ [hop_error (n + 1) err]" "\<not> reached" by auto
    moreover have "err \<noteq> []" using assms(5) [of "n + 1"] Some by auto
    ultimately show ?thesis
      using snoc [of "hop_error (n + 1) err"] Suc.prems Suc.hyps(2) len
      by (auto simp: trace_ok_def hops_so_far_def hop_error_def)
  next
    case None
    from Suc.prems(1) None l obtain hop r
      where p: "probeUDPTracerouteHop ipString ctx ip (n + 1) timeout (io (n + 1)) = Some (Go (hop, r))"
        and rest: "(if r then Some (Go (hops @ [hop], True))
          else traceroute_loop ipString ctx ip timeout io [2 + n..mx] (hops @ [hop])) = Some (Go (hops', reached))"
      by (auto split: option.splits outcome.splits)
    note h = probe_hop [OF p]
    show ?thesis
    proof (cases r)
      case True
      with rest h snoc Suc.prems Suc.hyps(2) len show ?thesis by (auto simp: trace_ok_def hops_so_far_def)
    next
      case False
      with rest h Suc.prems Suc.hyps show ?thesis
        by (intro Suc.hyps(1) [of "n + 1" "hops @ [hop]"]) (auto intro: hops_so_far_append)
    qed
  qed
qed

text \<open>
  Claim C28. A trace that ends has one hop for each TTL from 1 on, in order, at most as many as the
  maximum, which is at most 64; it is complete exactly if its last hop has reached the target, which no
  earlier one has; and if it stops before the maximum without having reached the target, its last hop
  says why.
\<close>

theorem traceroute_hops_spec:
  assumes "parseTracerouteParams oor params = Inr config" "\<And>ttl. io_ctxErr (io ttl) \<noteq> Some []"
    and "runPlatformTraceroute ipString ctx targetIP config io = Some (Go (hops, reached))"
  shows "trace_ok (trc_maxHops config) hops reached \<and> 1 \<le> trc_maxHops config \<and> trc_maxHops config \<le> 64"
proof -
  have mx: "1 \<le> trc_maxHops config \<and> trc_maxHops config \<le> 64"
    using assms(1) by (auto simp: parseTracerouteParams_def Let_def split: if_splits sum.splits)
  from assms(3) obtain ip where
    "traceroute_loop ipString ctx ip (trc_timeout config) io [0 + 1..trc_maxHops config] [] = Some (Go (hops, reached))"
    by (auto simp: runPlatformTraceroute_def runUDPTracerouteLinux_def split: option.splits)
  from traceroute_loop_ok [OF this _ _ _ assms(2)] mx show ?thesis by (simp add: hops_so_far_def)
qed

definition sample_hop :: "int \<Rightarrow> hop_io" where
  "sample_hop ttl =
     \<lparr>io_ctxErr = None, io_socket = None, io_now = 0, io_ctxErrTimeout = None, io_SetTimeout = (\<lambda>_. None),
      io_SetRecvErr = None, io_SetTTL = (\<lambda>_. None), io_start = 0, io_Sendto = (\<lambda>_ _. None),
      io_events =
        [\<lparr>ev_time = 1000000, ev_ctxErr = None,
          ev_result = RecvMessage
            (Inr [(SOL_IP, IP_RECVERR,
              [0, 0, 0, 0, 2, (if ttl = 2 then 3 else 11), (if ttl = 2 then 3 else 0), 0, 0, 0, 0, 0, 0, 0, 0, 0,
               2, 0, 0, 0, 10, 0, 0, word_of_int ttl])]) None\<rparr>]\<rparr>"

theorem traceroute_hops_spec_witness:
  "\<exists>config hops. parseTracerouteParams amd64_oor [(''target'', VString ''host'')] = Inr config \<and>
     runPlatformTraceroute (\<lambda>_. ''addr'') None [192, 0, 2, 1] config sample_hop = Some (Go (hops, True)) \<and>
     length hops = 2 \<and> trace_ok (trc_maxHops config) hops True"
proof -
  let ?c = "\<lparr>trc_target = ''host'', trc_maxHops = 30, trc_timeout = 2 * Second, trc_protocol = ''udp''\<rparr>"
  have "TrimSpace ''host'' = ''host''" by code_simp
  then have c: "parseTracerouteParams amd64_oor [(''target'', VString ''host'')] = Inr ?c"
    by (simp add: parseTracerouteParams_def string_or_empty_def optionalTracerouteInt_def traceroute_timeout_def
        traceroute_protocol_def)
  have l: "[1..30] = (1::int) # 2 # [3..30]" by (simp add: upto_rec1)
  obtain hops where r: "runPlatformTraceroute (\<lambda>_. ''addr'') None [192, 0, 2, 1] ?c sample_hop = Some (Go (hops, True))"
    and n: "length hops = 2"
    by (simp add: runPlatformTraceroute_def To4_def runUDPTracerouteLinux_def l probeUDPTracerouteHop_def
        timeoutForContext_def sample_hop_def parseICMPErrorQueue_def SOL_IP_def IP_RECVERR_def
        parseSockExtendedErr_def parseOffenderIPv4_def isAFInet_def)
  have "trace_ok (trc_maxHops ?c) hops True"
    using traceroute_hops_spec [OF c _ r] by (simp add: sample_hop_def)
  with c r n show ?thesis by blast
qed

section \<open>The error queue\<close>

text \<open>An answer as the kernel writes it: the extended error, then the address of the offender.\<close>

definition encode_icmp_error :: "byte \<Rightarrow> byte \<Rightarrow> byte list \<Rightarrow> byte list \<Rightarrow> byte list" where
  "encode_icmp_error ty code rest ip = [0, 0, 0, 0, 2, ty, code, 0] @ rest @ [2, 0, 0, 0] @ ip"

text \<open>
  The address of a router or of the target is read back from the control message the kernel
  encodes it in, behind any messages that are not of the error queue, and the target is told from a
  router.
\<close>

theorem parseICMPErrorQueue_roundtrip:
  assumes "length rest = 8" "\<forall>m \<in> set before. fst m \<noteq> SOL_IP \<or> fst (snd m) \<noteq> IP_RECVERR"
  shows "parseICMPErrorQueue (Inr (before @ (SOL_IP, IP_RECVERR, encode_icmp_error 11 code rest [a, b, c, d]) # after)) =
      Some (Some (net_IPv4 a b c d), False) \<and>
    parseICMPErrorQueue (Inr (before @ (SOL_IP, IP_RECVERR, encode_icmp_error 3 3 rest [a, b, c, d]) # after)) =
      Some (Some (net_IPv4 a b c d), True)"
proof -
  have skip: "scan_messages (before @ ms) = scan_messages ms" for ms
    using assms(2) by (induction before) auto
  have tail: "drop 16 ([0, 0, 0, 0, 2, ty, cd, 0] @ rest @ [2, 0, 0, 0, a, b, c, d]) = [2, 0, 0, 0, a, b, c, d]" for ty cd :: byte
    using assms(1) by simp
  have "parseSockExtendedErr (encode_icmp_error 11 code rest [a, b, c, d]) = Some (Some (net_IPv4 a b c d), False)"
    "parseSockExtendedErr (encode_icmp_error 3 3 rest [a, b, c, d]) = Some (Some (net_IPv4 a b c d), True)"
    using assms(1) tail
    by (simp_all add: parseSockExtendedErr_def encode_icmp_error_def parseOffenderIPv4_def isAFInet_def)
  then show ?thesis by (simp add: parseICMPErrorQueue_def skip)
qed

theorem parseICMPErrorQueue_roundtrip_witness:
  "parseICMPErrorQueue (Inr [(SOL_IP, 8, []), (SOL_IP, IP_RECVERR, encode_icmp_error 3 3 [0, 0, 0, 0, 0, 0, 0, 0] [10, 0, 0, 7])]) =
     Some (Some (net_IPv4 10 0 0 7), True)"
  using parseICMPErrorQueue_roundtrip [of "[0, 0, 0, 0, 0, 0, 0, 0]" "[(SOL_IP, 8, [])]" 0 10 0 0 7 "[]"]
  by (simp add: IP_RECVERR_def)

text \<open>The receive timeout is the duration in microseconds, and never zero, which would mean none.\<close>

lemma durationToTimeval_spec:
  assumes "0 < d"
  shows "0 \<le> tv_Sec (durationToTimeval d)" "0 \<le> tv_Usec (durationToTimeval d)" "tv_Usec (durationToTimeval d) < 1000000"
    "tv_Sec (durationToTimeval d) * 1000000 + tv_Usec (durationToTimeval d) = max 1 (d div 1000)"
proof -
  have e: "durationToTimeval d = \<lparr>tv_Sec = max d 1000 div Second, tv_Usec = max d 1000 mod Second div 1000\<rparr>"
    using assms by (simp add: durationToTimeval_def quot_nonneg rem_nonneg max_def Let_def)
  show "0 \<le> tv_Sec (durationToTimeval d)" "0 \<le> tv_Usec (durationToTimeval d)" "tv_Usec (durationToTimeval d) < 1000000"
    by (simp_all add: e)
  show "tv_Sec (durationToTimeval d) * 1000000 + tv_Usec (durationToTimeval d) = max 1 (d div 1000)"
  proof -
    define m where "m = max d 1000"
    have a: "(a * 1000 + b) div 1000 = a + b div 1000" for a b :: int by simp
    have "m div 1000 = (m div Second * 1000000 * 1000 + m mod Second) div 1000" by simp
    also have "\<dots> = m div Second * 1000000 + m mod Second div 1000" by (rule a)
    finally have "m div Second * 1000000 + m mod Second div 1000 = m div 1000" by (rule sym)
    moreover have "m div 1000 = max 1 (d div 1000)" using assms by (auto simp: m_def max_def)
    ultimately show ?thesis by (simp add: e m_def)
  qed
qed

end
