(* ===== verification/Linux_Helpers.thy ===== *)
theory Linux_Helpers
  imports Go_Path Go_Scan Go_Format Common_Params
begin

text \<open>
  \<open>internal/provider/linux/helpers.go\<close> and \<open>procfs/reader.go\<close>. The files are the argument \<open>fs\<close>, regular
  expressions \<open>compile\<close>: a pattern that is valid gives the predicate it matches; \<open>esc\<close> is what \<open>%q\<close> makes
  of characters outside ASCII. The parsers of the
  formats of \<open>/proc\<close> are functions on their text.
\<close>

section \<open>The file system\<close>

record linux_fs =
  fs_ReadFile :: "gostring \<Rightarrow> gostring + gostring"
  fs_ReadDir :: "gostring \<Rightarrow> gostring + gostring list"
  fs_IsDir :: "gostring \<Rightarrow> gostring + bool"
  fs_Readlink :: "gostring \<Rightarrow> gostring + gostring"
  fs_EvalSymlinks :: "gostring \<Rightarrow> gostring + gostring"
  fs_Getwd :: "gostring + gostring"

text \<open>The reader is its root.\<close>

type_synonym Reader = gostring

definition Reader_Path :: "Reader \<Rightarrow> gostring list \<Rightarrow> gostring" where
  "Reader_Path r elem = filepath_Join (r # elem)"

definition ReadFileString :: "linux_fs \<Rightarrow> Reader \<Rightarrow> gostring list \<Rightarrow> gostring + gostring" where
  "ReadFileString fs r elem = fs_ReadFile fs (Reader_Path r elem)"

text \<open>The lines, and the error of the scanner if it stopped at a line.\<close>

definition ReadFileLines :: "linux_fs \<Rightarrow> Reader \<Rightarrow> gostring list \<Rightarrow> gostring + gostring list" where
  "ReadFileLines fs r elem =
     (case fs_ReadFile fs (Reader_Path r elem) of
        Inl err \<Rightarrow> Inl err
      | Inr text \<Rightarrow> (if scan_too_long text then Inl ''bufio.Scanner: token too long'' else Inr (scan_lines text)))"

text \<open>The lines for a caller that ignores the error.\<close>

definition ReadFileLines_ignoring :: "linux_fs \<Rightarrow> Reader \<Rightarrow> gostring list \<Rightarrow> gostring list" where
  "ReadFileLines_ignoring fs r elem =
     (case fs_ReadFile fs (Reader_Path r elem) of Inl err \<Rightarrow> [] | Inr text \<Rightarrow> scan_lines text)"

definition ReadDirNames :: "linux_fs \<Rightarrow> Reader \<Rightarrow> gostring list \<Rightarrow> gostring + gostring list" where
  "ReadDirNames fs r elem = fs_ReadDir fs (Reader_Path r elem)"

definition Reader_Exists :: "linux_fs \<Rightarrow> Reader \<Rightarrow> gostring list \<Rightarrow> bool" where
  "Reader_Exists fs r elem \<longleftrightarrow> (case fs_IsDir fs (Reader_Path r elem) of Inl _ \<Rightarrow> False | Inr _ \<Rightarrow> True)"

definition Reader_IsDir :: "linux_fs \<Rightarrow> Reader \<Rightarrow> gostring list \<Rightarrow> bool" where
  "Reader_IsDir fs r elem \<longleftrightarrow> (case fs_IsDir fs (Reader_Path r elem) of Inl _ \<Rightarrow> False | Inr b \<Rightarrow> b)"

definition ReadInt :: "linux_fs \<Rightarrow> Reader \<Rightarrow> gostring list \<Rightarrow> int option" where
  "ReadInt fs r elem = (case ReadFileString fs r elem of Inl _ \<Rightarrow> None | Inr s \<Rightarrow> Atoi (TrimSpace s))"

definition ReadUint64 :: "linux_fs \<Rightarrow> Reader \<Rightarrow> gostring list \<Rightarrow> int option" where
  "ReadUint64 fs r elem = (case ReadFileString fs r elem of Inl _ \<Rightarrow> None | Inr s \<Rightarrow> ParseUint 64 (TrimSpace s))"

section \<open>Paths\<close>

definition defaultAllowedReadPaths :: "gostring list" where
  "defaultAllowedReadPaths = [''/etc'', ''/var/log'', ''/proc'', ''/sys'', ''/tmp'', ''/home'']"

definition defaultSecretPatterns :: "gostring list" where
  "defaultSecretPatterns =
     [''(?i)password'', ''(?i)secret'', ''(?i)token'', ''(?i)key'', ''(?i)credential'', ''(?i)auth'', ''(?i)private'',
      ''(?i)api_key'']"

definition filepath_Abs :: "linux_fs \<Rightarrow> gostring \<Rightarrow> gostring + gostring" where
  "filepath_Abs fs path =
     (if rooted path then Inr (Clean path)
      else (case fs_Getwd fs of Inl err \<Rightarrow> Inl err | Inr wd \<Rightarrow> Inr (filepath_Join [wd, path])))"

text \<open>The path a request stands for, and whether an allowed path, made absolute, admits it.\<close>

definition resolved_path :: "linux_fs \<Rightarrow> gostring \<Rightarrow> gostring + gostring" where
  "resolved_path fs path =
     (case filepath_Abs fs path of
        Inl err \<Rightarrow> Inl err
      | Inr absPath \<Rightarrow> (case fs_EvalSymlinks fs absPath of Inl _ \<Rightarrow> Inr absPath | Inr resolved \<Rightarrow> Inr resolved))"

definition admits :: "linux_fs \<Rightarrow> gostring \<Rightarrow> gostring \<Rightarrow> bool" where
  "admits fs resolved allowedPath \<longleftrightarrow>
     (let allowedAbs = (case filepath_Abs fs allowedPath of Inl _ \<Rightarrow> [] | Inr a \<Rightarrow> a) in
      HasPrefix resolved allowedAbs \<or> HasPrefix resolved (allowedAbs @ ''/''))"

definition ValidateReadPath ::
  "(gostring \<Rightarrow> gostring) \<Rightarrow> linux_fs \<Rightarrow> gostring \<Rightarrow> gostring list option \<Rightarrow> gostring option" where
  "ValidateReadPath esc fs path allowed0 =
     (let allowed = (case allowed0 of None \<Rightarrow> defaultAllowedReadPaths | Some xs \<Rightarrow> xs) in
      case resolved_path fs path of
        Inl err \<Rightarrow> Some (''resolve path: '' @ err)
      | Inr resolved \<Rightarrow>
          (if list_ex (admits fs resolved) allowed then None
           else Some (''path '' @ Quote esc path @ '' is not in allowed read paths'')))"

definition ValidatePID :: "int \<Rightarrow> gostring option" where
  "ValidatePID pid = check (pid \<le> 0) (''pid must be a positive integer, got '' @ Itoa pid)"

section \<open>Secrets\<close>

text \<open>An environment is a map; the order of its list does not matter.\<close>

type_synonym environment = "(gostring \<times> gostring) list"

definition compiled :: "(gostring \<Rightarrow> (gostring \<Rightarrow> bool) option) \<Rightarrow> gostring list \<Rightarrow> (gostring \<Rightarrow> bool) list" where
  "compiled compile patterns = List.map_filter compile patterns"

definition is_secret :: "(gostring \<Rightarrow> (gostring \<Rightarrow> bool) option) \<Rightarrow> gostring list \<Rightarrow> gostring \<Rightarrow> bool" where
  "is_secret compile patterns k \<longleftrightarrow> list_ex (\<lambda>re. re k) (compiled compile patterns)"

definition RedactSecrets ::
  "(gostring \<Rightarrow> (gostring \<Rightarrow> bool) option) \<Rightarrow> environment \<Rightarrow> gostring list option \<Rightarrow> environment" where
  "RedactSecrets compile env patterns0 =
     (let patterns = (case patterns0 of None \<Rightarrow> defaultSecretPatterns | Some ps \<Rightarrow> ps) in
      map (\<lambda>(k, v). (k, if is_secret compile patterns k then ''[REDACTED]'' else v)) env)"

definition DefaultAllowedReadPaths :: "gostring list" where
  "DefaultAllowedReadPaths = defaultAllowedReadPaths"

definition DefaultSecretPatterns :: "gostring list" where
  "DefaultSecretPatterns = defaultSecretPatterns"

section \<open>Formats\<close>

fun env_pairs :: "gostring list \<Rightarrow> environment \<Rightarrow> environment" where
  "env_pairs [] env = env"
| "env_pairs (pair # pairs) env =
     (case SplitN2 (CHR ''='') pair of
        [k, v] \<Rightarrow> env_pairs pairs (AList.update k v env)
      | _ \<Rightarrow> env_pairs pairs env)"

text \<open>An empty pair has no \<open>=\<close> either.\<close>

definition ParseEnvFile :: "gostring \<Rightarrow> environment" where
  "ParseEnvFile d = env_pairs (filter (\<lambda>p. p \<noteq> []) (Split (CHR 0x00) d)) []"

definition LastIndexByte :: "gostring \<Rightarrow> char \<Rightarrow> nat option" where
  "LastIndexByte s c = map_option (\<lambda>i. length s - 1 - i) (IndexByte (rev s) c)"

definition stat_fields :: "gostring list" where
  "stat_fields =
     [''state'', ''ppid'', ''pgrp'', ''session'', ''tty_nr'', ''tpgid'', ''flags'', ''minflt'', ''cminflt'', ''majflt'',
      ''cmajflt'', ''utime'', ''stime'', ''cutime'', ''cstime'', ''priority'', ''nice'', ''num_threads'', ''itrealvalue'',
      ''starttime'', ''vsize'', ''rss'']"

definition stat_value :: "gostring \<Rightarrow> gvalue" where
  "stat_value f = (case ParseInt f of Some n \<Rightarrow> VInt64 n | None \<Rightarrow> VString f)"

definition ParseProcStat :: "gostring \<Rightarrow> gostring + gmap" where
  "ParseProcStat line =
     (case (IndexByte line (CHR ''(''), LastIndexByte line (CHR '')'')) of
        (Some start, Some end1) \<Rightarrow>
          (if end1 \<le> start then Inl ''invalid stat line format''
           else
             (let comm = take (end1 - (start + 1)) (drop (start + 1) line);
                  fs = Fields (TrimSpace (drop (end1 + 1) line))
              in if length fs < 22 then Inl ''stat line has too few fields''
                 else Inr ((''comm'', VString comm) # map (\<lambda>(name, f). (name, stat_value f)) (zip stat_fields fs))))
      | _ \<Rightarrow> Inl ''invalid stat line format'')"

definition HumanDuration :: "int \<Rightarrow> gostring" where
  "HumanDuration seconds =
     (if seconds < 60 then Itoa seconds @ ''s''
      else if seconds < 3600 then Itoa (quot seconds 60) @ ''m'' @ Itoa (rem seconds 60) @ ''s''
      else if seconds < 86400 then Itoa (quot seconds 3600) @ ''h'' @ Itoa (quot (rem seconds 3600) 60) @ ''m''
      else Itoa (quot seconds 86400) @ ''d'' @ Itoa (quot (rem seconds 86400) 3600) @ ''h'')"

text \<open>A line without two fields, and a value that is no number, are the two errors.\<close>

definition ParseMemInfoKB :: "gostring \<Rightarrow> (gostring \<times> int) option" where
  "ParseMemInfoKB line =
     (case Fields line of
        f0 # f1 # _ \<Rightarrow> map_option (\<lambda>val. (TrimSuffix f0 '':'', val)) (ParseUint 64 f1)
      | _ \<Rightarrow> None)"

end
