(* ===== verification/Linux_Provider.thy ===== *)
theory Linux_Provider
  imports Linux_Helpers Managed_Provider Config_Types
begin

text \<open>
  \<open>internal/provider/linux/provider.go\<close>: the provider keeps its configuration, with the defaults filled
  in, and a reader; it has no configuration at run time. \<open>GOOS\<close> is whether the program runs on Linux.
\<close>

record 't LinuxProvider =
  lp_config :: LinuxConfig
  lp_reader :: Reader
  lp_base :: "'t BaseProvider"

definition nil_or :: "'a option \<Rightarrow> 'a \<Rightarrow> 'a option" where
  "nil_or v d = (case v of None \<Rightarrow> Some d | Some x \<Rightarrow> Some x)"

definition applyLinuxDefaults :: "LinuxConfig \<Rightarrow> LinuxConfig" where
  "applyLinuxDefaults cfg =
     cfg\<lparr>lin_AllowedReadPaths := nil_or (lin_AllowedReadPaths cfg) DefaultAllowedReadPaths,
         lin_MaxReadBytes := (if lin_MaxReadBytes cfg = 0 then 65536 else lin_MaxReadBytes cfg),
         lin_MaxDirectoryDepth := (if lin_MaxDirectoryDepth cfg = 0 then 3 else lin_MaxDirectoryDepth cfg),
         lin_MaxDirectoryEntries := (if lin_MaxDirectoryEntries cfg = 0 then 1000 else lin_MaxDirectoryEntries cfg),
         lin_RedactSecrets := nil_or (lin_RedactSecrets cfg) True,
         lin_SecretPatterns := nil_or (lin_SecretPatterns cfg) DefaultSecretPatterns,
         lin_JournalDirectory := (if lin_JournalDirectory cfg = [] then ''/var/log/journal'' else lin_JournalDirectory cfg),
         lin_SystemdBusAddress :=
           (if lin_SystemdBusAddress cfg = [] then ''unix:path=/run/dbus/system_bus_socket''
            else lin_SystemdBusAddress cfg)\<rparr>"

definition Linux_tasks :: "gostring list" where
  "Linux_tasks =
     [''linux.system.info'', ''linux.system.uptime'', ''linux.system.time'',
      ''linux.system.environment'', ''linux.kernel.cmdline'', ''linux.kernel.modules.list'',
      ''linux.kernel.taint'', ''linux.kernel.sysctl.get'', ''linux.kernel.dmesg'',
      ''linux.process.list'', ''linux.process.get'', ''linux.process.tree'',
      ''linux.process.open_files'', ''linux.process.limits'', ''linux.process.environment'',
      ''linux.process.threads'', ''linux.process.stack'', ''linux.memory.info'',
      ''linux.memory.vmstat'', ''linux.cpu.info'', ''linux.cpu.stats'', ''linux.load.info'',
      ''linux.pressure.get'', ''linux.swap.list'', ''linux.filesystem.list'',
      ''linux.filesystem.inodes'', ''linux.filesystem.mounts'', ''linux.filesystem.stat'',
      ''linux.filesystem.read'', ''linux.filesystem.list_directory'',
      ''linux.filesystem.space_consumers'', ''linux.blockdevice.list'',
      ''linux.blockdevice.stats'', ''linux.socket.list'', ''linux.socket.get'',
      ''linux.network.interface.list'', ''linux.network.route.list'',
      ''linux.network.route.lookup'', ''linux.network.rule.list'', ''linux.network.neighbor.list'',
      ''linux.network.stats'', ''linux.network.dns.config'', ''linux.network.dns.resolve'',
      ''linux.firewall.nftables.list'', ''linux.firewall.nftables.table.get'',
      ''linux.firewall.nftables.ruleset'', ''linux.firewall.iptables.rules'',
      ''linux.firewall.firewalld.status'', ''linux.firewall.firewalld.zone.get'',
      ''linux.systemd.unit.list'', ''linux.systemd.unit.status'', ''linux.systemd.unit.show'',
      ''linux.systemd.unit.definition'', ''linux.systemd.unit.dependencies'',
      ''linux.systemd.unit.logs'', ''linux.journal.query'', ''linux.journal.boots'',
      ''linux.service.failed'', ''linux.user.list'', ''linux.group.list'', ''linux.user.get'',
      ''linux.security.capabilities.get'', ''linux.security.selinux.status'',
      ''linux.security.apparmor.status'', ''linux.cgroup.list'', ''linux.cgroup.get'',
      ''linux.cgroup.processes'', ''linux.namespace.list'', ''linux.package.get'',
      ''linux.package.list'', ''linux.core_dump.list'', ''linux.core_dump.info'',
      ''linux.login.sessions'', ''linux.login.history'']"

definition Linux_descriptions :: "(gostring \<times> gostring) list" where
  "Linux_descriptions =
     [(''linux.system.info'', ''Returns basic host information: hostname, OS/distribution, kernel, architecture, virtualization, boot ID''),
      (''linux.system.uptime'', ''Returns uptime, boot time and load averages''),
      (''linux.system.time'', ''Returns current system time, timezone, and NTP status''),
      (''linux.system.environment'', ''Returns selected system-level environment information with secret redaction''),
      (''linux.kernel.cmdline'', ''Returns the kernel boot command line''),
      (''linux.kernel.modules.list'', ''Lists loaded kernel modules and basic metadata''),
      (''linux.kernel.taint'', ''Returns kernel taint status and decoded taint flags''),
      (''linux.kernel.sysctl.get'', ''Reads one or more sysctl values (explicit keys only)''),
      (''linux.kernel.dmesg'', ''Retrieves kernel ring-buffer messages with optional filtering''),
      (''linux.process.list'', ''Structured process listing: PID, PPID, user, state, CPU, memory, command, start time''),
      (''linux.process.get'', ''Detailed information for one process from /proc''),
      (''linux.process.tree'', ''Returns process hierarchy similar to pstree''),
      (''linux.process.open_files'', ''Lists open files/file descriptors for a process''),
      (''linux.process.limits'', ''Returns /proc/<pid>/limits''),
      (''linux.process.environment'', ''Retrieves a process environment with mandatory secret redaction''),
      (''linux.process.threads'', ''Lists threads belonging to a process with basic state/CPU info''),
      (''linux.process.stack'', ''Reads kernel-visible process/thread stack where permitted''),
      (''linux.memory.info'', ''Memory/swap information from /proc/meminfo''),
      (''linux.memory.vmstat'', ''VM/kernel memory counters useful for paging/swapping diagnosis''),
      (''linux.cpu.info'', ''CPU topology/model/core/thread information''),
      (''linux.cpu.stats'', ''CPU utilization/counters including user/system/iowait/steal''),
      (''linux.load.info'', ''Load average plus runnable/blocked task information''),
      (''linux.pressure.get'', ''Reads Linux PSI pressure information for CPU, memory and I/O''),
      (''linux.swap.list'', ''Lists swap devices/files, sizes, priorities and usage''),
      (''linux.filesystem.list'', ''Mounted filesystems, type, mount point, options, capacity and utilization''),
      (''linux.filesystem.inodes'', ''Filesystem inode utilization''),
      (''linux.filesystem.mounts'', ''Detailed mount tree and mount options''),
      (''linux.filesystem.stat'', ''Metadata for a file/path: existence, type, owner, mode, size, timestamps''),
      (''linux.filesystem.read'', ''Reads a text file with path/size restrictions and secret protection''),
      (''linux.filesystem.list_directory'', ''Lists directory contents and metadata without modifying anything''),
      (''linux.filesystem.space_consumers'', ''Identifies large files/directories under a constrained path''),
      (''linux.blockdevice.list'', ''Lists disks, partitions, device mapper relationships, sizes and mount points''),
      (''linux.blockdevice.stats'', ''Returns block-device I/O statistics''),
      (''linux.socket.list'', ''Lists listening and established sockets similar to ss''),
      (''linux.socket.get'', ''Detailed information about a particular socket/connection''),
      (''linux.network.interface.list'', ''Lists interfaces, addresses, state, MTU, MAC, counters''),
      (''linux.network.route.list'', ''Returns routing tables including policy routing table information''),
      (''linux.network.route.lookup'', ''Performs a non-mutating kernel route lookup equivalent to ip route get''),
      (''linux.network.rule.list'', ''Lists policy-routing rules (ip rule)''),
      (''linux.network.neighbor.list'', ''Returns ARP/NDP neighbor table''),
      (''linux.network.stats'', ''Protocol/network statistics similar to ss -s''),
      (''linux.network.dns.config'', ''Returns resolver configuration''),
      (''linux.network.dns.resolve'', ''Performs a DNS lookup using the host's resolver''),
      (''linux.firewall.nftables.list'', ''Lists all nftables tables, chains, and rules from the kernel netlink interface for firewall debugging and audit''),
      (''linux.firewall.nftables.table.get'', ''Retrieves detailed chains and rules for a specific nftables table identified by name and address family''),
      (''linux.firewall.nftables.ruleset'', ''Returns nftables ruleset in structured form using netlink where available, with procfs fallback for restricted environments''),
      (''linux.firewall.iptables.rules'', ''Returns iptables/ip6tables rules and counters without modification''),
      (''linux.firewall.firewalld.status'', ''Returns firewalld state and active zones if installed''),
      (''linux.firewall.firewalld.zone.get'', ''Returns configuration/effective rules for a firewalld zone''),
      (''linux.systemd.unit.list'', ''Lists systemd units and their state''),
      (''linux.systemd.unit.status'', ''Detailed status for a systemd unit including PID, state, exit status''),
      (''linux.systemd.unit.show'', ''Structured systemd properties equivalent to systemctl show''),
      (''linux.systemd.unit.definition'', ''Returns the effective unit definition including drop-ins''),
      (''linux.systemd.unit.dependencies'', ''Returns unit dependency relationships''),
      (''linux.systemd.unit.logs'', ''Retrieves journal entries associated with a systemd unit''),
      (''linux.journal.query'', ''General structured journald query''),
      (''linux.journal.boots'', ''Lists boots known to journald''),
      (''linux.service.failed'', ''Returns failed systemd services/units''),
      (''linux.user.list'', ''Lists local users/accounts''),
      (''linux.group.list'', ''Lists groups and membership''),
      (''linux.user.get'', ''Account information and group membership for a user''),
      (''linux.security.capabilities.get'', ''Returns Linux capabilities for a process/executable''),
      (''linux.security.selinux.status'', ''Returns SELinux mode/policy/status''),
      (''linux.security.apparmor.status'', ''Returns AppArmor status and loaded profiles''),
      (''linux.cgroup.list'', ''Lists cgroups and hierarchy''),
      (''linux.cgroup.get'', ''Returns controllers, limits and current usage for a cgroup''),
      (''linux.cgroup.processes'', ''Lists processes belonging to a cgroup''),
      (''linux.namespace.list'', ''Returns namespace IDs/types for a process''),
      (''linux.package.get'', ''Query whether a package is installed and return its version''),
      (''linux.package.list'', ''Lists installed packages, optionally filtered''),
      (''linux.core_dump.list'', ''Lists known systemd-coredump entries''),
      (''linux.core_dump.info'', ''Metadata associated with a particular core dump''),
      (''linux.login.sessions'', ''Current login/session information''),
      (''linux.login.history'', ''Recent login/reboot/shutdown history'')]"

definition Linux_capabilityDescription :: "gostring \<Rightarrow> gostring" where
  "Linux_capabilityDescription name =
     (case map_of Linux_descriptions name of Some desc \<Rightarrow> desc | None \<Rightarrow> ''Linux capability'')"

lemma Linux_tasks_prefixed:
  "Linux_tasks = prefixed ''linux''
     [''system.info'', ''system.uptime'', ''system.time'', ''system.environment'',
      ''kernel.cmdline'', ''kernel.modules.list'', ''kernel.taint'', ''kernel.sysctl.get'',
      ''kernel.dmesg'', ''process.list'', ''process.get'', ''process.tree'',
      ''process.open_files'', ''process.limits'', ''process.environment'', ''process.threads'',
      ''process.stack'', ''memory.info'', ''memory.vmstat'', ''cpu.info'', ''cpu.stats'',
      ''load.info'', ''pressure.get'', ''swap.list'', ''filesystem.list'', ''filesystem.inodes'',
      ''filesystem.mounts'', ''filesystem.stat'', ''filesystem.read'',
      ''filesystem.list_directory'', ''filesystem.space_consumers'', ''blockdevice.list'',
      ''blockdevice.stats'', ''socket.list'', ''socket.get'', ''network.interface.list'',
      ''network.route.list'', ''network.route.lookup'', ''network.rule.list'',
      ''network.neighbor.list'', ''network.stats'', ''network.dns.config'',
      ''network.dns.resolve'', ''firewall.nftables.list'', ''firewall.nftables.table.get'',
      ''firewall.nftables.ruleset'', ''firewall.iptables.rules'', ''firewall.firewalld.status'',
      ''firewall.firewalld.zone.get'', ''systemd.unit.list'', ''systemd.unit.status'',
      ''systemd.unit.show'', ''systemd.unit.definition'', ''systemd.unit.dependencies'',
      ''systemd.unit.logs'', ''journal.query'', ''journal.boots'', ''service.failed'',
      ''user.list'', ''group.list'', ''user.get'', ''security.capabilities.get'',
      ''security.selinux.status'', ''security.apparmor.status'', ''cgroup.list'', ''cgroup.get'',
      ''cgroup.processes'', ''namespace.list'', ''package.get'', ''package.list'',
      ''core_dump.list'', ''core_dump.info'', ''login.sessions'', ''login.history'']"
  by (simp add: Linux_tasks_def prefixed_def)

lemma Linux_tasks_distinct: "distinct Linux_tasks"
  unfolding Linux_tasks_prefixed by (rule distinct_prefixed) simp

lemma Linux_tasks_valid: "list_all namePattern Linux_tasks"
  unfolding Linux_tasks_prefixed by (rule prefixed_valid) code_simp+

lemma Linux_described: "map fst Linux_descriptions = Linux_tasks"
  by (simp add: Linux_descriptions_def Linux_tasks_def)

definition Linux_NewProvider ::
  "bool \<Rightarrow> (gostring \<Rightarrow> gostring) \<Rightarrow> (gostring \<Rightarrow> 't) \<Rightarrow> LinuxConfig \<Rightarrow> 't LinuxProvider" where
  "Linux_NewProvider GOOS schema mk cfg =
     \<lparr>lp_config = applyLinuxDefaults cfg, lp_reader = ''/'',
      lp_base =
        (if \<not> GOOS then \<lparr>ProviderName = ''linux'', ProviderCapabilities = [], EnabledFunc = None, Tasks = []\<rparr>
         else task_base ''linux'' schema Linux_capabilityDescription (\<lambda>_. []) (\<lambda>_. []) mk Linux_tasks)\<rparr>"

definition Linux_IsConfigured :: "bool \<Rightarrow> 't LinuxProvider \<Rightarrow> bool" where
  "Linux_IsConfigured GOOS p = GOOS"

definition Linux_UpdateConfig :: "'t LinuxProvider \<Rightarrow> gostring \<Rightarrow> gmap \<Rightarrow> 't LinuxProvider" where
  "Linux_UpdateConfig p capabilityName cfg = p"

definition CurrentConfig :: "'t LinuxProvider \<Rightarrow> LinuxConfig" where
  "CurrentConfig p = lp_config p"

definition CurrentReader :: "'t LinuxProvider \<Rightarrow> Reader" where
  "CurrentReader p = lp_reader p"

definition linux_ops :: "bool \<Rightarrow> ('t LinuxProvider, 't) provider_ops" where
  "linux_ops GOOS =
     \<lparr>op_Name = (\<lambda>p. BaseProvider_Name (lp_base p)), op_Capabilities = (\<lambda>p. BaseProvider_Capabilities (lp_base p)),
      op_IsEnabled = (\<lambda>p. BaseProvider_IsEnabled (lp_base p)), op_GetTask = (\<lambda>p. BaseProvider_GetTask (lp_base p)),
      op_UpdateConfig = Linux_UpdateConfig, op_IsConfigured = Linux_IsConfigured GOOS\<rparr>"

definition linux_wf :: "'t LinuxProvider \<Rightarrow> bool" where
  "linux_wf p = base_wf (lp_base p)"

interpretation linux: provider_interface "linux_ops GOOS" linux_wf for GOOS
  by unfold_locales
    (auto simp: linux_ops_def linux_wf_def Linux_UpdateConfig_def base_ops_simps base_wf_def list_all_iff)

lemma Linux_NewProvider_wf: "linux_wf (Linux_NewProvider GOOS schema mk cfg)"
  by (simp add: linux_wf_def Linux_NewProvider_def base_wf_task_base Linux_tasks_distinct)
    (simp add: base_wf_def)

text \<open>The defaults fill every field a task relies on, and change none that is set.\<close>

lemma applyLinuxDefaults_complete:
  "lin_AllowedReadPaths (applyLinuxDefaults cfg) \<noteq> None" "lin_SecretPatterns (applyLinuxDefaults cfg) \<noteq> None"
  "lin_RedactSecrets (applyLinuxDefaults cfg) \<noteq> None" "lin_MaxReadBytes (applyLinuxDefaults cfg) \<noteq> 0"
  by (auto simp: applyLinuxDefaults_def nil_or_def split: option.split)

lemma applyLinuxDefaults_idem: "applyLinuxDefaults (applyLinuxDefaults cfg) = applyLinuxDefaults cfg"
  by (simp add: applyLinuxDefaults_def nil_or_def split: option.split)

end
