(* ===== verification/Linux_Process.thy ===== *)
theory Linux_Process
  imports Linux_Provider
begin

text \<open>
  The tasks \<open>linux.process.*\<close> of \<open>internal/provider/linux\<close>: \<open>process_list.go\<close>, \<open>process_get.go\<close>,
  \<open>process_tree.go\<close>, \<open>process_environment.go\<close>, \<open>process_threads.go\<close>, \<open>process_limits.go\<close>,
  \<open>process_open_files.go\<close> and \<open>process_stack.go\<close>. \<open>sort.Slice\<close> leaves processes with equal keys in an
  order of its own; here they keep theirs.
\<close>

section \<open>The environment of a task\<close>

record lin_env =
  lx_fs :: linux_fs
  lx_oor :: "gofloat \<Rightarrow> int"
  lx_compile :: "gostring \<Rightarrow> (gostring \<Rightarrow> bool) option"
  lx_LookupId :: "gostring \<Rightarrow> gostring option"
  lx_esc :: "gostring \<Rightarrow> gostring"
  lx_IsPermission :: "gostring \<Rightarrow> bool"
  lx_IsNotExist :: "gostring \<Rightarrow> bool"
  lx_ParseFloat :: "gostring \<Rightarrow> gofloat \<times> gostring option"
  lx_typeName :: "gvalue \<Rightarrow> gostring"
  lx_Environ :: "gostring list"
  lx_Getpid :: int
  lx_Hostname :: "gostring + gostring"
  lx_Uname :: "(gostring \<times> gostring) option"
  lx_Now :: int
  lx_Zone :: "gostring \<times> int"
  lx_FormatTime :: "int \<Rightarrow> gostring"

text \<open>\<open>v, _ := strconv.Atoi(s)\<close> and \<open>ParseUint\<close>: a number out of range is the nearest one, with the error.\<close>

definition Atoi_value :: "gostring \<Rightarrow> int" where
  "Atoi_value s =
     (case Atoi s of
        Some n \<Rightarrow> n
      | None \<Rightarrow>
          (let ds = (if s \<noteq> [] \<and> (hd s = CHR ''-'' \<or> hd s = CHR ''+'') then tl s else s) in
           if ds = [] \<or> \<not> list_all is_digit ds then 0
           else if hd s = CHR ''-'' then min_int64 else max_int64))"

definition ParseUint_value :: "gostring \<Rightarrow> int" where
  "ParseUint_value s =
     (case ParseUint 64 s of
        Some n \<Rightarrow> n
      | None \<Rightarrow> (if s = [] \<or> \<not> list_all is_digit s then 0 else 18446744073709551615))"

definition int64_field :: "gmap \<Rightarrow> gostring \<Rightarrow> int" where
  "int64_field m key = (case map_of m key of Some (VInt64 n) \<Rightarrow> n | _ \<Rightarrow> 0)"

definition text_field :: "gmap \<Rightarrow> gostring \<Rightarrow> gostring" where
  "text_field m key = (case map_of m key of Some (VString s) \<Rightarrow> s | _ \<Rightarrow> [])"

definition nth_field :: "gostring list \<Rightarrow> nat \<Rightarrow> gostring option" where
  "nth_field fs i = (if i < length fs then Some (fs ! i) else None)"

section \<open>Summaries\<close>

record ProcessSummary =
  pr_PID :: int
  pr_PPID :: int
  pr_User :: gostring
  pr_State :: gostring
  pr_Command :: gostring

definition parsePIDDir :: "gostring \<Rightarrow> int option" where
  "parsePIDDir name = (case Atoi name of None \<Rightarrow> None | Some pid \<Rightarrow> (if pid \<le> 0 then None else Some pid))"

definition user_of :: "lin_env \<Rightarrow> gostring \<Rightarrow> gostring" where
  "user_of env field =
     (let uid = Itoa (Atoi_value field) in case lx_LookupId env uid of Some u \<Rightarrow> u | None \<Rightarrow> uid)"

text \<open>The user of the first line of \<open>Uid\<close>.\<close>

fun status_user :: "lin_env \<Rightarrow> gostring list \<Rightarrow> gostring" where
  "status_user env [] = []"
| "status_user env (line # ls) =
     (if HasPrefix line ''Uid:'' then
        (case nth_field (Fields line) 1 of Some f \<Rightarrow> user_of env f | None \<Rightarrow> [])
      else status_user env ls)"

definition command_line :: "gostring \<Rightarrow> gostring \<Rightarrow> gostring" where
  "command_line cmdline comm =
     (let command = TrimSpace (ReplaceAll (CHR 0x00) '' '' cmdline) in if command = [] then comm else command)"

definition read_cmdline :: "lin_env \<Rightarrow> Reader \<Rightarrow> gostring \<Rightarrow> gostring" where
  "read_cmdline env r pid = (case ReadFileString (lx_fs env) r [''proc'', pid, ''cmdline''] of Inl _ \<Rightarrow> [] | Inr s \<Rightarrow> s)"

text \<open>A state that is a number is not text: it is the third word of the line then.\<close>

definition readProcessSummary :: "lin_env \<Rightarrow> Reader \<Rightarrow> int \<Rightarrow> ProcessSummary option" where
  "readProcessSummary env r pid =
     (let p = Itoa pid in
      case ReadFileString (lx_fs env) r [''proc'', p, ''stat''] of
        Inl _ \<Rightarrow> None
      | Inr statLine \<Rightarrow>
          (case ParseProcStat statLine of
             Inl _ \<Rightarrow> None
           | Inr stat \<Rightarrow>
               (let state0 = text_field stat ''state'';
                    state = (if state0 = [] then ok_or (nth_field (Fields statLine) 2) [] else state0)
                in Some \<lparr>pr_PID = pid, pr_PPID = int64_field stat ''ppid'',
                         pr_User = status_user env (ReadFileLines_ignoring (lx_fs env) r [''proc'', p, ''status'']),
                         pr_State = state,
                         pr_Command = command_line (read_cmdline env r p) (text_field stat ''comm'')\<rparr>)))"

definition summary_value :: "ProcessSummary \<Rightarrow> gmap" where
  "summary_value s =
     [(''pid'', VInt (pr_PID s)), (''ppid'', VInt (pr_PPID s)), (''user'', VString (pr_User s)),
      (''state'', VString (pr_State s)), (''command'', VString (pr_Command s))]"

section \<open>linux.process.list\<close>

definition meta_chars :: "char list" where
  "meta_chars =
     [CHR 0x5C, CHR ''.'', CHR ''+'', CHR ''*'', CHR ''?'', CHR ''('', CHR '')'', CHR ''|'', CHR ''['', CHR '']'',
      CHR 0x7B, CHR 0x7D, CHR 0x5E, CHR ''$'']"

definition QuoteMeta :: "gostring \<Rightarrow> gostring" where
  "QuoteMeta s = concat (map (\<lambda>c. if c \<in> set meta_chars then [CHR 0x5C, c] else [c]) s)"

definition compileNameFilter :: "lin_env \<Rightarrow> gostring \<Rightarrow> (gostring \<Rightarrow> bool) option" where
  "compileNameFilter env name = (if name = [] then None else lx_compile env (''(?i)'' @ QuoteMeta name))"

definition sortProcesses :: "ProcessSummary list \<Rightarrow> gostring \<Rightarrow> ProcessSummary list" where
  "sortProcesses ps field =
     (if field = ''mem'' \<or> field = ''name'' then sort_key (\<lambda>p. map of_char (ToLower (pr_Command p)) :: nat list) ps
      else sort_key pr_PID ps)"

text \<open>\<open>v, _ := common.OptionalX(...)\<close>: on an error the zero value.\<close>

definition value_or :: "'a \<Rightarrow> gostring + 'a \<Rightarrow> 'a" where
  "value_or z r = (case r of Inl _ \<Rightarrow> z | Inr x \<Rightarrow> x)"

definition keeps :: "int \<Rightarrow> gostring \<Rightarrow> (gostring \<Rightarrow> bool) option \<Rightarrow> ProcessSummary \<Rightarrow> bool" where
  "keeps pidFilter userFilter nameRe s \<longleftrightarrow>
     \<not> (pidFilter > 0 \<and> pr_PID s \<noteq> pidFilter) \<and>
     \<not> (userFilter \<noteq> [] \<and> \<not> EqualFold (pr_User s) userFilter) \<and>
     (case nameRe of None \<Rightarrow> True | Some re \<Rightarrow> re (pr_Command s))"

definition processList_Execute :: "lin_env \<Rightarrow> Reader \<Rightarrow> gmap \<Rightarrow> gvalue outcome" where
  "processList_Execute env r params =
     (let pidFilter = value_or 0 (OptionalInt (lx_oor env) params ''pid'' 0);
          userFilter = value_or [] (OptionalString params ''user'' []);
          nameFilter = value_or [] (OptionalString params ''name'' []);
          sortField = value_or [] (OptionalString params ''sort'' ''pid'')
      in
      and_then (attempt (NormalizeLimit (lx_oor env) params)) (\<lambda>limit.
      (case ReadDirNames (lx_fs env) r [''proc''] of
         Inl err \<Rightarrow> Stop (''read /proc: '' @ err)
       | Inr entries \<Rightarrow>
           (let found = List.map_filter (readProcessSummary env r) (List.map_filter parsePIDDir entries);
                kept = sortProcesses (filter (keeps pidFilter userFilter (compileNameFilter env nameFilter)) found) sortField
            in
            and_then (truncate_to limit kept) (\<lambda>(ps, _).
            Go (VMap [(''processes'', VList (map (VMap \<circ> summary_value) ps))]))))))"

section \<open>linux.process.get\<close>

definition extractState :: "gostring \<Rightarrow> gostring" where
  "extractState statLine =
     (case (IndexByte statLine (CHR ''(''), LastIndexByte statLine (CHR '')'')) of
        (Some start, Some end1) \<Rightarrow>
          (case Fields (TrimSpace (drop (end1 + 1) statLine)) of f # _ \<Rightarrow> f | [] \<Rightarrow> [])
      | _ \<Rightarrow> [])"

text \<open>The user, the resident and the virtual memory of the status, each of the last line of its kind; kB to bytes wraps.\<close>

fun status_detail :: "lin_env \<Rightarrow> gostring list \<Rightarrow> gostring \<times> int \<times> int \<Rightarrow> gostring \<times> int \<times> int" where
  "status_detail env [] acc = acc"
| "status_detail env (line # ls) (uid, rss, vms) =
     (let f = nth_field (Fields line) 1;
          bytes = (\<lambda>s. (ParseUint_value s * 1024) mod 18446744073709551616)
      in case f of
           None \<Rightarrow> status_detail env ls (uid, rss, vms)
         | Some s \<Rightarrow>
             (if HasPrefix line ''Uid:'' then status_detail env ls (user_of env s, rss, vms)
              else if HasPrefix line ''VmRSS:'' then status_detail env ls (uid, bytes s, vms)
              else if HasPrefix line ''VmSize:'' then status_detail env ls (uid, rss, bytes s)
              else status_detail env ls (uid, rss, vms)))"

definition link_target :: "lin_env \<Rightarrow> Reader \<Rightarrow> gostring list \<Rightarrow> gostring" where
  "link_target env r elem =
     (case fs_EvalSymlinks (lx_fs env) (Reader_Path r elem) of Inl _ \<Rightarrow> [] | Inr path \<Rightarrow> path)"

definition readProcessDetail :: "lin_env \<Rightarrow> Reader \<Rightarrow> int \<Rightarrow> gmap outcome" where
  "readProcessDetail env r pid =
     (let p = Itoa pid in
      if \<not> Reader_Exists (lx_fs env) r [filepath_Join [''proc'', p]] then Stop (''process '' @ p @ '' not found'')
      else
        (case ReadFileString (lx_fs env) r [''proc'', p, ''stat''] of
           Inl err \<Rightarrow> Stop (''read stat: '' @ err)
         | Inr statLine \<Rightarrow>
             (case ParseProcStat statLine of
                Inl err \<Rightarrow> Stop (''parse stat: '' @ err)
              | Inr stat \<Rightarrow>
                  (let (uid, rss, vms) = status_detail env (ReadFileLines_ignoring (lx_fs env) r [''proc'', p, ''status'']) ([], 0, 0);
                       exe = link_target env r [''proc'', p, ''exe'']; cwd = link_target env r [''proc'', p, ''cwd''];
                       s = \<lparr>pr_PID = pid, pr_PPID = int64_field stat ''ppid'', pr_User = uid,
                            pr_State = extractState statLine,
                            pr_Command = command_line (read_cmdline env r p) (text_field stat ''comm'')\<rparr>
                   in Go (summary_value s
                          @ (if exe = [] then [] else [(''executable'', VString exe)])
                          @ (if cwd = [] then [] else [(''cwd'', VString cwd)])
                          @ [(''threads'', VInt (int64_field stat ''num_threads'')),
                             (''memory'', VMap [(''rss_bytes'', VUint64 rss), (''vms_bytes'', VUint64 vms)])])))))"

text \<open>The parameter of the tasks of one process.\<close>

definition required_pid :: "lin_env \<Rightarrow> gmap \<Rightarrow> int outcome" where
  "required_pid env params =
     and_then (attempt (OptionalInt (lx_oor env) params ''pid'' 0)) (\<lambda>pid.
     (case ValidatePID pid of Some err \<Rightarrow> Stop err | None \<Rightarrow> Go pid))"

definition processGet_Execute :: "lin_env \<Rightarrow> Reader \<Rightarrow> gmap \<Rightarrow> gvalue outcome" where
  "processGet_Execute env r params =
     and_then (required_pid env params) (\<lambda>pid.
     and_then (readProcessDetail env r pid) (\<lambda>detail. Go (VMap detail)))"

section \<open>linux.process.environment\<close>

definition redaction_on :: "LinuxConfig \<Rightarrow> bool" where
  "redaction_on cfg \<longleftrightarrow> (case lin_RedactSecrets cfg of None \<Rightarrow> True | Some b \<Rightarrow> b)"

definition secret_patterns :: "LinuxConfig \<Rightarrow> gostring list" where
  "secret_patterns cfg = (case lin_SecretPatterns cfg of None \<Rightarrow> DefaultSecretPatterns | Some ps \<Rightarrow> ps)"

definition environment_value :: "environment \<Rightarrow> gvalue" where
  "environment_value e = VStrMap e"

definition readProcessEnvironment :: "lin_env \<Rightarrow> Reader \<Rightarrow> int \<Rightarrow> LinuxConfig \<Rightarrow> environment outcome" where
  "readProcessEnvironment env r pid cfg =
     (case ReadFileString (lx_fs env) r [''proc'', Itoa pid, ''environ''] of
        Inl err \<Rightarrow> Stop (''read environ: '' @ err)
      | Inr d \<Rightarrow>
          (let e = ParseEnvFile d in
           Go (if redaction_on cfg then RedactSecrets (lx_compile env) e (Some (secret_patterns cfg)) else e)))"

definition processEnvironment_Execute :: "lin_env \<Rightarrow> Reader \<Rightarrow> LinuxConfig \<Rightarrow> gmap \<Rightarrow> gvalue outcome" where
  "processEnvironment_Execute env r cfg params =
     and_then (required_pid env params) (\<lambda>pid.
     and_then (readProcessEnvironment env r pid cfg) (\<lambda>e. Go (VMap [(''environment'', environment_value e)])))"

section \<open>linux.process.threads\<close>

definition thread_value :: "gostring \<Rightarrow> int \<Rightarrow> int \<Rightarrow> gmap \<Rightarrow> gvalue" where
  "thread_value statLine tid pid stat =
     VMap ([(''tid'', VInt tid), (''pid'', VInt pid), (''state'', VString (extractState statLine))]
           @ (if text_field stat ''comm'' = [] then [] else [(''name'', VString (text_field stat ''comm''))])
           @ [(''utime'', VInt64 (int64_field stat ''utime'')), (''stime'', VInt64 (int64_field stat ''stime''))])"

definition read_thread :: "lin_env \<Rightarrow> Reader \<Rightarrow> int \<Rightarrow> gostring \<Rightarrow> gvalue option" where
  "read_thread env r pid entry =
     (case Atoi entry of
        None \<Rightarrow> None
      | Some tid \<Rightarrow>
          (case ReadFileString (lx_fs env) r [''proc'', Itoa pid, ''task'', entry, ''stat''] of
             Inl _ \<Rightarrow> None
           | Inr statLine \<Rightarrow>
               (case ParseProcStat statLine of
                  Inl _ \<Rightarrow> None | Inr stat \<Rightarrow> Some (thread_value statLine tid pid stat))))"

definition processThreads_Execute :: "lin_env \<Rightarrow> Reader \<Rightarrow> gmap \<Rightarrow> gvalue outcome" where
  "processThreads_Execute env r params =
     and_then (required_pid env params) (\<lambda>pid.
     (case ReadDirNames (lx_fs env) r [''proc'', Itoa pid, ''task''] of
        Inl err \<Rightarrow> Stop (''read task directory: '' @ err)
      | Inr entries \<Rightarrow> Go (VMap [(''threads'', VList (List.map_filter (read_thread env r pid) entries))])))"

section \<open>linux.process.limits\<close>

definition parseLimitLine :: "gostring \<Rightarrow> gvalue option" where
  "parseLimitLine line =
     (let fs = Fields line; n = length fs in
      if n < 4 then None
      else
        (let unit1 = fs ! (n - 1); hard = fs ! (n - 2); soft = fs ! (n - 3) in
         Some (VMap [(''name'', VString (Join (take (n - 3) fs) '' '')), (''soft'', VString soft),
                     (''hard'', VString hard), (''unit'', VString unit1),
                     (''unlimited'', VBool (soft = ''unlimited'' \<or> hard = ''unlimited''))])))"

text \<open>An empty line has no fields either.\<close>

definition processLimits_Execute :: "lin_env \<Rightarrow> Reader \<Rightarrow> gmap \<Rightarrow> gvalue outcome" where
  "processLimits_Execute env r params =
     and_then (required_pid env params) (\<lambda>pid.
     (case ReadFileLines (lx_fs env) r [''proc'', Itoa pid, ''limits''] of
        Inl err \<Rightarrow> Stop (''read limits: '' @ err)
      | Inr ls \<Rightarrow>
          (if length ls < 2 then Stop ''invalid limits file format''
           else Go (VMap [(''limits'',
             VList (List.map_filter (\<lambda>line. if TrimSpace line = [] then None else parseLimitLine (TrimSpace line)) (tl ls)))]))))"

section \<open>linux.process.open_files\<close>

definition file_type :: "gostring \<Rightarrow> gostring" where
  "file_type linkTarget =
     (if HasPrefix linkTarget ''pipe:'' then ''pipe''
      else if HasPrefix linkTarget ''socket:'' then ''socket''
      else if HasPrefix linkTarget ''anon_inode:'' then ''anon_inode''
      else if linkTarget = [] then ''unknown''
      else ''file'')"

definition open_file :: "lin_env \<Rightarrow> Reader \<Rightarrow> gostring \<Rightarrow> gostring \<Rightarrow> gvalue option" where
  "open_file env r fdDir entry =
     (case Atoi entry of
        None \<Rightarrow> None
      | Some fd \<Rightarrow>
          (let target = (case fs_Readlink (lx_fs env) (Reader_Path r [fdDir, entry]) of Inl _ \<Rightarrow> [] | Inr t \<Rightarrow> t) in
           Some (VMap ([(''fd'', VInt fd), (''path'', VString target), (''type'', VString (file_type target))]
                       @ (if target = [] then [] else [(''real_path'', VString target)])))))"

definition processOpenFiles_Execute :: "lin_env \<Rightarrow> Reader \<Rightarrow> gmap \<Rightarrow> gvalue outcome" where
  "processOpenFiles_Execute env r params =
     and_then (required_pid env params) (\<lambda>pid.
     (let fdDir = filepath_Join [''proc'', Itoa pid, ''fd''] in
      if \<not> Reader_Exists (lx_fs env) r [fdDir] then Stop (''process '' @ Itoa pid @ '' not found or no fd directory'')
      else (case ReadDirNames (lx_fs env) r [fdDir] of
              Inl err \<Rightarrow> Stop (''read fd directory: '' @ err)
            | Inr entries \<Rightarrow> Go (VMap [(''files'', VList (List.map_filter (open_file env r fdDir) entries))]))))"

section \<open>linux.process.stack\<close>

definition stack_entry :: "nat \<Rightarrow> gostring \<Rightarrow> gvalue option" where
  "stack_entry i line0 =
     (let line = TrimSpace line0;
          fn = (if HasPrefix line ''['' \<and> HasSuffix line '']'' then butlast (tl line) else line)
      in if line = [] then None
         else Some (VMap [(''frame'', VInt (int i)), (''function'', VString fn), (''raw'', VString line)]))"

definition parseStack :: "gostring \<Rightarrow> gvalue list" where
  "parseStack d =
     (let ls = Split (CHR 0x0A) d in List.map_filter (\<lambda>(i, line). stack_entry i line) (enumerate 0 ls))"

definition processStack_Execute :: "lin_env \<Rightarrow> Reader \<Rightarrow> gmap \<Rightarrow> gvalue outcome" where
  "processStack_Execute env r params =
     and_then (required_pid env params) (\<lambda>pid.
     (case ReadFileString (lx_fs env) r [''proc'', Itoa pid, ''stack''] of
        Inl err \<Rightarrow>
          (if lx_IsPermission env err
           then Stop (''insufficient privileges to read stack for process '' @ Itoa pid
                      @ '' (requires CAP_SYS_PTRACE or root)'')
           else Stop (''read stack: '' @ err))
      | Inr d \<Rightarrow> Go (VMap [(''stack'', VList (parseStack d))])))"

section \<open>linux.process.tree\<close>

text \<open>
  The processes that were read, and for each parent its children in the order of their identifiers.
  The recursion of \<open>buildNode\<close> follows the parents as they were read, which may not be a tree: the first
  argument bounds its depth, \<open>None\<close> is a recursion that has not ended, \<open>Some None\<close> the nil pointer.
\<close>

datatype ProcessTreeNode = Node ProcessSummary "ProcessTreeNode list"

definition tree_process :: "ProcessSummary list \<Rightarrow> int \<Rightarrow> ProcessSummary option" where
  "tree_process ps pid = find (\<lambda>p. pr_PID p = pid) (rev ps)"

definition tree_children :: "ProcessSummary list \<Rightarrow> int \<Rightarrow> int list" where
  "tree_children ps pid = sort (map pr_PID (filter (\<lambda>p. pr_PPID p = pid) ps))"

primrec buildNode :: "nat \<Rightarrow> ProcessSummary list \<Rightarrow> int \<Rightarrow> ProcessTreeNode option option" where
  "buildNode 0 ps pid = None"
| "buildNode (Suc n) ps pid =
     (case tree_process ps pid of
        None \<Rightarrow> Some None
      | Some info \<Rightarrow>
          (let cs = map (buildNode n ps) (tree_children ps pid) in
           if None \<in> set cs then None
           else Some (Some (Node info (List.map_filter (\<lambda>c. the c) cs)))))"

fun tree_value :: "ProcessTreeNode \<Rightarrow> gvalue" where
  "tree_value (Node p cs) =
     VMap ([(''pid'', VInt (pr_PID p)), (''ppid'', VInt (pr_PPID p))]
           @ (if pr_User p = [] then [] else [(''user'', VString (pr_User p))])
           @ [(''state'', VString (pr_State p)), (''command'', VString (pr_Command p))]
           @ (if cs = [] then [] else [(''children'', VList (map tree_value cs))]))"

definition tree_processes :: "lin_env \<Rightarrow> Reader \<Rightarrow> gostring \<Rightarrow> gostring list \<Rightarrow> ProcessSummary list" where
  "tree_processes env r userFilter entries =
     filter (\<lambda>s. \<not> (userFilter \<noteq> [] \<and> \<not> EqualFold (pr_User s) userFilter))
       (List.map_filter (readProcessSummary env r) (List.map_filter parsePIDDir entries))"

text \<open>\<open>None\<close>: the recursion is deeper than \<open>n\<close>.\<close>

definition processTree_Execute :: "nat \<Rightarrow> lin_env \<Rightarrow> Reader \<Rightarrow> gmap \<Rightarrow> gvalue outcome option" where
  "processTree_Execute n env r params =
     (let root0 = value_or 0 (OptionalInt (lx_oor env) params ''pid'' 1);
          rootPID = (if root0 \<le> 0 then 1 else root0);
          userFilter = value_or [] (OptionalString params ''user'' [])
      in case ReadDirNames (lx_fs env) r [''proc''] of
           Inl err \<Rightarrow> Some (Stop (''read /proc: '' @ err))
         | Inr entries \<Rightarrow>
             (case buildNode n (tree_processes env r userFilter entries) rootPID of
                None \<Rightarrow> None
              | Some None \<Rightarrow> Some (Stop (''root process '' @ Itoa rootPID @ '' not found''))
              | Some (Some root) \<Rightarrow> Some (Go (VMap [(''root'', tree_value root)]))))"

end
