(* ===== verification/Linux_System.thy ===== *)
theory Linux_System
  imports Linux_Process
begin

text \<open>
  The tasks of \<open>internal/provider/linux\<close> on the state of the system as \<open>/proc\<close> tells it: memory,
  processors, load, pressure, swap, kernel, resolver and network counters. \<open>strconv.ParseFloat\<close> is
  the argument \<open>lx_ParseFloat\<close>, the number it returns and the error; times are nanoseconds since 1970.
\<close>

section \<open>Reading\<close>

definition lines_or_stop :: "lin_env \<Rightarrow> Reader \<Rightarrow> gostring list \<Rightarrow> gostring \<Rightarrow> gostring list outcome" where
  "lines_or_stop env r elem what =
     (case ReadFileLines (lx_fs env) r elem of Inl err \<Rightarrow> Stop (what @ '': '' @ err) | Inr ls \<Rightarrow> Go ls)"

definition text_or_stop :: "lin_env \<Rightarrow> Reader \<Rightarrow> gostring list \<Rightarrow> gostring \<Rightarrow> gostring outcome" where
  "text_or_stop env r elem what =
     (case ReadFileString (lx_fs env) r elem of Inl err \<Rightarrow> Stop (what @ '': '' @ err) | Inr s \<Rightarrow> Go s)"

definition parsed_lines :: "(gostring \<Rightarrow> 'a option) \<Rightarrow> gostring list \<Rightarrow> 'a list" where
  "parsed_lines f ls = List.map_filter (\<lambda>line. if TrimSpace line = [] then None else f (TrimSpace line)) ls"

text \<open>The assignments \<open>m[k] = v\<close> of a list of pairs, in order.\<close>

definition assign_all :: "(gostring \<times> 'v) list \<Rightarrow> (gostring \<times> 'v) list \<Rightarrow> (gostring \<times> 'v) list" where
  "assign_all kvs m = fold (\<lambda>(k, v). AList.update k v) kvs m"

definition float_value :: "lin_env \<Rightarrow> gostring \<Rightarrow> gofloat" where
  "float_value env s = fst (lx_ParseFloat env s)"

definition float_zero :: gofloat where
  "float_zero = float64_of_int 0"

section \<open>linux.memory.info and linux.memory.vmstat\<close>

definition byte_counters :: "(gostring \<times> gostring) list" where
  "byte_counters =
     [(''MemTotal'', ''mem_total_bytes''), (''MemFree'', ''mem_free_bytes''),
      (''MemAvailable'', ''mem_available_bytes''), (''SwapTotal'', ''swap_total_bytes''),
      (''SwapFree'', ''swap_free_bytes'')]"

definition memory_result :: "(gostring \<times> int) list \<Rightarrow> gmap" where
  "memory_result meminfo =
     assign_all
       (List.map_filter
          (\<lambda>(k, name). map_option (\<lambda>v. (name, VUint64 ((v * 1024) mod 18446744073709551616))) (map_of meminfo k))
          byte_counters)
       (map (\<lambda>(k, v). (k, VUint64 v)) meminfo)"

definition readMemoryInfo :: "lin_env \<Rightarrow> Reader \<Rightarrow> gmap outcome" where
  "readMemoryInfo env r =
     and_then (lines_or_stop env r [''proc'', ''meminfo''] ''read /proc/meminfo'') (\<lambda>ls.
     Go (memory_result (assign_all (parsed_lines ParseMemInfoKB ls) [])))"

definition memoryInfo_Execute :: "lin_env \<Rightarrow> Reader \<Rightarrow> gmap \<Rightarrow> gvalue outcome" where
  "memoryInfo_Execute env r params = and_then (readMemoryInfo env r) (\<lambda>d. Go (VMap d))"

definition vmstat_line :: "gostring \<Rightarrow> (gostring \<times> gvalue) option" where
  "vmstat_line line =
     (case Fields line of
        key # f1 # _ \<Rightarrow> map_option (\<lambda>val. (key, VUint64 val)) (ParseUint 64 f1)
      | _ \<Rightarrow> None)"

definition readMemoryVmstat :: "lin_env \<Rightarrow> Reader \<Rightarrow> gmap outcome" where
  "readMemoryVmstat env r =
     and_then (lines_or_stop env r [''proc'', ''vmstat''] ''read /proc/vmstat'') (\<lambda>ls.
     Go (assign_all (parsed_lines vmstat_line ls) []))"

definition memoryVmstat_Execute :: "lin_env \<Rightarrow> Reader \<Rightarrow> gmap \<Rightarrow> gvalue outcome" where
  "memoryVmstat_Execute env r params = and_then (readMemoryVmstat env r) (\<lambda>d. Go (VMap d))"

section \<open>linux.load.info and linux.system.uptime\<close>

definition readLoadInfo :: "lin_env \<Rightarrow> Reader \<Rightarrow> gmap outcome" where
  "readLoadInfo env r =
     and_then (text_or_stop env r [''proc'', ''loadavg''] ''read /proc/loadavg'') (\<lambda>d.
     (case Fields d of
        f0 # f1 # f2 # more_fields \<Rightarrow>
          Go ([(''loadavg_1min'', VFloat64 (float_value env f0)), (''loadavg_5min'', VFloat64 (float_value env f1)),
               (''loadavg_15min'', VFloat64 (float_value env f2))]
              @ (case more_fields of
                   f3 # f4 # _ \<Rightarrow>
                     (case SplitN2 (CHR ''/'') f3 of
                        [a, b] \<Rightarrow> [(''runnable_tasks'', VInt (Atoi_value a)), (''total_tasks'', VInt (Atoi_value b))]
                      | _ \<Rightarrow> [])
                     @ [(''last_pid'', VInt (Atoi_value f4))]
                 | _ \<Rightarrow> []))
      | _ \<Rightarrow> Stop ''invalid /proc/loadavg format''))"

definition loadInfo_Execute :: "lin_env \<Rightarrow> Reader \<Rightarrow> gmap \<Rightarrow> gvalue outcome" where
  "loadInfo_Execute env r params = and_then (readLoadInfo env r) (\<lambda>d. Go (VMap d))"

text \<open>\<open>time.Now().Add(-time.Duration(s) * time.Second)\<close>: the product wraps.\<close>

definition boot_time :: "lin_env \<Rightarrow> gofloat \<Rightarrow> int" where
  "boot_time env s = lx_Now env + wrap64 (- int64_of_float (lx_oor env) s * Second)"

definition readSystemUptime :: "lin_env \<Rightarrow> Reader \<Rightarrow> gmap outcome" where
  "readSystemUptime env r =
     and_then (text_or_stop env r [''proc'', ''uptime''] ''read /proc/uptime'') (\<lambda>uptimeData.
     (case Fields uptimeData of
        [] \<Rightarrow> Stop ''invalid /proc/uptime format''
      | u # _ \<Rightarrow>
          (case lx_ParseFloat env u of
             (_, Some err) \<Rightarrow> Stop (''parse uptime: '' @ err)
           | (uptimeSeconds, None) \<Rightarrow>
               and_then (text_or_stop env r [''proc'', ''loadavg''] ''read /proc/loadavg'') (\<lambda>loadData.
               (case Fields loadData of
                  f0 # f1 # f2 # _ \<Rightarrow>
                    Go [(''uptime_seconds'', VFloat64 uptimeSeconds),
                        (''uptime_human'', VString (HumanDuration (int64_of_float (lx_oor env) uptimeSeconds))),
                        (''boot_time'', VString (lx_FormatTime env (boot_time env uptimeSeconds))),
                        (''load_average'',
                           VMap [(''1min'', VFloat64 (float_value env f0)), (''5min'', VFloat64 (float_value env f1)),
                                 (''15min'', VFloat64 (float_value env f2))])]
                | _ \<Rightarrow> Stop ''invalid /proc/loadavg format'')))))"

definition systemUptime_Execute :: "lin_env \<Rightarrow> Reader \<Rightarrow> gmap \<Rightarrow> gvalue outcome" where
  "systemUptime_Execute env r params = and_then (readSystemUptime env r) (\<lambda>d. Go (VMap d))"

section \<open>linux.kernel.cmdline\<close>

definition readKernelCmdline :: "lin_env \<Rightarrow> Reader \<Rightarrow> gmap outcome" where
  "readKernelCmdline env r =
     and_then (text_or_stop env r [''proc'', ''cmdline''] ''read /proc/cmdline'') (\<lambda>text.
     (let raw = TrimSpace text;
          args = filter (\<lambda>p. p \<noteq> []) (if CHR 0x00 \<in> set raw then Split (CHR 0x00) raw else Fields raw)
      in Go [(''raw'', VString raw), (''args'', VStrings args), (''count'', VInt (int (length args)))]))"

definition kernelCmdline_Execute :: "lin_env \<Rightarrow> Reader \<Rightarrow> gmap \<Rightarrow> gvalue outcome" where
  "kernelCmdline_Execute env r params = and_then (readKernelCmdline env r) (\<lambda>d. Go (VMap d))"

section \<open>linux.pressure.get\<close>

text \<open>The last occurrence of a key counts.\<close>

definition pressure_fields :: "lin_env \<Rightarrow> gostring list \<Rightarrow> gmap" where
  "pressure_fields env fs =
     assign_all
       (List.map_filter
          (\<lambda>f. case SplitN2 (CHR ''='') f of
                 [key, val] \<Rightarrow>
                   (if key \<in> {''avg10'', ''avg60'', ''avg300''} then Some (key, VFloat64 (float_value env val))
                    else if key = ''total'' then Some (key, VUint64 (ParseUint_value val))
                    else None)
               | _ \<Rightarrow> None)
          fs)
       [(''avg10'', VFloat64 float_zero), (''avg60'', VFloat64 float_zero), (''avg300'', VFloat64 float_zero),
        (''total'', VUint64 0)]"

definition parsePressureLine :: "lin_env \<Rightarrow> gostring \<Rightarrow> gvalue option" where
  "parsePressureLine env line =
     (let fs = Fields line in if length fs < 5 then None else Some (VMap (pressure_fields env (tl fs))))"

fun pressure_lines :: "lin_env \<Rightarrow> gostring list \<Rightarrow> gvalue option \<times> gvalue option \<Rightarrow> gvalue option \<times> gvalue option" where
  "pressure_lines env [] pr = pr"
| "pressure_lines env (line0 # ls) (sm, full) =
     (let line = TrimSpace line0 in
      if HasPrefix line ''some '' then pressure_lines env ls (parsePressureLine env line, full)
      else if HasPrefix line ''full '' then pressure_lines env ls (sm, parsePressureLine env line)
      else pressure_lines env ls (sm, full))"

definition some_field :: "gostring \<Rightarrow> gvalue option \<Rightarrow> gmap" where
  "some_field key v = (case v of None \<Rightarrow> [] | Some x \<Rightarrow> [(key, x)])"

definition parsePressureResource :: "lin_env \<Rightarrow> gostring list \<Rightarrow> gvalue option" where
  "parsePressureResource env ls =
     (case pressure_lines env ls (None, None) of
        (None, None) \<Rightarrow> None
      | (sm, full) \<Rightarrow> Some (VMap (some_field ''some'' sm @ some_field ''full'' full)))"

definition readPressure :: "lin_env \<Rightarrow> Reader \<Rightarrow> gmap" where
  "readPressure env r =
     List.map_filter
       (\<lambda>res. case ReadFileLines (lx_fs env) r [''proc'', ''pressure'', res] of
                Inl _ \<Rightarrow> None | Inr ls \<Rightarrow> map_option (\<lambda>v. (res, v)) (parsePressureResource env ls))
       [''cpu'', ''memory'', ''io'']"

definition pressureGet_Execute :: "lin_env \<Rightarrow> Reader \<Rightarrow> gmap \<Rightarrow> gvalue outcome" where
  "pressureGet_Execute env r params = Go (VMap (readPressure env r))"

section \<open>linux.swap.list\<close>

definition swap_line :: "gostring \<Rightarrow> gvalue option" where
  "swap_line line =
     (case Fields line of
        f0 # f1 # f2 # f3 # f4 # _ \<Rightarrow>
          Some (VMap [(''filename'', VString f0), (''type'', VString f1), (''size'', VUint64 (ParseUint_value f2)),
                      (''used'', VUint64 (ParseUint_value f3)), (''priority'', VInt (Atoi_value f4))])
      | _ \<Rightarrow> None)"

definition listed_as :: "gostring \<Rightarrow> gvalue list \<Rightarrow> gmap" where
  "listed_as key vs = [(key, VList vs), (''count'', VInt (int (length vs)))]"

definition swapList_Execute :: "lin_env \<Rightarrow> Reader \<Rightarrow> gmap \<Rightarrow> gvalue outcome" where
  "swapList_Execute env r params =
     and_then (lines_or_stop env r [''proc'', ''swaps''] ''read /proc/swaps'') (\<lambda>ls.
     Go (VMap (listed_as ''swaps'' (parsed_lines swap_line (tl ls)))))"

section \<open>linux.cpu.stats\<close>

definition cpu_fields :: "(gostring \<times> bool) list" where
  "cpu_fields =
     [(''user'', False), (''nice'', False), (''system'', False), (''idle'', False), (''iowait'', True), (''irq'', True),
      (''softirq'', True), (''steal'', True), (''guest'', True), (''guest_nice'', True)]"

text \<open>A field with \<open>omitempty\<close> is left out if it is zero; one the line does not have is zero.\<close>

definition cpu_value :: "gostring \<Rightarrow> int list \<Rightarrow> gvalue" where
  "cpu_value name vals =
     VMap ((''name'', VString name)
           # List.map_filter
               (\<lambda>(i, (key, omit)).
                  let v = (if i < length vals then vals ! i else 0) in
                  if omit \<and> v = 0 then None else Some (key, VUint64 v))
               (enumerate 0 cpu_fields))"

definition parseCPUStatLine :: "gostring list \<Rightarrow> (gostring \<times> gvalue) option" where
  "parseCPUStatLine fs =
     (case fs of
        name # rest \<Rightarrow>
          (if length fs < 5 then None
           else (let vals = map (ParseUint 64) rest in
                 if None \<in> set vals then None else Some (name, cpu_value name (map the vals))))
      | [] \<Rightarrow> None)"

definition cpu_line :: "gostring \<Rightarrow> (gostring \<times> gvalue) option" where
  "cpu_line line = (if HasPrefix line ''cpu'' then parseCPUStatLine (Fields line) else None)"

definition readCPUStats :: "lin_env \<Rightarrow> Reader \<Rightarrow> bool \<Rightarrow> gmap outcome" where
  "readCPUStats env r perCPU =
     and_then (lines_or_stop env r [''proc'', ''stat''] ''read /proc/stat'') (\<lambda>ls.
     (let stats = parsed_lines cpu_line ls;
          whole = filter (\<lambda>(n, _). n = ''cpu'') stats
      in Go ((if whole = [] then [] else [(''total'', snd (last whole))])
             @ (if perCPU then [(''per_cpu'', VList (map snd (filter (\<lambda>(n, _). n \<noteq> ''cpu'') stats)))] else []))))"

definition cpuStats_Execute :: "lin_env \<Rightarrow> Reader \<Rightarrow> gmap \<Rightarrow> gvalue outcome" where
  "cpuStats_Execute env r params =
     and_then (readCPUStats env r (value_or False (OptionalBool params ''per_cpu'' False))) (\<lambda>d. Go (VMap d))"

section \<open>linux.kernel.taint\<close>

definition taintFlags :: "(nat \<times> gostring) list" where
  "taintFlags =
     [(0, ''proprietary_module''), (1, ''non_gpl_module''), (2, ''unsafe_smp''), (3, ''forced_rmmod''),
      (4, ''machine_check''), (5, ''bad_page''), (6, ''user''), (7, ''die''), (8, ''acpi_overridden''), (9, ''warn''),
      (10, ''staging_driver''), (11, ''firmware_workaround''), (12, ''out_of_tree_module''), (13, ''unsigned_module''),
      (14, ''softlockup''), (15, ''livepatch''), (16, ''aux_taint''), (17, ''randstruct''), (18, ''test'')]"

definition active_flags :: "int \<Rightarrow> gostring list" where
  "active_flags val = map snd (filter (\<lambda>(n, _). bit val n) taintFlags)"

definition ParseUint_error :: "lin_env \<Rightarrow> gostring \<Rightarrow> gostring" where
  "ParseUint_error env s =
     ''strconv.ParseUint: parsing '' @ Quote (lx_esc env) s
     @ (if s = [] \<or> \<not> list_all is_digit s then '': invalid syntax'' else '': value out of range'')"

definition kernelTaint_Execute :: "lin_env \<Rightarrow> Reader \<Rightarrow> gmap \<Rightarrow> gvalue outcome" where
  "kernelTaint_Execute env r params =
     (case ReadFileString (lx_fs env) r [''proc'', ''sys'', ''kernel'', ''tainted''] of
        Inl err \<Rightarrow> Stop (''read /proc/sys/kernel/tainted: '' @ err)
      | Inr s \<Rightarrow>
          (case ParseUint 64 (TrimSpace s) of
             None \<Rightarrow> Stop (''read /proc/sys/kernel/tainted: '' @ ParseUint_error env (TrimSpace s))
           | Some val \<Rightarrow>
               (let active = active_flags val in
                Go (VMap [(''tainted'', VUint64 val), (''flags'', VStrings active),
                          (''flag_count'', VInt (int (length active))), (''is_tainted'', VBool (active \<noteq> []))]))))"

end
