(* ===== verification/Go_IP.thy ===== *)
theory Go_IP
  imports Go_Format Network_Provider
begin

text \<open>
  Addresses as text: \<open>net.IP.String\<close>, and \<open>strconv.ParseUint\<close> with base 16. An IPv6 address is written
  in groups without leading zeros, with the first of the longest runs of zero groups as \<open>::\<close>.
\<close>

section \<open>Hexadecimal numbers\<close>

definition lower_byte :: "char \<Rightarrow> char" where
  "lower_byte c = (if CHR ''A'' \<le> c \<and> c \<le> CHR ''Z'' then char_of (of_char c + 32 :: nat) else c)"

text \<open>The value of a digit or letter in a base up to 36.\<close>

definition digit_in :: "char \<Rightarrow> int option" where
  "digit_in c0 =
     (let c = lower_byte c0 in
      if is_digit c then Some (digit_value c)
      else if CHR ''a'' \<le> c \<and> c \<le> CHR ''z'' then Some (of_char c - 87) else None)"

fun hex_digits :: "gostring \<Rightarrow> int \<Rightarrow> int option" where
  "hex_digits [] n = Some n"
| "hex_digits (c # cs) n =
     (case digit_in c of None \<Rightarrow> None | Some d \<Rightarrow> (if d \<ge> 16 then None else hex_digits cs (n * 16 + d)))"

definition ParseHex :: "nat \<Rightarrow> gostring \<Rightarrow> int option" where
  "ParseHex bits s =
     (if s = [] then None
      else (case hex_digits s 0 of None \<Rightarrow> None | Some n \<Rightarrow> (if n \<ge> 2 ^ bits then None else Some n)))"

fun hex_nat :: "nat \<Rightarrow> gostring" where
  "hex_nat n = (if n < 16 then [hex_digit n] else hex_nat (n div 16) @ [hex_digit (n mod 16)])"

declare hex_nat.simps [simp del]

section \<open>net.IP.String\<close>

fun v6_groups :: "net_IP \<Rightarrow> nat list" where
  "v6_groups (a # b # bs) = (unat a * 256 + unat b) # v6_groups bs"
| "v6_groups _ = []"

definition zero_run :: "nat list \<Rightarrow> (nat \<times> nat) option" where
  "zero_run gs =
     fold (\<lambda>i best.
             let l = length (takeWhile (\<lambda>g. g = 0) (drop i gs)) in
             if l \<ge> 2 \<and> (case best of None \<Rightarrow> True | Some (s, e) \<Rightarrow> l > e - s) then Some (i, i + l) else best)
       [0..<length gs] None"

definition v6_text :: "net_IP \<Rightarrow> gostring" where
  "v6_text ip =
     (let gs = v6_groups ip; text = (\<lambda>xs. Join (map hex_nat xs) '':'') in
      case zero_run gs of None \<Rightarrow> text gs | Some (s, e) \<Rightarrow> text (take s gs) @ ''::'' @ text (drop e gs))"

definition byte_text :: "byte \<Rightarrow> gostring" where
  "byte_text b = [hex_digit (unat b div 16), hex_digit (unat b mod 16)]"

definition IP_String :: "net_IP \<Rightarrow> gostring" where
  "IP_String ip =
     (if ip = [] then ''<nil>''
      else (case To4 ip of
              Some p \<Rightarrow> Join (map (\<lambda>b. Itoa (uint b)) p) ''.''
            | None \<Rightarrow> (if length ip = 16 then v6_text ip else ''?'' @ concat (map byte_text ip))))"


section \<open>Reading what the kernel writes\<close>

text \<open>A byte as two capital digits, as \<open>%02X\<close> writes it.\<close>

definition hex_upper :: "nat \<Rightarrow> char" where
  "hex_upper d = (if d < 10 then char_of (48 + d) else char_of (55 + d))"

definition byte_hex :: "byte \<Rightarrow> gostring" where
  "byte_hex b = [hex_upper (unat b div 16), hex_upper (unat b mod 16)]"

lemma digit_in_hex_upper: "d < 16 \<Longrightarrow> digit_in (hex_upper d) = Some (int d)"
proof -
  assume "d < 16"
  then have "d \<in> set [0..<16]" by simp
  moreover have "\<forall>d \<in> set [0..<16]. digit_in (hex_upper d) = Some (int d)" by code_simp
  ultimately show ?thesis by blast
qed

lemma hex_digits_byte: "hex_digits (byte_hex b @ cs) n = hex_digits cs (n * 256 + uint b)"
proof -
  define h l where "h = unat b div 16" and "l = unat b mod 16"
  have "h < 16" "l < 16" using unsigned_less [of b, where 'a = nat] by (simp_all add: h_def l_def)
  moreover have "uint b = int h * 16 + int l" 
  proof -
    have "int (unat b) = int (h * 16 + l)" by (simp add: h_def l_def)
    then show ?thesis by simp
  qed
  ultimately show ?thesis
    by (simp add: byte_hex_def digit_in_hex_upper algebra_simps flip: h_def l_def)
qed

lemma length_byte_hex [simp]: "length (byte_hex b) = 2"
  by (simp add: byte_hex_def)

lemma ParseHex_byte [simp]: "ParseHex 8 (byte_hex b) = Some (uint b)"
  using hex_digits_byte [of b "[]" 0] unsigned_less [of b, where 'a = int] by (simp add: ParseHex_def byte_hex_def)

end
