(* ===== verification/Linux_Kernel.thy ===== *)
theory Linux_Kernel
  imports Linux_System Go_IP Autoconf_Extract
begin

text \<open>
  The tasks of \<open>internal/provider/linux\<close> on the kernel and the host: \<open>kernel_sysctl_get.go\<close>,
  \<open>kernel_modules_list.go\<close>, \<open>capabilities_get.go\<close>, \<open>system_info.go\<close>, \<open>system_environment.go\<close>,
  \<open>filesystem_mounts.go\<close>, \<open>dns_config.go\<close> and \<open>network_stats.go\<close>.
\<close>

section \<open>linux.kernel.sysctl.get\<close>

definition nonempty_string :: "gvalue \<Rightarrow> gostring option" where
  "nonempty_string v = (case v of VString s \<Rightarrow> (if s = [] then None else Some s) | _ \<Rightarrow> None)"

definition sysctl_keys :: "gmap \<Rightarrow> gostring list" where
  "sysctl_keys params =
     (case map_of params ''key'' of Some v \<Rightarrow> (case nonempty_string v of Some s \<Rightarrow> [s] | None \<Rightarrow> []) | None \<Rightarrow> [])
     @ (case map_of params ''keys'' of Some (VList vs) \<Rightarrow> List.map_filter nonempty_string vs | _ \<Rightarrow> [])"

definition valid_sysctl_part :: "gostring \<Rightarrow> bool" where
  "valid_sysctl_part p \<longleftrightarrow> \<not> (p = [] \<or> p = ''..'' \<or> CHR ''/'' \<in> set p \<or> CHR 0x5C \<in> set p)"

text \<open>The values, a map, and the failures, of the keys in order.\<close>

fun read_sysctls :: "lin_env \<Rightarrow> Reader \<Rightarrow> gostring list \<Rightarrow> environment \<times> gostring list \<Rightarrow> environment \<times> gostring list" where
  "read_sysctls env r [] acc = acc"
| "read_sysctls env r (key0 # ks) (results, failures) =
     (let key = TrimSpace key0; parts = Split (CHR ''.'') key in
      if key = [] then read_sysctls env r ks (results, failures)
      else if \<not> list_all valid_sysctl_part parts then read_sysctls env r ks (results, failures @ [key @ '': invalid key''])
      else
        (case ReadFileString (lx_fs env) r ([''proc'', ''sys''] @ parts) of
           Inl err \<Rightarrow> read_sysctls env r ks (results, failures @ [key @ '': '' @ err])
         | Inr val \<Rightarrow> read_sysctls env r ks (AList.update key (TrimSpace val) results, failures)))"

definition readKernelSysctlGet :: "lin_env \<Rightarrow> Reader \<Rightarrow> gostring list \<Rightarrow> gmap" where
  "readKernelSysctlGet env r ks =
     (let (results, failures) = read_sysctls env r ks ([], []) in
      [(''values'', VStrMap results), (''failures'', VStrings failures), (''count'', VInt (int (length results)))])"

definition kernelSysctlGet_Execute :: "lin_env \<Rightarrow> Reader \<Rightarrow> gmap \<Rightarrow> gvalue outcome" where
  "kernelSysctlGet_Execute env r params =
     (let ks = sysctl_keys params in
      if ks = [] then Stop ''missing required parameter: key or keys''
      else Go (VMap (readKernelSysctlGet env r ks)))"

section \<open>linux.kernel.modules.list\<close>

definition ParseInt_value :: "gostring \<Rightarrow> int" where
  "ParseInt_value s = Atoi_value s"

definition module_line :: "gostring \<Rightarrow> gvalue option" where
  "module_line line =
     (case Fields line of
        f0 # f1 # f2 # f3 # f4 # f5 # _ \<Rightarrow>
          Some (VMap [(''name'', VString f0), (''size'', VInt64 (ParseInt_value f1)), (''instances'', VInt (Atoi_value f2)),
                      (''dependencies'',
                         VStrings (if f3 = ''-'' then [] else filter (\<lambda>d. d \<noteq> []) (Split (CHR '','') f3))),
                      (''state'', VString f4), (''address'', VString f5)])
      | _ \<Rightarrow> None)"

definition kernelModulesList_Execute :: "lin_env \<Rightarrow> Reader \<Rightarrow> gmap \<Rightarrow> gvalue outcome" where
  "kernelModulesList_Execute env r params =
     and_then (lines_or_stop env r [''proc'', ''modules''] ''read /proc/modules'') (\<lambda>ls.
     Go (VMap (listed_as ''modules'' (parsed_lines module_line ls))))"

section \<open>linux.security.capabilities.get\<close>

text \<open>
  \<open>strconv.ParseUint(s, 0, 64)\<close>: the base follows from the prefix, and underscores may separate digits.
\<close>

fun digits_in_base :: "int \<Rightarrow> gostring \<Rightarrow> int \<Rightarrow> int option" where
  "digits_in_base base [] n = Some n"
| "digits_in_base base (c # cs) n =
     (if c = CHR ''_'' then digits_in_base base cs n
      else (case digit_in c of
              None \<Rightarrow> None
            | Some d \<Rightarrow> (if d \<ge> base then None else digits_in_base base cs (n * base + d))))"

definition number_base :: "gostring \<Rightarrow> int \<times> gostring" where
  "number_base s =
     (case s of
        c0 # c1 # c2 # cs \<Rightarrow>
          (if c0 \<noteq> CHR ''0'' then (10, s)
           else if lower_byte c1 = CHR ''b'' then (2, c2 # cs)
           else if lower_byte c1 = CHR ''o'' then (8, c2 # cs)
           else if lower_byte c1 = CHR ''x'' then (16, c2 # cs)
           else (8, tl s))
      | c0 # cs \<Rightarrow> (if c0 = CHR ''0'' then (8, cs) else (10, s))
      | [] \<Rightarrow> (10, s))"

text \<open>\<open>i\<close> is the kind of the byte before: a digit, an underscore, or something else.\<close>

fun underscores_ok :: "bool \<Rightarrow> char \<Rightarrow> gostring \<Rightarrow> bool" where
  "underscores_ok hex i [] \<longleftrightarrow> i \<noteq> CHR ''_''"
| "underscores_ok hex i (c # cs) \<longleftrightarrow>
     (if is_digit c \<or> hex \<and> CHR ''a'' \<le> lower_byte c \<and> lower_byte c \<le> CHR ''f'' then underscores_ok hex (CHR ''0'') cs
      else if c = CHR ''_'' then i = CHR ''0'' \<and> underscores_ok hex (CHR ''_'') cs
      else i \<noteq> CHR ''_'' \<and> underscores_ok hex (CHR ''!'') cs)"

definition underscoreOK :: "gostring \<Rightarrow> bool" where
  "underscoreOK s0 \<longleftrightarrow>
     (let s = (if s0 \<noteq> [] \<and> (hd s0 = CHR ''-'' \<or> hd s0 = CHR ''+'') then tl s0 else s0) in
      case s of
        c0 # c1 # cs \<Rightarrow>
          (if c0 = CHR ''0'' \<and> lower_byte c1 \<in> {CHR ''b'', CHR ''o'', CHR ''x''}
           then underscores_ok (lower_byte c1 = CHR ''x'') (CHR ''0'') cs else underscores_ok False (CHR 0x5E) s)
      | _ \<Rightarrow> underscores_ok False (CHR 0x5E) s)"

definition ParseUint_base0 :: "gostring \<Rightarrow> int option" where
  "ParseUint_base0 s =
     (if s = [] then None
      else (let (base, ds) = number_base s in
            case digits_in_base base ds 0 of
              None \<Rightarrow> None
            | Some n \<Rightarrow>
                (if n \<ge> 18446744073709551616 then None
                 else if CHR ''_'' \<in> set ds \<and> \<not> underscoreOK s then None
                 else Some n)))"

definition parseCapHex :: "gostring \<Rightarrow> gostring list" where
  "parseCapHex hexStr =
     (case ParseUint_base0 hexStr of
        None \<Rightarrow> [hexStr]
      | Some val \<Rightarrow> (if val = 0 then [] else [''0x'' @ hex_nat (nat val)]))"

definition capability_lines :: "(gostring \<times> gostring) list" where
  "capability_lines =
     [(''CapEff:'', ''effective''), (''CapPrm:'', ''permitted''), (''CapInh:'', ''inheritable''),
      (''CapAmb:'', ''ambient''), (''CapBnd:'', ''bounding'')]"

definition capability_line :: "gostring \<Rightarrow> (gostring \<times> gvalue) option" where
  "capability_line line =
     (case find (\<lambda>(p, _). HasPrefix line p) capability_lines of
        None \<Rightarrow> None
      | Some (_, key) \<Rightarrow> map_option (\<lambda>f. (key, VStrings (parseCapHex f))) (nth_field (Fields line) 1))"

definition readCapabilities :: "lin_env \<Rightarrow> Reader \<Rightarrow> int \<Rightarrow> gmap outcome" where
  "readCapabilities env r pid =
     and_then (lines_or_stop env r [''proc'', if pid > 0 then Itoa pid else ''proc'', ''status'']
                 (''read /proc/'' @ Itoa pid @ ''/status'')) (\<lambda>ls.
     Go (assign_all (List.map_filter capability_line ls)
           ((''pid'', VInt pid) # map (\<lambda>(_, key). (key, VStrings [])) capability_lines)))"

definition capabilitiesGet_Execute :: "lin_env \<Rightarrow> Reader \<Rightarrow> gmap \<Rightarrow> gvalue outcome" where
  "capabilitiesGet_Execute env r params =
     (let pid0 = value_or 0 (OptionalInt (lx_oor env) params ''pid'' 0);
          pid = (if pid0 \<le> 0 then lx_Getpid env else pid0)
      in case ValidatePID pid of
           Some err \<Rightarrow> Stop err
         | None \<Rightarrow> and_then (readCapabilities env r pid) (\<lambda>d. Go (VMap d)))"

section \<open>linux.system.info\<close>

definition trim_byte :: "char \<Rightarrow> gostring \<Rightarrow> gostring" where
  "trim_byte b s = rev (dropWhile (\<lambda>c. c = b) (rev (dropWhile (\<lambda>c. c = b) s)))"

definition release_names :: "(gostring \<times> gostring) list" where
  "release_names =
     [(''NAME'', ''os_name''), (''VERSION'', ''os_version''), (''VERSION_ID'', ''os_version_id''), (''ID'', ''os_id''),
      (''ID_LIKE'', ''os_id_like''), (''PRETTY_NAME'', ''os_pretty_name'')]"

definition release_line :: "gostring \<Rightarrow> (gostring \<times> gvalue) option" where
  "release_line line =
     (if HasPrefix line ''#'' then None
      else (case SplitN2 (CHR ''='') line of
              [k, v] \<Rightarrow>
                map_option (\<lambda>name. (name, VString (trim_byte (CHR 0x22) (TrimSpace v))))
                  (map_of release_names (TrimSpace k))
            | _ \<Rightarrow> None))"

definition readOSRelease :: "lin_env \<Rightarrow> Reader \<Rightarrow> gmap" where
  "readOSRelease env r =
     (case ReadFileString (lx_fs env) r [''etc'', ''os-release''] of
        Inl _ \<Rightarrow> []
      | Inr d \<Rightarrow> assign_all (parsed_lines release_line (Split (CHR 0x0A) d)) [])"

definition first_containing :: "(gostring \<times> gostring) list \<Rightarrow> gostring \<Rightarrow> gostring option" where
  "first_containing table text = map_option snd (find (\<lambda>(w, _). strings_Contains text w) table)"

definition file_hint :: "lin_env \<Rightarrow> Reader \<Rightarrow> gostring list \<Rightarrow> (gostring \<Rightarrow> gostring option) \<Rightarrow> gostring option" where
  "file_hint env r elem f = (case ReadFileString (lx_fs env) r elem of Inl _ \<Rightarrow> None | Inr s \<Rightarrow> f s)"

definition detectVirtualization :: "lin_env \<Rightarrow> Reader \<Rightarrow> gostring" where
  "detectVirtualization env r =
     (case file_hint env r [''sys'', ''class'', ''dmi'', ''id'', ''product_name'']
             (\<lambda>s. first_containing
                [(''vmware'', ''vmware''), (''virtualbox'', ''virtualbox''), (''kvm'', ''kvm''), (''qemu'', ''kvm''),
                 (''xen'', ''xen''), (''hyper-v'', ''hyper-v''), (''hyperv'', ''hyper-v'')] (ToLower (TrimSpace s))) of
        Some v \<Rightarrow> v
      | None \<Rightarrow>
          (case file_hint env r [''proc'', ''cpuinfo''] (first_containing [(''hypervisor'', ''unknown_hypervisor'')]) of
             Some v \<Rightarrow> v
           | None \<Rightarrow>
               ok_or (file_hint env r [''proc'', ''1'', ''cgroup'']
                  (first_containing [(''docker'', ''docker''), (''lxc'', ''lxc''), (''containerd'', ''containerd''),
                                     (''kubepods'', ''kubernetes'')])) []))"

definition readSystemInfo :: "lin_env \<Rightarrow> Reader \<Rightarrow> gmap" where
  "readSystemInfo env r =
     (case lx_Hostname env of Inl _ \<Rightarrow> [] | Inr h \<Rightarrow> [(''hostname'', VString h)])
     @ readOSRelease env r
     @ (case lx_Uname env of
          None \<Rightarrow> [] | Some (release, machine) \<Rightarrow> [(''kernel'', VString release), (''architecture'', VString machine)])
     @ (case ReadFileString (lx_fs env) r [''proc'', ''sys'', ''kernel'', ''random'', ''boot_id''] of
          Inl _ \<Rightarrow> [] | Inr s \<Rightarrow> [(''boot_id'', VString (TrimSpace s))])
     @ (let virt = detectVirtualization env r in if virt = [] then [] else [(''virtualization'', VString virt)])"

definition systemInfo_Execute :: "lin_env \<Rightarrow> Reader \<Rightarrow> gmap \<Rightarrow> gvalue outcome" where
  "systemInfo_Execute env r params = Go (VMap (readSystemInfo env r))"

section \<open>linux.system.environment\<close>

definition toStringSlice :: "lin_env \<Rightarrow> gvalue \<Rightarrow> gostring + gostring list" where
  "toStringSlice env v =
     (case v of
        VStrings ss \<Rightarrow> Inr ss
      | VList vs \<Rightarrow>
          (case find (\<lambda>x. AsStringOK x = None) vs of
             None \<Rightarrow> Inr (map AsString vs)
           | Some item \<Rightarrow> Inl (''expected string, got '' @ lx_typeName env item))
      | _ \<Rightarrow> Inl (''expected array, got '' @ lx_typeName env v))"

definition pick_names :: "environment \<Rightarrow> gostring list \<Rightarrow> environment" where
  "pick_names e names = assign_all (List.map_filter (\<lambda>n. map_option (\<lambda>v. (n, v)) (map_of e n)) names) []"

definition systemEnvironment_Execute :: "lin_env \<Rightarrow> LinuxConfig \<Rightarrow> gmap \<Rightarrow> gvalue outcome" where
  "systemEnvironment_Execute env cfg params =
     (let whole = env_pairs (lx_Environ env) [] in
      and_then
        (case map_of params ''names'' of
           None \<Rightarrow> Go whole
         | Some raw \<Rightarrow>
             (case toStringSlice env raw of
                Inl err \<Rightarrow> Stop (''names parameter must be a string array: '' @ err)
              | Inr names \<Rightarrow> Go (pick_names whole names)))
        (\<lambda>e1.
           let e = (if redaction_on cfg then RedactSecrets (lx_compile env) e1 (lin_SecretPatterns cfg) else e1) in
           Go (VMap [(''environment'', environment_value e), (''count'', VInt (int (length e))),
                     (''redacted'', VBool (redaction_on cfg))])))"

section \<open>linux.filesystem.mounts\<close>

definition separator_from :: "nat \<Rightarrow> gostring list \<Rightarrow> nat option" where
  "separator_from i fs = find (\<lambda>k. fs ! k = ''-'') [i..<length fs]"

definition mount_value ::
  "int \<Rightarrow> int \<Rightarrow> int \<Rightarrow> int \<Rightarrow> gostring list \<Rightarrow> nat \<Rightarrow> gvalue" where
  "mount_value mountID parentID major minor fs sep =
     VMap [(''mount_id'', VInt mountID), (''parent_id'', VInt parentID), (''device_major'', VInt major),
           (''device_minor'', VInt minor), (''root'', VString (fs ! 3)), (''mount_point'', VString (fs ! 4)),
           (''options'', VStrings (Split (CHR '','') (fs ! 5))), (''filesystem_type'', VString (fs ! (sep + 1))),
           (''source'', VString (fs ! (sep + 2))),
           (''super_options'', VStrings (if length fs > sep + 3 then Split (CHR '','') (fs ! (sep + 3)) else []))]"

definition parseMountinfoLine :: "gostring \<Rightarrow> gvalue option" where
  "parseMountinfoLine line =
     (let fs = Fields line in
      if length fs < 10 then None
      else
        (case (Atoi (fs ! 0), Atoi (fs ! 1), Split (CHR '':'') (fs ! 2)) of
           (Some mountID, Some parentID, [d0, d1]) \<Rightarrow>
             (case (Atoi d0, Atoi d1, separator_from 6 fs) of
                (Some major, Some minor, Some sep) \<Rightarrow>
                  (if length fs < sep + 3 then None else Some (mount_value mountID parentID major minor fs sep))
              | _ \<Rightarrow> None)
         | _ \<Rightarrow> None))"

definition filesystemMounts_Execute :: "lin_env \<Rightarrow> gmap \<Rightarrow> gvalue outcome" where
  "filesystemMounts_Execute env params =
     (case fs_ReadFile (lx_fs env) ''/proc/self/mountinfo'' of
        Inl err \<Rightarrow> Stop (''read mountinfo: '' @ err)
      | Inr d \<Rightarrow> Go (VMap (listed_as ''mounts'' (parsed_lines parseMountinfoLine (Split (CHR 0x0A) d)))))"

section \<open>linux.network.dns.config\<close>

record resolv_conf =
  rc_domain :: "gostring option"
  rc_nameservers :: "gostring list"
  rc_search :: "gostring list"
  rc_options :: "gostring list"
  rc_sortlist :: "gostring list"

definition resolv_line :: "gostring \<Rightarrow> resolv_conf \<Rightarrow> resolv_conf" where
  "resolv_line line cfg =
     (if HasPrefix line ''#'' \<or> HasPrefix line '';'' then cfg
      else
        (case Fields line of
           [] \<Rightarrow> cfg
         | k # args \<Rightarrow>
             (let key = ToLower k in
              if key = ''nameserver'' then
                (case args of a # _ \<Rightarrow> cfg\<lparr>rc_nameservers := rc_nameservers cfg @ [a]\<rparr> | [] \<Rightarrow> cfg)
              else if key = ''domain'' then (case args of a # _ \<Rightarrow> cfg\<lparr>rc_domain := Some a\<rparr> | [] \<Rightarrow> cfg)
              else if key = ''search'' then cfg\<lparr>rc_search := rc_search cfg @ args\<rparr>
              else if key = ''options'' then cfg\<lparr>rc_options := rc_options cfg @ args\<rparr>
              else if key = ''sortlist'' then cfg\<lparr>rc_sortlist := rc_sortlist cfg @ args\<rparr>
              else cfg)))"

definition parseResolvConf :: "lin_env \<Rightarrow> Reader \<Rightarrow> gmap outcome" where
  "parseResolvConf env r =
     (case ReadFileString (lx_fs env) r [''etc'', ''resolv.conf''] of
        Inl err \<Rightarrow> Stop err
      | Inr d \<Rightarrow>
          (let cfg = fold (\<lambda>line. resolv_line (TrimSpace line)) (Split (CHR 0x0A) d)
                       \<lparr>rc_domain = None, rc_nameservers = [], rc_search = [], rc_options = [], rc_sortlist = []\<rparr>
           in Go ((case rc_domain cfg of None \<Rightarrow> [] | Some d1 \<Rightarrow> [(''domain'', VString d1)])
                  @ [(''nameservers'', VStrings (rc_nameservers cfg)), (''search'', VStrings (rc_search cfg)),
                     (''options'', VStrings (rc_options cfg)), (''sortlist'', VStrings (rc_sortlist cfg))])))"

definition dnsConfig_Execute :: "lin_env \<Rightarrow> Reader \<Rightarrow> gmap \<Rightarrow> gvalue outcome" where
  "dnsConfig_Execute env r params = and_then (parseResolvConf env r) (\<lambda>d. Go (VMap d))"

section \<open>linux.network.stats\<close>

definition readLinesFromPath :: "lin_env \<Rightarrow> gostring \<Rightarrow> gostring + gostring list" where
  "readLinesFromPath env path =
     (case ReadFileString (lx_fs env) ''/'' [path] of
        Inl err \<Rightarrow> Inl err | Inr d \<Rightarrow> Inr (Split (CHR 0x0A) (TrimSpace d)))"

definition int64_entries :: "(gostring \<times> gostring) list \<Rightarrow> gvalue" where
  "int64_entries kvs =
     VMap (assign_all (List.map_filter (\<lambda>(k, s). map_option (\<lambda>v. (k, VInt64 v)) (ParseInt s)) kvs) [])"

fun snmp_sections :: "gostring list \<Rightarrow> gmap \<Rightarrow> gmap" where
  "snmp_sections (l1 # l2 # ls) result =
     (let header = Fields l1; vals = Fields l2 in
      snmp_sections ls
        (if header = [] \<or> length header \<noteq> length vals then result
         else AList.update (TrimSuffix (hd header) '':'') (int64_entries (zip (tl header) (tl vals))) result))"
| "snmp_sections _ result = result"

definition parseSnmp :: "lin_env \<Rightarrow> gostring \<Rightarrow> gvalue option" where
  "parseSnmp env path =
     (case readLinesFromPath env path of Inl _ \<Rightarrow> None | Inr ls \<Rightarrow> Some (VMap (snmp_sections ls [])))"

fun pair_up :: "gostring list \<Rightarrow> (gostring \<times> gostring) list" where
  "pair_up (k # v # rest) = (k, v) # pair_up rest"
| "pair_up _ = []"

definition sockstat_line :: "gostring \<Rightarrow> (gostring \<times> gvalue) option" where
  "sockstat_line line =
     (case Fields line of
        k # f # rest \<Rightarrow> Some (TrimSuffix k '':'', int64_entries (pair_up (f # rest)))
      | _ \<Rightarrow> None)"

definition parseSockstat :: "lin_env \<Rightarrow> gostring \<Rightarrow> gvalue option" where
  "parseSockstat env path =
     (case readLinesFromPath env path of
        Inl _ \<Rightarrow> None | Inr ls \<Rightarrow> Some (VMap (assign_all (parsed_lines sockstat_line ls) [])))"

definition collectNetworkStats :: "lin_env \<Rightarrow> Reader \<Rightarrow> gmap" where
  "collectNetworkStats env r =
     some_field ''snmp'' (parseSnmp env (Reader_Path r [''proc'', ''net'', ''snmp'']))
     @ some_field ''netstat'' (parseSnmp env (Reader_Path r [''proc'', ''net'', ''netstat'']))
     @ some_field ''sockstat'' (parseSockstat env (Reader_Path r [''proc'', ''net'', ''sockstat'']))"

definition networkStats_Execute :: "lin_env \<Rightarrow> Reader \<Rightarrow> gmap \<Rightarrow> gvalue outcome" where
  "networkStats_Execute env r params = Go (VMap (collectNetworkStats env r))"

end
