(* ===== verification/Linux_Accounts.thy ===== *)
theory Linux_Accounts
  imports Linux_Kernel
begin

text \<open>
  The tasks of \<open>internal/provider/linux\<close> on accounts and groups of processes: \<open>user_list.go\<close>,
  \<open>user_get.go\<close>, \<open>group_list.go\<close>, \<open>cgroup_list.go\<close>, \<open>cgroup_get.go\<close>, \<open>cgroup_processes.go\<close> and
  \<open>namespace_list.go\<close>.
\<close>

section \<open>linux.user.list, linux.group.list, linux.user.get\<close>

record UserEntry =
  ue_Name :: gostring
  ue_UID :: int
  ue_GID :: int
  ue_Home :: gostring
  ue_Shell :: gostring
  ue_Comment :: gostring

definition user_value :: "UserEntry \<Rightarrow> gvalue" where
  "user_value u =
     VMap ([(''name'', VString (ue_Name u)), (''uid'', VInt (ue_UID u)), (''gid'', VInt (ue_GID u)),
            (''home'', VString (ue_Home u)), (''shell'', VString (ue_Shell u))]
           @ (if ue_Comment u = [] then [] else [(''comment'', VString (ue_Comment u))]))"

text \<open>The fields of a line that is an entry with at least \<open>n\<close> of them.\<close>

definition entry_fields :: "nat \<Rightarrow> gostring \<Rightarrow> gostring list option" where
  "entry_fields n line =
     (if line = [] \<or> HasPrefix line ''#'' then None
      else (let parts = Split (CHR '':'') line in if length parts < n then None else Some parts))"

definition user_of_parts :: "gostring list \<Rightarrow> int \<Rightarrow> int \<Rightarrow> UserEntry" where
  "user_of_parts parts uid gid =
     \<lparr>ue_Name = parts ! 0, ue_UID = uid, ue_GID = gid, ue_Home = parts ! 5, ue_Shell = parts ! 6,
      ue_Comment = parts ! 4\<rparr>"

definition passwd_line :: "gostring \<Rightarrow> UserEntry option" where
  "passwd_line line =
     (case entry_fields 7 line of
        None \<Rightarrow> None
      | Some parts \<Rightarrow>
          (case (Atoi (parts ! 2), Atoi (parts ! 3)) of
             (Some uid, Some gid) \<Rightarrow> Some (user_of_parts parts uid gid) | _ \<Rightarrow> None))"

definition readUserList :: "lin_env \<Rightarrow> UserEntry list outcome" where
  "readUserList env =
     (case fs_ReadFile (lx_fs env) ''/etc/passwd'' of
        Inl err \<Rightarrow> Stop (''read /etc/passwd: '' @ err)
      | Inr d \<Rightarrow> Go (List.map_filter passwd_line (Split (CHR 0x0A) d)))"

definition userList_Execute :: "lin_env \<Rightarrow> gmap \<Rightarrow> gvalue outcome" where
  "userList_Execute env params =
     and_then (readUserList env) (\<lambda>us. Go (VMap [(''users'', VList (map user_value us))]))"

definition group_line :: "gostring \<Rightarrow> gvalue option" where
  "group_line line =
     (case entry_fields 4 line of
        None \<Rightarrow> None
      | Some parts \<Rightarrow>
          map_option
            (\<lambda>gid. VMap ([(''name'', VString (parts ! 0)), (''gid'', VInt gid)]
                         @ (if parts ! 3 = [] then [] else [(''members'', VStrings (Split (CHR '','') (parts ! 3)))])))
            (Atoi (parts ! 2)))"

definition groupList_Execute :: "lin_env \<Rightarrow> gmap \<Rightarrow> gvalue outcome" where
  "groupList_Execute env params =
     (case fs_ReadFile (lx_fs env) ''/etc/group'' of
        Inl err \<Rightarrow> Stop (''read /etc/group: '' @ err)
      | Inr d \<Rightarrow> Go (VMap [(''groups'', VList (List.map_filter group_line (Split (CHR 0x0A) d)))]))"

definition matching_user :: "gostring \<Rightarrow> gostring \<Rightarrow> UserEntry option" where
  "matching_user name line =
     (case entry_fields 7 line of
        None \<Rightarrow> None
      | Some parts \<Rightarrow>
          (if parts ! 0 = name \<or> parts ! 2 = name
           then Some (user_of_parts parts (Atoi_value (parts ! 2)) (Atoi_value (parts ! 3))) else None))"

text \<open>A group is named once for the primary group and once more for a membership.\<close>

definition groups_of :: "UserEntry \<Rightarrow> gostring \<Rightarrow> gostring list" where
  "groups_of u line =
     (case entry_fields 4 line of
        None \<Rightarrow> []
      | Some parts \<Rightarrow>
          (if Atoi_value (parts ! 2) = ue_GID u then [parts ! 0] else [])
          @ (if ue_Name u \<in> set (Split (CHR '','') (parts ! 3)) then [parts ! 0] else []))"

definition readUserGet :: "lin_env \<Rightarrow> gostring \<Rightarrow> (UserEntry \<times> gostring list) outcome" where
  "readUserGet env name =
     (case fs_ReadFile (lx_fs env) ''/etc/passwd'' of
        Inl err \<Rightarrow> Stop (''read /etc/passwd: '' @ err)
      | Inr d \<Rightarrow>
          (case List.map_filter (matching_user name) (Split (CHR 0x0A) d) of
             [] \<Rightarrow> Stop (''user '' @ Quote (lx_esc env) name @ '' not found'')
           | target # _ \<Rightarrow>
               (case fs_ReadFile (lx_fs env) ''/etc/group'' of
                  Inl _ \<Rightarrow> Go (target, [])
                | Inr g \<Rightarrow> Go (target, concat (map (groups_of target) (Split (CHR 0x0A) g))))))"

definition userGet_Execute :: "lin_env \<Rightarrow> gmap \<Rightarrow> gvalue outcome" where
  "userGet_Execute env params =
     and_then (attempt (RequireString params ''user'')) (\<lambda>userName.
     and_then (readUserGet env userName) (\<lambda>(u, groups).
     Go (VMap [(''user'', user_value u), (''groups'', VStrings groups)])))"

section \<open>linux.cgroup.list and linux.namespace.list\<close>

definition pid_or_init :: "lin_env \<Rightarrow> gmap \<Rightarrow> int outcome" where
  "pid_or_init env params =
     (let pid0 = value_or 0 (OptionalInt (lx_oor env) params ''pid'' 0); pid = (if pid0 \<le> 0 then 1 else pid0) in
      case ValidatePID pid of Some err \<Rightarrow> Stop err | None \<Rightarrow> Go pid)"

text \<open>\<open>strings.SplitN(s, sep, 3)\<close>.\<close>

definition SplitN3 :: "char \<Rightarrow> gostring \<Rightarrow> gostring list" where
  "SplitN3 sep s = (case SplitN2 sep s of [a, b] \<Rightarrow> a # SplitN2 sep b | ps \<Rightarrow> ps)"

definition cgroup_line :: "gostring \<Rightarrow> gvalue option" where
  "cgroup_line line =
     (case SplitN3 (CHR '':'') line of
        [h, cs, path] \<Rightarrow>
          Some (VMap [(''hierarchy_id'', VInt (Atoi_value h)),
                      (''controllers'', VStrings (if cs = [] then [] else Split (CHR '','') cs)), (''path'', VString path)])
      | _ \<Rightarrow> None)"

definition readCgroupList :: "lin_env \<Rightarrow> Reader \<Rightarrow> int \<Rightarrow> gvalue list outcome" where
  "readCgroupList env r pid =
     and_then (lines_or_stop env r [''proc'', Itoa pid, ''cgroup''] (''read /proc/'' @ Itoa pid @ ''/cgroup'')) (\<lambda>ls.
     Go (List.map_filter cgroup_line ls))"

definition cgroupList_Execute :: "lin_env \<Rightarrow> Reader \<Rightarrow> gmap \<Rightarrow> gvalue outcome" where
  "cgroupList_Execute env r params =
     and_then (pid_or_init env params) (\<lambda>pid.
     and_then (readCgroupList env r pid) (\<lambda>cs. Go (VMap [(''cgroups'', VList cs)])))"

definition namespace_entry :: "lin_env \<Rightarrow> gostring \<Rightarrow> gostring \<Rightarrow> gvalue option" where
  "namespace_entry env nsDir name =
     (if name = [] then None
      else (case fs_Readlink (lx_fs env) (filepath_Join [nsDir, name]) of
              Inl _ \<Rightarrow> None
            | Inr link \<Rightarrow> Some (VMap [(''type'', VString name), (''id'', VString link)])))"

definition readNamespaceList :: "lin_env \<Rightarrow> Reader \<Rightarrow> int \<Rightarrow> gvalue list outcome" where
  "readNamespaceList env r pid =
     (let nsDir = Reader_Path r [''proc'', Itoa pid, ''ns''] in
      case fs_ReadDir (lx_fs env) nsDir of
        Inl err \<Rightarrow> Stop (''read /proc/'' @ Itoa pid @ ''/ns: '' @ err)
      | Inr entries \<Rightarrow> Go (List.map_filter (namespace_entry env nsDir) entries))"

definition namespaceList_Execute :: "lin_env \<Rightarrow> Reader \<Rightarrow> gmap \<Rightarrow> gvalue outcome" where
  "namespaceList_Execute env r params =
     and_then (pid_or_init env params) (\<lambda>pid.
     and_then (readNamespaceList env r pid) (\<lambda>ns. Go (VMap [(''namespaces'', VList ns)])))"

section \<open>linux.cgroup.get and linux.cgroup.processes\<close>

text \<open>The last line for a mount of \<open>cgroup\<close>, up to the first one for \<open>cgroup2\<close>.\<close>

fun cgroup_mount :: "gostring list \<Rightarrow> gostring \<Rightarrow> gostring" where
  "cgroup_mount [] root = root"
| "cgroup_mount (line # ls) root =
     (let fs = Fields line in
      if length fs \<ge> 9 \<and> last fs = ''cgroup2'' then fs ! 4
      else if length fs \<ge> 9 \<and> last fs = ''cgroup'' then cgroup_mount ls (fs ! 4)
      else cgroup_mount ls root)"

definition cgroup_root :: "gostring list \<Rightarrow> gostring" where
  "cgroup_root mounts = (let root = cgroup_mount mounts [] in if root = [] then ''/sys/fs/cgroup'' else root)"

definition cgroup_path :: "lin_env \<Rightarrow> Reader \<Rightarrow> gostring \<Rightarrow> gostring outcome" where
  "cgroup_path env r cgroupPath =
     and_then (lines_or_stop env r [''proc'', ''self'', ''mountinfo''] ''read mountinfo'') (\<lambda>mounts.
     (let root = cgroup_root mounts; fullPath = filepath_Join [root, cgroupPath] in
      if \<not> HasPrefix fullPath root then Stop ''invalid cgroup path'' else Go fullPath))"

definition cgroup_files :: "(gostring \<times> gostring) list" where
  "cgroup_files =
     [(''memory.current'', ''memory_usage''), (''memory.max'', ''memory_limit''), (''cpu.weight'', ''cpu_weight''),
      (''cpu.stat'', ''cpu_stat''), (''pids.current'', ''pids_current''), (''pids.max'', ''pids_max''),
      (''io.stat'', ''io_stat''), (''cgroup.freeze'', ''frozen''), (''cgroup.procs'', ''procs''),
      (''cgroup.subtree_control'', ''subtree_control'')]"

definition is_limit_file :: "gostring \<Rightarrow> bool" where
  "is_limit_file file \<longleftrightarrow>
     strings_Contains file ''max'' \<or> strings_Contains file ''limit'' \<or> strings_Contains file ''freeze''"

definition cgroup_values :: "lin_env \<Rightarrow> gostring \<Rightarrow> (gostring \<Rightarrow> bool) \<Rightarrow> environment" where
  "cgroup_values env fullPath keep =
     List.map_filter
       (\<lambda>(file, key).
          case fs_ReadFile (lx_fs env) (filepath_Join [fullPath, file]) of
            Inl _ \<Rightarrow> None | Inr d \<Rightarrow> (if keep file then Some (key, TrimSpace d) else None))
       cgroup_files"

definition readCgroupGet :: "lin_env \<Rightarrow> Reader \<Rightarrow> gostring \<Rightarrow> gmap outcome" where
  "readCgroupGet env r cgroupPath =
     and_then (cgroup_path env r cgroupPath) (\<lambda>fullPath.
     Go [(''path'', VString cgroupPath),
         (''controllers'',
            VStrings (case fs_ReadFile (lx_fs env) (filepath_Join [fullPath, ''cgroup.controllers'']) of
                        Inl _ \<Rightarrow> [] | Inr d \<Rightarrow> Fields d)),
         (''limits'', VStrMap (cgroup_values env fullPath is_limit_file)),
         (''usage'', VStrMap (cgroup_values env fullPath (\<lambda>f. \<not> is_limit_file f)))])"

definition cgroupGet_Execute :: "lin_env \<Rightarrow> Reader \<Rightarrow> gmap \<Rightarrow> gvalue outcome" where
  "cgroupGet_Execute env r params =
     and_then (attempt (RequireString params ''path'')) (\<lambda>path.
     and_then (readCgroupGet env r path) (\<lambda>d. Go (VMap d)))"

text \<open>An empty line is no number.\<close>

definition readCgroupProcesses :: "lin_env \<Rightarrow> Reader \<Rightarrow> gostring \<Rightarrow> int list outcome" where
  "readCgroupProcesses env r cgroupPath =
     and_then (cgroup_path env r cgroupPath) (\<lambda>fullPath.
     (case fs_ReadFile (lx_fs env) (filepath_Join [fullPath, ''cgroup.procs'']) of
        Inl err \<Rightarrow> Stop (''read cgroup.procs: '' @ err)
      | Inr d \<Rightarrow> Go (List.map_filter Atoi (Split (CHR 0x0A) d))))"

definition cgroupProcesses_Execute :: "lin_env \<Rightarrow> Reader \<Rightarrow> gmap \<Rightarrow> gvalue outcome" where
  "cgroupProcesses_Execute env r params =
     and_then (attempt (RequireString params ''path'')) (\<lambda>path.
     and_then (readCgroupProcesses env r path) (\<lambda>pids. Go (VMap [(''processes'', VInts pids)])))"

end
