(* ===== verification/Linux_Sockets.thy ===== *)
theory Linux_Sockets
  imports Linux_Kernel
begin

text \<open>
  The tasks of \<open>internal/provider/linux\<close> on sockets and neighbours: \<open>socket_list.go\<close>,
  \<open>socket_get.go\<close>, \<open>neighbor_list.go\<close>, \<open>rule_list.go\<close>.
\<close>

section \<open>Addresses\<close>

definition little_endian_IPv4 :: "int \<Rightarrow> net_IP" where
  "little_endian_IPv4 n =
     net_IPv4 (word_of_int n) (word_of_int (n div 2 ^ 8)) (word_of_int (n div 2 ^ 16)) (word_of_int (n div 2 ^ 24))"

text \<open>The bytes of 32 digits, and the bytes of each group of four reversed.\<close>

fun hex_bytes :: "gostring \<Rightarrow> byte list option" where
  "hex_bytes (a # b # cs) =
     (case ParseHex 8 [a, b] of
        None \<Rightarrow> None | Some n \<Rightarrow> map_option (\<lambda>bs. word_of_int n # bs) (hex_bytes cs))"
| "hex_bytes _ = Some []"

fun reverse_groups :: "byte list \<Rightarrow> byte list" where
  "reverse_groups (a # b # c # d # bs) = d # c # b # a # reverse_groups bs"
| "reverse_groups bs = bs"

definition parseHexAddressPort :: "gostring \<Rightarrow> (gostring \<times> int) option" where
  "parseHexAddressPort s =
     (case Split (CHR '':'') s of
        [addrHex, portHex] \<Rightarrow>
          (case ParseHex 16 portHex of
             None \<Rightarrow> None
           | Some port \<Rightarrow>
               (if length addrHex = 8
                then map_option (\<lambda>n. (IP_String (little_endian_IPv4 n), port)) (ParseHex 32 addrHex)
                else if length addrHex = 32
                then map_option (\<lambda>bs. (IP_String (reverse_groups bs), port)) (hex_bytes addrHex)
                else None))
      | _ \<Rightarrow> None)"

section \<open>linux.socket.list\<close>

record SocketInfo =
  si_Protocol :: gostring
  si_LocalAddress :: gostring
  si_LocalPort :: int
  si_RemoteAddress :: gostring
  si_RemotePort :: int
  si_State :: gostring
  si_UID :: int
  si_Inode :: int

definition socket_value :: "SocketInfo \<Rightarrow> gvalue" where
  "socket_value s =
     VMap ([(''protocol'', VString (si_Protocol s)), (''local_address'', VString (si_LocalAddress s)),
            (''local_port'', VInt (si_LocalPort s))]
           @ (if si_RemoteAddress s = [] then [] else [(''remote_address'', VString (si_RemoteAddress s))])
           @ (if si_RemotePort s = 0 then [] else [(''remote_port'', VInt (si_RemotePort s))])
           @ [(''state'', VString (si_State s))]
           @ (if si_UID s = 0 then [] else [(''uid'', VInt (si_UID s))])
           @ [(''inode'', VUint64 (si_Inode s))])"

definition tcpStateMap :: "(gostring \<times> gostring) list" where
  "tcpStateMap =
     [(''01'', ''ESTABLISHED''), (''02'', ''SYN_SENT''), (''03'', ''SYN_RECV''), (''04'', ''FIN_WAIT1''),
      (''05'', ''FIN_WAIT2''), (''06'', ''TIME_WAIT''), (''07'', ''CLOSE''), (''08'', ''CLOSE_WAIT''),
      (''09'', ''LAST_ACK''), (''0A'', ''LISTEN''), (''0B'', ''CLOSING'')]"

definition tcpState :: "gostring \<Rightarrow> gostring" where
  "tcpState st = ok_or (map_of tcpStateMap (ToUpper st)) (ToUpper st)"

text \<open>A line of a table of TCP or UDP sockets; \<open>unconn\<close> is how UDP rewrites the state.\<close>

definition inet_line :: "gostring \<Rightarrow> (gostring \<Rightarrow> gostring) \<Rightarrow> gostring \<Rightarrow> SocketInfo option" where
  "inet_line proto unconn line =
     (case Fields line of
        f0 # f1 # f2 # f3 # rest \<Rightarrow>
          (case (parseHexAddressPort f1, parseHexAddressPort f2) of
             (Some (localAddr, localPort), Some (remoteAddr, remotePort)) \<Rightarrow>
               Some \<lparr>si_Protocol = proto, si_LocalAddress = localAddr, si_LocalPort = localPort,
                     si_RemoteAddress = remoteAddr, si_RemotePort = remotePort, si_State = unconn (tcpState f3),
                     si_UID = (case nth_field rest 3 of None \<Rightarrow> 0 | Some f \<Rightarrow> Atoi_value f),
                     si_Inode = (case nth_field rest 5 of None \<Rightarrow> 0 | Some f \<Rightarrow> ParseUint_value f)\<rparr>
           | _ \<Rightarrow> None)
      | _ \<Rightarrow> None)"

definition table_lines :: "lin_env \<Rightarrow> gostring \<Rightarrow> (gostring \<Rightarrow> 'a option) \<Rightarrow> 'a list" where
  "table_lines env path f =
     (case readLinesFromPath env path of Inl _ \<Rightarrow> [] | Inr ls \<Rightarrow> parsed_lines f (tl ls))"

definition parseTCP :: "lin_env \<Rightarrow> gostring \<Rightarrow> bool \<Rightarrow> SocketInfo list" where
  "parseTCP env path ipv6 = table_lines env path (inet_line (if ipv6 then ''tcp6'' else ''tcp'') id)"

definition udp_state :: "gostring \<Rightarrow> gostring" where
  "udp_state state = (if state = [] \<or> state = ''0'' then ''UNCONN'' else state)"

definition parseUDP :: "lin_env \<Rightarrow> gostring \<Rightarrow> bool \<Rightarrow> SocketInfo list" where
  "parseUDP env path ipv6 = table_lines env path (inet_line (if ipv6 then ''udp6'' else ''udp'') udp_state)"

text \<open>An empty state would be the field itself, which is not empty.\<close>

definition unix_line :: "gostring \<Rightarrow> SocketInfo option" where
  "unix_line line =
     (let fs = Fields line in
      if length fs < 7 then None
      else
        (let inode = ParseUint_value (fs ! 6); sockPath = Join (drop 7 fs) '' '' in
         Some \<lparr>si_Protocol = ''unix'',
               si_LocalAddress = (if sockPath = [] then ''inode:'' @ Itoa inode else sockPath), si_LocalPort = 0,
               si_RemoteAddress = [], si_RemotePort = 0,
               si_State = (if tcpState (fs ! 5) = [] then fs ! 5 else tcpState (fs ! 5)), si_UID = 0,
               si_Inode = inode\<rparr>))"

definition parseUnix :: "lin_env \<Rightarrow> gostring \<Rightarrow> SocketInfo list" where
  "parseUnix env path = table_lines env path unix_line"

definition wanted :: "gostring \<Rightarrow> gostring \<Rightarrow> 'a list \<Rightarrow> 'a list" where
  "wanted want kind xs = (if want = [] \<or> want = kind then xs else [])"

definition listSockets :: "lin_env \<Rightarrow> Reader \<Rightarrow> gostring \<Rightarrow> gostring \<Rightarrow> SocketInfo list" where
  "listSockets env r protocolFilter stateFilter =
     (let at = (\<lambda>file. Reader_Path r [''proc'', ''net'', file]);
          sockets =
            wanted protocolFilter ''tcp'' (parseTCP env (at ''tcp'') False)
            @ wanted protocolFilter ''tcp6'' (parseTCP env (at ''tcp6'') True)
            @ wanted protocolFilter ''udp''
                (parseUDP env (at ''udp'') False
                 @ map (\<lambda>s. s\<lparr>si_Protocol := ''udplite''\<rparr>) (parseUDP env (at ''udplite'') False))
            @ wanted protocolFilter ''unix'' (parseUnix env (at ''unix''))
      in if stateFilter = [] then sockets
         else filter (\<lambda>s. EqualFold (si_State s) (ToUpper stateFilter)) sockets)"

definition text_param :: "gmap \<Rightarrow> gostring \<Rightarrow> gostring" where
  "text_param params key = text_field params key"

definition socketList_Execute :: "lin_env \<Rightarrow> Reader \<Rightarrow> gmap \<Rightarrow> gvalue outcome" where
  "socketList_Execute env r params =
     (let sockets = listSockets env r (text_param params ''protocol'') (text_param params ''state'') in
      Go (VMap (listed_as ''sockets'' (map socket_value sockets))))"

section \<open>linux.socket.get\<close>

fun intParam :: "(gofloat \<Rightarrow> int) \<Rightarrow> gvalue \<Rightarrow> int" where
  "intParam oor (VInt n) = n"
| "intParam oor (VInt64 n) = n"
| "intParam oor (VFloat64 f) = int64_of_float oor f"
| "intParam oor (VString s) = Atoi_value s"
| "intParam oor _ = 0"

definition port_param :: "lin_env \<Rightarrow> gmap \<Rightarrow> gostring \<Rightarrow> int" where
  "port_param env params key = (case map_of params key of None \<Rightarrow> 0 | Some v \<Rightarrow> intParam (lx_oor env) v)"

definition socket_matches :: "gostring \<Rightarrow> int \<Rightarrow> gostring \<Rightarrow> int \<Rightarrow> SocketInfo \<Rightarrow> bool" where
  "socket_matches localAddr localPort remoteAddr remotePort s \<longleftrightarrow>
     (localAddr = [] \<or> si_LocalAddress s = localAddr) \<and> (localPort > 0 \<longrightarrow> si_LocalPort s = localPort) \<and>
     (remoteAddr = [] \<or> si_RemoteAddress s = remoteAddr) \<and> (remotePort > 0 \<longrightarrow> si_RemotePort s = remotePort)"

definition socketGet_Execute :: "lin_env \<Rightarrow> Reader \<Rightarrow> gmap \<Rightarrow> gvalue outcome" where
  "socketGet_Execute env r params =
     (let localAddr = text_param params ''local_address''; localPort = port_param env params ''local_port'';
          remoteAddr = text_param params ''remote_address''; remotePort = port_param env params ''remote_port'';
          protocol = text_param params ''protocol''
      in case find (socket_matches localAddr localPort remoteAddr remotePort) (listSockets env r protocol []) of
           None \<Rightarrow> Stop (''socket not found: '' @ localAddr @ '':'' @ Itoa localPort @ '' -> '' @ remoteAddr @ '':''
                         @ Itoa remotePort @ '' ('' @ protocol @ '')'')
         | Some s \<Rightarrow> Go (VMap [(''socket'', socket_value s)]))"

section \<open>linux.network.neighbor.list and linux.network.rule.list\<close>

record NeighborInfo =
  ni_Address :: gostring
  ni_MAC :: gostring
  ni_State :: gostring
  ni_Device :: gostring
  ni_Type :: gostring

definition neighbor_value :: "NeighborInfo \<Rightarrow> gvalue" where
  "neighbor_value n =
     VMap ([(''address'', VString (ni_Address n))]
           @ (if ni_MAC n = [] then [] else [(''mac_address'', VString (ni_MAC n))])
           @ (if ni_State n = [] then [] else [(''state'', VString (ni_State n))])
           @ (if ni_Device n = [] then [] else [(''device'', VString (ni_Device n))])
           @ [(''type'', VString (ni_Type n))])"

definition arp_line :: "gostring \<Rightarrow> NeighborInfo option" where
  "arp_line line =
     (case Fields line of
        f0 # f1 # f2 # f3 # f4 # f5 # _ \<Rightarrow>
          Some \<lparr>ni_Address = f0, ni_MAC = f3, ni_State = (if f3 \<noteq> ''*'' then ''stale'' else ''reachable''),
                ni_Device = f5, ni_Type = ''arp''\<rparr>
      | _ \<Rightarrow> None)"

definition parseArp :: "lin_env \<Rightarrow> gostring \<Rightarrow> NeighborInfo list" where
  "parseArp env path = table_lines env path arp_line"

definition neigh_line :: "gostring \<Rightarrow> NeighborInfo option" where
  "neigh_line line =
     (case Fields line of
        f0 # f1 # f2 # f3 # _ \<Rightarrow>
          Some \<lparr>ni_Address = f0, ni_MAC = f2, ni_State = f3, ni_Device = f1, ni_Type = ''ndp''\<rparr>
      | _ \<Rightarrow> None)"

definition parseNeigh :: "lin_env \<Rightarrow> gostring \<Rightarrow> NeighborInfo list" where
  "parseNeigh env path = table_lines env path neigh_line"

definition listNeighbors :: "lin_env \<Rightarrow> Reader \<Rightarrow> gostring \<Rightarrow> NeighborInfo list" where
  "listNeighbors env r family =
     (let at = (\<lambda>file. Reader_Path r [''proc'', ''net'', file]) in
      wanted family ''arp'' (parseArp env (at ''arp''))
      @ wanted family ''ndp'' (parseNeigh env (at ''ndisc'') @ parseNeigh env (at ''neigh'')))"

definition neighborList_Execute :: "lin_env \<Rightarrow> Reader \<Rightarrow> gmap \<Rightarrow> gvalue outcome" where
  "neighborList_Execute env r params =
     Go (VMap (listed_as ''neighbors'' (map neighbor_value (listNeighbors env r (text_param params ''family'')))))"

definition rule_line :: "gostring \<Rightarrow> gvalue option" where
  "rule_line line =
     (if HasPrefix line ''#'' then None
      else (case Fields line of
              f0 # f1 # _ \<Rightarrow>
                map_option (\<lambda>n. VMap ([(''table'', VInt n)] @ (if f1 = [] then [] else [(''name'', VString f1)]))) (Atoi f0)
            | _ \<Rightarrow> None))"

definition listRules :: "lin_env \<Rightarrow> Reader \<Rightarrow> gvalue list" where
  "listRules env r =
     (case ReadFileString (lx_fs env) r [''etc'', ''iproute2'', ''rt_tables''] of
        Inl _ \<Rightarrow> [] | Inr d \<Rightarrow> parsed_lines rule_line (Split (CHR 0x0A) d))"

definition ruleList_Execute :: "lin_env \<Rightarrow> Reader \<Rightarrow> gmap \<Rightarrow> gvalue outcome" where
  "ruleList_Execute env r params =
     Go (VMap [(''rules'', VList (listRules env r)),
               (''note'', VString ''Policy routing rules are parsed from /etc/iproute2/rt_tables where available.'')])"

section \<open>Properties\<close>

text \<open>How the kernel writes an IPv4 address and a port: the address in memory order on a little-endian machine.\<close>

definition kernel_address :: "byte \<Rightarrow> byte \<Rightarrow> byte \<Rightarrow> byte \<Rightarrow> byte \<Rightarrow> byte \<Rightarrow> gostring" where
  "kernel_address a b c d p q =
     byte_hex d @ byte_hex c @ byte_hex b @ byte_hex a @ '':'' @ byte_hex p @ byte_hex q"

lemma hex_upper_not_colon: "d < 16 \<Longrightarrow> hex_upper d \<noteq> CHR '':''"
  using digit_in_hex_upper [of d] by (auto simp: digit_in_def lower_byte_def is_digit_def less_eq_char_def Let_def)

lemma byte_hex_no_colon: "CHR '':'' \<notin> set (byte_hex b)"
  using unsigned_less [of b, where 'a = nat] by (auto simp: byte_hex_def hex_upper_not_colon hex_upper_not_colon [symmetric])

definition le_value :: "byte \<Rightarrow> byte \<Rightarrow> byte \<Rightarrow> byte \<Rightarrow> int" where
  "le_value a b c d = ((uint d * 256 + uint c) * 256 + uint b) * 256 + uint a"

lemma shift_byte: "(k * 256 + uint (w :: byte)) div 256 = k"
  using unsigned_less [of w, where 'a = int] div_mult_self3 [of 256 k "uint w"] by (simp add: add.commute)

lemma low_byte: "(word_of_int (k * 256 + uint w) :: byte) = w"
proof -
  have "(256 :: byte) = 0" by simp
  then show ?thesis by (simp only: of_int_add of_int_mult of_int_numeral) simp
qed

lemma shift_le_value:
  "le_value a b c d div 2 ^ 8 = (uint d * 256 + uint c) * 256 + uint b"
  "le_value a b c d div 2 ^ 16 = uint d * 256 + uint c"
  "le_value a b c d div 2 ^ 24 = uint d"
proof -
  show s8: "le_value a b c d div 2 ^ 8 = (uint d * 256 + uint c) * 256 + uint b"
    using shift_byte [of "(uint d * 256 + uint c) * 256 + uint b" a] by (simp only: le_value_def) simp
  have "le_value a b c d div 2 ^ 16 = le_value a b c d div 2 ^ 8 div 256"
    using zdiv_zmult2_eq [of 256 "le_value a b c d" "2 ^ 8"] by simp
  then show s16: "le_value a b c d div 2 ^ 16 = uint d * 256 + uint c"
    by (simp only: s8 shift_byte)
  have "le_value a b c d div 2 ^ 24 = le_value a b c d div 2 ^ 16 div 256"
    using zdiv_zmult2_eq [of 256 "le_value a b c d" "2 ^ 16"] by simp
  then show "le_value a b c d div 2 ^ 24 = uint d" by (simp only: s16 shift_byte)
qed

lemma little_endian_le_value: "little_endian_IPv4 (le_value a b c d) = net_IPv4 a b c d"
proof -
  have "(word_of_int (le_value a b c d) :: byte) = a" by (simp only: le_value_def low_byte)
  moreover have "(word_of_int (uint d) :: byte) = d" by simp
  ultimately show ?thesis by (simp only: little_endian_IPv4_def shift_le_value low_byte)
qed

theorem parseHexAddressPort_roundtrip:
  "parseHexAddressPort (kernel_address a b c d p q) =
     Some (IP_String (net_IPv4 a b c d), 256 * uint p + uint q)"
proof -
  have split: "Split (CHR '':'') (kernel_address a b c d p q) =
      [byte_hex d @ byte_hex c @ byte_hex b @ byte_hex a, byte_hex p @ byte_hex q]"
  proof -
    have "CHR '':'' \<notin> set (byte_hex d @ byte_hex c @ byte_hex b @ byte_hex a)"
      "CHR '':'' \<notin> set (byte_hex p @ byte_hex q)"
      by (simp_all add: byte_hex_no_colon)
    then show ?thesis
      using Split_append [of "CHR '':''" "byte_hex d @ byte_hex c @ byte_hex b @ byte_hex a" "byte_hex p @ byte_hex q"]
      by (simp add: kernel_address_def Split_no_sep)
  qed
  have port: "ParseHex 16 (byte_hex p @ byte_hex q) = Some (256 * uint p + uint q)"
    using hex_digits_byte [of p "byte_hex q" 0] hex_digits_byte [of q "[]" "uint p"]
      unsigned_less [of p, where 'a = int] unsigned_less [of q, where 'a = int]
    by (simp add: ParseHex_def byte_hex_def)
  have addr: "ParseHex 32 (byte_hex d @ byte_hex c @ byte_hex b @ byte_hex a) = Some (le_value a b c d)"
    using hex_digits_byte [of a "[]" "(uint d * 256 + uint c) * 256 + uint b"]
      unsigned_less [of a, where 'a = int] unsigned_less [of b, where 'a = int]
      unsigned_less [of c, where 'a = int] unsigned_less [of d, where 'a = int]
    by (simp add: ParseHex_def hex_digits_byte le_value_def) (simp add: byte_hex_def)
  show ?thesis
    by (simp add: parseHexAddressPort_def split port addr little_endian_le_value)
qed

end
