(* ===== verification/Linux_Routes.thy ===== *)
theory Linux_Routes
  imports Linux_Sockets
begin

unbundle bit_operations_syntax

text \<open>
  The routing tables of \<open>/proc/net\<close> in \<open>internal/provider/linux\<close>: \<open>route_list.go\<close> and
  \<open>route_lookup.go\<close>. An address that cannot be read is the empty one.
\<close>

section \<open>Addresses and masks\<close>

definition parseIPv4Hex :: "gostring \<Rightarrow> net_IP" where
  "parseIPv4Hex hexStr = (case ParseHex 32 hexStr of None \<Rightarrow> [] | Some n \<Rightarrow> little_endian_IPv4 n)"

definition parseIPv6Hex :: "gostring \<Rightarrow> net_IP" where
  "parseIPv6Hex hexStr =
     (if length hexStr \<noteq> 32 then []
      else (case hex_bytes hexStr of None \<Rightarrow> [] | Some bs \<Rightarrow> reverse_groups bs))"

definition mask_bits_of :: "byte list \<Rightarrow> bool list" where
  "mask_bits_of m4 = concat (map (\<lambda>b. map (bit b) (rev [0..<8])) m4)"

definition maskBitsFromIPv4 :: "net_IP \<Rightarrow> int" where
  "maskBitsFromIPv4 ip =
     (case To4 ip of None \<Rightarrow> 0 | Some m4 \<Rightarrow> int (length (takeWhile id (mask_bits_of m4))))"

definition ipv4InNetwork :: "net_IP \<Rightarrow> net_IP \<Rightarrow> net_IP \<Rightarrow> bool" where
  "ipv4InNetwork ip destIP maskIP \<longleftrightarrow>
     (case (To4 ip, To4 destIP, To4 maskIP) of
        (Some ip4, Some dest4, Some mask4) \<Rightarrow> list_all (\<lambda>i. ip4 ! i AND mask4 ! i = dest4 ! i AND mask4 ! i) [0..<4]
      | _ \<Rightarrow> False)"

definition To16 :: "net_IP \<Rightarrow> net_IP option" where
  "To16 ip = (if length ip = 4 then Some (v4InV6Prefix @ ip) else if length ip = 16 then Some ip else None)"

definition ipv6InNetwork :: "net_IP \<Rightarrow> net_IP \<Rightarrow> int \<Rightarrow> bool" where
  "ipv6InNetwork ip destIP prefixLen \<longleftrightarrow>
     (case (To16 ip, To16 destIP) of
        (Some ip16, Some dest16) \<Rightarrow>
          0 \<le> prefixLen \<and> prefixLen \<le> 128 \<and>
          (let fullBytes = nat prefixLen div 8; remBits = nat prefixLen mod 8;
               m = push_bit (8 - remBits) 0xFF :: byte
           in take fullBytes ip16 = take fullBytes dest16 \<and>
              (remBits > 0 \<longrightarrow> ip16 ! fullBytes AND m = dest16 ! fullBytes AND m))
      | _ \<Rightarrow> False)"

section \<open>linux.network.route.list\<close>

record RouteInfo =
  ri_Destination :: gostring
  ri_Gateway :: gostring
  ri_Interface :: gostring
  ri_Source :: gostring
  ri_Metric :: int
  ri_Protocol :: gostring
  ri_Scope :: gostring

definition route_value :: "RouteInfo \<Rightarrow> gvalue" where
  "route_value ro =
     VMap ([(''destination'', VString (ri_Destination ro))]
           @ (if ri_Gateway ro = [] then [] else [(''gateway'', VString (ri_Gateway ro))])
           @ (if ri_Interface ro = [] then [] else [(''interface'', VString (ri_Interface ro))])
           @ (if ri_Source ro = [] then [] else [(''source'', VString (ri_Source ro))])
           @ (if ri_Metric ro = 0 then [] else [(''metric'', VInt (ri_Metric ro))])
           @ (if ri_Protocol ro = [] then [] else [(''protocol'', VString (ri_Protocol ro))])
           @ (if ri_Scope ro = [] then [] else [(''scope'', VString (ri_Scope ro))]))"

definition blank_if :: "gostring \<Rightarrow> gostring \<Rightarrow> gostring" where
  "blank_if z s = (if s = z then [] else s)"

definition prefix_text :: "net_IP \<Rightarrow> int \<Rightarrow> gostring" where
  "prefix_text ip n = IP_String ip @ ''/'' @ Itoa n"

definition ipv4_destination :: "net_IP \<Rightarrow> int \<Rightarrow> gostring" where
  "ipv4_destination destIP maskBits =
     (if maskBits > 0 \<and> maskBits < 32 then prefix_text destIP maskBits
      else if maskBits = 0 \<and> IP_String destIP = ''0.0.0.0'' then ''default''
      else IP_String destIP)"

definition ipv4_route_line :: "gostring \<Rightarrow> RouteInfo option" where
  "ipv4_route_line line =
     (let fs = Fields line in
      if length fs < 8 then None
      else
        (let metric = Atoi_value (fs ! 6); gateway = IP_String (parseIPv4Hex (fs ! 2));
             dest = ipv4_destination (parseIPv4Hex (fs ! 1)) (maskBitsFromIPv4 (parseIPv4Hex (fs ! 7)));
             direct = (gateway = ''0.0.0.0'')
         in Some \<lparr>ri_Destination = dest, ri_Gateway = blank_if ''0.0.0.0'' gateway, ri_Interface = fs ! 0,
                  ri_Source = [], ri_Metric = metric,
                  ri_Protocol = (if metric = 0 \<and> direct \<and> dest \<noteq> ''default'' then ''kernel'' else ''static''),
                  ri_Scope =
                    (if (fs ! 3 = ''0001'' \<or> fs ! 3 = ''0003'') \<and> dest \<noteq> ''default'' \<and> direct then ''link''
                     else ''global'')\<rparr>))"

definition parseProcNetRoute :: "lin_env \<Rightarrow> gostring \<Rightarrow> RouteInfo list" where
  "parseProcNetRoute env path = table_lines env path ipv4_route_line"

definition ipv6_destination :: "net_IP \<Rightarrow> int \<Rightarrow> gostring" where
  "ipv6_destination destIP destLen = (if destLen = 0 then ''default'' else prefix_text destIP destLen)"

definition ipv6_source :: "gostring list \<Rightarrow> gostring" where
  "ipv6_source fs = (let n = Atoi_value (fs ! 3) in if n > 0 then prefix_text (parseIPv6Hex (fs ! 2)) n else [])"

definition ipv6_route_line :: "gostring \<Rightarrow> RouteInfo option" where
  "ipv6_route_line line =
     (let fs = Fields line in
      if length fs < 10 then None
      else Some \<lparr>ri_Destination = ipv6_destination (parseIPv6Hex (fs ! 0)) (Atoi_value (fs ! 1)),
                 ri_Gateway = blank_if ''::'' (IP_String (parseIPv6Hex (fs ! 4))), ri_Interface = fs ! 9,
                 ri_Source = ipv6_source fs, ri_Metric = Atoi_value (fs ! 5), ri_Protocol = ''kernel'',
                 ri_Scope = ''global''\<rparr>)"

definition parseProcNetIPv6Route :: "lin_env \<Rightarrow> gostring \<Rightarrow> RouteInfo list" where
  "parseProcNetIPv6Route env path =
     (case readLinesFromPath env path of Inl _ \<Rightarrow> [] | Inr ls \<Rightarrow> parsed_lines ipv6_route_line ls)"

definition listRoutes :: "lin_env \<Rightarrow> Reader \<Rightarrow> gostring \<Rightarrow> RouteInfo list" where
  "listRoutes env r family =
     wanted family ''inet'' (parseProcNetRoute env (Reader_Path r [''proc'', ''net'', ''route'']))
     @ wanted family ''inet6'' (parseProcNetIPv6Route env (Reader_Path r [''proc'', ''net'', ''ipv6_route'']))"

definition routeList_Execute :: "lin_env \<Rightarrow> Reader \<Rightarrow> gmap \<Rightarrow> gvalue outcome" where
  "routeList_Execute env r params =
     Go (VMap (listed_as ''routes'' (map route_value (listRoutes env r (text_param params ''family'')))))"

section \<open>linux.network.route.lookup\<close>

text \<open>The route of a line that has the address in its network, with the length of its prefix.\<close>

definition ipv4_candidate :: "net_IP \<Rightarrow> gostring \<Rightarrow> (int \<times> RouteInfo) option" where
  "ipv4_candidate ip line =
     (let fs = Fields line in
      if length fs < 8 then None
      else
        (let destIP = parseIPv4Hex (fs ! 1); maskIP = parseIPv4Hex (fs ! 7); maskBits = maskBitsFromIPv4 maskIP in
         if \<not> ipv4InNetwork ip destIP maskIP then None
         else Some (maskBits,
                \<lparr>ri_Destination =
                   (if maskBits = 0 then ''default''
                    else if maskBits < 32 then prefix_text destIP maskBits else IP_String destIP),
                 ri_Gateway = blank_if ''0.0.0.0'' (IP_String (parseIPv4Hex (fs ! 2))), ri_Interface = fs ! 0,
                 ri_Source = [], ri_Metric = Atoi_value (fs ! 6), ri_Protocol = [], ri_Scope = []\<rparr>)))"

definition ipv6_candidate :: "net_IP \<Rightarrow> gostring \<Rightarrow> (int \<times> RouteInfo) option" where
  "ipv6_candidate ip line =
     (let fs = Fields line in
      if length fs < 10 then None
      else
        (let destIP = parseIPv6Hex (fs ! 0); destLen = Atoi_value (fs ! 1) in
         if \<not> ipv6InNetwork ip destIP destLen then None
         else Some (destLen,
                \<lparr>ri_Destination = ipv6_destination destIP destLen,
                 ri_Gateway = blank_if ''::'' (IP_String (parseIPv6Hex (fs ! 4))), ri_Interface = fs ! 9,
                 ri_Source = ipv6_source fs, ri_Metric = Atoi_value (fs ! 5), ri_Protocol = [], ri_Scope = []\<rparr>)))"

text \<open>The loop over the lines: a candidate replaces the best one so far if its prefix is longer.\<close>

fun lookup_loop ::
  "(gostring \<Rightarrow> (int \<times> RouteInfo) option) \<Rightarrow> gostring list \<Rightarrow> int \<Rightarrow> RouteInfo option \<Rightarrow> RouteInfo option" where
  "lookup_loop cand [] bestBits best = best"
| "lookup_loop cand (line # ls) bestBits best =
     (if TrimSpace line = [] then lookup_loop cand ls bestBits best
      else (case cand (TrimSpace line) of
              None \<Rightarrow> lookup_loop cand ls bestBits best
            | Some (bits, route) \<Rightarrow>
                (if bits \<le> bestBits then lookup_loop cand ls bestBits best
                 else lookup_loop cand ls bits (Some route))))"

text \<open>\<open>lines[1:]\<close> of no lines is out of range.\<close>

definition lookupIPv4Route :: "lin_env \<Rightarrow> Reader \<Rightarrow> net_IP \<Rightarrow> RouteInfo option outcome" where
  "lookupIPv4Route env r ip =
     and_then (lines_or_stop env r [''proc'', ''net'', ''route''] ''read /proc/net/route'') (\<lambda>ls.
     if ls = [] then Panic else Go (lookup_loop (ipv4_candidate ip) (tl ls) (- 1) None))"

definition lookupIPv6Route :: "lin_env \<Rightarrow> Reader \<Rightarrow> net_IP \<Rightarrow> RouteInfo option outcome" where
  "lookupIPv6Route env r ip =
     and_then (lines_or_stop env r [''proc'', ''net'', ''ipv6_route''] ''read /proc/net/ipv6_route'') (\<lambda>ls.
     Go (lookup_loop (ipv6_candidate ip) ls (- 1) None))"

definition lookupRoute :: "lin_env \<Rightarrow> Reader \<Rightarrow> net_IP \<Rightarrow> RouteInfo option outcome" where
  "lookupRoute env r ip =
     (case To4 ip of Some ip4 \<Rightarrow> lookupIPv4Route env r ip4 | None \<Rightarrow> lookupIPv6Route env r ip)"

definition routeLookup_Execute ::
  "(gostring \<Rightarrow> net_IP option) \<Rightarrow> lin_env \<Rightarrow> Reader \<Rightarrow> gmap \<Rightarrow> gvalue outcome" where
  "routeLookup_Execute ParseIP env r params =
     and_then (attempt (RequireString params ''destination'')) (\<lambda>dest.
     (case ParseIP dest of
        None \<Rightarrow> Stop (''invalid destination IP address: '' @ Quote (lx_esc env) dest)
      | Some ip \<Rightarrow>
          and_then (lookupRoute env r ip) (\<lambda>route.
          (case route of
             None \<Rightarrow> Stop (''no route to destination '' @ dest)
           | Some ro \<Rightarrow>
               Go (VMap [(''destination'', VString dest), (''gateway'', VString (ri_Gateway ro)),
                         (''interface'', VString (ri_Interface ro)), (''metric'', VInt (ri_Metric ro)),
                         (''source'', VString (ri_Source ro)), (''route'', VString (ri_Destination ro))])))))"

section \<open>Properties\<close>

text \<open>The reference: the first of the candidates with the longest prefix.\<close>

definition longest_match :: "(int \<times> RouteInfo) list \<Rightarrow> RouteInfo option" where
  "longest_match cands = map_option snd (find (\<lambda>(bits, _). list_all (\<lambda>(b, _). b \<le> bits) cands) cands)"

primrec pick_longest :: "(int \<times> RouteInfo) list \<Rightarrow> int \<Rightarrow> RouteInfo option \<Rightarrow> RouteInfo option" where
  "pick_longest [] bestBits best = best"
| "pick_longest (c # cs) bestBits best =
     (if fst c \<le> bestBits then pick_longest cs bestBits best else pick_longest cs (fst c) (Some (snd c)))"

lemma parsed_lines_simps [simp]:
  "parsed_lines f [] = []"
  "parsed_lines f (l # ls) =
     (if TrimSpace l = [] then parsed_lines f ls
      else case f (TrimSpace l) of None \<Rightarrow> parsed_lines f ls | Some x \<Rightarrow> x # parsed_lines f ls)"
  by (simp_all add: parsed_lines_def split: option.split)

lemma lookup_loop_pick: "lookup_loop cand ls bits best = pick_longest (parsed_lines cand ls) bits best"
  by (induction cand ls bits best rule: lookup_loop.induct) (auto split: option.splits)

lemma longest_exists:
  fixes b :: int
  assumes "b < fst c" "c \<in> set cs"
  shows "\<exists>m \<in> set cs. b < fst m \<and> list_all (\<lambda>x. fst x \<le> fst m) cs"
proof -
  define M where "M = Max (set (map fst cs))"
  have "M \<in> set (map fst cs)" unfolding M_def using assms(2) by (intro Max_in) auto
  then obtain m where m: "m \<in> set cs" "fst m = M" by auto
  have le: "fst x \<le> M" if "x \<in> set cs" for x unfolding M_def using that by (intro Max_ge) auto
  have "b < M" using le [OF assms(2)] assms(1) by simp
  with m le show ?thesis by (intro bexI [of _ m]) (simp_all add: list_all_iff)
qed

lemma pick_longest_find:
  "pick_longest cs b best =
     (case find (\<lambda>x. b < fst x \<and> list_all (\<lambda>y. fst y \<le> fst x) cs) cs of None \<Rightarrow> best | Some c \<Rightarrow> Some (snd c))"
proof (induction cs arbitrary: b best)
  case (Cons c cs)
  show ?case
  proof (cases "b < fst c \<and> \<not> list_all (\<lambda>y. fst y \<le> fst c) cs")
    case True
    then obtain x where x: "x \<in> set cs" "fst c < fst x" by (auto simp: list_all_iff)
    have same: "(b < fst y \<and> fst c \<le> fst y \<and> list_all (\<lambda>z. fst z \<le> fst y) cs) =
        (fst c < fst y \<and> list_all (\<lambda>z. fst z \<le> fst y) cs)" for y
      using True x by (auto simp: list_all_iff)
    have "find (\<lambda>y. fst c < fst y \<and> list_all (\<lambda>z. fst z \<le> fst y) cs) cs \<noteq> None"
      using longest_exists [OF x(2,1)] by (auto simp: find_None_iff)
    then show ?thesis using True by (auto simp: Cons.IH same)
  next
    case False
    have none: "find (\<lambda>y. fst c < fst y \<and> list_all (\<lambda>z. fst z \<le> fst y) cs) cs = None" if "list_all (\<lambda>y. fst y \<le> fst c) cs"
      using that by (auto simp: find_None_iff list_all_iff)
    have same: "(b < fst y \<and> fst c \<le> fst y \<and> list_all (\<lambda>z. fst z \<le> fst y) cs) =
        (b < fst y \<and> list_all (\<lambda>z. fst z \<le> fst y) cs)" if "fst c \<le> b" for y
      using that by auto
    show ?thesis using False none by (auto simp: Cons.IH same)
  qed
qed simp

lemma pick_longest_match:
  assumes "list_all (\<lambda>c. 0 \<le> fst c) cs"
  shows "pick_longest cs (- 1) None = longest_match cs"
proof -
  have "find (\<lambda>x. - 1 < fst x \<and> list_all (\<lambda>y. fst y \<le> fst x) cs) cs =
      find (\<lambda>(b, _). list_all (\<lambda>(b', _). b' \<le> b) cs) cs"
    using assms by (intro find_cong) (auto simp: list_all_iff case_prod_unfold)
  then show ?thesis by (auto simp: pick_longest_find longest_match_def split: option.split)
qed

lemma candidate_bits:
  "ipv4_candidate ip line = Some c \<Longrightarrow> 0 \<le> fst c" "ipv6_candidate ip line = Some c \<Longrightarrow> 0 \<le> fst c"
  by (auto simp: ipv4_candidate_def ipv6_candidate_def maskBitsFromIPv4_def ipv6InNetwork_def Let_def
      split: if_splits option.splits)

lemma parsed_lines_all:
  assumes "\<And>line c. f line = Some c \<Longrightarrow> P c"
  shows "list_all P (parsed_lines f ls)"
  by (induction ls) (auto dest: assms split: option.split)


text \<open>The kernel writes IPv6 routes in the order of the network: reversing groups of four gives another address.\<close>

lemma ipv6_route_scrambled:
  "parseIPv6Hex ''fe800000000000000000000000000001'' =
     [0, 0, 0x80, 0xFE, 0, 0, 0, 0, 0, 0, 0, 0, 1, 0, 0, 0]"
  by (simp add: parseIPv6Hex_def ParseHex_def digit_in_def lower_byte_def is_digit_def digit_value_def Let_def)

end
