(* ===== verification/Linux_Files.thy ===== *)
theory Linux_Files
  imports Linux_Process
begin

text \<open>
  The tasks on files of \<open>internal/provider/linux\<close>: \<open>filesystem_read.go\<close>,
  \<open>filesystem_list_directory.go\<close>, \<open>filesystem_stat.go\<close> and \<open>filesystem_space_consumers.go\<close>. What
  they use of \<open>os\<close> is the record \<open>lin_files\<close>; the tree below a directory, which \<open>filepath.WalkDir\<close>
  visits, is a value. Times are nanoseconds since 1970.
\<close>

section \<open>Files\<close>

record FileInfo =
  fi_Size :: int
  fi_Mode :: gostring
  fi_IsDir :: bool
  fi_IsRegular :: bool
  fi_IsSymlink :: bool
  fi_Perm :: gostring
  fi_ModTime :: int
  fi_Sys :: "gmap option"

record DirEntry =
  de_Name :: gostring
  de_IsDir :: bool
  de_Info :: "gostring + FileInfo"

text \<open>An open file: seeking to an offset may fail; reading at one at most so many bytes gives bytes and an error.\<close>

record open_handle =
  oh_Seek :: "int \<Rightarrow> gostring option"
  oh_Read :: "int \<Rightarrow> int \<Rightarrow> gostring \<times> gostring option"

text \<open>
  A node of the tree: its name, whether it is a directory, the size if \<open>Info\<close> succeeds, and its
  children. A directory that cannot be read has none.
\<close>

datatype walk_tree = WalkNode gostring bool "int option" "walk_tree list"

record lin_files =
  lf_Stat :: "gostring \<Rightarrow> gostring + FileInfo"
  lf_Open :: "gostring \<Rightarrow> gostring + open_handle"
  lf_ReadDir :: "gostring \<Rightarrow> gostring + DirEntry list"
  lf_Tree :: "gostring \<Rightarrow> walk_tree option"

text \<open>The path of a request, once it is admitted.\<close>

definition admitted_path :: "lin_env \<Rightarrow> LinuxConfig \<Rightarrow> gmap \<Rightarrow> gostring outcome" where
  "admitted_path env cfg params =
     and_then (attempt (RequireString params ''path'')) (\<lambda>path.
     (case ValidateReadPath (lx_esc env) (lx_fs env) path (lin_AllowedReadPaths cfg) of
        Some err \<Rightarrow> Stop err | None \<Rightarrow> Go path))"

section \<open>linux.filesystem.read\<close>

definition read_offset :: "lin_env \<Rightarrow> LinuxConfig \<Rightarrow> gmap \<Rightarrow> int outcome" where
  "read_offset env cfg params =
     and_then (attempt (OptionalInt (lx_oor env) params ''offset'' 0)) (\<lambda>offset.
     if offset < 0 then Stop ''offset must be non-negative''
     else if lin_MaxReadOffset cfg > 0 \<and> offset > lin_MaxReadOffset cfg
     then Stop (''offset '' @ Itoa offset @ '' exceeds max_read_offset '' @ Itoa (lin_MaxReadOffset cfg))
     else Go offset)"

definition max_read_bytes :: "LinuxConfig \<Rightarrow> int" where
  "max_read_bytes cfg = (if lin_MaxReadBytes cfg \<le> 0 then 65536 else lin_MaxReadBytes cfg)"

definition read_content :: "LinuxConfig \<Rightarrow> gostring \<Rightarrow> int \<Rightarrow> open_handle \<Rightarrow> gvalue outcome" where
  "read_content cfg path offset f =
     (case if offset > 0 then oh_Seek f offset else None of
        Some err \<Rightarrow> Stop (''seek file: '' @ err)
      | None \<Rightarrow>
          (let maxBytes = max_read_bytes cfg; (content, e) = oh_Read f offset maxBytes; n = int (length content) in
           if e \<noteq> None \<and> e \<noteq> Some ''EOF'' then Stop (''read file: '' @ the e)
           else Go (VMap ([(''path'', VString path), (''content'', VString content), (''bytes_read'', VInt n),
                           (''truncated'', VBool (n = maxBytes \<and> fst (oh_Read f (offset + n) 1) \<noteq> []))]
                          @ (if offset > 0 then [(''offset'', VInt offset)] else [])))))"

definition filesystemRead_Execute :: "lin_files \<Rightarrow> lin_env \<Rightarrow> LinuxConfig \<Rightarrow> gmap \<Rightarrow> gvalue outcome" where
  "filesystemRead_Execute lf env cfg params =
     and_then (admitted_path env cfg params) (\<lambda>path.
     and_then (read_offset env cfg params) (\<lambda>offset.
     (case lf_Open lf path of
        Inl err \<Rightarrow> Stop (''open file: '' @ err)
      | Inr f \<Rightarrow> read_content cfg path offset f)))"

section \<open>linux.filesystem.list_directory\<close>

definition directory_at :: "lin_files \<Rightarrow> lin_env \<Rightarrow> gostring \<Rightarrow> unit outcome" where
  "directory_at lf env path =
     (case lf_Stat lf path of
        Inl err \<Rightarrow> Stop (''stat path: '' @ err)
      | Inr info \<Rightarrow>
          (if fi_IsDir info then Go () else Stop (''path '' @ Quote (lx_esc env) path @ '' is not a directory'')))"

definition or_positive :: "int \<Rightarrow> int \<Rightarrow> int" where
  "or_positive n d = (if n \<le> 0 then d else n)"

definition child_fields :: "lin_files \<Rightarrow> int \<Rightarrow> int \<Rightarrow> gostring \<Rightarrow> DirEntry \<Rightarrow> gmap" where
  "child_fields lf maxDepth maxEntries path entry =
     (if de_IsDir entry \<and> maxDepth > 1 then
        (case lf_ReadDir lf (filepath_Join [path, de_Name entry]) of
           Inl _ \<Rightarrow> []
         | Inr children \<Rightarrow>
             (let n = int (length children) in
              (if n > maxEntries then [(''children_truncated'', VBool True)] else [])
              @ [(''children_count'', VInt (min n maxEntries))]))
      else [])"

definition directory_item :: "lin_files \<Rightarrow> lin_env \<Rightarrow> int \<Rightarrow> int \<Rightarrow> gostring \<Rightarrow> DirEntry \<Rightarrow> gvalue" where
  "directory_item lf env maxDepth maxEntries path entry =
     VMap ([(''name'', VString (de_Name entry)), (''path'', VString (filepath_Join [path, de_Name entry]))]
           @ (case de_Info entry of
                Inl _ \<Rightarrow> []
              | Inr fi \<Rightarrow> [(''size'', VInt64 (fi_Size fi)), (''mode'', VString (fi_Mode fi)),
                            (''is_dir'', VBool (fi_IsDir fi)), (''modified'', VString (lx_FormatTime env (fi_ModTime fi)))])
           @ child_fields lf maxDepth maxEntries path entry)"

definition filesystemListDirectory_Execute ::
  "lin_files \<Rightarrow> lin_env \<Rightarrow> LinuxConfig \<Rightarrow> gmap \<Rightarrow> gvalue outcome" where
  "filesystemListDirectory_Execute lf env cfg params =
     and_then (admitted_path env cfg params) (\<lambda>path.
     and_then (directory_at lf env path) (\<lambda>_.
     (case lf_ReadDir lf path of
        Inl err \<Rightarrow> Stop (''read directory: '' @ err)
      | Inr entries \<Rightarrow>
          (let maxDepth = or_positive (lin_MaxDirectoryDepth cfg) 3;
               maxEntries = or_positive (lin_MaxDirectoryEntries cfg) 1000;
               items = map (directory_item lf env maxDepth maxEntries path) (take (nat maxEntries) entries)
           in Go (VMap ([(''path'', VString path), (''entries'', VList items), (''count'', VInt (int (length items)))]
                        @ (if int (length entries) > maxEntries
                           then [(''truncated'', VBool True), (''total'', VInt (int (length entries)))] else [])))))))"

section \<open>linux.filesystem.stat\<close>

definition filesystemStat_Execute :: "lin_files \<Rightarrow> lin_env \<Rightarrow> LinuxConfig \<Rightarrow> gmap \<Rightarrow> gvalue outcome" where
  "filesystemStat_Execute lf env cfg params =
     and_then (admitted_path env cfg params) (\<lambda>path.
     (case lf_Stat lf path of
        Inl err \<Rightarrow> Stop (''stat path: '' @ err)
      | Inr info \<Rightarrow>
          Go (VMap ([(''path'', VString path), (''exists'', VBool True), (''size'', VInt64 (fi_Size info)),
                     (''mode'', VString (fi_Mode info)), (''is_dir'', VBool (fi_IsDir info)),
                     (''is_regular'', VBool (fi_IsRegular info)), (''is_symlink'', VBool (fi_IsSymlink info)),
                     (''modified'', VString (lx_FormatTime env (fi_ModTime info))),
                     (''permissions'', VString (''0'' @ fi_Perm info))]
                    @ (case fi_Sys info of None \<Rightarrow> [] | Some s \<Rightarrow> s)))))"

section \<open>linux.filesystem.space_consumers\<close>

definition filepathDepth :: "gostring \<Rightarrow> int" where
  "filepathDepth p = int (length (filter (\<lambda>c. c = CHR ''/'') (Clean p)))"

text \<open>
  The walk with its callback: a node deeper than \<open>limit\<close> is skipped with all below it; a directory
  counts for nothing itself.
\<close>

fun walk_files :: "int \<Rightarrow> gostring \<Rightarrow> walk_tree \<Rightarrow> (gostring \<times> int) list" where
  "walk_files limit p (WalkNode _ isDir sz children) =
     (if filepathDepth p > limit then []
      else if isDir
      then concat (map (\<lambda>c. case c of WalkNode name _ _ _ \<Rightarrow> walk_files limit (filepath_Join [p, name]) c) children)
      else (case sz of None \<Rightarrow> [] | Some s \<Rightarrow> [(p, s)]))"

text \<open>\<open>sort.Slice\<close> by falling size; files of equal size keep their order here.\<close>

definition largest_first :: "(gostring \<times> int) list \<Rightarrow> (gostring \<times> int) list" where
  "largest_first cs = sort_key (\<lambda>(_, sz). - sz) cs"

definition consumer_limit :: "lin_env \<Rightarrow> gmap \<Rightarrow> int outcome" where
  "consumer_limit env params =
     and_then (attempt (OptionalInt (lx_oor env) params ''limit'' 50)) (\<lambda>limit.
     Go (min 1000 (or_positive limit 50)))"

definition space_consumers :: "lin_files \<Rightarrow> int \<Rightarrow> gostring \<Rightarrow> (gostring \<times> int) list" where
  "space_consumers lf maxDepth path =
     (case lf_Tree lf path of None \<Rightarrow> [] | Some t \<Rightarrow> walk_files (filepathDepth path + maxDepth) path t)"

definition filesystemSpaceConsumers_Execute ::
  "lin_files \<Rightarrow> lin_env \<Rightarrow> LinuxConfig \<Rightarrow> gmap \<Rightarrow> gvalue outcome" where
  "filesystemSpaceConsumers_Execute lf env cfg params =
     and_then (admitted_path env cfg params) (\<lambda>path.
     and_then (directory_at lf env path) (\<lambda>_.
     and_then (consumer_limit env params) (\<lambda>limit.
     and_then (truncate_to limit
        (largest_first (space_consumers lf (or_positive (lin_MaxDirectoryDepth cfg) 3) path))) (\<lambda>(cs, _).
     Go (VMap [(''path'', VString path),
               (''consumers'',
                  VList (map (\<lambda>(p, s). VMap [(''path'', VString p), (''size_bytes'', VInt64 s)]) cs)),
               (''count'', VInt (int (length cs)))])))))"

end
