(* ===== verification/Linux_Devices.thy ===== *)
theory Linux_Devices
  imports Linux_Kernel Linux_Files
begin

text \<open>
  The tasks of \<open>internal/provider/linux\<close> on devices, interfaces, capacities and processors, on the log of
  the kernel, the clock and the security modules: \<open>blockdevice_list.go\<close>, \<open>blockdevice_stats.go\<close>,
  \<open>interface_list.go\<close>, \<open>filesystem_list.go\<close>, \<open>filesystem_inodes.go\<close>, \<open>cpu_info.go\<close>, \<open>kernel_dmesg.go\<close>,
  \<open>system_time.go\<close>, \<open>selinux_status.go\<close>, \<open>apparmor_status.go\<close>. \<open>syscall.Statfs\<close> and the interfaces
  of \<open>net\<close> are arguments.
\<close>

definition wrapu64 :: "int \<Rightarrow> int" where
  "wrapu64 n = n mod 18446744073709551616"

definition file_text :: "lin_env \<Rightarrow> gostring \<Rightarrow> gostring + gostring" where
  "file_text env path = fs_ReadFile (lx_fs env) path"

definition file_exists :: "lin_env \<Rightarrow> gostring \<Rightarrow> bool" where
  "file_exists env path \<longleftrightarrow> (case fs_IsDir (lx_fs env) path of Inl _ \<Rightarrow> False | Inr _ \<Rightarrow> True)"

section \<open>linux.blockdevice.list\<close>

text \<open>The number, which is the nearest one or zero if there is an error, and whether there is none.\<close>

definition readSysBlockSize :: "lin_env \<Rightarrow> gostring \<Rightarrow> int \<times> bool" where
  "readSysBlockSize env path =
     (case file_text env (filepath_Join [path, ''size'']) of
        Inl _ \<Rightarrow> (0, False)
      | Inr d \<Rightarrow> (ParseUint_value (TrimSpace d), ParseUint 64 (TrimSpace d) \<noteq> None))"

definition partition_line :: "gostring \<Rightarrow> gostring \<Rightarrow> (int \<times> int \<times> int) option" where
  "partition_line name line =
     (case Fields line of
        f0 # f1 # f2 # f3 # _ \<Rightarrow>
          (if f3 = name then Some (Atoi_value f0, Atoi_value f1, ParseUint_value f2) else None)
      | _ \<Rightarrow> None)"

text \<open>The first match after the two lines of the header.\<close>

definition parseProcPartitionsContent :: "gostring \<Rightarrow> gostring \<Rightarrow> (int \<times> int \<times> int) option" where
  "parseProcPartitionsContent content name =
     (case parsed_lines (partition_line name) (drop 2 (Split (CHR 0x0A) content)) of
        p # _ \<Rightarrow> Some p | [] \<Rightarrow> None)"

definition readProcPartitions :: "lin_env \<Rightarrow> gostring \<Rightarrow> (int \<times> int \<times> int) option" where
  "readProcPartitions env name =
     (case file_text env ''/proc/partitions'' of Inl _ \<Rightarrow> None | Inr d \<Rightarrow> parseProcPartitionsContent d name)"

definition size_bytes_field :: "int \<times> bool \<Rightarrow> gmap" where
  "size_bytes_field r = (if snd r then [(''size_bytes'', VUint64 (wrapu64 (fst r * 512)))] else [])"

definition partition_value :: "lin_env \<Rightarrow> gostring \<Rightarrow> gostring \<Rightarrow> gvalue" where
  "partition_value env devPath pname =
     VMap ([(''name'', VString pname), (''type'', VString ''partition'')]
           @ size_bytes_field (readSysBlockSize env (filepath_Join [devPath, pname])))"

definition device_partitions :: "lin_files \<Rightarrow> lin_env \<Rightarrow> gostring \<Rightarrow> gostring \<Rightarrow> gvalue list" where
  "device_partitions lf env devPath name =
     (case lf_ReadDir lf devPath of
        Inl _ \<Rightarrow> []
      | Inr pes \<Rightarrow>
          map (\<lambda>pe. partition_value env devPath (de_Name pe))
            (filter (\<lambda>pe. de_IsDir pe \<and> HasPrefix (de_Name pe) name) pes))"

definition block_device :: "lin_files \<Rightarrow> lin_env \<Rightarrow> gostring \<Rightarrow> gvalue" where
  "block_device lf env name =
     (let devPath = filepath_Join [''/sys/block'', name];
          sz = readSysBlockSize env devPath;
          partitions = device_partitions lf env devPath name
      in VMap (assign_all
           (size_bytes_field sz
            @ (if partitions = [] then [] else [(''partitions'', VList partitions)])
            @ (case readProcPartitions env name of
                 None \<Rightarrow> []
               | Some (major, minor, blocks) \<Rightarrow>
                   [(''major'', VInt major), (''minor'', VInt minor)]
                   @ (if fst sz = 0 then [(''size_bytes'', VUint64 (wrapu64 (blocks * 1024)))] else [])))
           [(''name'', VString name), (''type'', VString ''disk'')]))"

definition blockdeviceList_Execute :: "lin_files \<Rightarrow> lin_env \<Rightarrow> gmap \<Rightarrow> gvalue outcome" where
  "blockdeviceList_Execute lf env params =
     (case lf_ReadDir lf ''/sys/block'' of
        Inl err \<Rightarrow> Stop (''read block devices: '' @ err)
      | Inr entries \<Rightarrow> Go (VMap (listed_as ''devices'' (map (\<lambda>e. block_device lf env (de_Name e)) entries))))"

section \<open>linux.blockdevice.stats\<close>

definition diskstat_counters :: "gostring list" where
  "diskstat_counters =
     [''reads_completed'', ''reads_merged'', ''sectors_read'', ''ms_reading'', ''writes_completed'',
      ''writes_merged'', ''sectors_written'', ''ms_writing'', ''ios_in_progress'', ''ms_doing_io'',
      ''weighted_ms_doing_io'']"

definition diskstat_line :: "gostring \<Rightarrow> gvalue option" where
  "diskstat_line line =
     (let fs = Fields line in
      if length fs < 14 then None
      else Some (VMap ([(''name'', VString (fs ! 2)), (''major'', VInt (Atoi_value (fs ! 0))),
                        (''minor'', VInt (Atoi_value (fs ! 1)))]
                       @ map (\<lambda>(key, f). (key, VUint64 (ParseUint_value f))) (zip diskstat_counters (drop 3 fs)))))"

definition parseDiskstatsContent :: "gostring \<Rightarrow> gvalue list" where
  "parseDiskstatsContent content = parsed_lines diskstat_line (Split (CHR 0x0A) content)"

definition blockdeviceStats_Execute :: "lin_env \<Rightarrow> gmap \<Rightarrow> gvalue outcome" where
  "blockdeviceStats_Execute env params =
     (case file_text env ''/proc/diskstats'' of
        Inl err \<Rightarrow> Stop (''read diskstats: '' @ err)
      | Inr d \<Rightarrow> Go (VMap (listed_as ''devices'' (parseDiskstatsContent d))))"

section \<open>linux.network.interface.list\<close>

record net_Interface =
  ni_Name :: gostring
  ni_Index :: int
  ni_MTU :: int
  ni_Flags :: nat
  ni_HardwareAddr :: "gostring option"
  ni_Addrs :: "gostring + gostring list"

definition netdev_line :: "gostring \<Rightarrow> (gostring \<times> int \<times> int) option" where
  "netdev_line line =
     (case Split (CHR ''|'') line of
        [p0, p1, p2] \<Rightarrow>
          (case (TrimSpace p0, Fields p1, Fields p2) of
             (iface, rx # _, tx # _) \<Rightarrow>
               (if iface = [] then None else Some (iface, ParseUint_value rx, ParseUint_value tx))
           | _ \<Rightarrow> None)
      | _ \<Rightarrow> None)"

definition netdev_counters :: "gostring list \<Rightarrow> (gostring \<times> int \<times> int) list" where
  "netdev_counters ls = assign_all (List.map_filter netdev_line (drop 2 ls)) []"

text \<open>An error leaves no counters.\<close>

definition readNetDevCounters :: "lin_env \<Rightarrow> Reader \<Rightarrow> (gostring \<times> int \<times> int) list" where
  "readNetDevCounters env r =
     (case ReadFileLines (lx_fs env) r [''proc'', ''net'', ''dev''] of Inl _ \<Rightarrow> [] | Inr ls \<Rightarrow> netdev_counters ls)"

definition flag_names :: "gostring list" where
  "flag_names = [''up'', ''broadcast'', ''loopback'', ''pointtopoint'', ''multicast'']"

definition interfaceFlags :: "nat \<Rightarrow> gostring list" where
  "interfaceFlags flags = map snd (filter (\<lambda>(i, _). bit flags i) (enumerate 0 flag_names))"

definition interface_value :: "(gostring \<times> int \<times> int) list \<Rightarrow> net_Interface \<Rightarrow> gvalue" where
  "interface_value counters iface =
     (let addrs = (case ni_Addrs iface of Inl _ \<Rightarrow> [] | Inr as \<Rightarrow> as);
          (rx, tx) = ok_or (map_of counters (ni_Name iface)) (0, 0)
      in VMap ([(''name'', VString (ni_Name iface)), (''index'', VInt (ni_Index iface)), (''mtu'', VInt (ni_MTU iface))]
               @ (case ni_HardwareAddr iface of
                    Some mac \<Rightarrow> (if mac = [] then [] else [(''mac_address'', VString mac)]) | None \<Rightarrow> [])
               @ [(''flags'', VStrings (interfaceFlags (ni_Flags iface))),
                  (''state'', VString (if bit (ni_Flags iface) 0 then ''up'' else ''down''))]
               @ (if addrs = [] then [] else [(''addresses'', VStrings addrs)])
               @ (if rx = 0 then [] else [(''rx_bytes'', VUint64 rx)])
               @ (if tx = 0 then [] else [(''tx_bytes'', VUint64 tx)])))"

definition listInterfaces ::
  "lin_env \<Rightarrow> Reader \<Rightarrow> gostring + net_Interface list \<Rightarrow> bool \<Rightarrow> gvalue list outcome" where
  "listInterfaces env r ifaces includeDown =
     (case ifaces of
        Inl err \<Rightarrow> Stop (''list interfaces: '' @ err)
      | Inr is \<Rightarrow> Go (map (interface_value (readNetDevCounters env r))
                      (filter (\<lambda>i. includeDown \<or> bit (ni_Flags i) 0) is)))"

definition interfaceList_Execute ::
  "lin_env \<Rightarrow> Reader \<Rightarrow> gostring + net_Interface list \<Rightarrow> gmap \<Rightarrow> gvalue outcome" where
  "interfaceList_Execute env r ifaces params =
     and_then (listInterfaces env r ifaces
                 (case map_of params ''include_down'' of Some (VBool b) \<Rightarrow> b | _ \<Rightarrow> True)) (\<lambda>vs.
     Go (VMap (listed_as ''interfaces'' vs)))"

section \<open>linux.filesystem.list and linux.filesystem.inodes\<close>

record statfs =
  sf_Bsize :: int
  sf_Blocks :: int
  sf_Bavail :: int
  sf_Files :: int
  sf_Ffree :: int

record mountEntry =
  me_Source :: gostring
  me_Target :: gostring
  me_FilesystemType :: gostring
  me_Options :: "gostring list"

definition mount_line :: "gostring \<Rightarrow> mountEntry option" where
  "mount_line line =
     (case Fields line of
        f0 # f1 # f2 # f3 # _ \<Rightarrow>
          Some \<lparr>me_Source = f0, me_Target = f1, me_FilesystemType = f2, me_Options = Split (CHR '','') f3\<rparr>
      | _ \<Rightarrow> None)"

definition parseMountsContent :: "gostring \<Rightarrow> mountEntry list" where
  "parseMountsContent content = parsed_lines mount_line (Split (CHR 0x0A) content)"

definition readMounts :: "lin_env \<Rightarrow> gostring + mountEntry list" where
  "readMounts env =
     (case file_text env ''/proc/mounts'' of Inl err \<Rightarrow> Inl err | Inr d \<Rightarrow> Inr (parseMountsContent d))"

text \<open>\<open>float64(a) * 100.0 / float64(b)\<close> for a positive \<open>b\<close>.\<close>

definition float_percent :: "int \<Rightarrow> int \<Rightarrow> gofloat" where
  "float_percent a b =
     (case (float_mul (float64_of_int a) (float64_of_int 100), float64_of_int b) of
        (FFin m e, FFin n k) \<Rightarrow> float_div_int (FFin m (e - k)) n
      | _ \<Rightarrow> FNaN)"

definition used_of :: "int \<Rightarrow> int \<Rightarrow> int" where
  "used_of tot free = (if tot > free then tot - free else 0)"

definition used_percent :: "int \<Rightarrow> int \<Rightarrow> gofloat" where
  "used_percent tot free = (if tot > 0 then float_percent (used_of tot free) tot else float_zero)"

definition block_usage :: "statfs option \<Rightarrow> int \<times> int" where
  "block_usage st =
     (case st of
        None \<Rightarrow> (0, 0)
      | Some s \<Rightarrow> (let bsize = wrapu64 (sf_Bsize s) in (wrapu64 (sf_Blocks s * bsize), wrapu64 (sf_Bavail s * bsize))))"

definition filesystemList_Execute :: "lin_env \<Rightarrow> (gostring \<Rightarrow> statfs option) \<Rightarrow> gmap \<Rightarrow> gvalue outcome" where
  "filesystemList_Execute env sf params =
     (case readMounts env of
        Inl err \<Rightarrow> Stop (''read mounts: '' @ err)
      | Inr mounts \<Rightarrow>
          Go (VMap (listed_as ''filesystems''
                (map (\<lambda>m. let (tot, free) = block_usage (sf (me_Target m)) in
                          VMap [(''source'', VString (me_Source m)), (''target'', VString (me_Target m)),
                                (''filesystem_type'', VString (me_FilesystemType m)), (''options'', VStrings (me_Options m)),
                                (''total_bytes'', VUint64 tot), (''free_bytes'', VUint64 free),
                                (''used_bytes'', VUint64 (used_of tot free)),
                                (''used_percent'', VFloat64 (used_percent tot free))])
                     mounts))))"

definition filesystemInodes_Execute :: "lin_env \<Rightarrow> (gostring \<Rightarrow> statfs option) \<Rightarrow> gmap \<Rightarrow> gvalue outcome" where
  "filesystemInodes_Execute env sf params =
     (case readMounts env of
        Inl err \<Rightarrow> Stop (''read mounts: '' @ err)
      | Inr mounts \<Rightarrow>
          Go (VMap (listed_as ''filesystems''
                (map (\<lambda>m. let (tot, free) = (case sf (me_Target m) of None \<Rightarrow> (0, 0) | Some s \<Rightarrow> (sf_Files s, sf_Ffree s)) in
                          VMap [(''source'', VString (me_Source m)), (''target'', VString (me_Target m)),
                                (''filesystem_type'', VString (me_FilesystemType m)),
                                (''total_inodes'', VUint64 tot), (''free_inodes'', VUint64 free),
                                (''used_inodes'', VUint64 (used_of tot free)),
                                (''used_percent'', VFloat64 (used_percent tot free))])
                     mounts))))"

section \<open>linux.cpu.info\<close>

record CPUInfo =
  cpu_Processor :: int
  cpu_ModelName :: gostring
  cpu_VendorID :: gostring
  cpu_CPUCores :: int
  cpu_Siblings :: int
  cpu_CPUMHz :: gofloat
  cpu_Flags :: "gostring list"
  cpu_PhysicalID :: int
  cpu_CoreID :: int

definition empty_cpu :: CPUInfo where
  "empty_cpu =
     \<lparr>cpu_Processor = 0, cpu_ModelName = [], cpu_VendorID = [], cpu_CPUCores = 0, cpu_Siblings = 0,
      cpu_CPUMHz = float_zero, cpu_Flags = [], cpu_PhysicalID = 0, cpu_CoreID = 0\<rparr>"

definition cpu_key :: "lin_env \<Rightarrow> gostring \<Rightarrow> gostring \<Rightarrow> CPUInfo \<Rightarrow> CPUInfo" where
  "cpu_key env key val c =
     (if key = ''processor'' then c\<lparr>cpu_Processor := Atoi_value val\<rparr>
      else if key = ''model name'' then c\<lparr>cpu_ModelName := val\<rparr>
      else if key = ''vendor_id'' then c\<lparr>cpu_VendorID := val\<rparr>
      else if key = ''cpu cores'' then c\<lparr>cpu_CPUCores := Atoi_value val\<rparr>
      else if key = ''siblings'' then c\<lparr>cpu_Siblings := Atoi_value val\<rparr>
      else if key = ''cpu MHz'' then c\<lparr>cpu_CPUMHz := float_value env val\<rparr>
      else if key = ''flags'' then c\<lparr>cpu_Flags := Fields val\<rparr>
      else if key = ''physical id'' then c\<lparr>cpu_PhysicalID := Atoi_value val\<rparr>
      else if key = ''core id'' then c\<lparr>cpu_CoreID := Atoi_value val\<rparr>
      else c)"

definition list_of_option :: "'a option \<Rightarrow> 'a list" where
  "list_of_option v = (case v of None \<Rightarrow> [] | Some x \<Rightarrow> [x])"

fun cpu_lines :: "lin_env \<Rightarrow> gostring list \<Rightarrow> CPUInfo option \<Rightarrow> CPUInfo list" where
  "cpu_lines env [] current = list_of_option current"
| "cpu_lines env (line0 # ls) current =
     (let line = TrimSpace line0 in
      if line = [] then list_of_option current @ cpu_lines env ls None
      else
        (let c = ok_or current empty_cpu in
         case SplitN2 (CHR '':'') line of
           [k, v] \<Rightarrow> cpu_lines env ls (Some (cpu_key env (TrimSpace k) (TrimSpace v) c))
         | _ \<Rightarrow> cpu_lines env ls (Some c)))"

definition positive_int :: "gostring \<Rightarrow> int \<Rightarrow> gmap" where
  "positive_int key n = (if n = 0 then [] else [(key, VInt n)])"

definition nonempty_text :: "gostring \<Rightarrow> gostring \<Rightarrow> gmap" where
  "nonempty_text key s = (if s = [] then [] else [(key, VString s)])"

definition cpu_info_value :: "CPUInfo \<Rightarrow> gvalue" where
  "cpu_info_value c =
     VMap ([(''processor'', VInt (cpu_Processor c))] @ nonempty_text ''model_name'' (cpu_ModelName c)
           @ nonempty_text ''vendor_id'' (cpu_VendorID c) @ positive_int ''cpu_cores'' (cpu_CPUCores c)
           @ positive_int ''siblings'' (cpu_Siblings c)
           @ (if float_eq (cpu_CPUMHz c) float_zero then [] else [(''cpu_mhz'', VFloat64 (cpu_CPUMHz c))])
           @ (if cpu_Flags c = [] then [] else [(''flags'', VStrings (cpu_Flags c))])
           @ positive_int ''physical_id'' (cpu_PhysicalID c) @ positive_int ''core_id'' (cpu_CoreID c))"

definition readCPUInfo :: "lin_env \<Rightarrow> Reader \<Rightarrow> gmap outcome" where
  "readCPUInfo env r =
     and_then (lines_or_stop env r [''proc'', ''cpuinfo''] ''read /proc/cpuinfo'') (\<lambda>ls.
     (let cpus = cpu_lines env ls None in
      Go [(''processors'', VList (map cpu_info_value cpus)), (''count'', VInt (int (length cpus))),
          (''physical_cpus'', VInt (int (length (remdups (map cpu_PhysicalID cpus)))))]))"

definition cpuInfo_Execute :: "lin_env \<Rightarrow> Reader \<Rightarrow> gmap \<Rightarrow> gvalue outcome" where
  "cpuInfo_Execute env r params = and_then (readCPUInfo env r) (\<lambda>d. Go (VMap d))"

section \<open>linux.kernel.dmesg\<close>

text \<open>The limit is positive.\<close>

fun dmesg_lines :: "int \<Rightarrow> gostring \<Rightarrow> gostring list \<Rightarrow> gostring list \<Rightarrow> gostring list" where
  "dmesg_lines limit flt [] messages = messages"
| "dmesg_lines limit flt (line0 # ls) messages =
     (let line = TrimSpace line0 in
      if line = [] then dmesg_lines limit flt ls messages
      else if flt \<noteq> [] \<and> \<not> strings_Contains line flt then dmesg_lines limit flt ls messages
      else if int (length (messages @ [line])) \<ge> limit then messages @ [line]
      else dmesg_lines limit flt ls (messages @ [line]))"

definition readKernelDmesg :: "lin_env \<Rightarrow> Reader \<Rightarrow> int \<Rightarrow> gostring \<Rightarrow> gmap outcome" where
  "readKernelDmesg env r limit flt =
     (case ReadFileString (lx_fs env) r [''dev'', ''kmsg''] of
        Inl err \<Rightarrow>
          (if lx_IsPermission env err
           then Stop (''unable to read /dev/kmsg: '' @ err @ '' (requires CAP_SYSLOG or root privileges)'')
           else Stop (''read /dev/kmsg: '' @ err))
      | Inr raw \<Rightarrow>
          (let messages = dmesg_lines limit flt (Split (CHR 0x0A) raw) [] in
           Go [(''messages'', VStrings messages), (''count'', VInt (int (length messages))),
               (''source'', VString ''/dev/kmsg'')]))"

definition kernelDmesg_Execute :: "lin_env \<Rightarrow> Reader \<Rightarrow> gmap \<Rightarrow> gvalue outcome" where
  "kernelDmesg_Execute env r params =
     and_then (attempt (NormalizeLimit (lx_oor env) params)) (\<lambda>limit.
     and_then (readKernelDmesg env r limit (value_or [] (OptionalString params ''filter'' []))) (\<lambda>d.
     Go (VMap d)))"

section \<open>linux.system.time\<close>

text \<open>\<open>%+03d\<close> and \<open>%02d\<close>.\<close>

definition pad2 :: "gostring \<Rightarrow> gostring" where
  "pad2 ds = (if length ds < 2 then CHR ''0'' # ds else ds)"

definition utc_offset_text :: "int \<Rightarrow> gostring" where
  "utc_offset_text offset =
     (let h = quot offset 3600; m = quot (rem offset 3600) 60 in
      (if h < 0 then ''-'' else ''+'') @ pad2 (Itoa \<bar>h\<bar>) @ '':'' @ pad2 (Itoa m))"

definition drop_newline :: "gostring \<Rightarrow> gostring" where
  "drop_newline s = (if s \<noteq> [] \<and> last s = CHR 0x0A then butlast s else s)"

definition systemTime_Execute :: "lin_env \<Rightarrow> gmap \<Rightarrow> gvalue outcome" where
  "systemTime_Execute env params =
     (let (zone, offset) = lx_Zone env;
          tzName = (case file_text env ''/etc/timezone'' of Inl _ \<Rightarrow> zone | Inr d \<Rightarrow> drop_newline d)
      in Go (VMap [(''current_time'', VString (lx_FormatTime env (lx_Now env))), (''timezone'', VString tzName),
                   (''utc_offset'', VString (utc_offset_text offset)),
                   (''unix_seconds'', VInt64 (lx_Now env div 1000000000)), (''unix_nanos'', VInt64 (wrap64 (lx_Now env)))]))"

section \<open>linux.security.selinux.status and linux.security.apparmor.status\<close>

definition selinux_policy :: "gostring \<Rightarrow> gostring" where
  "selinux_policy config =
     (case find (\<lambda>line. HasPrefix line ''SELINUXTYPE='') (map TrimSpace (Split (CHR 0x0A) config)) of
        None \<Rightarrow> ''unknown''
      | Some line \<Rightarrow> trim_byte (CHR 0x22) (TrimPrefix line ''SELINUXTYPE=''))"

definition readSELinuxStatus :: "lin_env \<Rightarrow> gmap outcome" where
  "readSELinuxStatus env =
     (case file_text env ''/sys/fs/selinux/enforce'' of
        Inl err \<Rightarrow>
          (if lx_IsNotExist env err
           then Go [(''enabled'', VBool False), (''mode'', VString ''not_installed''),
                    (''message'', VString ''SELinux not installed or not enabled'')]
           else Stop (''read /sys/fs/selinux/enforce: '' @ err))
      | Inr d \<Rightarrow>
          (let mode = TrimSpace d in
           Go [(''enabled'', VBool True),
               (''mode'', VString (if mode = ''0'' then ''permissive'' else if mode = ''1'' then ''enforcing'' else ''unknown'')),
               (''policy'',
                  VString (case file_text env ''/etc/selinux/config'' of
                             Inl _ \<Rightarrow> ''unknown'' | Inr c \<Rightarrow> selinux_policy c))]))"

definition selinuxStatus_Execute :: "lin_env \<Rightarrow> gmap \<Rightarrow> gvalue outcome" where
  "selinuxStatus_Execute env params = and_then (readSELinuxStatus env) (\<lambda>d. Go (VMap d))"

definition profile_line :: "gostring \<Rightarrow> gvalue option" where
  "profile_line line =
     (if line = [] then None
      else (case Fields line of
              n # m # _ \<Rightarrow> Some (VStrMap [(''name'', n), (''mode'', m)])
            | [n] \<Rightarrow> Some (VStrMap [(''name'', n), (''mode'', ''unknown'')])
            | [] \<Rightarrow> None))"

definition readApparmorStatus :: "lin_env \<Rightarrow> gmap outcome" where
  "readApparmorStatus env =
     (case file_text env ''/sys/kernel/security/apparmor/profiles'' of
        Inl err \<Rightarrow>
          (if lx_IsNotExist env err
           then Go [(''enabled'', VBool False), (''profiles'', VStrings []),
                    (''message'', VString ''AppArmor not installed or not enabled'')]
           else Stop (''read /sys/kernel/security/apparmor/profiles: '' @ err))
      | Inr d \<Rightarrow>
          (let profiles = List.map_filter profile_line (Split (CHR 0x0A) d) in
           Go [(''enabled'', VBool True), (''profile_count'', VInt (int (length profiles))),
               (''profiles'', VList profiles)]))"

definition apparmorStatus_Execute :: "lin_env \<Rightarrow> gmap \<Rightarrow> gvalue outcome" where
  "apparmorStatus_Execute env params = and_then (readApparmorStatus env) (\<lambda>d. Go (VMap d))"

section \<open>Facts\<close>

text \<open>A line of \<open>/proc/net/dev\<close> has no bar after the header, so no interface gets counters.\<close>

lemma netdev_counters_empty:
  "list_all (\<lambda>line. CHR ''|'' \<notin> set line) (drop 2 ls) \<Longrightarrow> netdev_counters ls = []"
proof -
  assume bars: "list_all (\<lambda>line. CHR ''|'' \<notin> set line) (drop 2 ls)"
  have "Split (CHR ''|'') line = [line]" if "CHR ''|'' \<notin> set line" for line
    using that by (induction line) auto
  then have "List.map_filter netdev_line (drop 2 ls) = []"
    using bars by (auto simp: map_filter_def filter_empty_conv netdev_line_def list_all_iff)
  then show ?thesis by (simp add: netdev_counters_def assign_all_def)
qed

text \<open>The log is cut to the limit.\<close>

lemma dmesg_lines_bounded:
  "int (length messages) \<le> limit \<Longrightarrow> 0 < limit \<Longrightarrow> int (length messages) < limit \<or> ls = []
    \<Longrightarrow> int (length (dmesg_lines limit flt ls messages)) \<le> limit"
  by (induction limit flt ls messages rule: dmesg_lines.induct) (auto simp: Let_def)

text \<open>A zone behind Greenwich by hours and minutes is shown with two signs.\<close>

lemma utc_offset_newfoundland: "utc_offset_text (- 12600) = ''-03:-30''"
  by (simp add: utc_offset_text_def quot_def rem_def pad2_def Itoa_def digit_char_def Itoa_nat.simps ) code_simp

end
