(* ===== verification/Linux_Packages.thy ===== *)
theory Linux_Packages
  imports Linux_Devices
begin

text \<open>
  \<open>package_get.go\<close> and \<open>package_list.go\<close> of \<open>internal/provider/linux\<close>: packages from the status file of
  dpkg, or from the printable strings of an RPM database.
\<close>

record PackageInfo =
  pkg_Name :: gostring
  pkg_Version :: gostring
  pkg_Status :: gostring
  pkg_Installed :: bool
  pkg_Manager :: gostring

definition package_value :: "PackageInfo \<Rightarrow> gvalue" where
  "package_value p =
     VMap ([(''name'', VString (pkg_Name p))] @ nonempty_text ''version'' (pkg_Version p)
           @ nonempty_text ''status'' (pkg_Status p)
           @ [(''installed'', VBool (pkg_Installed p)), (''manager'', VString (pkg_Manager p))])"

definition rpmDatabasePaths :: "gostring list" where
  "rpmDatabasePaths = [''/var/lib/rpm/Packages.db'', ''/usr/lib/rpm/rpmdb.sqlite'', ''/var/lib/rpm/Packages'']"

definition findRpmDatabase :: "lin_env \<Rightarrow> gostring" where
  "findRpmDatabase env = ok_or (find (file_exists env) rpmDatabasePaths) []"

definition dpkg_package :: "gostring \<Rightarrow> gostring \<Rightarrow> gostring \<Rightarrow> PackageInfo" where
  "dpkg_package name version status =
     \<lparr>pkg_Name = name, pkg_Version = version, pkg_Status = status,
      pkg_Installed = strings_Contains status ''install ok installed'', pkg_Manager = ''dpkg''\<rparr>"

definition absent_package :: "gostring \<Rightarrow> gostring \<Rightarrow> PackageInfo" where
  "absent_package name manager =
     \<lparr>pkg_Name = name, pkg_Version = [], pkg_Status = [], pkg_Installed = False, pkg_Manager = manager\<rparr>"

section \<open>linux.package.get\<close>

text \<open>The package, version and status in hand when the loop ends, and whether it ended at a match.\<close>

fun dpkg_find :: "gostring \<Rightarrow> gostring list \<Rightarrow> gostring \<times> gostring \<times> gostring \<Rightarrow> gostring \<times> gostring \<times> gostring" where
  "dpkg_find name [] cur = cur"
| "dpkg_find name (line # ls) (p, v, s) =
     (if HasPrefix line ''Package: '' then
        (if p = name then (p, v, s) else dpkg_find name ls (TrimPrefix line ''Package: '', [], []))
      else if HasPrefix line ''Version: '' then dpkg_find name ls (p, TrimPrefix line ''Version: '', s)
      else if HasPrefix line ''Status: '' then dpkg_find name ls (p, v, TrimPrefix line ''Status: '')
      else if line = [] then (if p = name then (p, v, s) else dpkg_find name ls ([], v, s))
      else dpkg_find name ls (p, v, s))"

definition readDpkgPackage :: "lin_env \<Rightarrow> gostring \<Rightarrow> PackageInfo outcome" where
  "readDpkgPackage env name =
     (case file_text env ''/var/lib/dpkg/status'' of
        Inl err \<Rightarrow> Stop (''read dpkg status: '' @ err)
      | Inr d \<Rightarrow>
          (let (p, v, s) = dpkg_find name (Split (CHR 0x0A) d) ([], [], []) in
           Go (if p = name then dpkg_package name v s else absent_package name ''dpkg'')))"

definition readRpmPackage :: "lin_env \<Rightarrow> gostring \<Rightarrow> PackageInfo" where
  "readRpmPackage env name =
     (if findRpmDatabase env = [] then absent_package name ''unknown''
      else \<lparr>pkg_Name = name, pkg_Version = [],
            pkg_Status = ''rpm database present; verify with 'rpm -q '' @ name @ [CHR 0x27] @ '' on host'',
            pkg_Installed = True, pkg_Manager = ''rpm''\<rparr>)"

definition readPackageGet :: "lin_env \<Rightarrow> gostring \<Rightarrow> PackageInfo outcome" where
  "readPackageGet env name =
     (if file_exists env ''/var/lib/dpkg/status'' then readDpkgPackage env name
      else if findRpmDatabase env \<noteq> [] then Go (readRpmPackage env name)
      else Go (absent_package name ''unknown''))"

definition packageGet_Execute :: "lin_env \<Rightarrow> gmap \<Rightarrow> gvalue outcome" where
  "packageGet_Execute env params =
     and_then (attempt (RequireString params ''name'')) (\<lambda>name.
     and_then (readPackageGet env name) (\<lambda>p. Go (package_value p)))"

section \<open>linux.package.list\<close>

definition package_matches :: "gostring \<Rightarrow> gostring \<Rightarrow> bool" where
  "package_matches flt p \<longleftrightarrow> p \<noteq> [] \<and> (flt = [] \<or> strings_Contains p flt)"

text \<open>The packages and the entry in hand when the loop ends, with the lines or at the limit.\<close>

fun dpkg_list ::
  "gostring \<Rightarrow> int \<Rightarrow> gostring list \<Rightarrow> PackageInfo list \<Rightarrow> gostring \<times> gostring \<times> gostring
    \<Rightarrow> PackageInfo list \<times> gostring \<times> gostring \<times> gostring" where
  "dpkg_list flt limit [] packages cur = (packages, cur)"
| "dpkg_list flt limit (line # ls) packages (p, v, s) =
     (if HasPrefix line ''Package: '' then
        (let packages1 = (if package_matches flt p then packages @ [dpkg_package p v s] else packages) in
         if package_matches flt p \<and> int (length packages1) \<ge> limit then (packages1, p, v, s)
         else dpkg_list flt limit ls packages1 (TrimPrefix line ''Package: '', [], []))
      else if HasPrefix line ''Version: '' then dpkg_list flt limit ls packages (p, TrimPrefix line ''Version: '', s)
      else if HasPrefix line ''Status: '' then dpkg_list flt limit ls packages (p, v, TrimPrefix line ''Status: '')
      else dpkg_list flt limit ls packages (p, v, s))"

definition dpkg_packages :: "gostring \<Rightarrow> int \<Rightarrow> gostring \<Rightarrow> PackageInfo list" where
  "dpkg_packages flt limit d =
     (let (packages, p, v, s) = dpkg_list flt limit (Split (CHR 0x0A) d) [] ([], [], []) in
      if package_matches flt p then packages @ [dpkg_package p v s] else packages)"

definition readDpkgPackageList :: "lin_env \<Rightarrow> gostring \<Rightarrow> int \<Rightarrow> PackageInfo list outcome" where
  "readDpkgPackageList env flt limit =
     (case file_text env ''/var/lib/dpkg/status'' of
        Inl err \<Rightarrow> Stop (''read dpkg status: '' @ err)
      | Inr d \<Rightarrow> Go (dpkg_packages flt limit d))"

definition package_letter :: "char \<Rightarrow> bool" where
  "package_letter c \<longleftrightarrow> CHR ''a'' \<le> c \<and> c \<le> CHR ''z'' \<or> CHR ''A'' \<le> c \<and> c \<le> CHR ''Z''"

definition isPlausiblePackageName :: "gostring \<Rightarrow> bool" where
  "isPlausiblePackageName s \<longleftrightarrow>
     list_all (\<lambda>c. package_letter c \<or> is_digit c \<or> c \<in> {CHR ''-'', CHR ''_'', CHR ''+'', CHR ''.''}) s
     \<and> list_ex package_letter s"

text \<open>\<open>flush\<close>: the names after the bytes collected so far; the names are the ones seen.\<close>

definition rpm_flush :: "gostring \<Rightarrow> gostring \<Rightarrow> gostring list \<Rightarrow> gostring list" where
  "rpm_flush flt s names =
     (if length s < 3 \<or> length s > 64 \<or> \<not> isPlausiblePackageName s \<or> flt \<noteq> [] \<and> \<not> strings_Contains s flt
         \<or> s \<in> set names
      then names else names @ [s])"

fun rpm_scan :: "gostring \<Rightarrow> int \<Rightarrow> gostring \<Rightarrow> gostring \<Rightarrow> gostring list \<Rightarrow> gostring list" where
  "rpm_scan flt limit [] b names = take (nat limit) (rpm_flush flt b names)"
| "rpm_scan flt limit (c # d) b names =
     (if CHR '' '' \<le> c \<and> c < CHR 0x7F then rpm_scan flt limit d (b @ [c]) names
      else
        (let names1 = rpm_flush flt b names in
         if int (length names1) \<ge> limit then names1 else rpm_scan flt limit d [] names1))"

definition extractRpmPackageNames :: "lin_env \<Rightarrow> gostring \<Rightarrow> gostring \<Rightarrow> int \<Rightarrow> gostring list" where
  "extractRpmPackageNames env path flt limit =
     (case file_text env path of Inl _ \<Rightarrow> [] | Inr d \<Rightarrow> rpm_scan flt limit d [] [])"

definition rpm_package :: "gostring \<Rightarrow> PackageInfo" where
  "rpm_package n =
     \<lparr>pkg_Name = n, pkg_Version = [],
      pkg_Status = ''rpm database present; version requires 'rpm -q '' @ n @ [CHR 0x27] @ '' on host'',
      pkg_Installed = True, pkg_Manager = ''rpm''\<rparr>"

definition readRpmPackageList :: "lin_env \<Rightarrow> gostring \<Rightarrow> int \<Rightarrow> PackageInfo list" where
  "readRpmPackageList env flt limit =
     (let dbPath = findRpmDatabase env in
      if dbPath = [] then []
      else
        (let names = extractRpmPackageNames env dbPath flt limit in
         if names = []
         then [\<lparr>pkg_Name = ''rpm'', pkg_Version = [],
                pkg_Status = ''rpm database present; package names could not be extracted without librpm'',
                pkg_Installed = False, pkg_Manager = ''rpm''\<rparr>]
         else map rpm_package names))"

definition readPackageList :: "lin_env \<Rightarrow> gostring \<Rightarrow> int \<Rightarrow> PackageInfo list outcome" where
  "readPackageList env flt limit =
     (if file_exists env ''/var/lib/dpkg/status'' then readDpkgPackageList env flt limit
      else if findRpmDatabase env \<noteq> [] then Go (readRpmPackageList env flt limit)
      else Go [])"

definition packageList_Execute :: "lin_env \<Rightarrow> gmap \<Rightarrow> gvalue outcome" where
  "packageList_Execute env params =
     and_then (attempt (NormalizeLimit (lx_oor env) params)) (\<lambda>limit.
     and_then (readPackageList env (value_or [] (OptionalString params ''filter'' [])) limit) (\<lambda>ps.
     Go (VMap [(''packages'', VList (map package_value ps))])))"

section \<open>Facts\<close>

lemma rpm_flush_distinct: "distinct names \<Longrightarrow> distinct (rpm_flush flt s names)"
  by (simp add: rpm_flush_def)

text \<open>The names of an RPM database are distinct, plausible and within the limit.\<close>

lemma rpm_flush_plausible:
  "list_all isPlausiblePackageName names \<Longrightarrow> list_all isPlausiblePackageName (rpm_flush flt s names)"
  by (simp add: rpm_flush_def)

lemma rpm_flush_length: "length (rpm_flush flt s names) \<le> Suc (length names)"
  by (simp add: rpm_flush_def)

lemma rpm_scan_names:
  assumes "distinct names" "list_all isPlausiblePackageName names" "int (length names) < limit"
  shows "distinct (rpm_scan flt limit d b names) \<and> list_all isPlausiblePackageName (rpm_scan flt limit d b names)
    \<and> int (length (rpm_scan flt limit d b names)) \<le> limit"
  using assms
proof (induction flt limit d b names rule: rpm_scan.induct)
  case (1 flt limit b names)
  then show ?case
    using rpm_flush_distinct [of names flt b] rpm_flush_plausible [of names flt b]
    by (auto simp: list_all_iff dest: in_set_takeD)
next
  case (2 flt limit c d b names)
  have len: "int (length (rpm_flush flt b names)) \<le> limit"
    using rpm_flush_length [of flt b names] "2.prems" by linarith
  show ?case
    using 2 rpm_flush_distinct [of names flt b] rpm_flush_plausible [of names flt b] len by (auto simp: Let_def)
qed

text \<open>The package at the limit of a dpkg listing is listed a second time.\<close>

lemma dpkg_packages_duplicate:
  "dpkg_packages [] 1 (''Package: a'' @ [CHR 0x0A] @ ''Package: b'') = [dpkg_package ''a'' [] [], dpkg_package ''a'' [] []]"
  by (simp add: dpkg_packages_def package_matches_def HasPrefix_def TrimPrefix_def)

text \<open>Otherwise it holds at most one package more than the limit.\<close>

lemma dpkg_list_length:
  "int (length packages) < limit
    \<Longrightarrow> int (length (fst (dpkg_list flt limit ls packages cur))) \<le> limit"
  by (induction flt limit ls packages cur rule: dpkg_list.induct) (auto simp: Let_def split: prod.splits)

lemma dpkg_packages_bounded: "0 < limit \<Longrightarrow> int (length (dpkg_packages flt limit d)) \<le> limit + 1"
  using dpkg_list_length [of "[]" limit flt "Split (CHR 0x0A) d" "([], [], [])"]
  by (auto simp: dpkg_packages_def split: prod.splits)

end
