(* ===== verification/Go_Words.thy ===== *)
theory Go_Words
  imports Go_Path Go_Scan Go_Format
begin

text \<open>
  Words of visible ASCII characters, as the kernel writes them: what \<open>strings.Fields\<close>, \<open>strings.TrimSpace\<close>,
  \<open>strings.LastIndexByte\<close> and \<open>filepath.Join\<close> make of lines and paths that are built from them.
\<close>

definition graphic :: "char \<Rightarrow> bool" where
  "graphic c \<longleftrightarrow> CHR ''!'' \<le> c \<and> c \<le> CHR 0x7E"

definition word :: "gostring \<Rightarrow> bool" where
  "word w \<longleftrightarrow> w \<noteq> [] \<and> list_all graphic w"

text \<open>The bytes an encoding of white space starts or ends with.\<close>

lemma spaces_not_graphic:
  "list_all (\<lambda>w. \<not> graphic (hd w)) go_spaces" "list_all (\<lambda>w. \<not> graphic (hd w)) (map rev go_spaces)"
  by code_simp+

lemma graphic_no_word:
  "graphic c \<Longrightarrow> list_all (\<lambda>w. \<not> graphic (hd w)) ws \<Longrightarrow> find (\<lambda>w. w \<noteq> [] \<and> prefix w (c # cs)) ws = None"
  by (induction ws) (auto simp: prefix_Cons)

lemmas graphic_no_space = graphic_no_word [OF _ spaces_not_graphic(1)]

lemmas graphic_no_space_rev = graphic_no_word [OF _ spaces_not_graphic(2)]

lemma find_space: "find (\<lambda>w. w \<noteq> [] \<and> prefix w (CHR '' '' # cs)) go_spaces = Some '' ''"
  by (simp add: go_spaces_def)

lemma find_newline: "find (\<lambda>w. w \<noteq> [] \<and> prefix w (CHR 0x0A # cs)) (map rev go_spaces) = Some [CHR 0x0A]"
  by (simp add: go_spaces_def)

section \<open>Fields\<close>

lemma Fields_acc_graphic:
  "list_all graphic w \<Longrightarrow> Fields_acc acc (w @ s) = Fields_acc (rev w @ acc) s"
proof (induction w arbitrary: acc)
  case (Cons c w)
  then show ?case by (subst Fields_acc.simps) (simp add: graphic_no_space)
qed simp

lemma Fields_acc_space: "acc \<noteq> [] \<Longrightarrow> Fields_acc acc (CHR '' '' # s) = rev acc # Fields_acc [] s"
  by (subst Fields_acc.simps) (simp only: find_space, simp)

lemma Fields_acc_end: "Fields_acc acc [] = (if acc = [] then [] else [rev acc])"
proof -
  have "find (\<lambda>w. w \<noteq> [] \<and> prefix w []) go_spaces = None" by (auto simp: find_None_iff)
  then show ?thesis by (subst Fields_acc.simps) simp
qed

lemma Fields_Join: "list_all word ws \<Longrightarrow> Fields (Join ws '' '') = ws"
proof (induction ws)
  case (Cons w ws)
  then have w: "list_all graphic w" "w \<noteq> []" by (simp_all add: word_def)
  show ?case
  proof (cases ws)
    case Nil
    then show ?thesis
      using w Fields_acc_graphic [of w "[]" "[]"] by (simp add: Fields_def Fields_acc_end)
  next
    case (Cons w2 ws2)
    then show ?thesis
      using w Cons.IH Cons.prems Fields_acc_graphic [of w "[]" "CHR '' '' # Join ws '' ''"]
      by (simp add: Fields_def Fields_acc_space)
  qed
qed (simp add: Fields_def Fields_acc_end)

section \<open>TrimSpace\<close>

lemma strip_graphic: "graphic c \<Longrightarrow> strip go_spaces (c # s) = c # s"
  by (subst strip.simps) (simp add: graphic_no_space)

lemma strip_graphic_rev: "graphic c \<Longrightarrow> strip (map rev go_spaces) (c # s) = c # s"
  by (subst strip.simps) (simp add: graphic_no_space_rev)

lemma strip_space: "strip go_spaces (CHR '' '' # s) = strip go_spaces s"
  by (subst strip.simps) (simp only: find_space, simp)

lemma strip_newline: "strip (map rev go_spaces) (CHR 0x0A # s) = strip (map rev go_spaces) s"
  by (subst strip.simps) (simp only: find_newline, simp)

text \<open>A line with a space before it and a line feed after it.\<close>

lemma TrimSpace_line:
  assumes "s \<noteq> []" "graphic (hd s)" "graphic (last s)"
  shows "TrimSpace (CHR '' '' # s @ [CHR 0x0A]) = s"
proof -
  obtain c cs where s: "s = c # cs" using assms(1) by (cases s) auto
  obtain d ds where r: "rev s = d # ds" using assms(1) by (cases "rev s") auto
  then have "last s = d" by (metis hd_rev list.sel(1))
  with assms have "graphic c" "graphic d" using s by simp_all
  then have "strip go_spaces (CHR '' '' # s @ [CHR 0x0A]) = s @ [CHR 0x0A]"
    using s by (simp add: strip_space strip_graphic)
  moreover have "strip (map rev go_spaces) (rev (s @ [CHR 0x0A])) = rev s"
    using r \<open>graphic d\<close> by (simp add: strip_newline strip_graphic_rev)
  ultimately show ?thesis by (simp add: TrimSpace_def)
qed

lemma hd_Join: "word w \<Longrightarrow> hd (Join (w # ws) sep) = hd w \<and> Join (w # ws) sep \<noteq> []"
  by (cases ws) (auto simp: word_def)

lemma last_Join: "ws \<noteq> [] \<Longrightarrow> list_all word ws \<Longrightarrow> last (Join ws sep) = last (last ws)"
proof (induction ws)
  case (Cons w ws)
  show ?case
  proof (cases ws)
    case (Cons w2 ws2)
    then have "Join (w # ws) sep = w @ sep @ Join ws sep" "Join ws sep \<noteq> []"
      using Cons.prems hd_Join [of w2 ws2 sep] by simp_all
    then show ?thesis using Cons.IH Cons.prems \<open>ws = w2 # ws2\<close> by simp
  qed simp
qed simp

lemma set_Join: "set (Join ws sep) \<subseteq> (\<Union>w \<in> set ws. set w) \<union> set sep"
  by (induction ws sep rule: Join.induct) auto

section \<open>Places of a byte\<close>

lemma IndexByte_append: "b \<notin> set s \<Longrightarrow> IndexByte (s @ b # t) b = Some (length s)"
  by (induction s) auto

section \<open>Numbers as words\<close>

lemma is_digit_graphic: "is_digit c \<Longrightarrow> graphic c"
  by (auto simp: is_digit_def graphic_def less_eq_char_def)

lemma word_Itoa: "word (Itoa n)"
proof -
  have "list_all graphic (Itoa_nat k)" for k
    using Itoa_nat_digits [of k] by (auto simp: list_all_iff is_digit_graphic)
  moreover have "graphic (CHR ''-'')" by (simp add: graphic_def less_eq_char_def)
  ultimately show ?thesis by (auto simp: word_def Itoa_def)
qed

lemma Itoa_chars: "c \<in> set (Itoa n) \<Longrightarrow> is_digit c \<or> c = CHR ''-''"
  using Itoa_nat_digits by (auto simp: Itoa_def list_all_iff split: if_splits)

section \<open>Joined paths\<close>

lemma Split_two: "Split sep (sep # sep # s) = [] # [] # Split sep s"
  by simp

text \<open>A rooted path of components that need no cleaning stays as it is.\<close>

lemma filepath_Join_root:
  assumes "clean_form True ps" "ps \<noteq> []"
  shows "filepath_Join (''/'' # ps) = ''/'' @ Join ps ''/''"
proof -
  have ps: "\<forall>p \<in> set ps. CHR ''/'' \<notin> set p" "filter (\<lambda>e. e \<noteq> []) ps = ps"
    using assms(1) by (auto simp: clean_form_def list_all_iff intro!: filter_True)
  have "Join (''/'' # ps) ''/'' = CHR ''/'' # CHR ''/'' # Join ps ''/''"
    using assms(2) by (cases ps) auto
  moreover have "clean_components True [] ([] # [] # ps) = ps"
    using clean_components_fixed [of True "[]" ps] assms(1) by simp
  ultimately show ?thesis
    using ps assms(2) by (simp add: filepath_Join_def Clean_def rooted_def HasPrefix_def Split_Join)
qed

end
