(* ===== verification/Linux_Safety.thy ===== *)
theory Linux_Safety
  imports Linux_Process Linux_Kernel Linux_Files Go_Words
begin

text \<open>
  What the tasks of \<open>internal/provider/linux\<close> promise: the line of \<open>/proc/<pid>/stat\<close> is read back whatever
  the name of the program, secrets of an environment do not show, sysctl keys and paths stay where they are
  allowed, and the process tree is complete when the parents are acyclic.
\<close>

section \<open>A host\<close>

text \<open>A host with one process, for the concrete instances.\<close>

definition some_host :: "(gostring \<Rightarrow> gostring + gostring) \<Rightarrow> lin_env" where
  "some_host read =
     \<lparr>lx_fs = \<lparr>fs_ReadFile = read, fs_ReadDir = (\<lambda>_. Inr [''1'']), fs_IsDir = (\<lambda>_. Inr True),
               fs_Readlink = (\<lambda>_. Inl ''readlink''), fs_EvalSymlinks = (\<lambda>p. Inr p), fs_Getwd = Inr ''/''\<rparr>,
      lx_oor = amd64_oor, lx_compile = (\<lambda>p. Some (\<lambda>k. p = ''(?i)secret'' \<and> HasPrefix k ''SECRET'')),
      lx_LookupId = (\<lambda>_. None), lx_esc = (\<lambda>s. s), lx_IsPermission = (\<lambda>_. False), lx_IsNotExist = (\<lambda>_. False),
      lx_ParseFloat = (\<lambda>_. (float_zero, None)), lx_typeName = (\<lambda>_. []), lx_Environ = [], lx_Getpid = 1,
      lx_Hostname = Inr ''host'', lx_Uname = None, lx_Now = 0, lx_Zone = (''UTC'', 0), lx_FormatTime = (\<lambda>_. [])\<rparr>"

definition some_config :: LinuxConfig where
  "some_config =
     \<lparr>lin_AllowedReadPaths = Some [''/etc''], lin_MaxReadBytes = 4, lin_MaxReadOffset = 0,
      lin_MaxDirectoryDepth = 3, lin_MaxDirectoryEntries = 10, lin_RedactSecrets = Some True,
      lin_SecretPatterns = Some [''(?i)secret''], lin_JournalDirectory = [], lin_SystemdBusAddress = []\<rparr>"

section \<open>The line of a process\<close>

text \<open>As the kernel writes it: the name of the program may hold any byte.\<close>

definition stat_line :: "int \<Rightarrow> gostring \<Rightarrow> gostring \<Rightarrow> int list \<Rightarrow> gostring" where
  "stat_line pid comm state ns =
     Itoa pid @ '' ('' @ comm @ '') '' @ Join (state # map Itoa ns) '' '' @ [CHR 0x0A]"

lemma not_paren: "c \<in> set (Itoa n) \<Longrightarrow> c \<noteq> CHR ''('' \<and> c \<noteq> CHR '')'' \<and> c \<noteq> CHR '' ''"
  using Itoa_chars [of c n] by (auto simp: is_digit_def less_eq_char_def)

lemma stat_value_Itoa: "is_int64 n \<Longrightarrow> stat_value (Itoa n) = VInt64 n"
  using Atoi_Itoa [of n] by (simp add: stat_value_def Atoi_def)

lemma stat_line_ends:
  assumes "CHR '')'' \<notin> set state"
  shows "IndexByte (stat_line pid comm state ns) (CHR ''('') = Some (length (Itoa pid) + 1)"
    and "LastIndexByte (stat_line pid comm state ns) (CHR '')'') = Some (length (Itoa pid) + 2 + length comm)"
proof -
  define tl_line where "tl_line = '' '' @ Join (state # map Itoa ns) '' '' @ [CHR 0x0A]"
  have "CHR ''('' \<notin> set (Itoa pid @ '' '')" using not_paren by auto
  from IndexByte_append [OF this, of "comm @ '') '' @ Join (state # map Itoa ns) '' '' @ [CHR 0x0A]"]
  show "IndexByte (stat_line pid comm state ns) (CHR ''('') = Some (length (Itoa pid) + 1)"
    by (simp add: stat_line_def)
  have "set (Join (state # map Itoa ns) '' '') \<subseteq> set state \<union> (\<Union>n. set (Itoa n)) \<union> {CHR '' ''}"
    using set_Join [of "state # map Itoa ns" "'' ''"] by auto
  then have "CHR '')'' \<notin> set (Join (state # map Itoa ns) '' '')"
    using assms(1) not_paren by blast
  then have "CHR '')'' \<notin> set (rev tl_line)" by (simp add: tl_line_def)
  from IndexByte_append [OF this, of "rev (Itoa pid @ '' ('' @ comm)"]
  have "IndexByte (rev (stat_line pid comm state ns)) (CHR '')'') = Some (length tl_line)"
    by (simp add: stat_line_def tl_line_def)
  then show "LastIndexByte (stat_line pid comm state ns) (CHR '')'') = Some (length (Itoa pid) + 2 + length comm)"
    by (simp add: LastIndexByte_def stat_line_def tl_line_def)
qed

lemma stat_line_fields:
  assumes "word state" "CHR '')'' \<notin> set state"
  shows "Fields (TrimSpace (drop (length (Itoa pid) + 3 + length comm) (stat_line pid comm state ns))) = state # map Itoa ns"
proof -
  have words: "list_all word (state # map Itoa ns)" using assms(1) by (simp add: list_all_iff word_Itoa)
  have "drop (length (Itoa pid) + 3 + length comm) (stat_line pid comm state ns) =
      CHR '' '' # Join (state # map Itoa ns) '' '' @ [CHR 0x0A]"
    by (simp add: stat_line_def numeral_3_eq_3)
  moreover have "graphic (hd (Join (state # map Itoa ns) '' ''))" "graphic (last (Join (state # map Itoa ns) '' ''))"
    using words hd_Join [of state "map Itoa ns"] last_Join [of "state # map Itoa ns" "'' ''"]
      word_Itoa [of "last ns"] by (auto simp: word_def list_all_iff last_map)
  moreover have "Join (state # map Itoa ns) '' '' \<noteq> []" using words hd_Join [of state] by simp
  ultimately have "TrimSpace (drop (length (Itoa pid) + 3 + length comm) (stat_line pid comm state ns)) =
      Join (state # map Itoa ns) '' ''"
    using TrimSpace_line by simp
  then show ?thesis using Fields_Join [OF words] by simp
qed



section \<open>Secrets of an environment\<close>

text \<open>The file \<open>environ\<close> of a process: the entries end with a zero byte.\<close>

definition environ_text :: "environment \<Rightarrow> gostring" where
  "environ_text es = concat (map (\<lambda>(k, v). k @ ''='' @ v @ [CHR 0x00]) es)"

definition environ_entry :: "gostring \<times> gostring \<Rightarrow> bool" where
  "environ_entry e \<longleftrightarrow> CHR ''='' \<notin> set (fst e) \<and> CHR 0x00 \<notin> set (fst e) \<and> CHR 0x00 \<notin> set (snd e)"

text \<open>The same names in the same order, and the same values except those of secrets.\<close>

definition same_but_secrets :: "(gostring \<Rightarrow> bool) \<Rightarrow> environment \<Rightarrow> environment \<Rightarrow> bool" where
  "same_but_secrets secret es es' \<longleftrightarrow>
     list_all2 (\<lambda>e e'. environ_entry e \<and> environ_entry e' \<and> fst e' = fst e \<and> (secret (fst e) \<or> snd e' = snd e)) es es'"

definition with_file :: "lin_env \<Rightarrow> gostring \<Rightarrow> gostring \<Rightarrow> lin_env" where
  "with_file env p text =
     env\<lparr>lx_fs := (lx_fs env)\<lparr>fs_ReadFile := (fs_ReadFile (lx_fs env))(p := Inr text)\<rparr>\<rparr>"

lemma Split_environ:
  "list_all environ_entry es \<Longrightarrow> filter (\<lambda>p. p \<noteq> []) (Split (CHR 0x00) (environ_text es)) = map (\<lambda>(k, v). k @ ''='' @ v) es"
proof (induction es)
  case (Cons e es)
  obtain k v where e: "e = (k, v)" by (cases e)
  have "CHR 0x00 \<notin> set (k @ ''='' @ v)" using Cons.prems e by (simp add: environ_entry_def)
  from Split_append [OF this, of "environ_text es"] show ?case
    using Cons e by (simp add: environ_text_def)
qed (simp add: environ_text_def)

lemma SplitN2_entry: "CHR ''='' \<notin> set k \<Longrightarrow> SplitN2 (CHR ''='') (k @ ''='' @ v) = [k, v]"
proof -
  assume "CHR ''='' \<notin> set k"
  then have "takeWhile (\<lambda>c. c \<noteq> CHR ''='') (k @ ''='' @ v) = k" "dropWhile (\<lambda>c. c \<noteq> CHR ''='') (k @ ''='' @ v) = ''='' @ v"
    by (auto simp: takeWhile_tail dropWhile_append1 dropWhile_append)
  then show ?thesis by (simp add: SplitN2_def)
qed

lemma env_pairs_entries:
  "list_all environ_entry es \<Longrightarrow> env_pairs (map (\<lambda>(k, v). k @ ''='' @ v) es) m = fold (\<lambda>(k, v). AList.update k v) es m"
proof (induction es arbitrary: m)
  case (Cons e es)
  then show ?case using SplitN2_entry [of "fst e" "snd e"] by (cases e) (simp add: environ_entry_def)
qed simp

lemma ParseEnvFile_environ:
  "list_all environ_entry es \<Longrightarrow> ParseEnvFile (environ_text es) = fold (\<lambda>(k, v). AList.update k v) es []"
  using env_pairs_entries [of es "[]"] by (simp add: ParseEnvFile_def Split_environ)

definition hide :: "(gostring \<Rightarrow> bool) \<Rightarrow> environment \<Rightarrow> environment" where
  "hide secret e = map (\<lambda>(k, v). (k, if secret k then ''[REDACTED]'' else v)) e"

lemma hide_update: "hide secret (AList.update k v e) = AList.update k (if secret k then ''[REDACTED]'' else v) (hide secret e)"
  by (induction e) (auto simp: hide_def)

lemma hide_entries:
  "same_but_secrets secret es es' \<Longrightarrow> hide secret m = hide secret m' \<Longrightarrow>
     hide secret (fold (\<lambda>(k, v). AList.update k v) es m) = hide secret (fold (\<lambda>(k, v). AList.update k v) es' m')"
  unfolding same_but_secrets_def
proof (induction es es' arbitrary: m m' rule: list_all2_induct)
  case (Cons e es e' es')
  obtain k v v' where e: "e = (k, v)" "e' = (k, v')" using Cons.hyps(1) by (cases e; cases e') auto
  have "hide secret (AList.update k v m) = hide secret (AList.update k v' m')"
    using Cons.hyps(1) Cons.prems e by (auto simp: hide_update)
  then show ?case using Cons.IH e by simp
qed simp

lemma same_but_secrets_entries:
  "same_but_secrets secret es es' \<Longrightarrow> list_all environ_entry es \<and> list_all environ_entry es'"
  unfolding same_but_secrets_def by (induction es es' rule: list_all2_induct) auto

lemma RedactSecrets_hide: "RedactSecrets compile e (Some ps) = hide (is_secret compile ps) e"
  by (simp add: RedactSecrets_def hide_def)

text \<open>
  Claim C23. With redaction on, what \<open>linux.process.environment\<close> answers does not depend on the values of secret
  variables: two environments of a process that differ only in the values of variables whose names match a
  secret pattern give the same result, for any parameters.
\<close>

theorem process_environment_redacted:
  assumes "redaction_on cfg" "same_but_secrets (is_secret (lx_compile env) (secret_patterns cfg)) es es'"
  shows "processEnvironment_Execute (with_file env p (environ_text es)) r cfg params =
    processEnvironment_Execute (with_file env p (environ_text es')) r cfg params"
proof -
  let ?hide = "hide (is_secret (lx_compile env) (secret_patterns cfg))"
  have "?hide (ParseEnvFile (environ_text es)) = ?hide (ParseEnvFile (environ_text es'))"
    using same_but_secrets_entries [OF assms(2)] hide_entries [OF assms(2), of "[]" "[]"]
    by (simp add: ParseEnvFile_environ)
  then have "readProcessEnvironment (with_file env p (environ_text es)) r pid cfg =
      readProcessEnvironment (with_file env p (environ_text es')) r pid cfg" for pid
    using assms(1)
    by (simp add: readProcessEnvironment_def with_file_def ReadFileString_def RedactSecrets_hide Let_def split: sum.split)
  moreover have "required_pid (with_file env p t) params = required_pid env params" for t
    by (simp add: required_pid_def with_file_def)
  ultimately show ?thesis by (simp add: processEnvironment_Execute_def)
qed

theorem process_environment_redacted_witness:
  "processEnvironment_Execute
     (with_file (some_host (\<lambda>_. Inl ''none'')) ''/proc/1/environ'' (environ_text [(''HOME'', ''/''), (''SECRET_KEY'', ''a'')])) ''/''
     some_config [(''pid'', VInt 1)] =
   processEnvironment_Execute
     (with_file (some_host (\<lambda>_. Inl ''none'')) ''/proc/1/environ'' (environ_text [(''HOME'', ''/''), (''SECRET_KEY'', ''b'')])) ''/''
     some_config [(''pid'', VInt 1)]"
  by (rule process_environment_redacted)
    (simp_all add: redaction_on_def some_config_def same_but_secrets_def environ_entry_def is_secret_def compiled_def
      secret_patterns_def some_host_def map_filter_def HasPrefix_def)

text \<open>The redaction can be walked around: the file is under an allowed path of \<open>linux.filesystem.read\<close>.\<close>

lemma environ_readable: "ValidateReadPath esc (lx_fs (some_host f)) ''/proc/1/environ'' None = None"
  by (simp add: ValidateReadPath_def some_host_def defaultAllowedReadPaths_def) code_simp

section \<open>Confinement\<close>

lemma valid_parts_form:
  "list_all valid_sysctl_part ps \<Longrightarrow> list_all (\<lambda>p. CHR ''.'' \<notin> set p) ps \<Longrightarrow> clean_form True ([''proc'', ''sys''] @ ps)"
  by (auto simp: clean_form_def list_all_iff valid_sysctl_part_def)

lemma sysctl_path:
  assumes "list_all valid_sysctl_part (Split (CHR ''.'') key)"
  shows "Reader_Path ''/'' ([''proc'', ''sys''] @ Split (CHR ''.'') key) = ''/proc/sys/'' @ Join (Split (CHR ''.'') key) ''/''"
proof -
  have "list_all (\<lambda>p. CHR ''.'' \<notin> set p) (Split (CHR ''.'') key)"
    by (auto simp: list_all_iff dest: Split_pieces_no_sep)
  from valid_parts_form [OF assms this] show ?thesis
    by (cases "Split (CHR ''.'') key") (simp_all add: Reader_Path_def filepath_Join_root)
qed

lemma sysctl_read:
  assumes "\<And>q. fs_ReadFile (lx_fs env) (''/proc/sys/'' @ q) = fs_ReadFile (lx_fs env') (''/proc/sys/'' @ q)"
    and "list_all valid_sysctl_part (Split (CHR ''.'') key)"
  shows "ReadFileString (lx_fs env) ''/'' ([''proc'', ''sys''] @ Split (CHR ''.'') key) =
    ReadFileString (lx_fs env') ''/'' ([''proc'', ''sys''] @ Split (CHR ''.'') key)"
  using assms sysctl_path [OF assms(2)] by (simp add: ReadFileString_def)

lemma read_sysctls_confined:
  assumes "\<And>q. fs_ReadFile (lx_fs env) (''/proc/sys/'' @ q) = fs_ReadFile (lx_fs env') (''/proc/sys/'' @ q)"
  shows "read_sysctls env ''/'' ks acc = read_sysctls env' ''/'' ks acc"
proof (induction ks arbitrary: acc)
  case (Cons key ks)
  obtain results failures where "acc = (results, failures)" by (cases acc)
  then show ?case
    using Cons sysctl_read [of env env' "TrimSpace key", OF assms]
    by (auto simp: Let_def split: sum.split)
qed simp

text \<open>
  Claim C24. \<open>linux.kernel.sysctl.get\<close> reads nothing outside \<open>/proc/sys\<close>: whatever keys are asked for, dots,
  slashes and parent directories included, its answer is the same on every host with the same files there.
\<close>

theorem sysctl_confined:
  assumes "\<And>q. fs_ReadFile (lx_fs env) (''/proc/sys/'' @ q) = fs_ReadFile (lx_fs env') (''/proc/sys/'' @ q)"
  shows "kernelSysctlGet_Execute env ''/'' params = kernelSysctlGet_Execute env' ''/'' params"
proof -
  have "readKernelSysctlGet env ''/'' ks = readKernelSysctlGet env' ''/'' ks" for ks
    unfolding readKernelSysctlGet_def by (subst read_sysctls_confined [of env env', OF assms]) simp_all
  then show ?thesis by (simp add: kernelSysctlGet_Execute_def Let_def)
qed

theorem sysctl_confined_witness:
  "kernelSysctlGet_Execute (some_host (\<lambda>p. if p = ''/etc/shadow'' then Inr ''root'' else Inl ''none'')) ''/''
     [(''key'', VString ''../../etc/shadow'')] =
   kernelSysctlGet_Execute (some_host (\<lambda>p. Inl ''none'')) ''/'' [(''key'', VString ''../../etc/shadow'')]"
  by (rule sysctl_confined) (simp add: some_host_def)

text \<open>What \<open>linux.filesystem.read\<close> may answer for a path it reads.\<close>

lemma admitted_path_Go:
  "admitted_path env cfg params = Go path \<longleftrightarrow>
     RequireString params ''path'' = Inr path \<and> ValidateReadPath (lx_esc env) (lx_fs env) path (lin_AllowedReadPaths cfg) = None"
  by (cases "RequireString params ''path''") (auto simp: admitted_path_def attempt_def split: option.splits)

lemma ValidateReadPath_None:
  "ValidateReadPath esc fs path (Some allowed) = None \<longleftrightarrow>
     (\<exists>resolved. resolved_path fs path = Inr resolved \<and> list_ex (admits fs resolved) allowed)"
  by (auto simp: ValidateReadPath_def split: sum.splits)


definition some_files :: lin_files where
  "some_files =
     \<lparr>lf_Stat = (\<lambda>_. Inl ''stat''),
      lf_Open = (\<lambda>_. Inr \<lparr>oh_Seek = (\<lambda>_. None), oh_Read = (\<lambda>off n. (take (nat n) (drop (nat off) ''contents''), None))\<rparr>),
      lf_ReadDir = (\<lambda>_. Inl ''readdir''), lf_Tree = (\<lambda>_. None)\<rparr>"

lemma some_read:
  "filesystemRead_Execute some_files (some_host (\<lambda>_. Inl ''none'')) some_config [(''path'', VString ''/etc/motd''), (''offset'', VInt 1)] =
     Go (VMap [(''path'', VString ''/etc/motd''), (''content'', VString ''onte''), (''bytes_read'', VInt 4),
               (''truncated'', VBool True), (''offset'', VInt 1)])"
  by code_simp


text \<open>The allowed paths are prefixes of the text: a sibling whose name starts the same is admitted too.\<close>

lemma sibling_admitted: "ValidateReadPath esc (lx_fs (some_host f)) ''/etcetera/secret'' (Some [''/etc'']) = None"
  by (simp add: ValidateReadPath_def some_host_def) code_simp

section \<open>The tree of processes\<close>

lemma tree_children_set: "c \<in> set (tree_children ps pid) \<longleftrightarrow> (\<exists>p \<in> set ps. pr_PID p = c \<and> pr_PPID p = pid)"
  by (auto simp: tree_children_def)

text \<open>More fuel does not change a tree.\<close>

lemma buildNode_Suc: "buildNode n ps pid = Some t \<Longrightarrow> buildNode (Suc n) ps pid = Some t"
proof (induction n arbitrary: pid t)
  case (Suc n)
  show ?case
  proof (cases "tree_process ps pid")
    case None
    with Suc.prems show ?thesis by simp
  next
    case (Some info)
    have ended: "None \<notin> set (map (buildNode n ps) (tree_children ps pid))"
      using Suc.prems Some by (auto simp: Let_def split: if_splits)
    have "buildNode (Suc n) ps c = buildNode n ps c" if "c \<in> set (tree_children ps pid)" for c
    proof -
      from ended that obtain u where "buildNode n ps c = Some u" by (cases "buildNode n ps c") (auto simp: image_iff)
      with Suc.IH show ?thesis by metis
    qed
    then have same: "map (buildNode (Suc n) ps) (tree_children ps pid) = map (buildNode n ps) (tree_children ps pid)"
      by simp
    show ?thesis using Suc.prems Some same by (simp only: buildNode.simps(2) [of "Suc n"] buildNode.simps(2) [of n])
  qed
qed simp

lemma buildNode_mono: "buildNode n ps pid = Some t \<Longrightarrow> n \<le> m \<Longrightarrow> buildNode m ps pid = Some t"
proof (induction m)
  case (Suc m)
  then show ?case using buildNode_Suc by (cases "n = Suc m") (auto simp del: buildNode.simps)
qed simp

lemma buildNode_ends:
  assumes "\<And>p. p \<in> set ps \<Longrightarrow> rank (pr_PID p) < (rank (pr_PPID p) :: nat)"
  shows "rank pid < n \<Longrightarrow> buildNode n ps pid \<noteq> None"
proof (induction n arbitrary: pid)
  case (Suc n)
  have "buildNode n ps c \<noteq> None" if "c \<in> set (tree_children ps pid)" for c
  proof -
    from that obtain p where "p \<in> set ps" "pr_PID p = c" "pr_PPID p = pid" by (auto simp: tree_children_set)
    with assms Suc.prems have "rank c < n" by fastforce
    with Suc.IH show ?thesis by blast
  qed
  then have "None \<notin> set (map (buildNode n ps) (tree_children ps pid))" by (auto simp: image_iff) (metis option.distinct(1))
  then show ?case by (cases "tree_process ps pid") (simp_all only: buildNode.simps Let_def option.case if_False, simp_all)
qed simp

text \<open>
  Claim C26. \<open>linux.process.tree\<close> returns when the parents of the processes that were read lead upwards, which a
  rank that falls from parent to child says, and every recursion bound above the rank of the root gives the same
  answer.
\<close>

theorem process_tree_returns:
  assumes "fs_ReadDir (lx_fs env) (Reader_Path r [''proc'']) = Inr entries"
    and "\<And>p user. p \<in> set (tree_processes env r user entries) \<Longrightarrow> rank (pr_PID p) < (rank (pr_PPID p) :: nat)"
    and "\<And>pid. rank pid < bound" "bound \<le> n"
  shows "\<exists>v. processTree_Execute bound env r params = Some v \<and> processTree_Execute n env r params = Some v"
proof -
  have "\<exists>t. buildNode bound (tree_processes env r user entries) pid = Some t \<and>
      buildNode n (tree_processes env r user entries) pid = Some t" for user pid
  proof -
    have "buildNode bound (tree_processes env r user entries) pid \<noteq> None"
      by (rule buildNode_ends [OF assms(2) assms(3)])
    then show ?thesis using buildNode_mono [OF _ assms(4)] by auto
  qed
  then obtain t where "\<And>user pid. buildNode bound (tree_processes env r user entries) pid = Some (t user pid)"
      "\<And>user pid. buildNode n (tree_processes env r user entries) pid = Some (t user pid)" by metis
  then show ?thesis
    using assms(1) by (auto simp: processTree_Execute_def ReadDirNames_def Let_def split: option.splits)
qed

definition init_host :: lin_env where
  "init_host =
     some_host (\<lambda>p. if p = ''/proc/1/stat'' then Inr ''1 (init) S 0 1 1 0 0 0 0 0 0 0 0 0 0 0 20 0 1 0 0 0 0'' else Inl ''none'')"

lemma init_summary:
  "readProcessSummary init_host ''/'' 1 =
     Some \<lparr>pr_PID = 1, pr_PPID = 0, pr_User = [], pr_State = ''S'', pr_Command = ''init''\<rparr>"
  by code_simp

theorem process_tree_returns_witness:
  "\<exists>v. processTree_Execute 2 init_host ''/'' [] = Some v \<and> processTree_Execute 5 init_host ''/'' [] = Some v"
proof (rule process_tree_returns [where entries = "[''1'']" and rank = "\<lambda>pid. if pid = 0 then 1 else 0"])
  fix p user assume "p \<in> set (tree_processes init_host ''/'' user [''1''])"
  moreover have "parsePIDDir ''1'' = Some 1" by code_simp
  ultimately show "(if pr_PID p = 0 then 1 else 0) < (if pr_PPID p = 0 then 1 else (0 :: nat))"
    by (auto simp: tree_processes_def map_filter_def init_summary split: if_splits)
qed (auto simp: init_host_def some_host_def)

text \<open>A process that is its own parent makes the recursion endless.\<close>

lemma own_parent_endless: "tree_process ps pid = Some p \<Longrightarrow> pid \<in> set (tree_children ps pid) \<Longrightarrow> buildNode n ps pid = None"
  by (induction n) (force simp: Let_def)+

end
