(* ===== verification/Go_Float.thy ===== *)
theory Go_Float
  imports Go_Values
begin

text \<open>
  More arithmetic on \<open>float64\<close> numbers: differences, quotients and \<open>math.Sqrt\<close>, each rounded once. The
  square root of an integer is computed two bits at a time; enough bits of it and a sticky bit make the
  rounding the correct one.
\<close>

fun float_neg :: "gofloat \<Rightarrow> gofloat" where
  "float_neg (FFin m e) = FFin (- m) e"
| "float_neg (FInf n) = FInf (\<not> n)"
| "float_neg FNaN = FNaN"

definition float_sub :: "gofloat \<Rightarrow> gofloat \<Rightarrow> gofloat" where
  "float_sub f g = float_add f (float_neg g)"

text \<open>Division by zero has the sign of the dividend; the zeros have no sign here.\<close>

fun float_div :: "gofloat \<Rightarrow> gofloat \<Rightarrow> gofloat" where
  "float_div (FFin m e) (FFin n k) =
     (if n = 0 then (if m = 0 then FNaN else FInf (m < 0)) else float_div_int (FFin (sgn n * m) (e - k)) \<bar>n\<bar>)"
| "float_div (FFin m e) (FInf b) = FFin 0 0"
| "float_div (FInf b) (FFin n k) = FInf (b \<noteq> (n < 0))"
| "float_div _ _ = FNaN"

function isqrt :: "int \<Rightarrow> int" where
  "isqrt n =
     (if n \<le> 0 then 0
      else (let r = 2 * isqrt (n div 4) in if (r + 1) * (r + 1) \<le> n then r + 1 else r))"
  by pat_completeness auto
termination by (relation "measure nat") auto

declare isqrt.simps [simp del]

fun float_sqrt :: "gofloat \<Rightarrow> gofloat" where
  "float_sqrt (FFin m e) =
     (if m < 0 then FNaN
      else
        (let k = (if even e then 120 else 121); n = m * 2 ^ k; q = isqrt n
         in round53 (2 * q + (if q * q = n then 0 else 1)) ((e - int k) div 2 - 1)))"
| "float_sqrt (FInf b) = (if b then FNaN else FInf False)"
| "float_sqrt FNaN = FNaN"

text \<open>The integer square root is the greatest integer whose square is not above the number.\<close>

lemma isqrt_spec: "0 \<le> n \<Longrightarrow> 0 \<le> isqrt n \<and> isqrt n * isqrt n \<le> n \<and> n < (isqrt n + 1) * (isqrt n + 1)"
proof (induction n rule: isqrt.induct)
  case (1 n)
  show ?case
  proof (cases "n = 0")
    case True
    then show ?thesis by (simp add: isqrt.simps)
  next
    case False
    define q where "q = isqrt (n div 4)"
    have ih: "0 \<le> q" "q * q \<le> n div 4" "n div 4 < (q + 1) * (q + 1)"
      using 1 False by (auto simp: q_def)
    have "n div 4 + 1 \<le> (q + 1) * (q + 1)" using ih(3) by simp
    moreover have "n < 4 * (n div 4 + 1)" "4 * (n div 4) \<le> n" by simp_all
    ultimately have "4 * (q * q) \<le> n" "n < 4 * ((q + 1) * (q + 1))" using ih(2) by linarith+
    then have "(2 * q) * (2 * q) \<le> n" "n < (2 * q + 2) * (2 * q + 2)" by (simp_all add: algebra_simps)
    moreover have "isqrt n = (if (2 * q + 1) * (2 * q + 1) \<le> n then 2 * q + 1 else 2 * q)"
      using False "1.prems" isqrt.simps [of n] unfolding q_def by (simp add: Let_def)
    ultimately show ?thesis using ih(1) by (simp add: algebra_simps split: if_splits)
  qed
qed

lemma isqrt_square: "0 \<le> n \<Longrightarrow> isqrt (n * n) = n"
proof -
  assume n: "0 \<le> n"
  let ?q = "isqrt (n * n)"
  have q: "0 \<le> ?q" "?q * ?q \<le> n * n" "n * n < (?q + 1) * (?q + 1)" using isqrt_spec [of "n * n"] by auto
  have "\<not> n < ?q" using q(2) n mult_strict_mono [of n ?q n ?q] by auto
  moreover have "\<not> ?q < n" using q(1,3) mult_mono [of "?q + 1" n "?q + 1" n] n by auto
  ultimately show ?thesis by simp
qed

end
