(* ===== verification/Kafka_API.thy ===== *)
theory Kafka_API
  imports Kafka_Coordinators Common_Params Go_Format Go_Float
begin

text \<open>
  What the tasks of \<open>internal/provider/kafka\<close> use of the client: the data of \<open>kadm\<close> and \<open>kmsg\<close> as records with
  the fields the tasks read, and the calls and methods of these packages as the record \<open>kadm\<close>, an argument
  of every task. A call gets the connection of the client, nil if its construction failed. Then the methods of
  the client (\<open>client.go\<close>) and the functions of \<open>helpers.go\<close> and \<open>types.go\<close>.
\<close>

section \<open>Data\<close>

record BrokerDetail =
  bd_NodeID :: int
  bd_Host :: gostring
  bd_Port :: int
  bd_Rack :: "gostring option"

record PartitionDetail =
  pd_Topic :: gostring
  pd_Partition :: int
  pd_Leader :: int
  pd_LeaderEpoch :: int
  pd_Replicas :: "int list"
  pd_ISR :: "int list"
  pd_OfflineReplicas :: "int list"

record TopicDetail =
  td_Topic :: gostring
  td_IsInternal :: bool
  td_Partitions :: "(int \<times> PartitionDetail) list"
  td_Err :: "gostring option"

type_synonym TopicDetails = "(gostring \<times> TopicDetail) list"

record kadm_Metadata =
  meta_Cluster :: gostring
  meta_Controller :: int
  meta_Brokers :: "BrokerDetail list"
  meta_Topics :: TopicDetails

text \<open>\<open>av_Keys\<close> is what \<open>EachKeySorted\<close> visits: the key, its least and its greatest version.\<close>

record BrokerApiVersions =
  av_NodeID :: int
  av_Err :: "gostring option"
  av_VersionGuess :: gostring
  av_Keys :: "(int \<times> int \<times> int) list"

text \<open>The value of a configuration as \<open>MaybeValue\<close> gives it.\<close>

record kadm_Config =
  kcf_Key :: gostring
  kcf_MaybeValue :: gostring
  kcf_Source :: int
  kcf_Sensitive :: bool

record ResourceConfig =
  rc_Name :: gostring
  rc_Configs :: "kadm_Config list"
  rc_Err :: "gostring option"

text \<open>The assignment of a member is \<open>None\<close> unless it is that of a consumer.\<close>

record GroupMember =
  gm_MemberID :: gostring
  gm_ClientID :: gostring
  gm_ClientHost :: gostring
  gm_Assigned :: "(gostring \<times> int list) list option"

record DescribedGroup =
  dg_Group :: gostring
  dg_State :: gostring
  dg_Protocol :: gostring
  dg_ProtocolType :: gostring
  dg_Coordinator :: BrokerDetail
  dg_Members :: "GroupMember list"
  dg_Err :: "gostring option"

record ListedGroup =
  lgr_Group :: gostring
  lgr_State :: gostring
  lgr_ProtocolType :: gostring

record OffsetResponse =
  ofr_Topic :: gostring
  ofr_Partition :: int
  ofr_At :: int
  ofr_Metadata :: gostring

record GroupMemberLag =
  gml_Topic :: gostring
  gml_Partition :: int
  gml_CommitAt :: int
  gml_EndOffset :: int
  gml_Lag :: int

record DescribedGroupLag =
  gl_Error :: "gostring option"
  gl_Lag :: "GroupMemberLag list"

record ListedOffset =
  lo_Topic :: gostring
  lo_Partition :: int
  lo_Offset :: int
  lo_Timestamp :: int

type_synonym ListedOffsets = "(gostring \<times> (int \<times> ListedOffset) list) list"

record LogDirPartition =
  ldp_Size :: int
  ldp_OffsetLag :: int
  ldp_IsFuture :: bool

record DescribedLogDir =
  ld_Broker :: int
  ld_Dir :: gostring
  ld_Err :: "gostring option"
  ld_Topics :: "(gostring \<times> (int \<times> LogDirPartition) list) list"
  ld_Size :: int

record feature_range =
  ft_Name :: gostring
  ft_Min :: int
  ft_Max :: int

text \<open>The response to a request for the versions, or one of another type.\<close>

datatype kmsg_Response =
    OtherResponse gostring
  | ApiVersionsResponse (avr_ErrorCode: int) (avr_FinalizedEpoch: int) (avr_Finalized: "feature_range list")
      (avr_Supported: "feature_range list")

text \<open>A shard of the response to a request for offsets: its error, and the offsets by partition of its topics.\<close>

record ResponseShard =
  sh_Err :: "gostring option"
  sh_Topics :: "(int \<times> int) list list option"

section \<open>The library\<close>

text \<open>A call gets the deadline and the connection, \<open>None\<close> for the nil client; what it does on nil is part of it.\<close>

type_synonym ('k, 'a) kadm_call = "int \<Rightarrow> 'k option \<Rightarrow> 'a outcome"

record 'k kadm =
  ka_Metadata :: "gostring list \<Rightarrow> ('k, kadm_Metadata) kadm_call"
  ka_ApiVersionsSorted :: "('k, BrokerApiVersions list) kadm_call"
  ka_ListBrokers :: "('k, BrokerDetail list) kadm_call"
  ka_DescribeBrokerConfigs :: "int list \<Rightarrow> ('k, ResourceConfig list) kadm_call"
  ka_ApiVersionsRequest :: "('k, kmsg_Response) kadm_call"
  ka_ListTopics :: "gostring list \<Rightarrow> ('k, TopicDetails) kadm_call"
  ka_DescribeTopicConfigs :: "gostring list \<Rightarrow> ('k, ResourceConfig list) kadm_call"
  ka_DescribeAllLogDirsSorted :: "('k, DescribedLogDir list) kadm_call"
  ka_ListGroupsSorted :: "gostring list \<Rightarrow> ('k, ListedGroup list) kadm_call"
  ka_DescribeGroups :: "gostring list \<Rightarrow> ('k, (gostring \<times> DescribedGroup) list) kadm_call"
  ka_FetchOffsetsSorted :: "gostring \<Rightarrow> ('k, OffsetResponse list) kadm_call"
  ka_Lag :: "gostring list \<Rightarrow> ('k, (gostring \<times> DescribedGroupLag) list) kadm_call"
  ka_Coordinators :: "gostring list \<Rightarrow> ('k, nat \<Rightarrow> coordinator_response list) kadm_call"
  ka_Expired :: "int \<Rightarrow> nat \<Rightarrow> bool"
  ka_ListStartOffsets :: "gostring list \<Rightarrow> ('k, ListedOffsets) kadm_call"
  ka_ListEndOffsets :: "gostring list \<Rightarrow> ('k, ListedOffsets) kadm_call"
  ka_ListOffsetsSharded :: "gostring \<Rightarrow> int \<Rightarrow> int \<Rightarrow> ('k, ResponseShard list) kadm_call"
  ka_TopicsSorted :: "TopicDetails \<Rightarrow> TopicDetail list"
  ka_TopicNames :: "TopicDetails \<Rightarrow> gostring list"
  ka_PartitionsSorted :: "(int \<times> PartitionDetail) list \<Rightarrow> PartitionDetail list"
  ka_NumReplicas :: "(int \<times> PartitionDetail) list \<Rightarrow> int"
  ka_NodeIDs :: "BrokerDetail list \<Rightarrow> int list"
  ka_ConfigOn :: "ResourceConfig list \<Rightarrow> gostring \<Rightarrow> gostring + ResourceConfig"
  ka_GroupOn :: "(gostring \<times> DescribedGroup) list \<Rightarrow> gostring \<Rightarrow> gostring + DescribedGroup"
  ka_LagSorted :: "GroupMemberLag list \<Rightarrow> GroupMemberLag list"
  ka_Lookup :: "ListedOffsets \<Rightarrow> gostring \<Rightarrow> int \<Rightarrow> ListedOffset option"
  ka_SourceString :: "int \<Rightarrow> gostring"
  ka_DefaultConfig :: int
  ka_NameForKey :: "int \<Rightarrow> gostring"
  ka_ErrorForCode :: "int \<Rightarrow> gostring option"
  ka_oor :: "gofloat \<Rightarrow> int"
  ka_oor32 :: "gofloat \<Rightarrow> int"

text \<open>
  The start of every task: the client of the provider, or the failure. The interface value is not nil with a
  pointer that is nil, because the provider always has a client (\<open>Kafka_Safety\<close>).
\<close>

definition current_client :: "'k kafka_clientImpl option \<Rightarrow> 'k kafka_clientImpl outcome" where
  "current_client c = (case c of None \<Rightarrow> Stop ''kafka client is not configured'' | Some k \<Rightarrow> Go k)"

text \<open>
  A method of the client: the call under the deadline of the policy, or under that of the caller if it is the
  shorter one.
\<close>

definition policy_deadline :: "'k kafka_clientImpl \<Rightarrow> int option \<Rightarrow> int" where
  "policy_deadline c deadline =
     (let own = kgp_MaxQueryDuration (kc_guardrails c) in case deadline of None \<Rightarrow> own | Some d \<Rightarrow> min d own)"

definition within_policy :: "'k kafka_clientImpl \<Rightarrow> ('k, 'a) kadm_call \<Rightarrow> 'a outcome" where
  "within_policy c call = call (policy_deadline c None) (kc_admClient c)"

definition kafkaClient_Metadata :: "'k kadm \<Rightarrow> 'k kafka_clientImpl \<Rightarrow> gostring list \<Rightarrow> kadm_Metadata outcome" where
  "kafkaClient_Metadata ka c topics = within_policy c (ka_Metadata ka topics)"

definition kafkaClient_ApiVersions :: "'k kadm \<Rightarrow> 'k kafka_clientImpl \<Rightarrow> BrokerApiVersions list outcome" where
  "kafkaClient_ApiVersions ka c = within_policy c (ka_ApiVersionsSorted ka)"

definition kafkaClient_ListBrokers :: "'k kadm \<Rightarrow> 'k kafka_clientImpl \<Rightarrow> BrokerDetail list outcome" where
  "kafkaClient_ListBrokers ka c = within_policy c (ka_ListBrokers ka)"

definition kafkaClient_DescribeBrokerConfigs ::
  "'k kadm \<Rightarrow> 'k kafka_clientImpl \<Rightarrow> int list \<Rightarrow> ResourceConfig list outcome" where
  "kafkaClient_DescribeBrokerConfigs ka c brokers = within_policy c (ka_DescribeBrokerConfigs ka brokers)"

definition kafkaClient_Request :: "'k kadm \<Rightarrow> 'k kafka_clientImpl \<Rightarrow> kmsg_Response outcome" where
  "kafkaClient_Request ka c = ka_ApiVersionsRequest ka (policy_deadline c None) (kc_kgoClient c)"

definition kafkaClient_ListTopics :: "'k kadm \<Rightarrow> 'k kafka_clientImpl \<Rightarrow> gostring list \<Rightarrow> TopicDetails outcome" where
  "kafkaClient_ListTopics ka c topics = within_policy c (ka_ListTopics ka topics)"

definition kafkaClient_DescribeTopicConfigs ::
  "'k kadm \<Rightarrow> 'k kafka_clientImpl \<Rightarrow> gostring list \<Rightarrow> ResourceConfig list outcome" where
  "kafkaClient_DescribeTopicConfigs ka c topics = within_policy c (ka_DescribeTopicConfigs ka topics)"

definition kafkaClient_DescribeAllLogDirs :: "'k kadm \<Rightarrow> 'k kafka_clientImpl \<Rightarrow> DescribedLogDir list outcome" where
  "kafkaClient_DescribeAllLogDirs ka c = within_policy c (ka_DescribeAllLogDirsSorted ka)"

definition kafkaClient_ListGroups :: "'k kadm \<Rightarrow> 'k kafka_clientImpl \<Rightarrow> gostring list \<Rightarrow> ListedGroup list outcome" where
  "kafkaClient_ListGroups ka c states = within_policy c (ka_ListGroupsSorted ka states)"

definition kafkaClient_DescribeGroups ::
  "'k kadm \<Rightarrow> 'k kafka_clientImpl \<Rightarrow> gostring list \<Rightarrow> (gostring \<times> DescribedGroup) list outcome" where
  "kafkaClient_DescribeGroups ka c groups = within_policy c (ka_DescribeGroups ka groups)"

definition kafkaClient_FetchOffsets ::
  "'k kadm \<Rightarrow> 'k kafka_clientImpl \<Rightarrow> int option \<Rightarrow> gostring \<Rightarrow> OffsetResponse list outcome" where
  "kafkaClient_FetchOffsets ka c deadline groupID =
     ka_FetchOffsetsSorted ka groupID (policy_deadline c deadline) (kc_admClient c)"

definition kafkaClient_Lag ::
  "'k kadm \<Rightarrow> 'k kafka_clientImpl \<Rightarrow> gostring list \<Rightarrow> (gostring \<times> DescribedGroupLag) list outcome" where
  "kafkaClient_Lag ka c groups = within_policy c (ka_Lag ka groups)"

text \<open>
  The first call of the search is made even when the context is done; the numbered answers carry what it
  says then.
\<close>

definition kafkaClient_FindGroupCoordinators ::
  "'k kadm \<Rightarrow> 'k kafka_clientImpl \<Rightarrow> int option \<Rightarrow> gostring list \<Rightarrow> coordinator_response list option outcome" where
  "kafkaClient_FindGroupCoordinators ka c deadline groups =
     (let timeout = policy_deadline c deadline in
      and_then (ka_Coordinators ka groups timeout (kc_admClient c)) (\<lambda>answer.
      Go (cs_result (FindGroupCoordinators answer (ka_Expired ka timeout)))))"

definition kafkaClient_ListEndOffsets :: "'k kadm \<Rightarrow> 'k kafka_clientImpl \<Rightarrow> gostring list \<Rightarrow> ListedOffsets outcome" where
  "kafkaClient_ListEndOffsets ka c topics = within_policy c (ka_ListEndOffsets ka topics)"

definition kafkaClient_ListStartOffsets :: "'k kadm \<Rightarrow> 'k kafka_clientImpl \<Rightarrow> gostring list \<Rightarrow> ListedOffsets outcome" where
  "kafkaClient_ListStartOffsets ka c topics = within_policy c (ka_ListStartOffsets ka topics)"

definition kafkaClient_RequestSharded ::
  "'k kadm \<Rightarrow> 'k kafka_clientImpl \<Rightarrow> gostring \<Rightarrow> int \<Rightarrow> int \<Rightarrow> ResponseShard list outcome" where
  "kafkaClient_RequestSharded ka c topic part brokerID =
     ka_ListOffsetsSharded ka topic part brokerID (policy_deadline c None) (kc_kgoClient c)"

section \<open>Parameters\<close>

definition int32_of_float :: "'k kadm \<Rightarrow> gofloat \<Rightarrow> int" where
  "int32_of_float ka f =
     (case f of
        FFin m e \<Rightarrow>
          (let t = dyadic_trunc m e in if - 2147483648 \<le> t \<and> t \<le> 2147483647 then t else ka_oor32 ka f)
      | _ \<Rightarrow> ka_oor32 ka f)"

text \<open>\<open>int32(value)\<close> of an integer wraps around.\<close>

definition as_int32 :: "'k kadm \<Rightarrow> gostring \<Rightarrow> gvalue \<Rightarrow> gostring + int" where
  "as_int32 ka err v =
     (case v of
        VInt n \<Rightarrow> Inr (wrap32 n)
      | VInt32 n \<Rightarrow> Inr n
      | VInt64 n \<Rightarrow> Inr (wrap32 n)
      | VFloat64 f \<Rightarrow>
          (if \<not> float_eq f (float64_of_int (int64_of_float (ka_oor ka) f)) then Inl err else Inr (int32_of_float ka f))
      | _ \<Rightarrow> Inl err)"

definition RequireInt32 :: "'k kadm \<Rightarrow> gmap \<Rightarrow> gostring \<Rightarrow> gostring + int" where
  "RequireInt32 ka params key =
     (case map_of params key of
        None \<Rightarrow> Inl (missing_parameter key)
      | Some VNil \<Rightarrow> Inl (missing_parameter key)
      | Some v \<Rightarrow> as_int32 ka (parameter_must key ''an integer'') v)"

definition OptionalInt32 :: "'k kadm \<Rightarrow> gmap \<Rightarrow> gostring \<Rightarrow> int \<Rightarrow> gostring + int" where
  "OptionalInt32 ka params key defaultValue =
     (case map_of params key of
        None \<Rightarrow> Inr defaultValue
      | Some VNil \<Rightarrow> Inr defaultValue
      | Some v \<Rightarrow> as_int32 ka (parameter_must key ''an integer'') v)"

text \<open>The first item that does not convert decides the error.\<close>

fun int32_items :: "'k kadm \<Rightarrow> gostring \<Rightarrow> gvalue list \<Rightarrow> gostring + int list" where
  "int32_items ka key [] = Inr []"
| "int32_items ka key (v # vs) =
     (case as_int32 ka
             (case v of VFloat64 _ \<Rightarrow> ''parameter '' @ key @ '' contains non-integer values''
              | _ \<Rightarrow> parameter_must key ''an array of integers'') v of
        Inl err \<Rightarrow> Inl err
      | Inr n \<Rightarrow> (case int32_items ka key vs of Inl err \<Rightarrow> Inl err | Inr ns \<Rightarrow> Inr (n # ns)))"

definition OptionalInt32Slice :: "'k kadm \<Rightarrow> gmap \<Rightarrow> gostring \<Rightarrow> gostring + int list" where
  "OptionalInt32Slice ka params key =
     (case map_of params key of
        None \<Rightarrow> Inr []
      | Some VNil \<Rightarrow> Inr []
      | Some (VInt32s ns) \<Rightarrow> Inr ns
      | Some (VInts ns) \<Rightarrow> Inr (map wrap32 ns)
      | Some (VList vs) \<Rightarrow> int32_items ka key vs
      | Some _ \<Rightarrow> Inl (parameter_must key ''an array of integers''))"

definition NormalizeLimitKafka :: "'k kadm \<Rightarrow> gmap \<Rightarrow> gostring + int" where
  "NormalizeLimitKafka ka params =
     (case OptionalInt (ka_oor ka) params ''limit'' 100 of
        Inl err \<Rightarrow> Inl err
      | Inr limit \<Rightarrow>
          (if limit \<le> 0 then Inl (parameter_must ''limit'' ''greater than 0'')
           else Inr (if limit > 1000 then 1000 else limit)))"

fun kafka_string_items :: "gostring \<Rightarrow> gvalue list \<Rightarrow> gostring + gostring list" where
  "kafka_string_items key [] = Inr []"
| "kafka_string_items key (VString s # vs) = (case kafka_string_items key vs of Inl err \<Rightarrow> Inl err | Inr ss \<Rightarrow> Inr (s # ss))"
| "kafka_string_items key (_ # vs) = Inl (parameter_must key ''an array of strings'')"

definition kafka_optionalStringSlice :: "gmap \<Rightarrow> gostring \<Rightarrow> gostring + gostring list" where
  "kafka_optionalStringSlice params key =
     (case map_of params key of
        None \<Rightarrow> Inr []
      | Some VNil \<Rightarrow> Inr []
      | Some (VStrings ss) \<Rightarrow> Inr ss
      | Some (VList vs) \<Rightarrow> kafka_string_items key vs
      | Some _ \<Rightarrow> Inl (parameter_must key ''an array of strings''))"

text \<open>A filter that is empty lets everything through.\<close>

definition passes :: "'a list \<Rightarrow> 'a \<Rightarrow> bool" where
  "passes xs x \<longleftrightarrow> xs = [] \<or> x \<in> set xs"

section \<open>Results\<close>

record BrokerInfo =
  bi_ID :: int
  bi_Host :: gostring
  bi_Port :: int
  bi_Rack :: gostring
  bi_IsController :: bool

definition broker_value :: "BrokerInfo \<Rightarrow> gvalue" where
  "broker_value b =
     VMap ([(''broker_id'', VInt32 (bi_ID b)), (''host'', VString (bi_Host b)), (''port'', VInt32 (bi_Port b))]
           @ (if bi_Rack b = [] then [] else [(''rack'', VString (bi_Rack b))])
           @ (if bi_IsController b then [(''is_controller'', VBool True)] else []))"

definition brokerDetailToInfo :: "BrokerDetail \<Rightarrow> BrokerInfo" where
  "brokerDetailToInfo b =
     \<lparr>bi_ID = bd_NodeID b, bi_Host = bd_Host b, bi_Port = bd_Port b,
      bi_Rack = (case bd_Rack b of None \<Rightarrow> [] | Some r \<Rightarrow> r), bi_IsController = False\<rparr>"

definition broker_info :: "int \<Rightarrow> BrokerDetail \<Rightarrow> BrokerInfo" where
  "broker_info controller b =
     (brokerDetailToInfo b)\<lparr>bi_IsController := (controller \<ge> 0 \<and> bd_NodeID b = controller)\<rparr>"

definition brokersToInfo :: "BrokerDetail list \<Rightarrow> int \<Rightarrow> BrokerInfo list" where
  "brokersToInfo brokers controller = map (broker_info controller) brokers"

record ConfigEntry =
  ce_Name :: gostring
  ce_Value :: gostring
  ce_Default :: bool
  ce_Source :: gostring
  ce_Sensitive :: bool

definition configToEntry :: "'k kadm \<Rightarrow> kadm_Config \<Rightarrow> ConfigEntry" where
  "configToEntry ka c =
     \<lparr>ce_Name = kcf_Key c, ce_Value = (if kcf_Sensitive c then ''[REDACTED]'' else kcf_MaybeValue c),
      ce_Default = (kcf_Source c = ka_DefaultConfig ka), ce_Source = ka_SourceString ka (kcf_Source c),
      ce_Sensitive = kcf_Sensitive c\<rparr>"

text \<open>\<open>ReadOnly\<close> is never set.\<close>

definition config_value :: "ConfigEntry \<Rightarrow> gvalue" where
  "config_value e =
     VMap ([(''name'', VString (ce_Name e)), (''value'', VString (ce_Value e)), (''is_default'', VBool (ce_Default e))]
           @ (if ce_Source e = [] then [] else [(''source'', VString (ce_Source e))])
           @ (if ce_Sensitive e then [(''sensitive'', VBool True)] else []))"

record PartitionInfo =
  pi_Topic :: gostring
  pi_Partition :: int
  pi_Leader :: int
  pi_Replicas :: "int list"
  pi_ISR :: "int list"
  pi_LeaderEpoch :: int
  pi_Offline :: bool

definition partitionToInfo :: "PartitionDetail \<Rightarrow> PartitionInfo" where
  "partitionToInfo p =
     \<lparr>pi_Topic = pd_Topic p, pi_Partition = pd_Partition p, pi_Leader = pd_Leader p, pi_Replicas = pd_Replicas p,
      pi_ISR = pd_ISR p, pi_LeaderEpoch = pd_LeaderEpoch p, pi_Offline = (pd_Leader p < 0)\<rparr>"

definition partition_info_value :: "PartitionInfo \<Rightarrow> gvalue" where
  "partition_info_value p =
     VMap ([(''topic'', VString (pi_Topic p)), (''partition'', VInt32 (pi_Partition p)), (''leader_id'', VInt32 (pi_Leader p)),
            (''replicas'', VInt32s (pi_Replicas p)), (''isr'', VInt32s (pi_ISR p))]
           @ (if pi_LeaderEpoch p = 0 then [] else [(''leader_epoch'', VInt32 (pi_LeaderEpoch p))])
           @ (if pi_Offline p then [(''offline'', VBool True)] else []))"

text \<open>The topics and partitions assigned to a member, and how many partitions.\<close>

definition memberAssignments :: "GroupMember \<Rightarrow> (gostring \<times> int list) list \<times> int" where
  "memberAssignments m =
     (case gm_Assigned m of
        None \<Rightarrow> ([], 0)
      | Some ts \<Rightarrow> (ts, sum_list (map (\<lambda>(_, ps). int (length ps)) ts)))"

definition assignment_value :: "gostring \<times> int list \<Rightarrow> gvalue" where
  "assignment_value a = VMap [(''topic'', VString (fst a)), (''partitions'', VInt32s (snd a))]"

text \<open>
  The loop of the listings: the items that pass, until one would exceed the limit. A nested loop leaves both
  loops then.
\<close>

fun collect :: "int \<Rightarrow> ('a \<Rightarrow> bool) \<Rightarrow> 'a list \<Rightarrow> 'a list \<Rightarrow> 'a list \<times> bool" where
  "collect limit keep [] acc = (acc, False)"
| "collect limit keep (x # xs) acc =
     (if \<not> keep x then collect limit keep xs acc
      else if int (length acc) \<ge> limit then (acc, True)
      else collect limit keep xs (acc @ [x]))"

fun collect_nested :: "int \<Rightarrow> ('a \<Rightarrow> bool) \<Rightarrow> 'a list list \<Rightarrow> 'a list \<Rightarrow> 'a list \<times> bool" where
  "collect_nested limit keep [] acc = (acc, False)"
| "collect_nested limit keep (xs # xss) acc =
     (case collect limit keep xs acc of
        (acc', True) \<Rightarrow> (acc', True)
      | (acc', False) \<Rightarrow> collect_nested limit keep xss acc')"

definition counted :: "gostring \<Rightarrow> gvalue list \<Rightarrow> gmap" where
  "counted key vs = [(key, VList vs), (''count'', VInt (int (length vs)))]"

text \<open>\<open>counts[x]++\<close> for every item.\<close>

definition count_at :: "('a \<times> int) list \<Rightarrow> 'a \<Rightarrow> int" where
  "count_at counts x = (case map_of counts x of None \<Rightarrow> 0 | Some n \<Rightarrow> n)"

definition count_up :: "'a \<Rightarrow> ('a \<times> int) list \<Rightarrow> ('a \<times> int) list" where
  "count_up x counts = AList.update x (count_at counts x + 1) counts"

definition count_items :: "'a list \<Rightarrow> ('a \<times> int) list" where
  "count_items xs = fold count_up xs []"

text \<open>One aggregate for each key, which every item of the key is added to.\<close>

definition grouped :: "('a \<Rightarrow> 'k) \<Rightarrow> ('a \<Rightarrow> 'b \<Rightarrow> 'b) \<Rightarrow> 'b \<Rightarrow> 'a list \<Rightarrow> ('k \<times> 'b) list" where
  "grouped key step z xs =
     fold (\<lambda>x m. AList.update (key x) (step x (case map_of m (key x) of None \<Rightarrow> z | Some a \<Rightarrow> a)) m) xs []"

section \<open>Facts\<close>

lemma collect_eq:
  "int (length acc) \<le> limit \<Longrightarrow>
   collect limit keep xs acc =
     (acc @ take (nat limit - length acc) (filter keep xs), int (length acc + length (filter keep xs)) > limit)"
proof (induction xs arbitrary: acc)
  case (Cons x xs)
  show ?case
  proof (cases "keep x \<and> int (length acc) < limit")
    case True
    then have "nat limit - length acc = Suc (nat limit - Suc (length acc))" by linarith
    then show ?thesis using True Cons.IH [of "acc @ [x]"] by simp
  next
    case False
    then show ?thesis using Cons.IH [of acc] Cons.prems by auto
  qed
qed simp

lemma collect_nested_eq:
  "collect_nested limit keep xss acc = collect limit keep (concat xss) acc"
proof (induction xss arbitrary: acc)
  case (Cons xs xss)
  have "collect limit keep (xs @ ys) acc =
      (case collect limit keep xs acc of (acc', True) \<Rightarrow> (acc', True) | (acc', False) \<Rightarrow> collect limit keep ys acc')" for ys
    by (induction xs arbitrary: acc) auto
  then show ?case using Cons.IH by (simp split: prod.split bool.split)
qed simp

lemma collect_spec:
  "0 \<le> limit \<Longrightarrow>
   collect_nested limit keep xss [] =
     (take (nat limit) (filter keep (concat xss)), int (length (filter keep (concat xss))) > limit)"
  by (simp add: collect_nested_eq collect_eq)

lemma distinct_keys_count_up: "distinct_keys counts \<Longrightarrow> distinct_keys (fold count_up xs counts)"
  by (induction xs arbitrary: counts) (simp_all add: count_up_def)

lemma map_of_count_up:
  "map_of (fold count_up xs counts) x =
     (if x \<in> set xs then Some (count_at counts x + int (count_list xs x)) else map_of counts x)"
proof (induction xs arbitrary: counts)
  case (Cons y ys)
  have "count_at (count_up y counts) x = count_at counts x + (if x = y then 1 else 0)"
    by (simp add: count_at_def count_up_def)
  moreover have "map_of (count_up y counts) x = (if x = y then Some (count_at counts x + 1) else map_of counts x)"
    by (simp add: count_up_def)
  ultimately show ?case using Cons.IH [of "count_up y counts"] by (auto simp: count_list_0_iff)
qed simp

lemma count_items:
  "distinct_keys (count_items xs)" "set (map fst (count_items xs)) = set xs"
  "map_of (count_items xs) x = (if x \<in> set xs then Some (int (count_list xs x)) else None)"
  "count_at (count_items xs) x = int (count_list xs x)"
proof -
  show m: "map_of (count_items xs) x = (if x \<in> set xs then Some (int (count_list xs x)) else None)" for x
    by (simp add: count_items_def map_of_count_up count_at_def)
  then show "count_at (count_items xs) x = int (count_list xs x)"
    by (simp add: count_at_def count_list_0_iff)
  show "set (map fst (count_items xs)) = set xs"
    using m by (auto simp: dom_map_of_conv_image_fst [symmetric] dom_def split: if_splits)
qed (simp add: count_items_def distinct_keys_count_up)

lemma grouped_snoc:
  "grouped key step z (xs @ [x]) =
     AList.update (key x) (step x (case map_of (grouped key step z xs) (key x) of None \<Rightarrow> z | Some a \<Rightarrow> a)) (grouped key step z xs)"
  by (simp add: grouped_def)

lemma grouped:
  "distinct_keys (grouped key step z xs)" "set (map fst (grouped key step z xs)) = key ` set xs"
  "map_of (grouped key step z xs) k =
     (if k \<in> key ` set xs then Some (fold step (filter (\<lambda>x. key x = k) xs) z) else None)"
proof -
  have Nil: "grouped key step z [] = []" by (simp add: grouped_def)
  show "distinct_keys (grouped key step z xs)"
    by (induction xs rule: rev_induct) (simp_all add: Nil grouped_snoc)
  show m: "map_of (grouped key step z xs) k =
      (if k \<in> key ` set xs then Some (fold step (filter (\<lambda>x. key x = k) xs) z) else None)" for k
  proof (induction xs rule: rev_induct)
    case (snoc x xs)
    have "filter (\<lambda>y. key y = key x) xs = []" if "key x \<notin> key ` set xs"
      using that by (auto simp: filter_empty_conv image_iff)
    with snoc show ?case by (auto simp: grouped_snoc)
  qed (simp add: Nil)
  then show "set (map fst (grouped key step z xs)) = key ` set xs"
    by (auto simp: dom_map_of_conv_image_fst [symmetric] dom_def split: if_splits)
qed

lemma NormalizeLimitKafka_bounds: "NormalizeLimitKafka ka params = Inr limit \<Longrightarrow> 1 \<le> limit \<and> limit \<le> 1000"
  by (auto simp: NormalizeLimitKafka_def split: sum.splits if_splits)

end
