(* ===== verification/Kafka_Cluster.thy ===== *)
theory Kafka_Cluster
  imports Kafka_API
begin

text \<open>
  The tasks of \<open>internal/provider/kafka\<close> on the cluster, the brokers and the configurations: what they ask the
  client for, what they keep of it and in which order, and every early return.
\<close>

section \<open>The cluster\<close>

text \<open>A call whose error is ignored; a panic is not an error.\<close>

definition best_effort :: "'a outcome \<Rightarrow> 'b \<Rightarrow> ('a \<Rightarrow> 'b) \<Rightarrow> 'b outcome" where
  "best_effort m d f = (case m of Panic \<Rightarrow> Panic | Stop _ \<Rightarrow> Go d | Go x \<Rightarrow> Go (f x))"

definition version_guess :: "BrokerApiVersions list \<Rightarrow> gostring" where
  "version_guess vs = (case find (\<lambda>v. av_Err v = None) vs of None \<Rightarrow> [] | Some v \<Rightarrow> av_VersionGuess v)"

definition clusterDescribe_Execute :: "'k kadm \<Rightarrow> 'k kafka_clientImpl option \<Rightarrow> gvalue outcome" where
  "clusterDescribe_Execute ka c =
     and_then (current_client c) (\<lambda>cl.
     and_then (kafkaClient_Metadata ka cl []) (\<lambda>meta.
     and_then (best_effort (kafkaClient_ApiVersions ka cl) [] version_guess) (\<lambda>version.
     let brokers = brokersToInfo (meta_Brokers meta) (meta_Controller meta) in
     Go (VMap [(''cluster_id'', VString (meta_Cluster meta)), (''brokers'', VList (map broker_value brokers)),
               (''controller_id'', VInt32 (meta_Controller meta)), (''version'', VString version),
               (''broker_count'', VInt (int (length brokers)))]))))"

text \<open>The loop over the partitions of one topic, which stops at either limit.\<close>

fun metadata_partitions ::
  "int \<Rightarrow> int \<Rightarrow> PartitionDetail list \<Rightarrow> PartitionInfo list \<Rightarrow> PartitionInfo list \<times> bool" where
  "metadata_partitions maxPartitions most [] acc = (acc, False)"
| "metadata_partitions maxPartitions most (pd # pds) acc =
     (if maxPartitions > 0 \<and> wrap32 (int (length acc)) \<ge> maxPartitions then (acc, True)
      else if int (length acc) \<ge> most then (acc, True)
      else metadata_partitions maxPartitions most pds
             (acc @ [(partitionToInfo pd)\<lparr>pi_Offline := pd_OfflineReplicas pd \<noteq> []\<rparr>]))"

definition metadata_topic :: "TopicDetail \<Rightarrow> PartitionInfo list \<Rightarrow> gvalue" where
  "metadata_topic td ps =
     VMap [(''topic'', VString (td_Topic td)), (''internal'', VBool (td_IsInternal td)),
           (''partitions'', VList (map partition_info_value ps))]"

fun metadata_topics ::
  "'k kadm \<Rightarrow> bool \<Rightarrow> int \<Rightarrow> kafka_GuardrailPolicy \<Rightarrow> TopicDetail list \<Rightarrow> gvalue list \<times> int \<times> bool \<Rightarrow>
     gvalue list \<times> int \<times> bool" where
  "metadata_topics ka includeInternal maxPartitions g [] acc = acc"
| "metadata_topics ka includeInternal maxPartitions g (td # tds) (topics, partitionCount, truncated) =
     (if td_IsInternal td \<and> \<not> includeInternal
      then metadata_topics ka includeInternal maxPartitions g tds (topics, partitionCount, truncated)
      else if int (length topics) \<ge> kgp_MaxTopicsPerRequest g then (topics, partitionCount, True)
      else
        (let (ps, cut) = metadata_partitions maxPartitions (kgp_MaxPartitionsPerRequest g)
                           (ka_PartitionsSorted ka (td_Partitions td)) []
         in metadata_topics ka includeInternal maxPartitions g tds
              (topics @ [metadata_topic td ps], partitionCount + int (length ps), truncated \<or> cut)))"

definition clusterMetadataGet_Execute :: "'k kadm \<Rightarrow> 'k kafka_clientImpl option \<Rightarrow> gmap \<Rightarrow> gvalue outcome" where
  "clusterMetadataGet_Execute ka c params =
     and_then (attempt (kafka_optionalStringSlice params ''topics'')) (\<lambda>topics.
     and_then (attempt (OptionalBool params ''include_internal'' False)) (\<lambda>includeInternal.
     and_then (attempt (OptionalInt32 ka params ''max_partitions'' 0)) (\<lambda>maxPartitions.
     and_then (current_client c) (\<lambda>cl.
     and_then (kafkaClient_Metadata ka cl topics) (\<lambda>meta.
     let (topicList, partitionCount, truncated) =
           metadata_topics ka includeInternal maxPartitions (kafka_ApplyDefaults (kc_guardrails cl))
             (ka_TopicsSorted ka (meta_Topics meta)) ([], 0, False)
     in Go (VMap [(''cluster_id'', VString (meta_Cluster meta)),
                  (''brokers'', VList (map broker_value (brokersToInfo (meta_Brokers meta) (meta_Controller meta)))),
                  (''topics'', VList topicList), (''topic_count'', VInt (int (length topicList))),
                  (''partition_count'', VInt partitionCount), (''truncated'', VBool truncated)]))))))"

text \<open>The features of the cluster, or those of the broker that answered.\<close>

definition feature_entries :: "int \<Rightarrow> feature_range list \<Rightarrow> feature_range list \<Rightarrow> gvalue list" where
  "feature_entries epoch finalized supported =
     (if epoch \<ge> 0
      then map (\<lambda>f. VMap [(''name'', VString (ft_Name f)), (''min_version_level'', VInt16 (ft_Min f)),
                          (''max_version_level'', VInt16 (ft_Max f)), (''finalized_version_level'', VInt16 (ft_Max f))])
             finalized
      else map (\<lambda>f. VMap [(''name'', VString (ft_Name f)), (''min_version_level'', VInt16 (ft_Min f)),
                          (''max_version_level'', VInt16 (ft_Max f))]) supported)"

definition clusterFeaturesGet_Execute :: "'k kadm \<Rightarrow> 'k kafka_clientImpl option \<Rightarrow> gvalue outcome" where
  "clusterFeaturesGet_Execute ka c =
     and_then (current_client c) (\<lambda>cl.
     and_then (kafkaClient_Request ka cl) (\<lambda>resp.
     case resp of
       OtherResponse t \<Rightarrow> Stop (''unexpected response type '' @ t)
     | ApiVersionsResponse code epoch finalized supported \<Rightarrow>
         (case ka_ErrorForCode ka code of
            Some err \<Rightarrow> Stop err
          | None \<Rightarrow> Go (VMap (counted ''features'' (feature_entries epoch finalized supported))))))"

definition api_versions_entry :: "'k kadm \<Rightarrow> BrokerApiVersions \<Rightarrow> gvalue" where
  "api_versions_entry ka v =
     VMap [(''broker_id'', VInt32 (av_NodeID v)),
           (''apis'', VList (map (\<lambda>(key, mn, mx).
              VMap [(''key'', VInt16 key), (''name'', VString (ka_NameForKey ka key)),
                    (''min_version'', VInt16 mn), (''max_version'', VInt16 mx)]) (av_Keys v)))]"

definition clusterApiVersionsGet_Execute :: "'k kadm \<Rightarrow> 'k kafka_clientImpl option \<Rightarrow> gmap \<Rightarrow> gvalue outcome" where
  "clusterApiVersionsGet_Execute ka c params =
     and_then (attempt (OptionalInt32 ka params ''broker_id'' (- 1))) (\<lambda>brokerID.
     and_then (current_client c) (\<lambda>cl.
     and_then (kafkaClient_ApiVersions ka cl) (\<lambda>vs.
     Go (VMap (counted ''api_versions''
       (map (api_versions_entry ka)
         (filter (\<lambda>v. \<not> (brokerID \<ge> 0 \<and> av_NodeID v \<noteq> brokerID) \<and> av_Err v = None) vs)))))))"

section \<open>Brokers\<close>

definition brokerList_Execute :: "'k kadm \<Rightarrow> 'k kafka_clientImpl option \<Rightarrow> gvalue outcome" where
  "brokerList_Execute ka c =
     and_then (current_client c) (\<lambda>cl.
     and_then (kafkaClient_ListBrokers ka cl) (\<lambda>brokers.
     Go (VMap (counted ''brokers'' (map broker_value (brokersToInfo brokers (- 1)))))))"

definition brokerDescribe_Execute :: "'k kadm \<Rightarrow> 'k kafka_clientImpl option \<Rightarrow> gmap \<Rightarrow> gvalue outcome" where
  "brokerDescribe_Execute ka c params =
     and_then (attempt (RequireInt32 ka params ''broker_id'')) (\<lambda>brokerID.
     and_then (current_client c) (\<lambda>cl.
     and_then (kafkaClient_Metadata ka cl []) (\<lambda>meta.
     case find (\<lambda>b. bd_NodeID b = brokerID) (meta_Brokers meta) of
       Some b \<Rightarrow> Go (VMap [(''broker'', broker_value (broker_info (meta_Controller meta) b))])
     | None \<Rightarrow> Stop (''broker '' @ Itoa brokerID @ '' not found''))))"

section \<open>Configurations\<close>

text \<open>The entries of the resources that pass, up to the first resource with an error.\<close>

fun config_entries ::
  "'k kadm \<Rightarrow> (kadm_Config \<Rightarrow> bool) \<Rightarrow> ResourceConfig list \<Rightarrow> ConfigEntry list \<Rightarrow> ConfigEntry list outcome" where
  "config_entries ka keep [] acc = Go acc"
| "config_entries ka keep (rc # rcs) acc =
     (case rc_Err rc of
        Some err \<Rightarrow> Stop err
      | None \<Rightarrow> config_entries ka keep rcs (acc @ map (configToEntry ka) (filter keep (rc_Configs rc))))"

definition clusterConfigGet_Execute :: "'k kadm \<Rightarrow> 'k kafka_clientImpl option \<Rightarrow> gmap \<Rightarrow> gvalue outcome" where
  "clusterConfigGet_Execute ka c params =
     and_then (attempt (kafka_optionalStringSlice params ''keys'')) (\<lambda>ks.
     and_then (current_client c) (\<lambda>cl.
     and_then (kafkaClient_DescribeBrokerConfigs ka cl []) (\<lambda>configs.
     and_then (config_entries ka (\<lambda>cf. passes ks (kcf_Key cf)) configs []) (\<lambda>entries.
     Go (VMap (counted ''configs'' (map config_value entries)))))))"

definition brokerConfigGet_Execute :: "'k kadm \<Rightarrow> 'k kafka_clientImpl option \<Rightarrow> gmap \<Rightarrow> gvalue outcome" where
  "brokerConfigGet_Execute ka c params =
     and_then (attempt (RequireInt32 ka params ''broker_id'')) (\<lambda>brokerID.
     and_then (attempt (kafka_optionalStringSlice params ''keys'')) (\<lambda>ks.
     and_then (attempt (OptionalBool params ''include_defaults'' True)) (\<lambda>includeDefaults.
     and_then (current_client c) (\<lambda>cl.
     and_then (kafkaClient_DescribeBrokerConfigs ka cl [brokerID]) (\<lambda>configs.
     and_then (config_entries ka
       (\<lambda>cf. passes ks (kcf_Key cf) \<and> \<not> (\<not> includeDefaults \<and> ka_SourceString ka (kcf_Source cf) = ''DEFAULT_CONFIG''))
       configs []) (\<lambda>entries.
     Go (VMap (counted ''configs'' (map config_value entries)))))))))"

definition topicConfigGet_Execute :: "'k kadm \<Rightarrow> 'k kafka_clientImpl option \<Rightarrow> gmap \<Rightarrow> gvalue outcome" where
  "topicConfigGet_Execute ka c params =
     and_then (attempt (RequireString params ''topic'')) (\<lambda>topic.
     and_then (attempt (kafka_optionalStringSlice params ''keys'')) (\<lambda>ks.
     and_then (attempt (OptionalBool params ''include_defaults'' True)) (\<lambda>includeDefaults.
     and_then (current_client c) (\<lambda>cl.
     and_then (kafkaClient_DescribeTopicConfigs ka cl [topic]) (\<lambda>configs.
     and_then (attempt (ka_ConfigOn ka configs topic)) (\<lambda>rc.
     case rc_Err rc of
       Some err \<Rightarrow> Stop err
     | None \<Rightarrow>
         Go (VMap ((''topic'', VString topic) # counted ''configs''
           (map (config_value \<circ> configToEntry ka)
             (filter (\<lambda>cf. passes ks (kcf_Key cf) \<and> \<not> (\<not> includeDefaults \<and> kcf_Source cf = ka_DefaultConfig ka))
               (rc_Configs rc)))))))))))"

section \<open>Differences of configurations\<close>

text \<open>
  \<open>fmt.Sscanf\<close> with \<open>%d\<close> into an \<open>int32\<close>: spaces but no line feed, a sign, digits; what follows them is not
  read.
\<close>

fun skip_space :: "gostring \<Rightarrow> gostring option" where
  "skip_space [] = Some []"
| "skip_space (ch # s) =
     (if ch = CHR 0x0D \<and> s \<noteq> [] \<and> hd s = CHR 0x0A then skip_space s
      else if ch = CHR 0x0A then None
      else if ch \<in> set [CHR '' '', CHR 0x09, CHR 0x0B, CHR 0x0C, CHR 0x0D] then skip_space s
      else Some (ch # s))"

definition Sscanf_int32 :: "gostring \<Rightarrow> int option" where
  "Sscanf_int32 s =
     (case skip_space s of
        None \<Rightarrow> None
      | Some t \<Rightarrow>
          (let signed = t \<noteq> [] \<and> (hd t = CHR ''+'' \<or> hd t = CHR ''-'');
               sign = (if signed then [hd t] else []);
               digits = takeWhile (\<lambda>ch. CHR ''0'' \<le> ch \<and> ch \<le> CHR ''9'') (drop (length sign) t)
           in case ParseInt (sign @ digits) of
                None \<Rightarrow> None
              | Some n \<Rightarrow> (if - 2147483648 \<le> n \<and> n \<le> 2147483647 then Some n else None)))"

text \<open>\<open>valuesByKey\<close>: the values by key and by resource; a resource whose name does not read is passed over.\<close>

type_synonym 'i config_table = "(gostring \<times> ('i \<times> gostring) list) list"

definition put_value :: "gostring \<Rightarrow> 'i \<Rightarrow> gostring \<Rightarrow> 'i config_table \<Rightarrow> 'i config_table" where
  "put_value key i v m =
     AList.update key (AList.update i v (case map_of m key of None \<Rightarrow> [] | Some vs \<Rightarrow> vs)) m"

fun config_values ::
  "(gostring \<Rightarrow> 'i option) \<Rightarrow> 'k kadm \<Rightarrow> gostring list \<Rightarrow> ResourceConfig list \<Rightarrow> 'i config_table \<Rightarrow> 'i config_table" where
  "config_values read ka ks [] m = m"
| "config_values read ka ks (rc # rcs) m =
     (if rc_Err rc \<noteq> None then config_values read ka ks rcs m
      else
        (case read (rc_Name rc) of
           None \<Rightarrow> config_values read ka ks rcs m
         | Some i \<Rightarrow>
             config_values read ka ks rcs
               (fold (\<lambda>cf. put_value (kcf_Key cf) i (ce_Value (configToEntry ka cf)))
                 (filter (\<lambda>cf. passes ks (kcf_Key cf)) (rc_Configs rc)) m)))"

definition value_counts :: "('i \<times> gostring) list \<Rightarrow> (gostring \<times> int) list" where
  "value_counts vals = fold (\<lambda>(_, v). count_up v) vals []"

text \<open>The pairs by falling count, then by value; the first one has the most common value.\<close>

definition sorted_pairs :: "(gostring \<times> int) list \<Rightarrow> (gostring \<times> int) list" where
  "sorted_pairs counts = sort_key (\<lambda>(_, n). - n) (sort_key fst counts)"

definition most_common :: "('i \<times> gostring) list \<Rightarrow> gostring" where
  "most_common vals = fst (hd (sorted_pairs (value_counts vals)))"

definition outliers :: "('i::linorder \<times> gostring) list \<Rightarrow> 'i list" where
  "outliers vals = sort (map fst (filter (\<lambda>(_, v). v \<noteq> most_common vals) vals))"

definition config_diffs :: "'i::linorder config_table \<Rightarrow> (gostring \<times> ('i \<times> gostring) list \<times> 'i list) list" where
  "config_diffs m =
     sort_key fst
       (map (\<lambda>(key, vals). (key, vals, outliers vals))
         (filter (\<lambda>(key, vals). \<not> card (set (map snd vals)) \<le> 1) m))"

definition brokerConfigDiff_Execute :: "'k kadm \<Rightarrow> 'k kafka_clientImpl option \<Rightarrow> gmap \<Rightarrow> gvalue outcome" where
  "brokerConfigDiff_Execute ka c params =
     and_then (attempt (OptionalInt32Slice ka params ''broker_ids'')) (\<lambda>asked.
     and_then (attempt (kafka_optionalStringSlice params ''keys'')) (\<lambda>ks.
     and_then (current_client c) (\<lambda>cl.
     and_then
       (if asked = [] then and_then (kafkaClient_ListBrokers ka cl) (\<lambda>brokers. Go (ka_NodeIDs ka brokers)) else Go asked)
       (\<lambda>brokerIDs.
     and_then (kafkaClient_DescribeBrokerConfigs ka cl brokerIDs) (\<lambda>configs.
     Go (VMap (counted ''diff''
       (map (\<lambda>(key, vals, outs).
          VMap [(''key'', VString key), (''values'', VStrMap (map (\<lambda>(i, v). (Itoa i, v)) vals)),
                (''outlier_brokers'', VInt32s outs)])
         (config_diffs (config_values Sscanf_int32 ka ks configs []))))))))))"

definition topicConfigDiff_Execute :: "'k kadm \<Rightarrow> 'k kafka_clientImpl option \<Rightarrow> gmap \<Rightarrow> gvalue outcome" where
  "topicConfigDiff_Execute ka c params =
     and_then (attempt (kafka_optionalStringSlice params ''topics'')) (\<lambda>topics.
     and_then (stop_if (topics = []) (missing_parameter ''topics'')) (\<lambda>_.
     and_then (attempt (kafka_optionalStringSlice params ''keys'')) (\<lambda>ks.
     and_then (current_client c) (\<lambda>cl.
     and_then (kafkaClient_DescribeTopicConfigs ka cl topics) (\<lambda>configs.
     Go (VMap (counted ''diff''
       (map (\<lambda>(key, vals, outs).
          VMap [(''key'', VString key), (''values'', VStrMap vals), (''anomalous_topics'', VStrings outs)])
         (config_diffs (config_values Some ka ks configs []))))))))))"

end
