(* ===== verification/Kafka_Topics.thy ===== *)
theory Kafka_Topics
  imports Kafka_API
begin

text \<open>
  The tasks of \<open>internal/provider/kafka\<close> on topics and partitions. The listings are the loops of
  \<open>Kafka_API\<close>; the distributions count in a map and read it in the order of the brokers.
\<close>

section \<open>Topics\<close>

text \<open>The loop of \<open>topic.list\<close>: a pattern is not looked at before a topic gets that far.\<close>

definition topic_summary :: "TopicDetail \<Rightarrow> gvalue" where
  "topic_summary td =
     VMap [(''topic'', VString (td_Topic td)), (''internal'', VBool (td_IsInternal td)),
           (''partition_count'', VInt (int (length (td_Partitions td))))]"

definition name_matches :: "gostring \<Rightarrow> gostring \<Rightarrow> bool outcome" where
  "name_matches pattern name =
     (if pattern = [] then Go True
      else case path_Match pattern name of
             Inl _ \<Rightarrow> Stop ''invalid pattern: syntax error in pattern''
           | Inr b \<Rightarrow> Go b)"

fun collect_matching ::
  "int \<Rightarrow> gostring \<Rightarrow> ('a \<Rightarrow> gostring) \<Rightarrow> ('a \<Rightarrow> bool) \<Rightarrow> 'a list \<Rightarrow> 'a list \<Rightarrow> ('a list \<times> bool) outcome" where
  "collect_matching limit pattern name skip [] acc = Go (acc, False)"
| "collect_matching limit pattern name skip (x # xs) acc =
     (if skip x then collect_matching limit pattern name skip xs acc
      else
        and_then (name_matches pattern (name x)) (\<lambda>matched.
        if \<not> matched then collect_matching limit pattern name skip xs acc
        else if int (length acc) \<ge> limit then Go (acc, True)
        else collect_matching limit pattern name skip xs (acc @ [x])))"

definition topicList_Execute :: "'k kadm \<Rightarrow> 'k kafka_clientImpl option \<Rightarrow> gmap \<Rightarrow> gvalue outcome" where
  "topicList_Execute ka c params =
     and_then (attempt (OptionalBool params ''include_internal'' False)) (\<lambda>includeInternal.
     and_then (attempt (OptionalString params ''pattern'' [])) (\<lambda>pattern.
     and_then (attempt (NormalizeLimitKafka ka params)) (\<lambda>limit.
     and_then (current_client c) (\<lambda>cl.
     and_then (kafkaClient_ListTopics ka cl []) (\<lambda>topics.
     and_then (collect_matching limit pattern td_Topic (\<lambda>td. td_IsInternal td \<and> \<not> includeInternal)
                 (ka_TopicsSorted ka topics) []) (\<lambda>(found, truncated).
     Go (VMap (counted ''topics'' (map topic_summary found) @
               [(''truncated'', VBool truncated), (''next_page_token'', VString [])]))))))))"

text \<open>The topic that was asked for, or why there is none.\<close>

definition listed_topic :: "gostring \<Rightarrow> TopicDetails \<Rightarrow> TopicDetail outcome" where
  "listed_topic topic topics =
     (case map_of topics topic of
        None \<Rightarrow> Stop (''topic '' @ topic @ '' not found'')
      | Some td \<Rightarrow> (case td_Err td of Some err \<Rightarrow> Stop err | None \<Rightarrow> Go td))"

definition topicDescribe_Execute :: "'k kadm \<Rightarrow> 'k kafka_clientImpl option \<Rightarrow> gmap \<Rightarrow> gvalue outcome" where
  "topicDescribe_Execute ka c params =
     and_then (attempt (RequireString params ''topic'')) (\<lambda>topic.
     and_then (current_client c) (\<lambda>cl.
     and_then (kafkaClient_ListTopics ka cl [topic]) (\<lambda>topics.
     and_then (listed_topic topic topics) (\<lambda>td.
     let partitions = map partitionToInfo (ka_PartitionsSorted ka (td_Partitions td)) in
     Go (VMap [(''topic'', VString (td_Topic td)), (''internal'', VBool (td_IsInternal td)),
               (''partitions'', VList (map partition_info_value partitions)),
               (''partition_count'', VInt (int (length partitions))),
               (''replication_factor'', VInt (ka_NumReplicas ka (td_Partitions td)))])))))"

section \<open>Listings of partitions\<close>

text \<open>The partitions of the topics that are not skipped, topic by topic.\<close>

definition partitions_of :: "'k kadm \<Rightarrow> (TopicDetail \<Rightarrow> bool) \<Rightarrow> TopicDetails \<Rightarrow> PartitionDetail list list" where
  "partitions_of ka keep details =
     map (\<lambda>td. ka_PartitionsSorted ka (td_Partitions td)) (filter keep (ka_TopicsSorted ka details))"

definition partition_listing :: "gostring \<Rightarrow> PartitionDetail list \<times> bool \<Rightarrow> gmap" where
  "partition_listing key found =
     counted key (map (partition_info_value \<circ> partitionToInfo) (fst found)) @ [(''truncated'', VBool (snd found))]"

definition containsInt32 :: "int list \<Rightarrow> int \<Rightarrow> bool" where
  "containsInt32 xs v \<longleftrightarrow> list_ex (\<lambda>item. item = v) xs"

definition partitionList_Execute :: "'k kadm \<Rightarrow> 'k kafka_clientImpl option \<Rightarrow> gmap \<Rightarrow> gvalue outcome" where
  "partitionList_Execute ka c params =
     and_then (attempt (kafka_optionalStringSlice params ''topics'')) (\<lambda>topics.
     and_then (attempt (OptionalInt32 ka params ''leader_id'' (- 1))) (\<lambda>leaderID.
     and_then (attempt (OptionalInt32 ka params ''replica_id'' (- 1))) (\<lambda>replicaID.
     and_then (attempt (OptionalBool params ''include_internal'' False)) (\<lambda>includeInternal.
     and_then (attempt (NormalizeLimitKafka ka params)) (\<lambda>limit.
     and_then (current_client c) (\<lambda>cl.
     and_then (kafkaClient_ListTopics ka cl topics) (\<lambda>details.
     Go (VMap (partition_listing ''partitions''
                 (collect_nested limit
                    (\<lambda>pd. \<not> (leaderID \<ge> 0 \<and> pd_Leader pd \<noteq> leaderID) \<and>
                          \<not> (replicaID \<ge> 0 \<and> \<not> containsInt32 (pd_Replicas pd) replicaID))
                    (partitions_of ka (\<lambda>td. \<not> (td_IsInternal td \<and> \<not> includeInternal)) details) [])
               @ [(''next_page_token'', VString [])])))))))))"

definition partitionOfflineList_Execute :: "'k kadm \<Rightarrow> 'k kafka_clientImpl option \<Rightarrow> gmap \<Rightarrow> gvalue outcome" where
  "partitionOfflineList_Execute ka c params =
     and_then (attempt (kafka_optionalStringSlice params ''topics'')) (\<lambda>topics.
     and_then (attempt (NormalizeLimitKafka ka params)) (\<lambda>limit.
     and_then (current_client c) (\<lambda>cl.
     and_then (kafkaClient_ListTopics ka cl topics) (\<lambda>details.
     Go (VMap (partition_listing ''offline_partitions''
       (collect_nested limit (\<lambda>pd. \<not> pd_Leader pd \<ge> 0) (partitions_of ka (\<lambda>_. True) details) [])))))))"

definition partitionUnderReplicatedList_Execute ::
  "'k kadm \<Rightarrow> 'k kafka_clientImpl option \<Rightarrow> gmap \<Rightarrow> gvalue outcome" where
  "partitionUnderReplicatedList_Execute ka c params =
     and_then (attempt (kafka_optionalStringSlice params ''topics'')) (\<lambda>topics.
     and_then (attempt (NormalizeLimitKafka ka params)) (\<lambda>limit.
     and_then (current_client c) (\<lambda>cl.
     and_then (kafkaClient_ListTopics ka cl topics) (\<lambda>details.
     Go (VMap (partition_listing ''under_replicated_partitions''
       (collect_nested limit (\<lambda>pd. \<not> length (pd_ISR pd) \<ge> length (pd_Replicas pd))
          (partitions_of ka (\<lambda>_. True) details) [])))))))"

text \<open>\<open>min.insync.replicas\<close> by topic; a value that is no number leaves an earlier one.\<close>

definition min_isr_of :: "ResourceConfig list \<Rightarrow> (gostring \<times> int) list" where
  "min_isr_of configs =
     fold (\<lambda>rc m.
             if rc_Err rc \<noteq> None then m
             else fold (\<lambda>cf m.
                          if kcf_Key cf \<noteq> ''min.insync.replicas'' then m
                          else case Atoi (kcf_MaybeValue cf) of
                                 Some n \<Rightarrow> AList.update (rc_Name rc) n m
                               | None \<Rightarrow> m) (rc_Configs rc) m)
       configs []"

text \<open>The partitions of the topics with such a value, each with it.\<close>

definition with_min_isr :: "'k kadm \<Rightarrow> (gostring \<times> int) list \<Rightarrow> TopicDetails \<Rightarrow> (PartitionDetail \<times> int) list list" where
  "with_min_isr ka minISRByTopic details =
     map (\<lambda>td. case map_of minISRByTopic (td_Topic td) of
                 None \<Rightarrow> []
               | Some minISR \<Rightarrow> map (\<lambda>pd. (pd, minISR)) (ka_PartitionsSorted ka (td_Partitions td)))
       (ka_TopicsSorted ka details)"

definition partitionUnderMinISRList_Execute ::
  "'k kadm \<Rightarrow> 'k kafka_clientImpl option \<Rightarrow> gmap \<Rightarrow> gvalue outcome" where
  "partitionUnderMinISRList_Execute ka c params =
     and_then (attempt (kafka_optionalStringSlice params ''topics'')) (\<lambda>topics.
     and_then (attempt (NormalizeLimitKafka ka params)) (\<lambda>limit.
     and_then (current_client c) (\<lambda>cl.
     and_then (kafkaClient_ListTopics ka cl topics) (\<lambda>details.
     and_then
       (let names = ka_TopicNames ka details in
        if names \<noteq> []
        then and_then (kafkaClient_DescribeTopicConfigs ka cl names) (\<lambda>configs. Go (min_isr_of configs)) else Go [])
       (\<lambda>minISRByTopic.
     let (found, truncated) =
           collect_nested limit (\<lambda>(pd, minISR). \<not> int (length (pd_ISR pd)) \<ge> minISR)
             (with_min_isr ka minISRByTopic details) []
     in Go (VMap (partition_listing ''under_min_isr_partitions'' (map fst found, truncated))))))))"

section \<open>One topic or partition\<close>

definition listed_partition :: "gostring \<Rightarrow> int \<Rightarrow> TopicDetail \<Rightarrow> PartitionDetail outcome" where
  "listed_partition topic part td =
     (case map_of (td_Partitions td) part of
        None \<Rightarrow> Stop (''partition '' @ Itoa part @ '' not found in topic '' @ topic)
      | Some pd \<Rightarrow> Go pd)"

definition partitionDescribe_Execute :: "'k kadm \<Rightarrow> 'k kafka_clientImpl option \<Rightarrow> gmap \<Rightarrow> gvalue outcome" where
  "partitionDescribe_Execute ka c params =
     and_then (attempt (RequireString params ''topic'')) (\<lambda>topic.
     and_then (attempt (RequireInt32 ka params ''partition'')) (\<lambda>partition.
     and_then (current_client c) (\<lambda>cl.
     and_then (kafkaClient_ListTopics ka cl [topic]) (\<lambda>topics.
     and_then (listed_topic topic topics) (\<lambda>td.
     and_then (listed_partition topic partition td) (\<lambda>pd.
     Go (VMap [(''partition'', partition_info_value (partitionToInfo pd))])))))))"

definition isr_entry :: "PartitionDetail \<Rightarrow> gvalue" where
  "isr_entry pd =
     VMap [(''topic'', VString (pd_Topic pd)), (''partition'', VInt32 (pd_Partition pd)),
           (''replicas'', VInt32s (pd_Replicas pd)), (''isr'', VInt32s (pd_ISR pd)),
           (''offline_replicas'', VInt32s (pd_OfflineReplicas pd)), (''leader'', VInt32 (pd_Leader pd)),
           (''leader_epoch'', VInt32 (pd_LeaderEpoch pd))]"

definition partitionISRDescribe_Execute :: "'k kadm \<Rightarrow> 'k kafka_clientImpl option \<Rightarrow> gmap \<Rightarrow> gvalue outcome" where
  "partitionISRDescribe_Execute ka c params =
     and_then (attempt (RequireString params ''topic'')) (\<lambda>topic.
     and_then (attempt (OptionalInt32Slice ka params ''partitions'')) (\<lambda>partitions.
     and_then (current_client c) (\<lambda>cl.
     and_then (kafkaClient_ListTopics ka cl [topic]) (\<lambda>details.
     and_then (listed_topic topic details) (\<lambda>td.
     Go (VMap (counted ''partitions''
       (map isr_entry
         (filter (\<lambda>pd. passes partitions (pd_Partition pd)) (ka_PartitionsSorted ka (td_Partitions td)))))))))))"

section \<open>Distributions\<close>

definition leader_entry :: "(int \<times> int) list \<Rightarrow> int \<Rightarrow> int \<Rightarrow> gvalue" where
  "leader_entry counts tot i =
     VMap [(''broker_id'', VInt32 i), (''leader_count'', VInt (count_at counts i)),
           (''percentage'', VFloat64
              (if tot > 0
               then float_div (float_mul (float64_of_int (count_at counts i)) (float64_of_int 100)) (float64_of_int tot)
               else float64_of_int 0))]"

text \<open>A broker is out of balance when it is off the mean by more than a fifth of it; \<open>0.2\<close> is a float.\<close>

definition one_fifth :: gofloat where
  "one_fifth = FFin 3602879701896397 (- 54)"

definition off_balance :: "(int \<times> int) list \<Rightarrow> gofloat \<Rightarrow> int \<Rightarrow> bool" where
  "off_balance counts expected i =
     (let d = float_sub (float64_of_int (count_at counts i)) expected;
          diff = (if float_less d (float64_of_int 0) then float_neg d else d)
      in float_less one_fifth (float_div diff expected))"

definition leaders_imbalanced :: "(int \<times> int) list \<Rightarrow> int list \<Rightarrow> int \<Rightarrow> bool" where
  "leaders_imbalanced counts ids tot \<longleftrightarrow>
     length ids > 1 \<and> tot > 0 \<and>
     list_ex (off_balance counts (float_div (float64_of_int tot) (float64_of_int (int (length ids))))) ids"

definition partitionLeaderDistribution_Execute ::
  "'k kadm \<Rightarrow> 'k kafka_clientImpl option \<Rightarrow> gmap \<Rightarrow> gvalue outcome" where
  "partitionLeaderDistribution_Execute ka c params =
     and_then (attempt (kafka_optionalStringSlice params ''topics'')) (\<lambda>topics.
     and_then (current_client c) (\<lambda>cl.
     and_then (kafkaClient_ListTopics ka cl topics) (\<lambda>details.
     let leaders = filter (\<lambda>l. \<not> l < 0) (map pd_Leader (concat (partitions_of ka (\<lambda>_. True) details)));
         leaderCounts = count_items leaders; tot = int (length leaders);
         brokerIDs = sort (map fst leaderCounts)
     in Go (VMap [(''distribution'', VList (map (leader_entry leaderCounts tot) brokerIDs)),
                  (''total_partitions'', VInt tot),
                  (''imbalance_detected'', VBool (leaders_imbalanced leaderCounts brokerIDs tot))]))))"

definition partitionReplicaDistribution_Execute ::
  "'k kadm \<Rightarrow> 'k kafka_clientImpl option \<Rightarrow> gmap \<Rightarrow> gvalue outcome" where
  "partitionReplicaDistribution_Execute ka c params =
     and_then (attempt (kafka_optionalStringSlice params ''topics'')) (\<lambda>topics.
     and_then (current_client c) (\<lambda>cl.
     and_then (kafkaClient_ListTopics ka cl topics) (\<lambda>details.
     let replicaCounts = count_items (concat (map pd_Replicas (concat (partitions_of ka (\<lambda>_. True) details)))) in
     Go (VMap [(''by_broker'',
                  VList (map (\<lambda>i. VMap [(''broker_id'', VInt32 i), (''replica_count'', VInt (count_at replicaCounts i))])
                    (sort (map fst replicaCounts)))),
               (''by_rack'', VList [])]))))"

section \<open>Offsets\<close>

definition offset_entry :: "'k kadm \<Rightarrow> gostring \<Rightarrow> ListedOffsets \<Rightarrow> ListedOffset \<Rightarrow> gvalue" where
  "offset_entry ka topic startOffsets e =
     VMap ([(''topic'', VString (lo_Topic e)), (''partition'', VInt32 (lo_Partition e)), (''latest'', VInt64 (lo_Offset e)),
            (''earliest'', VInt64 (case ka_Lookup ka startOffsets topic (lo_Partition e) of None \<Rightarrow> 0 | Some s \<Rightarrow> lo_Offset s))]
           @ (if lo_Timestamp e \<ge> 0 then [(''timestamp_ms'', VInt64 (lo_Timestamp e))] else []))"

definition partitionOffsetsGet_Execute :: "'k kadm \<Rightarrow> 'k kafka_clientImpl option \<Rightarrow> gmap \<Rightarrow> gvalue outcome" where
  "partitionOffsetsGet_Execute ka c params =
     and_then (attempt (RequireString params ''topic'')) (\<lambda>topic.
     and_then (attempt (OptionalInt32Slice ka params ''partitions'')) (\<lambda>partitions.
     and_then (attempt (OptionalString params ''timestamp'' ''latest'')) (\<lambda>timestamp.
     and_then (stop_if (timestamp \<noteq> ''earliest'' \<and> timestamp \<noteq> ''latest'')
       (parameter_must ''timestamp'' (CHR 0x27 # ''earliest'' @ [CHR 0x27] @ '' or '' @ CHR 0x27 # ''latest'' @ [CHR 0x27]))) (\<lambda>_.
     and_then (current_client c) (\<lambda>cl.
     and_then (kafkaClient_ListStartOffsets ka cl [topic]) (\<lambda>startOffsets.
     and_then (kafkaClient_ListEndOffsets ka cl [topic]) (\<lambda>endOffsets.
     let ends = (case map_of endOffsets topic of None \<Rightarrow> [] | Some es \<Rightarrow> map snd es) in
     Go (VMap (counted ''offsets''
       (map (offset_entry ka topic startOffsets)
         (sort_key lo_Partition (filter (\<lambda>e. passes partitions (lo_Partition e)) ends))))))))))))"

text \<open>The first offset of the partition in a shard without an error, or -1.\<close>

definition shard_offset :: "int \<Rightarrow> ResponseShard \<Rightarrow> int option" where
  "shard_offset part sh =
     (if sh_Err sh \<noteq> None then None
      else case sh_Topics sh of
             None \<Rightarrow> None
           | Some ts \<Rightarrow> map_of (concat ts) part)"

definition perReplicaEndOffset :: "'k kadm \<Rightarrow> 'k kafka_clientImpl \<Rightarrow> gostring \<Rightarrow> int \<Rightarrow> int \<Rightarrow> int outcome" where
  "perReplicaEndOffset ka cl topic part brokerID =
     and_then (kafkaClient_RequestSharded ka cl topic part brokerID) (\<lambda>shards.
     Go (case find (\<lambda>sh. shard_offset part sh \<noteq> None) shards of
           None \<Rightarrow> - 1
         | Some sh \<Rightarrow> the (shard_offset part sh)))"

text \<open>The loop over the replicas: the entries, the greatest lag so far and whether there was one.\<close>

definition replica_entry :: "int \<Rightarrow> int \<Rightarrow> int \<Rightarrow> int option \<Rightarrow> gvalue" where
  "replica_entry leader brokerID offset lag =
     VMap ([(''broker_id'', VInt32 brokerID), (''log_end_offset'', VInt64 offset), (''leader'', VBool (brokerID = leader))]
           @ (case lag of None \<Rightarrow> [] | Some n \<Rightarrow> [(''lag'', VInt64 n)]))"

fun compare_replicas ::
  "(int \<Rightarrow> int outcome) \<Rightarrow> int \<Rightarrow> int \<Rightarrow> int list \<Rightarrow> (int \<times> gvalue) list \<times> int \<times> bool \<Rightarrow>
     ((int \<times> gvalue) list \<times> int \<times> bool) outcome" where
  "compare_replicas end_offset hw leader [] acc = Go acc"
| "compare_replicas end_offset hw leader (b # bs) (entries, maxLag, detected) =
     and_then (end_offset b) (\<lambda>offset.
     let lag = wrap64 (hw - offset); behind = (b \<noteq> leader \<and> lag > 0) in
     compare_replicas end_offset hw leader bs
       (entries @ [(b, replica_entry leader b offset (if behind then Some lag else None))],
        (if behind \<and> lag > maxLag then lag else maxLag), detected \<or> behind))"

definition partitionOffsetsCompare_Execute ::
  "'k kadm \<Rightarrow> 'k kafka_clientImpl option \<Rightarrow> gmap \<Rightarrow> gvalue outcome" where
  "partitionOffsetsCompare_Execute ka c params =
     and_then (attempt (RequireString params ''topic'')) (\<lambda>topic.
     and_then (attempt (RequireInt32 ka params ''partition'')) (\<lambda>partition.
     and_then (current_client c) (\<lambda>cl.
     and_then (kafkaClient_ListTopics ka cl [topic]) (\<lambda>details.
     and_then (listed_topic topic details) (\<lambda>td.
     and_then (listed_partition topic partition td) (\<lambda>pd.
     and_then (kafkaClient_ListEndOffsets ka cl [topic]) (\<lambda>endOffsets.
     let hw = (case ka_Lookup ka endOffsets topic partition of None \<Rightarrow> 0 | Some e \<Rightarrow> lo_Offset e) in
     and_then (compare_replicas (perReplicaEndOffset ka cl topic partition) hw (pd_Leader pd) (pd_Replicas pd) ([], 0, False))
       (\<lambda>(entries, maxLag, detected).
     Go (VMap [(''topic'', VString topic), (''partition'', VInt32 partition),
               (''replicas'', VList (map snd (sort_key fst entries))),
               (''replica_lag_detected'', VBool detected), (''max_lag'', VInt64 maxLag)])))))))))"

end
