(* ===== verification/Kafka_Groups.thy ===== *)
theory Kafka_Groups
  imports Kafka_Topics
begin

text \<open>
  The tasks of \<open>internal/provider/kafka\<close> on consumer groups. The times that tasks report are arguments: the
  formatted time, and the time passed since the start.
\<close>

section \<open>Groups\<close>

text \<open>\<open>omitempty\<close> does not leave out a structure: every group of a listing has the zero broker as coordinator.\<close>

definition zero_broker :: BrokerInfo where
  "zero_broker = \<lparr>bi_ID = 0, bi_Host = [], bi_Port = 0, bi_Rack = [], bi_IsController = False\<rparr>"

definition group_summary :: "ListedGroup \<Rightarrow> gvalue" where
  "group_summary g =
     VMap ([(''group_id'', VString (lgr_Group g)), (''state'', VString (lgr_State g))]
           @ (if lgr_ProtocolType g = [] then [] else [(''protocol_type'', VString (lgr_ProtocolType g))])
           @ [(''coordinator'', broker_value zero_broker)])"

definition consumerGroupList_Execute :: "'k kadm \<Rightarrow> 'k kafka_clientImpl option \<Rightarrow> gmap \<Rightarrow> gvalue outcome" where
  "consumerGroupList_Execute ka c params =
     and_then (current_client c) (\<lambda>cl.
     and_then (attempt (kafka_optionalStringSlice params ''state'')) (\<lambda>states.
     and_then (attempt (OptionalString params ''pattern'' [])) (\<lambda>pattern.
     and_then (attempt (NormalizeLimitKafka ka params)) (\<lambda>limit.
     and_then (kafkaClient_ListGroups ka cl states) (\<lambda>groups.
     and_then (collect_matching limit pattern lgr_Group (\<lambda>_. False) groups []) (\<lambda>(found, truncated).
     Go (VMap (counted ''groups'' (map group_summary found) @ [(''truncated'', VBool truncated)]))))))))"

text \<open>The start of the tasks on one group: its description.\<close>

definition described_group ::
  "'k kadm \<Rightarrow> 'k kafka_clientImpl option \<Rightarrow> gmap \<Rightarrow> (gostring \<Rightarrow> DescribedGroup \<Rightarrow> 'a outcome) \<Rightarrow> 'a outcome" where
  "described_group ka c params f =
     and_then (attempt (RequireString params ''group_id'')) (\<lambda>groupID.
     and_then (current_client c) (\<lambda>cl.
     and_then (kafkaClient_DescribeGroups ka cl [groupID]) (\<lambda>described.
     and_then (attempt (ka_GroupOn ka described groupID)) (\<lambda>gr.
     case dg_Err gr of Some err \<Rightarrow> Stop err | None \<Rightarrow> f groupID gr))))"

definition member_entry :: "GroupMember \<Rightarrow> gvalue" where
  "member_entry m =
     VMap [(''member_id'', VString (gm_MemberID m)), (''client_id'', VString (gm_ClientID m)),
           (''client_host'', VString (gm_ClientHost m)),
           (''assignment'', VList (map assignment_value (fst (memberAssignments m))))]"

definition consumerGroupDescribe_Execute :: "'k kadm \<Rightarrow> 'k kafka_clientImpl option \<Rightarrow> gmap \<Rightarrow> gvalue outcome" where
  "consumerGroupDescribe_Execute ka c params =
     described_group ka c params (\<lambda>_ gr.
     Go (VMap [(''group_id'', VString (dg_Group gr)), (''state'', VString (dg_State gr)),
               (''protocol'', VString (dg_Protocol gr)), (''protocol_type'', VString (dg_ProtocolType gr)),
               (''coordinator'', broker_value (brokerDetailToInfo (dg_Coordinator gr))),
               (''members'', VList (map member_entry (dg_Members gr))),
               (''member_count'', VInt (int (length (dg_Members gr))))]))"

definition consumerGroupMembersList_Execute :: "'k kadm \<Rightarrow> 'k kafka_clientImpl option \<Rightarrow> gmap \<Rightarrow> gvalue outcome" where
  "consumerGroupMembersList_Execute ka c params =
     described_group ka c params (\<lambda>_ gr.
     Go (VMap [(''group_id'', VString (dg_Group gr)), (''members'', VList (map member_entry (dg_Members gr))),
               (''member_count'', VInt (int (length (dg_Members gr))))]))"

definition consumerGroupStateGet_Execute ::
  "'k kadm \<Rightarrow> gostring \<Rightarrow> 'k kafka_clientImpl option \<Rightarrow> gmap \<Rightarrow> gvalue outcome" where
  "consumerGroupStateGet_Execute ka now c params =
     described_group ka c params (\<lambda>_ gr.
     Go (VMap [(''group_id'', VString (dg_Group gr)), (''state'', VString (dg_State gr)),
               (''protocol'', VString (dg_Protocol gr)), (''member_count'', VInt (int (length (dg_Members gr)))),
               (''timestamp'', VString now)]))"

section \<open>Coordinators\<close>

text \<open>\<open>responses[groupID]\<close>; the nil map has no entry.\<close>

definition coordinator_of :: "gostring \<Rightarrow> coordinator_response list option \<Rightarrow> BrokerInfo outcome" where
  "coordinator_of groupID responses =
     (case find (\<lambda>r. cr_Name r = groupID) (case responses of None \<Rightarrow> [] | Some rs \<Rightarrow> rs) of
        None \<Rightarrow> Stop (''no coordinator response for group '' @ groupID)
      | Some r \<Rightarrow>
          (case cr_Err r of
             Some (err, _) \<Rightarrow> Stop err
           | None \<Rightarrow> Go \<lparr>bi_ID = cr_NodeID r, bi_Host = cr_Host r, bi_Port = cr_Port r, bi_Rack = [],
                         bi_IsController = False\<rparr>))"

definition consumerGroupCoordinatorGet_Execute ::
  "'k kadm \<Rightarrow> 'k kafka_clientImpl option \<Rightarrow> gmap \<Rightarrow> gvalue outcome" where
  "consumerGroupCoordinatorGet_Execute ka c params =
     and_then (attempt (RequireString params ''group_id'')) (\<lambda>groupID.
     and_then (current_client c) (\<lambda>cl.
     and_then (kafkaClient_FindGroupCoordinators ka cl None [groupID]) (\<lambda>responses.
     and_then (coordinator_of groupID responses) (\<lambda>coordinator.
     Go (VMap [(''group_id'', VString groupID), (''coordinator'', broker_value coordinator)])))))"

definition verified :: "gostring \<Rightarrow> BrokerInfo \<Rightarrow> bool \<Rightarrow> int \<Rightarrow> gvalue" where
  "verified groupID coordinator ok elapsed =
     VMap [(''group_id'', VString groupID), (''coordinator_reachable'', VBool True),
           (''coordinator'', broker_value coordinator), (''protocol_check'', VString ''passed''),
           (''auth_check'', VString (if ok then ''passed'' else ''failed'')), (''would_succeed'', VBool ok),
           (''elapsed_ms'', VInt64 (quot elapsed Millisecond))]"

definition consumerGroupOffsetCommitVerify_Execute ::
  "'k kadm \<Rightarrow> int \<Rightarrow> 'k kafka_clientImpl option \<Rightarrow> gmap \<Rightarrow> gvalue outcome" where
  "consumerGroupOffsetCommitVerify_Execute ka elapsed c params =
     and_then (attempt (RequireString params ''group_id'')) (\<lambda>groupID.
     and_then (attempt (OptionalInt32 ka params ''timeout_ms'' 10000)) (\<lambda>timeoutMs.
     and_then (current_client c) (\<lambda>cl.
     let deadline = Some (timeoutMs * Millisecond) in
     and_then (kafkaClient_FindGroupCoordinators ka cl deadline [groupID]) (\<lambda>responses.
     and_then (coordinator_of groupID responses) (\<lambda>coordinator.
     case kafkaClient_FetchOffsets ka cl deadline groupID of
       Panic \<Rightarrow> Panic
     | Stop _ \<Rightarrow> Go (verified groupID coordinator False elapsed)
     | Go _ \<Rightarrow> Go (verified groupID coordinator True elapsed))))))"

section \<open>Assignments\<close>

definition assigned_entry :: "GroupMember \<Rightarrow> gvalue" where
  "assigned_entry m =
     VMap [(''member_id'', VString (gm_MemberID m)), (''client_id'', VString (gm_ClientID m)),
           (''assigned_partitions'', VInt (snd (memberAssignments m))),
           (''topics'', VStrings (sort (map fst (fst (memberAssignments m)))))]"

text \<open>The standard deviation of the counts, and whether two of them differ by more than one.\<close>

definition float_mean :: "gofloat list \<Rightarrow> gofloat" where
  "float_mean fs =
     float_div (fold (\<lambda>f s. float_add s f) fs (float64_of_int 0)) (float64_of_int (int (length fs)))"

definition stddev :: "int list \<Rightarrow> gofloat" where
  "stddev counts =
     (let fs = map float64_of_int counts; mean = float_mean fs in
      float_sqrt (float_mean (map (\<lambda>f. let d = float_sub f mean in float_mul d d) fs)))"

definition uneven :: "int list \<Rightarrow> bool" where
  "uneven counts \<longleftrightarrow> fold max counts (hd counts) - fold min counts (hd counts) > 1"

definition consumerGroupAssignmentGet_Execute :: "'k kadm \<Rightarrow> 'k kafka_clientImpl option \<Rightarrow> gmap \<Rightarrow> gvalue outcome" where
  "consumerGroupAssignmentGet_Execute ka c params =
     described_group ka c params (\<lambda>_ gr.
     let counts = map (\<lambda>m. snd (memberAssignments m)) (dg_Members gr) in
     Go (VMap [(''group_id'', VString (dg_Group gr)), (''members'', VList (map assigned_entry (dg_Members gr))),
               (''imbalance_detected'', VBool (length counts > 1 \<and> uneven counts)),
               (''stddev_partitions'', VFloat64 (if length counts > 1 then stddev counts else float64_of_int 0))]))"

section \<open>Offsets and lag\<close>

definition consumerGroupOffsetsGet_Execute :: "'k kadm \<Rightarrow> 'k kafka_clientImpl option \<Rightarrow> gmap \<Rightarrow> gvalue outcome" where
  "consumerGroupOffsetsGet_Execute ka c params =
     and_then (attempt (RequireString params ''group_id'')) (\<lambda>groupID.
     and_then (attempt (kafka_optionalStringSlice params ''topics'')) (\<lambda>topics.
     and_then (current_client c) (\<lambda>cl.
     and_then (kafkaClient_FetchOffsets ka cl None groupID) (\<lambda>offsets.
     Go (VMap ((''group_id'', VString groupID) # counted ''offsets''
       (map (\<lambda>o'. VMap [(''topic'', VString (ofr_Topic o')), (''partition'', VInt32 (ofr_Partition o')),
                        (''committed_offset'', VInt64 (ofr_At o')), (''metadata'', VString (ofr_Metadata o'))])
         (filter (\<lambda>o'. passes topics (ofr_Topic o')) offsets))))))))"

definition lag_entry :: "GroupMemberLag \<Rightarrow> gvalue" where
  "lag_entry l =
     VMap [(''topic'', VString (gml_Topic l)), (''partition'', VInt32 (gml_Partition l)),
           (''committed_offset'', VInt64 (gml_CommitAt l)), (''log_end_offset'', VInt64 (gml_EndOffset l)),
           (''lag'', VInt64 (gml_Lag l))]"

record topicAgg =
  ta_totalLag :: int
  ta_partitionCount :: int
  ta_maxLag :: int
  ta_maxLagPartition :: int

definition new_agg :: topicAgg where
  "new_agg = \<lparr>ta_totalLag = 0, ta_partitionCount = 0, ta_maxLag = 0, ta_maxLagPartition = - 1\<rparr>"

definition add_lag :: "GroupMemberLag \<Rightarrow> topicAgg \<Rightarrow> topicAgg" where
  "add_lag l a =
     (let a1 = (if gml_Lag l > 0 then a\<lparr>ta_totalLag := wrap64 (ta_totalLag a + gml_Lag l)\<rparr> else a);
          a2 = a1\<lparr>ta_partitionCount := ta_partitionCount a1 + 1\<rparr>
      in if gml_Lag l > ta_maxLag a2 then a2\<lparr>ta_maxLag := gml_Lag l, ta_maxLagPartition := gml_Partition l\<rparr> else a2)"

definition by_topic :: "GroupMemberLag list \<Rightarrow> (gostring \<times> topicAgg) list" where
  "by_topic ls = grouped gml_Topic add_lag new_agg ls"

definition agg_of :: "(gostring \<times> topicAgg) list \<Rightarrow> gostring \<Rightarrow> topicAgg" where
  "agg_of m name = (case map_of m name of None \<Rightarrow> new_agg | Some a \<Rightarrow> a)"

definition lagByTopic :: "GroupMemberLag list \<Rightarrow> gmap" where
  "lagByTopic ls =
     (let m = by_topic ls in
      counted ''lag_by_topic''
        (map (\<lambda>name. let a = agg_of m name in
                VMap [(''topic'', VString name), (''total_lag'', VInt64 (ta_totalLag a)),
                      (''partition_count'', VInt (ta_partitionCount a)),
                      (''max_lag_partition'', VInt32 (ta_maxLagPartition a)), (''max_lag'', VInt64 (ta_maxLag a))])
          (sort (map fst m))))"

text \<open>The total, the maximum and the topics of a whole group.\<close>

definition group_total :: "GroupMemberLag list \<Rightarrow> int" where
  "group_total ls = fold (\<lambda>l t. if gml_Lag l > 0 then wrap64 (t + gml_Lag l) else t) ls 0"

definition group_max :: "GroupMemberLag list \<Rightarrow> int" where
  "group_max ls = fold (\<lambda>l m. if gml_Lag l > m then gml_Lag l else m) ls 0"

definition lagForGroup :: "gostring \<Rightarrow> GroupMemberLag list \<Rightarrow> gmap" where
  "lagForGroup groupID ls =
     [(''group_id'', VString groupID), (''total_lag'', VInt64 (group_total ls)),
      (''topic_count'', VInt (int (card (set (map gml_Topic ls))))), (''max_lag'', VInt64 (group_max ls))]"

definition lag_result :: "gostring \<Rightarrow> gostring \<Rightarrow> GroupMemberLag list \<Rightarrow> gmap" where
  "lag_result aggregate groupID ls =
     (if aggregate = ''topic'' then lagByTopic ls
      else if aggregate = ''group'' then lagForGroup groupID ls
      else counted ''lag'' (map lag_entry ls))"

definition consumerGroupLagGet_Execute :: "'k kadm \<Rightarrow> 'k kafka_clientImpl option \<Rightarrow> gmap \<Rightarrow> gvalue outcome" where
  "consumerGroupLagGet_Execute ka c params =
     and_then (attempt (RequireString params ''group_id'')) (\<lambda>groupID.
     and_then (attempt (kafka_optionalStringSlice params ''topics'')) (\<lambda>topics.
     and_then (attempt (OptionalString params ''aggregate'' ''none'')) (\<lambda>aggregate.
     and_then (stop_if (aggregate \<notin> {''none'', ''topic'', ''group''})
       (parameter_must ''aggregate'' ''one of: none, topic, group'')) (\<lambda>_.
     and_then (current_client c) (\<lambda>cl.
     and_then (kafkaClient_Lag ka cl [groupID]) (\<lambda>lags.
     case map_of lags groupID of
       None \<Rightarrow> Stop (''group '' @ groupID @ '' not found'')
     | Some groupLag \<Rightarrow>
         (case gl_Error groupLag of
            Some err \<Rightarrow> Stop err
          | None \<Rightarrow>
              Go (VMap (lag_result aggregate groupID
                (filter (\<lambda>l. passes topics (gml_Topic l)) (ka_LagSorted ka (gl_Lag groupLag))))))))))))"

end
