(* ===== verification/Kafka_Logdirs.thy ===== *)
theory Kafka_Logdirs
  imports Kafka_API
begin

text \<open>
  The tasks of \<open>internal/provider/kafka\<close> on log directories and the sizes in them. Where a task ranges over a
  map and appends, the order of its entries is that of the association list.
\<close>

section \<open>Filters\<close>

text \<open>An empty slice gives the nil set, which lets everything through.\<close>

definition brokerIDSet :: "int list \<Rightarrow> int list option" where
  "brokerIDSet ids = (if ids = [] then None else Some ids)"

definition topicSet :: "gostring list \<Rightarrow> gostring list option" where
  "topicSet topics = (if topics = [] then None else Some topics)"

definition brokerMatches :: "int list option \<Rightarrow> int \<Rightarrow> bool" where
  "brokerMatches bs b = (case bs of None \<Rightarrow> True | Some ids \<Rightarrow> b \<in> set ids)"

definition topicMatches :: "gostring list option \<Rightarrow> gostring \<Rightarrow> bool" where
  "topicMatches ts t = (case ts of None \<Rightarrow> True | Some names \<Rightarrow> t \<in> set names)"

definition sortedLogDirs :: "DescribedLogDir list \<Rightarrow> int list option \<Rightarrow> DescribedLogDir list" where
  "sortedLogDirs dirs brokers = filter (\<lambda>d. brokerMatches brokers (ld_Broker d)) dirs"

section \<open>Log directories\<close>

definition logdirList_Execute :: "'k kadm \<Rightarrow> 'k kafka_clientImpl option \<Rightarrow> gmap \<Rightarrow> gvalue outcome" where
  "logdirList_Execute ka c params =
     and_then (attempt (OptionalInt32Slice ka params ''broker_ids'')) (\<lambda>brokerIDs.
     and_then (current_client c) (\<lambda>cl.
     and_then (kafkaClient_DescribeAllLogDirs ka cl) (\<lambda>dirs.
     Go (VMap (counted ''logdirs''
       (map (\<lambda>d. VMap [(''broker_id'', VInt32 (ld_Broker d)), (''log_dir'', VString (ld_Dir d)),
                       (''total_size_bytes'', VInt64 (ld_Size d)), (''topic_count'', VInt (int (length (ld_Topics d))))])
         (sortedLogDirs dirs (brokerIDSet brokerIDs))))))))"

definition replica_values :: "gostring list option \<Rightarrow> DescribedLogDir \<Rightarrow> gvalue list" where
  "replica_values topics d =
     concat (map (\<lambda>(topic, ps).
       map (\<lambda>(p, info). VMap [(''topic'', VString topic), (''partition'', VInt32 p), (''size_bytes'', VInt64 (ldp_Size info)),
                              (''offset_lag'', VInt64 (ldp_OffsetLag info)), (''is_future'', VBool (ldp_IsFuture info))]) ps)
       (filter (\<lambda>(topic, ps). topicMatches topics topic) (ld_Topics d)))"

definition logdirDescribe_Execute :: "'k kadm \<Rightarrow> 'k kafka_clientImpl option \<Rightarrow> gmap \<Rightarrow> gvalue outcome" where
  "logdirDescribe_Execute ka c params =
     and_then (attempt (OptionalInt32Slice ka params ''broker_ids'')) (\<lambda>brokerIDs.
     and_then (attempt (kafka_optionalStringSlice params ''topics'')) (\<lambda>topics.
     and_then (current_client c) (\<lambda>cl.
     and_then (kafkaClient_DescribeAllLogDirs ka cl) (\<lambda>dirs.
     Go (VMap (counted ''logdirs''
       (map (\<lambda>d. VMap [(''broker_id'', VInt32 (ld_Broker d)), (''log_dir'', VString (ld_Dir d)),
                       (''replicas'', VList (replica_values (topicSet topics) d)),
                       (''error'', VString (case ld_Err d of None \<Rightarrow> [] | Some err \<Rightarrow> err))])
         (sortedLogDirs dirs (brokerIDSet brokerIDs)))))))))"

definition logdirErrorsList_Execute :: "'k kadm \<Rightarrow> 'k kafka_clientImpl option \<Rightarrow> gmap \<Rightarrow> gvalue outcome" where
  "logdirErrorsList_Execute ka c params =
     and_then (attempt (OptionalInt32Slice ka params ''broker_ids'')) (\<lambda>brokerIDs.
     and_then (current_client c) (\<lambda>cl.
     and_then (kafkaClient_DescribeAllLogDirs ka cl) (\<lambda>dirs.
     Go (VMap (counted ''errors''
       (map (\<lambda>d. VMap [(''broker_id'', VInt32 (ld_Broker d)), (''log_dir'', VString (ld_Dir d)),
                       (''error'', VString (the (ld_Err d))), (''topic'', VString []), (''partition'', VInt32 (- 1))])
         (filter (\<lambda>d. ld_Err d \<noteq> None) (sortedLogDirs dirs (brokerIDSet brokerIDs)))))))))"

definition partitionLogdirsGet_Execute :: "'k kadm \<Rightarrow> 'k kafka_clientImpl option \<Rightarrow> gmap \<Rightarrow> gvalue outcome" where
  "partitionLogdirsGet_Execute ka c params =
     and_then (attempt (OptionalString params ''topic'' [])) (\<lambda>topic.
     and_then (attempt (OptionalInt32 ka params ''partition'' (- 1))) (\<lambda>part.
     and_then (attempt (OptionalInt32Slice ka params ''broker_ids'')) (\<lambda>brokerIDs.
     and_then (current_client c) (\<lambda>cl.
     and_then (kafkaClient_DescribeAllLogDirs ka cl) (\<lambda>dirs.
     Go (VMap (counted ''logdirs''
       (concat (map (\<lambda>d.
          concat (map (\<lambda>(t, ps).
            map (\<lambda>(p, info). VMap [(''broker_id'', VInt32 (ld_Broker d)), (''log_dir'', VString (ld_Dir d)),
                                   (''topic'', VString t), (''partition'', VInt32 p), (''size_bytes'', VInt64 (ldp_Size info)),
                                   (''offset_lag'', VInt64 (ldp_OffsetLag info)), (''is_future'', VBool (ldp_IsFuture info))])
              (filter (\<lambda>(p, info). \<not> (part \<ge> 0 \<and> p \<noteq> part)) ps))
            (filter (\<lambda>(t, ps). \<not> (topic \<noteq> [] \<and> t \<noteq> topic)) (ld_Topics d))))
          (sortedLogDirs dirs (brokerIDSet brokerIDs)))))))))))"

section \<open>Sizes of replicas\<close>

text \<open>A replica in a directory, in the order in which the task visits them: by topic, then by partition.\<close>

record replica_size =
  rs_Broker :: int
  rs_Dir :: gostring
  rs_Topic :: gostring
  rs_Partition :: int
  rs_Size :: int

definition dir_replicas :: "gostring list option \<Rightarrow> DescribedLogDir \<Rightarrow> replica_size list list" where
  "dir_replicas topics d =
     map (\<lambda>(topic, ps).
       map (\<lambda>(p, info). \<lparr>rs_Broker = ld_Broker d, rs_Dir = ld_Dir d, rs_Topic = topic, rs_Partition = p,
                          rs_Size = ldp_Size info\<rparr>) (sort_key fst ps))
       (filter (\<lambda>(topic, ps). topicMatches topics topic) (sort_key fst (ld_Topics d)))"

definition total_size :: "replica_size list \<Rightarrow> int" where
  "total_size rs = fold (\<lambda>r t. wrap64 (t + rs_Size r)) rs 0"

definition logdirReplicaSizes_Execute :: "'k kadm \<Rightarrow> 'k kafka_clientImpl option \<Rightarrow> gmap \<Rightarrow> gvalue outcome" where
  "logdirReplicaSizes_Execute ka c params =
     and_then (attempt (OptionalInt32Slice ka params ''broker_ids'')) (\<lambda>brokerIDs.
     and_then (attempt (kafka_optionalStringSlice params ''topics'')) (\<lambda>topics.
     and_then (attempt (NormalizeLimitKafka ka params)) (\<lambda>limit.
     and_then (current_client c) (\<lambda>cl.
     and_then (kafkaClient_DescribeAllLogDirs ka cl) (\<lambda>dirs.
     let (rs, truncated) =
           collect_nested limit (\<lambda>_. True)
             (concat (map (dir_replicas (topicSet topics)) (sortedLogDirs dirs (brokerIDSet brokerIDs)))) []
     in Go (VMap (counted ''replicas''
              (map (\<lambda>r. VMap [(''broker_id'', VInt32 (rs_Broker r)), (''log_dir'', VString (rs_Dir r)),
                              (''topic'', VString (rs_Topic r)), (''partition'', VInt32 (rs_Partition r)),
                              (''size_bytes'', VInt64 (rs_Size r))]) rs)
            @ [(''total_size_bytes'', VInt64 (total_size rs)), (''truncated'', VBool truncated)])))))))"

section \<open>Sizes of topics\<close>

record sizeAgg =
  sa_totalSize :: int
  sa_byBroker :: "(int \<times> int) list"
  sa_partitions :: int

definition add_replica :: "replica_size \<Rightarrow> sizeAgg \<Rightarrow> sizeAgg" where
  "add_replica r a =
     \<lparr>sa_totalSize = wrap64 (sa_totalSize a + rs_Size r),
      sa_byBroker =
        AList.update (rs_Broker r)
          (wrap64 ((case map_of (sa_byBroker a) (rs_Broker r) of None \<Rightarrow> 0 | Some n \<Rightarrow> n) + rs_Size r)) (sa_byBroker a),
      sa_partitions = sa_partitions a + 1\<rparr>"

definition no_size :: sizeAgg where
  "no_size = \<lparr>sa_totalSize = 0, sa_byBroker = [], sa_partitions = 0\<rparr>"

definition topic_sizes :: "replica_size list \<Rightarrow> (gostring \<times> sizeAgg) list" where
  "topic_sizes rs = grouped rs_Topic add_replica no_size rs"

text \<open>The replicas of a directory in the order of its maps.\<close>

definition visited_replicas :: "gostring list option \<Rightarrow> DescribedLogDir \<Rightarrow> replica_size list" where
  "visited_replicas topics d =
     concat (map (\<lambda>(topic, ps).
       map (\<lambda>(p, info). \<lparr>rs_Broker = ld_Broker d, rs_Dir = ld_Dir d, rs_Topic = topic, rs_Partition = p,
                          rs_Size = ldp_Size info\<rparr>) ps)
       (filter (\<lambda>(topic, ps). topicMatches topics topic) (ld_Topics d)))"

definition size_entry :: "gostring \<Rightarrow> sizeAgg \<Rightarrow> gvalue" where
  "size_entry name a =
     VMap [(''topic'', VString name), (''total_size_bytes'', VInt64 (sa_totalSize a)),
           (''by_broker'', VList (map (\<lambda>(i, n). VMap [(''broker_id'', VInt32 i), (''size_bytes'', VInt64 n)])
              (sort_key fst (sa_byBroker a)))),
           (''partition_count'', VInt (sa_partitions a))]"

definition storageTopicSizes_Execute :: "'k kadm \<Rightarrow> 'k kafka_clientImpl option \<Rightarrow> gmap \<Rightarrow> gvalue outcome" where
  "storageTopicSizes_Execute ka c params =
     and_then (attempt (kafka_optionalStringSlice params ''topics'')) (\<lambda>topics.
     and_then (attempt (OptionalInt32Slice ka params ''broker_ids'')) (\<lambda>brokerIDs.
     and_then (current_client c) (\<lambda>cl.
     and_then (kafkaClient_DescribeAllLogDirs ka cl) (\<lambda>dirs.
     Go (VMap (counted ''topic_sizes''
       (map (\<lambda>(name, a). size_entry name a)
         (sort_key fst (topic_sizes
           (concat (map (visited_replicas (topicSet topics)) (sortedLogDirs dirs (brokerIDSet brokerIDs)))))))))))))"

end
