(* ===== verification/Kafka_Safety.thy ===== *)
theory Kafka_Safety
  imports Kafka_Cluster Kafka_Groups Kafka_Logdirs Kafka_Disk Managed_Provider
begin

text \<open>
  The tasks of the Kafka provider together: they answer as long as the client could be made, and the values of
  sensitive configurations do not show in what they answer.
\<close>

section \<open>The tasks by name\<close>

text \<open>A task gets the library, the formatted time, the time it takes, the client and the parameters.\<close>

type_synonym 'k kafka_body = "'k kadm \<Rightarrow> gostring \<Rightarrow> int \<Rightarrow> 'k kafka_clientImpl option \<Rightarrow> gmap \<Rightarrow> gvalue outcome"

definition kafka_bodies :: "(gostring \<times> 'k kafka_body) list" where
  "kafka_bodies =
     [(''kafka.cluster.describe'', \<lambda>ka _ _ c _. clusterDescribe_Execute ka c),
      (''kafka.broker.list'', \<lambda>ka _ _ c _. brokerList_Execute ka c),
      (''kafka.broker.describe'', \<lambda>ka _ _. brokerDescribe_Execute ka),
      (''kafka.broker.config.get'', \<lambda>ka _ _. brokerConfigGet_Execute ka),
      (''kafka.broker.config.diff'', \<lambda>ka _ _. brokerConfigDiff_Execute ka),
      (''kafka.cluster.config.get'', \<lambda>ka _ _. clusterConfigGet_Execute ka),
      (''kafka.cluster.features.get'', \<lambda>ka _ _ c _. clusterFeaturesGet_Execute ka c),
      (''kafka.cluster.api_versions.get'', \<lambda>ka _ _. clusterApiVersionsGet_Execute ka),
      (''kafka.cluster.metadata.get'', \<lambda>ka _ _. clusterMetadataGet_Execute ka),
      (''kafka.logdir.list'', \<lambda>ka _ _. logdirList_Execute ka),
      (''kafka.logdir.describe'', \<lambda>ka _ _. logdirDescribe_Execute ka),
      (''kafka.logdir.replica_sizes.get'', \<lambda>ka _ _. logdirReplicaSizes_Execute ka),
      (''kafka.logdir.errors.list'', \<lambda>ka _ _. logdirErrorsList_Execute ka),
      (''kafka.storage.topic_sizes.get'', \<lambda>ka _ _. storageTopicSizes_Execute ka),
      (''kafka.consumer_group.list'', \<lambda>ka _ _. consumerGroupList_Execute ka),
      (''kafka.consumer_group.describe'', \<lambda>ka _ _. consumerGroupDescribe_Execute ka),
      (''kafka.consumer_group.members.list'', \<lambda>ka _ _. consumerGroupMembersList_Execute ka),
      (''kafka.consumer_group.offsets.get'', \<lambda>ka _ _. consumerGroupOffsetsGet_Execute ka),
      (''kafka.consumer_group.lag.get'', \<lambda>ka _ _. consumerGroupLagGet_Execute ka),
      (''kafka.consumer_group.coordinator.get'', \<lambda>ka _ _. consumerGroupCoordinatorGet_Execute ka),
      (''kafka.consumer_group.state.get'', \<lambda>ka now _. consumerGroupStateGet_Execute ka now),
      (''kafka.consumer_group.assignment.get'', \<lambda>ka _ _. consumerGroupAssignmentGet_Execute ka),
      (''kafka.consumer_group.offset_commit.verify'', \<lambda>ka _ elapsed. consumerGroupOffsetCommitVerify_Execute ka elapsed),
      (''kafka.topic.list'', \<lambda>ka _ _. topicList_Execute ka),
      (''kafka.topic.describe'', \<lambda>ka _ _. topicDescribe_Execute ka),
      (''kafka.topic.config.get'', \<lambda>ka _ _. topicConfigGet_Execute ka),
      (''kafka.topic.config.diff'', \<lambda>ka _ _. topicConfigDiff_Execute ka),
      (''kafka.partition.describe'', \<lambda>ka _ _. partitionDescribe_Execute ka),
      (''kafka.partition.list'', \<lambda>ka _ _. partitionList_Execute ka),
      (''kafka.partition.offline.list'', \<lambda>ka _ _. partitionOfflineList_Execute ka),
      (''kafka.partition.under_replicated.list'', \<lambda>ka _ _. partitionUnderReplicatedList_Execute ka),
      (''kafka.partition.under_min_isr.list'', \<lambda>ka _ _. partitionUnderMinISRList_Execute ka),
      (''kafka.partition.isr.describe'', \<lambda>ka _ _. partitionISRDescribe_Execute ka),
      (''kafka.partition.leader_distribution.get'', \<lambda>ka _ _. partitionLeaderDistribution_Execute ka),
      (''kafka.partition.replica_distribution.get'', \<lambda>ka _ _. partitionReplicaDistribution_Execute ka),
      (''kafka.partition.logdirs.get'', \<lambda>ka _ _. partitionLogdirsGet_Execute ka),
      (''kafka.partition.offsets.get'', \<lambda>ka _ _. partitionOffsetsGet_Execute ka),
      (''kafka.partition.offsets.compare'', \<lambda>ka _ _. partitionOffsetsCompare_Execute ka)]"

lemma kafka_bodies_tasks: "map fst kafka_bodies = Kafka_tasks"
  by (simp add: kafka_bodies_def Kafka_tasks_def)

definition kafka_task :: "gostring \<Rightarrow> 'k kafka_body" where
  "kafka_task name = the (map_of kafka_bodies name)"

definition Kafka_Execute ::
  "'k kadm \<Rightarrow> gostring \<Rightarrow> int \<Rightarrow> int \<Rightarrow> ('k, 'k kafka_body) KafkaProvider \<Rightarrow> 'k kafka_body \<Rightarrow> gmap \<Rightarrow> task_Result option" where
  "Kafka_Execute ka formatted elapsed now p body params =
     run_task now (body ka formatted elapsed (CurrentClient p) params)"

section \<open>Answers\<close>

text \<open>The calls of the library return, with a value or an error, when there is a connection.\<close>

definition returns :: "('k, 'a) kadm_call \<Rightarrow> bool" where
  "returns call \<longleftrightarrow> (\<forall>deadline k. call deadline (Some k) \<noteq> Panic)"

definition calls_return :: "'k kadm \<Rightarrow> bool" where
  "calls_return ka \<longleftrightarrow>
     (\<forall>ts. returns (ka_Metadata ka ts)) \<and> returns (ka_ApiVersionsSorted ka) \<and> returns (ka_ListBrokers ka) \<and>
     (\<forall>bs. returns (ka_DescribeBrokerConfigs ka bs)) \<and> returns (ka_ApiVersionsRequest ka) \<and>
     (\<forall>ts. returns (ka_ListTopics ka ts)) \<and> (\<forall>ts. returns (ka_DescribeTopicConfigs ka ts)) \<and>
     returns (ka_DescribeAllLogDirsSorted ka) \<and> (\<forall>ss. returns (ka_ListGroupsSorted ka ss)) \<and>
     (\<forall>gs. returns (ka_DescribeGroups ka gs)) \<and> (\<forall>gr. returns (ka_FetchOffsetsSorted ka gr)) \<and>
     (\<forall>gs. returns (ka_Lag ka gs)) \<and> (\<forall>gs. returns (ka_Coordinators ka gs)) \<and>
     (\<forall>ts. returns (ka_ListStartOffsets ka ts)) \<and> (\<forall>ts. returns (ka_ListEndOffsets ka ts)) \<and>
     (\<forall>t p b. returns (ka_ListOffsetsSharded ka t p b))"

definition has_connection :: "'k kafka_clientImpl \<Rightarrow> bool" where
  "has_connection c \<longleftrightarrow> kc_kgoClient c \<noteq> None \<and> kc_admClient c \<noteq> None"

lemmas kafka_call_defs =
  kafkaClient_Metadata_def kafkaClient_ApiVersions_def kafkaClient_ListBrokers_def kafkaClient_DescribeBrokerConfigs_def
  kafkaClient_Request_def kafkaClient_ListTopics_def kafkaClient_DescribeTopicConfigs_def kafkaClient_DescribeAllLogDirs_def
  kafkaClient_ListGroups_def kafkaClient_DescribeGroups_def kafkaClient_FetchOffsets_def kafkaClient_Lag_def
  kafkaClient_ListEndOffsets_def kafkaClient_ListStartOffsets_def kafkaClient_RequestSharded_def within_policy_def

lemmas kafka_task_defs =
  clusterDescribe_Execute_def clusterMetadataGet_Execute_def clusterFeaturesGet_Execute_def
  clusterApiVersionsGet_Execute_def brokerList_Execute_def brokerDescribe_Execute_def clusterConfigGet_Execute_def
  brokerConfigGet_Execute_def topicConfigGet_Execute_def brokerConfigDiff_Execute_def topicConfigDiff_Execute_def
  topicList_Execute_def topicDescribe_Execute_def partitionList_Execute_def partitionOfflineList_Execute_def
  partitionUnderReplicatedList_Execute_def partitionUnderMinISRList_Execute_def partitionDescribe_Execute_def
  partitionISRDescribe_Execute_def partitionLeaderDistribution_Execute_def partitionReplicaDistribution_Execute_def
  partitionOffsetsGet_Execute_def partitionOffsetsCompare_Execute_def consumerGroupList_Execute_def
  described_group_def consumerGroupDescribe_Execute_def consumerGroupMembersList_Execute_def
  consumerGroupStateGet_Execute_def consumerGroupCoordinatorGet_Execute_def
  consumerGroupOffsetCommitVerify_Execute_def consumerGroupAssignmentGet_Execute_def
  consumerGroupOffsetsGet_Execute_def consumerGroupLagGet_Execute_def logdirList_Execute_def
  logdirDescribe_Execute_def logdirErrorsList_Execute_def partitionLogdirsGet_Execute_def
  logdirReplicaSizes_Execute_def storageTopicSizes_Execute_def

lemma connected_calls:
  assumes "calls_return ka" "has_connection c"
  shows "kafkaClient_Metadata ka c ts \<noteq> Panic" "kafkaClient_ApiVersions ka c \<noteq> Panic" "kafkaClient_ListBrokers ka c \<noteq> Panic"
    "kafkaClient_DescribeBrokerConfigs ka c bs \<noteq> Panic" "kafkaClient_Request ka c \<noteq> Panic"
    "kafkaClient_ListTopics ka c ts \<noteq> Panic" "kafkaClient_DescribeTopicConfigs ka c ts \<noteq> Panic"
    "kafkaClient_DescribeAllLogDirs ka c \<noteq> Panic" "kafkaClient_ListGroups ka c ts \<noteq> Panic"
    "kafkaClient_DescribeGroups ka c ts \<noteq> Panic" "kafkaClient_FetchOffsets ka c dl t \<noteq> Panic"
    "kafkaClient_Lag ka c ts \<noteq> Panic" "kafkaClient_FindGroupCoordinators ka c dl ts \<noteq> Panic"
    "kafkaClient_ListEndOffsets ka c ts \<noteq> Panic" "kafkaClient_ListStartOffsets ka c ts \<noteq> Panic"
    "kafkaClient_RequestSharded ka c t p b \<noteq> Panic"
  using assms
  by (auto simp: has_connection_def kafka_call_defs calls_return_def returns_def kafkaClient_FindGroupCoordinators_def
      and_then_Panic Let_def)

lemma current_client_Some [simp]: "current_client (Some c) = Go c"
  by (simp add: current_client_def)

lemma best_effort_Panic [simp]: "best_effort m d f = Panic \<longleftrightarrow> m = Panic"
  by (cases m) (simp_all add: best_effort_def)

lemma config_entries_Panic [simp]: "config_entries ka keep rcs acc \<noteq> Panic"
  by (induction rcs arbitrary: acc) (auto split: option.split)

lemma name_matches_Panic [simp]: "name_matches pattern name \<noteq> Panic"
  by (simp add: name_matches_def split: sum.split)

lemma collect_matching_Panic [simp]: "collect_matching limit pattern name skip xs acc \<noteq> Panic"
  by (induction xs arbitrary: acc) (auto simp: and_then_Panic)

lemma listed_topic_Panic [simp]: "listed_topic topic topics \<noteq> Panic"
  by (simp add: listed_topic_def split: option.split)

lemma listed_partition_Panic [simp]: "listed_partition topic part td \<noteq> Panic"
  by (simp add: listed_partition_def split: option.split)

lemma coordinator_of_Panic [simp]: "coordinator_of gr rs \<noteq> Panic"
  by (simp add: coordinator_of_def split: option.split prod.split)

lemma compare_replicas_Panic: "(\<And>b. f b \<noteq> Panic) \<Longrightarrow> compare_replicas f hw leader bs acc \<noteq> Panic"
  by (induction bs arbitrary: acc) (auto simp: and_then_Panic Let_def split: prod.split)

lemma perReplicaEndOffset_Panic:
  "calls_return ka \<Longrightarrow> has_connection c \<Longrightarrow> perReplicaEndOffset ka c t p b \<noteq> Panic"
  by (simp add: perReplicaEndOffset_def and_then_Panic connected_calls)

lemma connected_not_Panic:
  assumes "calls_return ka" "has_connection c"
  shows "list_all (\<lambda>(name, body). body ka formatted elapsed (Some c) params \<noteq> Panic) kafka_bodies"
proof -
  note calls = connected_calls [OF assms] compare_replicas_Panic [OF perReplicaEndOffset_Panic [OF assms]]
  show ?thesis
    unfolding kafka_bodies_def list.pred_inject prod.case
    by (intro conjI)
      (auto simp: kafka_task_defs and_then_Panic calls Let_def case_prod_beta
        split: kmsg_Response.splits option.splits outcome.splits)
qed

lemma newKafkaClient_connected: "kc_initErr (fst (newKafkaClient env cfg dirs)) = None \<Longrightarrow> has_connection (fst (newKafkaClient env cfg dirs))"
  by (auto simp: newKafkaClient_def has_connection_def Let_def split: sum.splits prod.splits option.splits if_splits)

text \<open>The provider always has a client, so its pointer is never nil.\<close>

lemma kafka_reachable_client:
  assumes "kafka_reachable oor env dirs schema mk cfg w"
  shows "(\<exists>cfg' ds. CurrentClient (kw_provider w) = Some (fst (newKafkaClient env cfg' ds))) \<and>
    pv_base (kw_provider w) = pv_base (Kafka_NewProvider env dirs schema mk cfg)"
  using assms
proof (induction rule: kafka_reachable.induct)
  case start
  then show ?case
    by (auto simp: kafka_start_def Kafka_NewProvider_def CurrentClient_def State_Client_def NewState_def)
next
  case (update w n raw)
  then show ?case
    by (auto simp: kafka_update_def CurrentClient_def State_Client_def kafka_UpdateConfig_state kafka.base_update Let_def)
next
  case (drain w)
  then show ?case
    by (auto simp: kafka_drain_def drainPendingClose_def CurrentClient_def State_Client_def Let_def)
qed

lemma kafka_GetTask:
  assumes "kafka_reachable oor env dirs schema (kafka_task :: gostring \<Rightarrow> 'k kafka_body) cfg w"
    and "Provider_GetTask (kw_provider w) name = Some body"
  shows "(name, body) \<in> set kafka_bodies"
proof -
  from assms(2) kafka_reachable_client [OF assms(1)] have n: "name \<in> set Kafka_tasks" and b: "body = kafka_task name"
    by (auto simp: Provider_GetTask_def Kafka_NewProvider_def task_base_def map_of_task_map split: if_splits)
  have "Kafka_tasks = map fst (kafka_bodies :: (gostring \<times> 'k kafka_body) list)" by (simp add: kafka_bodies_tasks)
  with n have "name \<in> fst ` set (kafka_bodies :: (gostring \<times> 'k kafka_body) list)" by (metis list.set_map)
  then obtain body' :: "'k kafka_body" where "map_of kafka_bodies name = Some body'"
    by (metis not_Some_eq map_of_eq_None_iff)
  with b show ?thesis by (simp add: kafka_task_def map_of_SomeD)
qed


text \<open>A cluster with two brokers; the password of one is sensitive.\<close>

definition sample_broker_configs :: "ResourceConfig list" where
  "sample_broker_configs =
     [\<lparr>rc_Name = ''1'', rc_Configs =
         [\<lparr>kcf_Key = ''log.retention.hours'', kcf_MaybeValue = ''168'', kcf_Source = 5, kcf_Sensitive = False\<rparr>,
          \<lparr>kcf_Key = ''ssl.keystore.password'', kcf_MaybeValue = ''hunter2'', kcf_Source = 4, kcf_Sensitive = True\<rparr>],
       rc_Err = None\<rparr>,
      \<lparr>rc_Name = ''2'', rc_Configs =
         [\<lparr>kcf_Key = ''log.retention.hours'', kcf_MaybeValue = ''24'', kcf_Source = 2, kcf_Sensitive = False\<rparr>],
       rc_Err = None\<rparr>]"

definition sample_kadm :: "unit kadm" where
  "sample_kadm =
     \<lparr>ka_Metadata = (\<lambda>_ _ k. if k = None then Panic else Stop ''no metadata''),
      ka_ApiVersionsSorted = (\<lambda>_ _. Stop ''no versions''), ka_ListBrokers = (\<lambda>_ _. Go []),
      ka_DescribeBrokerConfigs = (\<lambda>_ _ _. Go sample_broker_configs), ka_ApiVersionsRequest = (\<lambda>_ _. Stop ''no versions''),
      ka_ListTopics = (\<lambda>_ _ _. Go []), ka_DescribeTopicConfigs = (\<lambda>_ _ _. Go []),
      ka_DescribeAllLogDirsSorted = (\<lambda>_ _. Go []), ka_ListGroupsSorted = (\<lambda>_ _ _. Go []),
      ka_DescribeGroups = (\<lambda>_ _ _. Go []), ka_FetchOffsetsSorted = (\<lambda>_ _ _. Go []), ka_Lag = (\<lambda>_ _ _. Go []),
      ka_Coordinators = (\<lambda>_ _ _. Go (\<lambda>_. [])), ka_Expired = (\<lambda>_ _. False),
      ka_ListStartOffsets = (\<lambda>_ _ _. Go []), ka_ListEndOffsets = (\<lambda>_ _ _. Go []),
      ka_ListOffsetsSharded = (\<lambda>_ _ _ _ _. Go []), ka_TopicsSorted = map snd, ka_TopicNames = map fst,
      ka_PartitionsSorted = map snd, ka_NumReplicas = (\<lambda>_. 0), ka_NodeIDs = map bd_NodeID,
      ka_ConfigOn = (\<lambda>rcs name. case find (\<lambda>rc. rc_Name rc = name) rcs of None \<Rightarrow> Inl ''none'' | Some rc \<Rightarrow> Inr rc),
      ka_GroupOn = (\<lambda>gs name. case map_of gs name of None \<Rightarrow> Inl ''none'' | Some gr \<Rightarrow> Inr gr),
      ka_LagSorted = (\<lambda>ls. ls), ka_Lookup = (\<lambda>_ _ _. None), ka_SourceString = (\<lambda>_. ''DYNAMIC_BROKER_CONFIG''),
      ka_DefaultConfig = 5, ka_NameForKey = (\<lambda>_. ''Produce''), ka_ErrorForCode = (\<lambda>_. None), ka_oor = amd64_oor,
      ka_oor32 = amd64_oor\<rparr>"

lemma sample_calls_return: "calls_return sample_kadm"
  by (simp add: calls_return_def returns_def sample_kadm_def)

definition sample_kafka_world :: "(unit, unit kafka_body) kafka_world" where
  "sample_kafka_world = kafka_start sample_kafka_env [] (\<lambda>_. []) kafka_task zero_KafkaConfig"

lemma sample_kafka_world_reachable:
  "kafka_reachable amd64_oor sample_kafka_env [] (\<lambda>_. []) kafka_task zero_KafkaConfig sample_kafka_world"
  unfolding sample_kafka_world_def by (rule kafka_reachable.start)

lemma sample_kafka_client:
  "CurrentClient (kw_provider sample_kafka_world) =
     Some \<lparr>kc_kgoClient = Some (), kc_admClient = Some (), kc_guardrails = kafka_DefaultGuardrailPolicy,
           kc_initErr = None, kc_config = zero_KafkaConfig, kc_tempPaths = []\<rparr>"
proof -
  have "fst (newKafkaClient sample_kafka_env zero_KafkaConfig []) =
      \<lparr>kc_kgoClient = Some (), kc_admClient = Some (), kc_guardrails = kafka_DefaultGuardrailPolicy,
       kc_initErr = None, kc_config = zero_KafkaConfig, kc_tempPaths = []\<rparr>"
    by code_simp
  then show ?thesis
    by (simp add: sample_kafka_world_def kafka_start_def Kafka_NewProvider_def CurrentClient_def State_Client_def
        NewState_def)
qed


text \<open>When the client could not be made nobody looks at the error: a task gives the nil client to the library.\<close>

lemma failed_client_panics:
  "Kafka_Execute sample_kadm ''2026-01-01T00:00:00Z'' 0 0
     (kw_provider (kafka_update amd64_oor sample_kafka_env ''kafka.topic.list'' gssapi_update
        (kafka_start sample_kafka_env [''/tmp/x''] (\<lambda>_. []) kafka_task zero_KafkaConfig)))
     (kafka_task ''kafka.cluster.describe'') [] = None"
proof -
  let ?start = "kafka_start sample_kafka_env [''/tmp/x''] (\<lambda>_. []) (kafka_task :: gostring \<Rightarrow> unit kafka_body) zero_KafkaConfig"
  let ?w = "kafka_update amd64_oor sample_kafka_env ''kafka.topic.list'' gssapi_update ?start"
  have "snd (newKafkaClient sample_kafka_env zero_KafkaConfig [''/tmp/x'']) = [''/tmp/x'']" by code_simp
  then have "kw_dirs ?start = [''/tmp/x'']" by (simp add: kafka_start_def)
  moreover have "st_config (pv_state (kw_provider ?start)) = zero_KafkaConfig"
    by (simp add: kafka_start_def Kafka_NewProvider_def NewState_def)
  moreover have "parseKafkaConfig amd64_oor zero_KafkaConfig gssapi_update \<noteq> zero_KafkaConfig" by code_simp
  ultimately have "\<exists>c. CurrentClient (kw_provider ?w) = Some c \<and> kc_admClient c = None"
    by (simp add: kafka_update_def CurrentClient_def kafka_UpdateConfig_state State_Client_def sample_new Let_def)
  then obtain c where "CurrentClient (kw_provider ?w) = Some c" "kc_admClient c = None" by blast
  then show ?thesis
    by (simp add: Kafka_Execute_def kafka_task_def kafka_bodies_def clusterDescribe_Execute_def kafkaClient_Metadata_def
        within_policy_def sample_kadm_def)
qed

section \<open>Secrets\<close>

text \<open>The library with the values of sensitive configurations blanked before the tasks see them.\<close>

definition blank_config :: "kadm_Config \<Rightarrow> kadm_Config" where
  "blank_config cf = (if kcf_Sensitive cf then cf\<lparr>kcf_MaybeValue := []\<rparr> else cf)"

definition blank_resource :: "ResourceConfig \<Rightarrow> ResourceConfig" where
  "blank_resource rc = rc\<lparr>rc_Configs := map blank_config (rc_Configs rc)\<rparr>"

definition blank_call :: "('k, ResourceConfig list) kadm_call \<Rightarrow> ('k, ResourceConfig list) kadm_call" where
  "blank_call call deadline k = and_then (call deadline k) (\<lambda>rcs. Go (map blank_resource rcs))"

definition censored :: "'k kadm \<Rightarrow> 'k kadm" where
  "censored ka =
     ka\<lparr>ka_DescribeBrokerConfigs := \<lambda>bs. blank_call (ka_DescribeBrokerConfigs ka bs),
        ka_DescribeTopicConfigs := \<lambda>ts. blank_call (ka_DescribeTopicConfigs ka ts)\<rparr>"

text \<open>\<open>ResourceConfigs.On\<close> selects by the name and does not look into the values.\<close>

definition selects_by_name :: "'k kadm \<Rightarrow> bool" where
  "selects_by_name ka \<longleftrightarrow>
     (\<forall>rcs name. ka_ConfigOn ka (map blank_resource rcs) name = map_sum id blank_resource (ka_ConfigOn ka rcs name))"

lemma blank_config_simps [simp]:
  "kcf_Key (blank_config cf) = kcf_Key cf" "kcf_Source (blank_config cf) = kcf_Source cf"
  "configToEntry ka (blank_config cf) = configToEntry ka cf"
  by (simp_all add: blank_config_def configToEntry_def)

lemma blank_resource_simps [simp]:
  "rc_Name (blank_resource rc) = rc_Name rc" "rc_Err (blank_resource rc) = rc_Err rc"
  "rc_Configs (blank_resource rc) = map blank_config (rc_Configs rc)"
  by (simp_all add: blank_resource_def)

lemma censored_frame:
  "configToEntry (censored ka) = configToEntry ka" "ka_SourceString (censored ka) = ka_SourceString ka"
  "ka_DefaultConfig (censored ka) = ka_DefaultConfig ka" "ka_ConfigOn (censored ka) = ka_ConfigOn ka"
  "ka_NodeIDs (censored ka) = ka_NodeIDs ka" "RequireInt32 (censored ka) = RequireInt32 ka"
  "OptionalInt32Slice (censored ka) = OptionalInt32Slice ka" "kafkaClient_ListBrokers (censored ka) = kafkaClient_ListBrokers ka"
proof -
  have oor: "ka_oor (censored ka) = ka_oor ka" "ka_oor32 (censored ka) = ka_oor32 ka"
    by (simp_all add: censored_def)
  then have i32: "int32_of_float (censored ka) = int32_of_float ka"
    by (simp add: fun_eq_iff int32_of_float_def Let_def split: gofloat.split)
  have conv: "as_int32 (censored ka) = as_int32 ka"
    unfolding fun_eq_iff as_int32_def oor i32 by simp
  have "int32_items (censored ka) key vs = int32_items ka key vs" for key vs
    by (induction vs) (simp_all add: conv cong: sum.case_cong)
  then have items: "int32_items (censored ka) = int32_items ka" by (simp add: fun_eq_iff)
  show "configToEntry (censored ka) = configToEntry ka" "ka_SourceString (censored ka) = ka_SourceString ka"
    "ka_DefaultConfig (censored ka) = ka_DefaultConfig ka" "ka_ConfigOn (censored ka) = ka_ConfigOn ka"
    "ka_NodeIDs (censored ka) = ka_NodeIDs ka" "kafkaClient_ListBrokers (censored ka) = kafkaClient_ListBrokers ka"
    by (simp_all add: fun_eq_iff configToEntry_def kafkaClient_ListBrokers_def within_policy_def censored_def)
  show "RequireInt32 (censored ka) = RequireInt32 ka" "OptionalInt32Slice (censored ka) = OptionalInt32Slice ka"
    unfolding fun_eq_iff RequireInt32_def OptionalInt32Slice_def conv items by simp_all
qed

lemma censored_calls:
  "kafkaClient_DescribeBrokerConfigs (censored ka) c bs =
     and_then (kafkaClient_DescribeBrokerConfigs ka c bs) (\<lambda>rcs. Go (map blank_resource rcs))"
  "kafkaClient_DescribeTopicConfigs (censored ka) c ts =
     and_then (kafkaClient_DescribeTopicConfigs ka c ts) (\<lambda>rcs. Go (map blank_resource rcs))"
  by (simp_all add: kafkaClient_DescribeBrokerConfigs_def kafkaClient_DescribeTopicConfigs_def within_policy_def censored_def
      blank_call_def)

lemma attempt_map_sum: "and_then (attempt (map_sum id f r)) g = and_then (attempt r) (\<lambda>x. g (f x))"
  by (cases r) simp_all

lemma filter_blank:
  "(\<And>cf. keep (blank_config cf) = keep cf) \<Longrightarrow> filter keep (map blank_config cfs) = map blank_config (filter keep cfs)"
  by (induction cfs) auto

lemma config_entries_blank:
  assumes "\<And>cf. keep (blank_config cf) = keep cf"
  shows "config_entries (censored ka) keep (map blank_resource rcs) acc = config_entries ka keep rcs acc"
  by (induction rcs arbitrary: acc)
    (auto simp: filter_blank [where keep = keep, OF assms] censored_frame comp_def split: option.split)

lemma config_values_blank:
  "config_values read (censored ka) ks (map blank_resource rcs) m = config_values read ka ks rcs m"
  by (induction rcs arbitrary: m)
    (auto simp: filter_blank fold_map comp_def censored_frame split: option.split)

text \<open>
  Claim C12. The value of a sensitive configuration does not show in what a task on configurations answers, the
  comparisons of brokers and of topics included: the answer is the same as if the library gave an empty value for
  each of them.
\<close>

theorem kafka_secrets_hidden:
  assumes "selects_by_name ka"
  shows "clusterConfigGet_Execute ka c params = clusterConfigGet_Execute (censored ka) c params \<and>
    brokerConfigGet_Execute ka c params = brokerConfigGet_Execute (censored ka) c params \<and>
    topicConfigGet_Execute ka c params = topicConfigGet_Execute (censored ka) c params \<and>
    brokerConfigDiff_Execute ka c params = brokerConfigDiff_Execute (censored ka) c params \<and>
    topicConfigDiff_Execute ka c params = topicConfigDiff_Execute (censored ka) c params"
proof -
  have on: "ka_ConfigOn ka (map blank_resource rcs) name = map_sum id blank_resource (ka_ConfigOn ka rcs name)" for rcs name
    using assms by (simp add: selects_by_name_def)
  have "clusterConfigGet_Execute ka c params = clusterConfigGet_Execute (censored ka) c params"
    "brokerConfigGet_Execute ka c params = brokerConfigGet_Execute (censored ka) c params"
    "brokerConfigDiff_Execute ka c params = brokerConfigDiff_Execute (censored ka) c params"
    "topicConfigDiff_Execute ka c params = topicConfigDiff_Execute (censored ka) c params"
    by (simp_all add: clusterConfigGet_Execute_def brokerConfigGet_Execute_def brokerConfigDiff_Execute_def
        topicConfigDiff_Execute_def censored_calls censored_frame and_then_assoc config_entries_blank config_values_blank cong: if_cong)
  moreover have "topicConfigGet_Execute ka c params = topicConfigGet_Execute (censored ka) c params"
    by (simp add: topicConfigGet_Execute_def censored_calls censored_frame and_then_assoc on attempt_map_sum
        filter_blank comp_def cong: option.case_cong)
  ultimately show ?thesis by blast
qed

lemma find_blank: "find P (map blank_resource rcs) = map_option blank_resource (find (P \<circ> blank_resource) rcs)"
  by (induction rcs) auto

lemma sample_selects: "selects_by_name sample_kadm"
proof -
  have "(\<lambda>rc. rc_Name rc = name) \<circ> blank_resource = (\<lambda>rc. rc_Name rc = name)" for name
    by (simp add: fun_eq_iff)
  then show ?thesis
    by (auto simp: selects_by_name_def sample_kadm_def find_blank split: option.split)
qed

theorem kafka_secrets_hidden_witness:
  "brokerConfigGet_Execute sample_kadm (CurrentClient (kw_provider sample_kafka_world))
     [(''broker_id'', VInt 1), (''keys'', VStrings [''ssl.keystore.password''])] =
   brokerConfigGet_Execute (censored sample_kadm) (CurrentClient (kw_provider sample_kafka_world))
     [(''broker_id'', VInt 1), (''keys'', VStrings [''ssl.keystore.password''])]"
  using kafka_secrets_hidden [OF sample_selects] by blast

end
