(* ===== verification/Kafka_Reports.thy ===== *)
theory Kafka_Reports
  imports Kafka_Safety
begin

text \<open>
  What the reports of the Kafka tasks say: the comparison of configurations names the resources that differ from
  the most common value, the lag by topic and the lag of the group agree, the listings are cut at the limit and
  say so.
\<close>

section \<open>Differences of configurations\<close>

text \<open>The values that count, in the order of the code: of a key of a resource the last one is the value.\<close>

definition readings ::
  "(gostring \<Rightarrow> 'i option) \<Rightarrow> 'k kadm \<Rightarrow> gostring list \<Rightarrow> ResourceConfig list \<Rightarrow> ((gostring \<times> 'i) \<times> gostring) list" where
  "readings read ka ks rcs =
     concat (map (\<lambda>rc. case read (rc_Name rc) of
                         None \<Rightarrow> []
                       | Some i \<Rightarrow> map (\<lambda>cf. ((kcf_Key cf, i), ce_Value (configToEntry ka cf)))
                                     (filter (\<lambda>cf. passes ks (kcf_Key cf)) (rc_Configs rc)))
       (filter (\<lambda>rc. rc_Err rc = None) rcs))"

definition value_of ::
  "(gostring \<Rightarrow> 'i option) \<Rightarrow> 'k kadm \<Rightarrow> gostring list \<Rightarrow> ResourceConfig list \<Rightarrow> gostring \<Rightarrow> 'i \<Rightarrow> gostring option" where
  "value_of read ka ks rcs key i = map_of (rev (readings read ka ks rcs)) (key, i)"

text \<open>A table says what a function of keys and resources says, and holds each of them once.\<close>

definition table_of :: "(gostring \<Rightarrow> 'i \<Rightarrow> gostring option) \<Rightarrow> 'i config_table \<Rightarrow> bool" where
  "table_of f m \<longleftrightarrow> distinct_keys m \<and>
     (\<forall>key vals. map_of m key = Some vals \<longrightarrow> distinct_keys vals \<and> vals \<noteq> [] \<and> map_of vals = f key) \<and>
     (\<forall>key. map_of m key = None \<longrightarrow> f key = (\<lambda>_. None))"

lemma AList_update_not_Nil [simp]: "AList.update k v m \<noteq> []"
  by (cases m) auto

definition set_reading :: "(gostring \<times> 'i) \<times> gostring \<Rightarrow> (gostring \<Rightarrow> 'i \<Rightarrow> gostring option) \<Rightarrow> gostring \<Rightarrow> 'i \<Rightarrow> gostring option" where
  "set_reading r f = f(fst (fst r) := (f (fst (fst r)))(snd (fst r) \<mapsto> snd r))"

definition put_reading :: "(gostring \<times> 'i) \<times> gostring \<Rightarrow> 'i config_table \<Rightarrow> 'i config_table" where
  "put_reading r = put_value (fst (fst r)) (snd (fst r)) (snd r)"

lemma table_of_put: "table_of f m \<Longrightarrow> table_of (set_reading r f) (put_reading r m)"
proof -
  assume m: "table_of f m"
  define key i v where "key = fst (fst r)" and "i = snd (fst r)" and "v = snd r"
  define vals where "vals = (case map_of m key of None \<Rightarrow> [] | Some vs \<Rightarrow> vs)"
  have vals: "distinct_keys vals" "map_of vals = f key"
    using m by (auto simp: table_of_def vals_def fun_eq_iff split: option.split)
  have "put_reading r m = AList.update key (AList.update i v vals) m"
    by (simp add: put_reading_def put_value_def vals_def key_def i_def v_def)
  moreover have "set_reading r f = f(key := (f key)(i \<mapsto> v))"
    by (simp add: set_reading_def key_def i_def v_def)
  ultimately show ?thesis using m vals by (auto simp: table_of_def split: if_splits)
qed

lemma table_of_fold: "table_of f m \<Longrightarrow> table_of (fold set_reading rs f) (fold put_reading rs m)"
  by (induction rs arbitrary: f m) (simp_all add: table_of_put)

lemma fold_set_reading:
  "fold set_reading rs f key i = (case map_of (rev rs) (key, i) of None \<Rightarrow> f key i | Some v \<Rightarrow> Some v)"
proof (induction rs arbitrary: f)
  case (Cons r rs)
  obtain k j v where r: "r = ((k, j), v)" by (metis prod.exhaust)
  show ?case
    using Cons [of "set_reading r f"] by (simp add: r map_add_def split: option.split) (simp add: set_reading_def)
qed simp

lemma config_values_readings: "config_values read ka ks rcs m = fold put_reading (readings read ka ks rcs) m"
  by (induction rcs arbitrary: m)
    (auto simp: readings_def fold_map comp_def put_reading_def split: option.split)

lemma table_of_config_values: "table_of (value_of read ka ks rcs) (config_values read ka ks rcs [])"
proof -
  have "table_of (fold set_reading (readings read ka ks rcs) (\<lambda>_ _. None)) (config_values read ka ks rcs [])"
    unfolding config_values_readings by (rule table_of_fold) (simp add: table_of_def)
  moreover have "fold set_reading (readings read ka ks rcs) (\<lambda>_ _. None) = value_of read ka ks rcs"
    by (simp add: fun_eq_iff fold_set_reading value_of_def split: option.split)
  ultimately show ?thesis by simp
qed

text \<open>Counting values.\<close>

definition occurrences :: "('i \<times> gostring) list \<Rightarrow> gostring \<Rightarrow> int" where
  "occurrences vals v = int (count_list (map snd vals) v)"

lemma value_counts_items: "value_counts vals = count_items (map snd vals)"
  by (simp add: value_counts_def count_items_def fold_map comp_def case_prod_unfold)

lemma map_of_value_counts:
  "distinct_keys (value_counts vals)"
  "map_of (value_counts vals) v = (if v \<in> snd ` set vals then Some (occurrences vals v) else None)"
  unfolding value_counts_items occurrences_def by (simp_all add: count_items)

lemma hd_sort_twice:
  assumes "x \<in> set xs"
  shows "hd (sort_key f (sort_key g xs)) \<in> set xs"
    and "f (hd (sort_key f (sort_key g xs))) < f x \<or>
      f (hd (sort_key f (sort_key g xs))) = f x \<and> g (hd (sort_key f (sort_key g xs))) \<le> g x"
proof -
  let ?ys = "sort_key g xs"
  obtain y zs where zs: "sort_key f ?ys = y # zs"
    using assms by (cases "sort_key f ?ys") (auto dest: arg_cong [where f = set])
  have set_eq: "set (y # zs) = set xs" by (simp only: zs [symmetric] set_sort)
  then show "hd (sort_key f ?ys) \<in> set xs" using zs by auto
  have le: "f y \<le> f x"
    using sorted_sort_key [of f ?ys] assms set_eq by (auto simp: zs)
  have "g y \<le> g x" if "f x = f y"
  proof -
    have "filter (\<lambda>z. f z = f y) ?ys = filter (\<lambda>z. f z = f y) (sort_key f ?ys)"
      by (simp add: sort_key_stable)
    also have "\<dots> = y # filter (\<lambda>z. f z = f y) zs" by (simp add: zs)
    finally have eq: "filter (\<lambda>z. f z = f y) ?ys = y # filter (\<lambda>z. f z = f y) zs" .
    have "sorted (map g (filter (\<lambda>z. f z = f y) ?ys))" by (simp add: sorted_filter)
    moreover have "x \<in> set (filter (\<lambda>z. f z = f y) ?ys)" using assms that by simp
    ultimately show ?thesis unfolding eq by auto
  qed
  then show "f (hd (sort_key f ?ys)) < f x \<or> f (hd (sort_key f ?ys)) = f x \<and> g (hd (sort_key f ?ys)) \<le> g x"
    using le by (auto simp: zs)
qed

lemma most_common_least:
  assumes "vals \<noteq> []"
  shows "occurrences vals v < occurrences vals (most_common vals) \<or>
    occurrences vals v = occurrences vals (most_common vals) \<and> (v \<in> snd ` set vals \<longrightarrow> most_common vals \<le> v)"
    and "most_common vals \<in> snd ` set vals"
proof -
  let ?counts = "value_counts vals"
  have mem: "(w, n) \<in> set ?counts \<longleftrightarrow> w \<in> snd ` set vals \<and> n = occurrences vals w" for w n
    by (auto simp: distinct_keys_mem_iff map_of_value_counts)
  obtain w where w: "w \<in> snd ` set vals" using assms by (cases vals) auto
  define p where "p = hd (sorted_pairs ?counts)"
  have "p \<in> set ?counts"
    using hd_sort_twice(1) [of "(w, occurrences vals w)" ?counts] w by (auto simp: p_def sorted_pairs_def mem)
  then have p: "fst p \<in> snd ` set vals" "snd p = occurrences vals (fst p)" using mem [of "fst p" "snd p"] by auto
  have mc: "most_common vals = fst p" by (simp add: most_common_def p_def)
  show "most_common vals \<in> snd ` set vals" using p mc by simp
  show "occurrences vals v < occurrences vals (most_common vals) \<or>
    occurrences vals v = occurrences vals (most_common vals) \<and> (v \<in> snd ` set vals \<longrightarrow> most_common vals \<le> v)"
  proof (cases "v \<in> snd ` set vals")
    case True
    then have "(v, occurrences vals v) \<in> set ?counts" by (simp add: mem)
    from hd_sort_twice(2) [OF this, of "\<lambda>(_, n). - n" fst] show ?thesis
      by (auto simp: mc p(2) p_def sorted_pairs_def [symmetric] case_prod_beta simp flip: p_def)
  next
    case False
    then have "occurrences vals v = 0" by (simp add: occurrences_def count_list_0_iff)
    moreover have "occurrences vals (fst p) > 0"
      using p(1) by (simp add: occurrences_def count_list_0_iff neq0_conv [symmetric] del: neq0_conv)
    ultimately show ?thesis by (simp add: mc)
  qed
qed

text \<open>The most common value of a function: of those that occur most often, the least one.\<close>

definition modal :: "('i \<Rightarrow> gostring option) \<Rightarrow> gostring \<Rightarrow> bool" where
  "modal g mc \<longleftrightarrow> mc \<in> ran g \<and>
     (\<forall>v \<in> ran g. card {i. g i = Some v} < card {i. g i = Some mc} \<or>
        card {i. g i = Some v} = card {i. g i = Some mc} \<and> mc \<le> v)"

lemma occurrences_card:
  assumes "distinct_keys vals"
  shows "occurrences vals v = int (card {i. map_of vals i = Some v})"
proof -
  have "{i. map_of vals i = Some v} = set (map fst (filter (\<lambda>p. v = snd p) vals))"
    using distinct_keys_mem_iff [OF assms] by force
  moreover have "distinct (map fst (filter (\<lambda>p. v = snd p) vals))" using assms by (rule distinct_map_filter)
  ultimately show ?thesis
    by (simp only: distinct_card length_map occurrences_def count_list_eq_length_filter filter_map comp_def)
qed

lemma ran_table: "distinct_keys vals \<Longrightarrow> ran (map_of vals) = snd ` set vals"
  by (rule ran_distinct)

lemma most_common_modal:
  assumes "distinct_keys vals" "vals \<noteq> []"
  shows "modal (map_of vals) (most_common vals)"
  using most_common_least [OF assms(2)] by (auto simp: modal_def ran_table assms(1) occurrences_card)

lemma outliers_eq:
  assumes "distinct_keys vals"
  shows "outliers vals = sorted_list_of_set {i. \<exists>v. map_of vals i = Some v \<and> v \<noteq> most_common vals}"
proof -
  let ?is = "map fst (filter (\<lambda>(_, v). v \<noteq> most_common vals) vals)"
  have "{i. \<exists>v. map_of vals i = Some v \<and> v \<noteq> most_common vals} = set ?is"
    using distinct_keys_mem_iff [OF assms] by force
  moreover have "distinct ?is" using assms by (rule distinct_map_filter)
  ultimately show ?thesis by (simp only: outliers_def sorted_list_of_set_sort_remdups distinct_remdups_id)
qed

lemma fst_image_triple: "k \<in> fst ` A \<longleftrightarrow> (\<exists>a b. (k, a, b) \<in> A)"
  by force

lemma card_image_le_one: "finite A \<Longrightarrow> card A \<le> 1 \<longleftrightarrow> (\<forall>v \<in> A. \<forall>w \<in> A. v = w)"
  using card_le_Suc0_iff_eq [of A] by (simp only: One_nat_def)

text \<open>
  Claim C14. The comparison of configurations reports, by key in order, exactly the keys for which two resources
  that were read have different values, with the values they have; and it names as outliers, in order, exactly
  the resources whose value is not the most common one, the least of the most common ones if there are several.
\<close>

theorem config_diff_spec:
  "let diffs = config_diffs (config_values read ka ks rcs []); f = value_of read ka ks rcs in
   sorted_wrt (<) (map fst diffs) \<and>
   fst ` set diffs = {key. \<exists>i j v w. f key i = Some v \<and> f key j = Some w \<and> v \<noteq> w} \<and>
   (\<forall>(key, vals, outs) \<in> set diffs. distinct_keys vals \<and> map_of vals = f key \<and>
      (\<exists>mc. modal (f key) mc \<and> outs = sorted_list_of_set {i. \<exists>v. f key i = Some v \<and> v \<noteq> mc}))"
proof -
  let ?f = "value_of read ka ks rcs"
  define T where "T = config_values read ka ks rcs []"
  have T: "distinct_keys T"
    "\<And>key vals. map_of T key = Some vals \<Longrightarrow> distinct_keys vals \<and> vals \<noteq> [] \<and> map_of vals = ?f key"
    "\<And>key. map_of T key = None \<Longrightarrow> ?f key = (\<lambda>_. None)"
    using table_of_config_values [of read ka ks rcs] by (simp_all add: table_of_def T_def)
  have mem: "(key, vals, outs) \<in> set (config_diffs T) \<longleftrightarrow>
      map_of T key = Some vals \<and> \<not> card (set (map snd vals)) \<le> 1 \<and> outs = outliers vals" for key vals outs
    using distinct_keys_mem_iff [OF T(1)] by (force simp: config_diffs_def)
  have differ: "\<not> card (set (map snd vals)) \<le> 1 \<longleftrightarrow>
      (\<exists>i j v w. ?f key i = Some v \<and> ?f key j = Some w \<and> v \<noteq> w)" if "map_of T key = Some vals" for key vals
  proof -
    have "set (map snd vals) = ran (?f key)" using T(2) [OF that] ran_table [of vals] by auto
    then show ?thesis unfolding card_image_le_one [OF finite_set] by (auto simp: ran_def)
  qed
  have "mset (map fst (config_diffs T)) = mset (map fst (filter (\<lambda>(key, vals). \<not> card (set (map snd vals)) \<le> 1) T))"
    by (simp add: config_diffs_def case_prod_unfold comp_def image_mset.compositionality)
  moreover have "distinct (map fst (filter (\<lambda>(key, vals). \<not> card (set (map snd vals)) \<le> 1) T))"
    using T(1) by (rule distinct_map_filter)
  ultimately have "distinct (map fst (config_diffs T))" using mset_eq_imp_distinct_iff by blast
  then have "sorted_wrt (<) (map fst (config_diffs T))"
    unfolding strict_sorted_iff by (simp add: config_diffs_def)
  moreover have "fst ` set (config_diffs T) = {key. \<exists>i j v w. ?f key i = Some v \<and> ?f key j = Some w \<and> v \<noteq> w}"
  proof (intro set_eqI)
    fix key
    have "key \<in> fst ` set (config_diffs T) \<longleftrightarrow> (\<exists>vals outs. (key, vals, outs) \<in> set (config_diffs T))"
      by (rule fst_image_triple)
    also have "\<dots> \<longleftrightarrow> (\<exists>vals. map_of T key = Some vals \<and> \<not> card (set (map snd vals)) \<le> 1)"
      unfolding mem by blast
    also have "\<dots> \<longleftrightarrow> (\<exists>i j v w. ?f key i = Some v \<and> ?f key j = Some w \<and> v \<noteq> w)"
    proof (cases "map_of T key")
      case None
      then show ?thesis by (simp add: T(3))
    next
      case (Some vals)
      then show ?thesis using differ [OF Some] by (simp only: option.inject simp_thms ex_simps)
    qed
    finally show "key \<in> fst ` set (config_diffs T) \<longleftrightarrow>
        key \<in> {key. \<exists>i j v w. ?f key i = Some v \<and> ?f key j = Some w \<and> v \<noteq> w}"
      by (simp only: mem_Collect_eq)
  qed
  moreover have "distinct_keys vals \<and> map_of vals = ?f key \<and>
      (\<exists>mc. modal (?f key) mc \<and> outs = sorted_list_of_set {i. \<exists>v. ?f key i = Some v \<and> v \<noteq> mc})"
    if "(key, vals, outs) \<in> set (config_diffs T)" for key vals outs
  proof -
    have vals: "distinct_keys vals" "vals \<noteq> []" "map_of vals = ?f key" and outs: "outs = outliers vals"
      using that T(2) by (auto simp: mem)
    with most_common_modal [OF vals(1,2)] outliers_eq [OF vals(1)] show ?thesis by auto
  qed
  ultimately show ?thesis unfolding Let_def T_def [symmetric] by blast
qed

lemma sample_diffs:
  "config_diffs (config_values Sscanf_int32 sample_kadm [] sample_broker_configs []) =
     [(''log.retention.hours'', [(1, ''168''), (2, ''24'')], [2])]"
  by code_simp

theorem config_diff_spec_witness:
  "\<exists>mc. modal (value_of Sscanf_int32 sample_kadm [] sample_broker_configs ''log.retention.hours'') mc \<and>
     [2] = sorted_list_of_set
       {i. \<exists>v. value_of Sscanf_int32 sample_kadm [] sample_broker_configs ''log.retention.hours'' i = Some v \<and> v \<noteq> mc}"
  using config_diff_spec [of Sscanf_int32 sample_kadm "[]" sample_broker_configs]
  by (simp add: sample_diffs Let_def)

section \<open>Lag\<close>

lemma wrap64_add: "wrap64 (wrap64 x + y) = wrap64 (x + y)" "wrap64 (x + wrap64 y) = wrap64 (x + y)"
  by (simp_all add: wrap64_def)

lemma group_total_fold:
  "fold (\<lambda>l t. if gml_Lag l > 0 then wrap64 (t + gml_Lag l) else t) ls (wrap64 t) =
     wrap64 (t + (\<Sum>l\<leftarrow>ls. max 0 (gml_Lag l)))"
proof (induction ls arbitrary: t)
  case (Cons l ls)
  then show ?case using Cons [of "t + gml_Lag l"] Cons [of t] by (auto simp: wrap64_add algebra_simps)
qed simp

lemma wrap64_0 [simp]: "wrap64 0 = 0"
  by (simp add: wrap64_def)

lemma group_total_sum: "group_total ls = wrap64 (\<Sum>l\<leftarrow>ls. max 0 (gml_Lag l))"
  using group_total_fold [of ls 0] by (simp add: group_total_def)

lemma group_max_snoc: "group_max (ls @ [l]) = max (group_max ls) (gml_Lag l)"
  by (simp add: group_max_def)

lemma group_max_Max: "group_max ls = Max (insert 0 (gml_Lag ` set ls))"
proof (induction ls rule: rev_induct)
  case (snoc l ls)
  have "Max (insert 0 (gml_Lag ` set (ls @ [l]))) = Max (insert (gml_Lag l) (insert 0 (gml_Lag ` set ls)))"
    by (simp add: insert_commute)
  also have "\<dots> = max (gml_Lag l) (Max (insert 0 (gml_Lag ` set ls)))" by (rule Max_insert) simp_all
  finally show ?case using snoc by (simp add: group_max_snoc max.commute)
qed (simp add: group_max_def)

text \<open>The first partition with the greatest lag, if any has one.\<close>

definition max_lag_partition :: "GroupMemberLag list \<Rightarrow> int" where
  "max_lag_partition ls =
     (case find (\<lambda>l. 0 < gml_Lag l \<and> gml_Lag l = group_max ls) ls of None \<Rightarrow> - 1 | Some l \<Rightarrow> gml_Partition l)"

lemma find_append: "find P (xs @ ys) = (case find P xs of None \<Rightarrow> find P ys | Some x \<Rightarrow> Some x)"
  by (induction xs) simp_all

lemma group_max_bounds: "0 \<le> group_max ls" "l \<in> set ls \<Longrightarrow> gml_Lag l \<le> group_max ls"
  unfolding group_max_Max by (simp_all add: Max_ge)

lemma max_lag_partition_snoc:
  "max_lag_partition (ls @ [l]) = (if gml_Lag l > group_max ls then gml_Partition l else max_lag_partition ls)"
proof (cases "gml_Lag l > group_max ls")
  case True
  then have "find (\<lambda>k. 0 < gml_Lag k \<and> gml_Lag k = gml_Lag l) ls = None"
    using group_max_bounds(2) [of _ ls] by (fastforce simp: find_None_iff)
  with True group_max_bounds(1) [of ls] show ?thesis
    by (simp add: max_lag_partition_def group_max_snoc find_append max_def)
next
  case False
  have "(\<exists>k \<in> set ls. 0 < gml_Lag k \<and> gml_Lag k = group_max ls)" if "0 < group_max ls"
  proof -
    have "group_max ls \<in> insert 0 (gml_Lag ` set ls)" unfolding group_max_Max by (rule Max_in) simp_all
    with that show ?thesis by auto
  qed
  then have "find (\<lambda>k. 0 < gml_Lag k \<and> gml_Lag k = group_max ls) ls = None \<Longrightarrow> \<not> 0 < group_max ls"
    by (auto simp: find_None_iff)
  with False show ?thesis
    by (auto simp: max_lag_partition_def group_max_snoc find_append max_def split: option.split)
qed

lemma fold_add_lag:
  "fold add_lag ls new_agg =
     \<lparr>ta_totalLag = group_total ls, ta_partitionCount = int (length ls), ta_maxLag = group_max ls,
      ta_maxLagPartition = max_lag_partition ls\<rparr>"
proof (induction ls rule: rev_induct)
  case (snoc l ls)
  have "group_total (ls @ [l]) = (if gml_Lag l > 0 then wrap64 (group_total ls + gml_Lag l) else group_total ls)"
    by (simp add: group_total_def)
  with snoc show ?case
    by (simp add: add_lag_def group_max_snoc max_lag_partition_snoc max_def Let_def)
qed (simp add: new_agg_def group_total_def group_max_def max_lag_partition_def)

lemma wrap64_sum: "finite A \<Longrightarrow> wrap64 (\<Sum>a\<in>A. wrap64 (f a)) = wrap64 (\<Sum>a\<in>A. f a)"
proof (induction A rule: finite_induct)
  case (insert a A)
  have "wrap64 (wrap64 (f a) + (\<Sum>a\<in>A. wrap64 (f a))) = wrap64 (f a + wrap64 (\<Sum>a\<in>A. wrap64 (f a)))"
    by (simp only: wrap64_add)
  also have "\<dots> = wrap64 (f a + (\<Sum>a\<in>A. f a))" by (simp only: insert.IH wrap64_add)
  finally show ?case using insert.hyps by simp
qed simp

lemma sum_list_by_key:
  "(\<Sum>l\<leftarrow>ls. f l) = (\<Sum>t\<in>key ` set ls. \<Sum>l\<leftarrow>filter (\<lambda>l. key l = t) ls. (f l :: int))"
  (is "_ = ?by ls")
proof -
  have "(\<Sum>l\<leftarrow>ls. f l) = (\<Sum>t\<in>T. \<Sum>l\<leftarrow>filter (\<lambda>l. key l = t) ls. f l)" if "finite T" "key ` set ls \<subseteq> T" for T
    using that(2)
  proof (induction ls)
    case (Cons l ls)
    have "(\<Sum>t\<in>T. \<Sum>k\<leftarrow>filter (\<lambda>k. key k = t) (l # ls). f k) =
        (\<Sum>t\<in>T. (if key l = t then f l else 0) + (\<Sum>k\<leftarrow>filter (\<lambda>k. key k = t) ls. f k))"
      by (rule sum.cong) simp_all
    also have "\<dots> = f l + (\<Sum>t\<in>T. \<Sum>k\<leftarrow>filter (\<lambda>k. key k = t) ls. f k)"
      using that(1) Cons.prems by (simp add: sum.distrib)
    finally show ?case using Cons by simp
  qed simp
  from this [of "key ` set ls"] show ?thesis by simp
qed

text \<open>
  The lag by topic and the lag of the group agree: the report by topic has one entry for each topic of
  the partitions, in order, with what the report of the group would say of that topic's partitions alone, and the
  first partition with the greatest lag; the total of the group is the sum of the totals of the topics, modulo
  2^64, and its maximum is the maximum of theirs. Lags that are not positive count as none.
\<close>

theorem lag_reports_agree:
  "lagByTopic ls = counted ''lag_by_topic''
     (map (\<lambda>t. let ts = filter (\<lambda>l. gml_Topic l = t) ls in
        VMap [(''topic'', VString t), (''total_lag'', VInt64 (group_total ts)),
              (''partition_count'', VInt (int (length ts))), (''max_lag_partition'', VInt32 (max_lag_partition ts)),
              (''max_lag'', VInt64 (group_max ts))])
       (sorted_list_of_set (gml_Topic ` set ls))) \<and>
   group_total ls = wrap64 (\<Sum>t \<in> gml_Topic ` set ls. group_total (filter (\<lambda>l. gml_Topic l = t) ls)) \<and>
   group_max ls = Max (insert 0 ((\<lambda>t. group_max (filter (\<lambda>l. gml_Topic l = t) ls)) ` gml_Topic ` set ls))"
proof -
  have "sort (map fst (by_topic ls)) = sorted_list_of_set (set (map fst (by_topic ls)))"
    by (simp only: sorted_list_of_set_sort_remdups distinct_remdups_id [OF grouped(1)] by_topic_def)
  then have names: "sort (map fst (by_topic ls)) = sorted_list_of_set (gml_Topic ` set ls)"
    by (simp only: by_topic_def grouped(2))
  have agg: "agg_of (by_topic ls) t = fold add_lag (filter (\<lambda>l. gml_Topic l = t) ls) new_agg"
    if "t \<in> gml_Topic ` set ls" for t
    using that by (simp add: agg_of_def by_topic_def grouped(3))
  have "lagByTopic ls = counted ''lag_by_topic''
     (map (\<lambda>t. let ts = filter (\<lambda>l. gml_Topic l = t) ls in
        VMap [(''topic'', VString t), (''total_lag'', VInt64 (group_total ts)),
              (''partition_count'', VInt (int (length ts))), (''max_lag_partition'', VInt32 (max_lag_partition ts)),
              (''max_lag'', VInt64 (group_max ts))])
       (sorted_list_of_set (gml_Topic ` set ls)))"
    unfolding lagByTopic_def Let_def names
    by (rule arg_cong [where f = "counted _"], rule map_cong) (simp_all add: agg fold_add_lag)
  moreover have "group_total ls = wrap64 (\<Sum>t \<in> gml_Topic ` set ls. group_total (filter (\<lambda>l. gml_Topic l = t) ls))"
    unfolding group_total_sum by (simp add: wrap64_sum sum_list_by_key [of _ ls gml_Topic])
  moreover have "group_max ls = Max (insert 0 ((\<lambda>t. group_max (filter (\<lambda>l. gml_Topic l = t) ls)) ` gml_Topic ` set ls))"
  proof (rule antisym)
    show "group_max ls \<le> Max (insert 0 ((\<lambda>t. group_max (filter (\<lambda>l. gml_Topic l = t) ls)) ` gml_Topic ` set ls))"
    proof -
      have "gml_Lag l \<le> Max (insert 0 ((\<lambda>t. group_max (filter (\<lambda>l. gml_Topic l = t) ls)) ` gml_Topic ` set ls))"
        if "l \<in> set ls" for l
        using that group_max_bounds(2) [of l "filter (\<lambda>k. gml_Topic k = gml_Topic l) ls"]
        by (intro order_trans [OF _ Max_ge]) auto
      then show ?thesis unfolding group_max_Max [of ls] by (subst Max_le_iff) auto
    qed
    show "Max (insert 0 ((\<lambda>t. group_max (filter (\<lambda>l. gml_Topic l = t) ls)) ` gml_Topic ` set ls)) \<le> group_max ls"
    proof (subst Max_le_iff)
      have "group_max (filter (\<lambda>l. gml_Topic l = t) ls) \<le> group_max ls" for t
        unfolding group_max_Max by (rule Max_mono) auto
      then show "\<forall>a \<in> insert 0 ((\<lambda>t. group_max (filter (\<lambda>l. gml_Topic l = t) ls)) ` gml_Topic ` set ls). a \<le> group_max ls"
        using group_max_bounds(1) [of ls] by auto
    qed auto
  qed
  ultimately show ?thesis by blast
qed

end
