(* ===== verification/Kubernetes_API.thy ===== *)
theory Kubernetes_API
  imports Kubernetes_Logs Go_Time "HOL-Library.List_Lexorder" "HOL-Library.Char_ord"
begin

text \<open>
  What the tasks of \<open>internal/provider/kubernetes\<close> use of client-go: the objects of the Kubernetes API as
  records with the fields that the tasks read, and the calls of the two clients as the record \<open>kube_env\<close>,
  an argument of every task. Then the steps that the tasks share: reading the parameters of a listing, the
  clients, the fields of a result that are left out when they are empty.
\<close>

section \<open>Objects\<close>

text \<open>A time is in nanoseconds, \<open>None\<close> the zero time or, where the field is a pointer, nil.\<close>

type_synonym labels = "(gostring \<times> gostring) list"

record OwnerReference =
  own_Kind :: gostring
  own_Name :: gostring

record ObjectMeta =
  om_Name :: gostring
  om_Namespace :: gostring
  om_UID :: gostring
  om_CreationTimestamp :: "int option"
  om_Labels :: labels
  om_Annotations :: labels
  om_OwnerReferences :: "OwnerReference list"

record Condition =
  cn_Type :: gostring
  cn_Status :: gostring
  cn_Reason :: gostring

datatype IntOrString = IntVal int | StrVal gostring

subsection \<open>Workloads\<close>

datatype ContainerState = Running | Waiting | Terminated | NoState

record ContainerStatus =
  cst_Ready :: bool
  cst_RestartCount :: int
  cst_State :: ContainerState

record Container =
  ct_Name :: gostring
  ct_Image :: gostring

text \<open>\<open>pod_JSON\<close> is what \<open>json.Marshal\<close> makes of the whole object.\<close>

record Pod =
  pod_Meta :: ObjectMeta
  pod_NodeName :: gostring
  pod_ServiceAccountName :: gostring
  pod_RestartPolicy :: gostring
  pod_Containers :: "Container list"
  pod_Phase :: gostring
  pod_Conditions :: "Condition list"
  pod_ContainerStatuses :: "ContainerStatus list"
  pod_PodIP :: gostring
  pod_StartTime :: "int option"
  pod_JSON :: "gostring + gostring"

text \<open>\<open>dep_Selector\<close> is the labels of the selector, which is a pointer.\<close>

record Deployment =
  dep_Meta :: ObjectMeta
  dep_Replicas :: int
  dep_ReadyReplicas :: int
  dep_UpdatedReplicas :: int
  dep_AvailableReplicas :: int
  dep_Strategy :: gostring
  dep_Selector :: "labels option"
  dep_Conditions :: "Condition list"

record ReplicaSet =
  rst_Meta :: ObjectMeta
  rst_Replicas :: int
  rst_ReadyReplicas :: int
  rst_FullyLabeledReplicas :: int

record StatefulSet =
  sst_Meta :: ObjectMeta
  sst_Replicas :: int
  sst_ReadyReplicas :: int
  sst_UpdatedReplicas :: int
  sst_ServiceName :: gostring

record DaemonSet =
  dst_Meta :: ObjectMeta
  dst_DesiredNumberScheduled :: int
  dst_CurrentNumberScheduled :: int
  dst_NumberReady :: int
  dst_UpdatedNumberScheduled :: int
  dst_NumberAvailable :: int

record Job =
  job_Meta :: ObjectMeta
  job_Completions :: "int option"
  job_Succeeded :: int
  job_Conditions :: "Condition list"
  job_StartTime :: "int option"
  job_CompletionTime :: "int option"

text \<open>\<open>cj_Active\<close> is the number of active jobs.\<close>

record CronJob =
  cj_Meta :: ObjectMeta
  cj_Schedule :: gostring
  cj_Suspend :: "bool option"
  cj_Active :: nat
  cj_LastScheduleTime :: "int option"
  cj_LastSuccessfulTime :: "int option"

subsection \<open>The cluster\<close>

record kube_Event =
  ev_Meta :: ObjectMeta
  ev_Type :: gostring
  ev_Reason :: gostring
  ev_Message :: gostring
  ev_SourceComponent :: gostring
  ev_FirstTimestamp :: "int option"
  ev_LastTimestamp :: "int option"
  ev_Count :: int
  ev_InvolvedKind :: gostring
  ev_InvolvedName :: gostring

record NodeAddress =
  na_Type :: gostring
  na_Address :: gostring

record Taint =
  tn_Key :: gostring
  tn_Value :: gostring
  tn_Effect :: gostring

text \<open>A quantity of a resource is the text it prints as.\<close>

type_synonym ResourceList = "(gostring \<times> gostring) list"

record Node =
  nd_Meta :: ObjectMeta
  nd_Conditions :: "Condition list"
  nd_KubeletVersion :: gostring
  nd_OSImage :: gostring
  nd_KernelVersion :: gostring
  nd_ContainerRuntimeVersion :: gostring
  nd_Addresses :: "NodeAddress list"
  nd_Taints :: "Taint list"
  nd_Capacity :: ResourceList
  nd_Allocatable :: ResourceList

record Namespace =
  ns_Meta :: ObjectMeta
  ns_Phase :: gostring

record version_Info =
  vi_Major :: gostring
  vi_Minor :: gostring
  vi_GitVersion :: gostring
  vi_GitCommit :: gostring
  vi_GitTreeState :: gostring
  vi_BuildDate :: gostring
  vi_GoVersion :: gostring
  vi_Compiler :: gostring
  vi_Platform :: gostring

text \<open>A version of a group is its group version, like \<open>apps/v1\<close>.\<close>

record APIGroup =
  ag_Name :: gostring
  ag_Versions :: "gostring list"
  ag_PreferredVersion :: gostring

record APIResource =
  apr_Name :: gostring
  apr_SingularName :: gostring
  apr_Namespaced :: bool
  apr_Kind :: gostring
  apr_Verbs :: "gostring list"

record APIResourceList =
  arl_GroupVersion :: gostring
  arl_APIResources :: "APIResource list"

record ConfigMap =
  cm_Meta :: ObjectMeta
  cm_Data :: "(gostring \<times> gostring) list"
  cm_BinaryKeys :: "gostring list"

record LimitRangeItem =
  lri_Type :: gostring
  lri_Default :: ResourceList
  lri_DefaultRequest :: ResourceList
  lri_Max :: ResourceList
  lri_Min :: ResourceList

record LimitRange =
  lr_Meta :: ObjectMeta
  lr_Limits :: "LimitRangeItem list"

record ResourceQuota =
  rq_Meta :: ObjectMeta
  rq_Hard :: ResourceList
  rq_Used :: ResourceList

text \<open>The names of the secrets, and of those for pulling images.\<close>

record ServiceAccount =
  sa_Meta :: ObjectMeta
  sa_Secrets :: "gostring list"
  sa_ImagePullSecrets :: "gostring list"

subsection \<open>The network\<close>

record ServicePort =
  sp_Name :: gostring
  sp_Port :: int
  sp_TargetPort :: IntOrString
  sp_Protocol :: gostring

text \<open>\<open>svc_LoadBalancerIPs\<close> has the address of every ingress of the load balancer, empty for one without.\<close>

record Service =
  svc_Meta :: ObjectMeta
  svc_Type :: gostring
  svc_ClusterIP :: gostring
  svc_ExternalIPs :: "gostring list"
  svc_Ports :: "ServicePort list"
  svc_Selector :: labels
  svc_LoadBalancerIPs :: "gostring list"
  svc_SessionAffinity :: gostring
  svc_ExternalTrafficPolicy :: gostring

record EndpointPort =
  ep_Name :: gostring
  ep_Port :: int
  ep_Protocol :: gostring

record EndpointSubset =
  es_Addresses :: "gostring list"
  es_NotReadyAddresses :: "gostring list"
  es_Ports :: "EndpointPort list"

record Endpoints =
  eps_Meta :: ObjectMeta
  eps_Subsets :: "EndpointSubset list"

record SlicePort =
  slp_Name :: "gostring option"
  slp_Port :: "int option"
  slp_Protocol :: "gostring option"

record SliceEndpoint =
  sle_Addresses :: "gostring list"
  sle_Ready :: "bool option"
  sle_Serving :: "bool option"
  sle_Terminating :: "bool option"
  sle_NodeName :: "gostring option"

record EndpointSlice =
  esl_Meta :: ObjectMeta
  esl_Ports :: "SlicePort list"
  esl_Endpoints :: "SliceEndpoint list"

text \<open>The service of a backend, \<open>None\<close> for nil, is its name and the name and number of its port.\<close>

record IngressPath =
  ip_Path :: gostring
  ip_PathType :: "gostring option"
  ip_Backend :: "(gostring \<times> gostring \<times> int) option"

record IngressRule =
  ir_Host :: gostring
  ir_HTTP :: "IngressPath list option"

record IngressTLS =
  it_Hosts :: "gostring list"
  it_SecretName :: gostring

text \<open>An ingress of the load balancer is an address and a host name.\<close>

record Ingress =
  ing_Meta :: ObjectMeta
  ing_IngressClassName :: "gostring option"
  ing_Rules :: "IngressRule list"
  ing_TLS :: "IngressTLS list"
  ing_LoadBalancer :: "(gostring \<times> gostring) list"

text \<open>
  A selector is the labels it matches; its expressions are not read. A block of addresses is its range and
  the exceptions.
\<close>

record NetworkPolicyPeer =
  npe_PodSelector :: "labels option"
  npe_NamespaceSelector :: "labels option"
  npe_IPBlock :: "(gostring \<times> gostring list) option"

record NetworkPolicyPort =
  npp_Protocol :: "gostring option"
  npp_Port :: "IntOrString option"

record NetworkPolicyRule =
  npr_Peers :: "NetworkPolicyPeer list"
  npr_Ports :: "NetworkPolicyPort list"

record NetworkPolicy =
  np_Meta :: ObjectMeta
  np_PodSelector :: labels
  np_PolicyTypes :: "gostring list"
  np_Ingress :: "NetworkPolicyRule list"
  np_Egress :: "NetworkPolicyRule list"

subsection \<open>Access\<close>

record PolicyRule =
  pol_Verbs :: "gostring list"
  pol_APIGroups :: "gostring list"
  pol_Resources :: "gostring list"
  pol_ResourceNames :: "gostring list"

text \<open>A role or a cluster role, and a binding of either.\<close>

record Role =
  role_Meta :: ObjectMeta
  role_Rules :: "PolicyRule list"

record Subject =
  sub_Kind :: gostring
  sub_Name :: gostring
  sub_Namespace :: gostring

record RoleRef =
  ref_Kind :: gostring
  ref_Name :: gostring

record RoleBinding =
  rbi_Meta :: ObjectMeta
  rbi_RoleRef :: RoleRef
  rbi_Subjects :: "Subject list"

record ResourceAttributes =
  rat_Namespace :: gostring
  rat_Verb :: gostring
  rat_Group :: gostring
  rat_Resource :: gostring
  rat_Subresource :: gostring
  rat_Name :: gostring

record SubjectAccessReview =
  sar_User :: gostring
  sar_Groups :: "gostring list"
  sar_Attributes :: ResourceAttributes

text \<open>The answer to a review: allowed or not, and the reason.\<close>

type_synonym access_status = "bool \<times> gostring"

section \<open>The clients\<close>

record ListOptions =
  lso_LabelSelector :: gostring
  lso_FieldSelector :: gostring
  lso_Limit :: int

text \<open>
  The interface of one type of objects, within a namespace where it has one: \<open>List\<close> and \<open>Get\<close>, the only
  calls the tasks make on it. Both return; \<open>Get\<close> gives an object if it gives no error.
\<close>

record 'a resource_api =
  ra_List :: "ListOptions \<Rightarrow> gostring + 'a list"
  ra_Get :: "gostring \<Rightarrow> gostring + 'a"

record GroupVersionResource =
  gvr_Group :: gostring
  gvr_Version :: gostring
  gvr_Resource :: gostring

text \<open>
  \<open>ke_now\<close> is the time of the clock during the task, \<open>ke_RFC3339\<close> prints a time in the zone of the host,
  \<open>ke_lower\<close> is \<open>strings.ToLower\<close>, \<open>ke_unmarshal\<close> reads a JSON object into a map, \<open>ke_LabelServiceName\<close> is a
  constant of the API. The discovery of groups and resources can give both results and an error.
\<close>

record ('cs, 'dy) kube_env =
  ke_oor :: "gofloat \<Rightarrow> int"
  ke_now :: int
  ke_RFC3339 :: "int option \<Rightarrow> gostring"
  ke_lower :: "gostring \<Rightarrow> gostring"
  ke_unmarshal :: "gostring \<Rightarrow> gostring + gmap"
  ke_LabelServiceName :: gostring
  ke_Pods :: "'cs \<Rightarrow> gostring \<Rightarrow> Pod resource_api"
  ke_GetLogs :: "'cs \<Rightarrow> gostring \<Rightarrow> gostring \<Rightarrow> PodLogOptions \<Rightarrow> gostring + gostring"
  ke_Deployments :: "'cs \<Rightarrow> gostring \<Rightarrow> Deployment resource_api"
  ke_ReplicaSets :: "'cs \<Rightarrow> gostring \<Rightarrow> ReplicaSet resource_api"
  ke_StatefulSets :: "'cs \<Rightarrow> gostring \<Rightarrow> StatefulSet resource_api"
  ke_DaemonSets :: "'cs \<Rightarrow> gostring \<Rightarrow> DaemonSet resource_api"
  ke_Jobs :: "'cs \<Rightarrow> gostring \<Rightarrow> Job resource_api"
  ke_CronJobs :: "'cs \<Rightarrow> gostring \<Rightarrow> CronJob resource_api"
  ke_Events :: "'cs \<Rightarrow> gostring \<Rightarrow> kube_Event resource_api"
  ke_Services :: "'cs \<Rightarrow> gostring \<Rightarrow> Service resource_api"
  ke_Endpoints :: "'cs \<Rightarrow> gostring \<Rightarrow> Endpoints resource_api"
  ke_EndpointSlices :: "'cs \<Rightarrow> gostring \<Rightarrow> EndpointSlice resource_api"
  ke_NetworkPolicies :: "'cs \<Rightarrow> gostring \<Rightarrow> NetworkPolicy resource_api"
  ke_Ingresses :: "'cs \<Rightarrow> gostring \<Rightarrow> Ingress resource_api"
  ke_Nodes :: "'cs \<Rightarrow> Node resource_api"
  ke_Namespaces :: "'cs \<Rightarrow> Namespace resource_api"
  ke_ConfigMaps :: "'cs \<Rightarrow> gostring \<Rightarrow> ConfigMap resource_api"
  ke_ServiceAccounts :: "'cs \<Rightarrow> gostring \<Rightarrow> ServiceAccount resource_api"
  ke_ResourceQuotas :: "'cs \<Rightarrow> gostring \<Rightarrow> ResourceQuota resource_api"
  ke_LimitRanges :: "'cs \<Rightarrow> gostring \<Rightarrow> LimitRange resource_api"
  ke_Roles :: "'cs \<Rightarrow> gostring \<Rightarrow> Role resource_api"
  ke_RoleBindings :: "'cs \<Rightarrow> gostring \<Rightarrow> RoleBinding resource_api"
  ke_ClusterRoles :: "'cs \<Rightarrow> Role resource_api"
  ke_ClusterRoleBindings :: "'cs \<Rightarrow> RoleBinding resource_api"
  ke_ServerVersion :: "'cs \<Rightarrow> gostring + version_Info"
  ke_ServerGroupsAndResources :: "'cs \<Rightarrow> APIGroup list \<times> APIResourceList list \<times> gostring option"
  ke_SubjectAccessReviews :: "'cs \<Rightarrow> SubjectAccessReview \<Rightarrow> gostring + access_status"
  ke_SelfSubjectAccessReviews :: "'cs \<Rightarrow> ResourceAttributes \<Rightarrow> gostring + access_status"
  ke_Resource :: "'dy \<Rightarrow> GroupVersionResource \<Rightarrow> gostring \<Rightarrow> gmap resource_api"

type_synonym ('cs, 'dy) kube_task =
  "('cs, 'dy) kube_env \<Rightarrow> ('cs, 'dy) k8sClient option \<Rightarrow> gmap \<Rightarrow> gvalue outcome"

definition clientset_of :: "('cs, 'dy) k8sClient option \<Rightarrow> 'cs outcome" where
  "clientset_of client =
     (case client of
        None \<Rightarrow> Stop errClientNotConfigured
      | Some c \<Rightarrow> (case k8_clientset c of None \<Rightarrow> Stop errClientNotConfigured | Some cs \<Rightarrow> Go cs))"

definition dynamicClient_of :: "('cs, 'dy) k8sClient option \<Rightarrow> 'dy outcome" where
  "dynamicClient_of client =
     (case client of
        None \<Rightarrow> Stop errClientNotConfigured
      | Some c \<Rightarrow> (case k8_dynamicClient c of None \<Rightarrow> Stop errClientNotConfigured | Some d \<Rightarrow> Go d))"

section \<open>Results\<close>

text \<open>The fields of a result; all of them have \<open>omitempty\<close>.\<close>

definition j_str :: "gostring \<Rightarrow> gostring \<Rightarrow> gmap" where
  "j_str key v = (if v = [] then [] else [(key, VString v)])"

definition j_int :: "gostring \<Rightarrow> int \<Rightarrow> gmap" where
  "j_int key v = (if v = 0 then [] else [(key, VInt v)])"

definition j_int32 :: "gostring \<Rightarrow> int \<Rightarrow> gmap" where
  "j_int32 key v = (if v = 0 then [] else [(key, VInt32 v)])"

definition j_bool :: "gostring \<Rightarrow> bool \<Rightarrow> gmap" where
  "j_bool key v = (if v then [(key, VBool True)] else [])"

definition j_strs :: "gostring \<Rightarrow> gostring list \<Rightarrow> gmap" where
  "j_strs key v = (if v = [] then [] else [(key, VStrings v)])"

definition j_labels :: "gostring \<Rightarrow> labels \<Rightarrow> gmap" where
  "j_labels key v = (if v = [] then [] else [(key, VStrMap v)])"

definition j_map :: "gostring \<Rightarrow> gmap \<Rightarrow> gmap" where
  "j_map key v = (if v = [] then [] else [(key, VMap v)])"

definition j_list :: "gostring \<Rightarrow> gvalue list \<Rightarrow> gmap" where
  "j_list key v = (if v = [] then [] else [(key, VList v)])"

definition json_object :: "gmap list \<Rightarrow> gvalue" where
  "json_object fs = VMap (concat fs)"

text \<open>A slice that the loop appended nothing to is nil.\<close>

definition nil_list :: "gvalue list \<Rightarrow> gvalue" where
  "nil_list vs = (if vs = [] then VNil else VList vs)"

definition conditionSummary :: "Condition \<Rightarrow> gvalue" where
  "conditionSummary c =
     json_object [j_str ''type'' (cn_Type c), j_str ''status'' (cn_Status c), j_str ''reason'' (cn_Reason c)]"

definition age_of :: "('cs, 'dy) kube_env \<Rightarrow> ObjectMeta \<Rightarrow> gostring" where
  "age_of ke m = formatAge (ke_now ke) (om_CreationTimestamp m)"

text \<open>A time that is printed if the pointer is not nil.\<close>

definition time_or_empty :: "('cs, 'dy) kube_env \<Rightarrow> int option \<Rightarrow> gostring" where
  "time_or_empty ke t = (case t of None \<Rightarrow> [] | Some _ \<Rightarrow> ke_RFC3339 ke t)"

section \<open>The two shapes of a task\<close>

text \<open>
  The parameters of a listing; the flags say whether the task reads \<open>namespace\<close>, \<open>label_selector\<close> and
  \<open>field_selector\<close>.
\<close>

definition read_if :: "bool \<Rightarrow> gmap \<Rightarrow> gostring \<Rightarrow> gostring outcome" where
  "read_if reads params key = (if reads then attempt (OptionalString params key []) else Go [])"

definition list_request ::
  "(gofloat \<Rightarrow> int) \<Rightarrow> bool \<Rightarrow> bool \<Rightarrow> bool \<Rightarrow> gmap \<Rightarrow> (gostring \<times> ListOptions) outcome" where
  "list_request oor ns lb fd params =
     and_then (read_if ns params ''namespace'') (\<lambda>namespace.
     and_then (read_if lb params ''label_selector'') (\<lambda>labelSelector.
     and_then (read_if fd params ''field_selector'') (\<lambda>fieldSelector.
     and_then (attempt (NormalizeLimit oor params)) (\<lambda>limit.
     Go (namespace, \<lparr>lso_LabelSelector = labelSelector, lso_FieldSelector = fieldSelector, lso_Limit = limit\<rparr>)))))"

definition list_result :: "gostring \<Rightarrow> gvalue list \<Rightarrow> gvalue" where
  "list_result key items = VMap [(key, nil_list items), (''count'', VInt (int (length items)))]"

definition list_task ::
  "bool \<Rightarrow> bool \<Rightarrow> bool \<Rightarrow> gostring \<Rightarrow> ('cs \<Rightarrow> gostring \<Rightarrow> 'a resource_api) \<Rightarrow> ('a \<Rightarrow> gvalue) \<Rightarrow> ('cs, 'dy) kube_task" where
  "list_task ns lb fd key api flatten ke client params =
     and_then (list_request (ke_oor ke) ns lb fd params) (\<lambda>(namespace, opts).
     and_then (clientset_of client) (\<lambda>cs.
     and_then (attempt (ra_List (api cs namespace) opts)) (\<lambda>items.
     Go (list_result key (map flatten items)))))"

definition get_task ::
  "gostring \<Rightarrow> ('cs \<Rightarrow> gostring \<Rightarrow> 'a resource_api) \<Rightarrow> ('a \<Rightarrow> gvalue outcome) \<Rightarrow> ('cs, 'dy) kube_task" where
  "get_task key api flatten ke client params =
     and_then (attempt (RequireString params ''namespace'')) (\<lambda>namespace.
     and_then (attempt (RequireString params ''name'')) (\<lambda>name.
     and_then (clientset_of client) (\<lambda>cs.
     and_then (attempt (ra_Get (api cs namespace) name)) (\<lambda>x.
     and_then (flatten x) (\<lambda>v. Go (VMap [(key, v)]))))))"

text \<open>An object without a namespace.\<close>

definition get_cluster_task ::
  "gostring \<Rightarrow> ('cs \<Rightarrow> 'a resource_api) \<Rightarrow> ('a \<Rightarrow> gvalue) \<Rightarrow> ('cs, 'dy) kube_task" where
  "get_cluster_task key api flatten ke client params =
     and_then (attempt (RequireString params ''name'')) (\<lambda>name.
     and_then (clientset_of client) (\<lambda>cs.
     and_then (attempt (ra_Get (api cs) name)) (\<lambda>x.
     Go (VMap [(key, flatten x)]))))"

end
