(* ===== verification/Kubernetes_Workloads.thy ===== *)
theory Kubernetes_Workloads
  imports Kubernetes_API
begin

text \<open>
  The tasks of \<open>internal/provider/kubernetes\<close> on pods and on what makes them: deployments, replica sets,
  stateful sets, daemon sets, jobs and cron jobs. A \<open>flatten\<close> function gives the fields of a result.
\<close>

section \<open>Events\<close>

definition flattenEvent :: "('cs, 'dy) kube_env \<Rightarrow> kube_Event \<Rightarrow> gvalue" where
  "flattenEvent ke ev =
     json_object
       [j_str ''name'' (om_Name (ev_Meta ev)), j_str ''namespace'' (om_Namespace (ev_Meta ev)),
        j_str ''type'' (ev_Type ev), j_str ''reason'' (ev_Reason ev), j_str ''message'' (ev_Message ev),
        j_str ''source'' (ev_SourceComponent ev),
        j_str ''first_timestamp'' (ke_RFC3339 ke (ev_FirstTimestamp ev)),
        j_str ''last_timestamp'' (ke_RFC3339 ke (ev_LastTimestamp ev)), j_int ''count'' (ev_Count ev),
        j_str ''involved_object''
          (if ev_InvolvedKind ev \<noteq> [] \<and> ev_InvolvedName ev \<noteq> []
           then ev_InvolvedKind ev @ ''/'' @ ev_InvolvedName ev else [])]"

definition eventList_Execute :: "('cs, 'dy) kube_task" where
  "eventList_Execute ke = list_task True False True ''events'' (ke_Events ke) (flattenEvent ke) ke"

definition eventGet_Execute :: "('cs, 'dy) kube_task" where
  "eventGet_Execute ke = get_task ''event'' (ke_Events ke) (Go \<circ> flattenEvent ke) ke"

section \<open>Pods\<close>

definition ready_count :: "ContainerStatus list \<Rightarrow> nat" where
  "ready_count ss = length (filter cst_Ready ss)"

definition restart_count :: "ContainerStatus list \<Rightarrow> int" where
  "restart_count ss = sum_list (map cst_RestartCount ss)"

definition flattenPod :: "('cs, 'dy) kube_env \<Rightarrow> Pod \<Rightarrow> gvalue" where
  "flattenPod ke pod =
     json_object
       [j_str ''name'' (om_Name (pod_Meta pod)), j_str ''namespace'' (om_Namespace (pod_Meta pod)),
        j_str ''status'' (pod_Phase pod),
        j_str ''ready_containers''
          (Itoa (int (ready_count (pod_ContainerStatuses pod))) @ ''/'' @ Itoa (int (length (pod_ContainerStatuses pod)))),
        j_int ''restarts'' (restart_count (pod_ContainerStatuses pod)), j_str ''age'' (age_of ke (pod_Meta pod)),
        j_labels ''labels'' (om_Labels (pod_Meta pod)), j_str ''node_name'' (pod_NodeName pod)]"

definition podList_Execute :: "('cs, 'dy) kube_task" where
  "podList_Execute ke = list_task True True True ''pods'' (ke_Pods ke) (flattenPod ke) ke"

text \<open>The containers of the specification, each with the status that is at the same place in the list of them.\<close>

fun container_state :: "ContainerState \<Rightarrow> gostring" where
  "container_state Running = ''running''"
| "container_state Waiting = ''waiting''"
| "container_state Terminated = ''terminated''"
| "container_state NoState = []"

definition containerSummary :: "Container \<Rightarrow> ContainerStatus option \<Rightarrow> gvalue" where
  "containerSummary c status =
     json_object
       ([j_str ''name'' (ct_Name c), j_str ''image'' (ct_Image c)] @
        (case status of
           None \<Rightarrow> []
         | Some s \<Rightarrow> [j_bool ''ready'' (cst_Ready s), j_int ''restart_count'' (cst_RestartCount s),
                     j_str ''state'' (container_state (cst_State s))]))"

fun with_statuses :: "Container list \<Rightarrow> ContainerStatus list \<Rightarrow> gvalue list" where
  "with_statuses [] ss = []"
| "with_statuses (c # cs) [] = containerSummary c None # with_statuses cs []"
| "with_statuses (c # cs) (s # ss) = containerSummary c (Some s) # with_statuses cs ss"

definition flattenPodDetail :: "('cs, 'dy) kube_env \<Rightarrow> Pod \<Rightarrow> gvalue" where
  "flattenPodDetail ke pod =
     json_object
       [j_str ''name'' (om_Name (pod_Meta pod)), j_str ''namespace'' (om_Namespace (pod_Meta pod)),
        j_str ''uid'' (om_UID (pod_Meta pod)),
        j_str ''creation_timestamp'' (ke_RFC3339 ke (om_CreationTimestamp (pod_Meta pod))),
        j_labels ''labels'' (om_Labels (pod_Meta pod)), j_labels ''annotations'' (om_Annotations (pod_Meta pod)),
        j_str ''node_name'' (pod_NodeName pod), j_str ''service_account'' (pod_ServiceAccountName pod),
        j_str ''restart_policy'' (pod_RestartPolicy pod),
        j_list ''containers'' (with_statuses (pod_Containers pod) (pod_ContainerStatuses pod)),
        j_str ''phase'' (pod_Phase pod), j_list ''conditions'' (map conditionSummary (pod_Conditions pod)),
        j_str ''pod_ip'' (pod_PodIP pod), j_str ''start_time'' (time_or_empty ke (pod_StartTime pod))]"

definition podGet_Execute :: "('cs, 'dy) kube_task" where
  "podGet_Execute ke = get_task ''pod'' (ke_Pods ke) (Go \<circ> flattenPodDetail ke) ke"

definition podGetFull_Execute :: "('cs, 'dy) kube_task" where
  "podGetFull_Execute ke =
     get_task ''pod'' (ke_Pods ke)
       (\<lambda>pod. and_then (attempt (pod_JSON pod)) (\<lambda>raw.
              and_then (attempt (ke_unmarshal ke raw)) (\<lambda>m. Go (VMap m)))) ke"

text \<open>The loop over the events: those of the pod, up to the limit.\<close>

fun collect_events :: "gostring \<Rightarrow> int \<Rightarrow> kube_Event list \<Rightarrow> kube_Event list \<Rightarrow> kube_Event list" where
  "collect_events name eventLimit [] items = items"
| "collect_events name eventLimit (ev # evs) items =
     (if ev_InvolvedName ev \<noteq> name \<or> ev_InvolvedKind ev \<noteq> ''Pod'' then collect_events name eventLimit evs items
      else if int (length (items @ [ev])) \<ge> eventLimit then items @ [ev]
      else collect_events name eventLimit evs (items @ [ev]))"

definition podDescribe_Execute :: "('cs, 'dy) kube_task" where
  "podDescribe_Execute ke client params =
     and_then (attempt (RequireString params ''namespace'')) (\<lambda>namespace.
     and_then (attempt (RequireString params ''name'')) (\<lambda>name.
     and_then (attempt (OptionalInt (ke_oor ke) params ''event_limit'' 20)) (\<lambda>requested.
     and_then (stop_if (requested \<le> 0) (parameter_must ''event_limit'' ''greater than 0'')) (\<lambda>_.
     let eventLimit = (if requested > 100 then 100 else requested) in
     and_then (clientset_of client) (\<lambda>cs.
     and_then (attempt (ra_Get (ke_Pods ke cs namespace) name)) (\<lambda>pod.
     and_then (attempt (ra_List (ke_Events ke cs namespace)
       \<lparr>lso_LabelSelector = [], lso_FieldSelector = ''involvedObject.name='' @ name @ '',involvedObject.kind=Pod'',
        lso_Limit = eventLimit\<rparr>)) (\<lambda>events.
     let items = collect_events name eventLimit events [] in
     Go (VMap [(''pod'', flattenPodDetail ke pod), (''events'', VList (map (flattenEvent ke) items)),
               (''event_count'', VInt (int (length items)))]))))))))"

section \<open>Deployments\<close>

definition flattenDeployment :: "('cs, 'dy) kube_env \<Rightarrow> Deployment \<Rightarrow> gvalue" where
  "flattenDeployment ke d =
     json_object
       [j_str ''name'' (om_Name (dep_Meta d)), j_str ''namespace'' (om_Namespace (dep_Meta d)),
        j_int ''replicas'' (dep_Replicas d), j_int ''ready_replicas'' (dep_ReadyReplicas d),
        j_int ''updated_replicas'' (dep_UpdatedReplicas d), j_int ''available_replicas'' (dep_AvailableReplicas d),
        j_str ''strategy'' (dep_Strategy d), j_str ''age'' (age_of ke (dep_Meta d)),
        j_labels ''labels'' (om_Labels (dep_Meta d))]"

definition deploymentList_Execute :: "('cs, 'dy) kube_task" where
  "deploymentList_Execute ke =
     list_task True True True ''deployments'' (ke_Deployments ke) (flattenDeployment ke) ke"

text \<open>The selector is not compared with nil: \<open>dep.Spec.Selector.MatchLabels\<close> panics without one.\<close>

definition flattenDeploymentDetail :: "('cs, 'dy) kube_env \<Rightarrow> Deployment \<Rightarrow> gvalue outcome" where
  "flattenDeploymentDetail ke d =
     (case dep_Selector d of
        None \<Rightarrow> Panic
      | Some matchLabels \<Rightarrow>
          Go (json_object
            [j_str ''name'' (om_Name (dep_Meta d)), j_str ''namespace'' (om_Namespace (dep_Meta d)),
             j_int ''replicas'' (dep_Replicas d), j_int ''ready_replicas'' (dep_ReadyReplicas d),
             j_int ''updated_replicas'' (dep_UpdatedReplicas d), j_int ''available_replicas'' (dep_AvailableReplicas d),
             j_str ''strategy'' (dep_Strategy d), j_labels ''selector'' matchLabels,
             j_list ''conditions'' (map conditionSummary (dep_Conditions d)), j_str ''age'' (age_of ke (dep_Meta d)),
             j_labels ''labels'' (om_Labels (dep_Meta d))]))"

definition deploymentGet_Execute :: "('cs, 'dy) kube_task" where
  "deploymentGet_Execute ke = get_task ''deployment'' (ke_Deployments ke) (flattenDeploymentDetail ke) ke"

section \<open>Replica sets, stateful sets, daemon sets\<close>

definition owner_reference :: "ObjectMeta \<Rightarrow> gostring" where
  "owner_reference m = (case om_OwnerReferences m of [] \<Rightarrow> [] | r # _ \<Rightarrow> own_Kind r @ ''/'' @ own_Name r)"

text \<open>The details are the summary and the labels.\<close>

definition replicaSetFields :: "('cs, 'dy) kube_env \<Rightarrow> ReplicaSet \<Rightarrow> gmap list" where
  "replicaSetFields ke rs =
     [j_str ''name'' (om_Name (rst_Meta rs)), j_str ''namespace'' (om_Namespace (rst_Meta rs)),
      j_int ''replicas'' (rst_Replicas rs), j_int ''ready_replicas'' (rst_ReadyReplicas rs),
      j_int ''fully_labeled_replicas'' (rst_FullyLabeledReplicas rs), j_str ''age'' (age_of ke (rst_Meta rs)),
      j_str ''owner_reference'' (owner_reference (rst_Meta rs))]"

definition flattenReplicaSet :: "('cs, 'dy) kube_env \<Rightarrow> ReplicaSet \<Rightarrow> gvalue" where
  "flattenReplicaSet ke rs = json_object (replicaSetFields ke rs)"

definition flattenReplicaSetDetail :: "('cs, 'dy) kube_env \<Rightarrow> ReplicaSet \<Rightarrow> gvalue" where
  "flattenReplicaSetDetail ke rs =
     json_object (replicaSetFields ke rs @ [j_labels ''labels'' (om_Labels (rst_Meta rs))])"

definition replicaSetList_Execute :: "('cs, 'dy) kube_task" where
  "replicaSetList_Execute ke =
     list_task True True True ''replicasets'' (ke_ReplicaSets ke) (flattenReplicaSet ke) ke"

definition replicaSetGet_Execute :: "('cs, 'dy) kube_task" where
  "replicaSetGet_Execute ke = get_task ''replicaset'' (ke_ReplicaSets ke) (Go \<circ> flattenReplicaSetDetail ke) ke"

definition statefulSetFields :: "('cs, 'dy) kube_env \<Rightarrow> StatefulSet \<Rightarrow> gmap list" where
  "statefulSetFields ke ss =
     [j_str ''name'' (om_Name (sst_Meta ss)), j_str ''namespace'' (om_Namespace (sst_Meta ss)),
      j_int ''replicas'' (sst_Replicas ss), j_int ''ready_replicas'' (sst_ReadyReplicas ss),
      j_int ''updated_replicas'' (sst_UpdatedReplicas ss), j_str ''age'' (age_of ke (sst_Meta ss)),
      j_str ''service_name'' (sst_ServiceName ss)]"

definition flattenStatefulSet :: "('cs, 'dy) kube_env \<Rightarrow> StatefulSet \<Rightarrow> gvalue" where
  "flattenStatefulSet ke ss = json_object (statefulSetFields ke ss)"

definition flattenStatefulSetDetail :: "('cs, 'dy) kube_env \<Rightarrow> StatefulSet \<Rightarrow> gvalue" where
  "flattenStatefulSetDetail ke ss =
     json_object (statefulSetFields ke ss @ [j_labels ''labels'' (om_Labels (sst_Meta ss))])"

definition statefulSetList_Execute :: "('cs, 'dy) kube_task" where
  "statefulSetList_Execute ke =
     list_task True True True ''statefulsets'' (ke_StatefulSets ke) (flattenStatefulSet ke) ke"

definition statefulSetGet_Execute :: "('cs, 'dy) kube_task" where
  "statefulSetGet_Execute ke = get_task ''statefulset'' (ke_StatefulSets ke) (Go \<circ> flattenStatefulSetDetail ke) ke"

definition daemonSetFields :: "('cs, 'dy) kube_env \<Rightarrow> DaemonSet \<Rightarrow> gmap list" where
  "daemonSetFields ke ds =
     [j_str ''name'' (om_Name (dst_Meta ds)), j_str ''namespace'' (om_Namespace (dst_Meta ds)),
      j_int ''desired'' (dst_DesiredNumberScheduled ds), j_int ''current'' (dst_CurrentNumberScheduled ds),
      j_int ''ready'' (dst_NumberReady ds), j_int ''updated'' (dst_UpdatedNumberScheduled ds),
      j_int ''available'' (dst_NumberAvailable ds), j_str ''age'' (age_of ke (dst_Meta ds))]"

definition flattenDaemonSet :: "('cs, 'dy) kube_env \<Rightarrow> DaemonSet \<Rightarrow> gvalue" where
  "flattenDaemonSet ke ds = json_object (daemonSetFields ke ds)"

definition flattenDaemonSetDetail :: "('cs, 'dy) kube_env \<Rightarrow> DaemonSet \<Rightarrow> gvalue" where
  "flattenDaemonSetDetail ke ds =
     json_object (daemonSetFields ke ds @ [j_labels ''labels'' (om_Labels (dst_Meta ds))])"

definition daemonSetList_Execute :: "('cs, 'dy) kube_task" where
  "daemonSetList_Execute ke =
     list_task True True True ''daemonsets'' (ke_DaemonSets ke) (flattenDaemonSet ke) ke"

definition daemonSetGet_Execute :: "('cs, 'dy) kube_task" where
  "daemonSetGet_Execute ke = get_task ''daemonset'' (ke_DaemonSets ke) (Go \<circ> flattenDaemonSetDetail ke) ke"

section \<open>Jobs and cron jobs\<close>

text \<open>The conditions of a job have no reason; without a number of completions those that succeeded count.\<close>

definition job_duration :: "Job \<Rightarrow> gostring" where
  "job_duration job =
     (case (job_CompletionTime job, job_StartTime job) of
        (Some t, Some s) \<Rightarrow> Duration_String (time_Sub t s)
      | _ \<Rightarrow> [])"

definition jobFields :: "('cs, 'dy) kube_env \<Rightarrow> Job \<Rightarrow> gmap list" where
  "jobFields ke job =
     [j_str ''name'' (om_Name (job_Meta job)), j_str ''namespace'' (om_Namespace (job_Meta job)),
      j_str ''completions''
        (Itoa (job_Succeeded job) @ ''/'' @
         Itoa (case job_Completions job of None \<Rightarrow> job_Succeeded job | Some n \<Rightarrow> n)),
      j_str ''duration'' (job_duration job), j_str ''age'' (age_of ke (job_Meta job)),
      j_list ''conditions'' (map (\<lambda>c. conditionSummary (c\<lparr>cn_Reason := []\<rparr>)) (job_Conditions job))]"

definition flattenJob :: "('cs, 'dy) kube_env \<Rightarrow> Job \<Rightarrow> gvalue" where
  "flattenJob ke job = json_object (jobFields ke job)"

definition flattenJobDetail :: "('cs, 'dy) kube_env \<Rightarrow> Job \<Rightarrow> gvalue" where
  "flattenJobDetail ke job = json_object (jobFields ke job @ [j_labels ''labels'' (om_Labels (job_Meta job))])"

definition jobList_Execute :: "('cs, 'dy) kube_task" where
  "jobList_Execute ke = list_task True True True ''jobs'' (ke_Jobs ke) (flattenJob ke) ke"

definition jobGet_Execute :: "('cs, 'dy) kube_task" where
  "jobGet_Execute ke = get_task ''job'' (ke_Jobs ke) (Go \<circ> flattenJobDetail ke) ke"

definition cronJobFields :: "('cs, 'dy) kube_env \<Rightarrow> CronJob \<Rightarrow> gmap list" where
  "cronJobFields ke cj =
     [j_str ''name'' (om_Name (cj_Meta cj)), j_str ''namespace'' (om_Namespace (cj_Meta cj)),
      j_str ''schedule'' (cj_Schedule cj), j_bool ''suspend'' (case cj_Suspend cj of None \<Rightarrow> False | Some b \<Rightarrow> b),
      j_int ''active'' (int (cj_Active cj)), j_str ''last_schedule_time'' (time_or_empty ke (cj_LastScheduleTime cj)),
      j_str ''last_successful_time'' (time_or_empty ke (cj_LastSuccessfulTime cj)),
      j_str ''age'' (age_of ke (cj_Meta cj))]"

definition flattenCronJob :: "('cs, 'dy) kube_env \<Rightarrow> CronJob \<Rightarrow> gvalue" where
  "flattenCronJob ke cj = json_object (cronJobFields ke cj)"

definition flattenCronJobDetail :: "('cs, 'dy) kube_env \<Rightarrow> CronJob \<Rightarrow> gvalue" where
  "flattenCronJobDetail ke cj = json_object (cronJobFields ke cj @ [j_labels ''labels'' (om_Labels (cj_Meta cj))])"

definition cronJobList_Execute :: "('cs, 'dy) kube_task" where
  "cronJobList_Execute ke = list_task True True True ''cronjobs'' (ke_CronJobs ke) (flattenCronJob ke) ke"

definition cronJobGet_Execute :: "('cs, 'dy) kube_task" where
  "cronJobGet_Execute ke = get_task ''cronjob'' (ke_CronJobs ke) (Go \<circ> flattenCronJobDetail ke) ke"

end
