(* ===== verification/Kubernetes_Cluster.thy ===== *)
theory Kubernetes_Cluster
  imports Kubernetes_API
begin

text \<open>
  The tasks of \<open>internal/provider/kubernetes\<close> on the cluster: nodes, namespaces, the version, the resources of the
  API, objects of custom resources, reviews of access, configuration maps, quotas, limits, service accounts.
\<close>

section \<open>Nodes\<close>

text \<open>
  The roles come from the labels, in any order, and are sorted; a role without a name after the prefix is
  the value of the label. \<open>Ready\<close>, \<open>InternalIP\<close> and the like are the constants of the API.
\<close>

definition node_role :: "gostring \<times> gostring \<Rightarrow> gostring list" where
  "node_role l =
     (case l of
        (k, v) \<Rightarrow>
          if HasPrefix k ''node-role.kubernetes.io/''
          then (let role = TrimPrefix k ''node-role.kubernetes.io/'' in
                if role \<noteq> [] then [role] else if v \<noteq> [] then [v] else [])
          else [])"

definition extractNodeRoles :: "labels \<Rightarrow> gostring list" where
  "extractNodeRoles ls = sort (concat (map node_role ls))"

fun nodeReadyStatus :: "Condition list \<Rightarrow> gostring" where
  "nodeReadyStatus [] = ''Unknown''"
| "nodeReadyStatus (c # cs) =
     (if cn_Type c = ''Ready'' then
        (if cn_Status c = ''True'' then ''Ready''
         else if cn_Status c = ''False'' then ''NotReady''
         else if cn_Status c = ''Unknown'' then ''Unknown''
         else nodeReadyStatus cs)
      else nodeReadyStatus cs)"

fun node_address :: "gostring \<Rightarrow> NodeAddress list \<Rightarrow> gostring" where
  "node_address type [] = []"
| "node_address type (a # as) = (if na_Type a = type then na_Address a else node_address type as)"

definition nodeInternalIP :: "NodeAddress list \<Rightarrow> gostring" where
  "nodeInternalIP as = node_address ''InternalIP'' as"

definition nodeExternalIP :: "NodeAddress list \<Rightarrow> gostring" where
  "nodeExternalIP as = node_address ''ExternalIP'' as"

definition nodeFields :: "('cs, 'dy) kube_env \<Rightarrow> Node \<Rightarrow> gmap list" where
  "nodeFields ke node =
     [j_str ''name'' (om_Name (nd_Meta node)), j_strs ''roles'' (extractNodeRoles (om_Labels (nd_Meta node))),
      j_str ''status'' (nodeReadyStatus (nd_Conditions node)), j_str ''version'' (nd_KubeletVersion node),
      j_str ''os_image'' (nd_OSImage node), j_str ''kernel_version'' (nd_KernelVersion node),
      j_str ''container_runtime'' (nd_ContainerRuntimeVersion node),
      j_str ''kubelet_version'' (nd_KubeletVersion node), j_str ''age'' (age_of ke (nd_Meta node)),
      j_str ''internal_ip'' (nodeInternalIP (nd_Addresses node)),
      j_str ''external_ip'' (nodeExternalIP (nd_Addresses node))]"

definition flattenNode :: "('cs, 'dy) kube_env \<Rightarrow> Node \<Rightarrow> gvalue" where
  "flattenNode ke node = json_object (nodeFields ke node)"

definition flattenNodeTaints :: "Taint list \<Rightarrow> gvalue list" where
  "flattenNodeTaints ts =
     map (\<lambda>t. json_object [j_str ''key'' (tn_Key t), j_str ''value'' (tn_Value t), j_str ''effect'' (tn_Effect t)]) ts"

definition flattenNodeConditions :: "Condition list \<Rightarrow> gvalue list" where
  "flattenNodeConditions cs = map conditionSummary cs"

definition resources :: "gostring \<Rightarrow> ResourceList \<Rightarrow> gmap" where
  "resources key rl = j_labels key (flattenResourceList rl id)"

definition flattenNodeDetail :: "('cs, 'dy) kube_env \<Rightarrow> Node \<Rightarrow> gvalue" where
  "flattenNodeDetail ke node =
     json_object (nodeFields ke node @
       [j_list ''conditions'' (flattenNodeConditions (nd_Conditions node)),
        j_list ''taints'' (flattenNodeTaints (nd_Taints node)), resources ''capacity'' (nd_Capacity node),
        resources ''allocatable'' (nd_Allocatable node)])"

definition nodeList_Execute :: "('cs, 'dy) kube_task" where
  "nodeList_Execute ke = list_task False True True ''nodes'' (\<lambda>cs _. ke_Nodes ke cs) (flattenNode ke) ke"

definition nodeGet_Execute :: "('cs, 'dy) kube_task" where
  "nodeGet_Execute ke = get_cluster_task ''node'' (ke_Nodes ke) (flattenNodeDetail ke) ke"

section \<open>Namespaces and the version\<close>

definition flattenNamespace :: "('cs, 'dy) kube_env \<Rightarrow> Namespace \<Rightarrow> gvalue" where
  "flattenNamespace ke ns =
     json_object [j_str ''name'' (om_Name (ns_Meta ns)), j_str ''status'' (ns_Phase ns),
       j_str ''age'' (age_of ke (ns_Meta ns)), j_labels ''labels'' (om_Labels (ns_Meta ns))]"

definition kube_namespaceList_Execute :: "('cs, 'dy) kube_task" where
  "kube_namespaceList_Execute ke =
     list_task False True True ''namespaces'' (\<lambda>cs _. ke_Namespaces ke cs) (flattenNamespace ke) ke"

definition namespaceGet_Execute :: "('cs, 'dy) kube_task" where
  "namespaceGet_Execute ke = get_cluster_task ''namespace'' (ke_Namespaces ke) (flattenNamespace ke) ke"

definition versionGet_Execute :: "('cs, 'dy) kube_task" where
  "versionGet_Execute ke client params =
     and_then (clientset_of client) (\<lambda>cs.
     and_then (attempt (ke_ServerVersion ke cs)) (\<lambda>ver.
     Go (VMap [(''version'', json_object
       [j_str ''major'' (vi_Major ver), j_str ''minor'' (vi_Minor ver), j_str ''git_version'' (vi_GitVersion ver),
        j_str ''git_commit'' (vi_GitCommit ver), j_str ''git_tree_state'' (vi_GitTreeState ver),
        j_str ''build_date'' (vi_BuildDate ver), j_str ''go_version'' (vi_GoVersion ver),
        j_str ''compiler'' (vi_Compiler ver), j_str ''platform'' (vi_Platform ver)])])))"

section \<open>Resources of the API\<close>

text \<open>Whether the loop skips a list of resources for a group; its inner condition never holds.\<close>

definition skips_list :: "APIGroup \<Rightarrow> APIResourceList \<Rightarrow> bool" where
  "skips_list g r \<longleftrightarrow>
     arl_GroupVersion r = [] \<or>
     (\<not> HasPrefix (arl_GroupVersion r) (ag_Name g) \<and> ag_Name g \<noteq> [] \<and>
      \<not> (CHR ''/'' \<notin> set (arl_GroupVersion r) \<and> ag_Name g = []))"

definition apiResourceSummary :: "APIResource \<Rightarrow> gvalue" where
  "apiResourceSummary res =
     json_object [j_str ''name'' (apr_Name res), j_str ''singular_name'' (apr_SingularName res),
       j_bool ''namespaced'' (apr_Namespaced res), j_str ''kind'' (apr_Kind res), j_strs ''verbs'' (sort (apr_Verbs res))]"

definition group_resources :: "bool option \<Rightarrow> APIResourceList list \<Rightarrow> APIGroup \<Rightarrow> APIResource list" where
  "group_resources namespaced rs g =
     concat (map (\<lambda>r. filter (\<lambda>res. case namespaced of None \<Rightarrow> True | Some b \<Rightarrow> apr_Namespaced res = b)
                        (arl_APIResources r))
       (filter (\<lambda>r. \<not> skips_list g r) rs))"

definition apiGroupSummary :: "APIGroup \<Rightarrow> APIResource list \<Rightarrow> gvalue" where
  "apiGroupSummary g apiResources =
     json_object [j_str ''name'' (ag_Name g), j_strs ''versions'' (ag_Versions g),
       j_str ''preferred_version'' (ag_PreferredVersion g), j_list ''resources'' (map apiResourceSummary apiResources)]"

definition group_items :: "gostring \<Rightarrow> bool option \<Rightarrow> APIResourceList list \<Rightarrow> APIGroup \<Rightarrow> gvalue list" where
  "group_items apiGroup namespaced rs g =
     (if apiGroup \<noteq> [] \<and> ag_Name g \<noteq> apiGroup then []
      else if namespaced \<noteq> None \<and> group_resources namespaced rs g = [] then []
      else [apiGroupSummary g (group_resources namespaced rs g)])"

text \<open>A filter that is given counts even if its value is nil, which reads as false.\<close>

definition apiResourcesList_Execute :: "('cs, 'dy) kube_task" where
  "apiResourcesList_Execute ke client params =
     and_then (attempt (OptionalString params ''api_group'' [])) (\<lambda>apiGroup.
     and_then (attempt (OptionalBool params ''namespaced'' False)) (\<lambda>namespacedFilter.
     let namespaced = (if map_of params ''namespaced'' \<noteq> None then Some namespacedFilter else None) in
     and_then (clientset_of client) (\<lambda>cs.
     case ke_ServerGroupsAndResources ke cs of
       (groups, rs, err) \<Rightarrow>
         and_then (case err of Some e \<Rightarrow> stop_if (groups = [] \<and> rs = []) e | None \<Rightarrow> Go ()) (\<lambda>_.
         Go (list_result ''api_groups'' (concat (map (group_items apiGroup namespaced rs) groups)))))))"

section \<open>Objects of custom resources\<close>

definition customResourceList_Execute :: "('cs, 'dy) kube_task" where
  "customResourceList_Execute ke client params =
     and_then (attempt (RequireString params ''api_group'')) (\<lambda>apiGroup.
     and_then (attempt (RequireString params ''version'')) (\<lambda>version.
     and_then (attempt (RequireString params ''resource'')) (\<lambda>resource.
     and_then (attempt (OptionalString params ''namespace'' [])) (\<lambda>namespace.
     and_then (attempt (NormalizeLimit (ke_oor ke) params)) (\<lambda>limit.
     and_then (dynamicClient_of client) (\<lambda>d.
     and_then (attempt (ra_List
       (ke_Resource ke d \<lparr>gvr_Group = apiGroup, gvr_Version = version, gvr_Resource = resource\<rparr> namespace)
       \<lparr>lso_LabelSelector = [], lso_FieldSelector = [], lso_Limit = limit\<rparr>)) (\<lambda>items.
     Go (VMap [(''items'', VList (map VMap items)), (''count'', VInt (int (length items)))]))))))))"

definition customResourceGet_Execute :: "('cs, 'dy) kube_task" where
  "customResourceGet_Execute ke client params =
     and_then (attempt (RequireString params ''api_group'')) (\<lambda>apiGroup.
     and_then (attempt (RequireString params ''version'')) (\<lambda>version.
     and_then (attempt (RequireString params ''resource'')) (\<lambda>resource.
     and_then (attempt (RequireString params ''namespace'')) (\<lambda>namespace.
     and_then (attempt (RequireString params ''name'')) (\<lambda>name.
     and_then (dynamicClient_of client) (\<lambda>d.
     and_then (attempt (ra_Get
       (ke_Resource ke d \<lparr>gvr_Group = apiGroup, gvr_Version = version, gvr_Resource = resource\<rparr> namespace)
       name)) (\<lambda>obj.
     Go (VMap [(''object'', VMap obj)]))))))))"

section \<open>Reviews of access\<close>

fun group_names :: "gostring \<Rightarrow> gvalue list \<Rightarrow> gostring + gostring list" where
  "group_names key [] = Inr []"
| "group_names key (VString s # vs) =
     (case group_names key vs of
        Inl err \<Rightarrow> Inl err
      | Inr gs \<Rightarrow> Inr (if TrimSpace s = [] then gs else TrimSpace s # gs))"
| "group_names key (_ # vs) = Inl (parameter_must key ''a string list'')"

definition kube_optionalStringSlice :: "gmap \<Rightarrow> gostring \<Rightarrow> gostring + gostring list" where
  "kube_optionalStringSlice params key =
     (case map_of params key of
        None \<Rightarrow> Inr []
      | Some VNil \<Rightarrow> Inr []
      | Some (VStrings ss) \<Rightarrow> Inr (filter (\<lambda>s. s \<noteq> []) (map TrimSpace ss))
      | Some (VList vs) \<Rightarrow> group_names key vs
      | Some _ \<Rightarrow> Inl (parameter_must key ''a string list''))"

text \<open>The groups only go into the review of a user.\<close>

definition authorizationCheck_Execute :: "('cs, 'dy) kube_task" where
  "authorizationCheck_Execute ke client params =
     and_then (attempt (RequireString params ''verb'')) (\<lambda>verb.
     and_then (attempt (RequireString params ''resource'')) (\<lambda>resource.
     and_then (attempt (OptionalString params ''namespace'' [])) (\<lambda>namespace.
     and_then (attempt (OptionalString params ''name'' [])) (\<lambda>name.
     and_then (attempt (OptionalString params ''api_group'' [])) (\<lambda>apiGroup.
     and_then (attempt (OptionalString params ''subresource'' [])) (\<lambda>subresource.
     and_then (attempt (OptionalString params ''user'' [])) (\<lambda>user.
     and_then (attempt (kube_optionalStringSlice params ''groups'')) (\<lambda>groups.
     and_then (clientset_of client) (\<lambda>cs.
     let attrs = \<lparr>rat_Namespace = namespace, rat_Verb = verb, rat_Group = apiGroup, rat_Resource = resource,
                  rat_Subresource = subresource, rat_Name = name\<rparr>;
         answer = (\<lambda>kind (allowed, reason).
           VMap [(''verb'', VString verb), (''resource'', VString resource), (''namespace'', VString namespace),
                 (''name'', VString name), (''evaluated_as'', VString kind), (''allowed'', VBool allowed),
                 (''reason'', VString reason)])
     in
     if user \<noteq> [] then
       and_then (attempt (ke_SubjectAccessReviews ke cs
         \<lparr>sar_User = user, sar_Groups = groups, sar_Attributes = attrs\<rparr>)) (\<lambda>status.
       Go (answer ''SubjectAccessReview'' status))
     else
       and_then (attempt (ke_SelfSubjectAccessReviews ke cs attrs)) (\<lambda>status.
       Go (answer ''SelfSubjectAccessReview'' status)))))))))))"

section \<open>Configuration maps\<close>

definition flattenConfigMap :: "('cs, 'dy) kube_env \<Rightarrow> ConfigMap \<Rightarrow> gvalue" where
  "flattenConfigMap ke cm =
     json_object [j_str ''name'' (om_Name (cm_Meta cm)), j_str ''namespace'' (om_Namespace (cm_Meta cm)),
       j_strs ''data_keys'' (sort (map fst (cm_Data cm))), j_str ''age'' (age_of ke (cm_Meta cm))]"

definition configMapList_Execute :: "('cs, 'dy) kube_task" where
  "configMapList_Execute ke = list_task True True False ''config_maps'' (ke_ConfigMaps ke) (flattenConfigMap ke) ke"

definition maxConfigMapDataValue :: nat where
  "maxConfigMapDataValue = 4096"

text \<open>\<open>data[k] = v\<close> on the result, and the loop over the sorted keys.\<close>

definition set_field :: "gostring \<Rightarrow> gvalue \<Rightarrow> gmap \<Rightarrow> gmap" where
  "set_field k v m = filter (\<lambda>kv. fst kv \<noteq> k) m @ [(k, v)]"

definition put_data :: "(gostring \<times> gostring) list \<Rightarrow> gostring \<Rightarrow> gmap \<Rightarrow> gmap" where
  "put_data d k m =
     (case map_of d k of
        None \<Rightarrow> m
      | Some v \<Rightarrow>
          (if length v > maxConfigMapDataValue
           then set_field (k @ ''_truncated'') (VBool True) (set_field k (VString (take maxConfigMapDataValue v)) m)
           else set_field k (VString v) m))"

definition config_data :: "(gostring \<times> gostring) list \<Rightarrow> gmap" where
  "config_data d = fold (put_data d) (sort (map fst d)) []"

definition flattenConfigMapDetail :: "('cs, 'dy) kube_env \<Rightarrow> ConfigMap \<Rightarrow> gvalue" where
  "flattenConfigMapDetail ke cm =
     json_object [j_str ''name'' (om_Name (cm_Meta cm)), j_str ''namespace'' (om_Namespace (cm_Meta cm)),
       j_map ''data'' (config_data (cm_Data cm)), j_strs ''binary_data_keys'' (sort (cm_BinaryKeys cm)),
       j_str ''age'' (age_of ke (cm_Meta cm))]"

definition configMapGet_Execute :: "('cs, 'dy) kube_task" where
  "configMapGet_Execute ke = get_task ''config_map'' (ke_ConfigMaps ke) (Go \<circ> flattenConfigMapDetail ke) ke"

section \<open>Limits, quotas and service accounts\<close>

definition named_summary :: "('cs, 'dy) kube_env \<Rightarrow> ObjectMeta \<Rightarrow> gvalue" where
  "named_summary ke m =
     json_object [j_str ''name'' (om_Name m), j_str ''namespace'' (om_Namespace m), j_str ''age'' (age_of ke m)]"

definition flattenLimitRange :: "('cs, 'dy) kube_env \<Rightarrow> LimitRange \<Rightarrow> gvalue" where
  "flattenLimitRange ke lr = named_summary ke (lr_Meta lr)"

definition limitRangeItemDetail :: "LimitRangeItem \<Rightarrow> gvalue" where
  "limitRangeItemDetail l =
     json_object [j_str ''type'' (lri_Type l), resources ''default'' (lri_Default l),
       resources ''default_request'' (lri_DefaultRequest l), resources ''max'' (lri_Max l), resources ''min'' (lri_Min l)]"

definition flattenLimitRangeDetail :: "('cs, 'dy) kube_env \<Rightarrow> LimitRange \<Rightarrow> gvalue" where
  "flattenLimitRangeDetail ke lr =
     json_object [j_str ''name'' (om_Name (lr_Meta lr)), j_str ''namespace'' (om_Namespace (lr_Meta lr)),
       j_list ''limits'' (map limitRangeItemDetail (lr_Limits lr)), j_str ''age'' (age_of ke (lr_Meta lr))]"

definition limitRangeList_Execute :: "('cs, 'dy) kube_task" where
  "limitRangeList_Execute ke = list_task True True False ''limit_ranges'' (ke_LimitRanges ke) (flattenLimitRange ke) ke"

definition limitRangeGet_Execute :: "('cs, 'dy) kube_task" where
  "limitRangeGet_Execute ke = get_task ''limit_range'' (ke_LimitRanges ke) (Go \<circ> flattenLimitRangeDetail ke) ke"

definition flattenResourceQuota :: "('cs, 'dy) kube_env \<Rightarrow> ResourceQuota \<Rightarrow> gvalue" where
  "flattenResourceQuota ke rq = named_summary ke (rq_Meta rq)"

definition flattenResourceQuotaDetail :: "('cs, 'dy) kube_env \<Rightarrow> ResourceQuota \<Rightarrow> gvalue" where
  "flattenResourceQuotaDetail ke rq =
     json_object [j_str ''name'' (om_Name (rq_Meta rq)), j_str ''namespace'' (om_Namespace (rq_Meta rq)),
       resources ''hard'' (rq_Hard rq), resources ''used'' (rq_Used rq), j_str ''age'' (age_of ke (rq_Meta rq))]"

definition resourceQuotaList_Execute :: "('cs, 'dy) kube_task" where
  "resourceQuotaList_Execute ke =
     list_task True True False ''resource_quotas'' (ke_ResourceQuotas ke) (flattenResourceQuota ke) ke"

definition resourceQuotaGet_Execute :: "('cs, 'dy) kube_task" where
  "resourceQuotaGet_Execute ke = get_task ''resource_quota'' (ke_ResourceQuotas ke) (Go \<circ> flattenResourceQuotaDetail ke) ke"

definition flattenServiceAccount :: "('cs, 'dy) kube_env \<Rightarrow> ServiceAccount \<Rightarrow> gvalue" where
  "flattenServiceAccount ke sa =
     json_object [j_str ''name'' (om_Name (sa_Meta sa)), j_str ''namespace'' (om_Namespace (sa_Meta sa)),
       j_strs ''secrets'' (sa_Secrets sa), j_strs ''image_pull_secrets'' (sa_ImagePullSecrets sa),
       j_str ''age'' (age_of ke (sa_Meta sa))]"

definition serviceAccountList_Execute :: "('cs, 'dy) kube_task" where
  "serviceAccountList_Execute ke =
     list_task True True False ''service_accounts'' (ke_ServiceAccounts ke) (flattenServiceAccount ke) ke"

definition serviceAccountGet_Execute :: "('cs, 'dy) kube_task" where
  "serviceAccountGet_Execute ke = get_task ''service_account'' (ke_ServiceAccounts ke) (Go \<circ> flattenServiceAccount ke) ke"

end
