(* ===== verification/Kubernetes_Network.thy ===== *)
theory Kubernetes_Network
  imports Kubernetes_API
begin

text \<open>
  The tasks of \<open>internal/provider/kubernetes\<close> on services, endpoints, ingresses and network policies, and on roles
  and their bindings.
\<close>

section \<open>Services\<close>

definition isValidServiceType :: "gostring \<Rightarrow> bool" where
  "isValidServiceType t \<longleftrightarrow> t \<in> set [''ClusterIP'', ''NodePort'', ''LoadBalancer'', ''ExternalName'']"

fun formatTargetPort :: "IntOrString \<Rightarrow> gostring" where
  "formatTargetPort (StrVal s) = s"
| "formatTargetPort (IntVal n) = (if n \<noteq> 0 then Itoa n else [])"

definition flattenServicePorts :: "ServicePort list \<Rightarrow> gvalue list" where
  "flattenServicePorts ports =
     map (\<lambda>p. json_object [j_str ''name'' (sp_Name p), j_int32 ''port'' (sp_Port p),
                j_str ''target_port'' (formatTargetPort (sp_TargetPort p)), j_str ''protocol'' (sp_Protocol p)]) ports"

definition serviceFields :: "('cs, 'dy) kube_env \<Rightarrow> Service \<Rightarrow> gmap list" where
  "serviceFields ke svc =
     [j_str ''name'' (om_Name (svc_Meta svc)), j_str ''namespace'' (om_Namespace (svc_Meta svc)),
      j_str ''type'' (svc_Type svc), j_str ''cluster_ip'' (svc_ClusterIP svc),
      j_strs ''external_ips'' (svc_ExternalIPs svc), j_list ''ports'' (flattenServicePorts (svc_Ports svc)),
      j_labels ''selector'' (svc_Selector svc), j_str ''age'' (age_of ke (svc_Meta svc))]"

definition flattenServiceSummary :: "('cs, 'dy) kube_env \<Rightarrow> Service \<Rightarrow> gvalue" where
  "flattenServiceSummary ke svc = json_object (serviceFields ke svc)"

definition flattenServiceDetail :: "('cs, 'dy) kube_env \<Rightarrow> Service \<Rightarrow> gvalue" where
  "flattenServiceDetail ke svc =
     json_object (serviceFields ke svc @
       [j_strs ''load_balancer_ips'' (filter (\<lambda>ip. ip \<noteq> []) (svc_LoadBalancerIPs svc)),
        j_str ''session_affinity'' (svc_SessionAffinity svc),
        j_str ''external_traffic_policy'' (svc_ExternalTrafficPolicy svc)])"

text \<open>The type is checked before the limit, and filters what the server has limited.\<close>

definition serviceList_Execute :: "('cs, 'dy) kube_task" where
  "serviceList_Execute ke client params =
     and_then (attempt (OptionalString params ''namespace'' [])) (\<lambda>namespace.
     and_then (attempt (OptionalString params ''label_selector'' [])) (\<lambda>labelSelector.
     and_then (attempt (OptionalString params ''field_selector'' [])) (\<lambda>fieldSelector.
     and_then (attempt (OptionalString params ''type'' [])) (\<lambda>serviceType.
     and_then (stop_if (serviceType \<noteq> [] \<and> \<not> isValidServiceType serviceType)
       (parameter_must ''type'' ''one of ClusterIP, NodePort, LoadBalancer, ExternalName'')) (\<lambda>_.
     and_then (attempt (NormalizeLimit (ke_oor ke) params)) (\<lambda>limit.
     and_then (clientset_of client) (\<lambda>cs.
     and_then (attempt (ra_List (ke_Services ke cs namespace)
       \<lparr>lso_LabelSelector = labelSelector, lso_FieldSelector = fieldSelector, lso_Limit = limit\<rparr>)) (\<lambda>items.
     Go (list_result ''services'' (map (flattenServiceSummary ke)
       (filter (\<lambda>svc. serviceType = [] \<or> svc_Type svc = serviceType) items)))))))))))"

definition serviceGet_Execute :: "('cs, 'dy) kube_task" where
  "serviceGet_Execute ke = get_task ''service'' (ke_Services ke) (Go \<circ> flattenServiceDetail ke) ke"

section \<open>Endpoints\<close>

definition flattenEndpointsPorts :: "EndpointPort list \<Rightarrow> gvalue list" where
  "flattenEndpointsPorts ports =
     map (\<lambda>p. json_object [j_str ''name'' (ep_Name p), j_int32 ''port'' (ep_Port p), j_str ''protocol'' (ep_Protocol p)]) ports"

definition flattenEndpointsSubsets :: "EndpointSubset list \<Rightarrow> gvalue list" where
  "flattenEndpointsSubsets subsets =
     map (\<lambda>s. json_object [j_strs ''addresses'' (es_Addresses s), j_list ''ports'' (flattenEndpointsPorts (es_Ports s)),
                j_strs ''not_ready_addresses'' (es_NotReadyAddresses s)]) subsets"

definition flattenEndpoints :: "('cs, 'dy) kube_env \<Rightarrow> Endpoints \<Rightarrow> gvalue" where
  "flattenEndpoints ke e =
     json_object [j_str ''name'' (om_Name (eps_Meta e)), j_str ''namespace'' (om_Namespace (eps_Meta e)),
       j_list ''subsets'' (flattenEndpointsSubsets (eps_Subsets e)), j_str ''age'' (age_of ke (eps_Meta e))]"

definition endpointsList_Execute :: "('cs, 'dy) kube_task" where
  "endpointsList_Execute ke = list_task True True True ''endpoints'' (ke_Endpoints ke) (flattenEndpoints ke) ke"

definition endpointsGet_Execute :: "('cs, 'dy) kube_task" where
  "endpointsGet_Execute ke = get_task ''endpoints'' (ke_Endpoints ke) (Go \<circ> flattenEndpoints ke) ke"

definition valueOrEmpty :: "gostring option \<Rightarrow> gostring" where
  "valueOrEmpty v = (case v of None \<Rightarrow> [] | Some s \<Rightarrow> s)"

definition kube_int32Value :: "int option \<Rightarrow> int" where
  "kube_int32Value v = (case v of None \<Rightarrow> 0 | Some n \<Rightarrow> n)"

definition kube_boolValue :: "bool option \<Rightarrow> bool" where
  "kube_boolValue v = (case v of None \<Rightarrow> False | Some b \<Rightarrow> b)"

definition protocolValue :: "gostring option \<Rightarrow> gostring" where
  "protocolValue v = (case v of None \<Rightarrow> [] | Some p \<Rightarrow> p)"

definition firstAddress :: "gostring list \<Rightarrow> gostring" where
  "firstAddress as = (case as of [] \<Rightarrow> [] | a # _ \<Rightarrow> a)"

definition flattenEndpointSlicePorts :: "SlicePort list \<Rightarrow> gvalue list" where
  "flattenEndpointSlicePorts ports =
     map (\<lambda>p. json_object [j_str ''name'' (valueOrEmpty (slp_Name p)), j_int32 ''port'' (kube_int32Value (slp_Port p)),
                j_str ''protocol'' (protocolValue (slp_Protocol p))]) ports"

definition flattenEndpointSliceEndpoints :: "SliceEndpoint list \<Rightarrow> gvalue list" where
  "flattenEndpointSliceEndpoints es =
     map (\<lambda>e. json_object [j_str ''address'' (firstAddress (sle_Addresses e)), j_bool ''ready'' (kube_boolValue (sle_Ready e)),
                j_bool ''serving'' (kube_boolValue (sle_Serving e)), j_bool ''terminating'' (kube_boolValue (sle_Terminating e)),
                j_str ''node_name'' (valueOrEmpty (sle_NodeName e))]) es"

definition flattenEndpointSlice :: "('cs, 'dy) kube_env \<Rightarrow> EndpointSlice \<Rightarrow> gvalue" where
  "flattenEndpointSlice ke e =
     json_object [j_str ''name'' (om_Name (esl_Meta e)), j_str ''namespace'' (om_Namespace (esl_Meta e)),
       j_str ''service_name'' (valueOrEmpty (map_of (om_Labels (esl_Meta e)) (ke_LabelServiceName ke))),
       j_list ''ports'' (flattenEndpointSlicePorts (esl_Ports e)),
       j_list ''endpoints'' (flattenEndpointSliceEndpoints (esl_Endpoints e)), j_str ''age'' (age_of ke (esl_Meta e))]"

definition endpointSliceList_Execute :: "('cs, 'dy) kube_task" where
  "endpointSliceList_Execute ke =
     list_task True True False ''endpoint_slices'' (ke_EndpointSlices ke) (flattenEndpointSlice ke) ke"

definition endpointSliceGet_Execute :: "('cs, 'dy) kube_task" where
  "endpointSliceGet_Execute ke = get_task ''endpoint_slice'' (ke_EndpointSlices ke) (Go \<circ> flattenEndpointSlice ke) ke"

section \<open>Ingresses\<close>

definition flattenIngressSummary :: "('cs, 'dy) kube_env \<Rightarrow> Ingress \<Rightarrow> gvalue" where
  "flattenIngressSummary ke ing =
     json_object [j_str ''name'' (om_Name (ing_Meta ing)), j_str ''namespace'' (om_Namespace (ing_Meta ing)),
       j_str ''class'' (valueOrEmpty (ing_IngressClassName ing)),
       j_strs ''hosts'' (filter (\<lambda>h. h \<noteq> []) (map ir_Host (ing_Rules ing))),
       j_strs ''tls_hosts'' (concat (map it_Hosts (ing_TLS ing))), j_int ''rules_count'' (int (length (ing_Rules ing))),
       j_str ''age'' (age_of ke (ing_Meta ing))]"

text \<open>This listing makes its slice, so that it is not nil without items.\<close>

definition ingressList_Execute :: "('cs, 'dy) kube_task" where
  "ingressList_Execute ke client params =
     and_then (list_request (ke_oor ke) True True True params) (\<lambda>(namespace, opts).
     and_then (clientset_of client) (\<lambda>cs.
     and_then (attempt (ra_List (ke_Ingresses ke cs namespace) opts)) (\<lambda>items.
     Go (VMap [(''ingresses'', VList (map (flattenIngressSummary ke) items)), (''count'', VInt (int (length items)))]))))"

definition ingressBackendString :: "(gostring \<times> gostring \<times> int) option \<Rightarrow> gostring" where
  "ingressBackendString backend =
     (case backend of
        None \<Rightarrow> []
      | Some (name, portName, portNumber) \<Rightarrow>
          ''Service/'' @ name @ '':'' @ (if portName = [] then Itoa portNumber else portName))"

definition ingressLoadBalancerString :: "(gostring \<times> gostring) list \<Rightarrow> gostring" where
  "ingressLoadBalancerString items =
     (case items of [] \<Rightarrow> [] | (ip, hostname) # _ \<Rightarrow> if ip \<noteq> [] then ip else hostname)"

definition ingressPathDetail :: "IngressPath \<Rightarrow> gvalue" where
  "ingressPathDetail p =
     json_object [j_str ''path'' (ip_Path p), j_str ''path_type'' (valueOrEmpty (ip_PathType p)),
       j_str ''backend'' (ingressBackendString (ip_Backend p))]"

definition ingressRuleDetail :: "IngressRule \<Rightarrow> gvalue" where
  "ingressRuleDetail r =
     json_object [j_str ''host'' (ir_Host r),
       j_list ''paths'' (case ir_HTTP r of None \<Rightarrow> [] | Some paths \<Rightarrow> map ingressPathDetail paths)]"

text \<open>The status is a structure without \<open>omitempty\<close>.\<close>

definition flattenIngressDetail :: "('cs, 'dy) kube_env \<Rightarrow> Ingress \<Rightarrow> gvalue" where
  "flattenIngressDetail ke ing =
     json_object [j_str ''name'' (om_Name (ing_Meta ing)), j_str ''namespace'' (om_Namespace (ing_Meta ing)),
       j_str ''class'' (valueOrEmpty (ing_IngressClassName ing)), j_list ''rules'' (map ingressRuleDetail (ing_Rules ing)),
       j_list ''tls'' (map (\<lambda>t. json_object [j_strs ''hosts'' (it_Hosts t), j_str ''secret_name'' (it_SecretName t)])
                         (ing_TLS ing)),
       [(''status'', json_object [j_str ''load_balancer'' (ingressLoadBalancerString (ing_LoadBalancer ing))])],
       j_str ''age'' (age_of ke (ing_Meta ing))]"

definition ingressGet_Execute :: "('cs, 'dy) kube_task" where
  "ingressGet_Execute ke = get_task ''ingress'' (ke_Ingresses ke) (Go \<circ> flattenIngressDetail ke) ke"

section \<open>Network policies\<close>

text \<open>Labels are copied; the empty map and nil are the same here.\<close>

definition matchLabelsOrEmpty :: "labels \<Rightarrow> labels" where
  "matchLabelsOrEmpty ls = ls"

definition flattenPolicyTypes :: "gostring list \<Rightarrow> gostring list" where
  "flattenPolicyTypes ts = ts"

definition flattenNetworkPolicy :: "('cs, 'dy) kube_env \<Rightarrow> NetworkPolicy \<Rightarrow> gvalue" where
  "flattenNetworkPolicy ke np =
     json_object [j_str ''name'' (om_Name (np_Meta np)), j_str ''namespace'' (om_Namespace (np_Meta np)),
       j_labels ''pod_selector'' (matchLabelsOrEmpty (np_PodSelector np)),
       j_strs ''policy_types'' (flattenPolicyTypes (np_PolicyTypes np)),
       j_int ''ingress_rules_count'' (int (length (np_Ingress np))),
       j_int ''egress_rules_count'' (int (length (np_Egress np))), j_str ''age'' (age_of ke (np_Meta np))]"

definition networkPolicyList_Execute :: "('cs, 'dy) kube_task" where
  "networkPolicyList_Execute ke =
     list_task True True False ''network_policies'' (ke_NetworkPolicies ke) (flattenNetworkPolicy ke) ke"

definition selectorPointerMatchLabels :: "labels option \<Rightarrow> labels" where
  "selectorPointerMatchLabels s = (case s of None \<Rightarrow> [] | Some ls \<Rightarrow> ls)"

definition flattenPeers :: "NetworkPolicyPeer list \<Rightarrow> gvalue list" where
  "flattenPeers peers =
     map (\<lambda>p. json_object [j_labels ''pod_selector'' (selectorPointerMatchLabels (npe_PodSelector p)),
                j_labels ''namespace_selector'' (selectorPointerMatchLabels (npe_NamespaceSelector p)),
                j_strs ''cidr_blocks'' (case npe_IPBlock p of None \<Rightarrow> [] | Some (cidr, except) \<Rightarrow> cidr # except)]) peers"

definition networkPolicyPortValue :: "IntOrString option \<Rightarrow> gostring" where
  "networkPolicyPortValue v = (case v of None \<Rightarrow> [] | Some (StrVal s) \<Rightarrow> s | Some (IntVal n) \<Rightarrow> Itoa n)"

definition flattenNetworkPolicyPorts :: "NetworkPolicyPort list \<Rightarrow> gvalue list" where
  "flattenNetworkPolicyPorts ports =
     map (\<lambda>p. json_object [j_str ''protocol'' (protocolValue (npp_Protocol p)),
                j_str ''port'' (networkPolicyPortValue (npp_Port p))]) ports"

definition flattenIngressRules :: "NetworkPolicyRule list \<Rightarrow> gvalue list" where
  "flattenIngressRules rs =
     map (\<lambda>r. json_object [j_list ''from'' (flattenPeers (npr_Peers r)),
                j_list ''ports'' (flattenNetworkPolicyPorts (npr_Ports r))]) rs"

definition flattenEgressRules :: "NetworkPolicyRule list \<Rightarrow> gvalue list" where
  "flattenEgressRules rs =
     map (\<lambda>r. json_object [j_list ''to'' (flattenPeers (npr_Peers r)),
                j_list ''ports'' (flattenNetworkPolicyPorts (npr_Ports r))]) rs"

definition flattenNetworkPolicyDetail :: "('cs, 'dy) kube_env \<Rightarrow> NetworkPolicy \<Rightarrow> gvalue" where
  "flattenNetworkPolicyDetail ke np =
     json_object [j_str ''name'' (om_Name (np_Meta np)), j_str ''namespace'' (om_Namespace (np_Meta np)),
       j_labels ''pod_selector'' (matchLabelsOrEmpty (np_PodSelector np)),
       j_strs ''policy_types'' (flattenPolicyTypes (np_PolicyTypes np)),
       j_list ''ingress'' (flattenIngressRules (np_Ingress np)), j_list ''egress'' (flattenEgressRules (np_Egress np)),
       j_str ''age'' (age_of ke (np_Meta np))]"

definition networkPolicyGet_Execute :: "('cs, 'dy) kube_task" where
  "networkPolicyGet_Execute ke =
     get_task ''network_policy'' (ke_NetworkPolicies ke) (Go \<circ> flattenNetworkPolicyDetail ke) ke"

section \<open>Roles and bindings\<close>

definition flattenRole :: "('cs, 'dy) kube_env \<Rightarrow> Role \<Rightarrow> gvalue" where
  "flattenRole ke r =
     json_object [j_str ''name'' (om_Name (role_Meta r)), j_str ''namespace'' (om_Namespace (role_Meta r)),
       j_int ''rules_count'' (int (length (role_Rules r))), j_str ''age'' (age_of ke (role_Meta r))]"

definition sortedStringSlice :: "gostring list \<Rightarrow> gostring list" where
  "sortedStringSlice items = sort items"

definition flattenPolicyRule :: "PolicyRule \<Rightarrow> gvalue" where
  "flattenPolicyRule p =
     json_object [j_strs ''verbs'' (sortedStringSlice (pol_Verbs p)), j_strs ''api_groups'' (sortedStringSlice (pol_APIGroups p)),
       j_strs ''resources'' (sortedStringSlice (pol_Resources p)),
       j_strs ''resource_names'' (sortedStringSlice (pol_ResourceNames p))]"

definition flattenRoleDetail :: "('cs, 'dy) kube_env \<Rightarrow> Role \<Rightarrow> gvalue" where
  "flattenRoleDetail ke r =
     json_object [j_str ''name'' (om_Name (role_Meta r)), j_str ''namespace'' (om_Namespace (role_Meta r)),
       j_list ''rules'' (map flattenPolicyRule (role_Rules r)), j_str ''age'' (age_of ke (role_Meta r))]"

definition roleList_Execute :: "('cs, 'dy) kube_task" where
  "roleList_Execute ke = list_task True True False ''roles'' (ke_Roles ke) (flattenRole ke) ke"

definition roleGet_Execute :: "('cs, 'dy) kube_task" where
  "roleGet_Execute ke = get_task ''role'' (ke_Roles ke) (Go \<circ> flattenRoleDetail ke) ke"

definition flattenClusterRole :: "('cs, 'dy) kube_env \<Rightarrow> Role \<Rightarrow> gvalue" where
  "flattenClusterRole ke r =
     json_object [j_str ''name'' (om_Name (role_Meta r)), j_int ''rules_count'' (int (length (role_Rules r))),
       j_str ''age'' (age_of ke (role_Meta r))]"

definition flattenClusterRoleDetail :: "('cs, 'dy) kube_env \<Rightarrow> Role \<Rightarrow> gvalue" where
  "flattenClusterRoleDetail ke r =
     json_object [j_str ''name'' (om_Name (role_Meta r)), j_list ''rules'' (map flattenPolicyRule (role_Rules r)),
       j_str ''age'' (age_of ke (role_Meta r))]"

definition clusterRoleList_Execute :: "('cs, 'dy) kube_task" where
  "clusterRoleList_Execute ke =
     list_task False True False ''cluster_roles'' (\<lambda>cs _. ke_ClusterRoles ke cs) (flattenClusterRole ke) ke"

definition clusterRoleGet_Execute :: "('cs, 'dy) kube_task" where
  "clusterRoleGet_Execute ke = get_cluster_task ''cluster_role'' (ke_ClusterRoles ke) (flattenClusterRoleDetail ke) ke"

definition formatRoleRef :: "RoleRef \<Rightarrow> gostring" where
  "formatRoleRef r = ref_Kind r @ ''/'' @ ref_Name r"

definition flattenRoleBinding :: "('cs, 'dy) kube_env \<Rightarrow> RoleBinding \<Rightarrow> gvalue" where
  "flattenRoleBinding ke b =
     json_object [j_str ''name'' (om_Name (rbi_Meta b)), j_str ''namespace'' (om_Namespace (rbi_Meta b)),
       j_str ''role_ref'' (formatRoleRef (rbi_RoleRef b)), j_int ''subjects_count'' (int (length (rbi_Subjects b))),
       j_str ''age'' (age_of ke (rbi_Meta b))]"

definition subjectDetail :: "Subject \<Rightarrow> gvalue" where
  "subjectDetail s =
     json_object [j_str ''kind'' (sub_Kind s), j_str ''name'' (sub_Name s), j_str ''namespace'' (sub_Namespace s)]"

definition flattenRoleBindingDetail :: "('cs, 'dy) kube_env \<Rightarrow> RoleBinding \<Rightarrow> gvalue" where
  "flattenRoleBindingDetail ke b =
     json_object [j_str ''name'' (om_Name (rbi_Meta b)), j_str ''namespace'' (om_Namespace (rbi_Meta b)),
       j_str ''role_ref'' (formatRoleRef (rbi_RoleRef b)), j_list ''subjects'' (map subjectDetail (rbi_Subjects b)),
       j_str ''age'' (age_of ke (rbi_Meta b))]"

definition roleBindingList_Execute :: "('cs, 'dy) kube_task" where
  "roleBindingList_Execute ke = list_task True True False ''role_bindings'' (ke_RoleBindings ke) (flattenRoleBinding ke) ke"

definition roleBindingGet_Execute :: "('cs, 'dy) kube_task" where
  "roleBindingGet_Execute ke = get_task ''role_binding'' (ke_RoleBindings ke) (Go \<circ> flattenRoleBindingDetail ke) ke"

definition flattenClusterRoleBinding :: "('cs, 'dy) kube_env \<Rightarrow> RoleBinding \<Rightarrow> gvalue" where
  "flattenClusterRoleBinding ke b =
     json_object [j_str ''name'' (om_Name (rbi_Meta b)), j_str ''role_ref'' (formatRoleRef (rbi_RoleRef b)),
       j_int ''subjects_count'' (int (length (rbi_Subjects b))), j_str ''age'' (age_of ke (rbi_Meta b))]"

definition flattenClusterRoleBindingDetail :: "('cs, 'dy) kube_env \<Rightarrow> RoleBinding \<Rightarrow> gvalue" where
  "flattenClusterRoleBindingDetail ke b =
     json_object [j_str ''name'' (om_Name (rbi_Meta b)), j_str ''role_ref'' (formatRoleRef (rbi_RoleRef b)),
       j_list ''subjects'' (map subjectDetail (rbi_Subjects b)), j_str ''age'' (age_of ke (rbi_Meta b))]"

definition clusterRoleBindingList_Execute :: "('cs, 'dy) kube_task" where
  "clusterRoleBindingList_Execute ke =
     list_task False True False ''cluster_role_bindings'' (\<lambda>cs _. ke_ClusterRoleBindings ke cs)
       (flattenClusterRoleBinding ke) ke"

definition clusterRoleBindingGet_Execute :: "('cs, 'dy) kube_task" where
  "clusterRoleBindingGet_Execute ke =
     get_cluster_task ''cluster_role_binding'' (ke_ClusterRoleBindings ke) (flattenClusterRoleBindingDetail ke) ke"

end
