(* ===== verification/Kubernetes_Safety.thy ===== *)
theory Kubernetes_Safety
  imports Kubernetes_Workloads Kubernetes_Cluster Kubernetes_Network
begin

text \<open>
  The tasks of the Kubernetes provider together: which of them can panic, that every listing they ask the
  server for is limited, and what the answers on events, configuration maps and groups of the API hold.
\<close>

section \<open>The tasks by name\<close>

text \<open>A task gets the limit of log lines of the first configuration, the library, the client and the parameters.\<close>

type_synonym ('cs, 'dy) kube_body = "int \<Rightarrow> ('cs, 'dy) kube_task"

definition kubernetes_bodies :: "(gostring \<times> ('cs, 'dy) kube_body) list" where
  "kubernetes_bodies =
     [(''kubernetes.pod.list'', \<lambda>_. podList_Execute), (''kubernetes.pod.get'', \<lambda>_. podGet_Execute),
      (''kubernetes.pod.describe'', \<lambda>_. podDescribe_Execute), (''kubernetes.pod.get_full'', \<lambda>_. podGetFull_Execute),
      (''kubernetes.pod.logs'', \<lambda>mx ke. podLogs_Execute (ke_oor ke) (ke_lower ke) (ke_GetLogs ke) mx),
      (''kubernetes.deployment.list'', \<lambda>_. deploymentList_Execute),
      (''kubernetes.deployment.get'', \<lambda>_. deploymentGet_Execute),
      (''kubernetes.replicaset.list'', \<lambda>_. replicaSetList_Execute),
      (''kubernetes.replicaset.get'', \<lambda>_. replicaSetGet_Execute),
      (''kubernetes.statefulset.list'', \<lambda>_. statefulSetList_Execute),
      (''kubernetes.statefulset.get'', \<lambda>_. statefulSetGet_Execute),
      (''kubernetes.daemonset.list'', \<lambda>_. daemonSetList_Execute),
      (''kubernetes.daemonset.get'', \<lambda>_. daemonSetGet_Execute), (''kubernetes.job.list'', \<lambda>_. jobList_Execute),
      (''kubernetes.job.get'', \<lambda>_. jobGet_Execute), (''kubernetes.cronjob.list'', \<lambda>_. cronJobList_Execute),
      (''kubernetes.cronjob.get'', \<lambda>_. cronJobGet_Execute), (''kubernetes.event.list'', \<lambda>_. eventList_Execute),
      (''kubernetes.event.get'', \<lambda>_. eventGet_Execute), (''kubernetes.service.list'', \<lambda>_. serviceList_Execute),
      (''kubernetes.service.get'', \<lambda>_. serviceGet_Execute), (''kubernetes.endpoints.list'', \<lambda>_. endpointsList_Execute),
      (''kubernetes.endpoints.get'', \<lambda>_. endpointsGet_Execute),
      (''kubernetes.endpointslice.list'', \<lambda>_. endpointSliceList_Execute),
      (''kubernetes.endpointslice.get'', \<lambda>_. endpointSliceGet_Execute),
      (''kubernetes.networkpolicy.list'', \<lambda>_. networkPolicyList_Execute),
      (''kubernetes.networkpolicy.get'', \<lambda>_. networkPolicyGet_Execute),
      (''kubernetes.ingress.list'', \<lambda>_. ingressList_Execute), (''kubernetes.ingress.get'', \<lambda>_. ingressGet_Execute),
      (''kubernetes.node.list'', \<lambda>_. nodeList_Execute), (''kubernetes.node.get'', \<lambda>_. nodeGet_Execute),
      (''kubernetes.namespace.list'', \<lambda>_. kube_namespaceList_Execute),
      (''kubernetes.namespace.get'', \<lambda>_. namespaceGet_Execute), (''kubernetes.version.get'', \<lambda>_. versionGet_Execute),
      (''kubernetes.api_resources.list'', \<lambda>_. apiResourcesList_Execute),
      (''kubernetes.configmap.list'', \<lambda>_. configMapList_Execute), (''kubernetes.configmap.get'', \<lambda>_. configMapGet_Execute),
      (''kubernetes.serviceaccount.list'', \<lambda>_. serviceAccountList_Execute),
      (''kubernetes.serviceaccount.get'', \<lambda>_. serviceAccountGet_Execute),
      (''kubernetes.resourcequota.list'', \<lambda>_. resourceQuotaList_Execute),
      (''kubernetes.resourcequota.get'', \<lambda>_. resourceQuotaGet_Execute),
      (''kubernetes.limitrange.list'', \<lambda>_. limitRangeList_Execute),
      (''kubernetes.limitrange.get'', \<lambda>_. limitRangeGet_Execute), (''kubernetes.role.list'', \<lambda>_. roleList_Execute),
      (''kubernetes.role.get'', \<lambda>_. roleGet_Execute), (''kubernetes.rolebinding.list'', \<lambda>_. roleBindingList_Execute),
      (''kubernetes.rolebinding.get'', \<lambda>_. roleBindingGet_Execute),
      (''kubernetes.clusterrole.list'', \<lambda>_. clusterRoleList_Execute),
      (''kubernetes.clusterrole.get'', \<lambda>_. clusterRoleGet_Execute),
      (''kubernetes.clusterrolebinding.list'', \<lambda>_. clusterRoleBindingList_Execute),
      (''kubernetes.clusterrolebinding.get'', \<lambda>_. clusterRoleBindingGet_Execute),
      (''kubernetes.authorization.check'', \<lambda>_. authorizationCheck_Execute),
      (''kubernetes.custom_resource.list'', \<lambda>_. customResourceList_Execute),
      (''kubernetes.custom_resource.get'', \<lambda>_. customResourceGet_Execute)]"

lemma kubernetes_bodies_tasks: "map fst kubernetes_bodies = Kubernetes_tasks"
  by (simp add: kubernetes_bodies_def Kubernetes_tasks_def)

definition kubernetes_task :: "int \<Rightarrow> gostring \<Rightarrow> ('cs, 'dy) kube_task" where
  "kubernetes_task mx name = the (map_of kubernetes_bodies name) mx"

definition Kubernetes_Execute ::
  "('cs, 'dy) kube_env \<Rightarrow> ('cs, 'dy, ('cs, 'dy) kube_task) KubernetesProvider \<Rightarrow> ('cs, 'dy) kube_task \<Rightarrow> gmap \<Rightarrow>
     task_Result option" where
  "Kubernetes_Execute ke p t params = run_task (ke_now ke) (t ke (CurrentClient p) params)"

definition kubernetes_after ::
  "(gofloat \<Rightarrow> int) \<Rightarrow> ('rest, 'cs, 'dy) client_go \<Rightarrow> (gostring \<Rightarrow> gostring) \<Rightarrow> KubernetesConfig \<Rightarrow>
     (gostring \<times> gmap) list \<Rightarrow> ('cs, 'dy, ('cs, 'dy) kube_task) KubernetesProvider" where
  "kubernetes_after oor cg schema cfg us =
     run_updates (Kubernetes_UpdateConfig oor cg) us (Kubernetes_NewProvider cg schema kubernetes_task cfg)"

lemma kubernetes_after_task:
  fixes t :: "('cs, 'dy) kube_task"
  assumes "Provider_GetTask (kubernetes_after oor cg schema cfg us) name = Some t"
  shows "\<exists>body. (name, body) \<in> set kubernetes_bodies \<and> t = body (kube_MaxPodLogLines cfg)"
proof -
  from assms have n: "name \<in> set Kubernetes_tasks" and t: "t = kubernetes_task (kube_MaxPodLogLines cfg) name"
    by (auto simp: kubernetes_after_def Provider_GetTask_def kubernetes.base_run_updates Kubernetes_NewProvider_def
        task_base_def map_of_task_map split: if_splits)
  from n obtain body :: "('cs, 'dy) kube_body" where "map_of kubernetes_bodies name = Some body"
    by (metis kubernetes_bodies_tasks map_of_eq_None_iff list.set_map option.exhaust)
  with t show ?thesis by (auto simp: kubernetes_task_def dest: map_of_SomeD)
qed

lemmas kube_listing_defs =
  podList_Execute_def deploymentList_Execute_def replicaSetList_Execute_def statefulSetList_Execute_def
  daemonSetList_Execute_def jobList_Execute_def cronJobList_Execute_def eventList_Execute_def
  endpointsList_Execute_def endpointSliceList_Execute_def networkPolicyList_Execute_def nodeList_Execute_def
  kube_namespaceList_Execute_def configMapList_Execute_def serviceAccountList_Execute_def resourceQuotaList_Execute_def
  limitRangeList_Execute_def roleList_Execute_def roleBindingList_Execute_def clusterRoleList_Execute_def
  clusterRoleBindingList_Execute_def

lemmas kube_get_defs =
  podGet_Execute_def podGetFull_Execute_def deploymentGet_Execute_def replicaSetGet_Execute_def statefulSetGet_Execute_def
  daemonSetGet_Execute_def jobGet_Execute_def cronJobGet_Execute_def eventGet_Execute_def serviceGet_Execute_def
  endpointsGet_Execute_def endpointSliceGet_Execute_def networkPolicyGet_Execute_def ingressGet_Execute_def
  nodeGet_Execute_def namespaceGet_Execute_def configMapGet_Execute_def serviceAccountGet_Execute_def
  resourceQuotaGet_Execute_def limitRangeGet_Execute_def roleGet_Execute_def roleBindingGet_Execute_def
  clusterRoleGet_Execute_def clusterRoleBindingGet_Execute_def

lemmas kube_other_defs =
  podDescribe_Execute_def serviceList_Execute_def ingressList_Execute_def versionGet_Execute_def
  apiResourcesList_Execute_def authorizationCheck_Execute_def customResourceList_Execute_def
  customResourceGet_Execute_def

section \<open>Panics\<close>

lemma kube_clients_not_Panic [simp]: "clientset_of c \<noteq> Panic" "dynamicClient_of c \<noteq> Panic"
  by (auto simp: clientset_of_def dynamicClient_of_def split: option.splits)

lemma list_request_not_Panic [simp]: "list_request oor ns lb fd params \<noteq> Panic"
  by (simp add: list_request_def read_if_def and_then_Panic)

lemma list_task_not_Panic [simp]: "list_task ns lb fd key api flatten ke client params \<noteq> Panic"
  by (auto simp: list_task_def and_then_Panic)

lemma get_cluster_task_not_Panic [simp]: "get_cluster_task key api flatten ke client params \<noteq> Panic"
  by (simp add: get_cluster_task_def and_then_Panic)

lemma get_task_Panic:
  "get_task key api flatten ke client params = Panic \<longleftrightarrow>
     (\<exists>namespace name cs x. RequireString params ''namespace'' = Inr namespace \<and> RequireString params ''name'' = Inr name \<and>
        clientset_of client = Go cs \<and> ra_Get (api cs namespace) name = Inr x \<and> flatten x = Panic)"
  by (auto simp: get_task_def and_then_Panic)

lemma podLogs_Panic:
  assumes "podLogs_Execute oor lower getLogs mx client params = Panic"
  obtains n where "OptionalInt oor params ''tail_lines'' 100 = Inr n" "n < 0"
  using assms
  by (auto simp: podLogs_Execute_def extractLogContext_def and_then_Panic Let_def split: option.splits if_splits)

text \<open>When a task panics: negative \<open>tail_lines\<close>, or a deployment without a selector.\<close>

definition kube_panics :: "('cs, 'dy) kube_env \<Rightarrow> ('cs, 'dy) k8sClient option \<Rightarrow> gmap \<Rightarrow> gostring \<Rightarrow> bool" where
  "kube_panics ke client params name \<longleftrightarrow>
     (name = ''kubernetes.pod.logs'' \<and> (\<exists>n. OptionalInt (ke_oor ke) params ''tail_lines'' 100 = Inr n \<and> n < 0)) \<or>
     (name = ''kubernetes.deployment.get'' \<and>
        (\<exists>namespace n cs d. RequireString params ''namespace'' = Inr namespace \<and> RequireString params ''name'' = Inr n \<and>
           clientset_of client = Go cs \<and> ra_Get (ke_Deployments ke cs namespace) n = Inr d \<and> dep_Selector d = None))"

lemma kube_bodies_panic:
  "list_all (\<lambda>(name, body). body mx ke client params = Panic \<longrightarrow> kube_panics ke client params name) kubernetes_bodies"
proof -
  have gets: "get_task key api (Go \<circ> f) ke client params \<noteq> Panic" for key and api :: "'a \<Rightarrow> gostring \<Rightarrow> 'x resource_api" and f
    by (simp add: get_task_Panic)
  have full: "podGetFull_Execute ke client params \<noteq> Panic"
    by (auto simp: podGetFull_Execute_def get_task_Panic and_then_Panic)
  have dep: "deploymentGet_Execute ke client params = Panic \<Longrightarrow> kube_panics ke client params ''kubernetes.deployment.get''"
    by (auto simp: deploymentGet_Execute_def get_task_Panic flattenDeploymentDetail_def kube_panics_def split: option.splits)
  have logs: "podLogs_Execute (ke_oor ke) (ke_lower ke) (ke_GetLogs ke) mx client params = Panic \<Longrightarrow>
      kube_panics ke client params ''kubernetes.pod.logs''"
    by (auto simp: kube_panics_def elim: podLogs_Panic)
  have others:
    "podDescribe_Execute ke client params \<noteq> Panic" "serviceList_Execute ke client params \<noteq> Panic"
    "ingressList_Execute ke client params \<noteq> Panic" "versionGet_Execute ke client params \<noteq> Panic"
    "apiResourcesList_Execute ke client params \<noteq> Panic" "authorizationCheck_Execute ke client params \<noteq> Panic"
    "customResourceList_Execute ke client params \<noteq> Panic" "customResourceGet_Execute ke client params \<noteq> Panic"
    by (auto simp: kube_other_defs and_then_Panic Let_def split: option.splits prod.splits if_splits)
  show ?thesis
    unfolding kubernetes_bodies_def list.pred_inject prod.case
    by (intro conjI TrueI impI)
      (simp_all add: full others, auto simp: kube_listing_defs kube_get_defs gets intro: dep logs)
qed

text \<open>
  Claim C15. A Kubernetes task can panic in two ways only, whatever the updates were and whatever the server
  answers: \<open>pod.logs\<close> with a negative \<open>tail_lines\<close>, and \<open>deployment.get\<close> of a deployment without a
  selector. In particular a client that could not be made is an error of the task.
\<close>

theorem kubernetes_panics:
  assumes "Provider_GetTask (kubernetes_after oor cg schema cfg us) name = Some t"
    and "Kubernetes_Execute ke (kubernetes_after oor cg schema cfg us) t params = None"
  shows "kube_panics ke (CurrentClient (kubernetes_after oor cg schema cfg us)) params name"
proof -
  from kubernetes_after_task [OF assms(1)] obtain body
    where body: "(name, body) \<in> set kubernetes_bodies" "t = body (kube_MaxPodLogLines cfg)" by blast
  from kube_bodies_panic [of "kube_MaxPodLogLines cfg" ke "CurrentClient (kubernetes_after oor cg schema cfg us)" params]
    body(1) have "body (kube_MaxPodLogLines cfg) ke (CurrentClient (kubernetes_after oor cg schema cfg us)) params = Panic \<longrightarrow>
      kube_panics ke (CurrentClient (kubernetes_after oor cg schema cfg us)) params name"
    by (auto simp: list_all_iff)
  with assms(2) body(2) show ?thesis by (simp add: Kubernetes_Execute_def)
qed


subsection \<open>Panics that happen\<close>

definition no_resource :: "'a resource_api" where
  "no_resource = \<lparr>ra_List = (\<lambda>_. Inl ''not found''), ra_Get = (\<lambda>_. Inl ''not found'')\<rparr>"

definition sample_kube :: "(unit, unit) kube_env" where
  "sample_kube =
     \<lparr>ke_oor = (\<lambda>_. 0), ke_now = 0, ke_RFC3339 = (\<lambda>_. ''2026-01-01T00:00:00Z''), ke_lower = (\<lambda>s. s),
      ke_unmarshal = (\<lambda>_. Inr []), ke_LabelServiceName = ''kubernetes.io/service-name'',
      ke_Pods = (\<lambda>_ _. no_resource), ke_GetLogs = (\<lambda>_ _ _ _. Inr (''started'' @ [CHR 0x0A])),
      ke_Deployments = (\<lambda>_ _. no_resource), ke_ReplicaSets = (\<lambda>_ _. no_resource), ke_StatefulSets = (\<lambda>_ _. no_resource),
      ke_DaemonSets = (\<lambda>_ _. no_resource), ke_Jobs = (\<lambda>_ _. no_resource), ke_CronJobs = (\<lambda>_ _. no_resource),
      ke_Events = (\<lambda>_ _. no_resource), ke_Services = (\<lambda>_ _. no_resource), ke_Endpoints = (\<lambda>_ _. no_resource),
      ke_EndpointSlices = (\<lambda>_ _. no_resource), ke_NetworkPolicies = (\<lambda>_ _. no_resource),
      ke_Ingresses = (\<lambda>_ _. no_resource), ke_Nodes = (\<lambda>_. no_resource), ke_Namespaces = (\<lambda>_. no_resource),
      ke_ConfigMaps = (\<lambda>_ _. no_resource), ke_ServiceAccounts = (\<lambda>_ _. no_resource),
      ke_ResourceQuotas = (\<lambda>_ _. no_resource), ke_LimitRanges = (\<lambda>_ _. no_resource), ke_Roles = (\<lambda>_ _. no_resource),
      ke_RoleBindings = (\<lambda>_ _. no_resource), ke_ClusterRoles = (\<lambda>_. no_resource),
      ke_ClusterRoleBindings = (\<lambda>_. no_resource), ke_ServerVersion = (\<lambda>_. Inl ''no version''),
      ke_ServerGroupsAndResources = (\<lambda>_. ([], [], None)), ke_SubjectAccessReviews = (\<lambda>_ _. Inr (False, [])),
      ke_SelfSubjectAccessReviews = (\<lambda>_ _. Inr (True, [])), ke_Resource = (\<lambda>_ _ _. no_resource)\<rparr>"

definition sample_client_go :: "(unit, unit, unit) client_go" where
  "sample_client_go =
     \<lparr>cg_InClusterConfig = Inr (), cg_defaultRules = (\<lambda>_. Inr ()), cg_explicitPath = (\<lambda>_ _. Inr ()),
      cg_newClientset = (\<lambda>_. Inr ()), cg_newDynamic = (\<lambda>_. Inr ())\<rparr>"

definition sample_kube_config :: KubernetesConfig where
  "sample_kube_config =
     \<lparr>kube_KubeconfigPath = [], kube_Context = [], kube_Namespace = [], kube_MaxPodLogLines = 100\<rparr>"

definition negative_tail :: gmap where
  "negative_tail = [(''namespace'', VString ''n''), (''name'', VString ''p''), (''tail_lines'', VInt (- 1))]"

lemma sample_kube_client:
  "CurrentClient (kubernetes_after oor sample_client_go schema sample_kube_config []) =
     Some \<lparr>k8_clientset = Some (), k8_dynamicClient = Some (), k8_initErr = None\<rparr>"
  by (simp add: kubernetes_after_def Kubernetes_NewProvider_def CurrentClient_def State_Client_def NewState_def newK8sClient_def
      newRESTConfig_def sample_client_go_def sample_kube_config_def Let_def)

theorem kubernetes_panics_witness:
  "kube_panics sample_kube (CurrentClient (kubernetes_after (\<lambda>_. 0) sample_client_go (\<lambda>_. []) sample_kube_config []))
     negative_tail ''kubernetes.pod.logs''"
proof -
  let ?p = "kubernetes_after (\<lambda>_. 0) sample_client_go (\<lambda>_. []) sample_kube_config []"
  have t: "Provider_GetTask ?p ''kubernetes.pod.logs'' = Some (kubernetes_task 100 ''kubernetes.pod.logs'')"
    by (simp add: kubernetes_after_def Provider_GetTask_def Kubernetes_NewProvider_def task_base_def map_of_task_map
        Kubernetes_tasks_def sample_kube_config_def)
  have "podLogs_Execute (ke_oor sample_kube) (ke_lower sample_kube) (ke_GetLogs sample_kube) 100
      (Some \<lparr>k8_clientset = Some (), k8_dynamicClient = Some (), k8_initErr = None\<rparr>) negative_tail = Panic"
    unfolding negative_tail_def
    by (rule negative_tail_panics) (simp_all add: sample_kube_def)
  then have "Kubernetes_Execute sample_kube ?p (kubernetes_task 100 ''kubernetes.pod.logs'') negative_tail = None"
    by (simp add: Kubernetes_Execute_def sample_kube_client kubernetes_task_def kubernetes_bodies_def)
  then show ?thesis by (rule kubernetes_panics [OF t])
qed

lemma deployment_without_selector_panics:
  assumes "dep_Selector d = None" "clientset_of client = Go cs"
    and "RequireString params ''namespace'' = Inr namespace" "RequireString params ''name'' = Inr name"
    and "ra_Get (ke_Deployments ke cs namespace) name = Inr d"
  shows "deploymentGet_Execute ke client params = Panic"
  using assms by (simp add: deploymentGet_Execute_def get_task_def flattenDeploymentDetail_def)

section \<open>Limits of listings\<close>

text \<open>The library whose server refuses the listings that are not admitted.\<close>

definition refusing :: "(ListOptions \<Rightarrow> bool) \<Rightarrow> 'a resource_api \<Rightarrow> 'a resource_api" where
  "refusing ok api = api\<lparr>ra_List := (\<lambda>opts. if ok opts then ra_List api opts else Inl ''refused'')\<rparr>"

definition refusing_server :: "(ListOptions \<Rightarrow> bool) \<Rightarrow> ('cs, 'dy) kube_env \<Rightarrow> ('cs, 'dy) kube_env" where
  "refusing_server ok ke =
     ke\<lparr>ke_Pods := (\<lambda>cs ns. refusing ok (ke_Pods ke cs ns)), ke_Deployments := (\<lambda>cs ns. refusing ok (ke_Deployments ke cs ns)),
        ke_ReplicaSets := (\<lambda>cs ns. refusing ok (ke_ReplicaSets ke cs ns)),
        ke_StatefulSets := (\<lambda>cs ns. refusing ok (ke_StatefulSets ke cs ns)),
        ke_DaemonSets := (\<lambda>cs ns. refusing ok (ke_DaemonSets ke cs ns)), ke_Jobs := (\<lambda>cs ns. refusing ok (ke_Jobs ke cs ns)),
        ke_CronJobs := (\<lambda>cs ns. refusing ok (ke_CronJobs ke cs ns)), ke_Events := (\<lambda>cs ns. refusing ok (ke_Events ke cs ns)),
        ke_Services := (\<lambda>cs ns. refusing ok (ke_Services ke cs ns)),
        ke_Endpoints := (\<lambda>cs ns. refusing ok (ke_Endpoints ke cs ns)),
        ke_EndpointSlices := (\<lambda>cs ns. refusing ok (ke_EndpointSlices ke cs ns)),
        ke_NetworkPolicies := (\<lambda>cs ns. refusing ok (ke_NetworkPolicies ke cs ns)),
        ke_Ingresses := (\<lambda>cs ns. refusing ok (ke_Ingresses ke cs ns)), ke_Nodes := (\<lambda>cs. refusing ok (ke_Nodes ke cs)),
        ke_Namespaces := (\<lambda>cs. refusing ok (ke_Namespaces ke cs)),
        ke_ConfigMaps := (\<lambda>cs ns. refusing ok (ke_ConfigMaps ke cs ns)),
        ke_ServiceAccounts := (\<lambda>cs ns. refusing ok (ke_ServiceAccounts ke cs ns)),
        ke_ResourceQuotas := (\<lambda>cs ns. refusing ok (ke_ResourceQuotas ke cs ns)),
        ke_LimitRanges := (\<lambda>cs ns. refusing ok (ke_LimitRanges ke cs ns)), ke_Roles := (\<lambda>cs ns. refusing ok (ke_Roles ke cs ns)),
        ke_RoleBindings := (\<lambda>cs ns. refusing ok (ke_RoleBindings ke cs ns)),
        ke_ClusterRoles := (\<lambda>cs. refusing ok (ke_ClusterRoles ke cs)),
        ke_ClusterRoleBindings := (\<lambda>cs. refusing ok (ke_ClusterRoleBindings ke cs)),
        ke_Resource := (\<lambda>d gvr ns. refusing ok (ke_Resource ke d gvr ns))\<rparr>"

definition limited_list :: "ListOptions \<Rightarrow> bool" where
  "limited_list opts \<longleftrightarrow> 1 \<le> lso_Limit opts \<and> lso_Limit opts \<le> 1000"

lemma refusing_Get [simp]: "ra_Get (refusing ok api) = ra_Get api"
  by (simp add: refusing_def)

lemma refusing_List [simp]: "ok opts \<Longrightarrow> ra_List (refusing ok api) opts = ra_List api opts"
  by (simp add: refusing_def)

lemma NormalizeLimit_limited: "NormalizeLimit oor params = Inr n \<Longrightarrow> 1 \<le> n \<and> n \<le> 1000"
  by (auto simp: NormalizeLimit_def split: sum.splits if_splits)

lemma list_request_limited: "list_request oor ns lb fd params = Go (namespace, opts) \<Longrightarrow> limited_list opts"
  by (auto simp: list_request_def and_then_Go limited_list_def dest: NormalizeLimit_limited)

lemma list_task_refusing:
  "ke_oor ke' = ke_oor ke \<Longrightarrow>
   list_task ns lb fd key (\<lambda>cs ns. refusing limited_list (api cs ns)) flatten ke' client params =
     list_task ns lb fd key api flatten ke client params"
  unfolding list_task_def by (auto intro!: and_then_cong dest!: list_request_limited)

text \<open>What the printing of objects reads of the library does not change.\<close>

lemma refusing_server_simps [simp]:
  "ke_oor (refusing_server ok ke) = ke_oor ke" "ke_now (refusing_server ok ke) = ke_now ke"
  "ke_RFC3339 (refusing_server ok ke) = ke_RFC3339 ke" "ke_lower (refusing_server ok ke) = ke_lower ke"
  "ke_unmarshal (refusing_server ok ke) = ke_unmarshal ke"
  "ke_LabelServiceName (refusing_server ok ke) = ke_LabelServiceName ke" "ke_GetLogs (refusing_server ok ke) = ke_GetLogs ke"
  "ke_ServerVersion (refusing_server ok ke) = ke_ServerVersion ke"
  "ke_ServerGroupsAndResources (refusing_server ok ke) = ke_ServerGroupsAndResources ke"
  "ke_SubjectAccessReviews (refusing_server ok ke) = ke_SubjectAccessReviews ke"
  "ke_SelfSubjectAccessReviews (refusing_server ok ke) = ke_SelfSubjectAccessReviews ke"
  by (simp_all add: refusing_server_def)

text \<open>The flattening functions read the clock and the printing of times only.\<close>

lemma flatten_refusing [simp]:
  "age_of (refusing_server ok ke) = age_of ke" "time_or_empty (refusing_server ok ke) = time_or_empty ke"
  by (simp_all add: age_of_def time_or_empty_def fun_eq_iff cong: option.case_cong)

lemmas kube_flatten_defs =
  flattenEvent_def flattenPod_def flattenPodDetail_def flattenDeployment_def flattenDeploymentDetail_def
  replicaSetFields_def flattenReplicaSet_def flattenReplicaSetDetail_def statefulSetFields_def flattenStatefulSet_def
  flattenStatefulSetDetail_def daemonSetFields_def flattenDaemonSet_def flattenDaemonSetDetail_def jobFields_def
  flattenJob_def flattenJobDetail_def cronJobFields_def flattenCronJob_def flattenCronJobDetail_def nodeFields_def
  flattenNode_def flattenNodeDetail_def flattenNamespace_def flattenConfigMap_def flattenConfigMapDetail_def
  named_summary_def flattenLimitRange_def flattenLimitRangeDetail_def flattenResourceQuota_def
  flattenResourceQuotaDetail_def flattenServiceAccount_def serviceFields_def flattenServiceSummary_def
  flattenServiceDetail_def flattenEndpoints_def flattenEndpointSlice_def flattenIngressSummary_def
  flattenIngressDetail_def flattenNetworkPolicy_def flattenNetworkPolicyDetail_def flattenRole_def
  flattenRoleDetail_def flattenClusterRole_def flattenClusterRoleDetail_def flattenRoleBinding_def
  flattenRoleBindingDetail_def flattenClusterRoleBinding_def flattenClusterRoleBindingDetail_def

lemma flattens_refusing:
  "flattenEvent (refusing_server ok ke) = flattenEvent ke" "flattenPod (refusing_server ok ke) = flattenPod ke"
  "flattenPodDetail (refusing_server ok ke) = flattenPodDetail ke"
  "flattenDeployment (refusing_server ok ke) = flattenDeployment ke"
  "flattenDeploymentDetail (refusing_server ok ke) = flattenDeploymentDetail ke"
  "flattenReplicaSet (refusing_server ok ke) = flattenReplicaSet ke"
  "flattenReplicaSetDetail (refusing_server ok ke) = flattenReplicaSetDetail ke"
  "flattenStatefulSet (refusing_server ok ke) = flattenStatefulSet ke"
  "flattenStatefulSetDetail (refusing_server ok ke) = flattenStatefulSetDetail ke"
  "flattenDaemonSet (refusing_server ok ke) = flattenDaemonSet ke"
  "flattenDaemonSetDetail (refusing_server ok ke) = flattenDaemonSetDetail ke"
  "flattenJob (refusing_server ok ke) = flattenJob ke" "flattenJobDetail (refusing_server ok ke) = flattenJobDetail ke"
  "flattenCronJob (refusing_server ok ke) = flattenCronJob ke"
  "flattenCronJobDetail (refusing_server ok ke) = flattenCronJobDetail ke"
  "flattenNode (refusing_server ok ke) = flattenNode ke" "flattenNodeDetail (refusing_server ok ke) = flattenNodeDetail ke"
  "flattenNamespace (refusing_server ok ke) = flattenNamespace ke"
  "flattenConfigMap (refusing_server ok ke) = flattenConfigMap ke"
  "flattenConfigMapDetail (refusing_server ok ke) = flattenConfigMapDetail ke"
  "flattenLimitRange (refusing_server ok ke) = flattenLimitRange ke"
  "flattenLimitRangeDetail (refusing_server ok ke) = flattenLimitRangeDetail ke"
  "flattenResourceQuota (refusing_server ok ke) = flattenResourceQuota ke"
  "flattenResourceQuotaDetail (refusing_server ok ke) = flattenResourceQuotaDetail ke"
  "flattenServiceAccount (refusing_server ok ke) = flattenServiceAccount ke"
  "flattenServiceSummary (refusing_server ok ke) = flattenServiceSummary ke"
  "flattenServiceDetail (refusing_server ok ke) = flattenServiceDetail ke"
  "flattenEndpoints (refusing_server ok ke) = flattenEndpoints ke"
  "flattenEndpointSlice (refusing_server ok ke) = flattenEndpointSlice ke"
  "flattenIngressSummary (refusing_server ok ke) = flattenIngressSummary ke"
  "flattenIngressDetail (refusing_server ok ke) = flattenIngressDetail ke"
  "flattenNetworkPolicy (refusing_server ok ke) = flattenNetworkPolicy ke"
  "flattenNetworkPolicyDetail (refusing_server ok ke) = flattenNetworkPolicyDetail ke"
  "flattenRole (refusing_server ok ke) = flattenRole ke" "flattenRoleDetail (refusing_server ok ke) = flattenRoleDetail ke"
  "flattenClusterRole (refusing_server ok ke) = flattenClusterRole ke"
  "flattenClusterRoleDetail (refusing_server ok ke) = flattenClusterRoleDetail ke"
  "flattenRoleBinding (refusing_server ok ke) = flattenRoleBinding ke"
  "flattenRoleBindingDetail (refusing_server ok ke) = flattenRoleBindingDetail ke"
  "flattenClusterRoleBinding (refusing_server ok ke) = flattenClusterRoleBinding ke"
  "flattenClusterRoleBindingDetail (refusing_server ok ke) = flattenClusterRoleBindingDetail ke"
  by (simp_all add: kube_flatten_defs fun_eq_iff cong: option.case_cong)

lemma refusing_server_apis:
  "ke_Pods (refusing_server ok ke) = (\<lambda>cs ns. refusing ok (ke_Pods ke cs ns))"
  "ke_Deployments (refusing_server ok ke) = (\<lambda>cs ns. refusing ok (ke_Deployments ke cs ns))"
  "ke_ReplicaSets (refusing_server ok ke) = (\<lambda>cs ns. refusing ok (ke_ReplicaSets ke cs ns))"
  "ke_StatefulSets (refusing_server ok ke) = (\<lambda>cs ns. refusing ok (ke_StatefulSets ke cs ns))"
  "ke_DaemonSets (refusing_server ok ke) = (\<lambda>cs ns. refusing ok (ke_DaemonSets ke cs ns))"
  "ke_Jobs (refusing_server ok ke) = (\<lambda>cs ns. refusing ok (ke_Jobs ke cs ns))"
  "ke_CronJobs (refusing_server ok ke) = (\<lambda>cs ns. refusing ok (ke_CronJobs ke cs ns))"
  "ke_Events (refusing_server ok ke) = (\<lambda>cs ns. refusing ok (ke_Events ke cs ns))"
  "ke_Services (refusing_server ok ke) = (\<lambda>cs ns. refusing ok (ke_Services ke cs ns))"
  "ke_Endpoints (refusing_server ok ke) = (\<lambda>cs ns. refusing ok (ke_Endpoints ke cs ns))"
  "ke_EndpointSlices (refusing_server ok ke) = (\<lambda>cs ns. refusing ok (ke_EndpointSlices ke cs ns))"
  "ke_NetworkPolicies (refusing_server ok ke) = (\<lambda>cs ns. refusing ok (ke_NetworkPolicies ke cs ns))"
  "ke_Ingresses (refusing_server ok ke) = (\<lambda>cs ns. refusing ok (ke_Ingresses ke cs ns))"
  "ke_Nodes (refusing_server ok ke) = (\<lambda>cs. refusing ok (ke_Nodes ke cs))"
  "ke_Namespaces (refusing_server ok ke) = (\<lambda>cs. refusing ok (ke_Namespaces ke cs))"
  "ke_ConfigMaps (refusing_server ok ke) = (\<lambda>cs ns. refusing ok (ke_ConfigMaps ke cs ns))"
  "ke_ServiceAccounts (refusing_server ok ke) = (\<lambda>cs ns. refusing ok (ke_ServiceAccounts ke cs ns))"
  "ke_ResourceQuotas (refusing_server ok ke) = (\<lambda>cs ns. refusing ok (ke_ResourceQuotas ke cs ns))"
  "ke_LimitRanges (refusing_server ok ke) = (\<lambda>cs ns. refusing ok (ke_LimitRanges ke cs ns))"
  "ke_Roles (refusing_server ok ke) = (\<lambda>cs ns. refusing ok (ke_Roles ke cs ns))"
  "ke_RoleBindings (refusing_server ok ke) = (\<lambda>cs ns. refusing ok (ke_RoleBindings ke cs ns))"
  "ke_ClusterRoles (refusing_server ok ke) = (\<lambda>cs. refusing ok (ke_ClusterRoles ke cs))"
  "ke_ClusterRoleBindings (refusing_server ok ke) = (\<lambda>cs. refusing ok (ke_ClusterRoleBindings ke cs))"
  "ke_Resource (refusing_server ok ke) = (\<lambda>d gvr ns. refusing ok (ke_Resource ke d gvr ns))"
  by (simp_all add: refusing_server_def)

text \<open>A task that gets one object sees the same library.\<close>

lemma get_tasks_refusing:
  "get_task key (\<lambda>cs ns. refusing ok (api cs ns)) flatten (refusing_server ok' ke) client params =
     get_task key api flatten ke client params"
  "get_cluster_task key (\<lambda>cs. refusing ok (api2 cs)) flatten2 (refusing_server ok' ke) client params =
     get_cluster_task key api2 flatten2 ke client params"
  by (simp_all add: get_task_def get_cluster_task_def)

lemma list_tasks_refusing:
  "list_task ns lb fd key (\<lambda>cs ns. refusing limited_list (api cs ns)) flatten (refusing_server ok ke) client params =
     list_task ns lb fd key api flatten ke client params"
  by (rule list_task_refusing) simp

lemma podDescribe_refusing:
  "podDescribe_Execute (refusing_server limited_list ke) client params = podDescribe_Execute ke client params"
  by (auto simp: podDescribe_Execute_def refusing_server_apis flattens_refusing limited_list_def Let_def
      intro!: and_then_cong)

lemma serviceList_refusing:
  "serviceList_Execute (refusing_server limited_list ke) client params = serviceList_Execute ke client params"
  by (auto simp: serviceList_Execute_def refusing_server_apis flattens_refusing limited_list_def
      intro!: and_then_cong dest!: NormalizeLimit_limited)

lemma ingressList_refusing:
  "ingressList_Execute (refusing_server limited_list ke) client params = ingressList_Execute ke client params"
  by (auto simp: ingressList_Execute_def refusing_server_apis flattens_refusing
      intro!: and_then_cong dest!: list_request_limited)

lemma customResourceList_refusing:
  "customResourceList_Execute (refusing_server limited_list ke) client params = customResourceList_Execute ke client params"
  unfolding customResourceList_Execute_def
  by (auto simp: refusing_server_apis limited_list_def intro!: and_then_cong dest!: NormalizeLimit_limited)

lemma kube_others_refusing:
  "versionGet_Execute (refusing_server limited_list ke) client params = versionGet_Execute ke client params"
  "apiResourcesList_Execute (refusing_server limited_list ke) client params = apiResourcesList_Execute ke client params"
  "authorizationCheck_Execute (refusing_server limited_list ke) client params = authorizationCheck_Execute ke client params"
  "customResourceGet_Execute (refusing_server limited_list ke) client params = customResourceGet_Execute ke client params"
  by (simp_all add: versionGet_Execute_def apiResourcesList_Execute_def authorizationCheck_Execute_def
      customResourceGet_Execute_def refusing_server_apis Let_def cong: if_cong)

text \<open>
  Claim C16. Every listing that a Kubernetes task asks the server for has a limit between 1 and 1000: a
  server that refuses all others cannot be told apart, by any task, with any parameters and any client.
\<close>

theorem kubernetes_lists_limited:
  "list_all (\<lambda>(name, body). body mx (refusing_server limited_list ke) client params = body mx ke client params)
     kubernetes_bodies"
proof -
  have full: "podGetFull_Execute (refusing_server limited_list ke) client params = podGetFull_Execute ke client params"
    by (simp add: podGetFull_Execute_def refusing_server_apis get_tasks_refusing)
  show ?thesis
    unfolding kubernetes_bodies_def list.pred_inject prod.case
    by (intro conjI TrueI)
      (simp_all add: full kube_others_refusing podDescribe_refusing serviceList_refusing ingressList_refusing
        customResourceList_refusing, simp_all add: kube_listing_defs kube_get_defs refusing_server_apis
        flattens_refusing get_tasks_refusing list_tasks_refusing)
qed

end
