(* ===== verification/Kubernetes_Reports.thy ===== *)
theory Kubernetes_Reports
  imports Kubernetes_Safety
begin

text \<open>
  What the answers of the Kubernetes tasks hold: the events of a described pod, the values of a configuration
  map, the roles of a node, the resources of an API group, the containers of a pod.
\<close>

section \<open>The events of a pod\<close>

definition event_of_pod :: "gostring \<Rightarrow> kube_Event \<Rightarrow> bool" where
  "event_of_pod name ev \<longleftrightarrow> ev_InvolvedName ev = name \<and> ev_InvolvedKind ev = ''Pod''"

lemma collect_events_take:
  "int (length items) < n \<Longrightarrow>
   collect_events name n evs items = items @ take (nat n - length items) (filter (event_of_pod name) evs)"
proof (induction name n evs items rule: collect_events.induct)
  case (2 name n ev evs items)
  have step: "nat n - length items = Suc (nat n - length (items @ [ev]))" using "2.prems" by simp
  show ?case
  proof (cases "event_of_pod name ev")
    case False
    then show ?thesis using 2 by (auto simp: event_of_pod_def)
  next
    case True
    show ?thesis
    proof (cases "int (length (items @ [ev])) \<ge> n")
      case True
      then have "nat n - length (items @ [ev]) = 0" by simp
      with \<open>event_of_pod name ev\<close> True show ?thesis unfolding step by (simp add: event_of_pod_def)
    next
      case False
      with \<open>event_of_pod name ev\<close> 2 show ?thesis unfolding step by (simp add: event_of_pod_def)
    qed
  qed
qed simp

text \<open>
  Claim C17. The answer of \<open>pod.describe\<close> is the pod that the server has under the name, and the first events
  that concern this pod among those the server lists, at most \<open>event_limit\<close> and at most 100: whatever the
  name does to the field selector, no event of another object gets in, and the count is right.
\<close>

theorem pod_describe_events:
  assumes "podDescribe_Execute ke client params = Go v"
  shows "\<exists>cs namespace name n pod opts evs shown.
    clientset_of client = Go cs \<and> RequireString params ''namespace'' = Inr namespace \<and>
    RequireString params ''name'' = Inr name \<and> ra_Get (ke_Pods ke cs namespace) name = Inr pod \<and>
    OptionalInt (ke_oor ke) params ''event_limit'' 20 = Inr n \<and> 0 < n \<and>
    ra_List (ke_Events ke cs namespace) opts = Inr evs \<and> lso_Limit opts = min n 100 \<and>
    shown = take (nat (min n 100)) (filter (event_of_pod name) evs) \<and>
    v = VMap [(''pod'', flattenPodDetail ke pod), (''events'', VList (map (flattenEvent ke) shown)),
              (''event_count'', VInt (int (length shown)))]"
proof -
  from assms obtain namespace name n cs pod evs
    where p: "RequireString params ''namespace'' = Inr namespace" "RequireString params ''name'' = Inr name"
      "OptionalInt (ke_oor ke) params ''event_limit'' 20 = Inr n" "\<not> n \<le> 0" "clientset_of client = Go cs"
      "ra_Get (ke_Pods ke cs namespace) name = Inr pod"
      "ra_List (ke_Events ke cs namespace)
        \<lparr>lso_LabelSelector = [], lso_FieldSelector = ''involvedObject.name='' @ name @ '',involvedObject.kind=Pod'',
         lso_Limit = (if n > 100 then 100 else n)\<rparr> = Inr evs"
      and v: "v = VMap [(''pod'', flattenPodDetail ke pod),
        (''events'', VList (map (flattenEvent ke) (collect_events name (if n > 100 then 100 else n) evs []))),
        (''event_count'', VInt (int (length (collect_events name (if n > 100 then 100 else n) evs []))))]"
    unfolding podDescribe_Execute_def Let_def
    by (clarsimp simp only: and_then_Go attempt_simps stop_if_simps outcome.inject sum.inject)
      (rule that, (rule refl | assumption)+)
  have n: "(if n > 100 then 100 else n) = min n 100" by (simp add: min_def)
  have "collect_events name (min n 100) evs [] = take (nat (min n 100)) (filter (event_of_pod name) evs)"
    using p(4) by (subst collect_events_take) simp_all
  then show ?thesis using p v unfolding n by (intro exI conjI) auto
qed

definition sample_meta :: ObjectMeta where
  "sample_meta =
     \<lparr>om_Name = ''p'', om_Namespace = ''n'', om_UID = [], om_CreationTimestamp = None, om_Labels = [],
      om_Annotations = [], om_OwnerReferences = []\<rparr>"

definition sample_pod :: Pod where
  "sample_pod =
     \<lparr>pod_Meta = sample_meta, pod_NodeName = ''worker'', pod_ServiceAccountName = [], pod_RestartPolicy = ''Always'',
      pod_Containers = [], pod_Phase = ''Running'', pod_Conditions = [], pod_ContainerStatuses = [], pod_PodIP = [],
      pod_StartTime = None, pod_JSON = Inr ''{}''\<rparr>"

definition sample_event :: "gostring \<Rightarrow> kube_Event" where
  "sample_event name =
     \<lparr>ev_Meta = sample_meta, ev_Type = ''Warning'', ev_Reason = ''BackOff'', ev_Message = [], ev_SourceComponent = [],
      ev_FirstTimestamp = None, ev_LastTimestamp = None, ev_Count = 1, ev_InvolvedKind = ''Pod'', ev_InvolvedName = name\<rparr>"

text \<open>A server that ignores the field selector and lists the events of two pods.\<close>

definition two_pods_kube :: "(unit, unit) kube_env" where
  "two_pods_kube =
     sample_kube\<lparr>ke_Pods := (\<lambda>_ _. \<lparr>ra_List = (\<lambda>_. Inr []), ra_Get = (\<lambda>_. Inr sample_pod)\<rparr>),
                 ke_Events := (\<lambda>_ _. \<lparr>ra_List = (\<lambda>_. Inr [sample_event ''q'', sample_event ''p'']), ra_Get = (\<lambda>_. Inl [])\<rparr>)\<rparr>"

theorem pod_describe_events_witness:
  "\<exists>cs namespace name n pod opts evs shown.
    clientset_of (Some \<lparr>k8_clientset = Some (), k8_dynamicClient = Some (), k8_initErr = None\<rparr>) = Go cs \<and>
    RequireString [(''namespace'', VString ''n''), (''name'', VString ''p'')] ''namespace'' = Inr namespace \<and>
    RequireString [(''namespace'', VString ''n''), (''name'', VString ''p'')] ''name'' = Inr name \<and>
    ra_Get (ke_Pods two_pods_kube cs namespace) name = Inr pod \<and>
    OptionalInt (ke_oor two_pods_kube) [(''namespace'', VString ''n''), (''name'', VString ''p'')] ''event_limit'' 20 = Inr n \<and>
    0 < n \<and> ra_List (ke_Events two_pods_kube cs namespace) opts = Inr evs \<and> lso_Limit opts = min n 100 \<and>
    shown = take (nat (min n 100)) (filter (event_of_pod name) evs) \<and>
    VMap [(''pod'', flattenPodDetail two_pods_kube sample_pod),
          (''events'', VList [flattenEvent two_pods_kube (sample_event ''p'')]), (''event_count'', VInt 1)] =
    VMap [(''pod'', flattenPodDetail two_pods_kube pod), (''events'', VList (map (flattenEvent two_pods_kube) shown)),
          (''event_count'', VInt (int (length shown)))]"
proof (rule pod_describe_events)
  have "TrimSpace ''n'' = ''n''" "TrimSpace ''p'' = ''p''" by code_simp+
  then show "podDescribe_Execute two_pods_kube (Some \<lparr>k8_clientset = Some (), k8_dynamicClient = Some (), k8_initErr = None\<rparr>)
      [(''namespace'', VString ''n''), (''name'', VString ''p'')] =
    Go (VMap [(''pod'', flattenPodDetail two_pods_kube sample_pod),
      (''events'', VList [flattenEvent two_pods_kube (sample_event ''p'')]), (''event_count'', VInt 1)])"
    by (simp add: podDescribe_Execute_def RequireString_def OptionalInt_def stop_if_def clientset_of_def Let_def
        two_pods_kube_def sample_kube_def sample_event_def)
qed

section \<open>Configuration maps\<close>

text \<open>What is shown under a key: its value, cut if it is too long, or the mark of a key that was cut.\<close>

definition shown_value :: "gostring \<Rightarrow> gvalue" where
  "shown_value v = VString (take maxConfigMapDataValue v)"

definition cut_mark :: "(gostring \<times> gostring) list \<Rightarrow> gostring list \<Rightarrow> gostring \<Rightarrow> bool" where
  "cut_mark d ks k \<longleftrightarrow>
     list_ex (\<lambda>k0. k = k0 @ ''_truncated'' \<and> (case map_of d k0 of None \<Rightarrow> False | Some v \<Rightarrow> length v > maxConfigMapDataValue)) ks"

lemma map_of_filter_key: "map_of (filter (\<lambda>kv. fst kv \<noteq> k) m) k1 = (if k1 = k then None else map_of m k1)"
  by (induction m) auto

lemma map_of_set_field: "map_of (set_field k v m) k1 = (if k1 = k then Some v else map_of m k1)"
  by (simp add: set_field_def map_add_def map_of_filter_key split: option.split)

lemma map_of_put_data:
  "map_of (put_data d x m) k =
     (case map_of d x of
        None \<Rightarrow> map_of m k
      | Some v \<Rightarrow>
          (if k = x @ ''_truncated'' \<and> length v > maxConfigMapDataValue then Some (VBool True)
           else if k = x then Some (shown_value v) else map_of m k))"
  by (simp add: put_data_def map_of_set_field shown_value_def split: option.split)

lemma less_append: "s \<noteq> [] \<Longrightarrow> x < x @ (s :: char list)"
  by (induction x) (auto simp: list_less_def neq_Nil_conv)

lemma cut_mark_snoc:
  "cut_mark d (ks @ [x]) k \<longleftrightarrow> cut_mark d ks k \<or>
     (k = x @ ''_truncated'' \<and> (case map_of d x of None \<Rightarrow> False | Some v \<Rightarrow> length v > maxConfigMapDataValue))"
  by (simp add: cut_mark_def)

lemma fold_put_data:
  assumes "sorted ks" "set ks \<subseteq> fst ` set d"
  shows "map_of (fold (put_data d) ks []) k =
    (if k \<in> set ks then map_option shown_value (map_of d k)
     else if cut_mark d ks k then Some (VBool True) else None)"
  using assms
proof (induction ks arbitrary: k rule: rev_induct)
  case Nil
  then show ?case by (simp add: cut_mark_def)
next
  case (snoc x ks)
  then have below: "y \<le> x" if "y \<in> set ks" for y using that by (auto simp: sorted_append)
  from snoc.prems obtain v where v: "map_of d x = Some v" by (metis Un_iff list.set_intros(1) map_of_eq_None_iff option.exhaust set_append subsetD)
  have new: "x @ ''_truncated'' \<notin> set (ks @ [x])"
    using below [of "x @ ''_truncated''"] less_append [of "''_truncated''" x] by auto
  have IH: "map_of (fold (put_data d) ks []) k =
      (if k \<in> set ks then map_option shown_value (map_of d k) else if cut_mark d ks k then Some (VBool True) else None)"
    using snoc by (auto simp: sorted_append)
  show ?case
    using new by (auto simp: map_of_put_data v IH cut_mark_snoc)
qed

text \<open>
  \<open>configmap.get\<close> shows a key exactly if the map has it, or if it marks a key whose value was cut:
  then the value is true. A value is shown up to 4096 bytes. The order of the keys makes the values of the
  map win over the marks.
\<close>

theorem config_data_shown:
  "map_of (config_data d) k =
     (case map_of d k of
        Some v \<Rightarrow> Some (VString (take 4096 v))
      | None \<Rightarrow>
          (if list_ex (\<lambda>(k0, v). k = k0 @ ''_truncated'' \<and> map_of d k0 = Some v \<and> length v > 4096) d
           then Some (VBool True) else None))"
proof -
  have mark: "cut_mark d (sort (map fst d)) k \<longleftrightarrow>
      list_ex (\<lambda>(k0, v). k = k0 @ ''_truncated'' \<and> map_of d k0 = Some v \<and> length v > 4096) d"
  proof -
    have "cut_mark d (sort (map fst d)) k \<longleftrightarrow>
        (\<exists>k0 v. k = k0 @ ''_truncated'' \<and> map_of d k0 = Some v \<and> length v > maxConfigMapDataValue)"
      unfolding cut_mark_def list_ex_iff
      by (auto split: option.splits) (metis fst_conv map_of_SomeD option.inject)
    also have "\<dots> \<longleftrightarrow> list_ex (\<lambda>(k0, v). k = k0 @ ''_truncated'' \<and> map_of d k0 = Some v \<and> length v > 4096) d"
      unfolding maxConfigMapDataValue_def list_ex_iff by (blast dest: map_of_SomeD)
    finally show ?thesis .
  qed
  have "map_of (config_data d) k =
      (if k \<in> fst ` set d then map_option shown_value (map_of d k)
       else if cut_mark d (sort (map fst d)) k then Some (VBool True) else None)"
    unfolding config_data_def by (subst fold_put_data) simp_all
  moreover have "k \<in> fst ` set d \<longleftrightarrow> map_of d k \<noteq> None" by (simp add: map_of_eq_None_iff)
  ultimately show ?thesis
    unfolding mark by (simp add: shown_value_def maxConfigMapDataValue_def split: option.split)
qed

text \<open>The mark of a key gets lost if the map has a key of this name: then nothing says that the value was cut.\<close>

lemma cut_without_mark:
  assumes "map_of d k = Some v" "length v > 4096" "map_of d (k @ ''_truncated'') = Some ''no''"
  shows "map_of (config_data d) k = Some (VString (take 4096 v))"
    and "map_of (config_data d) (k @ ''_truncated'') = Some (VString ''no'')"
proof -
  show "map_of (config_data d) k = Some (VString (take 4096 v))" using assms(1) by (simp add: config_data_shown)
  show "map_of (config_data d) (k @ ''_truncated'') = Some (VString ''no'')" using assms(3) by (simp add: config_data_shown)
qed

section \<open>Containers of a pod\<close>

text \<open>
  A status goes to the container at the same place, whatever its name: two containers whose statuses come in
  the other order, as the kubelet sorts them by name, are shown with each other's.
\<close>

lemma statuses_by_position:
  "length ss \<le> length cs \<Longrightarrow>
   with_statuses cs ss =
     map (\<lambda>(c, s). containerSummary c (Some s)) (zip cs ss) @ map (\<lambda>c. containerSummary c None) (drop (length ss) cs)"
proof (induction cs ss rule: with_statuses.induct)
  case (2 c cs)
  then show ?case by (cases cs) simp_all
qed simp_all

section \<open>Roles of a node\<close>

text \<open>The order in which the labels are visited does not matter.\<close>

lemma node_roles_deterministic: "mset ls = mset ls' \<Longrightarrow> extractNodeRoles ls = extractNodeRoles ls'"
proof -
  assume "mset ls = mset ls'"
  then have "mset (concat (map node_role ls)) = mset (concat (map node_role ls'))"
    by (simp add: mset_concat flip: mset_map) (metis mset_map sum_mset_sum_list)
  then show ?thesis unfolding extractNodeRoles_def by (metis properties_for_sort sorted_sort mset_sort)
qed

section \<open>Groups of the API\<close>

text \<open>
  The core group has no name, so every list of resources belongs to it; and a group gets the lists of every
  other group whose name starts like its own.
\<close>

lemma core_group_lists_everything:
  assumes "ag_Name g = []"
  shows "group_resources None rs g = concat (map arl_APIResources (filter (\<lambda>r. arl_GroupVersion r \<noteq> []) rs))"
  using assms by (simp add: group_resources_def skips_list_def HasPrefix_def)

lemma group_by_prefix:
  assumes "ag_Name g \<noteq> []" "arl_GroupVersion r = ag_Name g @ more_name @ ''/v1''"
  shows "\<not> skips_list g r"
  using assms by (simp add: skips_list_def HasPrefix_def)

text \<open>The filters: only the named group, and only resources of the wanted scope.\<close>

lemma group_items_filtered:
  "group_items apiGroup namespaced rs g \<noteq> [] \<Longrightarrow> apiGroup = [] \<or> ag_Name g = apiGroup"
  "res \<in> set (group_resources (Some b) rs g) \<Longrightarrow> apr_Namespaced res = b"
  by (auto simp: group_items_def group_resources_def split: if_splits)

section \<open>Reviews of access\<close>

text \<open>Without a user the groups do not enter the question, only the errors of reading them.\<close>

lemma groups_without_user:
  assumes "OptionalString params ''user'' [] = Inr []"
    and "kube_optionalStringSlice params ''groups'' = Inr gs"
  shows "authorizationCheck_Execute (ke\<lparr>ke_SubjectAccessReviews := f\<rparr>) client params = authorizationCheck_Execute ke client params"
  using assms by (simp add: authorizationCheck_Execute_def Let_def cong: if_cong)

end
