(* ===== verification/Linux_Systemd.thy ===== *)
theory Linux_Systemd
  imports Linux_Files
begin

text \<open>
  The tasks on the units of systemd of \<open>internal/provider/linux\<close>: \<open>systemd_helpers.go\<close>,
  \<open>systemd_unit_list.go\<close>, \<open>systemd_unit_status.go\<close>, \<open>systemd_unit_show.go\<close>,
  \<open>systemd_unit_definition.go\<close>, \<open>systemd_unit_dependencies.go\<close> and \<open>service_failed.go\<close>. They look at
  files only. The sections of a unit are maps: association lists with distinct keys.
\<close>

section \<open>Units on disk\<close>

definition systemdUnitSearchDirs :: "gostring list list" where
  "systemdUnitSearchDirs =
     [[''etc'', ''systemd'', ''system''], [''run'', ''systemd'', ''system''], [''usr'', ''lib'', ''systemd'', ''system''],
      [''lib'', ''systemd'', ''system'']]"

definition systemdUnitSuffixes :: "gostring list" where
  "systemdUnitSuffixes =
     [''.service'', ''.socket'', ''.target'', ''.mount'', ''.timer'', ''.path'', ''.slice'', ''.scope'']"

definition systemdUnitType :: "gostring \<Rightarrow> gostring" where
  "systemdUnitType name =
     (case LastIndexByte name (CHR ''.'') of
        None \<Rightarrow> []
      | Some idx \<Rightarrow> (if idx = length name - 1 then [] else drop (idx + 1) name))"

definition hasSystemdUnitSuffix :: "gostring \<Rightarrow> bool" where
  "hasSystemdUnitSuffix name \<longleftrightarrow> list_ex (HasSuffix name) systemdUnitSuffixes"

section \<open>The text of a unit\<close>

type_synonym unit_sections = "(gostring \<times> environment) list"

definition section_of :: "unit_sections \<Rightarrow> gostring \<Rightarrow> environment" where
  "section_of secs s = ok_or (map_of secs s) []"

definition set_key :: "gostring \<Rightarrow> gostring \<Rightarrow> gostring \<Rightarrow> unit_sections \<Rightarrow> unit_sections" where
  "set_key s k v secs = AList.update s (AList.update k v (section_of secs s)) secs"

definition open_section :: "gostring \<Rightarrow> unit_sections \<Rightarrow> unit_sections" where
  "open_section s secs = (if map_of secs s = None then AList.update s [] secs else secs)"

text \<open>What both parsers make of a line: nothing, a section, a key with its value, or another text.\<close>

datatype unit_line = Skipped | SectionLine gostring | KeyLine gostring gostring | TextLine gostring

definition classify_line :: "gostring \<Rightarrow> unit_line" where
  "classify_line raw =
     (let line = TrimSpace raw in
      if line = [] \<or> HasPrefix line ''#'' \<or> HasPrefix line '';'' then Skipped
      else if HasPrefix line ''['' \<and> HasSuffix line '']'' then SectionLine (TrimSpace (butlast (tl line)))
      else case IndexByte line (CHR ''='') of
             Some idx \<Rightarrow> KeyLine (TrimSpace (take idx line)) (TrimSpace (drop (idx + 1) line))
           | None \<Rightarrow> TextLine line)"

fun systemd_line :: "unit_line \<Rightarrow> gostring \<times> unit_sections \<Rightarrow> gostring \<times> unit_sections" where
  "systemd_line (SectionLine s) (current, secs) = (s, open_section s secs)"
| "systemd_line (KeyLine k v) (current, secs) = (current, if current = [] then secs else set_key current k v secs)"
| "systemd_line _ st = st"

definition parseSystemdUnit :: "gostring \<Rightarrow> unit_sections" where
  "parseSystemdUnit content = snd (fold (systemd_line \<circ> classify_line) (Split (CHR 0x0A) content) ([], []))"

text \<open>The second parser appends a line without \<open>=\<close> to the value before it, whether that ended with a backslash or not.\<close>

record unit_state =
  us_current :: gostring
  us_pendingKey :: gostring
  us_sections :: unit_sections

definition flush :: "unit_state \<Rightarrow> unit_state" where
  "flush st =
     (if us_current st \<noteq> [] \<and> us_pendingKey st \<noteq> []
      then st\<lparr>us_sections := set_key (us_current st) (us_pendingKey st)
                (TrimSpace (ok_or (map_of (section_of (us_sections st) (us_current st)) (us_pendingKey st)) []))
                (us_sections st),
              us_pendingKey := []\<rparr>
      else st)"

fun unit_file_line :: "unit_line \<Rightarrow> unit_state \<Rightarrow> unit_state" where
  "unit_file_line Skipped st = st"
| "unit_file_line (SectionLine s) st =
     (let st1 = flush st in st1\<lparr>us_current := s, us_sections := open_section s (us_sections st1)\<rparr>)"
| "unit_file_line (KeyLine k v) st =
     (if us_current st = [] then st
      else (let st1 = flush st in
            st1\<lparr>us_sections := set_key (us_current st1) k v (us_sections st1), us_pendingKey := k\<rparr>))"
| "unit_file_line (TextLine line) st =
     (if us_current st = [] \<or> us_pendingKey st = [] then st
      else st\<lparr>us_sections := set_key (us_current st) (us_pendingKey st)
                (ok_or (map_of (section_of (us_sections st) (us_current st)) (us_pendingKey st)) [] @ '' '' @ line)
                (us_sections st)\<rparr>)"

definition clean_value :: "gostring \<Rightarrow> gostring" where
  "clean_value v = Join (Fields (ReplaceAll (CHR 0x5C) '' '' v)) '' ''"

definition parseUnitFile :: "gostring \<Rightarrow> unit_sections" where
  "parseUnitFile content =
     (let st = flush (fold (unit_file_line \<circ> classify_line) (Split (CHR 0x0A) content)
                        \<lparr>us_current = [], us_pendingKey = [], us_sections = []\<rparr>)
      in map (\<lambda>(s, kv). (s, map (\<lambda>(k, v). (k, clean_value v)) kv)) (us_sections st))"

section \<open>The state of a unit\<close>

definition unitPIDFile :: "unit_sections \<Rightarrow> gostring" where
  "unitPIDFile secs =
     (let pidFile = TrimSpace (ok_or (map_of (section_of secs ''Service'') ''PIDFile'') []) in
      if pidFile = [] \<or> CHR 0x25 \<in> set pidFile then [] else pidFile)"

definition pidFileElements :: "gostring \<Rightarrow> gostring list" where
  "pidFileElements pidFile = Split (CHR ''/'') (TrimPrefix pidFile ''/'')"

definition cgroup_active :: "lin_env \<Rightarrow> Reader \<Rightarrow> gostring \<Rightarrow> bool" where
  "cgroup_active env r name \<longleftrightarrow>
     Reader_Exists (lx_fs env) r [''run'', ''systemd'', ''units'', name] \<or>
     (HasSuffix name ''.service'' \<and> Reader_IsDir (lx_fs env) r [''sys'', ''fs'', ''cgroup'', ''system.slice'', name])"

definition pid_file_exists :: "lin_env \<Rightarrow> Reader \<Rightarrow> unit_sections \<Rightarrow> bool" where
  "pid_file_exists env r secs \<longleftrightarrow>
     unitPIDFile secs \<noteq> [] \<and> Reader_Exists (lx_fs env) r (pidFileElements (unitPIDFile secs))"

definition unitActive :: "lin_env \<Rightarrow> Reader \<Rightarrow> gostring \<Rightarrow> unit_sections \<Rightarrow> bool" where
  "unitActive env r name secs \<longleftrightarrow> cgroup_active env r name \<or> pid_file_exists env r secs"

definition unitMainPID :: "lin_env \<Rightarrow> Reader \<Rightarrow> unit_sections \<Rightarrow> int" where
  "unitMainPID env r secs =
     (if unitPIDFile secs = [] then 0 else ok_or (ReadInt (lx_fs env) r (pidFileElements (unitPIDFile secs))) 0)"

definition unitEnabled :: "lin_env \<Rightarrow> Reader \<Rightarrow> gostring \<Rightarrow> bool" where
  "unitEnabled env r name =
     (case ReadDirNames (lx_fs env) r [''etc'', ''systemd'', ''system''] of
        Inl _ \<Rightarrow> False
      | Inr dirs \<Rightarrow>
          list_ex (\<lambda>d. (HasSuffix d ''.wants'' \<or> HasSuffix d ''.requires'') \<and>
                       Reader_Exists (lx_fs env) r [''etc'', ''systemd'', ''system'', d, name]) dirs)"

text \<open>The first directory that has the unit decides; a file that cannot be read is an error.\<close>

fun find_unit_in :: "lin_env \<Rightarrow> Reader \<Rightarrow> gostring \<Rightarrow> gostring list list \<Rightarrow> (gostring \<times> gostring) outcome" where
  "find_unit_in env r unit [] = Stop (''unit '' @ Quote (lx_esc env) unit @ '' not found in systemd unit directories'')"
| "find_unit_in env r unit (dir # dirs) =
     (if \<not> Reader_Exists (lx_fs env) r (dir @ [unit]) then find_unit_in env r unit dirs
      else (let path = Reader_Path r (dir @ [unit]) in
            case fs_ReadFile (lx_fs env) path of
              Inl err \<Rightarrow> Stop (''read unit '' @ Quote (lx_esc env) unit @ '': '' @ err)
            | Inr content \<Rightarrow> Go (path, content)))"

definition findUnitFile :: "lin_env \<Rightarrow> Reader \<Rightarrow> gostring \<Rightarrow> (gostring \<times> gostring) outcome" where
  "findUnitFile env r unit = find_unit_in env r unit systemdUnitSearchDirs"

definition listUnitDropIns :: "lin_env \<Rightarrow> Reader \<Rightarrow> gostring \<Rightarrow> gvalue list" where
  "listUnitDropIns env r unit =
     (let dir = [''etc'', ''systemd'', ''system'', unit @ ''.d''] in
      case ReadDirNames (lx_fs env) r dir of
        Inl _ \<Rightarrow> []
      | Inr names \<Rightarrow>
          List.map_filter (\<lambda>name.
            if \<not> HasSuffix name ''.conf'' then None
            else (case ReadFileString (lx_fs env) r (dir @ [name]) of
                    Inl _ \<Rightarrow> None
                  | Inr content \<Rightarrow> Some (VMap [(''name'', VString name), (''content'', VString content)])))
            (sort_key (map of_char :: gostring \<Rightarrow> nat list) names))"

section \<open>The tasks on units\<close>

text \<open>A slice that nothing was appended to is nil.\<close>

definition nil_slice :: "gvalue list \<Rightarrow> gvalue" where
  "nil_slice vs = (if vs = [] then VNil else VList vs)"

record systemdUnitListItem =
  ul_Name :: gostring
  ul_Type :: gostring
  ul_Path :: gostring
  ul_State :: gostring
  ul_Enabled :: bool

definition unit_item :: "lin_env \<Rightarrow> Reader \<Rightarrow> gostring list \<Rightarrow> gostring \<Rightarrow> systemdUnitListItem" where
  "unit_item env r dir name =
     \<lparr>ul_Name = name, ul_Type = systemdUnitType name, ul_Path = Reader_Path r (dir @ [name]),
      ul_State =
        (if cgroup_active env r name then ''active''
         else case ReadFileString (lx_fs env) r (dir @ [name]) of
                Inl _ \<Rightarrow> ''inactive''
              | Inr content \<Rightarrow> (if pid_file_exists env r (parseSystemdUnit content) then ''active'' else ''inactive'')),
      ul_Enabled = unitEnabled env r name\<rparr>"

text \<open>The loops: a name counts in the first directory that lists it.\<close>

fun collect_units ::
  "lin_env \<Rightarrow> Reader \<Rightarrow> gostring list \<Rightarrow> gostring list \<Rightarrow> systemdUnitListItem list \<Rightarrow> systemdUnitListItem list" where
  "collect_units env r dir [] units = units"
| "collect_units env r dir (name # names) units =
     (if name \<in> ul_Name ` set units \<or> \<not> hasSystemdUnitSuffix name then collect_units env r dir names units
      else collect_units env r dir names (units @ [unit_item env r dir name]))"

definition units_of_dir :: "lin_env \<Rightarrow> Reader \<Rightarrow> gostring list \<Rightarrow> systemdUnitListItem list \<Rightarrow> systemdUnitListItem list" where
  "units_of_dir env r dir units =
     (case ReadDirNames (lx_fs env) r dir of Inl _ \<Rightarrow> units | Inr names \<Rightarrow> collect_units env r dir names units)"

definition listSystemdUnits :: "lin_env \<Rightarrow> Reader \<Rightarrow> systemdUnitListItem list" where
  "listSystemdUnits env r =
     sort_key (\<lambda>u. map of_char (ul_Name u) :: nat list) (fold (units_of_dir env r) systemdUnitSearchDirs [])"

definition unit_item_value :: "systemdUnitListItem \<Rightarrow> gvalue" where
  "unit_item_value u =
     VMap [(''name'', VString (ul_Name u)), (''type'', VString (ul_Type u)), (''path'', VString (ul_Path u)),
           (''state'', VString (ul_State u)), (''enabled'', VBool (ul_Enabled u))]"

definition systemdUnitList_Execute :: "lin_env \<Rightarrow> Reader \<Rightarrow> gmap \<Rightarrow> gvalue outcome" where
  "systemdUnitList_Execute env r params =
     (let units = listSystemdUnits env r in
      Go (VMap [(''units'', nil_slice (map unit_item_value units)), (''count'', VInt (int (length units)))]))"

definition systemdUnitStatus_Execute :: "lin_env \<Rightarrow> Reader \<Rightarrow> gmap \<Rightarrow> gvalue outcome" where
  "systemdUnitStatus_Execute env r params =
     and_then (attempt (RequireString params ''unit'')) (\<lambda>unit.
     and_then (findUnitFile env r unit) (\<lambda>(path, content).
     let secs = parseUnitFile content in
     Go (VMap [(''name'', VString unit), (''file_path'', VString path), (''active'', VBool (unitActive env r unit secs)),
               (''enabled'', VBool (unitEnabled env r unit)), (''main_pid'', VInt (unitMainPID env r secs))])))"

text \<open>The order in which the sections are visited is that of the list; it matters only if two names join to the same.\<close>

definition unit_properties :: "unit_sections \<Rightarrow> environment" where
  "unit_properties secs =
     fold (\<lambda>(s, kv) m. fold (\<lambda>(k, v). AList.update (s @ ''.'' @ k) v) kv m) secs []"

definition systemdUnitShow_Execute :: "lin_env \<Rightarrow> Reader \<Rightarrow> gmap \<Rightarrow> gvalue outcome" where
  "systemdUnitShow_Execute env r params =
     and_then (attempt (RequireString params ''unit'')) (\<lambda>unit.
     and_then (findUnitFile env r unit) (\<lambda>(path, content).
     Go (VMap [(''unit'', VString unit), (''file_path'', VString path),
               (''properties'', VMap (map (\<lambda>(k, v). (k, VString v)) (unit_properties (parseUnitFile content))))])))"

definition systemdUnitDefinition_Execute :: "lin_env \<Rightarrow> Reader \<Rightarrow> gmap \<Rightarrow> gvalue outcome" where
  "systemdUnitDefinition_Execute env r params =
     and_then (attempt (RequireString params ''unit'')) (\<lambda>unit.
     and_then (findUnitFile env r unit) (\<lambda>(path, content).
     Go (VMap [(''name'', VString unit), (''file_path'', VString path), (''content'', VString content),
               (''drop_ins'', nil_slice (listUnitDropIns env r unit))])))"

fun split_by :: "(char \<Rightarrow> bool) \<Rightarrow> gostring \<Rightarrow> gostring list" where
  "split_by sep [] = [[]]"
| "split_by sep (c # cs) =
     (if sep c then [] # split_by sep cs
      else (case split_by sep cs of [] \<Rightarrow> [[c]] | w # ws \<Rightarrow> (c # w) # ws))"

text \<open>\<open>strings.FieldsFunc\<close>, and the loop that keeps the first of equal names.\<close>

definition dependency_fields :: "gostring \<Rightarrow> gostring list" where
  "dependency_fields v = filter (\<lambda>f. f \<noteq> []) (split_by (\<lambda>c. c = CHR '','' \<or> c = CHR '' '' \<or> c = CHR 0x09) v)"

fun unseen :: "gostring list \<Rightarrow> gostring list \<Rightarrow> gostring list" where
  "unseen out [] = out"
| "unseen out (f # fs) =
     (let g = TrimSpace f in if g = [] \<or> g \<in> set out then unseen out fs else unseen (out @ [g]) fs)"

definition splitDependencyList :: "gostring \<Rightarrow> gostring list" where
  "splitDependencyList v = unseen [] (dependency_fields v)"

definition dependency_keys :: "(gostring \<times> gostring) list" where
  "dependency_keys =
     [(''after'', ''After''), (''before'', ''Before''), (''requires'', ''Requires''), (''wants'', ''Wants''),
      (''conflicts'', ''Conflicts''), (''requisite'', ''Requisite'')]"

definition dependency_value :: "gostring list \<Rightarrow> gvalue" where
  "dependency_value ds = (if ds = [] then VNil else VStrings ds)"

definition systemdUnitDependencies_Execute :: "lin_env \<Rightarrow> Reader \<Rightarrow> gmap \<Rightarrow> gvalue outcome" where
  "systemdUnitDependencies_Execute env r params =
     and_then (attempt (RequireString params ''unit'')) (\<lambda>unit.
     and_then (findUnitFile env r unit) (\<lambda>(path, content).
     let unitSection = section_of (parseUnitFile content) ''Unit'' in
     Go (VMap ((''unit'', VString unit) #
       map (\<lambda>(key, directive).
         (key, dependency_value (splitDependencyList (ok_or (map_of unitSection directive) [])))) dependency_keys))))"

section \<open>Failed services\<close>

definition isSystemdInit :: "lin_env \<Rightarrow> Reader \<Rightarrow> bool" where
  "isSystemdInit env r =
     (case ReadFileString (lx_fs env) r [''proc'', ''1'', ''comm''] of
        Inl _ \<Rightarrow> False | Inr comm \<Rightarrow> TrimSpace comm = ''systemd'')"

definition names_or_none :: "lin_env \<Rightarrow> Reader \<Rightarrow> gostring list \<Rightarrow> gostring list" where
  "names_or_none env r elem = (case ReadDirNames (lx_fs env) r elem of Inl _ \<Rightarrow> [] | Inr names \<Rightarrow> names)"

text \<open>The names of both directories, each once, in the order they come up.\<close>

fun add_unseen :: "gostring list \<Rightarrow> gostring list \<Rightarrow> gostring list" where
  "add_unseen seen [] = seen"
| "add_unseen seen (n # ns) = (if n \<in> set seen then add_unseen seen ns else add_unseen (seen @ [n]) ns)"

definition listFailedServices :: "lin_env \<Rightarrow> Reader \<Rightarrow> gostring list" where
  "listFailedServices env r =
     (if \<not> isSystemdInit env r then []
      else add_unseen (add_unseen [] (names_or_none env r [''run'', ''systemd'', ''failed'']))
             (filter (\<lambda>n. HasSuffix n ''.service'') (names_or_none env r [''sys'', ''fs'', ''cgroup'', ''system.slice''])))"

definition failed_value :: "gostring \<Rightarrow> gvalue" where
  "failed_value name = VMap [(''name'', VString name), (''state'', VString ''failed'')]"

text \<open>Without systemd the slice is empty and not nil.\<close>

definition serviceFailed_Execute :: "lin_env \<Rightarrow> Reader \<Rightarrow> gmap \<Rightarrow> gvalue outcome" where
  "serviceFailed_Execute env r params =
     (let failed = map failed_value (listFailedServices env r) in
      Go (VMap [(''services'', if isSystemdInit env r then nil_slice failed else VList failed),
                (''count'', VInt (int (length failed)))]))"

end
