(* ===== verification/Linux_Journal.thy ===== *)
theory Linux_Journal
  imports Linux_Systemd Go_Time
begin

text \<open>
  The tasks of \<open>internal/provider/linux\<close> on the files of the journal, the records of logins and core dumps:
  \<open>journal_query.go\<close>, \<open>journal_boots.go\<close>, \<open>systemd_unit_logs.go\<close>, \<open>login_sessions.go\<close>,
  \<open>login_history.go\<close>, \<open>core_dump_list.go\<close> and \<open>core_dump_info.go\<close>. \<open>sort.Slice\<close> leaves entries with
  equal keys in an order of its own; here they keep theirs.
\<close>

section \<open>Journal files\<close>

record journalFile =
  jf_Name :: gostring
  jf_Path :: gostring
  jf_Size :: int
  jf_ModTime :: gostring

definition utc_time :: "int \<Rightarrow> gostring" where
  "utc_time nanos = utc_RFC3339 (nanos div 1000000000)"

definition journal_file :: "lin_files \<Rightarrow> Reader \<Rightarrow> gostring \<Rightarrow> gostring \<Rightarrow> gostring \<Rightarrow> journalFile option" where
  "journal_file lf r service machineDir name =
     (if \<not> HasSuffix name ''.journal'' \<and> \<not> HasSuffix name ''.journal~'' then None
      else if service \<noteq> [] \<and> \<not> strings_Contains name service then None
      else (let fullPath = Reader_Path r [machineDir, name] in
            case lf_Stat lf fullPath of
              Inl _ \<Rightarrow> None
            | Inr info \<Rightarrow> Some \<lparr>jf_Name = name, jf_Path = fullPath, jf_Size = fi_Size info,
                               jf_ModTime = utc_time (fi_ModTime info)\<rparr>))"

text \<open>The directories of the machines below a base, each with its entries.\<close>

definition machine_entries :: "lin_env \<Rightarrow> Reader \<Rightarrow> gostring \<Rightarrow> (gostring \<times> gostring list) list" where
  "machine_entries env r base =
     (case ReadDirNames (lx_fs env) r [base] of
        Inl _ \<Rightarrow> []
      | Inr machineIDs \<Rightarrow>
          List.map_filter (\<lambda>machineID.
            let dir = filepath_Join [base, machineID] in
            if \<not> Reader_IsDir (lx_fs env) r [dir] then None
            else (case ReadDirNames (lx_fs env) r [dir] of Inl _ \<Rightarrow> None | Inr names \<Rightarrow> Some (dir, names)))
            machineIDs)"

definition collect_journals :: "lin_files \<Rightarrow> lin_env \<Rightarrow> Reader \<Rightarrow> gostring \<Rightarrow> gostring \<Rightarrow> journalFile list" where
  "collect_journals lf env r service base =
     concat (map (\<lambda>(dir, names). List.map_filter (journal_file lf r service dir) names) (machine_entries env r base))"

definition journal_base :: "gostring \<Rightarrow> gostring" where
  "journal_base journalDir = (if journalDir = [] then ''/var/log/journal'' else journalDir)"

definition listJournalFiles :: "lin_files \<Rightarrow> lin_env \<Rightarrow> Reader \<Rightarrow> gostring \<Rightarrow> gostring \<Rightarrow> journalFile list" where
  "listJournalFiles lf env r journalDir service =
     sort_key (\<lambda>f. map of_char (jf_Name f) :: nat list)
       (collect_journals lf env r service (journal_base journalDir) @ collect_journals lf env r service ''/run/log/journal'')"

definition journal_file_value :: "journalFile \<Rightarrow> gvalue" where
  "journal_file_value f =
     VMap [(''name'', VString (jf_Name f)), (''path'', VString (jf_Path f)), (''size'', VInt64 (jf_Size f)),
           (''mod_time'', VString (jf_ModTime f))]"

definition journalQuery_Execute :: "lin_files \<Rightarrow> lin_env \<Rightarrow> Reader \<Rightarrow> LinuxConfig \<Rightarrow> gmap \<Rightarrow> gvalue outcome" where
  "journalQuery_Execute lf env r cfg params =
     and_then (attempt (OptionalString params ''service'' [])) (\<lambda>service.
     and_then (attempt (OptionalString params ''priority'' [])) (\<lambda>priority.
     and_then (attempt (OptionalString params ''since'' [])) (\<lambda>since.
     and_then (attempt (OptionalString params ''until'' [])) (\<lambda>until.
     let files = listJournalFiles lf env r (lin_JournalDirectory cfg) service in
     Go (VMap
       [(''files'', nil_slice (map journal_file_value files)), (''count'', VInt (int (length files))),
        (''service'', VString service), (''priority'', VString priority), (''since'', VString since),
        (''until'', VString until),
        (''note'', VString ''Full journal entry parsing requires a journal reader library; this capability lists available journal files only.'')])))))"

definition systemdUnitLogs_Execute :: "lin_files \<Rightarrow> lin_env \<Rightarrow> Reader \<Rightarrow> LinuxConfig \<Rightarrow> gmap \<Rightarrow> gvalue outcome" where
  "systemdUnitLogs_Execute lf env r cfg params =
     and_then (attempt (RequireString params ''unit'')) (\<lambda>unit.
     let files = listJournalFiles lf env r (lin_JournalDirectory cfg) unit in
     Go (VMap
       [(''unit'', VString unit), (''journal_files'', nil_slice (map journal_file_value files)),
        (''count'', VInt (int (length files))),
        (''note'', VString ''Journal files are binary; a journal reader library is required to extract per-unit log entries.'')]))"

section \<open>Boots\<close>

record journalBoot =
  jb_ID :: gostring
  jb_Timestamp :: gostring
  jb_Source :: gostring

definition journal_boot :: "lin_files \<Rightarrow> Reader \<Rightarrow> gostring \<Rightarrow> gostring \<Rightarrow> gostring \<Rightarrow> journalBoot" where
  "journal_boot lf r base bootDir bootID =
     \<lparr>jb_ID = bootID,
      jb_Timestamp = (case lf_Stat lf (Reader_Path r [bootDir, bootID]) of Inl _ \<Rightarrow> [] | Inr info \<Rightarrow> utc_time (fi_ModTime info)),
      jb_Source = base\<rparr>"

text \<open>What is below the directory of a machine counts as a boot, files too, if its name is new.\<close>

fun collect_boots ::
  "lin_files \<Rightarrow> Reader \<Rightarrow> gostring \<Rightarrow> gostring \<Rightarrow> gostring list \<Rightarrow> journalBoot list \<Rightarrow> journalBoot list" where
  "collect_boots lf r base dir [] boots = boots"
| "collect_boots lf r base dir (b # bs) boots =
     (if b \<in> jb_ID ` set boots then collect_boots lf r base dir bs boots
      else collect_boots lf r base dir bs (boots @ [journal_boot lf r base dir b]))"

definition boots_of_base :: "lin_files \<Rightarrow> lin_env \<Rightarrow> Reader \<Rightarrow> gostring \<Rightarrow> journalBoot list \<Rightarrow> journalBoot list" where
  "boots_of_base lf env r base boots =
     fold (\<lambda>(dir, names). collect_boots lf r base dir names) (machine_entries env r base) boots"

definition listJournalBoots :: "lin_files \<Rightarrow> lin_env \<Rightarrow> Reader \<Rightarrow> gostring \<Rightarrow> journalBoot list" where
  "listJournalBoots lf env r journalDir =
     sort_key (\<lambda>b. map of_char (jb_ID b) :: nat list)
       (boots_of_base lf env r ''/run/log/journal'' (boots_of_base lf env r (journal_base journalDir) []))"

definition optional_text :: "gostring \<Rightarrow> gostring \<Rightarrow> gmap" where
  "optional_text key v = (if v = [] then [] else [(key, VString v)])"

definition journal_boot_value :: "journalBoot \<Rightarrow> gvalue" where
  "journal_boot_value b =
     VMap ((''id'', VString (jb_ID b)) # optional_text ''timestamp'' (jb_Timestamp b) @ optional_text ''source'' (jb_Source b))"

definition journalBoots_Execute :: "lin_files \<Rightarrow> lin_env \<Rightarrow> Reader \<Rightarrow> LinuxConfig \<Rightarrow> gmap \<Rightarrow> gvalue outcome" where
  "journalBoots_Execute lf env r cfg params =
     (let boots = listJournalBoots lf env r (lin_JournalDirectory cfg) in
      Go (VMap [(''boots'', nil_slice (map journal_boot_value boots)), (''count'', VInt (int (length boots)))]))"

section \<open>Records of logins\<close>

text \<open>Integers in little-endian order, two's complement.\<close>

fun le_nat :: "gostring \<Rightarrow> int" where
  "le_nat [] = 0"
| "le_nat (c # cs) = int (of_char c) + 256 * le_nat cs"

definition le_int :: "nat \<Rightarrow> gostring \<Rightarrow> int" where
  "le_int bits bs = (let n = le_nat bs in if n < 2 ^ (bits - 1) then n else n - 2 ^ bits)"

definition field_at :: "gostring \<Rightarrow> nat \<Rightarrow> nat \<Rightarrow> gostring" where
  "field_at rec off n = take n (drop off rec)"

text \<open>The fields of a record that the tasks use.\<close>

record UtmpEntry =
  ut_Type :: int
  ut_Pid :: int
  ut_Line :: gostring
  ut_User :: gostring
  ut_Host :: gostring
  ut_Sec :: int

definition utmp_size :: nat where
  "utmp_size = 384"

definition decode_utmp :: "gostring \<Rightarrow> UtmpEntry" where
  "decode_utmp rec =
     \<lparr>ut_Type = le_int 16 (field_at rec 0 2), ut_Pid = le_int 32 (field_at rec 4 4), ut_Line = field_at rec 8 32,
      ut_User = field_at rec 44 32, ut_Host = field_at rec 76 256, ut_Sec = le_int 32 (field_at rec 340 4)\<rparr>"

text \<open>The loop over the complete records of a file.\<close>

function utmp_records :: "gostring \<Rightarrow> UtmpEntry list" where
  "utmp_records bs =
     (if length bs < utmp_size then [] else decode_utmp (take utmp_size bs) # utmp_records (drop utmp_size bs))"
  by pat_completeness auto
termination by (relation "measure length") (auto simp: utmp_size_def)

declare utmp_records.simps [simp del]

definition stringFromBytes :: "gostring \<Rightarrow> gostring" where
  "stringFromBytes b = takeWhile (\<lambda>c. c \<noteq> CHR 0x00) b"

record login_entry =
  le_User :: gostring
  le_TTY :: gostring
  le_Host :: gostring
  le_Time :: gostring
  le_PID :: int
  le_TypeName :: gostring

definition login_of :: "gostring \<Rightarrow> UtmpEntry \<Rightarrow> login_entry" where
  "login_of typeName ut =
     \<lparr>le_User = stringFromBytes (ut_User ut), le_TTY = stringFromBytes (ut_Line ut),
      le_Host = stringFromBytes (ut_Host ut), le_Time = utc_RFC3339 (ut_Sec ut), le_PID = ut_Pid ut,
      le_TypeName = typeName\<rparr>"

definition login_sessions :: "gostring \<Rightarrow> login_entry list" where
  "login_sessions d = map (login_of ''user_process'') (filter (\<lambda>ut. ut_Type ut = 7) (utmp_records d))"

definition readLoginSessions :: "lin_env \<Rightarrow> login_entry list outcome" where
  "readLoginSessions env =
     (case fs_ReadFile (lx_fs env) ''/var/run/utmp'' of
        Inr d \<Rightarrow> Go (login_sessions d)
      | Inl _ \<Rightarrow>
          (case fs_ReadFile (lx_fs env) ''/run/utmp'' of
             Inl err \<Rightarrow> Stop (''read utmp: '' @ err) | Inr d \<Rightarrow> Go (login_sessions d)))"

definition login_value :: "login_entry \<Rightarrow> gvalue" where
  "login_value e =
     VMap (optional_text ''user'' (le_User e) @ optional_text ''tty'' (le_TTY e) @ optional_text ''host'' (le_Host e) @
           optional_text ''time'' (le_Time e) @ (if le_PID e = 0 then [] else [(''pid'', VInt32 (le_PID e))]) @
           [(''type'', VString (le_TypeName e))])"

definition loginSessions_Execute :: "lin_env \<Rightarrow> gmap \<Rightarrow> gvalue outcome" where
  "loginSessions_Execute env params =
     and_then (readLoginSessions env) (\<lambda>entries. Go (VMap [(''sessions'', nil_slice (map login_value entries))]))"

definition login_types :: "(int \<times> gostring) list" where
  "login_types =
     [(7, ''login''), (8, ''logout''), (1, ''run_level''), (2, ''boot_time''), (5, ''init_process''), (6, ''login_process'')]"

text \<open>The loop stops at the limit; the entries it has are reversed.\<close>

fun collect_logins :: "int \<Rightarrow> UtmpEntry list \<Rightarrow> login_entry list \<Rightarrow> login_entry list" where
  "collect_logins limit [] entries = entries"
| "collect_logins limit (ut # uts) entries =
     (case map_of login_types (ut_Type ut) of
        None \<Rightarrow> collect_logins limit uts entries
      | Some typeName \<Rightarrow>
          (let entries1 = entries @ [login_of typeName ut] in
           if int (length entries1) \<ge> limit then entries1 else collect_logins limit uts entries1))"

definition readLoginHistory :: "lin_env \<Rightarrow> int \<Rightarrow> login_entry list outcome" where
  "readLoginHistory env limit =
     (case fs_ReadFile (lx_fs env) ''/var/log/wtmp'' of
        Inl err \<Rightarrow> Stop (''read wtmp: '' @ err)
      | Inr d \<Rightarrow> Go (rev (collect_logins limit (utmp_records d) [])))"

definition loginHistory_Execute :: "lin_env \<Rightarrow> gmap \<Rightarrow> gvalue outcome" where
  "loginHistory_Execute env params =
     and_then (attempt (NormalizeLimit (lx_oor env) params)) (\<lambda>limit.
     and_then (readLoginHistory env limit) (\<lambda>entries. Go (VMap [(''entries'', nil_slice (map login_value entries))])))"

section \<open>Core dumps\<close>

definition core_dump_dirs :: "gostring list" where
  "core_dump_dirs = [''/var/lib/systemd/coredump'', ''/var/lib/abrt'']"

text \<open>Only the time and the size of an entry are ever filled in. \<open>clock\<close> prints a time in the zone of the host.\<close>

definition core_dump_entry :: "(int \<Rightarrow> gostring) \<Rightarrow> FileInfo \<Rightarrow> gvalue" where
  "core_dump_entry clock fi =
     VMap ([(''pid'', VInt 0), (''uid'', VInt 0), (''gid'', VInt 0), (''signal'', VInt 0),
            (''timestamp'', VString (clock (fi_ModTime fi)))] @
           (if fi_Size fi = 0 then [] else [(''size'', VInt64 (fi_Size fi))]))"

definition core_dumps_in :: "lin_files \<Rightarrow> (int \<Rightarrow> gostring) \<Rightarrow> gostring \<Rightarrow> gvalue list" where
  "core_dumps_in lf clock p =
     (case lf_Stat lf p of
        Inl _ \<Rightarrow> []
      | Inr info \<Rightarrow>
          (if \<not> fi_IsDir info then []
           else (case lf_ReadDir lf p of
                   Inl _ \<Rightarrow> []
                 | Inr files \<Rightarrow>
                     List.map_filter (\<lambda>f.
                       if de_IsDir f then None
                       else (case de_Info f of Inl _ \<Rightarrow> None | Inr fi \<Rightarrow> Some (core_dump_entry clock fi))) files)))"

definition coreDumpList_Execute :: "lin_files \<Rightarrow> (int \<Rightarrow> gostring) \<Rightarrow> gmap \<Rightarrow> gvalue outcome" where
  "coreDumpList_Execute lf clock params =
     Go (VMap [(''dumps'', nil_slice (concat (map (core_dumps_in lf clock) core_dump_dirs)))])"

fun find_core_dump ::
  "lin_files \<Rightarrow> lin_env \<Rightarrow> (int \<Rightarrow> gostring) \<Rightarrow> gostring \<Rightarrow> gostring list \<Rightarrow> gvalue outcome" where
  "find_core_dump lf env clock fileName [] =
     Stop (''core dump '' @ Quote (lx_esc env) fileName @ '' not found in known paths'')"
| "find_core_dump lf env clock fileName (dir # dirs) =
     (let fullPath = filepath_Join [dir, fileName] in
      if \<not> HasPrefix fullPath dir then find_core_dump lf env clock fileName dirs
      else (case lf_Stat lf fullPath of
              Inl _ \<Rightarrow> find_core_dump lf env clock fileName dirs
            | Inr info \<Rightarrow>
                (if fi_IsDir info then find_core_dump lf env clock fileName dirs
                 else Go (VMap
                   [(''file'', VString fullPath), (''size'', VInt64 (fi_Size info)),
                    (''mod_time'', VString (clock (fi_ModTime info))), (''exists'', VBool True),
                    (''message'', VString ''core dump file found; metadata extraction from systemd-coredump requires journal or coredumpctl'')]))))"

definition coreDumpInfo_Execute :: "lin_files \<Rightarrow> lin_env \<Rightarrow> (int \<Rightarrow> gostring) \<Rightarrow> gmap \<Rightarrow> gvalue outcome" where
  "coreDumpInfo_Execute lf env clock params =
     and_then (attempt (RequireString params ''file'')) (\<lambda>fileName.
     find_core_dump lf env clock fileName core_dump_dirs)"

end
