(* ===== verification/Linux_Firewall.thy ===== *)
theory Linux_Firewall
  imports Linux_Systemd
begin

text \<open>
  The tasks of \<open>internal/provider/linux\<close> on firewalls and the resolver: \<open>nftables_common.go\<close>,
  \<open>nftables_linux.go\<close> with its stubs, \<open>nftables_list.go\<close>, \<open>nftables_table_get.go\<close>,
  \<open>nftables_ruleset.go\<close>, \<open>iptables_rules.go\<close>, \<open>firewalld_status.go\<close>, \<open>firewalld_zone_get.go\<close> and
  \<open>dns_resolve.go\<close>. The package nftables is the record \<open>nft_lib\<close>, with the numbers of its constants and
  the text \<open>%T: %v\<close> of an expression, and a connection the record \<open>nft_client\<close>; its pointers are options.
\<close>

section \<open>nftables\<close>

record nft_table =
  nt_Name :: gostring
  nt_Family :: int
  nt_Use :: int
  nt_Flags :: int

record nft_chain =
  nc_Name :: gostring
  nc_Table :: "nft_table option"
  nc_Type :: gostring
  nc_Hooknum :: "int option"
  nc_Priority :: "int option"
  nc_Policy :: "int option"
  nc_Device :: gostring

record 'e nft_rule =
  nr_Handle :: int
  nr_Chain :: "nft_chain option"
  nr_Exprs :: "'e list"

record 'e nft_client =
  ListTables :: "gostring + nft_table option list"
  ListTableOfFamily :: "gostring \<Rightarrow> int \<Rightarrow> gostring + nft_table option"
  ListChains :: "gostring + nft_chain option list"
  GetRules :: "nft_table \<Rightarrow> nft_chain \<Rightarrow> gostring + 'e nft_rule option list"

record 'e nft_lib =
  nl_FamilyUnspecified :: int
  nl_FamilyIPv4 :: int
  nl_FamilyIPv6 :: int
  nl_FamilyINet :: int
  nl_FamilyARP :: int
  nl_FamilyBridge :: int
  nl_FamilyNetdev :: int
  nl_HookPrerouting :: int
  nl_HookInput :: int
  nl_HookForward :: int
  nl_HookOutput :: int
  nl_HookPostrouting :: int
  nl_HookIngress :: int
  nl_HookEgress :: int
  nl_PolicyAccept :: int
  nl_PolicyDrop :: int
  nl_show :: "'e \<Rightarrow> gostring"
  nl_New :: "gostring + 'e nft_client"

text \<open>The switches: the first case that matches.\<close>

definition family_cases :: "'e nft_lib \<Rightarrow> (gostring \<times> int) list" where
  "family_cases lib =
     [(''ip'', nl_FamilyIPv4 lib), (''ip6'', nl_FamilyIPv6 lib), (''inet'', nl_FamilyINet lib), (''arp'', nl_FamilyARP lib),
      (''bridge'', nl_FamilyBridge lib), (''netdev'', nl_FamilyNetdev lib)]"

definition nftablesFamilyFromString :: "'e nft_lib \<Rightarrow> gostring \<Rightarrow> int" where
  "nftablesFamilyFromString lib family = ok_or (map_of (family_cases lib) family) (nl_FamilyUnspecified lib)"

definition case_name :: "(gostring \<times> int) list \<Rightarrow> int \<Rightarrow> gostring option" where
  "case_name cs n = map_of (map (\<lambda>(name, k). (k, name)) cs) n"

definition nftablesFamilyString :: "'e nft_lib \<Rightarrow> int \<Rightarrow> gostring" where
  "nftablesFamilyString lib family = ok_or (case_name (family_cases lib) family) ''unspecified''"

definition unknown_number :: "int \<Rightarrow> gostring" where
  "unknown_number n = ''unknown('' @ Itoa n @ '')''"

definition nftablesHookString :: "'e nft_lib \<Rightarrow> int \<Rightarrow> gostring" where
  "nftablesHookString lib hook =
     ok_or (case_name
       [(''prerouting'', nl_HookPrerouting lib), (''input'', nl_HookInput lib), (''forward'', nl_HookForward lib),
        (''output'', nl_HookOutput lib), (''postrouting'', nl_HookPostrouting lib), (''ingress'', nl_HookIngress lib),
        (''egress'', nl_HookEgress lib)] hook) (unknown_number hook)"

definition nftablesPolicyString :: "'e nft_lib \<Rightarrow> int \<Rightarrow> gostring" where
  "nftablesPolicyString lib policy =
     ok_or (case_name [(''accept'', nl_PolicyAccept lib), (''drop'', nl_PolicyDrop lib)] policy) (unknown_number policy)"

definition nft_families :: "gostring list" where
  "nft_families = [''ip'', ''ip6'', ''inet'', ''arp'', ''bridge'', ''netdev'']"

definition validateNftablesFamily :: "gostring \<Rightarrow> gostring option" where
  "validateNftablesFamily family =
     (if family \<in> set nft_families then None
      else Some ''parameter family must be one of ip, ip6, inet, arp, bridge, netdev'')"

text \<open>The description of a table. A field with its zero value is left out of the JSON.\<close>

record nftablesChain =
  nfc_Name :: gostring
  nfc_Type :: gostring
  nfc_Hook :: gostring
  nfc_Priority :: int
  nfc_Policy :: gostring
  nfc_Device :: gostring

record nftablesRule =
  nfr_Handle :: int
  nfr_Chain :: gostring
  nfr_Expressions :: gostring

record nftablesTable =
  nft_Name :: gostring
  nft_Family :: gostring
  nft_Chains :: "nftablesChain list"
  nft_Rules :: "nftablesRule list"
  nft_Use :: int
  nft_Flags :: int

definition unless_empty :: "gostring \<Rightarrow> gostring \<Rightarrow> gmap" where
  "unless_empty key v = (if v = [] then [] else [(key, VString v)])"

definition unless_zero :: "gostring \<Rightarrow> (int \<Rightarrow> gvalue) \<Rightarrow> int \<Rightarrow> gmap" where
  "unless_zero key f n = (if n = 0 then [] else [(key, f n)])"

definition unless_none :: "gostring \<Rightarrow> gvalue list \<Rightarrow> gmap" where
  "unless_none key vs = (if vs = [] then [] else [(key, VList vs)])"

definition nftablesChain_value :: "nftablesChain \<Rightarrow> gvalue" where
  "nftablesChain_value c =
     VMap ((''name'', VString (nfc_Name c)) # unless_empty ''type'' (nfc_Type c) @ unless_empty ''hook'' (nfc_Hook c) @
           unless_zero ''priority'' VInt (nfc_Priority c) @ unless_empty ''policy'' (nfc_Policy c) @
           unless_empty ''device'' (nfc_Device c))"

definition nftablesRule_value :: "nftablesRule \<Rightarrow> gvalue" where
  "nftablesRule_value r =
     VMap (unless_zero ''handle'' VUint64 (nfr_Handle r) @ unless_empty ''chain'' (nfr_Chain r) @
           [(''expressions'', VString (nfr_Expressions r))])"

definition nftablesTable_value :: "nftablesTable \<Rightarrow> gvalue" where
  "nftablesTable_value t =
     VMap ([(''name'', VString (nft_Name t)), (''family'', VString (nft_Family t))] @
           unless_none ''chains'' (map nftablesChain_value (nft_Chains t)) @
           unless_none ''rules'' (map nftablesRule_value (nft_Rules t)) @
           unless_zero ''use'' VUint32 (nft_Use t) @ unless_zero ''flags'' VUint32 (nft_Flags t))"

definition nftablesChainFromKernel :: "'e nft_lib \<Rightarrow> nft_chain \<Rightarrow> nftablesChain" where
  "nftablesChainFromKernel lib chain =
     \<lparr>nfc_Name = nc_Name chain, nfc_Type = nc_Type chain,
      nfc_Hook = (case nc_Hooknum chain of None \<Rightarrow> [] | Some h \<Rightarrow> nftablesHookString lib h),
      nfc_Priority = ok_or (nc_Priority chain) 0,
      nfc_Policy = (case nc_Policy chain of None \<Rightarrow> [] | Some p \<Rightarrow> nftablesPolicyString lib p),
      nfc_Device = nc_Device chain\<rparr>"

definition nftablesRuleFromKernel :: "'e nft_lib \<Rightarrow> 'e nft_rule \<Rightarrow> gostring \<Rightarrow> nftablesRule" where
  "nftablesRuleFromKernel lib rule chainName =
     \<lparr>nfr_Handle = nr_Handle rule,
      nfr_Chain = (if chainName = [] then (case nr_Chain rule of None \<Rightarrow> [] | Some c \<Rightarrow> nc_Name c) else chainName),
      nfr_Expressions = Join (map (nl_show lib) (nr_Exprs rule)) ''; ''\<rparr>"

definition sameNftablesTable :: "nft_table \<Rightarrow> nft_table option \<Rightarrow> bool" where
  "sameNftablesTable a b \<longleftrightarrow> (case b of None \<Rightarrow> False | Some t \<Rightarrow> nt_Name a = nt_Name t \<and> nt_Family a = nt_Family t)"

text \<open>The loop over the chains: those of the table, each with its rules, until one cannot be read.\<close>

fun describe_chains ::
  "'e nft_lib \<Rightarrow> 'e nft_client \<Rightarrow> nft_table \<Rightarrow> nft_chain option list \<Rightarrow> nftablesTable \<Rightarrow> nftablesTable outcome" where
  "describe_chains lib c table [] d = Go d"
| "describe_chains lib c table (None # chs) d = describe_chains lib c table chs d"
| "describe_chains lib c table (Some chain # chs) d =
     (if \<not> sameNftablesTable table (nc_Table chain) then describe_chains lib c table chs d
      else case GetRules c table chain of
             Inl err \<Rightarrow> Stop (''list nftables rules for '' @ nt_Name table @ ''/'' @ nc_Name chain @ '': '' @ err)
           | Inr rules \<Rightarrow>
               describe_chains lib c table chs
                 (d\<lparr>nft_Chains := nft_Chains d @ [nftablesChainFromKernel lib chain],
                    nft_Rules := nft_Rules d @
                      map (\<lambda>rule. nftablesRuleFromKernel lib rule (nc_Name chain)) (List.map_filter id rules)\<rparr>))"

definition described_table :: "'e nft_lib \<Rightarrow> nft_table \<Rightarrow> nftablesTable" where
  "described_table lib table =
     \<lparr>nft_Name = nt_Name table, nft_Family = nftablesFamilyString lib (nt_Family table), nft_Chains = [], nft_Rules = [],
      nft_Use = nt_Use table, nft_Flags = nt_Flags table\<rparr>"

definition describeNftablesTable :: "'e nft_lib \<Rightarrow> 'e nft_client \<Rightarrow> nft_table \<Rightarrow> nftablesTable outcome" where
  "describeNftablesTable lib c table =
     (case ListChains c of
        Inl err \<Rightarrow> Stop (''list nftables chains: '' @ err)
      | Inr chs \<Rightarrow> describe_chains lib c table chs (described_table lib table))"

definition table_wanted :: "'e nft_lib \<Rightarrow> gostring \<Rightarrow> gostring \<Rightarrow> nft_table \<Rightarrow> bool" where
  "table_wanted lib tableName family table \<longleftrightarrow>
     (tableName = [] \<or> nt_Name table = tableName) \<and>
     (family = [] \<or> nftablesFamilyString lib (nt_Family table) = family)"

fun describe_tables ::
  "'e nft_lib \<Rightarrow> 'e nft_client \<Rightarrow> gostring \<Rightarrow> gostring \<Rightarrow> nft_table option list \<Rightarrow> nftablesTable list outcome" where
  "describe_tables lib c tableName family [] = Go []"
| "describe_tables lib c tableName family (None # tables) = describe_tables lib c tableName family tables"
| "describe_tables lib c tableName family (Some table # tables) =
     (if table_wanted lib tableName family table
      then and_then (describeNftablesTable lib c table) (\<lambda>d.
           and_then (describe_tables lib c tableName family tables) (\<lambda>ds. Go (d # ds)))
      else describe_tables lib c tableName family tables)"

definition listNftablesTables ::
  "'e nft_lib \<Rightarrow> 'e nft_client \<Rightarrow> gostring \<Rightarrow> gostring \<Rightarrow> nftablesTable list outcome" where
  "listNftablesTables lib c tableName family =
     (case if family = [] then None else validateNftablesFamily family of
        Some err \<Rightarrow> Stop err
      | None \<Rightarrow>
          (case ListTables c of
             Inl err \<Rightarrow> Stop (''list nftables tables: '' @ err)
           | Inr rawTables \<Rightarrow> describe_tables lib c tableName family rawTables))"

definition netlink_connection :: "'e nft_lib \<Rightarrow> 'e nft_client outcome" where
  "netlink_connection lib =
     (case nl_New lib of Inl err \<Rightarrow> Stop (''open nftables netlink connection: '' @ err) | Inr c \<Rightarrow> Go c)"

definition listNftablesTablesFromKernel :: "'e nft_lib \<Rightarrow> gostring \<Rightarrow> gostring \<Rightarrow> nftablesTable list outcome" where
  "listNftablesTablesFromKernel lib tableName family =
     and_then (netlink_connection lib) (\<lambda>c. listNftablesTables lib c tableName family)"

definition getNftablesTableFromKernel ::
  "(gostring \<Rightarrow> gostring) \<Rightarrow> 'e nft_lib \<Rightarrow> gostring \<Rightarrow> gostring \<Rightarrow> nftablesTable outcome" where
  "getNftablesTableFromKernel esc lib tableName family =
     (case validateNftablesFamily family of
        Some err \<Rightarrow> Stop err
      | None \<Rightarrow>
          and_then (netlink_connection lib) (\<lambda>c.
          (let what = ''nftables table '' @ Quote esc tableName @ '' family '' @ Quote esc family in
           case ListTableOfFamily c tableName (nftablesFamilyFromString lib family) of
             Inl err \<Rightarrow> Stop (''list '' @ what @ '': '' @ err)
           | Inr None \<Rightarrow> Stop (what @ '' not found'')
           | Inr (Some table) \<Rightarrow> describeNftablesTable lib c table)))"

definition nftablesList_Execute :: "'e nft_lib \<Rightarrow> gmap \<Rightarrow> gvalue outcome" where
  "nftablesList_Execute lib params =
     and_then (attempt (OptionalString params ''table_name'' [])) (\<lambda>tableName.
     and_then (attempt (OptionalString params ''family'' [])) (\<lambda>family.
     and_then (listNftablesTablesFromKernel lib tableName family) (\<lambda>tables.
     Go (VMap [(''source'', VString ''netlink''), (''tables'', VList (map nftablesTable_value tables))]))))"

definition nftablesTableGet_Execute :: "(gostring \<Rightarrow> gostring) \<Rightarrow> 'e nft_lib \<Rightarrow> gmap \<Rightarrow> gvalue outcome" where
  "nftablesTableGet_Execute esc lib params =
     and_then (attempt (RequireString params ''table_name'')) (\<lambda>tableName.
     and_then (attempt (OptionalString params ''family'' ''inet'')) (\<lambda>family.
     and_then (getNftablesTableFromKernel esc lib tableName family) (\<lambda>table.
     Go (VMap [(''source'', VString ''netlink''), (''table'', nftablesTable_value table)]))))"

text \<open>On other systems there is no netlink.\<close>

definition only_on_linux :: gostring where
  "only_on_linux = ''nftables netlink is only available on linux''"

definition nftablesList_stub :: "gmap \<Rightarrow> gvalue outcome" where
  "nftablesList_stub params = Stop only_on_linux"

definition nftablesTableGet_stub :: "gmap \<Rightarrow> gvalue outcome" where
  "nftablesTableGet_stub params = Stop only_on_linux"

definition readNftablesRulesetFromNetlink_stub :: "nftablesTable list outcome" where
  "readNftablesRulesetFromNetlink_stub = Stop only_on_linux"

section \<open>The rule set, with procfs to fall back on\<close>

definition readNftablesRulesetFromNetlink :: "'e nft_lib \<Rightarrow> nftablesTable list outcome" where
  "readNftablesRulesetFromNetlink lib = and_then (netlink_connection lib) (\<lambda>c. listNftablesTables lib c [] [])"

definition proc_lines :: "lin_env \<Rightarrow> Reader \<Rightarrow> gostring list \<Rightarrow> gostring list" where
  "proc_lines env r elem =
     (if Reader_Exists (lx_fs env) r elem
      then (case ReadFileLines (lx_fs env) r elem of Inl _ \<Rightarrow> [] | Inr lines \<Rightarrow> lines) else [])"

definition nf_table_line :: "gostring \<Rightarrow> gvalue option" where
  "nf_table_line line =
     (if line = [] \<or> HasPrefix line ''#'' then None
      else case Fields line of
             name # family # _ \<Rightarrow> Some (VMap [(''name'', VString name), (''family'', VString family)])
           | _ \<Rightarrow> None)"

definition debugfs_messages :: "lin_env \<Rightarrow> Reader \<Rightarrow> gostring list" where
  "debugfs_messages env r =
     (let elem = [''sys'', ''kernel'', ''debug'', ''netfilter'', ''nf_tables''] in
      if Reader_Exists (lx_fs env) r elem
      then (case ReadDirNames (lx_fs env) r elem of
              Inl _ \<Rightarrow> []
            | Inr entries \<Rightarrow>
                (if entries = [] then [] else [''debugfs entries found: '' @ Itoa (int (length entries))]))
      else [])"

text \<open>The tables and the messages.\<close>

definition readNftablesRulesetFromProcfs :: "lin_env \<Rightarrow> Reader \<Rightarrow> gvalue list \<times> gostring list" where
  "readNftablesRulesetFromProcfs env r =
     (let tables = List.map_filter nf_table_line (proc_lines env r [''proc'', ''net'', ''nf_tables'']);
          messages = debugfs_messages env r
      in (tables,
          if tables = [] \<and> messages = []
          then [''nftables ruleset not readable via procfs; nft command or netlink required for full ruleset'']
          else messages))"

text \<open>Reading procfs never fails; the netlink answer is an argument, for the stub of other systems has its own.\<close>

definition readNftablesRuleset :: "nftablesTable list outcome \<Rightarrow> lin_env \<Rightarrow> Reader \<Rightarrow> gvalue outcome" where
  "readNftablesRuleset netlink env r =
     (case netlink of
        Go tables \<Rightarrow> Go (VMap [(''source'', VString ''netlink''), (''tables'', VList (map nftablesTable_value tables))])
      | Stop err \<Rightarrow>
          (let (tables, messages) = readNftablesRulesetFromProcfs env r in
           Go (VMap [(''source'', VString ''procfs''), (''tables'', nil_slice tables),
                     (''messages'', VStrings ((''netlink unavailable: '' @ err) # messages))]))
      | Panic \<Rightarrow> Panic)"

definition nftablesRuleset_Execute :: "'e nft_lib \<Rightarrow> lin_env \<Rightarrow> Reader \<Rightarrow> gmap \<Rightarrow> gvalue outcome" where
  "nftablesRuleset_Execute lib env r params = readNftablesRuleset (readNftablesRulesetFromNetlink lib) env r"

section \<open>iptables\<close>

definition iptables_table :: "gostring \<Rightarrow> gostring \<Rightarrow> gvalue" where
  "iptables_table family line =
     VMap [(''name'', VString line), (''family'', VString family), (''chains'', VStrings []), (''rules'', VStrings [])]"

definition iptables_tables :: "lin_env \<Rightarrow> Reader \<Rightarrow> gostring \<Rightarrow> gostring \<Rightarrow> gvalue list" where
  "iptables_tables env r family file =
     map (iptables_table family) (filter (\<lambda>line. line \<noteq> []) (proc_lines env r [''proc'', ''net'', file]))"

definition iptablesRules_Execute :: "lin_env \<Rightarrow> Reader \<Rightarrow> gmap \<Rightarrow> gvalue outcome" where
  "iptablesRules_Execute env r params =
     (let tables = iptables_tables env r ''ip'' ''ip_tables_names'' @ iptables_tables env r ''ip6'' ''ip6_tables_names'' in
      Go (VMap [(''tables'', nil_slice tables),
        (''messages'', VStrings
          [if tables = [] then ''iptables rules not readable via procfs; iptables command or netlink required for full rules''
           else ''table names available from procfs; actual chains/rules require iptables command or netlink''])]))"

section \<open>firewalld\<close>

definition pid_files :: "gostring list list" where
  "pid_files = [[''run'', ''firewalld'', ''firewalld.pid''], [''var'', ''run'', ''firewalld.pid'']]"

fun first_pid :: "lin_env \<Rightarrow> Reader \<Rightarrow> gostring list list \<Rightarrow> int" where
  "first_pid env r [] = 0"
| "first_pid env r (elem # elems) =
     (case ReadInt (lx_fs env) r elem of
        Some p \<Rightarrow> (if p > 0 then p else first_pid env r elems) | None \<Rightarrow> first_pid env r elems)"

fun default_zone_in :: "gostring list \<Rightarrow> gostring" where
  "default_zone_in [] = []"
| "default_zone_in (raw # rest) =
     (let line = TrimSpace raw in
      if line = [] \<or> HasPrefix line ''#'' \<or> \<not> HasPrefix line ''DefaultZone='' then default_zone_in rest
      else TrimSpace (TrimPrefix line ''DefaultZone=''))"

definition readFirewalldDefaultZone :: "lin_env \<Rightarrow> Reader \<Rightarrow> gostring" where
  "readFirewalldDefaultZone env r =
     (case ReadFileString (lx_fs env) r [''etc'', ''firewalld'', ''firewalld.conf''] of
        Inl _ \<Rightarrow> [] | Inr d \<Rightarrow> default_zone_in (Split (CHR 0x0A) d))"

definition readFirewalldZones :: "lin_env \<Rightarrow> Reader \<Rightarrow> gostring list" where
  "readFirewalldZones env r =
     (case ReadDirNames (lx_fs env) r [''etc'', ''firewalld'', ''zones''] of
        Inl _ \<Rightarrow> []
      | Inr names \<Rightarrow> map (\<lambda>name. take (length name - 4) name) (filter (\<lambda>name. HasSuffix name ''.xml'') names))"

definition firewalldStatus_Execute :: "lin_env \<Rightarrow> Reader \<Rightarrow> gmap \<Rightarrow> gvalue outcome" where
  "firewalldStatus_Execute env r params =
     (let fs = lx_fs env in
      Go (VMap
        [(''installed'', VBool (Reader_Exists fs r [''usr'', ''bin'', ''firewalld''] \<or> Reader_Exists fs r [''usr'', ''sbin'', ''firewalld''])),
         (''running'', VBool (list_ex (Reader_Exists fs r) pid_files)), (''pid'', VInt (first_pid env r pid_files)),
         (''default_zone'', VString (readFirewalldDefaultZone env r)),
         (''zones'', dependency_value (readFirewalldZones env r)), (''version'', VString ''unknown'')]))"

definition validateZoneName :: "(gostring \<Rightarrow> gostring) \<Rightarrow> gostring \<Rightarrow> gostring option" where
  "validateZoneName esc zone =
     (if CHR ''/'' \<in> set zone \<or> CHR 0x5C \<in> set zone \<or> zone = ''.'' \<or> zone = ''..''
      then Some (''invalid zone name: '' @ Quote esc zone) else None)"

text \<open>What \<open>encoding/xml\<close> reads of a zone: names of services, ports with protocols, sources, interfaces, two marks.\<close>

record firewalldZoneXML =
  zx_Short :: gostring
  zx_Description :: gostring
  zx_Services :: "gostring list"
  zx_Ports :: "(gostring \<times> gostring) list"
  zx_Sources :: "gostring list"
  zx_Interfaces :: "gostring list"
  zx_Forward :: bool
  zx_Masquerade :: bool

definition nonempty :: "gostring list \<Rightarrow> gvalue" where
  "nonempty vs = VStrings (filter (\<lambda>v. v \<noteq> []) vs)"

definition zone_value :: "gostring \<Rightarrow> firewalldZoneXML \<Rightarrow> gvalue" where
  "zone_value zone z =
     VMap [(''name'', VString zone), (''short'', VString (zx_Short z)), (''description'', VString (zx_Description z)),
           (''services'', nonempty (zx_Services z)),
           (''ports'', VList (map (\<lambda>(port, protocol). VStrMap [(''protocol'', protocol), (''port'', port)]) (zx_Ports z))),
           (''sources'', nonempty (zx_Sources z)), (''interfaces'', nonempty (zx_Interfaces z)),
           (''forward'', VBool (zx_Forward z)), (''masquerade'', VBool (zx_Masquerade z))]"

definition readFirewalldZone ::
  "(gostring \<Rightarrow> gostring + firewalldZoneXML) \<Rightarrow> lin_env \<Rightarrow> Reader \<Rightarrow> gostring \<Rightarrow> gvalue outcome" where
  "readFirewalldZone unmarshal env r zone =
     (case ReadFileString (lx_fs env) r [''etc'', ''firewalld'', ''zones'', zone @ ''.xml''] of
        Inl err \<Rightarrow> Stop (''read zone '' @ Quote (lx_esc env) zone @ '': '' @ err)
      | Inr d \<Rightarrow>
          (case unmarshal d of
             Inl err \<Rightarrow> Stop (''parse zone '' @ Quote (lx_esc env) zone @ '': '' @ err)
           | Inr z \<Rightarrow> Go (zone_value zone z)))"

definition firewalldZoneGet_Execute ::
  "(gostring \<Rightarrow> gostring + firewalldZoneXML) \<Rightarrow> lin_env \<Rightarrow> Reader \<Rightarrow> gmap \<Rightarrow> gvalue outcome" where
  "firewalldZoneGet_Execute unmarshal env r params =
     and_then (attempt (RequireString params ''zone'')) (\<lambda>zone.
     (case validateZoneName (lx_esc env) zone of
        Some err \<Rightarrow> Stop err
      | None \<Rightarrow> readFirewalldZone unmarshal env r zone))"

section \<open>linux.network.dns.resolve\<close>

text \<open>The lookups of \<open>net.Resolver\<close>; an address is given by whether it is one of IPv4, and by its text.\<close>

record net_resolver =
  LookupIPAddr :: "gostring \<Rightarrow> gostring + (bool \<times> gostring) list"
  LookupCNAME :: "gostring \<Rightarrow> gostring + gostring"
  LookupTXT :: "gostring \<Rightarrow> gostring + gostring list"
  LookupAddr :: "gostring \<Rightarrow> gostring + gostring list"

definition dns_records :: "gostring \<Rightarrow> gostring list \<Rightarrow> (gostring \<times> gostring) list" where
  "dns_records type vs = map (\<lambda>v. (type, v)) vs"

definition resolveDNS :: "net_resolver \<Rightarrow> gostring \<Rightarrow> gostring \<Rightarrow> gostring + (gostring \<times> gostring) list" where
  "resolveDNS rv target recordType =
     (if recordType = ''A'' then
        map_sum id (\<lambda>ips. dns_records ''A'' (map snd (filter fst ips))) (LookupIPAddr rv target)
      else if recordType = ''AAAA'' then
        map_sum id (\<lambda>ips. dns_records ''AAAA'' (map snd (filter (\<lambda>ip. \<not> fst ip) ips))) (LookupIPAddr rv target)
      else if recordType = ''CNAME'' then map_sum id (\<lambda>cname. dns_records ''CNAME'' [cname]) (LookupCNAME rv target)
      else if recordType = ''TXT'' then map_sum id (dns_records ''TXT'') (LookupTXT rv target)
      else if recordType = ''PTR'' then map_sum id (dns_records ''PTR'') (LookupAddr rv target)
      else Inl (''unsupported record type: '' @ recordType))"

text \<open>A record type that is not a string counts as none. \<open>upper\<close> is \<open>strings.ToUpper\<close>; the time is an argument.\<close>

definition record_type :: "(gostring \<Rightarrow> gostring) \<Rightarrow> gmap \<Rightarrow> gostring" where
  "record_type upper params =
     (case map_of params ''record_type'' of
        Some (VString s) \<Rightarrow> (let u = upper (TrimSpace s) in if u = [] then ''A'' else u)
      | _ \<Rightarrow> (let u = upper [] in if u = [] then ''A'' else u))"

definition dnsResolve_Execute ::
  "(gostring \<Rightarrow> gostring) \<Rightarrow> net_resolver \<Rightarrow> int \<Rightarrow> gmap \<Rightarrow> gvalue outcome" where
  "dnsResolve_Execute upper rv elapsed params =
     and_then (attempt (RequireString params ''target'')) (\<lambda>target.
     (let recordType = record_type upper params in
      and_then (attempt (resolveDNS rv target recordType)) (\<lambda>answers.
      Go (VMap
        [(''target'', VString target), (''record_type'', VString recordType),
         (''answers'', nil_slice (map (\<lambda>(t, v). VMap [(''type'', VString t), (''value'', VString v)]) answers)),
         (''count'', VInt (int (length answers))), (''duration_ms'', VInt64 elapsed)]))))"

end
