(* ===== verification/Linux_Services_Safety.thy ===== *)
theory Linux_Services_Safety
  imports Linux_Safety Linux_Journal Linux_Firewall
begin

text \<open>
  What the tasks on units, journals, logins, core dumps and firewalls keep to: which files they may answer
  with, what the two parsers of units make of a text, and which records of logins an answer holds.
\<close>

section \<open>The files an answer may hold\<close>

text \<open>A zone is one file of one directory.\<close>

lemma zone_path:
  assumes "validateZoneName esc zone = None" "zone \<noteq> []"
  shows "Reader_Path ''/'' [''etc'', ''firewalld'', ''zones'', zone @ ''.xml''] = ''/etc/firewalld/zones/'' @ zone @ ''.xml''"
proof -
  have "zone @ ''.xml'' \<noteq> ''.''" "zone @ ''.xml'' \<noteq> ''..''" using assms(2) by (cases zone; auto)+
  moreover have "CHR ''/'' \<notin> set (zone @ ''.xml'')" using assms(1) by (auto simp: validateZoneName_def split: if_splits)
  ultimately have "clean_form True [''etc'', ''firewalld'', ''zones'', zone @ ''.xml'']" by (auto simp: clean_form_def)
  from filepath_Join_root [OF this] show ?thesis by (simp add: Reader_Path_def)
qed

lemma RequireString_nonempty: "RequireString params key = Inr s \<Longrightarrow> s \<noteq> []"
  by (auto simp: RequireString_def split: option.splits gvalue.splits if_splits)

text \<open>
  \<open>linux.firewall.firewalld.zone.get\<close> reads nothing but files \<open><name>.xml\<close> of
  \<open>/etc/firewalld/zones\<close> itself, whatever zone is asked for: if two hosts agree on these files, they
  give the same answer.
\<close>

theorem firewalld_zone_confined:
  assumes "\<And>name. CHR ''/'' \<notin> set name \<Longrightarrow>
      fs_ReadFile (lx_fs env) (''/etc/firewalld/zones/'' @ name @ ''.xml'') =
      fs_ReadFile (lx_fs env') (''/etc/firewalld/zones/'' @ name @ ''.xml'')"
    and "lx_esc env = lx_esc env'"
  shows "firewalldZoneGet_Execute unmarshal env ''/'' params = firewalldZoneGet_Execute unmarshal env' ''/'' params"
proof (cases "RequireString params ''zone''")
  case (Inr zone)
  have "readFirewalldZone unmarshal env ''/'' zone = readFirewalldZone unmarshal env' ''/'' zone"
    if "validateZoneName (lx_esc env') zone = None"
  proof -
    have "CHR ''/'' \<notin> set zone" using that by (auto simp: validateZoneName_def split: if_splits)
    then have "ReadFileString (lx_fs env) ''/'' [''etc'', ''firewalld'', ''zones'', zone @ ''.xml''] =
        ReadFileString (lx_fs env') ''/'' [''etc'', ''firewalld'', ''zones'', zone @ ''.xml'']"
      unfolding ReadFileString_def zone_path [OF that RequireString_nonempty [OF Inr]] by (rule assms(1))
    then show ?thesis unfolding readFirewalldZone_def assms(2) by simp
  qed
  with Inr assms(2) show ?thesis by (auto simp: firewalldZoneGet_Execute_def attempt_def split: option.split)
qed (simp add: firewalldZoneGet_Execute_def attempt_def)

theorem firewalld_zone_confined_witness:
  "firewalldZoneGet_Execute (\<lambda>d. Inl d) (some_host (\<lambda>p. if p = ''/etc/shadow'' then Inr ''root'' else Inl ''none'')) ''/''
     [(''zone'', VString ''../../shadow'')] =
   firewalldZoneGet_Execute (\<lambda>d. Inl d) (some_host (\<lambda>p. Inl ''none'')) ''/'' [(''zone'', VString ''../../shadow'')]"
  by (rule firewalld_zone_confined) (simp_all add: some_host_def)

text \<open>The name of a unit is not checked: it leads to any file, and no list of allowed paths is asked.\<close>

lemma unit_path_up: "Reader_Path ''/'' [''etc'', ''systemd'', ''system'', ''../../../'' @ p] = Clean (''/'' @ p)"
  by (simp add: Reader_Path_def filepath_Join_def Clean_def rooted_def HasPrefix_def split: list.split)

text \<open>
  What \<open>linux.systemd.unit.definition\<close> must not do and does: for a unit named
  \<open>../../../\<close> and a path, it answers with the text of the file of that path, whatever
  file of the host it is. \<open>allowed_read_paths\<close> has no part in it.
\<close>

theorem unit_definition_reads_any_file:
  assumes "RequireString params ''unit'' = Inr (''../../../'' @ p)"
    and "fs_IsDir (lx_fs env) (Clean (''/'' @ p)) = Inr d" "fs_ReadFile (lx_fs env) (Clean (''/'' @ p)) = Inr content"
  shows "\<exists>m. systemdUnitDefinition_Execute env ''/'' params = Go (VMap m) \<and>
    map_of m ''file_path'' = Some (VString (Clean (''/'' @ p))) \<and> map_of m ''content'' = Some (VString content)"
proof -
  define u where "u = ''../../../'' @ p"
  define path where "path = Clean (''/'' @ p)"
  have "Reader_Path ''/'' ([''etc'', ''systemd'', ''system''] @ [u]) = path" using unit_path_up [of p] by (simp add: u_def path_def)
  moreover have "fs_IsDir (lx_fs env) path = Inr d" "fs_ReadFile (lx_fs env) path = Inr content"
    using assms(2,3) by (simp_all add: path_def)
  ultimately have "findUnitFile env ''/'' u = Go (path, content)"
    by (simp add: findUnitFile_def systemdUnitSearchDirs_def Reader_Exists_def)
  with assms(1) have "systemdUnitDefinition_Execute env ''/'' params =
      Go (VMap [(''name'', VString u), (''file_path'', VString path), (''content'', VString content),
                (''drop_ins'', nil_slice (listUnitDropIns env ''/'' u))])"
    by (simp add: systemdUnitDefinition_Execute_def attempt_def u_def)
  then show ?thesis by (simp add: path_def)
qed

theorem unit_definition_reads_any_file_witness:
  "\<exists>m. systemdUnitDefinition_Execute (some_host (\<lambda>p. if p = ''/etc/shadow'' then Inr ''root:secret'' else Inl ''none'')) ''/''
      [(''unit'', VString ''../../../etc/shadow'')] = Go (VMap m) \<and>
    map_of m ''file_path'' = Some (VString ''/etc/shadow'') \<and> map_of m ''content'' = Some (VString ''root:secret'')"
proof -
  have "Clean (''/'' @ ''etc/shadow'') = ''/etc/shadow''" by code_simp
  moreover have "RequireString [(''unit'', VString ''../../../etc/shadow'')] ''unit'' = Inr (''../../../'' @ ''etc/shadow'')"
    by code_simp
  ultimately show ?thesis
    using unit_definition_reads_any_file [of "[(''unit'', VString ''../../../etc/shadow'')]" "''etc/shadow''"
        "some_host (\<lambda>p. if p = ''/etc/shadow'' then Inr ''root:secret'' else Inl ''none'')" True "''root:secret''"]
    by (simp add: some_host_def)
qed

text \<open>The directories of core dumps are prefixes of the text: a sibling whose name starts the same is admitted too.\<close>

lemma core_dump_sibling:
  assumes "lf_Stat lf ''/var/lib/systemd/coredump-old/x'' = Inr info" "\<not> fi_IsDir info"
  shows "\<exists>m. coreDumpInfo_Execute lf env clock [(''file'', VString ''../coredump-old/x'')] = Go (VMap m) \<and>
    map_of m ''file'' = Some (VString ''/var/lib/systemd/coredump-old/x'')"
proof -
  have "RequireString [(''file'', VString ''../coredump-old/x'')] ''file'' = Inr ''../coredump-old/x''"
    "filepath_Join [''/var/lib/systemd/coredump'', ''../coredump-old/x''] = ''/var/lib/systemd/coredump-old/x''"
    "HasPrefix ''/var/lib/systemd/coredump-old/x'' ''/var/lib/systemd/coredump''" by code_simp+
  with assms show ?thesis by (simp add: coreDumpInfo_Execute_def core_dump_dirs_def attempt_def Let_def)
qed

text \<open>Otherwise a dump is a file below one of the two directories, as far as the text of its path tells.\<close>

lemma core_dump_below:
  "find_core_dump lf env clock fileName dirs = Go v \<Longrightarrow>
     \<exists>dir m. dir \<in> set dirs \<and> v = VMap m \<and> map_of m ''file'' = Some (VString (filepath_Join [dir, fileName])) \<and>
       HasPrefix (filepath_Join [dir, fileName]) dir"
proof (induction dirs)
  case (Cons dir dirs)
  let ?p = "filepath_Join [dir, fileName]"
  have "find_core_dump lf env clock fileName dirs = Go v \<or> HasPrefix ?p dir \<and> (\<exists>m. v = VMap ((''file'', VString ?p) # m))"
    using Cons.prems by (auto simp: Let_def split: if_splits sum.splits)
  then show ?case
  proof
    assume "HasPrefix ?p dir \<and> (\<exists>m. v = VMap ((''file'', VString ?p) # m))"
    then show ?thesis by (intro exI [of _ dir]) auto
  next
    assume "find_core_dump lf env clock fileName dirs = Go v"
    from Cons.IH [OF this] show ?thesis by auto
  qed
qed simp

section \<open>nftables\<close>

text \<open>The tables of an answer: those that were asked for, in the order of the kernel.\<close>

lemma describe_chains_head:
  "describe_chains lib c table cs d = Go d' \<Longrightarrow> nft_Name d' = nft_Name d \<and> nft_Family d' = nft_Family d"
  by (induction lib c table cs d rule: describe_chains.induct) (auto split: if_splits sum.splits)

lemma describe_table_head:
  "describeNftablesTable lib c table = Go d \<Longrightarrow>
     nft_Name d = nt_Name table \<and> nft_Family d = nftablesFamilyString lib (nt_Family table)"
  by (auto simp: describeNftablesTable_def described_table_def dest: describe_chains_head split: sum.splits)

lemma describe_tables_wanted:
  "describe_tables lib c tableName family ts = Go ds \<Longrightarrow>
     map (\<lambda>d. (nft_Name d, nft_Family d)) ds =
     map (\<lambda>t. (nt_Name t, nftablesFamilyString lib (nt_Family t)))
       (filter (table_wanted lib tableName family) (List.map_filter id ts))"
  by (induction lib c tableName family ts arbitrary: ds rule: describe_tables.induct)
    (fastforce simp: map_filter_simps and_then_Go dest: describe_table_head split: if_splits)+

text \<open>A family is looked up by the number that it is shown for, if the library gives each a number of its own.\<close>

lemma case_name_of:
  assumes "distinct (map snd cs)" "map_of cs name = Some n"
  shows "case_name cs n = Some name"
  unfolding case_name_def
proof (rule map_of_is_SomeI)
  have "map fst (map (\<lambda>(name, k). (k, name)) cs) = map snd cs" by (induction cs) auto
  with assms(1) show "distinct (map fst (map (\<lambda>(name, k). (k, name)) cs))" by (simp only:)
  show "(n, name) \<in> set (map (\<lambda>(name, k). (k, name)) cs)" using map_of_SomeD [OF assms(2)] by force
qed

lemma family_roundtrip:
  assumes "distinct (map snd (family_cases lib))" "family \<in> set nft_families"
  shows "nftablesFamilyString lib (nftablesFamilyFromString lib family) = family"
proof -
  have "map fst (family_cases lib) = nft_families" by (simp add: family_cases_def nft_families_def)
  with assms(2) obtain n where "map_of (family_cases lib) family = Some n"
    by (metis list.set_map map_of_eq_None_iff option.exhaust)
  with case_name_of [OF assms(1)] show ?thesis
    by (simp add: nftablesFamilyString_def nftablesFamilyFromString_def ok_or_def)
qed

text \<open>Two hooks of one number, as in the kernel, are shown by the first name.\<close>

lemma ingress_shown_as_prerouting:
  "nl_HookIngress lib = nl_HookPrerouting lib \<Longrightarrow> nftablesHookString lib (nl_HookIngress lib) = ''prerouting''"
  by (simp add: nftablesHookString_def case_name_def ok_or_def)

text \<open>Without netlink the rule set still has an answer, which says so.\<close>

lemma ruleset_falls_back:
  "netlink_connection lib = Stop err \<Longrightarrow>
     \<exists>m ms. nftablesRuleset_Execute lib env r params = Go (VMap m) \<and> map_of m ''source'' = Some (VString ''procfs'') \<and>
       map_of m ''messages'' = Some (VStrings ((''netlink unavailable: '' @ err) # ms))"
  by (auto simp: nftablesRuleset_Execute_def readNftablesRuleset_def readNftablesRulesetFromNetlink_def split: prod.split)

section \<open>Resolving\<close>

lemma dns_record_types:
  "resolveDNS rv target recordType = Inr answers \<Longrightarrow>
     recordType \<in> {''A'', ''AAAA'', ''CNAME'', ''TXT'', ''PTR''} \<and> (\<forall>a \<in> set answers. fst a = recordType)"
  by (cases "LookupIPAddr rv target"; cases "LookupCNAME rv target"; cases "LookupTXT rv target"; cases "LookupAddr rv target")
    (auto simp: resolveDNS_def dns_records_def split: if_splits)

chapter \<open>Units\<close>

section \<open>Trimming\<close>

lemma strip_rest: "\<exists>u. s = u @ strip ws s"
proof (induction ws s rule: strip.induct)
  case (1 ws s)
  show ?case
  proof (cases "find (\<lambda>w. w \<noteq> [] \<and> prefix w s) ws")
    case None
    then show ?thesis by (subst strip.simps) simp
  next
    case (Some w)
    with 1 [OF Some] obtain u where "drop (length w) s = u @ strip ws (drop (length w) s)" by auto
    moreover have "strip ws s = strip ws (drop (length w) s)" using Some by (subst strip.simps) simp
    ultimately have "s = (take (length w) s @ u) @ strip ws s" by (metis append.assoc append_take_drop_id)
    then show ?thesis by blast
  qed
qed

lemma strip_unchanged: "find (\<lambda>w. w \<noteq> [] \<and> prefix w s) ws = None \<Longrightarrow> strip ws s = s"
  by (subst strip.simps) simp

lemma TrimSpace_idem: "TrimSpace (TrimSpace s) = TrimSpace s"
proof -
  define a where "a = strip go_spaces s"
  define b where "b = rev (strip (map rev go_spaces) (rev a))"
  have t: "TrimSpace s = b" by (simp add: TrimSpace_def a_def b_def)
  obtain u where "rev a = u @ rev b" using strip_rest [of "rev a" "map rev go_spaces"] by (auto simp: b_def)
  then have "a = b @ rev u" by (metis rev_append rev_rev_ident)
  moreover have "find (\<lambda>w. w \<noteq> [] \<and> prefix w a) go_spaces = None" unfolding a_def by (rule strip_fixed)
  ultimately have "find (\<lambda>w. w \<noteq> [] \<and> prefix w b) go_spaces = None" by (auto simp: find_None_iff)
  then have "strip go_spaces b = b" by (rule strip_unchanged)
  moreover have "strip (map rev go_spaces) (rev b) = rev b"
    by (rule strip_unchanged) (simp only: b_def rev_rev_ident strip_fixed)
  ultimately show ?thesis by (simp add: t TrimSpace_def [of b])
qed

section \<open>The two parsers\<close>

fun clean_line :: "unit_line \<Rightarrow> bool" where
  "clean_line (KeyLine k v) \<longleftrightarrow> TrimSpace v = v"
| "clean_line (TextLine _) \<longleftrightarrow> False"
| "clean_line _ \<longleftrightarrow> True"

lemma classify_line_value: "classify_line raw = KeyLine k v \<Longrightarrow> TrimSpace v = v"
  by (auto simp: classify_line_def Let_def TrimSpace_idem split: if_splits option.splits)

text \<open>What the parsers have in common after the same lines.\<close>

definition same_state :: "gostring \<times> unit_sections \<Rightarrow> unit_state \<Rightarrow> bool" where
  "same_state p st \<longleftrightarrow>
     us_current st = fst p \<and> us_sections st = snd p \<and>
     (us_pendingKey st \<noteq> [] \<longrightarrow> us_current st \<noteq> [] \<and>
       (\<exists>kv v. map_of (snd p) (fst p) = Some kv \<and> map_of kv (us_pendingKey st) = Some v \<and> TrimSpace v = v))"

lemma AList_update_same: "map_of al k = Some v \<Longrightarrow> AList.update k v al = al"
  by (induction al) auto

lemma flush_same: "same_state p st \<Longrightarrow> us_sections (flush st) = us_sections st \<and> us_current (flush st) = us_current st"
  by (auto simp: same_state_def flush_def set_key_def section_of_def ok_or_def AList_update_same)

lemma unit_file_line_same:
  assumes "same_state p st" "clean_line l"
  shows "same_state (systemd_line l p) (unit_file_line l st)"
proof (cases l)
  case (SectionLine s)
  with assms show ?thesis
    using flush_same [OF assms(1)] by (cases p) (auto simp: same_state_def Let_def flush_def)
next
  case (KeyLine k v)
  with assms show ?thesis
    using flush_same [OF assms(1)]
    by (cases p) (auto simp: same_state_def Let_def set_key_def section_of_def map_of_Cons_code update_conv)
qed (use assms in auto)

lemma fold_lines_same:
  "same_state p st \<Longrightarrow> list_all clean_line ls \<Longrightarrow> same_state (fold systemd_line ls p) (fold unit_file_line ls st)"
  by (induction ls arbitrary: p st) (simp_all add: unit_file_line_same)



text \<open>
  A line without an equals sign is appended to the value before it, although no backslash ends that; and a
  continuation with an equals sign is a key of its own, although one does.
\<close>

lemma continuation_without_backslash:
  "parseUnitFile (''[Service]'' @ CHR 0x0A # ''PIDFile=/run/a.pid'' @ CHR 0x0A # ''stray'') =
     [(''Service'', [(''PIDFile'', ''/run/a.pid stray'')])]"
  "parseSystemdUnit (''[Service]'' @ CHR 0x0A # ''PIDFile=/run/a.pid'' @ CHR 0x0A # ''stray'') =
     [(''Service'', [(''PIDFile'', ''/run/a.pid'')])]"
  by code_simp+

lemma continuation_with_equals:
  "parseUnitFile (''[Service]'' @ CHR 0x0A # ''ExecStart=/bin/x'' @ CHR 0x5C # CHR 0x0A # ''--a=b'') =
     [(''Service'', [(''ExecStart'', ''/bin/x''), (''--a'', ''b'')])]"
  by code_simp

section \<open>The list of units\<close>

definition unit_names :: "lin_env \<Rightarrow> Reader \<Rightarrow> gostring list \<Rightarrow> gostring list" where
  "unit_names env r dir = filter hasSystemdUnitSuffix (names_or_none env r dir)"

lemma collect_units_names:
  "distinct (map ul_Name units) \<Longrightarrow>
     distinct (map ul_Name (collect_units env r dir names units)) \<and>
     ul_Name ` set (collect_units env r dir names units) = ul_Name ` set units \<union> set (filter hasSystemdUnitSuffix names)"
proof (induction names arbitrary: units)
  case (Cons name names)
  have n: "ul_Name (unit_item env r dir name) = name" by (simp add: unit_item_def)
  show ?case
  proof (cases "name \<in> ul_Name ` set units \<or> \<not> hasSystemdUnitSuffix name")
    case True
    with Cons show ?thesis by auto
  next
    case False
    with Cons.prems n have "distinct (map ul_Name (units @ [unit_item env r dir name]))" by simp
    from Cons.IH [OF this] False n show ?thesis by auto
  qed
qed simp

lemma units_of_dirs_names:
  "distinct (map ul_Name units) \<Longrightarrow>
     distinct (map ul_Name (fold (units_of_dir env r) dirs units)) \<and>
     ul_Name ` set (fold (units_of_dir env r) dirs units) = ul_Name ` set units \<union> (\<Union>dir \<in> set dirs. set (unit_names env r dir))"
proof (induction dirs arbitrary: units)
  case (Cons dir dirs)
  have "distinct (map ul_Name (units_of_dir env r dir units)) \<and>
      ul_Name ` set (units_of_dir env r dir units) = ul_Name ` set units \<union> set (unit_names env r dir)"
    using collect_units_names [OF Cons.prems] Cons.prems
    by (auto simp: units_of_dir_def unit_names_def names_or_none_def split: sum.split)
  with Cons.IH [of "units_of_dir env r dir units"] show ?case by auto
qed simp

text \<open>The names: those with a known suffix in one of the four directories, each once, in order.\<close>

lemma listed_units:
  "distinct (map ul_Name (listSystemdUnits env r))"
  "ul_Name ` set (listSystemdUnits env r) = (\<Union>dir \<in> set systemdUnitSearchDirs. set (unit_names env r dir))"
  "sorted (map (\<lambda>u. map of_char (ul_Name u) :: nat list) (listSystemdUnits env r))"
proof -
  define us where "us = fold (units_of_dir env r) systemdUnitSearchDirs []"
  have us: "distinct (map ul_Name us)" "ul_Name ` set us = (\<Union>dir \<in> set systemdUnitSearchDirs. set (unit_names env r dir))"
    using units_of_dirs_names [of "[]" env r systemdUnitSearchDirs] by (simp_all add: us_def)
  have l: "listSystemdUnits env r = sort_key (\<lambda>u. map of_char (ul_Name u) :: nat list) us"
    by (simp add: listSystemdUnits_def us_def)
  show "distinct (map ul_Name (listSystemdUnits env r))" using us(1) by (simp add: l distinct_map)
  show "ul_Name ` set (listSystemdUnits env r) = (\<Union>dir \<in> set systemdUnitSearchDirs. set (unit_names env r dir))"
    using us(2) by (simp add: l)
  show "sorted (map (\<lambda>u. map of_char (ul_Name u) :: nat list) (listSystemdUnits env r))" by (simp add: l)
qed

section \<open>The list of dependencies\<close>

lemma unseen_distinct:
  "distinct out \<Longrightarrow> [] \<notin> set out \<Longrightarrow> distinct (unseen out fs) \<and> [] \<notin> set (unseen out fs)"
  by (induction out fs rule: unseen.induct) (auto simp: Let_def)

lemma splitDependencyList_distinct: "distinct (splitDependencyList v) \<and> [] \<notin> set (splitDependencyList v)"
  unfolding splitDependencyList_def by (rule unseen_distinct) simp_all

section \<open>Failed services\<close>

text \<open>A service with a directory below that of \<open>system.slice\<close>, which a running service has, is said to have failed.\<close>

lemma add_unseen_set: "set (add_unseen seen ns) = set seen \<union> set ns"
  by (induction seen ns rule: add_unseen.induct) auto

lemma running_services_reported_failed:
  assumes "isSystemdInit env r" "ReadDirNames (lx_fs env) r [''sys'', ''fs'', ''cgroup'', ''system.slice''] = Inr names"
    and "name \<in> set names" "HasSuffix name ''.service''"
  shows "name \<in> set (listFailedServices env r)"
  using assms by (simp add: listFailedServices_def add_unseen_set names_or_none_def)

chapter \<open>Logins\<close>

text \<open>The records of logins: how \<open>utmp(5)\<close> writes them, and which of them the tasks answer with.\<close>

section \<open>Integers\<close>

fun le_bytes :: "nat \<Rightarrow> int \<Rightarrow> gostring" where
  "le_bytes 0 k = []"
| "le_bytes (Suc n) k = char_of (nat (k mod 256)) # le_bytes n (k div 256)"

lemma length_le_bytes [simp]: "length (le_bytes n k) = n"
  by (induction n arbitrary: k) simp_all

lemma le_nat_bytes: "le_nat (le_bytes n k) = k mod 256 ^ n"
proof (induction n arbitrary: k)
  case (Suc n)
  have "int (of_char (char_of (nat (k mod 256)) :: char)) = k mod 256" by (simp add: nat_mod_distrib)
  with Suc show ?case by (simp add: zmod_zmult2_eq)
qed simp

lemma le_int_bytes:
  assumes "0 < n" "- (2 ^ (8 * n - 1)) \<le> k" "k < 2 ^ (8 * n - 1)"
  shows "le_int (8 * n) (le_bytes n k) = k"
proof -
  have p: "(256 :: int) ^ n = 2 ^ (8 * n)" by (simp add: power_mult)
  have h: "(2 :: int) ^ (8 * n) = 2 * 2 ^ (8 * n - 1)" using assms(1) by (metis mult_pos_pos power_Suc Suc_pred' zero_less_numeral)
  show ?thesis
  proof (cases "k < 0")
    case True
    have "k mod 2 ^ (8 * n) = (k + 2 ^ (8 * n)) mod 2 ^ (8 * n)" by simp
    also have "\<dots> = k + 2 ^ (8 * n)" using True assms h by (intro mod_pos_pos_trivial) auto
    finally have "k mod 2 ^ (8 * n) = k + 2 ^ (8 * n)" .
    with True assms h show ?thesis by (simp add: le_int_def le_nat_bytes p)
  next
    case False
    with assms h have "k mod 2 ^ (8 * n) = k" by (intro mod_pos_pos_trivial) auto
    with assms show ?thesis by (simp add: le_int_def le_nat_bytes p)
  qed
qed

section \<open>Records\<close>

definition encode_utmp :: "UtmpEntry \<Rightarrow> gostring" where
  "encode_utmp e =
     le_bytes 2 (ut_Type e) @ replicate 2 (CHR 0x00) @ le_bytes 4 (ut_Pid e) @ ut_Line e @ replicate 4 (CHR 0x00) @
     ut_User e @ ut_Host e @ replicate 8 (CHR 0x00) @ le_bytes 4 (ut_Sec e) @ replicate 40 (CHR 0x00)"

definition utmp_entry_ok :: "UtmpEntry \<Rightarrow> bool" where
  "utmp_entry_ok e \<longleftrightarrow>
     - (2 ^ 15) \<le> ut_Type e \<and> ut_Type e < 2 ^ 15 \<and> - (2 ^ 31) \<le> ut_Pid e \<and> ut_Pid e < 2 ^ 31 \<and>
     - (2 ^ 31) \<le> ut_Sec e \<and> ut_Sec e < 2 ^ 31 \<and> length (ut_Line e) = 32 \<and> length (ut_User e) = 32 \<and>
     length (ut_Host e) = 256"

lemma length_encode_utmp: "utmp_entry_ok e \<Longrightarrow> length (encode_utmp e) = utmp_size"
  by (simp add: encode_utmp_def utmp_entry_ok_def utmp_size_def)

lemma decode_encode_utmp:
  assumes "utmp_entry_ok e"
  shows "decode_utmp (encode_utmp e) = e"
proof -
  have "le_int 16 (le_bytes 2 (ut_Type e)) = ut_Type e" "le_int 32 (le_bytes 4 (ut_Pid e)) = ut_Pid e"
    "le_int 32 (le_bytes 4 (ut_Sec e)) = ut_Sec e"
    using le_int_bytes [of 2 "ut_Type e"] le_int_bytes [of 4 "ut_Pid e"] le_int_bytes [of 4 "ut_Sec e"] assms
    by (simp_all add: utmp_entry_ok_def)
  with assms show ?thesis
    by (simp add: decode_utmp_def encode_utmp_def field_at_def utmp_entry_ok_def)
qed

lemma utmp_records_encode:
  assumes "list_all utmp_entry_ok es" "length trailing < utmp_size"
  shows "utmp_records (concat (map encode_utmp es) @ trailing) = es"
  using assms(1)
proof (induction es)
  case Nil
  with assms(2) show ?case by (subst utmp_records.simps) simp
next
  case (Cons e es)
  then have l: "length (encode_utmp e) = utmp_size" by (simp add: length_encode_utmp)
  with Cons show ?case by (subst utmp_records.simps) (simp add: decode_encode_utmp)
qed

section \<open>The history\<close>

text \<open>The entries of the types that the task knows, in the order of the file: the oldest first.\<close>

definition known_logins :: "UtmpEntry list \<Rightarrow> login_entry list" where
  "known_logins uts = List.map_filter (\<lambda>ut. map_option (\<lambda>t. login_of t ut) (map_of login_types (ut_Type ut))) uts"

lemma collect_logins_known:
  "length entries < n \<Longrightarrow> collect_logins (int n) uts entries = entries @ take (n - length entries) (known_logins uts)"
proof (induction "int n" uts entries rule: collect_logins.induct)
  case (2 ut uts entries)
  show ?case
  proof (cases "map_of login_types (ut_Type ut)")
    case None
    with 2 show ?thesis by (simp add: known_logins_def map_filter_simps)
  next
    case (Some t)
    have n: "n - length entries = Suc (n - Suc (length entries))" using "2.prems" by simp
    show ?thesis
    proof (cases "n \<le> Suc (length entries)")
      case True
      with Some n show ?thesis by (simp add: known_logins_def map_filter_simps Let_def)
    next
      case False
      with 2(2) [OF Some HOL.refl] Some n show ?thesis by (simp add: known_logins_def map_filter_simps Let_def)
    qed
  qed
qed (simp add: known_logins_def map_filter_simps)


definition sample_login :: "int \<Rightarrow> int \<Rightarrow> UtmpEntry" where
  "sample_login type sec =
     \<lparr>ut_Type = type, ut_Pid = 42, ut_Line = ''tty1'' @ replicate 28 (CHR 0x00), ut_User = ''root'' @ replicate 28 (CHR 0x00),
      ut_Host = replicate 256 (CHR 0x00), ut_Sec = sec\<rparr>"


end
