(* ===== verification/Agent.thy ===== *)
theory Agent
  imports Registry_Register Client Config Prometheus_Provider Azure_Provider Kafka_Provider Kubernetes_Provider
    Graylog_Provider Postgres_Provider Network_Provider Linux_Provider
begin

text \<open>
  \<open>cmd/marvin/main.go\<close>: the agent registers its nine providers, executes tasks through the registry and
  hands the control plane's updates to it. A value of the interface \<open>Provider\<close> is one of the nine kinds; what
  the providers need of the outside is the record \<open>agent_env\<close>. The locale \<open>provider_interface\<close> is
  interpreted on the whole agent here, so the theorems on the registry hold for it.
\<close>

section \<open>The providers\<close>

datatype ('cred, 'k, 'cs, 'dy, 'api, 'u, 't) agent_provider =
    NetworkP "'t BaseProvider"
  | AzureP "('cred, 't) AzureProvider"
  | KubernetesP "('cs, 'dy, 't) KubernetesProvider"
  | PrometheusP "('api, 't) PrometheusProvider"
  | KafkaP "('k, 't) KafkaProvider"
  | LinuxP "'t LinuxProvider"
  | LogP "('u, 't) GraylogProvider"
  | PostgresP "'t PostgresProvider"
  | OsP "'t BaseProvider"

text \<open>
  The outside of the providers. \<open>ag_kafka_dirs\<close> gives the names of the temporary directories of an update,
  \<open>ag_task\<close> the task of a name, and \<open>ag_kube_task\<close> that of a Kubernetes name with its limit of log lines.
\<close>

record ('cred, 'k, 'kc, 'rest, 'cs, 'dy, 'api, 'u, 'b, 'pc, 'pcert, 't) agent_env =
  ag_oor :: "gofloat \<Rightarrow> int"
  ag_GOOS :: bool
  ag_azure_env :: azure_env
  ag_azure_sdk :: "'cred azure_sdk"
  ag_client_go :: "('rest, 'cs, 'dy) client_go"
  ag_newAPI :: "gostring \<Rightarrow> http_Client \<Rightarrow> gostring + 'api"
  ag_kafka_env :: "('k, 'kc) kafka_env"
  ag_kafka_dirs :: "gmap \<Rightarrow> gostring list"
  ag_log_env :: "('u, 'b) log_env"
  ag_pg_env :: "('pc, 'pcert) pg_env"
  ag_schema :: "gostring \<Rightarrow> gostring"
  ag_task :: "gostring \<Rightarrow> 't"
  ag_kube_task :: "int \<Rightarrow> gostring \<Rightarrow> 't"

text \<open>Every provider embeds a \<open>BaseProvider\<close>, and all but two methods read only that.\<close>

fun agent_base :: "('cred, 'k, 'cs, 'dy, 'api, 'u, 't) agent_provider \<Rightarrow> 't BaseProvider" where
  "agent_base (NetworkP b) = b"
| "agent_base (AzureP p) = pv_base p"
| "agent_base (KubernetesP p) = pv_base p"
| "agent_base (PrometheusP p) = pv_base p"
| "agent_base (KafkaP p) = pv_base p"
| "agent_base (LinuxP p) = lp_base p"
| "agent_base (LogP p) = pv_base p"
| "agent_base (PostgresP p) = pv_base p"
| "agent_base (OsP b) = b"

fun agent_update ::
  "('cred, 'k, 'kc, 'rest, 'cs, 'dy, 'api, 'u, 'b, 'pc, 'pcert, 't) agent_env \<Rightarrow>
     ('cred, 'k, 'cs, 'dy, 'api, 'u, 't) agent_provider \<Rightarrow> gostring \<Rightarrow> gmap \<Rightarrow>
     ('cred, 'k, 'cs, 'dy, 'api, 'u, 't) agent_provider" where
  "agent_update env (NetworkP b) n cfg = NetworkP (BaseProvider_UpdateConfig b n cfg)"
| "agent_update env (AzureP p) n cfg = AzureP (Azure_UpdateConfig (ag_azure_env env) (ag_azure_sdk env) p n cfg)"
| "agent_update env (KubernetesP p) n cfg =
     KubernetesP (Kubernetes_UpdateConfig (ag_oor env) (ag_client_go env) p n cfg)"
| "agent_update env (PrometheusP p) n cfg = PrometheusP (Prometheus_UpdateConfig (ag_oor env) (ag_newAPI env) p n cfg)"
| "agent_update env (KafkaP p) n cfg =
     KafkaP (Kafka_UpdateConfig (ag_oor env) (ag_kafka_env env) (ag_kafka_dirs env cfg) p n cfg)"
| "agent_update env (LinuxP p) n cfg = LinuxP (Linux_UpdateConfig p n cfg)"
| "agent_update env (LogP p) n cfg = LogP (Graylog_UpdateConfig (ag_log_env env) p n cfg)"
| "agent_update env (PostgresP p) n cfg = PostgresP (Postgres_UpdateConfig (ag_pg_env env) p n cfg)"
| "agent_update env (OsP b) n cfg = OsP (BaseProvider_UpdateConfig b n cfg)"

fun agent_configured ::
  "bool \<Rightarrow> ('cred, 'k, 'cs, 'dy, 'api, 'u, 't) agent_provider \<Rightarrow> bool" where
  "agent_configured GOOS (NetworkP b) = BaseProvider_IsConfigured b"
| "agent_configured GOOS (AzureP p) = Azure_IsConfigured p"
| "agent_configured GOOS (KubernetesP p) = Kubernetes_IsConfigured p"
| "agent_configured GOOS (PrometheusP p) = Prometheus_IsConfigured p"
| "agent_configured GOOS (KafkaP p) = Kafka_IsConfigured p"
| "agent_configured GOOS (LinuxP p) = Linux_IsConfigured GOOS p"
| "agent_configured GOOS (LogP p) = Graylog_IsConfigured p"
| "agent_configured GOOS (PostgresP p) = Postgres_IsConfigured p"
| "agent_configured GOOS (OsP b) = BaseProvider_IsConfigured b"

definition agent_ops ::
  "('cred, 'k, 'kc, 'rest, 'cs, 'dy, 'api, 'u, 'b, 'pc, 'pcert, 't) agent_env \<Rightarrow>
     (('cred, 'k, 'cs, 'dy, 'api, 'u, 't) agent_provider, 't) provider_ops" where
  "agent_ops env =
     \<lparr>op_Name = (\<lambda>p. BaseProvider_Name (agent_base p)), op_Capabilities = (\<lambda>p. BaseProvider_Capabilities (agent_base p)),
      op_IsEnabled = (\<lambda>p. BaseProvider_IsEnabled (agent_base p)), op_GetTask = (\<lambda>p. BaseProvider_GetTask (agent_base p)),
      op_UpdateConfig = agent_update env, op_IsConfigured = agent_configured (ag_GOOS env)\<rparr>"

definition os_capability :: "gostring \<Rightarrow> gostring \<Rightarrow> Capability" where
  "os_capability name description =
     \<lparr>cap_Name = name, cap_Version = ''v1'', cap_Description = description, cap_Provider = ''os'',
      cap_ParametersJSONSchema = [], cap_Config = [], cap_ConfigSummary = [], cap_Enabled = False,
      cap_UseCases = [], cap_Aliases = [], cap_Tags = []\<rparr>"

definition os_provider :: "'t BaseProvider" where
  "os_provider =
     \<lparr>ProviderName = ''os'',
      ProviderCapabilities = [os_capability ''os.process.list'' ''Lists processes'', os_capability ''os.file.read'' ''Reads files''],
      EnabledFunc = None, Tasks = []\<rparr>"

definition exampleProviders ::
  "('cred, 'k, 'kc, 'rest, 'cs, 'dy, 'api, 'u, 'b, 'pc, 'pcert, 't) agent_env \<Rightarrow> Config \<Rightarrow>
     ('cred, 'k, 'cs, 'dy, 'api, 'u, 't) agent_provider list" where
  "exampleProviders env c =
     [NetworkP (Network_NewProvider (ag_schema env) (ag_task env)),
      AzureP (Azure_NewProvider (ag_azure_env env) (ag_azure_sdk env) (ag_schema env) (ag_task env) (cfg_Azure c)),
      KubernetesP (Kubernetes_NewProvider (ag_client_go env) (ag_schema env) (ag_kube_task env) (cfg_Kubernetes c)),
      PrometheusP (Prometheus_NewProvider (ag_newAPI env) (ag_schema env) (ag_task env) (cfg_Prometheus c)),
      KafkaP (Kafka_NewProvider (ag_kafka_env env) (ag_kafka_dirs env []) (ag_schema env) (ag_task env) (cfg_Kafka c)),
      LinuxP (Linux_NewProvider (ag_GOOS env) (ag_schema env) (ag_task env) (cfg_Linux c)),
      LogP (Graylog_NewProvider (ag_log_env env) (ag_schema env) (ag_task env) (cfg_Graylog c)),
      PostgresP (Postgres_NewProvider (ag_pg_env env) (ag_schema env) (ag_task env) (cfg_Postgres c)),
      OsP os_provider]"

section \<open>Running the agent\<close>

text \<open>The loop of \<open>run\<close>: the first error ends it.\<close>

fun register_all ::
  "('p, 't) provider_ops \<Rightarrow> gmap \<Rightarrow> 'p list \<Rightarrow> ('p, 't) Registry \<Rightarrow> (gostring \<times> registry_error) option \<times> ('p, 't) Registry" where
  "register_all ops cfg [] r = (None, r)"
| "register_all ops cfg (p # ps) r =
     (case RegisterProvider ops (Some p) cfg r of
        (Some err, r1, _) \<Rightarrow> (Some (op_Name ops p, err), r1)
      | (None, r1, _) \<Rightarrow> register_all ops cfg ps r1)"

definition agent_start ::
  "('cred, 'k, 'kc, 'rest, 'cs, 'dy, 'api, 'u, 'b, 'pc, 'pcert, 't) agent_env \<Rightarrow> Config \<Rightarrow>
     (gostring \<times> registry_error) option \<times> (('cred, 'k, 'cs, 'dy, 'api, 'u, 't) agent_provider, 't) Registry" where
  "agent_start env c =
     register_all (agent_ops env) [(''enabled'', VStrings (capcfg_Enabled (cfg_Capabilities c)))]
       (exampleProviders env c) Registry_New"

text \<open>The handler of updates; the callback of the registry is installed before the first one.\<close>

definition agent_step ::
  "('cred, 'k, 'kc, 'rest, 'cs, 'dy, 'api, 'u, 'b, 'pc, 'pcert, 't) agent_env \<Rightarrow>
     (nat \<Rightarrow> gostring list \<Rightarrow> gostring list) \<times> CapabilityManifest list \<Rightarrow>
     (('cred, 'k, 'cs, 'dy, 'api, 'u, 't) agent_provider, 't) Registry \<Rightarrow>
     (('cred, 'k, 'cs, 'dy, 'api, 'u, 't) agent_provider, 't) Registry" where
  "agent_step env u r = fst (ApplyOnlineConfig (agent_ops env) (fst u) (snd u) r)"

definition agent_run ::
  "('cred, 'k, 'kc, 'rest, 'cs, 'dy, 'api, 'u, 'b, 'pc, 'pcert, 't) agent_env \<Rightarrow> Config \<Rightarrow>
     ((nat \<Rightarrow> gostring list \<Rightarrow> gostring list) \<times> CapabilityManifest list) list \<Rightarrow>
     (('cred, 'k, 'cs, 'dy, 'api, 'u, 't) agent_provider, 't) Registry" where
  "agent_run env c us = fold (agent_step env) us (SetOnCapabilitiesChanged True (snd (agent_start env c)))"

text \<open>\<open>registryExecutor.Execute\<close>; \<open>run\<close> executes a task, \<open>esc\<close> escapes for \<open>%q\<close>.\<close>

definition registryExecutor_Execute ::
  "(gostring \<Rightarrow> gostring) \<Rightarrow> ('t \<Rightarrow> gmap \<Rightarrow> int option \<Rightarrow> task_Result \<times> gostring option) \<Rightarrow> ('p, 't) Registry \<Rightarrow> executor" where
  "registryExecutor_Execute esc run r capabilityName params deadline =
     (case Registry_GetTask r capabilityName of
        None \<Rightarrow>
          (\<lparr>res_Success = False, res_Error = ''capability '' @ Quote esc capabilityName @ '' not found'', res_Data = VNil,
            res_Timestamp = - 62135596800000000000\<rparr>, None)
      | Some t \<Rightarrow> run t params deadline)"

datatype auth_error = ResolveAuthMethod config_error | UnsupportedAuthMethod gostring

definition buildAuthenticator :: "Authentication \<Rightarrow> auth_error + gostring" where
  "buildAuthenticator a =
     (case AuthMethod a of
        Inl err \<Rightarrow> Inl (ResolveAuthMethod err)
      | Inr (SecretKeyMethod s) \<Rightarrow> Inr (sk_Key s)
      | Inr (MTLSMethod m) \<Rightarrow> Inl (UnsupportedAuthMethod ''mtls''))"

section \<open>The bases\<close>

text \<open>What the registration needs of a base: valid names, once each, all with the provider's prefix.\<close>

definition named_base :: "'t BaseProvider \<Rightarrow> gostring list \<Rightarrow> bool" where
  "named_base b rests \<longleftrightarrow>
     map cap_Name (ProviderCapabilities b) = prefixed (ProviderName b) rests \<and> CHR ''.'' \<notin> set (ProviderName b) \<and>
     list_all namePattern (map cap_Name (ProviderCapabilities b)) \<and> EnabledFunc b = None \<and> base_wf b"

lemma named_task_base:
  assumes "CHR ''.'' \<notin> set pname" "pname \<noteq> []" "names = prefixed pname rests" "distinct names" "list_all namePattern names"
  shows "\<exists>rests. named_base (task_base pname schema d u t mk names) rests"
proof -
  have "named_base (task_base pname schema d u t mk names) rests"
    unfolding named_base_def names_task_base using assms base_wf_task_base [OF assms(2,4), of schema d u t mk]
    by (simp add: task_base_def)
  then show ?thesis by blast
qed

definition agent_names :: "bool \<Rightarrow> gostring list" where
  "agent_names GOOS =
     Network_tasks @ Azure_tasks @ Kubernetes_tasks @ Prometheus_tasks @ Kafka_tasks @ (if GOOS then Linux_tasks else [])
     @ Log_tasks @ Postgres_tasks"

definition agent_task ::
  "('cred, 'k, 'kc, 'rest, 'cs, 'dy, 'api, 'u, 'b, 'pc, 'pcert, 't) agent_env \<Rightarrow> Config \<Rightarrow> gostring \<Rightarrow> 't" where
  "agent_task env c n =
     (if n \<in> set Kubernetes_tasks then ag_kube_task env (kube_MaxPodLogLines (cfg_Kubernetes c)) n else ag_task env n)"

lemmas agent_constructors = Network_NewProvider_def Azure_NewProvider_def Kubernetes_NewProvider_def
  Prometheus_NewProvider_def Kafka_NewProvider_def Linux_NewProvider_def Graylog_NewProvider_def Postgres_NewProvider_def

lemma named_network: "\<exists>rests. named_base (Network_NewProvider schema mk) rests"
  using Network_NewProvider_wf [of schema mk] Network_tasks_prefixed Network_tasks_valid
  unfolding named_base_def by (auto simp: Network_NewProvider_def Network_capabilities_names)

lemma named_linux: "\<exists>rests. named_base (lp_base (Linux_NewProvider GOOS schema mk cfg)) rests"
proof (cases GOOS)
  case True
  then show ?thesis
    using named_task_base [OF _ _ Linux_tasks_prefixed Linux_tasks_distinct Linux_tasks_valid]
    by (simp add: Linux_NewProvider_def)
next
  case False
  then have "named_base (lp_base (Linux_NewProvider GOOS schema mk cfg)) []"
    by (simp add: Linux_NewProvider_def named_base_def base_wf_def prefixed_def)
  then show ?thesis by blast
qed

lemma named_os: "\<exists>rests. named_base os_provider rests"
proof -
  have "namePattern ''os.process.list'' \<and> namePattern ''os.file.read''" by code_simp
  then have "named_base os_provider [''process.list'', ''file.read'']"
    by (simp add: named_base_def os_provider_def os_capability_def prefixed_def base_wf_def)
  then show ?thesis by blast
qed

lemma named_tasks:
  "\<exists>rests. named_base (task_base ''azure'' schema d u t mk Azure_tasks) rests"
  "\<exists>rests. named_base (task_base ''kubernetes'' schema d u t mk Kubernetes_tasks) rests"
  "\<exists>rests. named_base (task_base ''prometheus'' schema d u t mk Prometheus_tasks) rests"
  "\<exists>rests. named_base (task_base ''kafka'' schema d u t mk Kafka_tasks) rests"
  "\<exists>rests. named_base (task_base ''log'' schema d u t mk Log_tasks) rests"
  "\<exists>rests. named_base (task_base ''postgres'' schema d u t mk Postgres_tasks) rests"
  subgoal by (rule named_task_base [OF _ _ Azure_tasks_prefixed Azure_tasks_distinct Azure_tasks_valid]) simp_all
  subgoal by (rule named_task_base [OF _ _ Kubernetes_tasks_prefixed Kubernetes_tasks_distinct Kubernetes_tasks_valid]) simp_all
  subgoal by (rule named_task_base [OF _ _ Prometheus_tasks_prefixed Prometheus_tasks_distinct Prometheus_tasks_valid]) simp_all
  subgoal by (rule named_task_base [OF _ _ Kafka_tasks_prefixed Kafka_tasks_distinct Kafka_tasks_valid]) simp_all
  subgoal by (rule named_task_base [OF _ _ Log_tasks_prefixed Log_tasks_distinct Log_tasks_valid]) simp_all
  subgoal by (rule named_task_base [OF _ _ Postgres_tasks_prefixed Postgres_tasks_distinct Postgres_tasks_valid]) simp_all
  done

lemma agent_bases_named: "p \<in> set (exampleProviders env c) \<Longrightarrow> \<exists>rests. named_base (agent_base p) rests"
  unfolding exampleProviders_def
  by (auto simp: Azure_NewProvider_def Kubernetes_NewProvider_def Prometheus_NewProvider_def Kafka_NewProvider_def
      Graylog_NewProvider_def Postgres_NewProvider_def intro: named_network named_linux named_os named_tasks)

lemma agent_provider_names:
  "map (\<lambda>p. ProviderName (agent_base p)) (exampleProviders env c) =
     [''network'', ''azure'', ''kubernetes'', ''prometheus'', ''kafka'', ''linux'', ''log'', ''postgres'', ''os'']"
  by (simp add: exampleProviders_def agent_constructors os_provider_def task_base_def)

section \<open>The agent's providers implement the interface\<close>

text \<open>A provider of the agent has the base it was made with.\<close>

definition agent_wf ::
  "('cred, 'k, 'kc, 'rest, 'cs, 'dy, 'api, 'u, 'b, 'pc, 'pcert, 't) agent_env \<Rightarrow> Config \<Rightarrow>
     ('cred, 'k, 'cs, 'dy, 'api, 'u, 't) agent_provider \<Rightarrow> bool" where
  "agent_wf env c p \<longleftrightarrow> agent_base p \<in> agent_base ` set (exampleProviders env c)"

lemma agent_update_base [simp]: "agent_base (agent_update env p n cfg) = agent_base p"
  by (cases p) (simp_all add: BaseProvider_UpdateConfig_def Linux_UpdateConfig_def azure.base_update kubernetes.base_update
      prometheus.base_update kafka.base_update graylog.base_update postgres.base_update)

lemma agent_wf_named: "agent_wf env c p \<Longrightarrow> \<exists>rests. named_base (agent_base p) rests"
  using agent_bases_named by (auto simp: agent_wf_def)

interpretation agent: provider_interface "agent_ops env" "agent_wf env c" for env c
proof unfold_locales
  fix p assume "agent_wf env c p"
  then have "base_wf (agent_base p)" using agent_wf_named by (auto simp: named_base_def)
  then show "op_Name (agent_ops env) p \<noteq> []" "distinct (map cap_Name (op_Capabilities (agent_ops env) p))"
    by (simp_all add: agent_ops_def base_ops_simps base_wf_def)
  fix d assume "d \<in> set (op_Capabilities (agent_ops env) p)"
  with \<open>base_wf (agent_base p)\<close> show "cap_Provider d = [] \<or> cap_Provider d = op_Name (agent_ops env) p"
    by (auto simp: agent_ops_def base_ops_simps base_wf_def list_all_iff)
qed (simp_all add: agent_ops_def agent_wf_def)

section \<open>Registering all\<close>

text \<open>Two providers whose capabilities are prefixed with their names clash only if the names are equal.\<close>

definition prefix_named :: "('p, 't) provider_ops \<Rightarrow> 'p \<Rightarrow> bool" where
  "prefix_named ops p \<longleftrightarrow> CHR ''.'' \<notin> set (op_Name ops p) \<and>
     (\<exists>rests. map cap_Name (op_Capabilities ops p) = prefixed (op_Name ops p) rests)"

lemma prefix_named_disjoint:
  "prefix_named ops p \<Longrightarrow> prefix_named ops q \<Longrightarrow> op_Name ops p \<noteq> op_Name ops q \<Longrightarrow> names_of ops p \<inter> names_of ops q = {}"
  unfolding prefix_named_def names_of_def by (metis list.set_map prefixed_disjoint)

context provider_interface
begin

lemma register_all_ok:
  assumes "reg_inv ops okp r" "all_or_none ops r" "parseEnabledFilter cfg = Inr f"
    and "\<And>p. p \<in> set ps \<Longrightarrow> okp p \<and> op_IsEnabled ops p cfg \<and> prefix_named ops p \<and>
       (\<forall>d \<in> set (op_Capabilities ops p). Capability_Validate d = None)"
    and "distinct (map (op_Name ops) ps)" "\<And>p. p \<in> set ps \<Longrightarrow> map_of (r_providers r) (op_Name ops p) = None"
    and "\<And>k q. map_of (r_providers r) k = Some q \<Longrightarrow> prefix_named ops q"
  shows "\<exists>r'. register_all ops cfg ps r = (None, r') \<and> reg_inv ops okp r' \<and> all_or_none ops r' \<and>
    map_of (r_providers r') = map_of (r_providers r) ++ map_of (map (\<lambda>p. (op_Name ops p, p)) ps) \<and>
    dom (map_of (r_capabilities r')) = dom (map_of (r_capabilities r)) \<union> (\<Union>p \<in> set ps. names_of ops p)"
  using assms
proof (induction ps arbitrary: r)
  case (Cons p ps)
  have new: "newcomer r p"
    unfolding newcomer_def
  proof (intro conjI allI impI)
    show "okp p" "map_of (r_providers r) (op_Name ops p) = None" using Cons.prems(4,6) by simp_all
    fix k q assume q: "map_of (r_providers r) k = Some q"
    have "op_Name ops q = k" using reg_inv_key [OF Cons.prems(1) q] .
    then have "op_Name ops p \<noteq> op_Name ops q" using Cons.prems(6) [of p] q by auto
    then show "names_of ops p \<inter> names_of ops q = {}"
      using Cons.prems(4) [of p] Cons.prems(7) [OF q] by (intro prefix_named_disjoint) simp_all
  qed
  from RegisterProvider_ok [OF Cons.prems(1,2) new _ Cons.prems(3)] Cons.prems(4) [of p]
  obtain r1 where r1: "RegisterProvider ops (Some p) cfg r = (None, r1, emitChangedLocked r1)"
      "reg_inv ops okp r1" "all_or_none ops r1" "map_of (r_providers r1) = (map_of (r_providers r))(op_Name ops p \<mapsto> p)"
      "\<And>n. map_of (r_capabilities r1) n = (if n \<in> names_of ops p then map_of (own_entries ops p) n else map_of (r_capabilities r) n)"
    by auto
  have dom1: "dom (map_of (r_capabilities r1)) = dom (map_of (r_capabilities r)) \<union> names_of ops p"
    using r1(5) map_of_own_entries_None [of ops p] by (auto simp: dom_def split: if_splits)
  have "\<exists>r'. register_all ops cfg ps r1 = (None, r') \<and> reg_inv ops okp r' \<and> all_or_none ops r' \<and>
    map_of (r_providers r') = map_of (r_providers r1) ++ map_of (map (\<lambda>p. (op_Name ops p, p)) ps) \<and>
    dom (map_of (r_capabilities r')) = dom (map_of (r_capabilities r1)) \<union> (\<Union>p \<in> set ps. names_of ops p)"
  proof (intro Cons.IH)
    show "map_of (r_providers r1) (op_Name ops q) = None" if "q \<in> set ps" for q
    proof -
      have "op_Name ops q \<noteq> op_Name ops p" using Cons.prems(5) that by (metis distinct.simps(2) list.simps(9) image_eqI set_map)
      then show ?thesis using Cons.prems(6) [of q] that r1(4) by simp
    qed
    show "prefix_named ops q" if "map_of (r_providers r1) k = Some q" for k q
      using Cons.prems(4) [of p] Cons.prems(7) [of k q] that r1(4) by (auto split: if_splits)
  qed (use Cons.prems r1 in auto)
  then obtain r' where r': "register_all ops cfg ps r1 = (None, r')" "reg_inv ops okp r'" "all_or_none ops r'"
      "map_of (r_providers r') = map_of (r_providers r1) ++ map_of (map (\<lambda>p. (op_Name ops p, p)) ps)"
      "dom (map_of (r_capabilities r')) = dom (map_of (r_capabilities r1)) \<union> (\<Union>p \<in> set ps. names_of ops p)" by blast
  have "op_Name ops p \<notin> dom (map_of (map (\<lambda>p. (op_Name ops p, p)) ps))"
    using Cons.prems(5) by (auto simp: dom_map_of_conv_image_fst)
  then have provs: "map_of (r_providers r') = map_of (r_providers r) ++ map_of (map (\<lambda>p. (op_Name ops p, p)) (p # ps))"
    unfolding r'(4) r1(4) by (intro ext) (auto simp: map_add_def dom_def split: option.split)
  have "register_all ops cfg (p # ps) r = (None, r')" using r1(1) r'(1) by simp
  moreover have "dom (map_of (r_capabilities r')) = dom (map_of (r_capabilities r)) \<union> (\<Union>p \<in> set (p # ps). names_of ops p)"
    using r'(5) dom1 by auto
  ultimately show ?case using r'(2,3) provs by blast
qed simp

end

lemma agent_valid:
  assumes "agent_wf env c p"
  shows "op_IsEnabled (agent_ops env) p cfg \<and> prefix_named (agent_ops env) p \<and>
    (\<forall>d \<in> set (op_Capabilities (agent_ops env) p). Capability_Validate d = None)"
proof -
  obtain rests where "named_base (agent_base p) rests" using agent_wf_named [OF assms] by blast
  then show ?thesis by (auto simp: named_base_def prefix_named_def agent_ops_def base_ops_simps list_all_iff)
qed

lemma parse_enabled: "parseEnabledFilter [(''enabled'', VStrings xs)] = Inr (slice_of xs)"
  by (simp add: parseEnabledFilter_def)

text \<open>What the start leaves behind.\<close>

definition started ::
  "('cred, 'k, 'kc, 'rest, 'cs, 'dy, 'api, 'u, 'b, 'pc, 'pcert, 't) agent_env \<Rightarrow> Config \<Rightarrow>
     (('cred, 'k, 'cs, 'dy, 'api, 'u, 't) agent_provider, 't) Registry \<Rightarrow> bool" where
  "started env c r \<longleftrightarrow> reg_inv (agent_ops env) (agent_wf env c) r \<and> all_or_none (agent_ops env) r \<and>
     agent_base ` ran (map_of (r_providers r)) = agent_base ` set (exampleProviders env c)"

lemma agent_start_ok:
  "\<exists>r. agent_start env c = (None, r) \<and> started env c r \<and>
     dom (map_of (r_capabilities r)) = (\<Union>p \<in> set (exampleProviders env c). names_of (agent_ops env) p)"
proof -
  let ?ps = "exampleProviders env c"
  have names: "map (op_Name (agent_ops env)) ?ps = map (\<lambda>p. ProviderName (agent_base p)) ?ps"
    by (simp add: agent_ops_def base_ops_simps)
  have dist: "distinct (map (op_Name (agent_ops env)) ?ps)" unfolding names agent_provider_names by simp
  have none: "all_or_none (agent_ops env) Registry_New" by (simp add: all_or_none_def Registry_New_def)
  have valid: "agent_wf env c p \<and> op_IsEnabled (agent_ops env) p cfg \<and> prefix_named (agent_ops env) p \<and>
      (\<forall>d \<in> set (op_Capabilities (agent_ops env) p). Capability_Validate d = None)" if "p \<in> set ?ps" for p cfg
    using agent_valid [of env c p] that by (auto simp: agent_wf_def)
  obtain r where r: "agent_start env c = (None, r)" "reg_inv (agent_ops env) (agent_wf env c) r" "all_or_none (agent_ops env) r"
      "map_of (r_providers r) = map_of (map (\<lambda>p. (op_Name (agent_ops env) p, p)) ?ps)"
      "dom (map_of (r_capabilities r)) = (\<Union>p \<in> set ?ps. names_of (agent_ops env) p)"
    using agent.register_all_ok [OF reg_inv_New none parse_enabled [of "capcfg_Enabled (cfg_Capabilities c)"] valid dist]
    by (auto simp: agent_start_def Registry_New_def)
  have "ran (map_of (r_providers r)) = set ?ps"
    unfolding r(4) using dist by (subst ran_distinct) (simp_all add: comp_def image_image)
  with r show ?thesis by (auto simp: started_def)
qed

section \<open>What the agent does\<close>

text \<open>The task of a capability, and no task for the two of the provider \<open>os\<close>.\<close>

lemma map_of_pairs: "map_of (map (\<lambda>n. (n, mk n)) ns) n = (if n \<in> set ns then Some (mk n) else None)"
  by (induction ns) auto

lemma not_kubernetes:
  assumes "ns = prefixed pre rests" "CHR ''.'' \<notin> set pre" "pre \<noteq> ''kubernetes''" "n \<in> set ns"
  shows "n \<notin> set Kubernetes_tasks"
proof -
  have "set (prefixed pre rests) \<inter> set Kubernetes_tasks = {}"
    unfolding Kubernetes_tasks_prefixed using assms(2,3) by (intro prefixed_disjoint) simp_all
  with assms show ?thesis by blast
qed

lemma not_kubernetes_tasks:
  "n \<in> set Network_tasks \<Longrightarrow> n \<notin> set Kubernetes_tasks" "n \<in> set Azure_tasks \<Longrightarrow> n \<notin> set Kubernetes_tasks"
  "n \<in> set Prometheus_tasks \<Longrightarrow> n \<notin> set Kubernetes_tasks" "n \<in> set Kafka_tasks \<Longrightarrow> n \<notin> set Kubernetes_tasks"
  "n \<in> set Linux_tasks \<Longrightarrow> n \<notin> set Kubernetes_tasks" "n \<in> set Log_tasks \<Longrightarrow> n \<notin> set Kubernetes_tasks"
  "n \<in> set Postgres_tasks \<Longrightarrow> n \<notin> set Kubernetes_tasks"
  by (rule not_kubernetes [OF Network_tasks_prefixed] not_kubernetes [OF Azure_tasks_prefixed]
      not_kubernetes [OF Prometheus_tasks_prefixed] not_kubernetes [OF Kafka_tasks_prefixed]
      not_kubernetes [OF Linux_tasks_prefixed] not_kubernetes [OF Log_tasks_prefixed]
      not_kubernetes [OF Postgres_tasks_prefixed]; simp)+

lemma names_of_tasks: "cap_Name ` set (ProviderCapabilities (task_base pname schema d u t mk ns)) = set ns"
  using names_task_base [of pname schema d u t mk ns] by (metis list.set_map)

lemma names_of_network: "cap_Name ` set (Network_capabilities schema) = set Network_tasks"
  using Network_capabilities_names [of schema] by (metis list.set_map)

definition base_gives :: "'t BaseProvider \<Rightarrow> (gostring \<Rightarrow> 't) \<Rightarrow> bool" where
  "base_gives b tk \<longleftrightarrow> (\<forall>n. map_of (Tasks b) n =
     (if n \<in> cap_Name ` set (ProviderCapabilities b) \<and> ProviderName b \<noteq> ''os'' then Some (tk n) else None))"

lemma task_base_gives:
  "(\<And>n. n \<in> set ns \<Longrightarrow> mk n = tk n) \<Longrightarrow> pname \<noteq> ''os'' \<Longrightarrow> base_gives (task_base pname schema d u t mk ns) tk"
  unfolding base_gives_def names_of_tasks by (simp add: task_base_def map_of_task_map)

lemma network_gives: "base_gives (Network_NewProvider (ag_schema env) (ag_task env)) (agent_task env c)"
  by (simp add: base_gives_def Network_NewProvider_def names_of_network map_of_pairs agent_task_def not_kubernetes_tasks)

lemma linux_gives:
  "base_gives (lp_base (Linux_NewProvider GOOS (ag_schema env) (ag_task env) cfg)) (agent_task env c)"
proof (cases GOOS)
  case True
  have "base_gives (task_base ''linux'' (ag_schema env) Linux_capabilityDescription (\<lambda>_. []) (\<lambda>_. []) (ag_task env) Linux_tasks)
      (agent_task env c)"
    by (rule task_base_gives) (simp_all add: agent_task_def not_kubernetes_tasks)
  with True show ?thesis by (simp add: Linux_NewProvider_def)
qed (simp add: Linux_NewProvider_def base_gives_def)

lemma agent_base_gives:
  assumes "p \<in> set (exampleProviders env c)"
  shows "base_gives (agent_base p) (agent_task env c)"
proof -
  have gives: "base_gives (task_base pname schema d u t (ag_task env) ns) (agent_task env c)"
    if "pname \<noteq> ''os''" "\<And>n. n \<in> set ns \<Longrightarrow> n \<notin> set Kubernetes_tasks" for pname schema d u t ns
    using that by (intro task_base_gives) (simp_all add: agent_task_def)
  have kube: "base_gives (task_base ''kubernetes'' schema d u t (ag_kube_task env (kube_MaxPodLogLines (cfg_Kubernetes c)))
      Kubernetes_tasks) (agent_task env c)" for schema d u t
    by (intro task_base_gives) (simp_all add: agent_task_def)
  have os: "base_gives os_provider (agent_task env c)" by (simp add: base_gives_def os_provider_def)
  from assms consider "agent_base p = Network_NewProvider (ag_schema env) (ag_task env)"
    | "agent_base p = lp_base (Linux_NewProvider (ag_GOOS env) (ag_schema env) (ag_task env) (cfg_Linux c))"
    | "agent_base p = os_provider"
    | d u t where "agent_base p = task_base ''kubernetes'' (ag_schema env) d u t
        (ag_kube_task env (kube_MaxPodLogLines (cfg_Kubernetes c))) Kubernetes_tasks"
    | pname d u t ns where "agent_base p = task_base pname (ag_schema env) d u t (ag_task env) ns" "pname \<noteq> ''os''"
        "ns \<in> {Azure_tasks, Prometheus_tasks, Kafka_tasks, Log_tasks, Postgres_tasks}"
    unfolding exampleProviders_def
    by (auto simp: Azure_NewProvider_def Kubernetes_NewProvider_def Prometheus_NewProvider_def Kafka_NewProvider_def
        Graylog_NewProvider_def Postgres_NewProvider_def)
  then show ?thesis
    by cases (use network_gives linux_gives os kube gives not_kubernetes_tasks in auto)
qed

lemma agent_base_task:
  "p \<in> set (exampleProviders env c) \<Longrightarrow> map_of (Tasks (agent_base p)) n =
    (if n \<in> cap_Name ` set (ProviderCapabilities (agent_base p)) \<and> ProviderName (agent_base p) \<noteq> ''os''
     then Some (agent_task env c n) else None)"
  using agent_base_gives unfolding base_gives_def by blast

definition os_names :: "gostring list" where
  "os_names = [''os.process.list'', ''os.file.read'']"

lemma os_names_prefixed: "os_names = prefixed ''os'' [''process.list'', ''file.read'']"
  by (simp add: os_names_def prefixed_def)

lemma names_of_agent: "names_of (agent_ops env) p = cap_Name ` set (ProviderCapabilities (agent_base p))"
  by (simp add: names_of_def agent_ops_def base_ops_simps)

lemma agent_all_names:
  "(\<Union>p \<in> set (exampleProviders env c). names_of (agent_ops env) p) = set (agent_names (ag_GOOS env)) \<union> set os_names"
  unfolding names_of_agent
  by (simp add: exampleProviders_def agent_constructors os_provider_def os_capability_def names_of_tasks names_of_network
      agent_names_def os_names_def)

text \<open>A provider's capabilities have tasks exactly if it is not \<open>os\<close>.\<close>

lemma started_task:
  assumes inv: "reg_inv (agent_ops env) (agent_wf env c) r" and cap: "map_of (r_capabilities r) n \<noteq> None"
  shows "map_of (r_tasks r) n = (if n \<in> set os_names then None else Some (agent_task env c n))"
proof -
  obtain d where d: "map_of (r_capabilities r) n = Some d" using cap by blast
  from reg_inv_owner [OF inv d] obtain p where p: "map_of (r_providers r) (cap_Provider d) = Some p" "n \<in> names_of (agent_ops env) p" by blast
  obtain q where q: "q \<in> set (exampleProviders env c)" "agent_base p = agent_base q"
    using reg_inv_wf [OF inv p(1)] by (auto simp: agent_wf_def)
  have n: "n \<in> cap_Name ` set (ProviderCapabilities (agent_base q))"
    using p(2) q(2) by (simp add: names_of_agent)
  obtain rests where rests: "named_base (agent_base q) rests" using agent_bases_named [OF q(1)] by blast
  have "n \<in> set (prefixed (ProviderName (agent_base q)) rests)"
    using n rests by (metis named_base_def list.set_map)
  then have os: "n \<in> set os_names \<longleftrightarrow> ProviderName (agent_base q) = ''os''"
  proof (cases "ProviderName (agent_base q) = ''os''")
    case True
    have "q = OsP os_provider"
      using q(1) True by (auto simp: exampleProviders_def agent_constructors task_base_def split: if_splits)
    then show ?thesis using n by (auto simp: os_provider_def os_capability_def os_names_def)
  next
    case False
    have "set (prefixed (ProviderName (agent_base q)) rests) \<inter> set os_names = {}"
      unfolding os_names_prefixed using rests False by (intro prefixed_disjoint) (simp_all add: named_base_def)
    then show ?thesis using False \<open>n \<in> set (prefixed _ _)\<close> by blast
  qed
  have "map_of (r_tasks r) n = op_GetTask (agent_ops env) p n" using reg_inv_task [OF inv d p(1)] .
  also have "\<dots> = map_of (Tasks (agent_base q)) n" using q(2) by (simp add: agent_ops_def base_ops_simps)
  finally show ?thesis using agent_base_task [OF q(1), of n] n os by simp
qed

lemma started_no_task:
  "reg_inv (agent_ops env) (agent_wf env c) r \<Longrightarrow> map_of (r_capabilities r) n = None \<Longrightarrow> map_of (r_tasks r) n = None"
  by (rule reg_shape_no_task [OF reg_inv_shape])


section \<open>Updates\<close>

lemma SetOnCapabilitiesChanged_fields [record_simps]:
  "r_providers (SetOnCapabilitiesChanged b r) = r_providers r" "r_capabilities (SetOnCapabilitiesChanged b r) = r_capabilities r"
  "r_tasks (SetOnCapabilitiesChanged b r) = r_tasks r" "r_enabledPatterns (SetOnCapabilitiesChanged b r) = r_enabledPatterns r"
  "r_onChanged (SetOnCapabilitiesChanged b r) = b"
  by (simp_all add: SetOnCapabilitiesChanged_def)

text \<open>The invariant of a running agent.\<close>

definition running ::
  "('cred, 'k, 'kc, 'rest, 'cs, 'dy, 'api, 'u, 'b, 'pc, 'pcert, 't) agent_env \<Rightarrow> Config \<Rightarrow>
     (('cred, 'k, 'cs, 'dy, 'api, 'u, 't) agent_provider, 't) Registry \<Rightarrow> bool" where
  "running env c r \<longleftrightarrow> reg_inv (agent_ops env) (agent_wf env c) r \<and> all_or_none (agent_ops env) r \<and> r_onChanged r"

lemma SetOnCapabilitiesChanged_inv:
  "reg_inv ops okp (SetOnCapabilitiesChanged b r) = reg_inv ops okp r"
  "all_or_none ops (SetOnCapabilitiesChanged b r) = all_or_none ops r"
  by (simp_all add: reg_inv_def reg_shape_def all_or_none_def record_simps)

lemma running_start: "running env c (SetOnCapabilitiesChanged True (snd (agent_start env c)))"
  using agent_start_ok [of env c]
  by (auto simp: running_def started_def SetOnCapabilitiesChanged_inv record_simps)

lemma running_step:
  assumes "running env c r" "permuting (fst u)"
  shows "running env c (agent_step env u r)"
proof -
  have inv: "reg_inv (agent_ops env) (agent_wf env c) r" and comp: "all_or_none (agent_ops env) r" and cb: "r_onChanged r"
    using assms(1) by (simp_all add: running_def)
  obtain r' out where app: "ApplyOnlineConfig (agent_ops env) (fst u) (snd u) r = (r', out)" by fastforce
  have "r_onChanged r'"
    using agent.ApplyOnlineConfig_settles [OF inv assms(2) app] cb by (metis agent.settles_def agent.same_but_providers_def)
  then show ?thesis
    using agent.ApplyOnlineConfig_inv [OF inv assms(2), of "snd u"] agent.ApplyOnlineConfig_complete [OF inv assms(2) comp, of "snd u"] app
    by (simp add: running_def agent_step_def)
qed

lemma running_run: "list_all (\<lambda>u. permuting (fst u)) us \<Longrightarrow> running env c (agent_run env c us)"
  using running_start [of env c] unfolding agent_run_def
  by (induction us arbitrary: rule: rev_induct) (auto intro: running_step)

text \<open>What an agent offers, as a function of its providers alone.\<close>

definition offered ::
  "('cred, 'k, 'kc, 'rest, 'cs, 'dy, 'api, 'u, 'b, 'pc, 'pcert, 't) agent_env \<Rightarrow> Config \<Rightarrow>
     ('cred, 'k, 'cs, 'dy, 'api, 'u, 't) agent_provider list \<Rightarrow> gostring \<Rightarrow> 't option" where
  "offered env c ps n =
     (if n \<notin> set os_names \<and>
         list_ex (\<lambda>p. agent_configured (ag_GOOS env) p \<and> n \<in> set (map cap_Name (ProviderCapabilities (agent_base p)))) ps
      then Some (agent_task env c n) else None)"


text \<open>
  The list that the control plane knows: the one it was registered with, replaced by each one that the callback
  reports.
\<close>

fun agent_told ::
  "('cred, 'k, 'kc, 'rest, 'cs, 'dy, 'api, 'u, 'b, 'pc, 'pcert, 't) agent_env \<Rightarrow>
     ((nat \<Rightarrow> gostring list \<Rightarrow> gostring list) \<times> CapabilityManifest list) list \<Rightarrow>
     (('cred, 'k, 'cs, 'dy, 'api, 'u, 't) agent_provider, 't) Registry \<Rightarrow> Capability list \<Rightarrow> Capability list" where
  "agent_told env [] r told = told"
| "agent_told env (u # us) r told =
     (let (r', out) = ApplyOnlineConfig (agent_ops env) (fst u) (snd u) r
      in agent_told env us r' (case out of Some caps \<Rightarrow> caps | None \<Rightarrow> told))"

lemma agent_told_step:
  assumes "running env c r" "list_all (\<lambda>u. permuting (fst u)) us"
  shows "agent_told env us r (ListEnabled r) = ListEnabled (fold (agent_step env) us r)"
  using assms
proof (induction us arbitrary: r)
  case (Cons u us)
  obtain r' out where app: "ApplyOnlineConfig (agent_ops env) (fst u) (snd u) r = (r', out)" by fastforce
  then have r': "agent_step env u r = r'" by (simp add: agent_step_def)
  have "running env c r'" using running_step [OF Cons.prems(1), of u] Cons.prems(2) r' by simp
  moreover have "(case out of Some caps \<Rightarrow> caps | None \<Rightarrow> ListEnabled r) = ListEnabled r'"
    using agent.ApplyOnlineConfig_quiet [OF _ _ app] Cons.prems by (auto simp: running_def split: option.splits)
  ultimately show ?case using Cons app r' by simp
qed simp


text \<open>
  Claim C7. An update has one outcome: the order in which Go visits the maps of the registry changes neither what
  the callback is given nor the tasks and the enabled capabilities afterwards.
\<close>

theorem agent_update_deterministic:
  assumes "list_all (\<lambda>u. permuting (fst u)) us" "permuting visit" "permuting visit'"
  shows "snd (ApplyOnlineConfig (agent_ops env) visit ms (agent_run env c us)) =
      snd (ApplyOnlineConfig (agent_ops env) visit' ms (agent_run env c us)) \<and>
    Registry_GetTask (agent_step env (visit, ms) (agent_run env c us)) =
      Registry_GetTask (agent_step env (visit', ms) (agent_run env c us)) \<and>
    ListEnabled (agent_step env (visit, ms) (agent_run env c us)) =
      ListEnabled (agent_step env (visit', ms) (agent_run env c us))"
proof -
  let ?r = "agent_run env c us"
  have inv: "reg_inv (agent_ops env) (agent_wf env c) ?r"
    using running_run [OF assms(1), of env c] by (simp add: running_def)
  have "CHR ''.'' \<notin> set k" if "k \<in> set (map fst (r_providers ?r))" for k
  proof -
    from that obtain p where p: "map_of (r_providers ?r) k = Some p"
      by (metis domD dom_map_of_conv_image_fst list.set_map)
    have "op_Name (agent_ops env) p = k" "agent_wf env c p" using reg_inv_key [OF inv p] reg_inv_wf [OF inv p] .
    then show ?thesis using agent_wf_named [of env c p] by (auto simp: named_base_def agent_ops_def base_ops_simps)
  qed
  then have dots: "agent.dot_free ?r" by (simp add: agent.dot_free_def)
  obtain a oa b ob where ab: "ApplyOnlineConfig (agent_ops env) visit ms ?r = (a, oa)"
      "ApplyOnlineConfig (agent_ops env) visit' ms ?r = (b, ob)" by fastforce
  from agent.ApplyOnlineConfig_order [OF inv dots assms(2,3) ab] ab show ?thesis
    by (simp add: agent_step_def Registry_GetTask_def fun_eq_iff)
qed

section \<open>Two gaps\<close>

text \<open>The filter of enabled capabilities does not reach the executor: a disabled capability still runs.\<close>

lemma disabled_still_executed:
  "registryExecutor_Execute esc run (r\<lparr>r_enabledPatterns := ps\<rparr>) = registryExecutor_Execute esc run r"
  by (simp add: registryExecutor_Execute_def Registry_GetTask_def fun_eq_iff)

text \<open>A configuration with mutual TLS passes the validation, and the agent does not start with it.\<close>

lemma mtls_never_starts:
  "Authentication_Validate a = None \<Longrightarrow> auth_MTLS a \<noteq> None \<Longrightarrow> buildAuthenticator a = Inl (UnsupportedAuthMethod ''mtls'')"
  using AuthMethod_total [of a]
  by (auto simp: buildAuthenticator_def AuthMethod_def split: option.splits)

section \<open>Instances\<close>

text \<open>An agent whose outside answers nothing; a task is its name here.\<close>

definition quiet_visit :: "nat \<Rightarrow> gostring list \<Rightarrow> gostring list" where
  "quiet_visit i ks = (if even i then ks else rev ks)"

lemma permuting_quiet: "permuting quiet_visit" "permuting (\<lambda>_ ks. ks)"
  by (simp_all add: permuting_def quiet_visit_def)



theorem agent_update_deterministic_witness:
  "\<forall>(env :: (unit, unit, unit, unit, unit, unit, unit, unit, unit, unit, unit, gostring) agent_env) c ms.
    snd (ApplyOnlineConfig (agent_ops env) quiet_visit ms (agent_run env c [])) =
      snd (ApplyOnlineConfig (agent_ops env) (\<lambda>_ ks. ks) ms (agent_run env c [])) \<and>
    Registry_GetTask (agent_step env (quiet_visit, ms) (agent_run env c [])) =
      Registry_GetTask (agent_step env ((\<lambda>_ ks. ks), ms) (agent_run env c [])) \<and>
    ListEnabled (agent_step env (quiet_visit, ms) (agent_run env c [])) =
      ListEnabled (agent_step env ((\<lambda>_ ks. ks), ms) (agent_run env c []))"
  by (intro allI agent_update_deterministic) (simp_all add: permuting_quiet)

end
