(* ===== verification/Spec2Isabelle.thy ===== *)
theory Spec2Isabelle
  imports Registry_Register Controlplane_Session Prometheus_Bounds Azure_Safety Azure_Time Kafka_Disk Kafka_Coordinators
    Kubernetes_Provider Kubernetes_Logs Graylog_Tasks Postgres_Safety Network_Traceroute Linux_Process
    Linux_Accounts Linux_Sockets Linux_Routes Linux_Packages Linux_Safety Kafka_Reports Kubernetes_Reports
    Linux_Services_Safety Agent
begin

text \<open>
  Verification library of the Marvin agent.

  \<^bold>\<open>The program.\<close> Marvin (\<open>cmd/marvin\<close>) is an agent on a host. It reads a configuration, builds nine
  providers, registers their capabilities in a registry and opens a stream to a control plane. The control
  plane sends it requests to execute a capability and updates of the configuration of the providers; what
  changes in the set of enabled capabilities is announced again. A capability is executed by a task: it reads
  its parameters, asks a client of its provider (an HTTP API, a database, the kernel, a cluster) within the
  limits of the provider's policy, and returns a result or an error.

  \<^bold>\<open>The theories\<close>, in the order of their imports:
    \<^item> \<open>Prelude\<close>, \<open>Go_Strings\<close>, \<open>Go_Words\<close>, \<open>Go_Values\<close>, \<open>Go_Float\<close>, \<open>Go_Format\<close>, \<open>Go_Scan\<close>, \<open>Go_Path\<close>, \<open>Go_IP\<close>,
      \<open>Go_Time\<close>, \<open>Path_Match\<close>: generic lemmas and what the code uses of Go: strings,
      \<open>any\<close> values, floats with their rounding, formats, line scanning, paths, addresses, durations, dates and
      \<open>path.Match\<close>.
    \<^item> \<open>Capability\<close> (\<open>pkg/capability\<close>), \<open>Provider\<close> (\<open>internal/provider\<close>, \<open>internal/task\<close>; the locale
      \<open>provider_interface\<close> states what the registry relies on).
    \<^item> \<open>Registry\<close>, \<open>Registry_Online\<close>, \<open>Registry_Register\<close> (\<open>internal/registry\<close>): the operations, online
      configuration, registration; the lemmas are proved in the context of the locale.
    \<^item> \<open>Autoconf_Extract\<close>, \<open>Autoconf_Updater\<close> (\<open>internal/provider/autoconfig\<close>): typed
      extraction; the state, \<open>Apply\<close>, its interleavings, and how they come to an end.
    \<^item> \<open>Log_Level\<close>, \<open>Metadata\<close>, \<open>Config_Types\<close>, \<open>Config\<close> (\<open>pkg/log\<close>, \<open>internal/metadata\<close>,
      \<open>internal/config\<close>).
    \<^item> \<open>Client\<close>, \<open>Controlplane_Session\<close> (\<open>internal/controlplane\<close>): the sequential parts, and the
      goroutines as a labelled step relation with an invariant.
    \<^item> \<open>Common_Params\<close> (\<open>internal/provider/common\<close>): parameters of tasks, the vocabulary of task bodies
      (\<open>outcome\<close>, with failure and panic). \<open>Managed_Provider\<close>: the methods that the configurable providers
      share; the locale \<open>managed_provider\<close>.
    \<^item> The providers under \<open>internal/provider\<close>, each with its configuration, its client and its tasks:
      \<open>Prometheus_Provider\<close>, \<open>Prometheus_API\<close>, \<open>Prometheus_Tasks\<close> (\<open>prometheus\<close>);
      \<open>Azure_API\<close>, \<open>Azure_Client\<close>, \<open>Azure_Provider\<close>, \<open>Azure_Tasks\<close> (\<open>azure\<close>);
      \<open>Kafka_Provider\<close>, \<open>Kafka_Coordinators\<close>, \<open>Kafka_API\<close>, \<open>Kafka_Cluster\<close>, \<open>Kafka_Topics\<close>, \<open>Kafka_Groups\<close>,
      \<open>Kafka_Logdirs\<close> (\<open>kafka\<close>); \<open>Kubernetes_Provider\<close>, \<open>Kubernetes_Logs\<close>, \<open>Kubernetes_API\<close> (objects and the
      two clients), \<open>Kubernetes_Workloads\<close>, \<open>Kubernetes_Cluster\<close>, \<open>Kubernetes_Network\<close> (\<open>kubernetes\<close>);
      \<open>Graylog_Provider\<close>, \<open>Graylog_Tasks\<close> (\<open>log\<close>); \<open>Postgres_Provider\<close>, \<open>Postgres_Tasks\<close> (\<open>postgres\<close>);
      \<open>Network_Provider\<close>, \<open>Network_Traceroute\<close> (\<open>network\<close>); \<open>Linux_Helpers\<close>, \<open>Linux_Provider\<close>,
      \<open>Linux_Process\<close>, \<open>Linux_System\<close>, \<open>Linux_Kernel\<close>, \<open>Linux_Accounts\<close>, \<open>Linux_Files\<close>, \<open>Linux_Sockets\<close>,
      \<open>Linux_Routes\<close>, \<open>Linux_Devices\<close>, \<open>Linux_Packages\<close>, \<open>Linux_Systemd\<close> (units and their two parsers),
      \<open>Linux_Journal\<close> (journal files, boots, logins, core dumps), \<open>Linux_Firewall\<close> (nftables, iptables,
      firewalld, the resolver) (\<open>linux\<close>).
    \<^item> \<open>Agent\<close> (\<open>cmd/marvin\<close>): all providers as one type, the start, the handler of updates, the executor.

  \<^bold>\<open>What is proved\<close>, by part:
    \<^item> The agent (\<open>Agent\<close>): it always starts; after any updates an execution finds exactly the tasks of the
      providers that are configured; what the control plane was last told is what the registry offers; the
      order in which maps are visited does not matter.
    \<^item> The session (\<open>Controlplane_Session\<close>, \<open>Client\<close>): a bound on concurrent executions, one registration
      first on every stream, rejections are final, versions of configurations increase, results carry their
      request, the back-off stays within its bounds.
    \<^item> Configuration (\<open>Autoconf_Updater\<close>, \<open>Config\<close>): no client is lost or closed in use under any interleaving,
      and replaced clients do get closed.
    \<^item> Safety of tasks (\<open>Prometheus_Safety\<close>, \<open>Postgres_Safety\<close>, \<open>Kafka_Safety\<close>, \<open>Kubernetes_Safety\<close>): they
      answer and do not panic in the states that updates lead to, or only in two cases that are named. Confinement (\<open>Prometheus_Bounds\<close>, \<open>Graylog_Tasks\<close>,
      \<open>Postgres_Safety\<close>, \<open>Azure_Safety\<close>, \<open>Kubernetes_Safety\<close>, \<open>Linux_Safety\<close>, \<open>Linux_Services_Safety\<close>): only
      requests within the policy go out, listings are limited, parameters do not change queries, files outside
      the admitted paths are not read; where a task does read any file, that is proved. Secrets (\<open>Prometheus_Bounds\<close>,
      \<open>Kafka_Safety\<close>, \<open>Linux_Safety\<close>): what is redacted does not show, as equality of the results.
    \<^item> Results (\<open>Kafka_Reports\<close>, \<open>Kubernetes_Reports\<close>, \<open>Linux_Routes\<close>, \<open>Network_Traceroute\<close>, \<open>Azure_Time\<close>,
      \<open>Linux_Safety\<close>, \<open>Linux_Services_Safety\<close>): reports equal reference definitions, parsers invert
      the formats of the kernel, of login records and of Azure, the two parsers of units agree.
    \<^item> Resources (\<open>Kafka_Disk\<close>, \<open>Kafka_Coordinators\<close>): files with secrets are removed, retries end.

  \<^bold>\<open>Conventions.\<close> A record is a Go struct, with a prefix on its fields. A map is an association list
  with distinct keys; iterating over it takes the order as an argument or is that of the list. An error is a
  value of a datatype or its message; a panic is a value of \<open>outcome\<close>. An \<open>int\<close> has 64 bits: where the code
  multiplies, adds up or converts, the wrap-around is written out (\<open>wrap64\<close>, \<open>wrap32\<close>); a conversion of a
  float out of range is the argument \<open>oor\<close>; a product and a sum are rounded one after the other. A result is
  given by its JSON keys; a nil slice is \<open>VNil\<close> in the theories on units, journals and firewalls and for Kubernetes, and
  is not told from an empty one elsewhere. Third-party code (gRPC, YAML, the clients of Prometheus, Azure, Kafka, Postgres and
  Kubernetes), the file system, sockets and clocks are arguments, as records of functions or plain functions;
  what the proofs rely on of them is named in the hypotheses.

  \<^bold>\<open>Bounds and fuel.\<close> The recursions are structural or have a termination proof, with these exceptions:
  the process tree recurses over parents that may form a cycle, so \<open>buildNode\<close> takes a bound and \<open>None\<close> is a
  bound too small; any bound above the height of the tree gives the result, which is proved. The pages of an
  Azure listing may not end, so \<open>list_all_pages\<close> is a partial function into an option. The rounds of the
  back-off loop are the attempt number itself, those of the search for coordinators at most seven. The
  session is a step relation without a bound.

  \<^bold>\<open>Not modelled.\<close> \<open>cmd/provider-schema\<close> (it prints schemas), the stub of traceroute on other systems, the
  option that wraps credentials for gRPC, generated protobuf code, containers and fakes for tests; logging,
  signals and the texts of the JSON schemas.
\<close>

end
